(* ===== verification/Pd_Prelude.thy ===== *)
theory Pd_Prelude
  imports Main "HOL-Library.Word" "HOL-Library.Monad_Syntax"
begin

text \<open>
  Shared vocabulary of the development.

  \<^item> The machine integers of \<^verbatim>\<open>types.h\<close> as words of their width.
  \<^item> The C computation type: a value of type \<^typ>\<open>'a option\<close> is the outcome of a piece of C
    code, where \<^const>\<open>None\<close> means that the process aborts (a failed \<^verbatim>\<open>assert\<close>, a \<^verbatim>\<open>die\<close>) or
    touches memory outside the buffer it was given. A theorem whose conclusion is
    \<^prop>\<open>f x = Some y\<close> therefore also states that the code neither aborts nor leaves its buffer.
  \<^item> Byte buffers as lists of bytes, pointers into them as offsets, and bounds-checked
    reads and writes of bytes and of 16- and 32-bit fields in network byte order.

  The host is little-endian (as on the x86 machines the tool is built for), which matters only
  where the code loads words in host order (the checksum loops, MurmurHash3).
\<close>

unbundle bit_operations_syntax

named_theorems c_simps \<open>unfolding of the checked memory operations\<close>
named_theorems layout_simps \<open>sizes of the wire structures\<close>

section \<open>Machine integers\<close>

type_synonym u8 = "8 word"
type_synonym u16 = "16 word"
type_synonym u32 = "32 word"
type_synonym u64 = "64 word"
type_synonym bytes = "u8 list"

section \<open>Byte order\<close>

text \<open>\<^verbatim>\<open>unaligned.h\<close>: \<^verbatim>\<open>__get_unaligned_be32\<close> and \<^verbatim>\<open>__put_unaligned_be32\<close>, and the 16-bit
  counterparts that \<^verbatim>\<open>ntohs\<close>/\<^verbatim>\<open>htons\<close> on a struct member amount to.\<close>

definition be16_of :: "u8 \<Rightarrow> u8 \<Rightarrow> u16" where
  "be16_of a b = push_bit 8 (ucast a) OR ucast b"

definition be16_to :: "u16 \<Rightarrow> bytes" where
  "be16_to v = [ucast (drop_bit 8 v), ucast v]"

definition get_unaligned_be32 :: "u8 \<Rightarrow> u8 \<Rightarrow> u8 \<Rightarrow> u8 \<Rightarrow> u32" where
  "get_unaligned_be32 a b c d =
     push_bit 24 (ucast a) OR push_bit 16 (ucast b) OR push_bit 8 (ucast c) OR ucast d"

definition put_unaligned_be32 :: "u32 \<Rightarrow> bytes" where
  "put_unaligned_be32 v =
     [ucast (drop_bit 24 v), ucast (drop_bit 16 v), ucast (drop_bit 8 v), ucast v]"

text \<open>Loads in host order, on a little-endian host.\<close>

definition le16_of :: "u8 \<Rightarrow> u8 \<Rightarrow> u16" where
  "le16_of a b = be16_of b a"

definition le32_of :: "u8 \<Rightarrow> u8 \<Rightarrow> u8 \<Rightarrow> u8 \<Rightarrow> u32" where
  "le32_of a b c d = get_unaligned_be32 d c b a"

definition le16_to :: "u16 \<Rightarrow> bytes" where
  "le16_to v = [ucast v, ucast (drop_bit 8 v)]"

definition ntohs :: "u16 \<Rightarrow> u16" where
  "ntohs v = be16_of (ucast v) (ucast (drop_bit 8 v))"

definition ntohl :: "u32 \<Rightarrow> u32" where
  "ntohl v = get_unaligned_be32 (ucast v) (ucast (drop_bit 8 v))
     (ucast (drop_bit 16 v)) (ucast (drop_bit 24 v))"

section \<open>Checked memory\<close>

definition c_assert :: "bool \<Rightarrow> unit option" where
  "c_assert P = (if P then Some () else None)"

definition rd8 :: "bytes \<Rightarrow> nat \<Rightarrow> u8 option" where
  "rd8 b i = (if i < length b then Some (b ! i) else None)"

definition rd16 :: "bytes \<Rightarrow> nat \<Rightarrow> u16 option" where
  "rd16 b i = (if i + 1 < length b then Some (be16_of (b ! i) (b ! (i + 1))) else None)"

definition rd32 :: "bytes \<Rightarrow> nat \<Rightarrow> u32 option" where
  "rd32 b i = (if i + 3 < length b
     then Some (get_unaligned_be32 (b ! i) (b ! (i + 1)) (b ! (i + 2)) (b ! (i + 3))) else None)"

definition rd_bytes :: "bytes \<Rightarrow> nat \<Rightarrow> nat \<Rightarrow> bytes option" where
  "rd_bytes b i n = (if i + n \<le> length b then Some (take n (drop i b)) else None)"

definition wr_bytes :: "bytes \<Rightarrow> nat \<Rightarrow> bytes \<Rightarrow> bytes option" where
  "wr_bytes b i xs =
     (if i + length xs \<le> length b then Some (take i b @ xs @ drop (i + length xs) b) else None)"

definition wr8 :: "bytes \<Rightarrow> nat \<Rightarrow> u8 \<Rightarrow> bytes option" where
  "wr8 b i v = wr_bytes b i [v]"

definition wr16 :: "bytes \<Rightarrow> nat \<Rightarrow> u16 \<Rightarrow> bytes option" where
  "wr16 b i v = wr_bytes b i (be16_to v)"

definition wr32 :: "bytes \<Rightarrow> nat \<Rightarrow> u32 \<Rightarrow> bytes option" where
  "wr32 b i v = wr_bytes b i (put_unaligned_be32 v)"

text \<open>A status-returning function: \<^verbatim>\<open>STATUS_OK\<close> with a value or \<^verbatim>\<open>STATUS_ERR\<close> with an error.\<close>

type_synonym ('e, 'a) status = "'e + 'a"

section \<open>Formatted output\<close>

text \<open>The conversions \<^verbatim>\<open>%u\<close> and \<^verbatim>\<open>%02x\<close> of \<^verbatim>\<open>fprintf\<close>.\<close>

fun dec_string :: "nat \<Rightarrow> string" where
  "dec_string n = (if n < 10 then [char_of (48 + n)]
     else dec_string (n div 10) @ [char_of (48 + n mod 10)])"

declare dec_string.simps [simp del]

definition hex_digit :: "nat \<Rightarrow> char" where
  "hex_digit n = char_of (if n < 10 then 48 + n else 87 + n)"

definition hex2_string :: "u8 \<Rightarrow> string" where
  "hex2_string x = [hex_digit (unat x div 16), hex_digit (unat x mod 16)]"

section \<open>Lemmas on byte order\<close>

lemma length_be16_to [simp]: "length (be16_to v) = 2"
  by (simp add: be16_to_def)

lemma length_le16_to [simp]: "length (le16_to v) = 2"
  by (simp add: le16_to_def)

lemma length_put_unaligned_be32 [simp]: "length (put_unaligned_be32 v) = 4"
  by (simp add: put_unaligned_be32_def)

lemma bit_u8_bound: "bit (a :: u8) n \<Longrightarrow> n < 8"
  by (drule bit_imp_le_length) simp

lemma unat_or_disjoint:
  fixes x y :: "'a::len word"
  assumes "x AND y = 0"
  shows "unat (x OR y) = unat x + unat y"
  using assms by (metis disjunctive_add_eq_or unsigned_0 unsigned_and_eq unsigned_or_eq)

lemma unat_push_ucast:
  assumes "n + 8 \<le> LENGTH('a::len)"
  shows "unat (push_bit n (ucast (a :: u8)) :: 'a word) = 2 ^ n * unat a"
proof -
  have "unat a < 2 ^ 8"
    using unsigned_less [of a] by simp
  then have "unat a * 2 ^ n < 2 ^ 8 * 2 ^ n"
    by simp
  also have "\<dots> = 2 ^ (n + 8)"
    by (simp add: power_add)
  also have "\<dots> \<le> 2 ^ LENGTH('a)"
    using assms by (rule power_increasing) simp
  finally have lt: "unat a * 2 ^ n < 2 ^ LENGTH('a)" .
  have "(2 :: nat) ^ 8 \<le> 2 ^ LENGTH('a)"
    using assms by (intro power_increasing) simp_all
  with \<open>unat a < 2 ^ 8\<close> have "unat a < 2 ^ LENGTH('a)"
    by (rule less_le_trans)
  then have "unat (push_bit n (ucast a) :: 'a word) = take_bit LENGTH('a) (push_bit n (unat a))"
    by (simp add: unsigned_push_bit_eq unsigned_ucast_eq take_bit_nat_eq_self)
  also have "\<dots> = 2 ^ n * unat a"
    using lt by (simp add: push_bit_nat_def take_bit_nat_eq_self mult.commute)
  finally show ?thesis .
qed

lemma unat_be16_of: "unat (be16_of a b) = 256 * unat a + unat b"
proof -
  have "push_bit 8 (ucast a) AND (ucast b :: u16) = 0"
    by (rule bit_word_eqI) (auto simp: bit_simps dest: bit_u8_bound)
  then show ?thesis
    using unat_push_ucast [of 8 a, where 'a = 16] unat_push_ucast [of 0 b, where 'a = 16]
    by (simp add: be16_of_def unat_or_disjoint)
qed

lemma unat_get_unaligned_be32:
  "unat (get_unaligned_be32 a b c d) = 2 ^ 24 * unat a + 2 ^ 16 * unat b + 2 ^ 8 * unat c + unat d"
proof -
  let ?A = "push_bit 24 (ucast a) :: u32" and ?B = "push_bit 16 (ucast b) :: u32"
  let ?C = "push_bit 8 (ucast c) :: u32" and ?D = "ucast d :: u32"
  have "?C AND ?D = 0" "?B AND (?C OR ?D) = 0" "?A AND (?B OR ?C OR ?D) = 0"
    by (rule bit_word_eqI, auto simp: bit_simps dest: bit_u8_bound)+
  then show ?thesis
    using unat_push_ucast [of 24 a, where 'a = 32] unat_push_ucast [of 16 b, where 'a = 32]
      unat_push_ucast [of 8 c, where 'a = 32] unat_push_ucast [of 0 d, where 'a = 32]
    by (simp add: get_unaligned_be32_def unat_or_disjoint)
qed

lemma unat_u8_less [simp]: "unat (a :: u8) < 256"
  using unsigned_less [of a] by simp

lemma be16_of_to [simp]: "be16_of (be16_to v ! 0) (be16_to v ! Suc 0) = v"
  by (rule bit_word_eqI) (auto simp: be16_of_def be16_to_def bit_simps)

lemma byte_digits:
  fixes x x' y y' :: nat
  assumes "y < 256" and "y' < 256"
  shows "256 * x + y = 256 * x' + y' \<longleftrightarrow> x = x' \<and> y = y'"
proof
  assume eq: "256 * x + y = 256 * x' + y'"
  then have "(256 * x + y) div 256 = (256 * x' + y') div 256"
    by (rule arg_cong)
  with assms have "x = x'"
    by simp
  with eq show "x = x' \<and> y = y'"
    by simp
qed simp

lemma be16_of_inj: "be16_of a b = be16_of c d \<longleftrightarrow> a = c \<and> b = d"
  by (simp add: word_unat_eq_iff unat_be16_of byte_digits)

lemma be32_of_inj:
  "get_unaligned_be32 a b c d = get_unaligned_be32 a' b' c' d' \<longleftrightarrow> a = a' \<and> b = b' \<and> c = c' \<and> d = d'"
proof -
  have nest: "unat (get_unaligned_be32 a b c d) =
      256 * (256 * (256 * unat a + unat b) + unat c) + unat d" for a b c d
    by (simp add: unat_get_unaligned_be32)
  show ?thesis
    by (simp only: word_unat_eq_iff nest byte_digits unat_u8_less conj_assoc)
qed

lemma be32_of_to [simp]:
  "get_unaligned_be32 (put_unaligned_be32 v ! 0) (put_unaligned_be32 v ! Suc 0)
     (put_unaligned_be32 v ! 2) (put_unaligned_be32 v ! 3) = v"
proof (rule bit_word_eqI)
  fix n assume n: "n < LENGTH(32)"
  consider "n < 8" | "8 \<le> n" "n < 16" | "16 \<le> n" "n < 24" | "24 \<le> n" by linarith
  then show "bit (get_unaligned_be32 (put_unaligned_be32 v ! 0) (put_unaligned_be32 v ! Suc 0)
     (put_unaligned_be32 v ! 2) (put_unaligned_be32 v ! 3)) n = bit v n"
    using n by cases (auto simp: get_unaligned_be32_def put_unaligned_be32_def bit_simps)
qed

lemma be16_to_of [simp]: "be16_to (be16_of a b) = [a, b]"
  using be16_of_to [of "be16_of a b"] by (auto simp: be16_to_def be16_of_inj)

lemma put_get_be32 [simp]: "put_unaligned_be32 (get_unaligned_be32 a b c d) = [a, b, c, d]"
  using be32_of_to [of "get_unaligned_be32 a b c d"]
  by (auto simp: put_unaligned_be32_def be32_of_inj numeral_2_eq_2 numeral_3_eq_3)

lemma ntohs_be16_of [simp]: "ntohs (be16_of a b) = be16_of b a"
  using be16_to_of [of a b] by (simp add: ntohs_def be16_to_def)

lemma ntohs_ntohs [simp]: "ntohs (ntohs v) = v"
proof -
  have "v = be16_of (ucast (drop_bit 8 v)) (ucast v)"
    using be16_of_to [of v] by (simp add: be16_to_def)
  then show ?thesis
    by (metis ntohs_be16_of)
qed

lemma ntohl_get_be32 [simp]: "ntohl (get_unaligned_be32 a b c d) = get_unaligned_be32 d c b a"
  using put_get_be32 [of a b c d] by (simp add: ntohl_def put_unaligned_be32_def)

lemma ntohl_ntohl [simp]: "ntohl (ntohl v) = v"
proof -
  have "v = get_unaligned_be32 (ucast (drop_bit 24 v)) (ucast (drop_bit 16 v))
      (ucast (drop_bit 8 v)) (ucast v)"
    using be32_of_to [of v] by (simp add: put_unaligned_be32_def)
  then show ?thesis
    by (metis ntohl_get_be32)
qed

lemma le16_to_of [simp]: "le16_to (le16_of a b) = [a, b]"
  using be16_to_of [of b a] by (simp add: le16_to_def le16_of_def be16_to_def)

lemma le16_to_eq: "le16_to v = be16_to (ntohs v)"
  by (simp add: le16_to_def ntohs_def)

lemma unat_ntohs: "unat (ntohs v) = 256 * (unat v mod 256) + unat v div 256"
proof -
  have "v = be16_of (ucast (drop_bit 8 v)) (ucast v)"
    using be16_of_to [of v] by (simp add: be16_to_def)
  then obtain a b where v: "v = be16_of a b" by blast
  show ?thesis
    by (simp add: v unat_be16_of)
qed

section \<open>Lemmas on checked memory\<close>

lemma c_assert_bind [simp]:
  "Option.bind (c_assert P) f = (if P then f () else None)"
  by (simp add: c_assert_def)

lemma c_assert_eq_Some [simp]: "c_assert P = Some u \<longleftrightarrow> P"
  by (simp add: c_assert_def)

lemma wr_bytes_length: "wr_bytes b i xs = Some b' \<Longrightarrow> length b' = length b"
  by (auto simp: wr_bytes_def split: if_splits)

lemma wr_bytes_nth:
  "wr_bytes b i xs = Some b' \<Longrightarrow> j < length b \<Longrightarrow>
     b' ! j = (if i \<le> j \<and> j < i + length xs then xs ! (j - i) else b ! j)"
  by (auto simp: wr_bytes_def nth_append split: if_splits)

lemma wr_bytes_eq_Some [c_simps]:
  "wr_bytes b i xs = Some b' \<longleftrightarrow>
     i + length xs \<le> length b \<and> b' = take i b @ xs @ drop (i + length xs) b"
  by (auto simp: wr_bytes_def)

lemmas wr_lengths = wr_bytes_length [folded wr8_def] wr_bytes_length [folded wr16_def]
  wr_bytes_length [folded wr32_def]

lemma rd8_eq_Some: "rd8 b i = Some v \<longleftrightarrow> i < length b \<and> v = b ! i"
  by (auto simp: rd8_def)

lemma rd16_eq_Some: "rd16 b i = Some v \<longleftrightarrow> i + 1 < length b \<and> v = be16_of (b ! i) (b ! (i + 1))"
  by (auto simp: rd16_def)

lemma rd32_eq_Some: "rd32 b i = Some v \<longleftrightarrow> i + 3 < length b \<and>
    v = get_unaligned_be32 (b ! i) (b ! (i + 1)) (b ! (i + 2)) (b ! (i + 3))"
  by (auto simp: rd32_def)

lemmas rd_eq_Some [c_simps] = rd8_eq_Some rd16_eq_Some rd32_eq_Some

text \<open>A field that was just written reads back; a field outside the write is unchanged.\<close>

lemma rd16_wr16: "wr16 b i v = Some b' \<Longrightarrow> rd16 b' i = Some v"
  using be16_of_to [of v] wr_bytes_nth [of b i "be16_to v" b' i]
    wr_bytes_nth [of b i "be16_to v" b' "i + 1"] wr_bytes_length [of b i "be16_to v" b']
  by (auto simp: wr16_def rd16_def wr_bytes_def split: if_splits)

lemma rd32_wr32: "wr32 b i v = Some b' \<Longrightarrow> rd32 b' i = Some v"
  using be32_of_to [of v] wr_bytes_nth [of b i "put_unaligned_be32 v" b' i]
    wr_bytes_nth [of b i "put_unaligned_be32 v" b' "i + 1"]
    wr_bytes_nth [of b i "put_unaligned_be32 v" b' "i + 2"]
    wr_bytes_nth [of b i "put_unaligned_be32 v" b' "i + 3"]
    wr_bytes_length [of b i "put_unaligned_be32 v" b']
  by (auto simp: wr32_def rd32_def wr_bytes_def split: if_splits)

lemma rd8_wr_bytes_other:
  "wr_bytes b i xs = Some b' \<Longrightarrow> j < i \<or> i + length xs \<le> j \<Longrightarrow> rd8 b' j = rd8 b j"
  by (auto simp: rd8_def wr_bytes_length wr_bytes_nth)

lemma rd16_wr_bytes_other:
  "wr_bytes b i xs = Some b' \<Longrightarrow> j + 2 \<le> i \<or> i + length xs \<le> j \<Longrightarrow> rd16 b' j = rd16 b j"
  by (auto simp: rd16_def wr_bytes_length wr_bytes_nth)

lemma rd32_wr_bytes_other:
  "wr_bytes b i xs = Some b' \<Longrightarrow> j + 4 \<le> i \<or> i + length xs \<le> j \<Longrightarrow> rd32 b' j = rd32 b j"
  by (auto simp: rd32_def wr_bytes_length wr_bytes_nth)

lemmas rd_wr_other = rd8_wr_bytes_other rd16_wr_bytes_other rd32_wr_bytes_other

text \<open>Overwriting a field and writing its old value back restores the buffer.\<close>

lemma wr_bytes_restore:
  assumes "wr_bytes b i xs = Some b1" and "length ys = length xs"
    and "take (length ys) (drop i b) = ys"
  shows "wr_bytes b1 i ys = Some b"
proof -
  have i: "i + length ys \<le> length b" and b1: "b1 = take i b @ xs @ drop (i + length xs) b"
    using assms by (auto simp: wr_bytes_eq_Some)
  have "take i b1 = take i b" "drop (i + length ys) b1 = drop (i + length xs) b"
    "length b1 = length b"
    using i assms(2) by (simp_all add: b1)
  moreover have "take i b @ ys @ drop (i + length xs) b = b"
    by (metis append_take_drop_id assms(2,3) drop_drop add.commute)
  ultimately show ?thesis
    using i by (simp add: wr_bytes_eq_Some)
qed

lemma wr32_restore:
  assumes "rd32 b i = Some v"
  obtains b1 where "wr32 b i w = Some b1" and "wr32 b1 i v = Some b" and "length b1 = length b"
proof -
  have i: "i + 3 < length b" and
    v: "v = get_unaligned_be32 (b ! i) (b ! (i + 1)) (b ! (i + 2)) (b ! (i + 3))"
    using assms by (simp_all add: rd32_eq_Some)
  obtain b1 where b1: "wr_bytes b i (put_unaligned_be32 w) = Some b1"
    using i by (simp add: wr_bytes_def)
  have "take (length [b ! i, b ! (i + 1), b ! (i + 2), b ! (i + 3)]) (drop i b) = [b ! i, b ! (i + 1), b ! (i + 2), b ! (i + 3)]"
    using i by (simp add: take_Suc_conv_app_nth eval_nat_numeral)
  with v have "wr_bytes b1 i (put_unaligned_be32 v) = Some b"
    by (intro wr_bytes_restore [OF b1]) (simp_all only: put_get_be32 length_put_unaligned_be32, simp)
  with b1 wr_bytes_length [OF b1] show ?thesis
    by (intro that [of b1]) (simp_all only: wr32_def)
qed

lemma wr16_restore:
  assumes "rd16 b i = Some v"
  obtains b1 where "wr16 b i w = Some b1" and "wr16 b1 i v = Some b" and "length b1 = length b"
proof -
  have i: "i + 1 < length b" and v: "v = be16_of (b ! i) (b ! (i + 1))"
    using assms by (simp_all add: rd16_eq_Some)
  obtain b1 where b1: "wr_bytes b i (be16_to w) = Some b1"
    using i by (simp add: wr_bytes_def)
  have "take (length [b ! i, b ! (i + 1)]) (drop i b) = [b ! i, b ! (i + 1)]"
    using i by (simp add: take_Suc_conv_app_nth eval_nat_numeral)
  with v have "wr_bytes b1 i (be16_to v) = Some b"
    by (intro wr_bytes_restore [OF b1]) (simp_all only: be16_to_of length_be16_to, simp)
  with b1 wr_bytes_length [OF b1] show ?thesis
    by (intro that [of b1]) (simp_all only: wr16_def)
qed

lemma rd_Some:
  "i < length b \<Longrightarrow> \<exists>v. rd8 b i = Some v" "i + 1 < length b \<Longrightarrow> \<exists>v. rd16 b i = Some v"
  "i + 3 < length b \<Longrightarrow> \<exists>v. rd32 b i = Some v"
  "i + n \<le> length b \<Longrightarrow> rd_bytes b i n = Some (take n (drop i b))"
  by (simp_all add: rd8_def rd16_def rd32_def rd_bytes_def)

text \<open>Accesses to a structure in the middle of a buffer.\<close>

lemma wr_bytes_mid:
  assumes "i + length xs \<le> length mid"
  shows "wr_bytes (pre @ mid @ post) (length pre + i) xs =
     Some (pre @ (take i mid @ xs @ drop (i + length xs) mid) @ post)"
  using assms by (simp add: wr_bytes_def)

lemma rd8_mid: "i < length mid \<Longrightarrow> rd8 (pre @ mid @ post) (length pre + i) = Some (mid ! i)"
  by (simp add: rd8_def nth_append)

lemma rd16_mid:
  "i + 1 < length mid \<Longrightarrow>
     rd16 (pre @ mid @ post) (length pre + i) = Some (be16_of (mid ! i) (mid ! (i + 1)))"
  by (simp add: rd16_def nth_append)

lemma rd32_mid:
  "i + 3 < length mid \<Longrightarrow>
     rd32 (pre @ mid @ post) (length pre + i) =
       Some (get_unaligned_be32 (mid ! i) (mid ! (i + 1)) (mid ! (i + 2)) (mid ! (i + 3)))"
  by (simp add: rd32_def nth_append)

lemma rd_bytes_mid:
  "i + n \<le> length mid \<Longrightarrow> rd_bytes (pre @ mid @ post) (length pre + i) n = Some (take n (drop i mid))"
  by (simp add: rd_bytes_def)

lemmas wr_bytes_mid0 = wr_bytes_mid [of 0, simplified]
lemmas rd_mid0 = rd8_mid [of 0, simplified] rd16_mid [of 0, simplified] rd32_mid [of 0, simplified]
lemmas rd_mid = rd8_mid rd16_mid rd32_mid rd_bytes_mid rd_mid0

lemma length_8_cases:
  assumes "length xs = 8"
  obtains x0 x1 x2 x3 x4 x5 x6 x7 where "xs = [x0, x1, x2, x3, x4, x5, x6, x7]"
  using assms by (auto simp: numeral_eq_Suc length_Suc_conv)

lemma length_20_cases:
  assumes "length xs = 20"
  obtains x0 x1 x2 x3 x4 x5 x6 x7 x8 x9 x10 x11 x12 x13 x14 x15 x16 x17 x18 x19
  where "xs = [x0, x1, x2, x3, x4, x5, x6, x7, x8, x9, x10, x11, x12, x13, x14, x15, x16, x17, x18, x19]"
  using assms by (auto simp: numeral_eq_Suc length_Suc_conv)

end
