(* ===== verification/Packet.thy ===== *)
theory Packet
  imports Pd_Prelude
begin

text \<open>
  The packet representation of \<^verbatim>\<open>packet.h\<close>, \<^verbatim>\<open>packet.c\<close> and \<^verbatim>\<open>header.h\<close>, with the wire structures of
  \<^verbatim>\<open>ip.h\<close>, \<^verbatim>\<open>ipv6.h\<close>, \<^verbatim>\<open>gre.h\<close>, \<^verbatim>\<open>mpls.h\<close>, \<^verbatim>\<open>tcp.h\<close>, \<^verbatim>\<open>udp.h\<close>, \<^verbatim>\<open>icmp.h\<close>.

  A packet is a byte buffer with metadata; its pointers into the buffer are offsets from the start
  of the buffer (\<^const>\<open>None\<close> is \<^verbatim>\<open>NULL\<close>). Buffers come from \<^verbatim>\<open>malloc\<close>, so a pointer is 4-byte aligned
  exactly when its offset is a multiple of 4. Byte counts are natural numbers: every one is bounded
  by the size of a buffer of at most a few 64 KB, far below the range of the \<^verbatim>\<open>u32\<close> and \<^verbatim>\<open>int\<close> fields
  that hold them; the 16-bit wire length fields are kept at their width.
\<close>

section \<open>Enumerations and constants\<close>

datatype direction_t = DIRECTION_INVALID | DIRECTION_INBOUND | DIRECTION_OUTBOUND

definition reverse_direction :: "direction_t \<Rightarrow> direction_t option" where
  "reverse_direction d = (case d of
      DIRECTION_INBOUND \<Rightarrow> Some DIRECTION_OUTBOUND
    | DIRECTION_OUTBOUND \<Rightarrow> Some DIRECTION_INBOUND
    | DIRECTION_INVALID \<Rightarrow> None)"

datatype ip_ecn_t = ECN_NONE | ECN_ECT0 | ECN_ECT1 | ECN_CE | ECN_ECT01 | ECN_NOCHECK

datatype header_t =
    HEADER_NONE | HEADER_IPV4 | HEADER_IPV6 | HEADER_GRE | HEADER_MPLS | HEADER_SCTP
  | HEADER_TCP | HEADER_UDP | HEADER_UDPLITE | HEADER_ICMPV4 | HEADER_ICMPV6

datatype address_family = AF_UNSPEC | AF_INET | AF_INET6

abbreviation (input) IPPROTO_ICMP :: u8 where "IPPROTO_ICMP \<equiv> 1"
abbreviation (input) IPPROTO_IPIP :: u8 where "IPPROTO_IPIP \<equiv> 4"
abbreviation (input) IPPROTO_TCP :: u8 where "IPPROTO_TCP \<equiv> 6"
abbreviation (input) IPPROTO_UDP :: u8 where "IPPROTO_UDP \<equiv> 17"
abbreviation (input) IPPROTO_IPV6 :: u8 where "IPPROTO_IPV6 \<equiv> 41"
abbreviation (input) IPPROTO_GRE :: u8 where "IPPROTO_GRE \<equiv> 47"
abbreviation (input) IPPROTO_ICMPV6 :: u8 where "IPPROTO_ICMPV6 \<equiv> 58"
abbreviation (input) IPPROTO_SCTP :: u8 where "IPPROTO_SCTP \<equiv> 132"
abbreviation (input) IPPROTO_UDPLITE :: u8 where "IPPROTO_UDPLITE \<equiv> 136"

abbreviation (input) ETHERTYPE_IP :: u16 where "ETHERTYPE_IP \<equiv> 0x0800"
abbreviation (input) ETHERTYPE_IPV6 :: u16 where "ETHERTYPE_IPV6 \<equiv> 0x86dd"
abbreviation (input) ETHERTYPE_MPLS_UC :: u16 where "ETHERTYPE_MPLS_UC \<equiv> 0x8847"
abbreviation (input) ETHERTYPE_MPLS_MC :: u16 where "ETHERTYPE_MPLS_MC \<equiv> 0x8848"

abbreviation (input) sizeof_ipv4 :: nat where "sizeof_ipv4 \<equiv> 20"
abbreviation (input) sizeof_ipv6 :: nat where "sizeof_ipv6 \<equiv> 40"
abbreviation (input) sizeof_tcp :: nat where "sizeof_tcp \<equiv> 20"
abbreviation (input) sizeof_udp :: nat where "sizeof_udp \<equiv> 8"
abbreviation (input) sizeof_udplite :: nat where "sizeof_udplite \<equiv> 8"
abbreviation (input) sizeof_sctp_common_header :: nat where "sizeof_sctp_common_header \<equiv> 12"
abbreviation (input) sizeof_icmpv4 :: nat where "sizeof_icmpv4 \<equiv> 8"
abbreviation (input) sizeof_icmpv6 :: nat where "sizeof_icmpv6 \<equiv> 8"
abbreviation (input) sizeof_gre :: nat where "sizeof_gre \<equiv> 4"
abbreviation (input) sizeof_mpls :: nat where "sizeof_mpls \<equiv> 4"

abbreviation (input) FLAG_WIN_NOCHECK :: u32 where "FLAG_WIN_NOCHECK \<equiv> 0x1"
abbreviation (input) FLAG_OPTIONS_NOCHECK :: u32 where "FLAG_OPTIONS_NOCHECK \<equiv> 0x2"
abbreviation (input) FLAG_ABSOLUTE_TS_ECR :: u32 where "FLAG_ABSOLUTE_TS_ECR \<equiv> 0x4"
abbreviation (input) FLAG_ABSOLUTE_SEQ :: u32 where "FLAG_ABSOLUTE_SEQ \<equiv> 0x8"
abbreviation (input) FLAGS_SCTP_BAD_CRC32C :: u32 where "FLAGS_SCTP_BAD_CRC32C \<equiv> 0x10"
abbreviation (input) FLAGS_SCTP_EXPLICIT_TAG :: u32 where "FLAGS_SCTP_EXPLICIT_TAG \<equiv> 0x20"
abbreviation (input) FLAGS_SCTP_GENERIC_PACKET :: u32 where "FLAGS_SCTP_GENERIC_PACKET \<equiv> 0x40"
abbreviation (input) FLAGS_UDP_ENCAPSULATED :: u32 where "FLAGS_UDP_ENCAPSULATED \<equiv> 0x80"
abbreviation (input) FLAG_IGNORE_TS_VAL :: u32 where "FLAG_IGNORE_TS_VAL \<equiv> 0x100"
abbreviation (input) FLAG_IGNORE_SEQ :: u32 where "FLAG_IGNORE_SEQ \<equiv> 0x200"
abbreviation (input) FLAG_PARSE_ACE :: u32 where "FLAG_PARSE_ACE \<equiv> 0x400"

definition PACKET_MAX_HEADERS :: nat where [simp]: "PACKET_MAX_HEADERS = 6"

definition ICMP_ECHO_BYTES :: nat where [simp]: "ICMP_ECHO_BYTES = 8"

section \<open>Wire structures\<close>

text \<open>Each accessor reads a field of the structure that starts at offset \<open>p\<close> of a buffer.\<close>

subsection \<open>IPv4 and IPv6\<close>

definition ipv4_version :: "bytes \<Rightarrow> nat \<Rightarrow> u8 option" where
  "ipv4_version b p = do { x \<leftarrow> rd8 b p; Some (drop_bit 4 x) }"

definition ipv4_ihl :: "bytes \<Rightarrow> nat \<Rightarrow> u8 option" where
  "ipv4_ihl b p = do { x \<leftarrow> rd8 b p; Some (x AND 0x0f) }"

definition ipv4_tos :: "bytes \<Rightarrow> nat \<Rightarrow> u8 option" where
  "ipv4_tos b p = rd8 b (p + 1)"

definition ipv4_tot_len :: "bytes \<Rightarrow> nat \<Rightarrow> u16 option" where
  "ipv4_tot_len b p = rd16 b (p + 2)"

definition ipv4_frag_off :: "bytes \<Rightarrow> nat \<Rightarrow> u16 option" where
  "ipv4_frag_off b p = rd16 b (p + 6)"

definition ipv4_protocol :: "bytes \<Rightarrow> nat \<Rightarrow> u8 option" where
  "ipv4_protocol b p = rd8 b (p + 9)"

definition ipv4_check :: "bytes \<Rightarrow> nat \<Rightarrow> u16 option" where
  "ipv4_check b p = rd16 b (p + 10)"

definition ipv4_src_ip :: "bytes \<Rightarrow> nat \<Rightarrow> bytes option" where
  "ipv4_src_ip b p = rd_bytes b (p + 12) 4"

definition ipv4_dst_ip :: "bytes \<Rightarrow> nat \<Rightarrow> bytes option" where
  "ipv4_dst_ip b p = rd_bytes b (p + 16) 4"

abbreviation (input) IP_ECN_MASK :: u8 where "IP_ECN_MASK \<equiv> 3"

definition ipv4_ecn_bits :: "bytes \<Rightarrow> nat \<Rightarrow> u8 option" where
  "ipv4_ecn_bits b p = do { tos \<leftarrow> ipv4_tos b p; Some (tos AND IP_ECN_MASK) }"

definition ipv4_header_len :: "bytes \<Rightarrow> nat \<Rightarrow> nat option" where
  "ipv4_header_len b p = do { ihl \<leftarrow> ipv4_ihl b p; Some (unat ihl * 4) }"

definition ipv6_version :: "bytes \<Rightarrow> nat \<Rightarrow> u8 option" where
  "ipv6_version b p = do { x \<leftarrow> rd8 b p; Some (drop_bit 4 x) }"

definition ipv6_traffic_class_lo :: "bytes \<Rightarrow> nat \<Rightarrow> u8 option" where
  "ipv6_traffic_class_lo b p = do { x \<leftarrow> rd8 b (p + 1); Some (drop_bit 4 x) }"

definition ipv6_ecn_bits :: "bytes \<Rightarrow> nat \<Rightarrow> u8 option" where
  "ipv6_ecn_bits b p = do { tc \<leftarrow> ipv6_traffic_class_lo b p; Some (tc AND IP_ECN_MASK) }"

definition ipv6_payload_len :: "bytes \<Rightarrow> nat \<Rightarrow> u16 option" where
  "ipv6_payload_len b p = rd16 b (p + 4)"

definition ipv6_next_header :: "bytes \<Rightarrow> nat \<Rightarrow> u8 option" where
  "ipv6_next_header b p = rd8 b (p + 6)"

definition ipv6_src_ip :: "bytes \<Rightarrow> nat \<Rightarrow> bytes option" where
  "ipv6_src_ip b p = rd_bytes b (p + 8) 16"

definition ipv6_dst_ip :: "bytes \<Rightarrow> nat \<Rightarrow> bytes option" where
  "ipv6_dst_ip b p = rd_bytes b (p + 24) 16"

subsection \<open>GRE and MPLS\<close>

definition gre_version :: "bytes \<Rightarrow> nat \<Rightarrow> u8 option" where
  "gre_version b p = do { x \<leftarrow> rd8 b (p + 1); Some (x AND 0x07) }"

definition gre_has :: "nat \<Rightarrow> bytes \<Rightarrow> nat \<Rightarrow> bool option" where
  "gre_has n b p = do { x \<leftarrow> rd8 b p; Some (bit x n) }"

abbreviation gre_has_seq where "gre_has_seq \<equiv> gre_has 4"
abbreviation gre_has_key where "gre_has_key \<equiv> gre_has 5"
abbreviation gre_has_routing where "gre_has_routing \<equiv> gre_has 6"
abbreviation gre_has_checksum where "gre_has_checksum \<equiv> gre_has 7"

definition gre_protocol :: "bytes \<Rightarrow> nat \<Rightarrow> u16 option" where
  "gre_protocol b p = rd16 b (p + 2)"

definition gre_len :: "bytes \<Rightarrow> nat \<Rightarrow> nat option" where
  "gre_len b p = do {
     version \<leftarrow> gre_version b p;
     c_assert (version = 0);
     routing \<leftarrow> gre_has_routing b p;
     c_assert (\<not> routing);
     checksum \<leftarrow> gre_has_checksum b p;
     key \<leftarrow> gre_has_key b p;
     sq \<leftarrow> gre_has_seq b p;
     Some (sizeof_gre + (if checksum \<or> routing then 4 else 0) + (if key then 4 else 0)
             + (if sq then 4 else 0))
   }"

definition mpls_entry_label :: "u32 \<Rightarrow> u32" where
  "mpls_entry_label entry = drop_bit 12 (entry AND 0xfffff000)"

definition mpls_entry_tc :: "u32 \<Rightarrow> u8" where
  "mpls_entry_tc entry = ucast (drop_bit 9 (entry AND 0x00000e00))"

definition mpls_entry_stack :: "u32 \<Rightarrow> bool" where
  "mpls_entry_stack entry = (drop_bit 8 (entry AND 0x00000100) \<noteq> 0)"

definition mpls_entry_ttl :: "u32 \<Rightarrow> u8" where
  "mpls_entry_ttl entry = ucast (drop_bit 0 (entry AND 0x000000ff))"

definition mpls_entry_set :: "u32 \<Rightarrow> u8 \<Rightarrow> bool \<Rightarrow> u8 \<Rightarrow> u32" where
  "mpls_entry_set label traffic_class is_stack_bottom ttl =
     push_bit 12 label OR push_bit 9 (ucast traffic_class)
       OR push_bit 8 (of_bool is_stack_bottom) OR push_bit 0 (ucast ttl)"

text \<open>\<^verbatim>\<open>struct mpls_stack\<close>: the entries in use, at most six of them.\<close>

type_synonym mpls_stack = "u32 list"

definition MPLS_STACK_MAX_ENTRIES :: nat where [simp]: "MPLS_STACK_MAX_ENTRIES = 6"

definition mpls_stack_new :: mpls_stack where
  "mpls_stack_new = []"

definition mpls_stack_append :: "mpls_stack \<Rightarrow> u32 \<Rightarrow> (unit, mpls_stack) status" where
  "mpls_stack_append stack mpls =
     (if length stack \<ge> MPLS_STACK_MAX_ENTRIES then Inl () else Inr (stack @ [mpls]))"

subsection \<open>Transport headers\<close>

definition tcp_seq :: "bytes \<Rightarrow> nat \<Rightarrow> u32 option" where
  "tcp_seq b p = rd32 b (p + 4)"

definition tcp_ack_seq :: "bytes \<Rightarrow> nat \<Rightarrow> u32 option" where
  "tcp_ack_seq b p = rd32 b (p + 8)"

definition tcp_doff :: "bytes \<Rightarrow> nat \<Rightarrow> u8 option" where
  "tcp_doff b p = do { x \<leftarrow> rd8 b (p + 12); Some (drop_bit 4 x) }"

definition tcp_flag :: "nat \<Rightarrow> bytes \<Rightarrow> nat \<Rightarrow> bool option" where
  "tcp_flag n b p = do { x \<leftarrow> rd8 b (p + 13); Some (bit x n) }"

abbreviation tcp_fin where "tcp_fin \<equiv> tcp_flag 0"
abbreviation tcp_syn where "tcp_syn \<equiv> tcp_flag 1"
abbreviation tcp_rst where "tcp_rst \<equiv> tcp_flag 2"
abbreviation tcp_psh where "tcp_psh \<equiv> tcp_flag 3"
abbreviation tcp_ack where "tcp_ack \<equiv> tcp_flag 4"
abbreviation tcp_urg where "tcp_urg \<equiv> tcp_flag 5"
abbreviation tcp_ece where "tcp_ece \<equiv> tcp_flag 6"
abbreviation tcp_cwr where "tcp_cwr \<equiv> tcp_flag 7"

definition tcp_ae :: "bytes \<Rightarrow> nat \<Rightarrow> bool option" where
  "tcp_ae b p = do { x \<leftarrow> rd8 b (p + 12); Some (bit x 0) }"

definition tcp_window :: "bytes \<Rightarrow> nat \<Rightarrow> u16 option" where
  "tcp_window b p = rd16 b (p + 14)"

definition udp_len :: "bytes \<Rightarrow> nat \<Rightarrow> u16 option" where
  "udp_len b p = rd16 b (p + 4)"

definition udplite_cov :: "bytes \<Rightarrow> nat \<Rightarrow> u16 option" where
  "udplite_cov b p = rd16 b (p + 4)"

definition sctp_v_tag :: "bytes \<Rightarrow> nat \<Rightarrow> u32 option" where
  "sctp_v_tag b p = rd32 b (p + 4)"

text \<open>\<^verbatim>\<open>src_port\<close> and \<^verbatim>\<open>dst_port\<close> lie at the same place in all transport headers.\<close>

definition l4_src_port :: "bytes \<Rightarrow> nat \<Rightarrow> u16 option" where
  "l4_src_port b p = rd16 b p"

definition l4_dst_port :: "bytes \<Rightarrow> nat \<Rightarrow> u16 option" where
  "l4_dst_port b p = rd16 b (p + 2)"

text \<open>Writing one bit of a bit-field.\<close>

definition wr_bit :: "bytes \<Rightarrow> nat \<Rightarrow> nat \<Rightarrow> bool \<Rightarrow> bytes option" where
  "wr_bit b i n v = do { x \<leftarrow> rd8 b i; wr8 b i (if v then set_bit n x else unset_bit n x) }"

text \<open>A 16-bit value computed in host order and stored as such (the checksum fields).\<close>

definition wr16_host :: "bytes \<Rightarrow> nat \<Rightarrow> u16 \<Rightarrow> bytes option" where
  "wr16_host b i v = wr_bytes b i (le16_to v)"

lemmas wire_defs =
  ipv4_version_def ipv4_ihl_def ipv4_tos_def ipv4_tot_len_def ipv4_frag_off_def ipv4_protocol_def
  ipv4_check_def ipv4_src_ip_def ipv4_dst_ip_def ipv4_ecn_bits_def ipv4_header_len_def
  ipv6_version_def ipv6_traffic_class_lo_def ipv6_ecn_bits_def ipv6_payload_len_def
  ipv6_next_header_def ipv6_src_ip_def ipv6_dst_ip_def
  gre_version_def gre_has_def gre_protocol_def
  tcp_seq_def tcp_ack_seq_def tcp_doff_def tcp_flag_def tcp_ae_def tcp_window_def
  udp_len_def udplite_cov_def sctp_v_tag_def l4_src_port_def l4_dst_port_def

section \<open>Packets\<close>

record header =
  htype :: header_t
  header_bytes :: nat
  total_bytes :: nat
  hptr :: "nat option"

definition no_header :: header where
  "no_header = \<lparr> htype = HEADER_NONE, header_bytes = 0, total_bytes = 0, hptr = None \<rparr>"

text \<open>The SCTP lists: an item points to a piece of the buffer, with its length and its
  do-not-check flags; a chunk item owns the lists of its parameters and causes.\<close>

record sctp_item =
  item_ptr :: "nat option"
  item_length :: u32
  item_flags :: u32

record sctp_chunk_list_item =
  chunk_ptr :: "nat option"
  chunk_length :: u32
  chunk_flags :: u32
  parameter_list :: "sctp_item list"
  cause_list :: "sctp_item list"

record packet =
  pkt_buffer :: bytes
  pkt_ip_bytes :: nat
  pkt_direction :: direction_t
  pkt_headers :: "header list"
  pkt_ipv4 :: "nat option"
  pkt_ipv6 :: "nat option"
  pkt_sctp :: "nat option"
  pkt_chunk_list :: "sctp_chunk_list_item list option"
  pkt_tcp :: "nat option"
  pkt_udp :: "nat option"
  pkt_udplite :: "nat option"
  pkt_icmpv4 :: "nat option"
  pkt_icmpv6 :: "nat option"
  pkt_time_usecs :: int
  pkt_flags :: u32
  pkt_ecn :: ip_ecn_t
  pkt_tcp_ts_val :: "nat option"
  pkt_tcp_ts_ecr :: "nat option"

text \<open>\<^verbatim>\<open>malloc\<close> does not initialise the buffer: \<open>junk\<close> is what it happens to contain.\<close>

definition packet_new :: "(nat \<Rightarrow> u8) \<Rightarrow> nat \<Rightarrow> packet" where
  "packet_new junk buffer_bytes = \<lparr>
     pkt_buffer = map junk [0..<buffer_bytes], pkt_ip_bytes = 0,
     pkt_direction = DIRECTION_INVALID,
     pkt_headers = replicate PACKET_MAX_HEADERS no_header,
     pkt_ipv4 = None, pkt_ipv6 = None, pkt_sctp = None, pkt_chunk_list = Some [],
     pkt_tcp = None, pkt_udp = None, pkt_udplite = None, pkt_icmpv4 = None, pkt_icmpv6 = None,
     pkt_time_usecs = 0, pkt_flags = 0, pkt_ecn = ECN_NONE,
     pkt_tcp_ts_val = None, pkt_tcp_ts_ecr = None \<rparr>"

abbreviation pkt_buffer_bytes :: "packet \<Rightarrow> nat" where
  "pkt_buffer_bytes pkt \<equiv> length (pkt_buffer pkt)"

text \<open>Update of the buffer by a checked write.\<close>

definition upd_buffer :: "(bytes \<Rightarrow> bytes option) \<Rightarrow> packet \<Rightarrow> packet option" where
  "upd_buffer f pkt = do { b \<leftarrow> f (pkt_buffer pkt); Some (pkt\<lparr>pkt_buffer := b\<rparr>) }"

definition packet_header_count :: "packet \<Rightarrow> nat" where
  "packet_header_count pkt = length (takeWhile (\<lambda>h. htype h \<noteq> HEADER_NONE) (pkt_headers pkt))"

text \<open>\<^verbatim>\<open>packet_append_header\<close>: the new packet and the index of the new header, or no index when the
  header does not fit (\<^verbatim>\<open>NULL\<close>).\<close>

definition packet_append_header :: "packet \<Rightarrow> header_t \<Rightarrow> nat \<Rightarrow> (packet \<times> nat option) option" where
  "packet_append_header pkt header_type hbytes = do {
     let num_headers = packet_header_count pkt;
     c_assert (num_headers \<le> PACKET_MAX_HEADERS);
     if num_headers = PACKET_MAX_HEADERS then Some (pkt, None)
     else if pkt_ip_bytes pkt + hbytes > pkt_buffer_bytes pkt then Some (pkt, None)
     else Some (pkt\<lparr> pkt_headers := (pkt_headers pkt)[num_headers :=
                        \<lparr> htype = header_type, header_bytes = hbytes, total_bytes = 0,
                          hptr = Some (pkt_ip_bytes pkt) \<rparr>],
                     pkt_ip_bytes := pkt_ip_bytes pkt + hbytes \<rparr>, Some num_headers)
   }"

definition set_total_bytes :: "nat \<Rightarrow> nat \<Rightarrow> packet \<Rightarrow> packet" where
  "set_total_bytes i n pkt =
     pkt\<lparr> pkt_headers := (pkt_headers pkt)[i := (pkt_headers pkt ! i)\<lparr>total_bytes := n\<rparr>] \<rparr>"

definition packet_inner_header :: "packet \<Rightarrow> header option" where
  "packet_inner_header pkt = do {
     let num_headers = packet_header_count pkt;
     c_assert (num_headers > 0);
     Some (pkt_headers pkt ! (num_headers - 1))
   }"

subsection \<open>Accessors\<close>

definition packet_address_family :: "packet \<Rightarrow> address_family" where
  "packet_address_family pkt =
     (if pkt_ipv4 pkt \<noteq> None then AF_INET
      else if pkt_ipv6 pkt \<noteq> None then AF_INET6 else AF_UNSPEC)"

definition packet_start :: "packet \<Rightarrow> nat option" where
  "packet_start pkt = (case pkt_headers pkt of h # _ \<Rightarrow> hptr h | [] \<Rightarrow> None)"

definition ip_start :: "packet \<Rightarrow> nat option" where
  "ip_start pkt = (case pkt_ipv4 pkt of Some p \<Rightarrow> Some p | None \<Rightarrow> pkt_ipv6 pkt)"

definition ip_header_min_len :: "address_family \<Rightarrow> nat option" where
  "ip_header_min_len af = (case af of
      AF_INET \<Rightarrow> Some sizeof_ipv4 | AF_INET6 \<Rightarrow> Some sizeof_ipv6 | AF_UNSPEC \<Rightarrow> None)"

definition packet_ip_protocol :: "packet \<Rightarrow> u8 \<Rightarrow> u8 option" where
  "packet_ip_protocol pkt udp_encaps = do {
     c_assert (pkt_ipv4 pkt \<noteq> None \<or> pkt_ipv6 pkt \<noteq> None);
     protocol \<leftarrow> (case pkt_ipv4 pkt of
         Some p \<Rightarrow> ipv4_protocol (pkt_buffer pkt) p | None \<Rightarrow> Some 0);
     protocol \<leftarrow> (case pkt_ipv6 pkt of
         Some p \<Rightarrow> ipv6_next_header (pkt_buffer pkt) p | None \<Rightarrow> Some protocol);
     Some (if protocol = IPPROTO_UDP \<and> udp_encaps \<noteq> 0 then udp_encaps else protocol)
   }"

definition layer4_header_len :: "u8 \<Rightarrow> nat option" where
  "layer4_header_len protocol =
     (if protocol = IPPROTO_SCTP then Some sizeof_sctp_common_header
      else if protocol = IPPROTO_TCP then Some sizeof_tcp
      else if protocol = IPPROTO_UDP then Some sizeof_udp
      else if protocol = IPPROTO_UDPLITE then Some sizeof_udplite
      else None)"

definition packet_sctp_header_len :: "packet \<Rightarrow> nat option" where
  "packet_sctp_header_len pkt =
     do { c_assert (pkt_sctp pkt \<noteq> None); Some sizeof_sctp_common_header }"

definition packet_tcp_header_len :: "packet \<Rightarrow> nat option" where
  "packet_tcp_header_len pkt = do {
     p \<leftarrow> pkt_tcp pkt; doff \<leftarrow> tcp_doff (pkt_buffer pkt) p; Some (unat doff * 4) }"

definition packet_udp_header_len :: "packet \<Rightarrow> nat option" where
  "packet_udp_header_len pkt = do { c_assert (pkt_udp pkt \<noteq> None); Some sizeof_udp }"

definition packet_udplite_header_len :: "packet \<Rightarrow> nat option" where
  "packet_udplite_header_len pkt = do { c_assert (pkt_udplite pkt \<noteq> None); Some sizeof_udplite }"

text \<open>An \<^verbatim>\<open>int\<close>: negative for a data offset below five.\<close>

definition packet_tcp_options_len :: "packet \<Rightarrow> int option" where
  "packet_tcp_options_len pkt = do {
     n \<leftarrow> packet_tcp_header_len pkt; Some (int n - int sizeof_tcp) }"

definition packet_tcp_options :: "packet \<Rightarrow> nat option" where
  "packet_tcp_options pkt = do { p \<leftarrow> pkt_tcp pkt; Some (p + sizeof_tcp) }"

definition packet_tcp_ts_val :: "packet \<Rightarrow> u32 option" where
  "packet_tcp_ts_val pkt = do { p \<leftarrow> pkt_tcp_ts_val pkt; rd32 (pkt_buffer pkt) p }"

definition packet_tcp_ts_ecr :: "packet \<Rightarrow> u32 option" where
  "packet_tcp_ts_ecr pkt = do { p \<leftarrow> pkt_tcp_ts_ecr pkt; rd32 (pkt_buffer pkt) p }"

definition packet_set_tcp_ts_val :: "packet \<Rightarrow> u32 \<Rightarrow> packet option" where
  "packet_set_tcp_ts_val pkt ts_val =
     do { p \<leftarrow> pkt_tcp_ts_val pkt; upd_buffer (\<lambda>b. wr32 b p ts_val) pkt }"

definition packet_set_tcp_ts_ecr :: "packet \<Rightarrow> u32 \<Rightarrow> packet option" where
  "packet_set_tcp_ts_ecr pkt ts_ecr =
     do { p \<leftarrow> pkt_tcp_ts_ecr pkt; upd_buffer (\<lambda>b. wr32 b p ts_ecr) pkt }"

definition packet_payload :: "packet \<Rightarrow> nat option" where
  "packet_payload pkt = (case pkt_sctp pkt of
      Some p \<Rightarrow> do { n \<leftarrow> packet_sctp_header_len pkt; Some (p + n) }
    | None \<Rightarrow> (case pkt_tcp pkt of
      Some p \<Rightarrow> do { n \<leftarrow> packet_tcp_header_len pkt; Some (p + n) }
    | None \<Rightarrow> (case pkt_udp pkt of
      Some p \<Rightarrow> do { n \<leftarrow> packet_udp_header_len pkt; Some (p + n) }
    | None \<Rightarrow> (case pkt_udplite pkt of
      Some p \<Rightarrow> do { n \<leftarrow> packet_udplite_header_len pkt; Some (p + n) }
    | None \<Rightarrow> None))))"

definition packet_end :: "packet \<Rightarrow> nat option" where
  "packet_end pkt = do { s \<leftarrow> packet_start pkt; Some (s + pkt_ip_bytes pkt) }"

definition packet_payload_len :: "packet \<Rightarrow> int option" where
  "packet_payload_len pkt = do {
     e \<leftarrow> packet_end pkt; p \<leftarrow> packet_payload pkt; Some (int e - int p) }"

subsection \<open>The datagram echoed by an ICMP message\<close>

definition packet_echoed_ip_header :: "packet \<Rightarrow> nat option" where
  "packet_echoed_ip_header pkt = (case pkt_icmpv4 pkt of
      Some p \<Rightarrow> Some (p + sizeof_icmpv4)
    | None \<Rightarrow> (case pkt_icmpv6 pkt of Some p \<Rightarrow> Some (p + sizeof_icmpv6) | None \<Rightarrow> None))"

text \<open>The two following functions may return \<^verbatim>\<open>NULL\<close> without aborting.\<close>

definition packet_echoed_ipv4_header :: "packet \<Rightarrow> nat option" where
  "packet_echoed_ipv4_header pkt = map_option (\<lambda>p. p + sizeof_icmpv4) (pkt_icmpv4 pkt)"

definition packet_echoed_ipv6_header :: "packet \<Rightarrow> nat option" where
  "packet_echoed_ipv6_header pkt = map_option (\<lambda>p. p + sizeof_icmpv6) (pkt_icmpv6 pkt)"

definition packet_echoed_ip_header_len :: "packet \<Rightarrow> nat option" where
  "packet_echoed_ip_header_len pkt =
     (if pkt_icmpv4 pkt \<noteq> None then Some sizeof_ipv4
      else if pkt_icmpv6 pkt \<noteq> None then Some sizeof_ipv6 else None)"

definition packet_echoed_ip_protocol :: "packet \<Rightarrow> u8 option" where
  "packet_echoed_ip_protocol pkt =
     (if pkt_icmpv4 pkt \<noteq> None
      then do { p \<leftarrow> packet_echoed_ipv4_header pkt; ipv4_protocol (pkt_buffer pkt) p }
      else if pkt_icmpv6 pkt \<noteq> None
      then do { p \<leftarrow> packet_echoed_ipv6_header pkt; ipv6_next_header (pkt_buffer pkt) p }
      else None)"

definition packet_echoed_layer4_header :: "packet \<Rightarrow> bool \<Rightarrow> nat option" where
  "packet_echoed_layer4_header pkt encapsulated = do {
     echoed_ip \<leftarrow> packet_echoed_ip_header pkt;
     hlen \<leftarrow> packet_echoed_ip_header_len pkt;
     protocol \<leftarrow> packet_echoed_ip_protocol pkt;
     Some (if protocol = IPPROTO_UDP \<and> encapsulated then echoed_ip + hlen + sizeof_udp
           else echoed_ip + hlen)
   }"

text \<open>The echoed transport headers: \<^term>\<open>Some None\<close> is a \<^verbatim>\<open>NULL\<close> result, when the echoed datagram
  carries another protocol.\<close>

definition packet_echoed_proto_header :: "u8 \<Rightarrow> packet \<Rightarrow> bool \<Rightarrow> nat option option" where
  "packet_echoed_proto_header proto pkt encapsulated = do {
     protocol \<leftarrow> packet_echoed_ip_protocol pkt;
     let protocol = (if protocol = IPPROTO_UDP \<and> encapsulated then proto else protocol);
     if protocol = proto
     then do { p \<leftarrow> packet_echoed_layer4_header pkt encapsulated; Some (Some p) }
     else Some None
   }"

definition packet_echoed_sctp_header :: "packet \<Rightarrow> bool \<Rightarrow> nat option option" where
  "packet_echoed_sctp_header = packet_echoed_proto_header IPPROTO_SCTP"

definition packet_echoed_tcp_header :: "packet \<Rightarrow> bool \<Rightarrow> nat option option" where
  "packet_echoed_tcp_header = packet_echoed_proto_header IPPROTO_TCP"

definition packet_echoed_udp_header :: "packet \<Rightarrow> nat option option" where
  "packet_echoed_udp_header pkt = packet_echoed_proto_header IPPROTO_UDP pkt False"

definition packet_echoed_udplite_header :: "packet \<Rightarrow> nat option option" where
  "packet_echoed_udplite_header pkt = packet_echoed_proto_header IPPROTO_UDPLITE pkt False"

text \<open>The location of a field of the echoed transport header, checked to lie in the part of it
  that is echoed.\<close>

definition echoed_field :: "nat option option \<Rightarrow> nat \<Rightarrow> nat \<Rightarrow> nat option" where
  "echoed_field hdr offset nbytes = do {
     echoed \<leftarrow> hdr;
     p \<leftarrow> echoed;
     c_assert (p + offset + nbytes \<le> p + ICMP_ECHO_BYTES);
     Some (p + offset)
   }"

definition packet_echoed_sctp_v_tag :: "packet \<Rightarrow> bool \<Rightarrow> nat option" where
  "packet_echoed_sctp_v_tag pkt enc = echoed_field (packet_echoed_sctp_header pkt enc) 4 4"

definition packet_echoed_tcp_seq :: "packet \<Rightarrow> bool \<Rightarrow> nat option" where
  "packet_echoed_tcp_seq pkt enc = echoed_field (packet_echoed_tcp_header pkt enc) 4 4"

definition packet_echoed_udp_len :: "packet \<Rightarrow> nat option" where
  "packet_echoed_udp_len pkt = echoed_field (packet_echoed_udp_header pkt) 4 2"

definition packet_echoed_udplite_cov :: "packet \<Rightarrow> nat option" where
  "packet_echoed_udplite_cov pkt = echoed_field (packet_echoed_udplite_header pkt) 4 2"

definition packet_echoed_udplite_checksum :: "packet \<Rightarrow> nat option" where
  "packet_echoed_udplite_checksum pkt = echoed_field (packet_echoed_udplite_header pkt) 6 2"

section \<open>Header metadata\<close>

text \<open>The headers in use, the invariant of the header array, and contiguity: each header starts
  where the one before it ends.\<close>

definition used_headers :: "packet \<Rightarrow> header list" where
  "used_headers pkt = takeWhile (\<lambda>h. htype h \<noteq> HEADER_NONE) (pkt_headers pkt)"

definition headers_wf :: "packet \<Rightarrow> bool" where
  "headers_wf pkt \<longleftrightarrow> length (pkt_headers pkt) = PACKET_MAX_HEADERS \<and>
     (\<forall>h \<in> set (drop (packet_header_count pkt) (pkt_headers pkt)). htype h = HEADER_NONE)"

fun contiguous :: "nat \<Rightarrow> header list \<Rightarrow> bool" where
  "contiguous s [] = True"
| "contiguous s (h # hs) = (hptr h = Some s \<and> contiguous (s + header_bytes h) hs)"

definition headers_len :: "header list \<Rightarrow> nat" where
  "headers_len hs = sum_list (map header_bytes hs)"

text \<open>The header at the end of a header chain that a packet under construction appends.\<close>

definition push_header :: "packet \<Rightarrow> header_t \<Rightarrow> nat \<Rightarrow> nat \<Rightarrow> packet" where
  "push_header pkt t hbytes tbytes = pkt\<lparr>
     pkt_headers := (pkt_headers pkt)[packet_header_count pkt :=
       \<lparr> htype = t, header_bytes = hbytes, total_bytes = tbytes, hptr = Some (pkt_ip_bytes pkt) \<rparr>],
     pkt_ip_bytes := pkt_ip_bytes pkt + hbytes \<rparr>"

lemma headers_len_simps [simp]:
  "headers_len [] = 0" "headers_len (h # hs) = header_bytes h + headers_len hs"
  "headers_len (hs @ ks) = headers_len hs + headers_len ks"
  by (simp_all add: headers_len_def)

lemma contiguous_append [simp]:
  "contiguous s (hs @ ks) \<longleftrightarrow> contiguous s hs \<and> contiguous (s + headers_len hs) ks"
  by (induction hs arbitrary: s) (auto simp: add.assoc)

lemma packet_header_count_used: "packet_header_count pkt = length (used_headers pkt)"
  by (simp add: packet_header_count_def used_headers_def)

lemma headers_wf_length: "headers_wf pkt \<Longrightarrow> length (pkt_headers pkt) = 6"
  unfolding headers_wf_def by simp

lemma packet_header_count_le: "headers_wf pkt \<Longrightarrow> packet_header_count pkt \<le> 6"
  unfolding packet_header_count_def
  by (drule headers_wf_length) (metis length_takeWhile_le)

lemma headers_used_rest:
  assumes "headers_wf pkt"
  shows "\<exists>rest. pkt_headers pkt = used_headers pkt @ rest \<and> (\<forall>h \<in> set rest. htype h = HEADER_NONE)"
proof (intro exI conjI)
  show "pkt_headers pkt = used_headers pkt @ drop (packet_header_count pkt) (pkt_headers pkt)"
    unfolding used_headers_def packet_header_count_def dropWhile_eq_drop [symmetric]
    by (rule takeWhile_dropWhile_id [symmetric])
qed (use assms in \<open>simp add: headers_wf_def\<close>)

lemma used_headers_typed: "h \<in> set (used_headers pkt) \<Longrightarrow> htype h \<noteq> HEADER_NONE"
  by (auto simp: used_headers_def dest: set_takeWhileD)

lemma used_headers_eqI:
  assumes "pkt_headers pkt = hs @ rest" and "\<forall>h \<in> set hs. htype h \<noteq> HEADER_NONE"
    and "\<forall>h \<in> set rest. htype h = HEADER_NONE"
  shows "used_headers pkt = hs"
  using assms by (cases rest) (simp_all add: used_headers_def takeWhile_append2)

lemma headers_wfI:
  assumes "pkt_headers pkt = hs @ rest" and "\<forall>h \<in> set hs. htype h \<noteq> HEADER_NONE"
    and "\<forall>h \<in> set rest. htype h = HEADER_NONE" and "length hs + length rest = 6"
  shows "headers_wf pkt"
  using assms used_headers_eqI [OF assms(1-3)]
  by (simp add: headers_wf_def packet_header_count_used)

lemma push_header_used:
  assumes wf: "headers_wf pkt" and room: "packet_header_count pkt < 6" and t: "t \<noteq> HEADER_NONE"
  shows "used_headers (push_header pkt t hb tb) = used_headers pkt @
           [\<lparr> htype = t, header_bytes = hb, total_bytes = tb, hptr = Some (pkt_ip_bytes pkt) \<rparr>]"
    and "headers_wf (push_header pkt t hb tb)"
proof -
  let ?h = "\<lparr> htype = t, header_bytes = hb, total_bytes = tb, hptr = Some (pkt_ip_bytes pkt) \<rparr>"
  obtain rest where rest: "pkt_headers pkt = used_headers pkt @ rest"
      "\<forall>h \<in> set rest. htype h = HEADER_NONE"
    using headers_used_rest [OF wf] by blast
  have len: "length (pkt_headers pkt) = 6"
    using wf by (simp add: headers_wf_def)
  with rest room obtain r0 rest' where r: "rest = r0 # rest'"
    by (cases rest) (auto simp: packet_header_count_used)
  have eq: "pkt_headers (push_header pkt t hb tb) = (used_headers pkt @ [?h]) @ rest'"
    using rest(1) by (simp add: push_header_def packet_header_count_used r)
  have typed: "\<forall>h \<in> set (used_headers pkt @ [?h]). htype h \<noteq> HEADER_NONE"
    using used_headers_typed t by auto
  have none: "\<forall>h \<in> set rest'. htype h = HEADER_NONE"
    using rest(2) r by simp
  have "length (pkt_headers pkt) = Suc (length (used_headers pkt) + length rest')"
    by (subst rest(1)) (simp add: r)
  then have "length (used_headers pkt @ [?h]) + length rest' = 6"
    using len by simp
  then show "headers_wf (push_header pkt t hb tb)"
    by (rule headers_wfI [OF eq typed none])
  show "used_headers (push_header pkt t hb tb) = used_headers pkt @ [?h]"
    by (rule used_headers_eqI [OF eq typed none])
qed

lemma push_header_fields [simp]:
  "pkt_buffer (push_header pkt t hb tb) = pkt_buffer pkt"
  "pkt_ip_bytes (push_header pkt t hb tb) = pkt_ip_bytes pkt + hb"
  "pkt_ipv4 (push_header pkt t hb tb) = pkt_ipv4 pkt"
  "pkt_ipv6 (push_header pkt t hb tb) = pkt_ipv6 pkt"
  "pkt_sctp (push_header pkt t hb tb) = pkt_sctp pkt"
  "pkt_tcp (push_header pkt t hb tb) = pkt_tcp pkt"
  "pkt_udp (push_header pkt t hb tb) = pkt_udp pkt"
  "pkt_udplite (push_header pkt t hb tb) = pkt_udplite pkt"
  "pkt_icmpv4 (push_header pkt t hb tb) = pkt_icmpv4 pkt"
  "pkt_icmpv6 (push_header pkt t hb tb) = pkt_icmpv6 pkt"
  "pkt_flags (push_header pkt t hb tb) = pkt_flags pkt"
  "pkt_ecn (push_header pkt t hb tb) = pkt_ecn pkt"
  "pkt_direction (push_header pkt t hb tb) = pkt_direction pkt"
  "pkt_chunk_list (push_header pkt t hb tb) = pkt_chunk_list pkt"
  by (simp_all add: push_header_def)

text \<open>Appending a header and setting its \<^verbatim>\<open>total_bytes\<close> pushes it, unless there is no room.\<close>

lemma packet_append_header_eq:
  assumes "headers_wf pkt"
  shows "packet_append_header pkt t hb =
     (if packet_header_count pkt = 6 \<or> pkt_ip_bytes pkt + hb > pkt_buffer_bytes pkt
      then Some (pkt, None) else Some (push_header pkt t hb 0, Some (packet_header_count pkt)))"
  using packet_header_count_le [OF assms]
  by (simp add: packet_append_header_def push_header_def Let_def)

lemma set_total_bytes_push:
  assumes "headers_wf pkt" and "packet_header_count pkt < 6"
  shows "set_total_bytes (packet_header_count pkt) tb (push_header pkt t hb 0) =
     push_header pkt t hb tb"
  using assms by (simp add: set_total_bytes_def push_header_def headers_wf_def)

lemma fresh_headers:
  assumes "pkt_headers pkt = replicate PACKET_MAX_HEADERS no_header"
  shows "used_headers pkt = []" and "headers_wf pkt"
  using assms by (simp_all add: used_headers_def headers_wf_def packet_header_count_def no_header_def)

text \<open>Fields of the packet that do not concern its headers leave them alone.\<close>

lemma used_headers_cong:
  assumes "pkt_headers pkt = pkt_headers pkt'"
  shows "used_headers pkt = used_headers pkt'" and "headers_wf pkt = headers_wf pkt'"
    and "packet_header_count pkt = packet_header_count pkt'"
  using assms by (simp_all add: used_headers_def headers_wf_def packet_header_count_def)

lemma used_headers_upd [simp]:
  "used_headers (pkt\<lparr>pkt_buffer := b\<rparr>) = used_headers pkt"
  "used_headers (pkt\<lparr>pkt_ip_bytes := n\<rparr>) = used_headers pkt"
  "used_headers (pkt\<lparr>pkt_ipv4 := q\<rparr>) = used_headers pkt"
  "used_headers (pkt\<lparr>pkt_ipv6 := q\<rparr>) = used_headers pkt"
  "used_headers (pkt\<lparr>pkt_sctp := q\<rparr>) = used_headers pkt"
  "used_headers (pkt\<lparr>pkt_tcp := q\<rparr>) = used_headers pkt"
  "used_headers (pkt\<lparr>pkt_udp := q\<rparr>) = used_headers pkt"
  "used_headers (pkt\<lparr>pkt_udplite := q\<rparr>) = used_headers pkt"
  "used_headers (pkt\<lparr>pkt_icmpv4 := q\<rparr>) = used_headers pkt"
  "used_headers (pkt\<lparr>pkt_icmpv6 := q\<rparr>) = used_headers pkt"
  "used_headers (pkt\<lparr>pkt_flags := f\<rparr>) = used_headers pkt"
  "used_headers (pkt\<lparr>pkt_ecn := ec\<rparr>) = used_headers pkt"
  "used_headers (pkt\<lparr>pkt_direction := d\<rparr>) = used_headers pkt"
  by (rule used_headers_cong, simp)+

lemma headers_wf_upd [simp]:
  "headers_wf (pkt\<lparr>pkt_buffer := b\<rparr>) = headers_wf pkt"
  "headers_wf (pkt\<lparr>pkt_ip_bytes := n\<rparr>) = headers_wf pkt"
  "headers_wf (pkt\<lparr>pkt_ipv4 := q\<rparr>) = headers_wf pkt"
  "headers_wf (pkt\<lparr>pkt_ipv6 := q\<rparr>) = headers_wf pkt"
  "headers_wf (pkt\<lparr>pkt_sctp := q\<rparr>) = headers_wf pkt"
  "headers_wf (pkt\<lparr>pkt_tcp := q\<rparr>) = headers_wf pkt"
  "headers_wf (pkt\<lparr>pkt_udp := q\<rparr>) = headers_wf pkt"
  "headers_wf (pkt\<lparr>pkt_udplite := q\<rparr>) = headers_wf pkt"
  "headers_wf (pkt\<lparr>pkt_icmpv4 := q\<rparr>) = headers_wf pkt"
  "headers_wf (pkt\<lparr>pkt_icmpv6 := q\<rparr>) = headers_wf pkt"
  "headers_wf (pkt\<lparr>pkt_flags := f\<rparr>) = headers_wf pkt"
  "headers_wf (pkt\<lparr>pkt_ecn := ec\<rparr>) = headers_wf pkt"
  "headers_wf (pkt\<lparr>pkt_direction := d\<rparr>) = headers_wf pkt"
  by (rule used_headers_cong, simp)+

text \<open>A packet whose headers lie one after the other from the start of the buffer up to \<open>p\<close>.\<close>

definition chain_at :: "packet \<Rightarrow> nat \<Rightarrow> bool" where
  "chain_at pkt p \<longleftrightarrow> headers_wf pkt \<and> contiguous 0 (used_headers pkt) \<and>
     headers_len (used_headers pkt) = p \<and> pkt_ip_bytes pkt = p"

lemma chain_at_push:
  assumes "chain_at pkt p" and "packet_header_count pkt \<noteq> 6" and "t \<noteq> HEADER_NONE"
  shows "chain_at (push_header pkt t hb tb) (p + hb)"
    and "used_headers (push_header pkt t hb tb) = used_headers pkt @
           [\<lparr> htype = t, header_bytes = hb, total_bytes = tb, hptr = Some p \<rparr>]"
proof -
  have "headers_wf pkt" "packet_header_count pkt < 6"
    using assms packet_header_count_le [of pkt] by (auto simp: chain_at_def)
  with assms show "chain_at (push_header pkt t hb tb) (p + hb)"
    and "used_headers (push_header pkt t hb tb) = used_headers pkt @
           [\<lparr> htype = t, header_bytes = hb, total_bytes = tb, hptr = Some p \<rparr>]"
    by (simp_all add: chain_at_def push_header_used)
qed

lemma chain_at_upd [simp]:
  "chain_at (pkt\<lparr>pkt_sctp := q\<rparr>) p = chain_at pkt p"
  "chain_at (pkt\<lparr>pkt_tcp := q\<rparr>) p = chain_at pkt p"
  "chain_at (pkt\<lparr>pkt_udp := q\<rparr>) p = chain_at pkt p"
  "chain_at (pkt\<lparr>pkt_udplite := q\<rparr>) p = chain_at pkt p"
  "chain_at (pkt\<lparr>pkt_icmpv4 := q\<rparr>) p = chain_at pkt p"
  "chain_at (pkt\<lparr>pkt_icmpv6 := q\<rparr>) p = chain_at pkt p"
  "chain_at (pkt\<lparr>pkt_flags := f\<rparr>) p = chain_at pkt p"
  "chain_at (pkt\<lparr>pkt_ipv4 := q\<rparr>) p = chain_at pkt p"
  "chain_at (pkt\<lparr>pkt_ipv6 := q\<rparr>) p = chain_at pkt p"
  "chain_at (pkt\<lparr>pkt_buffer := b\<rparr>) p = chain_at pkt p"
  by (simp_all add: chain_at_def)

end
