(* ===== verification/Checksum.thy ===== *)
theory Checksum
  imports Pd_Prelude
begin

text \<open>
  The checksum helpers of \<^verbatim>\<open>checksum.c\<close>: the Internet checksum over 32-bit host-order loads with
  a 64-bit accumulator, its IPv4/IPv6 pseudo-header variants, and the table-driven CRC32C of SCTP.
  They are related to their specifications: RFC 1071 ones' complement arithmetic over big-endian
  16-bit words, and the bit-serial CRC with the reflected Castagnoli polynomial.
\<close>

section \<open>The code\<close>

text \<open>\<^verbatim>\<open>ip_checksum_partial\<close>: the argument list is the \<^verbatim>\<open>len\<close> bytes at \<^verbatim>\<open>p\<close>. The main loop adds
  32-bit host-order words; a trailing 16-bit word and a trailing byte (padded as the RFC says)
  follow.\<close>

fun ip_checksum_partial :: "bytes \<Rightarrow> u64 \<Rightarrow> u64" where
  "ip_checksum_partial (a # b # c # d # xs) s =
     ip_checksum_partial xs (s + ucast (le32_of a b c d))"
| "ip_checksum_partial [a, b, c] s =
     s + ucast (le16_of a b) + ucast (ntohs (push_bit 8 (ucast c)))"
| "ip_checksum_partial [a, b] s = s + ucast (le16_of a b)"
| "ip_checksum_partial [a] s = s + ucast (ntohs (push_bit 8 (ucast a)))"
| "ip_checksum_partial [] s = s"

text \<open>Each round of a folding loop, as arithmetic; both loops shrink the sum.\<close>

lemma unat_fold_step:
  fixes s :: u64
  assumes "n \<le> 32" and "n > 0"
  shows "unat (drop_bit n s + (s AND mask n)) = unat s div 2 ^ n + unat s mod 2 ^ n"
proof -
  have s64: "unat s < 2 ^ 64"
    using unsigned_less [of s] by simp
  moreover have "(2 :: nat) ^ 1 \<le> 2 ^ n"
    using assms by (intro power_increasing) simp_all
  ultimately have "unat s < 2 ^ 63 * 2 ^ n"
    by simp
  then have "unat s div 2 ^ n < 2 ^ 63"
    by (simp add: div_less_iff_less_mult)
  moreover have "unat s mod 2 ^ n < 2 ^ 32"
  proof (rule less_le_trans)
    show "unat s mod 2 ^ n < 2 ^ n" by simp
    show "(2 :: nat) ^ n \<le> 2 ^ 32" using assms by (intro power_increasing) simp_all
  qed
  ultimately have "unat s div 2 ^ n + unat s mod 2 ^ n < 2 ^ 64"
    by simp
  moreover have "unat (drop_bit n s) = unat s div 2 ^ n"
    using s64 by (simp add: unsigned_drop_bit_eq drop_bit_nat_def take_bit_nat_eq_self)
  moreover have "unat (s AND mask n) = unat s mod 2 ^ n"
    by (metis take_bit_eq_mask take_bit_eq_mod unsigned_take_bit_eq)
  ultimately show ?thesis
    by (simp add: unat_word_ariths)
qed

lemma and_mask_eq_self: "s AND mask n = (s :: u64) \<longleftrightarrow> unat s < 2 ^ n"
proof -
  have "unat (s AND mask n) = unat s mod 2 ^ n"
    by (metis take_bit_eq_mask take_bit_eq_mod unsigned_take_bit_eq)
  then have "s AND mask n = s \<longleftrightarrow> unat s mod 2 ^ n = unat s"
    by (simp add: word_unat_eq_iff)
  then show ?thesis
    by (metis mod_less mod_less_divisor zero_less_numeral zero_less_power)
qed

lemma fold_step_less:
  fixes S B :: nat
  assumes "2 \<le> B" and "B \<le> S"
  shows "S div B + S mod B < S"
proof -
  have "0 < S div B"
    using assms by (simp add: div_greater_zero_iff)
  then have "S div B < 2 * (S div B)"
    by simp
  also have "\<dots> \<le> B * (S div B)"
    using assms(1) by (rule mult_le_mono1)
  finally show ?thesis
    using mult_div_mod_eq [of B S] by linarith
qed

lemma fold32_guard: "s AND NOT 0xffffffff \<noteq> 0 \<longleftrightarrow> 2 ^ 32 \<le> unat (s :: u64)"
proof -
  have "s AND NOT (mask 32) = 0 \<longleftrightarrow> s AND mask 32 = s"
    by (auto simp: bit_eq_iff bit_simps)
  moreover have "mask 32 = (0xffffffff :: u64)"
    by (simp add: mask_eq_exp_minus_1)
  ultimately show ?thesis
    using and_mask_eq_self [of s 32] by (simp add: not_less)
qed

lemma fold16_guard:
  fixes s :: u64
  shows "s AND 0xffff0000 \<noteq> 0 \<Longrightarrow> 2 ^ 16 \<le> unat s"
    and "unat s < 2 ^ 32 \<Longrightarrow> s AND 0xffff0000 = 0 \<Longrightarrow> unat s < 2 ^ 16"
proof -
  have m: "0xffff0000 = (mask 32 AND NOT (mask 16) :: u64)"
    by (simp add: mask_eq_exp_minus_1)
  show "2 ^ 16 \<le> unat s" if "s AND 0xffff0000 \<noteq> 0"
  proof (rule ccontr)
    assume "\<not> 2 ^ 16 \<le> unat s"
    then have "s AND mask 16 = s"
      by (simp add: and_mask_eq_self)
    then have "s AND 0xffff0000 = 0"
      unfolding m by (auto simp: bit_eq_iff bit_simps)
    with that show False by simp
  qed
  show "unat s < 2 ^ 16" if "unat s < 2 ^ 32" "s AND 0xffff0000 = 0"
  proof -
    have "s AND mask 32 = s"
      using that(1) by (simp only: and_mask_eq_self)
    with that(2) have "s AND mask 16 = s"
      unfolding m by (auto simp: bit_eq_iff bit_simps)
    then show ?thesis
      by (simp only: and_mask_eq_self)
  qed
qed

text \<open>The two loops of \<^verbatim>\<open>ip_checksum_fold\<close>.\<close>

function ip_checksum_fold32 :: "u64 \<Rightarrow> u64" where
  "ip_checksum_fold32 s =
     (if s AND NOT 0xffffffff \<noteq> 0 then ip_checksum_fold32 (drop_bit 32 s + (s AND 0xffffffff)) else s)"
  by pat_completeness auto
termination
proof (relation "measure unat")
  fix s :: u64
  assume "s AND NOT 0xffffffff \<noteq> 0"
  then have "2 ^ 32 \<le> unat s"
    by (simp only: fold32_guard)
  then have "unat s div 2 ^ 32 + unat s mod 2 ^ 32 < unat s"
    by (intro fold_step_less) simp_all
  then show "(drop_bit 32 s + (s AND 0xffffffff), s) \<in> measure unat"
    using unat_fold_step [of 32 s] by (simp add: mask_eq_exp_minus_1)
qed simp

function ip_checksum_fold16 :: "u64 \<Rightarrow> u64" where
  "ip_checksum_fold16 s =
     (if s AND 0xffff0000 \<noteq> 0 then ip_checksum_fold16 (drop_bit 16 s + (s AND 0xffff)) else s)"
  by pat_completeness auto
termination
proof (relation "measure unat")
  fix s :: u64
  assume "s AND 0xffff0000 \<noteq> 0"
  then have "2 ^ 16 \<le> unat s"
    by (rule fold16_guard)
  then have "unat s div 2 ^ 16 + unat s mod 2 ^ 16 < unat s"
    by (intro fold_step_less) simp_all
  then show "(drop_bit 16 s + (s AND 0xffff), s) \<in> measure unat"
    using unat_fold_step [of 16 s] by (simp add: mask_eq_exp_minus_1)
qed simp

declare ip_checksum_fold32.simps [simp del] ip_checksum_fold16.simps [simp del]

definition ip_checksum_fold :: "u64 \<Rightarrow> u16" where
  "ip_checksum_fold s = ucast (NOT (ip_checksum_fold16 (ip_checksum_fold32 s)))"

definition tcp_udp_v4_header_checksum_partial :: "bytes \<Rightarrow> bytes \<Rightarrow> u8 \<Rightarrow> u16 \<Rightarrow> u64" where
  "tcp_udp_v4_header_checksum_partial src_ip dst_ip protocol len =
     ip_checksum_partial (src_ip @ dst_ip @ [0, protocol] @ be16_to len) 0"

text \<open>A payload argument is the memory from the pointer on, of which the first \<^verbatim>\<open>len\<close> bytes (or, for
  UDP-Lite, \<^verbatim>\<open>cov\<close> bytes) are summed.\<close>

definition tcp_udp_v4_checksum :: "bytes \<Rightarrow> bytes \<Rightarrow> u8 \<Rightarrow> bytes \<Rightarrow> u16 \<Rightarrow> u16" where
  "tcp_udp_v4_checksum src_ip dst_ip protocol payload len =
     (let s = tcp_udp_v4_header_checksum_partial src_ip dst_ip protocol len
      in ip_checksum_fold (ip_checksum_partial (take (unat len) payload) s))"

definition udplite_v4_checksum :: "bytes \<Rightarrow> bytes \<Rightarrow> u8 \<Rightarrow> bytes \<Rightarrow> u16 \<Rightarrow> u16 \<Rightarrow> u16" where
  "udplite_v4_checksum src_ip dst_ip protocol payload len cov =
     (let s = tcp_udp_v4_header_checksum_partial src_ip dst_ip protocol len
      in ip_checksum_fold (ip_checksum_partial (take (unat cov) payload) s))"

definition ipv4_checksum :: "bytes \<Rightarrow> u16" where
  "ipv4_checksum ip_header = ip_checksum_fold (ip_checksum_partial ip_header 0)"

definition tcp_udp_v6_header_checksum_partial :: "bytes \<Rightarrow> bytes \<Rightarrow> u8 \<Rightarrow> u32 \<Rightarrow> u64" where
  "tcp_udp_v6_header_checksum_partial src_ip dst_ip protocol len =
     ip_checksum_partial (src_ip @ dst_ip @ put_unaligned_be32 len @ [0, 0, 0] @ [protocol]) 0"

definition tcp_udp_v6_checksum :: "bytes \<Rightarrow> bytes \<Rightarrow> u8 \<Rightarrow> bytes \<Rightarrow> u32 \<Rightarrow> u16" where
  "tcp_udp_v6_checksum src_ip dst_ip protocol payload len =
     (let s = tcp_udp_v6_header_checksum_partial src_ip dst_ip protocol len
      in ip_checksum_fold (ip_checksum_partial (take (unat len) payload) s))"

definition udplite_v6_checksum :: "bytes \<Rightarrow> bytes \<Rightarrow> u8 \<Rightarrow> bytes \<Rightarrow> u32 \<Rightarrow> u16 \<Rightarrow> u16" where
  "udplite_v6_checksum src_ip dst_ip protocol payload len cov =
     (let s = tcp_udp_v6_header_checksum_partial src_ip dst_ip protocol len
      in ip_checksum_fold (ip_checksum_partial (take (unat cov) payload) s))"

definition crc_c :: "u32 list" where
  "crc_c = [
     0x00000000, 0xF26B8303, 0xE13B70F7, 0x1350F3F4,
     0xC79A971F, 0x35F1141C, 0x26A1E7E8, 0xD4CA64EB,
     0x8AD958CF, 0x78B2DBCC, 0x6BE22838, 0x9989AB3B,
     0x4D43CFD0, 0xBF284CD3, 0xAC78BF27, 0x5E133C24,
     0x105EC76F, 0xE235446C, 0xF165B798, 0x030E349B,
     0xD7C45070, 0x25AFD373, 0x36FF2087, 0xC494A384,
     0x9A879FA0, 0x68EC1CA3, 0x7BBCEF57, 0x89D76C54,
     0x5D1D08BF, 0xAF768BBC, 0xBC267848, 0x4E4DFB4B,
     0x20BD8EDE, 0xD2D60DDD, 0xC186FE29, 0x33ED7D2A,
     0xE72719C1, 0x154C9AC2, 0x061C6936, 0xF477EA35,
     0xAA64D611, 0x580F5512, 0x4B5FA6E6, 0xB93425E5,
     0x6DFE410E, 0x9F95C20D, 0x8CC531F9, 0x7EAEB2FA,
     0x30E349B1, 0xC288CAB2, 0xD1D83946, 0x23B3BA45,
     0xF779DEAE, 0x05125DAD, 0x1642AE59, 0xE4292D5A,
     0xBA3A117E, 0x4851927D, 0x5B016189, 0xA96AE28A,
     0x7DA08661, 0x8FCB0562, 0x9C9BF696, 0x6EF07595,
     0x417B1DBC, 0xB3109EBF, 0xA0406D4B, 0x522BEE48,
     0x86E18AA3, 0x748A09A0, 0x67DAFA54, 0x95B17957,
     0xCBA24573, 0x39C9C670, 0x2A993584, 0xD8F2B687,
     0x0C38D26C, 0xFE53516F, 0xED03A29B, 0x1F682198,
     0x5125DAD3, 0xA34E59D0, 0xB01EAA24, 0x42752927,
     0x96BF4DCC, 0x64D4CECF, 0x77843D3B, 0x85EFBE38,
     0xDBFC821C, 0x2997011F, 0x3AC7F2EB, 0xC8AC71E8,
     0x1C661503, 0xEE0D9600, 0xFD5D65F4, 0x0F36E6F7,
     0x61C69362, 0x93AD1061, 0x80FDE395, 0x72966096,
     0xA65C047D, 0x5437877E, 0x4767748A, 0xB50CF789,
     0xEB1FCBAD, 0x197448AE, 0x0A24BB5A, 0xF84F3859,
     0x2C855CB2, 0xDEEEDFB1, 0xCDBE2C45, 0x3FD5AF46,
     0x7198540D, 0x83F3D70E, 0x90A324FA, 0x62C8A7F9,
     0xB602C312, 0x44694011, 0x5739B3E5, 0xA55230E6,
     0xFB410CC2, 0x092A8FC1, 0x1A7A7C35, 0xE811FF36,
     0x3CDB9BDD, 0xCEB018DE, 0xDDE0EB2A, 0x2F8B6829,
     0x82F63B78, 0x709DB87B, 0x63CD4B8F, 0x91A6C88C,
     0x456CAC67, 0xB7072F64, 0xA457DC90, 0x563C5F93,
     0x082F63B7, 0xFA44E0B4, 0xE9141340, 0x1B7F9043,
     0xCFB5F4A8, 0x3DDE77AB, 0x2E8E845F, 0xDCE5075C,
     0x92A8FC17, 0x60C37F14, 0x73938CE0, 0x81F80FE3,
     0x55326B08, 0xA759E80B, 0xB4091BFF, 0x466298FC,
     0x1871A4D8, 0xEA1A27DB, 0xF94AD42F, 0x0B21572C,
     0xDFEB33C7, 0x2D80B0C4, 0x3ED04330, 0xCCBBC033,
     0xA24BB5A6, 0x502036A5, 0x4370C551, 0xB11B4652,
     0x65D122B9, 0x97BAA1BA, 0x84EA524E, 0x7681D14D,
     0x2892ED69, 0xDAF96E6A, 0xC9A99D9E, 0x3BC21E9D,
     0xEF087A76, 0x1D63F975, 0x0E330A81, 0xFC588982,
     0xB21572C9, 0x407EF1CA, 0x532E023E, 0xA145813D,
     0x758FE5D6, 0x87E466D5, 0x94B49521, 0x66DF1622,
     0x38CC2A06, 0xCAA7A905, 0xD9F75AF1, 0x2B9CD9F2,
     0xFF56BD19, 0x0D3D3E1A, 0x1E6DCDEE, 0xEC064EED,
     0xC38D26C4, 0x31E6A5C7, 0x22B65633, 0xD0DDD530,
     0x0417B1DB, 0xF67C32D8, 0xE52CC12C, 0x1747422F,
     0x49547E0B, 0xBB3FFD08, 0xA86F0EFC, 0x5A048DFF,
     0x8ECEE914, 0x7CA56A17, 0x6FF599E3, 0x9D9E1AE0,
     0xD3D3E1AB, 0x21B862A8, 0x32E8915C, 0xC083125F,
     0x144976B4, 0xE622F5B7, 0xF5720643, 0x07198540,
     0x590AB964, 0xAB613A67, 0xB831C993, 0x4A5A4A90,
     0x9E902E7B, 0x6CFBAD78, 0x7FAB5E8C, 0x8DC0DD8F,
     0xE330A81A, 0x115B2B19, 0x020BD8ED, 0xF0605BEE,
     0x24AA3F05, 0xD6C1BC06, 0xC5914FF2, 0x37FACCF1,
     0x69E9F0D5, 0x9B8273D6, 0x88D28022, 0x7AB90321,
     0xAE7367CA, 0x5C18E4C9, 0x4F48173D, 0xBD23943E,
     0xF36E6F75, 0x0105EC76, 0x12551F82, 0xE03E9C81,
     0x34F4F86A, 0xC69F7B69, 0xD5CF889D, 0x27A40B9E,
     0x79B737BA, 0x8BDCB4B9, 0x988C474D, 0x6AE7C44E,
     0xBE2DA0A5, 0x4C4623A6, 0x5F16D052, 0xAD7D5351]"

text \<open>The \<^verbatim>\<open>CRC32C\<close> macro and the loop around it.\<close>

definition CRC32C :: "u32 \<Rightarrow> u8 \<Rightarrow> u32" where
  "CRC32C c d = drop_bit 8 c XOR crc_c ! unat ((c XOR ucast d) AND 0xFF)"

fun crc32c_loop :: "u32 \<Rightarrow> bytes \<Rightarrow> u32" where
  "crc32c_loop c [] = c"
| "crc32c_loop c (d # ds) = crc32c_loop (CRC32C c d) ds"

definition sctp_crc32c :: "bytes \<Rightarrow> u32" where
  "sctp_crc32c packet =
     (let crc32c = NOT (crc32c_loop (NOT 0) packet);
          byte0 = crc32c AND 0xff;
          byte1 = drop_bit 8 crc32c AND 0xff;
          byte2 = drop_bit 16 crc32c AND 0xff;
          byte3 = drop_bit 24 crc32c AND 0xff
      in ntohl (push_bit 24 byte0 OR push_bit 16 byte1 OR push_bit 8 byte2 OR byte3))"

subsection \<open>Checksums of a part of a buffer\<close>

text \<open>The code calls the functions above with a pointer into a buffer. These versions take the buffer
  and the offset; they check that the summed bytes lie in the buffer, and carry the alignment
  assertion of \<^verbatim>\<open>ip_checksum_partial\<close> (the pseudo-headers are aligned local variables).\<close>

definition ipv4_checksum_at :: "bytes \<Rightarrow> nat \<Rightarrow> nat \<Rightarrow> u16 option" where
  "ipv4_checksum_at b p n = do {
     c_assert (p mod 4 = 0);
     xs \<leftarrow> rd_bytes b p n;
     Some (ipv4_checksum xs)
   }"

definition sctp_crc32c_at :: "bytes \<Rightarrow> nat \<Rightarrow> nat \<Rightarrow> u32 option" where
  "sctp_crc32c_at b p n = do { xs \<leftarrow> rd_bytes b p n; Some (sctp_crc32c xs) }"

definition tcp_udp_v4_checksum_at :: "bytes \<Rightarrow> bytes \<Rightarrow> bytes \<Rightarrow> u8 \<Rightarrow> nat \<Rightarrow> u16 \<Rightarrow> u16 option" where
  "tcp_udp_v4_checksum_at b src dst proto p len = do {
     c_assert (p mod 4 = 0);
     xs \<leftarrow> rd_bytes b p (unat len);
     Some (tcp_udp_v4_checksum src dst proto xs len)
   }"

definition udplite_v4_checksum_at ::
    "bytes \<Rightarrow> bytes \<Rightarrow> bytes \<Rightarrow> u8 \<Rightarrow> nat \<Rightarrow> u16 \<Rightarrow> u16 \<Rightarrow> u16 option" where
  "udplite_v4_checksum_at b src dst proto p len cov = do {
     c_assert (p mod 4 = 0);
     xs \<leftarrow> rd_bytes b p (unat cov);
     Some (udplite_v4_checksum src dst proto xs len cov)
   }"

definition tcp_udp_v6_checksum_at :: "bytes \<Rightarrow> bytes \<Rightarrow> bytes \<Rightarrow> u8 \<Rightarrow> nat \<Rightarrow> u32 \<Rightarrow> u16 option" where
  "tcp_udp_v6_checksum_at b src dst proto p len = do {
     c_assert (p mod 4 = 0);
     xs \<leftarrow> rd_bytes b p (unat len);
     Some (tcp_udp_v6_checksum src dst proto xs len)
   }"

definition udplite_v6_checksum_at ::
    "bytes \<Rightarrow> bytes \<Rightarrow> bytes \<Rightarrow> u8 \<Rightarrow> nat \<Rightarrow> u32 \<Rightarrow> u16 \<Rightarrow> u16 option" where
  "udplite_v6_checksum_at b src dst proto p len cov = do {
     c_assert (p mod 4 = 0);
     xs \<leftarrow> rd_bytes b p (unat cov);
     Some (udplite_v6_checksum src dst proto xs len cov)
   }"

section \<open>Specifications\<close>

text \<open>RFC 1071: 16-bit words in network order, a last odd byte padded with zero, added in ones'
  complement arithmetic; the checksum is the complement of the sum.\<close>

fun rfc1071_words :: "bytes \<Rightarrow> nat list" where
  "rfc1071_words (a # b # xs) = (256 * unat a + unat b) # rfc1071_words xs"
| "rfc1071_words [a] = [256 * unat a]"
| "rfc1071_words [] = []"

definition oc_add :: "nat \<Rightarrow> nat \<Rightarrow> nat" where
  "oc_add x y = (if x + y < 65536 then x + y else x + y - 65535)"

definition rfc1071_checksum :: "bytes \<Rightarrow> nat" where
  "rfc1071_checksum xs = 65535 - foldr oc_add (rfc1071_words xs) 0"

text \<open>CRC-32C, one bit at a time (reflected form of the Castagnoli polynomial 0x1EDC6F41).\<close>

definition crc_bit :: "u32 \<Rightarrow> u32" where
  "crc_bit c = drop_bit 1 c XOR (if bit c 0 then 0x82F63B78 else 0)"

definition crc_byte :: "u32 \<Rightarrow> u32" where
  "crc_byte c = crc_bit (crc_bit (crc_bit (crc_bit (crc_bit (crc_bit (crc_bit (crc_bit c)))))))"

definition crc32c_spec :: "bytes \<Rightarrow> u32" where
  "crc32c_spec xs = NOT (foldl (\<lambda>c d. crc_byte (c XOR ucast d)) (NOT 0) xs)"

section \<open>The Internet checksum\<close>

subsection \<open>Ones' complement normal form\<close>

text \<open>Both the code's folding and the RFC's end-around carry compute this representative of a sum
  modulo 65535: zero only for zero, and otherwise in 1..65535.\<close>

definition csum16 :: "nat \<Rightarrow> nat" where
  "csum16 S = (if S = 0 then 0 else (S - 1) mod 65535 + 1)"

lemma csum16_less [simp]: "csum16 S < 65536"
  by (simp add: csum16_def)

lemma csum16_0 [simp]: "csum16 0 = 0"
  by (simp add: csum16_def)

lemma csum16_eq_0 [simp]: "csum16 S = 0 \<longleftrightarrow> S = 0"
  by (simp add: csum16_def)

lemma csum16_mod [simp]: "csum16 S mod 65535 = S mod 65535"
  by (simp add: csum16_def mod_Suc_eq)

lemma csum16_unique:
  assumes "x < 65536" and "x mod 65535 = S mod 65535" and "x = 0 \<longleftrightarrow> S = 0"
  shows "csum16 S = x"
proof -
  have c: "csum16 S < 65536" "csum16 S mod 65535 = x mod 65535" "csum16 S = 0 \<longleftrightarrow> x = 0"
    using assms by simp_all
  consider "csum16 S < 65535" "x < 65535" | "csum16 S = 65535" | "x = 65535"
    using c(1) assms(1) by linarith
  then show ?thesis
  proof cases
    case 1
    with c(2) show ?thesis by (metis mod_less)
  next
    case 2
    with c assms(1) show ?thesis by (cases "x = 65535") simp_all
  next
    case 3
    then have "csum16 S mod 65535 = 0" "csum16 S \<noteq> 0"
      using c by simp_all
    then have "\<not> csum16 S < 65535"
      by (metis mod_less)
    with c(1) 3 show ?thesis by linarith
  qed
qed

lemma csum16_id: "x < 65536 \<Longrightarrow> csum16 x = x"
  by (rule csum16_unique) simp_all

lemma csum16_cong: "S mod 65535 = T mod 65535 \<Longrightarrow> (S = 0 \<longleftrightarrow> T = 0) \<Longrightarrow> csum16 S = csum16 T"
  by (rule csum16_unique) simp_all

lemma mod_fold_step:
  fixes S B m :: nat
  assumes "B mod m = 1"
  shows "(S div B + S mod B) mod m = S mod m"
proof -
  have "S mod m = (B * (S div B) + S mod B) mod m"
    by simp
  also have "\<dots> = ((B mod m) * (S div B) + S mod B) mod m"
    by (metis mod_add_left_eq mod_mult_left_eq)
  finally show ?thesis
    using assms by simp
qed

lemma fold_step_zero: "S div B + S mod B = 0 \<longleftrightarrow> S = (0 :: nat)"
  by (metis add_is_0 div_mult_mod_eq mult_zero_left div_0 mod_0)

lemma fold32_spec:
  "unat (ip_checksum_fold32 s) < 2 ^ 32 \<and> csum16 (unat (ip_checksum_fold32 s)) = csum16 (unat s)"
proof (induction s rule: ip_checksum_fold32.induct)
  case (1 s)
  show ?case
  proof (cases "s AND NOT 0xffffffff \<noteq> 0")
    case True
    let ?t = "drop_bit 32 s + (s AND 0xffffffff)"
    have t: "unat ?t = unat s div 2 ^ 32 + unat s mod 2 ^ 32"
      using unat_fold_step [of 32 s] by (simp add: mask_eq_exp_minus_1)
    have "csum16 (unat ?t) = csum16 (unat s)"
      unfolding t by (intro csum16_cong mod_fold_step fold_step_zero) simp
    with 1 True show ?thesis
      by (simp add: ip_checksum_fold32.simps [of s])
  next
    case False
    then show ?thesis
      using fold32_guard [of s] by (simp add: ip_checksum_fold32.simps [of s])
  qed
qed

lemma fold16_spec:
  "unat s < 2 ^ 32 \<Longrightarrow>
     unat (ip_checksum_fold16 s) < 2 ^ 16 \<and> csum16 (unat (ip_checksum_fold16 s)) = csum16 (unat s)"
proof (induction s rule: ip_checksum_fold16.induct)
  case (1 s)
  show ?case
  proof (cases "s AND 0xffff0000 \<noteq> 0")
    case True
    let ?t = "drop_bit 16 s + (s AND 0xffff)"
    have t: "unat ?t = unat s div 2 ^ 16 + unat s mod 2 ^ 16"
      using unat_fold_step [of 16 s] by (simp add: mask_eq_exp_minus_1)
    have "csum16 (unat ?t) = csum16 (unat s)"
      unfolding t by (intro csum16_cong mod_fold_step fold_step_zero) simp
    moreover have "unat ?t < 2 ^ 32"
      using fold_step_less [of "2 ^ 16" "unat s"] fold16_guard(1) [OF True] "1.prems" t by simp
    ultimately show ?thesis
      using "1.IH" True by (simp add: ip_checksum_fold16.simps [of s])
  next
    case False
    then show ?thesis
      using fold16_guard(2) [of s] "1.prems" by (simp add: ip_checksum_fold16.simps [of s])
  qed
qed

lemma unat_u16_le [simp]: "unat (v :: u16) \<le> 65535"
  using unsigned_less [of v, where 'a = nat] by simp

lemma unat_not_u16: "unat (NOT (v :: u16)) = 65535 - unat v"
proof -
  have "NOT v = - 1 - v"
    by (simp add: not_eq_complement)
  also have "unat (- 1 - v) = 65535 - unat v"
    by (subst unat_sub) (simp_all add: word_le_nat_alt unsigned_minus_1_eq_mask mask_eq_exp_minus_1)
  finally show ?thesis .
qed

lemma unat_ip_checksum_fold: "unat (ip_checksum_fold s) = 65535 - csum16 (unat s)"
proof -
  let ?w = "ip_checksum_fold16 (ip_checksum_fold32 s)"
  have w: "unat ?w < 2 ^ 16" "csum16 (unat ?w) = csum16 (unat s)"
    using fold32_spec [of s] fold16_spec [of "ip_checksum_fold32 s"] by simp_all
  then have "csum16 (unat s) = unat ?w"
    by (simp add: csum16_id)
  moreover have "ucast (NOT ?w) = NOT (ucast ?w :: u16)"
    by (auto simp: bit_eq_iff bit_simps)
  moreover have "unat (ucast ?w :: u16) = unat ?w"
    using w(1) by (simp add: unsigned_ucast_eq take_bit_nat_eq_self)
  ultimately show ?thesis
    by (simp add: ip_checksum_fold_def unat_not_u16)
qed

subsection \<open>The accumulator\<close>

text \<open>The exact sum the loop accumulates when the 64-bit register does not overflow, and the
  sum of the 16-bit little-endian words it is congruent to.\<close>

fun sum_le32 :: "bytes \<Rightarrow> nat" where
  "sum_le32 (a # b # c # d # xs) = unat (le32_of a b c d) + sum_le32 xs"
| "sum_le32 [a, b, c] = unat (le16_of a b) + unat c"
| "sum_le32 [a, b] = unat (le16_of a b)"
| "sum_le32 [a] = unat a"
| "sum_le32 [] = 0"

fun sum_le16 :: "bytes \<Rightarrow> nat" where
  "sum_le16 (a # b # xs) = unat a + 256 * unat b + sum_le16 xs"
| "sum_le16 [a] = unat a"
| "sum_le16 [] = 0"

lemma unat_ucast_u64 [simp]:
  "unat (ucast (x :: u32) :: u64) = unat x" "unat (ucast (y :: u16) :: u64) = unat y"
  using unsigned_less [of x, where 'a = nat] unsigned_less [of y, where 'a = nat]
  by (simp_all add: unsigned_ucast_eq take_bit_nat_eq_self)

lemma padded_byte [simp]: "unat (ntohs (push_bit 8 (ucast (c :: u8)))) = unat c"
proof -
  have "push_bit 8 (ucast c) = be16_of c 0"
    by (simp add: be16_of_def)
  then show ?thesis
    by (simp add: unat_be16_of)
qed

lemma sum_le32_bound: "sum_le32 xs \<le> 2 ^ 32 * length xs"
proof (induction xs rule: sum_le32.induct)
  case (1 a b c d xs)
  moreover have "unat (le32_of a b c d) < 2 ^ 32"
    using unsigned_less [of "le32_of a b c d", where 'a = nat] by simp
  ultimately show ?case by simp
next
  case (2 a b c)
  have "unat c < 256" "unat (le16_of a b) \<le> 65535" by simp_all
  then have "unat (le16_of a b) + unat c \<le> 12884901888" by linarith
  then show ?case by simp
next
  case (3 a b)
  have "unat (le16_of a b) \<le> 65535" by simp
  then have "unat (le16_of a b) \<le> 8589934592" by linarith
  then show ?case by simp
next
  case (4 a)
  have "unat a < 256" by simp
  then have "unat a \<le> 4294967296" by linarith
  then show ?case by simp
qed simp

lemma unat_ip_checksum_partial:
  "unat s + sum_le32 xs < 2 ^ 64 \<Longrightarrow> unat (ip_checksum_partial xs s) = unat s + sum_le32 xs"
  by (induction xs s rule: ip_checksum_partial.induct) (simp_all add: unat_word_ariths)

lemma mod_65536_step: "(x + 65536 * y) mod 65535 = (x + y) mod (65535 :: nat)"
proof -
  have "x + 65536 * y = x + y + y * 65535" by simp
  then show ?thesis by (simp only: mod_mult_self1)
qed

lemma sum_le32_le16: "sum_le32 xs mod 65535 = sum_le16 xs mod 65535"
proof (induction xs rule: sum_le32.induct)
  case (1 a b c d xs)
  let ?x = "unat a + 256 * unat b" and ?y = "unat c + 256 * unat d"
  have "unat (le32_of a b c d) = ?x + 65536 * ?y"
    by (simp add: le32_of_def unat_get_unaligned_be32)
  then have "unat (le32_of a b c d) mod 65535 = (?x + ?y) mod 65535"
    by (simp only: mod_65536_step)
  then have "(unat (le32_of a b c d) + sum_le32 xs) mod 65535 = (?x + ?y + sum_le16 xs) mod 65535"
    using 1 by (intro mod_add_cong)
  then show ?case
    by (simp add: add.assoc)
qed (simp_all add: le16_of_def unat_be16_of add.commute)

lemma sum_le32_eq_0: "sum_le32 xs = 0 \<longleftrightarrow> sum_le16 xs = 0"
  by (induction xs rule: sum_le32.induct)
    (auto simp: le32_of_def le16_of_def unat_get_unaligned_be32 unat_be16_of)

lemma sum_le16_append: "even (length xs) \<Longrightarrow> sum_le16 (xs @ ys) = sum_le16 xs + sum_le16 ys"
  by (induction xs rule: sum_le16.induct) simp_all

text \<open>The whole computation, for any buffer the 64-bit accumulator can hold.\<close>

lemma unat_fold_partial:
  assumes "length xs < 2 ^ 31"
  shows "unat (ip_checksum_fold (ip_checksum_partial xs 0)) = 65535 - csum16 (sum_le16 xs)"
proof -
  have "sum_le32 xs \<le> 2 ^ 32 * length xs"
    by (rule sum_le32_bound)
  also have "\<dots> < 2 ^ 64"
    using assms by simp
  finally have "unat (ip_checksum_partial xs 0) = sum_le32 xs"
    by (subst unat_ip_checksum_partial) simp_all
  moreover have "csum16 (sum_le32 xs) = csum16 (sum_le16 xs)"
    by (rule csum16_cong) (simp_all only: sum_le32_le16 sum_le32_eq_0)
  ultimately show ?thesis
    by (simp add: unat_ip_checksum_fold)
qed

lemma ip_checksum_partial_append:
  "length xs mod 4 = 0 \<Longrightarrow>
     ip_checksum_partial (xs @ ys) s = ip_checksum_partial ys (ip_checksum_partial xs s)"
proof (induction xs s rule: ip_checksum_partial.induct)
  case (1 a b c d xs s)
  have "length (a # b # c # d # xs) = length xs + 4" by simp
  with "1.prems" have "length xs mod 4 = 0" by presburger
  with "1.IH" show ?case by simp
qed simp_all

subsection \<open>Agreement with RFC 1071\<close>

lemma oc_add_csum16:
  assumes "x < 65536"
  shows "oc_add x (csum16 S) = csum16 (x + S)"
proof (rule csum16_unique [symmetric])
  have c: "csum16 S < 65536" by simp
  with assms show "oc_add x (csum16 S) < 65536"
    unfolding oc_add_def by (simp only: split: if_split) linarith
  have "(x + csum16 S - 65535) mod 65535 = (x + csum16 S) mod 65535" if "65535 \<le> x + csum16 S"
    using that by (rule le_mod_geq [symmetric])
  then have "oc_add x (csum16 S) mod 65535 = (x + csum16 S) mod 65535"
    by (simp add: oc_add_def)
  also have "\<dots> = (x + S) mod 65535"
    by (metis csum16_mod mod_add_right_eq)
  finally show "oc_add x (csum16 S) mod 65535 = (x + S) mod 65535" .
  show "oc_add x (csum16 S) = 0 \<longleftrightarrow> x + S = 0"
    by (auto simp: oc_add_def)
qed

lemma be16_sum_le:
  "sum_list (rfc1071_words xs) mod 65535 = 256 * sum_le16 xs mod 65535"
proof (induction xs rule: rfc1071_words.induct)
  case (1 a b xs)
  have "256 * (unat a + 256 * unat b) mod 65535 = (256 * unat a + 65536 * unat b) mod 65535"
    by (simp add: algebra_simps)
  also have "\<dots> = (256 * unat a + unat b) mod 65535"
    by (rule mod_65536_step)
  finally have "(256 * unat a + unat b + sum_list (rfc1071_words xs)) mod 65535 =
      (256 * (unat a + 256 * unat b) + 256 * sum_le16 xs) mod 65535"
    using 1 by (intro mod_add_cong) simp_all
  then show ?case
    by (simp only: rfc1071_words.simps sum_list.Cons sum_le16.simps distrib_left)
qed simp_all

lemma be16_sum_eq_0: "sum_list (rfc1071_words xs) = 0 \<longleftrightarrow> sum_le16 xs = 0"
  by (induction xs rule: rfc1071_words.induct) auto

lemma rfc1071_words_less: "\<forall>w \<in> set (rfc1071_words xs). w < 65536"
proof (induction xs rule: rfc1071_words.induct)
  case (1 a b xs)
  have "unat a < 256" "unat b < 256" by simp_all
  then have "256 * unat a + unat b < 65536" by linarith
  with 1 show ?case by simp
next
  case (2 a)
  have "unat a < 256" by simp
  then have "256 * unat a < 65536" by linarith
  then show ?case by simp
qed simp

lemma foldr_oc_add:
  "\<forall>w \<in> set ws. w < 65536 \<Longrightarrow> foldr oc_add ws 0 = csum16 (sum_list ws)"
  by (induction ws) (simp_all add: oc_add_csum16 csum16_id)

lemma rfc1071_checksum_eq: "rfc1071_checksum xs = 65535 - csum16 (sum_list (rfc1071_words xs))"
  by (simp add: rfc1071_checksum_def foldr_oc_add rfc1071_words_less)

text \<open>Swapping the bytes of a 16-bit ones' complement number multiplies it by 256.\<close>

lemma swap_csum16:
  assumes "x < 65536"
  shows "256 * (x mod 256) + x div 256 = csum16 (256 * x)"
proof (rule csum16_unique [symmetric])
  have "x mod 256 < 256" "x div 256 < 256"
    using assms by simp_all
  then show "256 * (x mod 256) + x div 256 < 65536" by linarith
  have "256 * x = 256 * (x mod 256) + 65536 * (x div 256)"
    using mult_div_mod_eq [of 256 x] by linarith
  then show "(256 * (x mod 256) + x div 256) mod 65535 = 256 * x mod 65535"
    by (simp only: mod_65536_step)
  show "256 * (x mod 256) + x div 256 = 0 \<longleftrightarrow> 256 * x = 0"
    using mult_div_mod_eq [of 256 x] by auto
qed

lemma unat_ntohs_csum16:
  assumes "unat v = 65535 - csum16 S"
  shows "unat (ntohs v) = 65535 - csum16 (256 * S)"
proof -
  have nv: "unat (NOT v) = csum16 S"
    unfolding unat_not_u16 assms using csum16_less [of S] by linarith
  have "ntohs (NOT v) = NOT (ntohs v)"
    by (rule bit_word_eqI) (auto simp: ntohs_def be16_of_def bit_simps)
  then have "unat (ntohs v) = 65535 - unat (ntohs (NOT v))"
    by (simp add: unat_not_u16)
  also have "unat (ntohs (NOT v)) = csum16 (256 * csum16 S)"
    by (simp add: unat_ntohs nv swap_csum16)
  also have "\<dots> = csum16 (256 * S)"
    by (rule csum16_cong) (metis csum16_mod mod_mult_right_eq, simp)
  finally show ?thesis .
qed

lemma fold_partial_rfc1071:
  assumes "length xs < 2 ^ 31"
  shows "unat (ntohs (ip_checksum_fold (ip_checksum_partial xs 0))) = rfc1071_checksum xs"
proof -
  have "csum16 (256 * sum_le16 xs) = csum16 (sum_list (rfc1071_words xs))"
    by (rule csum16_cong) (simp only: be16_sum_le, simp only: be16_sum_eq_0, simp)
  then show ?thesis
    using unat_ntohs_csum16 [OF unat_fold_partial [OF assms]] by (simp add: rfc1071_checksum_eq)
qed

subsection \<open>Filling in the checksum field\<close>

text \<open>A receiver recomputes the sum over the data with the checksum in place and expects zero.\<close>

lemma fold_partial_zero_iff:
  assumes "length xs < 2 ^ 31"
  shows "ip_checksum_fold (ip_checksum_partial xs 0) = 0 \<longleftrightarrow> sum_le16 xs \<noteq> 0 \<and> 65535 dvd sum_le16 xs"
proof -
  have "ip_checksum_fold (ip_checksum_partial xs 0) = 0 \<longleftrightarrow> csum16 (sum_le16 xs) = 65535"
    unfolding word_unat_eq_iff unat_fold_partial [OF assms] unsigned_0
    using csum16_less [of "sum_le16 xs"] by linarith
  also have "\<dots> \<longleftrightarrow> sum_le16 xs \<noteq> 0 \<and> 65535 dvd sum_le16 xs"
  proof
    assume "csum16 (sum_le16 xs) = 65535"
    then show "sum_le16 xs \<noteq> 0 \<and> 65535 dvd sum_le16 xs"
      by (metis csum16_0 csum16_mod mod_self dvd_eq_mod_eq_0 zero_neq_numeral)
  next
    assume "sum_le16 xs \<noteq> 0 \<and> 65535 dvd sum_le16 xs"
    then show "csum16 (sum_le16 xs) = 65535"
      by (intro csum16_unique) (simp_all add: dvd_eq_mod_eq_0)
  qed
  finally show ?thesis .
qed

lemma sum_le16_le16_to [simp]: "sum_le16 (le16_to v) = unat v"
proof -
  have "unat v = 256 * unat (ucast (drop_bit 8 v) :: u8) + unat (ucast v :: u8)"
    using be16_of_to [of v] unat_be16_of by (metis be16_to_def nth_Cons_0 nth_Cons_Suc)
  then show ?thesis
    by (simp add: le16_to_def)
qed

lemma checksum_fill:
  assumes len: "length (pre @ [0, 0] @ post) < 2 ^ 31" and ev: "even (length pre)"
    and c: "c = ip_checksum_fold (ip_checksum_partial (pre @ [0, 0] @ post) 0)"
  shows "ip_checksum_fold (ip_checksum_partial (pre @ le16_to c @ post) 0) = 0"
proof -
  let ?S = "sum_le16 pre + sum_le16 post"
  have S0: "sum_le16 (pre @ [0, 0] @ post) = ?S"
    using ev by (simp add: sum_le16_append)
  have Sc: "sum_le16 (pre @ le16_to c @ post) = ?S + unat c"
    using ev by (simp add: sum_le16_append)
  have uc: "unat c = 65535 - csum16 ?S"
    unfolding c by (simp only: unat_fold_partial [OF len] S0)
  have "(?S + unat c) mod 65535 = (csum16 ?S + unat c) mod 65535"
    by (intro mod_add_cong) simp_all
  also have "csum16 ?S + unat c = 65535"
    using uc csum16_less [of ?S] by linarith
  finally have "65535 dvd ?S + unat c"
    by (simp add: dvd_eq_mod_eq_0)
  moreover have "?S + unat c \<noteq> 0"
  proof (cases "?S = 0")
    case True
    then show ?thesis using uc by simp
  next
    case False
    then show ?thesis by linarith
  qed
  ultimately show ?thesis
    using len by (subst fold_partial_zero_iff) (simp_all add: Sc)
qed

section \<open>CRC32C\<close>

lemma crc_bit_xor: "crc_bit (x XOR y) = crc_bit x XOR crc_bit y"
proof -
  have "drop_bit 1 (x XOR y) = drop_bit 1 x XOR drop_bit 1 y"
    by (rule drop_bit_xor)
  then show ?thesis
    by (auto simp: crc_bit_def bit_xor_iff ac_simps)
qed

lemma crc_byte_xor: "crc_byte (x XOR y) = crc_byte x XOR crc_byte y"
  by (simp add: crc_byte_def crc_bit_xor)

lemma crc_bit_even: "\<not> bit x 0 \<Longrightarrow> crc_bit x = drop_bit 1 x"
  by (simp add: crc_bit_def)

lemma crc_byte_high: "x AND 0xFF = 0 \<Longrightarrow> crc_byte x = drop_bit 8 x"
proof -
  assume "x AND 0xFF = 0"
  then have "x AND mask 8 = 0"
    by (simp add: mask_eq_exp_minus_1)
  then have nb: "\<not> bit x n" if "n < 8" for n
    using that by (auto simp: bit_eq_iff bit_simps dest: spec [of _ n])
  show ?thesis
    unfolding crc_byte_def
    by (simp add: crc_bit_even nb bit_drop_bit_eq drop_bit_drop_bit eval_nat_numeral)
qed

definition crc_hi :: "u32 list" where
  "crc_hi = map (\<lambda>i. crc_c ! (16 * i)) [0..<16]"

lemma length_crc_c [simp]: "length crc_c = 256"
  by (simp add: crc_c_def)

lemma crc_c_nibbles: "crc_c = concat (map (\<lambda>h. map (\<lambda>l. h XOR l) (take 16 crc_c)) crc_hi)"
  by (simp add: crc_c_def crc_hi_def upt_rec)

lemma crc_lo_bytes: "map crc_byte (map of_nat [0..<16]) = take 16 crc_c"
  by (simp add: crc_byte_def crc_bit_def crc_c_def upt_rec)

lemma crc_hi_bytes: "map crc_byte (map (\<lambda>i. of_nat (16 * i)) [0..<16]) = crc_hi"
  by (simp add: crc_byte_def crc_bit_def crc_c_def crc_hi_def upt_rec)

lemma nth_concat_rect:
  assumes "i < length xs * n" and "length ys = n"
  shows "concat (map (\<lambda>h. map (f h) ys) xs) ! i = f (xs ! (i div n)) (ys ! (i mod n))"
  using assms(1)
proof (induction xs arbitrary: i)
  case Nil
  then show ?case by simp
next
  case (Cons x xs)
  then have n: "0 < n" by (cases n) simp_all
  show ?case
  proof (cases "i < n")
    case True
    with assms(2) show ?thesis by (simp add: nth_append)
  next
    case False
    with Cons.prems have "i - n < length xs * n" by simp
    moreover have "i div n = Suc ((i - n) div n)" "i mod n = (i - n) mod n"
      using False n by (simp_all add: le_div_geq le_mod_geq)
    ultimately show ?thesis
      using False assms(2) Cons.IH [of "i - n"] by (simp add: nth_append)
  qed
qed

lemma crc_c_nth:
  assumes "i < 256"
  shows "crc_c ! i = crc_byte (of_nat i)"
proof -
  have h: "i div 16 < 16" "i mod 16 < 16"
    using assms by auto
  have "crc_c ! i = concat (map (\<lambda>h. map (\<lambda>l. h XOR l) (take 16 crc_c)) crc_hi) ! i"
    by (rule arg_cong [OF crc_c_nibbles])
  also have "\<dots> = crc_hi ! (i div 16) XOR take 16 crc_c ! (i mod 16)"
    using assms by (intro nth_concat_rect) (simp_all add: crc_hi_def)
  also have "crc_hi ! (i div 16) = crc_byte (of_nat (16 * (i div 16)))"
    using h by (simp flip: crc_hi_bytes)
  also have "take 16 crc_c ! (i mod 16) = crc_byte (of_nat (i mod 16))"
    using h by (simp flip: crc_lo_bytes)
  also have "crc_byte (of_nat (16 * (i div 16))) XOR crc_byte (of_nat (i mod 16)) =
      crc_byte (of_nat (16 * (i div 16)) XOR of_nat (i mod 16))"
    by (simp only: crc_byte_xor)
  also have "of_nat (16 * (i div 16)) XOR of_nat (i mod 16) = (of_nat i :: u32)"
  proof -
    have "push_bit 4 (drop_bit 4 i) AND take_bit 4 i = 0"
      by (rule bit_eqI) (simp add: bit_simps)
    then have "push_bit 4 (drop_bit 4 i) XOR take_bit 4 i = i"
      by (metis bits_ident disjunctive_add_eq_xor)
    then have "16 * (i div 16) XOR i mod 16 = i"
      by (simp add: push_bit_nat_def drop_bit_nat_def take_bit_nat_def mult.commute)
    then show ?thesis
      by (metis of_nat_xor_eq)
  qed
  finally show ?thesis .
qed

lemma CRC32C_crc_byte: "CRC32C c d = crc_byte (c XOR ucast d)"
proof -
  let ?x = "c XOR ucast d"
  have mask8: "(0xFF :: u32) = mask 8"
    by (simp add: mask_eq_exp_minus_1)
  have "unat (?x AND 0xFF) = unat ?x mod 2 ^ 8"
    unfolding mask8 by (metis take_bit_eq_mask take_bit_eq_mod unsigned_take_bit_eq)
  then have "unat (?x AND 0xFF) < 256"
    by simp
  then have "crc_c ! unat (?x AND 0xFF) = crc_byte (?x AND 0xFF)"
    by (simp add: crc_c_nth)
  moreover have "drop_bit 8 c = crc_byte (?x AND NOT 0xFF)"
  proof -
    have "crc_byte (?x AND NOT 0xFF) = drop_bit 8 (?x AND NOT 0xFF)"
      by (rule crc_byte_high) (auto simp: bit_eq_iff bit_simps)
    also have "\<dots> = drop_bit 8 c"
      unfolding mask8
      by (rule bit_word_eqI) (auto simp: bit_simps dest: bit_u8_bound bit_imp_le_length)
    finally show ?thesis by simp
  qed
  moreover have "(?x AND NOT 0xFF) XOR (?x AND 0xFF) = ?x"
    by (auto simp: bit_eq_iff bit_simps)
  ultimately show ?thesis
    by (metis CRC32C_def crc_byte_xor)
qed

lemma crc32c_loop_foldl: "crc32c_loop c xs = foldl (\<lambda>c d. crc_byte (c XOR ucast d)) c xs"
  by (induction xs arbitrary: c) (simp_all add: CRC32C_crc_byte)

lemma sctp_crc32c_bytes: "sctp_crc32c xs = NOT (crc32c_loop (NOT 0) xs)"
proof -
  define w where "w = NOT (crc32c_loop (NOT 0) xs)"
  have byte: "x AND 0xff = (ucast (ucast x :: u8) :: u32)" for x :: u32
  proof -
    have "x AND mask 8 = (ucast (ucast x :: u8) :: u32)"
      by (rule bit_word_eqI) (auto simp: bit_simps)
    then show ?thesis
      by (simp add: mask_eq_exp_minus_1)
  qed
  have "sctp_crc32c xs = ntohl (ntohl w)"
    unfolding sctp_crc32c_def Let_def w_def [symmetric] byte ntohl_def [of w]
      get_unaligned_be32_def [of "ucast w"] by (rule refl)
  then show ?thesis
    by (simp add: w_def)
qed

section \<open>Properties\<close>

text \<open>C21: the IPv4 header checksum the code computes with 32-bit host-order loads, read in network
  order, is the RFC 1071 checksum of the bytes, for every buffer shorter than 2 GB.\<close>

theorem ipv4_checksum_rfc1071:
  assumes "length hdr < 2 ^ 31"
  shows "unat (ntohs (ipv4_checksum hdr)) = rfc1071_checksum hdr"
  using fold_partial_rfc1071 [OF assms] by (simp add: ipv4_checksum_def)

theorem ipv4_checksum_rfc1071_witness:
  "unat (ntohs (ipv4_checksum [0x45, 0, 0, 0x73, 0, 0, 0x40, 0, 0x40, 0x11, 0, 0,
     0xc0, 0xa8, 0, 1, 0xc0, 0xa8, 0, 0xc7])) = 0xb861"
  by (subst ipv4_checksum_rfc1071) (simp_all add: rfc1071_checksum_def oc_add_def)

text \<open>The TCP and UDP checksums are the RFC 1071 checksum of the pseudo-header (RFC 793 for
  IPv4, RFC 2460 for IPv6) followed by the segment.\<close>

theorem tcp_udp_checksum_rfc1071:
  assumes "length src4 = 4" "length dst4 = 4" "length src6 = 16" "length dst6 = 16"
    and "unat len32 < 2 ^ 30"
  shows "unat (ntohs (tcp_udp_v4_checksum src4 dst4 proto payload len16)) =
           rfc1071_checksum (src4 @ dst4 @ [0, proto] @ be16_to len16 @ take (unat len16) payload) \<and>
         unat (ntohs (tcp_udp_v6_checksum src6 dst6 proto payload len32)) =
           rfc1071_checksum
             (src6 @ dst6 @ put_unaligned_be32 len32 @ [0, 0, 0, proto] @ take (unat len32) payload)"
proof
  let ?p4 = "src4 @ dst4 @ [0, proto] @ be16_to len16"
  have "tcp_udp_v4_checksum src4 dst4 proto payload len16 =
      ip_checksum_fold (ip_checksum_partial (?p4 @ take (unat len16) payload) 0)"
    by (subst ip_checksum_partial_append)
      (simp_all add: assms tcp_udp_v4_checksum_def tcp_udp_v4_header_checksum_partial_def)
  moreover have "length (?p4 @ take (unat len16) payload) < 2 ^ 31"
  proof -
    have "min (length payload) (unat len16) \<le> 65535"
      by (rule min.coboundedI2) simp
    then have "min (length payload) (unat len16) < 2147483636"
      by linarith
    then show ?thesis
      by (simp add: assms)
  qed
  ultimately show "unat (ntohs (tcp_udp_v4_checksum src4 dst4 proto payload len16)) =
      rfc1071_checksum (src4 @ dst4 @ [0, proto] @ be16_to len16 @ take (unat len16) payload)"
    using fold_partial_rfc1071 by (metis append_assoc)
  let ?p6 = "src6 @ dst6 @ put_unaligned_be32 len32 @ [0, 0, 0, proto]"
  have "tcp_udp_v6_checksum src6 dst6 proto payload len32 =
      ip_checksum_fold (ip_checksum_partial (?p6 @ take (unat len32) payload) 0)"
    by (subst ip_checksum_partial_append)
      (simp_all add: assms tcp_udp_v6_checksum_def tcp_udp_v6_header_checksum_partial_def)
  moreover have "length (?p6 @ take (unat len32) payload) < 2 ^ 31"
    using assms by simp
  ultimately show "unat (ntohs (tcp_udp_v6_checksum src6 dst6 proto payload len32)) =
      rfc1071_checksum
        (src6 @ dst6 @ put_unaligned_be32 len32 @ [0, 0, 0, proto] @ take (unat len32) payload)"
    using fold_partial_rfc1071 by (metis append_assoc)
qed

theorem tcp_udp_checksum_rfc1071_witness:
  "unat (ntohs (tcp_udp_v4_checksum [192, 168, 0, 1] [192, 168, 0, 2] 17 [0, 53, 0, 53, 0, 9, 0, 0, 7] 9))
     = 0x771e \<and>
   unat (ntohs (tcp_udp_v6_checksum [1, 1, 1, 1, 1, 1, 1, 1, 1, 1, 1, 1, 1, 1, 1, 1]
     [2, 2, 2, 2, 2, 2, 2, 2, 2, 2, 2, 2, 2, 2, 2, 2] 17 [0, 53, 0, 53, 0, 9, 0, 0, 7] 9))
     = 0xe05a"
  using tcp_udp_checksum_rfc1071 [of "[192, 168, 0, 1]" "[192, 168, 0, 2]"
      "[1, 1, 1, 1, 1, 1, 1, 1, 1, 1, 1, 1, 1, 1, 1, 1]" "[2, 2, 2, 2, 2, 2, 2, 2, 2, 2, 2, 2, 2, 2, 2, 2]"
      9 17 "[0, 53, 0, 53, 0, 9, 0, 0, 7]" 9]
  by (simp add: rfc1071_checksum_def oc_add_def be16_to_def put_unaligned_be32_def)

text \<open>storing the computed checksum into its zeroed 16-bit field (at an even offset, as in every
  header that has one) makes the sum over the filled-in data come out as zero, which is what
  \<^verbatim>\<open>parse_ipv4\<close> and every receiver test.\<close>

theorem ipv4_checksum_fill_verifies:
  assumes "length (pre @ [0, 0] @ post) < 2 ^ 31" and "even (length pre)"
  shows "ipv4_checksum (pre @ le16_to (ipv4_checksum (pre @ [0, 0] @ post)) @ post) = 0"
  using checksum_fill [OF assms] by (simp add: ipv4_checksum_def)

theorem ipv4_checksum_fill_verifies_witness:
  "ipv4_checksum ([0x45, 0] @ le16_to (ipv4_checksum ([0x45, 0] @ [0, 0] @ [7])) @ [7]) = 0"
  by (rule ipv4_checksum_fill_verifies) simp_all

text \<open>C22: the table-driven loop of \<^verbatim>\<open>sctp_crc32c\<close> computes the bit-serial CRC-32C of the packet, for
  every packet.\<close>

theorem sctp_crc32c_correct: "sctp_crc32c packet = crc32c_spec packet"
  by (simp add: sctp_crc32c_bytes crc32c_loop_foldl crc32c_spec_def)

end
