(* ===== verification/Ip_Packet.thy ===== *)
theory Ip_Packet
  imports Packet Checksum
begin

text \<open>
  Construction of network-layer headers: \<^verbatim>\<open>ip_packet.c\<close>, \<^verbatim>\<open>gre_packet.c\<close>, \<^verbatim>\<open>mpls_packet.c\<close> and the table
  \<^verbatim>\<open>header_types\<close> of \<^verbatim>\<open>packet.c\<close>. The text-to-address conversion \<^verbatim>\<open>inet_pton\<close> of the C library is the
  parameter \<open>inet_pton\<close> of the functions that call it.
\<close>

section \<open>IP headers\<close>

definition ip_ecn_bits :: "ip_ecn_t \<Rightarrow> u8" where
  "ip_ecn_bits ecn =
     (if ecn = ECN_ECT0 then 2 else if ecn = ECN_ECT1 then 1 else if ecn = ECN_CE then 3 else 0)"

text \<open>Writing a 4-bit field in the upper or the lower half of a byte.\<close>

definition wr_hi4 :: "bytes \<Rightarrow> nat \<Rightarrow> u8 \<Rightarrow> bytes option" where
  "wr_hi4 b i v = do { x \<leftarrow> rd8 b i; wr8 b i ((x AND 0x0f) OR push_bit 4 (v AND 0x0f)) }"

definition wr_lo4 :: "bytes \<Rightarrow> nat \<Rightarrow> u8 \<Rightarrow> bytes option" where
  "wr_lo4 b i v = do { x \<leftarrow> rd8 b i; wr8 b i ((x AND 0xf0) OR (v AND 0x0f)) }"

definition set_ipv4_header :: "bytes \<Rightarrow> nat \<Rightarrow> u16 \<Rightarrow> ip_ecn_t \<Rightarrow> u8 \<Rightarrow> bytes option" where
  "set_ipv4_header b p ip_bytes ecn protocol = do {
     b \<leftarrow> wr_hi4 b p 4;
     b \<leftarrow> wr_lo4 b p 5;
     b \<leftarrow> wr8 b (p + 1) (ip_ecn_bits ecn);
     b \<leftarrow> wr16 b (p + 2) ip_bytes;
     b \<leftarrow> wr16 b (p + 4) 0;
     b \<leftarrow> wr16 b (p + 6) 0;
     b \<leftarrow> wr8 b (p + 8) 255;
     b \<leftarrow> wr8 b (p + 9) protocol;
     b \<leftarrow> wr16 b (p + 10) 0;
     b \<leftarrow> wr_bytes b (p + 12) (replicate 4 0);
     wr_bytes b (p + 16) (replicate 4 0)
   }"

definition set_ipv6_header :: "bytes \<Rightarrow> nat \<Rightarrow> u16 \<Rightarrow> ip_ecn_t \<Rightarrow> u8 \<Rightarrow> bytes option" where
  "set_ipv6_header b p ip_bytes ecn protocol = do {
     b \<leftarrow> wr_hi4 b p 6;
     b \<leftarrow> wr_lo4 b p 0;
     b \<leftarrow> wr_hi4 b (p + 1) (ip_ecn_bits ecn);
     b \<leftarrow> wr_lo4 b (p + 1) 0;
     b \<leftarrow> wr16 b (p + 2) 0;
     c_assert (unat ip_bytes \<ge> sizeof_ipv6);
     b \<leftarrow> wr16 b (p + 4) (ip_bytes - 40);
     b \<leftarrow> wr8 b (p + 6) protocol;
     b \<leftarrow> wr8 b (p + 7) 255;
     b \<leftarrow> wr_bytes b (p + 8) (replicate 16 0);
     wr_bytes b (p + 24) (replicate 16 0)
   }"

definition set_ip_header :: "bytes \<Rightarrow> nat \<Rightarrow> address_family \<Rightarrow> u16 \<Rightarrow> ip_ecn_t \<Rightarrow> u8 \<Rightarrow> bytes option" where
  "set_ip_header b p af ip_bytes ecn protocol = (case af of
      AF_INET \<Rightarrow> set_ipv4_header b p ip_bytes ecn protocol
    | AF_INET6 \<Rightarrow> set_ipv6_header b p ip_bytes ecn protocol
    | AF_UNSPEC \<Rightarrow> None)"

text \<open>The caller passes an \<^verbatim>\<open>int\<close> that C converts to the \<^verbatim>\<open>u16\<close> parameter. The result of
  \<^verbatim>\<open>packet_append_header\<close> is used without a check: a null pointer there would end the program.\<close>

definition set_packet_ip_header ::
    "packet \<Rightarrow> address_family \<Rightarrow> u16 \<Rightarrow> ip_ecn_t \<Rightarrow> u8 \<Rightarrow> packet option" where
  "set_packet_ip_header pkt af ip_bytes ecn protocol = (case af of
      AF_INET \<Rightarrow> do {
        let pkt = pkt\<lparr>pkt_ipv4 := Some 0\<rparr>;
        c_assert (pkt_ipv6 pkt = None);
        (pkt, idx) \<leftarrow> packet_append_header pkt HEADER_IPV4 sizeof_ipv4;
        i \<leftarrow> idx;
        upd_buffer (\<lambda>b. set_ipv4_header b 0 ip_bytes ecn protocol)
          (set_total_bytes i (unat ip_bytes) pkt)
      }
    | AF_INET6 \<Rightarrow> do {
        let pkt = pkt\<lparr>pkt_ipv6 := Some 0\<rparr>;
        c_assert (pkt_ipv4 pkt = None);
        (pkt, idx) \<leftarrow> packet_append_header pkt HEADER_IPV6 sizeof_ipv6;
        i \<leftarrow> idx;
        upd_buffer (\<lambda>b. set_ipv6_header b 0 ip_bytes ecn protocol)
          (set_total_bytes i (unat ip_bytes) pkt)
      }
    | AF_UNSPEC \<Rightarrow> None)"

datatype header_error =
    Too_many_headers | Bad_src_address string | Bad_dst_address string
  | MPLS_label_out_of_range | MPLS_traffic_class_out_of_range | MPLS_ttl_out_of_range

type_synonym pton = "address_family \<Rightarrow> string \<Rightarrow> bytes option"

definition ipv4_header_append ::
    "pton \<Rightarrow> packet \<Rightarrow> string \<Rightarrow> string \<Rightarrow> (header_error, packet) status option" where
  "ipv4_header_append inet_pton pkt ip_src ip_dst = do {
     (pkt, idx) \<leftarrow> packet_append_header pkt HEADER_IPV4 sizeof_ipv4;
     (case idx of
        None \<Rightarrow> Some (Inl Too_many_headers)
      | Some i \<Rightarrow> do {
          p \<leftarrow> hptr (pkt_headers pkt ! i);
          pkt \<leftarrow> upd_buffer (\<lambda>b. set_ip_header b p AF_INET 0 ECN_NONE 0) pkt;
          (case inet_pton AF_INET ip_src of
             None \<Rightarrow> Some (Inl (Bad_src_address ip_src))
           | Some src \<Rightarrow> do {
               pkt \<leftarrow> upd_buffer (\<lambda>b. wr_bytes b (p + 12) src) pkt;
               (case inet_pton AF_INET ip_dst of
                  None \<Rightarrow> Some (Inl (Bad_dst_address ip_dst))
                | Some dst \<Rightarrow> do {
                    pkt \<leftarrow> upd_buffer (\<lambda>b. wr_bytes b (p + 16) dst) pkt;
                    Some (Inr pkt)
                  })
             })
        })
   }"

definition ipv6_header_append ::
    "pton \<Rightarrow> packet \<Rightarrow> string \<Rightarrow> string \<Rightarrow> (header_error, packet) status option" where
  "ipv6_header_append inet_pton pkt ip_src ip_dst = do {
     (pkt, idx) \<leftarrow> packet_append_header pkt HEADER_IPV6 sizeof_ipv6;
     (case idx of
        None \<Rightarrow> Some (Inl Too_many_headers)
      | Some i \<Rightarrow> do {
          p \<leftarrow> hptr (pkt_headers pkt ! i);
          pkt \<leftarrow> upd_buffer (\<lambda>b. set_ip_header b p AF_INET6 40 ECN_NONE 0) pkt;
          (case inet_pton AF_INET6 ip_src of
             None \<Rightarrow> Some (Inl (Bad_src_address ip_src))
           | Some src \<Rightarrow> do {
               pkt \<leftarrow> upd_buffer (\<lambda>b. wr_bytes b (p + 8) src) pkt;
               (case inet_pton AF_INET6 ip_dst of
                  None \<Rightarrow> Some (Inl (Bad_dst_address ip_dst))
                | Some dst \<Rightarrow> do {
                    pkt \<leftarrow> upd_buffer (\<lambda>b. wr_bytes b (p + 24) dst) pkt;
                    Some (Inr pkt)
                  })
             })
        })
   }"

section \<open>GRE and MPLS headers\<close>

definition gre_header_append :: "packet \<Rightarrow> (header_error, packet) status option" where
  "gre_header_append pkt = do {
     (pkt, idx) \<leftarrow> packet_append_header pkt HEADER_GRE sizeof_gre;
     Some (if idx = None then Inl Too_many_headers else Inr pkt)
   }"

definition new_mpls_stack_entry :: "int \<Rightarrow> int \<Rightarrow> bool \<Rightarrow> int \<Rightarrow> (header_error, u32) status" where
  "new_mpls_stack_entry label traffic_class is_stack_bottom ttl =
     (if label < 0 \<or> label \<ge> 2 ^ 20 then Inl MPLS_label_out_of_range
      else if traffic_class < 0 \<or> traffic_class \<ge> 2 ^ 3 then Inl MPLS_traffic_class_out_of_range
      else if ttl < 0 \<or> ttl \<ge> 2 ^ 8 then Inl MPLS_ttl_out_of_range
      else Inr (mpls_entry_set (word_of_int label) (word_of_int traffic_class) is_stack_bottom
                  (word_of_int ttl)))"

definition mpls_header_append :: "packet \<Rightarrow> mpls_stack \<Rightarrow> (header_error, packet) status option" where
  "mpls_header_append pkt stack = do {
     (pkt, idx) \<leftarrow> packet_append_header pkt HEADER_MPLS (length stack * sizeof_mpls);
     (case idx of
        None \<Rightarrow> Some (Inl Too_many_headers)
      | Some i \<Rightarrow> do {
          p \<leftarrow> hptr (pkt_headers pkt ! i);
          pkt \<leftarrow> upd_buffer (\<lambda>b. wr_bytes b p (concat (map put_unaligned_be32 stack))) pkt;
          Some (Inr pkt)
        })
   }"

section \<open>Header types\<close>

datatype finish_fn = Finish_ipv4 | Finish_ipv6 | Finish_gre | Finish_mpls

record header_type_info =
  ip_proto :: u8
  eth_proto :: u16
  finish :: "finish_fn option"

text \<open>The table \<^verbatim>\<open>header_types\<close>, and the lookup with its assertion.\<close>

definition header_type_info :: "header_t \<Rightarrow> header_type_info option" where
  "header_type_info t = (case t of
      HEADER_NONE \<Rightarrow> None
    | HEADER_IPV4 \<Rightarrow> Some \<lparr> ip_proto = IPPROTO_IPIP, eth_proto = ETHERTYPE_IP, finish = Some Finish_ipv4 \<rparr>
    | HEADER_IPV6 \<Rightarrow> Some \<lparr> ip_proto = IPPROTO_IPV6, eth_proto = ETHERTYPE_IPV6, finish = Some Finish_ipv6 \<rparr>
    | HEADER_GRE \<Rightarrow> Some \<lparr> ip_proto = IPPROTO_GRE, eth_proto = 0, finish = Some Finish_gre \<rparr>
    | HEADER_MPLS \<Rightarrow> Some \<lparr> ip_proto = 0, eth_proto = ETHERTYPE_MPLS_UC, finish = Some Finish_mpls \<rparr>
    | HEADER_SCTP \<Rightarrow> Some \<lparr> ip_proto = IPPROTO_SCTP, eth_proto = 0, finish = None \<rparr>
    | HEADER_TCP \<Rightarrow> Some \<lparr> ip_proto = IPPROTO_TCP, eth_proto = 0, finish = None \<rparr>
    | HEADER_UDP \<Rightarrow> Some \<lparr> ip_proto = IPPROTO_UDP, eth_proto = 0, finish = None \<rparr>
    | HEADER_UDPLITE \<Rightarrow> Some \<lparr> ip_proto = IPPROTO_UDPLITE, eth_proto = 0, finish = None \<rparr>
    | HEADER_ICMPV4 \<Rightarrow> Some \<lparr> ip_proto = IPPROTO_ICMP, eth_proto = 0, finish = None \<rparr>
    | HEADER_ICMPV6 \<Rightarrow> Some \<lparr> ip_proto = IPPROTO_ICMPV6, eth_proto = 0, finish = None \<rparr>)"

text \<open>The finishing functions: they fill in what depends on the header inside. Each takes the index
  of the header and the next inner header, and updates the buffer and the \<^verbatim>\<open>total_bytes\<close>.\<close>

definition ipv4_header_finish :: "packet \<Rightarrow> nat \<Rightarrow> header \<Rightarrow> packet option" where
  "ipv4_header_finish pkt i next_inner = do {
     p \<leftarrow> hptr (pkt_headers pkt ! i);
     let ip_bytes = sizeof_ipv4 + total_bytes next_inner;
     pkt \<leftarrow> upd_buffer (\<lambda>b. wr16 b (p + 2) (of_nat ip_bytes)) pkt;
     info \<leftarrow> header_type_info (htype next_inner);
     pkt \<leftarrow> upd_buffer (\<lambda>b. wr8 b (p + 9) (ip_proto info)) pkt;
     pkt \<leftarrow> upd_buffer (\<lambda>b. wr16 b (p + 10) 0) pkt;
     hlen \<leftarrow> ipv4_header_len (pkt_buffer pkt) p;
     c_assert (p mod 4 = 0);
     hdr \<leftarrow> rd_bytes (pkt_buffer pkt) p hlen;
     pkt \<leftarrow> upd_buffer (\<lambda>b. wr16_host b (p + 10) (ipv4_checksum hdr)) pkt;
     Some (set_total_bytes i ip_bytes pkt)
   }"

definition ipv6_header_finish :: "packet \<Rightarrow> nat \<Rightarrow> header \<Rightarrow> packet option" where
  "ipv6_header_finish pkt i next_inner = do {
     p \<leftarrow> hptr (pkt_headers pkt ! i);
     let ip_bytes = sizeof_ipv6 + total_bytes next_inner;
     c_assert (total_bytes next_inner \<le> 0xffff);
     pkt \<leftarrow> upd_buffer (\<lambda>b. wr16 b (p + 4) (of_nat (total_bytes next_inner))) pkt;
     info \<leftarrow> header_type_info (htype next_inner);
     pkt \<leftarrow> upd_buffer (\<lambda>b. wr8 b (p + 6) (ip_proto info)) pkt;
     Some (set_total_bytes i ip_bytes pkt)
   }"

definition gre_header_finish :: "packet \<Rightarrow> nat \<Rightarrow> header \<Rightarrow> packet option" where
  "gre_header_finish pkt i next_inner = do {
     p \<leftarrow> hptr (pkt_headers pkt ! i);
     let gre_bytes = sizeof_gre + total_bytes next_inner;
     info \<leftarrow> header_type_info (htype next_inner);
     pkt \<leftarrow> upd_buffer (\<lambda>b. wr16 b (p + 2) (eth_proto info)) pkt;
     Some (set_total_bytes i gre_bytes pkt)
   }"

definition mpls_header_finish :: "packet \<Rightarrow> nat \<Rightarrow> header \<Rightarrow> packet option" where
  "mpls_header_finish pkt i next_inner =
     Some (set_total_bytes i (header_bytes (pkt_headers pkt ! i) + total_bytes next_inner) pkt)"

definition run_finish :: "finish_fn \<Rightarrow> packet \<Rightarrow> nat \<Rightarrow> header \<Rightarrow> packet option" where
  "run_finish f = (case f of
      Finish_ipv4 \<Rightarrow> ipv4_header_finish | Finish_ipv6 \<Rightarrow> ipv6_header_finish
    | Finish_gre \<Rightarrow> gre_header_finish | Finish_mpls \<Rightarrow> mpls_header_finish)"

section \<open>Wire form of the constructed headers\<close>

definition ipv4_header_wire :: "u16 \<Rightarrow> ip_ecn_t \<Rightarrow> u8 \<Rightarrow> bytes" where
  "ipv4_header_wire ip_bytes ecn protocol =
     [0x45, ip_ecn_bits ecn] @ be16_to ip_bytes @ [0, 0, 0, 0, 255, protocol, 0, 0] @ replicate 8 0"

definition ipv6_header_wire :: "u16 \<Rightarrow> ip_ecn_t \<Rightarrow> u8 \<Rightarrow> bytes" where
  "ipv6_header_wire payload_len ecn protocol =
     [0x60, push_bit 4 (ip_ecn_bits ecn), 0, 0] @ be16_to payload_len @ [protocol, 255] @ replicate 32 0"

lemma length_ip_header_wire [simp]:
  "length (ipv4_header_wire n ecn protocol) = 20" "length (ipv6_header_wire n ecn protocol) = 40"
  by (simp_all add: ipv4_header_wire_def ipv6_header_wire_def)

lemma nibbles:
  fixes x :: u8
  shows "((x AND 0x0f OR w) AND 0xf0) = w AND 0xf0"
proof -
  have "(0x0f :: u8) = mask 4" "(0xf0 :: u8) = NOT (mask 4)"
    by (simp_all add: mask_eq_exp_minus_1)
  then show ?thesis
    by (auto simp: bit_eq_iff bit_simps)
qed

lemmas wr_eval = wr_bytes_def rd8_def nth_append be16_to_def put_unaligned_be32_def

lemma set_ipv4_header_wire:
  assumes "length mid = 20"
  shows "set_ipv4_header (pre @ mid @ post) (length pre) ip_bytes ecn protocol =
     Some (pre @ ipv4_header_wire ip_bytes ecn protocol @ post)"
proof -
  obtain x0 x1 x2 x3 x4 x5 x6 x7 x8 x9 x10 x11 x12 x13 x14 x15 x16 x17 x18 x19 where
    mid: "mid = [x0, x1, x2, x3, x4, x5, x6, x7, x8, x9, x10, x11, x12, x13, x14, x15, x16, x17, x18, x19]"
    using assms by (rule length_20_cases)
  show ?thesis
    unfolding mid set_ipv4_header_def wr_hi4_def wr_lo4_def wr8_def wr16_def
    by (simp add: wr_eval nibbles ipv4_header_wire_def eval_nat_numeral)
qed

lemma length_40_cases:
  assumes "length xs = 40"
  obtains x0 x1 x2 x3 x4 x5 x6 x7 a b
  where "xs = [x0, x1, x2, x3, x4, x5, x6, x7] @ a @ b" and "length a = 16" and "length b = 16"
proof -
  have "length (take 8 xs) = 8"
    using assms by simp
  then obtain x0 x1 x2 x3 x4 x5 x6 x7 where "take 8 xs = [x0, x1, x2, x3, x4, x5, x6, x7]"
    by (rule length_8_cases)
  moreover have "xs = take 8 xs @ take 16 (drop 8 xs) @ drop 24 xs"
  proof -
    have "drop 24 xs = drop 16 (drop 8 xs)"
      by simp
    then show ?thesis
      by (simp only: append_take_drop_id)
  qed
  ultimately show ?thesis
    using assms that [of x0 x1 x2 x3 x4 x5 x6 x7 "take 16 (drop 8 xs)" "drop 24 xs"] by simp
qed

lemma set_ipv6_header_wire:
  assumes "length mid = 40" and "40 \<le> unat ip_bytes"
  shows "set_ipv6_header (pre @ mid @ post) (length pre) ip_bytes ecn protocol =
     Some (pre @ ipv6_header_wire (ip_bytes - 40) ecn protocol @ post)"
proof -
  obtain x0 x1 x2 x3 x4 x5 x6 x7 a b where
    mid: "mid = [x0, x1, x2, x3, x4, x5, x6, x7] @ a @ b" "length a = 16" "length b = 16"
    using assms(1) by (rule length_40_cases)
  have ecn: "ip_ecn_bits ecn AND 15 = ip_ecn_bits ecn" "push_bit 4 (ip_ecn_bits ecn) AND 0xf0 = push_bit 4 (ip_ecn_bits ecn)"
    by (simp_all add: ip_ecn_bits_def)
  have r32: "replicate 16 (0 :: u8) @ replicate 16 0 = replicate 32 0"
    by (simp flip: replicate_add)
  show ?thesis
    using mid(2,3) assms(2)
    unfolding mid(1) set_ipv6_header_def wr_hi4_def wr_lo4_def wr8_def wr16_def ipv6_header_wire_def
      r32 [symmetric]
    by (simp add: wr_eval nibbles ecn)
qed

subsection \<open>The IP header of a packet under construction\<close>

definition ip_header_wire :: "address_family \<Rightarrow> nat \<Rightarrow> ip_ecn_t \<Rightarrow> u8 \<Rightarrow> bytes" where
  "ip_header_wire af ip_bytes ecn protocol =
     (if af = AF_INET then ipv4_header_wire (of_nat ip_bytes) ecn protocol
      else ipv6_header_wire (of_nat (ip_bytes - 40)) ecn protocol)"

definition ip_header_type :: "address_family \<Rightarrow> header_t" where
  "ip_header_type af = (if af = AF_INET then HEADER_IPV4 else HEADER_IPV6)"

definition ip_header_size :: "address_family \<Rightarrow> nat" where
  "ip_header_size af = (if af = AF_INET then sizeof_ipv4 else sizeof_ipv6)"

definition set_ip_ptr :: "address_family \<Rightarrow> nat \<Rightarrow> packet \<Rightarrow> packet" where
  "set_ip_ptr af p pkt =
     (if af = AF_INET then pkt\<lparr>pkt_ipv4 := Some p\<rparr> else pkt\<lparr>pkt_ipv6 := Some p\<rparr>)"

lemma length_ip_header_wire_af [simp]:
  "length (ip_header_wire af n ecn protocol) = ip_header_size af"
  by (simp add: ip_header_wire_def ip_header_size_def)

lemma set_packet_ip_header_eq:
  assumes af: "af \<noteq> AF_UNSPEC" and fresh: "pkt_headers pkt = replicate PACKET_MAX_HEADERS no_header"
      "pkt_ip_bytes pkt = 0" "pkt_ipv4 pkt = None" "pkt_ipv6 pkt = None"
    and buf: "pkt_buffer pkt = mid @ post" "length mid = ip_header_size af"
    and n: "ip_header_size af \<le> n" "n < 65536"
  shows "set_packet_ip_header pkt af (of_nat n) ecn protocol =
     Some ((push_header (set_ip_ptr af 0 pkt) (ip_header_type af) (ip_header_size af) n)
       \<lparr>pkt_buffer := ip_header_wire af n ecn protocol @ post\<rparr>)"
proof -
  have n16: "unat (of_nat n :: u16) = n"
    using n(2) by (simp add: unat_of_nat)
  have sub: "(of_nat n :: u16) - 40 = of_nat (n - 40)" if "40 \<le> n"
    using that by (simp add: of_nat_diff)
  have cnt: "packet_header_count (set_ip_ptr af 0 pkt) = 0" and wf: "headers_wf (set_ip_ptr af 0 pkt)"
    using fresh_headers [of "set_ip_ptr af 0 pkt"] fresh
    by (simp_all add: packet_header_count_used set_ip_ptr_def)
  have wire4: "set_ipv4_header (mid @ post) 0 (of_nat n) ecn protocol =
      Some (ip_header_wire af n ecn protocol @ post)" if "af = AF_INET"
    using that buf(2) set_ipv4_header_wire [of mid "[]" post "of_nat n" ecn protocol]
    by (simp add: ip_header_wire_def ip_header_size_def)
  have wire6: "set_ipv6_header (mid @ post) 0 (of_nat n) ecn protocol =
      Some (ip_header_wire af n ecn protocol @ post)" if "af = AF_INET6"
  proof -
    have "set_ipv6_header ([] @ mid @ post) (length ([] :: bytes)) (of_nat n) ecn protocol =
        Some ([] @ ipv6_header_wire (of_nat n - 40) ecn protocol @ post)"
      using that buf(2) n(1) by (intro set_ipv6_header_wire) (simp_all only: n16, simp_all add: ip_header_size_def)
    then show ?thesis
      using that n(1) sub by (simp add: ip_header_wire_def ip_header_size_def)
  qed
  have app: "packet_append_header (set_ip_ptr af 0 pkt) (ip_header_type af) (ip_header_size af) =
      Some (push_header (set_ip_ptr af 0 pkt) (ip_header_type af) (ip_header_size af) 0, Some 0)"
    using cnt buf fresh(2) by (subst packet_append_header_eq [OF wf]) (simp add: set_ip_ptr_def)
  have tot: "set_total_bytes 0 n
       (push_header (set_ip_ptr af 0 pkt) (ip_header_type af) (ip_header_size af) 0) =
     push_header (set_ip_ptr af 0 pkt) (ip_header_type af) (ip_header_size af) n"
    using set_total_bytes_push [OF wf, of n] cnt by simp
  show ?thesis
    using app tot wire4 wire6 fresh(3,4) buf(1)
    by (cases af) (simp_all add: af set_packet_ip_header_def set_ip_ptr_def
        ip_header_type_def ip_header_size_def upd_buffer_def n16)
qed

end
