(* ===== verification/Encapsulation.thy ===== *)
theory Encapsulation
  imports Ip_Packet
begin

text \<open>
  Copying and encapsulating packets: the rest of \<^verbatim>\<open>packet.c\<close>.
\<close>

section \<open>The code\<close>

text \<open>\<^verbatim>\<open>offset_ptr\<close>: the new base lies \<open>headroom\<close> bytes into the new buffer.\<close>

definition offset_ptr :: "nat \<Rightarrow> nat option \<Rightarrow> nat option" where
  "offset_ptr headroom old_ptr = map_option (\<lambda>p. headroom + p) old_ptr"

text \<open>The loop of \<^verbatim>\<open>packet_copy_headers\<close> over the two header arrays.\<close>

fun copy_headers :: "nat \<Rightarrow> header list \<Rightarrow> header list \<Rightarrow> header list" where
  "copy_headers headroom (n # ns) (h # hs) =
     (if htype h = HEADER_NONE then n # ns
      else n\<lparr> hptr := offset_ptr headroom (hptr h), header_bytes := header_bytes h,
              total_bytes := total_bytes h, htype := htype h \<rparr> # copy_headers headroom ns hs)"
| "copy_headers headroom ns hs = ns"

definition packet_copy_headers :: "packet \<Rightarrow> packet \<Rightarrow> nat \<Rightarrow> packet" where
  "packet_copy_headers new_packet old_packet bytes_headroom =
     new_packet\<lparr> pkt_headers :=
       copy_headers bytes_headroom (pkt_headers new_packet) (pkt_headers old_packet) \<rparr>"

definition copy_item :: "nat \<Rightarrow> sctp_item \<Rightarrow> sctp_item" where
  "copy_item headroom item = item\<lparr> item_ptr := offset_ptr headroom (item_ptr item) \<rparr>"

definition copy_chunk_item :: "nat \<Rightarrow> sctp_chunk_list_item \<Rightarrow> sctp_chunk_list_item" where
  "copy_chunk_item headroom c = \<lparr>
     chunk_ptr = offset_ptr headroom (chunk_ptr c),
     chunk_length = chunk_length c, chunk_flags = chunk_flags c,
     parameter_list = map (copy_item headroom) (parameter_list c),
     cause_list = map (copy_item headroom) (cause_list c) \<rparr>"

definition packet_copy_with_headroom :: "(nat \<Rightarrow> u8) \<Rightarrow> packet \<Rightarrow> nat \<Rightarrow> packet option" where
  "packet_copy_with_headroom junk old bytes_headroom = do {
     bytes_used \<leftarrow> packet_end old;
     c_assert (bytes_used \<le> 128 * 1024);
     let pkt = packet_new junk (max (bytes_headroom + bytes_used) (pkt_buffer_bytes old));
     contents \<leftarrow> rd_bytes (pkt_buffer old) 0 bytes_used;
     pkt \<leftarrow> upd_buffer (\<lambda>b. wr_bytes b bytes_headroom contents) pkt;
     let pkt = pkt\<lparr> pkt_ip_bytes := pkt_ip_bytes old, pkt_direction := pkt_direction old,
                    pkt_time_usecs := pkt_time_usecs old, pkt_flags := pkt_flags old,
                    pkt_ecn := pkt_ecn old \<rparr>;
     let pkt = packet_copy_headers pkt old bytes_headroom;
     let ofs = offset_ptr bytes_headroom;
     let pkt = pkt\<lparr> pkt_ipv4 := ofs (pkt_ipv4 old), pkt_ipv6 := ofs (pkt_ipv6 old),
                    pkt_sctp := ofs (pkt_sctp old), pkt_tcp := ofs (pkt_tcp old),
                    pkt_udp := ofs (pkt_udp old), pkt_udplite := ofs (pkt_udplite old),
                    pkt_icmpv4 := ofs (pkt_icmpv4 old), pkt_icmpv6 := ofs (pkt_icmpv6 old) \<rparr>;
     (case pkt_chunk_list old of
        None \<Rightarrow> Some (pkt\<lparr>pkt_chunk_list := None\<rparr>)
      | Some chunks \<Rightarrow> Some (pkt\<lparr>
          pkt_chunk_list := Some (map (copy_chunk_item bytes_headroom) chunks),
          pkt_tcp_ts_val := ofs (pkt_tcp_ts_val old), pkt_tcp_ts_ecr := ofs (pkt_tcp_ts_ecr old) \<rparr>))
   }"

definition packet_copy :: "(nat \<Rightarrow> u8) \<Rightarrow> packet \<Rightarrow> packet option" where
  "packet_copy junk old = packet_copy_with_headroom junk old 0"

text \<open>The loop of \<^verbatim>\<open>packet_finish_encapsulation_headers\<close>, from the last header to the first. The
  \<^verbatim>\<open>next\<close> of the code is the array entry behind the current one, and null for the last.\<close>

definition finish_header :: "packet \<Rightarrow> nat \<Rightarrow> packet option" where
  "finish_header pkt i =
     (let h = pkt_headers pkt ! i
      in if htype h = HEADER_NONE then Some pkt
         else do {
           info \<leftarrow> header_type_info (htype h);
           (case finish info of
              None \<Rightarrow> Some pkt
            | Some f \<Rightarrow> (if i + 1 < PACKET_MAX_HEADERS
                then run_finish f pkt i (pkt_headers pkt ! (i + 1)) else None))
         })"

fun finish_headers :: "nat \<Rightarrow> packet \<Rightarrow> packet option" where
  "finish_headers 0 pkt = Some pkt"
| "finish_headers (Suc i) pkt = do { pkt \<leftarrow> finish_header pkt i; finish_headers i pkt }"

definition packet_finish_encapsulation_headers :: "packet \<Rightarrow> packet option" where
  "packet_finish_encapsulation_headers pkt = finish_headers PACKET_MAX_HEADERS pkt"

definition packet_encapsulate :: "(nat \<Rightarrow> u8) \<Rightarrow> packet \<Rightarrow> packet \<Rightarrow> packet option" where
  "packet_encapsulate junk outer inner = do {
     let outer_headers = packet_header_count outer;
     let inner_headers = packet_header_count inner;
     c_assert (outer_headers + inner_headers \<le> PACKET_MAX_HEADERS);
     pkt \<leftarrow> packet_copy_with_headroom junk inner (pkt_ip_bytes outer);
     contents \<leftarrow> rd_bytes (pkt_buffer outer) 0 (pkt_ip_bytes outer);
     pkt \<leftarrow> upd_buffer (\<lambda>b. wr_bytes b 0 contents) pkt;
     let hs = pkt_headers pkt;
     let pkt = pkt\<lparr> pkt_headers := take outer_headers hs @ take inner_headers hs
                      @ drop (outer_headers + inner_headers) hs \<rparr>;
     let pkt = packet_copy_headers pkt outer 0;
     c_assert (packet_header_count pkt = outer_headers + inner_headers);
     pkt \<leftarrow> packet_finish_encapsulation_headers pkt;
     Some (pkt\<lparr>pkt_ip_bytes := pkt_ip_bytes outer + pkt_ip_bytes inner\<rparr>)
   }"

section \<open>Copies\<close>

lemma offset_ptr_0 [simp]: "offset_ptr 0 p = p"
  by (cases p) (simp_all add: offset_ptr_def)

lemma offset_ptr_simps [simp]:
  "offset_ptr n None = None" "offset_ptr n (Some p) = Some (n + p)"
  by (simp_all add: offset_ptr_def)

lemma copy_headers_replicate:
  assumes "length hs = n"
  shows "copy_headers headroom (replicate n no_header) hs =
     map (\<lambda>h. h\<lparr>hptr := offset_ptr headroom (hptr h)\<rparr>) (takeWhile (\<lambda>h. htype h \<noteq> HEADER_NONE) hs)
       @ replicate (n - length (takeWhile (\<lambda>h. htype h \<noteq> HEADER_NONE) hs)) no_header"
  using assms
proof (induction hs arbitrary: n)
  case (Cons h hs)
  then obtain n' where "n = Suc n'" "length hs = n'"
    by auto
  with Cons.IH [of n'] show ?case
    by (cases h) (auto simp: no_header_def)
qed simp

abbreviation shift_header :: "nat \<Rightarrow> header \<Rightarrow> header" where
  "shift_header n \<equiv> \<lambda>h. h\<lparr>hptr := offset_ptr n (hptr h)\<rparr>"

lemma copy_headers_fresh:
  assumes "headers_wf old" and "pkt_headers new = replicate PACKET_MAX_HEADERS no_header"
  shows "used_headers (packet_copy_headers new old n) = map (shift_header n) (used_headers old)"
    and "headers_wf (packet_copy_headers new old n)"
proof -
  have hs: "pkt_headers (packet_copy_headers new old n) = map (shift_header n) (used_headers old)
      @ replicate (6 - length (used_headers old)) no_header"
    using copy_headers_replicate [of "pkt_headers old" 6 n] headers_wf_length [OF assms(1)] assms(2)
    by (simp add: packet_copy_headers_def used_headers_def)
  have typed: "\<forall>h \<in> set (map (shift_header n) (used_headers old)). htype h \<noteq> HEADER_NONE"
    using used_headers_typed by auto
  have none: "\<forall>h \<in> set (replicate (6 - length (used_headers old)) no_header). htype h = HEADER_NONE"
    by (simp add: no_header_def)
  show "used_headers (packet_copy_headers new old n) = map (shift_header n) (used_headers old)"
    by (rule used_headers_eqI [OF hs typed none])
  show "headers_wf (packet_copy_headers new old n)"
    using packet_header_count_le [OF assms(1)]
    by (intro headers_wfI [OF hs typed none]) (simp add: packet_header_count_used)
qed

lemma contiguous_shift:
  "contiguous (n + s) (map (shift_header n) hs) = contiguous s hs"
proof (induction hs arbitrary: s)
  case (Cons h hs)
  show ?case
    using Cons.IH [of "s + header_bytes h"] by (cases "hptr h") (auto simp: add.assoc)
qed simp

lemma headers_len_shift [simp]: "headers_len (map (shift_header n) hs) = headers_len hs"
  by (induction hs) simp_all

lemma copy_item_0 [simp]: "copy_item 0 item = item"
  by (simp add: copy_item_def)

lemma copy_chunk_item_0 [simp]: "copy_chunk_item 0 c = c"
  using map_idI [of "parameter_list c" "copy_item 0"] map_idI [of "cause_list c" "copy_item 0"]
  by (cases c) (simp add: copy_chunk_item_def)

lemma wr_bytes_middle:
  assumes "i + length xs \<le> length b"
  shows "wr_bytes b i xs = Some (take i b @ xs @ drop (i + length xs) b)"
  using assms by (simp add: wr_bytes_def)

text \<open>\<^verbatim>\<open>packet_copy\<close> succeeds on every well-formed packet that lies inside its buffer and is at most
  128 KB long, and yields a packet with the same headers, the same bytes up to the end of the
  packet, a buffer of the same size and the same values in all other fields; only the pointers to
  the TCP timestamps are lost for a packet without a chunk list.\<close>

theorem packet_copy_faithful:
  assumes "headers_wf old" and "packet_end old = Some e"
    and "e \<le> pkt_buffer_bytes old" and "e \<le> 128 * 1024"
  shows "\<exists>new. packet_copy junk old = Some new \<and>
     used_headers new = used_headers old \<and> headers_wf new \<and>
     pkt_buffer_bytes new = pkt_buffer_bytes old \<and>
     take e (pkt_buffer new) = take e (pkt_buffer old) \<and>
     new = old\<lparr> pkt_buffer := pkt_buffer new, pkt_headers := pkt_headers new,
       pkt_tcp_ts_val := (if pkt_chunk_list old = None then None else pkt_tcp_ts_val old),
       pkt_tcp_ts_ecr := (if pkt_chunk_list old = None then None else pkt_tcp_ts_ecr old) \<rparr>"
proof -
  define fresh where "fresh = packet_new junk (pkt_buffer_bytes old)"
  define b where "b = take e (pkt_buffer old) @ drop e (pkt_buffer fresh)"
  have len: "pkt_buffer_bytes fresh = pkt_buffer_bytes old"
    by (simp add: fresh_def packet_new_def)
  define base where "base = fresh\<lparr> pkt_buffer := b, pkt_ip_bytes := pkt_ip_bytes old,
     pkt_direction := pkt_direction old, pkt_time_usecs := pkt_time_usecs old,
     pkt_flags := pkt_flags old, pkt_ecn := pkt_ecn old \<rparr>"
  have hs: "used_headers (packet_copy_headers base old 0) = used_headers old"
    "headers_wf (packet_copy_headers base old 0)"
    using copy_headers_fresh [OF assms(1), of base 0]
    by (simp_all add: base_def fresh_def packet_new_def)
  have "upd_buffer (\<lambda>b. wr_bytes b 0 (take e (pkt_buffer old))) fresh = Some (fresh\<lparr>pkt_buffer := b\<rparr>)"
    using assms(3) len by (simp add: upd_buffer_def wr_bytes_middle b_def)
  then have "\<exists>new. packet_copy junk old = Some new \<and>
      pkt_headers new = pkt_headers (packet_copy_headers base old 0) \<and> pkt_buffer new = b \<and>
      new = old\<lparr> pkt_buffer := pkt_buffer new, pkt_headers := pkt_headers new,
       pkt_tcp_ts_val := (if pkt_chunk_list old = None then None else pkt_tcp_ts_val old),
       pkt_tcp_ts_ecr := (if pkt_chunk_list old = None then None else pkt_tcp_ts_ecr old) \<rparr>"
    using assms
    by (cases old) (simp add: packet_copy_def packet_copy_with_headroom_def rd_bytes_def
        fresh_def [symmetric] max_absorb2 Let_def base_def packet_copy_headers_def
        fresh_def packet_new_def map_idI split: option.split)
  then obtain new where new: "packet_copy junk old = Some new"
      "pkt_headers new = pkt_headers (packet_copy_headers base old 0)" "pkt_buffer new = b"
      "new = old\<lparr> pkt_buffer := pkt_buffer new, pkt_headers := pkt_headers new,
       pkt_tcp_ts_val := (if pkt_chunk_list old = None then None else pkt_tcp_ts_val old),
       pkt_tcp_ts_ecr := (if pkt_chunk_list old = None then None else pkt_tcp_ts_ecr old) \<rparr>"
    by blast
  moreover have "length b = pkt_buffer_bytes old" "take e b = take e (pkt_buffer old)"
    using assms(3) len by (simp_all add: b_def)
  ultimately show ?thesis
    using hs used_headers_cong [OF new(2)] by (intro exI [of _ new]) simp
qed

text \<open>A packet of 64 bytes with an IPv4 header.\<close>

definition example_packet :: packet where
  "example_packet = (push_header (packet_new (\<lambda>_. 7) 64) HEADER_IPV4 20 20)\<lparr>pkt_ipv4 := Some 0\<rparr>"

lemma example_packet_ok:
  "headers_wf example_packet" "packet_end example_packet = Some 20" "pkt_buffer_bytes example_packet = 64"
proof -
  have chain: "chain_at (packet_new (\<lambda>_. 7) 64) 0" and cnt: "packet_header_count (packet_new (\<lambda>_. 7) 64) \<noteq> 6"
    using fresh_headers [of "packet_new (\<lambda>_. 7) 64"]
    by (simp_all add: chain_at_def packet_header_count_used packet_new_def)
  then show "headers_wf example_packet"
    using chain_at_push(1) [OF chain cnt, of HEADER_IPV4 20 20] by (simp add: example_packet_def chain_at_def)
  have "packet_header_count (packet_new (\<lambda>_. 7) 64) = 0"
    using fresh_headers [of "packet_new (\<lambda>_. 7) 64"]
    by (simp add: packet_header_count_used packet_new_def)
  then show "packet_end example_packet = Some 20" "pkt_buffer_bytes example_packet = 64"
    by (simp_all add: example_packet_def packet_end_def packet_start_def push_header_def,
      simp_all add: packet_new_def replicate_Suc [of 5, simplified])
qed

theorem packet_copy_faithful_witness:
  "headers_wf example_packet \<and> packet_end example_packet = Some 20 \<and>
   (\<exists>new. packet_copy (\<lambda>_. 9) example_packet = Some new \<and>
     used_headers new = used_headers example_packet \<and> headers_wf new \<and>
     pkt_buffer_bytes new = pkt_buffer_bytes example_packet \<and>
     take 20 (pkt_buffer new) = take 20 (pkt_buffer example_packet) \<and>
     new = example_packet\<lparr> pkt_buffer := pkt_buffer new, pkt_headers := pkt_headers new,
       pkt_tcp_ts_val := (if pkt_chunk_list example_packet = None then None else pkt_tcp_ts_val example_packet),
       pkt_tcp_ts_ecr := (if pkt_chunk_list example_packet = None then None else pkt_tcp_ts_ecr example_packet) \<rparr>)"
  using packet_copy_faithful [OF example_packet_ok(1,2), of "\<lambda>_. 9"] example_packet_ok by simp

end
