(* ===== verification/Packet_Parser.thy ===== *)
theory Packet_Parser
  imports Packet Checksum
begin

text \<open>
  The packet parser of \<^verbatim>\<open>packet_parser.c\<close>: it turns a sniffed buffer into a packet with its header
  metadata, through any nesting of IPv4, IPv6, GRE and MPLS headers.
\<close>

section \<open>The code\<close>

text \<open>One constructor per error message.\<close>

datatype parse_error =
    IPv4_header_overflows_packet
  | Bad_IP_version_for_ETHERTYPE_IP
  | IPv6_header_overflows_packet
  | Bad_IP_version_for_ETHERTYPE_IPV6
  | IP_header_overflows_packet
  | Unsupported_IP_version
  | IP_header_too_short
  | Full_IP_header_overflows_packet
  | IP_payload_overflows_packet
  | IP_header_bigger_than_datagram
  | More_fragments_remaining
  | Non_zero_fragment_offset
  | Bad_IP_checksum u16 u16
  | Too_many_nested_headers header_t
  | IPv6_payload_overflows_packet
  | Truncated_header header_t
  | Bad_SCTP_checksum u32 u32
  | TCP_data_offset_too_small
  | TCP_data_offset_too_big
  | UDP_length_too_small_for_header
  | UDP_length_too_small
  | UDP_length_too_big
  | UDPLITE_length_too_small_for_header
  | Bad_IP_version_for_IPPROTO_ICMP
  | Bad_IP_version_for_IPPROTO_ICMPV6
  | GRE_unsupported_version
  | GRE_unsupported_routing
  | GRE_length_too_small
  | GRE_length_too_big
  | MPLS_stack_entry_overflows_packet

datatype packet_parse_result = PACKET_OK | PACKET_BAD parse_error | PACKET_UNKNOWN_L4

type_synonym parsed = "(packet_parse_result \<times> packet) option"

abbreviation parse_bad :: "parse_error \<Rightarrow> packet \<Rightarrow> parsed" where
  "parse_bad e pkt \<equiv> Some (PACKET_BAD e, pkt)"

abbreviation (input) IP_MF :: u16 where "IP_MF \<equiv> 0x2000"
abbreviation (input) IP_OFFMASK :: u16 where "IP_OFFMASK \<equiv> 0x1FFF"

text \<open>Appending a header of the given length and setting its \<^verbatim>\<open>total_bytes\<close>, which every parsing
  function does, or failing because there are too many headers.\<close>

definition parse_append ::
    "packet \<Rightarrow> header_t \<Rightarrow> nat \<Rightarrow> nat \<Rightarrow> (packet \<Rightarrow> parsed) \<Rightarrow> parsed" where
  "parse_append pkt t hbytes tbytes cont = do {
     (pkt, idx) \<leftarrow> packet_append_header pkt t hbytes;
     (case idx of
        None \<Rightarrow> parse_bad (Too_many_nested_headers t) pkt
      | Some i \<Rightarrow> cont (set_total_bytes i tbytes pkt))
   }"

definition parse_sctp :: "packet \<Rightarrow> nat \<Rightarrow> nat \<Rightarrow> nat \<Rightarrow> parsed" where
  "parse_sctp pkt p layer4_bytes pkt_end =
     (if layer4_bytes < sizeof_sctp_common_header then parse_bad (Truncated_header HEADER_SCTP) pkt
      else do {
        let pkt = pkt\<lparr>pkt_sctp := Some p\<rparr>;
        received_crc32c \<leftarrow> rd32 (pkt_buffer pkt) (p + 8);
        pkt \<leftarrow> upd_buffer (\<lambda>b. wr32 b (p + 8) 0) pkt;
        crc \<leftarrow> sctp_crc32c_at (pkt_buffer pkt) p layer4_bytes;
        let computed_crc32c = ntohl crc;
        pkt \<leftarrow> upd_buffer (\<lambda>b. wr32 b (p + 8) received_crc32c) pkt;
        if received_crc32c \<noteq> computed_crc32c
        then parse_bad (Bad_SCTP_checksum received_crc32c computed_crc32c) pkt
        else parse_append pkt HEADER_SCTP sizeof_sctp_common_header layer4_bytes (\<lambda>pkt. do {
          c_assert (p + layer4_bytes \<le> pkt_end);
          Some (PACKET_OK, pkt)
        })
      })"

definition parse_tcp :: "packet \<Rightarrow> nat \<Rightarrow> nat \<Rightarrow> nat \<Rightarrow> parsed" where
  "parse_tcp pkt p layer4_bytes pkt_end =
     (if layer4_bytes < sizeof_tcp then parse_bad (Truncated_header HEADER_TCP) pkt
      else do {
        let pkt = pkt\<lparr>pkt_tcp := Some p\<rparr>;
        tcp_header_len \<leftarrow> packet_tcp_header_len pkt;
        if tcp_header_len < sizeof_tcp then parse_bad TCP_data_offset_too_small pkt
        else if tcp_header_len > layer4_bytes then parse_bad TCP_data_offset_too_big pkt
        else parse_append pkt HEADER_TCP tcp_header_len layer4_bytes (\<lambda>pkt. do {
          c_assert (p + layer4_bytes \<le> pkt_end);
          Some (PACKET_OK, pkt)
        })
      })"

definition parse_udp :: "packet \<Rightarrow> u8 \<Rightarrow> nat \<Rightarrow> nat \<Rightarrow> nat \<Rightarrow> parsed" where
  "parse_udp pkt udp_encaps p layer4_bytes pkt_end =
     (if layer4_bytes < sizeof_udp then parse_bad (Truncated_header HEADER_UDP) pkt
      else do {
        len \<leftarrow> udp_len (pkt_buffer pkt) p;
        let len = unat len;
        let hlen = sizeof_udp;
        if len < hlen then parse_bad UDP_length_too_small_for_header pkt
        else if len < layer4_bytes then parse_bad UDP_length_too_small pkt
        else if len > layer4_bytes then parse_bad UDP_length_too_big pkt
        else parse_append pkt HEADER_UDP hlen layer4_bytes (\<lambda>pkt.
          if udp_encaps = IPPROTO_SCTP
          then parse_sctp (pkt\<lparr>pkt_flags := pkt_flags pkt OR FLAGS_UDP_ENCAPSULATED\<rparr>)
                 (p + hlen) (layer4_bytes - hlen) pkt_end
          else if udp_encaps = IPPROTO_TCP
          then parse_tcp (pkt\<lparr>pkt_flags := pkt_flags pkt OR FLAGS_UDP_ENCAPSULATED\<rparr>)
                 (p + hlen) (layer4_bytes - hlen) pkt_end
          else do {
            c_assert (udp_encaps = 0);
            let pkt = pkt\<lparr>pkt_udp := Some p\<rparr>;
            c_assert (p + layer4_bytes \<le> pkt_end);
            Some (PACKET_OK, pkt)
          })
      })"

definition parse_udplite :: "packet \<Rightarrow> nat \<Rightarrow> nat \<Rightarrow> nat \<Rightarrow> parsed" where
  "parse_udplite pkt p layer4_bytes pkt_end =
     (if layer4_bytes < sizeof_udplite then parse_bad (Truncated_header HEADER_UDPLITE) pkt
      else do {
        let pkt = pkt\<lparr>pkt_udplite := Some p\<rparr>;
        let hlen = sizeof_udplite;
        if layer4_bytes < hlen then parse_bad UDPLITE_length_too_small_for_header pkt
        else parse_append pkt HEADER_UDPLITE hlen layer4_bytes (\<lambda>pkt. do {
          c_assert (p + layer4_bytes \<le> pkt_end);
          Some (PACKET_OK, pkt)
        })
      })"

definition parse_icmpv4 :: "packet \<Rightarrow> nat \<Rightarrow> nat \<Rightarrow> nat \<Rightarrow> parsed" where
  "parse_icmpv4 pkt p layer4_bytes pkt_end = do {
     h \<leftarrow> packet_inner_header pkt;
     if htype h \<noteq> HEADER_IPV4 then parse_bad Bad_IP_version_for_IPPROTO_ICMP pkt
     else if layer4_bytes < sizeof_icmpv4 then parse_bad (Truncated_header HEADER_ICMPV4) pkt
     else parse_append (pkt\<lparr>pkt_icmpv4 := Some p\<rparr>) HEADER_ICMPV4 sizeof_icmpv4 layer4_bytes
       (\<lambda>pkt. do {
         c_assert (p + layer4_bytes \<le> pkt_end);
         Some (PACKET_OK, pkt)
       })
   }"

definition parse_icmpv6 :: "packet \<Rightarrow> nat \<Rightarrow> nat \<Rightarrow> nat \<Rightarrow> parsed" where
  "parse_icmpv6 pkt p layer4_bytes pkt_end = do {
     h \<leftarrow> packet_inner_header pkt;
     if htype h \<noteq> HEADER_IPV6 then parse_bad Bad_IP_version_for_IPPROTO_ICMPV6 pkt
     else if layer4_bytes < sizeof_icmpv6 then parse_bad (Truncated_header HEADER_ICMPV6) pkt
     else parse_append (pkt\<lparr>pkt_icmpv6 := Some p\<rparr>) HEADER_ICMPV6 sizeof_icmpv6 layer4_bytes
       (\<lambda>pkt. do {
         c_assert (p + layer4_bytes \<le> pkt_end);
         Some (PACKET_OK, pkt)
       })
   }"

text \<open>The loop of \<^verbatim>\<open>parse_mpls\<close> over the label stack: the position after the last entry, or no
  position when an entry overflows the packet.\<close>

function mpls_stack_end :: "bytes \<Rightarrow> nat \<Rightarrow> nat \<Rightarrow> nat option option" where
  "mpls_stack_end b p pkt_end =
     (if p + sizeof_mpls > pkt_end then Some None
      else do {
        entry \<leftarrow> rd32 b p;
        if \<not> mpls_entry_stack entry \<and> p + sizeof_mpls < pkt_end
        then mpls_stack_end b (p + sizeof_mpls) pkt_end
        else Some (Some (p + sizeof_mpls))
      })"
  by pat_completeness auto
termination
  by (relation "measure (\<lambda>(b, p, e). e - p)") auto

declare mpls_stack_end.simps [simp del]

lemma mpls_stack_end_gt:
  "mpls_stack_end b p e = Some (Some q) \<Longrightarrow> p + 4 \<le> q \<and> q \<le> e"
  by (induction b p e rule: mpls_stack_end.induct, subst (asm) (2) mpls_stack_end.simps)
    (auto split: if_splits bind_splits)

text \<open>The mutually recursive parsing functions. \<^verbatim>\<open>parse_layer4\<close> also returns what the code stores
  through \<^verbatim>\<open>is_inner\<close>. The recursion ends because every layer consumes at least four bytes.\<close>

function (sequential)
  parse_layer3_packet_by_proto :: "packet \<Rightarrow> u16 \<Rightarrow> u8 \<Rightarrow> nat \<Rightarrow> nat \<Rightarrow> parsed" and
  parse_layer3_packet :: "packet \<Rightarrow> u8 \<Rightarrow> nat \<Rightarrow> nat \<Rightarrow> parsed" and
  parse_ipv4 :: "packet \<Rightarrow> u8 \<Rightarrow> nat \<Rightarrow> nat \<Rightarrow> parsed" and
  parse_ipv6 :: "packet \<Rightarrow> u8 \<Rightarrow> nat \<Rightarrow> nat \<Rightarrow> parsed" and
  parse_gre :: "packet \<Rightarrow> u8 \<Rightarrow> nat \<Rightarrow> nat \<Rightarrow> nat \<Rightarrow> parsed" and
  parse_mpls :: "packet \<Rightarrow> u8 \<Rightarrow> nat \<Rightarrow> nat \<Rightarrow> parsed" and
  parse_layer4 :: "packet \<Rightarrow> u8 \<Rightarrow> nat \<Rightarrow> u8 \<Rightarrow> nat \<Rightarrow> nat
    \<Rightarrow> (packet_parse_result \<times> packet \<times> bool) option"
where
  "parse_layer3_packet_by_proto pkt proto udp_encaps p pkt_end =
     (if proto = ETHERTYPE_IP
      then if p + sizeof_ipv4 > pkt_end then parse_bad IPv4_header_overflows_packet pkt
           else do {
             version \<leftarrow> ipv4_version (pkt_buffer pkt) p;
             if version = 4 then parse_ipv4 pkt udp_encaps p pkt_end
             else parse_bad Bad_IP_version_for_ETHERTYPE_IP pkt
           }
      else if proto = ETHERTYPE_IPV6
      then if p + sizeof_ipv6 > pkt_end then parse_bad IPv6_header_overflows_packet pkt
           else do {
             version \<leftarrow> ipv6_version (pkt_buffer pkt) p;
             if version = 6 then parse_ipv6 pkt udp_encaps p pkt_end
             else parse_bad Bad_IP_version_for_ETHERTYPE_IPV6 pkt
           }
      else if proto = ETHERTYPE_MPLS_UC \<or> proto = ETHERTYPE_MPLS_MC
      then parse_mpls pkt udp_encaps p pkt_end
      else Some (PACKET_UNKNOWN_L4, pkt))"
| "parse_layer3_packet pkt udp_encaps p pkt_end =
     (if p + sizeof_ipv4 > pkt_end then parse_bad IP_header_overflows_packet pkt
      else do {
        version \<leftarrow> ipv4_version (pkt_buffer pkt) p;
        if version = 4 then parse_ipv4 pkt udp_encaps p pkt_end
        else if version = 6 then parse_ipv6 pkt udp_encaps p pkt_end
        else parse_bad Unsupported_IP_version pkt
      })"
| "parse_ipv4 pkt udp_encaps p pkt_end = do {
     let is_outer = (pkt_ip_bytes pkt = 0);
     ip_header_bytes \<leftarrow> ipv4_header_len (pkt_buffer pkt) p;
     if ip_header_bytes < sizeof_ipv4 then parse_bad IP_header_too_short pkt
     else if p + ip_header_bytes > pkt_end then parse_bad Full_IP_header_overflows_packet pkt
     else do {
       tot_len \<leftarrow> ipv4_tot_len (pkt_buffer pkt) p;
       let ip_total_bytes = unat tot_len;
       if p + ip_total_bytes > pkt_end then parse_bad IP_payload_overflows_packet pkt
       else if ip_header_bytes > ip_total_bytes then parse_bad IP_header_bigger_than_datagram pkt
       else do {
         frag_off \<leftarrow> ipv4_frag_off (pkt_buffer pkt) p;
         if frag_off AND IP_MF \<noteq> 0 then parse_bad More_fragments_remaining pkt
         else if frag_off AND IP_OFFMASK \<noteq> 0 then parse_bad Non_zero_fragment_offset pkt
         else do {
           checksum \<leftarrow> ipv4_checksum_at (pkt_buffer pkt) p ip_header_bytes;
           if checksum \<noteq> 0
           then do {
             received_checksum \<leftarrow> ipv4_check (pkt_buffer pkt) p;
             pkt \<leftarrow> upd_buffer (\<lambda>b. wr16 b (p + 10) 0) pkt;
             c \<leftarrow> ipv4_checksum_at (pkt_buffer pkt) p ip_header_bytes;
             let computed_checksum = ntohs c;
             pkt \<leftarrow> upd_buffer (\<lambda>b. wr16 b (p + 10) received_checksum) pkt;
             parse_bad (Bad_IP_checksum received_checksum computed_checksum) pkt
           }
           else parse_append pkt HEADER_IPV4 ip_header_bytes ip_total_bytes (\<lambda>pkt. do {
             c_assert (p + ip_header_bytes \<le> pkt_end);
             let layer4_bytes = ip_total_bytes - ip_header_bytes;
             layer4_protocol \<leftarrow> ipv4_protocol (pkt_buffer pkt) p;
             (result, pkt, is_inner) \<leftarrow> parse_layer4 pkt udp_encaps (p + ip_header_bytes)
                layer4_protocol layer4_bytes pkt_end;
             let pkt = (if is_inner then pkt\<lparr>pkt_ipv4 := Some p\<rparr> else pkt);
             let pkt = (if is_outer then pkt\<lparr>pkt_ip_bytes := ip_total_bytes\<rparr> else pkt);
             Some (result, pkt)
           })
         }
       }
     }
   }"
| "parse_ipv6 pkt udp_encaps p pkt_end =
     (let is_outer = (pkt_ip_bytes pkt = 0);
          ip_header_bytes = sizeof_ipv6
      in if p + ip_header_bytes > pkt_end then parse_bad IPv6_header_overflows_packet pkt
         else do {
           payload_len \<leftarrow> ipv6_payload_len (pkt_buffer pkt) p;
           let ip_total_bytes = ip_header_bytes + unat payload_len;
           if p + ip_total_bytes > pkt_end then parse_bad IPv6_payload_overflows_packet pkt
           else do {
             c_assert (ip_header_bytes \<le> ip_total_bytes);
             parse_append pkt HEADER_IPV6 ip_header_bytes ip_total_bytes (\<lambda>pkt. do {
               c_assert (p + ip_header_bytes \<le> pkt_end);
               let layer4_bytes = ip_total_bytes - ip_header_bytes;
               layer4_protocol \<leftarrow> ipv6_next_header (pkt_buffer pkt) p;
               (result, pkt, is_inner) \<leftarrow> parse_layer4 pkt udp_encaps (p + ip_header_bytes)
                  layer4_protocol layer4_bytes pkt_end;
               let pkt = (if is_inner then pkt\<lparr>pkt_ipv6 := Some p\<rparr> else pkt);
               let pkt = (if is_outer then pkt\<lparr>pkt_ip_bytes := ip_total_bytes\<rparr> else pkt);
               Some (result, pkt)
             })
           }
         })"
| "parse_gre pkt udp_encaps p layer4_bytes pkt_end =
     (if layer4_bytes < sizeof_gre then parse_bad (Truncated_header HEADER_GRE) pkt
      else do {
        version \<leftarrow> gre_version (pkt_buffer pkt) p;
        if version \<noteq> 0 then parse_bad GRE_unsupported_version pkt
        else do {
          routing \<leftarrow> gre_has_routing (pkt_buffer pkt) p;
          if routing then parse_bad GRE_unsupported_routing pkt
          else do {
            gre_header_len \<leftarrow> gre_len (pkt_buffer pkt) p;
            if gre_header_len < sizeof_gre then parse_bad GRE_length_too_small pkt
            else if gre_header_len > layer4_bytes then parse_bad GRE_length_too_big pkt
            else do {
              c_assert (p + layer4_bytes \<le> pkt_end);
              parse_append pkt HEADER_GRE gre_header_len layer4_bytes (\<lambda>pkt. do {
                c_assert (p + gre_header_len \<le> pkt_end);
                protocol \<leftarrow> gre_protocol (pkt_buffer pkt) p;
                parse_layer3_packet_by_proto pkt protocol udp_encaps (p + gre_header_len) pkt_end
              })
            }
          }
        }
      })"
| "parse_mpls pkt udp_encaps p pkt_end = do {
     stack_end \<leftarrow> mpls_stack_end (pkt_buffer pkt) p pkt_end;
     (case stack_end of
        None \<Rightarrow> parse_bad MPLS_stack_entry_overflows_packet pkt
      | Some q \<Rightarrow> do {
          let mpls_header_bytes = q - p;
          let mpls_total_bytes = pkt_end - p;
          c_assert (mpls_header_bytes \<le> mpls_total_bytes);
          parse_append pkt HEADER_MPLS mpls_header_bytes mpls_total_bytes (\<lambda>pkt. do {
            c_assert (q \<le> pkt_end);
            parse_layer3_packet pkt udp_encaps q pkt_end
          })
        })
   }"
| "parse_layer4 pkt udp_encaps p layer4_protocol layer4_bytes pkt_end =
     (let inner = map_option (\<lambda>(result, pkt). (result, pkt, True));
          outer = map_option (\<lambda>(result, pkt). (result, pkt, False))
      in if layer4_protocol = IPPROTO_SCTP then inner (parse_sctp pkt p layer4_bytes pkt_end)
         else if layer4_protocol = IPPROTO_TCP then inner (parse_tcp pkt p layer4_bytes pkt_end)
         else if layer4_protocol = IPPROTO_UDP
         then inner (parse_udp pkt udp_encaps p layer4_bytes pkt_end)
         else if layer4_protocol = IPPROTO_UDPLITE
         then inner (parse_udplite pkt p layer4_bytes pkt_end)
         else if layer4_protocol = IPPROTO_ICMP
         then inner (parse_icmpv4 pkt p layer4_bytes pkt_end)
         else if layer4_protocol = IPPROTO_ICMPV6
         then inner (parse_icmpv6 pkt p layer4_bytes pkt_end)
         else if layer4_protocol = IPPROTO_GRE
         then outer (parse_gre pkt udp_encaps p layer4_bytes pkt_end)
         else if layer4_protocol = IPPROTO_IPIP then outer (parse_ipv4 pkt udp_encaps p pkt_end)
         else if layer4_protocol = IPPROTO_IPV6 then outer (parse_ipv6 pkt udp_encaps p pkt_end)
         else Some (PACKET_UNKNOWN_L4, pkt, False))"
  by pat_completeness auto
termination
proof (relation "measure (\<lambda>x. case x of
     Inl (Inl (pkt, proto, enc, p, e)) \<Rightarrow> 2 * (e - p) + 1
   | Inl (Inr (Inl (pkt, enc, p, e))) \<Rightarrow> 2 * (e - p) + 1
   | Inl (Inr (Inr (pkt, enc, p, e))) \<Rightarrow> 2 * (e - p)
   | Inr (Inl (Inl (pkt, enc, p, e))) \<Rightarrow> 2 * (e - p)
   | Inr (Inl (Inr (pkt, enc, p, n, e))) \<Rightarrow> 2 * (e - p)
   | Inr (Inr (Inl (pkt, enc, p, e))) \<Rightarrow> 2 * (e - p)
   | Inr (Inr (Inr (pkt, enc, p, proto, n, e))) \<Rightarrow> 2 * (e - p) + 1)")
qed (auto dest: mpls_stack_end_gt)


declare parse_layer3_packet_by_proto.simps [simp del] parse_layer3_packet.simps [simp del]
  parse_ipv4.simps [simp del] parse_ipv6.simps [simp del] parse_gre.simps [simp del]
  parse_mpls.simps [simp del] parse_layer4.simps [simp del]

text \<open>\<^verbatim>\<open>parse_packet\<close>. The text of the error message, to which it adds a dump of the \<open>in_bytes\<close> bytes
  of the packet, is represented by the error value.\<close>

definition parse_packet :: "packet \<Rightarrow> nat \<Rightarrow> u16 \<Rightarrow> u8 \<Rightarrow> parsed" where
  "parse_packet pkt in_bytes ether_type udp_encaps = do {
     c_assert (in_bytes \<le> pkt_buffer_bytes pkt);
     parse_layer3_packet_by_proto pkt ether_type udp_encaps 0 in_bytes
   }"

section \<open>What the parser promises\<close>

definition is_l4_type :: "header_t \<Rightarrow> bool" where
  "is_l4_type t \<longleftrightarrow> t = HEADER_SCTP \<or> t = HEADER_TCP \<or> t = HEADER_UDP \<or> t = HEADER_UDPLITE
     \<or> t = HEADER_ICMPV4 \<or> t = HEADER_ICMPV6"

definition is_ip_type :: "header_t \<Rightarrow> bool" where
  "is_ip_type t \<longleftrightarrow> t = HEADER_IPV4 \<or> t = HEADER_IPV6"

text \<open>The packet's pointer to its header of the given kind.\<close>

definition l4_ptr :: "packet \<Rightarrow> header_t \<Rightarrow> nat option" where
  "l4_ptr pkt t = (case t of
      HEADER_SCTP \<Rightarrow> pkt_sctp pkt | HEADER_TCP \<Rightarrow> pkt_tcp pkt | HEADER_UDP \<Rightarrow> pkt_udp pkt
    | HEADER_UDPLITE \<Rightarrow> pkt_udplite pkt | HEADER_ICMPV4 \<Rightarrow> pkt_icmpv4 pkt
    | HEADER_ICMPV6 \<Rightarrow> pkt_icmpv6 pkt | _ \<Rightarrow> None)"

definition header_bounded :: "nat \<Rightarrow> header \<Rightarrow> bool" where
  "header_bounded e h \<longleftrightarrow> header_bytes h \<le> total_bytes h \<and>
     (case hptr h of Some q \<Rightarrow> q + total_bytes h \<le> e | None \<Rightarrow> False)"

text \<open>What holds after parsing from \<open>pkt\<close>, having added the headers \<open>new\<close>.\<close>

definition parse_post ::
    "packet \<Rightarrow> nat \<Rightarrow> packet_parse_result \<Rightarrow> packet \<Rightarrow> header list \<Rightarrow> bool" where
  "parse_post pkt e r pkt' new \<longleftrightarrow>
     pkt_buffer pkt' = pkt_buffer pkt \<and> headers_wf pkt' \<and>
     used_headers pkt' = used_headers pkt @ new \<and> contiguous 0 (used_headers pkt') \<and>
     (\<forall>h \<in> set new. header_bounded e h) \<and>
     (r = PACKET_OK \<longrightarrow> new \<noteq> [] \<and> is_l4_type (htype (last new)) \<and>
        l4_ptr pkt' (htype (last new)) = hptr (last new))"

definition leaf_ok :: "packet \<Rightarrow> nat \<Rightarrow> parsed \<Rightarrow> bool" where
  "leaf_ok pkt e res \<longleftrightarrow> (\<exists>r pkt' new. res = Some (r, pkt') \<and> parse_post pkt e r pkt' new \<and>
     (\<forall>h \<in> set new. \<not> is_ip_type (htype h)) \<and>
     pkt_ipv4 pkt' = pkt_ipv4 pkt \<and> pkt_ipv6 pkt' = pkt_ipv6 pkt)"

text \<open>The packet's IP pointer is that of the innermost of the given headers that is an IP header;
  the length of a packet whose outermost header is an IP header is that header's length field.\<close>

definition ip_selected :: "packet \<Rightarrow> packet \<Rightarrow> header list \<Rightarrow> bool" where
  "ip_selected pkt pkt' new \<longleftrightarrow> (\<exists>xs h ys. new = xs @ h # ys \<and>
     is_ip_type (htype h) \<and> (\<forall>y \<in> set ys. \<not> is_ip_type (htype y)) \<and>
     pkt_ipv4 pkt' = (if htype h = HEADER_IPV4 then hptr h else pkt_ipv4 pkt) \<and>
     pkt_ipv6 pkt' = (if htype h = HEADER_IPV6 then hptr h else pkt_ipv6 pkt))"

definition net_ok :: "packet \<Rightarrow> nat \<Rightarrow> parsed \<Rightarrow> bool" where
  "net_ok pkt e res \<longleftrightarrow> (\<exists>r pkt' new. res = Some (r, pkt') \<and> parse_post pkt e r pkt' new \<and>
     (r = PACKET_OK \<longrightarrow> ip_selected pkt pkt' new \<and>
        (pkt_ip_bytes pkt = 0 \<and> is_ip_type (htype (hd new)) \<longrightarrow>
           pkt_ip_bytes pkt' = total_bytes (hd new))))"

section \<open>Correctness of the parser\<close>

lemma parse_append_eq:
  assumes "headers_wf pkt" and "pkt_ip_bytes pkt + hb \<le> pkt_buffer_bytes pkt"
  shows "parse_append pkt t hb tb cont =
     (if packet_header_count pkt = 6 then parse_bad (Too_many_nested_headers t) pkt
      else cont (push_header pkt t hb tb))"
  using assms packet_header_count_le [OF assms(1)]
  by (simp add: parse_append_def packet_append_header_eq set_total_bytes_push)

lemma parse_post_bad:
  "chain_at pkt p \<Longrightarrow> r \<noteq> PACKET_OK \<Longrightarrow> parse_post pkt e r pkt []"
  by (simp add: parse_post_def chain_at_def)

text \<open>A rejected packet keeps the headers parsed so far; only pointers may have been set.\<close>

lemma leaf_ok_bad:
  assumes "chain_at pkt p" and "pkt_buffer pkt' = pkt_buffer pkt"
    and "pkt_headers pkt' = pkt_headers pkt"
    and "pkt_ipv4 pkt' = pkt_ipv4 pkt" and "pkt_ipv6 pkt' = pkt_ipv6 pkt"
  shows "leaf_ok pkt e (parse_bad err pkt')"
  unfolding leaf_ok_def using assms used_headers_cong [OF assms(3)]
  by (intro exI [where x = "[]"] exI) (auto simp: parse_post_def chain_at_def)

lemma net_ok_bad:
  assumes "chain_at pkt p" and "r \<noteq> PACKET_OK"
  shows "net_ok pkt e (Some (r, pkt))"
  unfolding net_ok_def using parse_post_bad [OF assms] assms(2) by blast

text \<open>The last step of every transport-layer parsing function.\<close>

lemma leaf_push_ok:
  assumes chain: "chain_at pkt p" and t: "is_l4_type t"
    and fields: "pkt_buffer pkt1 = pkt_buffer pkt" "pkt_headers pkt1 = pkt_headers pkt"
      "pkt_ip_bytes pkt1 = pkt_ip_bytes pkt"
      "pkt_ipv4 pkt1 = pkt_ipv4 pkt" "pkt_ipv6 pkt1 = pkt_ipv6 pkt"
    and ptr: "l4_ptr pkt1 t = Some p"
    and len: "hb \<le> n" "p + n \<le> e" "e \<le> pkt_buffer_bytes pkt"
  shows "leaf_ok pkt e (parse_append pkt1 t hb n (\<lambda>pkt. Some (PACKET_OK, pkt)))"
proof -
  note used = used_headers_cong [OF fields(2)]
  have chain1: "chain_at pkt1 p"
    using chain fields(3) by (simp add: chain_at_def used)
  have eq: "parse_append pkt1 t hb n (\<lambda>pkt. Some (PACKET_OK, pkt)) =
      (if packet_header_count pkt1 = 6 then parse_bad (Too_many_nested_headers t) pkt1
       else Some (PACKET_OK, push_header pkt1 t hb n))"
    using chain1 len by (subst parse_append_eq) (simp_all add: chain_at_def fields)
  show ?thesis
  proof (cases "packet_header_count pkt1 = 6")
    case True
    then show ?thesis
      unfolding eq using fields by (auto intro!: leaf_ok_bad [OF chain])
  next
    case False
    let ?h = "\<lparr> htype = t, header_bytes = hb, total_bytes = n, hptr = Some p \<rparr>"
    have t0: "t \<noteq> HEADER_NONE" and tip: "\<not> is_ip_type t"
      using t by (auto simp: is_l4_type_def is_ip_type_def)
    note push = chain_at_push [OF chain1 False t0, of hb n]
    have ptr': "l4_ptr (push_header pkt1 t hb n) t = Some p"
      using ptr by (simp add: l4_ptr_def split: header_t.splits)
    have "parse_post pkt e PACKET_OK (push_header pkt1 t hb n) [?h]"
      unfolding parse_post_def
    proof (intro conjI impI)
      show "headers_wf (push_header pkt1 t hb n)" "contiguous 0 (used_headers (push_header pkt1 t hb n))"
        using push(1) by (simp_all only: chain_at_def)
      show "used_headers (push_header pkt1 t hb n) = used_headers pkt @ [?h]"
        unfolding push(2) used ..
    qed (use t ptr' len in \<open>simp_all add: header_bounded_def fields\<close>)
    moreover have "\<forall>h \<in> set [?h]. \<not> is_ip_type (htype h)"
      using tip by simp
    moreover have "pkt_ipv4 (push_header pkt1 t hb n) = pkt_ipv4 pkt"
      "pkt_ipv6 (push_header pkt1 t hb n) = pkt_ipv6 pkt"
      by (simp_all add: fields)
    moreover have "parse_append pkt1 t hb n (\<lambda>pkt. Some (PACKET_OK, pkt)) =
        Some (PACKET_OK, push_header pkt1 t hb n)"
      using False by (simp add: eq)
    ultimately show ?thesis
      unfolding leaf_ok_def by blast
  qed
qed

lemma parse_tcp_ok:
  assumes "chain_at pkt p" and "p + n \<le> e" and "e \<le> pkt_buffer_bytes pkt"
  shows "leaf_ok pkt e (parse_tcp pkt p n e)"
proof (cases "n < 20")
  case True
  then show ?thesis
    using leaf_ok_bad [OF assms(1)] by (simp add: parse_tcp_def)
next
  case False
  then obtain x where "rd8 (pkt_buffer pkt) (p + 12) = Some x"
    using assms rd_Some(1) [of "p + 12" "pkt_buffer pkt"] by auto
  then have "packet_tcp_header_len (pkt\<lparr>pkt_tcp := Some p\<rparr>) = Some (unat (drop_bit 4 x) * 4)"
    by (simp add: packet_tcp_header_len_def tcp_doff_def)
  with False assms show ?thesis
    unfolding parse_tcp_def Let_def
    by (auto intro!: leaf_ok_bad [OF assms(1)] leaf_push_ok [OF assms(1)]
        simp: is_l4_type_def l4_ptr_def)
qed

lemma parse_sctp_ok:
  assumes "chain_at pkt p" and "p + n \<le> e" and "e \<le> pkt_buffer_bytes pkt"
  shows "leaf_ok pkt e (parse_sctp pkt p n e)"
proof (cases "n < 12")
  case True
  then show ?thesis
    using leaf_ok_bad [OF assms(1)] by (simp add: parse_sctp_def)
next
  case False
  then obtain v where v: "rd32 (pkt_buffer pkt) (p + 8) = Some v"
    using assms rd_Some(3) [of "p + 8" "pkt_buffer pkt"] by auto
  obtain b1 where b1: "wr32 (pkt_buffer pkt) (p + 8) 0 = Some b1"
    "wr32 b1 (p + 8) v = Some (pkt_buffer pkt)" "length b1 = pkt_buffer_bytes pkt"
    using wr32_restore [OF v] .
  obtain c where c: "sctp_crc32c_at b1 p n = Some c"
    using assms b1(3) by (simp add: sctp_crc32c_at_def rd_bytes_def)
  have buf: "pkt\<lparr>pkt_sctp := Some p, pkt_buffer := pkt_buffer pkt\<rparr> = pkt\<lparr>pkt_sctp := Some p\<rparr>"
    by simp
  show ?thesis
    using False assms unfolding parse_sctp_def Let_def
    by (auto intro!: leaf_ok_bad [OF assms(1)] leaf_push_ok [OF assms(1)]
        simp: is_l4_type_def l4_ptr_def upd_buffer_def v b1 c)
qed

lemma parse_udplite_ok:
  assumes "chain_at pkt p" and "p + n \<le> e" and "e \<le> pkt_buffer_bytes pkt"
  shows "leaf_ok pkt e (parse_udplite pkt p n e)"
  using assms unfolding parse_udplite_def Let_def
  by (auto intro!: leaf_ok_bad [OF assms(1)] leaf_push_ok [OF assms(1)]
      simp: is_l4_type_def l4_ptr_def)

lemma packet_inner_header_ok:
  "chain_at pkt p \<Longrightarrow> 0 < p \<Longrightarrow> \<exists>h. packet_inner_header pkt = Some h"
  by (cases "used_headers pkt") (auto simp: packet_inner_header_def packet_header_count_used chain_at_def)

lemma parse_icmp_ok:
  assumes "chain_at pkt p" and "0 < p" and "p + n \<le> e" and "e \<le> pkt_buffer_bytes pkt"
  shows "leaf_ok pkt e (parse_icmpv4 pkt p n e)" and "leaf_ok pkt e (parse_icmpv6 pkt p n e)"
proof -
  obtain h where "packet_inner_header pkt = Some h"
    using packet_inner_header_ok [OF assms(1,2)] by blast
  then show "leaf_ok pkt e (parse_icmpv4 pkt p n e)" and "leaf_ok pkt e (parse_icmpv6 pkt p n e)"
    using assms unfolding parse_icmpv4_def parse_icmpv6_def
    by (auto intro!: leaf_ok_bad [OF assms(1)] leaf_push_ok [OF assms(1)]
        simp: is_l4_type_def l4_ptr_def)
qed

subsection \<open>Nesting\<close>

text \<open>Parsing on from a packet that has one more header than \<open>pkt\<close>.\<close>

definition extends_by :: "packet \<Rightarrow> header \<Rightarrow> packet \<Rightarrow> bool" where
  "extends_by pkt h pkt1 \<longleftrightarrow> pkt_buffer pkt1 = pkt_buffer pkt \<and>
     used_headers pkt1 = used_headers pkt @ [h] \<and>
     pkt_ipv4 pkt1 = pkt_ipv4 pkt \<and> pkt_ipv6 pkt1 = pkt_ipv6 pkt"

lemma parse_post_extend:
  assumes "extends_by pkt h pkt1" and "header_bounded e h" and "parse_post pkt1 e r pkt' new"
  shows "parse_post pkt e r pkt' (h # new)"
  using assms unfolding extends_by_def parse_post_def by (elim conjE) (intro conjI impI, simp_all)

lemma parse_post_single:
  assumes "extends_by pkt h pkt1" and "header_bounded e h" and "chain_at pkt1 q"
    and "is_l4_type (htype h)" and "l4_ptr pkt1 (htype h) = hptr h"
  shows "parse_post pkt e r pkt1 [h]"
  using assms unfolding extends_by_def parse_post_def chain_at_def
  by (elim conjE) (intro conjI impI, simp_all only: list.set ball_simps last.simps, simp_all)

lemma leaf_ok_extend:
  assumes "extends_by pkt h pkt1" and "header_bounded e h" and "\<not> is_ip_type (htype h)"
    and "leaf_ok pkt1 e res"
  shows "leaf_ok pkt e res"
proof -
  obtain r pkt' new where res: "res = Some (r, pkt')" "parse_post pkt1 e r pkt' new"
      "\<forall>h \<in> set new. \<not> is_ip_type (htype h)"
      "pkt_ipv4 pkt' = pkt_ipv4 pkt1" "pkt_ipv6 pkt' = pkt_ipv6 pkt1"
    using assms(4) unfolding leaf_ok_def by blast
  then show ?thesis
    unfolding leaf_ok_def using parse_post_extend [OF assms(1,2) res(2)] assms(1,3)
    by (intro exI [of _ r] exI [of _ pkt'] exI [of _ "h # new"]) (simp add: extends_by_def)
qed

lemma net_ok_extend:
  assumes "extends_by pkt h pkt1" and "header_bounded e h" and "\<not> is_ip_type (htype h)"
    and "net_ok pkt1 e res"
  shows "net_ok pkt e res"
proof -
  obtain r pkt' new where res: "res = Some (r, pkt')" "parse_post pkt1 e r pkt' new"
      "r = PACKET_OK \<Longrightarrow> ip_selected pkt1 pkt' new"
    using assms(4) unfolding net_ok_def by blast
  moreover have "ip_selected pkt pkt' (h # new)" if "ip_selected pkt1 pkt' new"
    using that assms(1) unfolding ip_selected_def extends_by_def by (metis append_Cons)
  ultimately show ?thesis
    unfolding net_ok_def using parse_post_extend [OF assms(1,2) res(2)] assms(3)
    by (intro exI [of _ r] exI [of _ pkt'] exI [of _ "h # new"]) simp
qed

lemma extends_by_push:
  assumes "chain_at pkt p" and "packet_header_count pkt \<noteq> 6" and "t \<noteq> HEADER_NONE"
  shows "extends_by pkt \<lparr> htype = t, header_bytes = hb, total_bytes = tb, hptr = Some p \<rparr>
           (push_header pkt t hb tb)"
  using chain_at_push(2) [OF assms, of hb tb] by (simp add: extends_by_def)

lemma header_bounded_Some [simp]:
  "header_bounded e \<lparr> htype = t, header_bytes = hb, total_bytes = tb, hptr = Some p \<rparr> \<longleftrightarrow>
     hb \<le> tb \<and> p + tb \<le> e"
  by (simp add: header_bounded_def)

text \<open>What \<^verbatim>\<open>parse_udp\<close> does after it has appended the UDP header.\<close>

abbreviation udp_cont :: "u8 \<Rightarrow> nat \<Rightarrow> nat \<Rightarrow> nat \<Rightarrow> packet \<Rightarrow> parsed" where
  "udp_cont enc p n e \<equiv> \<lambda>pkt. if enc = IPPROTO_SCTP
     then parse_sctp (pkt\<lparr>pkt_flags := pkt_flags pkt OR FLAGS_UDP_ENCAPSULATED\<rparr>) (p + 8) (n - 8) e
     else if enc = IPPROTO_TCP
     then parse_tcp (pkt\<lparr>pkt_flags := pkt_flags pkt OR FLAGS_UDP_ENCAPSULATED\<rparr>) (p + 8) (n - 8) e
     else Some (PACKET_OK, pkt\<lparr>pkt_udp := Some p\<rparr>)"

lemma udp_push_ok:
  assumes chain: "chain_at pkt p" and n: "8 \<le> n" "p + n \<le> e" and e: "e \<le> pkt_buffer_bytes pkt"
    and six: "packet_header_count pkt \<noteq> 6"
  shows "leaf_ok pkt e (udp_cont enc p n e (push_header pkt HEADER_UDP 8 n))"
proof -
  let ?h = "\<lparr> htype = HEADER_UDP, header_bytes = 8, total_bytes = n, hptr = Some p \<rparr>"
  let ?pkt1 = "push_header pkt HEADER_UDP 8 n"
  let ?pktf = "?pkt1\<lparr>pkt_flags := pkt_flags ?pkt1 OR FLAGS_UDP_ENCAPSULATED\<rparr>"
  let ?pktu = "?pkt1\<lparr>pkt_udp := Some p\<rparr>"
  note push = chain_at_push(1) [OF chain six, of HEADER_UDP 8 n, simplified]
  have "extends_by pkt ?h ?pkt1"
    using extends_by_push [OF chain six] by simp
  then have ext: "extends_by pkt ?h ?pktf" "extends_by pkt ?h ?pktu"
    by (simp_all add: extends_by_def)
  have bnd: "header_bounded e ?h" and notip: "\<not> is_ip_type (htype ?h)"
    using n by (simp_all add: is_ip_type_def)
  have "leaf_ok ?pktf e (parse_sctp ?pktf (p + 8) (n - 8) e)"
    "leaf_ok ?pktf e (parse_tcp ?pktf (p + 8) (n - 8) e)"
    using push n e by (auto intro!: parse_sctp_ok parse_tcp_ok)
  note inner = this [THEN leaf_ok_extend [OF ext(1) bnd notip]]
  have "parse_post pkt e PACKET_OK ?pktu [?h]"
    using push by (intro parse_post_single [OF ext(2) bnd]) (simp_all add: is_l4_type_def l4_ptr_def)
  then have "leaf_ok pkt e (Some (PACKET_OK, ?pktu))"
    unfolding leaf_ok_def using ext(2) notip
    by (intro exI [of _ PACKET_OK] exI [of _ ?pktu] exI [of _ "[?h]"]) (simp add: extends_by_def)
  with inner show ?thesis
    by simp
qed

lemma parse_udp_ok:
  assumes chain: "chain_at pkt p" and n: "p + n \<le> e" and e: "e \<le> pkt_buffer_bytes pkt"
    and enc: "enc \<in> {0, IPPROTO_TCP, IPPROTO_SCTP}"
  shows "leaf_ok pkt e (parse_udp pkt enc p n e)"
proof (cases "n < 8")
  case True
  then show ?thesis
    using leaf_ok_bad [OF chain] by (simp add: parse_udp_def)
next
  case False
  then obtain v where v: "udp_len (pkt_buffer pkt) p = Some v"
    using n e rd_Some(2) [of "p + 4" "pkt_buffer pkt"] by (auto simp: udp_len_def)
  have "headers_wf pkt" "pkt_ip_bytes pkt + 8 \<le> pkt_buffer_bytes pkt"
    using chain False n e by (simp_all add: chain_at_def)
  then have "leaf_ok pkt e (parse_append pkt HEADER_UDP 8 n (udp_cont enc p n e))"
    using udp_push_ok [OF chain _ n e] False
    by (cases "packet_header_count pkt = 6") (simp_all add: parse_append_eq leaf_ok_bad [OF chain])
  moreover have "parse_udp pkt enc p n e = parse_append pkt HEADER_UDP 8 n (udp_cont enc p n e)"
    if "unat v = n"
    using that v False n enc unfolding parse_udp_def
    by (auto intro!: arg_cong [where f = "parse_append pkt HEADER_UDP 8 n"])
  ultimately show ?thesis
    using False v leaf_ok_bad [OF chain, of pkt]
    by (cases "unat v = n") (auto simp: parse_udp_def Let_def)
qed

text \<open>The result of \<^verbatim>\<open>parse_layer4\<close>, by the value of \<^verbatim>\<open>is_inner\<close>.\<close>

definition l4_ok :: "packet \<Rightarrow> nat \<Rightarrow> (packet_parse_result \<times> packet \<times> bool) option \<Rightarrow> bool" where
  "l4_ok pkt e res \<longleftrightarrow> (\<exists>r pkt' inner. res = Some (r, pkt', inner) \<and>
     (if inner then leaf_ok pkt e (Some (r, pkt')) else net_ok pkt e (Some (r, pkt'))))"

lemma l4_ok_map:
  "leaf_ok pkt e res \<Longrightarrow> l4_ok pkt e (map_option (\<lambda>(r, pkt'). (r, pkt', True)) res)"
  "net_ok pkt e res \<Longrightarrow> l4_ok pkt e (map_option (\<lambda>(r, pkt'). (r, pkt', False)) res)"
  unfolding l4_ok_def leaf_ok_def net_ok_def by (elim exE, simp, blast)+

text \<open>The end of \<^verbatim>\<open>parse_ipv4\<close> and \<^verbatim>\<open>parse_ipv6\<close>.\<close>

definition ip_finish :: "header_t \<Rightarrow> nat \<Rightarrow> bool \<Rightarrow> nat
    \<Rightarrow> (packet_parse_result \<times> packet \<times> bool) option \<Rightarrow> parsed" where
  "ip_finish t p is_outer tbytes res = do {
     (result, pkt, is_inner) \<leftarrow> res;
     let pkt = (if is_inner then if t = HEADER_IPV4 then pkt\<lparr>pkt_ipv4 := Some p\<rparr>
                                 else pkt\<lparr>pkt_ipv6 := Some p\<rparr>
                else pkt);
     let pkt = (if is_outer then pkt\<lparr>pkt_ip_bytes := tbytes\<rparr> else pkt);
     Some (result, pkt)
   }"

lemma parse_post_ip_upd [simp]:
  "parse_post pkt e r (pkt'\<lparr>pkt_ipv4 := q\<rparr>) new = parse_post pkt e r pkt' new"
  "parse_post pkt e r (pkt'\<lparr>pkt_ipv6 := q\<rparr>) new = parse_post pkt e r pkt' new"
  "parse_post pkt e r (pkt'\<lparr>pkt_ip_bytes := n\<rparr>) new = parse_post pkt e r pkt' new"
  by (simp_all add: parse_post_def l4_ptr_def cong: header_t.case_cong)

lemma ip_finish_inner:
  assumes ext: "extends_by pkt h pkt1" and h: "is_ip_type (htype h)" "hptr h = Some p"
      "header_bounded e h"
    and res: "leaf_ok pkt1 e (Some (r, pkt'))"
  shows "net_ok pkt e (ip_finish (htype h) p (pkt_ip_bytes pkt = 0) (total_bytes h)
           (Some (r, pkt', True)))"
proof -
  let ?pkt2 = "if htype h = HEADER_IPV4 then pkt'\<lparr>pkt_ipv4 := Some p\<rparr> else pkt'\<lparr>pkt_ipv6 := Some p\<rparr>"
  let ?pkt3 = "if pkt_ip_bytes pkt = 0 then ?pkt2\<lparr>pkt_ip_bytes := total_bytes h\<rparr> else ?pkt2"
  obtain new where new: "parse_post pkt1 e r pkt' new" "\<forall>h \<in> set new. \<not> is_ip_type (htype h)"
      "pkt_ipv4 pkt' = pkt_ipv4 pkt1" "pkt_ipv6 pkt' = pkt_ipv6 pkt1"
    using res unfolding leaf_ok_def by auto
  have "ip_selected pkt ?pkt3 (h # new)"
    unfolding ip_selected_def using h new ext
    by (intro exI [of _ "[]"] exI [of _ h] exI [of _ new]) (auto simp: is_ip_type_def extends_by_def)
  moreover have "parse_post pkt e r ?pkt3 (h # new)"
    using parse_post_extend [OF ext h(3) new(1)] by simp
  ultimately show ?thesis
    unfolding net_ok_def ip_finish_def Let_def
    by (intro exI [of _ r] exI [of _ ?pkt3] exI [of _ "h # new"]) simp
qed

lemma ip_finish_outer:
  assumes ext: "extends_by pkt h pkt1" and h: "is_ip_type (htype h)" "header_bounded e h"
    and res: "net_ok pkt1 e (Some (r, pkt'))"
  shows "net_ok pkt e (ip_finish (htype h) p (pkt_ip_bytes pkt = 0) (total_bytes h)
           (Some (r, pkt', False)))"
proof -
  let ?pkt3 = "if pkt_ip_bytes pkt = 0 then pkt'\<lparr>pkt_ip_bytes := total_bytes h\<rparr> else pkt'"
  obtain new where new: "parse_post pkt1 e r pkt' new" "r = PACKET_OK \<Longrightarrow> ip_selected pkt1 pkt' new"
    using res unfolding net_ok_def by auto
  have "ip_selected pkt ?pkt3 (h # new)" if sel: "ip_selected pkt1 pkt' new"
  proof -
    obtain xs g ys where "new = xs @ g # ys" "is_ip_type (htype g)"
        "\<forall>y \<in> set ys. \<not> is_ip_type (htype y)"
        "pkt_ipv4 pkt' = (if htype g = HEADER_IPV4 then hptr g else pkt_ipv4 pkt1)"
        "pkt_ipv6 pkt' = (if htype g = HEADER_IPV6 then hptr g else pkt_ipv6 pkt1)"
      using sel unfolding ip_selected_def by blast
    then show ?thesis
      unfolding ip_selected_def using ext
      by (intro exI [of _ "h # xs"] exI [of _ g] exI [of _ ys]) (simp add: extends_by_def)
  qed
  moreover have "parse_post pkt e r ?pkt3 (h # new)"
    using parse_post_extend [OF ext h(2) new(1)] by simp
  ultimately show ?thesis
    unfolding net_ok_def ip_finish_def Let_def using new(2)
    by (intro exI [of _ r] exI [of _ ?pkt3] exI [of _ "h # new"]) simp
qed

lemma ip_finish_ok:
  assumes "chain_at pkt p" and "packet_header_count pkt \<noteq> 6" and "is_ip_type t"
    and "hb \<le> tb" and "p + tb \<le> e" and "l4_ok (push_header pkt t hb tb) e res"
  shows "net_ok pkt e (ip_finish t p (pkt_ip_bytes pkt = 0) tb res)"
proof -
  let ?h = "\<lparr> htype = t, header_bytes = hb, total_bytes = tb, hptr = Some p \<rparr>"
  have t: "t \<noteq> HEADER_NONE"
    using assms(3) by (auto simp: is_ip_type_def)
  note ext = extends_by_push [OF assms(1,2) t, of hb tb]
  have h: "is_ip_type (htype ?h)" "hptr ?h = Some p" "header_bounded e ?h"
    using assms by simp_all
  obtain r pkt' inner where res: "res = Some (r, pkt', inner)"
    and ok: "if inner then leaf_ok (push_header pkt t hb tb) e (Some (r, pkt'))
             else net_ok (push_header pkt t hb tb) e (Some (r, pkt'))"
    using assms(6) unfolding l4_ok_def by blast
  show ?thesis
    unfolding res using ok ip_finish_inner [OF ext h] ip_finish_outer [OF ext h(1,3)]
    by (cases inner) simp_all
qed

subsection \<open>The recursive functions\<close>

definition parse_pre :: "packet \<Rightarrow> nat \<Rightarrow> nat \<Rightarrow> bool" where
  "parse_pre pkt p e \<longleftrightarrow> chain_at pkt p \<and> p mod 4 = 0 \<and> p \<le> e \<and> e < pkt_buffer_bytes pkt"

lemma parse_pre_push:
  assumes "parse_pre pkt p e" and "packet_header_count pkt \<noteq> 6" and "t \<noteq> HEADER_NONE"
    and "p + hb \<le> e" and "hb mod 4 = 0"
  shows "parse_pre (push_header pkt t hb tb) (p + hb) e"
  using assms chain_at_push(1) [of pkt p t hb tb] by (auto simp: parse_pre_def)

text \<open>The part of \<^verbatim>\<open>parse_ipv4\<close> and \<^verbatim>\<open>parse_ipv6\<close> from \<^verbatim>\<open>packet_append_header\<close> on.\<close>

lemma ip_append_ok:
  assumes pre: "parse_pre pkt p e" and t: "is_ip_type t"
    and hb: "0 < hb" "hb mod 4 = 0" "hb \<le> tb" "p + tb \<le> e"
    and proto: "get_proto (pkt_buffer pkt) p = Some proto"
    and IH: "\<And>pkt' p' proto n. p < p' \<Longrightarrow> parse_pre pkt' p' e \<Longrightarrow> p' + n \<le> e \<Longrightarrow>
       l4_ok pkt' e (parse_layer4 pkt' enc p' proto n e)"
  shows "net_ok pkt e (parse_append pkt t hb tb (\<lambda>pkt'. do {
           proto \<leftarrow> get_proto (pkt_buffer pkt') p;
           ip_finish t p (pkt_ip_bytes pkt = 0) tb
             (parse_layer4 pkt' enc (p + hb) proto (tb - hb) e) }))"
proof -
  have chain: "chain_at pkt p" and wf: "headers_wf pkt"
    and room: "pkt_ip_bytes pkt + hb \<le> pkt_buffer_bytes pkt"
    using pre hb by (auto simp: parse_pre_def chain_at_def)
  have t0: "t \<noteq> HEADER_NONE"
    using t by (auto simp: is_ip_type_def)
  show ?thesis
  proof (cases "packet_header_count pkt = 6")
    case True
    then show ?thesis
      by (simp add: parse_append_eq [OF wf room] net_ok_bad [OF chain])
  next
    case False
    have "l4_ok (push_header pkt t hb tb) e
        (parse_layer4 (push_header pkt t hb tb) enc (p + hb) proto (tb - hb) e)"
      using hb by (intro IH parse_pre_push [OF pre False t0]) simp_all
    then show ?thesis
      using ip_finish_ok [OF chain False t hb(3,4)] False proto
      by (simp add: parse_append_eq [OF wf room])
  qed
qed

lemma parse_ipv6_ok:
  assumes pre: "parse_pre pkt p e"
    and IH: "\<And>pkt' p' proto n. p < p' \<Longrightarrow> parse_pre pkt' p' e \<Longrightarrow> p' + n \<le> e \<Longrightarrow>
       l4_ok pkt' e (parse_layer4 pkt' enc p' proto n e)"
  shows "net_ok pkt e (parse_ipv6 pkt enc p e)"
proof -
  have chain: "chain_at pkt p" and e: "e < pkt_buffer_bytes pkt"
    using pre by (simp_all add: parse_pre_def)
  note bad = net_ok_bad [OF chain]
  show ?thesis
  proof (cases "p + 40 > e")
    case True
    then show ?thesis
      by (simp add: parse_ipv6.simps bad)
  next
    case False
    then obtain len proto where r: "ipv6_payload_len (pkt_buffer pkt) p = Some len"
        "ipv6_next_header (pkt_buffer pkt) p = Some proto"
      using e rd_Some(2) [of "p + 4" "pkt_buffer pkt"] rd_Some(1) [of "p + 6" "pkt_buffer pkt"]
      by (auto simp: ipv6_payload_len_def ipv6_next_header_def)
    show ?thesis
      using ip_append_ok [OF pre, of HEADER_IPV6 40 "40 + unat len" ipv6_next_header proto enc] IH
        False r
      by (auto simp: parse_ipv6.simps Let_def bad is_ip_type_def ip_finish_def
          cong: if_cong split: if_splits)
  qed
qed

lemma ipv4_bad_checksum_ok:
  assumes "chain_at pkt p" and "p mod 4 = 0" and "20 \<le> hb" and "p + hb \<le> pkt_buffer_bytes pkt"
  shows "net_ok pkt e (do {
     received \<leftarrow> ipv4_check (pkt_buffer pkt) p;
     pkt \<leftarrow> upd_buffer (\<lambda>b. wr16 b (p + 10) 0) pkt;
     c \<leftarrow> ipv4_checksum_at (pkt_buffer pkt) p hb;
     pkt \<leftarrow> upd_buffer (\<lambda>b. wr16 b (p + 10) received) pkt;
     parse_bad (Bad_IP_checksum received (ntohs c)) pkt })"
proof -
  obtain v where v: "ipv4_check (pkt_buffer pkt) p = Some v"
    using assms rd_Some(2) [of "p + 10" "pkt_buffer pkt"] by (auto simp: ipv4_check_def)
  obtain b1 where b1: "wr16 (pkt_buffer pkt) (p + 10) 0 = Some b1"
    "wr16 b1 (p + 10) v = Some (pkt_buffer pkt)" "length b1 = pkt_buffer_bytes pkt"
    using wr16_restore v unfolding ipv4_check_def by blast
  obtain c where "ipv4_checksum_at b1 p hb = Some c"
    using assms b1(3) by (simp add: ipv4_checksum_at_def rd_bytes_def)
  then show ?thesis
    using v b1 by (simp add: upd_buffer_def net_ok_bad [OF assms(1)])
qed

lemma parse_ipv4_ok:
  assumes pre: "parse_pre pkt p e"
    and IH: "\<And>pkt' p' proto n. p < p' \<Longrightarrow> parse_pre pkt' p' e \<Longrightarrow> p' + n \<le> e \<Longrightarrow>
       l4_ok pkt' e (parse_layer4 pkt' enc p' proto n e)"
  shows "net_ok pkt e (parse_ipv4 pkt enc p e)"
proof -
  have chain: "chain_at pkt p" and al: "p mod 4 = 0" and e: "p \<le> e" "e < pkt_buffer_bytes pkt"
    using pre by (simp_all add: parse_pre_def)
  note bad = net_ok_bad [OF chain]
  obtain hl where hl: "ipv4_header_len (pkt_buffer pkt) p = Some hl" and hl4: "hl mod 4 = 0"
    using e rd_Some(1) [of p "pkt_buffer pkt"] by (auto simp: ipv4_header_len_def ipv4_ihl_def)
  show ?thesis
  proof (cases "hl < 20 \<or> p + hl > e")
    case True
    then show ?thesis
      using hl by (auto simp: parse_ipv4.simps Let_def bad)
  next
    case False
    then have bounds: "20 \<le> hl" "p + hl \<le> e" "p + hl \<le> pkt_buffer_bytes pkt"
      using e by simp_all
    obtain len frag c proto where r: "ipv4_tot_len (pkt_buffer pkt) p = Some len"
        "ipv4_frag_off (pkt_buffer pkt) p = Some frag"
        "ipv4_checksum_at (pkt_buffer pkt) p hl = Some c"
        "ipv4_protocol (pkt_buffer pkt) p = Some proto"
      using bounds al rd_Some(2) [of "p + 2" "pkt_buffer pkt"] rd_Some(2) [of "p + 6" "pkt_buffer pkt"]
        rd_Some(1) [of "p + 9" "pkt_buffer pkt"]
      by (auto simp: ipv4_tot_len_def ipv4_frag_off_def ipv4_protocol_def ipv4_checksum_at_def
          rd_bytes_def)
    have fin: "net_ok pkt e (parse_append pkt HEADER_IPV4 hl (unat len) (\<lambda>pkt'. do {
           proto \<leftarrow> ipv4_protocol (pkt_buffer pkt') p;
           ip_finish HEADER_IPV4 p (pkt_ip_bytes pkt = 0) (unat len)
             (parse_layer4 pkt' enc (p + hl) proto (unat len - hl) e) }))"
      if "p + unat len \<le> e" "hl \<le> unat len"
      using that bounds hl4 IH
      by (intro ip_append_ok [OF pre, where proto = proto]) (simp_all add: is_ip_type_def r)
    show ?thesis
      using fin bounds ipv4_bad_checksum_ok [OF chain al bounds(1,3)]
      by (auto simp: parse_ipv4.simps Let_def bad hl r ip_finish_def cong: if_cong)
  qed
qed

text \<open>Headers that are neither IP nor transport headers: GRE and MPLS.\<close>

lemma shim_append_ok:
  assumes pre: "parse_pre pkt p e" and t: "t = HEADER_GRE \<or> t = HEADER_MPLS"
    and hb: "hb mod 4 = 0" "hb \<le> tb" "p + tb \<le> e"
    and cont: "parse_pre (push_header pkt t hb tb) (p + hb) e \<Longrightarrow>
       net_ok (push_header pkt t hb tb) e (cont (push_header pkt t hb tb))"
  shows "net_ok pkt e (parse_append pkt t hb tb cont)"
proof -
  have chain: "chain_at pkt p" and wf: "headers_wf pkt"
    and room: "pkt_ip_bytes pkt + hb \<le> pkt_buffer_bytes pkt"
    using pre hb by (auto simp: parse_pre_def chain_at_def)
  show ?thesis
  proof (cases "packet_header_count pkt = 6")
    case True
    then show ?thesis
      by (simp add: parse_append_eq [OF wf room] net_ok_bad [OF chain])
  next
    case False
    let ?h = "\<lparr> htype = t, header_bytes = hb, total_bytes = tb, hptr = Some p \<rparr>"
    have "extends_by pkt ?h (push_header pkt t hb tb)"
      using t by (intro extends_by_push [OF chain False]) auto
    moreover have "header_bounded e ?h" "\<not> is_ip_type (htype ?h)"
      using t hb by (auto simp: is_ip_type_def)
    moreover have "parse_pre (push_header pkt t hb tb) (p + hb) e"
      using t hb by (intro parse_pre_push [OF pre False]) auto
    then have "net_ok (push_header pkt t hb tb) e (cont (push_header pkt t hb tb))"
      by (rule cont)
    ultimately show ?thesis
      using net_ok_extend False by (simp add: parse_append_eq [OF wf room])
  qed
qed

lemma parse_gre_ok:
  assumes pre: "parse_pre pkt p e" and n: "p + n \<le> e"
    and IH: "\<And>pkt' p' proto. p < p' \<Longrightarrow> parse_pre pkt' p' e \<Longrightarrow>
       net_ok pkt' e (parse_layer3_packet_by_proto pkt' proto enc p' e)"
  shows "net_ok pkt e (parse_gre pkt enc p n e)"
proof (cases "n < 4")
  case True
  then show ?thesis
    using pre by (auto simp: parse_gre.simps parse_pre_def intro: net_ok_bad)
next
  case False
  have chain: "chain_at pkt p" and e: "e < pkt_buffer_bytes pkt"
    using pre by (simp_all add: parse_pre_def)
  obtain x y proto where r: "rd8 (pkt_buffer pkt) p = Some x" "rd8 (pkt_buffer pkt) (Suc p) = Some y"
      "gre_protocol (pkt_buffer pkt) p = Some proto"
    using False n e rd_Some(1) [of p "pkt_buffer pkt"] rd_Some(1) [of "p + 1" "pkt_buffer pkt"]
      rd_Some(2) [of "p + 2" "pkt_buffer pkt"] by (auto simp: gre_protocol_def)
  define gl where "gl = sizeof_gre + (if bit x 7 then 4 else 0) + (if bit x 5 then 4 else 0)
     + (if bit x 4 then 4 else 0)"
  have len: "gre_len (pkt_buffer pkt) p = Some gl" if "y AND 7 = 0" "\<not> bit x 6"
    using that r by (simp add: gre_len_def gre_version_def gre_has_def gl_def)
  have gl: "gl mod 4 = 0" "4 \<le> gl"
    by (simp_all add: gl_def)
  have "net_ok pkt e (parse_append pkt HEADER_GRE gl n (\<lambda>pkt. do {
      protocol \<leftarrow> gre_protocol (pkt_buffer pkt) p;
      parse_layer3_packet_by_proto pkt protocol enc (p + gl) e }))" if "gl \<le> n"
    using that gl n r by (intro shim_append_ok [OF pre]) (auto intro!: IH)
  then show ?thesis
    using False n r len gl
    by (auto simp: parse_gre.simps gre_version_def gre_has_def net_ok_bad [OF chain])
qed

lemma mpls_stack_end_ok:
  assumes "e \<le> length b"
  shows "\<exists>q. mpls_stack_end b p e = Some q \<and> (\<forall>q'. q = Some q' \<longrightarrow> (q' - p) mod 4 = 0)"
  using assms
proof (induction b p e rule: mpls_stack_end.induct)
  case (1 b p e)
  show ?case
  proof (cases "p + 4 > e")
    case True
    then show ?thesis by (simp add: mpls_stack_end.simps [of b p])
  next
    case False
    then obtain v where v: "rd32 b p = Some v"
      using 1 rd_Some(3) [of p b] by auto
    show ?thesis
    proof (cases "\<not> mpls_entry_stack v \<and> p + 4 < e")
      case True
      with 1 False v obtain q where q: "mpls_stack_end b (p + 4) e = Some q"
          "\<forall>q'. q = Some q' \<longrightarrow> (q' - (p + 4)) mod 4 = 0"
        by auto
      moreover have "(q' - p) mod 4 = 0" if "q = Some q'" for q'
        using that q mpls_stack_end_gt [of b "p + 4" e q'] mod_add_self2 [of "q' - (p + 4)" 4]
        by simp
      ultimately show ?thesis
        using False v True by (simp add: mpls_stack_end.simps [of b p])
    next
      case stop: False
      then have "mpls_stack_end b p e = Some (Some (p + 4))"
        using False v by (auto simp: mpls_stack_end.simps [of b p])
      then show ?thesis by simp
    qed
  qed
qed

lemma parse_mpls_ok:
  assumes pre: "parse_pre pkt p e"
    and IH: "\<And>pkt' p'. p < p' \<Longrightarrow> parse_pre pkt' p' e \<Longrightarrow>
       net_ok pkt' e (parse_layer3_packet pkt' enc p' e)"
  shows "net_ok pkt e (parse_mpls pkt enc p e)"
proof -
  have chain: "chain_at pkt p" and e: "e < pkt_buffer_bytes pkt"
    using pre by (simp_all add: parse_pre_def)
  obtain q where q: "mpls_stack_end (pkt_buffer pkt) p e = Some q"
      "\<forall>q'. q = Some q' \<longrightarrow> (q' - p) mod 4 = 0"
    using mpls_stack_end_ok e by (metis less_imp_le)
  show ?thesis
  proof (cases q)
    case None
    then show ?thesis using q by (simp add: parse_mpls.simps net_ok_bad [OF chain])
  next
    case (Some q')
    then have "p + 4 \<le> q'" "q' \<le> e"
      using q mpls_stack_end_gt by blast+
    moreover from this have "net_ok pkt e (parse_append pkt HEADER_MPLS (q' - p) (e - p)
        (\<lambda>pkt. parse_layer3_packet pkt enc q' e))"
      using Some q by (intro shim_append_ok [OF pre]) (auto intro!: IH)
    ultimately show ?thesis
      using Some q diff_le_mono [of q' e p] by (simp add: parse_mpls.simps Let_def)
  qed
qed

text \<open>All of the mutually recursive functions keep their promise, by induction on the number of
  bytes left.\<close>

lemma parse_all_ok:
  assumes enc: "enc \<in> {0, IPPROTO_TCP, IPPROTO_SCTP}" and "parse_pre pkt p e"
  shows "net_ok pkt e (parse_layer3_packet_by_proto pkt eproto enc p e) \<and>
     net_ok pkt e (parse_layer3_packet pkt enc p e) \<and>
     (0 < p \<longrightarrow> p + n \<le> e \<longrightarrow> l4_ok pkt e (parse_layer4 pkt enc p iproto n e))"
  using assms(2)
proof (induction "e - p" arbitrary: pkt p eproto iproto n rule: less_induct)
  case less
  note pre = less.prems
  have chain: "chain_at pkt p" and e: "p \<le> e" "e < pkt_buffer_bytes pkt"
    using pre by (simp_all add: parse_pre_def)
  have IH: "net_ok pkt' e (parse_layer3_packet_by_proto pkt' eproto enc p' e)"
      "net_ok pkt' e (parse_layer3_packet pkt' enc p' e)"
      "p' + n \<le> e \<Longrightarrow> l4_ok pkt' e (parse_layer4 pkt' enc p' iproto n e)"
    if "p < p'" "parse_pre pkt' p' e" for pkt' p' eproto iproto n
  proof -
    have "e - p' < e - p"
      using that unfolding parse_pre_def by linarith
    from less.hyps [OF this that(2)] that(1)
    show "net_ok pkt' e (parse_layer3_packet_by_proto pkt' eproto enc p' e)"
      "net_ok pkt' e (parse_layer3_packet pkt' enc p' e)"
      "p' + n \<le> e \<Longrightarrow> l4_ok pkt' e (parse_layer4 pkt' enc p' iproto n e)"
      by auto
  qed
  have v4: "net_ok pkt e (parse_ipv4 pkt enc p e)"
    by (rule parse_ipv4_ok [OF pre IH(3)])
  have v6: "net_ok pkt e (parse_ipv6 pkt enc p e)"
    by (rule parse_ipv6_ok [OF pre IH(3)])
  have mpls: "net_ok pkt e (parse_mpls pkt enc p e)"
    by (rule parse_mpls_ok [OF pre IH(2)])
  have ver: "\<exists>v. ipv4_version (pkt_buffer pkt) p = Some v" "\<exists>v. ipv6_version (pkt_buffer pkt) p = Some v"
    using e rd_Some(1) [of p "pkt_buffer pkt"] by (auto simp: ipv4_version_def ipv6_version_def)
  have "net_ok pkt e (parse_layer3_packet_by_proto pkt eproto enc p e)"
    "net_ok pkt e (parse_layer3_packet pkt enc p e)"
    using v4 v6 mpls ver
    by (auto simp: parse_layer3_packet_by_proto.simps parse_layer3_packet.simps net_ok_bad [OF chain])
  moreover have "l4_ok pkt e (parse_layer4 pkt enc p iproto n e)" if "0 < p" "p + n \<le> e"
  proof -
    have leaf: "leaf_ok pkt e (parse_sctp pkt p n e)" "leaf_ok pkt e (parse_tcp pkt p n e)"
      "leaf_ok pkt e (parse_udp pkt enc p n e)" "leaf_ok pkt e (parse_udplite pkt p n e)"
      "leaf_ok pkt e (parse_icmpv4 pkt p n e)" "leaf_ok pkt e (parse_icmpv6 pkt p n e)"
      using that e enc by (auto intro!: parse_sctp_ok parse_tcp_ok parse_udp_ok parse_udplite_ok
          parse_icmp_ok chain)
    have gre: "net_ok pkt e (parse_gre pkt enc p n e)"
      by (rule parse_gre_ok [OF pre that(2) IH(1)])
    have "l4_ok pkt e (Some (PACKET_UNKNOWN_L4, pkt, False))"
      using l4_ok_map(2) [OF net_ok_bad [OF chain, of PACKET_UNKNOWN_L4]] by simp
    then show ?thesis
      unfolding parse_layer4.simps Let_def using l4_ok_map(1) [OF leaf(1)] l4_ok_map(1) [OF leaf(2)]
        l4_ok_map(1) [OF leaf(3)] l4_ok_map(1) [OF leaf(4)] l4_ok_map(1) [OF leaf(5)]
        l4_ok_map(1) [OF leaf(6)] l4_ok_map(2) [OF gre] l4_ok_map(2) [OF v4] l4_ok_map(2) [OF v6]
      by simp
  qed
  ultimately show ?case by blast
qed

lemma packet_new_parse_pre:
  assumes "in_bytes < n"
  shows "parse_pre (packet_new buf n) 0 in_bytes"
  using assms fresh_headers [of "packet_new buf n"]
  by (simp add: parse_pre_def chain_at_def packet_new_def)

lemma parse_packet_net_ok:
  assumes "in_bytes < n" and "udp_encaps \<in> {0, IPPROTO_TCP, IPPROTO_SCTP}"
  shows "net_ok (packet_new buf n) in_bytes
           (parse_packet (packet_new buf n) in_bytes ether_type udp_encaps)"
  using parse_all_ok [OF assms(2) packet_new_parse_pre [OF assms(1)]] assms(1)
  by (simp add: parse_packet_def packet_new_def)

section \<open>Properties\<close>

text \<open>C2: For every content of the receive buffer, every ethertype and every UDP encapsulation mode
  of the tool, parsing a sniffed frame that is shorter than the buffer terminates without a failed
  assertion and without reading outside the buffer; it leaves the bytes of the packet as they were,
  and the headers it records lie one after the other from the start of the buffer, each of them
  with its payload inside the sniffed bytes.\<close>

theorem parse_packet_safe:
  assumes "in_bytes < n" and "udp_encaps \<in> {0, IPPROTO_TCP, IPPROTO_SCTP}"
  shows "\<exists>r pkt'. parse_packet (packet_new buf n) in_bytes ether_type udp_encaps = Some (r, pkt') \<and>
     pkt_buffer pkt' = pkt_buffer (packet_new buf n) \<and>
     headers_wf pkt' \<and> contiguous 0 (used_headers pkt') \<and>
     (\<forall>h \<in> set (used_headers pkt'). header_bounded in_bytes h)"
proof -
  have "used_headers (packet_new buf n) = []"
    by (rule fresh_headers) (simp add: packet_new_def)
  then show ?thesis
    using parse_packet_net_ok [OF assms, of buf ether_type]
    unfolding net_ok_def parse_post_def by fastforce
qed

theorem parse_packet_safe_witness:
  "\<exists>r pkt'. parse_packet (packet_new (\<lambda>_. 0x45) 64) 48 ETHERTYPE_IP 0 = Some (r, pkt') \<and>
     pkt_buffer pkt' = pkt_buffer (packet_new (\<lambda>_. 0x45) 64) \<and>
     headers_wf pkt' \<and> contiguous 0 (used_headers pkt') \<and>
     (\<forall>h \<in> set (used_headers pkt'). header_bounded 48 h)"
  by (rule parse_packet_safe) simp_all

text \<open>C18: A packet that the parser accepts ends in a transport or ICMP header, to which the packet's
  pointer of that kind points. Of the two IP pointers exactly the one of the innermost IP header's
  version is set, to that header; and when the outermost header is an IP header, the packet's
  length is that header's total length.\<close>

theorem parse_packet_accepted:
  assumes "in_bytes < n" and "udp_encaps \<in> {0, IPPROTO_TCP, IPPROTO_SCTP}"
    and "parse_packet (packet_new buf n) in_bytes ether_type udp_encaps = Some (PACKET_OK, pkt')"
  shows "\<exists>xs h ys. used_headers pkt' = xs @ h # ys \<and> is_ip_type (htype h) \<and>
       (\<forall>y \<in> set ys. \<not> is_ip_type (htype y)) \<and>
       pkt_ipv4 pkt' = (if htype h = HEADER_IPV4 then hptr h else None) \<and>
       pkt_ipv6 pkt' = (if htype h = HEADER_IPV6 then hptr h else None) \<and>
       is_l4_type (htype (last (used_headers pkt'))) \<and>
       l4_ptr pkt' (htype (last (used_headers pkt'))) = hptr (last (used_headers pkt')) \<and>
       (is_ip_type (htype (hd (used_headers pkt'))) \<longrightarrow>
          pkt_ip_bytes pkt' = total_bytes (hd (used_headers pkt')))"
proof -
  have none: "used_headers (packet_new buf n) = []"
    by (rule fresh_headers) (simp add: packet_new_def)
  have fields: "pkt_ipv4 (packet_new buf n) = None" "pkt_ipv6 (packet_new buf n) = None"
      "pkt_ip_bytes (packet_new buf n) = 0"
    by (simp_all add: packet_new_def)
  obtain new where post: "parse_post (packet_new buf n) in_bytes PACKET_OK pkt' new"
    and sel: "ip_selected (packet_new buf n) pkt' new"
    and len: "is_ip_type (htype (hd new)) \<Longrightarrow> pkt_ip_bytes pkt' = total_bytes (hd new)"
    using parse_packet_net_ok [OF assms(1,2), of buf ether_type] assms(3)
    unfolding net_ok_def fields by auto
  have new: "used_headers pkt' = new"
    and l4: "is_l4_type (htype (last new))" "l4_ptr pkt' (htype (last new)) = hptr (last new)"
    using post by (simp_all add: parse_post_def none)
  from sel show ?thesis
    unfolding ip_selected_def fields new using l4 len by blast
qed

text \<open>A TCP segment without payload, as it stands at the start of a receive buffer.\<close>

definition example_segment :: bytes where
  "example_segment =
     [0x45, 0, 0, 0x28, 0, 0, 0, 0, 0xff, 6, 0xbb, 0xd0, 0, 0, 0, 0, 0, 0, 0, 0] @
     [0x1f, 0x90, 0, 80, 0, 0, 0, 1, 0, 0, 0, 1, 0x50, 0x10, 1, 0, 0, 0, 0, 0]"

lemma replicate_6: "replicate 6 x = [x, x, x, x, x, x]"
  by (simp add: eval_nat_numeral)

lemma example_checksum: "ipv4_checksum (take 20 example_segment) = 0"
  unfolding ipv4_checksum_def by (subst fold_partial_zero_iff) (simp_all add: example_segment_def)

lemma example_segment_parse:
  "\<exists>pkt'. parse_packet (packet_new ((!) (example_segment @ [0])) 41) 40 ETHERTYPE_IP 0 =
     Some (PACKET_OK, pkt')"
proof -
  have len: "length (example_segment @ [0]) = 41"
    by (simp add: example_segment_def)
  have buf: "map ((!) (example_segment @ [0])) [0..<41] = example_segment @ [0]"
    unfolding len [symmetric] by (rule map_nth)
  have c: "ipv4_checksum_at (example_segment @ [0]) 0 20 = Some 0"
    using example_checksum by (simp add: ipv4_checksum_at_def rd_bytes_def example_segment_def)
  have fields: "ipv4_version (example_segment @ [0]) 0 = Some 4"
      "ipv4_header_len (example_segment @ [0]) 0 = Some 20"
      "ipv4_tot_len (example_segment @ [0]) 0 = Some 40"
      "ipv4_frag_off (example_segment @ [0]) 0 = Some 0"
      "ipv4_protocol (example_segment @ [0]) 0 = Some IPPROTO_TCP"
      "tcp_doff (example_segment @ [0]) 20 = Some 5"
      "length (example_segment @ [0]) = 41"
    by (simp_all add: wire_defs rd8_def rd16_def example_segment_def be16_of_def)
  show ?thesis
    using fields c
    by (simp add: parse_packet_def packet_new_def buf parse_layer3_packet_by_proto.simps
        parse_ipv4.simps parse_layer4.simps parse_tcp_def packet_tcp_header_len_def
        parse_append_def packet_append_header_def packet_header_count_def no_header_def
        set_total_bytes_def Let_def replicate_6 del: append_assoc)
qed

theorem parse_packet_accepted_witness:
  "\<exists>pkt'. parse_packet (packet_new ((!) (example_segment @ [0])) 41) 40 ETHERTYPE_IP 0 =
     Some (PACKET_OK, pkt') \<and>
     (\<exists>xs h ys. used_headers pkt' = xs @ h # ys \<and> is_ip_type (htype h) \<and>
       (\<forall>y \<in> set ys. \<not> is_ip_type (htype y)) \<and>
       pkt_ipv4 pkt' = (if htype h = HEADER_IPV4 then hptr h else None) \<and>
       pkt_ipv6 pkt' = (if htype h = HEADER_IPV6 then hptr h else None) \<and>
       is_l4_type (htype (last (used_headers pkt'))) \<and>
       l4_ptr pkt' (htype (last (used_headers pkt'))) = hptr (last (used_headers pkt')) \<and>
       (is_ip_type (htype (hd (used_headers pkt'))) \<longrightarrow>
          pkt_ip_bytes pkt' = total_bytes (hd (used_headers pkt'))))"
proof -
  obtain pkt' where eq: "parse_packet (packet_new ((!) (example_segment @ [0])) 41) 40 ETHERTYPE_IP 0 =
     Some (PACKET_OK, pkt')"
    using example_segment_parse by blast
  have "40 < (41 :: nat)" "(0 :: u8) \<in> {0, IPPROTO_TCP, IPPROTO_SCTP}"
    by simp_all
  from parse_packet_accepted [OF this eq] eq show ?thesis
    by blast
qed



end
