(* ===== verification/Tcp_Options.thy ===== *)
theory Tcp_Options
  imports Packet
begin

text \<open>
  TCP options: the option lists that scripts build (\<^verbatim>\<open>tcp_options.c\<close>), the iterator over the options of
  a packet (\<^verbatim>\<open>tcp_options_iterator.c\<close>) and their textual form (\<^verbatim>\<open>tcp_options_to_string.c\<close>).
\<close>

section \<open>Option lists\<close>

abbreviation (input) TCPOPT_EOL :: u8 where "TCPOPT_EOL \<equiv> 0"
abbreviation (input) TCPOPT_NOP :: u8 where "TCPOPT_NOP \<equiv> 1"
abbreviation (input) TCPOPT_MAXSEG :: u8 where "TCPOPT_MAXSEG \<equiv> 2"
abbreviation (input) TCPOPT_WINDOW :: u8 where "TCPOPT_WINDOW \<equiv> 3"
abbreviation (input) TCPOPT_SACK_PERMITTED :: u8 where "TCPOPT_SACK_PERMITTED \<equiv> 4"
abbreviation (input) TCPOPT_SACK :: u8 where "TCPOPT_SACK \<equiv> 5"
abbreviation (input) TCPOPT_TIMESTAMP :: u8 where "TCPOPT_TIMESTAMP \<equiv> 8"
abbreviation (input) TCPOPT_FASTOPEN :: u8 where "TCPOPT_FASTOPEN \<equiv> 34"
abbreviation (input) TCPOPT_EXP :: u8 where "TCPOPT_EXP \<equiv> 254"
abbreviation (input) TCPOPT_FASTOPEN_MAGIC :: u16 where "TCPOPT_FASTOPEN_MAGIC \<equiv> 0xF989"

definition MAX_TCP_OPTION_BYTES :: nat where [simp]: "MAX_TCP_OPTION_BYTES = 40"

record tcp_options =
  opt_data :: bytes
  opt_length :: u8

text \<open>A \<^verbatim>\<open>struct tcp_option\<close> as the 40 bytes it occupies: kind, length, data.\<close>

type_synonym tcp_option = bytes

definition tcp_options_new :: tcp_options where
  "tcp_options_new = \<lparr> opt_data = replicate MAX_TCP_OPTION_BYTES 0, opt_length = 0 \<rparr>"

definition tcp_option_new :: "u8 \<Rightarrow> u8 \<Rightarrow> tcp_option" where
  "tcp_option_new kind len = kind # len # replicate 38 0"

definition option_length :: "tcp_option \<Rightarrow> u8" where
  "option_length opt = opt ! 1"

definition tcp_options_append :: "tcp_options \<Rightarrow> tcp_option \<Rightarrow> (unit, tcp_options) status option" where
  "tcp_options_append options opt =
     (if unat (opt_length options) + unat (option_length opt) > MAX_TCP_OPTION_BYTES
      then Some (Inl ())
      else do {
        bytes \<leftarrow> rd_bytes opt 0 (unat (option_length opt));
        d \<leftarrow> wr_bytes (opt_data options) (unat (opt_length options)) bytes;
        let options = options\<lparr> opt_data := d, opt_length := opt_length options + option_length opt \<rparr>;
        c_assert (unat (opt_length options) \<le> MAX_TCP_OPTION_BYTES);
        Some (Inr options)
      })"

datatype tcp_opt_error =
    SACK_option_too_short
  | SACK_option_not_multiple_of_block
  | Unexpected_option_kind u8
  | Option_length_byte_too_far
  | Option_length_too_short
  | Option_data_too_far
  | Bad_option_length u8 u8
  | Invalid_fast_open_length u8
  | Unknown_experimental_option

definition num_sack_blocks :: "u8 \<Rightarrow> (tcp_opt_error, nat) status" where
  "num_sack_blocks opt_len =
     (if opt_len \<le> 2 then Inl SACK_option_too_short
      else let num_bytes = unat opt_len - 2
           in if num_bytes mod 8 \<noteq> 0 then Inl SACK_option_not_multiple_of_block
              else Inr (num_bytes div 8))"

section \<open>The iterator\<close>

definition get_expected_tcp_option_length :: "u8 \<Rightarrow> (tcp_opt_error, u8) status" where
  "get_expected_tcp_option_length kind =
     (if kind = TCPOPT_EOL \<or> kind = TCPOPT_NOP then Inr 1
      else if kind = TCPOPT_MAXSEG then Inr 4
      else if kind = TCPOPT_WINDOW then Inr 3
      else if kind = TCPOPT_SACK_PERMITTED then Inr 2
      else if kind = TCPOPT_TIMESTAMP then Inr 10
      else if kind = TCPOPT_SACK \<or> kind = TCPOPT_FASTOPEN \<or> kind = TCPOPT_EXP then Inr 0
      else Inl (Unexpected_option_kind kind))"

definition get_tcp_option_length :: "bytes \<Rightarrow> nat \<Rightarrow> nat \<Rightarrow> u8 \<Rightarrow> (tcp_opt_error, u8) status option" where
  "get_tcp_option_length b opt e expected_length =
     (if opt + 1 \<ge> e then Some (Inl Option_length_byte_too_far)
      else do {
        len \<leftarrow> rd8 b (opt + 1);
        Some (if len < 2 then Inl Option_length_too_short
              else if opt + unat len > e then Inl Option_data_too_far
              else if expected_length \<noteq> 0 \<and> len \<noteq> expected_length
              then Inl (Bad_option_length len expected_length)
              else Inr len)
      })"

text \<open>The iterator is the position of the current option (\<^const>\<open>None\<close>: no option left) and the end of
  the options.\<close>

record tcp_options_iterator =
  current_option :: "nat option"
  options_end :: nat

definition get_current_option :: "nat \<Rightarrow> nat \<Rightarrow> tcp_options_iterator option" where
  "get_current_option cur e = do {
     c_assert (cur \<le> e);
     Some \<lparr> current_option = (if cur \<ge> e then None else Some cur), options_end = e \<rparr>
   }"

definition tcp_options_begin :: "packet \<Rightarrow> tcp_options_iterator option" where
  "tcp_options_begin pkt = do {
     cur \<leftarrow> packet_tcp_options pkt;
     e \<leftarrow> packet_payload pkt;
     get_current_option cur e
   }"

text \<open>A null result of \<^verbatim>\<open>tcp_options_next\<close> is either the end of the options or an error.\<close>

definition tcp_options_next ::
    "bytes \<Rightarrow> tcp_options_iterator \<Rightarrow> (tcp_opt_error, tcp_options_iterator) status option" where
  "tcp_options_next b iter = do {
     cur \<leftarrow> current_option iter;
     c_assert (cur < options_end iter);
     kind \<leftarrow> rd8 b cur;
     (case get_expected_tcp_option_length kind of
        Inl err \<Rightarrow> Some (Inl err)
      | Inr expected_length \<Rightarrow> do {
          len \<leftarrow> (if expected_length = 1 then Some (Inr 1)
                  else get_tcp_option_length b cur (options_end iter) expected_length);
          (case len of
             Inl err \<Rightarrow> Some (Inl err)
           | Inr l \<Rightarrow> do {
               c_assert (l > 0);
               c_assert (cur + unat l \<le> options_end iter);
               it \<leftarrow> get_current_option (cur + unat l) (options_end iter);
               Some (Inr it)
             })
        })
   }"

lemma get_tcp_option_length_ge_2:
  "get_tcp_option_length b opt e el = Some (Inr l) \<Longrightarrow> 0 < unat l \<and> opt + unat l \<le> e"
  by (auto simp: get_tcp_option_length_def unat_gt_0 not_less split: if_splits bind_splits)

lemma tcp_options_next_advances:
  assumes "tcp_options_next b iter = Some (Inr iter')" and "current_option iter = Some c"
    and "current_option iter' = Some c'"
  shows "c < c' \<and> c' < options_end iter \<and> options_end iter' = options_end iter"
proof -
  have "\<exists>n. 0 < n \<and> c + n \<le> options_end iter \<and>
      get_current_option (c + n) (options_end iter) = Some iter'"
    using assms(1,2)
    by (auto simp: tcp_options_next_def split: sum.splits if_splits bind_splits
        dest: get_tcp_option_length_ge_2 intro: exI [of _ "Suc 0"])
  then show ?thesis
    using assms(3) by (auto simp: get_current_option_def split: if_splits)
qed

text \<open>The loop that every user of the iterator runs: it visits the options with a body that may
  stop with an error.\<close>

function tcp_options_loop ::
    "(bytes \<Rightarrow> nat \<Rightarrow> 'a \<Rightarrow> (tcp_opt_error, 'a) status option) \<Rightarrow> bytes \<Rightarrow> tcp_options_iterator \<Rightarrow> 'a
       \<Rightarrow> (tcp_opt_error, 'a) status option" where
  "tcp_options_loop body b iter acc = (case current_option iter of
      None \<Rightarrow> Some (Inr acc)
    | Some cur \<Rightarrow> do {
        r \<leftarrow> body b cur acc;
        (case r of
           Inl err \<Rightarrow> Some (Inl err)
         | Inr acc' \<Rightarrow> do {
             n \<leftarrow> tcp_options_next b iter;
             (case n of
                Inl err \<Rightarrow> Some (Inl err)
              | Inr iter' \<Rightarrow> tcp_options_loop body b iter' acc')
           })
      })"
  by pat_completeness auto
termination
proof (relation "measure (\<lambda>(body, b, iter, acc). case current_option iter of
    None \<Rightarrow> 0 | Some c \<Rightarrow> Suc (options_end iter - c))")
  fix body b and iter iter' :: tcp_options_iterator and acc acc' :: 'a and cur r n
  assume "current_option iter = Some cur" "tcp_options_next b iter = Some n" "n = Inr iter'"
  then show "((body, b, iter', acc'), (body, b, iter, acc)) \<in> measure (\<lambda>(body, b, iter, acc).
      case current_option iter of None \<Rightarrow> 0 | Some c \<Rightarrow> Suc (options_end iter - c))"
    using tcp_options_next_advances [of b iter iter' cur] by (auto split: option.split)
qed simp

declare tcp_options_loop.simps [simp del]

section \<open>Textual form\<close>

definition tcp_fast_open_option_to_string :: "bytes \<Rightarrow> nat \<Rightarrow> (tcp_opt_error, string) status option" where
  "tcp_fast_open_option_to_string b opt = do {
     len \<leftarrow> rd8 b (opt + 1);
     if unat len < 2 then Some (Inl (Invalid_fast_open_length len))
     else do {
       let cookie_bytes = unat len - 2;
       c_assert (cookie_bytes \<le> 38);
       cookie \<leftarrow> rd_bytes b (opt + 2) cookie_bytes;
       Some (Inr (''FO'' @ (if cookie_bytes > 0 then '' '' else []) @ concat (map hex2_string cookie)))
     }
   }"

definition tcp_exp_fast_open_option_to_string ::
    "bytes \<Rightarrow> nat \<Rightarrow> (tcp_opt_error, string) status option" where
  "tcp_exp_fast_open_option_to_string b opt = do {
     len \<leftarrow> rd8 b (opt + 1);
     if unat len < 4 then Some (Inl Unknown_experimental_option)
     else do {
       magic \<leftarrow> rd16 b (opt + 2);
       if magic \<noteq> TCPOPT_FASTOPEN_MAGIC then Some (Inl Unknown_experimental_option)
       else do {
         let cookie_bytes = unat len - 4;
         c_assert (cookie_bytes \<le> 36);
         cookie \<leftarrow> rd_bytes b (opt + 4) cookie_bytes;
         Some (Inr (''EXP-FO'' @ (if cookie_bytes > 0 then '' '' else [])
           @ concat (map hex2_string cookie)))
       }
     }
   }"

text \<open>The blocks of a SACK option, from the \<open>i\<close>-th on, \<open>n\<close> of them.\<close>

fun sack_blocks_to_string :: "bytes \<Rightarrow> nat \<Rightarrow> nat \<Rightarrow> nat \<Rightarrow> string option" where
  "sack_blocks_to_string b opt i 0 = Some []"
| "sack_blocks_to_string b opt i (Suc n) = do {
     left \<leftarrow> rd32 b (opt + 2 + 8 * i);
     right \<leftarrow> rd32 b (opt + 6 + 8 * i);
     rest \<leftarrow> sack_blocks_to_string b opt (Suc i) n;
     Some ((if i > 0 then '' '' else []) @ dec_string (unat left) @ '':'' @ dec_string (unat right)
       @ rest)
   }"

text \<open>The body of the \<^verbatim>\<open>switch\<close> in \<^verbatim>\<open>tcp_options_to_string\<close>.\<close>

definition tcp_option_to_string :: "bytes \<Rightarrow> nat \<Rightarrow> (tcp_opt_error, string) status option" where
  "tcp_option_to_string b opt = do {
     kind \<leftarrow> rd8 b opt;
     if kind = TCPOPT_EOL then Some (Inr ''eol'')
     else if kind = TCPOPT_NOP then Some (Inr ''nop'')
     else if kind = TCPOPT_MAXSEG
     then do { mss \<leftarrow> rd16 b (opt + 2); Some (Inr (''mss '' @ dec_string (unat mss))) }
     else if kind = TCPOPT_WINDOW
     then do { shift \<leftarrow> rd8 b (opt + 2); Some (Inr (''wscale '' @ dec_string (unat shift))) }
     else if kind = TCPOPT_SACK_PERMITTED then Some (Inr ''sackOK'')
     else if kind = TCPOPT_SACK
     then do {
       len \<leftarrow> rd8 b (opt + 1);
       (case num_sack_blocks len of
          Inl err \<Rightarrow> Some (Inl err)
        | Inr n \<Rightarrow> do { blocks \<leftarrow> sack_blocks_to_string b opt 0 n; Some (Inr (''sack '' @ blocks)) })
     }
     else if kind = TCPOPT_TIMESTAMP
     then do {
       v \<leftarrow> rd32 b (opt + 2);
       ecr \<leftarrow> rd32 b (opt + 6);
       Some (Inr (''TS val '' @ dec_string (unat v) @ '' ecr '' @ dec_string (unat ecr)))
     }
     else if kind = TCPOPT_FASTOPEN then tcp_fast_open_option_to_string b opt
     else if kind = TCPOPT_EXP then tcp_exp_fast_open_option_to_string b opt
     else Some (Inl (Unexpected_option_kind kind))
   }"

definition options_string_body ::
    "bytes \<Rightarrow> nat \<Rightarrow> string list \<Rightarrow> (tcp_opt_error, string list) status option" where
  "options_string_body b opt acc = do {
     r \<leftarrow> tcp_option_to_string b opt;
     Some (case r of Inl err \<Rightarrow> Inl err | Inr s \<Rightarrow> Inr (acc @ [if acc = [] then s else '','' @ s]))
   }"

definition tcp_options_to_string :: "packet \<Rightarrow> (tcp_opt_error, string) status option" where
  "tcp_options_to_string pkt = do {
     iter \<leftarrow> tcp_options_begin pkt;
     r \<leftarrow> tcp_options_loop options_string_body (pkt_buffer pkt) iter [];
     Some (case r of Inl err \<Rightarrow> Inl err | Inr ss \<Rightarrow> Inr (concat ss))
   }"

section \<open>The iterator against a reference splitter\<close>

text \<open>The size of the first option of a nonempty list of option bytes.\<close>

definition first_option :: "bytes \<Rightarrow> (tcp_opt_error, nat) status" where
  "first_option xs = (case get_expected_tcp_option_length (hd xs) of
      Inl err \<Rightarrow> Inl err
    | Inr expected \<Rightarrow>
        if expected = 1 then Inr 1
        else if length xs < 2 then Inl Option_length_byte_too_far
        else if unat (xs ! 1) < 2 then Inl Option_length_too_short
        else if length xs < unat (xs ! 1) then Inl Option_data_too_far
        else if expected \<noteq> 0 \<and> xs ! 1 \<noteq> expected then Inl (Bad_option_length (xs ! 1) expected)
        else Inr (unat (xs ! 1)))"

lemma first_option_bounds:
  "first_option xs = Inr n \<Longrightarrow> xs \<noteq> [] \<Longrightarrow> 0 < n \<and> n \<le> length xs"
  by (cases xs) (auto simp: first_option_def split: sum.splits if_splits)

text \<open>Reference: split the option bytes into options, from left to right.\<close>

function split_options :: "bytes \<Rightarrow> (tcp_opt_error, bytes list) status" where
  "split_options xs =
     (if xs = [] then Inr []
      else case first_option xs of
        Inl err \<Rightarrow> Inl err
      | Inr n \<Rightarrow> (case split_options (drop n xs) of
            Inl err \<Rightarrow> Inl err | Inr os \<Rightarrow> Inr (take n xs # os)))"
  by pat_completeness auto
termination
  by (relation "measure length") (auto dest: first_option_bounds)

declare split_options.simps [simp del]

fun option_offsets :: "nat \<Rightarrow> bytes list \<Rightarrow> nat list" where
  "option_offsets c [] = []"
| "option_offsets c (opt # os) = c # option_offsets (c + length opt) os"

abbreviation subbytes :: "bytes \<Rightarrow> nat \<Rightarrow> nat \<Rightarrow> bytes" where
  "subbytes b c e \<equiv> take (e - c) (drop c b)"

lemma tcp_options_next_eq:
  assumes "c < e" and "e \<le> length b"
  shows "tcp_options_next b \<lparr>current_option = Some c, options_end = e\<rparr> =
     (case first_option (subbytes b c e) of
        Inl err \<Rightarrow> Some (Inl err)
      | Inr n \<Rightarrow> Some (Inr \<lparr>current_option = if c + n \<ge> e then None else Some (c + n), options_end = e\<rparr>))"
proof -
  have hd: "hd (subbytes b c e) = b ! c"
    using assms by (simp add: hd_conv_nth)
  have nth: "subbytes b c e ! 1 = b ! (c + 1)" if "c + 1 < e"
    using that assms by simp
  have len: "length (subbytes b c e) = e - c"
    using assms by simp
  have "(2 :: u8) \<le> x \<longleftrightarrow> 2 \<le> unat x" for x
    by (simp add: word_le_nat_alt)
  then show ?thesis
    using assms nth unfolding tcp_options_next_def first_option_def hd len
    by (auto simp: get_tcp_option_length_def get_current_option_def rd8_def not_less word_less_nat_alt
        unat_gt_0 split: sum.split)
qed

text \<open>One step of a loop that collects what its body says of each option. The body only looks at one
  option and succeeds there.\<close>

lemma tcp_options_loop_split:
  assumes "c \<le> e" and "e \<le> length b"
    and "get_current_option c e = Some iter"
    and body: "\<And>cur acc. c \<le> cur \<Longrightarrow> cur < e \<Longrightarrow> body b cur acc = Some (Inr (f cur acc))"
  shows "tcp_options_loop body b iter acc = Some (case split_options (subbytes b c e) of
      Inl err \<Rightarrow> Inl err | Inr os \<Rightarrow> Inr (fold f (option_offsets c os) acc))"
  using assms
proof (induction "e - c" arbitrary: c iter acc rule: less_induct)
  case less
  show ?case
  proof (cases "c = e")
    case True
    then have "iter = \<lparr>current_option = None, options_end = e\<rparr>"
      using less.prems(3) by (simp add: get_current_option_def)
    then show ?thesis
      using True by (simp add: tcp_options_loop.simps split_options.simps)
  next
    case False
    then have ce: "c < e" and iter: "iter = \<lparr>current_option = Some c, options_end = e\<rparr>"
      using less.prems(1,3) by (simp_all add: get_current_option_def)
    have ne: "subbytes b c e \<noteq> []"
      using ce less.prems(2) by simp
    have step: "tcp_options_loop body b iter acc = (case first_option (subbytes b c e) of
        Inl err \<Rightarrow> Some (Inl err)
      | Inr n \<Rightarrow> tcp_options_loop body b
          \<lparr>current_option = if c + n \<ge> e then None else Some (c + n), options_end = e\<rparr> (f c acc))"
      by (subst tcp_options_loop.simps)
        (simp add: iter less.prems(4) [OF order_refl ce] tcp_options_next_eq [OF ce less.prems(2)]
          split: sum.split)
    show ?thesis
    proof (cases "first_option (subbytes b c e)")
      case (Inl err)
      then show ?thesis
        using ne step by (simp add: split_options.simps [of "subbytes b c e"])
    next
      case (Inr n)
      then have n: "0 < n" "c + n \<le> e"
        using first_option_bounds [OF Inr ne] less.prems(2) ce by auto
      have rest: "drop n (subbytes b c e) = subbytes b (c + n) e"
        by (simp add: drop_take add.commute)
      have "tcp_options_loop body b
          \<lparr>current_option = if c + n \<ge> e then None else Some (c + n), options_end = e\<rparr> (f c acc) =
        Some (case split_options (subbytes b (c + n) e) of
          Inl err \<Rightarrow> Inl err | Inr os \<Rightarrow> Inr (fold f (option_offsets (c + n) os) (f c acc)))"
        using n less.prems(2) ce
        by (intro less.hyps) (auto simp: get_current_option_def intro: less.prems(4))
      moreover have "length (take n (subbytes b c e)) = n"
        using n less.prems(2) by simp
      ultimately show ?thesis
        using ne step Inr rest
        by (simp add: split_options.simps [of "subbytes b c e"] split: sum.split)
    qed
  qed
qed

text \<open>An option in its wire form, as the script language builds it.\<close>

definition wire_option :: "bytes \<Rightarrow> bool" where
  "wire_option opt \<longleftrightarrow> opt \<noteq> [] \<and> (case get_expected_tcp_option_length (hd opt) of
      Inl _ \<Rightarrow> False
    | Inr expected \<Rightarrow> if expected = 1 then length opt = 1
        else 2 \<le> length opt \<and> length opt = unat (opt ! 1) \<and> (expected \<noteq> 0 \<longrightarrow> opt ! 1 = expected))"

lemma first_option_wire: "wire_option opt \<Longrightarrow> first_option (opt @ rest) = Inr (length opt)"
  by (cases opt) (auto simp: wire_option_def first_option_def nth_append split: sum.splits if_splits)

lemma split_options_concat:
  "\<forall>opt \<in> set os. wire_option opt \<Longrightarrow> split_options (concat os) = Inr os"
proof (induction os)
  case (Cons opt os)
  then have "opt \<noteq> []"
    by (simp add: wire_option_def)
  with Cons show ?case
    by (subst split_options.simps) (simp add: first_option_wire)
qed (simp add: split_options.simps)

lemma split_options_concat_inv: "split_options xs = Inr os \<Longrightarrow> concat os = xs"
proof (induction xs arbitrary: os rule: split_options.induct)
  case (1 xs)
  from 1(2) show ?case
    by (subst (asm) split_options.simps)
      (use 1(1) in \<open>auto split: if_splits sum.splits dest!: first_option_bounds\<close>)
qed

section \<open>Properties\<close>

text \<open>The offsets at which the iterator stops.\<close>

definition collect_offset :: "bytes \<Rightarrow> nat \<Rightarrow> nat list \<Rightarrow> (tcp_opt_error, nat list) status option" where
  "collect_offset b cur acc = Some (Inr (acc @ [cur]))"

lemma collect_offset_split:
  assumes "c \<le> e" and "e \<le> length b"
  shows "(do { iter \<leftarrow> get_current_option c e; tcp_options_loop collect_offset b iter [] }) =
     Some (case split_options (subbytes b c e) of
        Inl err \<Rightarrow> Inl err | Inr os \<Rightarrow> Inr (option_offsets c os))"
proof -
  obtain iter where iter: "get_current_option c e = Some iter"
    using assms(1) by (simp add: get_current_option_def)
  have "fold (\<lambda>cur acc. acc @ [cur]) xs acc = acc @ xs" for xs and acc :: "nat list"
    by (induction xs arbitrary: acc) simp_all
  then show ?thesis
    using tcp_options_loop_split [OF assms iter, of collect_offset "\<lambda>cur acc. acc @ [cur]" "[]"] iter
    by (simp add: collect_offset_def split: sum.split)
qed

text \<open>C23: For arbitrary option bytes in a packet, iterating from \<^verbatim>\<open>tcp_options_begin\<close> with
  \<^verbatim>\<open>tcp_options_next\<close> terminates without a failed assertion or an access outside the buffer, visits
  exactly the options of the reference splitting in order, and reports an error exactly when, and
  which, the reference splitting does. The options visited make up all of the option bytes.\<close>

theorem tcp_options_iterate_split:
  assumes "c \<le> e" and "e \<le> length b"
  shows "(do { iter \<leftarrow> get_current_option c e; tcp_options_loop collect_offset b iter [] }) =
     Some (case split_options (subbytes b c e) of
        Inl err \<Rightarrow> Inl err | Inr os \<Rightarrow> Inr (option_offsets c os)) \<and>
     (\<forall>os. split_options (subbytes b c e) = Inr os \<longrightarrow> concat os = subbytes b c e)"
  using collect_offset_split [OF assms] split_options_concat_inv by simp

theorem tcp_options_iterate_split_witness:
  "(do { iter \<leftarrow> get_current_option 1 5;
         tcp_options_loop collect_offset [9, 1, 3, 3, 7, 9] iter [] }) = Some (Inr [1, 2])"
  using tcp_options_iterate_split [of 1 5 "[9, 1, 3, 3, 7, 9]"]
  by (simp add: split_options.simps first_option_def get_expected_tcp_option_length_def)

text \<open>The options that a script lists, appended one after the other.\<close>

fun tcp_options_append_all :: "tcp_options \<Rightarrow> tcp_option list \<Rightarrow> (unit, tcp_options) status option" where
  "tcp_options_append_all options [] = Some (Inr options)"
| "tcp_options_append_all options (opt # opts) = do {
     r \<leftarrow> tcp_options_append options opt;
     (case r of Inl err \<Rightarrow> Some (Inl err) | Inr options' \<Rightarrow> tcp_options_append_all options' opts)
   }"

definition option_wire :: "tcp_option \<Rightarrow> bytes" where
  "option_wire opt = take (unat (option_length opt)) opt"

definition options_hold :: "tcp_options \<Rightarrow> bytes \<Rightarrow> bool" where
  "options_hold options xs \<longleftrightarrow> length (opt_data options) = MAX_TCP_OPTION_BYTES \<and>
     length xs \<le> MAX_TCP_OPTION_BYTES \<and>
     unat (opt_length options) = length xs \<and> take (length xs) (opt_data options) = xs"

lemma tcp_options_append_hold:
  assumes hold: "options_hold options xs" and opt: "length opt = 40"
    and fits: "length xs + unat (option_length opt) \<le> 40"
  shows "\<exists>options'. tcp_options_append options opt = Some (Inr options') \<and>
     options_hold options' (xs @ option_wire opt)"
proof -
  have len: "unat (opt_length options) = length xs" "length (opt_data options) = 40"
      "take (length xs) (opt_data options) = xs" "unat (option_length opt) \<le> 40"
    using hold fits by (simp_all add: options_hold_def)
  have "unat (opt_length options + option_length opt) = length xs + unat (option_length opt)"
    using fits len by (subst unat_word_ariths) simp
  moreover have "length (option_wire opt) = unat (option_length opt)"
    using opt len(4) by (simp add: option_wire_def)
  ultimately show ?thesis
    using fits len opt
    by (simp add: tcp_options_append_def options_hold_def rd_bytes_def wr_bytes_def
        option_wire_def [symmetric] Let_def)
qed

lemma tcp_options_append_all_hold:
  assumes "options_hold options xs" and "\<forall>opt \<in> set opts. length opt = 40"
    and "length xs + (\<Sum>opt \<leftarrow> opts. unat (option_length opt)) \<le> 40"
  shows "\<exists>options'. tcp_options_append_all options opts = Some (Inr options') \<and>
     options_hold options' (xs @ concat (map option_wire opts))"
  using assms
proof (induction opts arbitrary: options xs)
  case (Cons opt opts)
  obtain options' where step: "tcp_options_append options opt = Some (Inr options')"
      "options_hold options' (xs @ option_wire opt)"
    using tcp_options_append_hold [of options xs opt] Cons.prems by auto
  have "length (option_wire opt) \<le> unat (option_length opt)"
    by (simp add: option_wire_def)
  then show ?case
    using Cons.IH [OF step(2)] Cons.prems step(1) by simp
qed simp

text \<open>Appending options to an empty list accepts every list of options whose lengths add up to at
  most 40 bytes and stores their wire forms one after the other; when these bytes are the options
  of a packet, the iterator stops exactly at the start of each of the options, in order.\<close>

theorem tcp_options_roundtrip:
  assumes "\<forall>opt \<in> set opts. length opt = 40 \<and> wire_option (option_wire opt)"
    and "(\<Sum>opt \<leftarrow> opts. unat (option_length opt)) \<le> 40"
  shows "\<exists>options. tcp_options_append_all tcp_options_new opts = Some (Inr options) \<and>
     take (unat (opt_length options)) (opt_data options) = concat (map option_wire opts) \<and>
     (\<forall>pre post. let n = unat (opt_length options);
          b = pre @ take n (opt_data options) @ post
        in (do { iter \<leftarrow> get_current_option (length pre) (length pre + n);
                 tcp_options_loop collect_offset b iter [] }) =
           Some (Inr (option_offsets (length pre) (map option_wire opts))))"
proof -
  have "options_hold tcp_options_new []"
    by (simp add: options_hold_def tcp_options_new_def)
  then obtain options where options: "tcp_options_append_all tcp_options_new opts = Some (Inr options)"
      "options_hold options (concat (map option_wire opts))"
    using tcp_options_append_all_hold [of tcp_options_new "[]" opts] assms by auto
  let ?xs = "concat (map option_wire opts)" and ?n = "unat (opt_length options)"
  have xs: "take ?n (opt_data options) = ?xs" "length ?xs = ?n"
    using options(2) by (simp_all add: options_hold_def)
  have "(do { iter \<leftarrow> get_current_option (length pre) (length pre + ?n);
              tcp_options_loop collect_offset (pre @ ?xs @ post) iter [] }) =
        Some (Inr (option_offsets (length pre) (map option_wire opts)))" for pre post
    using collect_offset_split [of "length pre" "length pre + ?n" "pre @ ?xs @ post"]
      split_options_concat [of "map option_wire opts"] assms(1) xs by simp
  then show ?thesis
    using options(1) xs by (auto simp: Let_def)
qed

theorem tcp_options_roundtrip_witness:
  "\<exists>options. tcp_options_append_all tcp_options_new
       [tcp_option_new TCPOPT_NOP 1, tcp_option_new TCPOPT_WINDOW 3] = Some (Inr options) \<and>
     take (unat (opt_length options)) (opt_data options) = [1, 3, 3, 0] \<and>
     (\<forall>pre post. let n = unat (opt_length options);
          b = pre @ take n (opt_data options) @ post
        in (do { iter \<leftarrow> get_current_option (length pre) (length pre + n);
                 tcp_options_loop collect_offset b iter [] }) =
           Some (Inr [length pre, length pre + 1]))"
  using tcp_options_roundtrip [of "[tcp_option_new TCPOPT_NOP 1, tcp_option_new TCPOPT_WINDOW 3]"]
  by (simp add: wire_option_def option_wire_def tcp_option_new_def option_length_def
      get_expected_tcp_option_length_def)

text \<open>A TCP header with four bytes of options: a fast open option whose length byte says 60.\<close>

definition example_fast_open :: bytes where
  "example_fast_open = replicate 12 0 @ [0x60] @ replicate 7 0 @ [34, 60, 1, 1] @ replicate 100 0"

text \<open>\<^verbatim>\<open>tcp_options_to_string\<close> formats an option before the iterator has checked its length byte. A
  fast open option whose length byte exceeds the options makes it fail the assertion on the cookie
  length, where the iterator alone would have reported that the option data extends too far.\<close>

theorem fast_open_option_aborts:
  "tcp_options_to_string ((packet_new ((!) example_fast_open) 124)\<lparr>pkt_tcp := Some 0\<rparr>) = None \<and>
   (do { iter \<leftarrow> tcp_options_begin ((packet_new ((!) example_fast_open) 124)\<lparr>pkt_tcp := Some 0\<rparr>);
         tcp_options_loop collect_offset example_fast_open iter [] }) = Some (Inl Option_data_too_far)"
proof -
  have len: "length example_fast_open = 124"
    by (simp add: example_fast_open_def)
  have buf: "map ((!) example_fast_open) [0..<124] = example_fast_open"
    unfolding len [symmetric] by (rule map_nth)
  have bytes: "rd8 example_fast_open 12 = Some 0x60" "rd8 example_fast_open 20 = Some 34"
      "rd8 example_fast_open 21 = Some 60"
    by (simp_all add: rd8_def example_fast_open_def nth_append)
  show ?thesis
    using bytes
    by (simp add: tcp_options_to_string_def tcp_options_begin_def packet_tcp_options_def packet_new_def
        packet_payload_def packet_tcp_header_len_def tcp_doff_def get_current_option_def buf
        tcp_options_loop.simps options_string_body_def tcp_option_to_string_def collect_offset_def
        tcp_fast_open_option_to_string_def tcp_options_next_def get_expected_tcp_option_length_def
        get_tcp_option_length_def)
qed

end
