(* ===== verification/Transport.thy ===== *)
theory Transport
  imports Ip_Packet Tcp_Options
begin

text \<open>
  Construction of TCP, UDP and UDP-Lite packets: \<^verbatim>\<open>tcp_packet.c\<close>, \<^verbatim>\<open>udp_packet.c\<close>, \<^verbatim>\<open>udplite_packet.c\<close>.
  A constructor returns the packet or an error; a failed assertion or a null pointer access would
  be \<^const>\<open>None\<close>. The \<^verbatim>\<open>ip_option_bytes\<close> of the code is the constant 0, so that the check of its
  alignment never fails and is left out.
\<close>

section \<open>TCP flags\<close>

definition valid_tcp_flags :: string where "valid_tcp_flags = ''.FSRPEWAU01234567''"
definition ace_tcp_flags :: string where "ace_tcp_flags = ''01234567''"
definition ecn_tcp_flags :: string where "ecn_tcp_flags = ''EWA''"

datatype packet_error =
    Invalid_TCP_flag char
  | Conflicting_TCP_flag char
  | TCP_options_not_padded nat
  | TCP_header_too_large
  | Segment_too_large
  | Window_must_be_specified

fun tcp_flags_loop :: "string \<Rightarrow> bool \<Rightarrow> bool \<Rightarrow> (packet_error, unit) status" where
  "tcp_flags_loop [] has_ecn_flag has_ace_flag = Inr ()"
| "tcp_flags_loop (c # s) has_ecn_flag has_ace_flag =
     (if c \<notin> set valid_tcp_flags then Inl (Invalid_TCP_flag c)
      else if c \<in> set ecn_tcp_flags \<and> has_ace_flag then Inl (Conflicting_TCP_flag c)
      else let has_ecn_flag = (has_ecn_flag \<or> c \<in> set ecn_tcp_flags)
           in if c \<in> set ace_tcp_flags \<and> (has_ecn_flag \<or> has_ace_flag) then Inl (Conflicting_TCP_flag c)
              else tcp_flags_loop s has_ecn_flag (has_ace_flag \<or> c \<in> set ace_tcp_flags))"

definition is_tcp_flags_spec_valid :: "string \<Rightarrow> (packet_error, unit) status" where
  "is_tcp_flags_spec_valid flags = tcp_flags_loop flags False False"

definition is_tcp_flag_set :: "char \<Rightarrow> string \<Rightarrow> bool" where
  "is_tcp_flag_set flag flags \<longleftrightarrow> flag \<in> set flags"

fun tcp_flag_ace_count :: "string \<Rightarrow> nat" where
  "tcp_flag_ace_count [] = 0"
| "tcp_flag_ace_count (c # s) = (if c \<in> set ace_tcp_flags then of_char c - 48 else tcp_flag_ace_count s)"

section \<open>Constructors\<close>

definition MAX_TCP_HEADER_BYTES :: nat where [simp]: "MAX_TCP_HEADER_BYTES = 15 * 4"
definition MAX_TCP_DATAGRAM_BYTES :: nat where [simp]: "MAX_TCP_DATAGRAM_BYTES = 64 * 1024"
definition MAX_UDP_DATAGRAM_BYTES :: nat where [simp]: "MAX_UDP_DATAGRAM_BYTES = 64 * 1024"
definition MAX_UDPLITE_DATAGRAM_BYTES :: nat where [simp]: "MAX_UDPLITE_DATAGRAM_BYTES = 64 * 1024"

text \<open>\<^verbatim>\<open>packet_new\<close> followed by \<^verbatim>\<open>memset\<close>.\<close>

definition packet_new_zeroed :: "(nat \<Rightarrow> u8) \<Rightarrow> nat \<Rightarrow> packet" where
  "packet_new_zeroed junk n = (packet_new junk n)\<lparr>pkt_buffer := replicate n 0\<rparr>"

text \<open>Appending a header and setting its \<^verbatim>\<open>total_bytes\<close> through the unchecked pointer.\<close>

definition append_total :: "packet \<Rightarrow> header_t \<Rightarrow> nat \<Rightarrow> nat \<Rightarrow> (packet \<times> nat) option" where
  "append_total pkt t hbytes tbytes = do {
     (pkt, idx) \<leftarrow> packet_append_header pkt t hbytes;
     i \<leftarrow> idx;
     p \<leftarrow> hptr (pkt_headers pkt ! i);
     Some (set_total_bytes i tbytes pkt, p)
   }"

text \<open>The UDP header of an encapsulated packet.\<close>

definition set_udp_encap_header :: "bytes \<Rightarrow> nat \<Rightarrow> u16 \<Rightarrow> u16 \<Rightarrow> nat \<Rightarrow> bytes option" where
  "set_udp_encap_header b p src dst len = do {
     b \<leftarrow> wr16 b p src;
     b \<leftarrow> wr16 b (p + 2) dst;
     b \<leftarrow> wr16 b (p + 4) (of_nat len);
     wr16 b (p + 6) 0
   }"

text \<open>The fields of the TCP header; \<open>wnd\<close> is the value of the window field.\<close>

definition set_tcp_header ::
    "bytes \<Rightarrow> nat \<Rightarrow> string \<Rightarrow> u32 \<Rightarrow> u32 \<Rightarrow> nat \<Rightarrow> u16 \<Rightarrow> u16 \<Rightarrow> bytes option" where
  "set_tcp_header b p flags start_sequence ack_sequence tcp_header_bytes wnd urg_ptr = do {
     b \<leftarrow> wr16 b p 0;
     b \<leftarrow> wr16 b (p + 2) 0;
     b \<leftarrow> wr32 b (p + 4) start_sequence;
     b \<leftarrow> wr32 b (p + 8) ack_sequence;
     b \<leftarrow> wr_hi4 b (p + 12) (of_nat (tcp_header_bytes div 4));
     b \<leftarrow> wr16 b (p + 14) wnd;
     b \<leftarrow> wr16 b (p + 16) 0;
     b \<leftarrow> wr16 b (p + 18) urg_ptr;
     b \<leftarrow> wr_bit b (p + 13) 0 (is_tcp_flag_set CHR ''F'' flags);
     b \<leftarrow> wr_bit b (p + 13) 1 (is_tcp_flag_set CHR ''S'' flags);
     b \<leftarrow> wr_bit b (p + 13) 2 (is_tcp_flag_set CHR ''R'' flags);
     b \<leftarrow> wr_bit b (p + 13) 3 (is_tcp_flag_set CHR ''P'' flags);
     b \<leftarrow> wr_bit b (p + 13) 4 (is_tcp_flag_set CHR ''.'' flags);
     b \<leftarrow> wr_bit b (p + 13) 5 (is_tcp_flag_set CHR ''U'' flags);
     let ace = tcp_flag_ace_count flags;
     if ace \<noteq> 0
     then do {
       b \<leftarrow> wr_bit b (p + 13) 6 (bit ace 0);
       b \<leftarrow> wr_bit b (p + 13) 7 (bit ace 1);
       wr_bit b (p + 12) 0 (bit ace 2)
     }
     else do {
       b \<leftarrow> wr_bit b (p + 13) 6 (is_tcp_flag_set CHR ''E'' flags);
       b \<leftarrow> wr_bit b (p + 13) 7 (is_tcp_flag_set CHR ''W'' flags);
       wr_bit b (p + 12) 0 (is_tcp_flag_set CHR ''A'' flags)
     }
   }"

record tcp_spec =
  spec_af :: address_family
  spec_direction :: direction_t
  spec_ecn :: ip_ecn_t
  spec_flags :: string
  spec_seq :: u32
  spec_payload_bytes :: u16
  spec_ack :: u32
  spec_window :: int
  spec_urg_ptr :: u16
  spec_options :: "tcp_options option"
  spec_ignore_ts_val :: bool
  spec_abs_ts_ecr :: bool
  spec_abs_seq :: bool
  spec_ignore_seq :: bool
  spec_udp_src_port :: u16
  spec_udp_dst_port :: u16

text \<open>The metadata flags that the constructor sets beside \<^const>\<open>FLAGS_UDP_ENCAPSULATED\<close>.\<close>

definition tcp_packet_flags :: "tcp_spec \<Rightarrow> u32 \<Rightarrow> u32" where
  "tcp_packet_flags s f =
     (let f = (if spec_window s = -1 then f OR FLAG_WIN_NOCHECK else f);
          f = (if tcp_flag_ace_count (spec_flags s) \<noteq> 0 then f OR FLAG_PARSE_ACE else f);
          f = (if spec_options s = None then f OR FLAG_OPTIONS_NOCHECK else f);
          f = (if spec_ignore_ts_val s then f OR FLAG_IGNORE_TS_VAL else f);
          f = (if spec_abs_ts_ecr s then f OR FLAG_ABSOLUTE_TS_ECR else f);
          f = (if spec_abs_seq s then f OR FLAG_ABSOLUTE_SEQ else f)
      in if spec_ignore_seq s then f OR FLAG_IGNORE_SEQ else f)"

definition tcp_option_bytes :: "tcp_spec \<Rightarrow> nat" where
  "tcp_option_bytes s = (case spec_options s of None \<Rightarrow> 0 | Some opts \<Rightarrow> unat (opt_length opts))"

text \<open>The part of the constructor that sets the IP header and, when encapsulating, the UDP header,
  and the part that copies the options.\<close>

definition tcp_set_network_headers :: "tcp_spec \<Rightarrow> bool \<Rightarrow> nat \<Rightarrow> nat \<Rightarrow> packet \<Rightarrow> packet option" where
  "tcp_set_network_headers s encapsulate ip_bytes segment_bytes pkt =
     (if encapsulate
      then do {
        pkt \<leftarrow> set_packet_ip_header pkt (spec_af s) (of_nat ip_bytes) (spec_ecn s) IPPROTO_UDP;
        (pkt, p) \<leftarrow> append_total pkt HEADER_UDP sizeof_udp (sizeof_udp + segment_bytes);
        upd_buffer (\<lambda>b. set_udp_encap_header b p (spec_udp_src_port s) (spec_udp_dst_port s)
          (sizeof_udp + segment_bytes)) pkt
      }
      else set_packet_ip_header pkt (spec_af s) (of_nat ip_bytes) (spec_ecn s) IPPROTO_TCP)"

definition tcp_copy_options :: "tcp_spec \<Rightarrow> nat \<Rightarrow> packet \<Rightarrow> packet option" where
  "tcp_copy_options s tcp_option_start pkt = (case spec_options s of
      None \<Rightarrow> Some pkt
    | Some opts \<Rightarrow> if opt_length opts > 0
        then upd_buffer (\<lambda>b. do {
          d \<leftarrow> rd_bytes (opt_data opts) 0 (unat (opt_length opts));
          wr_bytes b tcp_option_start d }) pkt
        else Some pkt)"

definition new_tcp_packet :: "(nat \<Rightarrow> u8) \<Rightarrow> tcp_spec \<Rightarrow> (packet_error, packet) status option" where
  "new_tcp_packet junk s = do {
     let option_bytes = tcp_option_bytes s;
     ip_header_bytes \<leftarrow> ip_header_min_len (spec_af s);
     let udp_header_bytes = sizeof_udp;
     let tcp_header_bytes = sizeof_tcp + option_bytes;
     let payload = unat (spec_payload_bytes s);
     let encapsulate = (spec_udp_src_port s > 0 \<or> spec_udp_dst_port s > 0);
     if option_bytes mod 4 \<noteq> 0 then Some (Inl (TCP_options_not_padded (option_bytes mod 4)))
     else do {
       c_assert (tcp_header_bytes mod 4 = 0);
       c_assert (ip_header_bytes mod 4 = 0);
       if tcp_header_bytes > MAX_TCP_HEADER_BYTES then Some (Inl TCP_header_too_large)
       else do {
         let ip_bytes = ip_header_bytes + tcp_header_bytes + payload
               + (if encapsulate then udp_header_bytes else 0);
         if ip_bytes > MAX_TCP_DATAGRAM_BYTES then Some (Inl Segment_too_large)
         else (case is_tcp_flags_spec_valid (spec_flags s) of
           Inl err \<Rightarrow> Some (Inl err)
         | Inr _ \<Rightarrow> do {
             let pkt = packet_new_zeroed junk ip_bytes;
             let pkt = pkt\<lparr> pkt_direction := spec_direction s,
                   pkt_flags := (if encapsulate then FLAGS_UDP_ENCAPSULATED else 0),
                   pkt_ecn := spec_ecn s \<rparr>;
             pkt \<leftarrow> tcp_set_network_headers s encapsulate ip_bytes (tcp_header_bytes + payload) pkt;
             (pkt, _) \<leftarrow> append_total pkt HEADER_TCP tcp_header_bytes (tcp_header_bytes + payload);
             ip \<leftarrow> ip_start pkt;
             let tcp = ip + ip_header_bytes + (if encapsulate then udp_header_bytes else 0);
             let pkt = pkt\<lparr>pkt_tcp := Some tcp\<rparr>;
             if spec_window s = -1 \<and> spec_direction s = DIRECTION_INBOUND
             then Some (Inl Window_must_be_specified)
             else do {
               let wnd = (if spec_window s = -1 then 0 else word_of_int (spec_window s));
               pkt \<leftarrow> upd_buffer (\<lambda>b. set_tcp_header b tcp (spec_flags s) (spec_seq s) (spec_ack s)
                 tcp_header_bytes wnd (spec_urg_ptr s)) pkt;
               pkt \<leftarrow> tcp_copy_options s (tcp + sizeof_tcp) pkt;
               Some (Inr (pkt\<lparr> pkt_flags := tcp_packet_flags s (pkt_flags pkt),
                 pkt_ip_bytes := ip_bytes \<rparr>))
             }
           })
       }
     }
   }"

definition new_udp_packet ::
    "(nat \<Rightarrow> u8) \<Rightarrow> address_family \<Rightarrow> direction_t \<Rightarrow> u16 \<Rightarrow> (packet_error, packet) status option" where
  "new_udp_packet junk af direction udp_payload_bytes = do {
     ip_header_bytes \<leftarrow> ip_header_min_len af;
     let udp_header_bytes = sizeof_udp;
     let payload = unat udp_payload_bytes;
     let ip_bytes = ip_header_bytes + udp_header_bytes + payload;
     c_assert (udp_header_bytes mod 4 = 0);
     c_assert (ip_header_bytes mod 4 = 0);
     if ip_bytes > MAX_UDP_DATAGRAM_BYTES then Some (Inl Segment_too_large)
     else do {
       let pkt = packet_new_zeroed junk ip_bytes;
       let pkt = pkt\<lparr> pkt_direction := direction, pkt_flags := 0, pkt_ecn := ECN_NONE \<rparr>;
       pkt \<leftarrow> set_packet_ip_header pkt af (of_nat ip_bytes) (pkt_ecn pkt) IPPROTO_UDP;
       (pkt, _) \<leftarrow> append_total pkt HEADER_UDP sizeof_udp (udp_header_bytes + payload);
       ip \<leftarrow> ip_start pkt;
       let udp = ip + ip_header_bytes;
       let pkt = pkt\<lparr>pkt_udp := Some udp\<rparr>;
       pkt \<leftarrow> upd_buffer (\<lambda>b. do {
         b \<leftarrow> wr16 b udp 0;
         b \<leftarrow> wr16 b (udp + 2) 0;
         b \<leftarrow> wr16 b (udp + 4) (of_nat (udp_header_bytes + payload));
         wr16 b (udp + 6) 0 }) pkt;
       Some (Inr (pkt\<lparr>pkt_ip_bytes := ip_bytes\<rparr>))
     }
   }"

definition new_udplite_packet ::
    "(nat \<Rightarrow> u8) \<Rightarrow> address_family \<Rightarrow> direction_t \<Rightarrow> u16 \<Rightarrow> u16 \<Rightarrow> (packet_error, packet) status option" where
  "new_udplite_packet junk af direction udplite_payload_bytes checksum_coverage = do {
     ip_header_bytes \<leftarrow> ip_header_min_len af;
     let udplite_header_bytes = sizeof_udplite;
     let payload = unat udplite_payload_bytes;
     let ip_bytes = ip_header_bytes + udplite_header_bytes + payload;
     c_assert (udplite_header_bytes mod 4 = 0);
     c_assert (ip_header_bytes mod 4 = 0);
     if ip_bytes > MAX_UDPLITE_DATAGRAM_BYTES then Some (Inl Segment_too_large)
     else do {
       let pkt = packet_new_zeroed junk ip_bytes;
       let pkt = pkt\<lparr> pkt_direction := direction, pkt_flags := 0, pkt_ecn := ECN_NONE \<rparr>;
       pkt \<leftarrow> set_packet_ip_header pkt af (of_nat ip_bytes) (pkt_ecn pkt) IPPROTO_UDPLITE;
       (pkt, _) \<leftarrow> append_total pkt HEADER_UDPLITE sizeof_udplite (udplite_header_bytes + payload);
       ip \<leftarrow> ip_start pkt;
       let udplite = ip + ip_header_bytes;
       let pkt = pkt\<lparr>pkt_udplite := Some udplite\<rparr>;
       pkt \<leftarrow> upd_buffer (\<lambda>b. do {
         b \<leftarrow> wr16 b udplite 0;
         b \<leftarrow> wr16 b (udplite + 2) 0;
         b \<leftarrow> wr16 b (udplite + 4) checksum_coverage;
         wr16 b (udplite + 6) 0 }) pkt;
       Some (Inr (pkt\<lparr>pkt_ip_bytes := ip_bytes\<rparr>))
     }
   }"

section \<open>Wire form of the constructed packets\<close>

definition flag_bit :: "nat \<Rightarrow> bool \<Rightarrow> u8 \<Rightarrow> u8" where
  "flag_bit n v x = (if v then set_bit n x else unset_bit n x)"

text \<open>The three bits that ECN flags or an ACE count determine.\<close>

definition ecn_flag :: "nat \<Rightarrow> char \<Rightarrow> string \<Rightarrow> bool" where
  "ecn_flag n c flags = (if tcp_flag_ace_count flags \<noteq> 0 then bit (tcp_flag_ace_count flags) n
     else is_tcp_flag_set c flags)"

definition tcp_flags_byte :: "string \<Rightarrow> u8" where
  "tcp_flags_byte flags =
     flag_bit 7 (ecn_flag 1 CHR ''W'' flags) (flag_bit 6 (ecn_flag 0 CHR ''E'' flags)
       (flag_bit 5 (is_tcp_flag_set CHR ''U'' flags) (flag_bit 4 (is_tcp_flag_set CHR ''.'' flags)
         (flag_bit 3 (is_tcp_flag_set CHR ''P'' flags) (flag_bit 2 (is_tcp_flag_set CHR ''R'' flags)
           (flag_bit 1 (is_tcp_flag_set CHR ''S'' flags) (flag_bit 0 (is_tcp_flag_set CHR ''F'' flags)
             0)))))))"

definition tcp_header_wire :: "string \<Rightarrow> u32 \<Rightarrow> u32 \<Rightarrow> nat \<Rightarrow> u16 \<Rightarrow> u16 \<Rightarrow> bytes" where
  "tcp_header_wire flags sn an hbytes wnd urg =
     [0, 0, 0, 0] @ put_unaligned_be32 sn @ put_unaligned_be32 an @
     [flag_bit 0 (ecn_flag 2 CHR ''A'' flags) (push_bit 4 (of_nat (hbytes div 4) AND 0x0f)),
      tcp_flags_byte flags] @ be16_to wnd @ [0, 0] @ be16_to urg"

lemma length_tcp_header_wire [simp]: "length (tcp_header_wire flags sn an hb wnd urg) = 20"
  by (simp add: tcp_header_wire_def)

lemma replicate_20: "replicate 20 x = [x, x, x, x, x, x, x, x, x, x, x, x, x, x, x, x, x, x, x, x]"
  by (simp add: eval_nat_numeral)

lemma set_tcp_header_wire:
  "set_tcp_header (pre @ replicate 20 0 @ post) (length pre) flags sn an hb wnd urg =
     Some (pre @ tcp_header_wire flags sn an hb wnd urg @ post)"
  unfolding replicate_20 set_tcp_header_def wr_bit_def wr_hi4_def wr8_def wr16_def wr32_def
  by (simp add: wr_eval tcp_header_wire_def tcp_flags_byte_def flag_bit_def [symmetric] ecn_flag_def Let_def)

lemma append_total_eq:
  assumes "chain_at pkt p" and "packet_header_count pkt < 6" and "p + hb \<le> pkt_buffer_bytes pkt"
  shows "append_total pkt t hb tb = Some (push_header pkt t hb tb, p)"
proof -
  have wf: "headers_wf pkt" and p: "pkt_ip_bytes pkt = p"
    using assms(1) by (simp_all add: chain_at_def)
  have "pkt_headers (push_header pkt t hb 0) ! packet_header_count pkt =
      \<lparr> htype = t, header_bytes = hb, total_bytes = 0, hptr = Some p \<rparr>"
    using assms(2) headers_wf_length [OF wf] p by (simp add: push_header_def)
  then show ?thesis
    using assms wf p set_total_bytes_push [OF wf assms(2), of tb t hb]
    by (simp add: append_total_def packet_append_header_eq)
qed

subsection \<open>TCP packets\<close>

definition tcp_encapsulated :: "tcp_spec \<Rightarrow> bool" where
  "tcp_encapsulated s \<longleftrightarrow> spec_udp_src_port s > 0 \<or> spec_udp_dst_port s > 0"

definition tcp_segment_bytes :: "tcp_spec \<Rightarrow> nat" where
  "tcp_segment_bytes s = 20 + tcp_option_bytes s + unat (spec_payload_bytes s)"

definition tcp_ip_bytes :: "tcp_spec \<Rightarrow> nat" where
  "tcp_ip_bytes s = ip_header_size (spec_af s) + (if tcp_encapsulated s then 8 else 0)
     + tcp_segment_bytes s"

text \<open>The specifications of packets that can be built.\<close>

definition tcp_spec_ok :: "tcp_spec \<Rightarrow> bool" where
  "tcp_spec_ok s \<longleftrightarrow> spec_af s \<noteq> AF_UNSPEC \<and> tcp_option_bytes s mod 4 = 0 \<and>
     tcp_option_bytes s \<le> 40 \<and> tcp_ip_bytes s < 65536 \<and>
     is_tcp_flags_spec_valid (spec_flags s) = Inr () \<and>
     \<not> (spec_window s = -1 \<and> spec_direction s = DIRECTION_INBOUND) \<and>
     (case spec_options s of None \<Rightarrow> True | Some opts \<Rightarrow> length (opt_data opts) = 40)"

definition options_wire :: "tcp_spec \<Rightarrow> bytes" where
  "options_wire s = (case spec_options s of
     None \<Rightarrow> [] | Some opts \<Rightarrow> take (unat (opt_length opts)) (opt_data opts))"

definition udp_header_wire :: "u16 \<Rightarrow> u16 \<Rightarrow> nat \<Rightarrow> bytes" where
  "udp_header_wire src dst len = be16_to src @ be16_to dst @ be16_to (of_nat len) @ [0, 0]"

definition tcp_window_value :: "tcp_spec \<Rightarrow> u16" where
  "tcp_window_value s = (if spec_window s = -1 then 0 else word_of_int (spec_window s))"

definition tcp_segment_wire :: "tcp_spec \<Rightarrow> bytes" where
  "tcp_segment_wire s =
     tcp_header_wire (spec_flags s) (spec_seq s) (spec_ack s) (20 + tcp_option_bytes s)
       (tcp_window_value s) (spec_urg_ptr s)
     @ options_wire s @ replicate (unat (spec_payload_bytes s)) 0"

definition tcp_packet_wire :: "tcp_spec \<Rightarrow> bytes" where
  "tcp_packet_wire s =
     (if tcp_encapsulated s
      then ip_header_wire (spec_af s) (tcp_ip_bytes s) (spec_ecn s) IPPROTO_UDP
        @ udp_header_wire (spec_udp_src_port s) (spec_udp_dst_port s) (8 + tcp_segment_bytes s)
      else ip_header_wire (spec_af s) (tcp_ip_bytes s) (spec_ecn s) IPPROTO_TCP)
     @ tcp_segment_wire s"

lemma length_options_wire: "tcp_spec_ok s \<Longrightarrow> length (options_wire s) = tcp_option_bytes s"
  by (auto simp: tcp_spec_ok_def options_wire_def tcp_option_bytes_def split: option.splits)

lemma length_tcp_segment_wire: "tcp_spec_ok s \<Longrightarrow> length (tcp_segment_wire s) = tcp_segment_bytes s"
  by (simp add: tcp_segment_wire_def length_options_wire tcp_segment_bytes_def)

lemma length_tcp_packet_wire: "tcp_spec_ok s \<Longrightarrow> length (tcp_packet_wire s) = tcp_ip_bytes s"
  by (simp add: tcp_packet_wire_def length_tcp_segment_wire tcp_ip_bytes_def udp_header_wire_def)

lemma set_udp_encap_header_wire:
  assumes "length mid = 8"
  shows "set_udp_encap_header (pre @ mid @ post) (length pre) src dst len =
     Some (pre @ udp_header_wire src dst len @ post)"
proof -
  obtain x0 x1 x2 x3 x4 x5 x6 x7 where mid: "mid = [x0, x1, x2, x3, x4, x5, x6, x7]"
    using assms by (rule length_8_cases)
  show ?thesis
    unfolding mid set_udp_encap_header_def wr16_def by (simp add: wr_eval udp_header_wire_def)
qed

definition tcp_network_wire :: "tcp_spec \<Rightarrow> bytes" where
  "tcp_network_wire s =
     (if tcp_encapsulated s
      then ip_header_wire (spec_af s) (tcp_ip_bytes s) (spec_ecn s) IPPROTO_UDP
        @ udp_header_wire (spec_udp_src_port s) (spec_udp_dst_port s) (8 + tcp_segment_bytes s)
      else ip_header_wire (spec_af s) (tcp_ip_bytes s) (spec_ecn s) IPPROTO_TCP)"

definition tcp_offset :: "tcp_spec \<Rightarrow> nat" where
  "tcp_offset s = ip_header_size (spec_af s) + (if tcp_encapsulated s then 8 else 0)"

text \<open>The headers that the constructor records.\<close>

definition tcp_packet_headers :: "tcp_spec \<Rightarrow> header list" where
  "tcp_packet_headers s =
     [\<lparr> htype = ip_header_type (spec_af s), header_bytes = ip_header_size (spec_af s),
        total_bytes = tcp_ip_bytes s, hptr = Some 0 \<rparr>]
     @ (if tcp_encapsulated s
        then [\<lparr> htype = HEADER_UDP, header_bytes = 8, total_bytes = 8 + tcp_segment_bytes s,
                hptr = Some (ip_header_size (spec_af s)) \<rparr>] else [])
     @ [\<lparr> htype = HEADER_TCP, header_bytes = 20 + tcp_option_bytes s,
          total_bytes = tcp_segment_bytes s, hptr = Some (tcp_offset s) \<rparr>]"

lemma ip_header_type_neq [simp]: "ip_header_type af \<noteq> HEADER_NONE"
  by (simp add: ip_header_type_def)

lemma set_ip_ptr_fields [simp]:
  "pkt_buffer (set_ip_ptr af p pkt) = pkt_buffer pkt" "pkt_tcp (set_ip_ptr af p pkt) = pkt_tcp pkt"
  "pkt_headers (set_ip_ptr af p pkt) = pkt_headers pkt" "pkt_ip_bytes (set_ip_ptr af p pkt) = pkt_ip_bytes pkt"
  "pkt_sctp (set_ip_ptr af p pkt) = pkt_sctp pkt" "pkt_udp (set_ip_ptr af p pkt) = pkt_udp pkt"
  "pkt_udplite (set_ip_ptr af p pkt) = pkt_udplite pkt" "pkt_flags (set_ip_ptr af p pkt) = pkt_flags pkt"
  "pkt_icmpv4 (set_ip_ptr af p pkt) = pkt_icmpv4 pkt" "pkt_icmpv6 (set_ip_ptr af p pkt) = pkt_icmpv6 pkt"
  by (simp_all add: set_ip_ptr_def)

text \<open>A zeroed packet with its IP header set.\<close>

lemma set_ip_header_zeroed:
  assumes af: "af \<noteq> AF_UNSPEC" and n: "ip_header_size af \<le> n" "n < 65536"
    and fresh: "pkt_headers pkt = replicate PACKET_MAX_HEADERS no_header" "pkt_ip_bytes pkt = 0"
      "pkt_ipv4 pkt = None" "pkt_ipv6 pkt = None" "pkt_buffer pkt = replicate n 0"
  obtains pkt' where "set_packet_ip_header pkt af (of_nat n) ecn protocol = Some pkt'"
    and "pkt' = (push_header (set_ip_ptr af 0 pkt) (ip_header_type af) (ip_header_size af) n)
           \<lparr>pkt_buffer := ip_header_wire af n ecn protocol @ replicate (n - ip_header_size af) 0\<rparr>"
    and "chain_at pkt' (ip_header_size af)" and "packet_header_count pkt' = 1"
    and "used_headers pkt' = [\<lparr> htype = ip_header_type af, header_bytes = ip_header_size af,
           total_bytes = n, hptr = Some 0 \<rparr>]"
proof -
  let ?pkt = "set_ip_ptr af 0 pkt"
  have hs: "used_headers ?pkt = []" "headers_wf ?pkt"
    using fresh_headers [of ?pkt] fresh by simp_all
  then have c0: "chain_at ?pkt 0" and cnt: "packet_header_count ?pkt \<noteq> 6"
    using fresh by (simp_all add: chain_at_def packet_header_count_used)
  have buf: "pkt_buffer pkt = replicate (ip_header_size af) 0 @ replicate (n - ip_header_size af) 0"
    using n(1) fresh(5) by (simp flip: replicate_add)
  note eq = set_packet_ip_header_eq [OF af fresh(1-4) buf _ n, simplified]
  note push = chain_at_push [OF c0 cnt, of "ip_header_type af" "ip_header_size af" n, simplified]
  show ?thesis
    by (rule that [OF eq refl]) (use push hs in \<open>simp_all add: packet_header_count_used\<close>)
qed

text \<open>Packets that differ at most in their bytes and headers.\<close>

definition same_meta :: "packet \<Rightarrow> packet \<Rightarrow> bool" where
  "same_meta pkt pkt' \<longleftrightarrow> pkt' = pkt\<lparr> pkt_buffer := pkt_buffer pkt', pkt_headers := pkt_headers pkt',
     pkt_ip_bytes := pkt_ip_bytes pkt' \<rparr>"

lemma same_meta_push [simp]: "same_meta pkt (push_header pkt t hb tb)"
  by (simp add: same_meta_def push_header_def)

lemma same_meta_buffer [simp]: "same_meta pkt (pkt'\<lparr>pkt_buffer := b\<rparr>) = same_meta pkt pkt'"
  unfolding same_meta_def by (cases pkt, cases pkt') simp

lemma same_meta_trans: "same_meta p q \<Longrightarrow> same_meta q r \<Longrightarrow> same_meta p r"
  unfolding same_meta_def by (cases p, cases q, cases r) simp

lemma same_meta_fields:
  assumes "same_meta pkt pkt'"
  shows "pkt_direction pkt' = pkt_direction pkt" "pkt_ipv4 pkt' = pkt_ipv4 pkt"
    "pkt_ipv6 pkt' = pkt_ipv6 pkt" "pkt_sctp pkt' = pkt_sctp pkt" "pkt_tcp pkt' = pkt_tcp pkt"
    "pkt_udp pkt' = pkt_udp pkt" "pkt_udplite pkt' = pkt_udplite pkt"
    "pkt_icmpv4 pkt' = pkt_icmpv4 pkt" "pkt_icmpv6 pkt' = pkt_icmpv6 pkt"
    "pkt_flags pkt' = pkt_flags pkt" "pkt_ecn pkt' = pkt_ecn pkt"
  using assms unfolding same_meta_def by (cases pkt, cases pkt', simp)+

lemma tcp_network_part:
  assumes ok: "tcp_spec_ok s"
    and fresh: "pkt_headers pkt = replicate PACKET_MAX_HEADERS no_header" "pkt_ip_bytes pkt = 0"
      "pkt_ipv4 pkt = None" "pkt_ipv6 pkt = None" "pkt_buffer pkt = replicate (tcp_ip_bytes s) 0"
  obtains pkt' where "tcp_set_network_headers s (tcp_encapsulated s) (tcp_ip_bytes s)
      (tcp_segment_bytes s) pkt = Some pkt'"
    and "pkt_buffer pkt' = tcp_network_wire s @ replicate (tcp_segment_bytes s) 0"
    and "chain_at pkt' (tcp_offset s)" and "packet_header_count pkt' < 6"
    and "used_headers pkt' @ [\<lparr> htype = HEADER_TCP, header_bytes = 20 + tcp_option_bytes s,
          total_bytes = tcp_segment_bytes s, hptr = Some (tcp_offset s) \<rparr>] = tcp_packet_headers s"
    and "same_meta (set_ip_ptr (spec_af s) 0 pkt) pkt'"
proof -
  let ?af = "spec_af s" and ?n = "tcp_ip_bytes s" and ?hl = "ip_header_size (spec_af s)"
  have af: "?af \<noteq> AF_UNSPEC" and n: "?hl \<le> ?n" "?n < 65536"
    using ok by (simp_all add: tcp_spec_ok_def tcp_ip_bytes_def)
  define proto where "proto = (if tcp_encapsulated s then IPPROTO_UDP else IPPROTO_TCP)"
  obtain pkt1 where ip: "set_packet_ip_header pkt ?af (of_nat ?n) (spec_ecn s) proto = Some pkt1"
    and p1: "pkt1 = (push_header (set_ip_ptr ?af 0 pkt) (ip_header_type ?af) ?hl ?n)
         \<lparr>pkt_buffer := ip_header_wire ?af ?n (spec_ecn s) proto @ replicate (?n - ?hl) 0\<rparr>"
    and chain: "chain_at pkt1 ?hl" and cnt: "packet_header_count pkt1 = 1"
    and used: "used_headers pkt1 = [\<lparr> htype = ip_header_type ?af, header_bytes = ?hl,
         total_bytes = ?n, hptr = Some 0 \<rparr>]"
    by (rule set_ip_header_zeroed [OF af n fresh])
  have meta: "same_meta (set_ip_ptr ?af 0 pkt) pkt1"
    by (simp add: p1)
  show ?thesis
  proof (cases "tcp_encapsulated s")
    case False
    then show ?thesis
      using ip chain cnt used meta
      by (intro that [of pkt1]) (simp_all add: tcp_set_network_headers_def proto_def p1
          tcp_network_wire_def tcp_ip_bytes_def tcp_offset_def tcp_packet_headers_def)
  next
    case True
    let ?pkt2 = "push_header pkt1 HEADER_UDP 8 (8 + tcp_segment_bytes s)"
    have rep: "replicate (?n - ?hl) (0 :: u8) = replicate 8 0 @ replicate (tcp_segment_bytes s) 0"
      using True by (simp add: tcp_ip_bytes_def flip: replicate_add)
    have "append_total pkt1 HEADER_UDP 8 (8 + tcp_segment_bytes s) = Some (?pkt2, ?hl)"
      using True cnt by (intro append_total_eq [OF chain]) (simp_all add: p1 tcp_ip_bytes_def)
    moreover have "set_udp_encap_header (pkt_buffer ?pkt2) ?hl (spec_udp_src_port s)
        (spec_udp_dst_port s) (8 + tcp_segment_bytes s) =
        Some (tcp_network_wire s @ replicate (tcp_segment_bytes s) 0)"
      using True set_udp_encap_header_wire [of "replicate 8 0"
          "ip_header_wire ?af ?n (spec_ecn s) proto" "replicate (tcp_segment_bytes s) 0"]
      by (simp add: p1 rep tcp_network_wire_def proto_def)
    moreover have "chain_at ?pkt2 (?hl + 8)" and
      "used_headers ?pkt2 = used_headers pkt1 @ [\<lparr> htype = HEADER_UDP, header_bytes = 8,
         total_bytes = 8 + tcp_segment_bytes s, hptr = Some ?hl \<rparr>]"
      using chain_at_push [OF chain, of HEADER_UDP 8 "8 + tcp_segment_bytes s"] cnt by simp_all
    ultimately show ?thesis
      using True ip used same_meta_trans [OF meta same_meta_push]
      by (intro that [of "?pkt2\<lparr>pkt_buffer := tcp_network_wire s @ replicate (tcp_segment_bytes s) 0\<rparr>"])
        (simp_all add: tcp_set_network_headers_def proto_def upd_buffer_def tcp_offset_def
          tcp_packet_headers_def packet_header_count_used)
  qed
qed

lemma tcp_copy_options_wire:
  assumes "tcp_spec_ok s" and "pkt_buffer pkt = pre @ replicate (tcp_option_bytes s) 0 @ post"
  shows "tcp_copy_options s (length pre) pkt = Some (pkt\<lparr>pkt_buffer := pre @ options_wire s @ post\<rparr>)"
proof (cases "spec_options s")
  case None
  then show ?thesis
    using assms(2) by (simp add: tcp_copy_options_def options_wire_def tcp_option_bytes_def)
next
  case (Some opts)
  then have len: "length (opt_data opts) = 40" "unat (opt_length opts) \<le> 40"
    using assms(1) by (simp_all add: tcp_spec_ok_def tcp_option_bytes_def)
  show ?thesis
  proof (cases "opt_length opts = 0")
    case True
    then show ?thesis
      using Some assms(2) by (simp add: tcp_copy_options_def options_wire_def tcp_option_bytes_def)
  next
    case False
    then show ?thesis
      using Some assms(2) len wr_bytes_mid0 [of "options_wire s" "replicate (tcp_option_bytes s) 0" pre post]
      by (simp add: tcp_copy_options_def options_wire_def tcp_option_bytes_def rd_bytes_def
          upd_buffer_def word_gt_0)
  qed
qed

text \<open>The packet when the constructor has appended its headers.\<close>

definition tcp_packet_start :: "(nat \<Rightarrow> u8) \<Rightarrow> tcp_spec \<Rightarrow> packet" where
  "tcp_packet_start junk s = (packet_new_zeroed junk (tcp_ip_bytes s))\<lparr> pkt_direction := spec_direction s,
     pkt_flags := (if tcp_encapsulated s then FLAGS_UDP_ENCAPSULATED else 0), pkt_ecn := spec_ecn s \<rparr>"

lemma tcp_packet_start_fields [simp]:
  "pkt_buffer (tcp_packet_start junk s) = replicate (tcp_ip_bytes s) 0"
  "pkt_headers (tcp_packet_start junk s) = replicate PACKET_MAX_HEADERS no_header"
  "pkt_ip_bytes (tcp_packet_start junk s) = 0" "pkt_ipv4 (tcp_packet_start junk s) = None"
  "pkt_ipv6 (tcp_packet_start junk s) = None" "pkt_sctp (tcp_packet_start junk s) = None"
  "pkt_udp (tcp_packet_start junk s) = None" "pkt_direction (tcp_packet_start junk s) = spec_direction s"
  "pkt_ecn (tcp_packet_start junk s) = spec_ecn s"
  "pkt_flags (tcp_packet_start junk s) = (if tcp_encapsulated s then FLAGS_UDP_ENCAPSULATED else 0)"
  by (simp_all add: tcp_packet_start_def packet_new_zeroed_def packet_new_def)

lemma tcp_headers_appended:
  assumes ok: "tcp_spec_ok s"
  obtains pkt1 pkt2 where "tcp_set_network_headers s (tcp_encapsulated s) (tcp_ip_bytes s)
      (tcp_segment_bytes s) (tcp_packet_start junk s) = Some pkt1"
    and "append_total pkt1 HEADER_TCP (20 + tcp_option_bytes s) (tcp_segment_bytes s) =
      Some (pkt2, tcp_offset s)"
    and "pkt_buffer pkt2 = tcp_network_wire s @ replicate (tcp_segment_bytes s) 0"
    and "chain_at pkt2 (tcp_offset s + (20 + tcp_option_bytes s))"
    and "used_headers pkt2 = tcp_packet_headers s" and "ip_start pkt2 = Some 0"
    and "same_meta (set_ip_ptr (spec_af s) 0 (tcp_packet_start junk s)) pkt2"
proof -
  let ?off = "tcp_offset s" and ?seg = "tcp_segment_bytes s" and ?hb = "20 + tcp_option_bytes s"
  obtain pkt1 where net: "tcp_set_network_headers s (tcp_encapsulated s) (tcp_ip_bytes s) ?seg
        (tcp_packet_start junk s) = Some pkt1"
    and buf: "pkt_buffer pkt1 = tcp_network_wire s @ replicate ?seg 0"
    and chain: "chain_at pkt1 ?off" and cnt: "packet_header_count pkt1 < 6"
    and used: "used_headers pkt1 @ [\<lparr> htype = HEADER_TCP, header_bytes = ?hb, total_bytes = ?seg,
          hptr = Some ?off \<rparr>] = tcp_packet_headers s"
    and meta: "same_meta (set_ip_ptr (spec_af s) 0 (tcp_packet_start junk s)) pkt1"
    by (rule tcp_network_part [OF ok, of "tcp_packet_start junk s"]) simp_all
  let ?pkt2 = "push_header pkt1 HEADER_TCP ?hb ?seg"
  have "pkt_buffer_bytes pkt1 = ?off + ?seg"
    by (simp add: buf tcp_network_wire_def tcp_offset_def udp_header_wire_def)
  then have "append_total pkt1 HEADER_TCP ?hb ?seg = Some (?pkt2, ?off)"
    using cnt by (intro append_total_eq [OF chain]) (simp_all add: tcp_segment_bytes_def)
  moreover have "chain_at ?pkt2 (?off + ?hb)" and "used_headers ?pkt2 = tcp_packet_headers s"
    using chain_at_push [OF chain, of HEADER_TCP ?hb ?seg] cnt used by simp_all
  moreover have "ip_start ?pkt2 = Some 0"
    by (simp add: ip_start_def same_meta_fields [OF meta] set_ip_ptr_def)
  ultimately show ?thesis
    using that [of pkt1 ?pkt2] net buf same_meta_trans [OF meta same_meta_push] by simp
qed

lemma tcp_header_and_options:
  assumes ok: "tcp_spec_ok s"
    and buf: "pkt_buffer pkt = tcp_network_wire s @ replicate (tcp_segment_bytes s) 0"
  obtains b where "set_tcp_header (pkt_buffer pkt) (tcp_offset s) (spec_flags s) (spec_seq s)
      (spec_ack s) (20 + tcp_option_bytes s) (tcp_window_value s) (spec_urg_ptr s) = Some b"
    and "tcp_copy_options s (tcp_offset s + 20) (pkt\<lparr>pkt_buffer := b\<rparr>) =
      Some (pkt\<lparr>pkt_buffer := tcp_packet_wire s\<rparr>)"
proof -
  let ?pl = "unat (spec_payload_bytes s)"
  let ?hdr = "tcp_header_wire (spec_flags s) (spec_seq s) (spec_ack s) (20 + tcp_option_bytes s)
      (tcp_window_value s) (spec_urg_ptr s)"
  let ?b = "(tcp_network_wire s @ ?hdr) @ replicate (tcp_option_bytes s) 0 @ replicate ?pl 0"
  have len: "length (tcp_network_wire s) = tcp_offset s"
    by (simp add: tcp_network_wire_def tcp_offset_def udp_header_wire_def)
  have "replicate (tcp_segment_bytes s) (0 :: u8) =
      replicate 20 0 @ replicate (tcp_option_bytes s) 0 @ replicate ?pl 0"
    by (simp add: tcp_segment_bytes_def replicate_add)
  then have "set_tcp_header (pkt_buffer pkt) (tcp_offset s) (spec_flags s) (spec_seq s) (spec_ack s)
      (20 + tcp_option_bytes s) (tcp_window_value s) (spec_urg_ptr s) = Some ?b"
    using set_tcp_header_wire [of "tcp_network_wire s"] by (simp add: buf len)
  moreover have "tcp_copy_options s (tcp_offset s + 20) (pkt\<lparr>pkt_buffer := ?b\<rparr>) =
      Some (pkt\<lparr>pkt_buffer := tcp_packet_wire s\<rparr>)"
    using tcp_copy_options_wire [OF ok, of "pkt\<lparr>pkt_buffer := ?b\<rparr>" "tcp_network_wire s @ ?hdr"] len
    by (simp add: tcp_packet_wire_def tcp_network_wire_def tcp_segment_wire_def)
  ultimately show ?thesis
    by (rule that)
qed

text \<open>The constructor after its checks.\<close>

definition tcp_spec_valid :: "tcp_spec \<Rightarrow> bool" where
  "tcp_spec_valid s \<longleftrightarrow> tcp_spec_ok (s\<lparr>spec_window := 0\<rparr>)"

lemma new_tcp_packet_unfold:
  assumes ok: "tcp_spec_valid s"
  shows "new_tcp_packet junk s = do {
     pkt \<leftarrow> tcp_set_network_headers s (tcp_encapsulated s) (tcp_ip_bytes s) (tcp_segment_bytes s)
       (tcp_packet_start junk s);
     (pkt, _) \<leftarrow> append_total pkt HEADER_TCP (20 + tcp_option_bytes s) (tcp_segment_bytes s);
     ip \<leftarrow> ip_start pkt;
     let tcp = ip + tcp_offset s;
     let pkt = pkt\<lparr>pkt_tcp := Some tcp\<rparr>;
     if spec_window s = -1 \<and> spec_direction s = DIRECTION_INBOUND
     then Some (Inl Window_must_be_specified)
     else do {
       pkt \<leftarrow> upd_buffer (\<lambda>b. set_tcp_header b tcp (spec_flags s) (spec_seq s) (spec_ack s)
         (20 + tcp_option_bytes s) (tcp_window_value s) (spec_urg_ptr s)) pkt;
       pkt \<leftarrow> tcp_copy_options s (tcp + 20) pkt;
       Some (Inr (pkt\<lparr> pkt_flags := tcp_packet_flags s (pkt_flags pkt),
         pkt_ip_bytes := tcp_ip_bytes s \<rparr>))
     } }"
proof -
  have hl: "ip_header_min_len (spec_af s) = Some (ip_header_size (spec_af s))"
    using ok by (cases "spec_af s")
      (simp_all add: tcp_spec_valid_def tcp_spec_ok_def ip_header_min_len_def ip_header_size_def)
  have n_eq: "ip_header_size (spec_af s) + (20 + tcp_option_bytes s) + unat (spec_payload_bytes s)
        + (if tcp_encapsulated s then 8 else 0) = tcp_ip_bytes s"
    and seg_eq: "20 + tcp_option_bytes s + unat (spec_payload_bytes s) = tcp_segment_bytes s"
    and off_eq: "ip + ip_header_size (spec_af s) + (if tcp_encapsulated s then 8 else 0) =
        ip + tcp_offset s" for ip
    by (simp_all add: tcp_ip_bytes_def tcp_segment_bytes_def tcp_offset_def)
  have "tcp_option_bytes s mod 4 = 0" "tcp_option_bytes s \<le> 40" "tcp_ip_bytes s < 65536"
      "is_tcp_flags_spec_valid (spec_flags s) = Inr ()"
    using ok by (simp_all add: tcp_spec_valid_def tcp_spec_ok_def tcp_option_bytes_def tcp_ip_bytes_def
        tcp_encapsulated_def tcp_segment_bytes_def)
  then have guards: "tcp_option_bytes s mod 4 = 0" "(20 + tcp_option_bytes s) mod 4 = 0"
      "\<not> 60 < 20 + tcp_option_bytes s" "\<not> 65536 < tcp_ip_bytes s"
      "is_tcp_flags_spec_valid (spec_flags s) = Inr ()" "ip_header_size (spec_af s) mod 4 = 0"
    by (auto simp: mod_simps ip_header_size_def)
  show ?thesis
    unfolding new_tcp_packet_def Let_def tcp_encapsulated_def [symmetric] hl bind.bind_lunit n_eq seg_eq
      off_eq tcp_window_value_def [symmetric] tcp_packet_start_def [symmetric]
    using guards by simp
qed

lemma new_tcp_packet_built:
  assumes ok: "tcp_spec_ok s"
  obtains pkt where "new_tcp_packet junk s = Some (Inr pkt)"
    and "pkt_buffer pkt = tcp_packet_wire s" and "pkt_ip_bytes pkt = tcp_ip_bytes s"
    and "used_headers pkt = tcp_packet_headers s" and "headers_wf pkt"
    and "contiguous 0 (used_headers pkt)" and "pkt_tcp pkt = Some (tcp_offset s)"
    and "pkt_ipv4 pkt = (if spec_af s = AF_INET then Some 0 else None)"
    and "pkt_ipv6 pkt = (if spec_af s = AF_INET then None else Some 0)"
    and "pkt_sctp pkt = None" and "pkt_udp pkt = None"
    and "pkt_flags pkt = tcp_packet_flags s (if tcp_encapsulated s then FLAGS_UDP_ENCAPSULATED else 0)"
    and "pkt_direction pkt = spec_direction s" and "pkt_ecn pkt = spec_ecn s"
proof -
  obtain pkt1 pkt2 where net: "tcp_set_network_headers s (tcp_encapsulated s) (tcp_ip_bytes s)
      (tcp_segment_bytes s) (tcp_packet_start junk s) = Some pkt1"
    and app: "append_total pkt1 HEADER_TCP (20 + tcp_option_bytes s) (tcp_segment_bytes s) =
      Some (pkt2, tcp_offset s)"
    and buf: "pkt_buffer pkt2 = tcp_network_wire s @ replicate (tcp_segment_bytes s) 0"
    and chain: "chain_at pkt2 (tcp_offset s + (20 + tcp_option_bytes s))"
    and used: "used_headers pkt2 = tcp_packet_headers s" and ip: "ip_start pkt2 = Some 0"
    and meta: "same_meta (set_ip_ptr (spec_af s) 0 (tcp_packet_start junk s)) pkt2"
    by (rule tcp_headers_appended [OF ok])
  have buf': "pkt_buffer (pkt2\<lparr>pkt_tcp := Some (tcp_offset s)\<rparr>) =
      tcp_network_wire s @ replicate (tcp_segment_bytes s) 0"
    by (simp add: buf)
  obtain b where hdr: "set_tcp_header (pkt_buffer pkt2) (tcp_offset s) (spec_flags s) (spec_seq s)
      (spec_ack s) (20 + tcp_option_bytes s) (tcp_window_value s) (spec_urg_ptr s) = Some b"
    and opts: "tcp_copy_options s (tcp_offset s + 20) (pkt2\<lparr>pkt_tcp := Some (tcp_offset s), pkt_buffer := b\<rparr>) =
      Some (pkt2\<lparr>pkt_tcp := Some (tcp_offset s), pkt_buffer := tcp_packet_wire s\<rparr>)"
    using tcp_header_and_options [OF ok buf'] by auto
  have valid: "tcp_spec_valid s"
    using ok by (simp add: tcp_spec_valid_def tcp_spec_ok_def tcp_option_bytes_def tcp_ip_bytes_def
        tcp_encapsulated_def tcp_segment_bytes_def)
  have win: "\<not> (spec_window s = -1 \<and> spec_direction s = DIRECTION_INBOUND)"
    using ok by (simp add: tcp_spec_ok_def)
  define pkt where "pkt = pkt2\<lparr> pkt_tcp := Some (tcp_offset s), pkt_buffer := tcp_packet_wire s,
     pkt_flags := tcp_packet_flags s (pkt_flags pkt2), pkt_ip_bytes := tcp_ip_bytes s \<rparr>"
  have eq: "new_tcp_packet junk s = Some (Inr pkt)"
    unfolding new_tcp_packet_unfold [OF valid] Let_def net bind.bind_lunit app prod.case ip
    using win hdr opts by (simp add: upd_buffer_def pkt_def)
  have hs: "headers_wf pkt" "contiguous 0 (used_headers pkt)" "used_headers pkt = tcp_packet_headers s"
    using chain used unfolding chain_at_def by (simp_all add: pkt_def)
  show ?thesis
    by (rule that [OF eq]) (use hs in \<open>simp_all add: pkt_def same_meta_fields [OF meta] set_ip_ptr_def\<close>)
qed

lemma new_tcp_packet_no_window:
  assumes valid: "tcp_spec_valid s"
    and win: "spec_window s = -1" "spec_direction s = DIRECTION_INBOUND"
  shows "new_tcp_packet junk s = Some (Inl Window_must_be_specified)"
proof -
  let ?s = "s\<lparr>spec_window := 0\<rparr>"
  have ok: "tcp_spec_ok ?s"
    using valid by (simp add: tcp_spec_valid_def)
  obtain pkt1 pkt2 where net: "tcp_set_network_headers ?s (tcp_encapsulated ?s) (tcp_ip_bytes ?s)
      (tcp_segment_bytes ?s) (tcp_packet_start junk ?s) = Some pkt1"
    and app: "append_total pkt1 HEADER_TCP (20 + tcp_option_bytes ?s) (tcp_segment_bytes ?s) =
      Some (pkt2, tcp_offset ?s)" and ip: "ip_start pkt2 = Some 0"
    by (rule tcp_headers_appended [OF ok])
  have same: "tcp_encapsulated ?s = tcp_encapsulated s" "tcp_ip_bytes ?s = tcp_ip_bytes s"
    "tcp_segment_bytes ?s = tcp_segment_bytes s" "tcp_option_bytes ?s = tcp_option_bytes s"
    "tcp_packet_start junk ?s = tcp_packet_start junk s" "tcp_offset ?s = tcp_offset s"
    by (simp_all add: tcp_encapsulated_def tcp_ip_bytes_def tcp_segment_bytes_def tcp_option_bytes_def
        tcp_packet_start_def tcp_offset_def)
  have "tcp_set_network_headers ?s = tcp_set_network_headers s"
    by (rule ext)+ (simp add: tcp_set_network_headers_def)
  with net app ip win show ?thesis
    unfolding new_tcp_packet_unfold [OF valid] Let_def same by simp
qed

end
