(* ===== verification/Packet_Checksum.thy ===== *)
theory Packet_Checksum
  imports Packet_Parser Transport
begin

text \<open>
  \<^verbatim>\<open>packet_checksum.c\<close>: filling in the checksums of a complete packet; and the round trip from the
  construction of a TCP packet through its checksums to the parser.
\<close>

section \<open>The code\<close>

text \<open>What depends on the IP version in the two checksum functions of the code: the checksum with
  the pseudo-header of that version over \<open>len\<close> bytes, or over the first \<open>cov\<close> of them. A length
  \<^verbatim>\<open>l4_bytes - sizeof(struct udp)\<close> is computed in unsigned arithmetic and converted to the
  parameter type.\<close>

record pseudo_checksum =
  pc_full :: "bytes \<Rightarrow> u8 \<Rightarrow> nat \<Rightarrow> int \<Rightarrow> u16 option"
  pc_cover :: "bytes \<Rightarrow> u8 \<Rightarrow> nat \<Rightarrow> int \<Rightarrow> u16 \<Rightarrow> u16 option"

definition pseudo_v4 :: "bytes \<Rightarrow> bytes \<Rightarrow> pseudo_checksum" where
  "pseudo_v4 src dst = \<lparr>
     pc_full = \<lambda>b proto p len. tcp_udp_v4_checksum_at b src dst proto p (word_of_int len),
     pc_cover = \<lambda>b proto p len cov. udplite_v4_checksum_at b src dst proto p (word_of_int len) cov \<rparr>"

definition pseudo_v6 :: "bytes \<Rightarrow> bytes \<Rightarrow> pseudo_checksum" where
  "pseudo_v6 src dst = \<lparr>
     pc_full = \<lambda>b proto p len. tcp_udp_v6_checksum_at b src dst proto p (word_of_int len),
     pc_cover = \<lambda>b proto p len cov. udplite_v6_checksum_at b src dst proto p (word_of_int len) cov \<rparr>"

text \<open>Zeroing a 16-bit checksum field and filling in the computed value.\<close>

definition fill_checksum :: "nat \<Rightarrow> (bytes \<Rightarrow> u16 option) \<Rightarrow> packet \<Rightarrow> packet option" where
  "fill_checksum i csum pkt = do {
     pkt \<leftarrow> upd_buffer (\<lambda>b. wr16 b i 0) pkt;
     c \<leftarrow> csum (pkt_buffer pkt);
     upd_buffer (\<lambda>b. wr16_host b i c) pkt
   }"

definition udp_encapsulated :: "packet \<Rightarrow> bool" where
  "udp_encapsulated pkt \<longleftrightarrow> pkt_flags pkt AND FLAGS_UDP_ENCAPSULATED \<noteq> 0"

text \<open>The UDP header right before an encapsulated SCTP or TCP header.\<close>

definition fill_outer_udp :: "pseudo_checksum \<Rightarrow> nat \<Rightarrow> int \<Rightarrow> packet \<Rightarrow> packet option" where
  "fill_outer_udp pc p l4_bytes pkt = do {
     c_assert (8 \<le> p);
     fill_checksum (p - 8 + 6) (\<lambda>b. pc_full pc b IPPROTO_UDP (p - 8) l4_bytes) pkt
   }"

definition checksum_sctp :: "pseudo_checksum \<Rightarrow> nat \<Rightarrow> int \<Rightarrow> packet \<Rightarrow> packet option" where
  "checksum_sctp pc sctp l4_bytes pkt = do {
     pkt \<leftarrow> upd_buffer (\<lambda>b. wr32 b (sctp + 8) 0) pkt;
     let len = unat (word_of_int (if udp_encapsulated pkt then l4_bytes - 8 else l4_bytes) :: u32);
     crc \<leftarrow> sctp_crc32c_at (pkt_buffer pkt) sctp len;
     pkt \<leftarrow> upd_buffer (\<lambda>b. wr32 b (sctp + 8) (ntohl crc)) pkt;
     pkt \<leftarrow> (if pkt_flags pkt AND FLAGS_SCTP_BAD_CRC32C \<noteq> 0
       then do {
         v \<leftarrow> rd32 (pkt_buffer pkt) (sctp + 8);
         upd_buffer (\<lambda>b. wr32 b (sctp + 8) (v + 1)) pkt
       }
       else Some pkt);
     if udp_encapsulated pkt then fill_outer_udp pc sctp l4_bytes pkt else Some pkt
   }"

definition checksum_tcp :: "pseudo_checksum \<Rightarrow> nat \<Rightarrow> int \<Rightarrow> packet \<Rightarrow> packet option" where
  "checksum_tcp pc tcp l4_bytes pkt = do {
     pkt \<leftarrow> fill_checksum (tcp + 16) (\<lambda>b. pc_full pc b IPPROTO_TCP tcp
       (if udp_encapsulated pkt then l4_bytes - 8 else l4_bytes)) pkt;
     if udp_encapsulated pkt then fill_outer_udp pc tcp l4_bytes pkt else Some pkt
   }"

definition checksum_udplite :: "pseudo_checksum \<Rightarrow> nat \<Rightarrow> int \<Rightarrow> packet \<Rightarrow> packet option" where
  "checksum_udplite pc udplite l4_bytes pkt = do {
     cov \<leftarrow> udplite_cov (pkt_buffer pkt) udplite;
     let coverage = (if cov = 0 \<or> int (unat cov) > l4_bytes then word_of_int l4_bytes else cov);
     fill_checksum (udplite + 6) (\<lambda>b. pc_cover pc b IPPROTO_UDPLITE udplite l4_bytes coverage) pkt
   }"

text \<open>The choice of the transport protocol, common to both versions up to ICMP.\<close>

definition checksum_layer4 ::
    "pseudo_checksum \<Rightarrow> int \<Rightarrow> (packet \<Rightarrow> packet option) \<Rightarrow> packet \<Rightarrow> packet option" where
  "checksum_layer4 pc l4_bytes icmp pkt = (case pkt_sctp pkt of
      Some sctp \<Rightarrow> checksum_sctp pc sctp l4_bytes pkt
    | None \<Rightarrow> (case pkt_tcp pkt of
      Some tcp \<Rightarrow> checksum_tcp pc tcp l4_bytes pkt
    | None \<Rightarrow> (case pkt_udp pkt of
      Some udp \<Rightarrow> fill_checksum (udp + 6) (\<lambda>b. pc_full pc b IPPROTO_UDP udp l4_bytes) pkt
    | None \<Rightarrow> (case pkt_udplite pkt of
      Some udplite \<Rightarrow> checksum_udplite pc udplite l4_bytes pkt
    | None \<Rightarrow> icmp pkt))))"

definition checksum_ipv4_packet :: "packet \<Rightarrow> packet option" where
  "checksum_ipv4_packet pkt = do {
     ipv4 \<leftarrow> pkt_ipv4 pkt;
     pkt \<leftarrow> fill_checksum (ipv4 + 10) (\<lambda>b. do {
       n \<leftarrow> ipv4_header_len b ipv4; ipv4_checksum_at b ipv4 n }) pkt;
     tot_len \<leftarrow> ipv4_tot_len (pkt_buffer pkt) ipv4;
     c_assert (pkt_ip_bytes pkt \<ge> unat tot_len);
     hlen \<leftarrow> ipv4_header_len (pkt_buffer pkt) ipv4;
     let l4_bytes = int (unat tot_len) - int hlen;
     c_assert (l4_bytes > 0);
     src \<leftarrow> ipv4_src_ip (pkt_buffer pkt) ipv4;
     dst \<leftarrow> ipv4_dst_ip (pkt_buffer pkt) ipv4;
     checksum_layer4 (pseudo_v4 src dst) l4_bytes (\<lambda>pkt. do {
       icmp \<leftarrow> pkt_icmpv4 pkt;
       fill_checksum (icmp + 2) (\<lambda>b. ipv4_checksum_at b icmp (nat l4_bytes)) pkt }) pkt
   }"

definition checksum_ipv6_packet :: "packet \<Rightarrow> packet option" where
  "checksum_ipv6_packet pkt = do {
     ipv6 \<leftarrow> pkt_ipv6 pkt;
     payload_len \<leftarrow> ipv6_payload_len (pkt_buffer pkt) ipv6;
     c_assert (pkt_ip_bytes pkt \<ge> sizeof_ipv6 + unat payload_len);
     let l4_bytes = int (unat payload_len);
     c_assert (l4_bytes > 0);
     src \<leftarrow> ipv6_src_ip (pkt_buffer pkt) ipv6;
     dst \<leftarrow> ipv6_dst_ip (pkt_buffer pkt) ipv6;
     checksum_layer4 (pseudo_v6 src dst) l4_bytes (\<lambda>pkt. do {
       icmp \<leftarrow> pkt_icmpv6 pkt;
       fill_checksum (icmp + 2) (\<lambda>b. pc_full (pseudo_v6 src dst) b IPPROTO_ICMPV6 icmp l4_bytes) pkt }) pkt
   }"

definition checksum_packet :: "packet \<Rightarrow> packet option" where
  "checksum_packet pkt = (case packet_address_family pkt of
      AF_INET \<Rightarrow> checksum_ipv4_packet pkt
    | AF_INET6 \<Rightarrow> checksum_ipv6_packet pkt
    | AF_UNSPEC \<Rightarrow> None)"

section \<open>Filled-in checksums verify\<close>

text \<open>The bytes with a checksum stored at offset \<open>i\<close>.\<close>

definition fill16 :: "nat \<Rightarrow> u16 \<Rightarrow> bytes \<Rightarrow> bytes" where
  "fill16 i c xs = take i xs @ le16_to c @ drop (i + 2) xs"

lemma length_fill16 [simp]: "i + 2 \<le> length xs \<Longrightarrow> length (fill16 i c xs) = length xs"
  by (simp add: fill16_def)

lemma nth_fill16: "i + 2 \<le> length xs \<Longrightarrow> j < length xs \<Longrightarrow> j < i \<or> i + 2 \<le> j \<Longrightarrow> fill16 i c xs ! j = xs ! j"
  by (auto simp: fill16_def nth_append intro!: arg_cong [where f = "(!) xs"])

lemma fill_checksum_mid:
  assumes "pkt_buffer pkt = pre @ mid @ post" and "i + 2 \<le> length mid"
    and "csum (pre @ fill16 i 0 mid @ post) = Some c"
  shows "fill_checksum (length pre + i) csum pkt = Some (pkt\<lparr>pkt_buffer := pre @ fill16 i c mid @ post\<rparr>)"
proof -
  have zero: "be16_to 0 = le16_to 0"
    by (simp add: be16_to_def le16_to_def)
  have "wr16 (pre @ mid @ post) (length pre + i) 0 = Some (pre @ fill16 i 0 mid @ post)"
    using assms(2) by (simp only: wr16_def wr_bytes_mid length_be16_to) (simp add: fill16_def zero)
  moreover have "wr16_host (pre @ fill16 i 0 mid @ post) (length pre + i) c =
      Some (pre @ fill16 i c mid @ post)"
    using assms(2) wr_bytes_mid [of i "le16_to c" "fill16 i 0 mid" pre post]
    by (simp add: wr16_host_def fill16_def)
  ultimately show ?thesis
    using assms(1,3) by (simp add: fill_checksum_def upd_buffer_def)
qed

lemma fill16_verifies:
  assumes "length (ph @ xs) < 2 ^ 31" and "even (length ph)" and "even i" and "i + 2 \<le> length xs"
    and "c = ip_checksum_fold (ip_checksum_partial (ph @ fill16 i 0 xs) 0)"
  shows "ip_checksum_fold (ip_checksum_partial (ph @ fill16 i c xs) 0) = 0"
proof -
  have z: "le16_to 0 = [0, 0]"
    by (simp add: le16_to_def)
  have "ip_checksum_fold (ip_checksum_partial ((ph @ take i xs) @ le16_to c @ drop (i + 2) xs) 0) = 0"
    using assms by (intro checksum_fill) (simp_all add: fill16_def z)
  then show ?thesis
    by (simp add: fill16_def)
qed

text \<open>The pseudo-header bytes of the two IP versions.\<close>

definition is_pseudo :: "pseudo_checksum \<Rightarrow> bool" where
  "is_pseudo pc \<longleftrightarrow> (\<exists>src dst. length src = 4 \<and> length dst = 4 \<and> pc = pseudo_v4 src dst) \<or>
     (\<exists>src dst. length src = 16 \<and> length dst = 16 \<and> pc = pseudo_v6 src dst)"

lemma pc_full_eq:
  assumes "is_pseudo pc" and "n < 65536"
  obtains ph where "even (length ph)" and "length ph \<le> 40"
    and "\<And>pre l4 post. length pre mod 4 = 0 \<Longrightarrow> length l4 = n \<Longrightarrow>
       pc_full pc (pre @ l4 @ post) proto (length pre) (int n) =
         Some (ip_checksum_fold (ip_checksum_partial (ph @ l4) 0))"
proof -
  have n16: "unat (word_of_int (int n) :: u16) = n" and n32: "unat (word_of_int (int n) :: u32) = n"
    using assms(2) by (simp_all add: unat_of_nat)
  consider (v4) src dst where "length src = 4" "length dst = 4" "pc = pseudo_v4 src dst"
    | (v6) src dst where "length src = 16" "length dst = 16" "pc = pseudo_v6 src dst"
    using assms(1) unfolding is_pseudo_def by blast
  then show ?thesis
  proof cases
    case v4
    let ?ph = "src @ dst @ [0, proto] @ be16_to (word_of_int (int n))"
    have "length ?ph mod 4 = 0" "even (length ?ph)"
      using v4 by simp_all
    moreover from this have "pc_full pc (pre @ l4 @ post) proto (length pre) (int n) =
        Some (ip_checksum_fold (ip_checksum_partial (?ph @ l4) 0))"
      if "length pre mod 4 = 0" "length l4 = n" for pre l4 post
      using that v4(3) n16
      by (subst ip_checksum_partial_append)
        (simp_all add: pseudo_v4_def tcp_udp_v4_checksum_at_def rd_bytes_def tcp_udp_v4_checksum_def
          tcp_udp_v4_header_checksum_partial_def)
    ultimately show ?thesis
      using v4 by (intro that [of ?ph]) simp_all
  next
    case v6
    let ?ph = "src @ dst @ put_unaligned_be32 (word_of_int (int n)) @ [0, 0, 0] @ [proto]"
    have "length ?ph mod 4 = 0" "even (length ?ph)"
      using v6 by simp_all
    moreover from this have "pc_full pc (pre @ l4 @ post) proto (length pre) (int n) =
        Some (ip_checksum_fold (ip_checksum_partial (?ph @ l4) 0))"
      if "length pre mod 4 = 0" "length l4 = n" for pre l4 post
      using that v6(3) n32
      by (subst ip_checksum_partial_append)
        (simp_all add: pseudo_v6_def tcp_udp_v6_checksum_at_def rd_bytes_def tcp_udp_v6_checksum_def
          tcp_udp_v6_header_checksum_partial_def)
    ultimately show ?thesis
      using v6 by (intro that [of ?ph]) simp_all
  qed
qed

lemma fill_layer4:
  assumes pc: "is_pseudo pc" and buf: "pkt_buffer pkt = pre @ l4 @ post"
    and al: "length pre mod 4 = 0" and n: "length l4 = n" "n < 65536" and i: "even i" "i + 2 \<le> n"
  obtains c where "fill_checksum (length pre + i) (\<lambda>b. pc_full pc b proto (length pre) (int n)) pkt =
      Some (pkt\<lparr>pkt_buffer := pre @ fill16 i c l4 @ post\<rparr>)"
    and "\<And>pre' post'. length pre' mod 4 = 0 \<Longrightarrow>
      pc_full pc (pre' @ fill16 i c l4 @ post') proto (length pre') (int n) = Some 0"
proof -
  obtain ph where ph: "even (length ph)" "length ph \<le> 40"
    "\<And>pre l4 post. length pre mod 4 = 0 \<Longrightarrow> length l4 = n \<Longrightarrow>
       pc_full pc (pre @ l4 @ post) proto (length pre) (int n) =
         Some (ip_checksum_fold (ip_checksum_partial (ph @ l4) 0))"
    using pc_full_eq [OF pc n(2), of proto] by blast
  define c where "c = ip_checksum_fold (ip_checksum_partial (ph @ fill16 i 0 l4) 0)"
  have len: "length (fill16 i c' l4) = n" for c'
    using n i by simp
  have "ip_checksum_fold (ip_checksum_partial (ph @ fill16 i c l4) 0) = 0"
    using ph n i by (intro fill16_verifies [OF _ _ _ _ c_def]) simp_all
  then have "pc_full pc (pre' @ fill16 i c l4 @ post') proto (length pre') (int n) = Some 0"
    if "length pre' mod 4 = 0" for pre' post'
    using ph(3) [OF that len] by simp
  moreover have "fill_checksum (length pre + i) (\<lambda>b. pc_full pc b proto (length pre) (int n)) pkt =
      Some (pkt\<lparr>pkt_buffer := pre @ fill16 i c l4 @ post\<rparr>)"
    using n i by (intro fill_checksum_mid [OF buf]) (simp_all add: ph(3) [OF al len] c_def)
  ultimately show ?thesis
    using that by blast
qed

subsection \<open>TCP\<close>

text \<open>The layer 4 part of a TCP packet: a UDP header when it is encapsulated, and the segment.\<close>

definition encap_shape :: "packet \<Rightarrow> bytes \<Rightarrow> bool" where
  "encap_shape pkt udp \<longleftrightarrow> length udp = (if udp_encapsulated pkt then 8 else 0)"

lemma udp_encapsulated_buffer [simp]:
  "udp_encapsulated (pkt\<lparr>pkt_buffer := b\<rparr>) = udp_encapsulated pkt"
  by (simp add: udp_encapsulated_def)

lemma checksum_tcp_verifies:
  assumes pc: "is_pseudo pc" and buf: "pkt_buffer pkt = ip @ udp @ seg @ post"
    and al: "length ip mod 4 = 0" and shape: "encap_shape pkt udp"
    and n: "length udp + length seg < 65536" "20 \<le> length seg"
  obtains c u where "checksum_tcp pc (length ip + length udp) (int (length udp + length seg)) pkt =
      Some (pkt\<lparr>pkt_buffer := ip @ (if udp = [] then [] else fill16 6 u udp) @ fill16 16 c seg @ post\<rparr>)"
    and "pc_full pc (ip @ (if udp = [] then [] else fill16 6 u udp) @ fill16 16 c seg @ post)
           IPPROTO_TCP (length ip + length udp) (int (length seg)) = Some 0"
    and "udp \<noteq> [] \<Longrightarrow> pc_full pc (ip @ fill16 6 u udp @ fill16 16 c seg @ post) IPPROTO_UDP
           (length ip) (int (length udp + length seg)) = Some 0"
proof -
  have al': "length (ip @ udp) mod 4 = 0" and buf': "pkt_buffer pkt = (ip @ udp) @ seg @ post"
    using al shape buf by (auto simp: encap_shape_def mod_simps split: if_splits)
  have len: "(if udp_encapsulated pkt then int (length udp + length seg) - 8
      else int (length udp + length seg)) = int (length seg)"
    using shape by (simp add: encap_shape_def)
  have n': "length seg < 65536" "16 + 2 \<le> length seg"
    using n by simp_all
  obtain c where c: "fill_checksum (length (ip @ udp) + 16)
        (\<lambda>b. pc_full pc b IPPROTO_TCP (length (ip @ udp)) (int (length seg))) pkt =
        Some (pkt\<lparr>pkt_buffer := (ip @ udp) @ fill16 16 c seg @ post\<rparr>)"
      "\<And>pre' post'. length pre' mod 4 = 0 \<Longrightarrow>
         pc_full pc (pre' @ fill16 16 c seg @ post') IPPROTO_TCP (length pre')
           (int (length seg)) = Some 0"
    by (rule fill_layer4 [OF pc buf' al' refl n'(1) _ n'(2), of IPPROTO_TCP]) auto
  show ?thesis
  proof (cases "udp_encapsulated pkt")
    case False
    then have "udp = []"
      using shape by (simp add: encap_shape_def)
    then show ?thesis
      using that [of 0 c] c(1) c(2) [OF al', of post] False len by (simp add: checksum_tcp_def)
  next
    case True
    then have l8: "length udp = 8"
      using shape by (simp add: encap_shape_def)
    let ?pkt1 = "pkt\<lparr>pkt_buffer := ip @ udp @ fill16 16 c seg @ post\<rparr>"
    have buf1: "pkt_buffer ?pkt1 = ip @ (udp @ fill16 16 c seg) @ post"
      by simp
    obtain u where u: "fill_checksum (length ip + 6)
          (\<lambda>b. pc_full pc b IPPROTO_UDP (length ip) (int (length udp + length seg))) ?pkt1 =
          Some (?pkt1\<lparr>pkt_buffer := ip @ fill16 6 u (udp @ fill16 16 c seg) @ post\<rparr>)"
        "\<And>pre' post'. length pre' mod 4 = 0 \<Longrightarrow>
          pc_full pc (pre' @ fill16 6 u (udp @ fill16 16 c seg) @ post') IPPROTO_UDP (length pre')
            (int (length udp + length seg)) = Some 0"
      using n n' l8 
      by (rule_tac fill_layer4 [OF pc buf1 al, of "length udp + length seg" 6 IPPROTO_UDP]) auto
    have split: "fill16 6 u (udp @ fill16 16 c seg) = fill16 6 u udp @ fill16 16 c seg"
      using l8 by (simp add: fill16_def)
    have "length (ip @ fill16 6 u udp) mod 4 = 0" and ne: "udp \<noteq> []"
      using al' l8 by auto
    then have "pc_full pc (ip @ fill16 6 u udp @ fill16 16 c seg @ post) IPPROTO_TCP
        (length ip + length udp) (int (length seg)) = Some 0"
      using c(2) [of "ip @ fill16 6 u udp" post] l8 by simp
    then show ?thesis
      using that [of u c] c(1) u(1) u(2) [OF al, of post] True l8 ne len
      by (simp add: checksum_tcp_def fill_outer_udp_def split c_assert_def)
  qed
qed

end
