(* ===== verification/Ip_Roundtrip.thy ===== *)
theory Ip_Roundtrip
  imports Packet_Checksum
begin

text \<open>
  What the round trips of all packet kinds share: the fields of a constructed IP header with its
  checksum filled in, a received frame, and the parser's path through the IP header to the
  transport layer.
\<close>

section \<open>Fields of the constructed headers\<close>

lemma u16_of_nat_small:
  "n < 65536 \<Longrightarrow> unat (of_nat n :: u16) = n" "n < 65536 \<Longrightarrow> uint (of_nat n :: u16) = int n"
  by (simp_all add: unsigned_of_nat take_bit_eq_mod)

lemma ipv4_wire_filled:
  "fill16 10 ck (ipv4_header_wire n ecn proto) = [0x45, ip_ecn_bits ecn] @ be16_to n
     @ [0, 0, 0, 0, 255, proto] @ le16_to ck @ [0, 0, 0, 0, 0, 0, 0, 0]"
proof -
  have "fill16 10 ck (([0x45, ip_ecn_bits ecn] @ be16_to n @ [0, 0, 0, 0, 255, proto]) @ [0, 0] @ xs) =
      ([0x45, ip_ecn_bits ecn] @ be16_to n @ [0, 0, 0, 0, 255, proto]) @ le16_to ck @ xs" for xs
    by (simp add: fill16_def)
  moreover have "replicate 8 (0 :: u8) = [0, 0, 0, 0, 0, 0, 0, 0]"
    by (simp add: eval_nat_numeral)
  ultimately show ?thesis
    by (simp add: ipv4_header_wire_def)
qed

lemma ipv4_wire_fields:
  "ipv4_version (fill16 10 ck (ipv4_header_wire n ecn proto) @ post) 0 = Some 4"
  "ipv4_header_len (fill16 10 ck (ipv4_header_wire n ecn proto) @ post) 0 = Some 20"
  "ipv4_tot_len (fill16 10 ck (ipv4_header_wire n ecn proto) @ post) 0 = Some n"
  "ipv4_frag_off (fill16 10 ck (ipv4_header_wire n ecn proto) @ post) 0 = Some 0"
  "ipv4_protocol (fill16 10 ck (ipv4_header_wire n ecn proto) @ post) 0 = Some proto"
  "ipv4_src_ip (fill16 10 ck (ipv4_header_wire n ecn proto) @ post) 0 = Some [0, 0, 0, 0]"
  "ipv4_dst_ip (fill16 10 ck (ipv4_header_wire n ecn proto) @ post) 0 = Some [0, 0, 0, 0]"
  using be16_of_to [of n] unfolding ipv4_wire_filled
  by (simp_all add: wire_defs rd8_def rd16_def rd_bytes_def nth_append
      le16_to_def be16_to_def be16_of_def)

lemma ipv6_wire_fields:
  "ipv6_version (ipv6_header_wire n ecn proto @ post) 0 = Some 6"
  "ipv6_payload_len (ipv6_header_wire n ecn proto @ post) 0 = Some n"
  "ipv6_next_header (ipv6_header_wire n ecn proto @ post) 0 = Some proto"
  "ipv6_src_ip (ipv6_header_wire n ecn proto @ post) 0 = Some (replicate 16 0)"
  "ipv6_dst_ip (ipv6_header_wire n ecn proto @ post) 0 = Some (replicate 16 0)"
  using be16_of_to [of n]
  by (simp_all add: wire_defs ipv6_header_wire_def rd8_def rd16_def rd_bytes_def nth_append be16_to_def)

section \<open>The checksum of the IPv4 header\<close>

lemma ipv4_checksum_at_front:
  "length xs = n \<Longrightarrow> ipv4_checksum_at (xs @ ys) 0 n = Some (ipv4_checksum xs)"
  by (simp add: ipv4_checksum_at_def rd_bytes_def)

lemma fill_ipv4_header:
  assumes "pkt_buffer pkt = ipv4_header_wire n ecn proto @ post"
  obtains ck where "fill_checksum 10 (\<lambda>b. do { n \<leftarrow> ipv4_header_len b 0; ipv4_checksum_at b 0 n }) pkt =
      Some (pkt\<lparr>pkt_buffer := fill16 10 ck (ipv4_header_wire n ecn proto) @ post\<rparr>)"
    and "\<And>post'. ipv4_checksum_at (fill16 10 ck (ipv4_header_wire n ecn proto) @ post') 0 20 = Some 0"
proof -
  let ?w = "ipv4_header_wire n ecn proto"
  define ck where "ck = ipv4_checksum (fill16 10 0 ?w)"
  have len: "length (fill16 10 x ?w) = 20" for x
    by simp
  have "fill_checksum (length ([] :: bytes) + 10)
      (\<lambda>b. do { n \<leftarrow> ipv4_header_len b 0; ipv4_checksum_at b 0 n }) pkt =
      Some (pkt\<lparr>pkt_buffer := [] @ fill16 10 ck ?w @ post\<rparr>)"
    using assms by (intro fill_checksum_mid)
      (simp_all add: ipv4_wire_fields ipv4_checksum_at_front [OF len] ck_def)
  moreover have "ipv4_checksum (fill16 10 ck ?w) = 0"
    using fill16_verifies [of "[]" ?w 10 ck] by (simp add: ck_def ipv4_checksum_def)
  ultimately show ?thesis
    using that [of ck] ipv4_checksum_at_front [OF len] by simp
qed

section \<open>Parsing the IP header\<close>

lemma parse_append_chain:
  assumes "chain_at pkt p" and "packet_header_count pkt < 6" and "p + hb \<le> pkt_buffer_bytes pkt"
  shows "parse_append pkt t hb tb cont = cont (push_header pkt t hb tb)"
  using assms by (subst parse_append_eq) (simp_all add: chain_at_def)

text \<open>A received frame: the bytes of the packet, followed by the rest of the receive buffer.\<close>

definition received :: "bytes \<Rightarrow> bytes \<Rightarrow> packet" where
  "received frame rest = packet_new ((!) (frame @ rest)) (length (frame @ rest))"

lemma received_fields [simp]:
  "pkt_buffer (received frame rest) = frame @ rest" "pkt_ip_bytes (received frame rest) = 0"
  "pkt_ipv4 (received frame rest) = None" "pkt_ipv6 (received frame rest) = None"
  "pkt_flags (received frame rest) = 0"
  "pkt_headers (received frame rest) = replicate PACKET_MAX_HEADERS no_header"
  unfolding received_def packet_new_def by (simp_all only: packet.simps map_nth)

lemma received_chain:
  "chain_at (received frame rest) 0" "packet_header_count (received frame rest) = 0"
  "used_headers (received frame rest) = []"
  using fresh_headers [of "received frame rest"] by (simp_all add: chain_at_def packet_header_count_used)

definition ethertype_of :: "address_family \<Rightarrow> u16" where
  "ethertype_of af = (if af = AF_INET then ETHERTYPE_IP else ETHERTYPE_IPV6)"

text \<open>An IP header with the checksum \<open>ck\<close> in it, if it has one.\<close>

definition ip_header_filled :: "address_family \<Rightarrow> u16 \<Rightarrow> nat \<Rightarrow> ip_ecn_t \<Rightarrow> u8 \<Rightarrow> bytes" where
  "ip_header_filled af ck n ecn protocol =
     (if af = AF_INET then fill16 10 ck else id) (ip_header_wire af n ecn protocol)"

lemma length_ip_header_filled [simp]: "length (ip_header_filled af ck n ecn protocol) = ip_header_size af"
  by (simp add: ip_header_filled_def ip_header_size_def ip_header_wire_def)

text \<open>An accepted transport header behind an IP header that spans the frame makes the parser accept
  the frame, with the pointer to the IP header and the length of the packet set.\<close>

lemma ip_parses:
  assumes frame: "frame = ip_header_filled af ck n ecn protocol @ payload"
    and n: "ip_header_size af \<le> n" "n < 65536" "length frame = n"
    and ck: "af = AF_INET \<Longrightarrow> ipv4_checksum_at frame 0 20 = Some 0"
    and pkt1: "pkt1 = push_header (received frame rest) (ip_header_type af) (ip_header_size af) n"
    and l4: "parse_layer4 pkt1 enc (ip_header_size af) protocol (n - ip_header_size af) n =
       Some (PACKET_OK, pkt2, True)"
  shows "parse_packet (received frame rest) n (ethertype_of af) enc =
     Some (PACKET_OK, (set_ip_ptr af 0 pkt2)\<lparr>pkt_ip_bytes := n\<rparr>)"
proof -
  have buf: "pkt_buffer pkt1 = frame @ rest"
    by (simp add: pkt1)
  have room: "0 + ip_header_size af \<le> pkt_buffer_bytes (received frame rest)"
    using n by simp
  have app: "parse_append (received frame rest) (ip_header_type af) (ip_header_size af) n cont = cont pkt1" for cont
    unfolding pkt1 by (rule parse_append_chain [OF received_chain(1) _ room]) (simp add: received_chain)
  show ?thesis
  proof (cases "af = AF_INET")
    case True
    then have n4: "20 \<le> n" "unat (of_nat n :: u16) = n"
      using n by (auto simp: ip_header_size_def intro: u16_of_nat_small)
    then have sum: "ipv4_checksum_at (frame @ rest) 0 20 = Some 0"
      using ck [OF True] n(3) by (simp add: ipv4_checksum_at_def rd_bytes_def)
    have fields: "ipv4_version (frame @ rest) 0 = Some 4" "ipv4_header_len (frame @ rest) 0 = Some 20"
        "ipv4_tot_len (frame @ rest) 0 = Some (of_nat n)" "ipv4_frag_off (frame @ rest) 0 = Some 0"
        "ipv4_protocol (frame @ rest) 0 = Some protocol"
      unfolding frame ip_header_filled_def ip_header_wire_def using True by (simp_all add: ipv4_wire_fields)
    have "parse_ipv4 (received frame rest) enc 0 n =
        Some (PACKET_OK, (set_ip_ptr af 0 pkt2)\<lparr>pkt_ip_bytes := n\<rparr>)"
      unfolding parse_ipv4.simps
      using app l4 True sum fields n4 buf
      by (simp add: Let_def set_ip_ptr_def ip_header_type_def ip_header_size_def)
    then show ?thesis
      using fields True n n4
      by (simp add: parse_packet_def parse_layer3_packet_by_proto.simps ethertype_of_def)
  next
    case False
    define m where "m = n - 40"
    have "n = 40 + m"
      using n False by (simp add: m_def ip_header_size_def)
    moreover from this have "unat (of_nat m :: u16) = m"
      using n(2) by (intro u16_of_nat_small) simp
    ultimately have m: "n = 40 + m" "unat (of_nat m :: u16) = m" .
    have fields: "ipv6_version (frame @ rest) 0 = Some 6" "ipv6_payload_len (frame @ rest) 0 = Some (of_nat m)"
        "ipv6_next_header (frame @ rest) 0 = Some protocol"
      unfolding frame ip_header_filled_def ip_header_wire_def using False
      by (simp_all add: ipv6_wire_fields m(1))
    have "parse_ipv6 (received frame rest) enc 0 n =
        Some (PACKET_OK, (set_ip_ptr af 0 pkt2)\<lparr>pkt_ip_bytes := n\<rparr>)"
      unfolding parse_ipv6.simps
      using app l4 False fields m buf
      by (simp add: Let_def set_ip_ptr_def ip_header_type_def ip_header_size_def)
    then show ?thesis
      using fields False n m(1)
      by (simp add: parse_packet_def parse_layer3_packet_by_proto.simps ethertype_of_def)
  qed
qed

end
