(* ===== verification/Tcp_Roundtrip.thy ===== *)
theory Tcp_Roundtrip
  imports Ip_Roundtrip
begin

text \<open>
  The life of a TCP packet: \<^verbatim>\<open>new_tcp_packet\<close> builds it, \<^verbatim>\<open>checksum_packet\<close> fills in its checksums, and
  \<^verbatim>\<open>parse_packet\<close> reads the bytes back.
\<close>

section \<open>Fields of the TCP header\<close>

lemma hi4_flag_bit: "drop_bit 4 (flag_bit 0 v (push_bit 4 x AND 240)) = x AND 15" for x :: u8
proof -
  have "(15 :: u8) = mask 4" "(240 :: u8) = NOT (mask 4)"
    by (simp_all add: mask_eq_exp_minus_1)
  note m = this
  show ?thesis
    unfolding m by (rule bit_word_eqI) (cases v, auto simp: flag_bit_def bit_simps)
qed

lemma tcp_wire_header_len:
  assumes "hb mod 4 = 0" and "hb \<le> 60"
    and "pkt_buffer pkt = pre @ fill16 16 c (tcp_header_wire flags sn an hb wnd urg @ xs) @ post"
    and "pkt_tcp pkt = Some (length pre)"
  shows "packet_tcp_header_len pkt = Some hb"
proof -
  let ?d = "flag_bit 0 (ecn_flag 2 CHR ''A'' flags) (push_bit 4 (of_nat (hb div 4) AND 0x0f))"
  have "rd8 (pkt_buffer pkt) (length pre + 12) = Some (tcp_header_wire flags sn an hb wnd urg ! 12)"
    unfolding assms(3) by (subst rd8_mid) (simp_all add: nth_fill16 nth_append)
  moreover have "tcp_header_wire flags sn an hb wnd urg ! 12 = ?d"
    by (simp add: tcp_header_wire_def nth_append put_unaligned_be32_def)
  moreover have "unat ((of_nat (hb div 4) AND 0x0f) :: u8) = hb div 4"
  proof -
    have "(of_nat (hb div 4) AND 0x0f :: u8) = take_bit 4 (of_nat (hb div 4))"
      by (simp add: take_bit_eq_mask mask_eq_exp_minus_1)
    also have "\<dots> = of_nat (hb div 4)"
      using assms(2) by (simp add: take_bit_of_nat take_bit_nat_eq_self)
    finally show ?thesis
      using assms(2) by (simp add: unat_of_nat)
  qed
  ultimately show ?thesis
    using assms(1,4) div_mult_mod_eq [of hb 4] by (simp add: packet_tcp_header_len_def tcp_doff_def hi4_flag_bit)
qed

section \<open>Checksums of a built packet\<close>

text \<open>The bytes of a built packet with checksums \<open>ck\<close> (IPv4 header), \<open>u\<close> (encapsulating UDP header)
  and \<open>c\<close> (TCP).\<close>

definition ip_part :: "tcp_spec \<Rightarrow> u16 \<Rightarrow> bytes" where
  "ip_part s ck = ip_header_filled (spec_af s) ck (tcp_ip_bytes s) (spec_ecn s)
     (if tcp_encapsulated s then IPPROTO_UDP else IPPROTO_TCP)"

definition udp_part :: "tcp_spec \<Rightarrow> u16 \<Rightarrow> bytes" where
  "udp_part s u = (if tcp_encapsulated s then fill16 6 u (udp_header_wire (spec_udp_src_port s)
     (spec_udp_dst_port s) (8 + tcp_segment_bytes s)) else [])"

definition tcp_wire_checksummed :: "tcp_spec \<Rightarrow> u16 \<Rightarrow> u16 \<Rightarrow> u16 \<Rightarrow> bytes" where
  "tcp_wire_checksummed s ck u c = ip_part s ck @ udp_part s u @ fill16 16 c (tcp_segment_wire s)"

text \<open>What a receiver checks: the header checksum of an IPv4 packet and the transport checksums, with
  the pseudo-header of the addresses in the packet.\<close>

definition pseudo_of :: "address_family \<Rightarrow> bytes \<Rightarrow> pseudo_checksum option" where
  "pseudo_of af b = (case af of
      AF_INET \<Rightarrow> do { src \<leftarrow> ipv4_src_ip b 0; dst \<leftarrow> ipv4_dst_ip b 0; Some (pseudo_v4 src dst) }
    | AF_INET6 \<Rightarrow> do { src \<leftarrow> ipv6_src_ip b 0; dst \<leftarrow> ipv6_dst_ip b 0; Some (pseudo_v6 src dst) }
    | AF_UNSPEC \<Rightarrow> None)"

definition receiver_accepts :: "tcp_spec \<Rightarrow> bytes \<Rightarrow> bool" where
  "receiver_accepts s b \<longleftrightarrow>
     (\<exists>pc. pseudo_of (spec_af s) b = Some pc \<and>
        (spec_af s = AF_INET \<longrightarrow> ipv4_checksum_at b 0 20 = Some 0) \<and>
        pc_full pc b IPPROTO_TCP (tcp_offset s) (int (tcp_segment_bytes s)) = Some 0 \<and>
        (tcp_encapsulated s \<longrightarrow> pc_full pc b IPPROTO_UDP (ip_header_size (spec_af s))
           (int (8 + tcp_segment_bytes s)) = Some 0))"

lemma length_parts [simp]:
  "length (ip_part s ck) = ip_header_size (spec_af s)"
  "length (udp_part s u) = (if tcp_encapsulated s then 8 else 0)"
  by (simp_all add: ip_part_def udp_part_def udp_header_wire_def)

lemma flags_encapsulated: "udp_encapsulated pkt = tcp_encapsulated s"
  if "pkt_flags pkt = tcp_packet_flags s (if tcp_encapsulated s then FLAGS_UDP_ENCAPSULATED else 0)"
  using that by (auto simp: udp_encapsulated_def tcp_packet_flags_def)

text \<open>A built packet, as far as the checksums depend on it.\<close>

definition built_for :: "tcp_spec \<Rightarrow> packet \<Rightarrow> bool" where
  "built_for s pkt \<longleftrightarrow> pkt_buffer pkt = tcp_packet_wire s \<and> pkt_ip_bytes pkt = tcp_ip_bytes s \<and>
     pkt_tcp pkt = Some (tcp_offset s) \<and> pkt_sctp pkt = None \<and>
     pkt_ipv4 pkt = (if spec_af s = AF_INET then Some 0 else None) \<and>
     pkt_ipv6 pkt = (if spec_af s = AF_INET then None else Some 0) \<and>
     udp_encapsulated pkt = tcp_encapsulated s"

lemma checksum_layer4_built:
  assumes ok: "tcp_spec_ok s" and pc: "is_pseudo pc"
    and buf: "pkt_buffer pkt = ip @ drop (ip_header_size (spec_af s)) (tcp_packet_wire s)"
    and ip: "length ip = ip_header_size (spec_af s)"
    and ptrs: "pkt_tcp pkt = Some (tcp_offset s)" "pkt_sctp pkt = None"
      "udp_encapsulated pkt = tcp_encapsulated s"
  obtains u c where "checksum_layer4 pc (int (tcp_ip_bytes s) - int (ip_header_size (spec_af s))) icmp pkt =
      Some (pkt\<lparr>pkt_buffer := ip @ udp_part s u @ fill16 16 c (tcp_segment_wire s)\<rparr>)"
    and "pc_full pc (ip @ udp_part s u @ fill16 16 c (tcp_segment_wire s)) IPPROTO_TCP (tcp_offset s)
           (int (tcp_segment_bytes s)) = Some 0"
    and "tcp_encapsulated s \<Longrightarrow>
         pc_full pc (ip @ udp_part s u @ fill16 16 c (tcp_segment_wire s)) IPPROTO_UDP
           (ip_header_size (spec_af s)) (int (8 + tcp_segment_bytes s)) = Some 0"
proof -
  define udp where "udp = (if tcp_encapsulated s then udp_header_wire (spec_udp_src_port s)
     (spec_udp_dst_port s) (8 + tcp_segment_bytes s) else [])"
  have udp: "length udp = (if tcp_encapsulated s then 8 else 0)"
      "(if udp = [] then [] else fill16 6 u udp) = udp_part s u" for u
    by (auto simp: udp_def udp_header_wire_def udp_part_def fill16_def be16_to_def)
  have buf': "pkt_buffer pkt = ip @ udp @ tcp_segment_wire s @ []"
    using buf by (simp add: tcp_packet_wire_def udp_def)
  have shape: "encap_shape pkt udp" and al: "length ip mod 4 = 0"
    using udp ip ptrs(3) by (simp_all add: encap_shape_def ip_header_size_def)
  have seg: "length (tcp_segment_wire s) = tcp_segment_bytes s"
    by (rule length_tcp_segment_wire [OF ok])
  have "tcp_ip_bytes s < 65536"
    using ok by (simp add: tcp_spec_ok_def)
  then have n: "length udp + length (tcp_segment_wire s) < 65536" "20 \<le> length (tcp_segment_wire s)"
    using udp seg by (auto simp: tcp_ip_bytes_def tcp_segment_bytes_def)
  have off: "length ip + length udp = tcp_offset s"
      "int (length udp + length (tcp_segment_wire s)) = int (tcp_ip_bytes s) - int (ip_header_size (spec_af s))"
    using ip udp seg by (simp_all add: tcp_offset_def tcp_ip_bytes_def)
  obtain c u where "checksum_tcp pc (length ip + length udp) (int (length udp + length (tcp_segment_wire s))) pkt =
      Some (pkt\<lparr>pkt_buffer := ip @ udp_part s u @ fill16 16 c (tcp_segment_wire s)\<rparr>)"
    and "pc_full pc (ip @ udp_part s u @ fill16 16 c (tcp_segment_wire s))
           IPPROTO_TCP (length ip + length udp) (int (length (tcp_segment_wire s))) = Some 0"
    and "udp \<noteq> [] \<Longrightarrow> pc_full pc (ip @ udp_part s u @ fill16 16 c (tcp_segment_wire s)) IPPROTO_UDP
           (length ip) (int (length udp + length (tcp_segment_wire s))) = Some 0"
    using checksum_tcp_verifies [OF pc buf' al shape n] unfolding udp(2) append_Nil2
    by (metis udp(2))
  moreover have "udp \<noteq> [] \<longleftrightarrow> tcp_encapsulated s"
    using udp(1) by (auto split: if_splits)
  ultimately show ?thesis
    using ip seg ptrs udp(1) off by (intro that [of u c]) (simp_all add: checksum_layer4_def)
qed

lemma tcp_ip_bytes_range:
  "tcp_spec_ok s \<Longrightarrow> ip_header_size (spec_af s) + 20 \<le> tcp_ip_bytes s \<and> tcp_ip_bytes s < 65536"
  by (simp add: tcp_spec_ok_def tcp_ip_bytes_def tcp_segment_bytes_def)

lemma checksum_ipv4_built:
  assumes ok: "tcp_spec_ok s" and af: "spec_af s = AF_INET" and built: "built_for s pkt"
  obtains ck u c where "checksum_packet pkt = Some (pkt\<lparr>pkt_buffer := tcp_wire_checksummed s ck u c\<rparr>)"
    and "receiver_accepts s (tcp_wire_checksummed s ck u c)"
proof -
  let ?proto = "if tcp_encapsulated s then IPPROTO_UDP else IPPROTO_TCP" and ?n = "tcp_ip_bytes s"
  let ?post = "drop (ip_header_size (spec_af s)) (tcp_packet_wire s)"
  let ?pc = "pseudo_v4 [0, 0, 0, 0] [0, 0, 0, 0]"
  note b = built [unfolded built_for_def]
  have n: "20 < ?n"
    using tcp_ip_bytes_range [OF ok] af by (simp add: ip_header_size_def)
  have u: "unat (of_nat ?n :: u16) = ?n" "uint (of_nat ?n :: u16) = int ?n"
    using tcp_ip_bytes_range [OF ok] n by (auto intro!: u16_of_nat_small)
  have buf: "pkt_buffer pkt = ipv4_header_wire (of_nat ?n) (spec_ecn s) ?proto @ ?post"
    using b af by (simp add: tcp_packet_wire_def ip_header_wire_def ip_header_size_def)
  obtain ck where ck: "fill_checksum 10 (\<lambda>b. do { n \<leftarrow> ipv4_header_len b 0; ipv4_checksum_at b 0 n }) pkt =
      Some (pkt\<lparr>pkt_buffer := ip_part s ck @ ?post\<rparr>)"
    "\<And>post'. ipv4_checksum_at (ip_part s ck @ post') 0 20 = Some 0"
    using fill_ipv4_header [OF buf] af by (auto simp: ip_part_def ip_header_filled_def ip_header_wire_def)
  have fields: "ipv4_header_len (ip_part s ck @ p) 0 = Some 20" "ipv4_tot_len (ip_part s ck @ p) 0 = Some (of_nat ?n)"
      "ipv4_src_ip (ip_part s ck @ p) 0 = Some [0, 0, 0, 0]" "ipv4_dst_ip (ip_part s ck @ p) 0 = Some [0, 0, 0, 0]" for p
    using af by (simp_all add: ip_part_def ip_header_filled_def ip_header_wire_def ipv4_wire_fields)
  let ?pkt1 = "pkt\<lparr>pkt_buffer := ip_part s ck @ ?post\<rparr>"
  have "is_pseudo ?pc"
    by (auto simp: is_pseudo_def intro!: exI [of _ "[0, 0, 0, 0]"])
  from checksum_layer4_built [OF ok this, of ?pkt1 "ip_part s ck"]
  obtain u c where uc: "checksum_layer4 ?pc (int ?n - int (ip_header_size (spec_af s))) (\<lambda>pkt. do {
       icmp \<leftarrow> pkt_icmpv4 pkt;
       fill_checksum (icmp + 2) (\<lambda>b. ipv4_checksum_at b icmp (nat (int ?n - 20))) pkt }) ?pkt1 =
        Some (?pkt1\<lparr>pkt_buffer := tcp_wire_checksummed s ck u c\<rparr>)"
      "pc_full ?pc (tcp_wire_checksummed s ck u c) IPPROTO_TCP (tcp_offset s)
        (int (tcp_segment_bytes s)) = Some 0"
      "tcp_encapsulated s \<Longrightarrow> pc_full ?pc (tcp_wire_checksummed s ck u c) IPPROTO_UDP
        (ip_header_size (spec_af s)) (int (8 + tcp_segment_bytes s)) = Some 0"
    unfolding tcp_wire_checksummed_def using b by auto
  have "checksum_packet pkt = Some (pkt\<lparr>pkt_buffer := tcp_wire_checksummed s ck u c\<rparr>)"
    using b af ck(1) n u uc(1)
    by (simp add: checksum_packet_def packet_address_family_def checksum_ipv4_packet_def fields
        ip_header_size_def Let_def)
  moreover have "receiver_accepts s (tcp_wire_checksummed s ck u c)"
    using af ck(2) fields uc(2,3) by (auto simp: receiver_accepts_def pseudo_of_def tcp_wire_checksummed_def)
  ultimately show ?thesis
    by (rule that)
qed

lemma checksum_ipv6_built:
  assumes ok: "tcp_spec_ok s" and af: "spec_af s = AF_INET6" and built: "built_for s pkt"
  obtains u c where "checksum_packet pkt = Some (pkt\<lparr>pkt_buffer := tcp_wire_checksummed s 0 u c\<rparr>)"
    and "receiver_accepts s (tcp_wire_checksummed s 0 u c)"
proof -
  let ?n = "tcp_ip_bytes s" and ?z = "replicate 16 (0 :: u8)"
  let ?post = "drop (ip_header_size (spec_af s)) (tcp_packet_wire s)"
  let ?pc = "pseudo_v6 ?z ?z"
  note b = built [unfolded built_for_def]
  define m where "m = ?n - 40"
  have n: "?n = 40 + m" "0 < m"
    using tcp_ip_bytes_range [OF ok] af by (simp_all add: m_def ip_header_size_def)
  have u: "unat (of_nat m :: u16) = m" "uint (of_nat m :: u16) = int m"
    using tcp_ip_bytes_range [OF ok] n by (auto intro!: u16_of_nat_small)
  have buf: "pkt_buffer pkt = ip_part s 0 @ ?post"
    using b af by (simp add: tcp_packet_wire_def ip_part_def ip_header_filled_def ip_header_wire_def ip_header_size_def)
  have fields: "ipv6_payload_len (ip_part s 0 @ p) 0 = Some (of_nat m)"
      "ipv6_src_ip (ip_part s 0 @ p) 0 = Some ?z" "ipv6_dst_ip (ip_part s 0 @ p) 0 = Some ?z" for p
    using af n(1) by (simp_all add: ip_part_def ip_header_filled_def ip_header_wire_def ipv6_wire_fields)
  have "is_pseudo ?pc"
    by (auto simp: is_pseudo_def intro!: exI [of _ ?z])
  from checksum_layer4_built [OF ok this buf]
  obtain u c where uc: "checksum_layer4 ?pc (int ?n - int (ip_header_size (spec_af s))) (\<lambda>pkt. do {
       icmp \<leftarrow> pkt_icmpv6 pkt;
       fill_checksum (icmp + 2) (\<lambda>b. pc_full ?pc b IPPROTO_ICMPV6 icmp (int m)) pkt }) pkt =
        Some (pkt\<lparr>pkt_buffer := tcp_wire_checksummed s 0 u c\<rparr>)"
      "pc_full ?pc (tcp_wire_checksummed s 0 u c) IPPROTO_TCP (tcp_offset s)
        (int (tcp_segment_bytes s)) = Some 0"
      "tcp_encapsulated s \<Longrightarrow> pc_full ?pc (tcp_wire_checksummed s 0 u c) IPPROTO_UDP
        (ip_header_size (spec_af s)) (int (8 + tcp_segment_bytes s)) = Some 0"
    unfolding tcp_wire_checksummed_def using b by auto
  have "checksum_packet pkt = Some (pkt\<lparr>pkt_buffer := tcp_wire_checksummed s 0 u c\<rparr>)"
    using b [THEN conjunct2] af n u uc(1) fields [of ?post, folded buf]
    by (simp add: checksum_packet_def packet_address_family_def checksum_ipv6_packet_def
        ip_header_size_def Let_def)
  moreover have "receiver_accepts s (tcp_wire_checksummed s 0 u c)"
    using af fields uc(2,3) by (auto simp: receiver_accepts_def pseudo_of_def tcp_wire_checksummed_def)
  ultimately show ?thesis
    by (rule that)
qed

section \<open>Parsing the packet back\<close>

lemma parse_tcp_built:
  assumes ok: "tcp_spec_ok s" and chain: "chain_at pkt (length pre)" and cnt: "packet_header_count pkt < 6"
    and buf: "pkt_buffer pkt = pre @ fill16 16 c (tcp_segment_wire s) @ post"
    and e: "length pre + tcp_segment_bytes s \<le> e"
  shows "parse_tcp pkt (length pre) (tcp_segment_bytes s) e =
     Some (PACKET_OK, push_header (pkt\<lparr>pkt_tcp := Some (length pre)\<rparr>) HEADER_TCP
       (20 + tcp_option_bytes s) (tcp_segment_bytes s))"
proof -
  let ?pkt = "pkt\<lparr>pkt_tcp := Some (length pre)\<rparr>" and ?hb = "20 + tcp_option_bytes s"
  have hb: "?hb mod 4 = 0" "?hb \<le> 60" "20 \<le> ?hb" "?hb \<le> tcp_segment_bytes s"
    using ok by (auto simp: tcp_spec_ok_def tcp_segment_bytes_def mod_simps)
  have hlen: "packet_tcp_header_len ?pkt = Some ?hb"
    using buf by (intro tcp_wire_header_len [OF hb(1,2)]) (simp_all add: tcp_segment_wire_def)
  have seg: "length (fill16 16 c (tcp_segment_wire s)) = tcp_segment_bytes s"
    using hb by (simp add: length_tcp_segment_wire [OF ok])
  have "pkt_buffer_bytes ?pkt = length pre + tcp_segment_bytes s + length post"
    using seg by (simp add: buf)
  then have room: "length pre + ?hb \<le> pkt_buffer_bytes ?pkt"
    using hb(4) by linarith
  have "parse_append ?pkt HEADER_TCP ?hb (tcp_segment_bytes s) cont =
      cont (push_header ?pkt HEADER_TCP ?hb (tcp_segment_bytes s))" for cont
    using chain cnt room by (intro parse_append_chain) (simp_all add: packet_header_count_used)
  then show ?thesis
    using hlen hb e by (simp add: parse_tcp_def)
qed

text \<open>The packet that parsing the transport part yields.\<close>

definition transport_parsed :: "tcp_spec \<Rightarrow> packet \<Rightarrow> packet \<Rightarrow> bool" where
  "transport_parsed s pkt pkt' \<longleftrightarrow> headers_wf pkt' \<and> pkt_buffer pkt' = pkt_buffer pkt \<and>
     used_headers pkt' = used_headers pkt @ tl (tcp_packet_headers s) \<and>
     pkt_tcp pkt' = Some (tcp_offset s) \<and> pkt_ipv4 pkt' = pkt_ipv4 pkt \<and> pkt_ipv6 pkt' = pkt_ipv6 pkt \<and>
     (udp_encapsulated pkt' \<longleftrightarrow> udp_encapsulated pkt \<or> tcp_encapsulated s)"

lemma parse_layer4_built:
  assumes ok: "tcp_spec_ok s" and chain: "chain_at pkt (ip_header_size (spec_af s))"
    and cnt: "packet_header_count pkt = 1"
    and buf: "pkt_buffer pkt = ip @ udp_part s u @ fill16 16 c (tcp_segment_wire s) @ post"
    and ip: "length ip = ip_header_size (spec_af s)" and e: "tcp_ip_bytes s \<le> e"
    and enc: "tcp_encapsulated s \<Longrightarrow> enc = IPPROTO_TCP"
  obtains pkt' where "parse_layer4 pkt enc (ip_header_size (spec_af s))
      (if tcp_encapsulated s then IPPROTO_UDP else IPPROTO_TCP)
      (tcp_ip_bytes s - ip_header_size (spec_af s)) e = Some (PACKET_OK, pkt', True)"
    and "transport_parsed s pkt pkt'"
proof (cases "tcp_encapsulated s")
  case False
  let ?hl = "ip_header_size (spec_af s)"
  have b: "pkt_buffer pkt = ip @ fill16 16 c (tcp_segment_wire s) @ post"
    using buf False by (simp add: udp_part_def)
  have "parse_tcp pkt ?hl (tcp_segment_bytes s) e = Some (PACKET_OK,
      push_header (pkt\<lparr>pkt_tcp := Some ?hl\<rparr>) HEADER_TCP (20 + tcp_option_bytes s) (tcp_segment_bytes s))"
    using parse_tcp_built [OF ok _ _ b] chain cnt e ip False by (simp add: tcp_ip_bytes_def)
  moreover have "chain_at (pkt\<lparr>pkt_tcp := Some ?hl\<rparr>) ?hl"
    using chain by (simp add: chain_at_upd)
  ultimately show ?thesis
    using False cnt chain_at_push [of "pkt\<lparr>pkt_tcp := Some ?hl\<rparr>" ?hl HEADER_TCP]
    by (intro that) (auto simp: parse_layer4.simps tcp_ip_bytes_def transport_parsed_def
        tcp_packet_headers_def tcp_offset_def chain_at_def udp_encapsulated_def packet_header_count_def)
next
  case True
  let ?hl = "ip_header_size (spec_af s)" and ?n = "8 + tcp_segment_bytes s"
  define pkt1 where "pkt1 = (push_header pkt HEADER_UDP 8 ?n)
     \<lparr>pkt_flags := pkt_flags pkt OR FLAGS_UDP_ENCAPSULATED\<rparr>"
  define pkt2 where "pkt2 = push_header (pkt1\<lparr>pkt_tcp := Some (?hl + 8)\<rparr>) HEADER_TCP
     (20 + tcp_option_bytes s) (tcp_segment_bytes s)"
  have chain1: "chain_at pkt1 (length (ip @ udp_part s u))"
    and used1: "used_headers pkt1 = used_headers pkt @ [\<lparr> htype = HEADER_UDP, header_bytes = 8,
         total_bytes = ?n, hptr = Some ?hl \<rparr>]"
    using chain_at_push [OF chain, of HEADER_UDP 8 ?n] cnt ip True by (simp_all add: pkt1_def)
  have cnt1: "packet_header_count pkt1 < 6"
    using cnt used1 by (simp add: packet_header_count_used)
  have "parse_tcp pkt1 (?hl + 8) (tcp_segment_bytes s) e = Some (PACKET_OK, pkt2)"
    using parse_tcp_built [OF ok chain1 cnt1, of c post e] buf e ip True
    by (simp add: tcp_ip_bytes_def pkt2_def, simp add: pkt1_def)
  moreover have "udp_len (pkt_buffer pkt) ?hl = Some (of_nat ?n)"
    using rd16_mid [of 4 "udp_part s u" ip "fill16 16 c (tcp_segment_wire s) @ post"] True ip
      be16_of_to [of "of_nat ?n"]
    by (simp add: udp_len_def buf nth_fill16 udp_part_def udp_header_wire_def nth_append be16_to_def)
  moreover have "unat (of_nat ?n :: u16) = ?n"
    using tcp_ip_bytes_range [OF ok] True by (intro u16_of_nat_small) (simp add: tcp_ip_bytes_def)
  moreover have room: "?hl + 8 \<le> pkt_buffer_bytes pkt"
    using ip True by (simp add: buf)
  moreover have "parse_append pkt HEADER_UDP 8 ?n cont = cont (push_header pkt HEADER_UDP 8 ?n)" for cont
    using chain cnt room by (intro parse_append_chain) simp_all
  ultimately have "parse_layer4 pkt enc ?hl IPPROTO_UDP ?n e = Some (PACKET_OK, pkt2, True)"
    using enc True by (simp add: parse_layer4.simps parse_udp_def pkt1_def)
  moreover have "transport_parsed s pkt pkt2"
  proof -
    have c1: "chain_at (pkt1\<lparr>pkt_tcp := Some (?hl + 8)\<rparr>) (?hl + 8)"
      "packet_header_count (pkt1\<lparr>pkt_tcp := Some (?hl + 8)\<rparr>) \<noteq> 6"
      using chain1 cnt1 ip True by (simp_all add: packet_header_count_used)
    have "chain_at pkt2 (?hl + 8 + (20 + tcp_option_bytes s))"
      unfolding pkt2_def by (rule chain_at_push(1) [OF c1]) simp
    then have wf: "headers_wf pkt2"
      by (simp add: chain_at_def)
    have used2: "used_headers pkt2 = used_headers pkt1 @
        [\<lparr> htype = HEADER_TCP, header_bytes = 20 + tcp_option_bytes s,
           total_bytes = tcp_segment_bytes s, hptr = Some (?hl + 8) \<rparr>]"
      unfolding pkt2_def by (subst chain_at_push(2) [OF c1]) simp_all
    have meta: "pkt_buffer pkt2 = pkt_buffer pkt" "pkt_tcp pkt2 = Some (?hl + 8)"
      "pkt_ipv4 pkt2 = pkt_ipv4 pkt" "pkt_ipv6 pkt2 = pkt_ipv6 pkt" "udp_encapsulated pkt2"
      by (simp_all add: pkt2_def pkt1_def udp_encapsulated_def)
    show ?thesis
      using wf meta True by (simp add: transport_parsed_def used2 used1 tcp_packet_headers_def tcp_offset_def)
  qed
  ultimately show ?thesis
    using True by (intro that [of pkt2]) (simp_all add: tcp_ip_bytes_def)
qed

lemma parse_built:
  assumes ok: "tcp_spec_ok s" and acc: "receiver_accepts s (tcp_wire_checksummed s ck u c)"
    and enc: "tcp_encapsulated s \<Longrightarrow> enc = IPPROTO_TCP"
    and frame: "frame = tcp_wire_checksummed s ck u c"
  obtains pkt where "parse_packet (received frame rest) (length frame) (ethertype_of (spec_af s)) enc =
      Some (PACKET_OK, pkt)"
    and "used_headers pkt = tcp_packet_headers s" and "pkt_tcp pkt = Some (tcp_offset s)"
    and "pkt_ipv4 pkt = (if spec_af s = AF_INET then Some 0 else None)"
    and "pkt_ipv6 pkt = (if spec_af s = AF_INET then None else Some 0)"
    and "pkt_ip_bytes pkt = tcp_ip_bytes s" and "udp_encapsulated pkt = tcp_encapsulated s"
    and "pkt_buffer pkt = frame @ rest"
proof -
  let ?af = "spec_af s" and ?n = "tcp_ip_bytes s" and ?hl = "ip_header_size (spec_af s)"
  let ?proto = "if tcp_encapsulated s then IPPROTO_UDP else IPPROTO_TCP"
  define pkt1 where "pkt1 = push_header (received frame rest) (ip_header_type ?af) ?hl ?n"
  have len: "length frame = ?n"
    unfolding frame tcp_wire_checksummed_def
    by (simp add: length_tcp_segment_wire [OF ok] tcp_ip_bytes_def tcp_segment_bytes_def)
  have split: "frame @ rest = ip_part s ck @ udp_part s u @ fill16 16 c (tcp_segment_wire s) @ rest"
    by (simp add: frame tcp_wire_checksummed_def)
  have chain1: "chain_at pkt1 ?hl" and used1: "used_headers pkt1 =
      [\<lparr> htype = ip_header_type ?af, header_bytes = ?hl, total_bytes = ?n, hptr = Some 0 \<rparr>]"
    using chain_at_push [OF received_chain(1), of frame rest "ip_header_type ?af" ?hl ?n] received_chain
    by (simp_all add: pkt1_def)
  have buf1: "pkt_buffer pkt1 = ip_part s ck @ udp_part s u @ fill16 16 c (tcp_segment_wire s) @ rest"
    by (simp add: pkt1_def split)
  obtain pkt2 where l4: "parse_layer4 pkt1 enc ?hl ?proto (?n - ?hl) ?n = Some (PACKET_OK, pkt2, True)"
    and tp: "transport_parsed s pkt1 pkt2"
    using parse_layer4_built [OF ok chain1 _ buf1 _ _ enc, of ?n] used1
    by (auto simp: packet_header_count_used)
  have "parse_packet (received frame rest) (length frame) (ethertype_of ?af) enc =
      Some (PACKET_OK, (set_ip_ptr ?af 0 pkt2)\<lparr>pkt_ip_bytes := ?n\<rparr>)"
    unfolding len
  proof (rule ip_parses [OF _ _ _ len _ pkt1_def l4])
    show "frame = ip_header_filled ?af ck ?n (spec_ecn s) ?proto @ udp_part s u @ fill16 16 c (tcp_segment_wire s)"
      by (simp add: frame tcp_wire_checksummed_def ip_part_def)
    show "ipv4_checksum_at frame 0 20 = Some 0" if "?af = AF_INET"
      using acc that by (auto simp: receiver_accepts_def frame)
  qed (use tcp_ip_bytes_range [OF ok] in auto)
  then show ?thesis
    by (rule that) (use tp used1 in \<open>simp_all add: transport_parsed_def tcp_packet_headers_def
      set_ip_ptr_def pkt1_def udp_encapsulated_def\<close>)
qed

section \<open>Properties\<close>

lemma new_tcp_packet_built_for:
  assumes "tcp_spec_ok s"
  obtains pkt where "new_tcp_packet junk s = Some (Inr pkt)" and "built_for s pkt"
    and "used_headers pkt = tcp_packet_headers s"
proof -
  obtain pkt where "new_tcp_packet junk s = Some (Inr pkt)"
    and "pkt_buffer pkt = tcp_packet_wire s" and "pkt_ip_bytes pkt = tcp_ip_bytes s"
    and "used_headers pkt = tcp_packet_headers s" and "pkt_tcp pkt = Some (tcp_offset s)"
    and "pkt_ipv4 pkt = (if spec_af s = AF_INET then Some 0 else None)"
    and "pkt_ipv6 pkt = (if spec_af s = AF_INET then None else Some 0)"
    and "pkt_sctp pkt = None"
    and "pkt_flags pkt = tcp_packet_flags s (if tcp_encapsulated s then FLAGS_UDP_ENCAPSULATED else 0)"
    by (rule new_tcp_packet_built [OF assms, of junk])
  then show ?thesis
    using that [of pkt] flags_encapsulated [of pkt s] by (simp add: built_for_def)
qed

lemma checksum_built:
  assumes ok: "tcp_spec_ok s" and built: "built_for s pkt"
  obtains ck u c where "checksum_packet pkt = Some (pkt\<lparr>pkt_buffer := tcp_wire_checksummed s ck u c\<rparr>)"
    and "receiver_accepts s (tcp_wire_checksummed s ck u c)"
proof (cases "spec_af s")
  case AF_INET
  show ?thesis
    by (rule checksum_ipv4_built [OF ok AF_INET built]) (rule that)
next
  case AF_INET6
  show ?thesis
    by (rule checksum_ipv6_built [OF ok AF_INET6 built]) (rule that)
next
  case AF_UNSPEC
  then show ?thesis
    using ok by (simp add: tcp_spec_ok_def)
qed

text \<open>An example: an IPv6 segment with a maximum segment size option, encapsulated in UDP.\<close>

definition example_spec :: tcp_spec where
  "example_spec = \<lparr> spec_af = AF_INET6, spec_direction = DIRECTION_INBOUND, spec_ecn = ECN_ECT0,
     spec_flags = ''S'', spec_seq = 7, spec_payload_bytes = 3, spec_ack = 0, spec_window = 1000,
     spec_urg_ptr = 0,
     spec_options = Some \<lparr> opt_data = [2, 4, 5, 180] @ replicate 36 0, opt_length = 4 \<rparr>,
     spec_ignore_ts_val = False, spec_abs_ts_ecr = False, spec_abs_seq = False,
     spec_ignore_seq = False, spec_udp_src_port = 100, spec_udp_dst_port = 200 \<rparr>"

lemma example_spec_ok: "tcp_spec_ok example_spec" "tcp_encapsulated example_spec"
  by (simp_all add: tcp_spec_ok_def example_spec_def tcp_option_bytes_def tcp_ip_bytes_def
      ip_header_size_def tcp_encapsulated_def tcp_segment_bytes_def is_tcp_flags_spec_valid_def
      valid_tcp_flags_def ecn_tcp_flags_def ace_tcp_flags_def Let_def)

text \<open>C11: A TCP packet built by \<^verbatim>\<open>new_tcp_packet\<close> from an acceptable specification (IPv4 or IPv6, with any
  options, payload and, optionally, UDP encapsulation) and completed by \<^verbatim>\<open>checksum_packet\<close> passes all
  checks of a receiver: the IPv4 header checksum, the TCP checksum and the checksum of an
  encapsulating UDP header all verify with the pseudo-header of the packet's own addresses.\<close>

theorem tcp_checksums_verify:
  assumes "tcp_spec_ok s"
  shows "\<exists>pkt pkt'. new_tcp_packet junk s = Some (Inr pkt) \<and> checksum_packet pkt = Some pkt' \<and>
     length (pkt_buffer pkt') = tcp_ip_bytes s \<and> receiver_accepts s (pkt_buffer pkt')"
proof -
  obtain pkt where new: "new_tcp_packet junk s = Some (Inr pkt)" "built_for s pkt"
    by (rule new_tcp_packet_built_for [OF assms])
  obtain ck u c where ck: "checksum_packet pkt = Some (pkt\<lparr>pkt_buffer := tcp_wire_checksummed s ck u c\<rparr>)"
    and acc: "receiver_accepts s (tcp_wire_checksummed s ck u c)"
    by (rule checksum_built [OF assms new(2)])
  have "length (tcp_wire_checksummed s ck u c) = tcp_ip_bytes s"
    by (simp add: tcp_wire_checksummed_def length_tcp_segment_wire [OF assms] tcp_ip_bytes_def
        tcp_segment_bytes_def)
  with new ck acc show ?thesis
    by (intro exI conjI) (assumption | simp)+
qed

theorem tcp_checksums_verify_witness:
  "\<exists>pkt pkt'. new_tcp_packet (\<lambda>_. 7) example_spec = Some (Inr pkt) \<and> checksum_packet pkt = Some pkt' \<and>
     length (pkt_buffer pkt') = tcp_ip_bytes example_spec \<and> receiver_accepts example_spec (pkt_buffer pkt')"
  by (rule tcp_checksums_verify [OF example_spec_ok(1)])

text \<open>C1: Round trip. The bytes of such a packet, received into a buffer with arbitrary further bytes,
  are accepted by \<^verbatim>\<open>parse_packet\<close>, which finds the headers (types, lengths and positions), the TCP
  and IP header pointers, the packet length and the encapsulation that the constructor recorded.\<close>

theorem tcp_packet_roundtrip:
  assumes ok: "tcp_spec_ok s" and enc: "tcp_encapsulated s \<Longrightarrow> enc = IPPROTO_TCP"
  shows "\<exists>pkt pkt' parsed. new_tcp_packet junk s = Some (Inr pkt) \<and> checksum_packet pkt = Some pkt' \<and>
     parse_packet (received (pkt_buffer pkt') rest) (length (pkt_buffer pkt'))
       (ethertype_of (spec_af s)) enc = Some (PACKET_OK, parsed) \<and>
     used_headers parsed = used_headers pkt \<and> pkt_tcp parsed = pkt_tcp pkt \<and>
     pkt_ipv4 parsed = pkt_ipv4 pkt \<and> pkt_ipv6 parsed = pkt_ipv6 pkt \<and>
     pkt_ip_bytes parsed = pkt_ip_bytes pkt \<and> udp_encapsulated parsed = udp_encapsulated pkt \<and>
     pkt_buffer parsed = pkt_buffer pkt' @ rest"
proof -
  obtain pkt where new: "new_tcp_packet junk s = Some (Inr pkt)" "built_for s pkt"
      "used_headers pkt = tcp_packet_headers s"
    by (rule new_tcp_packet_built_for [OF ok])
  obtain ck u c where ck: "checksum_packet pkt = Some (pkt\<lparr>pkt_buffer := tcp_wire_checksummed s ck u c\<rparr>)"
    and acc: "receiver_accepts s (tcp_wire_checksummed s ck u c)"
    by (rule checksum_built [OF ok new(2)])
  obtain p where "parse_packet (received (tcp_wire_checksummed s ck u c) rest)
        (length (tcp_wire_checksummed s ck u c)) (ethertype_of (spec_af s)) enc = Some (PACKET_OK, p)"
    and "used_headers p = tcp_packet_headers s" "pkt_tcp p = Some (tcp_offset s)"
    "pkt_ipv4 p = (if spec_af s = AF_INET then Some 0 else None)"
    "pkt_ipv6 p = (if spec_af s = AF_INET then None else Some 0)"
    "pkt_ip_bytes p = tcp_ip_bytes s" "udp_encapsulated p = tcp_encapsulated s"
    "pkt_buffer p = tcp_wire_checksummed s ck u c @ rest"
    using parse_built [OF ok acc enc refl, of rest] by blast
  with new ck show ?thesis
    unfolding built_for_def by (intro exI [of _ pkt] exI [of _ p] exI conjI) (assumption | simp)+
qed

theorem tcp_packet_roundtrip_witness:
  "\<exists>pkt pkt' parsed. new_tcp_packet (\<lambda>_. 7) example_spec = Some (Inr pkt) \<and>
     checksum_packet pkt = Some pkt' \<and>
     parse_packet (received (pkt_buffer pkt') [1, 2]) (length (pkt_buffer pkt'))
       (ethertype_of (spec_af example_spec)) IPPROTO_TCP = Some (PACKET_OK, parsed) \<and>
     used_headers parsed = used_headers pkt \<and> pkt_tcp parsed = pkt_tcp pkt \<and>
     pkt_ipv4 parsed = pkt_ipv4 pkt \<and> pkt_ipv6 parsed = pkt_ipv6 pkt \<and>
     pkt_ip_bytes parsed = pkt_ip_bytes pkt \<and> udp_encapsulated parsed = udp_encapsulated pkt \<and>
     pkt_buffer parsed = pkt_buffer pkt' @ [1, 2]"
  by (rule tcp_packet_roundtrip [OF example_spec_ok(1) refl])

lemma new_tcp_packet_invalid:
  assumes af: "spec_af s \<noteq> AF_UNSPEC" and n: "tcp_ip_bytes s \<noteq> 65536"
    and opts: "\<And>opts. spec_options s = Some opts \<Longrightarrow> length (opt_data opts) = 40"
    and invalid: "\<not> tcp_spec_valid s"
  shows "\<exists>err. new_tcp_packet junk s = Some (Inl err)"
proof -
  have hl: "ip_header_min_len (spec_af s) = Some (ip_header_size (spec_af s))"
    using af by (cases "spec_af s") (simp_all add: ip_header_min_len_def ip_header_size_def)
  have n_eq: "ip_header_size (spec_af s) + (20 + tcp_option_bytes s) + unat (spec_payload_bytes s)
        + (if tcp_encapsulated s then 8 else 0) = tcp_ip_bytes s"
    by (simp add: tcp_ip_bytes_def tcp_segment_bytes_def)
  have "tcp_option_bytes s mod 4 \<noteq> 0 \<or> 40 < tcp_option_bytes s \<or> 65536 < tcp_ip_bytes s \<or>
      (\<exists>e. is_tcp_flags_spec_valid (spec_flags s) = Inl e)"
    using invalid af n opts
    by (cases "is_tcp_flags_spec_valid (spec_flags s)")
      (auto simp: tcp_spec_valid_def tcp_spec_ok_def tcp_option_bytes_def tcp_ip_bytes_def
        tcp_encapsulated_def tcp_segment_bytes_def split: option.splits)
  moreover have "(20 + tcp_option_bytes s) mod 4 = 0" if "tcp_option_bytes s mod 4 = 0"
    using that by (auto simp: mod_simps)
  moreover have "ip_header_size (spec_af s) mod 4 = 0"
    by (simp add: ip_header_size_def)
  ultimately show ?thesis
    unfolding new_tcp_packet_def Let_def tcp_encapsulated_def [symmetric] hl bind.bind_lunit n_eq
    by (auto simp: c_assert_def)
qed

text \<open>The constructor accepts exactly the acceptable specifications: with a known address family, an
  option list of the program's fixed size and a datagram of other than 65536 bytes, it returns a
  packet for those and an error message for all others, and never fails an assertion.\<close>

theorem new_tcp_packet_accepts:
  assumes af: "spec_af s \<noteq> AF_UNSPEC" and n: "tcp_ip_bytes s \<noteq> 65536"
    and opts: "\<And>opts. spec_options s = Some opts \<Longrightarrow> length (opt_data opts) = 40"
  shows "case new_tcp_packet junk s of None \<Rightarrow> False
     | Some (Inl err) \<Rightarrow> \<not> tcp_spec_ok s | Some (Inr pkt) \<Rightarrow> tcp_spec_ok s"
proof (cases "tcp_spec_ok s")
  case True
  then show ?thesis
    by (rule new_tcp_packet_built_for [of _ junk]) (simp add: True)
next
  case False
  show ?thesis
  proof (cases "tcp_spec_valid s")
    case True
    then have "new_tcp_packet junk s = Some (Inl Window_must_be_specified)"
      using False by (intro new_tcp_packet_no_window) (auto simp: tcp_spec_valid_def tcp_spec_ok_def
        tcp_option_bytes_def tcp_ip_bytes_def tcp_encapsulated_def tcp_segment_bytes_def)
    then show ?thesis
      by (simp add: False)
  next
    case invalid: False
    then have "\<exists>err. new_tcp_packet junk s = Some (Inl err)"
      using new_tcp_packet_invalid [OF af n opts] by blast
    then show ?thesis
      using False by auto
  qed
qed

theorem new_tcp_packet_accepts_witness:
  "spec_af example_spec \<noteq> AF_UNSPEC \<and> tcp_ip_bytes example_spec \<noteq> 65536 \<and>
   (case new_tcp_packet (\<lambda>_. 7) example_spec of None \<Rightarrow> False
     | Some (Inl err) \<Rightarrow> \<not> tcp_spec_ok example_spec | Some (Inr pkt) \<Rightarrow> tcp_spec_ok example_spec)"
proof -
  have hyps: "spec_af example_spec \<noteq> AF_UNSPEC" "tcp_ip_bytes example_spec \<noteq> 65536"
      "\<And>opts. spec_options example_spec = Some opts \<Longrightarrow> length (opt_data opts) = 40"
    by (auto simp: example_spec_def tcp_option_bytes_def tcp_ip_bytes_def ip_header_size_def
        tcp_encapsulated_def tcp_segment_bytes_def)
  show ?thesis
    using hyps(1,2) new_tcp_packet_accepts [OF hyps, of "\<lambda>_. 7"] by blast
qed

text \<open>A datagram of exactly 65536 bytes passes the size check of the constructors, although the
  16-bit length of an IP packet cannot represent it: the length passed on is 0, and building an
  IPv6 packet with UDP header and 65488 bytes of payload fails an assertion instead of being
  rejected with the error message.\<close>

theorem udp_max_datagram_aborts:
  "new_udp_packet junk AF_INET6 direction 65488 = None"
  by (simp add: new_udp_packet_def ip_header_min_len_def set_packet_ip_header_def upd_buffer_def
     set_ipv6_header_def case_prod_unfold Let_def)

end
