(* ===== verification/C_Numbers.thy ===== *)
theory C_Numbers
  imports Pd_Prelude
begin

text \<open>
  The conversions from decimal text that the program takes from the C library: \<^verbatim>\<open>strtol\<close> in base 10
  and the conversion \<open>%d\<close> of \<^verbatim>\<open>sscanf\<close>, on a host with a 64-bit \<^verbatim>\<open>long\<close> and a 32-bit \<^verbatim>\<open>int\<close>.
\<close>

definition is_space :: "char \<Rightarrow> bool" where
  "is_space c \<longleftrightarrow> c = CHR '' '' \<or> (9 \<le> (of_char c :: nat) \<and> (of_char c :: nat) \<le> 13)"

definition is_digit :: "char \<Rightarrow> bool" where
  "is_digit c \<longleftrightarrow> 48 \<le> (of_char c :: nat) \<and> (of_char c :: nat) \<le> 57"

definition digits_value :: "string \<Rightarrow> int" where
  "digits_value ds = foldl (\<lambda>acc c. 10 * acc + (of_char c - 48)) 0 ds"

text \<open>The range checks of the unsigned types.\<close>

definition is_valid_u8 :: "int \<Rightarrow> bool" where
  "is_valid_u8 x \<longleftrightarrow> 0 \<le> x \<and> x \<le> 255"

definition is_valid_u16 :: "int \<Rightarrow> bool" where
  "is_valid_u16 x \<longleftrightarrow> 0 \<le> x \<and> x \<le> 65535"

definition is_valid_u32 :: "int \<Rightarrow> bool" where
  "is_valid_u32 x \<longleftrightarrow> 0 \<le> x \<and> x \<le> 4294967295"

text \<open>Conversion to \<^verbatim>\<open>int\<close>.\<close>

definition to_int :: "int \<Rightarrow> int" where
  "to_int v = sint (word_of_int v :: 32 word)"

definition strtol_saturate :: "int \<Rightarrow> int" where
  "strtol_saturate v = max (- (2 ^ 63)) (min (2 ^ 63 - 1) v)"

text \<open>White space, an optional sign and the digits: the sign, the digits and the rest of the string.\<close>

definition number_parts :: "string \<Rightarrow> bool \<times> string \<times> string" where
  "number_parts s =
     (let s = dropWhile is_space s;
          (neg, s) = (case s of
              c # r \<Rightarrow> if c = CHR ''-'' then (True, r) else if c = CHR ''+'' then (False, r) else (False, s)
            | [] \<Rightarrow> (False, []))
      in (neg, takeWhile is_digit s, dropWhile is_digit s))"

text \<open>The value, whether \<^verbatim>\<open>errno\<close> is set to \<^verbatim>\<open>ERANGE\<close>, and the string at \<^verbatim>\<open>end\<close>.\<close>

definition strtol :: "string \<Rightarrow> int \<times> bool \<times> string" where
  "strtol s = (case number_parts s of (neg, ds, rest) \<Rightarrow>
     if ds = [] then (0, False, s)
     else let v = (if neg then - digits_value ds else digits_value ds)
       in (strtol_saturate v, strtol_saturate v \<noteq> v, rest))"

definition scan_d :: "string \<Rightarrow> int option" where
  "scan_d s = (case number_parts s of (neg, ds, rest) \<Rightarrow>
     if ds = [] then None
     else Some (to_int (strtol_saturate (if neg then - digits_value ds else digits_value ds))))"

text \<open>\<^verbatim>\<open>sscanf(s, "<prefix>%d", \<dots>)\<close> with a prefix without white space or conversions.\<close>

fun scan_prefix_d :: "string \<Rightarrow> string \<Rightarrow> int option" where
  "scan_prefix_d [] s = scan_d s"
| "scan_prefix_d (p # ps) (c # s) = (if p = c then scan_prefix_d ps s else None)"
| "scan_prefix_d (p # ps) [] = None"

section \<open>Printed numbers read back\<close>

lemma digit_char:
  assumes "d < 10"
  shows "is_digit (char_of (48 + d :: nat))" "of_char (char_of (48 + d :: nat) :: char) = int (48 + d)"
  using assms of_nat_of_char [of "char_of (48 + d :: nat)", where 'a = int] by (simp_all add: is_digit_def)

lemma digits_value_snoc: "digits_value (ds @ [c]) = 10 * digits_value ds + (of_char c - 48)"
  by (simp add: digits_value_def)

lemma dec_string_unfold:
  "dec_string n = (if n < 10 then [] else dec_string (n div 10)) @ [char_of (48 + n mod 10)]"
  by (subst dec_string.simps) simp

lemma dec_string_digits:
  "list_all is_digit (dec_string n) \<and> digits_value (dec_string n) = int n"
proof (induction n rule: less_induct)
  case (less n)
  show ?case
  proof (cases "n < 10")
    case True
    then show ?thesis
      by (simp add: dec_string_unfold [of n] digits_value_def digit_char)
  next
    case False
    with less.IH [of "n div 10"] have "list_all is_digit (dec_string (n div 10))"
        "digits_value (dec_string (n div 10)) = int (n div 10)"
      by simp_all
    with False show ?thesis
      using of_nat_mult [of 10 "n div 10"] of_nat_add [of "10 * (n div 10)" "n mod 10", where 'a = int]
      by (simp add: dec_string_unfold [of n] digits_value_snoc digit_char)
  qed
qed

lemma dec_string_ne [simp]: "dec_string n \<noteq> []"
  by (simp add: dec_string_unfold [of n])

lemma number_parts_dec:
  assumes "rest = [] \<or> \<not> is_digit (hd rest)"
  shows "number_parts (dec_string n @ rest) = (False, dec_string n, rest)"
proof -
  have ds: "\<forall>c \<in> set (dec_string n). is_digit c"
    using dec_string_digits by (simp add: list_all_iff)
  obtain c r where cr: "dec_string n = c # r"
    by (cases "dec_string n") simp_all
  then have "is_digit c"
    using ds by simp
  then have c: "\<not> is_space c" "c \<noteq> CHR ''-''" "c \<noteq> CHR ''+''"
    by (auto simp: is_digit_def is_space_def)
  have "takeWhile is_digit (dec_string n @ rest) = dec_string n"
      "dropWhile is_digit (dec_string n @ rest) = rest"
    using ds assms by (cases rest; auto simp: takeWhile_append2 dropWhile_append2)+
  then show ?thesis
    using c cr by (simp add: number_parts_def)
qed

lemma to_int_small: "- (2 ^ 31) \<le> v \<Longrightarrow> v < 2 ^ 31 \<Longrightarrow> to_int v = v"
  by (simp add: to_int_def signed_of_int signed_take_bit_int_eq_self)

lemma strtol_saturate_id: "- (2 ^ 63) \<le> v \<Longrightarrow> v < 2 ^ 63 \<Longrightarrow> strtol_saturate v = v"
  by (simp add: strtol_saturate_def)

lemma strtol_dec_string:
  assumes "n < 2 ^ 63" and "rest = [] \<or> \<not> is_digit (hd rest)"
  shows "strtol (dec_string n @ rest) = (int n, False, rest)"
  using assms dec_string_digits [of n]
  by (simp add: strtol_def number_parts_dec strtol_saturate_id Let_def)

lemma scan_d_dec_string: "n < 2 ^ 31 \<Longrightarrow> scan_d (dec_string n) = Some (int n)"
  using number_parts_dec [of "[]" n] dec_string_digits [of n]
  by (simp add: scan_d_def strtol_saturate_id to_int_small)

end
