(* ===== verification/Icmp_Packet.thy ===== *)
theory Icmp_Packet
  imports Transport C_Numbers
begin

text \<open>
  \<^verbatim>\<open>icmp_packet.c\<close>: the names of ICMP types and codes, and the construction of ICMP messages that echo
  the start of an outbound datagram.
\<close>

section \<open>Types and codes\<close>

record icmp_code_info =
  code_byte :: u8
  code_string :: string

record icmp_type_info =
  type_byte :: u8
  type_string :: string
  code_table :: "icmp_code_info list option"

text \<open>The tables, without the entries with null strings that end them.\<close>

abbreviation (input) code_info :: "u8 \<Rightarrow> string \<Rightarrow> icmp_code_info" where
  "code_info b s \<equiv> \<lparr> code_byte = b, code_string = s \<rparr>"

abbreviation (input) type_info :: "u8 \<Rightarrow> string \<Rightarrow> icmp_code_info list option \<Rightarrow> icmp_type_info" where
  "type_info b s t \<equiv> \<lparr> type_byte = b, type_string = s, code_table = t \<rparr>"

definition icmpv4_unreachable_codes :: "icmp_code_info list" where
  "icmpv4_unreachable_codes = [
     code_info 0 ''net_unreachable'',
     code_info 1 ''host_unreachable'',
     code_info 2 ''protocol_unreachable'',
     code_info 3 ''port_unreachable'',
     code_info 4 ''frag_needed'',
     code_info 5 ''source_route_failed'',
     code_info 6 ''net_unknown'',
     code_info 7 ''host_unknown'',
     code_info 8 ''source_host_isolated'',
     code_info 9 ''net_prohibited'',
     code_info 10 ''host_prohibited'',
     code_info 11 ''net_unreachable_for_tos'',
     code_info 12 ''host_unreachable_for_tos'',
     code_info 13 ''packet_filtered'',
     code_info 14 ''precedence_violation'',
     code_info 15 ''precedence_cutoff'']"

definition icmpv4_time_exceeded_codes :: "icmp_code_info list" where
  "icmpv4_time_exceeded_codes = [
     code_info 0 ''ttl_exceeded_in_transit'',
     code_info 1 ''frag_reass_exceeded'']"

definition icmpv4_types :: "icmp_type_info list" where
  "icmpv4_types = [
     type_info 0 ''echo_reply'' None,
     type_info 3 ''unreachable'' (Some icmpv4_unreachable_codes),
     type_info 4 ''source_quench'' None,
     type_info 5 ''redirect'' None,
     type_info 8 ''echo_request'' None,
     type_info 11 ''time_exceeded'' (Some icmpv4_time_exceeded_codes),
     type_info 12 ''parameter_problem'' None,
     type_info 13 ''timestamp_request'' None,
     type_info 14 ''timestamp_reply'' None,
     type_info 15 ''information_request'' None,
     type_info 16 ''information_reply'' None,
     type_info 17 ''address_mask_request'' None,
     type_info 18 ''address_mask_reply'' None]"

definition icmpv6_unreachable_codes :: "icmp_code_info list" where
  "icmpv6_unreachable_codes = [
     code_info 0 ''no_route'',
     code_info 1 ''admin_prohibited'',
     code_info 2 ''not_neighbour'',
     code_info 3 ''address_unreachable'',
     code_info 4 ''port_unreachable'']"

definition icmpv6_time_exceed_codes :: "icmp_code_info list" where
  "icmpv6_time_exceed_codes = [
     code_info 0 ''exceeded_hop_limit'',
     code_info 1 ''exceeded_frag_time'']"

definition icmpv6_paramprob_codes :: "icmp_code_info list" where
  "icmpv6_paramprob_codes = [
     code_info 0 ''header_field'',
     code_info 1 ''unknown_next_header'',
     code_info 2 ''unknown_option'']"

definition icmpv6_types :: "icmp_type_info list" where
  "icmpv6_types = [
     type_info 1 ''unreachable'' (Some icmpv6_unreachable_codes),
     type_info 2 ''packet_too_big'' None,
     type_info 3 ''time_exceeded'' (Some icmpv6_time_exceed_codes),
     type_info 4 ''parameter_problem'' (Some icmpv6_paramprob_codes)]"

datatype icmp_error =
    Bad_ICMP_type string | Bad_ICMP_code string
  | ICMPv4_MTU_only_for_frag_needed | ICMPv4_MTU_out_of_range
  | ICMPv6_MTU_only_for_packet_too_big | ICMPv6_MTU_out_of_range

text \<open>The loops through the tables, which keep the last match.\<close>

definition find_icmp_type ::
    "string \<Rightarrow> icmp_type_info list \<Rightarrow> int \<times> icmp_code_info list option" where
  "find_icmp_type s types = foldl (\<lambda>acc t.
     if s = type_string t then (uint (type_byte t), code_table t) else acc) (-1, None) types"

definition find_icmp_code :: "string \<Rightarrow> icmp_code_info list \<Rightarrow> int" where
  "find_icmp_code s codes = foldl (\<lambda>acc c. if s = code_string c then uint (code_byte c) else acc) (-1) codes"

definition icmp_types_of :: "address_family \<Rightarrow> icmp_type_info list option" where
  "icmp_types_of af = (case af of
     AF_INET \<Rightarrow> Some icmpv4_types | AF_INET6 \<Rightarrow> Some icmpv6_types | AF_UNSPEC \<Rightarrow> None)"

text \<open>The caller initialises \<^verbatim>\<open>*type\<close> and \<^verbatim>\<open>*code\<close> with -1.\<close>

definition parse_icmp_type_and_code ::
    "address_family \<Rightarrow> string \<Rightarrow> string option \<Rightarrow> (icmp_error, int \<times> int) status option" where
  "parse_icmp_type_and_code af type_str code_str = do {
     icmp_types \<leftarrow> icmp_types_of af;
     let (type, codes) = (case scan_prefix_d ''type_'' type_str of
         Some n \<Rightarrow> (n, None)
       | None \<Rightarrow> find_icmp_type type_str icmp_types);
     if \<not> is_valid_u8 type then Some (Inl (Bad_ICMP_type type_str))
     else
       let code = (case code_str of
           None \<Rightarrow> 0
         | Some c \<Rightarrow> (case scan_prefix_d ''code_'' c of
             Some n \<Rightarrow> n
           | None \<Rightarrow> (case codes of None \<Rightarrow> -1 | Some t \<Rightarrow> find_icmp_code c t)))
       in if \<not> is_valid_u8 code
          then Some (Inl (Bad_ICMP_code (case code_str of Some c \<Rightarrow> c | None \<Rightarrow> ''(null)'')))
          else Some (Inr (type, code))
   }"

section \<open>Constructing the message\<close>

definition icmp_protocol :: "address_family \<Rightarrow> u8 option" where
  "icmp_protocol af = (case af of
     AF_INET \<Rightarrow> Some IPPROTO_ICMP | AF_INET6 \<Rightarrow> Some IPPROTO_ICMPV6 | AF_UNSPEC \<Rightarrow> None)"

definition icmp_header_len :: "address_family \<Rightarrow> nat option" where
  "icmp_header_len af = (case af of
     AF_INET \<Rightarrow> Some sizeof_icmpv4 | AF_INET6 \<Rightarrow> Some sizeof_icmpv6 | AF_UNSPEC \<Rightarrow> None)"

definition set_icmpv4_header ::
    "bytes \<Rightarrow> nat \<Rightarrow> u8 \<Rightarrow> u8 \<Rightarrow> int \<Rightarrow> (icmp_error, bytes) status option" where
  "set_icmpv4_header b p type code mtu = do {
     b \<leftarrow> wr8 b p type;
     b \<leftarrow> wr8 b (p + 1) code;
     b \<leftarrow> wr16 b (p + 2) 0;
     if mtu \<ge> 0
     then if type \<noteq> 3 \<or> code \<noteq> 4 then Some (Inl ICMPv4_MTU_only_for_frag_needed)
          else if \<not> is_valid_u16 mtu then Some (Inl ICMPv4_MTU_out_of_range)
          else do { b \<leftarrow> wr16 b (p + 6) (word_of_int mtu); Some (Inr b) }
     else Some (Inr b)
   }"

definition set_icmpv6_header ::
    "bytes \<Rightarrow> nat \<Rightarrow> u8 \<Rightarrow> u8 \<Rightarrow> int \<Rightarrow> (icmp_error, bytes) status option" where
  "set_icmpv6_header b p type code mtu = do {
     b \<leftarrow> wr8 b p type;
     b \<leftarrow> wr8 b (p + 1) code;
     b \<leftarrow> wr16 b (p + 2) 0;
     if mtu \<ge> 0
     then if type \<noteq> 2 \<or> code \<noteq> 0 then Some (Inl ICMPv6_MTU_only_for_packet_too_big)
          else if \<not> is_valid_u32 mtu then Some (Inl ICMPv6_MTU_out_of_range)
          else do { b \<leftarrow> wr32 b (p + 4) (word_of_int mtu); Some (Inr b) }
     else Some (Inr b)
   }"

definition set_packet_icmp_header ::
    "packet \<Rightarrow> nat \<Rightarrow> address_family \<Rightarrow> nat \<Rightarrow> u8 \<Rightarrow> u8 \<Rightarrow> int \<Rightarrow> (icmp_error, packet) status option" where
  "set_packet_icmp_header pkt icmp af icmp_bytes type code mtu = (case af of
      AF_INET \<Rightarrow> do {
        let pkt = pkt\<lparr>pkt_icmpv4 := Some icmp\<rparr>;
        c_assert (pkt_icmpv6 pkt = None);
        (pkt, _) \<leftarrow> append_total pkt HEADER_ICMPV4 sizeof_icmpv4 icmp_bytes;
        r \<leftarrow> set_icmpv4_header (pkt_buffer pkt) icmp type code mtu;
        Some (case r of Inl e \<Rightarrow> Inl e | Inr b \<Rightarrow> Inr (pkt\<lparr>pkt_buffer := b\<rparr>))
      }
    | AF_INET6 \<Rightarrow> do {
        let pkt = pkt\<lparr>pkt_icmpv6 := Some icmp\<rparr>;
        c_assert (pkt_icmpv4 pkt = None);
        (pkt, _) \<leftarrow> append_total pkt HEADER_ICMPV6 sizeof_icmpv6 icmp_bytes;
        r \<leftarrow> set_icmpv6_header (pkt_buffer pkt) icmp type code mtu;
        Some (case r of Inl e \<Rightarrow> Inl e | Inr b \<Rightarrow> Inr (pkt\<lparr>pkt_buffer := b\<rparr>))
      }
    | AF_UNSPEC \<Rightarrow> None)"

record icmp_spec =
  icmp_af :: address_family
  icmp_direction :: direction_t
  icmp_type_string :: string
  icmp_code_string :: "string option"
  icmp_echo_protocol :: u8
  icmp_payload_bytes :: u16
  icmp_tcp_seq :: u32
  icmp_udplite_cov :: u16
  icmp_sctp_tag :: u32
  icmp_mtu :: int
  icmp_udp_src_port :: u16
  icmp_udp_dst_port :: u16

definition icmp_encapsulated :: "icmp_spec \<Rightarrow> bool" where
  "icmp_encapsulated s \<longleftrightarrow> icmp_echo_protocol s \<noteq> IPPROTO_UDP \<and>
     (icmp_udp_src_port s > 0 \<or> icmp_udp_dst_port s > 0)"

text \<open>The echoed IP header, the echoed encapsulating UDP header, and the echoed transport header of
  which only one field is set.\<close>

definition set_echoed_network :: "icmp_spec \<Rightarrow> nat \<Rightarrow> packet \<Rightarrow> packet option" where
  "set_echoed_network s ip_fixed_bytes pkt = do {
     let encapsulated = icmp_encapsulated s;
     let protocol = icmp_echo_protocol s;
     let payload = unat (icmp_payload_bytes s);
     echoed_ip \<leftarrow> packet_echoed_ip_header pkt;
     l4 \<leftarrow> layer4_header_len protocol;
     let echoed_ip_bytes = ip_fixed_bytes + (if encapsulated then sizeof_udp else 0) + l4 + payload;
     if encapsulated
     then upd_buffer (\<lambda>b. do {
       b \<leftarrow> set_ip_header b echoed_ip (icmp_af s) (of_nat echoed_ip_bytes) ECN_NONE IPPROTO_UDP;
       let udp = echoed_ip + ip_fixed_bytes;
       b \<leftarrow> wr16 b udp (icmp_udp_src_port s);
       b \<leftarrow> wr16 b (udp + 2) (icmp_udp_dst_port s);
       wr16 b (udp + 4) (of_nat (sizeof_udp + l4 + payload)) }) pkt
     else upd_buffer (\<lambda>b. set_ip_header b echoed_ip (icmp_af s) (of_nat echoed_ip_bytes) ECN_NONE
       protocol) pkt
   }"

definition set_echoed_transport :: "icmp_spec \<Rightarrow> packet \<Rightarrow> packet option" where
  "set_echoed_transport s pkt = do {
     let encapsulated = icmp_encapsulated s;
     let protocol = icmp_echo_protocol s;
     pkt \<leftarrow> (if protocol = IPPROTO_SCTP
       then do { p \<leftarrow> packet_echoed_sctp_v_tag pkt encapsulated;
                 upd_buffer (\<lambda>b. wr32 b p (icmp_sctp_tag s)) pkt }
       else Some pkt);
     pkt \<leftarrow> (if protocol = IPPROTO_TCP
       then do { p \<leftarrow> packet_echoed_tcp_seq pkt encapsulated;
                 upd_buffer (\<lambda>b. wr32 b p (icmp_tcp_seq s)) pkt }
       else Some pkt);
     pkt \<leftarrow> (if protocol = IPPROTO_UDP
       then do { p \<leftarrow> packet_echoed_udp_len pkt;
                 upd_buffer (\<lambda>b. wr16 b p (of_nat (unat (icmp_payload_bytes s) + sizeof_udp))) pkt }
       else Some pkt);
     if protocol = IPPROTO_UDPLITE
     then do {
       cov \<leftarrow> packet_echoed_udplite_cov pkt;
       checksum \<leftarrow> packet_echoed_udplite_checksum pkt;
       upd_buffer (\<lambda>b. do { b \<leftarrow> wr16 b cov (icmp_udplite_cov s); wr16 b checksum 0xffff }) pkt
     }
     else Some pkt
   }"

definition new_icmp_packet :: "(nat \<Rightarrow> u8) \<Rightarrow> icmp_spec \<Rightarrow> (icmp_error, packet) status option" where
  "new_icmp_packet junk s = do {
     let af = icmp_af s;
     ip_fixed_bytes \<leftarrow> ip_header_min_len af;
     let ip_header_bytes = ip_fixed_bytes;
     let echoed_bytes = ip_fixed_bytes + ICMP_ECHO_BYTES + (if icmp_encapsulated s then sizeof_udp else 0);
     header_len \<leftarrow> icmp_header_len af;
     let icmp_bytes = header_len + echoed_bytes;
     let ip_bytes = ip_header_bytes + icmp_bytes;
     c_assert (ip_header_bytes mod 4 = 0);
     parsed \<leftarrow> parse_icmp_type_and_code af (icmp_type_string s) (icmp_code_string s);
     (case parsed of
        Inl err \<Rightarrow> Some (Inl err)
      | Inr (type, code) \<Rightarrow> do {
          c_assert (is_valid_u8 type);
          c_assert (is_valid_u8 code);
          let pkt = packet_new_zeroed junk ip_bytes;
          let pkt = pkt\<lparr> pkt_direction := icmp_direction s, pkt_flags := 0, pkt_ecn := ECN_NONE \<rparr>;
          proto \<leftarrow> icmp_protocol af;
          pkt \<leftarrow> set_packet_ip_header pkt af (of_nat ip_bytes) ECN_NONE proto;
          ip \<leftarrow> ip_start pkt;
          r \<leftarrow> set_packet_icmp_header pkt (ip + ip_header_bytes) af icmp_bytes
                 (word_of_int type) (word_of_int code) (icmp_mtu s);
          (case r of
             Inl err \<Rightarrow> Some (Inl err)
           | Inr pkt \<Rightarrow> do {
               pkt \<leftarrow> set_echoed_network s ip_fixed_bytes pkt;
               pkt \<leftarrow> set_echoed_transport s pkt;
               Some (Inr (pkt\<lparr>pkt_ip_bytes := ip_bytes\<rparr>))
             })
        })
   }"

section \<open>Names and numbers\<close>

text \<open>Every name in the tables of types and codes denotes its number: with a type name alone the code
  is 0, and each code name of the type's own table gives the code on the wire.\<close>

theorem icmp_names_parse:
  "list_all (\<lambda>af. case icmp_types_of af of None \<Rightarrow> False | Some types \<Rightarrow>
     list_all (\<lambda>t.
       parse_icmp_type_and_code af (type_string t) None = Some (Inr (uint (type_byte t), 0)) \<and>
       list_all (\<lambda>c. parse_icmp_type_and_code af (type_string t) (Some (code_string c)) =
           Some (Inr (uint (type_byte t), uint (code_byte c))))
         (case code_table t of None \<Rightarrow> [] | Some codes \<Rightarrow> codes)) types) [AF_INET, AF_INET6]"
  by code_simp

text \<open>The notation of the form \<^verbatim>\<open>type_N\<close> and \<^verbatim>\<open>code_N\<close> denotes any type and code that fit into a byte.\<close>

theorem icmp_numbers_parse:
  assumes "af \<noteq> AF_UNSPEC" and "n < 256" and "m < 256"
  shows "parse_icmp_type_and_code af (''type_'' @ dec_string n) (Some (''code_'' @ dec_string m)) =
     Some (Inr (int n, int m))"
proof -
  have "scan_prefix_d ''type_'' (''type_'' @ dec_string n) = Some (int n)"
      "scan_prefix_d ''code_'' (''code_'' @ dec_string m) = Some (int m)"
    using assms(2,3) by (simp_all add: scan_d_dec_string)
  then show ?thesis
    using assms by (cases af)
      (simp_all add: parse_icmp_type_and_code_def icmp_types_of_def is_valid_u8_def)
qed

theorem icmp_numbers_parse_witness:
  "parse_icmp_type_and_code AF_INET6 (''type_'' @ dec_string 200) (Some (''code_'' @ dec_string 7)) =
     Some (Inr (int 200, int 7))"
  by (rule icmp_numbers_parse) simp_all

section \<open>Wire form of the constructed message\<close>

definition echoed_transport_len :: "icmp_spec \<Rightarrow> nat" where
  "echoed_transport_len s = (case layer4_header_len (icmp_echo_protocol s) of Some n \<Rightarrow> n | None \<Rightarrow> 0)
     + unat (icmp_payload_bytes s)"

text \<open>The length of the datagram of which the start is echoed, and of the message.\<close>

definition echoed_ip_len :: "icmp_spec \<Rightarrow> nat" where
  "echoed_ip_len s = ip_header_size (icmp_af s) + (if icmp_encapsulated s then 8 else 0)
     + echoed_transport_len s"

definition icmp_ip_len :: "icmp_spec \<Rightarrow> nat" where
  "icmp_ip_len s = 2 * ip_header_size (icmp_af s) + 16 + (if icmp_encapsulated s then 8 else 0)"

definition icmp_mtu_ok :: "icmp_spec \<Rightarrow> u8 \<Rightarrow> u8 \<Rightarrow> bool" where
  "icmp_mtu_ok s type code \<longleftrightarrow> icmp_mtu s < 0 \<or>
     (if icmp_af s = AF_INET then type = 3 \<and> code = 4 \<and> icmp_mtu s < 2 ^ 16
      else type = 2 \<and> code = 0 \<and> icmp_mtu s < 2 ^ 32)"

text \<open>The messages that can be built: with the type and code \<open>type\<close> and \<open>code\<close>.\<close>

definition icmp_spec_ok :: "icmp_spec \<Rightarrow> u8 \<Rightarrow> u8 \<Rightarrow> bool" where
  "icmp_spec_ok s type code \<longleftrightarrow> icmp_af s \<noteq> AF_UNSPEC \<and>
     parse_icmp_type_and_code (icmp_af s) (icmp_type_string s) (icmp_code_string s) =
       Some (Inr (uint type, uint code)) \<and>
     icmp_mtu_ok s type code \<and> layer4_header_len (icmp_echo_protocol s) \<noteq> None \<and>
     \<not> (icmp_encapsulated s \<and> icmp_echo_protocol s = IPPROTO_UDPLITE) \<and> echoed_ip_len s < 65536"

definition icmp_header_wire :: "icmp_spec \<Rightarrow> u8 \<Rightarrow> u8 \<Rightarrow> bytes" where
  "icmp_header_wire s type code = [type, code, 0, 0] @
     (if icmp_mtu s < 0 then [0, 0, 0, 0]
      else if icmp_af s = AF_INET then [0, 0] @ be16_to (word_of_int (icmp_mtu s))
      else put_unaligned_be32 (word_of_int (icmp_mtu s)))"

definition echoed_udp_wire :: "icmp_spec \<Rightarrow> bytes" where
  "echoed_udp_wire s = (if icmp_encapsulated s
     then be16_to (icmp_udp_src_port s) @ be16_to (icmp_udp_dst_port s)
       @ be16_to (of_nat (8 + echoed_transport_len s)) @ [0, 0]
     else [])"

definition echoed_transport_wire :: "icmp_spec \<Rightarrow> bytes" where
  "echoed_transport_wire s = [0, 0, 0, 0] @
     (if icmp_echo_protocol s = IPPROTO_SCTP then put_unaligned_be32 (icmp_sctp_tag s)
      else if icmp_echo_protocol s = IPPROTO_TCP then put_unaligned_be32 (icmp_tcp_seq s)
      else if icmp_echo_protocol s = IPPROTO_UDP
      then be16_to (of_nat (unat (icmp_payload_bytes s) + 8)) @ [0, 0]
      else be16_to (icmp_udplite_cov s) @ [0xff, 0xff])"

definition echoed_ip_protocol :: "icmp_spec \<Rightarrow> u8" where
  "echoed_ip_protocol s = (if icmp_encapsulated s then IPPROTO_UDP else icmp_echo_protocol s)"

definition icmp_ip_protocol :: "icmp_spec \<Rightarrow> u8" where
  "icmp_ip_protocol s = (if icmp_af s = AF_INET then IPPROTO_ICMP else IPPROTO_ICMPV6)"

definition icmp_message_wire :: "icmp_spec \<Rightarrow> u8 \<Rightarrow> u8 \<Rightarrow> bytes" where
  "icmp_message_wire s type code = icmp_header_wire s type code
     @ ip_header_wire (icmp_af s) (echoed_ip_len s) ECN_NONE (echoed_ip_protocol s)
     @ echoed_udp_wire s @ echoed_transport_wire s"

definition icmp_packet_wire :: "icmp_spec \<Rightarrow> u8 \<Rightarrow> u8 \<Rightarrow> bytes" where
  "icmp_packet_wire s type code =
     ip_header_wire (icmp_af s) (icmp_ip_len s) ECN_NONE (icmp_ip_protocol s)
     @ icmp_message_wire s type code"

lemma length_icmp_wires [simp]:
  "length (icmp_header_wire s type code) = 8"
  "length (echoed_udp_wire s) = (if icmp_encapsulated s then 8 else 0)"
  "length (echoed_transport_wire s) = 8"
  by (simp_all add: icmp_header_wire_def echoed_udp_wire_def echoed_transport_wire_def)

lemma length_icmp_message_wire:
  "length (icmp_message_wire s type code) = icmp_ip_len s - ip_header_size (icmp_af s)"
  "length (icmp_packet_wire s type code) = icmp_ip_len s"
  by (simp_all add: icmp_message_wire_def icmp_packet_wire_def icmp_ip_len_def)

lemma set_ip_header_mid:
  assumes "af \<noteq> AF_UNSPEC" and "length mid = ip_header_size af" and "ip_header_size af \<le> n" and "n < 65536"
  shows "set_ip_header (pre @ mid @ post) (length pre) af (of_nat n) ecn protocol =
     Some (pre @ ip_header_wire af n ecn protocol @ post)"
proof (cases af)
  case AF_INET
  then show ?thesis
    using assms set_ipv4_header_wire [of mid pre post]
    by (simp add: set_ip_header_def ip_header_wire_def ip_header_size_def)
next
  case AF_INET6
  then have n: "40 \<le> n"
    using assms by (simp add: ip_header_size_def)
  have sub: "(of_nat n :: u16) - 40 = of_nat (n - 40)"
    using n by (simp add: of_nat_diff)
  have "40 \<le> unat (of_nat n :: u16)"
    using n assms(4) by (simp add: unat_of_nat)
  with assms(2) AF_INET6 have "set_ipv6_header (pre @ mid @ post) (length pre) (of_nat n) ecn protocol =
      Some (pre @ ipv6_header_wire (of_nat n - 40) ecn protocol @ post)"
    by (intro set_ipv6_header_wire) (simp_all add: ip_header_size_def)
  then show ?thesis
    by (simp only: sub set_ip_header_def ip_header_wire_def AF_INET6 address_family.simps if_False)
next
  case AF_UNSPEC
  then show ?thesis
    using assms(1) by simp
qed

lemma replicate_8: "replicate 8 x = [x, x, x, x, x, x, x, x]"
  by (simp add: eval_nat_numeral)

lemma set_icmp_header_wire:
  assumes "icmp_mtu_ok s type code"
  shows "icmp_af s = AF_INET \<Longrightarrow>
     set_icmpv4_header (pre @ replicate 8 0 @ post) (length pre) type code (icmp_mtu s) =
       Some (Inr (pre @ icmp_header_wire s type code @ post))"
    and "icmp_af s \<noteq> AF_INET \<Longrightarrow>
     set_icmpv6_header (pre @ replicate 8 0 @ post) (length pre) type code (icmp_mtu s) =
       Some (Inr (pre @ icmp_header_wire s type code @ post))"
  using assms unfolding replicate_8
  by (auto simp: set_icmpv4_header_def set_icmpv6_header_def wr8_def wr16_def wr32_def wr_eval
      icmp_header_wire_def icmp_mtu_ok_def is_valid_u16_def is_valid_u32_def)

definition set_icmp_ptr :: "address_family \<Rightarrow> nat \<Rightarrow> packet \<Rightarrow> packet" where
  "set_icmp_ptr af p pkt =
     (if af = AF_INET then pkt\<lparr>pkt_icmpv4 := Some p\<rparr> else pkt\<lparr>pkt_icmpv6 := Some p\<rparr>)"

definition icmp_header_type :: "address_family \<Rightarrow> header_t" where
  "icmp_header_type af = (if af = AF_INET then HEADER_ICMPV4 else HEADER_ICMPV6)"

lemma icmp_header_type_neq [simp]: "icmp_header_type af \<noteq> HEADER_NONE"
  by (simp add: icmp_header_type_def)

lemma set_icmp_ptr_fields [simp]:
  "pkt_buffer (set_icmp_ptr af p pkt) = pkt_buffer pkt" "used_headers (set_icmp_ptr af p pkt) = used_headers pkt"
  "chain_at (set_icmp_ptr af p pkt) q = chain_at pkt q" "pkt_ip_bytes (set_icmp_ptr af p pkt) = pkt_ip_bytes pkt"
  "pkt_ipv4 (set_icmp_ptr af p pkt) = pkt_ipv4 pkt" "pkt_ipv6 (set_icmp_ptr af p pkt) = pkt_ipv6 pkt"
  "pkt_tcp (set_icmp_ptr af p pkt) = pkt_tcp pkt" "pkt_sctp (set_icmp_ptr af p pkt) = pkt_sctp pkt"
  "pkt_udp (set_icmp_ptr af p pkt) = pkt_udp pkt" "pkt_udplite (set_icmp_ptr af p pkt) = pkt_udplite pkt"
  by (simp_all add: set_icmp_ptr_def)

lemma set_packet_icmp_header_eq:
  assumes af: "icmp_af s \<noteq> AF_UNSPEC" and chain: "chain_at pkt (length ip)" and cnt: "packet_header_count pkt < 6"
    and buf: "pkt_buffer pkt = ip @ replicate 8 0 @ post" and mtu: "icmp_mtu_ok s type code"
    and none: "pkt_icmpv4 pkt = None" "pkt_icmpv6 pkt = None"
  shows "set_packet_icmp_header pkt (length ip) (icmp_af s) nb type code (icmp_mtu s) =
     Some (Inr ((push_header (set_icmp_ptr (icmp_af s) (length ip) pkt) (icmp_header_type (icmp_af s)) 8 nb)
       \<lparr>pkt_buffer := ip @ icmp_header_wire s type code @ post\<rparr>))"
proof -
  let ?pkt = "set_icmp_ptr (icmp_af s) (length ip) pkt"
  have "append_total ?pkt (icmp_header_type (icmp_af s)) 8 nb =
      Some (push_header ?pkt (icmp_header_type (icmp_af s)) 8 nb, length ip)"
    using chain cnt buf by (intro append_total_eq) (simp_all add: packet_header_count_used)
  then show ?thesis
    using af none buf set_icmp_header_wire [OF mtu, of ip post]
    by (cases "icmp_af s") (simp_all add: set_packet_icmp_header_def set_icmp_ptr_def icmp_header_type_def)
qed

text \<open>A message under construction: the pointers, and the echoed IP header behind the ICMP header.\<close>

definition icmp_at :: "icmp_spec \<Rightarrow> nat \<Rightarrow> packet \<Rightarrow> bool" where
  "icmp_at s p pkt \<longleftrightarrow> pkt_icmpv4 pkt = (if icmp_af s = AF_INET then Some p else None) \<and>
     pkt_icmpv6 pkt = (if icmp_af s = AF_INET then None else Some p)"

lemma icmp_at_buffer [simp]: "icmp_at s p (pkt\<lparr>pkt_buffer := b\<rparr>) = icmp_at s p pkt"
  by (simp add: icmp_at_def)

lemma icmp_at_echoed:
  "icmp_at s p pkt \<Longrightarrow> packet_echoed_ip_header pkt = Some (p + 8)"
  "icmp_at s p pkt \<Longrightarrow> packet_echoed_ip_header_len pkt = Some (ip_header_size (icmp_af s))"
  by (auto simp: icmp_at_def packet_echoed_ip_header_def packet_echoed_ip_header_len_def
      ip_header_size_def split: if_splits)

lemma echoed_wr16_3:
  "do { b \<leftarrow> wr16 (pre @ replicate 8 0 @ post) (length pre) x; b \<leftarrow> wr16 b (length pre + 2) y;
        b \<leftarrow> wr16 b (length pre + 4) z; k b } =
     k (pre @ (be16_to x @ be16_to y @ be16_to z @ [0, 0]) @ post)"
  unfolding replicate_8 wr16_def by (simp add: wr_eval)

lemma set_echoed_network_eq:
  assumes ok: "icmp_spec_ok s type code" and at: "icmp_at s p pkt" and p: "p + 8 = length pre"
    and buf: "pkt_buffer pkt = pre @ replicate (ip_header_size (icmp_af s)) 0
       @ replicate (if icmp_encapsulated s then 8 else 0) 0 @ post"
  shows "set_echoed_network s (ip_header_size (icmp_af s)) pkt = Some (pkt\<lparr>pkt_buffer :=
     pre @ ip_header_wire (icmp_af s) (echoed_ip_len s) ECN_NONE (echoed_ip_protocol s)
       @ echoed_udp_wire s @ post\<rparr>)"
proof -
  let ?hl = "ip_header_size (icmp_af s)"
  let ?ipw = "ip_header_wire (icmp_af s) (echoed_ip_len s) ECN_NONE (echoed_ip_protocol s)"
  obtain l4 where l4: "layer4_header_len (icmp_echo_protocol s) = Some l4"
    using ok by (auto simp: icmp_spec_ok_def)
  have n: "?hl \<le> echoed_ip_len s" "echoed_ip_len s < 65536" "icmp_af s \<noteq> AF_UNSPEC"
    using ok by (simp_all add: icmp_spec_ok_def echoed_ip_len_def)
  have len: "?hl + (if icmp_encapsulated s then 8 else 0) + l4 + unat (icmp_payload_bytes s) = echoed_ip_len s"
      "8 + l4 + unat (icmp_payload_bytes s) = 8 + echoed_transport_len s"
    by (simp_all add: echoed_ip_len_def echoed_transport_len_def l4)
  have ip: "set_ip_header (pre @ replicate ?hl 0 @ x) (length pre) (icmp_af s) (of_nat (echoed_ip_len s))
      ECN_NONE q = Some (pre @ ip_header_wire (icmp_af s) (echoed_ip_len s) ECN_NONE q @ x)" for q x
    using n by (intro set_ip_header_mid) simp_all
  show ?thesis
  proof (cases "icmp_encapsulated s")
    case True
    have "set_echoed_network s ?hl pkt = upd_buffer (\<lambda>b. do {
        b \<leftarrow> set_ip_header b (length pre) (icmp_af s) (of_nat (echoed_ip_len s)) ECN_NONE IPPROTO_UDP;
        b \<leftarrow> wr16 b (length pre + ?hl) (icmp_udp_src_port s);
        b \<leftarrow> wr16 b (length pre + ?hl + 2) (icmp_udp_dst_port s);
        wr16 b (length pre + ?hl + 4) (of_nat (8 + echoed_transport_len s)) }) pkt"
      unfolding set_echoed_network_def Let_def icmp_at_echoed [OF at] l4 bind.bind_lunit len p
      using True by simp
    then show ?thesis
      using True ip echoed_wr16_3 [of "pre @ ?ipw" post _ _ _ "\<lambda>b. Some (pkt\<lparr>pkt_buffer := b\<rparr>)"]
      by (simp add: upd_buffer_def buf echoed_ip_protocol_def echoed_udp_wire_def)
  next
    case False
    then show ?thesis
      unfolding set_echoed_network_def Let_def icmp_at_echoed [OF at] l4 bind.bind_lunit len p
      using ip by (simp add: upd_buffer_def buf echoed_ip_protocol_def echoed_udp_wire_def)
  qed
qed

lemma icmp_at_echoed_protocol:
  assumes at: "icmp_at s p pkt" and af: "icmp_af s \<noteq> AF_UNSPEC" and p: "p + 8 = length pre"
    and buf: "pkt_buffer pkt = pre @ ip_header_wire (icmp_af s) n ecn q @ post"
  shows "packet_echoed_ip_protocol pkt = Some q"
proof (cases "icmp_af s = AF_INET")
  case True
  have "ipv4_protocol (pre @ ipv4_header_wire (of_nat n) ecn q @ post) (p + 8) = Some q"
    unfolding p ipv4_protocol_def
    by (subst rd8_mid) (simp_all add: ipv4_header_wire_def nth_append be16_to_def)
  then show ?thesis
    using True at by (simp add: packet_echoed_ip_protocol_def icmp_at_def packet_echoed_ipv4_header_def
        buf ip_header_wire_def)
next
  case False
  have "ipv6_next_header (pre @ ipv6_header_wire (of_nat (n - 40)) ecn q @ post) (p + 8) = Some q"
    unfolding p ipv6_next_header_def
    by (subst rd8_mid) (simp_all add: ipv6_header_wire_def nth_append be16_to_def)
  then show ?thesis
    using False at by (simp add: packet_echoed_ip_protocol_def icmp_at_def packet_echoed_ipv6_header_def
        buf ip_header_wire_def)
qed

text \<open>The echoed fields of a message that is encapsulated as the script says.\<close>

lemma echoed_locations:
  assumes ok: "icmp_spec_ok s type code" and at: "icmp_at s p pkt" and p: "p + 8 = length pre"
    and buf: "pkt_buffer pkt = pre @ ip_header_wire (icmp_af s) n ecn (echoed_ip_protocol s) @ post"
    and q: "q = p + 8 + ip_header_size (icmp_af s) + (if icmp_encapsulated s then 8 else 0)"
  shows "icmp_echo_protocol s = IPPROTO_SCTP \<Longrightarrow>
           packet_echoed_sctp_v_tag pkt (icmp_encapsulated s) = Some (q + 4)"
    and "icmp_echo_protocol s = IPPROTO_TCP \<Longrightarrow>
           packet_echoed_tcp_seq pkt (icmp_encapsulated s) = Some (q + 4)"
    and "icmp_echo_protocol s = IPPROTO_UDP \<Longrightarrow> packet_echoed_udp_len pkt = Some (q + 4)"
    and "icmp_echo_protocol s = IPPROTO_UDPLITE \<Longrightarrow> packet_echoed_udplite_cov pkt = Some (q + 4)"
    and "icmp_echo_protocol s = IPPROTO_UDPLITE \<Longrightarrow> packet_echoed_udplite_checksum pkt = Some (q + 6)"
proof -
  have af: "icmp_af s \<noteq> AF_UNSPEC" and ul: "icmp_encapsulated s \<Longrightarrow> icmp_echo_protocol s \<noteq> IPPROTO_UDPLITE"
    and ud: "icmp_encapsulated s \<Longrightarrow> icmp_echo_protocol s \<noteq> IPPROTO_UDP"
    using ok by (auto simp: icmp_spec_ok_def icmp_encapsulated_def)
  note facts = icmp_at_echoed [OF at] icmp_at_echoed_protocol [OF at af p buf]
    packet_echoed_sctp_v_tag_def packet_echoed_tcp_seq_def packet_echoed_udp_len_def
    packet_echoed_udplite_cov_def packet_echoed_udplite_checksum_def packet_echoed_sctp_header_def
    packet_echoed_tcp_header_def packet_echoed_udp_header_def packet_echoed_udplite_header_def
    packet_echoed_proto_header_def packet_echoed_layer4_header_def echoed_field_def
    echoed_ip_protocol_def
  show "packet_echoed_sctp_v_tag pkt (icmp_encapsulated s) = Some (q + 4)" if "icmp_echo_protocol s = IPPROTO_SCTP"
    using that by (simp add: facts q)
  show "packet_echoed_tcp_seq pkt (icmp_encapsulated s) = Some (q + 4)" if "icmp_echo_protocol s = IPPROTO_TCP"
    using that by (simp add: facts q)
  show "packet_echoed_udp_len pkt = Some (q + 4)" if "icmp_echo_protocol s = IPPROTO_UDP"
    using that ud by (cases "icmp_encapsulated s") (simp_all add: facts q)
  show "packet_echoed_udplite_cov pkt = Some (q + 4)" if "icmp_echo_protocol s = IPPROTO_UDPLITE"
    using that ul by (cases "icmp_encapsulated s") (simp_all add: facts q)
  show "packet_echoed_udplite_checksum pkt = Some (q + 6)" if "icmp_echo_protocol s = IPPROTO_UDPLITE"
    using that ul by (cases "icmp_encapsulated s") (simp_all add: facts q)
qed

lemma set_echoed_transport_eq:
  assumes ok: "icmp_spec_ok s type code" and at: "icmp_at s p pkt" and p: "p + 8 = length pre"
    and buf: "pkt_buffer pkt = pre @ ip_header_wire (icmp_af s) n ecn (echoed_ip_protocol s)
       @ echoed_udp_wire s @ replicate 8 0"
  shows "set_echoed_transport s pkt = Some (pkt\<lparr>pkt_buffer :=
     pre @ ip_header_wire (icmp_af s) n ecn (echoed_ip_protocol s) @ echoed_udp_wire s
       @ echoed_transport_wire s\<rparr>)"
proof -
  let ?pre = "pre @ ip_header_wire (icmp_af s) n ecn (echoed_ip_protocol s) @ echoed_udp_wire s"
  define q where "q = p + 8 + ip_header_size (icmp_af s) + (if icmp_encapsulated s then 8 else 0)"
  have len: "q = length ?pre"
    using p by (simp add: q_def)
  note loc = echoed_locations [OF ok at p buf q_def]
  have b: "pkt_buffer pkt = ?pre @ [0, 0, 0, 0, 0, 0, 0, 0]"
    by (simp add: buf replicate_8)
  have w: "wr32 (?pre @ [0, 0, 0, 0, 0, 0, 0, 0]) (q + 4) v = Some (?pre @ [0, 0, 0, 0] @ put_unaligned_be32 v)"
     "wr16 (?pre @ [0, 0, 0, 0, 0, 0, 0, 0]) (q + 4) h = Some (?pre @ [0, 0, 0, 0] @ be16_to h @ [0, 0])"
     "wr16 (?pre @ [0, 0, 0, 0] @ be16_to h @ [0, 0]) (q + 6) h' =
        Some (?pre @ [0, 0, 0, 0] @ be16_to h @ be16_to h')" for v h h'
    unfolding len wr32_def wr16_def by (simp_all add: wr_bytes_def)
  have ff: "be16_to 0xffff = [0xff, 0xff]"
    by (simp add: be16_to_def)
  consider "icmp_echo_protocol s = IPPROTO_SCTP" | "icmp_echo_protocol s = IPPROTO_TCP"
    | "icmp_echo_protocol s = IPPROTO_UDP" | "icmp_echo_protocol s = IPPROTO_UDPLITE"
    using ok by (auto simp: icmp_spec_ok_def layer4_header_len_def split: if_splits)
  then show ?thesis
    using loc w ff by cases (simp_all add: set_echoed_transport_def upd_buffer_def b echoed_transport_wire_def)
qed

definition icmp_packet_headers :: "icmp_spec \<Rightarrow> header list" where
  "icmp_packet_headers s =
     [\<lparr> htype = ip_header_type (icmp_af s), header_bytes = ip_header_size (icmp_af s),
        total_bytes = icmp_ip_len s, hptr = Some 0 \<rparr>,
      \<lparr> htype = icmp_header_type (icmp_af s), header_bytes = 8,
        total_bytes = icmp_ip_len s - ip_header_size (icmp_af s),
        hptr = Some (ip_header_size (icmp_af s)) \<rparr>]"

lemma icmp_buffer_split:
  "replicate (icmp_ip_len s - ip_header_size (icmp_af s)) (0 :: u8) =
     replicate 8 0 @ replicate (ip_header_size (icmp_af s)) 0
       @ replicate (if icmp_encapsulated s then 8 else 0) 0 @ replicate 8 0"
  by (simp add: icmp_ip_len_def flip: replicate_add)

definition icmp_packet_start :: "(nat \<Rightarrow> u8) \<Rightarrow> icmp_spec \<Rightarrow> packet" where
  "icmp_packet_start junk s = (packet_new_zeroed junk (icmp_ip_len s))
     \<lparr> pkt_direction := icmp_direction s, pkt_flags := 0, pkt_ecn := ECN_NONE \<rparr>"

lemma icmp_packet_start_fields [simp]:
  "pkt_buffer (icmp_packet_start junk s) = replicate (icmp_ip_len s) 0"
  "pkt_headers (icmp_packet_start junk s) = replicate PACKET_MAX_HEADERS no_header"
  "pkt_ip_bytes (icmp_packet_start junk s) = 0" "pkt_flags (icmp_packet_start junk s) = 0"
  "pkt_ipv4 (icmp_packet_start junk s) = None" "pkt_ipv6 (icmp_packet_start junk s) = None"
  "pkt_icmpv4 (icmp_packet_start junk s) = None" "pkt_icmpv6 (icmp_packet_start junk s) = None"
  "pkt_tcp (icmp_packet_start junk s) = None" "pkt_udp (icmp_packet_start junk s) = None"
  "pkt_udplite (icmp_packet_start junk s) = None" "pkt_sctp (icmp_packet_start junk s) = None"
  by (simp_all add: icmp_packet_start_def packet_new_zeroed_def packet_new_def)

text \<open>The checks of \<^verbatim>\<open>new_icmp_packet\<close> and what remains after them.\<close>

lemma new_icmp_packet_unfold:
  assumes ok: "icmp_spec_ok s type code"
  shows "new_icmp_packet junk s = do {
     pkt \<leftarrow> set_packet_ip_header (icmp_packet_start junk s) (icmp_af s) (of_nat (icmp_ip_len s)) ECN_NONE
       (icmp_ip_protocol s);
     ip \<leftarrow> ip_start pkt;
     r \<leftarrow> set_packet_icmp_header pkt (ip + ip_header_size (icmp_af s)) (icmp_af s)
       (icmp_ip_len s - ip_header_size (icmp_af s)) type code (icmp_mtu s);
     (case r of Inl err \<Rightarrow> Some (Inl err)
      | Inr pkt \<Rightarrow> do {
          pkt \<leftarrow> set_echoed_network s (ip_header_size (icmp_af s)) pkt;
          pkt \<leftarrow> set_echoed_transport s pkt;
          Some (Inr (pkt\<lparr>pkt_ip_bytes := icmp_ip_len s\<rparr>)) }) }"
proof -
  have af: "ip_header_min_len (icmp_af s) = Some (ip_header_size (icmp_af s))"
      "icmp_header_len (icmp_af s) = Some 8" "icmp_protocol (icmp_af s) = Some (icmp_ip_protocol s)"
      "ip_header_size (icmp_af s) mod 4 = 0"
    using ok by (cases "icmp_af s"; simp add: icmp_spec_ok_def ip_header_min_len_def ip_header_size_def
        icmp_header_len_def icmp_protocol_def icmp_ip_protocol_def)+
  have len: "8 + (ip_header_size (icmp_af s) + ICMP_ECHO_BYTES + (if icmp_encapsulated s then 8 else 0)) =
        icmp_ip_len s - ip_header_size (icmp_af s)"
      "ip_header_size (icmp_af s) + (icmp_ip_len s - ip_header_size (icmp_af s)) = icmp_ip_len s"
    by (simp_all add: icmp_ip_len_def)
  have parse: "parse_icmp_type_and_code (icmp_af s) (icmp_type_string s) (icmp_code_string s) =
      Some (Inr (uint type, uint code))"
    using ok by (simp add: icmp_spec_ok_def)
  have "is_valid_u8 (uint type)" "is_valid_u8 (uint code)"
    using uint_lt2p [of type] uint_lt2p [of code] by (simp_all add: is_valid_u8_def)
  then show ?thesis
    unfolding new_icmp_packet_def Let_def af(1-3) bind.bind_lunit len parse sum.case prod.case
      icmp_packet_start_def [symmetric]
    using af(4) by simp
qed

lemma new_icmp_packet_built:
  assumes ok: "icmp_spec_ok s type code"
  obtains pkt where "new_icmp_packet junk s = Some (Inr pkt)"
    and "pkt_buffer pkt = icmp_packet_wire s type code" and "pkt_ip_bytes pkt = icmp_ip_len s"
    and "used_headers pkt = icmp_packet_headers s" and "icmp_at s (ip_header_size (icmp_af s)) pkt"
    and "pkt_ipv4 pkt = (if icmp_af s = AF_INET then Some 0 else None)"
    and "pkt_ipv6 pkt = (if icmp_af s = AF_INET then None else Some 0)"
    and "pkt_tcp pkt = None" and "pkt_udp pkt = None" and "pkt_udplite pkt = None" and "pkt_sctp pkt = None"
proof -
  let ?af = "icmp_af s" and ?n = "icmp_ip_len s" and ?hl = "ip_header_size (icmp_af s)"
  let ?ipw = "ip_header_wire ?af ?n ECN_NONE (icmp_ip_protocol s)"
  let ?hw = "icmp_header_wire s type code"
  have af: "?af \<noteq> AF_UNSPEC" and mtu: "icmp_mtu_ok s type code" and n: "?hl \<le> ?n" "?n < 65536"
    using ok by (simp_all add: icmp_spec_ok_def icmp_ip_len_def ip_header_size_def)
  obtain pkt1 where ip: "set_packet_ip_header (icmp_packet_start junk s) ?af (of_nat ?n) ECN_NONE
        (icmp_ip_protocol s) = Some pkt1"
    and p1: "pkt1 = (push_header (set_ip_ptr ?af 0 (icmp_packet_start junk s)) (ip_header_type ?af) ?hl ?n)
         \<lparr>pkt_buffer := ?ipw @ replicate (?n - ?hl) 0\<rparr>"
    and chain: "chain_at pkt1 ?hl" and cnt: "packet_header_count pkt1 = 1"
    and used: "used_headers pkt1 = [\<lparr> htype = ip_header_type ?af, header_bytes = ?hl,
         total_bytes = ?n, hptr = Some 0 \<rparr>]"
    by (rule set_ip_header_zeroed [OF af n icmp_packet_start_fields(2,3,5,6,1)])
  define pkt2 where "pkt2 = push_header (set_icmp_ptr ?af ?hl pkt1) (icmp_header_type ?af) 8 (?n - ?hl)"
  let ?rest = "replicate ?hl 0 @ replicate (if icmp_encapsulated s then 8 else 0) 0 @ replicate 8 0"
  have fields1: "ip_start pkt1 = Some 0" "pkt_icmpv4 pkt1 = None" "pkt_icmpv6 pkt1 = None"
    by (simp_all add: p1 ip_start_def set_ip_ptr_def)
  have hdr: "set_packet_icmp_header pkt1 ?hl ?af (?n - ?hl) type code (icmp_mtu s) =
      Some (Inr (pkt2\<lparr>pkt_buffer := ?ipw @ ?hw @ ?rest\<rparr>))"
    using set_packet_icmp_header_eq [OF af, of pkt1 ?ipw] chain cnt mtu fields1
    by (simp add: pkt2_def p1 icmp_buffer_split)
  have at: "icmp_at s ?hl pkt2"
    using fields1 by (simp add: icmp_at_def pkt2_def set_icmp_ptr_def)
  let ?pkt3 = "pkt2\<lparr>pkt_buffer := (?ipw @ ?hw) @ ip_header_wire ?af (echoed_ip_len s) ECN_NONE
      (echoed_ip_protocol s) @ echoed_udp_wire s @ replicate 8 0\<rparr>"
  have net: "set_echoed_network s ?hl (pkt2\<lparr>pkt_buffer := ?ipw @ ?hw @ ?rest\<rparr>) = Some ?pkt3"
    using set_echoed_network_eq [OF ok, of ?hl "pkt2\<lparr>pkt_buffer := ?ipw @ ?hw @ ?rest\<rparr>" "?ipw @ ?hw"] at
    by simp
  have l4: "set_echoed_transport s ?pkt3 = Some (pkt2\<lparr>pkt_buffer := icmp_packet_wire s type code\<rparr>)"
    using set_echoed_transport_eq [OF ok, of ?hl ?pkt3 "?ipw @ ?hw"] at
    by (simp add: icmp_packet_wire_def icmp_message_wire_def)
  have "used_headers pkt2 = icmp_packet_headers s"
    using chain_at_push(2) [of "set_icmp_ptr ?af ?hl pkt1" ?hl "icmp_header_type ?af" 8 "?n - ?hl"]
      chain cnt used by (simp add: pkt2_def icmp_packet_headers_def packet_header_count_used)
  moreover have "new_icmp_packet junk s = Some (Inr (pkt2\<lparr> pkt_buffer := icmp_packet_wire s type code,
      pkt_ip_bytes := ?n \<rparr>))"
    unfolding new_icmp_packet_unfold [OF ok] ip bind.bind_lunit fields1(1) add_0 hdr sum.case net l4 by simp
  ultimately show ?thesis
    using at by (intro that [of "pkt2\<lparr> pkt_buffer := icmp_packet_wire s type code, pkt_ip_bytes := ?n \<rparr>"])
      (simp_all add: icmp_at_def pkt2_def p1 set_ip_ptr_def)
qed

end
