(* ===== verification/Icmp_Roundtrip.thy ===== *)
theory Icmp_Roundtrip
  imports Ip_Roundtrip Icmp_Packet
begin

text \<open>
  The life of an ICMP message: \<^verbatim>\<open>new_icmp_packet\<close>, \<^verbatim>\<open>checksum_packet\<close>, \<^verbatim>\<open>parse_packet\<close>.
\<close>

section \<open>Checksums\<close>

definition icmp_wire_filled :: "icmp_spec \<Rightarrow> u8 \<Rightarrow> u8 \<Rightarrow> u16 \<Rightarrow> u16 \<Rightarrow> bytes" where
  "icmp_wire_filled s type code ck c =
     ip_header_filled (icmp_af s) ck (icmp_ip_len s) ECN_NONE (icmp_ip_protocol s)
     @ fill16 2 c (icmp_message_wire s type code)"

text \<open>What a receiver checks: the IPv4 header checksum and the ICMP checksum, which covers a
  pseudo-header for IPv6 only.\<close>

definition icmp_checksums_ok :: "icmp_spec \<Rightarrow> bytes \<Rightarrow> bool" where
  "icmp_checksums_ok s b \<longleftrightarrow>
     (if icmp_af s = AF_INET
      then ipv4_checksum_at b 0 20 = Some 0 \<and> ipv4_checksum_at b 20 (length b - 20) = Some 0
      else tcp_udp_v6_checksum_at b (replicate 16 0) (replicate 16 0) IPPROTO_ICMPV6 40
             (of_nat (length b - 40)) = Some 0)"

definition icmp_built :: "icmp_spec \<Rightarrow> u8 \<Rightarrow> u8 \<Rightarrow> packet \<Rightarrow> bool" where
  "icmp_built s type code pkt \<longleftrightarrow> pkt_buffer pkt = icmp_packet_wire s type code \<and>
     pkt_ip_bytes pkt = icmp_ip_len s \<and> icmp_at s (ip_header_size (icmp_af s)) pkt \<and>
     pkt_ipv4 pkt = (if icmp_af s = AF_INET then Some 0 else None) \<and>
     pkt_ipv6 pkt = (if icmp_af s = AF_INET then None else Some 0) \<and>
     pkt_tcp pkt = None \<and> pkt_udp pkt = None \<and> pkt_udplite pkt = None \<and> pkt_sctp pkt = None"

lemma icmp_ip_len_range:
  "ip_header_size (icmp_af s) + 16 \<le> icmp_ip_len s" "icmp_ip_len s < 65536"
  by (simp_all add: icmp_ip_len_def ip_header_size_def)

lemma length_icmp_wire_filled: "length (icmp_wire_filled s type code ck c) = icmp_ip_len s"
  using icmp_ip_len_range [of s] by (simp add: icmp_wire_filled_def length_icmp_message_wire)

lemma checksum_icmpv4:
  assumes af: "icmp_af s = AF_INET" and built: "icmp_built s type code pkt"
  obtains ck c where "checksum_packet pkt = Some (pkt\<lparr>pkt_buffer := icmp_wire_filled s type code ck c\<rparr>)"
    and "icmp_checksums_ok s (icmp_wire_filled s type code ck c)"
proof -
  let ?n = "icmp_ip_len s" and ?msg = "icmp_message_wire s type code"
  note b = built [unfolded icmp_built_def]
  have n: "36 \<le> ?n" "unat (of_nat ?n :: u16) = ?n" "uint (of_nat ?n :: u16) = int ?n" "length ?msg = ?n - 20"
    using icmp_ip_len_range [of s] af u16_of_nat_small [of ?n]
    by (simp_all add: length_icmp_message_wire ip_header_size_def)
  have buf: "pkt_buffer pkt = ipv4_header_wire (of_nat ?n) ECN_NONE IPPROTO_ICMP @ ?msg"
    using b af by (simp add: icmp_packet_wire_def ip_header_wire_def icmp_ip_protocol_def)
  obtain ck where ck: "fill_checksum 10 (\<lambda>b. do { n \<leftarrow> ipv4_header_len b 0; ipv4_checksum_at b 0 n }) pkt =
      Some (pkt\<lparr>pkt_buffer := fill16 10 ck (ipv4_header_wire (of_nat ?n) ECN_NONE IPPROTO_ICMP) @ ?msg\<rparr>)"
    "\<And>post'. ipv4_checksum_at (fill16 10 ck (ipv4_header_wire (of_nat ?n) ECN_NONE IPPROTO_ICMP) @ post') 0 20 = Some 0"
    using fill_ipv4_header [OF buf] by blast
  define ip where "ip = fill16 10 ck (ipv4_header_wire (of_nat ?n) ECN_NONE IPPROTO_ICMP)"
  have ip: "length ip = 20" "\<And>p. ipv4_header_len (ip @ p) 0 = Some 20"
    "\<And>p. ipv4_tot_len (ip @ p) 0 = Some (of_nat ?n)" "\<And>p. ipv4_src_ip (ip @ p) 0 = Some [0, 0, 0, 0]"
    "\<And>p. ipv4_dst_ip (ip @ p) 0 = Some [0, 0, 0, 0]"
    by (simp_all add: ip_def ipv4_wire_fields)
  define c where "c = ipv4_checksum (fill16 2 0 ?msg)"
  have len: "length (fill16 2 x ?msg) = ?n - 20" for x
    using n by simp
  have at: "ipv4_checksum_at (ip @ fill16 2 x ?msg) 20 (?n - 20) = Some (ipv4_checksum (fill16 2 x ?msg))" for x
    using ip(1) len by (simp add: ipv4_checksum_at_def rd_bytes_def)
  have "fill_checksum (length ip + 2) (\<lambda>b. ipv4_checksum_at b 20 (?n - 20)) (pkt\<lparr>pkt_buffer := ip @ ?msg\<rparr>) =
      Some ((pkt\<lparr>pkt_buffer := ip @ ?msg\<rparr>)\<lparr>pkt_buffer := ip @ fill16 2 c ?msg @ []\<rparr>)"
    using at n by (intro fill_checksum_mid) (simp_all add: c_def)
  moreover have "nat (int ?n - 20) = ?n - 20"
    using n(1) by simp
  ultimately have "checksum_packet pkt = Some (pkt\<lparr>pkt_buffer := ip @ fill16 2 c ?msg\<rparr>)"
    using b af ck(1) [folded ip_def] n ip
    by (simp add: checksum_packet_def packet_address_family_def checksum_ipv4_packet_def
        checksum_layer4_def Let_def icmp_at_def ip_header_size_def)
  moreover have "ipv4_checksum (fill16 2 c ?msg) = 0"
    using fill16_verifies [of "[]" ?msg 2 c] n icmp_ip_len_range(2) [of s]
    by (simp add: c_def ipv4_checksum_def)
  moreover have "icmp_wire_filled s type code ck c = ip @ fill16 2 c ?msg"
    using af by (simp add: icmp_wire_filled_def ip_header_filled_def ip_header_wire_def ip_def icmp_ip_protocol_def)
  ultimately show ?thesis
    using that [of ck c] af ck(2) at len ip(1) by (simp add: icmp_checksums_ok_def ip_def)
qed

lemma checksum_icmpv6:
  assumes af: "icmp_af s = AF_INET6" and built: "icmp_built s type code pkt"
  obtains c where "checksum_packet pkt = Some (pkt\<lparr>pkt_buffer := icmp_wire_filled s type code 0 c\<rparr>)"
    and "icmp_checksums_ok s (icmp_wire_filled s type code 0 c)"
proof -
  let ?msg = "icmp_message_wire s type code" and ?z = "replicate 16 (0 :: u8)"
  define m where "m = icmp_ip_len s - 40"
  note b = built [unfolded icmp_built_def]
  have n: "icmp_ip_len s = 40 + m" "16 \<le> m" "m < 65536" "length ?msg = m"
    using icmp_ip_len_range [of s] af
    by (simp_all add: m_def length_icmp_message_wire ip_header_size_def)
  have u: "unat (of_nat m :: u16) = m" "uint (of_nat m :: u16) = int m"
    using n(3) by (auto intro: u16_of_nat_small)
  define ip where "ip = ipv6_header_wire (of_nat m) ECN_NONE IPPROTO_ICMPV6"
  have buf: "pkt_buffer pkt = ip @ ?msg @ []"
    using b af n(1) by (simp add: icmp_packet_wire_def ip_header_wire_def icmp_ip_protocol_def ip_def)
  have ip: "length ip = 40" "\<And>p. ipv6_payload_len (ip @ p) 0 = Some (of_nat m)"
    "\<And>p. ipv6_src_ip (ip @ p) 0 = Some ?z" "\<And>p. ipv6_dst_ip (ip @ p) 0 = Some ?z"
    by (simp_all add: ip_def ipv6_wire_fields)
  have ps: "is_pseudo (pseudo_v6 ?z ?z)"
    by (auto simp: is_pseudo_def intro!: exI [of _ ?z])
  have al: "length ip mod 4 = 0" "even (2 :: nat)" "2 + 2 \<le> m"
    using ip(1) n(2) by simp_all
  obtain c where "fill_checksum (length ip + 2) (\<lambda>b. pc_full (pseudo_v6 ?z ?z) b IPPROTO_ICMPV6 (length ip) (int m)) pkt =
      Some (pkt\<lparr>pkt_buffer := ip @ fill16 2 c ?msg @ []\<rparr>)"
    and vf: "\<And>pre' post'. length pre' mod 4 = 0 \<Longrightarrow>
      pc_full (pseudo_v6 ?z ?z) (pre' @ fill16 2 c ?msg @ post') IPPROTO_ICMPV6 (length pre') (int m) = Some 0"
    by (rule fill_layer4 [OF ps buf al(1) n(4,3) al(2,3), of IPPROTO_ICMPV6]) (rule that)
  then have fill: "fill_checksum 42 (\<lambda>b. pc_full (pseudo_v6 ?z ?z) b IPPROTO_ICMPV6 40 (int m)) pkt =
      Some (pkt\<lparr>pkt_buffer := ip @ fill16 2 c ?msg\<rparr>)"
    by (simp add: ip(1))
  have ok: "pc_full (pseudo_v6 ?z ?z) (ip @ fill16 2 c ?msg @ []) IPPROTO_ICMPV6 (length ip) (int m) = Some 0"
    by (rule vf [OF al(1)])
  have "checksum_packet pkt = Some (pkt\<lparr>pkt_buffer := ip @ fill16 2 c ?msg\<rparr>)"
    using b [THEN conjunct2] af fill n(1,2) u ip(2-4) [of "?msg @ []", folded buf]
    by (simp add: checksum_packet_def packet_address_family_def checksum_ipv6_packet_def
        checksum_layer4_def Let_def icmp_at_def ip_header_size_def)
  moreover have "icmp_wire_filled s type code 0 c = ip @ fill16 2 c ?msg"
    using af n(1) by (simp add: icmp_wire_filled_def ip_header_filled_def ip_header_wire_def ip_def icmp_ip_protocol_def)
  moreover have "tcp_udp_v6_checksum_at (ip @ fill16 2 c ?msg) ?z ?z IPPROTO_ICMPV6 40 (of_nat m) = Some 0"
    using ok ip(1) by (simp add: pseudo_v6_def)
  ultimately show ?thesis
    using that [of c] af ip(1) n by (simp add: icmp_checksums_ok_def)
qed

lemma checksum_icmp:
  assumes ok: "icmp_spec_ok s type code" and built: "icmp_built s type code pkt"
  obtains ck c where "checksum_packet pkt = Some (pkt\<lparr>pkt_buffer := icmp_wire_filled s type code ck c\<rparr>)"
    and "icmp_checksums_ok s (icmp_wire_filled s type code ck c)"
proof (cases "icmp_af s")
  case AF_INET
  show ?thesis
    by (rule checksum_icmpv4 [OF AF_INET built]) (rule that)
next
  case AF_INET6
  show ?thesis
    by (rule checksum_icmpv6 [OF AF_INET6 built]) (rule that)
next
  case AF_UNSPEC
  then show ?thesis
    using ok by (simp add: icmp_spec_ok_def)
qed

section \<open>Parsing the message back\<close>

lemma parse_icmp_built:
  assumes chain: "chain_at pkt p" and one: "packet_header_count pkt = 1"
    and inner: "used_headers pkt = [h]" "htype h = ip_header_type af" and af: "af \<noteq> AF_UNSPEC"
    and room: "p + 8 \<le> pkt_buffer_bytes pkt" and n: "8 \<le> m" "p + m \<le> e"
  shows "parse_layer4 pkt enc p (if af = AF_INET then IPPROTO_ICMP else IPPROTO_ICMPV6) m e =
     Some (PACKET_OK, push_header (set_icmp_ptr af p pkt) (icmp_header_type af) 8 m, True)"
proof -
  have "packet_inner_header pkt = Some h"
    using inner(1) one takeWhile_nth [of 0 "\<lambda>h. htype h \<noteq> HEADER_NONE" "pkt_headers pkt"]
    by (simp add: packet_inner_header_def used_headers_def)
  moreover have "parse_append (set_icmp_ptr af p pkt) (icmp_header_type af) 8 m cont =
      cont (push_header (set_icmp_ptr af p pkt) (icmp_header_type af) 8 m)" for cont
    using chain one room by (intro parse_append_chain) (simp_all add: packet_header_count_used)
  ultimately show ?thesis
    using inner(2) n af
    by (cases af) (simp_all add: parse_layer4.simps parse_icmpv4_def parse_icmpv6_def set_icmp_ptr_def
        icmp_header_type_def ip_header_type_def)
qed

text \<open>C10: An ICMP message built by \<^verbatim>\<open>new_icmp_packet\<close> (any type and code, path MTU, echoed transport protocol
  and encapsulation that the constructor accepts) and completed by \<^verbatim>\<open>checksum_packet\<close> has valid
  checksums, and \<^verbatim>\<open>parse_packet\<close> accepts its bytes, finding the same headers, ICMP and IP pointers
  and length.\<close>

theorem icmp_packet_roundtrip:
  assumes ok: "icmp_spec_ok s type code"
  shows "\<exists>pkt pkt' parsed. new_icmp_packet junk s = Some (Inr pkt) \<and> checksum_packet pkt = Some pkt' \<and>
     icmp_checksums_ok s (pkt_buffer pkt') \<and>
     parse_packet (received (pkt_buffer pkt') rest) (length (pkt_buffer pkt'))
       (ethertype_of (icmp_af s)) enc = Some (PACKET_OK, parsed) \<and>
     used_headers parsed = used_headers pkt \<and> pkt_icmpv4 parsed = pkt_icmpv4 pkt \<and>
     pkt_icmpv6 parsed = pkt_icmpv6 pkt \<and> pkt_ipv4 parsed = pkt_ipv4 pkt \<and>
     pkt_ipv6 parsed = pkt_ipv6 pkt \<and> pkt_ip_bytes parsed = pkt_ip_bytes pkt"
proof -
  let ?af = "icmp_af s" and ?n = "icmp_ip_len s" and ?hl = "ip_header_size (icmp_af s)"
  obtain pkt where new: "new_icmp_packet junk s = Some (Inr pkt)" "icmp_built s type code pkt"
      "used_headers pkt = icmp_packet_headers s"
    using new_icmp_packet_built [OF ok, of junk] unfolding icmp_built_def by metis
  obtain ck c where ck: "checksum_packet pkt = Some (pkt\<lparr>pkt_buffer := icmp_wire_filled s type code ck c\<rparr>)"
    and sums: "icmp_checksums_ok s (icmp_wire_filled s type code ck c)"
    by (rule checksum_icmp [OF ok new(2)])
  define frame where "frame = icmp_wire_filled s type code ck c"
  have len: "length frame = ?n"
    by (simp add: frame_def length_icmp_wire_filled)
  have n: "?hl + 16 \<le> ?n" "?n < 65536"
    by (rule icmp_ip_len_range)+
  define pkt1 where "pkt1 = push_header (received frame rest) (ip_header_type ?af) ?hl ?n"
  have chain1: "chain_at pkt1 ?hl" and used1: "used_headers pkt1 =
      [\<lparr> htype = ip_header_type ?af, header_bytes = ?hl, total_bytes = ?n, hptr = Some 0 \<rparr>]"
    using chain_at_push [OF received_chain(1), of frame rest "ip_header_type ?af" ?hl ?n] received_chain
    by (simp_all add: pkt1_def)
  define pkt2 where "pkt2 = push_header (set_icmp_ptr ?af ?hl pkt1) (icmp_header_type ?af) 8 (?n - ?hl)"
  have "parse_layer4 pkt1 enc ?hl (icmp_ip_protocol s) (?n - ?hl) ?n = Some (PACKET_OK, pkt2, True)"
    unfolding icmp_ip_protocol_def pkt2_def
    by (rule parse_icmp_built [OF chain1 _ used1])
      (use ok n len used1 in \<open>simp_all add: packet_header_count_used icmp_spec_ok_def pkt1_def\<close>)
  then have "parse_packet (received frame rest) ?n (ethertype_of ?af) enc =
      Some (PACKET_OK, (set_ip_ptr ?af 0 pkt2)\<lparr>pkt_ip_bytes := ?n\<rparr>)"
    using n sums by (intro ip_parses [OF _ _ _ len _ pkt1_def])
      (simp_all add: frame_def icmp_wire_filled_def icmp_checksums_ok_def)
  moreover have "used_headers pkt2 = icmp_packet_headers s"
    using chain_at_push(2) [of "set_icmp_ptr ?af ?hl pkt1" ?hl "icmp_header_type ?af" 8 "?n - ?hl"] chain1 used1
    by (simp add: pkt2_def icmp_packet_headers_def packet_header_count_used)
  moreover have "pkt_icmpv4 pkt2 = pkt_icmpv4 pkt" "pkt_icmpv6 pkt2 = pkt_icmpv6 pkt"
    using new(2) by (simp_all add: icmp_built_def icmp_at_def pkt2_def pkt1_def set_icmp_ptr_def received_def packet_new_def)
  moreover have "pkt_ipv4 (set_ip_ptr ?af 0 pkt2) = pkt_ipv4 pkt" "pkt_ipv6 (set_ip_ptr ?af 0 pkt2) = pkt_ipv6 pkt"
      "pkt_ip_bytes pkt = ?n"
    using new(2) by (simp_all add: icmp_built_def set_ip_ptr_def pkt2_def pkt1_def)
  ultimately show ?thesis
    using new ck sums len by (intro exI [of _ pkt] exI [of _ "(set_ip_ptr ?af 0 pkt2)\<lparr>pkt_ip_bytes := ?n\<rparr>"] exI conjI)
      (assumption | simp add: frame_def set_ip_ptr_def)+
qed

text \<open>An example: an ICMPv4 message that reports the path MTU for an encapsulated TCP segment.\<close>

definition example_icmp :: icmp_spec where
  "example_icmp = \<lparr> icmp_af = AF_INET, icmp_direction = DIRECTION_INBOUND,
     icmp_type_string = ''unreachable'', icmp_code_string = Some ''frag_needed'',
     icmp_echo_protocol = IPPROTO_TCP, icmp_payload_bytes = 100, icmp_tcp_seq = 1,
     icmp_udplite_cov = 0, icmp_sctp_tag = 0, icmp_mtu = 1400,
     icmp_udp_src_port = 9899, icmp_udp_dst_port = 9899 \<rparr>"

lemma example_icmp_ok: "icmp_spec_ok example_icmp 3 4"
proof -
  have "parse_icmp_type_and_code AF_INET ''unreachable'' (Some ''frag_needed'') = Some (Inr (3, 4))"
    by code_simp
  then show ?thesis
    by (simp add: icmp_spec_ok_def example_icmp_def icmp_mtu_ok_def layer4_header_len_def
        icmp_encapsulated_def echoed_ip_len_def echoed_transport_len_def ip_header_size_def)
qed

theorem icmp_packet_roundtrip_witness:
  "\<exists>pkt pkt' parsed. new_icmp_packet (\<lambda>_. 7) example_icmp = Some (Inr pkt) \<and>
     checksum_packet pkt = Some pkt' \<and> icmp_checksums_ok example_icmp (pkt_buffer pkt') \<and>
     parse_packet (received (pkt_buffer pkt') [1]) (length (pkt_buffer pkt'))
       (ethertype_of (icmp_af example_icmp)) 0 = Some (PACKET_OK, parsed) \<and>
     used_headers parsed = used_headers pkt \<and> pkt_icmpv4 parsed = pkt_icmpv4 pkt \<and>
     pkt_icmpv6 parsed = pkt_icmpv6 pkt \<and> pkt_ipv4 parsed = pkt_ipv4 pkt \<and>
     pkt_ipv6 parsed = pkt_ipv6 pkt \<and> pkt_ip_bytes parsed = pkt_ip_bytes pkt"
  by (rule icmp_packet_roundtrip [OF example_icmp_ok])

end
