(* ===== verification/Ip_Address.thy ===== *)
theory Ip_Address
  imports Ip_Packet C_Numbers
begin

text \<open>
  IP addresses and prefixes (\<^verbatim>\<open>ip_address.c\<close>, \<^verbatim>\<open>ip_address.h\<close>, \<^verbatim>\<open>ip_prefix.c\<close>).

  An address is its family and the sixteen bytes of the union; an IPv4 address uses the first four of
  them. Socket addresses are the bytes of \<^verbatim>\<open>struct sockaddr_in\<close> and \<^verbatim>\<open>struct sockaddr_in6\<close> on Linux.
  \<^verbatim>\<open>inet_pton\<close>, \<^verbatim>\<open>inet_ntop\<close> and the interface list of \<^verbatim>\<open>getifaddrs\<close> are parameters.
\<close>

section \<open>Addresses\<close>

record ip_address =
  address_family :: address_family
  ip :: bytes

definition ip_reset :: ip_address where
  "ip_reset = \<lparr> address_family = AF_UNSPEC, ip = replicate 16 0 \<rparr>"

definition ipv4_mapped_prefix :: bytes where
  "ipv4_mapped_prefix = [0, 0, 0, 0, 0, 0, 0, 0, 0, 0, 0xFF, 0xFF]"

definition ip_address_length :: "address_family \<Rightarrow> nat option" where
  "ip_address_length af = (case af of AF_INET \<Rightarrow> Some 4 | AF_INET6 \<Rightarrow> Some 16 | AF_UNSPEC \<Rightarrow> None)"

definition sockaddr_length :: "address_family \<Rightarrow> nat option" where
  "sockaddr_length af = (case af of AF_INET \<Rightarrow> Some 16 | AF_INET6 \<Rightarrow> Some 28 | AF_UNSPEC \<Rightarrow> None)"

definition ipv4_init :: ip_address where
  "ipv4_init = \<lparr> address_family = AF_INET, ip = replicate 16 0 \<rparr>"

definition ipv6_init :: ip_address where
  "ipv6_init = \<lparr> address_family = AF_INET6, ip = replicate 16 0 \<rparr>"

text \<open>Storing a family-specific address (four or sixteen bytes) at the start of the union.\<close>

definition set_ip :: "bytes \<Rightarrow> ip_address \<Rightarrow> ip_address" where
  "set_ip xs a = a\<lparr> ip := xs @ drop (length xs) (ip a) \<rparr>"

definition ip_from_ipv4 :: "bytes \<Rightarrow> ip_address" where
  "ip_from_ipv4 ipv4 = set_ip ipv4 ipv4_init"

definition ip_from_ipv6 :: "bytes \<Rightarrow> ip_address" where
  "ip_from_ipv6 ipv6 = set_ip ipv6 ipv6_init"

definition ip_to_ipv4 :: "ip_address \<Rightarrow> bytes" where
  "ip_to_ipv4 a = take 4 (ip a)"

definition ip_to_ipv6 :: "ip_address \<Rightarrow> bytes" where
  "ip_to_ipv6 a = take 16 (ip a)"

definition is_equal_ip :: "ip_address \<Rightarrow> ip_address \<Rightarrow> bool option" where
  "is_equal_ip a b =
     (if address_family a = address_family b
      then do { n \<leftarrow> ip_address_length (address_family a); Some (take n (ip a) = take n (ip b)) }
      else Some False)"

definition ipv4_parse :: "pton \<Rightarrow> string \<Rightarrow> ip_address option" where
  "ipv4_parse inet_pton ip_string =
     do { v4 \<leftarrow> inet_pton AF_INET ip_string; Some (set_ip v4 ipv4_init) }"

definition ipv6_parse :: "pton \<Rightarrow> string \<Rightarrow> ip_address option" where
  "ipv6_parse inet_pton ip_string =
     do { v6 \<leftarrow> inet_pton AF_INET6 ip_string; Some (set_ip v6 ipv6_init) }"

type_synonym ntop = "address_family \<Rightarrow> bytes \<Rightarrow> string option"

definition ip_to_string :: "ntop \<Rightarrow> ip_address \<Rightarrow> string option" where
  "ip_to_string inet_ntop a = inet_ntop (address_family a) (ip a)"

definition ipv6_map_from_ipv4 :: "ip_address \<Rightarrow> ip_address" where
  "ipv6_map_from_ipv4 ipv4 = set_ip (ipv4_mapped_prefix @ ip_to_ipv4 ipv4) ipv6_init"

definition ipv6_map_to_ipv4 :: "ip_address \<Rightarrow> (unit, ip_address) status" where
  "ipv6_map_to_ipv4 ipv6 =
     (if take 12 (ip ipv6) = ipv4_mapped_prefix
      then Inr (set_ip (take 4 (drop 12 (ip ipv6))) ipv4_init) else Inl ())"

section \<open>Socket addresses\<close>

definition af_number :: "address_family \<Rightarrow> u16" where
  "af_number af = (case af of AF_INET \<Rightarrow> 2 | AF_INET6 \<Rightarrow> 10 | AF_UNSPEC \<Rightarrow> 0)"

text \<open>\<^verbatim>\<open>sa_family\<close>, stored in host order; \<^const>\<open>AF_UNSPEC\<close> stands for all other families.\<close>

definition sa_family :: "bytes \<Rightarrow> address_family option" where
  "sa_family address = do {
     a \<leftarrow> rd8 address 0;
     b \<leftarrow> rd8 address 1;
     Some (if le16_of a b = 2 then AF_INET else if le16_of a b = 10 then AF_INET6 else AF_UNSPEC)
   }"

text \<open>The bytes written to \<^verbatim>\<open>address\<close>; \<^verbatim>\<open>*length\<close> is their number.\<close>

definition ipv4_to_sockaddr :: "ip_address \<Rightarrow> u16 \<Rightarrow> bytes" where
  "ipv4_to_sockaddr ipv4 port =
     le16_to (af_number AF_INET) @ be16_to port @ ip_to_ipv4 ipv4 @ replicate 8 0"

definition ipv6_to_sockaddr :: "ip_address \<Rightarrow> u16 \<Rightarrow> bytes" where
  "ipv6_to_sockaddr ipv6 port =
     le16_to (af_number AF_INET6) @ be16_to port @ replicate 4 0 @ ip_to_ipv6 ipv6 @ replicate 4 0"

definition ip_to_sockaddr :: "ip_address \<Rightarrow> u16 \<Rightarrow> bytes option" where
  "ip_to_sockaddr a port = (case address_family a of
      AF_INET \<Rightarrow> Some (ipv4_to_sockaddr a port)
    | AF_INET6 \<Rightarrow> Some (ipv6_to_sockaddr a port)
    | AF_UNSPEC \<Rightarrow> None)"

definition ipv4_from_sockaddr :: "bytes \<Rightarrow> nat \<Rightarrow> (ip_address \<times> u16) option" where
  "ipv4_from_sockaddr address len = do {
     af \<leftarrow> sa_family address;
     c_assert (af = AF_INET);
     c_assert (len = 16);
     sa \<leftarrow> rd_bytes address 0 len;
     v4 \<leftarrow> rd_bytes sa 4 4;
     port \<leftarrow> rd16 sa 2;
     Some (set_ip v4 ipv4_init, port)
   }"

definition ipv6_from_sockaddr :: "bytes \<Rightarrow> nat \<Rightarrow> (ip_address \<times> u16) option" where
  "ipv6_from_sockaddr address len = do {
     af \<leftarrow> sa_family address;
     c_assert (af = AF_INET6);
     c_assert (len = 28);
     sa \<leftarrow> rd_bytes address 0 len;
     v6 \<leftarrow> rd_bytes sa 8 16;
     port \<leftarrow> rd16 sa 2;
     Some (set_ip v6 ipv6_init, port)
   }"

definition ip_from_sockaddr :: "bytes \<Rightarrow> nat \<Rightarrow> (ip_address \<times> u16) option" where
  "ip_from_sockaddr address len = do {
     af \<leftarrow> sa_family address;
     (case af of
        AF_INET \<Rightarrow> ipv4_from_sockaddr address len
      | AF_INET6 \<Rightarrow> ipv6_from_sockaddr address len
      | AF_UNSPEC \<Rightarrow> None)
   }"

section \<open>Local addresses and netmasks\<close>

text \<open>\<open>ifaddr_list\<close> is what \<^verbatim>\<open>getifaddrs\<close> returns. The first component of the result is the return value,
  the second what is copied to \<^verbatim>\<open>dev_name\<close>.\<close>

record ifaddr =
  ifa_addr :: "bytes option"
  ifa_name :: string

fun get_ip_device :: "ifaddr list \<Rightarrow> ip_address \<Rightarrow> (bool \<times> string option) option" where
  "get_ip_device [] a = Some (False, None)"
| "get_ip_device (ifaddr # ifaddr_list) a = (case ifa_addr ifaddr of
      None \<Rightarrow> get_ip_device ifaddr_list a
    | Some address \<Rightarrow> do {
        family \<leftarrow> sa_family address;
        if family \<noteq> address_family a then get_ip_device ifaddr_list a
        else do {
          n \<leftarrow> sockaddr_length family;
          (interface_ip, port) \<leftarrow> ip_from_sockaddr address n;
          eq \<leftarrow> is_equal_ip a interface_ip;
          if eq
          then do { c_assert (length (ifa_name ifaddr) < 16); Some (True, Some (ifa_name ifaddr)) }
          else get_ip_device ifaddr_list a
        }
      })"

definition is_ip_local :: "ifaddr list \<Rightarrow> ip_address \<Rightarrow> bool option" where
  "is_ip_local ifaddr_list a = do { (found, _) \<leftarrow> get_ip_device ifaddr_list a; Some found }"

text \<open>The loop from bit 31 downwards; \<open>n\<close> bits are left to look at.\<close>

fun netmask_loop :: "u32 \<Rightarrow> nat \<Rightarrow> nat \<Rightarrow> nat" where
  "netmask_loop mask_addr 0 prefix_len = prefix_len"
| "netmask_loop mask_addr (Suc pos) prefix_len =
     (if \<not> bit mask_addr pos then prefix_len else netmask_loop mask_addr pos (prefix_len + 1))"

definition netmask_to_prefix :: "pton \<Rightarrow> string \<Rightarrow> nat option" where
  "netmask_to_prefix inet_pton netmask = do {
     mask \<leftarrow> ipv4_parse inet_pton netmask;
     mask_addr \<leftarrow> rd32 (ip mask) 0;
     Some (netmask_loop mask_addr 32 0)
   }"

section \<open>Prefixes\<close>

record ip_prefix =
  pfx_ip :: ip_address
  prefix_len :: int

definition ip_to_prefix :: "ip_address \<Rightarrow> int \<Rightarrow> ip_prefix option" where
  "ip_to_prefix a len = do {
     n \<leftarrow> ip_address_length (address_family a);
     if len < 0 \<or> len > 8 * int n then None else Some \<lparr> pfx_ip = a, prefix_len = len \<rparr>
   }"

text \<open>For a prefix length that \<^verbatim>\<open>ip_to_prefix\<close> admits; the length of the \<^verbatim>\<open>memset\<close> would be negative for
  others.\<close>

definition ip_prefix_normalize :: "ip_prefix \<Rightarrow> ip_prefix option" where
  "ip_prefix_normalize prefix = do {
     let nbytes = nat (prefix_len prefix div 8);
     let bits = nat (prefix_len prefix mod 8);
     max_prefix_bytes \<leftarrow> ip_address_length (address_family (pfx_ip prefix));
     (xs, nbytes) \<leftarrow>
       (if bits \<noteq> 0
        then do {
          let pos = 8 - bits;
          x \<leftarrow> rd8 (ip (pfx_ip prefix)) nbytes;
          xs \<leftarrow> wr8 (ip (pfx_ip prefix)) nbytes (x AND NOT (push_bit pos 1 - 1));
          Some (xs, nbytes + 1)
        }
        else Some (ip (pfx_ip prefix), nbytes));
     c_assert (nbytes \<le> max_prefix_bytes);
     xs \<leftarrow> wr_bytes xs nbytes (replicate (max_prefix_bytes - nbytes) 0);
     Some (prefix\<lparr> pfx_ip := (pfx_ip prefix)\<lparr> ip := xs \<rparr> \<rparr>)
   }"

definition prefix_len_parse :: "string \<Rightarrow> int \<Rightarrow> int option" where
  "prefix_len_parse prefix_string max_len = (case dropWhile (\<lambda>c. c \<noteq> CHR ''/'') prefix_string of
      _ # len_str \<Rightarrow> (case strtol len_str of (v, errno, end_str) \<Rightarrow>
        let len = to_int v in
        if errno \<or> end_str \<noteq> [] \<or> len < 0 \<or> len > max_len then None else Some len)
    | [] \<Rightarrow> Some max_len)"

definition copy_prefix_address :: "string \<Rightarrow> string" where
  "copy_prefix_address prefix_string = takeWhile (\<lambda>c. c \<noteq> CHR ''/'') prefix_string"

definition ipv4_prefix_parse :: "pton \<Rightarrow> string \<Rightarrow> ip_prefix option" where
  "ipv4_prefix_parse inet_pton prefix_string = do {
     a \<leftarrow> ipv4_parse inet_pton (copy_prefix_address prefix_string);
     n \<leftarrow> ip_address_length AF_INET;
     len \<leftarrow> prefix_len_parse prefix_string (8 * int n);
     ip_to_prefix a len
   }"

definition ipv6_prefix_parse :: "pton \<Rightarrow> string \<Rightarrow> ip_prefix option" where
  "ipv6_prefix_parse inet_pton prefix_string = do {
     a \<leftarrow> ipv6_parse inet_pton (copy_prefix_address prefix_string);
     n \<leftarrow> ip_address_length AF_INET6;
     len \<leftarrow> prefix_len_parse prefix_string (8 * int n);
     ip_to_prefix a len
   }"

text \<open>\<^verbatim>\<open>ADDR_STR_LEN\<close> with the address string lengths 16 and 46 of the C library; the conversion \<open>%d\<close> of
  \<^verbatim>\<open>snprintf\<close>.\<close>

definition ADDR_STR_LEN :: nat where "ADDR_STR_LEN = (16 + 46) + 5"

definition int_string :: "int \<Rightarrow> string" where
  "int_string v = (if v < 0 then CHR ''-'' # dec_string (nat (- v)) else dec_string (nat v))"

definition ip_prefix_to_string :: "ntop \<Rightarrow> ip_prefix \<Rightarrow> string option" where
  "ip_prefix_to_string inet_ntop prefix = do {
     ip_str \<leftarrow> ip_to_string inet_ntop (pfx_ip prefix);
     if length ip_str + 4 + 1 > ADDR_STR_LEN then None
     else do {
       let s = ip_str @ ''/'' @ int_string (prefix_len prefix);
       if length s \<ge> ADDR_STR_LEN then None else Some s
     }
   }"

section \<open>Well-formed addresses\<close>

text \<open>What every operation above produces: sixteen bytes, those behind an IPv4 address zero.\<close>

definition ip_wf :: "ip_address \<Rightarrow> bool" where
  "ip_wf a \<longleftrightarrow> length (ip a) = 16 \<and>
     (case address_family a of
        AF_INET \<Rightarrow> drop 4 (ip a) = replicate 12 0
      | AF_INET6 \<Rightarrow> True
      | AF_UNSPEC \<Rightarrow> False)"

lemma ip_wf_from_ipv4: "length v4 = 4 \<Longrightarrow> ip_wf (ip_from_ipv4 v4)"
  by (simp add: ip_wf_def ip_from_ipv4_def set_ip_def ipv4_init_def)

lemma ip_wf_from_ipv6: "length v6 = 16 \<Longrightarrow> ip_wf (ip_from_ipv6 v6)"
  by (simp add: ip_wf_def ip_from_ipv6_def set_ip_def ipv6_init_def)

lemma ip_from_to_ipv4:
  assumes "ip_wf a" and "address_family a = AF_INET"
  shows "set_ip (ip_to_ipv4 a) ipv4_init = a"
proof -
  have "drop 4 (ip a) = replicate 12 0" "length (ip a) = 16"
    using assms by (simp_all add: ip_wf_def)
  then have "take 4 (ip a) @ replicate 12 0 = ip a"
    by (metis append_take_drop_id)
  then show ?thesis
    using assms by (cases a) (simp add: set_ip_def ip_to_ipv4_def ipv4_init_def ip_wf_def)
qed

lemma ip_from_to_ipv6:
  assumes "ip_wf a" and "address_family a = AF_INET6"
  shows "set_ip (ip_to_ipv6 a) ipv6_init = a"
  using assms by (cases a) (simp add: set_ip_def ip_to_ipv6_def ipv6_init_def ip_wf_def)

lemmas ip_from_to = ip_from_to_ipv4 ip_from_to_ipv6

lemma length_ip_to: "ip_wf a \<Longrightarrow> length (ip_to_ipv4 a) = 4" "ip_wf a \<Longrightarrow> length (ip_to_ipv6 a) = 16"
  by (simp_all add: ip_wf_def ip_to_ipv4_def ip_to_ipv6_def)

text \<open>The comparison of the bytes in use is equality.\<close>

lemma is_equal_ip_iff:
  assumes "ip_wf a" and "ip_wf b"
  shows "is_equal_ip a b = Some (a = b)"
proof (cases "address_family a = address_family b")
  case True
  have v4: "take 4 (ip a) = take 4 (ip b) \<longleftrightarrow> a = b" if "address_family a = AF_INET"
    using that True ip_from_to_ipv4 [OF assms(1)] ip_from_to_ipv4 [OF assms(2)]
    by (metis ip_to_ipv4_def)
  have v6: "take 16 (ip a) = take 16 (ip b) \<longleftrightarrow> a = b" if "address_family a = AF_INET6"
    using that True ip_from_to_ipv6 [OF assms(1)] ip_from_to_ipv6 [OF assms(2)]
    by (metis ip_to_ipv6_def)
  show ?thesis
  proof (cases "address_family a")
    case AF_UNSPEC
    then show ?thesis
      using assms(1) by (simp add: ip_wf_def)
  qed (use True in \<open>simp_all add: is_equal_ip_def ip_address_length_def v4 v6\<close>)
qed (auto simp: is_equal_ip_def)

lemma ipv4_mapped_inverse:
  assumes "ip_wf a4" and "address_family a4 = AF_INET" and "ip_wf a6" and "address_family a6 = AF_INET6"
  shows "ipv6_map_to_ipv4 a6 = Inr a4 \<longleftrightarrow> ipv6_map_from_ipv4 a4 = a6"
proof -
  have len: "length ipv4_mapped_prefix = 12" "length (ip a6) = 16"
    using assms(3) by (simp_all add: ipv4_mapped_prefix_def ip_wf_def)
  have from6: "ipv6_map_from_ipv4 a4 = a6 \<longleftrightarrow> ipv4_mapped_prefix @ ip_to_ipv4 a4 = ip a6"
    using assms(1,4) len length_ip_to(1) [OF assms(1)]
    by (cases a6) (auto simp: ipv6_map_from_ipv4_def set_ip_def ipv6_init_def)
  have to4: "set_ip xs ipv4_init = a4 \<longleftrightarrow> xs = ip_to_ipv4 a4" if "length xs = 4" for xs
    using that assms(1,2) ip_from_to_ipv4 [OF assms(1,2)]
    by (auto simp: set_ip_def ip_to_ipv4_def ipv4_init_def)
  show ?thesis
    unfolding from6 ipv6_map_to_ipv4_def using len length_ip_to(1) [OF assms(1)]
    by (auto simp: to4 append_eq_conv_conj)
qed

text \<open>A netmask of \<open>n\<close> ones gives the prefix length \<open>n\<close>.\<close>

lemma netmask_loop_mask:
  "n \<le> 32 \<Longrightarrow> pos \<le> 32 \<Longrightarrow>
     netmask_loop (push_bit (32 - n) (mask n)) pos k = k + (pos - (32 - n))"
proof (induction pos arbitrary: k)
  case (Suc pos)
  have "bit (push_bit (32 - n) (mask n) :: u32) pos \<longleftrightarrow> 32 - n \<le> pos"
    using Suc.prems by (auto simp: bit_push_bit_iff bit_mask_iff)
  then show ?case
    using Suc by auto
qed simp

lemma netmask_to_prefix_mask:
  assumes "inet_pton AF_INET s = Some (put_unaligned_be32 (push_bit (32 - n) (mask n)))" and "n \<le> 32"
  shows "netmask_to_prefix inet_pton s = Some n"
  using assms netmask_loop_mask [of n 32 0] be32_of_to [of "push_bit (32 - n) (mask n)"]
  by (simp add: netmask_to_prefix_def ipv4_parse_def set_ip_def ipv4_init_def rd32_def nth_append
      numeral_2_eq_2)

section \<open>Properties\<close>

text \<open>An address and port stored in a \<^verbatim>\<open>sockaddr\<close> (a buffer that may be longer) are read back
  unchanged, for both families; the number of bytes written is the length that goes with the family.\<close>

theorem ip_sockaddr_roundtrip:
  assumes "ip_wf a"
  shows "\<exists>sa. ip_to_sockaddr a port = Some sa \<and> sockaddr_length (address_family a) = Some (length sa) \<and>
     (\<forall>rest. ip_from_sockaddr (sa @ rest) (length sa) = Some (a, port))"
proof -
  have rd: "rd16 (x # y # be16_to port @ r) 2 = Some port" for x y r
    using rd_mid0(2) [of "be16_to port" "[x, y]"] be16_of_to [of port] by (simp add: numeral_2_eq_2)
  show ?thesis
  proof (cases "address_family a")
    case AF_INET
    have "rd_bytes (x # y # be16_to port @ ip_to_ipv4 a @ r) 4 4 = Some (ip_to_ipv4 a)" for x y r
      using rd_bytes_mid [of 0 4 "ip_to_ipv4 a" "[x, y] @ be16_to port" r] length_ip_to(1) [OF assms]
      by simp
    then show ?thesis
      using AF_INET assms rd length_ip_to(1) [OF assms]
      by (simp add: ip_to_sockaddr_def ipv4_to_sockaddr_def sockaddr_length_def ip_from_sockaddr_def
          ipv4_from_sockaddr_def sa_family_def rd8_def le16_to_def le16_of_def af_number_def
          be16_of_def rd_bytes_def [of _ 0] ip_from_to_ipv4)
  next
    case AF_INET6
    have "rd_bytes (x # y # be16_to port @ replicate 4 0 @ ip_to_ipv6 a @ r) 8 16 = Some (ip_to_ipv6 a)"
      for x y r
      using rd_bytes_mid [of 0 16 "ip_to_ipv6 a" "[x, y] @ be16_to port @ replicate 4 0" r]
        length_ip_to(2) [OF assms] by simp
    then show ?thesis
      using AF_INET6 assms rd length_ip_to(2) [OF assms]
      by (simp add: ip_to_sockaddr_def ipv6_to_sockaddr_def sockaddr_length_def ip_from_sockaddr_def
          ipv6_from_sockaddr_def sa_family_def rd8_def le16_to_def le16_of_def af_number_def
          be16_of_def rd_bytes_def [of _ 0] ip_from_to_ipv6)
  next
    case AF_UNSPEC
    then show ?thesis
      using assms by (simp add: ip_wf_def)
  qed
qed

theorem ip_sockaddr_roundtrip_witness:
  "\<exists>sa. ip_to_sockaddr (ip_from_ipv4 [192, 0, 2, 1]) 8080 = Some sa \<and>
     ip_from_sockaddr (sa @ [0, 0]) (length sa) = Some (ip_from_ipv4 [192, 0, 2, 1], 8080)"
  using ip_sockaddr_roundtrip [OF ip_wf_from_ipv4 [of "[192, 0, 2, 1]"], of 8080] by fastforce

text \<open>The bits of an address, numbered from the most significant bit of the first byte.\<close>

definition addr_bit :: "bytes \<Rightarrow> nat \<Rightarrow> bool" where
  "addr_bit xs i = bit (xs ! (i div 8)) (7 - i mod 8)"

lemma bit_prefix_mask:
  assumes "0 < bits" and "bits < 8" and "i < 8"
  shows "bit (NOT (push_bit (8 - bits) 1 - 1) :: u8) (7 - i) \<longleftrightarrow> i < bits"
  using assms by (auto simp: bit_not_iff bit_mask_iff mask_eq_exp_minus_1 [symmetric] push_bit_of_1)

lemma octets_less:
  fixes b d :: nat
  assumes "b < 8" and "d < 8"
  shows "8 * a + b < 8 * c + d \<longleftrightarrow> a < c \<or> a = c \<and> b < d"
  using assms by arith

text \<open>The bytes of a normalised address.\<close>

lemma ip_prefix_normalize_bytes:
  assumes wf: "ip_wf a" and pfx: "ip_to_prefix a (int len) = Some prefix"
  obtains xs where "ip_prefix_normalize prefix = Some (prefix\<lparr> pfx_ip := a\<lparr> ip := xs \<rparr> \<rparr>)"
    and "length xs = 16"
    and "\<And>k. k < 16 \<Longrightarrow> xs ! k = (if k < len div 8 then ip a ! k
       else if k = len div 8 \<and> len mod 8 \<noteq> 0 then ip a ! k AND NOT (push_bit (8 - len mod 8) 1 - 1) else 0)"
proof -
  obtain n where n: "ip_address_length (address_family a) = Some n" and le: "len \<le> 8 * n"
    and prefix: "prefix = \<lparr> pfx_ip = a, prefix_len = int len \<rparr>"
    using pfx by (auto simp: ip_to_prefix_def split: bind_splits if_splits)
  have ip: "length (ip a) = 16" "n \<le> 16"
    using wf n by (auto simp: ip_wf_def ip_address_length_def split: address_family.splits)
  have tail: "ip a ! k = 0" if "n \<le> k" "k < 16" for k
  proof (cases "address_family a")
    case AF_INET
    then have "drop 4 (ip a) ! (k - 4) = 0" "n = 4"
      using wf n that by (simp_all add: ip_wf_def ip_address_length_def)
    then show ?thesis
      using that ip by simp
  qed (use n that in \<open>simp_all add: ip_address_length_def\<close>)
  define q where "q = len div 8"
  define r where "r = len mod 8"
  define ys where "ys = (if r \<noteq> 0 then (ip a)[q := ip a ! q AND NOT (push_bit (8 - r) 1 - 1)] else ip a)"
  define m where "m = (if r \<noteq> 0 then q + 1 else q)"
  have len: "len = 8 * q + r"
    by (simp add: q_def r_def)
  then have mn: "m \<le> n" and qn: "r \<noteq> 0 \<Longrightarrow> q < 16"
    using le ip(2) by (auto simp: m_def)
  have ys: "length ys = 16"
    using ip by (simp add: ys_def)
  obtain xs where xs: "wr_bytes ys m (replicate (n - m) 0) = Some xs"
    using mn ip ys by (simp add: wr_bytes_def)
  have "ip_prefix_normalize prefix = Some (prefix\<lparr> pfx_ip := a\<lparr> ip := xs \<rparr> \<rparr>)"
    using n mn xs ip(1) qn
    by (simp add: ip_prefix_normalize_def prefix q_def [symmetric] r_def [symmetric] nat_div_distrib
        nat_mod_distrib rd8_def wr8_def wr_bytes_def [of "ip a"] ys_def m_def upd_conv_take_nth_drop
        flip: zdiv_int zmod_int split: if_splits)
  moreover have "xs ! k = (if k < q then ip a ! k
       else if k = q \<and> r \<noteq> 0 then ip a ! k AND NOT (push_bit (8 - r) 1 - 1) else 0)" if "k < 16" for k
    using that wr_bytes_nth [OF xs, of k] ys ip mn qn tail [of k]
    by (auto simp: ys_def m_def nth_list_update split: if_splits)
  ultimately show ?thesis
    using that [of xs] wr_bytes_length [OF xs] ys by (simp add: q_def r_def)
qed

lemma normalize_addr_bits:
  assumes "ip_wf a" and "ip_to_prefix a (int len) = Some prefix"
  shows "\<exists>xs. ip_prefix_normalize prefix = Some (prefix\<lparr> pfx_ip := a\<lparr> ip := xs \<rparr> \<rparr>) \<and>
     length xs = 16 \<and> (\<forall>i < 128. addr_bit xs i = (i < len \<and> addr_bit (ip a) i))"
proof -
  obtain xs where xs: "ip_prefix_normalize prefix = Some (prefix\<lparr> pfx_ip := a\<lparr> ip := xs \<rparr> \<rparr>)"
      "length xs = 16"
    and nth: "\<And>k. k < 16 \<Longrightarrow> xs ! k = (if k < len div 8 then ip a ! k
       else if k = len div 8 \<and> len mod 8 \<noteq> 0 then ip a ! k AND NOT (push_bit (8 - len mod 8) 1 - 1) else 0)"
    by (rule ip_prefix_normalize_bytes [OF assms]) (rule that)
  have "addr_bit xs i = (i < len \<and> addr_bit (ip a) i)" if "i < 128" for i
  proof -
    have "i < len \<longleftrightarrow> i div 8 < len div 8 \<or> i div 8 = len div 8 \<and> i mod 8 < len mod 8"
      using octets_less [of "i mod 8" "len mod 8" "i div 8" "len div 8"] by simp
    then show ?thesis
      using that nth [of "i div 8"] bit_prefix_mask [of "len mod 8" "i mod 8"]
      by (auto simp: addr_bit_def bit_and_iff)
  qed
  with xs show ?thesis
    by blast
qed

text \<open>Normalising a prefix keeps the bits of the address within the prefix length, clears the others
  and changes nothing else.\<close>

theorem ip_prefix_normalize_bits:
  assumes "ip_wf a" and "ip_to_prefix a (int len) = Some prefix"
  shows "\<exists>xs. ip_prefix_normalize prefix = Some (prefix\<lparr> pfx_ip := a\<lparr> ip := xs \<rparr> \<rparr>) \<and>
     length xs = 16 \<and> (\<forall>i < 128. addr_bit xs i = (i < len \<and> addr_bit (ip a) i))"
  by (rule normalize_addr_bits [OF assms])

theorem ip_prefix_normalize_bits_witness:
  "\<exists>xs. ip_prefix_normalize \<lparr> pfx_ip = ip_from_ipv4 [10, 1, 2, 3], prefix_len = 12 \<rparr> =
       Some \<lparr> pfx_ip = \<lparr> address_family = AF_INET, ip = xs \<rparr>, prefix_len = 12 \<rparr> \<and> \<not> addr_bit xs 15"
proof -
  have "ip_to_prefix (ip_from_ipv4 [10, 1, 2, 3]) (int 12) =
      Some \<lparr> pfx_ip = ip_from_ipv4 [10, 1, 2, 3], prefix_len = 12 \<rparr>"
    by (simp add: ip_to_prefix_def ip_address_length_def ip_from_ipv4_def ipv4_init_def set_ip_def)
  then show ?thesis
    using ip_prefix_normalize_bits [OF ip_wf_from_ipv4 [of "[10, 1, 2, 3]"], of 12]
    by (fastforce simp: ip_from_ipv4_def ipv4_init_def set_ip_def)
qed

text \<open>A prefix that is printed is parsed back, provided that \<^verbatim>\<open>inet_pton\<close> reads what \<^verbatim>\<open>inet_ntop\<close>
  prints, and that \<^verbatim>\<open>inet_ntop\<close> prints no slash and at most the 45 characters of an IPv6 address.\<close>

theorem ip_prefix_text_roundtrip:
  assumes "ip_wf a" and "ip_to_prefix a (int len) = Some prefix"
    and "inet_ntop (address_family a) (ip a) = Some s" and "CHR ''/'' \<notin> set s" and "length s < 46"
    and "inet_pton (address_family a) s = Some
       (if address_family a = AF_INET then ip_to_ipv4 a else ip_to_ipv6 a)"
  shows "\<exists>t. ip_prefix_to_string inet_ntop prefix = Some t \<and>
     (if address_family a = AF_INET then ipv4_prefix_parse else ipv6_prefix_parse) inet_pton t = Some prefix"
proof -
  obtain n where n: "ip_address_length (address_family a) = Some n" and le: "len \<le> 8 * n"
    and prefix: "prefix = \<lparr> pfx_ip = a, prefix_len = int len \<rparr>"
    using assms(2) by (auto simp: ip_to_prefix_def split: bind_splits if_splits)
  have n16: "len \<le> 128"
    using n le by (auto simp: ip_address_length_def split: address_family.splits)
  define t where "t = s @ ''/'' @ dec_string len"
  have "length (dec_string len) \<le> 3"
    using n16 dec_string.simps [of len] dec_string.simps [of "len div 10"]
      dec_string.simps [of "len div 10 div 10"] by simp
  then have print: "ip_prefix_to_string inet_ntop prefix = Some t"
    using assms(3,5)
    by (simp add: ip_prefix_to_string_def ip_to_string_def prefix ADDR_STR_LEN_def int_string_def t_def)
  have addr: "copy_prefix_address t = s"
    using assms(4) unfolding copy_prefix_address_def t_def
    by (subst takeWhile_append2) auto
  have "dropWhile (\<lambda>c. c \<noteq> CHR ''/'') t = CHR ''/'' # dec_string len"
    using assms(4) unfolding t_def by (subst dropWhile_append2) auto
  then have parse: "prefix_len_parse t m = Some (int len)" if "int len \<le> m" for m
    using that n16 strtol_dec_string [of len "[]"]
    by (simp add: prefix_len_parse_def to_int_small Let_def)
  have "(if address_family a = AF_INET then ipv4_prefix_parse else ipv6_prefix_parse) inet_pton t = Some prefix"
  proof (cases "address_family a")
    case AF_UNSPEC
    then show ?thesis
      using assms(1) by (simp add: ip_wf_def)
  qed (use assms(1,2,6) addr parse le n ip_from_to [of a] in
      \<open>simp_all add: ipv4_prefix_parse_def ipv6_prefix_parse_def ipv4_parse_def ipv6_parse_def
        ip_address_length_def\<close>)
  with print show ?thesis
    by blast
qed

theorem ip_prefix_text_roundtrip_witness:
  "\<exists>t. ip_prefix_to_string (\<lambda>_ _. Some ''10.0.0.1'') \<lparr> pfx_ip = ip_from_ipv4 [10, 0, 0, 1], prefix_len = 8 \<rparr> = Some t \<and>
     ipv4_prefix_parse (\<lambda>_ _. Some [10, 0, 0, 1]) t =
       Some \<lparr> pfx_ip = ip_from_ipv4 [10, 0, 0, 1], prefix_len = 8 \<rparr>"
proof -
  have a: "address_family (ip_from_ipv4 [10, 0, 0, 1]) = AF_INET"
      "ip_to_ipv4 (ip_from_ipv4 [10, 0, 0, 1]) = [10, 0, 0, 1]"
    by (simp_all add: ip_from_ipv4_def ipv4_init_def set_ip_def ip_to_ipv4_def)
  have "ip_to_prefix (ip_from_ipv4 [10, 0, 0, 1]) (int 8) =
      Some \<lparr> pfx_ip = ip_from_ipv4 [10, 0, 0, 1], prefix_len = 8 \<rparr>"
    by (simp add: ip_to_prefix_def ip_address_length_def a)
  then show ?thesis
    using ip_prefix_text_roundtrip [OF ip_wf_from_ipv4 [of "[10, 0, 0, 1]"], of 8 _
        "\<lambda>_ _. Some ''10.0.0.1''" "''10.0.0.1''" "\<lambda>_ _. Some [10, 0, 0, 1]"]
    by (simp add: a)
qed

end
