(* ===== verification/Hash.thy ===== *)
theory Hash
  imports Pd_Prelude
begin

text \<open>
  \<^verbatim>\<open>hash.c\<close>: MurmurHash3 in its 32-bit form, the only one of the three variants the program calls
  (from \<^verbatim>\<open>hash_map.c\<close>). On 4-byte keys every stage of it can be undone, so it has no
  collisions.
\<close>

section \<open>The code\<close>

definition rotl32 :: "u32 \<Rightarrow> nat \<Rightarrow> u32" where
  "rotl32 x r = push_bit r x OR drop_bit (32 - r) x"

definition fmix_32 :: "u32 \<Rightarrow> u32" where
  "fmix_32 h0 =
     (let h1 = h0 XOR drop_bit 16 h0;
          h2 = h1 * 0x85ebca6b;
          h3 = h2 XOR drop_bit 13 h2;
          h4 = h3 * 0xc2b2ae35
      in h4 XOR drop_bit 16 h4)"

definition murmur_c1 :: u32 where "murmur_c1 = 0xcc9e2d51"

definition murmur_c2 :: u32 where "murmur_c2 = 0x1b873593"

text \<open>The body of the block loop.\<close>

definition murmur_block :: "u32 \<Rightarrow> u32 \<Rightarrow> u32" where
  "murmur_block h1 k =
     (let k1 = rotl32 (k * murmur_c1) 15 * murmur_c2
      in rotl32 (h1 XOR k1) 13 * 5 + 0xe6546b64)"

text \<open>The loop over the 4-byte blocks: the accumulator and the remaining tail bytes.\<close>

fun murmur_body :: "bytes \<Rightarrow> u32 \<Rightarrow> u32 \<times> bytes" where
  "murmur_body (a # b # c # d # xs) h1 = murmur_body xs (murmur_block h1 (le32_of a b c d))"
| "murmur_body xs h1 = (h1, xs)"

text \<open>The \<^verbatim>\<open>switch\<close> on \<^verbatim>\<open>len & 3\<close>, which falls through from case 3 to case 1.\<close>

fun murmur_tail :: "bytes \<Rightarrow> u32 \<Rightarrow> u32" where
  "murmur_tail [] h1 = h1"
| "murmur_tail (t0 # ts) h1 =
     (let k1 = 0;
          k1 = (if length ts \<ge> 2 then k1 XOR push_bit 16 (ucast (ts ! 1)) else k1);
          k1 = (if length ts \<ge> 1 then k1 XOR push_bit 8 (ucast (ts ! 0)) else k1);
          k1 = k1 XOR ucast t0
      in h1 XOR rotl32 (k1 * murmur_c1) 15 * murmur_c2)"

definition MurmurHash3_x86_32 :: "bytes \<Rightarrow> u32 \<Rightarrow> u32" where
  "MurmurHash3_x86_32 key seed =
     (let (h1, tail) = murmur_body key seed;
          h1 = murmur_tail tail h1
      in fmix_32 (h1 XOR of_nat (length key)))"

section \<open>Every stage is injective\<close>

lemma xorshift_inj:
  fixes x y :: u32
  assumes "0 < n" and "x XOR drop_bit n x = y XOR drop_bit n y"
  shows "x = y"
proof (rule bit_word_eqI)
  fix k assume "k < LENGTH(32)"
  have eq: "(bit x m \<noteq> bit x (n + m)) = (bit y m \<noteq> bit y (n + m))" for m
  proof -
    have "bit (x XOR drop_bit n x) m = bit (y XOR drop_bit n y) m"
      by (simp only: assms(2))
    then show ?thesis
      by (simp add: bit_xor_iff bit_drop_bit_eq)
  qed
  show "bit x k = bit y k"
  proof (induction "32 - k" arbitrary: k rule: less_induct)
    case less
    show ?case
    proof (cases "k < 32")
      case True
      then have "32 - (n + k) < 32 - k"
        using assms(1) by simp
      with less have "bit x (n + k) = bit y (n + k)" by blast
      with eq [of k] show ?thesis by blast
    next
      case False
      then have "\<not> bit x k" "\<not> bit y k"
        by (auto dest: bit_imp_le_length)
      then show ?thesis by simp
    qed
  qed
qed

lemma mult_inj:
  fixes x y c d :: u32
  assumes "c * d = 1" and "x * c = y * c"
  shows "x = y"
proof -
  have "x * c * d = y * c * d"
    by (simp only: assms(2))
  then show ?thesis
    by (simp add: mult.assoc assms(1))
qed

lemma rotl32_inj:
  assumes "0 < r" "r < 32" and "rotl32 x r = rotl32 y r"
  shows "x = y"
proof (rule bit_word_eqI)
  fix k assume k: "k < LENGTH(32)"
  let ?j = "if k + r < 32 then k + r else k + r - 32"
  have "bit (rotl32 z r) ?j = bit z k" for z
    using assms(1,2) k by (auto simp: rotl32_def bit_simps dest: bit_imp_le_length)
  with assms(3) show "bit x k = bit y k"
    by metis
qed

lemma fmix_32_inj: "fmix_32 x = fmix_32 y \<Longrightarrow> x = y"
  unfolding fmix_32_def Let_def
  by (drule xorshift_inj [rotated], simp, drule mult_inj [where d = "0x7ed1b41d", rotated], simp,
      drule xorshift_inj [rotated], simp, drule mult_inj [where d = "0xa5cb9243", rotated], simp,
      drule xorshift_inj [rotated], simp, assumption)

lemma xor_left_cancel: "h XOR x = h XOR y \<longleftrightarrow> x = (y :: u32)"
  by (auto simp: bit_eq_iff bit_xor_iff)

lemma murmur_block_inj: "murmur_block h x = murmur_block h y \<Longrightarrow> x = y"
proof -
  assume "murmur_block h x = murmur_block h y"
  then have "rotl32 (h XOR rotl32 (x * murmur_c1) 15 * murmur_c2) 13 * 5 =
      rotl32 (h XOR rotl32 (y * murmur_c1) 15 * murmur_c2) 13 * 5"
    by (simp add: murmur_block_def)
  then have "h XOR rotl32 (x * murmur_c1) 15 * murmur_c2 = h XOR rotl32 (y * murmur_c1) 15 * murmur_c2"
    by - (rule rotl32_inj [where r = 13, OF _ _ mult_inj [where c = 5 and d = "0xcccccccd"]], simp_all)
  then have "rotl32 (x * murmur_c1) 15 * murmur_c2 = rotl32 (y * murmur_c1) 15 * murmur_c2"
    by (simp only: xor_left_cancel)
  then have "x * murmur_c1 = y * murmur_c1"
    by - (rule rotl32_inj [where r = 15, OF _ _ mult_inj [where c = murmur_c2 and d = "0x56ed309b"]],
      simp_all add: murmur_c2_def)
  then show "x = y"
    by (rule mult_inj [rotated, where d = "0xdee13bb1"]) (simp add: murmur_c1_def)
qed

lemma MurmurHash3_4_bytes:
  "MurmurHash3_x86_32 [a, b, c, d] seed = fmix_32 (murmur_block seed (le32_of a b c d) XOR 4)"
  by (simp add: MurmurHash3_x86_32_def)

text \<open>MurmurHash3 restricted to 4-byte keys is injective for every seed: two different keys of
  the hash map never share their full 32-bit hash.\<close>

theorem MurmurHash3_x86_32_injective_4:
  assumes "length k = 4" and "length k' = 4"
    and "MurmurHash3_x86_32 k seed = MurmurHash3_x86_32 k' seed"
  shows "k = k'"
proof -
  obtain a b c d where k: "k = [a, b, c, d]"
    using assms(1) by (auto simp: length_Suc_conv eval_nat_numeral)
  obtain a' b' c' d' where k': "k' = [a', b', c', d']"
    using assms(2) by (auto simp: length_Suc_conv eval_nat_numeral)
  have "murmur_block seed (le32_of a b c d) XOR 4 = murmur_block seed (le32_of a' b' c' d') XOR 4"
    using assms(3) unfolding k k' MurmurHash3_4_bytes by (rule fmix_32_inj)
  then have "murmur_block seed (le32_of a b c d) = murmur_block seed (le32_of a' b' c' d')"
    by (simp only: xor.commute [of _ 4] xor_left_cancel)
  then have "le32_of a b c d = le32_of a' b' c' d'"
    by (rule murmur_block_inj)
  then show ?thesis
    by (simp add: k k' le32_of_def be32_of_inj)
qed

theorem MurmurHash3_x86_32_injective_4_witness:
  "MurmurHash3_x86_32 [1, 0, 0, 0] 0 \<noteq> MurmurHash3_x86_32 [0, 0, 0, 1] 0"
  using MurmurHash3_x86_32_injective_4 [of "[1, 0, 0, 0]" "[0, 0, 0, 1]" 0] by auto

end
