(* ===== verification/Hash_Map.thy ===== *)
theory Hash_Map
  imports Hash "HOL-Library.Multiset"
begin

text \<open>
  \<^verbatim>\<open>hash_map.c\<close>: the growable hash table from \<^typ>\<open>u32\<close> to \<^typ>\<open>u32\<close> that remembers how the script's
  TCP timestamp values map to live ones. A bucket is the list of the nodes of its chain, head
  first. The locale \<open>u32_map\<close> is the contract clients rely on; its interpretation discharges it
  for this table, growth included.
\<close>

section \<open>The interface\<close>

locale u32_map =
  fixes fresh :: "nat \<Rightarrow> 'm"
    and put :: "'m \<Rightarrow> u32 \<Rightarrow> u32 \<Rightarrow> 'm"
    and fetch :: "'m \<Rightarrow> u32 \<Rightarrow> u32 option"
    and wf :: "'m \<Rightarrow> bool"
  assumes wf_fresh: "wf (fresh n)"
    and wf_put: "wf m \<Longrightarrow> wf (put m k v)"
    and fetch_fresh: "fetch (fresh n) k = None"
    and fetch_put: "wf m \<Longrightarrow> fetch (put m k v) k' = (if k' = k then Some v else fetch m k')"
begin

text \<open>Any sequence of updates behaves like the same updates on a partial function.\<close>

lemma wf_puts: "wf m \<Longrightarrow> wf (foldl (\<lambda>m (k, v). put m k v) m kvs)"
  by (induction kvs arbitrary: m) (auto intro: wf_put)

lemma fetch_puts:
  "wf m \<Longrightarrow> fetch (foldl (\<lambda>m (k, v). put m k v) m kvs) k =
     (case map_of (rev kvs) k of None \<Rightarrow> fetch m k | Some v \<Rightarrow> Some v)"
proof (induction kvs rule: rev_induct)
  case (snoc kv kvs)
  then show ?case
    by (cases kv) (simp add: fetch_put wf_puts)
qed simp

lemma fetch_history: "fetch (foldl (\<lambda>m (k, v). put m k v) (fresh n) kvs) k = map_of (rev kvs) k"
  by (simp add: fetch_puts wf_fresh fetch_fresh split: option.split)

end

section \<open>The code\<close>

type_synonym hash_node = "u32 \<times> u32"

record hash_map =
  num_keys :: nat
  num_buckets :: nat
  bucket_mask :: nat
  buckets :: "hash_node list list"

definition MAX_BUCKETS :: nat where
  "MAX_BUCKETS = 2 ^ 30"

text \<open>The key is hashed through its 4 bytes in memory, in host order.\<close>

definition hash_key :: "u32 \<Rightarrow> nat" where
  "hash_key key = unat (MurmurHash3_x86_32 (rev (put_unaligned_be32 key)) 0)"

definition hash_bucket_num :: "hash_map \<Rightarrow> u32 \<Rightarrow> nat" where
  "hash_bucket_num m key = hash_key key AND bucket_mask m"

lemma exp_below_MAX_BUCKETS: "2 ^ e < MAX_BUCKETS \<Longrightarrow> e < 30"
  unfolding MAX_BUCKETS_def by (rule power_less_imp_less_exp [of 2]) simp

text \<open>The doubling loop, on the exponent: \<^verbatim>\<open>buckets\<close> is \<^term>\<open>(2 :: nat) ^ e\<close>.\<close>

function pick_bucket_loop :: "nat \<Rightarrow> nat \<Rightarrow> nat" where
  "pick_bucket_loop n e =
     (if 2 ^ e < n \<and> 2 ^ e < MAX_BUCKETS then pick_bucket_loop n (Suc e) else 2 ^ e)"
  by pat_completeness auto
termination
  by (relation "measure (\<lambda>(n, e). 30 - e)") (auto dest: exp_below_MAX_BUCKETS)

declare pick_bucket_loop.simps [simp del]

definition hash_map_pick_bucket_count :: "nat \<Rightarrow> nat" where
  "hash_map_pick_bucket_count n = pick_bucket_loop n 0"

definition hash_map_new :: "nat \<Rightarrow> hash_map" where
  "hash_map_new n =
     (let b = hash_map_pick_bucket_count n
      in \<lparr>num_keys = 0, num_buckets = b, bucket_mask = b - 1, buckets = replicate b []\<rparr>)"

definition hash_map_link :: "hash_map \<Rightarrow> hash_node \<Rightarrow> hash_map" where
  "hash_map_link m node =
     (let i = hash_bucket_num m (fst node)
      in m\<lparr>buckets := (buckets m)[i := node # buckets m ! i]\<rparr>)"

definition hash_map_grow :: "hash_map \<Rightarrow> hash_map" where
  "hash_map_grow m =
     (let n = num_buckets m * 2;
          m' = m\<lparr>num_buckets := n, bucket_mask := n - 1, buckets := replicate n []\<rparr>
      in foldl hash_map_link m' (concat (buckets m)))"

definition hash_map_insert :: "hash_map \<Rightarrow> u32 \<Rightarrow> u32 \<Rightarrow> hash_map" where
  "hash_map_insert m key val =
     (let m = (if num_keys m \<ge> num_buckets m \<and> num_buckets m < MAX_BUCKETS then hash_map_grow m else m);
          m = m\<lparr>num_keys := num_keys m + 1\<rparr>
      in hash_map_link m (key, val))"

text \<open>The chain walk of \<^verbatim>\<open>hash_map_set\<close>: the first node with the key gets the new value.\<close>

fun chain_set :: "hash_node list \<Rightarrow> u32 \<Rightarrow> u32 \<Rightarrow> hash_node list option" where
  "chain_set [] key val = None"
| "chain_set ((k, v) # ns) key val =
     (if k = key then Some ((k, val) # ns) else map_option (Cons (k, v)) (chain_set ns key val))"

definition hash_map_set :: "hash_map \<Rightarrow> u32 \<Rightarrow> u32 \<Rightarrow> hash_map" where
  "hash_map_set m key val =
     (let i = hash_bucket_num m key
      in case chain_set (buckets m ! i) key val of
           Some ns \<Rightarrow> m\<lparr>buckets := (buckets m)[i := ns]\<rparr>
         | None \<Rightarrow> hash_map_insert m key val)"

fun chain_get :: "hash_node list \<Rightarrow> u32 \<Rightarrow> u32 option" where
  "chain_get [] key = None"
| "chain_get ((k, v) # ns) key = (if k = key then Some v else chain_get ns key)"

definition hash_map_get :: "hash_map \<Rightarrow> u32 \<Rightarrow> u32 option" where
  "hash_map_get m key = chain_get (buckets m ! hash_bucket_num m key) key"

section \<open>The invariant\<close>

text \<open>Shape: the bucket array has the power of two of entries that the mask selects from. Every node
  sits in the bucket its key hashes to and no key occurs twice. The key count is the number of nodes
  and within the target load factor of 1 until the table has its maximal size.\<close>

definition hash_map_shape :: "hash_map \<Rightarrow> bool" where
  "hash_map_shape m \<longleftrightarrow>
     (\<exists>e \<le> 30. num_buckets m = 2 ^ e) \<and> bucket_mask m = num_buckets m - 1 \<and>
     length (buckets m) = num_buckets m"

definition hash_map_placed :: "hash_map \<Rightarrow> bool" where
  "hash_map_placed m \<longleftrightarrow>
     (\<forall>i < length (buckets m). \<forall>n \<in> set (buckets m ! i). hash_bucket_num m (fst n) = i) \<and>
     distinct (map fst (concat (buckets m)))"

definition hash_map_ok :: "hash_map \<Rightarrow> bool" where
  "hash_map_ok m \<longleftrightarrow> hash_map_shape m \<and> hash_map_placed m \<and>
     num_keys m = length (concat (buckets m)) \<and>
     (num_keys m \<le> num_buckets m \<or> num_buckets m = MAX_BUCKETS)"

lemma placed_bucket:
  "hash_map_placed m \<Longrightarrow> i < length (buckets m) \<Longrightarrow> n \<in> set (buckets m ! i) \<Longrightarrow>
     hash_bucket_num m (fst n) = i"
  by (simp add: hash_map_placed_def)

lemma shape_pos: "hash_map_shape m \<Longrightarrow> 0 < num_buckets m"
  by (metis hash_map_shape_def zero_less_numeral zero_less_power)

lemma shape_le_MAX: "hash_map_shape m \<Longrightarrow> num_buckets m \<le> MAX_BUCKETS"
  unfolding hash_map_shape_def MAX_BUCKETS_def by (metis one_le_numeral power_increasing)

lemma bucket_num_less:
  assumes "hash_map_shape m"
  shows "hash_bucket_num m key < length (buckets m)"
proof -
  obtain e where e: "num_buckets m = 2 ^ e"
    using assms by (auto simp: hash_map_shape_def)
  then have "bucket_mask m = mask e"
    using assms by (simp add: hash_map_shape_def mask_eq_exp_minus_1)
  then have "hash_bucket_num m key = take_bit e (hash_key key)"
    by (simp add: hash_bucket_num_def take_bit_eq_mask)
  then show ?thesis
    using assms e by (simp add: hash_map_shape_def)
qed

text \<open>The table as a partial function: its nodes, in any order, since keys are distinct.\<close>

lemma chain_get_map_of: "chain_get ns key = map_of ns key"
  by (induction ns key rule: chain_get.induct) simp_all

lemma hash_map_get_nodes:
  assumes "hash_map_shape m" and "hash_map_placed m"
  shows "hash_map_get m key = map_of (concat (buckets m)) key"
proof -
  let ?i = "hash_bucket_num m key" and ?ns = "concat (buckets m)"
  have i: "?i < length (buckets m)"
    using assms(1) by (rule bucket_num_less)
  have "map_of (buckets m ! ?i) key = map_of ?ns key"
  proof (cases "map_of ?ns key")
    case None
    then have "key \<notin> fst ` set (buckets m ! ?i)"
      using i by (force simp: map_of_eq_None_iff dest: nth_mem)
    then have "map_of (buckets m ! ?i) key = None"
      by (simp add: map_of_eq_None_iff)
    with None show ?thesis by simp
  next
    case (Some v)
    then have "(key, v) \<in> set ?ns"
      by (rule map_of_SomeD)
    then obtain ns where "ns \<in> set (buckets m)" "(key, v) \<in> set ns"
      by auto
    then obtain j where j: "j < length (buckets m)" "(key, v) \<in> set (buckets m ! j)"
      by (auto simp: in_set_conv_nth [of ns])
    then have "j = ?i"
      using assms(2) placed_bucket [of m j "(key, v)"] by simp
    moreover have "distinct (map fst (buckets m ! ?i))"
      using assms(2) i by (auto simp: hash_map_placed_def map_concat distinct_concat_iff)
    ultimately show ?thesis
      using j Some by simp
  qed
  then show ?thesis
    by (simp add: hash_map_get_def chain_get_map_of)
qed

lemma map_of_mset:
  assumes "distinct (map fst xs)" and "mset xs = mset ys"
  shows "map_of xs = map_of ys"
proof (rule map_of_inject_set [THEN iffD2])
  show "distinct (map fst xs)" by fact
  have "mset (map fst xs) = mset (map fst ys)"
    using assms(2) by simp
  then show "distinct (map fst ys)"
    using assms(1) by (metis mset_eq_imp_distinct_iff)
  show "set xs = set ys"
    using assms(2) by (rule mset_eq_setD)
qed

section \<open>Linking and growing\<close>

lemma mset_concat_cons:
  "i < length xss \<Longrightarrow> mset (concat (xss[i := x # xss ! i])) = add_mset x (mset (concat xss))"
  by (induction xss arbitrary: i) (auto simp: less_Suc_eq_0_disj)

lemma bucket_num_cong: "bucket_mask m = bucket_mask m' \<Longrightarrow> hash_bucket_num m key = hash_bucket_num m' key"
  by (simp add: hash_bucket_num_def)

lemma link_fields [simp]:
  "num_keys (hash_map_link m n) = num_keys m" "num_buckets (hash_map_link m n) = num_buckets m"
  "bucket_mask (hash_map_link m n) = bucket_mask m"
  by (simp_all add: hash_map_link_def Let_def)

lemma link_shape: "hash_map_shape m \<Longrightarrow> hash_map_shape (hash_map_link m n)"
  by (simp add: hash_map_shape_def hash_map_link_def Let_def)

lemma link_nodes:
  "hash_map_shape m \<Longrightarrow>
     mset (concat (buckets (hash_map_link m n))) = add_mset n (mset (concat (buckets m)))"
  using bucket_num_less [of m "fst n"]
  by (simp add: hash_map_link_def Let_def mset_concat_cons del: mset_concat)

lemma distinct_fst_mset: "mset xs = mset ys \<Longrightarrow> distinct (map fst xs) \<longleftrightarrow> distinct (map fst ys)"
  by (metis mset_eq_imp_distinct_iff mset_map)

lemma link_placed:
  assumes "hash_map_shape m" and "hash_map_placed m" and "fst n \<notin> fst ` set (concat (buckets m))"
  shows "hash_map_placed (hash_map_link m n)"
proof -
  have "distinct (map fst (concat (buckets (hash_map_link m n)))) \<longleftrightarrow>
      distinct (map fst (n # concat (buckets m)))"
    using link_nodes [OF assms(1)] by (intro distinct_fst_mset) simp
  moreover have "hash_bucket_num (hash_map_link m n) = hash_bucket_num m"
    by (rule ext, rule bucket_num_cong) simp
  ultimately show ?thesis
    using assms(2,3) bucket_num_less [OF assms(1), of "fst n"]
    by (auto simp: hash_map_placed_def hash_map_link_def Let_def nth_list_update)
qed

lemma links:
  assumes "hash_map_shape m" and "hash_map_placed m"
    and "distinct (map fst ns)" and "fst ` set ns \<inter> fst ` set (concat (buckets m)) = {}"
  shows "hash_map_shape (foldl hash_map_link m ns) \<and> hash_map_placed (foldl hash_map_link m ns) \<and>
    mset (concat (buckets (foldl hash_map_link m ns))) = mset ns + mset (concat (buckets m)) \<and>
    num_keys (foldl hash_map_link m ns) = num_keys m \<and>
    num_buckets (foldl hash_map_link m ns) = num_buckets m"
  using assms
proof (induction ns arbitrary: m)
  case (Cons n ns)
  let ?m = "hash_map_link m n"
  have nodes: "mset (concat (buckets ?m)) = add_mset n (mset (concat (buckets m)))"
    using Cons.prems(1) by (rule link_nodes)
  then have "set (concat (buckets ?m)) = insert n (set (concat (buckets m)))"
    by (metis set_mset_add_mset_insert set_mset_mset)
  then have disj: "fst ` set ns \<inter> fst ` set (concat (buckets ?m)) = {}"
    using Cons.prems(3,4) by auto
  have "hash_map_placed ?m"
    using Cons.prems by (intro link_placed) auto
  with Cons.IH [OF link_shape [OF Cons.prems(1)] _ _ disj] Cons.prems(3) nodes
  show ?case
    by simp
qed simp

lemma grow_ok:
  assumes ok: "hash_map_ok m" and small: "num_buckets m < MAX_BUCKETS"
  shows "hash_map_shape (hash_map_grow m) \<and> hash_map_placed (hash_map_grow m) \<and>
    mset (concat (buckets (hash_map_grow m))) = mset (concat (buckets m)) \<and>
    num_keys (hash_map_grow m) = num_keys m \<and> num_buckets (hash_map_grow m) = 2 * num_buckets m"
proof -
  obtain e where e: "num_buckets m = 2 ^ e"
    using ok by (auto simp: hash_map_ok_def hash_map_shape_def)
  with small have "Suc e \<le> 30"
    using exp_below_MAX_BUCKETS by (simp add: Suc_le_eq)
  define m' where "m' = m\<lparr>num_buckets := num_buckets m * 2, bucket_mask := num_buckets m * 2 - 1,
    buckets := replicate (num_buckets m * 2) []\<rparr>"
  have "num_buckets m * 2 = 2 ^ Suc e"
    using e by simp
  then have "hash_map_shape m'"
    using \<open>Suc e \<le> 30\<close> unfolding hash_map_shape_def m'_def
    by (intro conjI exI [of _ "Suc e"]) simp_all
  moreover have "hash_map_placed m'" "concat (buckets m') = []"
    by (simp_all add: hash_map_placed_def m'_def concat_eq_Nil_conv)
  moreover have "hash_map_grow m = foldl hash_map_link m' (concat (buckets m))"
    by (simp add: hash_map_grow_def m'_def Let_def)
  ultimately show ?thesis
    using links [of m' "concat (buckets m)"] ok
    by (simp add: hash_map_ok_def hash_map_placed_def m'_def del: mset_concat)
qed

section \<open>Setting a key\<close>

lemma chain_set_None: "chain_set ns key val = None \<longleftrightarrow> key \<notin> fst ` set ns"
  by (induction ns key val rule: chain_set.induct) auto

lemma chain_set_Some:
  "chain_set ns key val = Some ns' \<Longrightarrow>
     map fst ns' = map fst ns \<and> map_of ns' = (map_of ns)(key \<mapsto> val)"
  by (induction ns key val arbitrary: ns' rule: chain_set.induct) (auto split: if_splits)

lemma set_present:
  assumes ok: "hash_map_ok m" and ns: "chain_set (buckets m ! hash_bucket_num m key) key val = Some ns"
  shows "hash_map_ok (hash_map_set m key val) \<and>
    hash_map_get (hash_map_set m key val) k = (if k = key then Some val else hash_map_get m k)"
proof -
  let ?i = "hash_bucket_num m key" and ?m = "hash_map_set m key val"
  have m': "?m = m\<lparr>buckets := (buckets m)[?i := ns]\<rparr>"
    using ns by (simp add: hash_map_set_def Let_def)
  have i: "?i < length (buckets m)"
    using ok by (simp add: hash_map_ok_def bucket_num_less)
  have fsts: "map fst ns = map fst (buckets m ! ?i)"
    using chain_set_Some [OF ns] by simp
  then have "map (map fst) (buckets ?m) = map (map fst) (buckets m)"
    by (metis (no_types, lifting) m' hash_map.select_convs(4) hash_map.surjective
        hash_map.update_convs(4) list_update_id map_update)
  then have keys: "map fst (concat (buckets ?m)) = map fst (concat (buckets m))"
    by (simp add: map_concat)
  then have len: "length (concat (buckets ?m)) = length (concat (buckets m))"
    by (metis length_map)
  have num: "hash_bucket_num ?m = hash_bucket_num m"
    by (rule ext, rule bucket_num_cong) (simp add: m')
  have "\<forall>n \<in> set ns. hash_bucket_num m (fst n) = ?i"
  proof
    fix n assume "n \<in> set ns"
    then have "fst n \<in> set (map fst (buckets m ! ?i))"
      using fsts by (metis image_eqI list.set_map)
    then obtain n' where "n' \<in> set (buckets m ! ?i)" "fst n' = fst n"
      by force
    then show "hash_bucket_num m (fst n) = ?i"
      using ok i placed_bucket [of m ?i n'] by (simp add: hash_map_ok_def)
  qed
  then have "hash_map_placed ?m"
    using ok i keys num by (auto simp: hash_map_ok_def hash_map_placed_def m' nth_list_update)
  then have "hash_map_ok ?m"
    using ok len by (auto simp: hash_map_ok_def hash_map_shape_def m')
  moreover have "hash_map_get ?m k = (if k = key then Some val else hash_map_get m k)"
  proof -
    have "hash_map_get ?m k = map_of ((buckets m)[?i := ns] ! hash_bucket_num m k) k"
      unfolding hash_map_get_def num chain_get_map_of by (simp add: m')
    then show ?thesis
      using chain_set_Some [OF ns] i
      by (cases "hash_bucket_num m k = ?i") (auto simp: hash_map_get_def chain_get_map_of)
  qed
  ultimately show ?thesis by blast
qed

lemma set_absent:
  assumes ok: "hash_map_ok m" and ns: "chain_set (buckets m ! hash_bucket_num m key) key val = None"
  shows "hash_map_ok (hash_map_set m key val) \<and>
    hash_map_get (hash_map_set m key val) k = (if k = key then Some val else hash_map_get m k)"
proof -
  define g where "g = (if num_keys m \<ge> num_buckets m \<and> num_buckets m < MAX_BUCKETS
    then hash_map_grow m else m)"
  have g: "hash_map_shape g \<and> hash_map_placed g \<and> mset (concat (buckets g)) = mset (concat (buckets m)) \<and>
      num_keys g = num_keys m \<and> (num_keys m < num_buckets g \<or> num_buckets g = MAX_BUCKETS)"
  proof (cases "num_keys m \<ge> num_buckets m \<and> num_buckets m < MAX_BUCKETS")
    case True
    moreover have "0 < num_buckets m"
      using ok by (simp add: hash_map_ok_def shape_pos)
    ultimately show ?thesis
      using grow_ok [OF ok] ok by (auto simp: g_def hash_map_ok_def)
  next
    case False
    have "num_buckets m \<le> MAX_BUCKETS"
      using ok by (simp add: hash_map_ok_def shape_le_MAX)
    with False ok show ?thesis
      by (auto simp: g_def hash_map_ok_def)
  qed
  define h where "h = g\<lparr>num_keys := num_keys g + 1\<rparr>"
  have "hash_bucket_num h = hash_bucket_num g"
    by (rule ext, rule bucket_num_cong) (simp add: h_def)
  then have h: "hash_map_shape h" "hash_map_placed h"
    using g unfolding hash_map_shape_def hash_map_placed_def by (simp_all add: h_def)
  have set: "hash_map_set m key val = hash_map_link h (key, val)"
    using ns by (simp add: hash_map_set_def hash_map_insert_def Let_def g_def h_def)
  have hg: "buckets h = buckets g" "num_keys h = num_keys m + 1" "num_buckets h = num_buckets g"
    using g by (simp_all add: h_def)
  have get: "map_of (concat (buckets h)) = map_of (concat (buckets m))"
    using g h(2) by (intro map_of_mset) (simp_all add: hash_map_placed_def hg del: mset_concat)
  have "hash_map_get m key = None"
    using ns by (simp add: hash_map_get_def chain_get_map_of chain_set_None map_of_eq_None_iff)
  then have "map_of (concat (buckets h)) key = None"
    using ok get hash_map_get_nodes [of m key] by (simp add: hash_map_ok_def)
  then have new: "fst (key, val) \<notin> fst ` set (concat (buckets h))"
    by (simp only: map_of_eq_None_iff fst_conv not_False_eq_True)
  let ?l = "hash_map_link h (key, val)"
  have shape: "hash_map_shape ?l"
    using h(1) by (rule link_shape)
  have placed: "hash_map_placed ?l"
    using h new by (rule link_placed)
  have nodes: "mset (concat (buckets ?l)) = mset ((key, val) # concat (buckets h))"
    using link_nodes [OF h(1)] by (simp del: mset_concat)
  have "length (concat (buckets ?l)) = Suc (length (concat (buckets m)))"
  proof -
    have "length (concat (buckets ?l)) = Suc (length (concat (buckets h)))"
      using nodes by (metis length_Cons size_mset)
    also have "length (concat (buckets h)) = length (concat (buckets m))"
      using g by (metis hg(1) size_mset)
    finally show ?thesis .
  qed
  then have "hash_map_ok ?l"
    using shape placed g ok hg by (auto simp: hash_map_ok_def)
  moreover have "hash_map_get ?l k = (if k = key then Some val else hash_map_get m k)"
  proof -
    have "map_of (concat (buckets ?l)) = map_of ((key, val) # concat (buckets h))"
      using placed nodes by (intro map_of_mset) (simp_all only: hash_map_placed_def)
    then show ?thesis
      using ok get hash_map_get_nodes [OF shape placed, of k] hash_map_get_nodes [of m k]
      by (simp add: hash_map_ok_def)
  qed
  ultimately show ?thesis by (simp only: set)
qed

lemma hash_map_set_spec:
  assumes "hash_map_ok m"
  shows "hash_map_ok (hash_map_set m key val)"
    and "hash_map_get (hash_map_set m key val) k = (if k = key then Some val else hash_map_get m k)"
  using set_present [OF assms] set_absent [OF assms]
  by (cases "chain_set (buckets m ! hash_bucket_num m key) key val"; blast)+

section \<open>Creating a map\<close>

lemma pick_bucket_loop_spec:
  assumes "e \<le> 30" and "\<forall>j < e. 2 ^ j < n"
  shows "\<exists>e' \<le> 30. pick_bucket_loop n e = 2 ^ e' \<and> (\<forall>j < e'. 2 ^ j < n) \<and> (n \<le> 2 ^ e' \<or> e' = 30)"
  using assms
proof (induction n e rule: pick_bucket_loop.induct)
  case (1 n e)
  show ?case
  proof (cases "2 ^ e < n \<and> 2 ^ e < MAX_BUCKETS")
    case True
    then have "Suc e \<le> 30" "\<forall>j < Suc e. 2 ^ j < n"
      using "1.prems" exp_below_MAX_BUCKETS [of e] by (auto simp: less_Suc_eq)
    with "1.IH" [OF True] True show ?thesis
      by (simp add: pick_bucket_loop.simps [of n e])
  next
    case False
    have "e = 30" if "\<not> 2 ^ e < MAX_BUCKETS"
    proof (rule ccontr)
      assume "e \<noteq> 30"
      with "1.prems" have "e < 30" by simp
      then have "(2 :: nat) ^ e < 2 ^ 30"
        by (intro power_strict_increasing) simp_all
      with that show False by (simp add: MAX_BUCKETS_def)
    qed
    with False "1.prems" show ?thesis
      by (auto simp: pick_bucket_loop.simps [of n e] intro!: exI [of _ e])
  qed
qed

lemma hash_map_new_ok: "hash_map_ok (hash_map_new n)"
proof -
  obtain e where "e \<le> 30" "hash_map_pick_bucket_count n = 2 ^ e"
    using pick_bucket_loop_spec [of 0 n] by (auto simp: hash_map_pick_bucket_count_def)
  then show ?thesis
    by (auto simp: hash_map_ok_def hash_map_shape_def hash_map_placed_def hash_map_new_def Let_def)
qed

lemma hash_map_new_get: "hash_map_get (hash_map_new n) key = None"
proof -
  have "concat (buckets (hash_map_new n)) = []"
    by (simp add: hash_map_new_def Let_def concat_eq_Nil_conv)
  then show ?thesis
    using hash_map_new_ok [of n] hash_map_get_nodes [of "hash_map_new n" key]
    by (simp add: hash_map_ok_def del: concat_eq_Nil_conv)
qed

interpretation ts_map: u32_map hash_map_new hash_map_set hash_map_get hash_map_ok
  by unfold_locales (simp_all add: hash_map_new_ok hash_map_new_get hash_map_set_spec)

section \<open>Properties\<close>

text \<open>C5: the hash table implements a partial function: after any history of \<^verbatim>\<open>hash_map_set\<close> calls on a
  new table (growing and rehashing as it needs), \<^verbatim>\<open>hash_map_get\<close> finds exactly the last value set
  for each key.\<close>

theorem hash_map_refines_map:
  "hash_map_get (foldl (\<lambda>m (k, v). hash_map_set m k v) (hash_map_new n) kvs) key = map_of (rev kvs) key"
  by (rule ts_map.fetch_history)

text \<open>C20: every \<^verbatim>\<open>hash_map_set\<close> keeps the table's invariant: a power of two of at most 2^30
  buckets, each node in the bucket its key hashes to, no key twice, an exact key count, and at most
  one key per bucket on average unless the table is at its maximal size.\<close>

theorem hash_map_set_invariant:
  assumes "hash_map_ok m"
  shows "hash_map_ok (hash_map_set m key val)"
  using assms by (rule ts_map.wf_put)

theorem hash_map_set_invariant_witness:
  "hash_map_ok (hash_map_set (hash_map_set (hash_map_new 1) 5 7) 6 8)"
  using hash_map_set_invariant [OF hash_map_set_invariant [OF hash_map_new_ok]] .

text \<open>the initial bucket count is the smallest power of two that is at least the number of keys
  asked for, capped at 2^30.\<close>

theorem hash_map_pick_bucket_count_least:
  "\<exists>e \<le> 30. hash_map_pick_bucket_count n = 2 ^ e \<and> (\<forall>j < e. 2 ^ j < n) \<and> (n \<le> 2 ^ e \<or> e = 30)"
  using pick_bucket_loop_spec [of 0 n] by (simp add: hash_map_pick_bucket_count_def)

theorem hash_map_pick_bucket_count_least_witness:
  "\<exists>e \<le> 30. hash_map_pick_bucket_count 5 = 2 ^ e \<and> (\<forall>j < e. 2 ^ j < (5 :: nat)) \<and> (5 \<le> (2 :: nat) ^ e \<or> e = 30)"
  by (rule hash_map_pick_bucket_count_least)

end
