(* ===== verification/Sockets.thy ===== *)
theory Sockets
  imports Ip_Address Hash_Map
begin

text \<open>
  The sockets a test run keeps track of (\<^verbatim>\<open>socket.h\<close>, \<^verbatim>\<open>socket.c\<close>): the state of a socket in the script and
  live on the machine, address tuples and how they are read from and written to packets, and the
  offsets that translate sequence numbers between the two.

  Ports are kept as the 16-bit numbers that the network-order fields stand for, so \<^verbatim>\<open>htons\<close> and
  \<^verbatim>\<open>ntohs\<close> on them are the identity. Tuples are compared by \<^verbatim>\<open>memcmp\<close> in the source; all of them are
  built in zeroed memory from addresses whose unused bytes are zero, so this is equality of the
  records.
\<close>

section \<open>Socket state\<close>

datatype socket_state_t =
    SOCKET_INIT | SOCKET_NEW | SOCKET_PASSIVE_LISTENING | SOCKET_PASSIVE_PACKET_RECEIVED
  | SOCKET_PASSIVE_SYNACK_SENT | SOCKET_PASSIVE_SYNACK_ACKED | SOCKET_PASSIVE_INIT_ACK_SENT
  | SOCKET_PASSIVE_COOKIE_ECHO_RECEIVED | SOCKET_ACTIVE_CONNECTING | SOCKET_ACTIVE_SYN_SENT
  | SOCKET_ACTIVE_SYN_ACKED | SOCKET_ACTIVE_INIT_SENT | SOCKET_ACTIVE_INIT_ACK_RECEIVED

record endpoint =
  ep_ip :: ip_address
  ep_port :: u16

record tuple =
  tup_src :: endpoint
  tup_dst :: endpoint

record socket_state =
  ss_fd :: int
  ss_local :: endpoint
  local_isn :: u32
  local_initial_tsn :: u32
  local_initiate_tag :: u32
  ss_remote :: endpoint
  remote_isn :: u32
  remote_initial_tsn :: u32
  remote_initiate_tag :: u32

record socket =
  so_state :: socket_state_t
  so_address_family :: address_family
  so_protocol :: u8
  so_is_closed :: bool
  so_script :: socket_state
  so_live :: socket_state
  ts_val_map :: hash_map
  found_first_tcp_ts :: bool
  first_script_ts_val :: u32
  first_actual_ts_val :: u32
  last_outbound_tcp_header :: bytes
  last_outbound_tcp_payload_len :: u32
  last_injected_tcp_header :: bytes
  last_injected_tcp_payload_len :: u32
  last_outbound_udp_encaps_dst_port :: u16
  last_outbound_udp_encaps_src_port :: u16
  last_injected_udp_encaps_src_port :: u16
  last_injected_udp_encaps_dst_port :: u16
  prepared_cookie_echo :: "bytes option"
  prepared_cookie_echo_length :: u16
  prepared_heartbeat_ack :: "bytes option"
  prepared_heartbeat_ack_length :: u16

definition endpoint_zero :: endpoint where
  "endpoint_zero = \<lparr> ep_ip = ip_reset, ep_port = 0 \<rparr>"

definition socket_state_zero :: socket_state where
  "socket_state_zero = \<lparr> ss_fd = 0, ss_local = endpoint_zero, local_isn = 0, local_initial_tsn = 0,
     local_initiate_tag = 0, ss_remote = endpoint_zero, remote_isn = 0, remote_initial_tsn = 0,
     remote_initiate_tag = 0 \<rparr>"

text \<open>A socket fresh from \<^verbatim>\<open>socket_new\<close>: zeroed memory and an empty timestamp map.\<close>

definition socket_new :: socket where
  "socket_new = \<lparr> so_state = SOCKET_INIT, so_address_family = AF_UNSPEC, so_protocol = 0,
     so_is_closed = False, so_script = socket_state_zero, so_live = socket_state_zero,
     ts_val_map = hash_map_new 1, found_first_tcp_ts = False, first_script_ts_val = 0,
     first_actual_ts_val = 0, last_outbound_tcp_header = replicate 20 0,
     last_outbound_tcp_payload_len = 0, last_injected_tcp_header = replicate 20 0,
     last_injected_tcp_payload_len = 0, last_outbound_udp_encaps_dst_port = 0,
     last_outbound_udp_encaps_src_port = 0, last_injected_udp_encaps_src_port = 0,
     last_injected_udp_encaps_dst_port = 0, prepared_cookie_echo = None,
     prepared_cookie_echo_length = 0, prepared_heartbeat_ack = None,
     prepared_heartbeat_ack_length = 0 \<rparr>"

section \<open>Tuples\<close>

definition socket_get_outbound :: "socket_state \<Rightarrow> tuple" where
  "socket_get_outbound st = \<lparr> tup_src = ss_local st, tup_dst = ss_remote st \<rparr>"

definition socket_get_inbound :: "socket_state \<Rightarrow> tuple" where
  "socket_get_inbound st = \<lparr> tup_src = ss_remote st, tup_dst = ss_local st \<rparr>"

definition is_equal_tuple :: "tuple \<Rightarrow> tuple \<Rightarrow> bool" where
  "is_equal_tuple a b \<longleftrightarrow> a = b"

definition reverse_tuple :: "tuple \<Rightarrow> tuple" where
  "reverse_tuple t = \<lparr> tup_src = tup_dst t, tup_dst = tup_src t \<rparr>"

text \<open>The transport header whose ports make up the tuple: the first one present.\<close>

definition port_header :: "nat option \<Rightarrow> nat option \<Rightarrow> nat option \<Rightarrow> nat option \<Rightarrow> nat option" where
  "port_header sctp tcp udp udplite = (case sctp of Some p \<Rightarrow> Some p | None \<Rightarrow>
     (case tcp of Some p \<Rightarrow> Some p | None \<Rightarrow> (case udp of Some p \<Rightarrow> Some p | None \<Rightarrow> udplite)))"

definition get_packet_tuple :: "packet \<Rightarrow> tuple option" where
  "get_packet_tuple pkt = do {
     let b = pkt_buffer pkt;
     (src, dst) \<leftarrow> (case pkt_ipv4 pkt of
         Some p \<Rightarrow> do { s \<leftarrow> ipv4_src_ip b p; d \<leftarrow> ipv4_dst_ip b p; Some (ip_from_ipv4 s, ip_from_ipv4 d) }
       | None \<Rightarrow> (case pkt_ipv6 pkt of
           Some p \<Rightarrow> do { s \<leftarrow> ipv6_src_ip b p; d \<leftarrow> ipv6_dst_ip b p; Some (ip_from_ipv6 s, ip_from_ipv6 d) }
         | None \<Rightarrow> None));
     (sport, dport) \<leftarrow> (case port_header (pkt_sctp pkt) (pkt_tcp pkt) (pkt_udp pkt) (pkt_udplite pkt) of
         Some p \<Rightarrow> do { s \<leftarrow> l4_src_port b p; d \<leftarrow> l4_dst_port b p; Some (s, d) }
       | None \<Rightarrow> Some (0, 0));
     Some \<lparr> tup_src = \<lparr> ep_ip = src, ep_port = sport \<rparr>, tup_dst = \<lparr> ep_ip = dst, ep_port = dport \<rparr> \<rparr>
   }"

definition set_headers_tuple ::
    "bytes \<Rightarrow> nat option \<Rightarrow> nat option \<Rightarrow> nat option \<Rightarrow> nat option \<Rightarrow> nat option \<Rightarrow> nat option \<Rightarrow>
       tuple \<Rightarrow> bytes option" where
  "set_headers_tuple b ipv4 ipv6 sctp tcp udp udplite t = do {
     b \<leftarrow> (case ipv4 of
         Some p \<Rightarrow> do {
           b \<leftarrow> wr_bytes b (p + 12) (ip_to_ipv4 (ep_ip (tup_src t)));
           wr_bytes b (p + 16) (ip_to_ipv4 (ep_ip (tup_dst t)))
         }
       | None \<Rightarrow> (case ipv6 of
           Some p \<Rightarrow> do {
             b \<leftarrow> wr_bytes b (p + 8) (ip_to_ipv6 (ep_ip (tup_src t)));
             wr_bytes b (p + 24) (ip_to_ipv6 (ep_ip (tup_dst t)))
           }
         | None \<Rightarrow> None));
     (case port_header sctp tcp udp udplite of
        Some p \<Rightarrow> do {
          b \<leftarrow> wr16 b p (ep_port (tup_src t));
          wr16 b (p + 2) (ep_port (tup_dst t))
        }
      | None \<Rightarrow> Some b)
   }"

definition set_icmp_echoed_tuple :: "packet \<Rightarrow> tuple \<Rightarrow> bool \<Rightarrow> packet option" where
  "set_icmp_echoed_tuple pkt t encapsulated = do {
     sctp \<leftarrow> packet_echoed_sctp_header pkt encapsulated;
     tcp \<leftarrow> packet_echoed_tcp_header pkt encapsulated;
     udp \<leftarrow> packet_echoed_udp_header pkt;
     udplite \<leftarrow> packet_echoed_udplite_header pkt;
     upd_buffer (\<lambda>b. set_headers_tuple b (packet_echoed_ipv4_header pkt) (packet_echoed_ipv6_header pkt)
       sctp tcp udp udplite (reverse_tuple t)) pkt
   }"

definition set_packet_tuple :: "packet \<Rightarrow> tuple \<Rightarrow> bool \<Rightarrow> packet option" where
  "set_packet_tuple pkt t encapsulated = do {
     pkt \<leftarrow> upd_buffer (\<lambda>b. set_headers_tuple b (pkt_ipv4 pkt) (pkt_ipv6 pkt) (pkt_sctp pkt) (pkt_tcp pkt)
       (pkt_udp pkt) (pkt_udplite pkt) t) pkt;
     if pkt_icmpv4 pkt \<noteq> None \<or> pkt_icmpv6 pkt \<noteq> None
     then set_icmp_echoed_tuple pkt t encapsulated
     else Some pkt
   }"

section \<open>Sequence numbers in the script and on the wire\<close>

definition remote_seq_script_to_live_offset :: "socket \<Rightarrow> bool \<Rightarrow> u32" where
  "remote_seq_script_to_live_offset s is_syn = (if is_syn then 0 else remote_isn (so_live s))"

definition remote_seq_live_to_script_offset :: "socket \<Rightarrow> bool \<Rightarrow> u32" where
  "remote_seq_live_to_script_offset s is_syn = - remote_seq_script_to_live_offset s is_syn"

definition local_seq_script_to_live_offset :: "socket \<Rightarrow> bool \<Rightarrow> u32" where
  "local_seq_script_to_live_offset s is_syn =
     (if is_syn then local_isn (so_live s) - local_isn (so_script s) else local_isn (so_live s))"

definition local_seq_live_to_script_offset :: "socket \<Rightarrow> bool \<Rightarrow> u32" where
  "local_seq_live_to_script_offset s is_syn = - local_seq_script_to_live_offset s is_syn"

lemma seq_offsets_cancel [simp]:
  "remote_seq_script_to_live_offset s syn + remote_seq_live_to_script_offset s syn = 0"
  "remote_seq_live_to_script_offset s syn + remote_seq_script_to_live_offset s syn = 0"
  "local_seq_script_to_live_offset s syn + local_seq_live_to_script_offset s syn = 0"
  "local_seq_live_to_script_offset s syn + local_seq_script_to_live_offset s syn = 0"
  by (simp_all add: remote_seq_live_to_script_offset_def local_seq_live_to_script_offset_def)

text \<open>The client's view of the socket: outbound and inbound packets carry mirrored tuples.\<close>

lemma reverse_tuple_simps [simp]:
  "reverse_tuple (reverse_tuple t) = t"
  "reverse_tuple (socket_get_outbound st) = socket_get_inbound st"
  "reverse_tuple (socket_get_inbound st) = socket_get_outbound st"
  by (simp_all add: reverse_tuple_def socket_get_outbound_def socket_get_inbound_def)

section \<open>Writing and reading tuples\<close>

text \<open>The family of a packet's network header, and packets whose headers lie in their buffer, the
  transport header behind the network header.\<close>

definition tuple_wf :: "address_family \<Rightarrow> tuple \<Rightarrow> bool" where
  "tuple_wf af t \<longleftrightarrow> ip_wf (ep_ip (tup_src t)) \<and> ip_wf (ep_ip (tup_dst t)) \<and>
     address_family (ep_ip (tup_src t)) = af \<and> address_family (ep_ip (tup_dst t)) = af"

definition tuple_room :: "packet \<Rightarrow> bool" where
  "tuple_room pkt \<longleftrightarrow> (case ip_start pkt of None \<Rightarrow> False | Some p \<Rightarrow>
     let n = (if pkt_ipv4 pkt \<noteq> None then 20 else 40) in
     p + n \<le> pkt_buffer_bytes pkt \<and>
     (case port_header (pkt_sctp pkt) (pkt_tcp pkt) (pkt_udp pkt) (pkt_udplite pkt) of
        None \<Rightarrow> False | Some q \<Rightarrow> p + n \<le> q \<and> q + 4 \<le> pkt_buffer_bytes pkt))"

lemma rd_bytes_wr_bytes:
  "wr_bytes b i xs = Some b' \<Longrightarrow> rd_bytes b' i (length xs) = Some xs"
  by (auto simp: wr_bytes_def rd_bytes_def split: if_splits)

lemma rd_bytes_wr_bytes_other:
  assumes "wr_bytes b i xs = Some b'" and "j + n \<le> i \<or> i + length xs \<le> j"
  shows "rd_bytes b' j n = rd_bytes b j n"
proof -
  have "take n (drop j b') = take n (drop j b)" if "j + n \<le> length b"
    using assms that wr_bytes_length [OF assms(1)] wr_bytes_nth [OF assms(1)]
    by (intro nth_equalityI) auto
  then show ?thesis
    using wr_bytes_length [OF assms(1)] by (simp add: rd_bytes_def)
qed

lemma drop_wr_bytes: "wr_bytes b i xs = Some b' \<Longrightarrow> i + length xs \<le> j \<Longrightarrow> drop j b' = drop j b"
  by (auto simp: wr_bytes_def drop_append split: if_splits)

text \<open>What is written to the addresses and the ports is read back.\<close>

lemma wr_pairs_read_back:
  assumes "q1 + length xs \<le> q2" and "q2 + length ys \<le> r" and "r + 4 \<le> length b"
  shows "\<exists>b1 b2 b3 b4. wr_bytes b q1 xs = Some b1 \<and> wr_bytes b1 q2 ys = Some b2 \<and> wr16 b2 r v = Some b3 \<and>
     wr16 b3 (r + 2) w = Some b4 \<and> length b4 = length b \<and>
     rd_bytes b4 q1 (length xs) = Some xs \<and> rd_bytes b4 q2 (length ys) = Some ys \<and>
     rd16 b4 r = Some v \<and> rd16 b4 (r + 2) = Some w \<and> drop (r + 4) b4 = drop (r + 4) b"
proof -
  obtain b1 where 1: "wr_bytes b q1 xs = Some b1"
    using assms by (simp add: wr_bytes_def)
  obtain b2 where 2: "wr_bytes b1 q2 ys = Some b2"
    using assms wr_bytes_length [OF 1] by (simp add: wr_bytes_def)
  obtain b3 where 3: "wr_bytes b2 r (be16_to v) = Some b3"
    using assms wr_bytes_length [OF 1] wr_bytes_length [OF 2] by (simp add: wr_bytes_def)
  obtain b4 where 4: "wr_bytes b3 (r + 2) (be16_to w) = Some b4"
    using assms wr_bytes_length [OF 1] wr_bytes_length [OF 2] wr_bytes_length [OF 3]
    by (simp add: wr_bytes_def)
  note w = 1 2 3 4
  have "rd_bytes b4 q1 (length xs) = Some xs"
    using assms(1,2) rd_bytes_wr_bytes [OF 1] rd_bytes_wr_bytes_other [OF 2, of q1 "length xs"]
      rd_bytes_wr_bytes_other [OF 3, of q1 "length xs"] rd_bytes_wr_bytes_other [OF 4, of q1 "length xs"]
    by simp
  moreover have "rd_bytes b4 q2 (length ys) = Some ys"
    using assms(2) rd_bytes_wr_bytes [OF 2] rd_bytes_wr_bytes_other [OF 3, of q2 "length ys"]
      rd_bytes_wr_bytes_other [OF 4, of q2 "length ys"] by simp
  moreover have "rd16 b4 r = Some v" "rd16 b4 (r + 2) = Some w"
    using rd16_wr16 [of b2 r v b3] 3 rd16_wr_bytes_other [OF 4, of r] rd16_wr16 [of b3 "r + 2" w b4] 4
    by (simp_all add: wr16_def)
  moreover have "drop (r + 4) b4 = drop (r + 4) b"
    using assms(1,2) drop_wr_bytes [OF 1, of "r + 4"] drop_wr_bytes [OF 2, of "r + 4"]
      drop_wr_bytes [OF 3, of "r + 4"] drop_wr_bytes [OF 4, of "r + 4"] by simp
  ultimately show ?thesis
    using w wr_bytes_length [OF 1] wr_bytes_length [OF 2] wr_bytes_length [OF 3] wr_bytes_length [OF 4]
    unfolding wr16_def by metis
qed

lemma set_packet_tuple_spec:
  assumes "tuple_room pkt" and "tuple_wf (packet_address_family pkt) t"
    and "pkt_icmpv4 pkt = None" and "pkt_icmpv6 pkt = None"
  obtains b q where "set_packet_tuple pkt t enc = Some (pkt\<lparr>pkt_buffer := b\<rparr>)"
    and "port_header (pkt_sctp pkt) (pkt_tcp pkt) (pkt_udp pkt) (pkt_udplite pkt) = Some q"
    and "length b = pkt_buffer_bytes pkt" and "get_packet_tuple (pkt\<lparr>pkt_buffer := b\<rparr>) = Some t"
    and "drop (q + 4) b = drop (q + 4) (pkt_buffer pkt)"
proof -
  obtain q where q: "port_header (pkt_sctp pkt) (pkt_tcp pkt) (pkt_udp pkt) (pkt_udplite pkt) = Some q"
      "q + 4 \<le> pkt_buffer_bytes pkt"
    using assms(1) by (auto simp: tuple_room_def Let_def split: option.splits)
  let ?src = "ep_ip (tup_src t)" and ?dst = "ep_ip (tup_dst t)"
  have wf: "ip_wf ?src" "ip_wf ?dst"
    using assms(2) by (simp_all add: tuple_wf_def)
  show ?thesis
  proof (cases "pkt_ipv4 pkt")
    case (Some p)
    then have p: "p + 20 \<le> q"
      using assms(1) q(1) by (simp add: tuple_room_def ip_start_def)
    have af: "address_family ?src = AF_INET" "address_family ?dst = AF_INET"
      using assms(2) Some by (simp_all add: tuple_wf_def packet_address_family_def)
    have len: "length (ip_to_ipv4 ?src) = 4" "length (ip_to_ipv4 ?dst) = 4"
      using wf by (simp_all add: length_ip_to)
    obtain b1 b2 b3 b4 where w: "wr_bytes (pkt_buffer pkt) (p + 12) (ip_to_ipv4 ?src) = Some b1"
        "wr_bytes b1 (p + 16) (ip_to_ipv4 ?dst) = Some b2" "wr16 b2 q (ep_port (tup_src t)) = Some b3"
        "wr16 b3 (q + 2) (ep_port (tup_dst t)) = Some b4" "length b4 = pkt_buffer_bytes pkt"
        "drop (q + 4) b4 = drop (q + 4) (pkt_buffer pkt)"
      and r: "rd_bytes b4 (p + 12) 4 = Some (ip_to_ipv4 ?src)" "rd_bytes b4 (p + 16) 4 = Some (ip_to_ipv4 ?dst)"
        "rd16 b4 q = Some (ep_port (tup_src t))" "rd16 b4 (q + 2) = Some (ep_port (tup_dst t))"
      using wr_pairs_read_back [of "p + 12" "ip_to_ipv4 ?src" "p + 16" "ip_to_ipv4 ?dst" q
          "pkt_buffer pkt" "ep_port (tup_src t)" "ep_port (tup_dst t)"] p q(2) len by auto
    have "set_packet_tuple pkt t enc = Some (pkt\<lparr>pkt_buffer := b4\<rparr>)"
      using w Some q(1) assms(3,4) by (simp add: set_packet_tuple_def upd_buffer_def set_headers_tuple_def)
    moreover have "get_packet_tuple (pkt\<lparr>pkt_buffer := b4\<rparr>) = Some t"
      using r Some q(1) ip_from_to_ipv4 [OF wf(1) af(1)] ip_from_to_ipv4 [OF wf(2) af(2)]
      by (simp add: get_packet_tuple_def wire_defs ip_from_ipv4_def)
    ultimately show ?thesis
      using w(5,6) q(1) by (intro that [of b4 q])
  next
    case None
    then obtain p where v6: "pkt_ipv6 pkt = Some p" and p: "p + 40 \<le> q"
      using assms(1) q(1) by (auto simp: tuple_room_def ip_start_def split: option.splits)
    have af: "address_family ?src = AF_INET6" "address_family ?dst = AF_INET6"
      using assms(2) None v6 by (simp_all add: tuple_wf_def packet_address_family_def)
    have len: "length (ip_to_ipv6 ?src) = 16" "length (ip_to_ipv6 ?dst) = 16"
      using wf by (simp_all add: length_ip_to)
    obtain b1 b2 b3 b4 where w: "wr_bytes (pkt_buffer pkt) (p + 8) (ip_to_ipv6 ?src) = Some b1"
        "wr_bytes b1 (p + 24) (ip_to_ipv6 ?dst) = Some b2" "wr16 b2 q (ep_port (tup_src t)) = Some b3"
        "wr16 b3 (q + 2) (ep_port (tup_dst t)) = Some b4" "length b4 = pkt_buffer_bytes pkt"
        "drop (q + 4) b4 = drop (q + 4) (pkt_buffer pkt)"
      and r: "rd_bytes b4 (p + 8) 16 = Some (ip_to_ipv6 ?src)" "rd_bytes b4 (p + 24) 16 = Some (ip_to_ipv6 ?dst)"
        "rd16 b4 q = Some (ep_port (tup_src t))" "rd16 b4 (q + 2) = Some (ep_port (tup_dst t))"
      using wr_pairs_read_back [of "p + 8" "ip_to_ipv6 ?src" "p + 24" "ip_to_ipv6 ?dst" q
          "pkt_buffer pkt" "ep_port (tup_src t)" "ep_port (tup_dst t)"] p q(2) len by auto
    have "set_packet_tuple pkt t enc = Some (pkt\<lparr>pkt_buffer := b4\<rparr>)"
      using w None v6 q(1) assms(3,4) by (simp add: set_packet_tuple_def upd_buffer_def set_headers_tuple_def)
    moreover have "get_packet_tuple (pkt\<lparr>pkt_buffer := b4\<rparr>) = Some t"
      using r None v6 q(1) ip_from_to_ipv6 [OF wf(1) af(1)] ip_from_to_ipv6 [OF wf(2) af(2)]
      by (simp add: get_packet_tuple_def wire_defs ip_from_ipv6_def)
    ultimately show ?thesis
      using w(5,6) q(1) by (intro that [of b4 q])
  qed
qed

section \<open>Properties\<close>

text \<open>A tuple written to the headers of a packet is the tuple read from it, for every transport
  protocol over IPv4 and IPv6; only the buffer changes, and it keeps its size.\<close>

theorem packet_tuple_roundtrip:
  assumes "tuple_room pkt" and "tuple_wf (packet_address_family pkt) t"
    and "pkt_icmpv4 pkt = None" and "pkt_icmpv6 pkt = None"
  shows "\<exists>b. set_packet_tuple pkt t enc = Some (pkt\<lparr>pkt_buffer := b\<rparr>) \<and>
     length b = pkt_buffer_bytes pkt \<and> get_packet_tuple (pkt\<lparr>pkt_buffer := b\<rparr>) = Some t"
  by (rule set_packet_tuple_spec [OF assms, of enc]) blast

definition example_udp_packet :: packet where
  "example_udp_packet = (packet_new (\<lambda>_. 0) 28)\<lparr> pkt_ipv4 := Some 0, pkt_udp := Some 20 \<rparr>"

definition example_tuple :: tuple where
  "example_tuple = \<lparr> tup_src = \<lparr> ep_ip = ip_from_ipv4 [192, 0, 2, 1], ep_port = 8080 \<rparr>,
     tup_dst = \<lparr> ep_ip = ip_from_ipv4 [192, 168, 0, 1], ep_port = 55555 \<rparr> \<rparr>"

theorem packet_tuple_roundtrip_witness:
  "\<exists>pkt. set_packet_tuple example_udp_packet example_tuple False = Some pkt \<and>
     get_packet_tuple pkt = Some example_tuple"
proof -
  have "tuple_room example_udp_packet"
      "tuple_wf (packet_address_family example_udp_packet) example_tuple"
      "pkt_icmpv4 example_udp_packet = None" "pkt_icmpv6 example_udp_packet = None"
    by (simp_all add: example_udp_packet_def example_tuple_def packet_new_def tuple_room_def
        ip_start_def port_header_def tuple_wf_def packet_address_family_def ip_wf_from_ipv4)
      (simp_all add: ip_from_ipv4_def ipv4_init_def set_ip_def)
  then show ?thesis
    using packet_tuple_roundtrip [of example_udp_packet example_tuple False] by blast
qed

end
