(* ===== verification/Sctp_Iterator.thy ===== *)
theory Sctp_Iterator
  imports Packet
begin

text \<open>
  Iteration over SCTP chunks, parameters and error causes in wire format (\<^verbatim>\<open>sctp_iterator.c\<close>).

  The three iterators of the source are one algorithm on type-length-value records with a four byte
  header whose second half is the length; they differ in where they start and in their error
  messages. The end of the iteration is a current pointer of \<^const>\<open>None\<close>; a defective record is
  returned together with an error. The reference definition \<open>split_tlvs\<close> splits a byte string into its
  records; the iterators are shown to visit exactly the records of that splitting.
\<close>

section \<open>Iterators\<close>

datatype sctp_tlv = CHUNK | PARAMETER | CAUSE

text \<open>The error messages: \<open>[too short]\<close> and \<open>[..., len=... (partial!)]\<close>, with the 16 bits that precede
  the length.\<close>

datatype sctp_iter_error = Too_short sctp_tlv | Partial sctp_tlv u16 u16

record sctp_iterator =
  it_current :: "nat option"
  it_end :: nat

type_synonym sctp_position = "sctp_iterator \<times> sctp_iter_error option"

definition get_current :: "sctp_tlv \<Rightarrow> bytes \<Rightarrow> nat \<Rightarrow> nat \<Rightarrow> sctp_position option" where
  "get_current k b cur e =
     (if cur = e then Some (\<lparr>it_current = None, it_end = e\<rparr>, None)
      else if cur + 4 > e then Some (\<lparr>it_current = Some cur, it_end = e\<rparr>, Some (Too_short k))
      else do {
        tag \<leftarrow> rd16 b cur;
        len \<leftarrow> rd16 b (cur + 2);
        Some (\<lparr>it_current = Some cur, it_end = e\<rparr>,
              if cur + unat len > e then Some (Partial k tag len) else None)
      })"

definition get_current_chunk :: "bytes \<Rightarrow> nat \<Rightarrow> nat \<Rightarrow> sctp_position option" where
  "get_current_chunk = get_current CHUNK"

definition get_current_parameter :: "bytes \<Rightarrow> nat \<Rightarrow> nat \<Rightarrow> sctp_position option" where
  "get_current_parameter = get_current PARAMETER"

definition get_current_cause :: "bytes \<Rightarrow> nat \<Rightarrow> nat \<Rightarrow> sctp_position option" where
  "get_current_cause = get_current CAUSE"

definition sctp_chunks_begin :: "packet \<Rightarrow> sctp_position option" where
  "sctp_chunks_begin pkt = do {
     cur \<leftarrow> packet_payload pkt;
     e \<leftarrow> packet_end pkt;
     get_current_chunk (pkt_buffer pkt) cur e
   }"

definition sctp_parameters_begin :: "bytes \<Rightarrow> nat \<Rightarrow> u16 \<Rightarrow> sctp_position option" where
  "sctp_parameters_begin b start len = get_current_parameter b start (start + unat len)"

definition sctp_causes_begin :: "bytes \<Rightarrow> nat \<Rightarrow> u16 \<Rightarrow> sctp_position option" where
  "sctp_causes_begin b chunk offset = do {
     len \<leftarrow> rd16 b (chunk + 2);
     get_current_cause b (chunk + unat offset) (chunk + unat len)
   }"

text \<open>The number of padding bytes that follow a record of length \<open>len\<close>.\<close>

definition padding_length :: "u16 \<Rightarrow> u16" where
  "padding_length len = (let pad = len AND 3 in if pad > 0 then 4 - pad else pad)"

definition sctp_next :: "sctp_tlv \<Rightarrow> bytes \<Rightarrow> sctp_iterator \<Rightarrow> sctp_position option" where
  "sctp_next k b iter = do {
     cur \<leftarrow> it_current iter;
     len \<leftarrow> rd16 b (cur + 2);
     let pad = padding_length len;
     c_assert (unat len \<ge> 4);
     c_assert (pad < 4);
     get_current k b
       (if int (it_end iter) - int (cur + unat len) < uint pad then it_end iter
        else cur + unat len + unat pad) (it_end iter)
   }"

definition sctp_chunks_next :: "bytes \<Rightarrow> sctp_iterator \<Rightarrow> sctp_position option" where
  "sctp_chunks_next = sctp_next CHUNK"

definition sctp_parameters_next :: "bytes \<Rightarrow> sctp_iterator \<Rightarrow> sctp_position option" where
  "sctp_parameters_next = sctp_next PARAMETER"

definition sctp_causes_next :: "bytes \<Rightarrow> sctp_iterator \<Rightarrow> sctp_position option" where
  "sctp_causes_next = sctp_next CAUSE"

lemmas sctp_iterator_defs = get_current_chunk_def get_current_parameter_def get_current_cause_def
  sctp_chunks_next_def sctp_parameters_next_def sctp_causes_next_def

section \<open>The loop over records\<close>

text \<open>The pointer comparison of \<^verbatim>\<open>next\<close> over the natural numbers, and the padding as a number.\<close>

lemma padding_cmp: "int e - int (c + unat len) < uint pad \<longleftrightarrow> e < c + unat len + unat (pad :: u16)"
  using uint_nat [of pad] by linarith

lemma unat_padding_length: "unat (padding_length len) = (4 - unat len mod 4) mod 4"
proof -
  have m: "unat (len AND 3) = unat len mod 4"
    using take_bit_eq_mask [of 2 len] unat_mod [of len 4]
    by (simp add: mask_eq_exp_minus_1 take_bit_eq_mod)
  then have "len AND 3 = 0 \<longleftrightarrow> unat len mod 4 = 0"
    by (metis unsigned_0 unsigned_word_eqI)
  moreover have "unat (4 - (len AND 3)) = 4 - unat len mod 4"
    using m by (subst unat_sub) (simp_all add: word_le_nat_alt)
  ultimately show ?thesis
    using m by (auto simp: padding_length_def Let_def word_neq_0_conv)
qed

lemma padding_length_less [simp]: "padding_length len < 4"
  by (simp add: word_less_nat_alt unat_padding_length)

lemma get_current_total: "c \<le> e \<Longrightarrow> e \<le> length b \<Longrightarrow> \<exists>p. get_current k b c e = Some p"
  by (auto simp: get_current_def rd16_def)

lemma get_current_SomeD:
  assumes "get_current k b cur e = Some (iter, err)"
  shows "it_end iter = e" "it_current iter = (if cur = e then None else Some cur)"
    "err = None \<Longrightarrow> cur \<noteq> e \<Longrightarrow> cur + 4 \<le> e"
  using assms by (auto simp: get_current_def split: if_splits bind_splits)

text \<open>A step moves towards the end of the area.\<close>

lemma sctp_next_advances:
  assumes "sctp_next k b iter = Some (iter', err)" and "it_current iter = Some c"
  shows "it_end iter' = it_end iter"
    "it_current iter' = Some c' \<Longrightarrow> c < c' \<and> c' \<le> it_end iter"
proof -
  obtain cur' len where step: "get_current k b cur' (it_end iter) = Some (iter', err)"
    and len: "4 \<le> unat len" and cur': "cur' = (if int (it_end iter) - int (c + unat len) <
       uint (padding_length len) then it_end iter else c + unat len + unat (padding_length len))"
    using assms by (auto simp: sctp_next_def Let_def split: if_splits bind_splits)
  then show "it_end iter' = it_end iter"
    by (simp add: get_current_SomeD(1))
  show "c < c' \<and> c' \<le> it_end iter" if "it_current iter' = Some c'"
    using that get_current_SomeD(2) [OF step] cur' len by (auto simp del: of_nat_add simp: padding_cmp split: if_splits)
qed

text \<open>The loops over records have a state (the bytes the iterator walks over, \<open>buf s\<close>, among them); \<open>body\<close>
  handles a record and \<open>on_err\<close> what the iterator rejects, after which the loop is left. Either may
  return from the surrounding function with an error.\<close>

function sctp_loop ::
    "sctp_tlv \<Rightarrow> ('s \<Rightarrow> bytes) \<Rightarrow> (sctp_iter_error \<Rightarrow> 's \<Rightarrow> ('e, 's) status option) \<Rightarrow>
       (nat \<Rightarrow> 's \<Rightarrow> ('e, 's) status option) \<Rightarrow> sctp_position \<Rightarrow> 's \<Rightarrow> ('e, 's) status option" where
  "sctp_loop k buf on_err body (iter, err) s = (case it_current iter of
      None \<Rightarrow> Some (Inr s)
    | Some cur \<Rightarrow> (case err of
        Some e \<Rightarrow> on_err e s
      | None \<Rightarrow> do {
          r \<leftarrow> body cur s;
          (case r of
             Inl e \<Rightarrow> Some (Inl e)
           | Inr s' \<Rightarrow> do {
               p \<leftarrow> sctp_next k (buf s') iter;
               sctp_loop k buf on_err body p s'
             })
        }))"
  by pat_completeness auto
termination
proof (relation "measure (\<lambda>(k, buf, on_err, body, (iter, err), s). case it_current iter of
    None \<Rightarrow> 0 | Some c \<Rightarrow> Suc (it_end iter - c))")
  fix k buf on_err body iter and err :: "sctp_iter_error option" and s s' :: 's and cur r p
  assume "it_current iter = Some cur" "sctp_next k (buf s') iter = Some p"
  then show "((k, buf, on_err, body, p, s'), (k, buf, on_err, body, (iter, err), s)) \<in>
      measure (\<lambda>(k, buf, on_err, body, (iter, err), s). case it_current iter of
        None \<Rightarrow> 0 | Some c \<Rightarrow> Suc (it_end iter - c))"
    using sctp_next_advances [of k "buf s'" iter "fst p" "snd p" cur]
    by (cases p) (force split: option.split)
qed simp

declare sctp_loop.simps [simp del]

section \<open>Reference: splitting a byte string into records\<close>

definition padded :: "nat \<Rightarrow> nat" where
  "padded n = n + (4 - n mod 4) mod 4"

lemma padded_bounds: "n \<le> padded n" "padded n < n + 4"
  by (simp_all add: padded_def)

text \<open>The records of a byte string and the defect behind them, if any; \<^const>\<open>None\<close> when a record has a
  length below the size of its own header.\<close>

function split_tlvs :: "sctp_tlv \<Rightarrow> bytes \<Rightarrow> (bytes list \<times> sctp_iter_error option) option" where
  "split_tlvs k xs =
     (if xs = [] then Some ([], None)
      else if length xs < 4 then Some ([], Some (Too_short k))
      else let len = be16_of (xs ! 2) (xs ! 3) in
        if length xs < unat len
        then Some ([], Some (Partial k (be16_of (xs ! 0) (xs ! 1)) len))
        else if unat len < 4 then None
        else map_option (apfst ((#) (take (unat len) xs))) (split_tlvs k (drop (padded (unat len)) xs)))"
  by pat_completeness auto
termination
proof (relation "measure (length \<circ> snd)")
  fix k :: sctp_tlv and xs :: bytes and len :: u16
  assume "xs \<noteq> []" "\<not> length xs < 4" "\<not> unat len < 4"
  then show "((k, drop (padded (unat len)) xs), k, xs) \<in> measure (length \<circ> snd)"
    using padded_bounds(1) [of "unat len"] by simp
qed simp

declare split_tlvs.simps [simp del]

fun tlv_offsets :: "nat \<Rightarrow> bytes list \<Rightarrow> nat list" where
  "tlv_offsets c [] = []"
| "tlv_offsets c (t # ts) = c # tlv_offsets (c + padded (length t)) ts"

abbreviation span :: "bytes \<Rightarrow> nat \<Rightarrow> nat \<Rightarrow> bytes" where
  "span b c e \<equiv> take (e - c) (drop c b)"

text \<open>The position of an iterator and the reference splitting of the rest of the area: the area is used up,
  the next record is defective, its length makes \<^verbatim>\<open>next\<close> abort, or a step leads to the rest.\<close>

lemma iterator_cases:
  assumes "c \<le> e" and "e \<le> length b" and "get_current k b c e = Some p"
  obtains
    (End) "c = e" "p = (\<lparr>it_current = None, it_end = e\<rparr>, None)"
      "split_tlvs k (span b c e) = Some ([], None)"
  | (Defect) err where "p = (\<lparr>it_current = Some c, it_end = e\<rparr>, Some err)"
      "split_tlvs k (span b c e) = Some ([], Some err)"
  | (Abort) "c + 4 \<le> e" "p = (\<lparr>it_current = Some c, it_end = e\<rparr>, None)"
      "sctp_next k b \<lparr>it_current = Some c, it_end = e\<rparr> = None" "split_tlvs k (span b c e) = None"
  | (Step) t c' p' where "c + 4 \<le> e" "p = (\<lparr>it_current = Some c, it_end = e\<rparr>, None)"
      "sctp_next k b \<lparr>it_current = Some c, it_end = e\<rparr> = Some p'" "get_current k b c' e = Some p'"
      "c < c'" "c' \<le> e"
      "split_tlvs k (span b c e) = map_option (apfst ((#) t)) (split_tlvs k (span b c' e))"
      "\<And>ts x. split_tlvs k (span b c' e) = Some (ts, x) \<Longrightarrow> tlv_offsets c (t # ts) = c # tlv_offsets c' ts"
proof -
  have len_span: "length (span b c e) = e - c"
    using assms(2) by simp
  consider "c = e" | "c < e" "e < c + 4" | "c + 4 \<le> e"
    using assms(1) by linarith
  then show thesis
  proof cases
    case 1
    then show thesis
      using assms(3) by (intro End) (auto simp: get_current_def split_tlvs.simps)
  next
    case 2
    then have short: "e - c < 4"
      by linarith
    have "p = (\<lparr>it_current = Some c, it_end = e\<rparr>, Some (Too_short k))"
      using 2 assms(3) by (simp add: get_current_def)
    moreover have "split_tlvs k (span b c e) = Some ([], Some (Too_short k))"
      using 2 short assms(2) by (subst split_tlvs.simps) simp
    ultimately show thesis
      by (rule Defect)
  next
    case 3
    define len where "len = be16_of (b ! (c + 2)) (b ! (c + 3))"
    have rd: "rd16 b (c + 2) = Some len" "rd16 b c = Some (be16_of (b ! c) (b ! (c + 1)))"
      using 3 assms(2) by (simp_all add: rd16_def len_def eval_nat_numeral)
    have nth: "span b c e ! i = b ! (c + i)" if "i < 4" for i
      using that 3 assms(2) by simp
    have p: "p = (\<lparr>it_current = Some c, it_end = e\<rparr>,
        if c + unat len > e then Some (Partial k (be16_of (b ! c) (b ! (c + 1))) len) else None)"
      using assms(3) 3 rd by (auto simp: get_current_def)
    have split: "split_tlvs k (span b c e) =
       (if e - c < unat len then Some ([], Some (Partial k (be16_of (b ! c) (b ! (c + 1))) len))
        else if unat len < 4 then None
        else map_option (apfst ((#) (take (unat len) (span b c e))))
          (split_tlvs k (drop (padded (unat len)) (span b c e))))"
      using 3 len_span nth [of 0] nth [of 1] nth [of 2] nth [of 3]
      by (subst split_tlvs.simps) (auto simp: len_def Let_def simp del: nth_take)
    consider "e - c < unat len" | "\<not> e - c < unat len" "unat len < 4"
      | "\<not> e - c < unat len" "\<not> unat len < 4"
      by blast
    then show thesis
    proof cases
      case 1
      with 3 show thesis
        using p split by (intro Defect) auto
    next
      case 2
      with 3 show thesis
        using p split rd(1) by (intro Abort) (auto simp: sctp_next_def Let_def)
    next
      case long: 3
      define c' where "c' = min e (c + padded (unat len))"
      have c': "c < c'" "c' \<le> e"
        using long 3 padded_bounds(1) [of "unat len"] by (auto simp: c'_def)
      obtain p' where p': "get_current k b c' e = Some p'"
        using get_current_total [OF c'(2) assms(2)] by blast
      have pad: "padded (unat len) = unat len + unat (padding_length len)"
        by (simp add: padded_def unat_padding_length)
      have "sctp_next k b \<lparr>it_current = Some c, it_end = e\<rparr> = Some p'"
        using long rd(1) p' unfolding sctp_next_def c'_def pad padding_cmp
        by (auto simp: min_def Let_def padding_cmp add.assoc simp del: of_nat_add split: if_splits)
      moreover have "drop (padded (unat len)) (span b c e) = span b c' e"
        by (auto simp: c'_def drop_take min_def add.commute)
      moreover have "tlv_offsets c (take (unat len) (span b c e) # ts) = c # tlv_offsets c' ts"
        if "split_tlvs k (span b c' e) = Some (ts, x)" for ts x
        using that long len_span by (auto simp: c'_def min_def split_tlvs.simps)
      ultimately show thesis
        using 3 long c' p' p split by (intro Step [of p' c' "take (unat len) (span b c e)"]) auto
    qed
  qed
qed

text \<open>A loop whose body reads a record and folds it into the state runs over the records of the
  reference splitting.\<close>

lemma sctp_loop_split:
  assumes "c \<le> e" and "e \<le> length b" and "get_current k b c e = Some p"
    and buf: "buf s = b" "\<And>cur s. buf s = b \<Longrightarrow> buf (f cur s) = b"
    and body: "\<And>cur s. buf s = b \<Longrightarrow> c \<le> cur \<Longrightarrow> cur + 4 \<le> e \<Longrightarrow> body cur s = Some (Inr (f cur s))"
  shows "sctp_loop k buf on_err body p s = (case split_tlvs k (span b c e) of
      None \<Rightarrow> None
    | Some (ts, None) \<Rightarrow> Some (Inr (fold f (tlv_offsets c ts) s))
    | Some (ts, Some err) \<Rightarrow> on_err err (fold f (tlv_offsets c ts) s))"
  using assms
proof (induction "e - c" arbitrary: c p s rule: less_induct)
  case less
  show ?case
    using less.prems(1-3)
  proof (cases rule: iterator_cases)
    case Abort
    then show ?thesis
      using less.prems(4,5) less.prems(6) [OF less.prems(4) order_refl Abort(1)]
      by (simp add: sctp_loop.simps)
  next
    case (Step t c' p')
    have step: "sctp_loop k buf on_err body p s = sctp_loop k buf on_err body p' (f c s)"
      using Step(3) less.prems(4,5) less.prems(6) [OF less.prems(4) order_refl Step(1)]
      unfolding Step(2) by (subst sctp_loop.simps) simp
    have IH: "sctp_loop k buf on_err body p' (f c s) = (case split_tlvs k (span b c' e) of
        None \<Rightarrow> None
      | Some (ts, None) \<Rightarrow> Some (Inr (fold f (tlv_offsets c' ts) (f c s)))
      | Some (ts, Some err) \<Rightarrow> on_err err (fold f (tlv_offsets c' ts) (f c s)))"
      using Step(4-6) less.prems(2,4,5) by (intro less.hyps) (auto intro: less.prems(6))
    show ?thesis
      unfolding step IH Step(7)
      by (auto simp: Step(8) split: option.split simp del: tlv_offsets.simps)
  qed (simp_all add: sctp_loop.simps)
qed

section \<open>Records on the wire\<close>

text \<open>A record whose length field is its own length.\<close>

definition tlv_ok :: "bytes \<Rightarrow> bool" where
  "tlv_ok t \<longleftrightarrow> 4 \<le> length t \<and> unat (be16_of (t ! 2) (t ! 3)) = length t"

text \<open>The records padded to a multiple of four bytes each (with arbitrary bytes); the padding of the
  last one may be missing.\<close>

fun tlv_wire :: "(bytes \<times> bytes) list \<Rightarrow> bytes" where
  "tlv_wire [] = []"
| "tlv_wire ((t, pad) # ts) = t @ pad @ tlv_wire ts"

fun tlvs_padded :: "(bytes \<times> bytes) list \<Rightarrow> bool" where
  "tlvs_padded [] \<longleftrightarrow> True"
| "tlvs_padded [(t, pad)] \<longleftrightarrow> tlv_ok t \<and> length t + length pad \<le> padded (length t)"
| "tlvs_padded ((t, pad) # ts) \<longleftrightarrow>
     tlv_ok t \<and> length t + length pad = padded (length t) \<and> tlvs_padded ts"

lemma split_tlvs_step:
  assumes "tlv_ok t"
  shows "split_tlvs k (t @ rest) =
     map_option (apfst ((#) t)) (split_tlvs k (drop (padded (length t) - length t) rest))"
proof -
  have "t \<noteq> []" "\<not> length (t @ rest) < 4"
    using assms by (auto simp: tlv_ok_def)
  moreover have "drop (padded (length t)) (t @ rest) = drop (padded (length t) - length t) rest"
    using padded_bounds(1) [of "length t"] by simp
  ultimately show ?thesis
    using assms by (subst split_tlvs.simps) (simp add: tlv_ok_def nth_append Let_def)
qed

lemma split_tlvs_wire: "tlvs_padded ts \<Longrightarrow> split_tlvs k (tlv_wire ts) = Some (map fst ts, None)"
proof (induction ts rule: tlvs_padded.induct)
  case 1
  show ?case
    by (simp add: split_tlvs.simps)
next
  case (2 t pad)
  then show ?case
    by (simp add: split_tlvs_step) (simp add: split_tlvs.simps le_diff_conv2)
next
  case (3 t pad t2 ts)
  then have "padded (length t) - length t = length pad"
    by (metis add_diff_cancel_left' tlvs_padded.simps(3))
  with 3 show ?case
    by (cases t2) (simp add: split_tlvs_step del: tlv_wire.simps(2) add: tlv_wire.simps(2) [of t])
qed

section \<open>Properties\<close>

definition collect_tlv :: "nat \<Rightarrow> bytes \<times> nat list \<Rightarrow> ('e, bytes \<times> nat list) status option" where
  "collect_tlv cur s = Some (Inr (fst s, snd s @ [cur]))"

definition sctp_collect :: "sctp_tlv \<Rightarrow> bytes \<Rightarrow> nat \<Rightarrow> nat \<Rightarrow> (sctp_iter_error, bytes \<times> nat list) status option" where
  "sctp_collect k b c e = do {
     p \<leftarrow> get_current k b c e;
     sctp_loop k fst (\<lambda>err s. Some (Inl err)) collect_tlv p (b, [])
   }"

lemma sctp_collect_split:
  assumes "c \<le> e" and "e \<le> length b"
  shows "sctp_collect k b c e = (case split_tlvs k (span b c e) of
      None \<Rightarrow> None
    | Some (ts, None) \<Rightarrow> Some (Inr (b, tlv_offsets c ts))
    | Some (ts, Some err) \<Rightarrow> Some (Inl err))"
proof -
  obtain p where p: "get_current k b c e = Some p"
    using get_current_total [OF assms] by blast
  have "fold (\<lambda>cur s. (fst s, snd s @ [cur])) xs s = (fst s, snd s @ xs)" for xs and s :: "bytes \<times> nat list"
    by (induction xs arbitrary: s) simp_all
  then show ?thesis
    unfolding sctp_collect_def p Option.bind.simps
    by (subst sctp_loop_split [OF assms p, where f = "\<lambda>cur s. (fst s, snd s @ [cur])"])
      (auto simp: collect_tlv_def split: option.split)
qed

text \<open>C26: Iterating over an arbitrary area of a buffer from \<^verbatim>\<open>begin\<close> with \<^verbatim>\<open>next\<close> stays inside the area
  and ends; it visits exactly the records of the reference splitting, reports a defective record
  exactly when the splitting does, and aborts exactly when the splitting meets a record whose length
  field is below four. This holds for chunks, parameters and causes.\<close>

theorem sctp_iterate_split:
  assumes "c \<le> e" and "e \<le> length b"
  shows "sctp_collect k b c e = (case split_tlvs k (span b c e) of
      None \<Rightarrow> None
    | Some (ts, None) \<Rightarrow> Some (Inr (b, tlv_offsets c ts))
    | Some (ts, Some err) \<Rightarrow> Some (Inl err))"
  by (rule sctp_collect_split [OF assms])

theorem sctp_iterate_split_witness:
  "sctp_collect CHUNK [9, 10, 0, 0, 5, 7, 0, 0, 0, 14, 0, 0, 4, 11, 0, 0, 8, 1] 1 18 =
     Some (Inl (Partial CHUNK 0x0b00 8)) \<and>
   sctp_collect CHUNK [10, 0, 0, 5, 7, 0, 0, 0, 14, 0, 0, 4] 0 12 =
     Some (Inr ([10, 0, 0, 5, 7, 0, 0, 0, 14, 0, 0, 4], [0, 8])) \<and>
   sctp_collect CAUSE [10, 0, 0, 3] 0 4 = None"
  using sctp_iterate_split [of 1 18 "[9, 10, 0, 0, 5, 7, 0, 0, 0, 14, 0, 0, 4, 11, 0, 0, 8, 1]" CHUNK]
    sctp_iterate_split [of 0 12 "[10, 0, 0, 5, 7, 0, 0, 0, 14, 0, 0, 4]" CHUNK]
    sctp_iterate_split [of 0 4 "[10, 0, 0, 3]" CAUSE]
  by (simp add: split_tlvs.simps be16_of_def padded_def)

text \<open>Records written one after the other, each followed by its padding (which may be missing
  behind the last one), are found again by the iterator, at the offsets they were written to.\<close>

theorem sctp_records_roundtrip:
  assumes "tlvs_padded ts" and "b = pre @ tlv_wire ts @ post"
  shows "sctp_collect k b (length pre) (length pre + length (tlv_wire ts)) =
     Some (Inr (b, tlv_offsets (length pre) (map fst ts)))"
  using assms split_tlvs_wire [OF assms(1), of k]
  by (subst sctp_collect_split) simp_all

theorem sctp_records_roundtrip_witness:
  "sctp_collect PARAMETER [1, 0, 8, 0, 5, 7, 0, 0, 0, 0, 7, 0, 5, 9] (length [1 :: u8])
       (length [1 :: u8] + length (tlv_wire [([0, 8, 0, 5, 7], [0, 0, 0]), ([0, 7, 0, 5, 9], [])])) =
     Some (Inr ([1, 0, 8, 0, 5, 7, 0, 0, 0, 0, 7, 0, 5, 9], [1, 9]))"
  by (subst sctp_records_roundtrip [where post = "[]"])
    (simp_all add: tlv_ok_def be16_of_def padded_def)

end
