(* ===== verification/Sctp_Wire.thy ===== *)
theory Sctp_Wire
  imports Sctp_Iterator
begin

text \<open>
  Chunk, parameter and cause types of \<^verbatim>\<open>sctp.h\<close> and the sizes of its packed structures. The fields of a
  structure are read and written at their offsets in the buffer with the checked operations of the
  prelude.
\<close>

abbreviation (input) SCTP_DATA_CHUNK_TYPE :: u8 where "SCTP_DATA_CHUNK_TYPE \<equiv> 0x00"
abbreviation (input) SCTP_INIT_CHUNK_TYPE :: u8 where "SCTP_INIT_CHUNK_TYPE \<equiv> 0x01"
abbreviation (input) SCTP_INIT_ACK_CHUNK_TYPE :: u8 where "SCTP_INIT_ACK_CHUNK_TYPE \<equiv> 0x02"
abbreviation (input) SCTP_SACK_CHUNK_TYPE :: u8 where "SCTP_SACK_CHUNK_TYPE \<equiv> 0x03"
abbreviation (input) SCTP_HEARTBEAT_CHUNK_TYPE :: u8 where "SCTP_HEARTBEAT_CHUNK_TYPE \<equiv> 0x04"
abbreviation (input) SCTP_HEARTBEAT_ACK_CHUNK_TYPE :: u8 where "SCTP_HEARTBEAT_ACK_CHUNK_TYPE \<equiv> 0x05"
abbreviation (input) SCTP_ABORT_CHUNK_TYPE :: u8 where "SCTP_ABORT_CHUNK_TYPE \<equiv> 0x06"
abbreviation (input) SCTP_SHUTDOWN_CHUNK_TYPE :: u8 where "SCTP_SHUTDOWN_CHUNK_TYPE \<equiv> 0x07"
abbreviation (input) SCTP_SHUTDOWN_ACK_CHUNK_TYPE :: u8 where "SCTP_SHUTDOWN_ACK_CHUNK_TYPE \<equiv> 0x08"
abbreviation (input) SCTP_ERROR_CHUNK_TYPE :: u8 where "SCTP_ERROR_CHUNK_TYPE \<equiv> 0x09"
abbreviation (input) SCTP_COOKIE_ECHO_CHUNK_TYPE :: u8 where "SCTP_COOKIE_ECHO_CHUNK_TYPE \<equiv> 0x0a"
abbreviation (input) SCTP_COOKIE_ACK_CHUNK_TYPE :: u8 where "SCTP_COOKIE_ACK_CHUNK_TYPE \<equiv> 0x0b"
abbreviation (input) SCTP_ECNE_CHUNK_TYPE :: u8 where "SCTP_ECNE_CHUNK_TYPE \<equiv> 0x0c"
abbreviation (input) SCTP_CWR_CHUNK_TYPE :: u8 where "SCTP_CWR_CHUNK_TYPE \<equiv> 0x0d"
abbreviation (input) SCTP_SHUTDOWN_COMPLETE_CHUNK_TYPE :: u8 where
  "SCTP_SHUTDOWN_COMPLETE_CHUNK_TYPE \<equiv> 0x0e"
abbreviation (input) SCTP_NR_SACK_CHUNK_TYPE :: u8 where "SCTP_NR_SACK_CHUNK_TYPE \<equiv> 0x10"
abbreviation (input) SCTP_I_DATA_CHUNK_TYPE :: u8 where "SCTP_I_DATA_CHUNK_TYPE \<equiv> 0x40"
abbreviation (input) SCTP_RECONFIG_CHUNK_TYPE :: u8 where "SCTP_RECONFIG_CHUNK_TYPE \<equiv> 0x82"
abbreviation (input) SCTP_PAD_CHUNK_TYPE :: u8 where "SCTP_PAD_CHUNK_TYPE \<equiv> 0x84"
abbreviation (input) SCTP_FORWARD_TSN_CHUNK_TYPE :: u8 where "SCTP_FORWARD_TSN_CHUNK_TYPE \<equiv> 0xc0"
abbreviation (input) SCTP_I_FORWARD_TSN_CHUNK_TYPE :: u8 where "SCTP_I_FORWARD_TSN_CHUNK_TYPE \<equiv> 0xc2"

abbreviation (input) SCTP_STATE_COOKIE_PARAMETER_TYPE :: u16 where
  "SCTP_STATE_COOKIE_PARAMETER_TYPE \<equiv> 0x0007"
abbreviation (input) SCTP_OUTGOING_SSN_RESET_REQUEST_PARAMETER_TYPE :: u16 where
  "SCTP_OUTGOING_SSN_RESET_REQUEST_PARAMETER_TYPE \<equiv> 0x000d"
abbreviation (input) SCTP_INCOMING_SSN_RESET_REQUEST_PARAMETER_TYPE :: u16 where
  "SCTP_INCOMING_SSN_RESET_REQUEST_PARAMETER_TYPE \<equiv> 0x000e"
abbreviation (input) SCTP_SSN_TSN_RESET_REQUEST_PARAMETER_TYPE :: u16 where
  "SCTP_SSN_TSN_RESET_REQUEST_PARAMETER_TYPE \<equiv> 0x000f"
abbreviation (input) SCTP_RECONFIG_RESPONSE_PARAMETER_TYPE :: u16 where
  "SCTP_RECONFIG_RESPONSE_PARAMETER_TYPE \<equiv> 0x0010"
abbreviation (input) SCTP_ADD_OUTGOING_STREAMS_REQUEST_PARAMETER_TYPE :: u16 where
  "SCTP_ADD_OUTGOING_STREAMS_REQUEST_PARAMETER_TYPE \<equiv> 0x0011"
abbreviation (input) SCTP_ADD_INCOMING_STREAMS_REQUEST_PARAMETER_TYPE :: u16 where
  "SCTP_ADD_INCOMING_STREAMS_REQUEST_PARAMETER_TYPE \<equiv> 0x0012"

abbreviation (input) SCTP_ABORT_CHUNK_T_BIT :: u8 where "SCTP_ABORT_CHUNK_T_BIT \<equiv> 0x01"
abbreviation (input) SCTP_SHUTDOWN_COMPLETE_CHUNK_T_BIT :: u8 where
  "SCTP_SHUTDOWN_COMPLETE_CHUNK_T_BIT \<equiv> 0x01"

abbreviation (input) sizeof_sctp_data_chunk :: nat where "sizeof_sctp_data_chunk \<equiv> 16"
abbreviation (input) sizeof_sctp_init_chunk :: nat where "sizeof_sctp_init_chunk \<equiv> 20"
abbreviation (input) sizeof_sctp_init_ack_chunk :: nat where "sizeof_sctp_init_ack_chunk \<equiv> 20"
abbreviation (input) sizeof_sctp_sack_chunk :: nat where "sizeof_sctp_sack_chunk \<equiv> 16"
abbreviation (input) sizeof_sctp_nr_sack_chunk :: nat where "sizeof_sctp_nr_sack_chunk \<equiv> 20"
abbreviation (input) sizeof_sctp_sack_block :: nat where "sizeof_sctp_sack_block \<equiv> 4"
abbreviation (input) sizeof_sctp_abort_chunk :: nat where "sizeof_sctp_abort_chunk \<equiv> 4"
abbreviation (input) sizeof_sctp_shutdown_chunk :: nat where "sizeof_sctp_shutdown_chunk \<equiv> 8"
abbreviation (input) sizeof_sctp_ecne_chunk :: nat where "sizeof_sctp_ecne_chunk \<equiv> 8"
abbreviation (input) sizeof_sctp_cwr_chunk :: nat where "sizeof_sctp_cwr_chunk \<equiv> 8"
abbreviation (input) sizeof_sctp_shutdown_complete_chunk :: nat where
  "sizeof_sctp_shutdown_complete_chunk \<equiv> 4"
abbreviation (input) sizeof_sctp_i_data_chunk :: nat where "sizeof_sctp_i_data_chunk \<equiv> 20"
abbreviation (input) sizeof_sctp_forward_tsn_chunk :: nat where "sizeof_sctp_forward_tsn_chunk \<equiv> 8"
abbreviation (input) sizeof_sctp_i_forward_tsn_chunk :: nat where "sizeof_sctp_i_forward_tsn_chunk \<equiv> 8"
abbreviation (input) sizeof_sctp_reconfig_chunk :: nat where "sizeof_sctp_reconfig_chunk \<equiv> 4"
abbreviation (input) sizeof_sctp_reconfig_response_parameter :: nat where
  "sizeof_sctp_reconfig_response_parameter \<equiv> 20"

text \<open>The statement \<^verbatim>\<open>x = htonl(ntohl(x) + d)\<close> on the 32-bit field at offset \<open>p\<close>.\<close>

definition add32 :: "bytes \<Rightarrow> nat \<Rightarrow> u32 \<Rightarrow> bytes option" where
  "add32 b p d = do { v \<leftarrow> rd32 b p; wr32 b p (v + d) }"

lemma add32_length: "add32 b p d = Some b' \<Longrightarrow> length b' = length b"
  by (auto simp: add32_def wr32_def split: bind_splits dest: wr_bytes_length)

lemma rd32_add32: "add32 b p d = Some b' \<Longrightarrow> \<exists>v. rd32 b p = Some v \<and> rd32 b' p = Some (v + d)"
  by (auto simp: add32_def split: bind_splits dest: rd32_wr32)

lemma add32_total: "p + 3 < length b \<Longrightarrow> \<exists>b'. add32 b p d = Some b'"
  by (auto simp: add32_def rd32_def wr32_def wr_bytes_def)

text \<open>Adding back the difference restores the buffer.\<close>

lemma add32_inverse:
  assumes "add32 b p d = Some b'" and "d + e = 0"
  shows "add32 b' p e = Some b"
proof -
  obtain v where v: "rd32 b p = Some v" "wr32 b p (v + d) = Some b'"
    using assms(1) by (auto simp: add32_def split: bind_splits)
  obtain b1 where b1: "wr32 b p (v + d) = Some b1" "wr32 b1 p v = Some b"
    by (rule wr32_restore [OF v(1), of "v + d"]) (rule that)
  then show ?thesis
    using assms(2) v(2) rd32_wr32 [OF v(2)] by (simp add: add32_def add.assoc)
qed

end
