(* ===== verification/Map_Packets.thy ===== *)
theory Map_Packets
  imports Sockets Sctp_Wire Tcp_Options
begin

text \<open>
  The translation of packets between script and live values (\<^verbatim>\<open>run_packet.c\<close>): address tuples, TCP
  sequence and acknowledgement numbers, SACK blocks and timestamps, the TSNs and tags of SCTP chunks
  and parameters, and the headers echoed by ICMP messages.
\<close>

section \<open>TCP timestamps and SACK blocks\<close>

datatype map_error =
    Tcp_options_error tcp_opt_error
  | No_timestamp_mapping u32
  | Partial_chunk_outbound
  | Partial_parameter_outbound

definition get_outbound_ts_val_mapping :: "socket \<Rightarrow> u32 \<Rightarrow> (unit, u32) status" where
  "get_outbound_ts_val_mapping s script_timestamp =
     (case hash_map_get (ts_val_map s) script_timestamp of Some v \<Rightarrow> Inr v | None \<Rightarrow> Inl ())"

definition set_outbound_ts_val_mapping :: "socket \<Rightarrow> u32 \<Rightarrow> u32 \<Rightarrow> socket" where
  "set_outbound_ts_val_mapping s script_timestamp live_timestamp =
     s\<lparr> ts_val_map := hash_map_set (ts_val_map s) script_timestamp live_timestamp \<rparr>"

definition find_timestamp_body ::
    "bytes \<Rightarrow> nat \<Rightarrow> (nat \<times> nat) option \<Rightarrow> (tcp_opt_error, (nat \<times> nat) option) status option" where
  "find_timestamp_body b opt ts = do {
     kind \<leftarrow> rd8 b opt;
     Some (Inr (if kind = TCPOPT_TIMESTAMP then Some (opt + 2, opt + 6) else ts))
   }"

definition find_tcp_timestamp :: "packet \<Rightarrow> (map_error, packet) status option" where
  "find_tcp_timestamp pkt = do {
     iter \<leftarrow> tcp_options_begin pkt;
     r \<leftarrow> tcp_options_loop find_timestamp_body (pkt_buffer pkt) iter None;
     Some (case r of
        Inl err \<Rightarrow> Inl (Tcp_options_error err)
      | Inr ts \<Rightarrow> Inr (pkt\<lparr> pkt_tcp_ts_val := map_option fst ts, pkt_tcp_ts_ecr := map_option snd ts \<rparr>))
   }"

text \<open>A loop over the options that rewrites the buffer as it goes.\<close>

function tcp_options_update ::
    "(bytes \<Rightarrow> nat \<Rightarrow> (tcp_opt_error, bytes) status option) \<Rightarrow> bytes \<Rightarrow> tcp_options_iterator
       \<Rightarrow> (tcp_opt_error, bytes) status option" where
  "tcp_options_update body b iter = (case current_option iter of
      None \<Rightarrow> Some (Inr b)
    | Some cur \<Rightarrow> do {
        r \<leftarrow> body b cur;
        (case r of
           Inl err \<Rightarrow> Some (Inl err)
         | Inr b' \<Rightarrow> do {
             n \<leftarrow> tcp_options_next b' iter;
             (case n of
                Inl err \<Rightarrow> Some (Inl err)
              | Inr iter' \<Rightarrow> tcp_options_update body b' iter')
           })
      })"
  by pat_completeness auto
termination
proof (relation "measure (\<lambda>(body, b, iter). case current_option iter of
    None \<Rightarrow> 0 | Some c \<Rightarrow> Suc (options_end iter - c))")
  fix body b b' and iter iter' :: tcp_options_iterator and cur r n
  assume "current_option iter = Some cur" "tcp_options_next b' iter = Some n" "n = Inr iter'"
  then show "((body, b', iter'), (body, b, iter)) \<in> measure (\<lambda>(body, b, iter).
      case current_option iter of None \<Rightarrow> 0 | Some c \<Rightarrow> Suc (options_end iter - c))"
    using tcp_options_next_advances [of b' iter iter' cur] by (auto split: option.split)
qed simp

declare tcp_options_update.simps [simp del]

fun offset_blocks :: "bytes \<Rightarrow> nat \<Rightarrow> nat \<Rightarrow> u32 \<Rightarrow> bytes option" where
  "offset_blocks b p 0 d = Some b"
| "offset_blocks b p (Suc n) d = do {
     b \<leftarrow> add32 b p d;
     b \<leftarrow> add32 b (p + 4) d;
     offset_blocks b (p + 8) n d
   }"

definition offset_sack_body :: "u32 \<Rightarrow> bytes \<Rightarrow> nat \<Rightarrow> (tcp_opt_error, bytes) status option" where
  "offset_sack_body ack_offset b opt = do {
     kind \<leftarrow> rd8 b opt;
     if kind = TCPOPT_SACK
     then do {
       len \<leftarrow> rd8 b (opt + 1);
       (case num_sack_blocks len of
          Inl err \<Rightarrow> Some (Inl err)
        | Inr n \<Rightarrow> do { b \<leftarrow> offset_blocks b (opt + 2) n ack_offset; Some (Inr b) })
     }
     else Some (Inr b)
   }"

definition offset_sack_blocks :: "packet \<Rightarrow> u32 \<Rightarrow> (map_error, packet) status option" where
  "offset_sack_blocks pkt ack_offset = do {
     iter \<leftarrow> tcp_options_begin pkt;
     r \<leftarrow> tcp_options_update (offset_sack_body ack_offset) (pkt_buffer pkt) iter;
     Some (case r of
        Inl err \<Rightarrow> Inl (Tcp_options_error err)
      | Inr b \<Rightarrow> Inr (pkt\<lparr> pkt_buffer := b \<rparr>))
   }"

section \<open>Inbound packets: from script to live values\<close>

definition map_inbound_icmp_sctp_packet :: "socket \<Rightarrow> packet \<Rightarrow> bool \<Rightarrow> packet option" where
  "map_inbound_icmp_sctp_packet s pkt encapsulated = do {
     v_tag \<leftarrow> packet_echoed_sctp_v_tag pkt encapsulated;
     upd_buffer (\<lambda>b. wr32 b v_tag (remote_initiate_tag (so_live s))) pkt
   }"

definition map_inbound_icmp_tcp_packet :: "socket \<Rightarrow> packet \<Rightarrow> bool \<Rightarrow> packet option" where
  "map_inbound_icmp_tcp_packet s pkt encapsulated = do {
     seq \<leftarrow> packet_echoed_tcp_seq pkt encapsulated;
     let is_syn = False;
     let seq_offset = local_seq_script_to_live_offset s is_syn;
     upd_buffer (\<lambda>b. add32 b seq seq_offset) pkt
   }"

definition map_inbound_icmp_udp_packet :: "socket \<Rightarrow> packet \<Rightarrow> packet option" where
  "map_inbound_icmp_udp_packet s pkt = Some pkt"

definition map_inbound_icmp_udplite_packet :: "socket \<Rightarrow> packet \<Rightarrow> packet option" where
  "map_inbound_icmp_udplite_packet s pkt = Some pkt"

definition map_inbound_icmp_packet :: "socket \<Rightarrow> packet \<Rightarrow> u8 \<Rightarrow> packet option" where
  "map_inbound_icmp_packet s pkt udp_encaps = do {
     protocol \<leftarrow> packet_echoed_ip_protocol pkt;
     let protocol = (if protocol = IPPROTO_UDP \<and> udp_encaps \<noteq> 0 then udp_encaps else protocol);
     if protocol = IPPROTO_SCTP then map_inbound_icmp_sctp_packet s pkt (udp_encaps = IPPROTO_SCTP)
     else if protocol = IPPROTO_TCP then map_inbound_icmp_tcp_packet s pkt (udp_encaps = IPPROTO_TCP)
     else if protocol = IPPROTO_UDP then map_inbound_icmp_udp_packet s pkt
     else if protocol = IPPROTO_UDPLITE then map_inbound_icmp_udplite_packet s pkt
     else None
   }"

subsection \<open>SCTP\<close>

text \<open>Shifting the duplicate TSNs of a SACK: \<open>n\<close> words from offset \<open>p\<close>.\<close>

fun add32_words :: "bytes \<Rightarrow> nat \<Rightarrow> nat \<Rightarrow> u32 \<Rightarrow> bytes option" where
  "add32_words b p 0 d = Some b"
| "add32_words b p (Suc n) d = do { b \<leftarrow> add32 b p d; add32_words b (p + 4) n d }"

text \<open>A conditional update of the buffer.\<close>

definition when_upd :: "bool \<Rightarrow> (bytes \<Rightarrow> bytes option) \<Rightarrow> bytes \<Rightarrow> bytes option" where
  "when_upd c f b = (if c then f b else Some b)"

definition map_inbound_parameter :: "u32 \<Rightarrow> u32 \<Rightarrow> nat \<Rightarrow> bytes \<Rightarrow> bytes option" where
  "map_inbound_parameter remote_diff local_diff parameter b = do {
     type \<leftarrow> rd16 b parameter;
     len \<leftarrow> rd16 b (parameter + 2);
     if type = SCTP_OUTGOING_SSN_RESET_REQUEST_PARAMETER_TYPE
     then do {
       b \<leftarrow> when_upd (len \<ge> 8) (\<lambda>b. add32 b (parameter + 4) remote_diff) b;
       b \<leftarrow> when_upd (len \<ge> 12) (\<lambda>b. add32 b (parameter + 8) local_diff) b;
       when_upd (len \<ge> 16) (\<lambda>b. add32 b (parameter + 12) remote_diff) b
     }
     else if type = SCTP_INCOMING_SSN_RESET_REQUEST_PARAMETER_TYPE
     then when_upd (len \<ge> 8) (\<lambda>b. add32 b (parameter + 4) remote_diff) b
     else if type = SCTP_SSN_TSN_RESET_REQUEST_PARAMETER_TYPE
     then when_upd (len \<ge> 8) (\<lambda>b. add32 b (parameter + 4) remote_diff) b
     else if type = SCTP_RECONFIG_RESPONSE_PARAMETER_TYPE
     then do {
       b \<leftarrow> add32 b (parameter + 4) local_diff;
       b \<leftarrow> when_upd (len \<ge> 16) (\<lambda>b. add32 b (parameter + 16) local_diff) b;
       when_upd (len \<ge> 20) (\<lambda>b. add32 b (parameter + 12) remote_diff) b
     }
     else if type = SCTP_ADD_OUTGOING_STREAMS_REQUEST_PARAMETER_TYPE
     then when_upd (len \<ge> 8) (\<lambda>b. add32 b (parameter + 4) remote_diff) b
     else if type = SCTP_ADD_INCOMING_STREAMS_REQUEST_PARAMETER_TYPE
     then when_upd (len \<ge> 8) (\<lambda>b. add32 b (parameter + 4) remote_diff) b
     else Some b
   }"

text \<open>A loop that is left silently at a defective record.\<close>

definition sctp_walk ::
    "sctp_tlv \<Rightarrow> ('s \<Rightarrow> bytes) \<Rightarrow> (nat \<Rightarrow> 's \<Rightarrow> 's option) \<Rightarrow> sctp_position \<Rightarrow> 's \<Rightarrow> 's option" where
  "sctp_walk k buf body p s = map_option projr
     (sctp_loop k buf (\<lambda>err s. Some (Inr s)) (\<lambda>cur s. map_option Inr (body cur s)) p s :: (unit, 's) status option)"

text \<open>What the loop over the chunks of an inbound packet keeps: the bytes of the packet and the two
  flags.\<close>

record inbound_map =
  im_bytes :: bytes
  reflect_v_tag :: bool
  contains_init_chunk :: bool

definition im_upd :: "bool \<Rightarrow> (bytes \<Rightarrow> bytes option) \<Rightarrow> inbound_map \<Rightarrow> inbound_map option" where
  "im_upd c f m = (if c then do { b \<leftarrow> f (im_bytes m); Some (m\<lparr>im_bytes := b\<rparr>) } else Some m)"

definition map_inbound_tag :: "socket \<Rightarrow> nat \<Rightarrow> bytes \<Rightarrow> bytes option" where
  "map_inbound_tag s p b = do {
     tag \<leftarrow> rd32 b p;
     if tag = local_initiate_tag (so_script s) then wr32 b p (local_initiate_tag (so_live s)) else Some b
   }"

definition map_inbound_chunk :: "socket \<Rightarrow> nat \<Rightarrow> inbound_map \<Rightarrow> inbound_map option" where
  "map_inbound_chunk s chunk m = do {
     let remote_diff = remote_initial_tsn (so_live s) - remote_initial_tsn (so_script s);
     let local_diff = local_initial_tsn (so_live s) - local_initial_tsn (so_script s);
     type \<leftarrow> rd8 (im_bytes m) chunk;
     flags \<leftarrow> rd8 (im_bytes m) (chunk + 1);
     clen \<leftarrow> rd16 (im_bytes m) (chunk + 2);
     let chunk_length = unat clen;
     if type = SCTP_DATA_CHUNK_TYPE
     then im_upd (chunk_length \<ge> sizeof_sctp_data_chunk) (\<lambda>b. add32 b (chunk + 4) remote_diff) m
     else if type = SCTP_INIT_CHUNK_TYPE
     then (if chunk_length \<ge> sizeof_sctp_init_chunk
       then do {
         b \<leftarrow> add32 (im_bytes m) (chunk + 16) remote_diff;
         b \<leftarrow> map_inbound_tag s (chunk + 4) b;
         Some (m\<lparr> im_bytes := b, contains_init_chunk := True \<rparr>)
       }
       else Some m)
     else if type = SCTP_INIT_ACK_CHUNK_TYPE
     then im_upd (chunk_length \<ge> sizeof_sctp_init_ack_chunk)
       (\<lambda>b. do { b \<leftarrow> add32 b (chunk + 16) remote_diff; map_inbound_tag s (chunk + 4) b }) m
     else if type = SCTP_SACK_CHUNK_TYPE
     then im_upd (chunk_length \<ge> sizeof_sctp_sack_chunk)
       (\<lambda>b. do {
         b \<leftarrow> add32 b (chunk + 4) local_diff;
         nr_gap_blocks \<leftarrow> rd16 b (chunk + 12);
         nr_dup_tsns \<leftarrow> rd16 b (chunk + 14);
         when_upd (chunk_length = sizeof_sctp_sack_chunk
             + sizeof_sctp_sack_block * (unat nr_dup_tsns + unat nr_gap_blocks))
           (\<lambda>b. add32_words b (chunk + 16 + 4 * unat nr_gap_blocks) (unat nr_dup_tsns) local_diff) b
       }) m
     else if type = SCTP_NR_SACK_CHUNK_TYPE
     then im_upd (chunk_length \<ge> sizeof_sctp_nr_sack_chunk)
       (\<lambda>b. do {
         b \<leftarrow> add32 b (chunk + 4) local_diff;
         nr_gap_blocks \<leftarrow> rd16 b (chunk + 12);
         number_of_nr_gap_blocks \<leftarrow> rd16 b (chunk + 14);
         nr_dup_tsns \<leftarrow> rd16 b (chunk + 16);
         when_upd (chunk_length = sizeof_sctp_nr_sack_chunk
             + sizeof_sctp_sack_block * (unat nr_dup_tsns + unat nr_gap_blocks))
           (\<lambda>b. add32_words b (chunk + 20 + 4 * unat (nr_gap_blocks + number_of_nr_gap_blocks))
             (unat nr_dup_tsns) local_diff) b
       }) m
     else if type = SCTP_ABORT_CHUNK_TYPE
     then Some (if chunk_length \<ge> sizeof_sctp_abort_chunk \<and> flags AND SCTP_ABORT_CHUNK_T_BIT \<noteq> 0
       then m\<lparr> reflect_v_tag := True \<rparr> else m)
     else if type = SCTP_SHUTDOWN_CHUNK_TYPE
     then im_upd (chunk_length \<ge> sizeof_sctp_shutdown_chunk) (\<lambda>b. add32 b (chunk + 4) local_diff) m
     else if type = SCTP_ECNE_CHUNK_TYPE
     then im_upd (chunk_length \<ge> sizeof_sctp_ecne_chunk) (\<lambda>b. add32 b (chunk + 4) local_diff) m
     else if type = SCTP_CWR_CHUNK_TYPE
     then im_upd (chunk_length \<ge> sizeof_sctp_cwr_chunk) (\<lambda>b. add32 b (chunk + 4) local_diff) m
     else if type = SCTP_SHUTDOWN_COMPLETE_CHUNK_TYPE
     then Some (if chunk_length \<ge> sizeof_sctp_shutdown_complete_chunk \<and>
           flags AND SCTP_SHUTDOWN_COMPLETE_CHUNK_T_BIT \<noteq> 0
       then m\<lparr> reflect_v_tag := True \<rparr> else m)
     else if type = SCTP_I_DATA_CHUNK_TYPE
     then im_upd (chunk_length \<ge> sizeof_sctp_i_data_chunk) (\<lambda>b. add32 b (chunk + 4) remote_diff) m
     else if type = SCTP_FORWARD_TSN_CHUNK_TYPE
     then im_upd (chunk_length \<ge> sizeof_sctp_forward_tsn_chunk) (\<lambda>b. add32 b (chunk + 4) remote_diff) m
     else if type = SCTP_I_FORWARD_TSN_CHUNK_TYPE
     then im_upd (chunk_length \<ge> sizeof_sctp_i_forward_tsn_chunk) (\<lambda>b. add32 b (chunk + 4) remote_diff) m
     else if type = SCTP_RECONFIG_CHUNK_TYPE
     then im_upd (chunk_length \<ge> sizeof_sctp_reconfig_chunk + 4)
       (\<lambda>b. do {
         p \<leftarrow> sctp_parameters_begin b (chunk + 4) (clen - of_nat sizeof_sctp_reconfig_chunk);
         sctp_walk PARAMETER (\<lambda>b. b) (map_inbound_parameter remote_diff local_diff) p b
       }) m
     else Some m
   }"

text \<open>The verification tag of the common header.\<close>

definition map_inbound_v_tag :: "socket \<Rightarrow> u32 \<Rightarrow> u32 \<Rightarrow> bool \<Rightarrow> bool \<Rightarrow> u32" where
  "map_inbound_v_tag s flags v_tag reflect contains_init =
     (if flags AND FLAGS_SCTP_EXPLICIT_TAG \<noteq> 0
      then (if v_tag \<noteq> 0
        then let v = (if reflect
              then remote_initiate_tag (so_live s) + (v_tag - remote_initiate_tag (so_script s))
              else local_initiate_tag (so_live s) + (v_tag - local_initiate_tag (so_script s)))
          in if v = 0 then 1 else v
        else v_tag)
      else if contains_init then 0
      else if reflect then remote_initiate_tag (so_live s) else local_initiate_tag (so_live s))"

definition map_inbound_sctp_packet :: "socket \<Rightarrow> packet \<Rightarrow> packet option" where
  "map_inbound_sctp_packet s pkt = do {
     let m = \<lparr> im_bytes = pkt_buffer pkt, reflect_v_tag = False, contains_init_chunk = False \<rparr>;
     m \<leftarrow> (if pkt_flags pkt AND FLAGS_SCTP_GENERIC_PACKET = 0
       then do { p \<leftarrow> sctp_chunks_begin pkt; sctp_walk CHUNK im_bytes (map_inbound_chunk s) p m }
       else Some m);
     sctp \<leftarrow> pkt_sctp pkt;
     v_tag \<leftarrow> sctp_v_tag (im_bytes m) sctp;
     b \<leftarrow> wr32 (im_bytes m) (sctp + 4)
       (map_inbound_v_tag s (pkt_flags pkt) v_tag (reflect_v_tag m) (contains_init_chunk m));
     Some (pkt\<lparr> pkt_buffer := b \<rparr>)
   }"

subsection \<open>All inbound packets\<close>

definition map_inbound_tcp_packet :: "socket \<Rightarrow> packet \<Rightarrow> nat \<Rightarrow> (map_error, packet) status option" where
  "map_inbound_tcp_packet s pkt tcp = do {
     is_syn \<leftarrow> tcp_syn (pkt_buffer pkt) tcp;
     let seq_offset = remote_seq_script_to_live_offset s is_syn;
     pkt \<leftarrow> (if pkt_flags pkt AND FLAG_ABSOLUTE_SEQ = 0
       then upd_buffer (\<lambda>b. add32 b (tcp + 4) seq_offset) pkt else Some pkt);
     let ack_offset = local_seq_script_to_live_offset s is_syn;
     ack \<leftarrow> tcp_ack (pkt_buffer pkt) tcp;
     pkt \<leftarrow> (if ack then upd_buffer (\<lambda>b. add32 b (tcp + 8) ack_offset) pkt else Some pkt);
     r \<leftarrow> offset_sack_blocks pkt ack_offset;
     (case r of Inl err \<Rightarrow> Some (Inl err) | Inr pkt \<Rightarrow> do {
       r \<leftarrow> find_tcp_timestamp pkt;
       (case r of Inl err \<Rightarrow> Some (Inl err) | Inr pkt \<Rightarrow>
         if pkt_flags pkt AND FLAG_ABSOLUTE_TS_ECR \<noteq> 0 then Some (Inr pkt)
         else if ack \<and> pkt_tcp_ts_ecr pkt \<noteq> None
         then do {
           ts_ecr \<leftarrow> packet_tcp_ts_ecr pkt;
           (case get_outbound_ts_val_mapping s ts_ecr of
              Inl _ \<Rightarrow> Some (Inl (No_timestamp_mapping ts_ecr))
            | Inr live_ts_ecr \<Rightarrow> do { pkt \<leftarrow> packet_set_tcp_ts_ecr pkt live_ts_ecr; Some (Inr pkt) })
         }
         else Some (Inr pkt))
     })
   }"

definition map_inbound_packet :: "socket \<Rightarrow> packet \<Rightarrow> u8 \<Rightarrow> (map_error, packet) status option" where
  "map_inbound_packet s pkt udp_encaps = do {
     let live_inbound = socket_get_inbound (so_live s);
     pkt \<leftarrow> set_packet_tuple pkt live_inbound (udp_encaps \<noteq> 0);
     if pkt_icmpv4 pkt \<noteq> None \<or> pkt_icmpv6 pkt \<noteq> None
     then map_option Inr (map_inbound_icmp_packet s pkt udp_encaps)
     else if pkt_sctp pkt \<noteq> None then map_option Inr (map_inbound_sctp_packet s pkt)
     else (case pkt_tcp pkt of
        None \<Rightarrow> Some (Inr pkt)
      | Some tcp \<Rightarrow> map_inbound_tcp_packet s pkt tcp)
   }"

section \<open>Outbound packets: from live to script values\<close>

definition map_outbound_parameter :: "u32 \<Rightarrow> u32 \<Rightarrow> nat \<Rightarrow> bytes \<Rightarrow> bytes option" where
  "map_outbound_parameter remote_diff local_diff parameter b = do {
     type \<leftarrow> rd16 b parameter;
     len \<leftarrow> rd16 b (parameter + 2);
     if type = SCTP_OUTGOING_SSN_RESET_REQUEST_PARAMETER_TYPE
     then do {
       b \<leftarrow> add32 b (parameter + 4) local_diff;
       b \<leftarrow> add32 b (parameter + 8) remote_diff;
       add32 b (parameter + 12) local_diff
     }
     else if type = SCTP_INCOMING_SSN_RESET_REQUEST_PARAMETER_TYPE then add32 b (parameter + 4) local_diff
     else if type = SCTP_SSN_TSN_RESET_REQUEST_PARAMETER_TYPE then add32 b (parameter + 4) local_diff
     else if type = SCTP_RECONFIG_RESPONSE_PARAMETER_TYPE
     then do {
       b \<leftarrow> add32 b (parameter + 4) remote_diff;
       when_upd (unat len = sizeof_sctp_reconfig_response_parameter) (\<lambda>b. do {
         b \<leftarrow> add32 b (parameter + 16) remote_diff;
         add32 b (parameter + 12) local_diff
       }) b
     }
     else if type = SCTP_ADD_OUTGOING_STREAMS_REQUEST_PARAMETER_TYPE then add32 b (parameter + 4) local_diff
     else if type = SCTP_ADD_INCOMING_STREAMS_REQUEST_PARAMETER_TYPE then add32 b (parameter + 4) local_diff
     else Some b
   }"

definition map_outbound_tag :: "socket \<Rightarrow> nat \<Rightarrow> bytes \<Rightarrow> bytes option" where
  "map_outbound_tag s p b = do {
     tag \<leftarrow> rd32 b p;
     if tag = local_initiate_tag (so_live s) then wr32 b p (local_initiate_tag (so_script s)) else Some b
   }"

text \<open>The test of the length of a RECONFIG chunk compares the field as it lies in memory, without
  \<^verbatim>\<open>ntohs\<close>.\<close>

definition map_outbound_chunk :: "socket \<Rightarrow> nat \<Rightarrow> bytes \<Rightarrow> (map_error, bytes) status option" where
  "map_outbound_chunk s chunk b = do {
     let local_diff = local_initial_tsn (so_script s) - local_initial_tsn (so_live s);
     let remote_diff = remote_initial_tsn (so_script s) - remote_initial_tsn (so_live s);
     type \<leftarrow> rd8 b chunk;
     if type = SCTP_DATA_CHUNK_TYPE then map_option Inr (add32 b (chunk + 4) local_diff)
     else if type = SCTP_INIT_CHUNK_TYPE \<or> type = SCTP_INIT_ACK_CHUNK_TYPE
     then do {
       b \<leftarrow> add32 b (chunk + 16) local_diff;
       map_option Inr (map_outbound_tag s (chunk + 4) b)
     }
     else if type = SCTP_SACK_CHUNK_TYPE
     then do {
       b \<leftarrow> add32 b (chunk + 4) remote_diff;
       nr_gap_blocks \<leftarrow> rd16 b (chunk + 12);
       nr_dup_tsns \<leftarrow> rd16 b (chunk + 14);
       map_option Inr (add32_words b (chunk + 16 + 4 * unat nr_gap_blocks) (unat nr_dup_tsns) remote_diff)
     }
     else if type = SCTP_NR_SACK_CHUNK_TYPE
     then do {
       b \<leftarrow> add32 b (chunk + 4) remote_diff;
       nr_gap_blocks \<leftarrow> rd16 b (chunk + 12);
       number_of_nr_gap_blocks \<leftarrow> rd16 b (chunk + 14);
       nr_dup_tsns \<leftarrow> rd16 b (chunk + 16);
       map_option Inr (add32_words b (chunk + 20 + 4 * unat (nr_gap_blocks + number_of_nr_gap_blocks))
         (unat nr_dup_tsns) remote_diff)
     }
     else if type = SCTP_SHUTDOWN_CHUNK_TYPE \<or> type = SCTP_ECNE_CHUNK_TYPE \<or> type = SCTP_CWR_CHUNK_TYPE
     then map_option Inr (add32 b (chunk + 4) remote_diff)
     else if type = SCTP_I_DATA_CHUNK_TYPE \<or> type = SCTP_FORWARD_TSN_CHUNK_TYPE \<or>
       type = SCTP_I_FORWARD_TSN_CHUNK_TYPE
     then map_option Inr (add32 b (chunk + 4) local_diff)
     else if type = SCTP_RECONFIG_CHUNK_TYPE
     then do {
       clen \<leftarrow> rd16 b (chunk + 2);
       if unat (ntohs clen) > sizeof_sctp_reconfig_chunk
       then do {
         p \<leftarrow> sctp_parameters_begin b (chunk + 4) (clen - of_nat sizeof_sctp_reconfig_chunk);
         sctp_loop PARAMETER (\<lambda>b. b) (\<lambda>err b. Some (Inl Partial_parameter_outbound))
           (\<lambda>parameter b. map_option Inr (map_outbound_parameter remote_diff local_diff parameter b)) p b
       }
       else Some (Inr b)
     }
     else Some (Inr b)
   }"

definition map_outbound_live_sctp_packet :: "socket \<Rightarrow> packet \<Rightarrow> (map_error, packet) status option" where
  "map_outbound_live_sctp_packet s actual_packet = do {
     p \<leftarrow> sctp_chunks_begin actual_packet;
     r \<leftarrow> sctp_loop CHUNK (\<lambda>b. b) (\<lambda>err b. Some (Inl Partial_chunk_outbound))
       (map_outbound_chunk s) p (pkt_buffer actual_packet);
     Some (case r of Inl err \<Rightarrow> Inl err | Inr b \<Rightarrow> Inr (actual_packet\<lparr> pkt_buffer := b \<rparr>))
   }"

text \<open>The timestamp of an outbound TCP packet: the mapping from script to actual values is remembered in
  the socket, and the actual value is rewritten relative to the first pair seen.\<close>

definition map_outbound_ts_val ::
    "socket \<Rightarrow> packet \<Rightarrow> packet \<Rightarrow> (socket \<times> packet) option" where
  "map_outbound_ts_val s script_packet actual_packet = do {
     script_ts_val \<leftarrow> packet_tcp_ts_val script_packet;
     actual_ts_val \<leftarrow> packet_tcp_ts_val actual_packet;
     let s = (if pkt_flags script_packet AND FLAG_IGNORE_TS_VAL = 0
       then set_outbound_ts_val_mapping s script_ts_val actual_ts_val else s);
     let s = (if \<not> found_first_tcp_ts s
       then s\<lparr> found_first_tcp_ts := True, first_script_ts_val := script_ts_val,
               first_actual_ts_val := actual_ts_val \<rparr>
       else s);
     actual_packet \<leftarrow> packet_set_tcp_ts_val actual_packet
       (first_script_ts_val s + (actual_ts_val - first_actual_ts_val s));
     Some (s, actual_packet)
   }"

text \<open>The socket, the script packet (whose timestamp pointers are set) and the rewritten packet.\<close>

definition map_outbound_live_tcp_packet ::
    "socket \<Rightarrow> packet \<Rightarrow> packet \<Rightarrow> packet \<Rightarrow> nat \<Rightarrow> (map_error, socket \<times> packet \<times> packet) status option" where
  "map_outbound_live_tcp_packet s live_packet actual_packet script_packet live_tcp = do {
     is_syn \<leftarrow> tcp_syn (pkt_buffer live_packet) live_tcp;
     let seq_offset = local_seq_live_to_script_offset s is_syn;
     live_seq \<leftarrow> tcp_seq (pkt_buffer live_packet) live_tcp;
     actual_tcp \<leftarrow> pkt_tcp actual_packet;
     actual_packet \<leftarrow> upd_buffer (\<lambda>b. wr32 b (actual_tcp + 4)
       (if pkt_flags script_packet AND FLAG_ABSOLUTE_SEQ = 0 then live_seq + seq_offset else live_seq))
       actual_packet;
     let ack_offset = remote_seq_live_to_script_offset s is_syn;
     ack \<leftarrow> tcp_ack (pkt_buffer actual_packet) actual_tcp;
     actual_packet \<leftarrow> (if ack
       then do {
         live_ack_seq \<leftarrow> tcp_ack_seq (pkt_buffer live_packet) live_tcp;
         upd_buffer (\<lambda>b. wr32 b (actual_tcp + 8) (live_ack_seq + ack_offset)) actual_packet
       }
       else Some actual_packet);
     r \<leftarrow> offset_sack_blocks actual_packet ack_offset;
     (case r of Inl err \<Rightarrow> Some (Inl err) | Inr actual_packet \<Rightarrow> do {
       r \<leftarrow> find_tcp_timestamp script_packet;
       (case r of Inl err \<Rightarrow> Some (Inl err) | Inr script_packet \<Rightarrow> do {
         r \<leftarrow> find_tcp_timestamp actual_packet;
         (case r of Inl err \<Rightarrow> Some (Inl err) | Inr actual_packet \<Rightarrow>
           if pkt_tcp_ts_val script_packet \<noteq> None \<and> pkt_tcp_ts_val actual_packet \<noteq> None
           then do {
             (s, actual_packet) \<leftarrow> map_outbound_ts_val s script_packet actual_packet;
             Some (Inr (s, script_packet, actual_packet))
           }
           else Some (Inr (s, script_packet, actual_packet)))
       })
     })
   }"

definition map_outbound_live_packet ::
    "socket \<Rightarrow> packet \<Rightarrow> packet \<Rightarrow> packet \<Rightarrow> u8 \<Rightarrow>
       (map_error, socket \<times> packet \<times> packet) status option" where
  "map_outbound_live_packet s live_packet actual_packet script_packet udp_encaps = do {
     live_packet_tuple \<leftarrow> get_packet_tuple live_packet;
     c_assert (is_equal_tuple live_packet_tuple (socket_get_outbound (so_live s)));
     actual_packet \<leftarrow> set_packet_tuple actual_packet (socket_get_outbound (so_script s)) (udp_encaps \<noteq> 0);
     if pkt_sctp live_packet \<noteq> None
     then do {
       r \<leftarrow> map_outbound_live_sctp_packet s actual_packet;
       Some (case r of Inl err \<Rightarrow> Inl err | Inr actual_packet \<Rightarrow> Inr (s, script_packet, actual_packet))
     }
     else (case pkt_tcp live_packet of
        None \<Rightarrow> Some (Inr (s, script_packet, actual_packet))
      | Some live_tcp \<Rightarrow> map_outbound_live_tcp_packet s live_packet actual_packet script_packet live_tcp)
   }"

section \<open>Shifting the blocks of SACK options\<close>

text \<open>Shifting the 32-bit words of a byte string, and the SACK blocks of an option.\<close>

fun shift_words :: "u32 \<Rightarrow> bytes \<Rightarrow> bytes" where
  "shift_words d (x # y # z # w # r) =
     put_unaligned_be32 (get_unaligned_be32 x y z w + d) @ shift_words d r"
| "shift_words d xs = xs"

definition shift_sack :: "u32 \<Rightarrow> tcp_option \<Rightarrow> tcp_option" where
  "shift_sack d opt = (if opt \<noteq> [] \<and> hd opt = TCPOPT_SACK then take 2 opt @ shift_words d (drop 2 opt) else opt)"

definition sack_option_ok :: "tcp_option \<Rightarrow> bool" where
  "sack_option_ok opt \<longleftrightarrow> (hd opt = TCPOPT_SACK \<longrightarrow> 2 < length opt \<and> 8 dvd length opt - 2)"

lemma length_shift_words [simp]: "length (shift_words d xs) = length xs"
  by (induction d xs rule: shift_words.induct) simp_all

lemma length_shift_sack [simp]: "length (shift_sack d opt) = length opt"
  by (cases opt; cases "tl opt") (simp_all add: shift_sack_def)

lemma add32_mid4:
  "add32 (pre @ (x # y # z # w # r)) (length pre) d =
     Some (pre @ put_unaligned_be32 (get_unaligned_be32 x y z w + d) @ r)"
proof -
  have "rd32 (pre @ (x # y # z # w # r)) (length pre) = Some (get_unaligned_be32 x y z w)"
    by (simp add: rd32_def nth_append)
  then show ?thesis
    by (simp add: add32_def wr32_def wr_bytes_def)
qed

lemma shift_words_cancel: "d + e = 0 \<Longrightarrow> shift_words e (shift_words d xs) = xs"
proof (induction d xs rule: shift_words.induct)
  case (1 d x y z w r)
  define v where "v = get_unaligned_be32 x y z w + d"
  obtain a b c f where abcf: "put_unaligned_be32 v = [a, b, c, f]"
    by (simp add: put_unaligned_be32_def)
  have "get_unaligned_be32 a b c f = v"
    using be32_of_to [of v] unfolding abcf by (simp add: numeral_2_eq_2 numeral_3_eq_3)
  moreover have "v + e = get_unaligned_be32 x y z w"
    using 1(2) by (simp add: v_def add.assoc)
  ultimately show ?case
    using 1 by (simp add: v_def [symmetric] abcf)
qed simp_all

lemma offset_blocks_shift:
  "length xs = 8 * n \<Longrightarrow>
     offset_blocks (pre @ xs @ post) (length pre) n d = Some (pre @ shift_words d xs @ post)"
proof (induction n arbitrary: pre xs)
  case (Suc n)
  then obtain a b c e f g h i r where xs: "xs = a # b # c # e # f # g # h # i # r" and r: "length r = 8 * n"
    by (auto simp: length_Suc_conv eval_nat_numeral)
  define u where "u = put_unaligned_be32 (get_unaligned_be32 a b c e + d)"
  define v where "v = put_unaligned_be32 (get_unaligned_be32 f g h i + d)"
  have 1: "add32 (pre @ xs @ post) (length pre) d = Some ((pre @ u) @ (f # g # h # i # r @ post))"
    using add32_mid4 [of pre a b c e "f # g # h # i # r @ post" d] by (simp add: xs u_def)
  have 2: "add32 ((pre @ u) @ (f # g # h # i # r @ post)) (length pre + 4) d =
      Some ((pre @ u @ v) @ r @ post)"
    using add32_mid4 [of "pre @ u" f g h i "r @ post" d] by (simp add: u_def v_def)
  have "offset_blocks ((pre @ u @ v) @ r @ post) (length pre + 8) n d =
      Some ((pre @ u @ v) @ shift_words d r @ post)"
    using Suc.IH [OF r, of "pre @ u @ v"] by (simp add: u_def v_def)
  with 1 2 show ?case
    by (simp add: xs u_def v_def)
qed simp

lemma offset_sack_body_mid:
  assumes "wire_option opt" and "sack_option_ok opt"
  shows "offset_sack_body d (pre @ opt @ post) (length pre) = Some (Inr (pre @ shift_sack d opt @ post))"
proof (cases "hd opt = TCPOPT_SACK")
  case True
  then obtain len r where opt: "opt = 5 # len # r" "length opt = unat len"
    using assms(1) by (cases opt; cases "tl opt")
      (auto simp: wire_option_def get_expected_tcp_option_length_def split: if_splits)
  have n: "8 dvd length r" "r \<noteq> []" "unat len - 2 = length r"
    using assms(2) True opt by (auto simp: sack_option_ok_def)
  then have "num_sack_blocks len = Inr (length r div 8)"
    using opt by (auto simp: num_sack_blocks_def Let_def word_le_nat_alt)
  then show ?thesis
    using opt(1) offset_blocks_shift [of r "length r div 8" "pre @ [5, len]" post d] n(1)
    by (simp add: offset_sack_body_def rd8_def nth_append shift_sack_def)
next
  case False
  have "opt \<noteq> []"
    using assms(1) by (simp add: wire_option_def)
  then show ?thesis
    using False by (cases opt) (simp_all add: offset_sack_body_def rd8_def nth_append shift_sack_def)
qed

text \<open>An update loop over well-formed options rewrites each option in its place.\<close>

lemma tcp_options_update_map:
  assumes "\<forall>opt \<in> set os. wire_option opt \<and> wire_option (g opt) \<and> length (g opt) = length opt"
    and body: "\<And>pre opt post. opt \<in> set os \<Longrightarrow>
       body (pre @ opt @ post) (length pre) = Some (Inr (pre @ g opt @ post))"
    and "get_current_option (length pre) (length pre + length (concat os)) = Some iter"
  shows "tcp_options_update body (pre @ concat os @ post) iter = Some (Inr (pre @ concat (map g os) @ post))"
  using assms
proof (induction os arbitrary: pre iter)
  case Nil
  then show ?case
    by (auto simp: get_current_option_def tcp_options_update.simps)
next
  case (Cons opt os)
  let ?e = "length pre + length (concat (opt # os))"
  have g: "wire_option (g opt)" "length (g opt) = length opt" "g opt \<noteq> []"
    using Cons.prems(1) by (auto simp: wire_option_def)
  have iter: "iter = \<lparr>current_option = Some (length pre), options_end = ?e\<rparr>"
    using Cons.prems(3) g by (simp add: get_current_option_def split: if_splits)
  let ?b = "pre @ g opt @ concat os @ post"
  have sub: "subbytes ?b (length pre) ?e = g opt @ concat os"
    using g(2) by simp
  obtain iter' where it': "get_current_option (length (pre @ g opt)) ?e = Some iter'"
    using g by (simp add: get_current_option_def)
  have next_eq: "tcp_options_next ?b iter = Some (Inr iter')"
    unfolding iter using g it'
    by (subst tcp_options_next_eq) (auto simp: sub first_option_wire get_current_option_def split: if_splits)
  have "tcp_options_update body (pre @ concat (opt # os) @ post) iter = tcp_options_update body ?b iter'"
    using Cons.prems(2) [of opt pre "concat os @ post"] next_eq
    by (subst tcp_options_update.simps) (simp add: iter)
  also have "\<dots> = Some (Inr ((pre @ g opt) @ concat (map g os) @ post))"
    using Cons.prems it' g(2) Cons.IH [of "pre @ g opt" iter'] by (simp add: add.assoc)
  finally show ?case
    by simp
qed

lemma wire_option_shift_sack:
  assumes "wire_option opt"
  shows "wire_option (shift_sack d opt)"
proof (cases "hd opt = TCPOPT_SACK")
  case True
  then obtain len r where opt: "opt = 5 # len # r"
    using assms by (cases opt; cases "tl opt")
      (auto simp: wire_option_def get_expected_tcp_option_length_def split: if_splits)
  then show ?thesis
    using assms by (simp add: shift_sack_def wire_option_def get_expected_tcp_option_length_def)
qed (use assms in \<open>simp add: shift_sack_def\<close>)

lemma shift_sack_cancel: "d + e = 0 \<Longrightarrow> shift_sack e (shift_sack d opt) = opt"
  by (cases opt; cases "tl opt") (simp_all add: shift_sack_def shift_words_cancel)

lemma sack_option_ok_shift [simp]: "sack_option_ok (shift_sack d opt) = sack_option_ok opt"
  by (cases opt; cases "tl opt") (simp_all add: shift_sack_def sack_option_ok_def)

text \<open>A packet whose TCP options are the list \<open>os\<close>, with \<open>pre\<close> and \<open>post\<close> the bytes around them.\<close>

definition tcp_options_at :: "packet \<Rightarrow> nat \<Rightarrow> bytes \<Rightarrow> tcp_option list \<Rightarrow> bytes \<Rightarrow> bool" where
  "tcp_options_at pkt tcp pre os post \<longleftrightarrow> pkt_tcp pkt = Some tcp \<and> pkt_sctp pkt = None \<and>
     length pre = tcp + sizeof_tcp \<and> pkt_buffer pkt = pre @ concat os @ post \<and>
     unat (drop_bit 4 (pre ! (tcp + 12))) * 4 = sizeof_tcp + length (concat os) \<and>
     (\<forall>opt \<in> set os. wire_option opt)"

lemma tcp_options_begin_at:
  assumes "tcp_options_at pkt tcp pre os post"
  shows "tcp_options_begin pkt = get_current_option (length pre) (length pre + length (concat os))"
proof -
  have "rd8 (pkt_buffer pkt) (tcp + 12) = Some (pre ! (tcp + 12))"
    using assms by (simp add: tcp_options_at_def rd8_def nth_append)
  then show ?thesis
    using assms by (simp add: tcp_options_begin_def tcp_options_at_def packet_tcp_options_def
        packet_payload_def packet_tcp_header_len_def tcp_doff_def add.assoc)
qed

lemma offset_sack_blocks_at:
  assumes "tcp_options_at pkt tcp pre os post" and "\<forall>opt \<in> set os. sack_option_ok opt"
  shows "offset_sack_blocks pkt d = Some (Inr (pkt\<lparr>pkt_buffer := pre @ concat (map (shift_sack d) os) @ post\<rparr>))"
    and "tcp_options_at (pkt\<lparr>pkt_buffer := pre @ concat (map (shift_sack d) os) @ post\<rparr>) tcp pre
       (map (shift_sack d) os) post"
proof -
  have len: "length (concat (map (shift_sack d) os)) = length (concat os)"
    by (induction os) simp_all
  obtain iter where iter: "get_current_option (length pre) (length pre + length (concat os)) = Some iter"
    by (simp add: get_current_option_def)
  have buf: "pkt_buffer pkt = pre @ concat os @ post"
    using assms(1) by (simp add: tcp_options_at_def)
  have "tcp_options_update (offset_sack_body d) (pre @ concat os @ post) iter =
      Some (Inr (pre @ concat (map (shift_sack d) os) @ post))"
    using assms iter
    by (intro tcp_options_update_map)
      (auto simp: tcp_options_at_def wire_option_shift_sack intro!: offset_sack_body_mid)
  then show "offset_sack_blocks pkt d =
      Some (Inr (pkt\<lparr>pkt_buffer := pre @ concat (map (shift_sack d) os) @ post\<rparr>))"
    using iter by (simp add: offset_sack_blocks_def tcp_options_begin_at [OF assms(1)] buf)
  show "tcp_options_at (pkt\<lparr>pkt_buffer := pre @ concat (map (shift_sack d) os) @ post\<rparr>) tcp pre
       (map (shift_sack d) os) post"
    using assms(1) len by (auto simp: tcp_options_at_def intro: wire_option_shift_sack)
qed

section \<open>Timestamps\<close>

text \<open>Where the timestamp option is: the last one counts.\<close>

definition ts_locations :: "nat \<Rightarrow> tcp_option list \<Rightarrow> (nat \<times> nat) option" where
  "ts_locations p os = fold (\<lambda>(c, opt) ts. if hd opt = TCPOPT_TIMESTAMP then Some (c + 2, c + 6) else ts)
     (zip (option_offsets p os) os) None"

lemma length_option_offsets [simp]: "length (option_offsets p os) = length os"
  by (induction os arbitrary: p) simp_all

lemma option_offsets_hd:
  assumes "\<forall>opt \<in> set os. opt \<noteq> []"
  shows "list_all2 (\<lambda>c opt. (pre @ concat os @ post) ! c = hd opt) (option_offsets (length pre) os) os"
  using assms
proof (induction os arbitrary: pre)
  case (Cons opt os)
  have "list_all2 (\<lambda>c opt'. ((pre @ opt) @ concat os @ post) ! c = hd opt')
      (option_offsets (length (pre @ opt)) os) os"
    using Cons by (intro Cons.IH) simp
  then show ?case
    using Cons.prems by (simp add: nth_append hd_conv_nth)
qed simp

lemma fold_list_all2_cong:
  assumes "list_all2 R cs os" and "\<And>c opt s. R c opt \<Longrightarrow> f c s = g (c, opt) s"
  shows "fold f cs s = fold g (zip cs os) s"
  using assms by (induction arbitrary: s rule: list_all2_induct) simp_all

lemma find_tcp_timestamp_at:
  assumes "tcp_options_at pkt tcp pre os post"
  shows "find_tcp_timestamp pkt = Some (Inr (pkt\<lparr>
     pkt_tcp_ts_val := map_option fst (ts_locations (length pre) os),
     pkt_tcp_ts_ecr := map_option snd (ts_locations (length pre) os)\<rparr>))"
proof -
  let ?b = "pkt_buffer pkt" and ?e = "length pre + length (concat os)"
  have buf: "?b = pre @ concat os @ post" and os: "\<forall>opt \<in> set os. wire_option opt"
    using assms by (simp_all add: tcp_options_at_def)
  have ne: "\<forall>opt \<in> set os. opt \<noteq> []"
    using os by (auto simp: wire_option_def)
  obtain iter where iter: "get_current_option (length pre) ?e = Some iter"
    by (simp add: get_current_option_def)
  define f where "f = (\<lambda>c ts. if ?b ! c = TCPOPT_TIMESTAMP then Some (c + 2, c + 6) else ts :: (nat \<times> nat) option)"
  have sub: "subbytes ?b (length pre) ?e = concat os"
    by (simp add: buf)
  have "tcp_options_loop find_timestamp_body ?b iter None =
      Some (Inr (fold f (option_offsets (length pre) os) None))"
    using iter os
    by (subst tcp_options_loop_split [of "length pre" ?e, where f = f])
      (simp_all add: sub split_options_concat find_timestamp_body_def f_def rd8_def buf)
  also have "fold f (option_offsets (length pre) os) None = ts_locations (length pre) os"
    unfolding ts_locations_def
    by (rule fold_list_all2_cong [OF option_offsets_hd [OF ne, of pre post]])
      (simp add: f_def buf)
  finally show ?thesis
    using iter by (simp add: find_tcp_timestamp_def tcp_options_begin_at [OF assms])
qed

section \<open>The TCP header\<close>

text \<open>Accesses to the front of a buffer.\<close>

lemma front_access:
  "p < length pre \<Longrightarrow> rd8 (pre @ r) p = rd8 pre p"
  "p + 3 < length pre \<Longrightarrow> rd32 (pre @ r) p = rd32 pre p"
  "p + 3 < length pre \<Longrightarrow> wr32 (pre @ r) p v = map_option (\<lambda>x. x @ r) (wr32 pre p v)"
  by (simp_all add: rd8_def rd32_def wr32_def wr_bytes_def nth_append)

lemma wr32_total: "p + 3 < length b \<Longrightarrow> \<exists>b'. wr32 b p v = Some b' \<and> length b' = length b"
  by (auto simp: wr32_def wr_bytes_def)

lemma add32_front: "p + 3 < length pre \<Longrightarrow> add32 (pre @ r) p d = map_option (\<lambda>x. x @ r) (add32 pre p d)"
  by (auto simp: add32_def front_access rd32_def nth_append)

text \<open>Two fields of a header rewritten one after the other; the rest of it stays.\<close>

lemma add32_nth:
  assumes "add32 b p d = Some b'" and "j < p \<or> p + 4 \<le> j" and "j < length b"
  shows "b' ! j = b ! j"
  using assms wr_bytes_nth [of b p _ b' j] by (auto simp: add32_def wr32_def split: bind_splits)

definition hdr_upd :: "bool \<Rightarrow> bool \<Rightarrow> nat \<Rightarrow> u32 \<Rightarrow> u32 \<Rightarrow> bytes \<Rightarrow> bytes" where
  "hdr_upd upd_seq upd_ack tcp so ao pre =
     (let pre1 = (if upd_seq then the (add32 pre (tcp + 4) so) else pre)
      in if upd_ack then the (add32 pre1 (tcp + 8) ao) else pre1)"

lemma hdr_upd_spec:
  assumes "length pre = tcp + 20" and "rd32 pre (tcp + 4) = Some sq" and "rd32 pre (tcp + 8) = Some ak"
  shows "length (hdr_upd us ua tcp so ao pre) = length pre"
    "rd32 (hdr_upd us ua tcp so ao pre) (tcp + 4) = Some (if us then sq + so else sq)"
    "rd32 (hdr_upd us ua tcp so ao pre) (tcp + 8) = Some (if ua then ak + ao else ak)"
    "j < tcp + 4 \<or> tcp + 12 \<le> j \<Longrightarrow> j < length pre \<Longrightarrow> hdr_upd us ua tcp so ao pre ! j = pre ! j"
proof -
  obtain p1 where p1: "add32 pre (tcp + 4) so = Some p1"
    using add32_total [of "tcp + 4" pre so] assms(1) by auto
  define q where "q = (if us then p1 else pre)"
  have q: "length q = length pre" "rd32 q (tcp + 4) = Some (if us then sq + so else sq)"
      "rd32 q (tcp + 8) = Some ak" "j < tcp + 4 \<or> tcp + 8 \<le> j \<Longrightarrow> j < length pre \<Longrightarrow> q ! j = pre ! j" for j
    using add32_length [OF p1] rd32_add32 [OF p1] assms p1 add32_nth [OF p1]
    by (auto simp: q_def add32_def rd32_wr_bytes_other wr32_def)
  obtain p2 where p2: "add32 q (tcp + 8) ao = Some p2"
    using add32_total [of "tcp + 8" q ao] assms(1) q(1) by auto
  have h: "hdr_upd us ua tcp so ao pre = (if ua then p2 else q)"
    using p1 p2 by (auto simp: hdr_upd_def q_def Let_def)
  show "length (hdr_upd us ua tcp so ao pre) = length pre"
    "rd32 (hdr_upd us ua tcp so ao pre) (tcp + 8) = Some (if ua then ak + ao else ak)"
    using h q add32_length [OF p2] rd32_add32 [OF p2] by auto
  show "rd32 (hdr_upd us ua tcp so ao pre) (tcp + 4) = Some (if us then sq + so else sq)"
    using h q p2 by (auto simp: add32_def rd32_wr_bytes_other wr32_def)
  show "hdr_upd us ua tcp so ao pre ! j = pre ! j" if "j < tcp + 4 \<or> tcp + 12 \<le> j" "j < length pre"
    using h q(4) [of j] add32_nth [OF p2, of j] that q(1) by auto
qed

lemma tcp_options_at_header:
  assumes "tcp_options_at pkt tcp pre os post" and "length pre' = length pre"
    and "pre' ! (tcp + 12) = pre ! (tcp + 12)"
  shows "tcp_options_at (pkt\<lparr>pkt_buffer := pre' @ concat os @ post\<rparr>) tcp pre' os post"
  using assms by (simp add: tcp_options_at_def)

text \<open>What mapping an inbound TCP packet does.\<close>

definition inbound_tcp_result ::
    "socket \<Rightarrow> packet \<Rightarrow> nat \<Rightarrow> bool \<Rightarrow> bool \<Rightarrow> bytes \<Rightarrow> tcp_option list \<Rightarrow> bytes \<Rightarrow> packet" where
  "inbound_tcp_result s pkt tcp syn ack pre os post =
     (let os' = map (shift_sack (local_seq_script_to_live_offset s syn)) os
      in pkt\<lparr> pkt_buffer := hdr_upd (pkt_flags pkt AND FLAG_ABSOLUTE_SEQ = 0) ack tcp
                 (remote_seq_script_to_live_offset s syn) (local_seq_script_to_live_offset s syn) pre
               @ concat os' @ post,
             pkt_tcp_ts_val := map_option fst (ts_locations (length pre) os'),
             pkt_tcp_ts_ecr := map_option snd (ts_locations (length pre) os') \<rparr>)"

lemma map_inbound_tcp_packet_at:
  fixes s :: socket
  assumes at: "tcp_options_at pkt tcp pre os post" and sack: "\<forall>opt \<in> set os. sack_option_ok opt"
    and f: "tcp_syn (pkt_buffer pkt) tcp = Some syn" "tcp_ack (pkt_buffer pkt) tcp = Some ack"
  defines "pkt' \<equiv> inbound_tcp_result s pkt tcp syn ack pre os post"
  shows "map_inbound_tcp_packet s pkt tcp =
     (if pkt_flags pkt AND FLAG_ABSOLUTE_TS_ECR \<noteq> 0 then Some (Inr pkt')
      else if ack \<and> pkt_tcp_ts_ecr pkt' \<noteq> None
      then do {
        ts_ecr \<leftarrow> packet_tcp_ts_ecr pkt';
        (case get_outbound_ts_val_mapping s ts_ecr of
           Inl _ \<Rightarrow> Some (Inl (No_timestamp_mapping ts_ecr))
         | Inr live_ts_ecr \<Rightarrow> do { pkt \<leftarrow> packet_set_tcp_ts_ecr pkt' live_ts_ecr; Some (Inr pkt) })
      }
      else Some (Inr pkt'))"
proof -
  let ?so = "remote_seq_script_to_live_offset s syn" and ?ao = "local_seq_script_to_live_offset s syn"
  let ?us = "pkt_flags pkt AND FLAG_ABSOLUTE_SEQ = 0"
  have pre: "length pre = tcp + 20" and buf: "pkt_buffer pkt = pre @ concat os @ post"
    using at by (simp_all add: tcp_options_at_def)
  obtain sq ak where rd: "rd32 pre (tcp + 4) = Some sq" "rd32 pre (tcp + 8) = Some ak"
    using pre by (simp add: rd32_def)
  define pre1 where "pre1 = (if ?us then the (add32 pre (tcp + 4) ?so) else pre)"
  obtain p1 where p1: "add32 pre (tcp + 4) ?so = Some p1" "length p1 = length pre"
    using add32_total [of "tcp + 4" pre ?so] pre add32_length by fastforce
  have pre1: "length pre1 = length pre" "pre1 ! (tcp + 13) = pre ! (tcp + 13)"
    using p1 add32_nth [OF p1(1), of "tcp + 13"] pre by (auto simp: pre1_def)
  obtain p2 where p2: "add32 pre1 (tcp + 8) ?ao = Some p2"
    using add32_total [of "tcp + 8" pre1 ?ao] pre pre1 by auto
  define pre2 where "pre2 = hdr_upd ?us ack tcp ?so ?ao pre"
  have pre2: "pre2 = (if ack then p2 else pre1)" "length pre2 = length pre" "pre2 ! (tcp + 12) = pre ! (tcp + 12)"
    using hdr_upd_spec(1) [OF pre rd] hdr_upd_spec(4) [OF pre rd, of "tcp + 12"] p2 pre
    by (simp_all add: pre2_def hdr_upd_def pre1_def Let_def)
  have s1: "(if ?us then upd_buffer (\<lambda>b. add32 b (tcp + 4) ?so) pkt else Some pkt) =
      Some (pkt\<lparr>pkt_buffer := pre1 @ concat os @ post\<rparr>)"
    using p1 pre buf by (simp add: upd_buffer_def add32_front pre1_def)
  have a1: "tcp_ack (pre1 @ concat os @ post) tcp = Some ack"
    using f(2) pre1 pre by (simp add: buf tcp_flag_def rd8_def nth_append)
  have s2: "(if ack then upd_buffer (\<lambda>b. add32 b (tcp + 8) ?ao) (pkt\<lparr>pkt_buffer := pre1 @ concat os @ post\<rparr>)
      else Some (pkt\<lparr>pkt_buffer := pre1 @ concat os @ post\<rparr>)) = Some (pkt\<lparr>pkt_buffer := pre2 @ concat os @ post\<rparr>)"
    using p2 pre pre1 pre2 by (simp add: upd_buffer_def add32_front)
  note at2 = tcp_options_at_header [OF at pre2(2,3)]
  note o = offset_sack_blocks_at [OF at2 sack, of ?ao]
  note ts = find_tcp_timestamp_at [OF o(2)]
  have pkt': "pkt' = pkt\<lparr> pkt_buffer := pre2 @ concat (map (shift_sack ?ao) os) @ post,
      pkt_tcp_ts_val := map_option fst (ts_locations (length pre) (map (shift_sack ?ao) os)),
      pkt_tcp_ts_ecr := map_option snd (ts_locations (length pre) (map (shift_sack ?ao) os)) \<rparr>"
    by (simp add: pkt'_def inbound_tcp_result_def pre2_def Let_def)
  show ?thesis
  proof (cases ack)
    case True
    then show ?thesis
      unfolding map_inbound_tcp_packet_def f Option.bind_lunit Let_def s1 pkt'
      using a1 s2 o(1) ts pre2(2) by simp
  next
    case False
    then show ?thesis
      unfolding map_inbound_tcp_packet_def f Option.bind_lunit Let_def s1 pkt'
      using a1 o(1) ts pre2(1,2) by simp
  qed
qed

text \<open>What mapping an outbound TCP packet does, when the packet to rewrite is a copy of the live one.\<close>

definition outbound_tcp_result ::
    "socket \<Rightarrow> packet \<Rightarrow> packet \<Rightarrow> nat \<Rightarrow> bool \<Rightarrow> bool \<Rightarrow> bytes \<Rightarrow> tcp_option list \<Rightarrow> bytes \<Rightarrow> packet" where
  "outbound_tcp_result s script act tcp syn ack pre os post =
     (let os' = map (shift_sack (remote_seq_live_to_script_offset s syn)) os
      in act\<lparr> pkt_buffer := hdr_upd (pkt_flags script AND FLAG_ABSOLUTE_SEQ = 0) ack tcp
                 (local_seq_live_to_script_offset s syn) (remote_seq_live_to_script_offset s syn) pre
               @ concat os' @ post,
             pkt_tcp_ts_val := map_option fst (ts_locations (length pre) os'),
             pkt_tcp_ts_ecr := map_option snd (ts_locations (length pre) os') \<rparr>)"

lemma wr32_same:
  assumes "rd32 b p = Some v"
  shows "wr32 b p v = Some b"
proof -
  obtain b1 where b1: "wr32 b p v = Some b1" "wr32 b1 p v = Some b"
    by (rule wr32_restore [OF assms, of v])
  then have "b1 = take p b @ put_unaligned_be32 v @ drop (p + 4) b" "p + 4 \<le> length b"
      "b = take p b1 @ put_unaligned_be32 v @ drop (p + 4) b1"
    by (simp_all add: wr32_def wr_bytes_eq_Some)
  then have "b = b1"
    by simp
  with b1 show ?thesis
    by simp
qed

lemma wr32_add32: "rd32 b p = Some v \<Longrightarrow> wr32 b p (v + d) = add32 b p d"
  by (simp add: add32_def)

lemma hdr_upd_write:
  assumes pre: "length pre = tcp + 20" and rd: "rd32 pre (tcp + 4) = Some sq" "rd32 pre (tcp + 8) = Some ak"
  obtains pre1 where "wr32 (pre @ r) (tcp + 4) (if us then sq + so else sq) = Some (pre1 @ r)"
    and "pre1 ! (tcp + 13) = pre ! (tcp + 13)" and "length pre1 = length pre"
    and "wr32 (pre1 @ r) (tcp + 8) (ak + ao) = Some (hdr_upd us True tcp so ao pre @ r)"
    and "hdr_upd us False tcp so ao pre = pre1"
proof -
  obtain p1 where p1: "add32 pre (tcp + 4) so = Some p1"
    using add32_total [of "tcp + 4" pre so] pre by auto
  define pre1 where "pre1 = (if us then p1 else pre)"
  have len: "length pre1 = length pre"
    using add32_length [OF p1] by (simp add: pre1_def)
  have w1: "wr32 pre (tcp + 4) (if us then sq + so else sq) = Some pre1"
    using p1 rd(1) by (simp add: pre1_def wr32_add32 wr32_same)
  have rd1: "rd32 pre1 (tcp + 8) = Some ak"
    using rd(2) rd32_wr_bytes_other [OF w1 [unfolded wr32_def], of "tcp + 8"] by simp
  obtain p2 where p2: "add32 pre1 (tcp + 8) ao = Some p2"
    using add32_total [of "tcp + 8" pre1 ao] pre len by auto
  show ?thesis
  proof (rule that [of pre1])
    show "wr32 (pre @ r) (tcp + 4) (if us then sq + so else sq) = Some (pre1 @ r)"
      using w1 pre by (subst front_access(3)) simp_all
    show "pre1 ! (tcp + 13) = pre ! (tcp + 13)"
      using add32_nth [OF p1, of "tcp + 13"] pre by (simp add: pre1_def)
    show "hdr_upd us False tcp so ao pre = pre1"
      using p1 by (simp add: hdr_upd_def pre1_def)
    show "wr32 (pre1 @ r) (tcp + 8) (ak + ao) = Some (hdr_upd us True tcp so ao pre @ r)"
      using p1 p2 rd1 pre len by (auto simp: front_access(3) wr32_add32 hdr_upd_def pre1_def)
  qed (fact len)
qed

lemma map_outbound_live_tcp_packet_at:
  fixes s :: socket
  assumes at: "tcp_options_at act tcp pre os post" and sack: "\<forall>opt \<in> set os. sack_option_ok opt"
    and sat: "tcp_options_at script stcp spre sos spost"
    and live: "tcp_syn (pkt_buffer live) ltcp = Some syn" "tcp_seq (pkt_buffer live) ltcp = rd32 pre (tcp + 4)"
      "tcp_ack_seq (pkt_buffer live) ltcp = rd32 pre (tcp + 8)"
    and ack: "tcp_ack (pkt_buffer act) tcp = Some ack"
  defines "act' \<equiv> outbound_tcp_result s script act tcp syn ack pre os post"
    and "script' \<equiv> script\<lparr> pkt_tcp_ts_val := map_option fst (ts_locations (length spre) sos),
       pkt_tcp_ts_ecr := map_option snd (ts_locations (length spre) sos) \<rparr>"
  shows "map_outbound_live_tcp_packet s live act script ltcp =
     (if pkt_tcp_ts_val script' \<noteq> None \<and> pkt_tcp_ts_val act' \<noteq> None
      then do { (s, act') \<leftarrow> map_outbound_ts_val s script' act'; Some (Inr (s, script', act')) }
      else Some (Inr (s, script', act')))"
proof -
  let ?so = "local_seq_live_to_script_offset s syn" and ?ao = "remote_seq_live_to_script_offset s syn"
  let ?us = "pkt_flags script AND FLAG_ABSOLUTE_SEQ = 0" and ?r = "concat os @ post"
  have pre: "length pre = tcp + 20" and buf: "pkt_buffer act = pre @ ?r" and tcp: "pkt_tcp act = Some tcp"
    using at by (simp_all add: tcp_options_at_def)
  obtain sq ak where rd: "rd32 pre (tcp + 4) = Some sq" "rd32 pre (tcp + 8) = Some ak"
    using pre by (simp add: rd32_def)
  obtain pre1 where w1: "wr32 (pre @ ?r) (tcp + 4) (if ?us then sq + ?so else sq) = Some (pre1 @ ?r)"
    and pre1: "pre1 ! (tcp + 13) = pre ! (tcp + 13)" "length pre1 = length pre"
    and w2: "wr32 (pre1 @ ?r) (tcp + 8) (ak + ?ao) = Some (hdr_upd ?us True tcp ?so ?ao pre @ ?r)"
    and no: "hdr_upd ?us False tcp ?so ?ao pre = pre1"
    by (rule hdr_upd_write [OF pre rd, of ?r ?us ?so ?ao])
  define pre2 where "pre2 = hdr_upd ?us ack tcp ?so ?ao pre"
  have pre2: "length pre2 = length pre" "pre2 ! (tcp + 12) = pre ! (tcp + 12)"
    using hdr_upd_spec(1) [OF pre rd] hdr_upd_spec(4) [OF pre rd, of "tcp + 12"] pre
    by (simp_all add: pre2_def)
  have a1: "tcp_ack (pre1 @ ?r) tcp = Some ack"
    using ack pre1 pre by (simp add: buf tcp_flag_def rd8_def nth_append)
  note at2 = tcp_options_at_header [OF at pre2]
  note o = offset_sack_blocks_at [OF at2 sack, of ?ao]
  note ts = find_tcp_timestamp_at [OF o(2)] find_tcp_timestamp_at [OF sat]
  have act': "act' = act\<lparr> pkt_buffer := pre2 @ concat (map (shift_sack ?ao) os) @ post,
      pkt_tcp_ts_val := map_option fst (ts_locations (length pre) (map (shift_sack ?ao) os)),
      pkt_tcp_ts_ecr := map_option snd (ts_locations (length pre) (map (shift_sack ?ao) os)) \<rparr>"
    by (simp add: act'_def outbound_tcp_result_def pre2_def Let_def)
  show ?thesis
  proof (cases ack)
    case True
    then have "pre2 = hdr_upd ?us True tcp ?so ?ao pre"
      by (simp add: pre2_def)
    with True show ?thesis
      unfolding map_outbound_live_tcp_packet_def live rd Option.bind_lunit Let_def tcp act' script'_def
      using a1 w2 o(1) ts pre2(1) by (simp add: upd_buffer_def buf w1)
  next
    case False
    then have "pre2 = pre1"
      using no by (simp add: pre2_def)
    with False show ?thesis
      unfolding map_outbound_live_tcp_packet_def live rd Option.bind_lunit Let_def tcp act' script'_def
      using a1 o(1) ts pre2(1) by (simp add: upd_buffer_def buf w1)
  qed
qed
end
