(* ===== verification/Map_Roundtrip.thy ===== *)
theory Map_Roundtrip
  imports Map_Packets
begin

text \<open>
  Correctness of the translation between script and live values: what a script writes about sequence
  numbers, acknowledgements, SACK blocks and timestamps is what it sees again of the segments the
  kernel sends in answer.
\<close>

section \<open>Tuples of TCP packets\<close>

definition tcp_mappable :: "packet \<Rightarrow> tuple \<Rightarrow> bool" where
  "tcp_mappable pkt t \<longleftrightarrow> tuple_room pkt \<and> tuple_wf (packet_address_family pkt) t \<and>
     pkt_icmpv4 pkt = None \<and> pkt_icmpv6 pkt = None"

lemma set_tuple_tcp:
  assumes at: "tcp_options_at pkt tcp pre os post" and map: "tcp_mappable pkt t"
  obtains pre' where "set_packet_tuple pkt t enc = Some (pkt\<lparr>pkt_buffer := pre' @ concat os @ post\<rparr>)"
    and "tcp_options_at (pkt\<lparr>pkt_buffer := pre' @ concat os @ post\<rparr>) tcp pre' os post"
    and "length pre' = length pre" and "\<And>j. tcp + 4 \<le> j \<Longrightarrow> j < length pre \<Longrightarrow> pre' ! j = pre ! j"
    and "get_packet_tuple (pkt\<lparr>pkt_buffer := pre' @ concat os @ post\<rparr>) = Some t"
proof -
  have tcp: "pkt_tcp pkt = Some tcp" "pkt_sctp pkt = None" and pre: "length pre = tcp + 20"
    and buf: "pkt_buffer pkt = pre @ concat os @ post"
    using at by (simp_all add: tcp_options_at_def)
  obtain b q where b: "set_packet_tuple pkt t enc = Some (pkt\<lparr>pkt_buffer := b\<rparr>)"
    and q: "port_header (pkt_sctp pkt) (pkt_tcp pkt) (pkt_udp pkt) (pkt_udplite pkt) = Some q"
    and len: "length b = pkt_buffer_bytes pkt" and get: "get_packet_tuple (pkt\<lparr>pkt_buffer := b\<rparr>) = Some t"
    and tail: "drop (q + 4) b = drop (q + 4) (pkt_buffer pkt)"
    using map set_packet_tuple_spec [of pkt t enc] unfolding tcp_mappable_def by blast
  have "q = tcp"
    using q tcp by (simp add: port_header_def)
  note tail = tail [unfolded this]
  define pre' where "pre' = take (tcp + 20) b"
  have "drop (tcp + 20) b = drop 16 (drop (tcp + 4) b)"
    by (simp add: add.commute)
  also have "\<dots> = concat os @ post"
    unfolding tail using pre by (simp add: buf add.commute)
  finally have b': "b = pre' @ concat os @ post"
    unfolding pre'_def by (metis append_take_drop_id)
  have len': "length pre' = length pre"
    using len pre by (simp add: pre'_def buf)
  have nth: "pre' ! j = pre ! j" if "tcp + 4 \<le> j" "j < length pre" for j
  proof -
    have "pre' ! j = b ! j" "pre ! j = pkt_buffer pkt ! j"
      using that len' by (simp_all add: b' buf nth_append)
    moreover have "b ! j = drop (tcp + 4) b ! (j - (tcp + 4))"
      using that len pre by (simp add: buf)
    moreover have "pkt_buffer pkt ! j = drop (tcp + 4) (pkt_buffer pkt) ! (j - (tcp + 4))"
      using that pre nth_drop [of "tcp + 4" "pkt_buffer pkt" "j - (tcp + 4)"] by (simp add: buf)
    ultimately show ?thesis
      by (simp add: tail)
  qed
  show ?thesis
    using b get len' nth tcp_options_at_header [OF at len'] pre unfolding b' by (intro that) simp_all
qed

text \<open>The tuple of a packet depends on the bytes up to the ports only.\<close>

lemma get_packet_tuple_front:
  assumes room: "tuple_room pkt" and tcp: "pkt_tcp pkt = Some tcp" "pkt_sctp pkt = None"
    and b: "length b = pkt_buffer_bytes pkt" "\<And>j. j < tcp + 4 \<Longrightarrow> b ! j = pkt_buffer pkt ! j"
  shows "get_packet_tuple (pkt\<lparr>pkt_buffer := b\<rparr>) = get_packet_tuple pkt"
proof -
  have q: "port_header (pkt_sctp pkt) (pkt_tcp pkt) (pkt_udp pkt) (pkt_udplite pkt) = Some tcp"
    using tcp by (simp add: port_header_def)
  have sub: "rd_bytes b i n = rd_bytes (pkt_buffer pkt) i n" if "i + n \<le> tcp + 4" for i n
    using that b by (auto simp: rd_bytes_def intro!: nth_equalityI)
  have r16: "rd16 b i = rd16 (pkt_buffer pkt) i" if "i + 2 \<le> tcp + 4" for i
    using that b by (simp add: rd16_def)
  have p4: "p + 20 \<le> tcp" if "pkt_ipv4 pkt = Some p" for p
    using room that q by (simp add: tuple_room_def ip_start_def)
  have p6: "p + 40 \<le> tcp" if "pkt_ipv4 pkt = None" "pkt_ipv6 pkt = Some p" for p
    using room that q by (simp add: tuple_room_def ip_start_def)
  show ?thesis
    using q by (auto simp: get_packet_tuple_def wire_defs sub r16 Let_def split: option.split dest!: p4 p6)
qed

text \<open>The fields of a mapped TCP packet, from the description of the header update.\<close>

lemma tuple_room_buffer: "length b = pkt_buffer_bytes pkt \<Longrightarrow> tuple_room (pkt\<lparr>pkt_buffer := b\<rparr>) = tuple_room pkt"
  by (simp add: tuple_room_def ip_start_def split: option.split)

lemma get_packet_tuple_ts [simp]:
  "get_packet_tuple (pkt\<lparr>pkt_tcp_ts_val := v, pkt_tcp_ts_ecr := e\<rparr>) = get_packet_tuple pkt"
  by (cases "pkt_ipv4 pkt"; cases "pkt_ipv6 pkt") (simp_all add: get_packet_tuple_def)

lemma length_concat_shift [simp]: "length (concat (map (shift_sack d) os)) = length (concat os)"
  by (induction os) simp_all

lemma mapped_tcp_fields:
  fixes us ua :: bool and so ao :: u32
  assumes at: "tcp_options_at pkt tcp pre os post" and room: "tuple_room pkt"
    and tup: "get_packet_tuple pkt = Some t"
    and rd: "rd32 pre (tcp + 4) = Some sq" "rd32 pre (tcp + 8) = Some ak"
  defines "b \<equiv> hdr_upd us ua tcp so ao pre @ concat (map (shift_sack ao) os) @ post"
  shows "get_packet_tuple (pkt\<lparr>pkt_buffer := b\<rparr>) = Some t"
    "tcp_seq b tcp = Some (if us then sq + so else sq)" "tcp_ack_seq b tcp = Some (if ua then ak + ao else ak)"
    "drop (tcp + 20) b = concat (map (shift_sack ao) os) @ post"
proof -
  have pre: "length pre = tcp + 20" and buf: "pkt_buffer pkt = pre @ concat os @ post"
    and tcp: "pkt_tcp pkt = Some tcp" "pkt_sctp pkt = None"
    using at by (simp_all add: tcp_options_at_def)
  note h = hdr_upd_spec [OF pre rd, where us = us and ua = ua and so = so and ao = ao]
  have "length b = pkt_buffer_bytes pkt"
    using h(1) by (simp add: b_def buf)
  moreover have "b ! j = pkt_buffer pkt ! j" if "j < tcp + 4" for j
    using that h(1,4) pre by (simp add: b_def buf nth_append)
  ultimately show "get_packet_tuple (pkt\<lparr>pkt_buffer := b\<rparr>) = Some t"
    using get_packet_tuple_front [OF room tcp] tup by simp
  show "tcp_seq b tcp = Some (if us then sq + so else sq)"
    "tcp_ack_seq b tcp = Some (if ua then ak + ao else ak)"
    using h(1,2,3) pre by (simp_all add: b_def tcp_seq_def tcp_ack_seq_def front_access(2))
  show "drop (tcp + 20) b = concat (map (shift_sack ao) os) @ post"
    using h(1) pre by (simp add: b_def)
qed

lemma ts_locations_None: "\<forall>opt \<in> set os. hd opt \<noteq> TCPOPT_TIMESTAMP \<Longrightarrow> ts_locations p os = None"
proof -
  assume "\<forall>opt \<in> set os. hd opt \<noteq> TCPOPT_TIMESTAMP"
  then have "fold (\<lambda>(c, opt) ts. if hd opt = TCPOPT_TIMESTAMP then Some (c + 2, c + 6) else ts)
      (zip cs os) None = None" for cs :: "nat list"
    by (induction os arbitrary: cs) (simp, case_tac cs, simp_all)
  then show ?thesis
    by (simp add: ts_locations_def)
qed

lemma hd_shift_sack [simp]: "hd (shift_sack d opt) = hd opt"
  by (cases opt; cases "tl opt") (simp_all add: shift_sack_def)

text \<open>A TCP segment without a timestamp option, ready to take the tuple \<open>t\<close>: its options and the bytes
  behind them, its SYN and ACK flags and its sequence and acknowledgement numbers.\<close>

definition tcp_segment ::
    "packet \<Rightarrow> tuple \<Rightarrow> nat \<Rightarrow> tcp_option list \<Rightarrow> bytes \<Rightarrow> bool \<Rightarrow> bool \<Rightarrow> u32 \<Rightarrow> u32 \<Rightarrow> bool" where
  "tcp_segment pkt t tcp os post syn ack sq ak \<longleftrightarrow>
     (\<exists>pre. tcp_options_at pkt tcp pre os post) \<and>
     (\<forall>opt \<in> set os. sack_option_ok opt \<and> hd opt \<noteq> TCPOPT_TIMESTAMP) \<and> tcp_mappable pkt t \<and>
     tcp_syn (pkt_buffer pkt) tcp = Some syn \<and> tcp_ack (pkt_buffer pkt) tcp = Some ack \<and>
     tcp_seq (pkt_buffer pkt) tcp = Some sq \<and> tcp_ack_seq (pkt_buffer pkt) tcp = Some ak"

lemma tcp_segmentE:
  assumes "tcp_segment pkt t tcp os post syn ack sq ak"
  obtains pre where "tcp_options_at pkt tcp pre os post"
    and "\<forall>opt \<in> set os. sack_option_ok opt" and "\<forall>opt \<in> set os. hd opt \<noteq> TCPOPT_TIMESTAMP"
    and "tcp_mappable pkt t"
    and "tcp_syn (pkt_buffer pkt) tcp = Some syn" "tcp_ack (pkt_buffer pkt) tcp = Some ack"
      "tcp_seq (pkt_buffer pkt) tcp = Some sq" "tcp_ack_seq (pkt_buffer pkt) tcp = Some ak"
  using assms by (auto simp: tcp_segment_def)

lemma map_inbound_tcp:
  assumes seg: "tcp_segment pkt (socket_get_inbound (so_live s)) tcp os post syn ack sq ak"
  obtains pkt' where "map_inbound_packet s pkt udp_encaps = Some (Inr pkt')"
    and "get_packet_tuple pkt' = Some (socket_get_inbound (so_live s))"
    and "tcp_seq (pkt_buffer pkt') tcp =
       Some (if pkt_flags pkt AND FLAG_ABSOLUTE_SEQ = 0 then sq + remote_seq_script_to_live_offset s syn else sq)"
    and "tcp_ack_seq (pkt_buffer pkt') tcp =
       Some (if ack then ak + local_seq_script_to_live_offset s syn else ak)"
    and "drop (tcp + 20) (pkt_buffer pkt') =
       concat (map (shift_sack (local_seq_script_to_live_offset s syn)) os) @ post"
proof -
  let ?so = "remote_seq_script_to_live_offset s syn" and ?ao = "local_seq_script_to_live_offset s syn"
  let ?us = "pkt_flags pkt AND FLAG_ABSOLUTE_SEQ = 0"
  from seg obtain pre where at: "tcp_options_at pkt tcp pre os post"
    and sack: "\<forall>opt \<in> set os. sack_option_ok opt"
    and nots: "\<forall>opt \<in> set os. hd opt \<noteq> TCPOPT_TIMESTAMP"
    and map: "tcp_mappable pkt (socket_get_inbound (so_live s))"
    and f: "tcp_syn (pkt_buffer pkt) tcp = Some syn" "tcp_ack (pkt_buffer pkt) tcp = Some ack"
      "tcp_seq (pkt_buffer pkt) tcp = Some sq" "tcp_ack_seq (pkt_buffer pkt) tcp = Some ak"
    by (rule tcp_segmentE)
  obtain pre' where set: "set_packet_tuple pkt (socket_get_inbound (so_live s)) (udp_encaps \<noteq> 0) =
        Some (pkt\<lparr>pkt_buffer := pre' @ concat os @ post\<rparr>)"
    and at': "tcp_options_at (pkt\<lparr>pkt_buffer := pre' @ concat os @ post\<rparr>) tcp pre' os post"
    and pre': "length pre' = length pre" "\<And>j. tcp + 4 \<le> j \<Longrightarrow> j < length pre \<Longrightarrow> pre' ! j = pre ! j"
    and get: "get_packet_tuple (pkt\<lparr>pkt_buffer := pre' @ concat os @ post\<rparr>) = Some (socket_get_inbound (so_live s))"
    by (rule set_tuple_tcp [OF at map, of "udp_encaps \<noteq> 0"]) (rule that)
  let ?p = "pkt\<lparr>pkt_buffer := pre' @ concat os @ post\<rparr>"
  have pre: "length pre = tcp + 20" and buf: "pkt_buffer pkt = pre @ concat os @ post"
    and tcp: "pkt_tcp pkt = Some tcp" "pkt_sctp pkt = None"
    using at by (simp_all add: tcp_options_at_def)
  have rd: "rd32 pre' (tcp + 4) = Some sq" "rd32 pre' (tcp + 8) = Some ak"
    using f(3,4) pre pre' by (simp_all add: buf tcp_seq_def tcp_ack_seq_def rd32_def nth_append)
  have f': "tcp_syn (pkt_buffer ?p) tcp = Some syn" "tcp_ack (pkt_buffer ?p) tcp = Some ack"
    using f(1,2) pre pre' by (simp_all add: buf tcp_flag_def rd8_def nth_append)
  have nots': "ts_locations p (map (shift_sack d) os) = None" for p d
    using nots by (intro ts_locations_None) simp
  have room: "tuple_room ?p"
    using map pre' by (simp add: tcp_mappable_def tuple_room_buffer buf)
  let ?b = "hdr_upd ?us ack tcp ?so ?ao pre' @ concat (map (shift_sack ?ao) os) @ post"
  have "map_inbound_tcp_packet s ?p tcp = Some (Inr (?p\<lparr>pkt_buffer := ?b, pkt_tcp_ts_val := None, pkt_tcp_ts_ecr := None\<rparr>))"
    using map_inbound_tcp_packet_at [OF at' sack f', of s]
    by (simp add: inbound_tcp_result_def Let_def nots')
  then have eq: "map_inbound_packet s pkt udp_encaps =
      Some (Inr (?p\<lparr>pkt_buffer := ?b, pkt_tcp_ts_val := None, pkt_tcp_ts_ecr := None\<rparr>))"
    using map tcp set by (simp add: map_inbound_packet_def tcp_mappable_def)
  show ?thesis
    by (rule that [OF eq]) (use mapped_tcp_fields [OF at' room get rd, of ?us ack ?so ?ao] in simp_all)
qed

lemma map_outbound_tcp:
  fixes s :: socket
  assumes seg: "tcp_segment act (socket_get_outbound (so_script s)) tcp os post syn ack sq ak"
    and live: "get_packet_tuple act = Some (socket_get_outbound (so_live s))"
    and sat: "tcp_options_at script stcp spre sos spost"
  obtains script' act' where
      "map_outbound_live_packet s act act script udp_encaps = Some (Inr (s, script', act'))"
    and "get_packet_tuple act' = Some (socket_get_outbound (so_script s))"
    and "tcp_seq (pkt_buffer act') tcp =
       Some (if pkt_flags script AND FLAG_ABSOLUTE_SEQ = 0 then sq + local_seq_live_to_script_offset s syn else sq)"
    and "tcp_ack_seq (pkt_buffer act') tcp =
       Some (if ack then ak + remote_seq_live_to_script_offset s syn else ak)"
    and "drop (tcp + 20) (pkt_buffer act') =
       concat (map (shift_sack (remote_seq_live_to_script_offset s syn)) os) @ post"
proof -
  let ?so = "local_seq_live_to_script_offset s syn" and ?ao = "remote_seq_live_to_script_offset s syn"
  let ?us = "pkt_flags script AND FLAG_ABSOLUTE_SEQ = 0"
  from seg obtain pre where at: "tcp_options_at act tcp pre os post"
    and sack: "\<forall>opt \<in> set os. sack_option_ok opt"
    and nots: "\<forall>opt \<in> set os. hd opt \<noteq> TCPOPT_TIMESTAMP"
    and map: "tcp_mappable act (socket_get_outbound (so_script s))"
    and f: "tcp_syn (pkt_buffer act) tcp = Some syn" "tcp_ack (pkt_buffer act) tcp = Some ack"
      "tcp_seq (pkt_buffer act) tcp = Some sq" "tcp_ack_seq (pkt_buffer act) tcp = Some ak"
    by (rule tcp_segmentE)
  obtain pre' where set: "set_packet_tuple act (socket_get_outbound (so_script s)) (udp_encaps \<noteq> 0) =
        Some (act\<lparr>pkt_buffer := pre' @ concat os @ post\<rparr>)"
    and at': "tcp_options_at (act\<lparr>pkt_buffer := pre' @ concat os @ post\<rparr>) tcp pre' os post"
    and pre': "length pre' = length pre" "\<And>j. tcp + 4 \<le> j \<Longrightarrow> j < length pre \<Longrightarrow> pre' ! j = pre ! j"
    and get: "get_packet_tuple (act\<lparr>pkt_buffer := pre' @ concat os @ post\<rparr>) =
      Some (socket_get_outbound (so_script s))"
    by (rule set_tuple_tcp [OF at map, of "udp_encaps \<noteq> 0"]) (rule that)
  let ?p = "act\<lparr>pkt_buffer := pre' @ concat os @ post\<rparr>"
  have pre: "length pre = tcp + 20" and buf: "pkt_buffer act = pre @ concat os @ post"
    and tcp: "pkt_tcp act = Some tcp" "pkt_sctp act = None"
    using at by (simp_all add: tcp_options_at_def)
  have rd: "rd32 pre' (tcp + 4) = Some sq" "rd32 pre' (tcp + 8) = Some ak"
    using f(3,4) pre pre' by (simp_all add: buf tcp_seq_def tcp_ack_seq_def rd32_def nth_append)
  have f': "tcp_ack (pkt_buffer ?p) tcp = Some ack"
    using f(2) pre pre' by (simp add: buf tcp_flag_def rd8_def nth_append)
  have nots': "ts_locations p (map (shift_sack d) os) = None" for p d
    using nots by (intro ts_locations_None) simp
  have room: "tuple_room ?p"
    using map pre' by (simp add: tcp_mappable_def tuple_room_buffer buf)
  have seq: "tcp_seq (pkt_buffer act) tcp = rd32 pre' (tcp + 4)"
      "tcp_ack_seq (pkt_buffer act) tcp = rd32 pre' (tcp + 8)"
    using f(3,4) rd by simp_all
  let ?b = "hdr_upd ?us ack tcp ?so ?ao pre' @ concat (map (shift_sack ?ao) os) @ post"
  obtain script' where "map_outbound_live_tcp_packet s act ?p script tcp =
      Some (Inr (s, script', ?p\<lparr>pkt_buffer := ?b, pkt_tcp_ts_val := None, pkt_tcp_ts_ecr := None\<rparr>))"
    using map_outbound_live_tcp_packet_at [OF at' sack sat f(1) seq f', of s]
    by (simp add: outbound_tcp_result_def Let_def nots')
  then have eq: "map_outbound_live_packet s act act script udp_encaps =
      Some (Inr (s, script', ?p\<lparr>pkt_buffer := ?b, pkt_tcp_ts_val := None, pkt_tcp_ts_ecr := None\<rparr>))"
    using tcp set live by (simp add: map_outbound_live_packet_def is_equal_tuple_def)
  show ?thesis
    by (rule that [OF eq]) (use mapped_tcp_fields [OF at' room get rd, of ?us ack ?so ?ao] in simp_all)
qed

section \<open>Properties\<close>

text \<open>Shifting the SACK blocks of the options of a packet rewrites exactly the block edges, each by the
  offset modulo 2^32, without a failed assertion or an access outside the packet, and shifting by the
  opposite offset gives back the original packet.\<close>

theorem offset_sack_blocks_inverse:
  assumes "tcp_options_at pkt tcp pre os post" and "\<forall>opt \<in> set os. sack_option_ok opt"
  shows "\<exists>pkt'. offset_sack_blocks pkt d = Some (Inr pkt') \<and>
     pkt_buffer pkt' = pre @ concat (map (shift_sack d) os) @ post \<and>
     offset_sack_blocks pkt' (- d) = Some (Inr pkt)"
proof -
  note o = offset_sack_blocks_at [OF assms, of d]
  have "map (shift_sack (- d)) (map (shift_sack d) os) = os"
    by (simp add: map_idI shift_sack_cancel)
  moreover have "pkt\<lparr>pkt_buffer := pre @ concat os @ post\<rparr> = pkt"
    using assms(1) by (simp add: tcp_options_at_def)
  moreover have "\<forall>opt \<in> set (map (shift_sack d) os). sack_option_ok opt"
    using assms(2) by simp
  ultimately show ?thesis
    using o offset_sack_blocks_at(1) [OF o(2), of "- d"] by auto
qed

text \<open>C15: An inbound TCP segment is mapped to the live tuple of the socket, its sequence number and, when
  it has the ACK flag, its acknowledgement number and SACK blocks are moved by the offsets from script
  to live values, and the payload stays. When the kernel answers with an acknowledgement of \<open>n\<close> bytes
  more than the live sequence number, mapping that segment back shows \<open>n\<close> more than the sequence
  number of the script, at the script's tuple.\<close>

theorem injected_segment_acknowledged:
  assumes "tcp_segment pkt (socket_get_inbound (so_live s)) tcp os post syn ack sq ak"
    and "pkt_flags pkt AND FLAG_ABSOLUTE_SEQ = 0"
    and "tcp_segment act (socket_get_outbound (so_script s)) tcp2 os2 post2 syn True sq2 live_ack"
    and "get_packet_tuple act = Some (socket_get_outbound (so_live s))"
    and "tcp_options_at script stcp spre sos spost"
  shows "\<exists>pkt' script' act'.
     map_inbound_packet s pkt udp_encaps = Some (Inr pkt') \<and>
     get_packet_tuple pkt' = Some (socket_get_inbound (so_live s)) \<and>
     tcp_seq (pkt_buffer pkt') tcp = Some (sq + remote_seq_script_to_live_offset s syn) \<and>
     tcp_ack_seq (pkt_buffer pkt') tcp =
       Some (if ack then ak + local_seq_script_to_live_offset s syn else ak) \<and>
     drop (tcp + 20) (pkt_buffer pkt') =
       concat (map (shift_sack (local_seq_script_to_live_offset s syn)) os) @ post \<and>
     map_outbound_live_packet s act act script udp_encaps = Some (Inr (s, script', act')) \<and>
     get_packet_tuple act' = Some (socket_get_outbound (so_script s)) \<and>
     (\<forall>n. live_ack = sq + remote_seq_script_to_live_offset s syn + n \<longrightarrow>
        tcp_ack_seq (pkt_buffer act') tcp2 = Some (sq + n))"
proof -
  obtain pkt' where 1: "map_inbound_packet s pkt udp_encaps = Some (Inr pkt')"
      "get_packet_tuple pkt' = Some (socket_get_inbound (so_live s))"
      "tcp_seq (pkt_buffer pkt') tcp = Some (sq + remote_seq_script_to_live_offset s syn)"
      "tcp_ack_seq (pkt_buffer pkt') tcp =
         Some (if ack then ak + local_seq_script_to_live_offset s syn else ak)"
      "drop (tcp + 20) (pkt_buffer pkt') =
         concat (map (shift_sack (local_seq_script_to_live_offset s syn)) os) @ post"
    by (rule map_inbound_tcp [OF assms(1), of udp_encaps]) (use assms(2) in \<open>auto intro: that\<close>)
  obtain script' act' where 2: "map_outbound_live_packet s act act script udp_encaps = Some (Inr (s, script', act'))"
      "get_packet_tuple act' = Some (socket_get_outbound (so_script s))"
      "tcp_ack_seq (pkt_buffer act') tcp2 = Some (live_ack + remote_seq_live_to_script_offset s syn)"
    by (rule map_outbound_tcp [OF assms(3-5), of udp_encaps]) (auto intro: that)
  have "sq + remote_seq_script_to_live_offset s syn + n + remote_seq_live_to_script_offset s syn = sq + n" for n
    by (simp add: remote_seq_live_to_script_offset_def)
  then have "\<forall>n. live_ack = sq + remote_seq_script_to_live_offset s syn + n \<longrightarrow>
      tcp_ack_seq (pkt_buffer act') tcp2 = Some (sq + n)"
    using 2(3) by simp
  with 1 2(1,2) show ?thesis
    by blast
qed

section \<open>Examples\<close>

text \<open>A TCP segment over IPv4 with the given flag byte, sequence and acknowledgement numbers and options
  (in whole words), from one endpoint to another.\<close>

definition example_segment :: "tuple \<Rightarrow> u8 \<Rightarrow> u32 \<Rightarrow> u32 \<Rightarrow> tcp_option list \<Rightarrow> bytes \<Rightarrow> packet" where
  "example_segment t flags sq ak os payload =
     (let b = [0x45, 0, 0, 0, 0, 0, 0, 0, 255, 6, 0, 0]
         @ ip_to_ipv4 (ep_ip (tup_src t)) @ ip_to_ipv4 (ep_ip (tup_dst t))
         @ be16_to (ep_port (tup_src t)) @ be16_to (ep_port (tup_dst t))
         @ put_unaligned_be32 sq @ put_unaligned_be32 ak
         @ [of_nat (16 * (5 + length (concat os) div 4)), flags, 1, 0, 0, 0, 0, 0] @ concat os @ payload
      in (packet_new (\<lambda>_. 0) 0)\<lparr> pkt_buffer := b, pkt_ip_bytes := length b,
           pkt_ipv4 := Some 0, pkt_tcp := Some 20 \<rparr>)"

definition example_socket :: socket where
  "example_socket = socket_new\<lparr>
     so_script := socket_state_zero\<lparr> ss_local := tup_dst example_tuple, ss_remote := tup_src example_tuple,
       local_isn := 0 \<rparr>,
     so_live := socket_state_zero\<lparr> ss_local := \<lparr> ep_ip = ip_from_ipv4 [10, 0, 0, 1], ep_port = 4000 \<rparr>,
       ss_remote := \<lparr> ep_ip = ip_from_ipv4 [10, 0, 0, 2], ep_port = 5000 \<rparr>,
       local_isn := 1000000, remote_isn := 77 \<rparr> \<rparr>"

definition example_sack :: tcp_option where
  "example_sack = [5, 10, 0, 0, 0, 1, 0, 0, 0, 9]"

lemmas example_defs = example_segment_def example_socket_def example_tuple_def example_sack_def
  tcp_options_at_def tcp_mappable_def tuple_room_def tuple_wf_def packet_new_def packet_address_family_def
  ip_start_def port_header_def socket_get_inbound_def socket_get_outbound_def socket_state_zero_def
  tcp_flag_def tcp_seq_def tcp_ack_seq_def rd8_def rd32_def be16_to_def put_unaligned_be32_def
  get_unaligned_be32_def ip_from_ipv4_def ipv4_init_def set_ip_def ip_to_ipv4_def wire_option_def
  get_expected_tcp_option_length_def sack_option_ok_def

abbreviation example_options :: "tcp_option list" where
  "example_options \<equiv> [[1], [1], example_sack]"

lemma example_sack_ok: "sack_option_ok example_sack"
proof -
  have "length example_sack = 10"
    by (simp add: example_sack_def)
  then show ?thesis
    by (simp add: sack_option_ok_def)
qed

lemma example_segment_ok:
  assumes "t = example_tuple \<or> t = socket_get_outbound (so_live example_socket)"
    and "t' = socket_get_inbound (so_live example_socket) \<or> t' = socket_get_outbound (so_script example_socket)"
    and "ak = 1 \<or> ak = 80"
  shows "tcp_segment (example_segment t 0x10 1 ak example_options [42]) t' 20 example_options [42] False True 1 ak"
    (is "tcp_segment ?p _ _ _ _ _ _ _ _")
proof -
  have "tcp_options_at ?p 20 (take 40 (pkt_buffer ?p)) example_options [42]"
    using assms(1) by (elim disjE) (simp_all add: example_defs)
  moreover have "tcp_mappable ?p t'"
    using assms(1,2) by (elim disjE) (simp_all add: example_defs ip_wf_def)
  moreover have "tcp_syn (pkt_buffer ?p) 20 = Some False" "tcp_ack (pkt_buffer ?p) 20 = Some True"
      "tcp_seq (pkt_buffer ?p) 20 = Some 1" "tcp_ack_seq (pkt_buffer ?p) 20 = Some ak"
    using assms(1,3) by (elim disjE; simp add: example_defs)+
  ultimately show ?thesis
    using example_sack_ok by (auto simp: tcp_segment_def sack_option_ok_def example_sack_def)
qed

theorem offset_sack_blocks_inverse_witness:
  "\<exists>pkt'. offset_sack_blocks (example_segment example_tuple 0x10 1 1 example_options [42]) 1000000 = Some (Inr pkt') \<and>
     offset_sack_blocks pkt' (- 1000000) =
       Some (Inr (example_segment example_tuple 0x10 1 1 example_options [42]))"
proof -
  obtain pre where "tcp_options_at (example_segment example_tuple 0x10 1 1 example_options [42]) 20 pre
      example_options [42]" "\<forall>opt \<in> set example_options. sack_option_ok opt"
    by (rule tcp_segmentE [OF example_segment_ok [of example_tuple "socket_get_inbound (so_live example_socket)" 1]])
      (auto intro: that)
  from offset_sack_blocks_inverse [OF this, of 1000000] show ?thesis
    by blast
qed

theorem injected_segment_acknowledged_witness:
  "\<exists>pkt' script' act'.
     map_inbound_packet example_socket (example_segment example_tuple 0x10 1 1 example_options [42]) 0 =
       Some (Inr pkt') \<and>
     map_outbound_live_packet example_socket
       (example_segment (socket_get_outbound (so_live example_socket)) 0x10 1 80 example_options [42])
       (example_segment (socket_get_outbound (so_live example_socket)) 0x10 1 80 example_options [42])
       (example_segment example_tuple 0x10 1 1 example_options [42]) 0 =
       Some (Inr (example_socket, script', act')) \<and>
     tcp_seq (pkt_buffer pkt') 20 = Some 78 \<and> tcp_ack_seq (pkt_buffer act') 20 = Some 3"
proof -
  have tup: "get_packet_tuple
      (example_segment (socket_get_outbound (so_live example_socket)) 0x10 1 80 example_options [42]) =
      Some (socket_get_outbound (so_live example_socket))"
    by (simp add: get_packet_tuple_def wire_defs rd_bytes_def rd16_def be16_of_def example_defs)
  obtain pre where script: "tcp_options_at (example_segment example_tuple 0x10 1 1 example_options [42]) 20 pre
      example_options [42]"
    by (rule tcp_segmentE [OF example_segment_ok [of example_tuple "socket_get_inbound (so_live example_socket)" 1]])
      (auto intro: that)
  have off: "remote_seq_script_to_live_offset example_socket False = 77"
      "pkt_flags (example_segment example_tuple 0x10 1 1 example_options [42]) AND FLAG_ABSOLUTE_SEQ = 0"
    by (simp_all add: remote_seq_script_to_live_offset_def example_socket_def example_segment_def packet_new_def Let_def)
  show ?thesis
    using injected_segment_acknowledged [OF example_segment_ok [of example_tuple _ 1] off(2)
        example_segment_ok [of "socket_get_outbound (so_live example_socket)" _ 80] tup script, of 0]
    by (force simp: off)
qed

section \<open>Timestamps\<close>

text \<open>The last timestamp option is the one that is found.\<close>

lemma option_offsets_append: "option_offsets p (os @ os') = option_offsets p os @ option_offsets (p + length (concat os)) os'"
  by (induction os arbitrary: p) (simp_all add: add.assoc)

lemma fold_no_timestamp:
  "\<forall>opt \<in> set os. hd opt \<noteq> TCPOPT_TIMESTAMP \<Longrightarrow>
     fold (\<lambda>(c, opt) ts. if hd opt = TCPOPT_TIMESTAMP then Some (c + 2, c + 6) else ts) (zip cs os) ts = ts"
  by (induction os arbitrary: cs) (simp, case_tac cs, simp_all)

lemma ts_locations_last:
  assumes "\<forall>opt \<in> set os2. hd opt \<noteq> TCPOPT_TIMESTAMP" and "hd opt = TCPOPT_TIMESTAMP"
  shows "ts_locations p (os1 @ opt # os2) =
     Some (p + length (concat os1) + 2, p + length (concat os1) + 6)"
proof -
  have "zip (option_offsets p (os1 @ opt # os2)) (os1 @ opt # os2) =
      zip (option_offsets p os1) os1 @ (p + length (concat os1), opt) #
      zip (option_offsets (p + length (concat os1) + length opt) os2) os2"
    by (simp add: option_offsets_append)
  then show ?thesis
    using assms by (simp add: ts_locations_def fold_no_timestamp)
qed

text \<open>Recording the timestamp of an outbound packet.\<close>

lemma map_outbound_ts_val_spec:
  assumes ok: "hash_map_ok (ts_val_map s)" and sv: "packet_tcp_ts_val script = Some sv"
    and av: "packet_tcp_ts_val act = Some av" and keep: "pkt_flags script AND FLAG_IGNORE_TS_VAL = 0"
  obtains s' act' where "map_outbound_ts_val s script act = Some (s', act')"
    and "hash_map_ok (ts_val_map s')"
    and "\<And>v. get_outbound_ts_val_mapping s' v = (if v = sv then Inr av else get_outbound_ts_val_mapping s v)"
    and "so_live s' = so_live s" "so_script s' = so_script s"
    and "packet_tcp_ts_val act' = Some
       (if found_first_tcp_ts s then first_script_ts_val s + (av - first_actual_ts_val s) else sv)"
proof -
  obtain p where p: "pkt_tcp_ts_val act = Some p" "rd32 (pkt_buffer act) p = Some av"
    using av by (auto simp: packet_tcp_ts_val_def split: bind_splits)
  define s' where "s' = (let s = set_outbound_ts_val_mapping s sv av in
     if \<not> found_first_tcp_ts s
     then s\<lparr> found_first_tcp_ts := True, first_script_ts_val := sv, first_actual_ts_val := av \<rparr> else s)"
  define v where "v = first_script_ts_val s' + (av - first_actual_ts_val s')"
  obtain b where b: "wr32 (pkt_buffer act) p v = Some b"
    using p(2) wr32_total [of p "pkt_buffer act" v] by (auto simp: rd32_def split: if_splits)
  have map: "map_outbound_ts_val s script act = Some (s', act\<lparr>pkt_buffer := b\<rparr>)"
    using sv av keep p b
    by (simp add: map_outbound_ts_val_def packet_set_tcp_ts_val_def upd_buffer_def s'_def v_def Let_def)
  show ?thesis
  proof (rule that [OF map])
    show "hash_map_ok (ts_val_map s')"
      using ts_map.wf_put [OF ok] by (simp add: s'_def set_outbound_ts_val_mapping_def Let_def)
    show "get_outbound_ts_val_mapping s' w = (if w = sv then Inr av else get_outbound_ts_val_mapping s w)" for w
      using ts_map.fetch_put [OF ok]
      by (simp add: s'_def set_outbound_ts_val_mapping_def get_outbound_ts_val_mapping_def Let_def)
    show "packet_tcp_ts_val (act\<lparr>pkt_buffer := b\<rparr>) = Some
       (if found_first_tcp_ts s then first_script_ts_val s + (av - first_actual_ts_val s) else sv)"
      using p(1) rd32_wr32 [OF b]
      by (simp add: packet_tcp_ts_val_def v_def s'_def set_outbound_ts_val_mapping_def Let_def)
  qed (simp_all add: s'_def set_outbound_ts_val_mapping_def Let_def)
qed

text \<open>Mapping the echo of a timestamp.\<close>

lemma map_inbound_ts_ecr:
  fixes s :: socket
  assumes at: "tcp_options_at pkt tcp pre (os1 @ ([8, 10] @ tsv @ put_unaligned_be32 sv) # os2) post"
    and tsv: "length tsv = 4" and nots: "\<forall>opt \<in> set os2. hd opt \<noteq> TCPOPT_TIMESTAMP"
    and sack: "\<forall>opt \<in> set (os1 @ os2). sack_option_ok opt"
    and f: "tcp_syn (pkt_buffer pkt) tcp = Some syn" "tcp_ack (pkt_buffer pkt) tcp = Some True"
    and flags: "pkt_flags pkt AND FLAG_ABSOLUTE_TS_ECR = 0"
    and m: "get_outbound_ts_val_mapping s sv = Inr av"
  shows "\<exists>pkt'. map_inbound_tcp_packet s pkt tcp = Some (Inr pkt') \<and> packet_tcp_ts_ecr pkt' = Some av"
proof -
  let ?ts = "[8, 10] @ tsv @ put_unaligned_be32 sv" and ?d = "local_seq_script_to_live_offset s syn"
  let ?os = "os1 @ ?ts # os2"
  define pkt' where "pkt' = inbound_tcp_result s pkt tcp syn True pre ?os post"
  define q where "q = length pre + length (concat os1) + 6"
  have pre: "length pre = tcp + 20"
    using at by (simp add: tcp_options_at_def)
  obtain sq ak where rd: "rd32 pre (tcp + 4) = Some sq" "rd32 pre (tcp + 8) = Some ak"
    using pre by (simp add: rd32_def)
  have ts: "shift_sack ?d ?ts = ?ts"
    by (simp add: shift_sack_def)
  have nots': "\<forall>opt \<in> set (map (shift_sack ?d) os2). hd opt \<noteq> TCPOPT_TIMESTAMP"
    using nots by simp
  have loc: "pkt_tcp_ts_ecr pkt' = Some q"
    using ts ts_locations_last [OF nots', of ?ts "length pre" "map (shift_sack ?d) os1"]
    by (simp add: pkt'_def inbound_tcp_result_def Let_def q_def)
  define h where "h = hdr_upd (pkt_flags pkt AND FLAG_ABSOLUTE_SEQ = 0) True tcp
     (remote_seq_script_to_live_offset s syn) ?d pre"
  define front where "front = h @ concat (map (shift_sack ?d) os1) @ [8, 10] @ tsv"
  have buf: "pkt_buffer pkt' = front @ put_unaligned_be32 sv @ concat (map (shift_sack ?d) os2) @ post"
    using ts by (simp add: pkt'_def inbound_tcp_result_def Let_def h_def front_def)
  have len: "length front = q"
    using hdr_upd_spec(1) [OF pre rd] tsv by (simp add: front_def q_def h_def)
  have ecr: "packet_tcp_ts_ecr pkt' = Some sv"
    using rd32_mid [of 0 "put_unaligned_be32 sv" front] be32_of_to [of sv] len
    by (simp add: packet_tcp_ts_ecr_def loc buf numeral_2_eq_2)
  obtain b where b: "wr32 (pkt_buffer pkt') q av = Some b"
    using ecr wr32_total [of q "pkt_buffer pkt'" av]
    by (auto simp: packet_tcp_ts_ecr_def loc rd32_def split: if_splits)
  have "map_inbound_tcp_packet s pkt tcp = Some (Inr (pkt'\<lparr>pkt_buffer := b\<rparr>))"
    using map_inbound_tcp_packet_at [OF at _ f, of s] sack flags loc ecr m b
    unfolding pkt'_def [symmetric]
    by (simp add: sack_option_ok_def packet_set_tcp_ts_ecr_def upd_buffer_def)
  moreover have "packet_tcp_ts_ecr (pkt'\<lparr>pkt_buffer := b\<rparr>) = Some av"
    using rd32_wr32 [OF b] loc by (simp add: packet_tcp_ts_ecr_def)
  ultimately show ?thesis
    by blast
qed

text \<open>C24: When an outbound segment that the script expects to carry timestamp \<open>sv\<close> carries \<open>av\<close>, the value
  shown to the script is \<open>sv\<close> for the first such segment and moves with the live clock from then on; and
  a later inbound segment of the script that echoes \<open>sv\<close> is injected with the echo \<open>av\<close> that the kernel
  sent.\<close>

theorem timestamp_echo_roundtrip:
  assumes "hash_map_ok (ts_val_map s)" and "packet_tcp_ts_val script = Some sv"
    and "packet_tcp_ts_val act = Some av" and "pkt_flags script AND FLAG_IGNORE_TS_VAL = 0"
    and "tcp_options_at pkt tcp pre (os1 @ ([8, 10] @ tsv @ put_unaligned_be32 sv) # os2) post"
    and "length tsv = 4" and "\<forall>opt \<in> set os2. hd opt \<noteq> TCPOPT_TIMESTAMP"
    and "\<forall>opt \<in> set (os1 @ os2). sack_option_ok opt"
    and "tcp_syn (pkt_buffer pkt) tcp = Some syn" and "tcp_ack (pkt_buffer pkt) tcp = Some True"
    and "pkt_flags pkt AND FLAG_ABSOLUTE_TS_ECR = 0"
  shows "\<exists>s' act' pkt'. map_outbound_ts_val s script act = Some (s', act') \<and>
     packet_tcp_ts_val act' = Some
       (if found_first_tcp_ts s then first_script_ts_val s + (av - first_actual_ts_val s) else sv) \<and>
     map_inbound_tcp_packet s' pkt tcp = Some (Inr pkt') \<and> packet_tcp_ts_ecr pkt' = Some av"
proof -
  obtain s' act' where 1: "map_outbound_ts_val s script act = Some (s', act')"
      "\<And>v. get_outbound_ts_val_mapping s' v = (if v = sv then Inr av else get_outbound_ts_val_mapping s v)"
      "packet_tcp_ts_val act' = Some
         (if found_first_tcp_ts s then first_script_ts_val s + (av - first_actual_ts_val s) else sv)"
    by (rule map_outbound_ts_val_spec [OF assms(1-4)]) (rule that)
  then have "get_outbound_ts_val_mapping s' sv = Inr av"
    by simp
  from map_inbound_ts_ecr [OF assms(5-11) this] 1 show ?thesis
    by blast
qed

definition example_ts_segment :: "u32 \<Rightarrow> packet" where
  "example_ts_segment ecr = example_segment example_tuple 0x10 1 1
     [[1], [1], [8, 10] @ put_unaligned_be32 100 @ put_unaligned_be32 ecr] [42]"

theorem timestamp_echo_roundtrip_witness:
  "\<exists>s' act' pkt'. map_outbound_ts_val example_socket
       ((example_ts_segment 0)\<lparr>pkt_tcp_ts_val := Some 44\<rparr>)
       ((example_ts_segment 0)\<lparr>pkt_tcp_ts_val := Some 48\<rparr>) = Some (s', act') \<and>
     map_inbound_tcp_packet s' (example_ts_segment 100) 20 = Some (Inr pkt') \<and>
     packet_tcp_ts_ecr pkt' = Some 0"
proof -
  have ok: "hash_map_ok (ts_val_map example_socket)" "\<not> found_first_tcp_ts example_socket"
    using ts_map.wf_fresh [of 1] by (simp_all add: example_socket_def socket_new_def)
  have sv: "packet_tcp_ts_val ((example_ts_segment 0)\<lparr>pkt_tcp_ts_val := Some 44\<rparr>) = Some 100"
    and av: "packet_tcp_ts_val ((example_ts_segment 0)\<lparr>pkt_tcp_ts_val := Some 48\<rparr>) = Some 0"
    and fl: "pkt_flags ((example_ts_segment 0)\<lparr>pkt_tcp_ts_val := Some 44\<rparr>) AND FLAG_IGNORE_TS_VAL = 0"
      "pkt_flags (example_ts_segment 100) AND FLAG_ABSOLUTE_TS_ECR = 0"
    and f: "tcp_syn (pkt_buffer (example_ts_segment 100)) 20 = Some False"
      "tcp_ack (pkt_buffer (example_ts_segment 100)) 20 = Some True"
    by (simp_all add: packet_tcp_ts_val_def example_ts_segment_def example_defs)
  have at: "tcp_options_at (example_ts_segment 100) 20 (take 40 (pkt_buffer (example_ts_segment 100)))
      ([[1], [1]] @ ([8, 10] @ put_unaligned_be32 100 @ put_unaligned_be32 100) # []) [42]"
    by (simp add: example_ts_segment_def example_defs)
  show ?thesis
    using timestamp_echo_roundtrip [OF ok(1) sv av fl(1) at _ _ _ f fl(2)]
    by (fastforce simp: sack_option_ok_def)
qed

section \<open>SCTP\<close>

lemma rd_sub:
  assumes "rd32 b (c + 4) = Some v"
  shows "\<exists>x. rd8 b c = Some x" "\<exists>x. rd8 b (c + 1) = Some x" "\<exists>x. rd16 b (c + 2) = Some x"
  using assms by (auto simp: rd8_def rd16_def rd32_def split: if_splits)

lemma rd16_wr32_other:
  "wr32 b p v = Some b' \<Longrightarrow> j + 2 \<le> p \<or> p + 4 \<le> j \<Longrightarrow> rd16 b' j = rd16 b j"
  by (simp add: wr32_def rd16_wr_bytes_other)

text \<open>The TSN of an inbound DATA chunk is moved into the live TSN space of the remote side; a SACK chunk
  by which the kernel acknowledges the live TSN, or one that lies \<open>n\<close> after it, is shown to the
  script with the TSN of the script, or one that lies \<open>n\<close> after it.\<close>

theorem sctp_data_tsn_acknowledged:
  assumes "rd8 (im_bytes m) c = Some SCTP_DATA_CHUNK_TYPE" and "rd16 (im_bytes m) (c + 2) = Some len"
    and "sizeof_sctp_data_chunk \<le> unat len" and "rd32 (im_bytes m) (c + 4) = Some tsn"
    and "rd8 b c2 = Some SCTP_SACK_CHUNK_TYPE" and "rd32 b (c2 + 4) = Some live_tsn"
    and "rd16 b (c2 + 12) = Some gap" and "rd16 b (c2 + 14) = Some 0"
  shows "\<exists>m' b'. map_inbound_chunk s c m = Some m' \<and>
     rd32 (im_bytes m') (c + 4) =
       Some (tsn + (remote_initial_tsn (so_live s) - remote_initial_tsn (so_script s))) \<and>
     map_outbound_chunk s c2 b = Some (Inr b') \<and>
     (\<forall>n. rd32 (im_bytes m') (c + 4) = Some (live_tsn - n) \<longrightarrow> rd32 b' (c2 + 4) = Some (tsn + n))"
proof -
  let ?in = "remote_initial_tsn (so_live s) - remote_initial_tsn (so_script s)"
  let ?out = "remote_initial_tsn (so_script s) - remote_initial_tsn (so_live s)"
  obtain fl where fl: "rd8 (im_bytes m) (c + 1) = Some fl"
    using rd_sub(2) [OF assms(4)] by blast
  obtain b1 where b1: "add32 (im_bytes m) (c + 4) ?in = Some b1"
    using assms(4) add32_total [of "c + 4" "im_bytes m"] by (auto simp: rd32_def split: if_splits)
  have 1: "map_inbound_chunk s c m = Some (m\<lparr>im_bytes := b1\<rparr>)"
    using assms(1-3) fl b1 by (simp add: map_inbound_chunk_def im_upd_def)
  obtain b2 where b2: "wr32 b (c2 + 4) (live_tsn + ?out) = Some b2"
    using assms(6) wr32_total [of "c2 + 4" b] by (fastforce simp: rd32_def split: if_splits)
  have "rd16 b2 (c2 + 12) = Some gap" "rd16 b2 (c2 + 14) = Some 0"
    using rd16_wr32_other [OF b2] assms(7,8) by simp_all
  then have 2: "map_outbound_chunk s c2 b = Some (Inr b2)"
    using assms(5,6) b2 by (simp add: map_outbound_chunk_def add32_def)
  have "rd32 b1 (c + 4) = Some (tsn + ?in)"
    using rd32_add32 [OF b1] assms(4) by auto
  moreover have "rd32 b2 (c2 + 4) = Some (live_tsn + ?out)"
    using rd32_wr32 [OF b2] .
  moreover have "live_tsn + ?out = tsn + n" if "tsn + ?in = live_tsn - n" for n
    using that by (simp add: algebra_simps)
  ultimately show ?thesis
    using 1 2 by auto
qed

definition example_sctp_socket :: socket where
  "example_sctp_socket = socket_new\<lparr>so_live := socket_state_zero\<lparr>remote_initial_tsn := 50\<rparr>\<rparr>"

definition example_data :: inbound_map where
  "example_data = \<lparr>im_bytes = [0, 3, 0, 17, 0, 0, 0, 7, 0, 0, 0, 0, 0, 0, 0, 0, 1], reflect_v_tag = False,
     contains_init_chunk = False\<rparr>"

theorem sctp_data_tsn_acknowledged_witness:
  "\<exists>m' b'. map_inbound_chunk example_sctp_socket 0 example_data = Some m' \<and>
     map_outbound_chunk example_sctp_socket 0 [3, 0, 0, 16, 0, 0, 0, 57, 0, 0, 1, 0, 0, 0, 0, 0] = Some (Inr b') \<and>
     rd32 b' (0 + 4) = Some (7 + 0)"
proof -
  let ?b = "[3, 0, 0, 16, 0, 0, 0, 57, 0, 0, 1, 0, 0, 0, 0, 0] :: bytes"
  have "rd8 (im_bytes example_data) 0 = Some 0" "rd16 (im_bytes example_data) (0 + 2) = Some 17"
      "16 \<le> unat (17 :: u16)" "rd32 (im_bytes example_data) (0 + 4) = Some 7"
      "rd8 ?b 0 = Some 3" "rd32 ?b (0 + 4) = Some 57" "rd16 ?b (0 + 12) = Some 0" "rd16 ?b (0 + 14) = Some 0"
    by (simp_all add: example_data_def rd8_def rd16_def rd32_def be16_of_def get_unaligned_be32_def)
  note t = sctp_data_tsn_acknowledged [OF this, of example_sctp_socket]
  have "7 + (remote_initial_tsn (so_live example_sctp_socket) - remote_initial_tsn (so_script example_sctp_socket))
      = 57 - 0"
    by (simp add: example_sctp_socket_def socket_new_def socket_state_zero_def)
  with t show ?thesis
    by metis
qed

text \<open>The length check of an inbound NR-SACK leaves out the blocks for non-renegable gaps: a chunk of 24
  bytes with one such block and one duplicate TSN passes it, and the duplicate TSN is looked for, and
  would be rewritten, behind the end of the chunk.\<close>

theorem nr_sack_beyond_chunk:
  "map_inbound_chunk s 0 \<lparr>im_bytes = [0x10, 0, 0, 24, 0, 0, 0, 1, 0, 0, 4, 0, 0, 0, 0, 1, 0, 1, 0, 0, 0, 1, 0, 1],
     reflect_v_tag = False, contains_init_chunk = False\<rparr> = None"
  by (simp add: map_inbound_chunk_def im_upd_def rd8_def rd16_def rd32_def be16_of_def add32_def wr32_def
      wr_bytes_def when_upd_def nth_append Let_def numeral_eq_Suc [of num.One])
end
