(* ===== verification/Sctp_Flags.thy ===== *)
theory Sctp_Flags
  imports Sctp_Wire
begin

text \<open>
  The do-not-check flags of \<^verbatim>\<open>sctp_packet.h\<close>: a script sets them on the items of a packet for fields that
  it leaves open with dots. Which bits are meaningful depends on the kind of the item.
\<close>

abbreviation (input) FLAG_CHUNK_TYPE_NOCHECK :: u32 where "FLAG_CHUNK_TYPE_NOCHECK \<equiv> 0x1"
abbreviation (input) FLAG_CHUNK_FLAGS_NOCHECK :: u32 where "FLAG_CHUNK_FLAGS_NOCHECK \<equiv> 0x2"
abbreviation (input) FLAG_CHUNK_LENGTH_NOCHECK :: u32 where "FLAG_CHUNK_LENGTH_NOCHECK \<equiv> 0x4"
abbreviation (input) FLAG_CHUNK_VALUE_NOCHECK :: u32 where "FLAG_CHUNK_VALUE_NOCHECK \<equiv> 0x8"
abbreviation (input) FLAG_CHUNK_PARTIAL :: u32 where "FLAG_CHUNK_PARTIAL \<equiv> 0x10"
abbreviation (input) FLAG_DATA_CHUNK_TSN_NOCHECK :: u32 where "FLAG_DATA_CHUNK_TSN_NOCHECK \<equiv> 0x100"
abbreviation (input) FLAG_DATA_CHUNK_SID_NOCHECK :: u32 where "FLAG_DATA_CHUNK_SID_NOCHECK \<equiv> 0x200"
abbreviation (input) FLAG_DATA_CHUNK_SSN_NOCHECK :: u32 where "FLAG_DATA_CHUNK_SSN_NOCHECK \<equiv> 0x400"
abbreviation (input) FLAG_DATA_CHUNK_PPID_NOCHECK :: u32 where "FLAG_DATA_CHUNK_PPID_NOCHECK \<equiv> 0x800"
abbreviation (input) FLAG_INIT_CHUNK_TAG_NOCHECK :: u32 where "FLAG_INIT_CHUNK_TAG_NOCHECK \<equiv> 0x100"
abbreviation (input) FLAG_INIT_CHUNK_A_RWND_NOCHECK :: u32 where "FLAG_INIT_CHUNK_A_RWND_NOCHECK \<equiv> 0x200"
abbreviation (input) FLAG_INIT_CHUNK_OS_NOCHECK :: u32 where "FLAG_INIT_CHUNK_OS_NOCHECK \<equiv> 0x400"
abbreviation (input) FLAG_INIT_CHUNK_IS_NOCHECK :: u32 where "FLAG_INIT_CHUNK_IS_NOCHECK \<equiv> 0x800"
abbreviation (input) FLAG_INIT_CHUNK_TSN_NOCHECK :: u32 where "FLAG_INIT_CHUNK_TSN_NOCHECK \<equiv> 0x1000"
abbreviation (input) FLAG_INIT_CHUNK_OPT_PARAM_NOCHECK :: u32 where "FLAG_INIT_CHUNK_OPT_PARAM_NOCHECK \<equiv> 0x2000"
abbreviation (input) FLAG_INIT_ACK_CHUNK_TAG_NOCHECK :: u32 where "FLAG_INIT_ACK_CHUNK_TAG_NOCHECK \<equiv> 0x100"
abbreviation (input) FLAG_INIT_ACK_CHUNK_A_RWND_NOCHECK :: u32 where "FLAG_INIT_ACK_CHUNK_A_RWND_NOCHECK \<equiv> 0x200"
abbreviation (input) FLAG_INIT_ACK_CHUNK_OS_NOCHECK :: u32 where "FLAG_INIT_ACK_CHUNK_OS_NOCHECK \<equiv> 0x400"
abbreviation (input) FLAG_INIT_ACK_CHUNK_IS_NOCHECK :: u32 where "FLAG_INIT_ACK_CHUNK_IS_NOCHECK \<equiv> 0x800"
abbreviation (input) FLAG_INIT_ACK_CHUNK_TSN_NOCHECK :: u32 where "FLAG_INIT_ACK_CHUNK_TSN_NOCHECK \<equiv> 0x1000"
abbreviation (input) FLAG_INIT_ACK_CHUNK_OPT_PARAM_NOCHECK :: u32 where
  "FLAG_INIT_ACK_CHUNK_OPT_PARAM_NOCHECK \<equiv> 0x2000"
abbreviation (input) FLAG_SACK_CHUNK_CUM_TSN_NOCHECK :: u32 where "FLAG_SACK_CHUNK_CUM_TSN_NOCHECK \<equiv> 0x100"
abbreviation (input) FLAG_SACK_CHUNK_A_RWND_NOCHECK :: u32 where "FLAG_SACK_CHUNK_A_RWND_NOCHECK \<equiv> 0x200"
abbreviation (input) FLAG_SACK_CHUNK_GAP_BLOCKS_NOCHECK :: u32 where "FLAG_SACK_CHUNK_GAP_BLOCKS_NOCHECK \<equiv> 0x400"
abbreviation (input) FLAG_SACK_CHUNK_DUP_TSNS_NOCHECK :: u32 where "FLAG_SACK_CHUNK_DUP_TSNS_NOCHECK \<equiv> 0x800"
abbreviation (input) FLAG_NR_SACK_CHUNK_CUM_TSN_NOCHECK :: u32 where "FLAG_NR_SACK_CHUNK_CUM_TSN_NOCHECK \<equiv> 0x100"
abbreviation (input) FLAG_NR_SACK_CHUNK_A_RWND_NOCHECK :: u32 where "FLAG_NR_SACK_CHUNK_A_RWND_NOCHECK \<equiv> 0x200"
abbreviation (input) FLAG_NR_SACK_CHUNK_GAP_BLOCKS_NOCHECK :: u32 where
  "FLAG_NR_SACK_CHUNK_GAP_BLOCKS_NOCHECK \<equiv> 0x400"
abbreviation (input) FLAG_NR_SACK_CHUNK_NR_GAP_BLOCKS_NOCHECK :: u32 where
  "FLAG_NR_SACK_CHUNK_NR_GAP_BLOCKS_NOCHECK \<equiv> 0x800"
abbreviation (input) FLAG_NR_SACK_CHUNK_DUP_TSNS_NOCHECK :: u32 where
  "FLAG_NR_SACK_CHUNK_DUP_TSNS_NOCHECK \<equiv> 0x1000"
abbreviation (input) FLAG_ABORT_CHUNK_OPT_CAUSES_NOCHECK :: u32 where
  "FLAG_ABORT_CHUNK_OPT_CAUSES_NOCHECK \<equiv> 0x100"
abbreviation (input) FLAG_SHUTDOWN_CHUNK_CUM_TSN_NOCHECK :: u32 where
  "FLAG_SHUTDOWN_CHUNK_CUM_TSN_NOCHECK \<equiv> 0x100"
abbreviation (input) FLAG_ERROR_CHUNK_OPT_CAUSES_NOCHECK :: u32 where
  "FLAG_ERROR_CHUNK_OPT_CAUSES_NOCHECK \<equiv> 0x100"
abbreviation (input) FLAG_ECNE_CHUNK_LOWEST_TSN_NOCHECK :: u32 where "FLAG_ECNE_CHUNK_LOWEST_TSN_NOCHECK \<equiv> 0x100"
abbreviation (input) FLAG_CWR_CHUNK_LOWEST_TSN_NOCHECK :: u32 where "FLAG_CWR_CHUNK_LOWEST_TSN_NOCHECK \<equiv> 0x100"
abbreviation (input) FLAG_I_DATA_CHUNK_TSN_NOCHECK :: u32 where "FLAG_I_DATA_CHUNK_TSN_NOCHECK \<equiv> 0x100"
abbreviation (input) FLAG_I_DATA_CHUNK_SID_NOCHECK :: u32 where "FLAG_I_DATA_CHUNK_SID_NOCHECK \<equiv> 0x200"
abbreviation (input) FLAG_I_DATA_CHUNK_RES_NOCHECK :: u32 where "FLAG_I_DATA_CHUNK_RES_NOCHECK \<equiv> 0x400"
abbreviation (input) FLAG_I_DATA_CHUNK_MID_NOCHECK :: u32 where "FLAG_I_DATA_CHUNK_MID_NOCHECK \<equiv> 0x800"
abbreviation (input) FLAG_I_DATA_CHUNK_PPID_NOCHECK :: u32 where "FLAG_I_DATA_CHUNK_PPID_NOCHECK \<equiv> 0x1000"
abbreviation (input) FLAG_I_DATA_CHUNK_FSN_NOCHECK :: u32 where "FLAG_I_DATA_CHUNK_FSN_NOCHECK \<equiv> 0x2000"
abbreviation (input) FLAG_FORWARD_TSN_CHUNK_CUM_TSN_NOCHECK :: u32 where
  "FLAG_FORWARD_TSN_CHUNK_CUM_TSN_NOCHECK \<equiv> 0x100"
abbreviation (input) FLAG_FORWARD_TSN_CHUNK_IDS_NOCHECK :: u32 where "FLAG_FORWARD_TSN_CHUNK_IDS_NOCHECK \<equiv> 0x200"
abbreviation (input) FLAG_I_FORWARD_TSN_CHUNK_CUM_TSN_NOCHECK :: u32 where
  "FLAG_I_FORWARD_TSN_CHUNK_CUM_TSN_NOCHECK \<equiv> 0x100"
abbreviation (input) FLAG_I_FORWARD_TSN_CHUNK_IDS_NOCHECK :: u32 where
  "FLAG_I_FORWARD_TSN_CHUNK_IDS_NOCHECK \<equiv> 0x200"
abbreviation (input) FLAG_PARAMETER_TYPE_NOCHECK :: u32 where "FLAG_PARAMETER_TYPE_NOCHECK \<equiv> 0x1"
abbreviation (input) FLAG_PARAMETER_LENGTH_NOCHECK :: u32 where "FLAG_PARAMETER_LENGTH_NOCHECK \<equiv> 0x2"
abbreviation (input) FLAG_PARAMETER_VALUE_NOCHECK :: u32 where "FLAG_PARAMETER_VALUE_NOCHECK \<equiv> 0x4"
abbreviation (input) FLAG_PARAMETER_PARTIAL :: u32 where "FLAG_PARAMETER_PARTIAL \<equiv> 0x8"
abbreviation (input) FLAG_RECONFIG_REQ_SN_NOCHECK :: u32 where "FLAG_RECONFIG_REQ_SN_NOCHECK \<equiv> 0x10"
abbreviation (input) FLAG_RECONFIG_RESP_SN_NOCHECK :: u32 where "FLAG_RECONFIG_RESP_SN_NOCHECK \<equiv> 0x20"
abbreviation (input) FLAG_RECONFIG_LAST_TSN_NOCHECK :: u32 where "FLAG_RECONFIG_LAST_TSN_NOCHECK \<equiv> 0x40"
abbreviation (input) FLAG_RECONFIG_RESULT_NOCHECK :: u32 where "FLAG_RECONFIG_RESULT_NOCHECK \<equiv> 0x10"
abbreviation (input) FLAG_RECONFIG_SENDER_NEXT_TSN_NOCHECK :: u32 where
  "FLAG_RECONFIG_SENDER_NEXT_TSN_NOCHECK \<equiv> 0x40"
abbreviation (input) FLAG_RECONFIG_RECEIVER_NEXT_TSN_NOCHECK :: u32 where
  "FLAG_RECONFIG_RECEIVER_NEXT_TSN_NOCHECK \<equiv> 0x80"
abbreviation (input) FLAG_RECONFIG_NUMBER_OF_NEW_STREAMS_NOCHECK :: u32 where
  "FLAG_RECONFIG_NUMBER_OF_NEW_STREAMS_NOCHECK \<equiv> 0x80"
abbreviation (input) FLAG_CAUSE_CODE_NOCHECK :: u32 where "FLAG_CAUSE_CODE_NOCHECK \<equiv> 0x1"
abbreviation (input) FLAG_CAUSE_LENGTH_NOCHECK :: u32 where "FLAG_CAUSE_LENGTH_NOCHECK \<equiv> 0x2"
abbreviation (input) FLAG_CAUSE_INFORMATION_NOCHECK :: u32 where "FLAG_CAUSE_INFORMATION_NOCHECK \<equiv> 0x4"
abbreviation (input) FLAG_CAUSE_PARTIAL :: u32 where "FLAG_CAUSE_PARTIAL \<equiv> 0x8"

text \<open>A check that a flag switches off.\<close>

definition has_flag :: "u32 \<Rightarrow> u32 \<Rightarrow> bool" where
  "has_flag flags f \<longleftrightarrow> flags AND f \<noteq> 0"

end
