(* ===== verification/Verify_Sctp.thy ===== *)
theory Verify_Sctp
  imports Map_Packets Sctp_Flags
begin

text \<open>
  Comparison of the SCTP part of an outbound packet with the expectation of the script (the functions
  \<^verbatim>\<open>check_field\<close> and \<^verbatim>\<open>verify_sctp\<close> with its helpers in \<^verbatim>\<open>run_packet.c\<close>).

  A check reads the script and the actual packet; its verdict is an error value for a mismatch, or success.
  The script side is a list of items that point into the script packet, the actual side is walked over
  by the iterators. Comparing memory beyond the end of a buffer has no verdict.
\<close>

section \<open>Verdicts\<close>

datatype verify_error =
    Field string u32 u32
  | Field_u16 string u16 u16
  | Partial_chunk | Partial_parameter | Partial_cause
  | Number_of_chunks | Number_of_parameters | Number_of_causes
  | Parameter_value | Cause_information | Heartbeat_info
  | No_message
  | Bad_ip_checksum | Bad_ecn u8
  | Mpls_depth | Mpls_label nat
  | Header_type nat header_t header_t | Header_layers nat nat
  | Bad_tcp_timestamp | Bad_tcp_options | Bad_payload

type_synonym verdict = "(verify_error, unit) status option"

abbreviation status_ok :: verdict where "status_ok \<equiv> Some (Inr ())"

definition and_then :: "verdict \<Rightarrow> verdict \<Rightarrow> verdict" where
  "and_then r s = do { x \<leftarrow> r; (case x of Inl err \<Rightarrow> Some (Inl err) | Inr _ \<Rightarrow> s) }"

text \<open>A chain of checks ends at the first error.\<close>

fun checks :: "verdict list \<Rightarrow> verdict" where
  "checks [] = status_ok"
| "checks (r # rs) = and_then r (checks rs)"

definition unless :: "bool \<Rightarrow> verdict \<Rightarrow> verdict" where
  "unless c r = (if c then status_ok else r)"

definition check_field :: "string \<Rightarrow> u32 \<Rightarrow> u32 \<Rightarrow> verdict" where
  "check_field name expected actual =
     Some (if actual \<noteq> expected then Inl (Field name expected actual) else Inr ())"

definition check_field_u16 :: "string \<Rightarrow> u16 \<Rightarrow> u16 \<Rightarrow> verdict" where
  "check_field_u16 name expected actual =
     Some (if actual \<noteq> expected then Inl (Field_u16 name expected actual) else Inr ())"

text \<open>The fields of the structures at offset \<open>s\<close> of the script buffer and \<open>a\<close> of the actual buffer.\<close>

definition check8 :: "string \<Rightarrow> bytes \<Rightarrow> nat \<Rightarrow> bytes \<Rightarrow> nat \<Rightarrow> verdict" where
  "check8 name sb s ab a = do { e \<leftarrow> rd8 sb s; v \<leftarrow> rd8 ab a; check_field name (ucast e) (ucast v) }"

definition check16 :: "string \<Rightarrow> bytes \<Rightarrow> nat \<Rightarrow> bytes \<Rightarrow> nat \<Rightarrow> verdict" where
  "check16 name sb s ab a = do { e \<leftarrow> rd16 sb s; v \<leftarrow> rd16 ab a; check_field name (ucast e) (ucast v) }"

definition check32 :: "string \<Rightarrow> bytes \<Rightarrow> nat \<Rightarrow> bytes \<Rightarrow> nat \<Rightarrow> verdict" where
  "check32 name sb s ab a = do { e \<leftarrow> rd32 sb s; v \<leftarrow> rd32 ab a; check_field name e v }"

definition check_u16 :: "string \<Rightarrow> bytes \<Rightarrow> nat \<Rightarrow> bytes \<Rightarrow> nat \<Rightarrow> verdict" where
  "check_u16 name sb s ab a = do { e \<leftarrow> rd16 sb s; v \<leftarrow> rd16 ab a; check_field_u16 name e v }"

text \<open>\<^verbatim>\<open>memcmp\<close> of \<open>n\<close> bytes.\<close>

definition check_bytes :: "verify_error \<Rightarrow> bytes \<Rightarrow> nat \<Rightarrow> bytes \<Rightarrow> nat \<Rightarrow> nat \<Rightarrow> verdict" where
  "check_bytes err sb s ab a n = do {
     xs \<leftarrow> rd_bytes sb s n;
     ys \<leftarrow> rd_bytes ab a n;
     Some (if xs = ys then Inr () else Inl err)
   }"

text \<open>The loop that walks over the records of the actual packet and the items of the script side by side.\<close>

fun verify_items ::
    "sctp_tlv \<Rightarrow> bytes \<Rightarrow> verify_error \<Rightarrow> verify_error \<Rightarrow> (nat \<Rightarrow> 'i \<Rightarrow> verdict) \<Rightarrow>
       sctp_position \<Rightarrow> 'i list \<Rightarrow> verdict" where
  "verify_items k b partial number body (iter, err) [] =
     Some (if it_current iter = None then Inr () else Inl number)"
| "verify_items k b partial number body (iter, err) (item # items) = (case it_current iter of
      None \<Rightarrow> Some (Inl number)
    | Some cur \<Rightarrow>
        if err \<noteq> None then Some (Inl partial)
        else and_then (body cur item)
          (do { p \<leftarrow> sctp_next k b iter; verify_items k b partial number body p items }))"

section \<open>Parameters and causes\<close>

text \<open>The number of stream identifiers behind a header of \<open>n\<close> bytes, computed as the source does it: a length
  below that of the header gives a huge number.\<close>

definition sids_count :: "nat \<Rightarrow> u16 \<Rightarrow> nat" where
  "sids_count n len = unat ((ucast len - of_nat n :: u64) div 2)"

definition verify_sids :: "string \<Rightarrow> bytes \<Rightarrow> nat \<Rightarrow> bytes \<Rightarrow> nat \<Rightarrow> nat \<Rightarrow> verdict" where
  "verify_sids name sb s ab a n = do {
     len \<leftarrow> rd16 sb (s + 2);
     checks (map (\<lambda>i. check_u16 name sb (s + n + 2 * i) ab (a + n + 2 * i)) [0..<sids_count n len])
   }"

definition verify_parameter_fields :: "u32 \<Rightarrow> bytes \<Rightarrow> nat \<Rightarrow> bytes \<Rightarrow> nat \<Rightarrow> verdict" where
  "verify_parameter_fields flags sb s ab a = do {
     type \<leftarrow> rd16 ab a;
     len \<leftarrow> rd16 ab (a + 2);
     if type = SCTP_OUTGOING_SSN_RESET_REQUEST_PARAMETER_TYPE
     then checks [
       unless (has_flag flags FLAG_RECONFIG_REQ_SN_NOCHECK)
         (check32 ''outgoing_ssn_reset_request_parameter.req_sn'' sb (s + 4) ab (a + 4)),
       unless (has_flag flags FLAG_RECONFIG_RESP_SN_NOCHECK)
         (check32 ''outgoing_ssn_reset_request_parameter.resp_sn'' sb (s + 8) ab (a + 8)),
       unless (has_flag flags FLAG_RECONFIG_LAST_TSN_NOCHECK)
         (check32 ''outgoing_ssn_reset_request_parameter.last_tsn'' sb (s + 12) ab (a + 12)),
       verify_sids ''outgoing_ssn_reset_request_parameter.sids'' sb s ab a 16]
     else if type = SCTP_INCOMING_SSN_RESET_REQUEST_PARAMETER_TYPE
     then checks [
       unless (has_flag flags FLAG_RECONFIG_REQ_SN_NOCHECK)
         (check32 ''incoming_ssn_reset_request_parameter.req_sn'' sb (s + 4) ab (a + 4)),
       verify_sids ''incoming_ssn_reset_request_parameter.sids'' sb s ab a 8]
     else if type = SCTP_SSN_TSN_RESET_REQUEST_PARAMETER_TYPE
     then unless (has_flag flags FLAG_RECONFIG_REQ_SN_NOCHECK)
       (check32 ''ssn_tsn_reset_request_parameter.req_sn'' sb (s + 4) ab (a + 4))
     else if type = SCTP_RECONFIG_RESPONSE_PARAMETER_TYPE
     then checks ([
       unless (has_flag flags FLAG_RECONFIG_RESP_SN_NOCHECK)
         (check32 ''reconfig_response_parameter.resp_sn'' sb (s + 4) ab (a + 4)),
       unless (has_flag flags FLAG_RECONFIG_RESULT_NOCHECK)
         (check32 ''reconfig_response_parameter.result'' sb (s + 8) ab (a + 8))] @
       (if unat len = sizeof_sctp_reconfig_response_parameter
        then [
          unless (has_flag flags FLAG_RECONFIG_SENDER_NEXT_TSN_NOCHECK)
            (check32 ''ssn_tsn_reset_request_parameter.sender_next_tsn'' sb (s + 12) ab (a + 12)),
          unless (has_flag flags FLAG_RECONFIG_RECEIVER_NEXT_TSN_NOCHECK)
            (check32 ''sctp_reconfig_response_parameter.receiver_next_tsn'' sb (s + 16) ab (a + 16))]
        else []))
     else if type = SCTP_ADD_OUTGOING_STREAMS_REQUEST_PARAMETER_TYPE
     then checks [
       unless (has_flag flags FLAG_RECONFIG_REQ_SN_NOCHECK)
         (check32 ''add_outgoing_streams_request_parameter_parameter.req_sn'' sb (s + 4) ab (a + 4)),
       unless (has_flag flags FLAG_RECONFIG_NUMBER_OF_NEW_STREAMS_NOCHECK)
         (check_u16 ''add_outgoing_streams_request_parameter.number_of_new_streams'' sb (s + 8) ab (a + 8))]
     else if type = SCTP_ADD_INCOMING_STREAMS_REQUEST_PARAMETER_TYPE
     then checks [
       unless (has_flag flags FLAG_RECONFIG_REQ_SN_NOCHECK)
         (check32 ''add_incoming_streams_request_parameter.req_sn'' sb (s + 4) ab (a + 4)),
       unless (has_flag flags FLAG_RECONFIG_NUMBER_OF_NEW_STREAMS_NOCHECK)
         (check_u16 ''add_incoming_streams_request_parameter.number_of_new_streams'' sb (s + 8) ab (a + 8))]
     else if has_flag flags FLAG_PARAMETER_VALUE_NOCHECK then status_ok
     else do {
       c_assert (\<not> has_flag flags FLAG_PARAMETER_LENGTH_NOCHECK);
       c_assert (unat len \<ge> 4);
       check_bytes Parameter_value sb (s + 4) ab (a + 4) (unat len - 4)
     }
   }"

definition verify_parameter :: "bytes \<Rightarrow> bytes \<Rightarrow> nat \<Rightarrow> sctp_item \<Rightarrow> verdict" where
  "verify_parameter sb ab a item = do {
     s \<leftarrow> item_ptr item;
     checks [
       unless (has_flag (item_flags item) FLAG_PARAMETER_TYPE_NOCHECK)
         (check16 ''sctp_parameter_type'' sb s ab a),
       unless (has_flag (item_flags item) FLAG_PARAMETER_LENGTH_NOCHECK)
         (check16 ''sctp_parameter_length'' sb (s + 2) ab (a + 2)),
       verify_parameter_fields (item_flags item) sb s ab a]
   }"

definition verify_sctp_parameters :: "bytes \<Rightarrow> bytes \<Rightarrow> nat \<Rightarrow> u16 \<Rightarrow> sctp_chunk_list_item \<Rightarrow> verdict" where
  "verify_sctp_parameters sb ab begin len script_chunk_item = do {
     p \<leftarrow> sctp_parameters_begin ab begin len;
     verify_items PARAMETER ab Partial_parameter Number_of_parameters (verify_parameter sb ab) p
       (parameter_list script_chunk_item)
   }"

definition verify_cause :: "bytes \<Rightarrow> bytes \<Rightarrow> nat \<Rightarrow> sctp_item \<Rightarrow> verdict" where
  "verify_cause sb ab a item = do {
     s \<leftarrow> item_ptr item;
     checks [
       unless (has_flag (item_flags item) FLAG_CAUSE_CODE_NOCHECK) (check16 ''sctp_cause_code'' sb s ab a),
       unless (has_flag (item_flags item) FLAG_CAUSE_LENGTH_NOCHECK)
         (check16 ''sctp_cause_length'' sb (s + 2) ab (a + 2)),
       unless (has_flag (item_flags item) FLAG_CAUSE_INFORMATION_NOCHECK) (do {
         c_assert (\<not> has_flag (item_flags item) FLAG_CAUSE_LENGTH_NOCHECK);
         len \<leftarrow> rd16 ab (a + 2);
         c_assert (unat len \<ge> 4);
         check_bytes Cause_information sb (s + 4) ab (a + 4) (unat len - 4)
       })]
   }"

definition verify_sctp_causes :: "bytes \<Rightarrow> bytes \<Rightarrow> nat \<Rightarrow> u16 \<Rightarrow> sctp_chunk_list_item \<Rightarrow> verdict" where
  "verify_sctp_causes sb ab chunk offset script_chunk_item = do {
     p \<leftarrow> sctp_causes_begin ab chunk offset;
     verify_items CAUSE ab Partial_cause Number_of_causes (verify_cause sb ab) p
       (cause_list script_chunk_item)
   }"

section \<open>Chunks\<close>

text \<open>The TSN of a DATA or I-DATA chunk is always compared, whatever the flags say.\<close>

definition verify_data_chunk :: "u32 \<Rightarrow> bytes \<Rightarrow> nat \<Rightarrow> bytes \<Rightarrow> nat \<Rightarrow> verdict" where
  "verify_data_chunk flags sb s ab a = checks [
     check32 ''sctp_data_chunk_tsn'' sb (s + 4) ab (a + 4),
     unless (has_flag flags FLAG_DATA_CHUNK_SID_NOCHECK) (check16 ''sctp_data_chunk_sid'' sb (s + 8) ab (a + 8)),
     unless (has_flag flags FLAG_DATA_CHUNK_SSN_NOCHECK) (check16 ''sctp_data_chunk_ssn'' sb (s + 10) ab (a + 10)),
     unless (has_flag flags FLAG_DATA_CHUNK_PPID_NOCHECK)
       (check32 ''sctp_data_chunk_ppid'' sb (s + 12) ab (a + 12))]"

definition verify_init_chunk :: "bytes \<Rightarrow> bytes \<Rightarrow> nat \<Rightarrow> sctp_chunk_list_item \<Rightarrow> verdict" where
  "verify_init_chunk sb ab a item = do {
     s \<leftarrow> chunk_ptr item;
     let flags = chunk_flags item;
     len \<leftarrow> rd16 ab (a + 2);
     c_assert (unat len \<ge> sizeof_sctp_init_chunk);
     checks [
       unless (has_flag flags FLAG_INIT_CHUNK_TAG_NOCHECK) (check32 ''sctp_init_chunk_tag'' sb (s + 4) ab (a + 4)),
       unless (has_flag flags FLAG_INIT_CHUNK_A_RWND_NOCHECK)
         (check32 ''sctp_init_chunk_a_rwnd'' sb (s + 8) ab (a + 8)),
       unless (has_flag flags FLAG_INIT_CHUNK_OS_NOCHECK) (check16 ''sctp_init_chunk_os'' sb (s + 12) ab (a + 12)),
       unless (has_flag flags FLAG_INIT_CHUNK_IS_NOCHECK) (check16 ''sctp_init_chunk_is'' sb (s + 14) ab (a + 14)),
       unless (has_flag flags FLAG_INIT_CHUNK_TSN_NOCHECK)
         (check32 ''sctp_init_chunk_tsn'' sb (s + 16) ab (a + 16)),
       unless (has_flag flags FLAG_INIT_CHUNK_OPT_PARAM_NOCHECK)
         (verify_sctp_parameters sb ab (a + 20) (len - of_nat sizeof_sctp_init_chunk) item)]
   }"

definition verify_init_ack_chunk :: "bytes \<Rightarrow> bytes \<Rightarrow> nat \<Rightarrow> sctp_chunk_list_item \<Rightarrow> verdict" where
  "verify_init_ack_chunk sb ab a item = do {
     s \<leftarrow> chunk_ptr item;
     let flags = chunk_flags item;
     len \<leftarrow> rd16 ab (a + 2);
     c_assert (unat len \<ge> sizeof_sctp_init_ack_chunk);
     checks [
       unless (has_flag flags FLAG_INIT_ACK_CHUNK_TAG_NOCHECK)
         (check32 ''sctp_init_ack_chunk_tag'' sb (s + 4) ab (a + 4)),
       unless (has_flag flags FLAG_INIT_ACK_CHUNK_A_RWND_NOCHECK)
         (check32 ''sctp_init_ack_chunk_a_rwnd'' sb (s + 8) ab (a + 8)),
       unless (has_flag flags FLAG_INIT_ACK_CHUNK_OS_NOCHECK)
         (check16 ''sctp_init_ack_chunk_os'' sb (s + 12) ab (a + 12)),
       unless (has_flag flags FLAG_INIT_ACK_CHUNK_IS_NOCHECK)
         (check16 ''sctp_init_ack_chunk_is'' sb (s + 14) ab (a + 14)),
       unless (has_flag flags FLAG_INIT_ACK_CHUNK_TSN_NOCHECK)
         (check32 ''sctp_init_ack_chunk_tsn'' sb (s + 16) ab (a + 16)),
       unless (has_flag flags FLAG_INIT_ACK_CHUNK_OPT_PARAM_NOCHECK)
         (verify_sctp_parameters sb ab (a + 20) (len - of_nat sizeof_sctp_init_ack_chunk) item)]
   }"

text \<open>The blocks of a SACK: gaps are pairs of 16-bit numbers, duplicates are TSNs.\<close>

definition verify_gaps :: "string \<Rightarrow> string \<Rightarrow> bytes \<Rightarrow> nat \<Rightarrow> bytes \<Rightarrow> nat \<Rightarrow> nat \<Rightarrow> verdict" where
  "verify_gaps start_name end_name sb s ab a n = checks (map (\<lambda>i. checks [
     check16 start_name sb (s + 4 * i) ab (a + 4 * i),
     check16 end_name sb (s + 4 * i + 2) ab (a + 4 * i + 2)]) [0..<n])"

definition verify_tsns :: "string \<Rightarrow> bytes \<Rightarrow> nat \<Rightarrow> bytes \<Rightarrow> nat \<Rightarrow> nat \<Rightarrow> verdict" where
  "verify_tsns name sb s ab a n =
     checks (map (\<lambda>i. check32 name sb (s + 4 * i) ab (a + 4 * i)) [0..<n])"

definition verify_sack_chunk :: "u32 \<Rightarrow> bytes \<Rightarrow> nat \<Rightarrow> bytes \<Rightarrow> nat \<Rightarrow> verdict" where
  "verify_sack_chunk flags sb s ab a = do {
     actual_gaps \<leftarrow> rd16 ab (a + 12);
     actual_dups \<leftarrow> rd16 ab (a + 14);
     script_gaps \<leftarrow> rd16 sb (s + 12);
     script_dups \<leftarrow> rd16 sb (s + 14);
     let no_gaps = has_flag flags FLAG_SACK_CHUNK_GAP_BLOCKS_NOCHECK;
     let no_dups = has_flag flags FLAG_SACK_CHUNK_DUP_TSNS_NOCHECK;
     let actual_base = actual_gaps;
     let script_base = (if \<not> no_gaps then actual_gaps else 0);
     checks [
       unless (has_flag flags FLAG_SACK_CHUNK_CUM_TSN_NOCHECK)
         (check32 ''sctp_sack_chunk_cum_tsn'' sb (s + 4) ab (a + 4)),
       unless (has_flag flags FLAG_SACK_CHUNK_A_RWND_NOCHECK)
         (check32 ''sctp_sack_chunk_a_rwnd'' sb (s + 8) ab (a + 8)),
       unless no_gaps (check_field ''sctp_sack_chunk_nr_gap_blocks'' (ucast script_gaps) (ucast actual_gaps)),
       unless no_dups (check_field ''sctp_sack_chunk_nr_dup_tsns'' (ucast script_dups) (ucast actual_dups)),
       unless no_gaps (verify_gaps ''sctp_sack_chunk_gap_block_start'' ''sctp_sack_chunk_gap_block_end''
         sb (s + 16) ab (a + 16) (unat script_gaps)),
       unless no_dups (verify_tsns ''sctp_sack_chunk_dup_tsn'' sb (s + 16 + 4 * unat script_base)
         ab (a + 16 + 4 * unat actual_base) (unat script_dups))]
   }"

definition verify_nr_sack_chunk :: "u32 \<Rightarrow> bytes \<Rightarrow> nat \<Rightarrow> bytes \<Rightarrow> nat \<Rightarrow> verdict" where
  "verify_nr_sack_chunk flags sb s ab a = do {
     actual_gaps \<leftarrow> rd16 ab (a + 12);
     actual_nr_gaps \<leftarrow> rd16 ab (a + 14);
     actual_dups \<leftarrow> rd16 ab (a + 16);
     script_gaps \<leftarrow> rd16 sb (s + 12);
     script_nr_gaps \<leftarrow> rd16 sb (s + 14);
     script_dups \<leftarrow> rd16 sb (s + 16);
     let no_gaps = has_flag flags FLAG_NR_SACK_CHUNK_GAP_BLOCKS_NOCHECK;
     let no_nr_gaps = has_flag flags FLAG_NR_SACK_CHUNK_NR_GAP_BLOCKS_NOCHECK;
     let no_dups = has_flag flags FLAG_NR_SACK_CHUNK_DUP_TSNS_NOCHECK;
     let script_base = (if \<not> no_gaps then actual_gaps else 0);
     let script_base' = (if \<not> no_nr_gaps then script_base + script_nr_gaps else script_base);
     checks [
       unless (has_flag flags FLAG_NR_SACK_CHUNK_CUM_TSN_NOCHECK)
         (check32 ''sctp_nr_sack_chunk_cum_tsn'' sb (s + 4) ab (a + 4)),
       unless (has_flag flags FLAG_NR_SACK_CHUNK_A_RWND_NOCHECK)
         (check32 ''sctp_nr_sack_chunk_a_rwnd'' sb (s + 8) ab (a + 8)),
       unless no_gaps (check_field ''sctp_nr_sack_chunk_nr_gap_blocks'' (ucast script_gaps) (ucast actual_gaps)),
       unless no_nr_gaps
         (check_field ''sctp_nr_sack_chunk_nr_of_nr_gap_blocks'' (ucast script_nr_gaps) (ucast actual_nr_gaps)),
       unless no_dups (check_field ''sctp_nr_sack_chunk_nr_dup_tsns'' (ucast script_dups) (ucast actual_dups)),
       unless no_gaps (verify_gaps ''sctp_nr_sack_chunk_gap_block_start'' ''sctp_nr_sack_chunk_gap_block_end''
         sb (s + 20) ab (a + 20) (unat script_gaps)),
       unless no_nr_gaps (verify_gaps ''sctp_nr_sack_chunk_nr_gap_block_start''
         ''sctp_nr_sack_chunk_nr_gap_block_end'' sb (s + 20 + 4 * unat script_base)
         ab (a + 20 + 4 * unat actual_gaps) (unat script_nr_gaps)),
       unless no_dups (verify_tsns ''sctp_nr_sack_chunk_dup_tsn'' sb (s + 20 + 4 * unat script_base')
         ab (a + 20 + 4 * unat (actual_gaps + actual_nr_gaps)) (unat script_dups))]
   }"

text \<open>Chunks that carry nothing but a value: heartbeats, their acknowledgements and cookies. A differing
  cookie is an error without a message.\<close>

definition verify_chunk_value :: "verify_error \<Rightarrow> u32 \<Rightarrow> bytes \<Rightarrow> nat \<Rightarrow> bytes \<Rightarrow> nat \<Rightarrow> verdict" where
  "verify_chunk_value err flags sb s ab a =
     (if has_flag flags FLAG_CHUNK_VALUE_NOCHECK then status_ok
      else do {
        c_assert (\<not> has_flag flags FLAG_CHUNK_LENGTH_NOCHECK);
        len \<leftarrow> rd16 ab (a + 2);
        c_assert (unat len \<ge> 4);
        check_bytes err sb (s + 4) ab (a + 4) (unat len - 4)
      })"

definition verify_heartbeat_chunk :: "u32 \<Rightarrow> bytes \<Rightarrow> nat \<Rightarrow> bytes \<Rightarrow> nat \<Rightarrow> verdict" where
  "verify_heartbeat_chunk = verify_chunk_value Heartbeat_info"

definition verify_heartbeat_ack_chunk :: "u32 \<Rightarrow> bytes \<Rightarrow> nat \<Rightarrow> bytes \<Rightarrow> nat \<Rightarrow> verdict" where
  "verify_heartbeat_ack_chunk = verify_chunk_value Heartbeat_info"

definition verify_cookie_echo_chunk :: "u32 \<Rightarrow> bytes \<Rightarrow> nat \<Rightarrow> bytes \<Rightarrow> nat \<Rightarrow> verdict" where
  "verify_cookie_echo_chunk = verify_chunk_value No_message"

definition verify_abort_chunk :: "bytes \<Rightarrow> bytes \<Rightarrow> nat \<Rightarrow> sctp_chunk_list_item \<Rightarrow> verdict" where
  "verify_abort_chunk sb ab a item = do {
     len \<leftarrow> rd16 ab (a + 2);
     c_assert (unat len \<ge> sizeof_sctp_abort_chunk);
     unless (has_flag (chunk_flags item) FLAG_ABORT_CHUNK_OPT_CAUSES_NOCHECK) (verify_sctp_causes sb ab a 4 item)
   }"

definition verify_error_chunk :: "bytes \<Rightarrow> bytes \<Rightarrow> nat \<Rightarrow> sctp_chunk_list_item \<Rightarrow> verdict" where
  "verify_error_chunk sb ab a item = do {
     len \<leftarrow> rd16 ab (a + 2);
     c_assert (unat len \<ge> 4);
     unless (has_flag (chunk_flags item) FLAG_ERROR_CHUNK_OPT_CAUSES_NOCHECK) (verify_sctp_causes sb ab a 4 item)
   }"

definition verify_shutdown_chunk :: "u32 \<Rightarrow> bytes \<Rightarrow> nat \<Rightarrow> bytes \<Rightarrow> nat \<Rightarrow> verdict" where
  "verify_shutdown_chunk flags sb s ab a = unless (has_flag flags FLAG_SHUTDOWN_CHUNK_CUM_TSN_NOCHECK)
     (check32 ''sctp_shutdown_chunk_cum_tsn'' sb (s + 4) ab (a + 4))"

definition verify_ecne_chunk :: "u32 \<Rightarrow> bytes \<Rightarrow> nat \<Rightarrow> bytes \<Rightarrow> nat \<Rightarrow> verdict" where
  "verify_ecne_chunk flags sb s ab a = unless (has_flag flags FLAG_ECNE_CHUNK_LOWEST_TSN_NOCHECK)
     (check32 ''sctp_ecne_chunk_lowest_tsn'' sb (s + 4) ab (a + 4))"

definition verify_cwr_chunk :: "u32 \<Rightarrow> bytes \<Rightarrow> nat \<Rightarrow> bytes \<Rightarrow> nat \<Rightarrow> verdict" where
  "verify_cwr_chunk flags sb s ab a = unless (has_flag flags FLAG_CWR_CHUNK_LOWEST_TSN_NOCHECK)
     (check32 ''sctp_cwr_chunk_lowest_tsn'' sb (s + 4) ab (a + 4))"

definition verify_i_data_chunk :: "u32 \<Rightarrow> bytes \<Rightarrow> nat \<Rightarrow> bytes \<Rightarrow> nat \<Rightarrow> verdict" where
  "verify_i_data_chunk flags sb s ab a = checks [
     check32 ''sctp_i_data_chunk_tsn'' sb (s + 4) ab (a + 4),
     unless (has_flag flags FLAG_I_DATA_CHUNK_SID_NOCHECK)
       (check16 ''sctp_i_data_chunk_sid'' sb (s + 8) ab (a + 8)),
     unless (has_flag flags FLAG_I_DATA_CHUNK_RES_NOCHECK)
       (check16 ''sctp_i_data_chunk_res'' sb (s + 10) ab (a + 10)),
     unless (has_flag flags FLAG_I_DATA_CHUNK_MID_NOCHECK)
       (check32 ''sctp_i_data_chunk_mid'' sb (s + 12) ab (a + 12)),
     unless (has_flag flags FLAG_I_DATA_CHUNK_PPID_NOCHECK)
       (check32 ''sctp_i_data_chunk_ppid'' sb (s + 16) ab (a + 16)),
     unless (has_flag flags FLAG_I_DATA_CHUNK_FSN_NOCHECK)
       (check32 ''sctp_i_data_chunk_fsn'' sb (s + 16) ab (a + 16))]"

text \<open>The 8-bit flags of a RECONFIG chunk go through \<^verbatim>\<open>ntohl\<close>, which only matters for the values reported.\<close>

definition verify_reconfig_chunk :: "bytes \<Rightarrow> bytes \<Rightarrow> nat \<Rightarrow> sctp_chunk_list_item \<Rightarrow> verdict" where
  "verify_reconfig_chunk sb ab a item = do {
     s \<leftarrow> chunk_ptr item;
     len \<leftarrow> rd16 ab (a + 2);
     checks [
       unless (has_flag (chunk_flags item) FLAG_CHUNK_FLAGS_NOCHECK) (do {
         e \<leftarrow> rd8 sb (s + 1);
         v \<leftarrow> rd8 ab (a + 1);
         check_field ''sctp_reconfig_flags'' (ntohl (ucast e)) (ntohl (ucast v))
       }),
       verify_sctp_parameters sb ab (a + 4) (len - of_nat sizeof_sctp_reconfig_chunk) item]
   }"

text \<open>The number of blocks of the given size behind the fixed part of a FORWARD-TSN or I-FORWARD-TSN chunk,
  in the unsigned arithmetic of \<^verbatim>\<open>size_t\<close>.\<close>

definition get_num_id_blocks :: "u16 \<Rightarrow> u16" where
  "get_num_id_blocks packet_length = ucast ((ucast packet_length - 8 :: u64) div 4)"

definition get_num_id_blocks_for_i_forward_tsn :: "u16 \<Rightarrow> u16" where
  "get_num_id_blocks_for_i_forward_tsn packet_length = ucast ((ucast packet_length - 8 :: u64) div 8)"

text \<open>The number of blocks on both sides of the comparison is that of the script chunk.\<close>

definition verify_forward_tsn_chunk :: "u32 \<Rightarrow> bytes \<Rightarrow> nat \<Rightarrow> bytes \<Rightarrow> nat \<Rightarrow> verdict" where
  "verify_forward_tsn_chunk flags sb s ab a = do {
     actual_packet_length \<leftarrow> rd16 sb (s + 2);
     script_packet_length \<leftarrow> rd16 sb (s + 2);
     let actual_nr_id_blocks = get_num_id_blocks actual_packet_length;
     let script_nr_id_blocks = get_num_id_blocks script_packet_length;
     checks [
       unless (has_flag flags FLAG_FORWARD_TSN_CHUNK_CUM_TSN_NOCHECK)
         (check32 ''sctp_forward_tsn_cum_tsn'' sb (s + 4) ab (a + 4)),
       unless (has_flag flags FLAG_FORWARD_TSN_CHUNK_IDS_NOCHECK) (checks (
         check_field ''nr_sid_blocks'' (ucast actual_nr_id_blocks) (ucast script_nr_id_blocks) #
         map (\<lambda>i. checks [
           check16 ''sctp_forward_tsn_stream_identifier'' sb (s + 8 + 4 * i) ab (a + 8 + 4 * i),
           check16 ''sctp_forward_tsn_stream_sequence_number'' sb (s + 10 + 4 * i) ab (a + 10 + 4 * i)])
           [0..<unat script_nr_id_blocks]))]
   }"

definition verify_i_forward_tsn_chunk :: "u32 \<Rightarrow> bytes \<Rightarrow> nat \<Rightarrow> bytes \<Rightarrow> nat \<Rightarrow> verdict" where
  "verify_i_forward_tsn_chunk flags sb s ab a = do {
     actual_packet_length \<leftarrow> rd16 sb (s + 2);
     script_packet_length \<leftarrow> rd16 sb (s + 2);
     let actual_nr_id_blocks = get_num_id_blocks_for_i_forward_tsn actual_packet_length;
     let script_nr_id_blocks = get_num_id_blocks_for_i_forward_tsn script_packet_length;
     checks [
       unless (has_flag flags FLAG_I_FORWARD_TSN_CHUNK_CUM_TSN_NOCHECK)
         (check32 ''sctp_i_forward_tsn_cum_tsn'' sb (s + 4) ab (a + 4)),
       unless (has_flag flags FLAG_I_FORWARD_TSN_CHUNK_IDS_NOCHECK) (checks (
         check_field ''nr_id_blocks'' (ucast actual_nr_id_blocks) (ucast script_nr_id_blocks) #
         map (\<lambda>i. checks [
           check16 ''sctp_i_forward_tsn_stream_identifier'' sb (s + 8 + 8 * i) ab (a + 8 + 8 * i),
           check16 ''sctp_i_forward_tsn_u_bit'' sb (s + 10 + 8 * i) ab (a + 10 + 8 * i),
           check32 ''sctp_i_forward_tsn_message_identifier'' sb (s + 12 + 8 * i) ab (a + 12 + 8 * i)])
           [0..<unat script_nr_id_blocks]))]
   }"

section \<open>The packet\<close>

text \<open>The switch over the type of the actual chunk; an unknown type is a failed assertion.\<close>

definition verify_chunk_type :: "bytes \<Rightarrow> bytes \<Rightarrow> nat \<Rightarrow> sctp_chunk_list_item \<Rightarrow> u8 \<Rightarrow> verdict" where
  "verify_chunk_type sb ab a item type = do {
     s \<leftarrow> chunk_ptr item;
     let flags = chunk_flags item;
     if type = SCTP_DATA_CHUNK_TYPE then verify_data_chunk flags sb s ab a
     else if type = SCTP_INIT_CHUNK_TYPE then verify_init_chunk sb ab a item
     else if type = SCTP_INIT_ACK_CHUNK_TYPE then verify_init_ack_chunk sb ab a item
     else if type = SCTP_SACK_CHUNK_TYPE then verify_sack_chunk flags sb s ab a
     else if type = SCTP_NR_SACK_CHUNK_TYPE then verify_nr_sack_chunk flags sb s ab a
     else if type = SCTP_HEARTBEAT_CHUNK_TYPE then verify_heartbeat_chunk flags sb s ab a
     else if type = SCTP_HEARTBEAT_ACK_CHUNK_TYPE then verify_heartbeat_ack_chunk flags sb s ab a
     else if type = SCTP_ABORT_CHUNK_TYPE then verify_abort_chunk sb ab a item
     else if type = SCTP_SHUTDOWN_CHUNK_TYPE then verify_shutdown_chunk flags sb s ab a
     else if type = SCTP_SHUTDOWN_ACK_CHUNK_TYPE then status_ok
     else if type = SCTP_ERROR_CHUNK_TYPE then verify_error_chunk sb ab a item
     else if type = SCTP_COOKIE_ECHO_CHUNK_TYPE then verify_cookie_echo_chunk flags sb s ab a
     else if type = SCTP_COOKIE_ACK_CHUNK_TYPE then status_ok
     else if type = SCTP_ECNE_CHUNK_TYPE then verify_ecne_chunk flags sb s ab a
     else if type = SCTP_CWR_CHUNK_TYPE then verify_cwr_chunk flags sb s ab a
     else if type = SCTP_SHUTDOWN_COMPLETE_CHUNK_TYPE then status_ok
     else if type = SCTP_I_DATA_CHUNK_TYPE then verify_i_data_chunk flags sb s ab a
     else if type = SCTP_PAD_CHUNK_TYPE then status_ok
     else if type = SCTP_RECONFIG_CHUNK_TYPE then verify_reconfig_chunk sb ab a item
     else if type = SCTP_FORWARD_TSN_CHUNK_TYPE then verify_forward_tsn_chunk flags sb s ab a
     else if type = SCTP_I_FORWARD_TSN_CHUNK_TYPE then verify_i_forward_tsn_chunk flags sb s ab a
     else None
   }"

definition verify_chunk :: "bytes \<Rightarrow> bytes \<Rightarrow> nat \<Rightarrow> sctp_chunk_list_item \<Rightarrow> verdict" where
  "verify_chunk sb ab a item = do {
     s \<leftarrow> chunk_ptr item;
     let flags = chunk_flags item;
     checks [
       check8 ''sctp_chunk_type'' sb s ab a,
       unless (has_flag flags FLAG_CHUNK_FLAGS_NOCHECK) (check8 ''sctp_chunk_flags'' sb (s + 1) ab (a + 1)),
       unless (has_flag flags FLAG_CHUNK_LENGTH_NOCHECK) (check16 ''sctp_chunk_length'' sb (s + 2) ab (a + 2)),
       do { type \<leftarrow> rd8 ab a; verify_chunk_type sb ab a item type }]
   }"

definition verify_sctp :: "packet \<Rightarrow> packet \<Rightarrow> verdict" where
  "verify_sctp actual_packet script_packet = do {
     p \<leftarrow> sctp_chunks_begin actual_packet;
     chunks \<leftarrow> pkt_chunk_list script_packet;
     verify_items CHUNK (pkt_buffer actual_packet) Partial_chunk Number_of_chunks
       (verify_chunk (pkt_buffer script_packet) (pkt_buffer actual_packet)) p chunks
   }"

section \<open>What an accepted check says\<close>

text \<open>Two pieces of memory of \<open>n\<close> bytes lie inside their buffers and are equal.\<close>

definition same :: "bytes \<Rightarrow> nat \<Rightarrow> bytes \<Rightarrow> nat \<Rightarrow> nat \<Rightarrow> bool" where
  "same sb s ab a n \<longleftrightarrow> (\<exists>xs. rd_bytes sb s n = Some xs \<and> rd_bytes ab a n = Some xs)"

lemma and_then_ok [simp]: "and_then r s = status_ok \<longleftrightarrow> r = status_ok \<and> s = status_ok"
  by (auto simp: and_then_def split: bind_splits sum.splits)

lemma checks_ok [simp]: "checks rs = status_ok \<longleftrightarrow> (\<forall>r \<in> set rs. r = status_ok)"
  by (induction rs) simp_all

lemma unless_ok [simp]: "unless c r = status_ok \<longleftrightarrow> c \<or> r = status_ok"
  by (simp add: unless_def)

lemma check_field_ok [simp]:
  "check_field name e v = status_ok \<longleftrightarrow> v = e" "check_field_u16 name e' v' = status_ok \<longleftrightarrow> v' = e'"
  by (simp_all add: check_field_def check_field_u16_def)

lemma same_nth:
  "same sb s ab a n \<longleftrightarrow> s + n \<le> length sb \<and> a + n \<le> length ab \<and> (\<forall>i < n. sb ! (s + i) = ab ! (a + i))"
proof -
  have "take n (drop s sb) = take n (drop a ab) \<longleftrightarrow> (\<forall>i < n. sb ! (s + i) = ab ! (a + i))"
    if "s + n \<le> length sb" "a + n \<le> length ab"
    using that by (auto simp: list_eq_iff_nth_eq)
  then show ?thesis
    by (auto simp: same_def rd_bytes_def)
qed

text \<open>Adjacent pieces.\<close>

lemma same_add: "same sb s ab a (m + n) \<longleftrightarrow> same sb s ab a m \<and> same sb (s + m) ab (a + m) n"
proof -
  have "(\<forall>i < m + n. P i) \<longleftrightarrow> (\<forall>i < m. P i) \<and> (\<forall>i < n. P (m + i))" for P
    by (metis add_diff_inverse_nat nat_add_left_cancel_less not_less trans_less_add1)
  then show ?thesis
    by (auto simp: same_nth add.assoc)
qed

lemma ucast_u32_inj:
  "(ucast (x :: u8) :: u32) = ucast y \<longleftrightarrow> x = y" "(ucast (v :: u16) :: u32) = ucast w \<longleftrightarrow> v = w"
  by (auto simp: word_unat_eq_iff unsigned_ucast_eq take_bit_nat_eq_self
      less_le_trans [OF unsigned_less])

lemma check8_ok [simp]: "check8 name sb s ab a = status_ok \<longleftrightarrow> same sb s ab a 1"
  by (auto simp: check8_def same_nth rd8_def ucast_u32_inj)

lemma all_less_2: "(\<forall>i < 2 :: nat. P i) \<longleftrightarrow> P 0 \<and> P 1"
  by (auto simp: numeral_2_eq_2 less_Suc_eq)

lemma all_less_4: "(\<forall>i < 4 :: nat. P i) \<longleftrightarrow> P 0 \<and> P 1 \<and> P 2 \<and> P 3"
  by (auto simp: eval_nat_numeral less_Suc_eq)

lemma check16_ok [simp]: "check16 name sb s ab a = status_ok \<longleftrightarrow> same sb s ab a 2"
  by (auto simp: check16_def same_nth rd16_def ucast_u32_inj be16_of_inj all_less_2)

lemma check_u16_ok [simp]: "check_u16 name sb s ab a = status_ok \<longleftrightarrow> same sb s ab a 2"
  by (auto simp: check_u16_def same_nth rd16_def be16_of_inj all_less_2)

lemma check32_ok [simp]: "check32 name sb s ab a = status_ok \<longleftrightarrow> same sb s ab a 4"
  by (auto simp: check32_def same_nth rd32_def be32_of_inj all_less_4)

lemma check_bytes_ok [simp]: "check_bytes err sb s ab a n = status_ok \<longleftrightarrow> same sb s ab a n"
  by (auto simp: check_bytes_def same_def split: bind_splits)

lemma ball_atLeastLessThan: "(\<forall>i \<in> {0..<n}. P i) \<longleftrightarrow> (\<forall>i < n. P i)" for n :: nat
  by auto

section \<open>Items and records in step\<close>

text \<open>The loop succeeds exactly if the area splits into as many records as there are items, without a
  defect, and each record passes the check against its item.\<close>

lemma verify_items_ok:
  assumes "c \<le> e" and "e \<le> length b" and "get_current k b c e = Some p"
  shows "verify_items k b partial number body p items = status_ok \<longleftrightarrow>
     (\<exists>ts. split_tlvs k (span b c e) = Some (ts, None) \<and>
        list_all2 (\<lambda>cur item. body cur item = status_ok) (tlv_offsets c ts) items)"
  using assms
proof (induction items arbitrary: c p)
  case Nil
  from Nil.prems show ?case
    by (cases rule: iterator_cases) auto
next
  case (Cons item items)
  from Cons.prems show ?case
  proof (cases rule: iterator_cases)
    case (Step t c' p')
    then show ?thesis
      using Cons.IH [OF Step(6) Cons.prems(2) Step(4)] by (auto simp: Step(8) simp del: tlv_offsets.simps)
  qed auto
qed

section \<open>What the accepted parts of a chunk say\<close>

text \<open>Whole records of \<open>k\<close> bytes, one after the other on both sides.\<close>

definition same_records :: "nat \<Rightarrow> bytes \<Rightarrow> nat \<Rightarrow> bytes \<Rightarrow> nat \<Rightarrow> nat \<Rightarrow> bool" where
  "same_records k sb s ab a n \<longleftrightarrow> (\<forall>i < n. same sb (s + k * i) ab (a + k * i) k)"

text \<open>A number of 16 bits in network byte order.\<close>

definition num16 :: "bytes \<Rightarrow> nat \<Rightarrow> nat" where
  "num16 b i = unat (be16_of (b ! i) (b ! (i + 1)))"

text \<open>The fields given by a table, unless the flag beside them leaves them open.\<close>

definition fields_agree :: "(u32 \<times> nat \<times> nat) list \<Rightarrow> u32 \<Rightarrow> bytes \<Rightarrow> nat \<Rightarrow> bytes \<Rightarrow> nat \<Rightarrow> bool" where
  "fields_agree table flags sb s ab a \<longleftrightarrow>
     (\<forall>(f, off, n) \<in> set table. has_flag flags f \<or> same sb (s + off) ab (a + off) n)"

text \<open>An area of the actual packet splits without a defect into as many records as there are items, and
  each record agrees with its item.\<close>

definition items_agree ::
    "sctp_tlv \<Rightarrow> bytes \<Rightarrow> nat \<Rightarrow> nat \<Rightarrow> (nat \<Rightarrow> 'i \<Rightarrow> bool) \<Rightarrow> 'i list \<Rightarrow> bool" where
  "items_agree k b c e agrees items \<longleftrightarrow>
     (\<exists>ts. split_tlvs k (span b c e) = Some (ts, None) \<and> list_all2 agrees (tlv_offsets c ts) items)"

lemma num16_eq: "rd16 b i = Some v \<Longrightarrow> num16 b i = unat v"
  by (auto simp: rd16_def num16_def split: if_splits)

lemma same2_iff: "same sb s ab a 2 \<longleftrightarrow> (\<exists>v. rd16 sb s = Some v \<and> rd16 ab a = Some v)"
  by (auto simp: same_nth rd16_def be16_of_inj all_less_2)

lemma no_flag [simp]: "\<not> has_flag flags 0"
  by (simp add: has_flag_def)

lemma unat_u16_less: "unat (n :: u16) < 65536"
  by (rule less_le_trans [OF unsigned_less]) simp

lemma verify_gaps_ok:
  "verify_gaps start_name end_name sb s ab a n = status_ok \<longleftrightarrow> same_records 4 sb s ab a n"
proof -
  have "same sb p ab q 2 \<and> same sb (p + 2) ab (q + 2) 2 \<longleftrightarrow> same sb p ab q 4" for p q
    using same_add [of sb p ab q 2 2] by simp
  then show ?thesis
    by (simp add: verify_gaps_def same_records_def ball_atLeastLessThan)
qed

lemma verify_tsns_ok: "verify_tsns name sb s ab a n = status_ok \<longleftrightarrow> same_records 4 sb s ab a n"
  by (simp add: verify_tsns_def same_records_def ball_atLeastLessThan)

text \<open>A record that the splitting of an area yields lies in that area.\<close>

lemma split_tlvs_bounds:
  assumes "split_tlvs k xs = Some (ts, None)" and "a \<in> set (tlv_offsets d ts)"
  shows "\<exists>i len. a = d + i \<and> be16_of (xs ! (i + 2)) (xs ! (i + 3)) = len \<and> 4 \<le> unat len \<and>
     i + unat len \<le> length xs"
  using assms
proof (induction k xs arbitrary: d ts rule: split_tlvs.induct)
  case (1 k xs)
  define len where "len = be16_of (xs ! 2) (xs ! 3)"
  show ?case
  proof (cases "xs = []")
    case True
    then show ?thesis
      using "1.prems" by (simp add: split_tlvs.simps)
  next
    case False
    then obtain ts' where len: "4 \<le> length xs" "unat len \<le> length xs" "4 \<le> unat len"
      and rest: "split_tlvs k (drop (padded (unat len)) xs) = Some (ts', None)"
      and ts: "ts = take (unat len) xs # ts'"
      using "1.prems"(1) by (subst (asm) split_tlvs.simps) (auto simp: len_def Let_def split: if_splits)
    consider "a = d" | "a \<in> set (tlv_offsets (d + padded (unat len)) ts')"
      using "1.prems"(2) len(2) by (auto simp: ts)
    then show ?thesis
    proof cases
      case 1
      then show ?thesis
        using len by (intro exI [of _ "0 :: nat"] exI [of _ len]) (simp add: len_def numeral_2_eq_2)
    next
      case 2
      obtain i n where i: "a = d + padded (unat len) + i"
          "be16_of (drop (padded (unat len)) xs ! (i + 2)) (drop (padded (unat len)) xs ! (i + 3)) = n"
          "4 \<le> unat n" "i + unat n \<le> length (drop (padded (unat len)) xs)"
        using "1.IH" [OF False _ len_def _ _ rest 2] len by (simp only: not_less) blast
      then show ?thesis
        by (intro exI [of _ "padded (unat len) + i"] exI [of _ n]) (auto simp: add.assoc)
    qed
  qed
qed

lemma record_bounds:
  assumes "split_tlvs k (span b c e) = Some (ts, None)" and "a \<in> set (tlv_offsets c ts)"
    and "c \<le> e" and "e \<le> length b"
  obtains len where "rd16 b (a + 2) = Some len" "4 \<le> unat len" "a + unat len \<le> e"
proof -
  obtain i len where i: "a = c + i" "be16_of (span b c e ! (i + 2)) (span b c e ! (i + 3)) = len"
      "4 \<le> unat len" "i + unat len \<le> length (span b c e)"
    using split_tlvs_bounds [OF assms(1,2)] by blast
  moreover have "rd16 b (a + 2) = Some len"
    using i assms(3,4) by (auto simp: rd16_def add.assoc eval_nat_numeral)
  ultimately show thesis
    using assms(3,4) by (intro that [of len]) simp_all
qed

text \<open>The loop over an area that lies inside the buffer.\<close>

lemma verify_items_agree:
  assumes "c \<le> e" and "e \<le> length b" and "get_current k b c e = Some p"
    and "verify_items k b partial number body p items = status_ok"
    and "\<And>a item len. body a item = status_ok \<Longrightarrow> rd16 b (a + 2) = Some len \<Longrightarrow> 4 \<le> unat len \<Longrightarrow>
       a + unat len \<le> e \<Longrightarrow> agrees a item"
  shows "items_agree k b c e agrees items"
proof -
  obtain ts where ts: "split_tlvs k (span b c e) = Some (ts, None)"
    and body: "list_all2 (\<lambda>cur item. body cur item = status_ok) (tlv_offsets c ts) items"
    using assms(4) unfolding verify_items_ok [OF assms(1-3)] by blast
  have "agrees a item" if "a \<in> set (tlv_offsets c ts)" "body a item = status_ok" for a item
    using record_bounds [OF ts that(1) assms(1,2)] assms(5) [OF that(2)] by blast
  then have "list_all2 agrees (tlv_offsets c ts) items"
    using body by (simp add: list_all2_conv_all_nth)
  then show ?thesis
    using ts by (auto simp: items_agree_def)
qed

section \<open>Parameters and causes that agree\<close>

text \<open>The fields of the parameters for stream reconfiguration, by the type and the length of the actual
  parameter, and the size of the header in front of a list of stream identifiers.\<close>

definition parameter_fields :: "u16 \<Rightarrow> nat \<Rightarrow> (u32 \<times> nat \<times> nat) list" where
  "parameter_fields type len =
     (if type = SCTP_OUTGOING_SSN_RESET_REQUEST_PARAMETER_TYPE then [(0x10, 4, 4), (0x20, 8, 4), (0x40, 12, 4)]
      else if type = SCTP_INCOMING_SSN_RESET_REQUEST_PARAMETER_TYPE \<or>
        type = SCTP_SSN_TSN_RESET_REQUEST_PARAMETER_TYPE
      then [(0x10, 4, 4)]
      else if type = SCTP_RECONFIG_RESPONSE_PARAMETER_TYPE
      then [(0x20, 4, 4), (0x10, 8, 4)] @ (if len = 20 then [(0x40, 12, 4), (0x80, 16, 4)] else [])
      else if type = SCTP_ADD_OUTGOING_STREAMS_REQUEST_PARAMETER_TYPE \<or>
        type = SCTP_ADD_INCOMING_STREAMS_REQUEST_PARAMETER_TYPE
      then [(0x10, 4, 4), (0x80, 8, 2)]
      else [])"

definition parameter_sids :: "u16 \<Rightarrow> nat option" where
  "parameter_sids type =
     (if type = SCTP_OUTGOING_SSN_RESET_REQUEST_PARAMETER_TYPE then Some 16
      else if type = SCTP_INCOMING_SSN_RESET_REQUEST_PARAMETER_TYPE then Some 8
      else None)"

text \<open>A parameter agrees in its type and length unless left open; one for stream reconfiguration agrees in its
  fields and in every stream identifier the script lists, any other one in all bytes of its value.\<close>

definition parameter_agrees :: "bytes \<Rightarrow> bytes \<Rightarrow> nat \<Rightarrow> sctp_item \<Rightarrow> bool" where
  "parameter_agrees sb ab a item \<longleftrightarrow> (\<exists>s type len. item_ptr item = Some s \<and>
     rd16 ab a = Some type \<and> rd16 ab (a + 2) = Some len \<and>
     fields_agree [(FLAG_PARAMETER_TYPE_NOCHECK, 0, 2), (FLAG_PARAMETER_LENGTH_NOCHECK, 2, 2)]
       (item_flags item) sb s ab a \<and>
     fields_agree (parameter_fields type (unat len)) (item_flags item) sb s ab a \<and>
     (\<forall>h. parameter_sids type = Some h \<longrightarrow>
        same_records 2 sb (s + h) ab (a + h) ((num16 sb (s + 2) - h) div 2)) \<and>
     (parameter_fields type (unat len) = [] \<longrightarrow> has_flag (item_flags item) FLAG_PARAMETER_VALUE_NOCHECK \<or>
        same sb (s + 4) ab (a + 4) (unat len - 4)))"

definition cause_agrees :: "bytes \<Rightarrow> bytes \<Rightarrow> nat \<Rightarrow> sctp_item \<Rightarrow> bool" where
  "cause_agrees sb ab a item \<longleftrightarrow> (\<exists>s. item_ptr item = Some s \<and>
     fields_agree [(FLAG_CAUSE_CODE_NOCHECK, 0, 2), (FLAG_CAUSE_LENGTH_NOCHECK, 2, 2),
       (FLAG_CAUSE_INFORMATION_NOCHECK, 4, num16 ab (a + 2) - 4)] (item_flags item) sb s ab a)"

lemma sids_count_eq: "h \<le> unat len \<Longrightarrow> h \<le> 16 \<Longrightarrow> sids_count h len = (unat len - h) div 2"
proof -
  assume h: "h \<le> unat len" "h \<le> 16"
  then have "unat (of_nat h :: u64) = h" "unat (ucast len :: u64) = unat len"
    by (simp_all add: unsigned_of_nat take_bit_nat_eq_self unsigned_ucast_eq less_le_trans [OF unsigned_less])
  moreover from this h have "unat (ucast len - of_nat h :: u64) = unat len - h"
    by (subst unat_sub) (simp_all add: word_le_nat_alt)
  ultimately show ?thesis
    by (simp add: sids_count_def unat_div)
qed

lemma verify_sids_agree:
  assumes "verify_sids name sb s ab a h = status_ok" and "h \<le> 16"
  shows "same_records 2 sb (s + h) ab (a + h) ((num16 sb (s + 2) - h) div 2)"
proof -
  obtain len where len: "rd16 sb (s + 2) = Some len"
    and same: "same_records 2 sb (s + h) ab (a + h) (sids_count h len)"
    using assms(1) by (auto simp: verify_sids_def same_records_def ball_atLeastLessThan split: bind_splits)
  show ?thesis
    using same sids_count_eq [of h len] assms(2)
    by (cases "h \<le> unat len") (simp_all add: num16_eq [OF len] same_records_def del: add_2_eq_Suc')
qed

lemma verify_parameter_agrees:
  assumes "verify_parameter sb ab a item = status_ok"
  shows "parameter_agrees sb ab a item"
proof -
  obtain s type len where s: "item_ptr item = Some s" and rd: "rd16 ab a = Some type" "rd16 ab (a + 2) = Some len"
    and head: "fields_agree [(FLAG_PARAMETER_TYPE_NOCHECK, 0, 2), (FLAG_PARAMETER_LENGTH_NOCHECK, 2, 2)]
       (item_flags item) sb s ab a"
    and ok: "verify_parameter_fields (item_flags item) sb s ab a = status_ok"
    using assms by (auto simp: verify_parameter_def verify_parameter_fields_def fields_agree_def
      simp del: add_2_eq_Suc' split: bind_splits)
  have "fields_agree (parameter_fields type (unat len)) (item_flags item) sb s ab a"
    using ok by (auto simp: verify_parameter_fields_def rd fields_agree_def parameter_fields_def simp del: add_2_eq_Suc')
  moreover have "\<forall>h. parameter_sids type = Some h \<longrightarrow>
      same_records 2 sb (s + h) ab (a + h) ((num16 sb (s + 2) - h) div 2)"
    using ok by (auto simp: verify_parameter_fields_def rd parameter_sids_def dest!: verify_sids_agree simp del: add_2_eq_Suc' split: if_splits)
  moreover have "parameter_fields type (unat len) = [] \<longrightarrow>
      has_flag (item_flags item) FLAG_PARAMETER_VALUE_NOCHECK \<or> same sb (s + 4) ab (a + 4) (unat len - 4)"
    using ok by (auto simp: verify_parameter_fields_def rd parameter_fields_def simp del: add_2_eq_Suc' split: if_splits bind_splits)
  ultimately show ?thesis
    using s rd head unfolding parameter_agrees_def by blast
qed

lemma verify_cause_agrees: "verify_cause sb ab a item = status_ok \<Longrightarrow> cause_agrees sb ab a item"
  by (auto simp: verify_cause_def cause_agrees_def fields_agree_def num16_eq simp del: add_2_eq_Suc' split: bind_splits if_splits)

lemma verify_sctp_parameters_agree:
  assumes "verify_sctp_parameters sb ab c len item = status_ok" and "c + unat len \<le> length ab"
  shows "items_agree PARAMETER ab c (c + unat len) (parameter_agrees sb ab) (parameter_list item)"
proof -
  obtain p where p: "get_current PARAMETER ab c (c + unat len) = Some p"
    and ok: "verify_items PARAMETER ab Partial_parameter Number_of_parameters (verify_parameter sb ab) p
       (parameter_list item) = status_ok"
    using assms(1) by (auto simp: verify_sctp_parameters_def sctp_parameters_begin_def get_current_parameter_def
        split: bind_splits)
  show ?thesis
    by (rule verify_items_agree [OF _ assms(2) p ok]) (simp_all add: verify_parameter_agrees)
qed

lemma verify_sctp_causes_agree:
  assumes "verify_sctp_causes sb ab a offset item = status_ok" and "rd16 ab (a + 2) = Some len"
    and "unat offset \<le> unat len" and "a + unat len \<le> length ab"
  shows "items_agree CAUSE ab (a + unat offset) (a + unat len) (cause_agrees sb ab) (cause_list item)"
proof -
  obtain p where p: "get_current CAUSE ab (a + unat offset) (a + unat len) = Some p"
    and ok: "verify_items CAUSE ab Partial_cause Number_of_causes (verify_cause sb ab) p (cause_list item) = status_ok"
    using assms(1,2) by (auto simp: verify_sctp_causes_def sctp_causes_begin_def get_current_cause_def
        simp del: add_2_eq_Suc' split: bind_splits)
  show ?thesis
    by (rule verify_items_agree [OF _ assms(4) p ok]) (simp_all add: assms(3) verify_cause_agrees)
qed

section \<open>Chunks that agree\<close>

text \<open>Offset and size of the fields behind the four bytes of type, flags and length that have to agree, for
  each type of chunk, and the flag that leaves a field open; 0 is a flag that is never set.\<close>

definition chunk_fields :: "u8 \<Rightarrow> (u32 \<times> nat \<times> nat) list" where
  "chunk_fields type =
     (if type = SCTP_DATA_CHUNK_TYPE then [(0, 4, 4), (0x200, 8, 2), (0x400, 10, 2), (0x800, 12, 4)]
      else if type = SCTP_INIT_CHUNK_TYPE \<or> type = SCTP_INIT_ACK_CHUNK_TYPE
      then [(0x100, 4, 4), (0x200, 8, 4), (0x400, 12, 2), (0x800, 14, 2), (0x1000, 16, 4)]
      else if type = SCTP_SACK_CHUNK_TYPE then [(0x100, 4, 4), (0x200, 8, 4), (0x400, 12, 2), (0x800, 14, 2)]
      else if type = SCTP_NR_SACK_CHUNK_TYPE
      then [(0x100, 4, 4), (0x200, 8, 4), (0x400, 12, 2), (0x800, 14, 2), (0x1000, 16, 2)]
      else if type = SCTP_SHUTDOWN_CHUNK_TYPE \<or> type = SCTP_ECNE_CHUNK_TYPE \<or> type = SCTP_CWR_CHUNK_TYPE \<or>
        type = SCTP_FORWARD_TSN_CHUNK_TYPE \<or> type = SCTP_I_FORWARD_TSN_CHUNK_TYPE
      then [(0x100, 4, 4)]
      else if type = SCTP_I_DATA_CHUNK_TYPE
      then [(0, 4, 4), (0x200, 8, 2), (0x400, 10, 2), (0x800, 12, 4), (0x1000, 16, 4), (0x2000, 16, 4)]
      else [])"

text \<open>The blocks of a SACK: the gap blocks that the script lists, behind them the duplicate TSNs. On the
  script side there are no gap blocks in front of the TSNs when they are left open.\<close>

definition sack_blocks_agree :: "u32 \<Rightarrow> bytes \<Rightarrow> nat \<Rightarrow> bytes \<Rightarrow> nat \<Rightarrow> bool" where
  "sack_blocks_agree flags sb s ab a \<longleftrightarrow>
     (let gaps = (if has_flag flags FLAG_SACK_CHUNK_GAP_BLOCKS_NOCHECK then 0 else num16 sb (s + 12))
      in same_records 4 sb (s + 16) ab (a + 16) gaps \<and>
        (has_flag flags FLAG_SACK_CHUNK_DUP_TSNS_NOCHECK \<or>
         same_records 4 sb (s + 16 + 4 * gaps) ab (a + 16 + 4 * num16 ab (a + 12)) (num16 sb (s + 14))))"

text \<open>The same for an NR-SACK, with two lists of gap blocks; the sum of their lengths has 16 bits.\<close>

definition nr_sack_blocks_agree :: "u32 \<Rightarrow> bytes \<Rightarrow> nat \<Rightarrow> bytes \<Rightarrow> nat \<Rightarrow> bool" where
  "nr_sack_blocks_agree flags sb s ab a \<longleftrightarrow>
     (let gaps = (if has_flag flags FLAG_NR_SACK_CHUNK_GAP_BLOCKS_NOCHECK then 0 else num16 sb (s + 12));
          nr_gaps = (if has_flag flags FLAG_NR_SACK_CHUNK_NR_GAP_BLOCKS_NOCHECK then 0 else num16 sb (s + 14));
          actual_gaps = num16 ab (a + 12);
          actual_blocks = (actual_gaps + num16 ab (a + 14)) mod 65536
      in same_records 4 sb (s + 20) ab (a + 20) gaps \<and>
        same_records 4 sb (s + 20 + 4 * gaps) ab (a + 20 + 4 * actual_gaps) nr_gaps \<and>
        (has_flag flags FLAG_NR_SACK_CHUNK_DUP_TSNS_NOCHECK \<or>
         same_records 4 sb (s + 20 + 4 * ((gaps + nr_gaps) mod 65536)) ab (a + 20 + 4 * actual_blocks)
           (num16 sb (s + 16))))"

text \<open>What follows the fixed part of a chunk of \<open>len\<close> bytes: blocks of a fixed size, a value, parameters or
  causes.\<close>

definition chunk_contents_agree :: "u8 \<Rightarrow> nat \<Rightarrow> bytes \<Rightarrow> nat \<Rightarrow> bytes \<Rightarrow> nat \<Rightarrow> sctp_chunk_list_item \<Rightarrow> bool" where
  "chunk_contents_agree type len sb s ab a item \<longleftrightarrow>
     (if type = SCTP_SACK_CHUNK_TYPE then sack_blocks_agree (chunk_flags item) sb s ab a
      else if type = SCTP_NR_SACK_CHUNK_TYPE then nr_sack_blocks_agree (chunk_flags item) sb s ab a
      else if type = SCTP_FORWARD_TSN_CHUNK_TYPE
      then has_flag (chunk_flags item) FLAG_FORWARD_TSN_CHUNK_IDS_NOCHECK \<or>
        same_records 4 sb (s + 8) ab (a + 8) ((num16 sb (s + 2) - 8) div 4)
      else if type = SCTP_I_FORWARD_TSN_CHUNK_TYPE
      then has_flag (chunk_flags item) FLAG_I_FORWARD_TSN_CHUNK_IDS_NOCHECK \<or>
        same_records 8 sb (s + 8) ab (a + 8) ((num16 sb (s + 2) - 8) div 8)
      else if type = SCTP_HEARTBEAT_CHUNK_TYPE \<or> type = SCTP_HEARTBEAT_ACK_CHUNK_TYPE \<or>
        type = SCTP_COOKIE_ECHO_CHUNK_TYPE
      then has_flag (chunk_flags item) FLAG_CHUNK_VALUE_NOCHECK \<or> same sb (s + 4) ab (a + 4) (len - 4)
      else if type = SCTP_INIT_CHUNK_TYPE \<or> type = SCTP_INIT_ACK_CHUNK_TYPE
      then has_flag (chunk_flags item) FLAG_INIT_CHUNK_OPT_PARAM_NOCHECK \<or>
        items_agree PARAMETER ab (a + 20) (a + len) (parameter_agrees sb ab) (parameter_list item)
      else if type = SCTP_RECONFIG_CHUNK_TYPE
      then items_agree PARAMETER ab (a + 4) (a + len) (parameter_agrees sb ab) (parameter_list item)
      else if type = SCTP_ABORT_CHUNK_TYPE \<or> type = SCTP_ERROR_CHUNK_TYPE
      then has_flag (chunk_flags item) FLAG_ABORT_CHUNK_OPT_CAUSES_NOCHECK \<or>
        items_agree CAUSE ab (a + 4) (a + len) (cause_agrees sb ab) (cause_list item)
      else True)"

definition chunk_agrees :: "bytes \<Rightarrow> bytes \<Rightarrow> nat \<Rightarrow> sctp_chunk_list_item \<Rightarrow> bool" where
  "chunk_agrees sb ab a item \<longleftrightarrow> (\<exists>s type len. chunk_ptr item = Some s \<and>
     rd8 sb s = Some type \<and> rd8 ab a = Some type \<and> rd16 ab (a + 2) = Some len \<and>
     fields_agree [(FLAG_CHUNK_FLAGS_NOCHECK, 1, 1), (FLAG_CHUNK_LENGTH_NOCHECK, 2, 2)] (chunk_flags item) sb s ab a \<and>
     fields_agree (chunk_fields type) (chunk_flags item) sb s ab a \<and>
     chunk_contents_agree type (unat len) sb s ab a item)"

lemma verify_sack_chunk_agrees:
  assumes "verify_sack_chunk flags sb s ab a = status_ok"
  shows "fields_agree (chunk_fields SCTP_SACK_CHUNK_TYPE) flags sb s ab a" "sack_blocks_agree flags sb s ab a"
proof -
  obtain ag ad sg sd where rd: "rd16 ab (a + 12) = Some ag" "rd16 ab (a + 14) = Some ad"
      "rd16 sb (s + 12) = Some sg" "rd16 sb (s + 14) = Some sd"
    using assms by (auto simp: verify_sack_chunk_def split: bind_splits)
  show "fields_agree (chunk_fields SCTP_SACK_CHUNK_TYPE) flags sb s ab a"
    using assms by (auto simp: verify_sack_chunk_def chunk_fields_def fields_agree_def Let_def ucast_u32_inj
        same2_iff rd)
  show "sack_blocks_agree flags sb s ab a"
    using assms by (auto simp: verify_sack_chunk_def sack_blocks_agree_def Let_def ucast_u32_inj rd
        rd [THEN num16_eq] verify_gaps_ok verify_tsns_ok same_records_def)
qed

lemma verify_nr_sack_chunk_agrees:
  assumes "verify_nr_sack_chunk flags sb s ab a = status_ok"
  shows "fields_agree (chunk_fields SCTP_NR_SACK_CHUNK_TYPE) flags sb s ab a" "nr_sack_blocks_agree flags sb s ab a"
proof -
  obtain ag an ad sg sn sd where rd: "rd16 ab (a + 12) = Some ag" "rd16 ab (a + 14) = Some an"
      "rd16 ab (a + 16) = Some ad" "rd16 sb (s + 12) = Some sg" "rd16 sb (s + 14) = Some sn"
      "rd16 sb (s + 16) = Some sd"
    using assms by (auto simp: verify_nr_sack_chunk_def split: bind_splits)
  show "fields_agree (chunk_fields SCTP_NR_SACK_CHUNK_TYPE) flags sb s ab a"
    using assms by (auto simp: verify_nr_sack_chunk_def chunk_fields_def fields_agree_def Let_def ucast_u32_inj
        same2_iff rd)
  have mod: "unat n mod 65536 = unat n" "unat (m + n) = (unat m + unat n) mod 65536" for m n :: u16
    using unat_u16_less [of n] by (simp_all add: unat_word_ariths)
  show "nr_sack_blocks_agree flags sb s ab a"
    using assms by (auto simp: verify_nr_sack_chunk_def nr_sack_blocks_agree_def Let_def ucast_u32_inj rd mod
        rd [THEN num16_eq] verify_gaps_ok verify_tsns_ok same_records_def)
qed

lemma num_id_blocks_eq:
  assumes "8 \<le> unat len"
  shows "unat (get_num_id_blocks len) = (unat len - 8) div 4"
    "unat (get_num_id_blocks_for_i_forward_tsn len) = (unat len - 8) div 8"
proof -
  have "unat (ucast len :: u64) = unat len"
    by (simp add: take_bit_nat_eq_self unsigned_ucast_eq less_le_trans [OF unsigned_less])
  with assms have "unat (ucast len - 8 :: u64) = unat len - 8"
    by (subst unat_sub) (simp_all add: word_le_nat_alt)
  moreover have "(unat len - 8) div 4 < 65536" "(unat len - 8) div 8 < 65536"
    using unat_u16_less [of len] by simp_all
  ultimately show "unat (get_num_id_blocks len) = (unat len - 8) div 4"
    "unat (get_num_id_blocks_for_i_forward_tsn len) = (unat len - 8) div 8"
    by (simp_all add: get_num_id_blocks_def get_num_id_blocks_for_i_forward_tsn_def unsigned_ucast_eq unat_div
        take_bit_nat_eq_self)
qed

lemma forward_tsn_blocks:
  assumes "verify_forward_tsn_chunk flags sb s ab a = status_ok" and "\<not> has_flag flags 0x200"
  shows "same_records 4 sb (s + 8) ab (a + 8) ((num16 sb (s + 2) - 8) div 4)"
proof -
  obtain len where len: "rd16 sb (s + 2) = Some len"
    using assms(1) by (auto simp: verify_forward_tsn_chunk_def split: bind_splits)
  have "same_records 4 sb (s + 8) ab (a + 8) (unat (get_num_id_blocks len))"
    using assms same_add [of sb _ ab _ 2 2]
    by (auto simp: verify_forward_tsn_chunk_def same_records_def len Let_def ball_atLeastLessThan add_ac
        simp del: add_2_eq_Suc')
  then show ?thesis
    using num_id_blocks_eq(1) [of len]
    by (cases "8 \<le> unat len") (simp_all add: num16_eq [OF len] same_records_def del: add_2_eq_Suc')
qed

lemma i_forward_tsn_blocks:
  assumes "verify_i_forward_tsn_chunk flags sb s ab a = status_ok" and "\<not> has_flag flags 0x200"
  shows "same_records 8 sb (s + 8) ab (a + 8) ((num16 sb (s + 2) - 8) div 8)"
proof -
  obtain len where len: "rd16 sb (s + 2) = Some len"
    using assms(1) by (auto simp: verify_i_forward_tsn_chunk_def split: bind_splits)
  have split: "same sb p ab q 8 \<longleftrightarrow> same sb p ab q 2 \<and> same sb (p + 2) ab (q + 2) 2 \<and> same sb (p + 4) ab (q + 4) 4"
    for p q
    using same_add [of sb p ab q 2 6] same_add [of sb "p + 2" ab "q + 2" 2 4]
    by (simp add: add.assoc del: add_2_eq_Suc')
  have "same_records 8 sb (s + 8) ab (a + 8) (unat (get_num_id_blocks_for_i_forward_tsn len))"
    using assms
    by (auto simp: verify_i_forward_tsn_chunk_def same_records_def split len Let_def ball_atLeastLessThan add_ac
        simp del: add_2_eq_Suc')
  then show ?thesis
    using num_id_blocks_eq(2) [of len]
    by (cases "8 \<le> unat len") (simp_all add: num16_eq [OF len] same_records_def del: add_2_eq_Suc')
qed

text \<open>The whole switch, for a chunk that lies in the buffer.\<close>

lemmas verify_fixed_defs = verify_data_chunk_def verify_init_chunk_def verify_init_ack_chunk_def
  verify_shutdown_chunk_def verify_ecne_chunk_def verify_cwr_chunk_def verify_forward_tsn_chunk_def
  verify_i_forward_tsn_chunk_def verify_i_data_chunk_def

lemma verify_chunk_type_fields:
  assumes "verify_chunk_type sb ab a item type = status_ok" and "chunk_ptr item = Some s"
  shows "fields_agree (chunk_fields type) (chunk_flags item) sb s ab a"
proof (cases "type = SCTP_SACK_CHUNK_TYPE \<or> type = SCTP_NR_SACK_CHUNK_TYPE")
  case True
  then show ?thesis
    using assms verify_sack_chunk_agrees(1) [of "chunk_flags item" sb s ab a]
      verify_nr_sack_chunk_agrees(1) [of "chunk_flags item" sb s ab a]
    by (auto simp: verify_chunk_type_def)
next
  case False
  then show ?thesis
    using assms by (auto simp: verify_chunk_type_def chunk_fields_def fields_agree_def verify_fixed_defs Let_def
        split: if_splits bind_splits)
qed

lemma verify_chunk_value_agrees:
  assumes "verify_chunk_value err flags sb s ab a = status_ok" and "rd16 ab (a + 2) = Some len"
  shows "has_flag flags FLAG_CHUNK_VALUE_NOCHECK \<or> same sb (s + 4) ab (a + 4) (unat len - 4)"
  using assms by (auto simp: verify_chunk_value_def simp del: add_2_eq_Suc' split: if_splits bind_splits)

text \<open>The parameters and causes of a chunk fill it up to its length.\<close>

lemma chunk_parameters_agree:
  assumes "verify_sctp_parameters sb ab (a + n) (len - of_nat n) item = status_ok"
    and "n \<le> unat len" and "a + unat len \<le> length ab"
  shows "items_agree PARAMETER ab (a + n) (a + unat len) (parameter_agrees sb ab) (parameter_list item)"
proof -
  have "unat (of_nat n :: u16) = n"
    using assms(2) unat_u16_less [of len] by (simp add: unsigned_of_nat take_bit_nat_eq_self)
  then have "unat (len - of_nat n) = unat len - n"
    using assms(2) by (subst unat_sub) (simp_all add: word_le_nat_alt)
  then show ?thesis
    using verify_sctp_parameters_agree [OF assms(1)] assms(2,3) by simp
qed

lemma verify_chunk_type_contents:
  assumes "verify_chunk_type sb ab a item type = status_ok" and "chunk_ptr item = Some s"
    and len: "rd16 ab (a + 2) = Some len" "4 \<le> unat len" "a + unat len \<le> length ab"
  shows "chunk_contents_agree type (unat len) sb s ab a item"
proof -
  consider "type = SCTP_SACK_CHUNK_TYPE" | "type = SCTP_NR_SACK_CHUNK_TYPE"
    | "type = SCTP_FORWARD_TSN_CHUNK_TYPE" | "type = SCTP_I_FORWARD_TSN_CHUNK_TYPE"
    | "type = SCTP_HEARTBEAT_CHUNK_TYPE \<or> type = SCTP_HEARTBEAT_ACK_CHUNK_TYPE \<or> type = SCTP_COOKIE_ECHO_CHUNK_TYPE"
    | "type = SCTP_INIT_CHUNK_TYPE \<or> type = SCTP_INIT_ACK_CHUNK_TYPE" | "type = SCTP_RECONFIG_CHUNK_TYPE"
    | "type = SCTP_ABORT_CHUNK_TYPE \<or> type = SCTP_ERROR_CHUNK_TYPE"
    | "chunk_contents_agree type (unat len) sb s ab a item"
    unfolding chunk_contents_agree_def by presburger
  then show ?thesis
  proof cases
    case 1
    then show ?thesis
      using assms(1,2) verify_sack_chunk_agrees(2) by (simp add: verify_chunk_type_def chunk_contents_agree_def)
  next
    case 2
    then show ?thesis
      using assms(1,2) verify_nr_sack_chunk_agrees(2) by (simp add: verify_chunk_type_def chunk_contents_agree_def)
  next
    case 3
    then show ?thesis
      using assms(1,2) forward_tsn_blocks [of "chunk_flags item" sb s ab a]
      by (auto simp: verify_chunk_type_def chunk_contents_agree_def simp del: add_2_eq_Suc')
  next
    case 4
    then show ?thesis
      using assms(1,2) i_forward_tsn_blocks [of "chunk_flags item" sb s ab a]
      by (auto simp: verify_chunk_type_def chunk_contents_agree_def simp del: add_2_eq_Suc')
  next
    case 5
    then show ?thesis
      using assms(1,2)
      by (auto simp: verify_chunk_type_def chunk_contents_agree_def verify_heartbeat_chunk_def
          verify_heartbeat_ack_chunk_def verify_cookie_echo_chunk_def
          dest!: verify_chunk_value_agrees [OF _ len(1)])
  next
    case 6
    then show ?thesis
      using assms(1,2) len chunk_parameters_agree [of sb ab a 20 len item]
      by (auto simp: verify_chunk_type_def chunk_contents_agree_def verify_init_chunk_def
          verify_init_ack_chunk_def Let_def simp del: add_2_eq_Suc' split: bind_splits if_splits)
  next
    case 7
    then show ?thesis
      using assms(1,2) len chunk_parameters_agree [of sb ab a 4 len item]
      by (auto simp: verify_chunk_type_def chunk_contents_agree_def verify_reconfig_chunk_def
          simp del: add_2_eq_Suc')
  next
    case 8
    then show ?thesis
      using assms(1,2) len verify_sctp_causes_agree [of sb ab a 4 item len]
      by (auto simp: verify_chunk_type_def chunk_contents_agree_def verify_abort_chunk_def
          verify_error_chunk_def simp del: add_2_eq_Suc' split: bind_splits if_splits)
  qed simp
qed

lemma verify_chunk_agrees:
  assumes "verify_chunk sb ab a item = status_ok"
    and len: "rd16 ab (a + 2) = Some len" "4 \<le> unat len" "a + unat len \<le> length ab"
  shows "chunk_agrees sb ab a item"
proof -
  obtain s t where s: "chunk_ptr item = Some s" and same: "same sb s ab a 1"
    and t: "rd8 ab a = Some t" "verify_chunk_type sb ab a item t = status_ok"
    and head: "fields_agree [(FLAG_CHUNK_FLAGS_NOCHECK, 1, 1), (FLAG_CHUNK_LENGTH_NOCHECK, 2, 2)]
      (chunk_flags item) sb s ab a"
    using assms(1) by (auto simp: verify_chunk_def Let_def fields_agree_def split: bind_splits)
  have "rd8 sb s = Some t"
    using same t(1) by (auto simp: same_nth rd8_def)
  then show ?thesis
    using s t(1) len(1) head verify_chunk_type_fields [OF t(2) s] verify_chunk_type_contents [OF t(2) s len]
    unfolding chunk_agrees_def by blast
qed

text \<open>The packet: its chunks agree with the items of the script, one by one.\<close>

lemma verify_sctp_agrees:
  assumes "verify_sctp actual_packet script_packet = status_ok"
    and "packet_payload actual_packet = Some c" and "packet_end actual_packet = Some e"
    and "c \<le> e" and "e \<le> length (pkt_buffer actual_packet)"
  obtains chunks where "pkt_chunk_list script_packet = Some chunks"
    and "items_agree CHUNK (pkt_buffer actual_packet) c e
       (chunk_agrees (pkt_buffer script_packet) (pkt_buffer actual_packet)) chunks"
proof -
  obtain p chunks where p: "get_current CHUNK (pkt_buffer actual_packet) c e = Some p"
    and chunks: "pkt_chunk_list script_packet = Some chunks"
    and ok: "verify_items CHUNK (pkt_buffer actual_packet) Partial_chunk Number_of_chunks
       (verify_chunk (pkt_buffer script_packet) (pkt_buffer actual_packet)) p chunks = status_ok"
    using assms(1-3) by (auto simp: verify_sctp_def sctp_chunks_begin_def get_current_chunk_def
        split: bind_splits)
  show thesis
    using chunks
  proof (rule that)
    show "items_agree CHUNK (pkt_buffer actual_packet) c e
       (chunk_agrees (pkt_buffer script_packet) (pkt_buffer actual_packet)) chunks"
      using assms(5) by (intro verify_items_agree [OF assms(4,5) p ok]) (blast intro: verify_chunk_agrees le_trans)
  qed
qed

text \<open>C16: An outbound SCTP packet that is accepted splits without a defect into as many chunks as the script
  lists, and each chunk agrees with its item in everything the script does not leave open: the type, the
  flags and the length, the fields of the fixed part (the TSN of DATA chunks cannot be left open), the
  gap blocks and duplicate TSNs of SACK and NR-SACK chunks, the stream blocks of FORWARD-TSN and
  I-FORWARD-TSN chunks, the value of heartbeats and cookies, and the parameters of INIT, INIT-ACK and RECONFIG
  chunks and the causes of ABORT and ERROR chunks, which again are as many as listed and agree one by
  one. The payload of DATA and PAD chunks is not compared.\<close>

theorem verify_sctp_sound:
  assumes "verify_sctp actual_packet script_packet = status_ok"
    and "packet_payload actual_packet = Some c" and "packet_end actual_packet = Some e"
    and "c \<le> e" and "e \<le> length (pkt_buffer actual_packet)"
  shows "\<exists>chunks. pkt_chunk_list script_packet = Some chunks \<and>
     items_agree CHUNK (pkt_buffer actual_packet) c e
       (chunk_agrees (pkt_buffer script_packet) (pkt_buffer actual_packet)) chunks"
  using verify_sctp_agrees [OF assms] by blast

text \<open>A SACK with one gap block whose receiver window is left open by the script.\<close>

definition example_sack_packet :: "u8 \<Rightarrow> packet" where
  "example_sack_packet rwnd = (packet_new (\<lambda>i. if i = 32 then 3 else if i = 35 then 20 else if i = 43 then rwnd
       else if i = 45 then 1 else if i = 49 then 2 else if i = 51 then 3 else 0) 52)\<lparr> pkt_ip_bytes := 52,
     pkt_headers := [\<lparr> htype = HEADER_IPV4, header_bytes = 20, total_bytes = 52, hptr = Some 0 \<rparr>],
     pkt_ipv4 := Some 0, pkt_sctp := Some 20,
     pkt_chunk_list := Some [\<lparr> chunk_ptr = Some 32, chunk_length = 20, chunk_flags = 0x200,
       parameter_list = [], cause_list = [] \<rparr>] \<rparr>"

theorem verify_sctp_sound_witness:
  "\<exists>chunks. pkt_chunk_list (example_sack_packet 0) = Some chunks \<and>
     items_agree CHUNK (pkt_buffer (example_sack_packet 7)) 32 52
       (chunk_agrees (pkt_buffer (example_sack_packet 0)) (pkt_buffer (example_sack_packet 7))) chunks"
proof (rule verify_sctp_sound)
  show "verify_sctp (example_sack_packet 7) (example_sack_packet 0) = status_ok"
    by code_simp
  show "packet_payload (example_sack_packet 7) = Some 32" "packet_end (example_sack_packet 7) = Some 52"
    by code_simp+
qed (simp_all add: example_sack_packet_def packet_new_def)

end
