(* ===== verification/Config.thy ===== *)
theory Config
  imports Ip_Address
begin

text \<open>
  The configuration of a test run (\<^verbatim>\<open>config.h\<close>, \<^verbatim>\<open>config.c\<close>): symbol definitions, the options of the command
  line and of the script, default values, and the addresses that follow from the chosen flavour of IP.

  Text in fixed arrays and \<^verbatim>\<open>char *\<close> members are strings; a \<^verbatim>\<open>char *\<close> that may be \<^verbatim>\<open>NULL\<close> is an optional
  string. \<^const>\<open>None\<close> as a result means that the process ends with \<^verbatim>\<open>die\<close> (a bad option) or a failed
  assertion. The library functions \<^verbatim>\<open>inet_pton\<close>, \<^verbatim>\<open>inet_ntop\<close> and \<^verbatim>\<open>getopt_long\<close> are parameters. The model is
  that of the Linux build without \<^verbatim>\<open>DEBUG\<close>.
\<close>

section \<open>Definitions of symbols\<close>

type_synonym definitions = "(string \<times> string option) list"

fun definition_find :: "definitions \<Rightarrow> string \<Rightarrow> (string \<times> string option) option" where
  "definition_find [] symbol = None"
| "definition_find (d # defs) symbol = (if fst d = symbol then Some d else definition_find defs symbol)"

fun replace_definition :: "string \<Rightarrow> string option \<Rightarrow> definitions \<Rightarrow> definitions" where
  "replace_definition symbol v [] = []"
| "replace_definition symbol v (d # defs) =
     (if fst d = symbol then (symbol, v) # defs else d # replace_definition symbol v defs)"

definition definition_set :: "definitions \<Rightarrow> string \<Rightarrow> string option \<Rightarrow> definitions" where
  "definition_set defs symbol v =
     (if definition_find defs symbol \<noteq> None then replace_definition symbol v defs else (symbol, v) # defs)"

definition definition_get :: "definitions \<Rightarrow> string \<Rightarrow> string option" where
  "definition_get defs symbol = (case definition_find defs symbol of Some d \<Rightarrow> snd d | None \<Rightarrow> None)"

section \<open>The configuration\<close>

datatype ip_version_t = IP_VERSION_4 | IP_VERSION_4_MAPPED_6 | IP_VERSION_6

text \<open>The members for addresses, and the configuration; \<^verbatim>\<open>speed\<close> and \<^verbatim>\<open>mtu\<close> concern the tun device.\<close>

record config_addresses =
  ip_version :: ip_version_t
  socket_domain :: address_family
  wire_protocol :: address_family
  live_bind_port :: u16
  live_connect_port :: u16
  live_bind_ip :: ip_address
  live_connect_ip :: ip_address
  live_local_ip :: ip_address
  live_remote_ip :: ip_address
  live_remote_prefix :: ip_prefix
  live_gateway_ip :: ip_address
  live_local_ip_string :: string
  live_remote_ip_string :: string
  live_remote_prefix_string :: string
  live_gateway_ip_string :: string
  live_netmask_ip_string :: string
  live_prefix_len :: nat

record config = config_addresses +
  argv :: "string list"
  tolerance_usecs :: int
  tcp_ts_tick_usecs :: int
  speed :: u32
  mtu :: int
  non_fatal_packet :: bool
  non_fatal_syscall :: bool
  dry_run :: bool
  verbose :: bool
  udp_encaps :: u8
  script_path :: "string option"
  code_command_line :: "string option"
  code_format :: "string option"
  code_sockopt :: "string option"
  init_scripts :: "string option"
  is_wire_client :: bool
  is_wire_server :: bool
  wire_client_device :: "string option"
  wire_server_device :: "string option"
  wire_server_ip :: ip_address
  wire_server_ip_string :: "string option"
  wire_server_port :: u16
  no_cleanup :: bool
  config_defines :: definitions

definition config_zero :: config where
  "config_zero = \<lparr> ip_version = IP_VERSION_4, socket_domain = AF_UNSPEC, wire_protocol = AF_UNSPEC,
     live_bind_port = 0, live_connect_port = 0, live_bind_ip = ip_reset, live_connect_ip = ip_reset,
     live_local_ip = ip_reset, live_remote_ip = ip_reset,
     live_remote_prefix = \<lparr> pfx_ip = ip_reset, prefix_len = 0 \<rparr>, live_gateway_ip = ip_reset,
     live_local_ip_string = [], live_remote_ip_string = [], live_remote_prefix_string = [],
     live_gateway_ip_string = [], live_netmask_ip_string = [], live_prefix_len = 0,
     argv = [], tolerance_usecs = 0, tcp_ts_tick_usecs = 0, speed = 0, mtu = 0,
     non_fatal_packet = False, non_fatal_syscall = False, dry_run = False, verbose = False,
     udp_encaps = 0, script_path = None, code_command_line = None, code_format = None,
     code_sockopt = None, init_scripts = None, is_wire_client = False, is_wire_server = False,
     wire_client_device = None, wire_server_device = None, wire_server_ip = ip_reset,
     wire_server_ip_string = None, wire_server_port = 0, no_cleanup = False, config_defines = [] \<rparr>"

text \<open>Releasing the strings and zeroing the structure.\<close>

definition cleanup_config :: "config \<Rightarrow> config" where
  "cleanup_config config = config_zero"

definition set_default_config :: "config \<Rightarrow> config" where
  "set_default_config config = (cleanup_config config)\<lparr>
     code_command_line := Some ''/usr/bin/python'', code_format := Some ''python'',
     code_sockopt := Some [], ip_version := IP_VERSION_4,
     live_bind_port := 8080, live_connect_port := 8080, tolerance_usecs := 4000,
     speed := 0, mtu := 1500, tcp_ts_tick_usecs := 0,
     live_remote_ip_string := [], live_local_ip_string := [],
     live_gateway_ip_string := [], live_netmask_ip_string := [],
     init_scripts := None, wire_server_port := 8081,
     wire_client_device := Some ''eth0'', wire_server_device := Some ''eth0'',
     config_defines := definition_set (config_defines (cleanup_config config)) ''Linux'' None \<rparr>"

section \<open>Addresses\<close>

definition default_string :: "string \<Rightarrow> string \<Rightarrow> string" where
  "default_string s d = (if length s = 0 then d else s)"

definition set_ipv4_defaults :: "config \<Rightarrow> config" where
  "set_ipv4_defaults config = config\<lparr>
     live_remote_ip_string := default_string (live_remote_ip_string config) ''192.0.2.1/24'',
     live_local_ip_string := default_string (live_local_ip_string config) ''192.168.0.1'',
     live_gateway_ip_string := default_string (live_gateway_ip_string config) ''192.168.0.2'',
     live_netmask_ip_string := default_string (live_netmask_ip_string config) ''255.255.0.0'' \<rparr>"

definition set_ipv6_defaults :: "config \<Rightarrow> config" where
  "set_ipv6_defaults config = config\<lparr>
     live_remote_ip_string := default_string (live_remote_ip_string config) ''2001:DB8::1/32'',
     live_local_ip_string := default_string (live_local_ip_string config) ''fd3d:fa7b:d17d::1'',
     live_gateway_ip_string := default_string (live_gateway_ip_string config) ''fd3d:fa7b:d17d::2'' \<rparr>"

definition set_remote_ip_and_prefix :: "ntop \<Rightarrow> config \<Rightarrow> config option" where
  "set_remote_ip_and_prefix inet_ntop config = do {
     let remote_ip = pfx_ip (live_remote_prefix config);
     ip_string \<leftarrow> ip_to_string inet_ntop remote_ip;
     prefix \<leftarrow> ip_prefix_normalize (live_remote_prefix config);
     prefix_string \<leftarrow> ip_prefix_to_string inet_ntop prefix;
     Some (config\<lparr> live_remote_ip := remote_ip, live_remote_ip_string := ip_string,
       live_remote_prefix := prefix, live_remote_prefix_string := prefix_string \<rparr>)
   }"

definition finalize_ipv4_config :: "pton \<Rightarrow> ntop \<Rightarrow> config \<Rightarrow> config option" where
  "finalize_ipv4_config inet_pton inet_ntop config = do {
     let config = set_ipv4_defaults config;
     local_ip \<leftarrow> ipv4_parse inet_pton (live_local_ip_string config);
     prefix \<leftarrow> ipv4_prefix_parse inet_pton (live_remote_ip_string config);
     config \<leftarrow> set_remote_ip_and_prefix inet_ntop
       (config\<lparr> live_local_ip := local_ip, live_remote_prefix := prefix \<rparr>);
     len \<leftarrow> netmask_to_prefix inet_pton (live_netmask_ip_string config);
     gateway \<leftarrow> ipv4_parse inet_pton (live_gateway_ip_string config);
     Some (config\<lparr> live_prefix_len := len, live_gateway_ip := gateway,
       live_bind_ip := live_local_ip config, live_connect_ip := live_remote_ip config,
       socket_domain := AF_INET, wire_protocol := AF_INET \<rparr>)
   }"

definition finalize_ipv4_mapped_ipv6_config :: "pton \<Rightarrow> ntop \<Rightarrow> config \<Rightarrow> config option" where
  "finalize_ipv4_mapped_ipv6_config inet_pton inet_ntop config = do {
     let config = set_ipv4_defaults config;
     local_ip \<leftarrow> ipv4_parse inet_pton (live_local_ip_string config);
     prefix \<leftarrow> ipv4_prefix_parse inet_pton (live_remote_ip_string config);
     config \<leftarrow> set_remote_ip_and_prefix inet_ntop
       (config\<lparr> live_local_ip := local_ip, live_remote_prefix := prefix \<rparr>);
     len \<leftarrow> netmask_to_prefix inet_pton (live_netmask_ip_string config);
     gateway \<leftarrow> ipv4_parse inet_pton (live_gateway_ip_string config);
     Some (config\<lparr> live_prefix_len := len, live_gateway_ip := gateway,
       live_bind_ip := ipv6_map_from_ipv4 (live_local_ip config),
       live_connect_ip := ipv6_map_from_ipv4 (live_remote_ip config),
       socket_domain := AF_INET6, wire_protocol := AF_INET \<rparr>)
   }"

definition finalize_ipv6_config :: "pton \<Rightarrow> ntop \<Rightarrow> config \<Rightarrow> config option" where
  "finalize_ipv6_config inet_pton inet_ntop config = do {
     let config = set_ipv6_defaults config;
     local_ip \<leftarrow> ipv6_parse inet_pton (live_local_ip_string config);
     prefix \<leftarrow> ipv6_prefix_parse inet_pton (live_remote_ip_string config);
     config \<leftarrow> set_remote_ip_and_prefix inet_ntop
       (config\<lparr> live_local_ip := local_ip, live_remote_prefix := prefix \<rparr>);
     gateway \<leftarrow> ipv6_parse inet_pton (live_gateway_ip_string config);
     Some (config\<lparr> live_prefix_len := 48, live_gateway_ip := gateway,
       live_bind_ip := live_local_ip config, live_connect_ip := live_remote_ip config,
       socket_domain := AF_INET6, wire_protocol := AF_INET6 \<rparr>)
   }"

definition finalize_config :: "pton \<Rightarrow> ntop \<Rightarrow> config \<Rightarrow> config option" where
  "finalize_config inet_pton inet_ntop config = do {
     config \<leftarrow> (case ip_version config of
         IP_VERSION_4 \<Rightarrow> finalize_ipv4_config inet_pton inet_ntop config
       | IP_VERSION_4_MAPPED_6 \<Rightarrow> finalize_ipv4_mapped_ipv6_config inet_pton inet_ntop config
       | IP_VERSION_6 \<Rightarrow> finalize_ipv6_config inet_pton inet_ntop config);
     if is_wire_client config \<and> (wire_client_device config = None \<or> wire_server_ip_string config = None)
     then None else Some config
   }"

section \<open>Options\<close>

datatype option_code =
    OPT_IP_VERSION | OPT_BIND_PORT | OPT_CODE_COMMAND | OPT_CODE_FORMAT | OPT_CODE_SOCKOPT
  | OPT_CONNECT_PORT | OPT_REMOTE_IP | OPT_LOCAL_IP | OPT_GATEWAY_IP | OPT_NETMASK_IP | OPT_SPEED
  | OPT_MTU | OPT_INIT_SCRIPTS | OPT_TOLERANCE_USECS | OPT_WIRE_CLIENT | OPT_WIRE_SERVER
  | OPT_WIRE_SERVER_IP | OPT_WIRE_SERVER_PORT | OPT_WIRE_CLIENT_DEV | OPT_WIRE_SERVER_DEV
  | OPT_TCP_TS_TICK_USECS | OPT_NON_FATAL | OPT_DRY_RUN | OPT_DEBUG | OPT_UDP_ENCAPS
  | OPT_NO_CLEANUP | OPT_DEFINE | OPT_VERBOSE

record long_option =
  opt_name :: string
  has_arg :: bool
  opt_val :: option_code

definition long_options :: "long_option list" where
  "long_options = map (\<lambda>(n, a, v). \<lparr> opt_name = n, has_arg = a, opt_val = v \<rparr>) [
     (''ip_version'', True, OPT_IP_VERSION), (''bind_port'', True, OPT_BIND_PORT),
     (''code_command'', True, OPT_CODE_COMMAND), (''code_format'', True, OPT_CODE_FORMAT),
     (''code_sockopt'', True, OPT_CODE_SOCKOPT), (''connect_port'', True, OPT_CONNECT_PORT),
     (''remote_ip'', True, OPT_REMOTE_IP), (''local_ip'', True, OPT_LOCAL_IP),
     (''gateway_ip'', True, OPT_GATEWAY_IP), (''netmask_ip'', True, OPT_NETMASK_IP),
     (''speed'', True, OPT_SPEED), (''mtu'', True, OPT_MTU),
     (''init_scripts'', True, OPT_INIT_SCRIPTS), (''tolerance_usecs'', True, OPT_TOLERANCE_USECS),
     (''wire_client'', False, OPT_WIRE_CLIENT), (''wire_server'', False, OPT_WIRE_SERVER),
     (''wire_server_ip'', True, OPT_WIRE_SERVER_IP), (''wire_server_port'', True, OPT_WIRE_SERVER_PORT),
     (''wire_client_dev'', True, OPT_WIRE_CLIENT_DEV), (''wire_server_dev'', True, OPT_WIRE_SERVER_DEV),
     (''tcp_ts_tick_usecs'', True, OPT_TCP_TS_TICK_USECS), (''non_fatal'', True, OPT_NON_FATAL),
     (''dry_run'', False, OPT_DRY_RUN), (''define'', True, OPT_DEFINE),
     (''verbose'', False, OPT_VERBOSE), (''debug'', False, OPT_DEBUG),
     (''udp_encapsulation'', True, OPT_UDP_ENCAPS), (''no_cleanup'', False, OPT_NO_CLEANUP)]"

text \<open>\<^verbatim>\<open>strtok_r\<close> with the delimiters comma and space: the maximal runs of other characters.\<close>

definition is_delim :: "char \<Rightarrow> bool" where
  "is_delim c \<longleftrightarrow> c = CHR '','' \<or> c = CHR '' ''"

function tokens :: "string \<Rightarrow> string list" where
  "tokens s = (let s = dropWhile is_delim s in
     if s = [] then [] else takeWhile (\<lambda>c. \<not> is_delim c) s # tokens (dropWhile (\<lambda>c. \<not> is_delim c) s))"
  by pat_completeness auto
termination
proof (relation "measure length")
  fix s x :: string
  assume x: "x = dropWhile is_delim s" "x \<noteq> []"
  then have "\<not> is_delim (hd x)"
    by (simp add: hd_dropWhile)
  with x(2) have "length (dropWhile (\<lambda>c. \<not> is_delim c) x) < length x"
    by (cases x) (simp_all add: length_dropWhile_le less_Suc_eq_le)
  also have "\<dots> \<le> length s"
    by (simp add: x(1) length_dropWhile_le)
  finally show "(dropWhile (\<lambda>c. \<not> is_delim c) x, s) \<in> measure length"
    by simp
qed simp

declare tokens.simps [simp del]

definition non_fatal_token :: "config \<Rightarrow> string \<Rightarrow> config" where
  "non_fatal_token config token =
     (if token = ''packet'' then config\<lparr> non_fatal_packet := True \<rparr>
      else if token = ''syscall'' then config\<lparr> non_fatal_syscall := True \<rparr>
      else config)"

definition parse_non_fatal_arg :: "string \<Rightarrow> config \<Rightarrow> config" where
  "parse_non_fatal_arg arg config = foldl non_fatal_token config (tokens arg)"

definition atoi :: "string \<Rightarrow> int" where
  "atoi s = to_int (fst (strtol s))"

text \<open>The port options accept the numbers from 1 to 65535.\<close>

definition parse_port :: "string \<Rightarrow> u16 option" where
  "parse_port s = (let port = atoi s in if port \<le> 0 \<or> port > 0xffff then None else Some (word_of_int port))"

text \<open>\<^verbatim>\<open>strtoul\<close>: like \<^verbatim>\<open>strtol\<close>, but with the range of \<^verbatim>\<open>unsigned long\<close>, negated modulo its size after a minus
  sign; the value and the rest of the string.\<close>

definition strtoul :: "string \<Rightarrow> u64 \<times> string" where
  "strtoul s = (case number_parts s of (neg, ds, rest) \<Rightarrow>
     if ds = [] then (0, s)
     else let v = digits_value ds in
       (if v \<ge> 2 ^ 64 then - 1 else if neg then - word_of_int v else word_of_int v, rest))"

definition process_option :: "pton \<Rightarrow> option_code \<Rightarrow> string option \<Rightarrow> config \<Rightarrow> config option" where
  "process_option inet_pton opt optarg config = (case opt of
      OPT_IP_VERSION \<Rightarrow> do {
        arg \<leftarrow> optarg;
        if arg = ''ipv4'' then Some (config\<lparr> ip_version := IP_VERSION_4 \<rparr>)
        else if arg = ''ipv4-mapped-ipv6'' \<or> arg = ''ipv4_mapped_ipv6''
        then Some (config\<lparr> ip_version := IP_VERSION_4_MAPPED_6 \<rparr>)
        else if arg = ''ipv6'' then Some (config\<lparr> ip_version := IP_VERSION_6 \<rparr>)
        else None }
    | OPT_BIND_PORT \<Rightarrow> do {
        arg \<leftarrow> optarg; port \<leftarrow> parse_port arg; Some (config\<lparr> live_bind_port := port \<rparr>) }
    | OPT_CODE_COMMAND \<Rightarrow> do { arg \<leftarrow> optarg; Some (config\<lparr> code_command_line := Some arg \<rparr>) }
    | OPT_CODE_FORMAT \<Rightarrow> do { arg \<leftarrow> optarg; Some (config\<lparr> code_format := Some arg \<rparr>) }
    | OPT_CODE_SOCKOPT \<Rightarrow> do { arg \<leftarrow> optarg; Some (config\<lparr> code_sockopt := Some arg \<rparr>) }
    | OPT_CONNECT_PORT \<Rightarrow> do {
        arg \<leftarrow> optarg; port \<leftarrow> parse_port arg; Some (config\<lparr> live_connect_port := port \<rparr>) }
    | OPT_REMOTE_IP \<Rightarrow> do {
        arg \<leftarrow> optarg; Some (config\<lparr> live_remote_ip_string := take (ADDR_STR_LEN - 1) arg \<rparr>) }
    | OPT_LOCAL_IP \<Rightarrow> do {
        arg \<leftarrow> optarg; Some (config\<lparr> live_local_ip_string := take (ADDR_STR_LEN - 1) arg \<rparr>) }
    | OPT_GATEWAY_IP \<Rightarrow> do {
        arg \<leftarrow> optarg; Some (config\<lparr> live_gateway_ip_string := take (ADDR_STR_LEN - 1) arg \<rparr>) }
    | OPT_MTU \<Rightarrow> do {
        arg \<leftarrow> optarg; if atoi arg < 0 then None else Some (config\<lparr> mtu := atoi arg \<rparr>) }
    | OPT_NETMASK_IP \<Rightarrow> do {
        arg \<leftarrow> optarg; Some (config\<lparr> live_netmask_ip_string := take (ADDR_STR_LEN - 1) arg \<rparr>) }
    | OPT_INIT_SCRIPTS \<Rightarrow> do { arg \<leftarrow> optarg; Some (config\<lparr> init_scripts := Some arg \<rparr>) }
    | OPT_NON_FATAL \<Rightarrow> do { arg \<leftarrow> optarg; Some (parse_non_fatal_arg arg config) }
    | OPT_SPEED \<Rightarrow> do {
        arg \<leftarrow> optarg;
        let (v, end_str) = strtoul arg;
        if end_str = arg \<or> end_str \<noteq> [] \<or> \<not> is_valid_u32 (sint v) then None
        else Some (config\<lparr> speed := ucast v \<rparr>) }
    | OPT_TOLERANCE_USECS \<Rightarrow> do {
        arg \<leftarrow> optarg;
        if atoi arg \<le> 0 then None else Some (config\<lparr> tolerance_usecs := atoi arg \<rparr>) }
    | OPT_TCP_TS_TICK_USECS \<Rightarrow> do {
        arg \<leftarrow> optarg;
        if atoi arg < 0 \<or> atoi arg > 1000000 then None
        else Some (config\<lparr> tcp_ts_tick_usecs := atoi arg \<rparr>) }
    | OPT_WIRE_CLIENT \<Rightarrow> Some (config\<lparr> is_wire_client := True \<rparr>)
    | OPT_WIRE_SERVER \<Rightarrow> Some (config\<lparr> is_wire_server := True \<rparr>)
    | OPT_WIRE_SERVER_IP \<Rightarrow> do {
        arg \<leftarrow> optarg;
        a \<leftarrow> ipv4_parse inet_pton arg;
        Some (config\<lparr> wire_server_ip_string := Some arg, wire_server_ip := a \<rparr>) }
    | OPT_WIRE_SERVER_PORT \<Rightarrow> do {
        arg \<leftarrow> optarg; port \<leftarrow> parse_port arg; Some (config\<lparr> wire_server_port := port \<rparr>) }
    | OPT_WIRE_CLIENT_DEV \<Rightarrow> do { arg \<leftarrow> optarg; Some (config\<lparr> wire_client_device := Some arg \<rparr>) }
    | OPT_WIRE_SERVER_DEV \<Rightarrow> do { arg \<leftarrow> optarg; Some (config\<lparr> wire_server_device := Some arg \<rparr>) }
    | OPT_DRY_RUN \<Rightarrow> Some (config\<lparr> dry_run := True \<rparr>)
    | OPT_DEFINE \<Rightarrow> do {
        arg \<leftarrow> optarg;
        (case dropWhile (\<lambda>c. c \<noteq> CHR ''='') arg of
           [] \<Rightarrow> None
         | _ # v \<Rightarrow>
             (let symbol = takeWhile (\<lambda>c. c \<noteq> CHR ''='') arg in
              if symbol = [] then None
              else Some (config\<lparr> config_defines := definition_set (config_defines config) symbol (Some v) \<rparr>))) }
    | OPT_VERBOSE \<Rightarrow> Some (config\<lparr> verbose := True \<rparr>)
    | OPT_DEBUG \<Rightarrow> None
    | OPT_UDP_ENCAPS \<Rightarrow> do {
        arg \<leftarrow> optarg;
        if arg = ''sctp'' then Some (config\<lparr> udp_encaps := IPPROTO_SCTP \<rparr>)
        else if arg = ''tcp'' then Some (config\<lparr> udp_encaps := IPPROTO_TCP \<rparr>)
        else None }
    | OPT_NO_CLEANUP \<Rightarrow> Some (config\<lparr> no_cleanup := True \<rparr>))"

fun process_options :: "pton \<Rightarrow> (option_code \<times> string option) list \<Rightarrow> config \<Rightarrow> config option" where
  "process_options inet_pton [] config = Some config"
| "process_options inet_pton ((opt, optarg) # opts) config = do {
     config \<leftarrow> process_option inet_pton opt optarg config;
     process_options inet_pton opts config
   }"

text \<open>\<open>getopt_long\<close> stands for the repeated calls of the library function on \<^verbatim>\<open>argv\<close> with the table of options:
  the options it finds with their arguments and the arguments from \<^verbatim>\<open>optind\<close> on, or \<^const>\<open>None\<close> when it returns a
  question mark, which ends the process with the usage message.\<close>

type_synonym getopt = "string list \<Rightarrow> ((option_code \<times> string option) list \<times> string list) option"

definition parse_command_line_options ::
    "pton \<Rightarrow> getopt \<Rightarrow> string list \<Rightarrow> config \<Rightarrow> (config \<times> string list) option" where
  "parse_command_line_options inet_pton getopt_long args config = do {
     (opts, remaining) \<leftarrow> getopt_long args;
     config \<leftarrow> process_options inet_pton opts (config\<lparr> argv := args \<rparr>);
     Some (config, remaining)
   }"

text \<open>The options inside a script, by name.\<close>

fun parse_script_options :: "pton \<Rightarrow> (string \<times> string option) list \<Rightarrow> config \<Rightarrow> config option" where
  "parse_script_options inet_pton [] config = Some config"
| "parse_script_options inet_pton ((name, v) # opts) config = do {
     opt \<leftarrow> find (\<lambda>opt. opt_name opt = name) long_options;
     c_assert (\<not> (v \<noteq> None \<and> \<not> has_arg opt));
     c_assert (\<not> (v = None \<and> has_arg opt));
     config \<leftarrow> process_option inet_pton (opt_val opt) v config;
     parse_script_options inet_pton opts config
   }"

definition parse_and_finalize_config ::
    "pton \<Rightarrow> ntop \<Rightarrow> getopt \<Rightarrow> (string \<times> string option) list \<Rightarrow> string list \<Rightarrow> config \<Rightarrow> config option" where
  "parse_and_finalize_config inet_pton inet_ntop getopt_long option_list args config = do {
     config \<leftarrow> parse_script_options inet_pton option_list config;
     (config, _) \<leftarrow> parse_command_line_options inet_pton getopt_long args config;
     finalize_config inet_pton inet_ntop config
   }"

section \<open>Definitions behave like a finite map\<close>

lemma definition_find_replace:
  "definition_find (replace_definition symbol v defs) s =
     (if s = symbol \<and> definition_find defs symbol \<noteq> None then Some (symbol, v) else definition_find defs s)"
  by (induction defs) auto

lemma definition_get_set:
  "definition_get (definition_set defs symbol v) s = (if s = symbol then v else definition_get defs s)"
  by (auto simp: definition_get_def definition_set_def definition_find_replace)

section \<open>Bounds kept by the options\<close>

definition config_bounds :: "config \<Rightarrow> bool" where
  "config_bounds c \<longleftrightarrow> live_bind_port c \<noteq> 0 \<and> live_connect_port c \<noteq> 0 \<and> wire_server_port c \<noteq> 0 \<and>
     0 < tolerance_usecs c \<and> tolerance_usecs c < 2 ^ 31 \<and>
     0 \<le> tcp_ts_tick_usecs c \<and> tcp_ts_tick_usecs c \<le> 1000000 \<and> 0 \<le> mtu c \<and> mtu c < 2 ^ 31 \<and>
     udp_encaps c \<in> {0, IPPROTO_TCP, IPPROTO_SCTP}"

lemma to_int_less: "to_int v < 2 ^ 31"
  using sint_lt [of "word_of_int v :: 32 word"] by (simp add: to_int_def)

lemma atoi_less: "atoi s < 2 ^ 31"
  unfolding atoi_def by (rule to_int_less)

lemma parse_port_nonzero: "parse_port s = Some p \<Longrightarrow> p \<noteq> 0"
  by (auto simp: parse_port_def Let_def word_of_int_eq_0_iff zdvd_not_zless split: if_splits)

lemma config_bounds_token: "config_bounds (non_fatal_token c token) = config_bounds c"
  by (simp add: non_fatal_token_def config_bounds_def)

lemma config_bounds_non_fatal: "config_bounds (parse_non_fatal_arg arg c) = config_bounds c"
proof -
  have "config_bounds (foldl non_fatal_token c ts) = config_bounds c" for ts
    by (induction ts arbitrary: c) (simp_all add: config_bounds_token)
  then show ?thesis
    by (simp add: parse_non_fatal_arg_def)
qed

text \<open>One lemma per kind of option that has a range.\<close>

lemma option_port_bounds:
  assumes "config_bounds c" and "parse_port s = Some p"
  shows "config_bounds (c\<lparr> live_bind_port := p \<rparr>)" "config_bounds (c\<lparr> live_connect_port := p \<rparr>)"
    "config_bounds (c\<lparr> wire_server_port := p \<rparr>)"
  using assms(1) parse_port_nonzero [OF assms(2)] by (simp_all add: config_bounds_def)

lemma option_number_bounds:
  assumes "config_bounds c"
  shows "0 \<le> atoi s \<Longrightarrow> config_bounds (c\<lparr> mtu := atoi s \<rparr>)"
    "0 < atoi s \<Longrightarrow> config_bounds (c\<lparr> tolerance_usecs := atoi s \<rparr>)"
    "0 \<le> atoi s \<Longrightarrow> atoi s \<le> 1000000 \<Longrightarrow> config_bounds (c\<lparr> tcp_ts_tick_usecs := atoi s \<rparr>)"
  using assms atoi_less [of s] by (simp_all add: config_bounds_def)

lemma process_option_bounds:
  assumes opt: "process_option inet_pton opt optarg c = Some c'" and c: "config_bounds c"
  shows "config_bounds c'"
proof (cases opt)
  case OPT_NON_FATAL
  then show ?thesis
    using opt c by (cases optarg) (auto simp: process_option_def config_bounds_non_fatal)
next
  case OPT_UDP_ENCAPS
  then show ?thesis
    using opt c by (cases optarg) (auto simp: process_option_def config_bounds_def split: if_splits)
next
  case OPT_DEFINE
  then show ?thesis
    using opt c by (cases optarg)
      (auto simp: process_option_def config_bounds_def Let_def split: if_splits list.splits)
next
  case OPT_SPEED
  then show ?thesis
    using opt c by (cases optarg)
      (auto simp: process_option_def config_bounds_def split: if_splits prod.splits)
qed (use opt option_port_bounds [OF c] option_number_bounds [OF c] c in
    \<open>cases optarg; auto simp: process_option_def not_le not_less split: if_splits bind_splits; simp add: config_bounds_def; fail\<close>)+

lemma process_options_bounds:
  "process_options inet_pton opts c = Some c' \<Longrightarrow> config_bounds c \<Longrightarrow> config_bounds c'"
  by (induction inet_pton opts c rule: process_options.induct)
    (auto split: bind_splits dest: process_option_bounds)

lemma parse_script_options_bounds:
  "parse_script_options inet_pton opts c = Some c' \<Longrightarrow> config_bounds c \<Longrightarrow> config_bounds c'"
  by (induction inet_pton opts c rule: parse_script_options.induct)
    (auto split: bind_splits if_splits dest: process_option_bounds)

lemma config_bounds_default: "config_bounds (set_default_config c)"
  by (simp add: config_bounds_def set_default_config_def cleanup_config_def config_zero_def)

section \<open>Finalised addresses\<close>

text \<open>What the code relies on of \<^verbatim>\<open>inet_pton\<close>: it produces four and sixteen bytes.\<close>

definition pton_sized :: "pton \<Rightarrow> bool" where
  "pton_sized inet_pton \<longleftrightarrow> (\<forall>s xs. inet_pton AF_INET s = Some xs \<longrightarrow> length xs = 4) \<and>
     (\<forall>s xs. inet_pton AF_INET6 s = Some xs \<longrightarrow> length xs = 16)"

lemma ipv4_parse_wf:
  "pton_sized inet_pton \<Longrightarrow> ipv4_parse inet_pton s = Some a \<Longrightarrow> ip_wf a \<and> address_family a = AF_INET"
  using ip_wf_from_ipv4 by (fastforce simp: ipv4_parse_def pton_sized_def ip_from_ipv4_def set_ip_def
      ipv4_init_def split: bind_splits)

lemma ipv6_parse_wf:
  "pton_sized inet_pton \<Longrightarrow> ipv6_parse inet_pton s = Some a \<Longrightarrow> ip_wf a \<and> address_family a = AF_INET6"
  using ip_wf_from_ipv6 by (fastforce simp: ipv6_parse_def pton_sized_def ip_from_ipv6_def set_ip_def
      ipv6_init_def split: bind_splits)

lemma ip_to_prefix_eq: "ip_to_prefix a len = Some p \<Longrightarrow> pfx_ip p = a \<and> prefix_len p = len \<and> 0 \<le> len"
  by (auto simp: ip_to_prefix_def split: bind_splits if_splits)

lemma ipv4_prefix_parse_wf:
  assumes "pton_sized inet_pton" and "ipv4_prefix_parse inet_pton s = Some p"
  shows "ip_wf (pfx_ip p)" "address_family (pfx_ip p) = AF_INET"
    "ip_to_prefix (pfx_ip p) (prefix_len p) = Some p"
  using assms ipv4_parse_wf [OF assms(1)]
  by (auto simp: ipv4_prefix_parse_def split: bind_splits dest: ip_to_prefix_eq)

lemma ipv6_prefix_parse_wf:
  assumes "pton_sized inet_pton" and "ipv6_prefix_parse inet_pton s = Some p"
  shows "ip_wf (pfx_ip p)" "address_family (pfx_ip p) = AF_INET6"
    "ip_to_prefix (pfx_ip p) (prefix_len p) = Some p"
  using assms ipv6_parse_wf [OF assms(1)]
  by (auto simp: ipv6_prefix_parse_def split: bind_splits dest: ip_to_prefix_eq)

text \<open>The table of the source: which address family goes where in the three flavours of IP.\<close>

definition flavour_ok :: "config \<Rightarrow> bool" where
  "flavour_ok c \<longleftrightarrow> ip_wf (live_local_ip c) \<and> ip_wf (live_remote_ip c) \<and> ip_wf (live_gateway_ip c) \<and>
     address_family (live_local_ip c) = wire_protocol c \<and>
     address_family (live_remote_ip c) = wire_protocol c \<and>
     address_family (live_gateway_ip c) = wire_protocol c \<and>
     address_family (live_bind_ip c) = socket_domain c \<and>
     address_family (live_connect_ip c) = socket_domain c \<and>
     (case ip_version c of
        IP_VERSION_4 \<Rightarrow> socket_domain c = AF_INET \<and> wire_protocol c = AF_INET \<and>
          live_bind_ip c = live_local_ip c \<and> live_connect_ip c = live_remote_ip c
      | IP_VERSION_4_MAPPED_6 \<Rightarrow> socket_domain c = AF_INET6 \<and> wire_protocol c = AF_INET \<and>
          ipv6_map_to_ipv4 (live_bind_ip c) = Inr (live_local_ip c) \<and>
          ipv6_map_to_ipv4 (live_connect_ip c) = Inr (live_remote_ip c)
      | IP_VERSION_6 \<Rightarrow> socket_domain c = AF_INET6 \<and> wire_protocol c = AF_INET6 \<and>
          live_bind_ip c = live_local_ip c \<and> live_connect_ip c = live_remote_ip c)"

text \<open>The remote prefix holds the remote address.\<close>

definition prefix_ok :: "config \<Rightarrow> bool" where
  "prefix_ok c \<longleftrightarrow> (let p = live_remote_prefix c in
     address_family (pfx_ip p) = address_family (live_remote_ip c) \<and> length (ip (pfx_ip p)) = 16 \<and>
     (\<forall>i < 128. addr_bit (ip (pfx_ip p)) i = (int i < prefix_len p \<and> addr_bit (ip (live_remote_ip c)) i)))"

lemma ipv6_map_from_ipv4_wf:
  assumes "ip_wf a" and "address_family a = AF_INET"
  shows "ip_wf (ipv6_map_from_ipv4 a)" "address_family (ipv6_map_from_ipv4 a) = AF_INET6"
    "ipv6_map_to_ipv4 (ipv6_map_from_ipv4 a) = Inr a"
proof -
  show wf: "ip_wf (ipv6_map_from_ipv4 a)" "address_family (ipv6_map_from_ipv4 a) = AF_INET6"
    using length_ip_to(1) [OF assms(1)]
    by (simp_all add: ipv6_map_from_ipv4_def ip_wf_def set_ip_def ipv6_init_def ipv4_mapped_prefix_def)
  show "ipv6_map_to_ipv4 (ipv6_map_from_ipv4 a) = Inr a"
    using ipv4_mapped_inverse [OF assms wf] by simp
qed

lemma normalize_bits:
  assumes "ip_wf (pfx_ip p)" and "ip_to_prefix (pfx_ip p) (prefix_len p) = Some p"
    and "ip_prefix_normalize p = Some q"
  shows "prefix_len q = prefix_len p" "address_family (pfx_ip q) = address_family (pfx_ip p)"
    "length (ip (pfx_ip q)) = 16"
    "i < 128 \<Longrightarrow> addr_bit (ip (pfx_ip q)) i = (int i < prefix_len p \<and> addr_bit (ip (pfx_ip p)) i)"
proof -
  have len: "prefix_len p = int (nat (prefix_len p))"
    using ip_to_prefix_eq [OF assms(2)] by simp
  then obtain xs where "q = p\<lparr> pfx_ip := (pfx_ip p)\<lparr> ip := xs \<rparr> \<rparr>" "length xs = 16"
      "\<forall>i < 128. addr_bit xs i = (i < nat (prefix_len p) \<and> addr_bit (ip (pfx_ip p)) i)"
    using normalize_addr_bits [OF assms(1), of "nat (prefix_len p)" p] assms(2,3) by auto
  then show "prefix_len q = prefix_len p" "address_family (pfx_ip q) = address_family (pfx_ip p)"
      "length (ip (pfx_ip q)) = 16"
      "i < 128 \<Longrightarrow> addr_bit (ip (pfx_ip q)) i = (int i < prefix_len p \<and> addr_bit (ip (pfx_ip p)) i)"
    using len by auto
qed

lemma set_remote_ip_and_prefix_spec:
  assumes "set_remote_ip_and_prefix inet_ntop (c\<lparr> live_local_ip := l, live_remote_prefix := p \<rparr>) = Some e"
    and "ip_wf (pfx_ip p)" and "ip_to_prefix (pfx_ip p) (prefix_len p) = Some p"
  shows "prefix_ok e" "live_local_ip e = l" "live_remote_ip e = pfx_ip p" "ip_version e = ip_version c"
proof -
  obtain s q t where q: "ip_prefix_normalize p = Some q"
    and e: "e = c\<lparr> live_local_ip := l, live_remote_ip := pfx_ip p, live_remote_ip_string := s,
       live_remote_prefix := q, live_remote_prefix_string := t \<rparr>"
    using assms(1) by (auto simp: set_remote_ip_and_prefix_def Let_def split: bind_splits)
  show "prefix_ok e"
    using normalize_bits [OF assms(2,3) q] by (simp add: e prefix_ok_def)
  show "live_local_ip e = l" "live_remote_ip e = pfx_ip p" "ip_version e = ip_version c"
    by (simp_all add: e)
qed

lemma prefix_ok_update:
  "prefix_ok (c\<lparr> live_prefix_len := n, live_gateway_ip := g, live_bind_ip := b, live_connect_ip := d,
     socket_domain := e, wire_protocol := w \<rparr>) = prefix_ok c"
  by (simp add: prefix_ok_def)

lemma finalize_ipv4_spec:
  assumes pton: "pton_sized inet_pton" and fin: "finalize_ipv4_config inet_pton inet_ntop c = Some c'"
    and v: "ip_version c = IP_VERSION_4"
  shows "flavour_ok c' \<and> prefix_ok c'"
proof -
  define d where "d = set_ipv4_defaults c"
  obtain l p e n g where l: "ipv4_parse inet_pton (live_local_ip_string d) = Some l"
    and p: "ipv4_prefix_parse inet_pton (live_remote_ip_string d) = Some p"
    and e: "set_remote_ip_and_prefix inet_ntop (d\<lparr> live_local_ip := l, live_remote_prefix := p \<rparr>) = Some e"
    and g: "ipv4_parse inet_pton (live_gateway_ip_string e) = Some g"
    and c': "c' = e\<lparr> live_prefix_len := n, live_gateway_ip := g, live_bind_ip := live_local_ip e,
       live_connect_ip := live_remote_ip e, socket_domain := AF_INET, wire_protocol := AF_INET \<rparr>"
    using fin by (auto simp: finalize_ipv4_config_def Let_def d_def split: bind_splits)
  note e' = set_remote_ip_and_prefix_spec [OF e ipv4_prefix_parse_wf(1,3) [OF pton p]]
  have "flavour_ok c'"
    using ipv4_parse_wf [OF pton l] ipv4_parse_wf [OF pton g] ipv4_prefix_parse_wf [OF pton p] v
    by (simp add: c' flavour_ok_def e' d_def set_ipv4_defaults_def)
  moreover have "prefix_ok c'"
    using e'(1) by (simp add: c' prefix_ok_update)
  ultimately show ?thesis ..
qed

lemma finalize_mapped_spec:
  assumes pton: "pton_sized inet_pton"
    and fin: "finalize_ipv4_mapped_ipv6_config inet_pton inet_ntop c = Some c'"
    and v: "ip_version c = IP_VERSION_4_MAPPED_6"
  shows "flavour_ok c' \<and> prefix_ok c'"
proof -
  define d where "d = set_ipv4_defaults c"
  obtain l p e n g where l: "ipv4_parse inet_pton (live_local_ip_string d) = Some l"
    and p: "ipv4_prefix_parse inet_pton (live_remote_ip_string d) = Some p"
    and e: "set_remote_ip_and_prefix inet_ntop (d\<lparr> live_local_ip := l, live_remote_prefix := p \<rparr>) = Some e"
    and g: "ipv4_parse inet_pton (live_gateway_ip_string e) = Some g"
    and c': "c' = e\<lparr> live_prefix_len := n, live_gateway_ip := g,
       live_bind_ip := ipv6_map_from_ipv4 (live_local_ip e),
       live_connect_ip := ipv6_map_from_ipv4 (live_remote_ip e),
       socket_domain := AF_INET6, wire_protocol := AF_INET \<rparr>"
    using fin by (auto simp: finalize_ipv4_mapped_ipv6_config_def Let_def d_def split: bind_splits)
  note e' = set_remote_ip_and_prefix_spec [OF e ipv4_prefix_parse_wf(1,3) [OF pton p]]
  have "flavour_ok c'"
    using ipv4_parse_wf [OF pton l] ipv4_parse_wf [OF pton g] ipv4_prefix_parse_wf [OF pton p] v
    by (simp add: c' flavour_ok_def e' d_def set_ipv4_defaults_def ipv6_map_from_ipv4_wf)
  moreover have "prefix_ok c'"
    using e'(1) by (simp add: c' prefix_ok_update)
  ultimately show ?thesis ..
qed

lemma finalize_ipv6_spec:
  assumes pton: "pton_sized inet_pton" and fin: "finalize_ipv6_config inet_pton inet_ntop c = Some c'"
    and v: "ip_version c = IP_VERSION_6"
  shows "flavour_ok c' \<and> prefix_ok c'"
proof -
  define d where "d = set_ipv6_defaults c"
  obtain l p e g where l: "ipv6_parse inet_pton (live_local_ip_string d) = Some l"
    and p: "ipv6_prefix_parse inet_pton (live_remote_ip_string d) = Some p"
    and e: "set_remote_ip_and_prefix inet_ntop (d\<lparr> live_local_ip := l, live_remote_prefix := p \<rparr>) = Some e"
    and g: "ipv6_parse inet_pton (live_gateway_ip_string e) = Some g"
    and c': "c' = e\<lparr> live_prefix_len := 48, live_gateway_ip := g, live_bind_ip := live_local_ip e,
       live_connect_ip := live_remote_ip e, socket_domain := AF_INET6, wire_protocol := AF_INET6 \<rparr>"
    using fin by (auto simp: finalize_ipv6_config_def Let_def d_def split: bind_splits)
  note e' = set_remote_ip_and_prefix_spec [OF e ipv6_prefix_parse_wf(1,3) [OF pton p]]
  have "flavour_ok c'"
    using ipv6_parse_wf [OF pton l] ipv6_parse_wf [OF pton g] ipv6_prefix_parse_wf [OF pton p] v
    by (simp add: c' flavour_ok_def e' d_def set_ipv6_defaults_def)
  moreover have "prefix_ok c'"
    using e'(1) by (simp add: c' prefix_ok_update)
  ultimately show ?thesis ..
qed

section \<open>Properties\<close>

text \<open>C30: However options from the script and the command line are combined, the configuration they produce
  stays within its ranges: ports are not zero, the tolerance is positive, the timestamp tick is at most a
  second, the MTU is not negative, and only TCP or SCTP is encapsulated in UDP.\<close>

theorem options_keep_bounds:
  assumes "parse_script_options inet_pton option_list (set_default_config c) = Some c1"
    and "parse_command_line_options inet_pton getopt_long args c1 = Some (c2, remaining)"
  shows "config_bounds c2"
proof -
  have "config_bounds c1"
    using assms(1) config_bounds_default by (rule parse_script_options_bounds)
  then have "config_bounds (c1\<lparr> argv := args \<rparr>)"
    by (simp add: config_bounds_def)
  then show ?thesis
    using assms(2) by (auto simp: parse_command_line_options_def split: bind_splits prod.splits
        dest: process_options_bounds)
qed

theorem options_keep_bounds_witness:
  "\<exists>c1 c2. parse_script_options (\<lambda>_ _. None) [(''mtu'', Some ''1460'')] (set_default_config config_zero) = Some c1 \<and>
     parse_command_line_options (\<lambda>_ _. None) (\<lambda>_. Some ([(OPT_DRY_RUN, None)], [])) [] c1 = Some (c2, []) \<and>
     config_bounds c2"
proof -
  let ?c1 = "(set_default_config config_zero)\<lparr> mtu := 1460 \<rparr>"
  have "number_parts ''1460'' = (False, ''1460'', [])"
    by (simp add: number_parts_def is_space_def is_digit_def)
  then have "atoi ''1460'' = 1460"
    by (simp add: atoi_def strtol_def digits_value_def strtol_saturate_id to_int_small)
  then have 1: "parse_script_options (\<lambda>_ _. None) [(''mtu'', Some ''1460'')] (set_default_config config_zero) = Some ?c1"
    by (simp add: long_options_def process_option_def)
  have 2: "parse_command_line_options (\<lambda>_ _. None) (\<lambda>_. Some ([(OPT_DRY_RUN, None)], [])) [] ?c1 =
      Some (?c1\<lparr> argv := [], dry_run := True \<rparr>, [])"
    by (simp add: parse_command_line_options_def process_option_def)
  show ?thesis
    using 1 2 options_keep_bounds [OF 1 2] by blast
qed

text \<open>C31: A finalised configuration follows the table of flavours: the addresses on the wire and of the sockets
  have the families of their column, for mapped addresses those to bind and connect to are the IPv6
  images of the local and remote address, and the remote prefix consists of the leading bits of the
  remote address.\<close>

theorem finalize_config_flavours:
  assumes "pton_sized inet_pton" and "finalize_config inet_pton inet_ntop c = Some c'"
  shows "flavour_ok c' \<and> prefix_ok c'"
proof (cases "ip_version c")
  case IP_VERSION_4
  then show ?thesis
    using finalize_ipv4_spec [OF assms(1)] assms(2)
    by (auto simp: finalize_config_def split: bind_splits if_splits)
next
  case IP_VERSION_4_MAPPED_6
  then show ?thesis
    using finalize_mapped_spec [OF assms(1)] assms(2)
    by (auto simp: finalize_config_def split: bind_splits if_splits)
next
  case IP_VERSION_6
  then show ?thesis
    using finalize_ipv6_spec [OF assms(1)] assms(2)
    by (auto simp: finalize_config_def split: bind_splits if_splits)
qed

theorem finalize_config_flavours_witness:
  "\<exists>c'. finalize_config (\<lambda>af s. Some (if af = AF_INET then [192, 0, 2, 1] else replicate 16 1))
       (\<lambda>_ _. Some ''192.0.2.1'') (set_default_config config_zero) = Some c' \<and> flavour_ok c' \<and> prefix_ok c'"
proof -
  let ?pton = "\<lambda>af s. Some (if af = AF_INET then [192, 0, 2, 1] else replicate 16 1)"
  have "finalize_config ?pton (\<lambda>_ _. Some ''192.0.2.1'') (set_default_config config_zero) \<noteq> None"
    by code_simp
  moreover have "pton_sized ?pton"
    by (simp add: pton_sized_def)
  ultimately show ?thesis
    using finalize_config_flavours [of ?pton] by blast
qed

end
