(* ===== verification/Run_State.thy ===== *)
theory Run_State
  imports Config Sockets
begin

text \<open>
  The state of a test run and its clock (\<^verbatim>\<open>run.h\<close>, \<^verbatim>\<open>run.c\<close>, the events of \<^verbatim>\<open>script.h\<close>): stepping through the
  events of a script, the translation between script time and live time, the check that something
  happened when the script expected it, and waiting for an event.

  What comes from outside is part of the state: the readings of \<^verbatim>\<open>gettimeofday\<close>, the ports that the
  operating system hands out, and the packets that the network device delivers and is given. Times are
  integers: microseconds are far below the range of \<^verbatim>\<open>s64\<close>. The system call thread is not modelled,
  so unlocking and locking the global mutex has no effect. Sockets are named by their position
  in the order of creation; the linked list of the source has the newest first.
\<close>

section \<open>Events\<close>

datatype event_time_t =
    ABSOLUTE_TIME | RELATIVE_TIME | ANY_TIME | ABSOLUTE_RANGE_TIME | RELATIVE_RANGE_TIME

text \<open>Of a system call only the name and the time at which it ends matter here; -1 stands for a call
  that does not block.\<close>

record syscall_spec =
  syscall_name :: string
  end_usecs :: int

definition is_blocking_syscall :: "syscall_spec \<Rightarrow> bool" where
  "is_blocking_syscall syscall \<longleftrightarrow> end_usecs syscall \<noteq> - 1"

datatype event_body =
    PACKET_EVENT packet | SYSCALL_EVENT syscall_spec | COMMAND_EVENT string | CODE_EVENT string

record event =
  line_number :: int
  time_usecs :: int
  time_usecs_end :: int
  offset_usecs :: int
  time_type :: event_time_t
  event_body :: event_body

definition is_event_time_absolute :: "event \<Rightarrow> bool" where
  "is_event_time_absolute event \<longleftrightarrow>
     time_type event = ABSOLUTE_TIME \<or> time_type event = ABSOLUTE_RANGE_TIME"

section \<open>The state of a run\<close>

text \<open>\<open>current\<close> is the list of events from the current one on, empty for \<^verbatim>\<open>state->event == NULL\<close>.\<close>

record state =
  st_config :: config
  next_ephemeral_port :: int
  sockets :: "socket list"
  socket_under_test :: "nat option"
  event_list :: "event list"
  current :: "event list"
  last_event :: "event option"
  script_start_time_usecs :: int
  script_last_time_usecs :: int
  live_start_time_usecs :: int
  clock :: "nat \<Rightarrow> int"
  ticks :: nat
  os_ports :: "u16 list"
  received :: "(string, packet) status list"
  sent :: "packet list"
  send_ok :: "packet \<Rightarrow> bool"

definition now_usecs :: "state \<Rightarrow> int \<times> state" where
  "now_usecs state = (clock state (ticks state), state\<lparr> ticks := ticks state + 1 \<rparr>)"

definition script_time_to_live_time_usecs :: "state \<Rightarrow> int \<Rightarrow> int" where
  "script_time_to_live_time_usecs state t =
     live_start_time_usecs state + (t - script_start_time_usecs state)"

definition live_time_to_script_time_usecs :: "state \<Rightarrow> int \<Rightarrow> int" where
  "live_time_to_script_time_usecs state t =
     script_start_time_usecs state + (t - live_start_time_usecs state)"

lemma time_conversions [simp]:
  "live_time_to_script_time_usecs state (script_time_to_live_time_usecs state t) = t"
  "script_time_to_live_time_usecs state (live_time_to_script_time_usecs state t) = t"
  by (simp_all add: live_time_to_script_time_usecs_def script_time_to_live_time_usecs_def)

section \<open>Checking times\<close>

text \<open>The messages with the times they print, in microseconds.\<close>

datatype time_error =
    Timing_error string int int
  | Timing_range_error string int int int
  | Timing_relative_range_error string int int int

definition verify_time ::
    "state \<Rightarrow> event_time_t \<Rightarrow> int \<Rightarrow> int \<Rightarrow> int \<Rightarrow> string \<Rightarrow> (time_error, unit) status option" where
  "verify_time state ttype script_usecs script_usecs_end live_usecs description =
     (let expected_usecs = script_usecs - script_start_time_usecs state;
          expected_usecs_end = script_usecs_end - script_start_time_usecs state;
          actual_usecs = live_usecs - live_start_time_usecs state;
          tolerance = tolerance_usecs (st_config state)
      in if ttype = ANY_TIME then Some (Inr ())
      else if ttype = ABSOLUTE_RANGE_TIME \<or> ttype = RELATIVE_RANGE_TIME
      then (if actual_usecs < expected_usecs - tolerance \<or> actual_usecs > expected_usecs_end + tolerance
        then (if ttype = ABSOLUTE_RANGE_TIME
          then Some (Inl (Timing_range_error description script_usecs script_usecs_end actual_usecs))
          else (case current state of
             [] \<Rightarrow> None
           | event # _ \<Rightarrow> Some (Inl (Timing_relative_range_error description
               (script_usecs - offset_usecs event) (script_usecs_end - offset_usecs event)
               (actual_usecs - offset_usecs event)))))
        else Some (Inr ()))
      else if actual_usecs < expected_usecs - tolerance \<or> actual_usecs > expected_usecs + tolerance
      then Some (Inl (Timing_error description script_usecs actual_usecs))
      else Some (Inr ()))"

definition event_description :: "event \<Rightarrow> string option" where
  "event_description event = (case event_body event of
      PACKET_EVENT pkt \<Rightarrow> (case pkt_direction pkt of
          DIRECTION_INBOUND \<Rightarrow> Some ''inbound packet''
        | DIRECTION_OUTBOUND \<Rightarrow> Some ''outbound packet''
        | DIRECTION_INVALID \<Rightarrow> None)
    | SYSCALL_EVENT _ \<Rightarrow> Some ''system call start''
    | COMMAND_EVENT _ \<Rightarrow> Some ''command''
    | CODE_EVENT _ \<Rightarrow> Some ''data collection for code'')"

text \<open>An untimely event ends the process.\<close>

definition check_event_time :: "state \<Rightarrow> int \<Rightarrow> unit option" where
  "check_event_time state live_usecs = (case current state of
      [] \<Rightarrow> None
    | event # _ \<Rightarrow> do {
        description \<leftarrow> event_description event;
        r \<leftarrow> verify_time state (time_type event) (time_usecs event) (time_usecs_end event)
          live_usecs description;
        (case r of Inl _ \<Rightarrow> None | Inr _ \<Rightarrow> Some ())
      })"

definition shift_syscall_end :: "int \<Rightarrow> event \<Rightarrow> event" where
  "shift_syscall_end offset event = (case event_body event of
      SYSCALL_EVENT syscall \<Rightarrow>
        if time_type event = RELATIVE_TIME \<and> is_blocking_syscall syscall
        then event\<lparr> event_body := SYSCALL_EVENT (syscall\<lparr> end_usecs := end_usecs syscall + offset \<rparr>) \<rparr>
        else event
    | _ \<Rightarrow> event)"

definition adjust_relative_event_times :: "state \<Rightarrow> event \<Rightarrow> state \<times> event" where
  "adjust_relative_event_times state event =
     (if time_type event \<noteq> ANY_TIME \<and> time_type event \<noteq> RELATIVE_TIME \<and>
         time_type event \<noteq> RELATIVE_RANGE_TIME
      then (state, event)
      else let (now, state) = now_usecs state;
          offset = now - live_start_time_usecs state;
          event = event\<lparr> offset_usecs := offset, time_usecs := time_usecs event + offset \<rparr>;
          event = (if time_type event = RELATIVE_RANGE_TIME
            then event\<lparr> time_usecs_end := time_usecs_end event + offset \<rparr> else event)
        in (state, shift_syscall_end offset event))"

text \<open>The loop that waits until the clock shows the time of the event; it need not end.\<close>

partial_function (option) wait_until :: "int \<Rightarrow> state \<Rightarrow> state option" where
  "wait_until event_usecs state =
     (let (now, state) = now_usecs state in
      if event_usecs - now \<le> 0 then Some state else wait_until event_usecs state)"

definition wait_for_event :: "state \<Rightarrow> state option" where
  "wait_for_event state = (case current state of
      [] \<Rightarrow> None
    | event # _ \<Rightarrow> do {
        state \<leftarrow> wait_until (script_time_to_live_time_usecs state (time_usecs event)) state;
        let (now, state) = now_usecs state;
        check_event_time state now;
        Some state
      })"

section \<open>The next event\<close>

datatype event_error = First_event_not_at_zero int | Time_goes_backward int int int

definition get_next_event :: "state \<Rightarrow> (event_error, state) status option" where
  "get_next_event state = do {
     r \<leftarrow> (case current state of
         [] \<Rightarrow> (case event_list state of
             [] \<Rightarrow> None
           | event # _ \<Rightarrow>
               if time_usecs event \<noteq> 0 then Some (Inl (First_event_not_at_zero (line_number event)))
               else Some (Inr (state\<lparr> current := event_list state,
                 script_start_time_usecs := time_usecs event \<rparr>)))
       | event # rest \<Rightarrow> Some (Inr (state\<lparr> script_last_time_usecs := time_usecs event,
           last_event := Some event, current := rest \<rparr>)));
     (case r of Inl err \<Rightarrow> Some (Inl err) | Inr state \<Rightarrow>
       Some (case current state of
         [] \<Rightarrow> Inr state
       | event # _ \<Rightarrow> (case last_event state of
           None \<Rightarrow> Inr state
         | Some prev \<Rightarrow>
             if is_event_time_absolute prev \<and> is_event_time_absolute event \<and>
               time_usecs event < script_last_time_usecs state
             then Inl (Time_goes_backward (line_number event) (script_last_time_usecs state)
               (time_usecs event))
             else Inr state)))
   }"

text \<open>The loop of \<^verbatim>\<open>run_script\<close> in local mode; \<open>run\<close> stands for the handlers of the four kinds of events, and
  an error ends the process.\<close>

partial_function (option) run_events ::
    "(event \<Rightarrow> state \<Rightarrow> state option) \<Rightarrow> state \<Rightarrow> state option" where
  "run_events run state = do {
     r \<leftarrow> get_next_event state;
     (case r of Inl _ \<Rightarrow> None | Inr state \<Rightarrow>
       (case current state of
          [] \<Rightarrow> Some state
        | event # rest \<Rightarrow> do {
            let (state, event) = adjust_relative_event_times state event;
            state \<leftarrow> run event (state\<lparr> current := event # rest \<rparr>);
            run_events run state
          }))
   }"

section \<open>Which times are accepted\<close>

text \<open>The window of live times for an event with the given times in the script.\<close>

definition time_window :: "state \<Rightarrow> event_time_t \<Rightarrow> int \<Rightarrow> int \<Rightarrow> int \<Rightarrow> bool" where
  "time_window state ttype from until live \<longleftrightarrow> (let tol = tolerance_usecs (st_config state) in
     case ttype of
       ANY_TIME \<Rightarrow> True
     | ABSOLUTE_TIME \<Rightarrow> \<bar>live - script_time_to_live_time_usecs state from\<bar> \<le> tol
     | RELATIVE_TIME \<Rightarrow> \<bar>live - script_time_to_live_time_usecs state from\<bar> \<le> tol
     | _ \<Rightarrow> script_time_to_live_time_usecs state from - tol \<le> live \<and>
         live \<le> script_time_to_live_time_usecs state until + tol)"

lemma verify_time_iff:
  "verify_time state ttype from until live descr = Some (Inr ()) \<longleftrightarrow> time_window state ttype from until live"
  by (cases ttype) (auto simp: verify_time_def time_window_def Let_def script_time_to_live_time_usecs_def
      split: list.splits)

lemma check_event_time_iff:
  assumes "current state = event # rest" and "event_description event \<noteq> None"
  shows "check_event_time state live = Some () \<longleftrightarrow>
     time_window state (time_type event) (time_usecs event) (time_usecs_end event) live"
  unfolding verify_time_iff [symmetric, of _ _ _ _ _ "the (event_description event)"]
  using assms by (auto simp: check_event_time_def split: bind_splits sum.splits)

section \<open>Waiting\<close>

lemma wait_until_first:
  assumes "ticks state \<le> n" and "deadline \<le> clock state n"
    and "\<And>k. ticks state \<le> k \<Longrightarrow> k < n \<Longrightarrow> clock state k < deadline"
  shows "wait_until deadline state = Some (state\<lparr> ticks := n + 1 \<rparr>)"
  using assms
proof (induction "n - ticks state" arbitrary: state)
  case 0
  then show ?case
    by (subst wait_until.simps) (simp add: now_usecs_def)
next
  case (Suc m)
  then have "wait_until deadline (state\<lparr> ticks := ticks state + 1 \<rparr>) = Some (state\<lparr> ticks := n + 1 \<rparr>)"
    using Suc.hyps(1) [of "state\<lparr> ticks := ticks state + 1 \<rparr>"] by simp
  moreover have "clock state (ticks state) < deadline"
    using Suc by simp
  ultimately show ?case
    by (subst wait_until.simps) (simp add: now_usecs_def)
qed

section \<open>Events in order\<close>

fun well_timed_after :: "event \<Rightarrow> event list \<Rightarrow> bool" where
  "well_timed_after prev [] = True"
| "well_timed_after prev (ev # evs) \<longleftrightarrow>
     \<not> (is_event_time_absolute prev \<and> is_event_time_absolute ev \<and> time_usecs ev < time_usecs prev) \<and>
     well_timed_after ev evs"

definition well_timed :: "event list \<Rightarrow> bool" where
  "well_timed evs \<longleftrightarrow> (case evs of [] \<Rightarrow> False | ev # evs \<Rightarrow> time_usecs ev = 0 \<and> well_timed_after ev evs)"

text \<open>The reference: the handlers run once for each event, in the order of the script.\<close>

fun run_in_order :: "(event \<Rightarrow> state \<Rightarrow> state option) \<Rightarrow> event list \<Rightarrow> state \<Rightarrow> state option" where
  "run_in_order run [] state = Some state"
| "run_in_order run (ev # evs) state = do {
     let (state, ev) = adjust_relative_event_times state ev;
     state \<leftarrow> run ev (state\<lparr> current := ev # evs \<rparr>);
     run_in_order run evs (state\<lparr> script_last_time_usecs := time_usecs ev, last_event := Some ev,
       current := evs \<rparr>)
   }"

lemma time_type_shift [simp]: "time_type (shift_syscall_end offset event) = time_type event"
  by (simp add: shift_syscall_end_def split: event_body.split)

lemma adjust_absolute:
  assumes "adjust_relative_event_times st ev = (st', ev')"
  shows "is_event_time_absolute ev' = is_event_time_absolute ev"
    "is_event_time_absolute ev \<Longrightarrow> ev' = ev"
    "current st' = current st"
  using assms by (auto simp: adjust_relative_event_times_def is_event_time_absolute_def now_usecs_def
      Let_def split: if_splits)

lemma well_timed_adjust:
  assumes "adjust_relative_event_times st ev = (st', ev')"
  shows "well_timed_after ev' evs = well_timed_after ev evs"
  using adjust_absolute(1,2) [OF assms] by (cases evs) auto

text \<open>One round of the loop, from the state in which \<^verbatim>\<open>get_next_event\<close> is called after \<open>prev\<close>.\<close>

lemma get_next_event_step:
  assumes "current st = prev # evs"
  shows "get_next_event st = Some (case evs of
     ev # _ \<Rightarrow> if is_event_time_absolute prev \<and> is_event_time_absolute ev \<and> time_usecs ev < time_usecs prev
       then Inl (Time_goes_backward (line_number ev) (time_usecs prev) (time_usecs ev))
       else Inr (st\<lparr> script_last_time_usecs := time_usecs prev, last_event := Some prev, current := evs \<rparr>)
   | [] \<Rightarrow> Inr (st\<lparr> script_last_time_usecs := time_usecs prev, last_event := Some prev, current := [] \<rparr>))"
  using assms by (cases evs) (simp_all add: get_next_event_def)

lemma run_events_tail:
  assumes keeps: "\<And>ev st st'. run ev st = Some st' \<Longrightarrow> current st' = current st"
    and "current st = prev # evs"
  shows "run_events run st = (if well_timed_after prev evs
     then run_in_order run evs (st\<lparr> script_last_time_usecs := time_usecs prev, last_event := Some prev,
       current := evs \<rparr>)
     else None)"
  using assms(2)
proof (induction evs arbitrary: st prev)
  case Nil
  then show ?case
    by (subst run_events.simps) (simp add: get_next_event_step [OF Nil])
next
  case (Cons ev evs)
  define st1 where "st1 = st\<lparr> script_last_time_usecs := time_usecs prev, last_event := Some prev,
      current := ev # evs \<rparr>"
  obtain st2 ev2 where adj: "adjust_relative_event_times st1 ev = (st2, ev2)"
    by force
  show ?case
  proof (cases "is_event_time_absolute prev \<and> is_event_time_absolute ev \<and> time_usecs ev < time_usecs prev")
    case True
    then show ?thesis
      by (subst run_events.simps) (simp add: get_next_event_step [OF Cons.prems])
  next
    case False
    have "get_next_event st = Some (Inr st1)" "current st1 = ev # evs"
      using False by (auto simp: get_next_event_step [OF Cons.prems] st1_def)
    then have "run_events run st = Option.bind (run ev2 (st2\<lparr> current := ev2 # evs \<rparr>)) (run_events run)"
      by (subst run_events.simps) (simp add: adj)
    also have "\<dots> = Option.bind (run ev2 (st2\<lparr> current := ev2 # evs \<rparr>)) (\<lambda>st. if well_timed_after ev2 evs
        then run_in_order run evs (st\<lparr> script_last_time_usecs := time_usecs ev2, last_event := Some ev2,
          current := evs \<rparr>) else None)"
      using Cons.IH keeps by (intro bind_option_cong) force+
    finally show ?thesis
      using False adj well_timed_adjust [OF adj]
      by (auto simp: st1_def [symmetric] split: bind_splits)
  qed
qed

section \<open>Properties\<close>

text \<open>A time is accepted exactly if it lies in the window of the event: any time for a wildcard, within
  the tolerance of the expected instant for a single time, and between the ends of the range,
  widened by the tolerance, for a range, where expected times are translated from the script to
  the live clock; only a relative range needs a current event to report the deviation.\<close>

theorem verify_time_window:
  assumes "ttype = RELATIVE_RANGE_TIME \<Longrightarrow> current state \<noteq> []"
  shows "\<exists>err. verify_time state ttype from until live descr =
     Some (if time_window state ttype from until live then Inr () else Inl err)"
proof (cases "time_window state ttype from until live")
  case True
  then show ?thesis
    by (simp add: verify_time_iff)
next
  case False
  then show ?thesis
    using assms
    by (cases ttype; cases "current state")
      (auto simp: verify_time_def time_window_def Let_def script_time_to_live_time_usecs_def)
qed

definition example_state :: state where
  "example_state = \<lparr> st_config = set_default_config config_zero, next_ephemeral_port = - 1, sockets = [],
     socket_under_test = None, event_list = [], current = [], last_event = None,
     script_start_time_usecs = 0, script_last_time_usecs = 0, live_start_time_usecs = 1000000,
     clock = (\<lambda>n. 1000000 + 1500 * int n), ticks = 0, os_ports = [], received = [], sent = [],
     send_ok = (\<lambda>_. True) \<rparr>"

definition example_event :: event where
  "example_event = \<lparr> line_number = 1, time_usecs = 6000, time_usecs_end = - 1, offset_usecs = 0,
     time_type = ABSOLUTE_TIME, event_body = COMMAND_EVENT ''true'' \<rparr>"

theorem verify_time_window_witness:
  "\<exists>err. verify_time example_state ABSOLUTE_TIME 6000 (- 1) 1002000 ''command'' =
     Some (if time_window example_state ABSOLUTE_TIME 6000 (- 1) 1002000 then Inr () else Inl err)"
  by (rule verify_time_window) simp

text \<open>C28: Waiting for an event ends as soon as the clock reaches the time of the event, provided that it does
  so at some reading; the run then continues if the next reading is still within the window of the event,
  and the state is unchanged but for the readings taken.\<close>

theorem wait_for_event_returns:
  assumes event: "current state = event # rest" "event_description event \<noteq> None"
    and reached: "ticks state \<le> n"
      "script_time_to_live_time_usecs state (time_usecs event) \<le> clock state n"
  shows "\<exists>k. ticks state \<le> k \<and> k \<le> n \<and>
     script_time_to_live_time_usecs state (time_usecs event) \<le> clock state k \<and>
     wait_for_event state =
       (if time_window state (time_type event) (time_usecs event) (time_usecs_end event) (clock state (k + 1))
        then Some (state\<lparr> ticks := k + 2 \<rparr>) else None)"
proof -
  let ?deadline = "script_time_to_live_time_usecs state (time_usecs event)"
  define k where "k = (LEAST k. ticks state \<le> k \<and> ?deadline \<le> clock state k)"
  have k: "ticks state \<le> k" "?deadline \<le> clock state k" "k \<le> n"
    using LeastI [of "\<lambda>k. ticks state \<le> k \<and> ?deadline \<le> clock state k" n] reached
      Least_le [of "\<lambda>k. ticks state \<le> k \<and> ?deadline \<le> clock state k" n] by (auto simp: k_def)
  have first: "clock state i < ?deadline" if "ticks state \<le> i" "i < k" for i
    using not_less_Least [of i "\<lambda>k. ticks state \<le> k \<and> ?deadline \<le> clock state k"] that by (auto simp: k_def)
  have wait: "wait_until ?deadline state = Some (state\<lparr> ticks := k + 1 \<rparr>)"
    using k(1,2) first by (rule wait_until_first)
  have window: "time_window (state\<lparr> ticks := i \<rparr>) t a b c = time_window state t a b c" for i t a b c
    by (cases t) (simp_all add: time_window_def script_time_to_live_time_usecs_def)
  have "check_event_time (state\<lparr> ticks := k + 2 \<rparr>) live =
      (if time_window state (time_type event) (time_usecs event) (time_usecs_end event) live
       then Some () else None)" for live
    using check_event_time_iff [of "state\<lparr> ticks := k + 2 \<rparr>" event rest live] event
    by (cases "check_event_time (state\<lparr> ticks := k + 2 \<rparr>) live") (simp_all add: window)
  then have "wait_for_event state =
       (if time_window state (time_type event) (time_usecs event) (time_usecs_end event) (clock state (k + 1))
        then Some (state\<lparr> ticks := k + 2 \<rparr>) else None)"
    using event(1) wait by (auto simp: wait_for_event_def now_usecs_def split: bind_splits)
  with k show ?thesis
    by blast
qed

theorem wait_for_event_returns_witness:
  "\<exists>k. ticks (example_state\<lparr> current := [example_event] \<rparr>) \<le> k \<and> k \<le> 4 \<and>
     wait_for_event (example_state\<lparr> current := [example_event] \<rparr>) =
       (if time_window (example_state\<lparr> current := [example_event] \<rparr>) ABSOLUTE_TIME 6000 (- 1)
           (1000000 + 1500 * int (k + 1))
        then Some (example_state\<lparr> current := [example_event], ticks := k + 2 \<rparr>) else None)"
  using wait_for_event_returns [of "example_state\<lparr> current := [example_event] \<rparr>" example_event "[]" 4]
  by (auto simp: example_state_def example_event_def event_description_def
      script_time_to_live_time_usecs_def)

text \<open>C29: The loop over the events ends, and runs the handlers once for each event of the script in its order
  if the first event is at time zero and absolute times do not go backwards; otherwise the run ends
  with an error. (The handlers leave the position in the script alone.)\<close>

theorem run_events_in_order:
  assumes "\<And>ev st st'. run ev st = Some st' \<Longrightarrow> current st' = current st"
    and "current state = []" and "last_event state = None"
  shows "run_events run state = (if well_timed (event_list state)
     then run_in_order run (event_list state)
       (state\<lparr> current := event_list state, script_start_time_usecs := 0 \<rparr>)
     else None)"
proof (cases "event_list state")
  case Nil
  then show ?thesis
    using assms(2) by (subst run_events.simps) (simp add: get_next_event_def well_timed_def)
next
  case (Cons ev evs)
  show ?thesis
  proof (cases "time_usecs ev = 0")
    case True
    define st1 where "st1 = state\<lparr> current := event_list state, script_start_time_usecs := 0 \<rparr>"
    obtain st2 ev2 where adj: "adjust_relative_event_times st1 ev = (st2, ev2)"
      by force
    have next1: "get_next_event state = Some (Inr st1)" "current st1 = ev # evs"
      using True assms(2,3) Cons by (simp_all add: get_next_event_def st1_def)
    then have "run_events run state = Option.bind (run ev2 (st2\<lparr> current := ev2 # evs \<rparr>)) (run_events run)"
      by (subst run_events.simps) (simp add: adj)
    also have "\<dots> = Option.bind (run ev2 (st2\<lparr> current := ev2 # evs \<rparr>)) (\<lambda>st. if well_timed_after ev2 evs
        then run_in_order run evs (st\<lparr> script_last_time_usecs := time_usecs ev2, last_event := Some ev2,
          current := evs \<rparr>) else None)"
      using assms(1) run_events_tail [OF assms(1)] by (intro bind_option_cong) force+
    finally show ?thesis
      unfolding st1_def [symmetric] using True adj Cons well_timed_adjust [OF adj]
      by (auto simp: well_timed_def split: bind_splits)
  next
    case False
    then show ?thesis
      using assms(2) Cons by (subst run_events.simps) (simp add: get_next_event_def well_timed_def)
  qed
qed

theorem run_events_in_order_witness:
  "run_events (\<lambda>ev st. Some st) (example_state\<lparr> event_list := [example_event\<lparr> time_usecs := 0 \<rparr>, example_event] \<rparr>) =
     run_in_order (\<lambda>ev st. Some st) [example_event\<lparr> time_usecs := 0 \<rparr>, example_event]
       (example_state\<lparr> event_list := [example_event\<lparr> time_usecs := 0 \<rparr>, example_event],
          current := [example_event\<lparr> time_usecs := 0 \<rparr>, example_event], script_start_time_usecs := 0 \<rparr>)"
  using run_events_in_order [of "\<lambda>ev st. Some st"
      "example_state\<lparr> event_list := [example_event\<lparr> time_usecs := 0 \<rparr>, example_event] \<rparr>"]
  by (simp add: well_timed_def example_event_def example_state_def)

end
