(* ===== verification/Verify_Packets.thy ===== *)
theory Verify_Packets
  imports Verify_Sctp Run_State Encapsulation
begin

text \<open>
  Verification of outbound packets (the functions \<^verbatim>\<open>verify_*\<close> of \<^verbatim>\<open>run_packet.c\<close>): checksums, the headers
  layer by layer, TCP options with their tolerance for timestamps, the payload, and the time.

  The actual packet is the copy of the live packet with its values mapped into script space. A signed
  overflow in the deviation of timestamps is undefined and has no verdict. The dumps of packets that are
  added to error messages are not modelled.
\<close>

section \<open>Checksums and ECN\<close>

definition verify_outbound_live_checksums :: "packet \<Rightarrow> verdict" where
  "verify_outbound_live_checksums live_packet = (case pkt_ipv4 live_packet of
      None \<Rightarrow> status_ok
    | Some p \<Rightarrow> do {
        hlen \<leftarrow> ipv4_header_len (pkt_buffer live_packet) p;
        c_assert (p mod 4 = 0);
        hdr \<leftarrow> rd_bytes (pkt_buffer live_packet) p hlen;
        Some (if ipv4_checksum hdr \<noteq> 0 then Inl Bad_ip_checksum else Inr ())
      })"

definition verify_outbound_live_ecn :: "ip_ecn_t \<Rightarrow> u8 \<Rightarrow> u8 \<Rightarrow> verdict" where
  "verify_outbound_live_ecn ecn actual_ecn_bits script_ecn_bits =
     (if ecn = ECN_NOCHECK then status_ok
      else if ecn = ECN_ECT01
      then Some (if actual_ecn_bits \<noteq> 2 \<and> actual_ecn_bits \<noteq> 1 then Inl (Bad_ecn actual_ecn_bits) else Inr ())
      else check_field ''ip_ecn'' (ucast script_ecn_bits) (ucast actual_ecn_bits))"

section \<open>Headers\<close>

definition tcp_options_allowance :: "packet \<Rightarrow> packet \<Rightarrow> int option" where
  "tcp_options_allowance actual_packet script_packet =
     (if pkt_flags script_packet AND FLAG_OPTIONS_NOCHECK \<noteq> 0 then packet_tcp_options_len actual_packet
      else Some 0)"

definition tcp_ace_field :: "bytes \<Rightarrow> nat \<Rightarrow> u32 option" where
  "tcp_ace_field b p = do {
     ae \<leftarrow> tcp_ae b p;
     cwr \<leftarrow> tcp_cwr b p;
     ece \<leftarrow> tcp_ece b p;
     Some ((if ae then 4 else 0) OR (if cwr then 2 else 0) OR (if ece then 1 else 0))
   }"

definition tcp_res1 :: "bytes \<Rightarrow> nat \<Rightarrow> u8 option" where
  "tcp_res1 b p = do { x \<leftarrow> rd8 b (p + 12); Some (drop_bit 1 x AND 7) }"

definition tcp_urg_ptr :: "bytes \<Rightarrow> nat \<Rightarrow> u16 option" where
  "tcp_urg_ptr b p = rd16 b (p + 18)"

text \<open>Comparison of two fields that are read from the headers.\<close>

definition check_read :: "string \<Rightarrow> 'a::len word option \<Rightarrow> 'a word option \<Rightarrow> verdict" where
  "check_read name script actual = do { e \<leftarrow> script; v \<leftarrow> actual; check_field name (ucast e) (ucast v) }"

definition check_bit :: "string \<Rightarrow> bool option \<Rightarrow> bool option \<Rightarrow> verdict" where
  "check_bit name script actual = do { e \<leftarrow> script; v \<leftarrow> actual; check_field name (of_bool e) (of_bool v) }"

text \<open>A length that exceeds that of the script by the TCP options of the actual packet.\<close>

definition check_len_allowance :: "string \<Rightarrow> packet \<Rightarrow> packet \<Rightarrow> u16 option \<Rightarrow> u16 option \<Rightarrow> verdict" where
  "check_len_allowance name actual_packet script_packet script actual = do {
     e \<leftarrow> script;
     n \<leftarrow> tcp_options_allowance actual_packet script_packet;
     v \<leftarrow> actual;
     check_field name (word_of_int (uint e + n)) (ucast v)
   }"

definition layer_ptr :: "packet \<Rightarrow> nat \<Rightarrow> nat option" where
  "layer_ptr pkt layer = (if layer < length (pkt_headers pkt) then hptr (pkt_headers pkt ! layer) else None)"

definition verify_ipv4 :: "packet \<Rightarrow> packet \<Rightarrow> nat \<Rightarrow> u8 \<Rightarrow> verdict" where
  "verify_ipv4 actual_packet script_packet layer encaps = do {
     a \<leftarrow> layer_ptr actual_packet layer;
     s \<leftarrow> layer_ptr script_packet layer;
     let ab = pkt_buffer actual_packet;
     let sb = pkt_buffer script_packet;
     checks [
       check_read ''ipv4_version'' (ipv4_version sb s) (ipv4_version ab a),
       check_read ''ipv4_protocol'' (ipv4_protocol sb s) (ipv4_protocol ab a),
       check_read ''ipv4_header_length'' (ipv4_ihl sb s) (ipv4_ihl ab a),
       do {
         protocol \<leftarrow> ipv4_protocol sb s;
         if protocol = IPPROTO_SCTP then status_ok
         else if protocol = IPPROTO_TCP \<or> protocol = IPPROTO_UDP \<and> encaps = IPPROTO_TCP
         then check_len_allowance ''ipv4_total_length'' actual_packet script_packet
           (ipv4_tot_len sb s) (ipv4_tot_len ab a)
         else if protocol = IPPROTO_UDP \<and> encaps = IPPROTO_SCTP then status_ok
         else check_read ''ipv4_total_length'' (ipv4_tot_len sb s) (ipv4_tot_len ab a)
       },
       do {
         actual_ecn \<leftarrow> ipv4_ecn_bits ab a;
         script_ecn \<leftarrow> ipv4_ecn_bits sb s;
         verify_outbound_live_ecn (pkt_ecn script_packet) actual_ecn script_ecn
       }]
   }"

text \<open>Unlike for IPv4, the length of a plain UDP packet is not compared here.\<close>

definition verify_ipv6 :: "packet \<Rightarrow> packet \<Rightarrow> nat \<Rightarrow> u8 \<Rightarrow> verdict" where
  "verify_ipv6 actual_packet script_packet layer encaps = do {
     a \<leftarrow> layer_ptr actual_packet layer;
     s \<leftarrow> layer_ptr script_packet layer;
     let ab = pkt_buffer actual_packet;
     let sb = pkt_buffer script_packet;
     checks [
       check_read ''ipv6_version'' (ipv6_version sb s) (ipv6_version ab a),
       check_read ''ipv6_next_header'' (ipv6_next_header sb s) (ipv6_next_header ab a),
       do {
         next_header \<leftarrow> ipv6_next_header sb s;
         if next_header = IPPROTO_SCTP then status_ok
         else if next_header = IPPROTO_TCP \<or> next_header = IPPROTO_UDP \<and> encaps = IPPROTO_TCP
         then check_len_allowance ''ipv6_payload_len'' actual_packet script_packet
           (ipv6_payload_len sb s) (ipv6_payload_len ab a)
         else if next_header = IPPROTO_UDP then status_ok
         else check_read ''ipv6_payload_len'' (ipv6_payload_len sb s) (ipv6_payload_len ab a)
       },
       do {
         actual_ecn \<leftarrow> ipv6_ecn_bits ab a;
         script_ecn \<leftarrow> ipv6_ecn_bits sb s;
         verify_outbound_live_ecn (pkt_ecn script_packet) actual_ecn script_ecn
       }]
   }"

definition verify_tcp :: "packet \<Rightarrow> packet \<Rightarrow> nat \<Rightarrow> u8 \<Rightarrow> verdict" where
  "verify_tcp actual_packet script_packet layer encaps = do {
     a \<leftarrow> layer_ptr actual_packet layer;
     s \<leftarrow> layer_ptr script_packet layer;
     let ab = pkt_buffer actual_packet;
     let sb = pkt_buffer script_packet;
     let flags = pkt_flags script_packet;
     checks [
       unless (encaps = 0) (do {
         c_assert (a \<ge> sizeof_udp);
         c_assert (s \<ge> sizeof_udp);
         checks [
           check_read ''udp_src_port'' (rd16 sb (s - 8)) (rd16 ab (a - 8)),
           check_read ''udp_dst_port'' (rd16 sb (s - 6)) (rd16 ab (a - 6))]
       }),
       do {
         e \<leftarrow> tcp_doff sb s;
         n \<leftarrow> tcp_options_allowance actual_packet script_packet;
         v \<leftarrow> tcp_doff ab a;
         check_field ''tcp_data_offset'' (ucast (ucast e + (word_of_int n :: u64) div 4)) (ucast v)
       },
       check_bit ''tcp_fin'' (tcp_fin sb s) (tcp_fin ab a),
       check_bit ''tcp_syn'' (tcp_syn sb s) (tcp_syn ab a),
       check_bit ''tcp_rst'' (tcp_rst sb s) (tcp_rst ab a),
       check_bit ''tcp_psh'' (tcp_psh sb s) (tcp_psh ab a),
       check_bit ''tcp_ack'' (tcp_ack sb s) (tcp_ack ab a),
       check_bit ''tcp_urg'' (tcp_urg sb s) (tcp_urg ab a),
       (if flags AND FLAG_PARSE_ACE \<noteq> 0
        then check_read ''tcp_ace'' (tcp_ace_field sb s) (tcp_ace_field ab a)
        else checks [
          check_bit ''tcp_ece'' (tcp_ece sb s) (tcp_ece ab a),
          check_bit ''tcp_cwr'' (tcp_cwr sb s) (tcp_cwr ab a),
          check_bit ''tcp_ae'' (tcp_ae sb s) (tcp_ae ab a)]),
       check_read ''tcp_reserved_bits'' (tcp_res1 sb s) (tcp_res1 ab a),
       unless (flags AND FLAG_IGNORE_SEQ \<noteq> 0) (check_read ''tcp_seq'' (tcp_seq sb s) (tcp_seq ab a)),
       check_read ''tcp_ack_seq'' (tcp_ack_seq sb s) (tcp_ack_seq ab a),
       unless (flags AND FLAG_WIN_NOCHECK \<noteq> 0) (check_read ''tcp_window'' (tcp_window sb s) (tcp_window ab a)),
       check_read ''tcp_urg_ptr'' (tcp_urg_ptr sb s) (tcp_urg_ptr ab a)]
   }"

definition verify_udp :: "packet \<Rightarrow> packet \<Rightarrow> nat \<Rightarrow> u8 \<Rightarrow> verdict" where
  "verify_udp actual_packet script_packet layer encaps =
     (if encaps \<noteq> 0 then status_ok
      else do {
        a \<leftarrow> layer_ptr actual_packet layer;
        s \<leftarrow> layer_ptr script_packet layer;
        check_read ''udp_len'' (udp_len (pkt_buffer script_packet) s) (udp_len (pkt_buffer actual_packet) a)
      })"

definition verify_udplite :: "packet \<Rightarrow> packet \<Rightarrow> nat \<Rightarrow> verdict" where
  "verify_udplite actual_packet script_packet layer = do {
     a \<leftarrow> layer_ptr actual_packet layer;
     s \<leftarrow> layer_ptr script_packet layer;
     check_read ''udplite_cov'' (udplite_cov (pkt_buffer script_packet) s)
       (udplite_cov (pkt_buffer actual_packet) a)
   }"

definition verify_gre :: "packet \<Rightarrow> packet \<Rightarrow> nat \<Rightarrow> verdict" where
  "verify_gre actual_packet script_packet layer = do {
     a \<leftarrow> layer_ptr actual_packet layer;
     s \<leftarrow> layer_ptr script_packet layer;
     e \<leftarrow> gre_len (pkt_buffer script_packet) s;
     v \<leftarrow> gre_len (pkt_buffer actual_packet) a;
     check_field ''gre_len'' (of_nat e) (of_nat v)
   }"

definition verify_mpls :: "packet \<Rightarrow> packet \<Rightarrow> nat \<Rightarrow> verdict" where
  "verify_mpls actual_packet script_packet layer = do {
     c_assert (layer < length (pkt_headers actual_packet));
     c_assert (layer < length (pkt_headers script_packet));
     let script_bytes = header_bytes (pkt_headers script_packet ! layer);
     if script_bytes \<noteq> header_bytes (pkt_headers actual_packet ! layer) then Some (Inl Mpls_depth)
     else do {
       a \<leftarrow> layer_ptr actual_packet layer;
       s \<leftarrow> layer_ptr script_packet layer;
       checks (map (\<lambda>i. check_bytes (Mpls_label i) (pkt_buffer script_packet) (s + 4 * i)
         (pkt_buffer actual_packet) (a + 4 * i) 4) [0..<script_bytes div sizeof_mpls])
     }
   }"

definition verify_header :: "packet \<Rightarrow> packet \<Rightarrow> nat \<Rightarrow> u8 \<Rightarrow> verdict" where
  "verify_header actual_packet script_packet layer encaps = do {
     c_assert (layer < length (pkt_headers actual_packet));
     c_assert (layer < length (pkt_headers script_packet));
     let type = htype (pkt_headers script_packet ! layer);
     let actual_type = htype (pkt_headers actual_packet ! layer);
     if type \<noteq> actual_type
     then do {
       header_type_info type;
       header_type_info actual_type;
       Some (Inl (Header_type layer type actual_type))
     }
     else (case type of
        HEADER_IPV4 \<Rightarrow> verify_ipv4 actual_packet script_packet layer encaps
      | HEADER_IPV6 \<Rightarrow> verify_ipv6 actual_packet script_packet layer encaps
      | HEADER_GRE \<Rightarrow> verify_gre actual_packet script_packet layer
      | HEADER_MPLS \<Rightarrow> verify_mpls actual_packet script_packet layer
      | HEADER_SCTP \<Rightarrow> verify_sctp actual_packet script_packet
      | HEADER_TCP \<Rightarrow> verify_tcp actual_packet script_packet layer encaps
      | HEADER_UDP \<Rightarrow> verify_udp actual_packet script_packet layer encaps
      | HEADER_UDPLITE \<Rightarrow> verify_udplite actual_packet script_packet layer
      | _ \<Rightarrow> None)
   }"

definition verify_outbound_live_headers :: "packet \<Rightarrow> packet \<Rightarrow> u8 \<Rightarrow> verdict" where
  "verify_outbound_live_headers actual_packet script_packet encaps = do {
     let actual_headers = packet_header_count actual_packet;
     let script_headers = packet_header_count script_packet;
     c_assert (pkt_ipv4 actual_packet \<noteq> None \<or> pkt_ipv6 actual_packet \<noteq> None);
     c_assert (pkt_sctp actual_packet \<noteq> None \<or> pkt_tcp actual_packet \<noteq> None \<or>
       pkt_udp actual_packet \<noteq> None \<or> pkt_udplite actual_packet \<noteq> None);
     if actual_headers \<noteq> script_headers then Some (Inl (Header_layers script_headers actual_headers))
     else checks (map (\<lambda>i. verify_header actual_packet script_packet i encaps) [0..<script_headers])
   }"

section \<open>TCP options and payload\<close>

definition same_tcp_options :: "packet \<Rightarrow> packet \<Rightarrow> bool option" where
  "same_tcp_options packet_a packet_b = do {
     la \<leftarrow> packet_tcp_options_len packet_a;
     lb \<leftarrow> packet_tcp_options_len packet_b;
     if la \<noteq> lb then Some False
     else do {
       pa \<leftarrow> packet_tcp_options packet_a;
       pb \<leftarrow> packet_tcp_options packet_b;
       c_assert (la \<ge> 0);
       xs \<leftarrow> rd_bytes (pkt_buffer packet_a) pa (nat la);
       ys \<leftarrow> rd_bytes (pkt_buffer packet_b) pb (nat la);
       Some (xs = ys)
     }
   }"

text \<open>Whether the deviation of the timestamp, in microseconds, exceeds the tolerance.\<close>

definition ts_deviates :: "config \<Rightarrow> u32 \<Rightarrow> u32 \<Rightarrow> bool option" where
  "ts_deviates config actual_ts_val script_ts_val =
     (if tcp_ts_tick_usecs config = 0 then Some False
      else do {
        let d = sint (actual_ts_val - script_ts_val);
        c_assert (d \<noteq> - (2 ^ 31));
        c_assert (\<bar>d\<bar> * tcp_ts_tick_usecs config < 2 ^ 31);
        Some (\<bar>d\<bar> * tcp_ts_tick_usecs config > tolerance_usecs config)
      })"

text \<open>The timestamp of the actual packet is overwritten for a comparison and then restored.\<close>

definition verify_outbound_live_tcp_options ::
    "config \<Rightarrow> packet \<Rightarrow> packet \<Rightarrow> (verify_error, packet) status option" where
  "verify_outbound_live_tcp_options config actual_packet script_packet =
     (if pkt_flags script_packet AND FLAG_OPTIONS_NOCHECK \<noteq> 0 then Some (Inr actual_packet)
      else do {
        eq \<leftarrow> same_tcp_options actual_packet script_packet;
        if eq then Some (Inr actual_packet)
        else if pkt_tcp_ts_val script_packet \<noteq> None \<and> pkt_tcp_ts_val actual_packet \<noteq> None
        then do {
          script_ts_val \<leftarrow> packet_tcp_ts_val script_packet;
          actual_ts_val \<leftarrow> packet_tcp_ts_val actual_packet;
          deviates \<leftarrow> ts_deviates config actual_ts_val script_ts_val;
          if deviates then Some (Inl Bad_tcp_timestamp)
          else do {
            actual_packet \<leftarrow> packet_set_tcp_ts_val actual_packet script_ts_val;
            is_same \<leftarrow> same_tcp_options actual_packet script_packet;
            actual_packet \<leftarrow> packet_set_tcp_ts_val actual_packet actual_ts_val;
            Some (if is_same then Inr actual_packet else Inl Bad_tcp_options)
          }
        }
        else Some (Inl Bad_tcp_options)
      })"

definition verify_outbound_live_payload :: "packet \<Rightarrow> packet \<Rightarrow> verdict" where
  "verify_outbound_live_payload actual_packet script_packet =
     (if pkt_sctp actual_packet \<noteq> None then status_ok
      else do {
        actual_len \<leftarrow> packet_payload_len actual_packet;
        script_len \<leftarrow> packet_payload_len script_packet;
        c_assert (actual_len = script_len);
        s \<leftarrow> packet_payload script_packet;
        a \<leftarrow> packet_payload actual_packet;
        c_assert (script_len \<ge> 0);
        check_bytes Bad_payload (pkt_buffer script_packet) s (pkt_buffer actual_packet) a (nat script_len)
      })"

section \<open>Outbound packets\<close>

datatype run_error =
    Map_error map_error | Verify_error verify_error | Time_error time_error
  | Run_error string

datatype run_status = STATUS_OK | STATUS_WARN run_error | STATUS_ERR run_error

definition non_fatal_status :: "config \<Rightarrow> run_error \<Rightarrow> run_status" where
  "non_fatal_status config err = (if non_fatal_packet config then STATUS_WARN err else STATUS_ERR err)"

text \<open>The checks on the mapped packet, all of which may be made non-fatal.\<close>

definition verify_actual_packet ::
    "state \<Rightarrow> event \<Rightarrow> packet \<Rightarrow> packet \<Rightarrow> packet \<Rightarrow> (run_error, unit) status option" where
  "verify_actual_packet state event script_packet live_packet actual_packet = do {
     r \<leftarrow> verify_outbound_live_headers actual_packet script_packet (udp_encaps (st_config state));
     (case r of Inl err \<Rightarrow> Some (Inl (Verify_error err)) | Inr _ \<Rightarrow> do {
       r \<leftarrow> (if pkt_tcp script_packet \<noteq> None
         then verify_outbound_live_tcp_options (st_config state) actual_packet script_packet
         else Some (Inr actual_packet));
       (case r of Inl err \<Rightarrow> Some (Inl (Verify_error err)) | Inr actual_packet \<Rightarrow> do {
         r \<leftarrow> verify_outbound_live_payload actual_packet script_packet;
         (case r of Inl err \<Rightarrow> Some (Inl (Verify_error err)) | Inr _ \<Rightarrow> do {
           r \<leftarrow> verify_time state (time_type event) (time_usecs event) (time_usecs_end event)
             (pkt_time_usecs live_packet) ''outbound packet'';
           Some (case r of Inl err \<Rightarrow> Inl (Time_error err) | Inr _ \<Rightarrow> Inr ())
         })
       })
     })
   }"

text \<open>The status, the socket with the timestamps it has learnt and the script packet with its
  timestamp located; \<open>junk\<close> is the content of fresh memory.\<close>

definition verify_outbound_live_packet ::
    "(nat \<Rightarrow> u8) \<Rightarrow> state \<Rightarrow> socket \<Rightarrow> packet \<Rightarrow> packet \<Rightarrow> (run_status \<times> socket \<times> packet) option" where
  "verify_outbound_live_packet junk state socket script_packet live_packet = (case current state of
      [] \<Rightarrow> None
    | event # _ \<Rightarrow> do {
        actual_packet \<leftarrow> packet_copy junk live_packet;
        r \<leftarrow> verify_outbound_live_checksums live_packet;
        (case r of Inl err \<Rightarrow> Some (STATUS_ERR (Verify_error err), socket, script_packet) | Inr _ \<Rightarrow> do {
          r \<leftarrow> map_outbound_live_packet socket live_packet actual_packet script_packet
            (udp_encaps (st_config state));
          (case r of
             Inl err \<Rightarrow> Some (STATUS_ERR (Map_error err), socket, script_packet)
           | Inr (socket, script_packet, actual_packet) \<Rightarrow> do {
               r \<leftarrow> verify_actual_packet state event script_packet live_packet actual_packet;
               Some (case r of
                 Inl err \<Rightarrow> (non_fatal_status (st_config state) err, socket, script_packet)
               | Inr _ \<Rightarrow> (STATUS_OK, socket, script_packet))
             })
        })
      })"

section \<open>What accepted headers say\<close>

lemma check_read_ok:
  "check_read name (x :: u8 option) y = status_ok \<longleftrightarrow> (\<exists>v. x = Some v \<and> y = Some v)"
  "check_read name (x' :: u16 option) y' = status_ok \<longleftrightarrow> (\<exists>v. x' = Some v \<and> y' = Some v)"
  "check_read name (x'' :: u32 option) y'' = status_ok \<longleftrightarrow> (\<exists>v. x'' = Some v \<and> y'' = Some v)"
  by (auto simp: check_read_def ucast_u32_inj split: bind_splits)

lemma check_bit_ok: "check_bit name x y = status_ok \<longleftrightarrow> (\<exists>v. x = Some v \<and> y = Some v)"
  by (auto simp: check_bit_def of_bool_def split: bind_splits if_splits)

lemma same1_iff: "same sb s ab a (Suc 0) \<longleftrightarrow> (\<exists>v. rd8 sb s = Some v \<and> rd8 ab a = Some v)"
  by (auto simp: same_nth rd8_def)

lemma same4_iff: "same sb s ab a 4 \<longleftrightarrow> (\<exists>v. rd32 sb s = Some v \<and> rd32 ab a = Some v)"
  by (auto simp: same_nth rd32_def be32_of_inj all_less_4)

lemmas same_iffs = same1_iff same2_iff same4_iff

lemma octet_eq_iff:
  "x = y \<longleftrightarrow> (\<forall>n < 8. bit x n = bit y n)" for x y :: u8
  by (auto simp: bit_eq_iff)

lemma all_less_8: "(\<forall>n < 8. P n) \<longleftrightarrow> P 0 \<and> P 1 \<and> P 2 \<and> P 3 \<and> P 4 \<and> P 5 \<and> P 6 \<and> P (7 :: nat)"
proof -
  have "(\<forall>n < 8. P n) \<longleftrightarrow> (\<forall>n \<in> {..<8}. P n)"
    by auto
  then show ?thesis
    by (simp add: lessThan_nat_numeral lessThan_Suc) blast
qed

lemma offset_byte_eq:
  "x = y \<longleftrightarrow> drop_bit 4 x = drop_bit 4 y \<and> drop_bit 1 x AND 7 = drop_bit 1 y AND 7 \<and> bit x 0 = bit y 0"
  for x y :: u8
proof
  assume *: "drop_bit 4 x = drop_bit 4 y \<and> drop_bit 1 x AND 7 = drop_bit 1 y AND 7 \<and> bit x 0 = bit y 0"
  have m: "(7 :: u8) = mask 3"
    by (simp add: mask_eq_exp_minus_1)
  have hi: "bit x (4 + n) = bit y (4 + n)" for n
    using * by (metis bit_drop_bit_eq comp_apply)
  have lo: "bit x (1 + n) = bit y (1 + n)" if "n < 3" for n
  proof -
    have "bit (drop_bit 1 x AND 7) n = bit (drop_bit 1 y AND 7) n"
      using * by simp
    then show ?thesis
      using that by (simp add: m bit_and_iff bit_mask_iff bit_drop_bit_eq)
  qed
  show "x = y"
    unfolding octet_eq_iff all_less_8
    using * lo [of 0] lo [of 1] lo [of 2] hi [of 0] hi [of 1] hi [of 2] hi [of 3]
    by (simp add: eval_nat_numeral)
qed simp

lemma ace_eq_iff:
  "((if a then 4 else 0) OR (if b then 2 else 0) OR (if c then 1 else 0) :: u32) =
     (if a' then 4 else 0) OR (if b' then 2 else 0) OR (if c' then 1 else 0) \<longleftrightarrow> a = a' \<and> b = b' \<and> c = c'"
  by (cases a; cases b; cases c; cases a'; cases b'; cases c'; simp)

text \<open>The flags of a TCP header, compared one by one or with three of them as the AccECN counter.\<close>

definition verify_tcp_flags :: "bool \<Rightarrow> bytes \<Rightarrow> nat \<Rightarrow> bytes \<Rightarrow> nat \<Rightarrow> bool" where
  "verify_tcp_flags ace sb s ab a \<longleftrightarrow>
     (\<forall>n \<in> {0, 1, 2, 3, 4, 5}. \<exists>v. tcp_flag n sb s = Some v \<and> tcp_flag n ab a = Some v) \<and>
     (if ace then (\<exists>v. tcp_ace_field sb s = Some v \<and> tcp_ace_field ab a = Some v)
      else (\<forall>n \<in> {6, 7}. \<exists>v. tcp_flag n sb s = Some v \<and> tcp_flag n ab a = Some v) \<and>
        (\<exists>v. tcp_ae sb s = Some v \<and> tcp_ae ab a = Some v))"

lemma verify_tcp_flags_iff:
  "verify_tcp_flags ace sb s ab a \<longleftrightarrow>
     same sb (s + 13) ab (a + 13) 1 \<and> (\<exists>v. tcp_ae sb s = Some v \<and> tcp_ae ab a = Some v)"
proof -
  have ace: "(\<exists>v. tcp_ace_field sb s = Some v \<and> tcp_ace_field ab a = Some v) \<longleftrightarrow>
      (\<forall>n \<in> {6, 7}. \<exists>v. tcp_flag n sb s = Some v \<and> tcp_flag n ab a = Some v) \<and>
        (\<exists>v. tcp_ae sb s = Some v \<and> tcp_ae ab a = Some v)"
    by (auto simp: tcp_ace_field_def ace_eq_iff split: bind_splits)
  have "same sb (s + 13) ab (a + 13) 1 \<longleftrightarrow>
      (\<forall>n \<in> {0, 1, 2, 3, 4, 5, 6, 7}. \<exists>v. tcp_flag n sb s = Some v \<and> tcp_flag n ab a = Some v)"
    by (cases "rd8 sb (s + 13)"; cases "rd8 ab (a + 13)")
      (auto simp: same1_iff tcp_flag_def octet_eq_iff all_less_8)
  then show ?thesis
    unfolding verify_tcp_flags_def ace by (cases ace) auto
qed

text \<open>The byte with the data offset, the reserved bits and the AE flag.\<close>

lemma tcp_offset_byte:
  "same sb (s + 12) ab (a + 12) (Suc 0) \<longleftrightarrow>
     (\<exists>v. tcp_doff sb s = Some v \<and> tcp_doff ab a = Some v) \<and>
     (\<exists>v. tcp_res1 sb s = Some v \<and> tcp_res1 ab a = Some v) \<and>
     (\<exists>v. tcp_ae sb s = Some v \<and> tcp_ae ab a = Some v)"
proof (cases "rd8 sb (s + 12) = None \<or> rd8 ab (a + 12) = None")
  case False
  then obtain x y where "rd8 sb (s + 12) = Some x" "rd8 ab (a + 12) = Some y"
    by auto
  then show ?thesis
    using offset_byte_eq [of x y] by (auto simp: same1_iff tcp_doff_def tcp_res1_def tcp_ae_def)
qed (auto simp: same1_iff tcp_doff_def)

lemma ucast_u64_u32: "(ucast (ucast (x :: u8) :: u64) :: u32) = ucast x"
  by (rule bit_word_eqI) (auto simp: bit_simps dest: bit_u8_bound)

definition tcp_header_agrees :: "u32 \<Rightarrow> bytes \<Rightarrow> nat \<Rightarrow> bytes \<Rightarrow> nat \<Rightarrow> bool" where
  "tcp_header_agrees flags sb s ab a \<longleftrightarrow>
     (flags AND FLAG_IGNORE_SEQ \<noteq> 0 \<or> same sb (s + 4) ab (a + 4) 4) \<and> same sb (s + 8) ab (a + 8) 4 \<and>
     same sb (s + 12) ab (a + 12) 2 \<and>
     (flags AND FLAG_WIN_NOCHECK \<noteq> 0 \<or> same sb (s + 14) ab (a + 14) 2) \<and> same sb (s + 18) ab (a + 18) 2"

lemma verify_tcp_iff:
  assumes "layer_ptr actual layer = Some a" and "layer_ptr script layer = Some s"
    and "pkt_flags script AND FLAG_OPTIONS_NOCHECK = 0"
  shows "verify_tcp actual script layer 0 = status_ok \<longleftrightarrow>
     tcp_header_agrees (pkt_flags script) (pkt_buffer script) s (pkt_buffer actual) a"
proof -
  let ?sb = "pkt_buffer script" and ?ab = "pkt_buffer actual"
  have doff: "Option.bind (tcp_doff ?sb s) (\<lambda>e. Option.bind (tcp_options_allowance actual script) (\<lambda>n.
      Option.bind (tcp_doff ?ab a) (\<lambda>v. check_field ''tcp_data_offset''
        (ucast (ucast e + (word_of_int n :: u64) div 4)) (ucast v)))) = status_ok \<longleftrightarrow>
      (\<exists>v. tcp_doff ?sb s = Some v \<and> tcp_doff ?ab a = Some v)"
    using assms(3) by (auto simp: tcp_options_allowance_def ucast_u64_u32 ucast_u32_inj split: bind_splits)
  have offset: "same ?sb (s + 12) ?ab (a + 12) 2 \<longleftrightarrow>
      same ?sb (s + 12) ?ab (a + 12) (Suc 0) \<and> same ?sb (s + 13) ?ab (a + 13) (Suc 0)"
    using same_add [of ?sb "s + 12" ?ab "a + 12" 1 1] by (simp add: eval_nat_numeral)
  show ?thesis
    using assms verify_tcp_flags_iff [of "pkt_flags script AND FLAG_PARSE_ACE \<noteq> 0" ?sb s ?ab a]
    unfolding verify_tcp_def tcp_header_agrees_def offset tcp_offset_byte
    by (auto simp: Let_def check_read_ok check_bit_ok doff verify_tcp_flags_def same_iffs tcp_seq_def
        tcp_ack_seq_def tcp_window_def tcp_urg_ptr_def)
qed

section \<open>The mapped copy lies in its buffer\<close>

text \<open>What mapping a packet leaves as it is: the headers, the length and the size of the buffer.\<close>

definition same_extent :: "packet \<Rightarrow> packet \<Rightarrow> bool" where
  "same_extent p q \<longleftrightarrow> pkt_headers q = pkt_headers p \<and> pkt_ip_bytes q = pkt_ip_bytes p \<and>
     length (pkt_buffer q) = length (pkt_buffer p)"

lemma same_extent_refl: "same_extent p p"
  by (simp add: same_extent_def)

lemma same_extent_trans: "same_extent p q \<Longrightarrow> same_extent q r \<Longrightarrow> same_extent p r"
  by (simp add: same_extent_def)

lemma upd_buffer_extent:
  assumes "upd_buffer f p = Some q" and "\<And>b. f (pkt_buffer p) = Some b \<Longrightarrow> length b = length (pkt_buffer p)"
  shows "same_extent p q"
  using assms by (auto simp: upd_buffer_def same_extent_def split: bind_splits)

lemma wr16_length: "wr16 b p v = Some b' \<Longrightarrow> length b' = length b"
  by (auto simp: wr16_def dest: wr_bytes_length)

lemma wr32_length: "wr32 b p v = Some b' \<Longrightarrow> length b' = length b"
  by (auto simp: wr32_def dest: wr_bytes_length)

lemma set_headers_tuple_length:
  "set_headers_tuple b ipv4 ipv6 sctp tcp udp udplite t = Some b' \<Longrightarrow> length b' = length b"
  by (auto simp: set_headers_tuple_def dest!: wr16_length wr_bytes_length split: option.splits bind_splits)

lemma set_packet_tuple_extent:
  assumes "set_packet_tuple p t enc = Some q"
  shows "same_extent p q"
proof -
  obtain r where r: "same_extent p r" "(if pkt_icmpv4 r \<noteq> None \<or> pkt_icmpv6 r \<noteq> None
      then set_icmp_echoed_tuple r t enc else Some r) = Some q"
    using assms by (auto simp: set_packet_tuple_def intro: upd_buffer_extent set_headers_tuple_length
        split: bind_splits)
  moreover have "same_extent r q" if "set_icmp_echoed_tuple r t enc = Some q"
    using that by (auto simp: set_icmp_echoed_tuple_def intro: upd_buffer_extent set_headers_tuple_length
        split: bind_splits)
  ultimately show ?thesis
    by (auto intro: same_extent_refl same_extent_trans split: if_splits)
qed

text \<open>The loops that rewrite a buffer record by record.\<close>

lemma sctp_loop_length:
  assumes "sctp_loop k (\<lambda>b. b) on_err body p b = Some (Inr b')"
    and "\<And>err b b'. on_err err b = Some (Inr b') \<Longrightarrow> length b' = length b"
    and "\<And>cur b b'. body cur b = Some (Inr b') \<Longrightarrow> length b' = length b"
  shows "length b' = length b"
  using assms
proof (induction k "\<lambda>b :: bytes. b" on_err body p b rule: sctp_loop.induct)
  case (1 k on_err body iter err b)
  show ?case
  proof (cases "\<exists>cur. it_current iter = Some cur \<and> err = None")
    case True
    then obtain cur where cur: "it_current iter = Some cur" "err = None"
      by blast
    then obtain c p' where c: "body cur b = Some (Inr c)" "sctp_next k c iter = Some p'"
        "sctp_loop k (\<lambda>b. b) on_err body p' c = Some (Inr b')"
      using "1.prems"(1) by (auto simp: sctp_loop.simps [of k _ on_err body iter] split: bind_splits sum.splits)
    then show ?thesis
      using "1.hyps" [OF cur c(1) refl c(2,3)] "1.prems"(2,3) by metis
  next
    case False
    then show ?thesis
      using "1.prems" by (auto simp: sctp_loop.simps [of k _ on_err body iter] split: option.splits)
  qed
qed

lemma tcp_options_update_length:
  assumes "tcp_options_update body b iter = Some (Inr b')"
    and "\<And>b cur b'. body b cur = Some (Inr b') \<Longrightarrow> length b' = length b"
  shows "length b' = length b"
  using assms
proof (induction body b iter rule: tcp_options_update.induct)
  case (1 body b iter)
  then show ?case
    by (subst (asm) (2) tcp_options_update.simps) (auto split: option.splits bind_splits sum.splits)
qed

lemma offset_blocks_length: "offset_blocks b p n d = Some b' \<Longrightarrow> length b' = length b"
proof (induction n arbitrary: b p)
  case (Suc n)
  from Suc.prems show ?case
    by (auto dest!: Suc.IH add32_length split: bind_splits)
qed simp

lemma add32_words_length: "add32_words b p n d = Some b' \<Longrightarrow> length b' = length b"
  by (induction b p n d rule: add32_words.induct) (auto dest: add32_length split: bind_splits)

lemma map_outbound_parameter_length:
  "map_outbound_parameter rd ld parameter b = Some b' \<Longrightarrow> length b' = length b"
  by (auto simp: map_outbound_parameter_def when_upd_def dest!: add32_length split: bind_splits if_splits)

lemma map_outbound_tag_length: "map_outbound_tag s p b = Some b' \<Longrightarrow> length b' = length b"
  by (auto simp: map_outbound_tag_def dest!: wr32_length split: bind_splits if_splits)

lemma map_outbound_chunk_length:
  assumes "map_outbound_chunk s chunk b = Some (Inr b')"
  shows "length b' = length b"
proof -
  have loop: "length b' = length b"
    if "sctp_loop PARAMETER (\<lambda>b. b) (\<lambda>err b. Some (Inl Partial_parameter_outbound))
      (\<lambda>parameter b. map_option Inr (map_outbound_parameter rd ld parameter b)) p b = Some (Inr b')" for rd ld p b b'
    by (rule sctp_loop_length [OF that]) (auto dest: map_outbound_parameter_length)
  show ?thesis
    using assms unfolding map_outbound_chunk_def Let_def
    by (auto dest!: add32_length add32_words_length map_outbound_tag_length loop split: bind_splits if_splits)
qed

lemma offset_sack_blocks_extent:
  assumes "offset_sack_blocks p d = Some (Inr q)"
  shows "same_extent p q"
proof -
  have "length b' = length b" if "offset_sack_body d b cur = Some (Inr b')" for b cur b'
    using that by (auto simp: offset_sack_body_def dest!: offset_blocks_length
        split: bind_splits if_splits sum.splits)
  then show ?thesis
    using assms by (auto simp: offset_sack_blocks_def same_extent_def dest!: tcp_options_update_length
        split: bind_splits sum.splits)
qed

lemma find_tcp_timestamp_extent: "find_tcp_timestamp p = Some (Inr q) \<Longrightarrow> same_extent p q"
  by (auto simp: find_tcp_timestamp_def same_extent_def split: bind_splits sum.splits)

lemma map_outbound_ts_val_extent: "map_outbound_ts_val s script p = Some (s', q) \<Longrightarrow> same_extent p q"
  by (auto simp: map_outbound_ts_val_def Let_def packet_set_tcp_ts_val_def dest!: upd_buffer_extent
      intro: wr32_length split: bind_splits)

lemma map_outbound_live_tcp_packet_extent:
  assumes "map_outbound_live_tcp_packet s live p script tcp = Some (Inr (s', script', q))"
  shows "same_extent p q"
proof -
  have upd: "same_extent r r'" if "upd_buffer (\<lambda>b. wr32 b i v) r = Some r'" for r r' i v
    using that by (rule upd_buffer_extent) (rule wr32_length)
  show ?thesis
    using assms unfolding map_outbound_live_tcp_packet_def Let_def
    by (auto simp: same_extent_def dest!: upd [unfolded same_extent_def]
        offset_sack_blocks_extent [unfolded same_extent_def] find_tcp_timestamp_extent [unfolded same_extent_def]
        map_outbound_ts_val_extent [unfolded same_extent_def]
        split: bind_splits sum.splits if_splits prod.splits)
qed

lemma map_outbound_live_packet_extent:
  assumes "map_outbound_live_packet s live p script enc = Some (Inr (s', script', q))"
  shows "same_extent p q"
proof -
  obtain r where r: "same_extent p r"
    and cases: "pkt_sctp live \<noteq> None \<and> map_outbound_live_sctp_packet s r = Some (Inr q) \<or> r = q \<or>
      (\<exists>tcp. map_outbound_live_tcp_packet s live r script tcp = Some (Inr (s', script', q)))"
    using assms by (auto simp: map_outbound_live_packet_def intro: set_packet_tuple_extent
        split: bind_splits if_splits sum.splits option.splits)
  have "same_extent r q" if "map_outbound_live_sctp_packet s r = Some (Inr q)"
    using that by (auto simp: map_outbound_live_sctp_packet_def same_extent_def
        dest!: sctp_loop_length intro: map_outbound_chunk_length split: bind_splits sum.splits)
  moreover have "same_extent r q" if "map_outbound_live_tcp_packet s live r script tcp = Some (Inr (s', script', q))" for tcp
    using that by (rule map_outbound_live_tcp_packet_extent)
  ultimately show ?thesis
    using r cases by (auto intro: same_extent_trans)
qed

text \<open>A copy lies in its buffer, and so does the mapped packet.\<close>

lemma packet_copy_end:
  assumes "packet_copy junk live = Some copy" and "packet_end copy = Some e"
  shows "e \<le> length (pkt_buffer copy)"
proof -
  obtain n pkt contents where n: "packet_end live = Some n"
    and pkt: "upd_buffer (\<lambda>b. wr_bytes b 0 contents) (packet_new junk (max n (pkt_buffer_bytes live))) = Some pkt"
    and copy: "pkt_buffer copy = pkt_buffer pkt" "pkt_ip_bytes copy = pkt_ip_bytes live"
      "pkt_headers copy = copy_headers 0 (pkt_headers pkt) (pkt_headers live)"
    using assms(1) by (auto simp: packet_copy_def packet_copy_with_headroom_def packet_copy_headers_def Let_def
        split: bind_splits if_splits option.splits)
  have new: "length (pkt_buffer pkt) = max n (pkt_buffer_bytes live)"
      "pkt_headers pkt = no_header # replicate 5 no_header"
    using pkt by (auto simp: upd_buffer_def packet_new_def numeral_eq_Suc dest!: wr_bytes_length split: bind_splits)
  have "e = n"
    using assms(2) n copy(2,3)
    by (cases "pkt_headers live") (auto simp: packet_end_def packet_start_def new(2) no_header_def offset_ptr_def
        split: bind_splits if_splits)
  then show ?thesis
    using copy(1) new(1) by simp
qed

lemma mapped_packet_end:
  assumes "packet_copy junk live = Some copy"
    and "map_outbound_live_packet s live copy script enc = Some (Inr (s', script', actual))"
    and "packet_end actual = Some e"
  shows "e \<le> length (pkt_buffer actual)"
proof -
  have ext: "same_extent copy actual"
    using assms(2) by (rule map_outbound_live_packet_extent)
  then have "packet_end copy = Some e"
    using assms(3) by (simp add: same_extent_def packet_end_def packet_start_def)
  then show ?thesis
    using packet_copy_end [OF assms(1)] ext by (simp add: same_extent_def)
qed

section \<open>Accepted packets\<close>

text \<open>TCP options that pass: equal bytes, or equal bytes once the timestamp of the script is put in place of
  the actual one, from which it deviates by no more than the tolerance.\<close>

definition options_agree :: "config \<Rightarrow> packet \<Rightarrow> packet \<Rightarrow> bool" where
  "options_agree config actual script \<longleftrightarrow> same_tcp_options actual script = Some True \<or>
     (\<exists>e v actual'. packet_tcp_ts_val script = Some e \<and> packet_tcp_ts_val actual = Some v \<and>
        \<bar>sint (v - e)\<bar> * tcp_ts_tick_usecs config \<le> tolerance_usecs config \<and>
        packet_set_tcp_ts_val actual e = Some actual' \<and> same_tcp_options actual' script = Some True)"

lemma set_ts_val_restore:
  assumes "packet_tcp_ts_val pkt = Some v" and "packet_set_tcp_ts_val pkt e = Some pkt'"
  shows "packet_set_tcp_ts_val pkt' v = Some pkt"
proof -
  obtain p where p: "pkt_tcp_ts_val pkt = Some p" "rd32 (pkt_buffer pkt) p = Some v"
    using assms(1) by (auto simp: packet_tcp_ts_val_def split: bind_splits)
  obtain b where b: "wr32 (pkt_buffer pkt) p e = Some b" "wr32 b p v = Some (pkt_buffer pkt)"
    by (rule wr32_restore [OF p(2), of e]) (rule that)
  then have "pkt' = pkt\<lparr> pkt_buffer := b \<rparr>"
    using assms(2) p by (simp add: packet_set_tcp_ts_val_def upd_buffer_def)
  then show ?thesis
    using p b by (simp add: packet_set_tcp_ts_val_def upd_buffer_def)
qed

lemma verify_tcp_options_ok:
  assumes "verify_outbound_live_tcp_options config actual script = Some (Inr actual')"
    and "0 \<le> tolerance_usecs config"
  shows "actual' = actual" "pkt_flags script AND FLAG_OPTIONS_NOCHECK \<noteq> 0 \<or> options_agree config actual script"
proof -
  have "actual' = actual \<and>
      (pkt_flags script AND FLAG_OPTIONS_NOCHECK \<noteq> 0 \<or> options_agree config actual script)"
  proof (cases "pkt_flags script AND FLAG_OPTIONS_NOCHECK \<noteq> 0 \<or> same_tcp_options actual script = Some True")
    case True
    then show ?thesis
      using assms(1) by (auto simp: verify_outbound_live_tcp_options_def options_agree_def split: if_splits)
  next
    case False
    then obtain e v b where ev: "packet_tcp_ts_val script = Some e" "packet_tcp_ts_val actual = Some v"
      and dev: "ts_deviates config v e = Some False"
      and b: "packet_set_tcp_ts_val actual e = Some b" "same_tcp_options b script = Some True"
        "packet_set_tcp_ts_val b v = Some actual'"
      using assms(1) by (auto simp: verify_outbound_live_tcp_options_def split: bind_splits if_splits)
    have "\<bar>sint (v - e)\<bar> * tcp_ts_tick_usecs config \<le> tolerance_usecs config"
      using dev assms(2) by (auto simp: ts_deviates_def Let_def split: if_splits)
    then show ?thesis
      using ev b set_ts_val_restore [OF ev(2) b(1)] by (auto simp: options_agree_def)
  qed
  then show "actual' = actual" "pkt_flags script AND FLAG_OPTIONS_NOCHECK \<noteq> 0 \<or> options_agree config actual script"
    by simp_all
qed

text \<open>The TCP options of the actual packet that the script does not count when it leaves the options open.\<close>

definition options_slack :: "packet \<Rightarrow> packet \<Rightarrow> int \<Rightarrow> bool" where
  "options_slack actual script n \<longleftrightarrow>
     (if pkt_flags script AND FLAG_OPTIONS_NOCHECK = 0 then n = 0
      else \<exists>tcp x. pkt_tcp actual = Some tcp \<and> rd8 (pkt_buffer actual) (tcp + 12) = Some x \<and>
        n = 4 * int (unat (drop_bit 4 x)) - 20)"

definition ecn_agrees :: "ip_ecn_t \<Rightarrow> u8 \<Rightarrow> u8 \<Rightarrow> bool" where
  "ecn_agrees ecn script_bits actual_bits \<longleftrightarrow> (case ecn of
      ECN_NOCHECK \<Rightarrow> True
    | ECN_ECT01 \<Rightarrow> actual_bits = 1 \<or> actual_bits = 2
    | _ \<Rightarrow> actual_bits = script_bits)"

text \<open>The length field at offset \<open>off\<close> of the IP headers: it counts the options of a TCP segment, and equals
  that of the script otherwise, unless it is \<open>unchecked\<close>.\<close>

definition ip_length_agrees :: "packet \<Rightarrow> packet \<Rightarrow> u8 \<Rightarrow> u8 \<Rightarrow> bool \<Rightarrow> nat \<Rightarrow> nat \<Rightarrow> bool" where
  "ip_length_agrees actual script encaps protocol unchecked s a \<longleftrightarrow>
     (if protocol = IPPROTO_TCP \<or> protocol = IPPROTO_UDP \<and> encaps = IPPROTO_TCP
      then \<exists>n. options_slack actual script n \<and>
        int (num16 (pkt_buffer actual) a) = int (num16 (pkt_buffer script) s) + n
      else unchecked \<or> num16 (pkt_buffer actual) a = num16 (pkt_buffer script) s)"

definition ipv4_agrees :: "packet \<Rightarrow> packet \<Rightarrow> u8 \<Rightarrow> nat \<Rightarrow> nat \<Rightarrow> bool" where
  "ipv4_agrees actual script encaps s a \<longleftrightarrow> (let sb = pkt_buffer script; ab = pkt_buffer actual in
     same sb s ab a 1 \<and> same sb (s + 9) ab (a + 9) 1 \<and>
     ip_length_agrees actual script encaps (sb ! (s + 9))
       (sb ! (s + 9) = IPPROTO_SCTP \<or> sb ! (s + 9) = IPPROTO_UDP \<and> encaps = IPPROTO_SCTP) (s + 2) (a + 2) \<and>
     ecn_agrees (pkt_ecn script) (sb ! (s + 1) AND 3) (ab ! (a + 1) AND 3))"

definition ipv6_agrees :: "packet \<Rightarrow> packet \<Rightarrow> u8 \<Rightarrow> nat \<Rightarrow> nat \<Rightarrow> bool" where
  "ipv6_agrees actual script encaps s a \<longleftrightarrow> (let sb = pkt_buffer script; ab = pkt_buffer actual in
     drop_bit 4 (sb ! s) = drop_bit 4 (ab ! a) \<and> same sb (s + 6) ab (a + 6) 1 \<and>
     ip_length_agrees actual script encaps (sb ! (s + 6))
       (sb ! (s + 6) = IPPROTO_SCTP \<or> sb ! (s + 6) = IPPROTO_UDP) (s + 4) (a + 4) \<and>
     ecn_agrees (pkt_ecn script) (drop_bit 4 (sb ! (s + 1)) AND 3) (drop_bit 4 (ab ! (a + 1)) AND 3))"

text \<open>A TCP header: the ports of the UDP header in front of it when it is encapsulated, the fields of
  \<open>tcp_header_agrees\<close>, with the data offset counting the options that are left open.\<close>

definition tcp_layer_agrees :: "packet \<Rightarrow> packet \<Rightarrow> u8 \<Rightarrow> nat \<Rightarrow> nat \<Rightarrow> bool" where
  "tcp_layer_agrees actual script encaps s a \<longleftrightarrow>
     (let sb = pkt_buffer script; ab = pkt_buffer actual; flags = pkt_flags script in
      (encaps = 0 \<or> 8 \<le> s \<and> 8 \<le> a \<and> same sb (s - 8) ab (a - 8) 4) \<and>
      (flags AND FLAG_IGNORE_SEQ \<noteq> 0 \<or> same sb (s + 4) ab (a + 4) 4) \<and> same sb (s + 8) ab (a + 8) 4 \<and>
      (\<exists>n. options_slack actual script n \<and>
         4 * int (unat (drop_bit 4 (ab ! (a + 12)))) = 4 * int (unat (drop_bit 4 (sb ! (s + 12)))) + n) \<and>
      sb ! (s + 12) AND 0x0f = ab ! (a + 12) AND 0x0f \<and> same sb (s + 13) ab (a + 13) 1 \<and>
      (flags AND FLAG_WIN_NOCHECK \<noteq> 0 \<or> same sb (s + 14) ab (a + 14) 2) \<and> same sb (s + 18) ab (a + 18) 2)"

text \<open>SCTP: the chunks of the packet, one by one.\<close>

definition sctp_layer_agrees :: "packet \<Rightarrow> packet \<Rightarrow> bool" where
  "sctp_layer_agrees actual script \<longleftrightarrow>
     (\<exists>c e chunks. packet_payload actual = Some c \<and> packet_end actual = Some e \<and>
        pkt_chunk_list script = Some chunks \<and>
        items_agree CHUNK (pkt_buffer actual) c e (chunk_agrees (pkt_buffer script) (pkt_buffer actual)) chunks)"

text \<open>Layers that pass: the same kind of header, and agreement in all that is compared. A UDP header in
  front of an encapsulated packet is not compared on its own.\<close>

definition layer_agrees :: "packet \<Rightarrow> packet \<Rightarrow> u8 \<Rightarrow> nat \<Rightarrow> bool" where
  "layer_agrees actual script encaps i \<longleftrightarrow>
     htype (pkt_headers actual ! i) = htype (pkt_headers script ! i) \<and>
     (let sb = pkt_buffer script; ab = pkt_buffer actual;
          with_ptrs = (\<lambda>agrees. \<exists>s a. layer_ptr script i = Some s \<and> layer_ptr actual i = Some a \<and> agrees s a)
      in case htype (pkt_headers script ! i) of
           HEADER_IPV4 \<Rightarrow> with_ptrs (ipv4_agrees actual script encaps)
         | HEADER_IPV6 \<Rightarrow> with_ptrs (ipv6_agrees actual script encaps)
         | HEADER_GRE \<Rightarrow> with_ptrs (\<lambda>s a. gre_len sb s \<noteq> None \<and> gre_len ab a = gre_len sb s)
         | HEADER_MPLS \<Rightarrow> with_ptrs (\<lambda>s a.
             header_bytes (pkt_headers actual ! i) = header_bytes (pkt_headers script ! i) \<and>
             same_records 4 sb s ab a (header_bytes (pkt_headers script ! i) div 4))
         | HEADER_TCP \<Rightarrow> with_ptrs (tcp_layer_agrees actual script encaps)
         | HEADER_UDP \<Rightarrow> encaps \<noteq> 0 \<or> with_ptrs (\<lambda>s a. same sb (s + 4) ab (a + 4) 2)
         | HEADER_UDPLITE \<Rightarrow> with_ptrs (\<lambda>s a. same sb (s + 4) ab (a + 4) 2)
         | HEADER_SCTP \<Rightarrow> sctp_layer_agrees actual script
         | _ \<Rightarrow> False)"

lemma version_ihl_byte:
  "x = y \<longleftrightarrow> drop_bit 4 x = drop_bit 4 y \<and> x AND 0x0f = y AND 0x0f" for x y :: u8
proof
  assume *: "drop_bit 4 x = drop_bit 4 y \<and> x AND 0x0f = y AND 0x0f"
  have m: "(0x0f :: u8) = mask 4"
    by (simp add: mask_eq_exp_minus_1)
  have "push_bit 4 (drop_bit 4 x) + take_bit 4 x = push_bit 4 (drop_bit 4 y) + take_bit 4 y"
    using * by (simp add: m take_bit_eq_mask)
  then show "x = y"
    by (simp only: bits_ident)
qed simp

lemma low_nibble_eq:
  fixes x y :: u8
  assumes "drop_bit 1 x AND 7 = drop_bit 1 y AND 7" and "bit x 0 = bit y 0"
  shows "x AND 0x0f = y AND 0x0f"
proof -
  have "drop_bit 4 (z AND 0x0f) = 0" "drop_bit 1 (z AND 0x0f) AND 7 = drop_bit 1 z AND 7"
      "bit (z AND 0x0f) 0 = bit z 0" for z :: u8
    by (simp_all add: drop_bit_and and.assoc bit_and_iff)
  then show ?thesis
    unfolding offset_byte_eq [of "x AND 0x0f"] using assms by simp
qed

lemma rd8_nth: "rd8 b i = Some v \<Longrightarrow> b ! i = v"
  by (simp add: rd8_def split: if_splits)

lemma high_nibble_less: "unat (drop_bit 4 x) < 16" for x :: u8
proof -
  have "unat x < 256"
    by (rule less_le_trans [OF unsigned_less]) simp
  then have "unat x div 16 < 16"
    by (simp add: less_mult_imp_div_less)
  then show ?thesis
    by (simp add: drop_bit_eq_div unat_div)
qed

lemma ucast_add_u64: "(ucast (x + y :: u64) :: u32) = ucast x + ucast y"
proof -
  have "take_bit 32 (take_bit 64 a + take_bit 64 b) = take_bit 32 (a + b)" for a b :: int
    using take_bit_add [of 32 "take_bit 64 a" "take_bit 64 b"] take_bit_add [of 32 a b] by simp
  then show ?thesis
    by transfer simp
qed

lemma word_quarter:
  assumes "- 20 \<le> n" and "n \<le> 40" and "4 dvd n"
  shows "(ucast ((word_of_int n :: u64) div 4) :: u32) = word_of_int (n div 4)"
proof -
  obtain k where k: "n = 4 * k"
    using assms(3) by (rule dvdE)
  then have "-5 \<le> k" "k \<le> 10"
    using assms(1,2) by simp_all
  then have "k = -5 \<or> k = -4 \<or> k = -3 \<or> k = -2 \<or> k = -1 \<or> k = 0 \<or> k = 1 \<or> k = 2 \<or> k = 3 \<or> k = 4 \<or> k = 5 \<or>
      k = 6 \<or> k = 7 \<or> k = 8 \<or> k = 9 \<or> k = 10"
    by presburger
  then show ?thesis
    unfolding k by (elim disjE) simp_all
qed

lemma small_int_eq:
  assumes "(word_of_int x :: u32) = word_of_int y" and "\<bar>x - y\<bar> < 4294967296"
  shows "x = y"
proof -
  have "x mod 4294967296 = y mod 4294967296"
    using assms(1) by (simp add: word_of_int_eq_iff take_bit_eq_mod)
  then have "4294967296 dvd x - y"
    by (simp add: mod_eq_dvd_iff)
  then show ?thesis
    using assms(2) zdvd_imp_le [of 4294967296 "\<bar>x - y\<bar>"] by fastforce
qed

lemma ucast_of_uint: "(ucast (w :: 'a::len word) :: u32) = word_of_int (uint w)"
  by simp

lemma small_word_eq:
  fixes v w :: u16 and e d :: u8
  shows "- 20 \<le> n \<Longrightarrow> n \<le> 40 \<Longrightarrow> (word_of_int (uint v + n) :: u32) = ucast w \<Longrightarrow> int (unat w) = int (unat v) + n"
    "- 20 \<le> n \<Longrightarrow> n \<le> 40 \<Longrightarrow> (ucast e :: u32) + word_of_int n = ucast d \<Longrightarrow> int (unat d) = int (unat e) + n"
proof -
  have b: "0 \<le> uint v" "uint v < 65536" "0 \<le> uint w" "uint w < 65536"
      "0 \<le> uint e" "uint e < 256" "0 \<le> uint d" "uint d < 256"
    using uint_bounded [of v] uint_bounded [of w] uint_bounded [of e] uint_bounded [of d] by simp_all
  show "int (unat w) = int (unat v) + n" if "- 20 \<le> n" "n \<le> 40" "(word_of_int (uint v + n) :: u32) = ucast w"
  proof -
    have "\<bar>uint v + n - uint w\<bar> < 4294967296"
      using that(1,2) b by linarith
    then show ?thesis
      using small_int_eq [OF that(3) [unfolded ucast_of_uint]] by simp
  qed
  show "int (unat d) = int (unat e) + n" if "- 20 \<le> n" "n \<le> 40" "(ucast e :: u32) + word_of_int n = ucast d"
  proof -
    have "\<bar>uint e + n - uint d\<bar> < 4294967296"
      using that(1,2) b by linarith
    then show ?thesis
      using small_int_eq [of "uint e + n" "uint d"] that(3) by simp
  qed
qed

lemma allowance_slack:
  assumes "tcp_options_allowance actual script = Some n"
  shows "options_slack actual script n" "- 20 \<le> n" "n \<le> 40" "4 dvd n"
proof -
  show "options_slack actual script n"
    using assms by (auto simp: tcp_options_allowance_def options_slack_def packet_tcp_options_len_def
        packet_tcp_header_len_def tcp_doff_def split: if_splits bind_splits)
  then have "n = 0 \<or> (\<exists>x :: u8. n = 4 * int (unat (drop_bit 4 x)) - 20)"
    unfolding options_slack_def by metis
  then obtain m :: nat where "n = 0 \<or> n = 4 * int m - 20 \<and> m < 16"
    using high_nibble_less by blast
  then show "- 20 \<le> n" "n \<le> 40" "4 dvd n"
    by presburger+
qed

lemma verify_ecn_agrees:
  assumes "verify_outbound_live_ecn ecn actual_bits script_bits = status_ok"
  shows "ecn_agrees ecn script_bits actual_bits"
  using assms by (cases ecn) (auto simp: verify_outbound_live_ecn_def ecn_agrees_def ucast_u32_inj split: if_splits)

lemma check_len_allowance_agrees:
  assumes "check_len_allowance name actual script (rd16 (pkt_buffer script) s) (rd16 (pkt_buffer actual) a) = status_ok"
  shows "\<exists>n. options_slack actual script n \<and>
     int (num16 (pkt_buffer actual) a) = int (num16 (pkt_buffer script) s) + n"
proof -
  obtain e v n where rd: "rd16 (pkt_buffer script) s = Some e" "rd16 (pkt_buffer actual) a = Some v"
    and n: "tcp_options_allowance actual script = Some n" and eq: "(word_of_int (uint e + n) :: u32) = ucast v"
    using assms by (auto simp: check_len_allowance_def simp del: of_int_add split: bind_splits)
  then show ?thesis
    using small_word_eq(1) [OF allowance_slack(2,3) [OF n] eq] allowance_slack(1) [OF n]
    by (auto simp: rd [THEN num16_eq])
qed

lemma num16_agrees:
  assumes "check_read name (rd16 sb s) (rd16 ab a) = status_ok"
  shows "num16 ab a = num16 sb s"
  using assms by (auto simp: check_read_ok num16_eq)

lemma verify_ipv4_agrees:
  assumes "verify_ipv4 actual script i encaps = status_ok"
  shows "\<exists>s a. layer_ptr script i = Some s \<and> layer_ptr actual i = Some a \<and> ipv4_agrees actual script encaps s a"
proof -
  obtain s a where ptr: "layer_ptr script i = Some s" "layer_ptr actual i = Some a"
    using assms by (auto simp: verify_ipv4_def split: bind_splits)
  let ?sb = "pkt_buffer script" and ?ab = "pkt_buffer actual"
  have ok: "\<exists>v. ipv4_version ?sb s = Some v \<and> ipv4_version ?ab a = Some v"
      "\<exists>v. ipv4_ihl ?sb s = Some v \<and> ipv4_ihl ?ab a = Some v"
      "\<exists>v. ipv4_protocol ?sb s = Some v \<and> ipv4_protocol ?ab a = Some v"
    using assms ptr by (simp_all add: verify_ipv4_def Let_def check_read_ok)
  then obtain x y p where x: "rd8 ?sb s = Some x" "rd8 ?ab a = Some y"
    and p: "rd8 ?sb (s + 9) = Some p" "rd8 ?ab (a + 9) = Some p"
    by (auto simp: ipv4_version_def ipv4_protocol_def split: bind_splits)
  have "same ?sb s ?ab a 1" "same ?sb (s + 9) ?ab (a + 9) 1"
    using ok x p version_ihl_byte [of x y] by (auto simp: same1_iff ipv4_version_def ipv4_ihl_def)
  moreover have "ip_length_agrees actual script encaps p
      (p = IPPROTO_SCTP \<or> p = IPPROTO_UDP \<and> encaps = IPPROTO_SCTP) (s + 2) (a + 2)"
    using assms ptr p unfolding verify_ipv4_def ip_length_agrees_def ipv4_tot_len_def ipv4_protocol_def
    by (auto simp: Let_def dest: check_len_allowance_agrees num16_agrees simp del: add_2_eq_Suc' split: if_splits)
  moreover have "ecn_agrees (pkt_ecn script) (?sb ! (s + 1) AND 3) (?ab ! (a + 1) AND 3)"
    using assms ptr by (auto simp: verify_ipv4_def Let_def ipv4_ecn_bits_def ipv4_tos_def
        dest!: verify_ecn_agrees rd8_nth split: bind_splits)
  ultimately show ?thesis
    using ptr rd8_nth [OF p(1)] by (simp add: ipv4_agrees_def)
qed

lemma verify_ipv6_agrees:
  assumes "verify_ipv6 actual script i encaps = status_ok"
  shows "\<exists>s a. layer_ptr script i = Some s \<and> layer_ptr actual i = Some a \<and> ipv6_agrees actual script encaps s a"
proof -
  obtain s a where ptr: "layer_ptr script i = Some s" "layer_ptr actual i = Some a"
    using assms by (auto simp: verify_ipv6_def split: bind_splits)
  let ?sb = "pkt_buffer script" and ?ab = "pkt_buffer actual"
  have ok: "\<exists>v. ipv6_version ?sb s = Some v \<and> ipv6_version ?ab a = Some v"
      "\<exists>v. ipv6_next_header ?sb s = Some v \<and> ipv6_next_header ?ab a = Some v"
    using assms ptr by (simp_all add: verify_ipv6_def Let_def check_read_ok)
  then obtain p where p: "rd8 ?sb (s + 6) = Some p" "rd8 ?ab (a + 6) = Some p"
    by (auto simp: ipv6_next_header_def)
  have "drop_bit 4 (?sb ! s) = drop_bit 4 (?ab ! a)" "same ?sb (s + 6) ?ab (a + 6) 1"
    using ok(1) p by (auto simp: same1_iff ipv6_version_def dest!: rd8_nth split: bind_splits)
  moreover have "ip_length_agrees actual script encaps p (p = IPPROTO_SCTP \<or> p = IPPROTO_UDP) (s + 4) (a + 4)"
    using assms ptr p unfolding verify_ipv6_def ip_length_agrees_def ipv6_payload_len_def ipv6_next_header_def
    by (auto simp: Let_def dest: check_len_allowance_agrees num16_agrees split: if_splits)
  moreover have "ecn_agrees (pkt_ecn script) (drop_bit 4 (?sb ! (s + 1)) AND 3) (drop_bit 4 (?ab ! (a + 1)) AND 3)"
    using assms ptr by (auto simp: verify_ipv6_def Let_def ipv6_ecn_bits_def ipv6_traffic_class_lo_def
        dest!: verify_ecn_agrees rd8_nth split: bind_splits)
  ultimately show ?thesis
    using ptr rd8_nth [OF p(1)] by (simp add: ipv6_agrees_def)
qed

lemma tcp_offset_agrees:
  assumes "Option.bind (tcp_doff (pkt_buffer script) s) (\<lambda>e. Option.bind (tcp_options_allowance actual script) (\<lambda>n.
      Option.bind (tcp_doff (pkt_buffer actual) a) (\<lambda>v. check_field name
        (ucast (ucast e + (word_of_int n :: u64) div 4)) (ucast v)))) = status_ok"
  shows "\<exists>n. options_slack actual script n \<and> 4 * int (unat (drop_bit 4 (pkt_buffer actual ! (a + 12)))) =
     4 * int (unat (drop_bit 4 (pkt_buffer script ! (s + 12)))) + n"
proof -
  obtain x y n where rd: "rd8 (pkt_buffer script) (s + 12) = Some x" "rd8 (pkt_buffer actual) (a + 12) = Some y"
    and n: "tcp_options_allowance actual script = Some n"
    and eq: "(ucast (ucast (drop_bit 4 x) + (word_of_int n :: u64) div 4) :: u32) = ucast (drop_bit 4 y)"
    using assms by (auto simp: tcp_doff_def split: bind_splits)
  note slack = allowance_slack [OF n]
  have "(ucast (drop_bit 4 x) :: u32) + word_of_int (n div 4) = ucast (drop_bit 4 y)"
    using eq by (simp only: ucast_add_u64 ucast_u64_u32 word_quarter [OF slack(2-4)])
  moreover have "- 20 \<le> n div 4" "n div 4 \<le> 40" "4 * (n div 4) = n"
    using slack(2-4) by simp_all
  ultimately show ?thesis
    using small_word_eq(2) [of "n div 4" "drop_bit 4 x" "drop_bit 4 y"] slack(1) rd [THEN rd8_nth] by auto
qed

lemma verify_tcp_agrees:
  assumes "verify_tcp actual script i encaps = status_ok"
  shows "\<exists>s a. layer_ptr script i = Some s \<and> layer_ptr actual i = Some a \<and> tcp_layer_agrees actual script encaps s a"
proof -
  obtain s a where ptr: "layer_ptr script i = Some s" "layer_ptr actual i = Some a"
    using assms by (auto simp: verify_tcp_def split: bind_splits)
  let ?sb = "pkt_buffer script" and ?ab = "pkt_buffer actual" and ?flags = "pkt_flags script"
  have flags: "verify_tcp_flags (?flags AND FLAG_PARSE_ACE \<noteq> 0) ?sb s ?ab a"
    using assms ptr by (auto simp: verify_tcp_def Let_def check_read_ok check_bit_ok verify_tcp_flags_def)
  have low: "?sb ! (s + 12) AND 0x0f = ?ab ! (a + 12) AND 0x0f"
  proof (rule low_nibble_eq)
    show "drop_bit 1 (?sb ! (s + 12)) AND 7 = drop_bit 1 (?ab ! (a + 12)) AND 7"
      using assms ptr by (auto simp: verify_tcp_def Let_def check_read_ok tcp_res1_def dest!: rd8_nth split: bind_splits)
    show "bit (?sb ! (s + 12)) 0 = bit (?ab ! (a + 12)) 0"
      using flags by (auto simp: verify_tcp_flags_iff tcp_ae_def dest!: rd8_nth split: bind_splits)
  qed
  have ports: "8 \<le> s \<and> 8 \<le> a \<and> same ?sb (s - 8) ?ab (a - 8) 4" if "encaps \<noteq> 0"
  proof -
    have "8 \<le> s" "8 \<le> a" "same ?sb (s - 8) ?ab (a - 8) 2" "same ?sb (s - 8 + 2) ?ab (a - 8 + 2) 2"
      using assms ptr that by (auto simp: verify_tcp_def Let_def check_read_ok same2_iff
          simp del: add_2_eq_Suc' split: if_splits)
    then show ?thesis
      using same_add [of ?sb "s - 8" ?ab "a - 8" 2 2] by simp
  qed
  have rest: "?flags AND FLAG_IGNORE_SEQ \<noteq> 0 \<or> same ?sb (s + 4) ?ab (a + 4) 4" "same ?sb (s + 8) ?ab (a + 8) 4"
      "?flags AND FLAG_WIN_NOCHECK \<noteq> 0 \<or> same ?sb (s + 14) ?ab (a + 14) 2" "same ?sb (s + 18) ?ab (a + 18) 2"
    using assms ptr by (auto simp: verify_tcp_def Let_def check_read_ok same_iffs tcp_seq_def tcp_ack_seq_def
        tcp_window_def tcp_urg_ptr_def)
  have offset: "\<exists>n. options_slack actual script n \<and> 4 * int (unat (drop_bit 4 (?ab ! (a + 12)))) =
      4 * int (unat (drop_bit 4 (?sb ! (s + 12)))) + n"
    using assms ptr by (intro tcp_offset_agrees [where name = "''tcp_data_offset''"]) (simp add: verify_tcp_def Let_def)
  show ?thesis
    using ptr flags low ports rest offset unfolding verify_tcp_flags_iff tcp_layer_agrees_def Let_def by blast
qed

lemma verify_mpls_agrees:
  assumes "verify_mpls actual script i = status_ok"
  shows "\<exists>s a. layer_ptr script i = Some s \<and> layer_ptr actual i = Some a \<and>
    header_bytes (pkt_headers actual ! i) = header_bytes (pkt_headers script ! i) \<and>
    same_records 4 (pkt_buffer script) s (pkt_buffer actual) a (header_bytes (pkt_headers script ! i) div 4)"
  using assms by (auto simp: verify_mpls_def same_records_def Let_def split: if_splits bind_splits)

lemma gre_len_small: "gre_len b p = Some n \<Longrightarrow> n \<le> 16"
  by (auto simp: gre_len_def split: bind_splits if_splits)

lemma verify_gre_agrees:
  assumes "verify_gre actual script i = status_ok"
  shows "\<exists>s a. layer_ptr script i = Some s \<and> layer_ptr actual i = Some a \<and>
    gre_len (pkt_buffer script) s \<noteq> None \<and> gre_len (pkt_buffer actual) a = gre_len (pkt_buffer script) s"
proof -
  obtain s a e v where ptr: "layer_ptr script i = Some s" "layer_ptr actual i = Some a"
    and len: "gre_len (pkt_buffer script) s = Some e" "gre_len (pkt_buffer actual) a = Some v"
    and eq: "(of_nat v :: u32) = of_nat e"
    using assms by (auto simp: verify_gre_def split: bind_splits)
  have "v = e"
    using small_int_eq [of "int v" "int e"] eq gre_len_small [OF len(1)] gre_len_small [OF len(2)] by simp
  then show ?thesis
    using ptr len by auto
qed

lemma verify_sctp_layer_agrees:
  assumes "verify_sctp actual script = status_ok"
    and "\<And>e. packet_end actual = Some e \<Longrightarrow> e \<le> length (pkt_buffer actual)"
  shows "sctp_layer_agrees actual script"
proof -
  obtain c e where c: "packet_payload actual = Some c" "packet_end actual = Some e"
    using assms(1) by (auto simp: verify_sctp_def sctp_chunks_begin_def split: bind_splits)
  have "c \<le> e"
  proof (rule ccontr)
    assume "\<not> c \<le> e"
    then have "sctp_chunks_begin actual = Some (\<lparr>it_current = Some c, it_end = e\<rparr>, Some (Too_short CHUNK))"
      using c by (simp add: sctp_chunks_begin_def get_current_chunk_def get_current_def)
    then show False
      using assms(1) by (cases "the (pkt_chunk_list script)") (auto simp: verify_sctp_def split: bind_splits)
  qed
  from verify_sctp_agrees [OF assms(1) c this assms(2) [OF c(2)]] show ?thesis
    using c by (auto simp: sctp_layer_agrees_def)
qed

lemma verify_header_agrees:
  assumes "verify_header actual script i encaps = status_ok"
    and "\<And>e. packet_end actual = Some e \<Longrightarrow> e \<le> length (pkt_buffer actual)"
  shows "layer_agrees actual script encaps i"
proof -
  have types: "htype (pkt_headers actual ! i) = htype (pkt_headers script ! i)"
    using assms(1) by (auto simp: verify_header_def Let_def split: if_splits bind_splits)
  then have ok: "(case htype (pkt_headers script ! i) of
        HEADER_IPV4 \<Rightarrow> verify_ipv4 actual script i encaps
      | HEADER_IPV6 \<Rightarrow> verify_ipv6 actual script i encaps
      | HEADER_GRE \<Rightarrow> verify_gre actual script i
      | HEADER_MPLS \<Rightarrow> verify_mpls actual script i
      | HEADER_SCTP \<Rightarrow> verify_sctp actual script
      | HEADER_TCP \<Rightarrow> verify_tcp actual script i encaps
      | HEADER_UDP \<Rightarrow> verify_udp actual script i encaps
      | HEADER_UDPLITE \<Rightarrow> verify_udplite actual script i
      | _ \<Rightarrow> None) = status_ok"
    using assms(1) by (simp add: verify_header_def Let_def split: if_splits)
  have "encaps \<noteq> 0 \<or> (\<exists>s a. layer_ptr script i = Some s \<and> layer_ptr actual i = Some a \<and>
      same (pkt_buffer script) (s + 4) (pkt_buffer actual) (a + 4) 2)"
    if "verify_udp actual script i encaps = status_ok"
    using that by (auto simp: verify_udp_def udp_len_def check_read_ok same2_iff split: if_splits bind_splits)
  moreover have "\<exists>s a. layer_ptr script i = Some s \<and> layer_ptr actual i = Some a \<and>
      same (pkt_buffer script) (s + 4) (pkt_buffer actual) (a + 4) 2"
    if "verify_udplite actual script i = status_ok"
    using that by (auto simp: verify_udplite_def udplite_cov_def check_read_ok same2_iff split: bind_splits)
  ultimately show ?thesis
    using types ok verify_ipv4_agrees verify_ipv6_agrees verify_tcp_agrees verify_mpls_agrees verify_gre_agrees
      verify_sctp_layer_agrees [OF _ assms(2)]
    unfolding layer_agrees_def Let_def
    by (cases "htype (pkt_headers script ! i)") simp_all
qed

text \<open>Payloads that pass.\<close>

definition payload_agrees :: "packet \<Rightarrow> packet \<Rightarrow> bool" where
  "payload_agrees actual script \<longleftrightarrow> pkt_sctp actual \<noteq> None \<or>
     (\<exists>s a n. packet_payload script = Some s \<and> packet_payload actual = Some a \<and>
        packet_payload_len script = Some (int n) \<and> packet_payload_len actual = Some (int n) \<and>
        same (pkt_buffer script) s (pkt_buffer actual) a n)"

lemma verify_payload_ok:
  assumes "verify_outbound_live_payload actual script = status_ok"
  shows "payload_agrees actual script"
proof (cases "pkt_sctp actual")
  case None
  then obtain n s a where "packet_payload_len actual = Some n" "packet_payload_len script = Some n" "n \<ge> 0"
      "packet_payload script = Some s" "packet_payload actual = Some a"
      "same (pkt_buffer script) s (pkt_buffer actual) a (nat n)"
    using assms by (auto simp: verify_outbound_live_payload_def split: bind_splits if_splits)
  then show ?thesis
    unfolding payload_agrees_def by (metis int_nat_eq)
qed (simp add: payload_agrees_def)

definition packet_agrees :: "state \<Rightarrow> event \<Rightarrow> packet \<Rightarrow> packet \<Rightarrow> packet \<Rightarrow> bool" where
  "packet_agrees state event script live actual \<longleftrightarrow>
     packet_header_count actual = packet_header_count script \<and>
     (\<forall>i < packet_header_count script. layer_agrees actual script (udp_encaps (st_config state)) i) \<and>
     (pkt_tcp script = None \<or> pkt_flags script AND FLAG_OPTIONS_NOCHECK \<noteq> 0 \<or>
        options_agree (st_config state) actual script) \<and>
     payload_agrees actual script \<and>
     time_window state (time_type event) (time_usecs event) (time_usecs_end event) (pkt_time_usecs live)"

lemma verify_headers_ok:
  assumes "verify_outbound_live_headers actual script encaps = status_ok"
    and "\<And>e. packet_end actual = Some e \<Longrightarrow> e \<le> length (pkt_buffer actual)"
  shows "packet_header_count actual = packet_header_count script \<and>
    (\<forall>i < packet_header_count script. layer_agrees actual script encaps i)"
  using assms by (auto simp: verify_outbound_live_headers_def Let_def intro: verify_header_agrees split: if_splits)

lemma verify_actual_packet_ok:
  assumes "verify_actual_packet state event script live actual = Some (Inr ())"
    and "0 \<le> tolerance_usecs (st_config state)"
    and "\<And>e. packet_end actual = Some e \<Longrightarrow> e \<le> length (pkt_buffer actual)"
  shows "packet_agrees state event script live actual"
proof -
  obtain actual' where h: "verify_outbound_live_headers actual script (udp_encaps (st_config state)) = status_ok"
    and o: "(if pkt_tcp script \<noteq> None then verify_outbound_live_tcp_options (st_config state) actual script
      else Some (Inr actual)) = Some (Inr actual')"
    and p: "verify_outbound_live_payload actual' script = status_ok"
    and t: "verify_time state (time_type event) (time_usecs event) (time_usecs_end event)
      (pkt_time_usecs live) ''outbound packet'' = Some (Inr ())"
    using assms(1) by (auto simp: verify_actual_packet_def split: bind_splits sum.splits)
  have "actual' = actual" "pkt_tcp script = None \<or> pkt_flags script AND FLAG_OPTIONS_NOCHECK \<noteq> 0 \<or>
      options_agree (st_config state) actual script"
    using o verify_tcp_options_ok [OF _ assms(2), of actual script actual'] by (auto split: if_splits)
  then show ?thesis
    using verify_headers_ok [OF h assms(3)] verify_payload_ok [OF p] t
    unfolding packet_agrees_def verify_time_iff by simp
qed

section \<open>Properties\<close>

text \<open>C27: A TCP header passes exactly if it agrees with the header of the script byte for byte in the
  acknowledgement number, the data offset, the reserved bits and all flags and the urgent pointer, and in
  the sequence number and the window unless the script leaves them open: whether three of the flags
  are compared as the AccECN counter makes no difference.\<close>

theorem verify_tcp_exact:
  assumes "layer_ptr actual layer = Some a" and "layer_ptr script layer = Some s"
    and "pkt_flags script AND FLAG_OPTIONS_NOCHECK = 0"
  shows "verify_tcp actual script layer 0 = status_ok \<longleftrightarrow>
     tcp_header_agrees (pkt_flags script) (pkt_buffer script) s (pkt_buffer actual) a"
  by (rule verify_tcp_iff [OF assms])

definition example_tcp_packet :: "u32 \<Rightarrow> packet" where
  "example_tcp_packet flags = (packet_new (\<lambda>i. if i = 32 then 0x50 else 0) 40)\<lparr> pkt_flags := flags,
     pkt_headers := [\<lparr> htype = HEADER_IPV4, header_bytes = 20, total_bytes = 40, hptr = Some 0 \<rparr>,
       \<lparr> htype = HEADER_TCP, header_bytes = 20, total_bytes = 20, hptr = Some 20 \<rparr>] \<rparr>"

theorem verify_tcp_exact_witness:
  "verify_tcp (example_tcp_packet 0) (example_tcp_packet FLAG_PARSE_ACE) 1 0 = status_ok \<longleftrightarrow>
     tcp_header_agrees FLAG_PARSE_ACE (pkt_buffer (example_tcp_packet FLAG_PARSE_ACE)) 20
       (pkt_buffer (example_tcp_packet 0)) 20"
  using verify_tcp_exact [of "example_tcp_packet 0" 1 20 "example_tcp_packet FLAG_PARSE_ACE" 20]
  by (simp add: example_tcp_packet_def layer_ptr_def)

text \<open>C4: An outbound packet that is accepted had a valid IPv4 checksum, and after mapping its values into
  script space it agrees with the packet of the script, layer by layer: IP headers in version, header length,
  protocol and ECN bits (as far as the script asks for them) and in the length wherever it is compared;
  GRE headers in their size and MPLS stacks in every label; UDP and UDP-Lite headers in length and
  coverage; TCP headers, also encapsulated ones with the ports of their UDP header, in every field not
  left open, where options that are left open are counted in the lengths; SCTP packets in all their
  chunks as in C16. TCP options are equal up to a tolerable deviation of the timestamp, the payload is
  equal, and the time lies within the window of the event.\<close>

theorem accepted_packet_agrees:
  assumes "verify_outbound_live_packet junk state socket script live = Some (STATUS_OK, socket', script')"
    and "current state = event # rest" and "0 \<le> tolerance_usecs (st_config state)"
  shows "\<exists>copy actual. packet_copy junk live = Some copy \<and> verify_outbound_live_checksums live = status_ok \<and>
     map_outbound_live_packet socket live copy script (udp_encaps (st_config state)) =
       Some (Inr (socket', script', actual)) \<and>
     packet_agrees state event script' live actual"
proof -
  obtain copy actual where copy: "packet_copy junk live = Some copy"
    and "verify_outbound_live_checksums live = status_ok"
    and map: "map_outbound_live_packet socket live copy script (udp_encaps (st_config state)) =
       Some (Inr (socket', script', actual))"
    and ok: "verify_actual_packet state event script' live actual = Some (Inr ())"
    using assms(1,2) by (auto simp: verify_outbound_live_packet_def non_fatal_status_def
        split: bind_splits sum.splits prod.splits if_splits)
  moreover have "packet_agrees state event script' live actual"
    using ok assms(3) mapped_packet_end [OF copy map] by (rule verify_actual_packet_ok)
  ultimately show ?thesis
    by blast
qed

definition example_datagram :: packet where
  "example_datagram = (packet_new (\<lambda>i. if i = 0 then 0x60 else if i = 6 then 17 else if i = 45 then 8 else 0) 48)\<lparr>
     pkt_ip_bytes := 48, pkt_ipv6 := Some 0, pkt_udp := Some 40, pkt_time_usecs := 1006000,
     pkt_headers := [\<lparr> htype = HEADER_IPV6, header_bytes = 40, total_bytes = 48, hptr = Some 0 \<rparr>,
       \<lparr> htype = HEADER_UDP, header_bytes = 8, total_bytes = 8, hptr = Some 40 \<rparr>, no_header, no_header,
       no_header, no_header] \<rparr>"

definition example_udp_socket :: socket where
  "example_udp_socket = socket_new\<lparr>
     so_live := socket_state_zero\<lparr> ss_local := \<lparr> ep_ip = ip_from_ipv6 (replicate 16 0), ep_port = 0 \<rparr>,
       ss_remote := \<lparr> ep_ip = ip_from_ipv6 (replicate 16 0), ep_port = 0 \<rparr> \<rparr> \<rparr>"

lemma replicate_headers: "replicate 6 x = [x, x, x, x, x, x]"
  by (simp add: numeral_eq_Suc)

lemma example_datagram_copy: "packet_copy (\<lambda>_. 0) example_datagram = Some example_datagram"
  by (simp add: packet_copy_def packet_copy_with_headroom_def example_datagram_def packet_new_def
      rd_bytes_def packet_end_def packet_start_def upd_buffer_def wr_bytes_def packet_copy_headers_def
      no_header_def offset_ptr_def replicate_headers Let_def del: upt_conv_Cons upt_rec_numeral)

theorem accepted_packet_agrees_witness:
  "\<exists>socket' script' copy actual. packet_copy (\<lambda>_. 0) example_datagram = Some copy \<and>
     map_outbound_live_packet example_udp_socket example_datagram copy example_datagram 0 =
       Some (Inr (socket', script', actual)) \<and>
     packet_agrees (example_state\<lparr> current := [example_event] \<rparr>) example_event script' example_datagram actual"
proof -
  let ?st = "example_state\<lparr> current := [example_event] \<rparr>"
  have cfg: "udp_encaps (st_config ?st) = 0" "0 \<le> tolerance_usecs (st_config ?st)" "current ?st = [example_event]"
    by (simp_all add: example_state_def set_default_config_def cleanup_config_def config_zero_def)
  have "case map_outbound_live_packet example_udp_socket example_datagram example_datagram example_datagram 0 of
     Some (Inr (so, scr, act)) \<Rightarrow> verify_actual_packet ?st example_event scr example_datagram act = Some (Inr ())
   | _ \<Rightarrow> False"
    by code_simp
  then obtain so scr act where map: "map_outbound_live_packet example_udp_socket example_datagram example_datagram
      example_datagram 0 = Some (Inr (so, scr, act))"
    and ok: "verify_actual_packet ?st example_event scr example_datagram act = Some (Inr ())"
    by (auto split: option.splits sum.splits)
  have "verify_outbound_live_checksums example_datagram = status_ok"
    by (simp add: verify_outbound_live_checksums_def example_datagram_def packet_new_def)
  then have "verify_outbound_live_packet (\<lambda>_. 0) ?st example_udp_socket example_datagram example_datagram =
      Some (STATUS_OK, so, scr)"
    using map ok cfg by (simp add: verify_outbound_live_packet_def example_datagram_copy)
  from accepted_packet_agrees [OF this cfg(3,2)] show ?thesis
    using cfg(1) by auto
qed

end
