(* ===== verification/Run_Packet.thy ===== *)
theory Run_Packet
  imports Verify_Packets Transport Packet_Checksum
begin

text \<open>
  Running the packet events of a script (\<^verbatim>\<open>run_packet.c\<close>): finding or creating the socket a packet belongs
  to, sniffing and verifying the packets of the kernel, injecting the packets of the script, and
  the reset that ends a connection.

  A socket is named by its position in \<^const>\<open>sockets\<close>. Operations return the state also with an error,
  as the program still uses it to close the sockets. What \<^verbatim>\<open>netdev_receive\<close> delivers is consumed from
  \<^const>\<open>received\<close>; waiting for a packet that never comes does not return. What \<^verbatim>\<open>netdev_send\<close> is given is
  appended to \<^const>\<open>sent\<close>. The dumps of packets in messages are left out.
\<close>

section \<open>Sockets of a run\<close>

definition sock :: "state \<Rightarrow> nat \<Rightarrow> socket option" where
  "sock state i = (if i < length (sockets state) then Some (sockets state ! i) else None)"

definition set_sock :: "nat \<Rightarrow> socket \<Rightarrow> state \<Rightarrow> state" where
  "set_sock i s state = state\<lparr> sockets := (sockets state)[i := s] \<rparr>"

text \<open>\<^verbatim>\<open>socket_new(state)\<close> followed by the assignment of \<open>s\<close> and of \<^verbatim>\<open>state->socket_under_test\<close>.\<close>

definition add_socket :: "socket \<Rightarrow> state \<Rightarrow> nat \<times> state" where
  "add_socket s state = (length (sockets state),
     state\<lparr> sockets := sockets state @ [s], socket_under_test := Some (length (sockets state)) \<rparr>)"

definition ephemeral_port :: "state \<Rightarrow> (u16 \<times> state) option" where
  "ephemeral_port state = (case os_ports state of
      [] \<Rightarrow> None
    | port # ports \<Rightarrow> Some (port, state\<lparr> os_ports := ports \<rparr>))"

definition take_ephemeral_port :: "state \<Rightarrow> (u16 \<times> state) option" where
  "take_ephemeral_port state =
     (if next_ephemeral_port state \<ge> 0
      then do {
        let port = next_ephemeral_port state;
        c_assert (port \<le> 0xffff);
        Some (word_of_int port, state\<lparr> next_ephemeral_port := - 1 \<rparr>)
      }
      else ephemeral_port state)"

definition find_socket_for_live_packet :: "state \<Rightarrow> packet \<Rightarrow> (nat option \<times> direction_t) option" where
  "find_socket_for_live_packet state packet = (case socket_under_test state of
      None \<Rightarrow> Some (None, DIRECTION_INVALID)
    | Some i \<Rightarrow> do {
        s \<leftarrow> sock state i;
        packet_tuple \<leftarrow> get_packet_tuple packet;
        Some (if is_equal_tuple packet_tuple (socket_get_inbound (so_live s)) then (Some i, DIRECTION_INBOUND)
          else if is_equal_tuple packet_tuple (socket_get_outbound (so_live s)) then (Some i, DIRECTION_OUTBOUND)
          else (None, DIRECTION_INVALID))
      })"

definition setup_new_child_socket :: "state \<Rightarrow> packet \<Rightarrow> (nat \<times> state) option" where
  "setup_new_child_socket state packet = do {
     let config = st_config state;
     protocol \<leftarrow> packet_ip_protocol packet (udp_encaps config);
     tuple \<leftarrow> get_packet_tuple packet;
     (port, state) \<leftarrow> take_ephemeral_port state;
     Some (add_socket (socket_new\<lparr> so_state := SOCKET_PASSIVE_PACKET_RECEIVED,
       so_address_family := packet_address_family packet, so_protocol := protocol,
       so_script := socket_state_zero\<lparr> ss_fd := - 1, ss_remote := tup_src tuple, ss_local := tup_dst tuple \<rparr>,
       so_live := socket_state_zero\<lparr> ss_fd := - 1,
         ss_remote := \<lparr> ep_ip = live_remote_ip config, ep_port = port \<rparr>,
         ss_local := \<lparr> ep_ip = live_local_ip config, ep_port = live_bind_port config \<rparr> \<rparr> \<rparr>) state)
   }"

definition sctp_is_init_packet :: "packet \<Rightarrow> bool option" where
  "sctp_is_init_packet packet = (case pkt_chunk_list packet of
      Some [] \<Rightarrow> Some False
    | Some (item # _) \<Rightarrow> do {
        chunk \<leftarrow> chunk_ptr item;
        type \<leftarrow> rd8 (pkt_buffer packet) chunk;
        Some (type = SCTP_INIT_CHUNK_TYPE)
      }
    | None \<Rightarrow>
        if pkt_flags packet AND FLAGS_SCTP_GENERIC_PACKET \<noteq> 0
        then do {
          sctp \<leftarrow> pkt_sctp packet;
          type \<leftarrow> rd8 (pkt_buffer packet) (sctp + sizeof_sctp_common_header);
          Some (type = SCTP_INIT_CHUNK_TYPE)
        }
        else Some False)"

definition sctp_socket_set_initiate_tag :: "u32 \<Rightarrow> socket \<Rightarrow> socket" where
  "sctp_socket_set_initiate_tag initiate_tag s = s\<lparr>
     so_script := (so_script s)\<lparr> remote_initiate_tag := initiate_tag \<rparr>,
     so_live := (so_live s)\<lparr> remote_initiate_tag := initiate_tag \<rparr> \<rparr>"

definition sctp_socket_set_initial_tsn :: "u32 \<Rightarrow> socket \<Rightarrow> socket" where
  "sctp_socket_set_initial_tsn initial_tsn s = s\<lparr>
     so_script := (so_script s)\<lparr> remote_initial_tsn := initial_tsn \<rparr>,
     so_live := (so_live s)\<lparr> remote_initial_tsn := initial_tsn \<rparr> \<rparr>"

definition set_remote_isn :: "u32 \<Rightarrow> socket \<Rightarrow> socket" where
  "set_remote_isn isn s = s\<lparr> so_script := (so_script s)\<lparr> remote_isn := isn \<rparr>,
     so_live := (so_live s)\<lparr> remote_isn := isn \<rparr> \<rparr>"

section \<open>Listening sockets\<close>

definition child_socket :: "nat option \<Rightarrow> state \<Rightarrow> packet \<Rightarrow> (nat \<times> state) option" where
  "child_socket socket state packet = (case socket of
      Some i \<Rightarrow> Some (i, state) | None \<Rightarrow> setup_new_child_socket state packet)"

text \<open>The values of an INIT chunk at offset \<open>init\<close> are stored in the socket, which is created when there is none.\<close>

definition store_init :: "nat option \<Rightarrow> state \<Rightarrow> packet \<Rightarrow> nat \<Rightarrow> (nat \<times> state) option" where
  "store_init socket state packet init = do {
     (i, state) \<leftarrow> child_socket socket state packet;
     s \<leftarrow> sock state i;
     tag \<leftarrow> rd32 (pkt_buffer packet) (init + 4);
     tsn \<leftarrow> rd32 (pkt_buffer packet) (init + 16);
     Some (i, set_sock i (sctp_socket_set_initial_tsn tsn (sctp_socket_set_initiate_tag tag s)) state)
   }"

text \<open>The SCTP part; \<^const>\<open>Inl\<close> is an early return.\<close>

definition handle_listen_sctp ::
    "state \<Rightarrow> packet \<Rightarrow> nat option \<Rightarrow> nat \<Rightarrow> (nat option \<times> state, nat option \<times> state) status option" where
  "handle_listen_sctp state packet socket sctp = do {
     is_init \<leftarrow> sctp_is_init_packet packet;
     if \<not> is_init then Some (Inl (socket, state))
     else (case pkt_chunk_list packet of
         Some items \<Rightarrow> (case items of
             [] \<Rightarrow> None
           | item # _ \<Rightarrow> do {
               init \<leftarrow> chunk_ptr item;
               len \<leftarrow> rd16 (pkt_buffer packet) (init + 2);
               if unat len \<ge> sizeof_sctp_init_chunk
               then do { (i, state) \<leftarrow> store_init socket state packet init; Some (Inr (Some i, state)) }
               else Some (Inr (socket, state))
             })
       | None \<Rightarrow> do {
           header \<leftarrow> find (\<lambda>h. htype h = HEADER_SCTP) (pkt_headers packet);
           if sizeof_sctp_common_header \<le> total_bytes header \<and>
             total_bytes header - sizeof_sctp_common_header < sizeof_sctp_init_chunk
           then Some (Inl (None, state))
           else do {
             (i, state) \<leftarrow> store_init socket state packet (sctp + sizeof_sctp_common_header);
             Some (Inr (Some i, state))
           }
         })
   }"

definition handle_listen_for_script_packet ::
    "state \<Rightarrow> packet \<Rightarrow> direction_t \<Rightarrow> (nat option \<times> state) option" where
  "handle_listen_for_script_packet state packet direction =
     (let socket = socket_under_test state in
      if direction \<noteq> DIRECTION_INBOUND then Some (None, state)
      else do {
        match \<leftarrow> (if is_wire_server (st_config state) then Some (socket = None)
          else (case socket of
            None \<Rightarrow> Some False
          | Some i \<Rightarrow> do { s \<leftarrow> sock state i; Some (so_state s = SOCKET_PASSIVE_LISTENING) }));
        if \<not> match then Some (None, state)
        else do {
          r \<leftarrow> (case pkt_sctp packet of
              None \<Rightarrow> Some (Inr (socket, state))
            | Some sctp \<Rightarrow> handle_listen_sctp state packet socket sctp);
          (case r of
             Inl result \<Rightarrow> Some result
           | Inr (socket, state) \<Rightarrow> (case pkt_tcp packet of
               None \<Rightarrow> Some (socket, state)
             | Some tcp \<Rightarrow> do {
                 (i, state) \<leftarrow> child_socket socket state packet;
                 s \<leftarrow> sock state i;
                 seq \<leftarrow> tcp_seq (pkt_buffer packet) tcp;
                 Some (Some i, set_sock i (set_remote_isn seq s) state)
               }))
        }
      })"

section \<open>Connecting sockets\<close>

text \<open>Whether the packet opens a connection: \<open>Some None\<close> for a SYN, the offset of an INIT chunk, or no match.\<close>

definition opening_packet :: "packet \<Rightarrow> nat option option option" where
  "opening_packet packet = (case pkt_tcp packet of
      Some tcp \<Rightarrow> do {
        syn \<leftarrow> tcp_syn (pkt_buffer packet) tcp;
        ack \<leftarrow> tcp_ack (pkt_buffer packet) tcp;
        Some (if syn \<and> \<not> ack then Some None else None)
      }
    | None \<Rightarrow> do {
        items \<leftarrow> pkt_chunk_list packet;
        (case items of
           [] \<Rightarrow> Some None
         | item # _ \<Rightarrow> do {
             chunk \<leftarrow> chunk_ptr item;
             type \<leftarrow> rd8 (pkt_buffer packet) chunk;
             Some (if type = SCTP_INIT_CHUNK_TYPE then Some (Some chunk) else None)
           })
      })"

text \<open>What the script packet tells about the connection.\<close>

definition fill_connect :: "packet \<Rightarrow> nat option \<Rightarrow> socket \<Rightarrow> socket option" where
  "fill_connect packet init s = do {
     tuple \<leftarrow> get_packet_tuple packet;
     let s = s\<lparr> so_script := (so_script s)\<lparr> ss_remote := tup_dst tuple, ss_local := tup_src tuple \<rparr> \<rparr>;
     (case pkt_tcp packet of
        Some tcp \<Rightarrow> do {
          seq \<leftarrow> tcp_seq (pkt_buffer packet) tcp;
          Some (s\<lparr> so_state := SOCKET_ACTIVE_SYN_SENT, so_script := (so_script s)\<lparr> local_isn := seq \<rparr> \<rparr>)
        }
      | None \<Rightarrow> do {
          chunk \<leftarrow> init;
          tsn \<leftarrow> rd32 (pkt_buffer packet) (chunk + 16);
          tag \<leftarrow> rd32 (pkt_buffer packet) (chunk + 4);
          Some (s\<lparr> so_state := SOCKET_ACTIVE_INIT_SENT,
            so_script := (so_script s)\<lparr> local_initial_tsn := tsn, local_initiate_tag := tag \<rparr> \<rparr>)
        })
   }"

definition handle_connect_for_script_packet ::
    "state \<Rightarrow> packet \<Rightarrow> direction_t \<Rightarrow> (nat option \<times> state) option" where
  "handle_connect_for_script_packet state packet direction = do {
     let config = st_config state;
     c_assert (pkt_tcp packet \<noteq> None \<or> pkt_sctp packet \<noteq> None);
     if direction \<noteq> DIRECTION_OUTBOUND then Some (None, state)
     else do {
       opening \<leftarrow> opening_packet packet;
       (case opening of
          None \<Rightarrow> Some (None, state)
        | Some init \<Rightarrow> (case socket_under_test state of
            Some i \<Rightarrow>
              if is_wire_server config then Some (None, state)
              else do {
                s \<leftarrow> sock state i;
                if so_state s \<noteq> SOCKET_ACTIVE_CONNECTING then Some (None, state)
                else do { s \<leftarrow> fill_connect packet init s; Some (Some i, set_sock i s state) }
              }
          | None \<Rightarrow>
              if \<not> is_wire_server config then Some (None, state)
              else do {
                protocol \<leftarrow> packet_ip_protocol packet (udp_encaps config);
                s \<leftarrow> fill_connect packet init (socket_new\<lparr>
                  so_address_family := packet_address_family packet, so_protocol := protocol,
                  so_script := socket_state_zero\<lparr> ss_fd := - 1 \<rparr>,
                  so_live := socket_state_zero\<lparr> ss_fd := - 1,
                    ss_remote := \<lparr> ep_ip = live_remote_ip config, ep_port = live_connect_port config \<rparr> \<rparr> \<rparr>);
                (i, state) \<leftarrow> Some (add_socket s state);
                Some (Some i, state)
              }))
     }
   }"

definition is_connect_match :: "socket \<Rightarrow> packet \<Rightarrow> bool option" where
  "is_connect_match s packet = do {
     is_syn \<leftarrow> (case pkt_tcp packet of
         None \<Rightarrow> Some False
       | Some tcp \<Rightarrow> do {
           syn \<leftarrow> tcp_syn (pkt_buffer packet) tcp;
           ack \<leftarrow> tcp_ack (pkt_buffer packet) tcp;
           Some (syn \<and> \<not> ack)
         });
     Some (
       pkt_sctp packet \<noteq> None \<and> so_protocol s = IPPROTO_SCTP \<and> so_state s = SOCKET_ACTIVE_INIT_SENT \<or>
       is_syn \<and> so_protocol s = IPPROTO_TCP \<and> so_state s = SOCKET_ACTIVE_SYN_SENT \<or>
       pkt_udp packet \<noteq> None \<and> so_protocol s = IPPROTO_UDP \<and> so_state s = SOCKET_ACTIVE_CONNECTING \<or>
       pkt_udplite packet \<noteq> None \<and> so_protocol s = IPPROTO_UDPLITE \<and> so_state s = SOCKET_ACTIVE_CONNECTING)
   }"

text \<open>The live values of the opening packet that the kernel sent.\<close>

definition learn_local :: "packet \<Rightarrow> socket \<Rightarrow> socket option" where
  "learn_local packet s = do {
     s \<leftarrow> (case pkt_tcp packet of
         None \<Rightarrow> Some s
       | Some tcp \<Rightarrow> do {
           seq \<leftarrow> tcp_seq (pkt_buffer packet) tcp;
           Some (s\<lparr> so_live := (so_live s)\<lparr> local_isn := seq \<rparr> \<rparr>)
         });
     if pkt_sctp packet = None then Some s
     else do {
       (iter, err) \<leftarrow> sctp_chunks_begin packet;
       (case it_current iter of
          None \<Rightarrow> Some s
        | Some chunk \<Rightarrow>
            if err \<noteq> None then Some s
            else do {
              type \<leftarrow> rd8 (pkt_buffer packet) chunk;
              if type \<noteq> SCTP_INIT_CHUNK_TYPE then Some s
              else do {
                tag \<leftarrow> rd32 (pkt_buffer packet) (chunk + 4);
                tsn \<leftarrow> rd32 (pkt_buffer packet) (chunk + 16);
                Some (s\<lparr> so_live := (so_live s)\<lparr> local_initiate_tag := tag, local_initial_tsn := tsn \<rparr> \<rparr>)
              }
            })
     }
   }"

definition find_connect_for_live_packet :: "state \<Rightarrow> packet \<Rightarrow> (nat option \<times> direction_t \<times> state) option" where
  "find_connect_for_live_packet state packet = do {
     tuple \<leftarrow> get_packet_tuple packet;
     (case socket_under_test state of
        None \<Rightarrow> Some (None, DIRECTION_INVALID, state)
      | Some i \<Rightarrow> do {
          s \<leftarrow> sock state i;
          match \<leftarrow> is_connect_match s packet;
          if \<not> match then Some (None, DIRECTION_INVALID, state)
          else do {
            same_ip \<leftarrow> is_equal_ip (ep_ip (tup_dst tuple)) (ep_ip (ss_remote (so_live s)));
            if \<not> same_ip \<or> ep_port (tup_dst tuple) \<noteq> ep_port (ss_remote (so_live s))
            then Some (None, DIRECTION_INVALID, state)
            else do {
              s \<leftarrow> learn_local packet (s\<lparr> so_live := (so_live s)\<lparr> ss_local := tup_src tuple \<rparr> \<rparr>);
              Some (Some i, DIRECTION_OUTBOUND, set_sock i s state)
            }
          }
        })
   }"

section \<open>Sniffing\<close>

text \<open>The loop of \<^verbatim>\<open>sniff_outbound_live_packet\<close> over the packets that the device delivers.\<close>

fun sniff_loop :: "(string, packet) status list \<Rightarrow> state \<Rightarrow> ((run_error, nat \<times> packet) status \<times> state) option" where
  "sniff_loop [] state = None"
| "sniff_loop (Inl err # rest) state = Some (Inl (Run_error err), state\<lparr> received := rest \<rparr>)"
| "sniff_loop (Inr packet # rest) state = do {
     r \<leftarrow> find_socket_for_live_packet state packet;
     (case r of
        (Some i, DIRECTION_OUTBOUND) \<Rightarrow> Some (Inr (i, packet), state\<lparr> received := rest \<rparr>)
      | _ \<Rightarrow> do {
          r \<leftarrow> find_connect_for_live_packet state packet;
          (case r of
             (Some i, DIRECTION_OUTBOUND, state) \<Rightarrow> Some (Inr (i, packet), state\<lparr> received := rest \<rparr>)
           | (_, _, state) \<Rightarrow> sniff_loop rest state)
        })
   }"

definition sniff_outbound_live_packet :: "state \<Rightarrow> nat \<Rightarrow> ((run_error, packet) status \<times> state) option" where
  "sniff_outbound_live_packet state expected_socket = do {
     (r, state) \<leftarrow> sniff_loop (received state) state;
     Some (case r of
       Inl err \<Rightarrow> (Inl err, state)
     | Inr (i, packet) \<Rightarrow>
         (if i \<noteq> expected_socket then Inl (Run_error ''packet is not for expected socket'') else Inr packet,
          state))
   }"

section \<open>The socket of a script packet\<close>

definition is_script_packet_match_for_socket :: "packet \<Rightarrow> socket \<Rightarrow> bool option" where
  "is_script_packet_match_for_socket packet s =
     (let is_packet_icmp = (pkt_icmpv4 packet \<noteq> None \<or> pkt_icmpv6 packet \<noteq> None) in
      if so_protocol s = IPPROTO_SCTP then Some (pkt_sctp packet \<noteq> None \<or> is_packet_icmp)
      else if so_protocol s = IPPROTO_TCP then Some (pkt_tcp packet \<noteq> None \<or> is_packet_icmp)
      else if so_protocol s = IPPROTO_UDP then Some (pkt_udp packet \<noteq> None \<or> is_packet_icmp)
      else if so_protocol s = IPPROTO_UDPLITE then Some (pkt_udplite packet \<noteq> None \<or> is_packet_icmp)
      else None)"

definition find_or_create_socket_for_script_packet ::
    "state \<Rightarrow> packet \<Rightarrow> direction_t \<Rightarrow> ((run_error, nat) status \<times> state) option" where
  "find_or_create_socket_for_script_packet state packet direction = do {
     (socket, state) \<leftarrow> (if pkt_tcp packet \<noteq> None \<or> pkt_sctp packet \<noteq> None
       then do {
         (socket, state) \<leftarrow> handle_listen_for_script_packet state packet direction;
         (case socket of
            Some i \<Rightarrow> Some (Some i, state)
          | None \<Rightarrow> handle_connect_for_script_packet state packet direction)
       }
       else Some (None, state));
     (case socket of
        Some i \<Rightarrow> Some (Inr i, state)
      | None \<Rightarrow> do {
          match \<leftarrow> (case socket_under_test state of
              None \<Rightarrow> Some None
            | Some i \<Rightarrow> do {
                s \<leftarrow> sock state i;
                m \<leftarrow> is_script_packet_match_for_socket packet s;
                Some (if m then Some i else None)
              });
          Some (case match of
            Some i \<Rightarrow> (Inr i, state)
          | None \<Rightarrow> (Inl (Run_error ''no matching socket for script packet''), state))
        })
   }"

section \<open>Outbound packets\<close>

definition awaits_reply :: "socket \<Rightarrow> bool" where
  "awaits_reply s \<longleftrightarrow>
     so_state s = SOCKET_PASSIVE_PACKET_RECEIVED \<or> so_state s = SOCKET_PASSIVE_COOKIE_ECHO_RECEIVED"

text \<open>The script's SYN-ACK or INIT-ACK tells the local numbers of the script.\<close>

definition note_script_reply :: "packet \<Rightarrow> socket \<Rightarrow> socket option" where
  "note_script_reply packet s =
     (if \<not> awaits_reply s then Some s
      else do {
        s \<leftarrow> (case pkt_tcp packet of
            None \<Rightarrow> Some s
          | Some tcp \<Rightarrow> do {
              syn \<leftarrow> tcp_syn (pkt_buffer packet) tcp;
              ack \<leftarrow> tcp_ack (pkt_buffer packet) tcp;
              seq \<leftarrow> tcp_seq (pkt_buffer packet) tcp;
              Some (if syn \<and> ack \<and> pkt_flags packet AND FLAG_IGNORE_SEQ = 0
                then s\<lparr> so_script := (so_script s)\<lparr> local_isn := seq \<rparr> \<rparr> else s)
            });
        if pkt_sctp packet = None then Some s
        else do {
          items \<leftarrow> pkt_chunk_list packet;
          (case items of
             [] \<Rightarrow> Some s
           | item # _ \<Rightarrow> do {
               chunk \<leftarrow> chunk_ptr item;
               type \<leftarrow> rd8 (pkt_buffer packet) chunk;
               if type \<noteq> SCTP_INIT_ACK_CHUNK_TYPE then Some s
               else do {
                 tag \<leftarrow> rd32 (pkt_buffer packet) (chunk + 4);
                 tsn \<leftarrow> rd32 (pkt_buffer packet) (chunk + 16);
                 Some (s\<lparr> so_script := (so_script s)\<lparr> local_initiate_tag := tag, local_initial_tsn := tsn \<rparr> \<rparr>)
               }
             })
        }
      })"

text \<open>The live SYN-ACK.\<close>

definition note_synack :: "packet \<Rightarrow> packet \<Rightarrow> socket \<Rightarrow> socket option" where
  "note_synack packet live_packet s = (case pkt_tcp packet of
      None \<Rightarrow> Some s
    | Some tcp \<Rightarrow> do {
        syn \<leftarrow> tcp_syn (pkt_buffer packet) tcp;
        ack \<leftarrow> tcp_ack (pkt_buffer packet) tcp;
        if so_state s = SOCKET_PASSIVE_PACKET_RECEIVED \<and> syn \<and> ack
        then do {
          live \<leftarrow> pkt_tcp live_packet;
          seq \<leftarrow> tcp_seq (pkt_buffer live_packet) live;
          Some (s\<lparr> so_state := SOCKET_PASSIVE_SYNACK_SENT, so_live := (so_live s)\<lparr> local_isn := seq \<rparr> \<rparr>)
        }
        else Some s
      })"

text \<open>Chunks kept for later injection: the header and the value with its padding.\<close>

definition pad4 :: "u16 \<Rightarrow> u16" where
  "pad4 n = (let p = n mod 4 in if p > 0 then 4 - p else p)"

definition prepared_chunk :: "u8 \<Rightarrow> u16 \<Rightarrow> bytes \<Rightarrow> u16 \<Rightarrow> bytes" where
  "prepared_chunk type len value pad = [type, 0] @ be16_to len @ value @ replicate (unat pad) 0"

text \<open>A run of the loops below ends with an error and the socket so far, or with the socket.\<close>

type_synonym socket_run = "(run_error \<times> socket, socket) status"

definition note_parameter ::
    "bytes \<Rightarrow> nat \<Rightarrow> socket \<Rightarrow> (socket_run, socket) status option" where
  "note_parameter b parameter s = do {
     type \<leftarrow> rd16 b parameter;
     len \<leftarrow> rd16 b (parameter + 2);
     if type \<noteq> SCTP_STATE_COOKIE_PARAMETER_TYPE then Some (Inr s)
     else if unat len < 4 then Some (Inl (Inl (Run_error ''State Cookie parameter too short'', s)))
     else do {
       let cookie_length = len - 4;
       let clen = 4 + cookie_length;
       cookie \<leftarrow> rd_bytes b (parameter + 4) (unat cookie_length);
       Some (Inl (Inr (s\<lparr>
         prepared_cookie_echo := Some (prepared_chunk SCTP_COOKIE_ECHO_CHUNK_TYPE clen cookie (pad4 cookie_length)),
         prepared_cookie_echo_length := clen + pad4 cookie_length \<rparr>)))
     }
   }"

text \<open>The parameters of an INIT-ACK up to the first state cookie, at which the loop is left.\<close>

definition note_init_ack :: "bytes \<Rightarrow> nat \<Rightarrow> u16 \<Rightarrow> socket \<Rightarrow> socket_run option" where
  "note_init_ack b chunk len s =
     (if unat len < sizeof_sctp_init_ack_chunk then Some (Inl (Run_error ''INIT_ACK chunk too short'', s))
      else do {
        p \<leftarrow> sctp_parameters_begin b (chunk + 20) (len - 20);
        r \<leftarrow> sctp_loop PARAMETER (\<lambda>_. b)
          (\<lambda>_ s. Some (Inl (Inl (Run_error ''Partial parameter for outbound packet'', s))))
          (note_parameter b) p s;
        (case (case r of Inl x \<Rightarrow> x | Inr s \<Rightarrow> Inr s) of
           Inl err \<Rightarrow> Some (Inl err)
         | Inr s \<Rightarrow> do {
             tag \<leftarrow> rd32 b (chunk + 4);
             tsn \<leftarrow> rd32 b (chunk + 16);
             Some (Inr (s\<lparr> so_state := SOCKET_PASSIVE_INIT_ACK_SENT,
               so_live := (so_live s)\<lparr> local_initiate_tag := tag, local_initial_tsn := tsn \<rparr> \<rparr>))
           })
      })"

definition note_heartbeat :: "bytes \<Rightarrow> nat \<Rightarrow> u16 \<Rightarrow> socket \<Rightarrow> socket_run option" where
  "note_heartbeat b chunk len s =
     (if unat len < 4 then Some (Inl (Run_error ''HEARTBEAT chunk too short'', s))
      else do {
        let value_length = len - 4;
        info \<leftarrow> rd_bytes b (chunk + 4) (unat value_length);
        Some (Inr (s\<lparr>
          prepared_heartbeat_ack := Some (prepared_chunk SCTP_HEARTBEAT_ACK_CHUNK_TYPE len info (pad4 len)),
          prepared_heartbeat_ack_length := len + pad4 len \<rparr>))
      })"

definition note_chunk :: "bytes \<Rightarrow> nat \<Rightarrow> socket \<Rightarrow> socket_run option" where
  "note_chunk b chunk s = do {
     type \<leftarrow> rd8 b chunk;
     len \<leftarrow> rd16 b (chunk + 2);
     r \<leftarrow> (if awaits_reply s \<and> type = SCTP_INIT_ACK_CHUNK_TYPE then note_init_ack b chunk len s
       else Some (Inr s));
     (case r of
        Inl err \<Rightarrow> Some (Inl err)
      | Inr s \<Rightarrow> if type = SCTP_HEARTBEAT_CHUNK_TYPE then note_heartbeat b chunk len s else Some (Inr s))
   }"

definition note_live_chunks :: "packet \<Rightarrow> socket \<Rightarrow> socket_run option" where
  "note_live_chunks live_packet s =
     (if pkt_sctp live_packet = None then Some (Inr s)
      else do {
        p \<leftarrow> sctp_chunks_begin live_packet;
        sctp_loop CHUNK (\<lambda>_. pkt_buffer live_packet)
          (\<lambda>_ s. Some (Inl (Run_error ''Partial chunk for outbound packet'', s)))
          (note_chunk (pkt_buffer live_packet)) p s
      })"

text \<open>The ports of the UDP header in front of the header at offset \<open>p\<close>, for packets encapsulated in UDP.\<close>

definition encaps_ports :: "packet \<Rightarrow> nat \<Rightarrow> (u16 \<times> u16) option option" where
  "encaps_ports packet p =
     (if pkt_flags packet AND FLAGS_UDP_ENCAPSULATED = 0 then Some None
      else if p < sizeof_udp then None
      else do {
        src \<leftarrow> rd16 (pkt_buffer packet) (p - sizeof_udp);
        dst \<leftarrow> rd16 (pkt_buffer packet) (p - sizeof_udp + 2);
        Some (Some (src, dst))
      })"

definition set_outbound_ports :: "(u16 \<times> u16) option \<Rightarrow> socket \<Rightarrow> socket" where
  "set_outbound_ports ports s = (case ports of
      None \<Rightarrow> s
    | Some (src, dst) \<Rightarrow> s\<lparr> last_outbound_udp_encaps_src_port := src, last_outbound_udp_encaps_dst_port := dst \<rparr>)"

definition set_injected_ports :: "(u16 \<times> u16) option \<Rightarrow> socket \<Rightarrow> socket" where
  "set_injected_ports ports s = (case ports of
      None \<Rightarrow> s
    | Some (src, dst) \<Rightarrow> s\<lparr> last_injected_udp_encaps_src_port := src, last_injected_udp_encaps_dst_port := dst \<rparr>)"

text \<open>The headers are saved to reset the connection at the end.\<close>

definition save_outbound :: "packet \<Rightarrow> socket \<Rightarrow> socket option" where
  "save_outbound live_packet s = do {
     s \<leftarrow> (case pkt_tcp live_packet of
         None \<Rightarrow> Some s
       | Some tcp \<Rightarrow> do {
           header \<leftarrow> rd_bytes (pkt_buffer live_packet) tcp sizeof_tcp;
           len \<leftarrow> packet_payload_len live_packet;
           ports \<leftarrow> encaps_ports live_packet tcp;
           Some (set_outbound_ports ports (s\<lparr> last_outbound_tcp_header := header,
             last_outbound_tcp_payload_len := word_of_int len \<rparr>))
         });
     (case pkt_sctp live_packet of
        None \<Rightarrow> Some s
      | Some sctp \<Rightarrow> do { ports \<leftarrow> encaps_ports live_packet sctp; Some (set_outbound_ports ports s) })
   }"

definition do_outbound_script_packet ::
    "(nat \<Rightarrow> u8) \<Rightarrow> state \<Rightarrow> packet \<Rightarrow> nat \<Rightarrow> (run_status \<times> state) option" where
  "do_outbound_script_packet junk state packet i =
     (if pkt_icmpv4 packet \<noteq> None \<or> pkt_icmpv6 packet \<noteq> None
      then Some (STATUS_ERR (Run_error ''outbound ICMP packets are not supported''), state)
      else do {
        s \<leftarrow> sock state i;
        s \<leftarrow> note_script_reply packet s;
        (r, state) \<leftarrow> sniff_outbound_live_packet (set_sock i s state) i;
        (case r of
           Inl err \<Rightarrow> Some (STATUS_ERR err, state)
         | Inr live_packet \<Rightarrow> do {
             s \<leftarrow> sock state i;
             s \<leftarrow> note_synack packet live_packet s;
             r \<leftarrow> note_live_chunks live_packet s;
             (case r of
                Inl (err, s) \<Rightarrow> Some (STATUS_ERR err, set_sock i s state)
              | Inr s \<Rightarrow> do {
                  s \<leftarrow> save_outbound live_packet s;
                  (status, s, _) \<leftarrow> verify_outbound_live_packet junk state s packet live_packet;
                  Some (status, set_sock i s state)
                })
           })
      })"

section \<open>Inbound packets\<close>

definition send_live_ip_packet :: "state \<Rightarrow> packet \<Rightarrow> (bool \<times> state) option" where
  "send_live_ip_packet state packet = do {
     c_assert (pkt_ip_bytes packet > 0);
     c_assert (pkt_ipv4 packet \<noteq> None \<or> pkt_ipv6 packet \<noteq> None);
     c_assert (pkt_sctp packet \<noteq> None \<or> pkt_tcp packet \<noteq> None \<or> pkt_udp packet \<noteq> None \<or>
       pkt_udplite packet \<noteq> None \<or> pkt_icmpv4 packet \<noteq> None \<or> pkt_icmpv6 packet \<noteq> None);
     packet \<leftarrow> checksum_packet packet;
     Some (send_ok state packet, state\<lparr> sent := sent state @ [packet] \<rparr>)
   }"

text \<open>The handshake as seen from the script.\<close>

definition note_inbound_tcp :: "packet \<Rightarrow> socket \<Rightarrow> socket option" where
  "note_inbound_tcp packet s = (case pkt_tcp packet of
      None \<Rightarrow> Some s
    | Some tcp \<Rightarrow> do {
        syn \<leftarrow> tcp_syn (pkt_buffer packet) tcp;
        ack \<leftarrow> tcp_ack (pkt_buffer packet) tcp;
        seq \<leftarrow> tcp_seq (pkt_buffer packet) tcp;
        Some (if so_state s = SOCKET_PASSIVE_SYNACK_SENT \<and> ack then s\<lparr> so_state := SOCKET_PASSIVE_SYNACK_ACKED \<rparr>
          else if so_state s = SOCKET_ACTIVE_SYN_SENT \<and> syn \<and> ack
          then set_remote_isn seq (s\<lparr> so_state := SOCKET_ACTIVE_SYN_ACKED \<rparr>)
          else s)
      })"

text \<open>What the loop over the chunks of the script packet changes. \<open>claimed\<close> is the member \<^verbatim>\<open>buffer_bytes\<close> of
  the packet, which grows with each substituted chunk although the memory does not.\<close>

record injection =
  in_packet :: packet
  claimed :: nat
  in_socket :: socket
  in_offset :: u16

definition grow_header :: "nat \<Rightarrow> u16 \<Rightarrow> packet \<Rightarrow> packet" where
  "grow_header i d packet = packet\<lparr> pkt_headers := (pkt_headers packet)[i :=
     (pkt_headers packet ! i)\<lparr> total_bytes := total_bytes (pkt_headers packet ! i) + unat d \<rparr>] \<rparr>"

text \<open>The position of the innermost IP header among the headers, or their number.\<close>

definition ip_header_index :: "packet \<Rightarrow> nat" where
  "ip_header_index packet = length (takeWhile (\<lambda>h.
     \<not> (pkt_ipv4 packet \<noteq> None \<and> hptr h = pkt_ipv4 packet \<or> pkt_ipv6 packet \<noteq> None \<and> hptr h = pkt_ipv6 packet))
     (pkt_headers packet))"

text \<open>The lengths in the headers of the packet grow by \<open>d\<close> bytes.\<close>

definition grow_headers :: "u16 \<Rightarrow> packet \<Rightarrow> packet option" where
  "grow_headers d packet = do {
     packet \<leftarrow> (case pkt_ipv4 packet of
         None \<Rightarrow> Some packet
       | Some p \<Rightarrow> upd_buffer (\<lambda>b. do { n \<leftarrow> rd16 b (p + 2); wr16 b (p + 2) (n + d) }) packet);
     packet \<leftarrow> (case pkt_ipv6 packet of
         None \<Rightarrow> Some packet
       | Some p \<Rightarrow> upd_buffer (\<lambda>b. do { n \<leftarrow> rd16 b (p + 4); wr16 b (p + 4) (n + d) }) packet);
     let i = ip_header_index packet;
     if pkt_flags packet AND FLAGS_UDP_ENCAPSULATED \<noteq> 0
     then do {
       c_assert (i + 2 < PACKET_MAX_HEADERS);
       c_assert (htype (pkt_headers packet ! (i + 1)) = HEADER_UDP);
       c_assert (htype (pkt_headers packet ! (i + 2)) = HEADER_SCTP);
       let packet = grow_header (i + 2) d (grow_header (i + 1) d (grow_header i d packet));
       sctp \<leftarrow> pkt_sctp packet;
       c_assert (sctp \<ge> sizeof_udp);
       upd_buffer (\<lambda>b. do { n \<leftarrow> rd16 b (sctp - sizeof_udp + 4); wr16 b (sctp - sizeof_udp + 4) (n + d) }) packet
     }
     else do {
       c_assert (i + 1 < PACKET_MAX_HEADERS);
       c_assert (htype (pkt_headers packet ! (i + 1)) = HEADER_SCTP);
       Some (grow_header (i + 1) d (grow_header i d packet))
     }
   }"

text \<open>A chunk whose value the script leaves open is replaced by the chunk prepared from the packets of the
  kernel; what follows it is moved.\<close>

definition substitute_chunk ::
    "bytes option \<Rightarrow> u16 \<Rightarrow> sctp_chunk_list_item \<Rightarrow> nat \<Rightarrow> injection \<Rightarrow>
       (sctp_chunk_list_item \<times> injection) option" where
  "substitute_chunk prepared len item chunk jn = do {
     let packet = in_packet jn;
     let temp_offset = len - ucast (chunk_length item);
     c_assert (pkt_ip_bytes packet + unat temp_offset \<le> claimed jn);
     e \<leftarrow> packet_end packet;
     let tail = chunk + unat (chunk_length item);
     c_assert (tail \<le> e);
     packet \<leftarrow> upd_buffer (\<lambda>b. do {
       rest \<leftarrow> rd_bytes b tail (e - tail);
       b \<leftarrow> wr_bytes b (tail + unat temp_offset) rest;
       new \<leftarrow> rd_bytes (case prepared of None \<Rightarrow> [] | Some x \<Rightarrow> x) 0 (unat len);
       wr_bytes b chunk new
     }) packet;
     packet \<leftarrow> grow_headers temp_offset (packet\<lparr> pkt_ip_bytes := pkt_ip_bytes packet + unat temp_offset \<rparr>);
     Some (item\<lparr> chunk_length := ucast len \<rparr>,
       jn\<lparr> in_packet := packet, claimed := claimed jn + unat temp_offset,
         in_offset := in_offset jn + temp_offset \<rparr>)
   }"

definition inject_init_ack :: "nat \<Rightarrow> u16 \<Rightarrow> injection \<Rightarrow> injection option" where
  "inject_init_ack chunk len jn =
     (if unat len \<ge> sizeof_sctp_init_ack_chunk \<and> so_state (in_socket jn) = SOCKET_ACTIVE_INIT_SENT
      then do {
        tag \<leftarrow> rd32 (pkt_buffer (in_packet jn)) (chunk + 4);
        tsn \<leftarrow> rd32 (pkt_buffer (in_packet jn)) (chunk + 16);
        Some (jn\<lparr> in_socket := sctp_socket_set_initial_tsn tsn (sctp_socket_set_initiate_tag tag
          ((in_socket jn)\<lparr> so_state := SOCKET_ACTIVE_INIT_ACK_RECEIVED \<rparr>)) \<rparr>)
      }
      else Some jn)"

definition inject_cookie_echo ::
    "sctp_chunk_list_item \<Rightarrow> nat \<Rightarrow> injection \<Rightarrow> (sctp_chunk_list_item \<times> injection) option" where
  "inject_cookie_echo item chunk jn = do {
     (item, jn) \<leftarrow> (if has_flag (chunk_flags item) FLAG_CHUNK_VALUE_NOCHECK
       then substitute_chunk (prepared_cookie_echo (in_socket jn))
         (prepared_cookie_echo_length (in_socket jn)) item chunk jn
       else Some (item, jn));
     let packet = in_packet jn;
     let tag = local_initiate_tag (so_script (in_socket jn));
     sctp \<leftarrow> pkt_sctp packet;
     v_tag \<leftarrow> sctp_v_tag (pkt_buffer packet) sctp;
     Some (item,
       if pkt_flags packet AND FLAGS_SCTP_BAD_CRC32C = 0 \<and>
         (pkt_flags packet AND FLAGS_SCTP_EXPLICIT_TAG = 0 \<or> v_tag = tag \<and> tag \<noteq> 0)
       then jn\<lparr> in_socket := (in_socket jn)\<lparr> so_state := SOCKET_PASSIVE_COOKIE_ECHO_RECEIVED \<rparr> \<rparr> else jn)
   }"

definition inject_chunk ::
    "sctp_chunk_list_item \<Rightarrow> injection \<Rightarrow> (sctp_chunk_list_item \<times> injection) option" where
  "inject_chunk item jn = do {
     chunk \<leftarrow> chunk_ptr item;
     len \<leftarrow> rd16 (pkt_buffer (in_packet jn)) (chunk + 2);
     type \<leftarrow> rd8 (pkt_buffer (in_packet jn)) chunk;
     if type = SCTP_INIT_ACK_CHUNK_TYPE then do { jn \<leftarrow> inject_init_ack chunk len jn; Some (item, jn) }
     else if type = SCTP_COOKIE_ECHO_CHUNK_TYPE then inject_cookie_echo item chunk jn
     else if type = SCTP_HEARTBEAT_ACK_CHUNK_TYPE
     then (if has_flag (chunk_flags item) FLAG_CHUNK_VALUE_NOCHECK
       then substitute_chunk (prepared_heartbeat_ack (in_socket jn))
         (prepared_heartbeat_ack_length (in_socket jn)) item chunk jn
       else Some (item, jn))
     else Some (item\<lparr> chunk_ptr := Some (chunk + unat (in_offset jn)) \<rparr>, jn)
   }"

fun inject_chunks ::
    "sctp_chunk_list_item list \<Rightarrow> injection \<Rightarrow> (sctp_chunk_list_item list \<times> injection) option" where
  "inject_chunks [] jn = Some ([], jn)"
| "inject_chunks (item # items) jn = do {
     (item, jn) \<leftarrow> inject_chunk item jn;
     (items, jn) \<leftarrow> inject_chunks items jn;
     Some (item # items, jn)
   }"

definition inject_sctp :: "packet \<Rightarrow> socket \<Rightarrow> injection option" where
  "inject_sctp packet s =
     (let jn = \<lparr> in_packet = packet, claimed = pkt_buffer_bytes packet, in_socket = s, in_offset = 0 \<rparr> in
      case pkt_chunk_list packet of
        None \<Rightarrow> Some jn
      | Some items \<Rightarrow>
          if pkt_sctp packet = None then Some jn
          else do {
            (items, jn) \<leftarrow> inject_chunks items jn;
            Some (jn\<lparr> in_packet := (in_packet jn)\<lparr> pkt_chunk_list := Some items \<rparr> \<rparr>)
          })"

text \<open>The copy has at least as many bytes as the packet claims to have.\<close>

definition copy_claimed :: "(nat \<Rightarrow> u8) \<Rightarrow> nat \<Rightarrow> packet \<Rightarrow> packet option" where
  "copy_claimed junk n packet = do {
     live_packet \<leftarrow> packet_copy junk packet;
     let b = pkt_buffer live_packet;
     Some (live_packet\<lparr> pkt_buffer := b @ map junk [length b..<n] \<rparr>)
   }"

definition save_injected :: "packet \<Rightarrow> socket \<Rightarrow> socket option" where
  "save_injected live_packet s = do {
     s \<leftarrow> (case pkt_tcp live_packet of
         None \<Rightarrow> Some s
       | Some tcp \<Rightarrow> do {
           header \<leftarrow> rd_bytes (pkt_buffer live_packet) tcp sizeof_tcp;
           len \<leftarrow> packet_payload_len live_packet;
           ports \<leftarrow> encaps_ports live_packet tcp;
           Some (set_injected_ports ports (s\<lparr> last_injected_tcp_header := header,
             last_injected_tcp_payload_len := word_of_int len \<rparr>))
         });
     (case pkt_sctp live_packet of
        None \<Rightarrow> Some s
      | Some sctp \<Rightarrow> do { ports \<leftarrow> encaps_ports live_packet sctp; Some (set_injected_ports ports s) })
   }"

definition has_wildcard_source :: "packet \<Rightarrow> bool option" where
  "has_wildcard_source packet = do {
     v4 \<leftarrow> (case pkt_ipv4 packet of
         None \<Rightarrow> Some False
       | Some p \<Rightarrow> do { src \<leftarrow> ipv4_src_ip (pkt_buffer packet) p; Some (src = replicate 4 0) });
     v6 \<leftarrow> (case pkt_ipv6 packet of
         None \<Rightarrow> Some False
       | Some p \<Rightarrow> do { src \<leftarrow> ipv6_src_ip (pkt_buffer packet) p; Some (src = replicate 16 0) });
     Some (v4 \<or> v6)
   }"

text \<open>A packet to a listening socket has no source address yet: it gets that of a new child socket.\<close>

definition adopt_child :: "state \<Rightarrow> packet \<Rightarrow> packet \<Rightarrow> (packet \<times> state) option" where
  "adopt_child state packet live_packet = do {
     wildcard \<leftarrow> has_wildcard_source live_packet;
     if \<not> wildcard then Some (live_packet, state)
     else do {
       (child, state) \<leftarrow> setup_new_child_socket state packet;
       s \<leftarrow> sock state child;
       live_packet \<leftarrow> set_packet_tuple live_packet (socket_get_inbound (so_live s))
         (udp_encaps (st_config state) \<noteq> 0);
       Some (live_packet, state)
     }
   }"

definition do_inbound_script_packet ::
    "(nat \<Rightarrow> u8) \<Rightarrow> state \<Rightarrow> packet \<Rightarrow> nat \<Rightarrow> (run_status \<times> state) option" where
  "do_inbound_script_packet junk state packet i = do {
     s \<leftarrow> sock state i;
     s \<leftarrow> note_inbound_tcp packet s;
     jn \<leftarrow> inject_sctp packet s;
     let packet = in_packet jn;
     let s = in_socket jn;
     live_packet \<leftarrow> copy_claimed junk (claimed jn) packet;
     r \<leftarrow> map_inbound_packet s live_packet (udp_encaps (st_config state));
     (case r of
        Inl err \<Rightarrow> Some (STATUS_ERR (Map_error err), set_sock i s state)
      | Inr live_packet \<Rightarrow> do {
          s \<leftarrow> save_injected live_packet s;
          (live_packet, state) \<leftarrow> adopt_child (set_sock i s state) packet live_packet;
          (ok, state) \<leftarrow> send_live_ip_packet state live_packet;
          Some (if ok then STATUS_OK else STATUS_ERR (Run_error []), state)
        })
   }"

section \<open>Packet events\<close>

definition run_packet_event :: "(nat \<Rightarrow> u8) \<Rightarrow> state \<Rightarrow> packet \<Rightarrow> (run_status \<times> state) option" where
  "run_packet_event junk state packet = do {
     let direction = pkt_direction packet;
     c_assert (direction \<noteq> DIRECTION_INVALID);
     (r, state) \<leftarrow> find_or_create_socket_for_script_packet state packet direction;
     (case r of
        Inl err \<Rightarrow> Some (STATUS_ERR err, state)
      | Inr i \<Rightarrow>
          if direction = DIRECTION_OUTBOUND then do_outbound_script_packet junk state packet i
          else do {
            state \<leftarrow> wait_for_event state;
            do_inbound_script_packet junk state packet i
          })
   }"

section \<open>Resetting a connection\<close>

text \<open>The numbers and the acknowledgement bit of the reset, from the last header that the kernel sent or,
  failing that, was given.\<close>

definition reset_numbers :: "socket \<Rightarrow> (u32 \<times> u32 \<times> bool) option option" where
  "reset_numbers s = do {
     let out = last_outbound_tcp_header s;
     let jn = last_injected_tcp_header s;
     out_doff \<leftarrow> tcp_doff out 0;
     inj_doff \<leftarrow> tcp_doff jn 0;
     if out_doff > 0
     then do {
       ack \<leftarrow> tcp_ack out 0;
       if ack
       then do { seq \<leftarrow> tcp_ack_seq out 0; Some (Some (seq, 0, False)) }
       else do {
         seq \<leftarrow> tcp_seq out 0;
         syn \<leftarrow> tcp_syn out 0;
         fin \<leftarrow> tcp_fin out 0;
         Some (Some (0, seq + of_bool syn + of_bool fin + last_outbound_tcp_payload_len s, True))
       }
     }
     else if inj_doff > 0
     then do {
       seq \<leftarrow> tcp_seq jn 0;
       syn \<leftarrow> tcp_syn jn 0;
       fin \<leftarrow> tcp_fin jn 0;
       Some (Some (seq + of_bool syn + of_bool fin + last_injected_tcp_payload_len s, 0, False))
     }
     else Some None
   }"

definition encaps_reply_ports :: "socket \<Rightarrow> u16 \<times> u16" where
  "encaps_reply_ports s =
     (if last_outbound_udp_encaps_src_port s \<noteq> 0 \<or> last_outbound_udp_encaps_dst_port s \<noteq> 0
      then (last_outbound_udp_encaps_dst_port s, last_outbound_udp_encaps_src_port s)
      else (last_injected_udp_encaps_src_port s, last_injected_udp_encaps_dst_port s))"

definition reset_spec :: "socket \<Rightarrow> u32 \<Rightarrow> u32 \<Rightarrow> bool \<Rightarrow> tcp_spec" where
  "reset_spec s seq ack_seq ack_bit = \<lparr> spec_af = so_address_family s, spec_direction = DIRECTION_INBOUND,
     spec_ecn = ECN_NONE, spec_flags = (if ack_bit then ''R.'' else ''R''), spec_seq = seq,
     spec_payload_bytes = 0, spec_ack = ack_seq, spec_window = 0, spec_urg_ptr = 0, spec_options = None,
     spec_ignore_ts_val = False, spec_abs_ts_ecr = False, spec_abs_seq = False, spec_ignore_seq = False,
     spec_udp_src_port = fst (encaps_reply_ports s), spec_udp_dst_port = snd (encaps_reply_ports s) \<rparr>"

definition reset_connection :: "(nat \<Rightarrow> u8) \<Rightarrow> state \<Rightarrow> socket \<Rightarrow> (bool \<times> state) option" where
  "reset_connection junk state s = do {
     numbers \<leftarrow> reset_numbers s;
     (case numbers of
        None \<Rightarrow> Some (True, state)
      | Some (seq, ack_seq, ack_bit) \<Rightarrow> do {
          r \<leftarrow> new_tcp_packet junk (reset_spec s seq ack_seq ack_bit);
          (case r of
             Inl _ \<Rightarrow> None
           | Inr packet \<Rightarrow> do {
               packet \<leftarrow> set_packet_tuple packet (socket_get_inbound (so_live s))
                 (udp_encaps (st_config state) \<noteq> 0);
               send_live_ip_packet state packet
             })
        })
   }"

end
