(* ===== verification/Connection_States.thy ===== *)
theory Connection_States
  imports Run_Packet
begin

text \<open>
  The states that the sockets of a run go through while packet events are run: a step relation with one
  rule for each assignment of a socket state in \<^verbatim>\<open>run_packet.c\<close>, and the proof that running a packet event
  takes the sockets of the run only through such steps.
\<close>

section \<open>Steps of a socket\<close>

text \<open>The parameter tells whether the packet of the script is an SCTP packet: only then can a cookie be
  received, and this from any state.\<close>

inductive socket_step :: "bool \<Rightarrow> socket_state_t \<Rightarrow> socket_state_t \<Rightarrow> bool" for sctp where
  Packet_received: "socket_step sctp SOCKET_INIT SOCKET_PASSIVE_PACKET_RECEIVED"
| Syn_sent_wire: "socket_step sctp SOCKET_INIT SOCKET_ACTIVE_SYN_SENT"
| Syn_sent: "socket_step sctp SOCKET_ACTIVE_CONNECTING SOCKET_ACTIVE_SYN_SENT"
| Synack_received: "socket_step sctp SOCKET_ACTIVE_SYN_SENT SOCKET_ACTIVE_SYN_ACKED"
| Synack_sent: "socket_step sctp SOCKET_PASSIVE_PACKET_RECEIVED SOCKET_PASSIVE_SYNACK_SENT"
| Synack_acked: "socket_step sctp SOCKET_PASSIVE_SYNACK_SENT SOCKET_PASSIVE_SYNACK_ACKED"
| Init_ack_sent: "socket_step sctp SOCKET_PASSIVE_PACKET_RECEIVED SOCKET_PASSIVE_INIT_ACK_SENT"
| Init_ack_sent_again: "socket_step sctp SOCKET_PASSIVE_COOKIE_ECHO_RECEIVED SOCKET_PASSIVE_INIT_ACK_SENT"
| Init_sent_wire: "sctp \<Longrightarrow> socket_step sctp SOCKET_INIT SOCKET_ACTIVE_INIT_SENT"
| Init_sent: "sctp \<Longrightarrow> socket_step sctp SOCKET_ACTIVE_CONNECTING SOCKET_ACTIVE_INIT_SENT"
| Init_ack_received: "sctp \<Longrightarrow> socket_step sctp SOCKET_ACTIVE_INIT_SENT SOCKET_ACTIVE_INIT_ACK_RECEIVED"
| Cookie_echo_received: "sctp \<Longrightarrow> socket_step sctp st SOCKET_PASSIVE_COOKIE_ECHO_RECEIVED"

inductive_simps socket_step_from:
  "socket_step sctp SOCKET_PASSIVE_SYNACK_ACKED st"
  "socket_step sctp SOCKET_ACTIVE_SYN_ACKED st"
  "socket_step sctp SOCKET_PASSIVE_LISTENING st"

abbreviation socket_steps :: "bool \<Rightarrow> socket_state_t \<Rightarrow> socket_state_t \<Rightarrow> bool" where
  "socket_steps sctp \<equiv> (socket_step sctp)\<^sup>*\<^sup>*"

lemma socket_steps_one: "socket_step sctp st st' \<Longrightarrow> socket_steps sctp st st'"
  by (rule r_into_rtranclp)

lemmas socket_steps_intros = socket_step.intros [THEN socket_steps_one]

text \<open>Without SCTP the steps climb, so a connection never returns to an earlier state.\<close>

fun handshake_rank :: "socket_state_t \<Rightarrow> nat" where
  "handshake_rank SOCKET_INIT = 0"
| "handshake_rank SOCKET_NEW = 0"
| "handshake_rank SOCKET_PASSIVE_LISTENING = 0"
| "handshake_rank SOCKET_ACTIVE_CONNECTING = 0"
| "handshake_rank SOCKET_PASSIVE_PACKET_RECEIVED = 1"
| "handshake_rank SOCKET_PASSIVE_COOKIE_ECHO_RECEIVED = 1"
| "handshake_rank SOCKET_ACTIVE_SYN_SENT = 1"
| "handshake_rank SOCKET_ACTIVE_INIT_SENT = 1"
| "handshake_rank SOCKET_PASSIVE_SYNACK_SENT = 2"
| "handshake_rank SOCKET_PASSIVE_INIT_ACK_SENT = 2"
| "handshake_rank SOCKET_ACTIVE_SYN_ACKED = 2"
| "handshake_rank SOCKET_ACTIVE_INIT_ACK_RECEIVED = 2"
| "handshake_rank SOCKET_PASSIVE_SYNACK_ACKED = 3"

lemma socket_step_climbs: "socket_step False st st' \<Longrightarrow> handshake_rank st < handshake_rank st'"
  by (induction rule: socket_step.induct) simp_all

lemma socket_steps_climb:
  "socket_steps False st st' \<Longrightarrow> st' = st \<or> handshake_rank st < handshake_rank st'"
  by (induction rule: rtranclp_induct) (use socket_step_climbs in force)+

section \<open>Runs\<close>

definition state_at :: "state \<Rightarrow> nat \<Rightarrow> socket_state_t" where
  "state_at st i = (if i < length (sockets st) then so_state (sockets st ! i) else SOCKET_INIT)"

text \<open>The socket under test is one of the sockets of the run.\<close>

definition run_wf :: "state \<Rightarrow> bool" where
  "run_wf st \<longleftrightarrow> (\<forall>i. socket_under_test st = Some i \<longrightarrow> i < length (sockets st))"

definition advances :: "bool \<Rightarrow> state \<Rightarrow> state \<Rightarrow> bool" where
  "advances sctp st st' \<longleftrightarrow>
     length (sockets st) \<le> length (sockets st') \<and> st_config st' = st_config st \<and>
     (\<exists>new. sent st' = sent st @ new) \<and> (run_wf st \<longrightarrow> run_wf st') \<and>
     (\<forall>i. socket_steps sctp (state_at st i) (state_at st' i))"

lemma advances_refl [simp, intro]: "advances sctp st st"
  by (simp add: advances_def)

lemma advances_trans [trans]:
  assumes "advances sctp st st'" and "advances sctp st' st''"
  shows "advances sctp st st''"
  using assms unfolding advances_def by (auto intro: rtranclp_trans)

lemma advances_set_sock:
  assumes "sock st i = Some s" and "socket_steps sctp (so_state s) (so_state s')"
  shows "advances sctp st (set_sock i s' st)"
  using assms by (auto simp: advances_def set_sock_def sock_def state_at_def run_wf_def nth_list_update
      split: if_splits)

lemma advances_add_socket:
  assumes "socket_steps sctp SOCKET_INIT (so_state s)"
  shows "advances sctp st (snd (add_socket s st))"
  using assms by (auto simp: advances_def add_socket_def state_at_def run_wf_def nth_append)

text \<open>Changes that leave the sockets alone.\<close>

lemma advances_same:
  assumes "sockets st' = sockets st" and "socket_under_test st' = socket_under_test st"
    and "st_config st' = st_config st" and "sent st' = sent st @ new"
  shows "advances sctp st st'"
  using assms by (simp add: advances_def state_at_def run_wf_def)

lemma sock_set_sock [simp]: "i < length (sockets st) \<Longrightarrow> sock (set_sock i s st) i = Some s"
  by (simp add: sock_def set_sock_def)

lemma sock_add_socket: "add_socket s st = (i, st') \<Longrightarrow> sock st' i = Some s"
  by (auto simp: add_socket_def sock_def)

lemma sock_less: "sock st i = Some s \<Longrightarrow> i < length (sockets st)"
  by (simp add: sock_def split: if_splits)

section \<open>Finding the socket\<close>

lemma take_ephemeral_port_advances:
  "take_ephemeral_port st = Some (port, st') \<Longrightarrow> advances sctp st st'"
  by (auto simp: take_ephemeral_port_def ephemeral_port_def Let_def split: if_splits bind_splits list.splits
      intro!: advances_same [where new = "[]"])

lemma setup_new_child_socket_advances:
  assumes "setup_new_child_socket st packet = Some (i, st')"
  shows "advances sctp st st'" "\<exists>s. sock st' i = Some s \<and> so_state s = SOCKET_PASSIVE_PACKET_RECEIVED"
proof -
  obtain port st1 s where 1: "take_ephemeral_port st = Some (port, st1)" "add_socket s st1 = (i, st')"
    "so_state s = SOCKET_PASSIVE_PACKET_RECEIVED"
    using assms by (auto simp: setup_new_child_socket_def Let_def split: bind_splits prod.splits)
  then show "\<exists>s. sock st' i = Some s \<and> so_state s = SOCKET_PASSIVE_PACKET_RECEIVED"
    using sock_add_socket by blast
  have "advances sctp st1 st'"
    using 1 advances_add_socket [of sctp s st1] by (auto intro: socket_steps_intros)
  then show "advances sctp st st'"
    using take_ephemeral_port_advances [OF 1(1)] advances_trans by blast
qed

lemma child_socket_advances:
  assumes "child_socket socket st packet = Some (i, st')"
  shows "advances sctp st st'"
  using assms setup_new_child_socket_advances by (auto simp: child_socket_def split: option.splits)

lemma remote_values_keep_state [simp]:
  "so_state (sctp_socket_set_initiate_tag t s) = so_state s"
  "so_state (sctp_socket_set_initial_tsn t s) = so_state s"
  "so_state (set_remote_isn n s) = so_state s"
  by (simp_all add: sctp_socket_set_initiate_tag_def sctp_socket_set_initial_tsn_def set_remote_isn_def)

lemma store_init_advances:
  assumes "store_init socket st packet init = Some (i, st')"
  shows "advances sctp st st'"
proof -
  obtain st1 s s' where "child_socket socket st packet = Some (i, st1)" "sock st1 i = Some s"
    "st' = set_sock i s' st1" "so_state s' = so_state s"
    using assms by (auto simp: store_init_def split: bind_splits)
  then show ?thesis
    using child_socket_advances [of socket st packet i st1 sctp] advances_set_sock [of st1 i s sctp s']
      advances_trans by fastforce
qed

lemma handle_listen_sctp_advances:
  assumes "handle_listen_sctp st packet socket p = Some r"
  shows "advances sctp st (snd (case r of Inl x \<Rightarrow> x | Inr x \<Rightarrow> x))"
  using assms by (auto simp: handle_listen_sctp_def dest!: store_init_advances [where sctp = sctp]
      split: if_splits bind_splits option.splits list.splits)

lemma handle_listen_advances:
  assumes "handle_listen_for_script_packet st packet direction = Some (socket, st')"
  shows "advances sctp st st'"
proof (cases "st' = st")
  case False
  then obtain r where r: "(case pkt_sctp packet of None \<Rightarrow> Some (Inr (socket_under_test st, st))
      | Some p \<Rightarrow> handle_listen_sctp st packet (socket_under_test st) p) = Some r"
    and rest: "(case r of Inl result \<Rightarrow> Some result
       | Inr (socket, state) \<Rightarrow> (case pkt_tcp packet of
           None \<Rightarrow> Some (socket, state)
         | Some tcp \<Rightarrow> do {
             (i, state) \<leftarrow> child_socket socket state packet;
             s \<leftarrow> sock state i;
             seq \<leftarrow> tcp_seq (pkt_buffer packet) tcp;
             Some (Some i, set_sock i (set_remote_isn seq s) state)
           })) = Some (socket, st')"
    using assms by (auto simp: handle_listen_for_script_packet_def Let_def split: if_splits bind_splits)
  have 1: "advances sctp st (snd (case r of Inl x \<Rightarrow> x | Inr x \<Rightarrow> x))"
    using r handle_listen_sctp_advances by (auto split: option.splits)
  have "advances sctp (snd (case r of Inl x \<Rightarrow> x | Inr x \<Rightarrow> x)) st'"
  proof (cases r)
    case (Inr x)
    then show ?thesis
      using rest by (auto split: option.splits prod.splits bind_splits
          dest!: child_socket_advances [where sctp = sctp]
          intro: advances_trans intro!: advances_set_sock elim!: advances_trans)
  qed (use rest in simp)
  with 1 show ?thesis
    by (rule advances_trans)
qed simp

lemma fill_connect_state:
  assumes "fill_connect packet init s = Some s'" and "init \<noteq> None \<longrightarrow> sctp"
  shows "so_state s' = SOCKET_ACTIVE_SYN_SENT \<or> sctp \<and> so_state s' = SOCKET_ACTIVE_INIT_SENT"
  using assms by (auto simp: fill_connect_def Let_def split: bind_splits option.splits)

lemma opening_packet_sctp:
  "opening_packet packet = Some (Some init) \<Longrightarrow> init \<noteq> None \<longrightarrow> pkt_tcp packet = None"
  by (auto simp: opening_packet_def split: bind_splits option.splits list.splits if_splits)

lemma handle_connect_advances:
  assumes "handle_connect_for_script_packet st packet direction = Some (socket, st')"
    and "sctp = (pkt_sctp packet \<noteq> None)"
  shows "advances sctp st st'"
proof (cases "st' = st")
  case False
  then obtain init where tcp_or_sctp: "pkt_tcp packet \<noteq> None \<or> pkt_sctp packet \<noteq> None"
    and init: "opening_packet packet = Some (Some init)"
    and "(case socket_under_test st of
        Some i \<Rightarrow> \<exists>s s'. sock st i = Some s \<and> so_state s = SOCKET_ACTIVE_CONNECTING \<and>
          fill_connect packet init s = Some s' \<and> st' = set_sock i s' st
      | None \<Rightarrow> \<exists>s s'. fill_connect packet init s = Some s' \<and> st' = snd (add_socket s' st))"
    using assms(1) by (fastforce simp: handle_connect_for_script_packet_def Let_def
        split: if_splits bind_splits option.splits prod.splits)
  moreover have "init \<noteq> None \<longrightarrow> sctp"
    using opening_packet_sctp [OF init] tcp_or_sctp assms(2) by auto
  ultimately show ?thesis
    by (fastforce split: option.splits dest: fill_connect_state [where sctp = sctp]
        intro: advances_set_sock advances_add_socket socket_steps_intros)
qed simp

lemma find_or_create_advances:
  assumes "find_or_create_socket_for_script_packet st packet direction = Some (r, st')"
    and "sctp = (pkt_sctp packet \<noteq> None)"
  shows "advances sctp st st'"
proof -
  have "advances sctp st st'" if "do {
         (socket, state) \<leftarrow> handle_listen_for_script_packet st packet direction;
         (case socket of
            Some i \<Rightarrow> Some (Some i, state)
          | None \<Rightarrow> handle_connect_for_script_packet state packet direction)
       } = Some (socket, st')" for socket
    using that handle_listen_advances [of st packet direction _ _ sctp] handle_connect_advances [OF _ assms(2)]
      advances_trans by (fastforce split: bind_splits option.splits prod.splits)
  then show ?thesis
    using assms(1) by (fastforce simp: find_or_create_socket_for_script_packet_def
        split: if_splits bind_splits option.splits prod.splits)
qed

section \<open>Sniffing and noting what the kernel sent\<close>

lemma learn_local_state: "learn_local packet s = Some s' \<Longrightarrow> so_state s' = so_state s"
  by (auto simp: learn_local_def split: if_splits bind_splits option.splits prod.splits)

lemma find_connect_for_live_packet_advances:
  assumes "find_connect_for_live_packet st packet = Some (socket, direction, st')"
  shows "advances sctp st st'"
  using assms by (fastforce simp: find_connect_for_live_packet_def split: if_splits bind_splits option.splits
      dest!: learn_local_state intro: advances_set_sock)

lemma sniff_loop_advances: "sniff_loop ps st = Some (r, st') \<Longrightarrow> advances sctp st st'"
proof (induction ps st arbitrary: r st' rule: sniff_loop.induct)
  case (2 err rest st)
  then show ?case
    by (auto intro: advances_same [where new = "[]"])
next
  case (3 packet rest st)
  have received: "advances sctp st st'" if "advances sctp st st1" "st' = st1\<lparr> received := rest \<rparr>" for st1
    using that advances_same [of st' st1 "[]" sctp] advances_trans by auto
  show ?case
    using 3 received by (fastforce split: bind_splits option.splits direction_t.splits prod.splits
        dest: find_connect_for_live_packet_advances [where sctp = sctp] intro: advances_trans)
qed simp

lemma sniff_outbound_advances: "sniff_outbound_live_packet st i = Some (r, st') \<Longrightarrow> advances sctp st st'"
  by (auto simp: sniff_outbound_live_packet_def split: bind_splits sum.splits
      dest: sniff_loop_advances [where sctp = sctp])

lemma note_script_reply_state: "note_script_reply packet s = Some s' \<Longrightarrow> so_state s' = so_state s"
  by (auto simp: note_script_reply_def split: if_splits bind_splits option.splits list.splits)

lemma note_synack_steps:
  "note_synack packet live s = Some s' \<Longrightarrow> socket_steps sctp (so_state s) (so_state s')"
  by (auto simp: note_synack_def split: if_splits bind_splits option.splits intro: socket_steps_intros)

text \<open>An invariant of a loop over SCTP records, in the result or in the value with which the loop is left.\<close>

lemma sctp_loop_invariant:
  assumes "sctp_loop k buf on_err body p s = Some r" and "I s"
    and "\<And>e s r. on_err e s = Some r \<Longrightarrow> I s \<Longrightarrow> case r of Inl x \<Rightarrow> J x | Inr s' \<Rightarrow> I s'"
    and "\<And>cur s r. body cur s = Some r \<Longrightarrow> I s \<Longrightarrow> case r of Inl x \<Rightarrow> J x | Inr s' \<Rightarrow> I s'"
  shows "case r of Inl x \<Rightarrow> J x | Inr s' \<Rightarrow> I s'"
  using assms
proof (induction k buf on_err body p s arbitrary: r rule: sctp_loop.induct)
  case (1 k buf on_err body iter err s)
  show ?case
  proof (cases "it_current iter")
    case None
    then show ?thesis
      using 1(2,3) by (auto simp: sctp_loop.simps)
  next
    case (Some cur)
    show ?thesis
    proof (cases err)
      case None
      then obtain r' where r': "body cur s = Some r'"
        using 1(2) Some by (auto simp: sctp_loop.simps split: bind_splits)
      show ?thesis
      proof (cases r')
        case (Inl x)
        then show ?thesis
          using 1(2-5) Some None r' by (fastforce simp: sctp_loop.simps)
      next
        case (Inr s')
        then obtain p where "sctp_next k (buf s') iter = Some p" "sctp_loop k buf on_err body p s' = Some r"
          using 1(2) Some None r' by (auto simp: sctp_loop.simps split: bind_splits)
        moreover have "I s'"
          using 1(5) [OF r' 1(3)] Inr by simp
        ultimately show ?thesis
          using 1(1) [OF Some None r' Inr] 1(4,5) by blast
      qed
    qed (use 1(2-4) Some in \<open>auto simp: sctp_loop.simps\<close>)
  qed
qed

lemma note_parameter_state:
  assumes "note_parameter b p s = Some r" and "so_state s = st"
  shows "case r of Inl x \<Rightarrow> (case x of Inl (err, s') \<Rightarrow> so_state s' = st | Inr s' \<Rightarrow> so_state s' = st)
    | Inr s' \<Rightarrow> so_state s' = st"
  using assms by (auto simp: note_parameter_def Let_def split: if_splits bind_splits)

lemma note_init_ack_steps:
  assumes "note_init_ack b chunk len s = Some r" and "awaits_reply s"
  shows "socket_steps sctp (so_state s) (so_state (case r of Inl x \<Rightarrow> snd x | Inr s' \<Rightarrow> s'))"
proof (cases "unat len < 20")
  case True
  then show ?thesis
    using assms(1) by (auto simp: note_init_ack_def)
next
  case False
  then obtain p r' where loop: "sctp_loop PARAMETER (\<lambda>_. b)
      (\<lambda>_ s. Some (Inl (Inl (Run_error ''Partial parameter for outbound packet'', s)))) (note_parameter b) p s = Some r'"
    and r: "(case (case r' of Inl x \<Rightarrow> x | Inr s \<Rightarrow> Inr s) of
      Inl err \<Rightarrow> r = Inl err | Inr s \<Rightarrow> \<exists>s'. r = Inr s' \<and> so_state s' = SOCKET_PASSIVE_INIT_ACK_SENT)"
    using assms(1) by (auto simp: note_init_ack_def split: bind_splits sum.splits)
  have "case r' of Inl x \<Rightarrow> (case x of Inl (err, s') \<Rightarrow> so_state s' = so_state s | Inr s' \<Rightarrow> so_state s' = so_state s)
      | Inr s' \<Rightarrow> so_state s' = so_state s"
    using loop by (rule sctp_loop_invariant) (auto dest: note_parameter_state)
  moreover have "socket_steps sctp (so_state s) SOCKET_PASSIVE_INIT_ACK_SENT"
    using assms(2) by (auto simp: awaits_reply_def intro: socket_steps_intros)
  ultimately show ?thesis
    using r by (auto split: sum.splits)
qed

lemma note_chunk_steps:
  assumes "note_chunk b chunk s = Some r" and "socket_steps sctp st (so_state s)"
  shows "case r of Inl x \<Rightarrow> socket_steps sctp st (so_state (snd x)) | Inr s' \<Rightarrow> socket_steps sctp st (so_state s')"
proof -
  obtain type len r1 where r1: "(if awaits_reply s \<and> type = SCTP_INIT_ACK_CHUNK_TYPE then note_init_ack b chunk len s
      else Some (Inr s)) = Some r1"
    and r0: "(case r1 of Inl err \<Rightarrow> Some (Inl err)
      | Inr s \<Rightarrow> if type = SCTP_HEARTBEAT_CHUNK_TYPE then note_heartbeat b chunk len s else Some (Inr s)) = Some r"
    using assms(1) unfolding note_chunk_def bind_eq_Some_conv by blast
  have r: "(case r1 of Inl err \<Rightarrow> r = Inl err | Inr s \<Rightarrow> r = Inr s \<or> note_heartbeat b chunk len s = Some r)"
    using r0 by (auto split: sum.splits if_splits)
  have "socket_steps sctp st (so_state (case r1 of Inl x \<Rightarrow> snd x | Inr s' \<Rightarrow> s'))"
    using r1 assms(2) note_init_ack_steps [of b chunk len s r1 sctp]
    by (auto split: if_splits intro: rtranclp_trans)
  then show ?thesis
    using r by (auto simp: note_heartbeat_def Let_def split: sum.splits if_splits bind_splits)
qed

lemma note_live_chunks_steps:
  assumes "note_live_chunks live s = Some r"
  shows "socket_steps sctp (so_state s) (so_state (case r of Inl x \<Rightarrow> snd x | Inr s' \<Rightarrow> s'))"
proof (cases "pkt_sctp live = None")
  case False
  then obtain p where "sctp_loop CHUNK (\<lambda>_. pkt_buffer live)
      (\<lambda>_ s. Some (Inl (Run_error ''Partial chunk for outbound packet'', s)))
      (note_chunk (pkt_buffer live)) p s = Some r"
    using assms by (auto simp: note_live_chunks_def split: bind_splits)
  then have "case r of Inl x \<Rightarrow> socket_steps sctp (so_state s) (so_state (snd x))
      | Inr s' \<Rightarrow> socket_steps sctp (so_state s) (so_state s')"
    by (rule sctp_loop_invariant) (auto dest: note_chunk_steps)
  then show ?thesis
    by (auto split: sum.splits)
qed (use assms in \<open>auto simp: note_live_chunks_def\<close>)

lemma set_ports_state [simp]:
  "so_state (set_outbound_ports ports s) = so_state s" "so_state (set_injected_ports ports s) = so_state s"
  by (simp_all add: set_outbound_ports_def set_injected_ports_def split: option.split prod.split)

lemma save_headers_state:
  "save_outbound live s = Some s' \<Longrightarrow> so_state s' = so_state s"
  "save_injected live s = Some s' \<Longrightarrow> so_state s' = so_state s"
  by (auto simp: save_outbound_def save_injected_def split: bind_splits option.splits)

lemma map_outbound_ts_val_state:
  "map_outbound_ts_val s script actual = Some (s', actual') \<Longrightarrow> so_state s' = so_state s"
  by (auto simp: map_outbound_ts_val_def set_outbound_ts_val_mapping_def Let_def split: bind_splits)

lemma map_outbound_state:
  "map_outbound_live_packet s live actual script encaps = Some (Inr (s', x)) \<Longrightarrow> so_state s' = so_state s"
  by (auto simp: map_outbound_live_packet_def map_outbound_live_tcp_packet_def Let_def
      dest!: map_outbound_ts_val_state split: if_splits bind_splits option.splits sum.splits)

lemma verify_outbound_state:
  "verify_outbound_live_packet junk st s script live = Some (status, s', x) \<Longrightarrow> so_state s' = so_state s"
  by (auto simp: verify_outbound_live_packet_def dest!: map_outbound_state
      split: bind_splits list.splits sum.splits)

lemma do_outbound_advances:
  assumes "do_outbound_script_packet junk st packet i = Some (status, st')"
  shows "advances sctp st st'"
proof (cases "st' = st")
  case False
  then obtain s1 s2 r st1 where s1: "sock st i = Some s1" "note_script_reply packet s1 = Some s2"
    and sniff: "sniff_outbound_live_packet (set_sock i s2 st) i = Some (r, st1)"
    and rest: "(case r of Inl err \<Rightarrow> st' = st1 | Inr live \<Rightarrow> \<exists>s3 s4 r'. sock st1 i = Some s3 \<and>
        note_synack packet live s3 = Some s4 \<and> note_live_chunks live s4 = Some r' \<and>
        (case r' of Inl (err, s5) \<Rightarrow> st' = set_sock i s5 st1
         | Inr s5 \<Rightarrow> \<exists>s6 status s7 x. save_outbound live s5 = Some s6 \<and>
             verify_outbound_live_packet junk st1 s6 packet live = Some (status, s7, x) \<and> st' = set_sock i s7 st1))"
    using assms by (fastforce simp: do_outbound_script_packet_def split: if_splits bind_splits sum.splits)
  have "advances sctp st st1"
    using advances_set_sock [OF s1(1), of sctp s2] note_script_reply_state [OF s1(2)]
      sniff_outbound_advances [OF sniff] advances_trans by fastforce
  moreover have "advances sctp st1 st'"
  proof (cases r)
    case (Inr live)
    then obtain s3 s4 r' where s3: "sock st1 i = Some s3" and s4: "note_synack packet live s3 = Some s4"
      and r': "note_live_chunks live s4 = Some r'"
      and st': "(case r' of Inl (err, s5) \<Rightarrow> st' = set_sock i s5 st1
         | Inr s5 \<Rightarrow> \<exists>s6 status s7 x. save_outbound live s5 = Some s6 \<and>
             verify_outbound_live_packet junk st1 s6 packet live = Some (status, s7, x) \<and> st' = set_sock i s7 st1)"
      using rest by auto
    have steps: "socket_steps sctp (so_state s3) (so_state (case r' of Inl x \<Rightarrow> snd x | Inr s' \<Rightarrow> s'))"
      using note_synack_steps [OF s4] note_live_chunks_steps [OF r'] by (rule rtranclp_trans)
    obtain s' where "st' = set_sock i s' st1"
      "so_state s' = so_state (case r' of Inl x \<Rightarrow> snd x | Inr s' \<Rightarrow> s')"
      using st' by (auto split: sum.splits dest!: save_headers_state(1) verify_outbound_state)
    then show ?thesis
      using advances_set_sock [OF s3, of sctp s'] steps by simp
  qed (use rest in simp)
  ultimately show ?thesis
    by (rule advances_trans)
qed simp

section \<open>Injecting\<close>

lemma note_inbound_tcp_steps:
  "note_inbound_tcp packet s = Some s' \<Longrightarrow> socket_steps sctp (so_state s) (so_state s')"
  by (auto simp: note_inbound_tcp_def split: if_splits bind_splits option.splits intro: socket_steps_intros)

lemma substitute_chunk_socket:
  "substitute_chunk prepared len item chunk jn = Some (item', jn') \<Longrightarrow> in_socket jn' = in_socket jn"
  by (auto simp: substitute_chunk_def Let_def split: bind_splits if_splits)

lemma socket_steps_cookie [simp]: "socket_steps True st SOCKET_PASSIVE_COOKIE_ECHO_RECEIVED"
  by (intro socket_steps_intros) simp

lemma inject_cookie_echo_steps:
  assumes "inject_cookie_echo item chunk jn = Some (item', jn')"
  shows "socket_steps True (so_state (in_socket jn)) (so_state (in_socket jn'))"
  using assms by (auto simp: inject_cookie_echo_def Let_def split: if_splits bind_splits
      dest!: substitute_chunk_socket)

lemma inject_init_ack_steps:
  assumes "inject_init_ack chunk len jn = Some jn'"
  shows "socket_steps True (so_state (in_socket jn)) (so_state (in_socket jn'))"
  using assms by (auto simp: inject_init_ack_def split: if_splits bind_splits intro: socket_steps_intros)

lemma inject_chunk_steps:
  assumes "inject_chunk item jn = Some (item', jn')"
  shows "socket_steps True (so_state (in_socket jn)) (so_state (in_socket jn'))"
proof -
  obtain chunk len type where
    "(if type = SCTP_INIT_ACK_CHUNK_TYPE then do { jn \<leftarrow> inject_init_ack chunk len jn; Some (item, jn) }
     else if type = SCTP_COOKIE_ECHO_CHUNK_TYPE then inject_cookie_echo item chunk jn
     else if type = SCTP_HEARTBEAT_ACK_CHUNK_TYPE
     then (if has_flag (chunk_flags item) FLAG_CHUNK_VALUE_NOCHECK
       then substitute_chunk (prepared_heartbeat_ack (in_socket jn))
         (prepared_heartbeat_ack_length (in_socket jn)) item chunk jn
       else Some (item, jn))
     else Some (item\<lparr> chunk_ptr := Some (chunk + unat (in_offset jn)) \<rparr>, jn)) = Some (item', jn')"
    using assms unfolding inject_chunk_def bind_eq_Some_conv by blast
  then show ?thesis
    by (auto split: if_splits bind_splits
        dest: inject_init_ack_steps inject_cookie_echo_steps dest!: substitute_chunk_socket)
qed

lemma inject_chunks_steps:
  "inject_chunks items jn = Some (items', jn') \<Longrightarrow>
     socket_steps True (so_state (in_socket jn)) (so_state (in_socket jn'))"
proof (induction items jn arbitrary: items' jn' rule: inject_chunks.induct)
  case (2 item items jn)
  then obtain item1 jn1 items1 where "inject_chunk item jn = Some (item1, jn1)"
    "inject_chunks items jn1 = Some (items1, jn')"
    by (auto split: bind_splits)
  then show ?case
    using 2(1) inject_chunk_steps rtranclp_trans by (metis (no_types, lifting))
qed simp

lemma inject_sctp_steps:
  assumes "inject_sctp packet s = Some jn" and "sctp = (pkt_sctp packet \<noteq> None)"
  shows "socket_steps sctp (so_state s) (so_state (in_socket jn))"
  using assms by (auto simp: inject_sctp_def Let_def split: if_splits bind_splits option.splits
      dest!: inject_chunks_steps)

lemma adopt_child_advances:
  assumes "adopt_child st packet live = Some (live', st')"
  shows "advances sctp st st'"
  using assms by (auto simp: adopt_child_def split: if_splits bind_splits
      dest!: setup_new_child_socket_advances(1) [where sctp = sctp])

lemma send_live_ip_packet_advances:
  "send_live_ip_packet st packet = Some (ok, st') \<Longrightarrow> advances sctp st st'"
  by (auto simp: send_live_ip_packet_def split: bind_splits if_splits intro!: advances_same)

lemma do_inbound_advances:
  assumes "do_inbound_script_packet junk st packet i = Some (status, st')"
    and "sctp = (pkt_sctp packet \<noteq> None)"
  shows "advances sctp st st'"
proof -
  obtain s1 s2 jn where s1: "sock st i = Some s1" and s2: "note_inbound_tcp packet s1 = Some s2"
    and jn: "inject_sctp packet s2 = Some jn"
    and rest: "st' = set_sock i (in_socket jn) st \<or> (\<exists>live s3 live' st1 ok. save_injected live (in_socket jn) = Some s3 \<and>
        adopt_child (set_sock i s3 st) (in_packet jn) live = Some (live', st1) \<and>
        send_live_ip_packet st1 live' = Some (ok, st'))"
    using assms(1) by (fastforce simp: do_inbound_script_packet_def Let_def split: bind_splits sum.splits)
  have steps: "socket_steps sctp (so_state s1) (so_state (in_socket jn))"
    using note_inbound_tcp_steps [OF s2] inject_sctp_steps [OF jn assms(2)] by (rule rtranclp_trans)
  have "advances sctp st (set_sock i s3 st)" if "so_state s3 = so_state (in_socket jn)" for s3
    using advances_set_sock [OF s1, of sctp s3] steps that by simp
  with rest show ?thesis
    by (elim disjE) (simp, meson advances_trans adopt_child_advances send_live_ip_packet_advances save_headers_state(2))
qed

lemma wait_until_advances:
  assumes "wait_until t st = Some st'"
  shows "advances sctp st st'"
proof (rule wait_until.raw_induct [where P = "\<lambda>t st st'. advances sctp st st'", OF _ assms])
  fix f t st st'
  assume f: "\<And>t st st'. f t st = Some st' \<Longrightarrow> advances sctp st st'"
    and st': "(let (now, state) = now_usecs st in if t - now \<le> 0 then Some state else f t state) = Some st'"
  have "advances sctp st (snd (now_usecs st))"
    by (auto simp: now_usecs_def intro: advances_same [where new = "[]"])
  then show "advances sctp st st'"
    using st' f [of t "snd (now_usecs st)" st']
    by (auto simp: Let_def split: prod.splits if_splits intro: advances_trans)
qed

lemma wait_for_event_advances: "wait_for_event st = Some st' \<Longrightarrow> advances sctp st st'"
proof -
  assume "wait_for_event st = Some st'"
  then obtain t st1 where "wait_until t st = Some st1" "st' = snd (now_usecs st1)"
    by (auto simp: wait_for_event_def Let_def split: list.splits bind_splits prod.splits)
  then show ?thesis
    using wait_until_advances [of t st st1 sctp] advances_same [of st' st1 "[]" sctp] advances_trans
    by (fastforce simp: now_usecs_def)
qed

section \<open>Packet events\<close>

lemma run_packet_event_advances:
  assumes "run_packet_event junk st packet = Some (status, st')"
  shows "advances (pkt_sctp packet \<noteq> None) st st'"
proof -
  define sctp where "sctp = (pkt_sctp packet \<noteq> None)"
  obtain r st1 where 1: "find_or_create_socket_for_script_packet st packet (pkt_direction packet) = Some (r, st1)"
    and rest: "st' = st1 \<or> (\<exists>i. do_outbound_script_packet junk st1 packet i = Some (status, st')) \<or>
      (\<exists>i st2. wait_for_event st1 = Some st2 \<and> do_inbound_script_packet junk st2 packet i = Some (status, st'))"
    using assms by (fastforce simp: run_packet_event_def Let_def split: bind_splits sum.splits if_splits)
  have "advances sctp st st1"
    by (rule find_or_create_advances [OF 1 sctp_def])
  moreover have "advances sctp st1 st'"
    using rest do_outbound_advances wait_for_event_advances do_inbound_advances [OF _ sctp_def]
      advances_trans advances_refl by blast
  ultimately show ?thesis
    unfolding sctp_def by (rule advances_trans)
qed

text \<open>C3: Running a packet event keeps the configuration and everything already sent, never loses a
  socket, keeps the socket under test among the sockets of the run, and takes every socket only along the steps of
  \<^const>\<open>socket_step\<close>, a new socket from the initial state. For a packet that is not SCTP every change of a
  socket state is a step forward in its handshake.\<close>

theorem run_packet_event_invariant:
  assumes "run_packet_event junk st packet = Some (status, st')" and "run_wf st"
  shows "run_wf st' \<and> st_config st' = st_config st \<and> length (sockets st) \<le> length (sockets st') \<and>
     (\<exists>new. sent st' = sent st @ new) \<and>
     (\<forall>i. socket_steps (pkt_sctp packet \<noteq> None) (state_at st i) (state_at st' i)) \<and>
     (pkt_sctp packet = None \<longrightarrow> (\<forall>i. state_at st' i = state_at st i \<or>
        handshake_rank (state_at st i) < handshake_rank (state_at st' i)))"
  using run_packet_event_advances [OF assms(1)] assms(2) socket_steps_climb
  unfolding advances_def by fastforce

section \<open>An example run\<close>

definition example_outbound :: packet where
  "example_outbound = example_datagram\<lparr> pkt_direction := DIRECTION_OUTBOUND \<rparr>"

definition example_connecting :: socket where
  "example_connecting = example_udp_socket\<lparr> so_state := SOCKET_ACTIVE_CONNECTING, so_protocol := IPPROTO_UDP \<rparr>"

definition example_run :: state where
  "example_run = example_state\<lparr> current := [example_event], sockets := [example_connecting],
     socket_under_test := Some 0, received := [Inr example_datagram] \<rparr>"

lemma example_datagram_fields:
  "pkt_ipv4 example_datagram = None" "pkt_ipv6 example_datagram = Some 0" "pkt_sctp example_datagram = None"
  "pkt_tcp example_datagram = None" "pkt_udp example_datagram = Some 40" "pkt_udplite example_datagram = None"
  "pkt_icmpv4 example_datagram = None" "pkt_icmpv6 example_datagram = None"
  by (simp_all add: example_datagram_def packet_new_def)

lemma example_tuple: "get_packet_tuple example_datagram = Some (socket_get_outbound (so_live example_connecting))"
  by code_simp

lemma example_ip: "is_equal_ip (ip_from_ipv6 (replicate 16 0)) (ip_from_ipv6 (replicate 16 0)) = Some True"
  by code_simp

lemma example_found:
  "find_or_create_socket_for_script_packet example_run example_outbound DIRECTION_OUTBOUND = Some (Inr 0, example_run)"
  by (simp add: find_or_create_socket_for_script_packet_def example_outbound_def example_datagram_fields
      example_run_def sock_def is_script_packet_match_for_socket_def example_connecting_def)

lemma example_sniffed:
  "sniff_outbound_live_packet example_run 0 = Some (Inr example_datagram, example_run\<lparr> received := [] \<rparr>)"
  by (simp add: sniff_outbound_live_packet_def example_run_def find_socket_for_live_packet_def sock_def example_tuple
      is_equal_tuple_def socket_get_outbound_def socket_get_inbound_def find_connect_for_live_packet_def
      is_connect_match_def example_datagram_fields learn_local_def set_sock_def example_connecting_def example_udp_socket_def
      example_ip)

lemma example_verified:
  obtains s script where "verify_outbound_live_packet (\<lambda>_. 0) (example_run\<lparr> received := [] \<rparr>) example_connecting
    example_outbound example_datagram = Some (STATUS_OK, s, script)"
proof -
  let ?st = "example_run\<lparr> received := [] \<rparr>"
  have "case map_outbound_live_packet example_connecting example_datagram example_datagram example_outbound 0 of
     Some (Inr (s, scr, act)) \<Rightarrow> verify_actual_packet ?st example_event scr example_datagram act = Some (Inr ())
   | _ \<Rightarrow> False"
    by code_simp
  moreover have "verify_outbound_live_checksums example_datagram = status_ok" "udp_encaps (st_config ?st) = 0"
    "current ?st = [example_event]"
    by (simp_all add: verify_outbound_live_checksums_def example_datagram_fields example_run_def example_state_def
        set_default_config_def cleanup_config_def config_zero_def)
  ultimately show ?thesis
    using that by (auto simp: verify_outbound_live_packet_def example_datagram_copy split: option.splits sum.splits)
qed

lemma example_run_returns:
  "\<exists>st'. run_packet_event (\<lambda>_. 0) example_run example_outbound = Some (STATUS_OK, st')"
proof -
  have same: "set_sock 0 example_connecting example_run = example_run"
    "sock example_run 0 = Some example_connecting" "sock (example_run\<lparr> received := [] \<rparr>) 0 = Some example_connecting"
    by (simp_all add: set_sock_def example_run_def sock_def)
  have "note_script_reply example_outbound example_connecting = Some example_connecting"
    "note_synack example_outbound example_datagram example_connecting = Some example_connecting"
    "note_live_chunks example_datagram example_connecting = Some (Inr example_connecting)"
    "save_outbound example_datagram example_connecting = Some example_connecting"
    "pkt_icmpv4 example_outbound = None" "pkt_icmpv6 example_outbound = None"
    "pkt_direction example_outbound = DIRECTION_OUTBOUND"
    by (simp_all add: note_script_reply_def awaits_reply_def example_connecting_def note_synack_def example_outbound_def
        example_datagram_fields note_live_chunks_def save_outbound_def)
  moreover obtain s script where "verify_outbound_live_packet (\<lambda>_. 0) (example_run\<lparr> received := [] \<rparr>)
      example_connecting example_outbound example_datagram = Some (STATUS_OK, s, script)"
    by (rule example_verified)
  ultimately show ?thesis
    by (simp add: run_packet_event_def do_outbound_script_packet_def example_found example_sniffed same)
qed

theorem run_packet_event_invariant_witness:
  "\<exists>st'. run_packet_event (\<lambda>_. 0) example_run example_outbound = Some (STATUS_OK, st') \<and> run_wf st' \<and>
     (\<forall>i. socket_steps False (state_at example_run i) (state_at st' i))"
proof -
  obtain st' where st': "run_packet_event (\<lambda>_. 0) example_run example_outbound = Some (STATUS_OK, st')"
    using example_run_returns by blast
  have "run_wf example_run" "pkt_sctp example_outbound = None"
    by (simp_all add: run_wf_def example_run_def example_outbound_def example_datagram_fields)
  then show ?thesis
    using run_packet_event_invariant [OF st'] st' by auto
qed

end
