(* ===== verification/Passive_Open.thy ===== *)
theory Passive_Open
  imports Connection_States
begin

text \<open>
  A passive open in local mode, from the SYN of the script to the child socket that becomes the socket under
  test, and what the child does not learn.
\<close>

section \<open>The way of a SYN\<close>

lemma handle_listen_tcp:
  assumes "\<not> is_wire_server (st_config st)" and "socket_under_test st = Some i" and "sock st i = Some s"
    and "so_state s = SOCKET_PASSIVE_LISTENING" and "pkt_sctp packet = None" and "pkt_tcp packet = Some tcp"
    and "tcp_seq (pkt_buffer packet) tcp = Some isn"
  shows "handle_listen_for_script_packet st packet DIRECTION_INBOUND =
    Some (Some i, set_sock i (set_remote_isn isn s) st)"
  using assms by (simp add: handle_listen_for_script_packet_def child_socket_def)

lemma wait_for_event_sockets:
  assumes "wait_for_event st = Some st'"
  shows "sockets st' = sockets st" "socket_under_test st' = socket_under_test st"
proof -
  have w: "sockets st1 = sockets st \<and> socket_under_test st1 = socket_under_test st"
    if "wait_until t st = Some st1" for t st1
    using that
    by (rule wait_until.raw_induct [where P = "\<lambda>t st st'. sockets st' = sockets st \<and>
        socket_under_test st' = socket_under_test st", rotated])
      (auto simp: now_usecs_def Let_def split: if_splits)
  obtain t st1 where "wait_until t st = Some st1" "st' = snd (now_usecs st1)"
    using assms by (auto simp: wait_for_event_def Let_def split: list.splits bind_splits prod.splits)
  with w [of t st1] show "sockets st' = sockets st" "socket_under_test st' = socket_under_test st"
    by (simp_all add: now_usecs_def)
qed

lemma send_live_ip_packet_sockets:
  assumes "send_live_ip_packet st packet = Some (ok, st')"
  shows "sockets st' = sockets st" "socket_under_test st' = socket_under_test st"
  using assms by (auto simp: send_live_ip_packet_def split: bind_splits if_splits)

lemma set_injected_ports_live [simp]: "so_live (set_injected_ports ports s) = so_live s"
  by (simp add: set_injected_ports_def split: option.split prod.split)

lemma save_injected_live: "save_injected live s = Some s' \<Longrightarrow> so_live s' = so_live s"
  by (auto simp: save_injected_def split: bind_splits option.splits)

text \<open>The child socket starts without any numbers of the peer.\<close>

lemma setup_new_child_socket_fresh:
  assumes "setup_new_child_socket st packet = Some (j, st')"
  shows "\<exists>s. sockets st' = sockets st @ [s] \<and> j = length (sockets st) \<and> socket_under_test st' = Some j \<and>
    remote_isn (so_live s) = 0"
  using assms by (auto simp: setup_new_child_socket_def add_socket_def take_ephemeral_port_def ephemeral_port_def
      socket_state_zero_def Let_def split: bind_splits if_splits list.splits)

lemma adopt_child_cases:
  assumes "adopt_child st packet live = Some (live', st')"
  obtains "st' = st"
  | s where "sockets st' = sockets st @ [s]" "socket_under_test st' = Some (length (sockets st))"
      "remote_isn (so_live s) = 0"
  using assms setup_new_child_socket_fresh
  by (fastforce simp: adopt_child_def split: bind_splits if_splits)

lemma do_inbound_tcp_cases:
  assumes "do_inbound_script_packet junk st packet i = Some (STATUS_OK, st')"
    and "sock st i = Some s" and "so_state s = SOCKET_PASSIVE_LISTENING" and "pkt_sctp packet = None"
  obtains live s' live' st1 where "so_live s' = so_live s"
    "adopt_child (set_sock i s' st) packet live = Some (live', st1)"
    "sockets st' = sockets st1" "socket_under_test st' = socket_under_test st1"
proof -
  have "note_inbound_tcp packet s = Some s' \<Longrightarrow> s' = s" for s'
    using assms(3) by (auto simp: note_inbound_tcp_def split: option.splits bind_splits)
  moreover have "inject_sctp packet s = Some jn \<Longrightarrow> in_packet jn = packet \<and> in_socket jn = s" for jn
    using assms(4) by (auto simp: inject_sctp_def Let_def split: option.splits)
  ultimately obtain live s' live' st1 ok where "save_injected live s = Some s'"
    "adopt_child (set_sock i s' st) packet live = Some (live', st1)" "send_live_ip_packet st1 live' = Some (ok, st')"
    using assms(1,2) by (fastforce simp: do_inbound_script_packet_def Let_def split: bind_splits sum.splits)
  then show ?thesis
    using that save_injected_live send_live_ip_packet_sockets by blast
qed

text \<open>C32: In local mode the initial sequence number of a SYN to a listening socket is stored in the
  listening socket only: the child socket that becomes the socket under test has the initial sequence number zero, so
  that the sequence numbers of the following inbound packets are not shifted by that of the SYN.\<close>

theorem passive_open_forgets_isn:
  assumes run: "run_packet_event junk st packet = Some (STATUS_OK, st')"
    and listening: "\<not> is_wire_server (st_config st)" "socket_under_test st = Some i" "sock st i = Some s"
      "so_state s = SOCKET_PASSIVE_LISTENING"
    and syn: "pkt_direction packet = DIRECTION_INBOUND" "pkt_sctp packet = None" "pkt_tcp packet = Some tcp"
      "tcp_seq (pkt_buffer packet) tcp = Some isn"
    and child: "socket_under_test st' = Some j" "j \<noteq> i"
  shows "\<exists>listener s'. sock st' i = Some listener \<and> remote_isn (so_live listener) = isn \<and>
     sock st' j = Some s' \<and> remote_isn (so_live s') = 0 \<and> remote_seq_script_to_live_offset s' is_syn = 0"
proof -
  let ?st1 = "set_sock i (set_remote_isn isn s) st"
  have i: "i < length (sockets st)"
    using listening(3) by (rule sock_less)
  have found: "find_or_create_socket_for_script_packet st packet DIRECTION_INBOUND = Some (Inr i, ?st1)"
    using handle_listen_tcp [OF listening syn(2-4)] syn(3)
    by (simp add: find_or_create_socket_for_script_packet_def)
  obtain st2 where w: "wait_for_event ?st1 = Some st2"
    and ok: "do_inbound_script_packet junk st2 packet i = Some (STATUS_OK, st')"
    using run syn(1) by (auto simp: run_packet_event_def found split: bind_splits)
  have st2: "sock st2 i = Some (set_remote_isn isn s)" "length (sockets st2) = length (sockets st)"
    "socket_under_test st2 = Some i"
    using wait_for_event_sockets [OF w] i listening(2) by (simp_all add: sock_def set_sock_def)
  obtain live s' live' st3 where s': "so_live s' = so_live (set_remote_isn isn s)"
    and adopt: "adopt_child (set_sock i s' st2) packet live = Some (live', st3)"
    and st3: "sockets st' = sockets st3" "socket_under_test st' = socket_under_test st3"
    by (rule do_inbound_tcp_cases [OF ok st2(1) _ syn(2)]) (use listening(4) in simp, rule that)
  from adopt show ?thesis
  proof (cases rule: adopt_child_cases)
    case 1
    then show ?thesis
      using st2(3) st3(2) child by (simp add: set_sock_def)
  next
    case (2 c)
    then show ?thesis
      using i st2(2) st3 child(1) s'
      by (auto simp: sock_def set_sock_def nth_append set_remote_isn_def remote_seq_script_to_live_offset_def)
  qed
qed

definition example_syn :: packet where
  "example_syn = (packet_new (\<lambda>i. if i = 0 then 0x45 else if i = 3 then 40 else if i = 9 then 6 else if i = 26 then 3
       else if i = 27 then 0xe8 else if i = 32 then 0x50 else if i = 33 then 2 else 0) 40)\<lparr>
     pkt_ip_bytes := 40, pkt_direction := DIRECTION_INBOUND, pkt_ipv4 := Some 0, pkt_tcp := Some 20,
     pkt_headers := [\<lparr> htype = HEADER_IPV4, header_bytes = 20, total_bytes = 40, hptr = Some 0 \<rparr>,
       \<lparr> htype = HEADER_TCP, header_bytes = 20, total_bytes = 20, hptr = Some 20 \<rparr>, no_header, no_header,
       no_header, no_header] \<rparr>"

definition example_listener :: socket where
  "example_listener = socket_new\<lparr> so_state := SOCKET_PASSIVE_LISTENING, so_address_family := AF_INET,
     so_protocol := IPPROTO_TCP \<rparr>"

definition example_passive :: state where
  "example_passive = example_state\<lparr> current := [example_event], sockets := [example_listener],
     socket_under_test := Some 0, next_ephemeral_port := 4660, clock := (\<lambda>_. 1006000) \<rparr>"

lemma example_syn_fields:
  "pkt_ipv4 example_syn = Some 0" "pkt_ipv6 example_syn = None" "pkt_sctp example_syn = None"
  "pkt_tcp example_syn = Some 20" "pkt_chunk_list example_syn = Some []" "pkt_direction example_syn = DIRECTION_INBOUND"
  "length (pkt_buffer example_syn) = 40"
  by (simp_all add: example_syn_def packet_new_def)

lemma example_syn_copy: "packet_copy (\<lambda>_. 0) example_syn = Some example_syn"
  by (simp add: packet_copy_def packet_copy_with_headroom_def example_syn_def packet_new_def
      rd_bytes_def packet_end_def packet_start_def upd_buffer_def wr_bytes_def packet_copy_headers_def
      no_header_def offset_ptr_def replicate_headers Let_def del: upt_conv_Cons upt_rec_numeral)

lemma example_syn_values:
  "tcp_seq (pkt_buffer example_syn) 20 = Some 1000"
  "note_inbound_tcp example_syn (set_remote_isn 1000 example_listener) = Some (set_remote_isn 1000 example_listener)"
  "map_inbound_packet (set_remote_isn 1000 example_listener) example_syn 0 = Some (Inr example_syn)"
  "save_injected example_syn (set_remote_isn 1000 example_listener) \<noteq> None"
  "has_wildcard_source example_syn = Some True"
  "packet_ip_protocol example_syn 0 = Some IPPROTO_TCP"
  "get_packet_tuple example_syn \<noteq> None"
  by code_simp+

definition example_live_tuple :: tuple where
  "example_live_tuple = \<lparr> tup_src = \<lparr> ep_ip = ip_reset, ep_port = 4660 \<rparr>,
     tup_dst = \<lparr> ep_ip = ip_reset, ep_port = 8080 \<rparr> \<rparr>"

lemma example_syn_sent:
  obtains packet packet' where "set_packet_tuple example_syn example_live_tuple False = Some packet"
    "checksum_packet packet = Some packet'" "pkt_ip_bytes packet > 0" "pkt_ipv4 packet \<noteq> None" "pkt_tcp packet \<noteq> None"
proof -
  have "case set_packet_tuple example_syn example_live_tuple False of
     Some packet \<Rightarrow> checksum_packet packet \<noteq> None \<and> pkt_ip_bytes packet > 0 \<and> pkt_ipv4 packet \<noteq> None \<and> pkt_tcp packet \<noteq> None
   | None \<Rightarrow> False"
    by code_simp
  then show ?thesis
    using that by (auto split: option.splits)
qed

lemma example_config [simp]:
  "st_config example_passive = set_default_config config_zero"
  "udp_encaps (set_default_config config_zero) = 0" "\<not> is_wire_server (set_default_config config_zero)"
  "live_remote_ip (set_default_config config_zero) = ip_reset" "live_local_ip (set_default_config config_zero) = ip_reset"
  "live_bind_port (set_default_config config_zero) = 8080" "tolerance_usecs (set_default_config config_zero) = 4000"
  by (simp_all add: example_passive_def example_state_def set_default_config_def cleanup_config_def config_zero_def)

lemma example_waited:
  assumes "current st = [example_event]" and "clock st = (\<lambda>_. 1006000)" and "live_start_time_usecs st = 1000000"
    and "script_start_time_usecs st = 0" and "st_config st = set_default_config config_zero"
  shows "wait_for_event st = Some (st\<lparr> ticks := ticks st + 2 \<rparr>)"
  using assms by (simp add: wait_for_event_def wait_until.simps [of _ st] now_usecs_def Let_def example_event_def
      script_time_to_live_time_usecs_def check_event_time_def verify_time_def event_description_def c_assert_def)

lemma example_inbound:
  assumes "st_config st = set_default_config config_zero" and "sockets st = [set_remote_isn 1000 example_listener]"
    and "next_ephemeral_port st = 4660" and "send_ok st = (\<lambda>_. True)"
  shows "\<exists>st'. do_inbound_script_packet (\<lambda>_. 0) st example_syn 0 = Some (STATUS_OK, st') \<and>
    socket_under_test st' = Some 1"
proof -
  let ?L = "set_remote_isn 1000 example_listener"
  obtain s tuple where s: "save_injected example_syn ?L = Some s" and tuple: "get_packet_tuple example_syn = Some tuple"
    using example_syn_values(4,7) by blast
  obtain packet packet' where p: "set_packet_tuple example_syn example_live_tuple False = Some packet"
    "checksum_packet packet = Some packet'" "pkt_ip_bytes packet > 0" "pkt_ipv4 packet \<noteq> None" "pkt_tcp packet \<noteq> None"
    by (rule example_syn_sent)
  obtain st3 where st3: "adopt_child (set_sock 0 s st) example_syn example_syn = Some (packet, st3)"
    "socket_under_test st3 = Some 1" "send_ok st3 = (\<lambda>_. True)"
    using assms p(1) tuple example_syn_values(5,6)
    by (simp add: adopt_child_def setup_new_child_socket_def take_ephemeral_port_def add_socket_def sock_def
        set_sock_def socket_get_inbound_def example_live_tuple_def)
  have "inject_sctp example_syn ?L =
      Some \<lparr> in_packet = example_syn, claimed = 40, in_socket = ?L, in_offset = 0 \<rparr>"
    "copy_claimed (\<lambda>_. 0) 40 example_syn = Some example_syn" "sock st 0 = Some ?L"
    using assms by (simp_all add: inject_sctp_def example_syn_fields copy_claimed_def example_syn_copy sock_def)
  then show ?thesis
    using assms(1) s p st3
    by (simp add: do_inbound_script_packet_def example_syn_values(2,3) send_live_ip_packet_def)
qed

theorem passive_open_forgets_isn_witness:
  "\<exists>st' listener s'. run_packet_event (\<lambda>_. 0) example_passive example_syn = Some (STATUS_OK, st') \<and>
     sock st' 0 = Some listener \<and> remote_isn (so_live listener) = 1000 \<and>
     sock st' 1 = Some s' \<and> remote_isn (so_live s') = 0"
proof -
  let ?st1 = "set_sock 0 (set_remote_isn 1000 example_listener) example_passive"
  have listening: "socket_under_test example_passive = Some 0" "sock example_passive 0 = Some example_listener"
    "so_state example_listener = SOCKET_PASSIVE_LISTENING"
    by (simp_all add: example_passive_def sock_def example_listener_def)
  have "handle_listen_for_script_packet example_passive example_syn DIRECTION_INBOUND = Some (Some 0, ?st1)"
    using handle_listen_tcp [OF _ listening, of example_syn 20 1000] by (simp add: example_syn_fields example_syn_values(1))
  moreover have "wait_for_event ?st1 = Some (?st1\<lparr> ticks := 2 \<rparr>)"
    using example_waited [of ?st1] by (simp add: example_passive_def set_sock_def example_state_def)
  moreover obtain st' where "do_inbound_script_packet (\<lambda>_. 0) (?st1\<lparr> ticks := 2 \<rparr>) example_syn 0 = Some (STATUS_OK, st')"
    and child: "socket_under_test st' = Some 1"
    using example_inbound [of "?st1\<lparr> ticks := 2 \<rparr>"] by (auto simp: example_passive_def set_sock_def example_state_def)
  ultimately have run: "run_packet_event (\<lambda>_. 0) example_passive example_syn = Some (STATUS_OK, st')"
    by (simp add: run_packet_event_def find_or_create_socket_for_script_packet_def example_syn_fields)
  then show ?thesis
    using passive_open_forgets_isn [OF run _ listening _ _ _ example_syn_values(1) child, where is_syn = False]
    by (auto simp: example_syn_fields)
qed

end
