(* ===== verification/Sctp_Parameters.thy ===== *)
theory Sctp_Parameters
  imports Sctp_Flags C_Numbers
begin

text \<open>
  The constructors of SCTP parameters (\<^verbatim>\<open>sctp_packet.c\<close>), as the script parser calls them, with the memory
  and field operations that the constructors of chunks and causes share. A constructor allocates memory,
  whose initial content is \<open>junk\<close>, and writes the fields into it; a write or a read outside of the allocated
  memory and a failed assertion give \<^const>\<open>None\<close>. The value -1 for a field says that the field is not to be
  checked. The linked lists of bytes, 16-bit numbers and so on, which the parser fills by appending and the
  constructors free, are lists; the member \<^verbatim>\<open>nr_entries\<close> of their headers is a 16-bit number.
\<close>

section \<open>Memory and fields\<close>

text \<open>Allocated memory of \<open>n\<close> bytes after a sequence of writes; writing nothing is possible anywhere.\<close>

fun writes :: "(nat \<times> bytes) list \<Rightarrow> bytes \<Rightarrow> bytes option" where
  "writes [] b = Some b"
| "writes ((p, bs) # ws) b = do { b \<leftarrow> (if bs = [] then Some b else wr_bytes b p bs); writes ws b }"

definition build :: "(nat \<Rightarrow> u8) \<Rightarrow> nat \<Rightarrow> (nat \<times> bytes) list \<Rightarrow> bytes option" where
  "build junk n ws = writes ws (map junk [0..<n])"

definition padding :: "nat \<Rightarrow> nat" where
  "padding n = (if n mod 4 > 0 then 4 - n mod 4 else 0)"

definition zeros :: "nat \<Rightarrow> bytes" where
  "zeros n = replicate n 0"

definition field8 :: "int \<Rightarrow> bytes" where
  "field8 x = [if x = - 1 then 0 else word_of_int x]"

definition field16 :: "int \<Rightarrow> bytes" where
  "field16 x = be16_to (if x = - 1 then 0 else word_of_int x)"

definition field32 :: "int \<Rightarrow> bytes" where
  "field32 x = put_unaligned_be32 (if x = - 1 then 0 else word_of_int x)"

definition wild :: "int \<Rightarrow> u32 \<Rightarrow> u32" where
  "wild x flag = (if x = - 1 then flag else 0)"

definition flag_if :: "bool \<Rightarrow> u32 \<Rightarrow> u32" where
  "flag_if c flag = (if c then flag else 0)"

definition flags_or :: "u32 list \<Rightarrow> u32" where
  "flags_or fs = foldr (OR) fs 0"

definition entries16 :: "'a list \<Rightarrow> u16" where
  "entries16 xs = of_nat (length xs)"

text \<open>\<^verbatim>\<open>htons\<close> and \<^verbatim>\<open>htonl\<close> of lists of numbers, and two-number blocks.\<close>

definition wire16 :: "u16 list \<Rightarrow> bytes" where
  "wire16 xs = concat (map be16_to xs)"

definition wire32 :: "u32 list \<Rightarrow> bytes" where
  "wire32 xs = concat (map put_unaligned_be32 xs)"

definition wire_pairs :: "(u16 \<times> u16) list \<Rightarrow> bytes" where
  "wire_pairs xs = concat (map (\<lambda>(x, y). be16_to x @ be16_to y) xs)"

definition chars :: "string \<Rightarrow> bytes" where
  "chars s = map of_char s"

abbreviation (input) MAX_SCTP_BYTES :: int where "MAX_SCTP_BYTES \<equiv> 0xffff"

section \<open>Parameters\<close>

record new_item =
  ni_bytes :: bytes
  ni_length :: u32
  ni_flags :: u32

record item_list =
  il_items :: "new_item list"
  il_length :: u32

definition sctp_parameter_list_item_new :: "bytes \<Rightarrow> u32 \<Rightarrow> u32 \<Rightarrow> new_item" where
  "sctp_parameter_list_item_new parameter len flags =
     \<lparr> ni_bytes = parameter, ni_length = len, ni_flags = flags \<rparr>"

definition sctp_parameter_list_new :: item_list where
  "sctp_parameter_list_new = \<lparr> il_items = [], il_length = 0 \<rparr>"

definition sctp_parameter_list_append :: "item_list \<Rightarrow> new_item \<Rightarrow> item_list" where
  "sctp_parameter_list_append list item =
     \<lparr> il_items = il_items list @ [item],
       il_length = il_length list + of_nat (padding (unat (il_length list))) + ni_length item \<rparr>"

text \<open>The parameter of length \<open>len\<close> in \<open>n\<close> bytes of memory.\<close>

definition parameter_item ::
    "(nat \<Rightarrow> u8) \<Rightarrow> nat \<Rightarrow> (nat \<times> bytes) list \<Rightarrow> u32 \<Rightarrow> u32 list \<Rightarrow> new_item option" where
  "parameter_item junk n ws len flags = do {
     parameter \<leftarrow> build junk n ws;
     Some (sctp_parameter_list_item_new parameter len (flags_or flags))
   }"

definition sctp_generic_parameter_new ::
    "(nat \<Rightarrow> u8) \<Rightarrow> int \<Rightarrow> int \<Rightarrow> bytes option \<Rightarrow> new_item option" where
  "sctp_generic_parameter_new junk type len bytes =
     (let length16 = ((if len = - 1 then 4 else word_of_int len) :: u16);
          value_length = (case bytes of Some bs \<Rightarrow> entries16 bs | None \<Rightarrow> length16 - 4);
          n = 4 + unat value_length;
          pad = padding (unat value_length)
      in parameter_item junk (n + pad)
        [(0, field16 type @ be16_to length16),
         (4, case bytes of Some bs \<Rightarrow> bs | None \<Rightarrow> zeros (unat value_length)),
         (n, zeros pad)]
        (of_nat n)
        [wild len FLAG_PARAMETER_LENGTH_NOCHECK,
         flag_if (bytes \<noteq> None \<and> uint value_length < uint length16 - 4) FLAG_PARAMETER_PARTIAL,
         flag_if (bytes = None) FLAG_PARAMETER_VALUE_NOCHECK,
         wild type FLAG_PARAMETER_TYPE_NOCHECK])"

definition sctp_heartbeat_information_parameter_new ::
    "(nat \<Rightarrow> u8) \<Rightarrow> int \<Rightarrow> bytes option \<Rightarrow> new_item option" where
  "sctp_heartbeat_information_parameter_new junk len bytes = sctp_generic_parameter_new junk 1 len bytes"

definition sctp_ipv4_address_parameter_new :: "(nat \<Rightarrow> u8) \<Rightarrow> bytes option \<Rightarrow> new_item option" where
  "sctp_ipv4_address_parameter_new junk addr =
     parameter_item junk 8
       [(0, be16_to 5 @ be16_to 8), (4, case addr of None \<Rightarrow> zeros 4 | Some a \<Rightarrow> take 4 a)] 8
       [flag_if (addr = None) FLAG_PARAMETER_VALUE_NOCHECK]"

definition sctp_ipv6_address_parameter_new :: "(nat \<Rightarrow> u8) \<Rightarrow> bytes option \<Rightarrow> new_item option" where
  "sctp_ipv6_address_parameter_new junk addr =
     parameter_item junk 20
       [(0, be16_to 6 @ be16_to 20), (4, case addr of None \<Rightarrow> zeros 16 | Some a \<Rightarrow> take 16 a)] 20
       [flag_if (addr = None) FLAG_PARAMETER_VALUE_NOCHECK]"

text \<open>The arguments \<open>len\<close> and a value that is only given together with it.\<close>

definition assert_len :: "int \<Rightarrow> 'a option \<Rightarrow> unit option" where
  "assert_len len value = do {
     c_assert (len = - 1 \<or> is_valid_u16 len);
     c_assert (len \<noteq> - 1 \<or> value = None);
     c_assert (len = - 1 \<or> len \<le> MAX_SCTP_BYTES - 4)
   }"

definition sctp_state_cookie_parameter_new :: "(nat \<Rightarrow> u8) \<Rightarrow> int \<Rightarrow> bytes option \<Rightarrow> new_item option" where
  "sctp_state_cookie_parameter_new junk len cookie = do {
     assert_len len cookie;
     let cookie_length = ((if len = - 1 then 0 else word_of_int (len - 4)) :: u16);
     let parameter_length = cookie_length + 4;
     let pad = padding (unat parameter_length);
     contents \<leftarrow> (case cookie of
         Some c \<Rightarrow> rd_bytes c 0 (unat cookie_length) | None \<Rightarrow> Some (replicate (unat cookie_length) 0x41));
     parameter_item junk (unat parameter_length + pad)
       [(0, be16_to 7 @ be16_to parameter_length), (4, contents), (4 + unat cookie_length, zeros pad)]
       (ucast parameter_length)
       [wild len FLAG_PARAMETER_LENGTH_NOCHECK, flag_if (cookie = None) FLAG_PARAMETER_VALUE_NOCHECK]
   }"

text \<open>The loops that copy the items of a list with their padding behind each other to offset \<open>base\<close>; an item
  that is shorter than its padded length is read beyond its end.\<close>

fun place_items :: "nat \<Rightarrow> u16 \<Rightarrow> new_item list \<Rightarrow> ((nat \<times> bytes) list \<times> sctp_item list) option" where
  "place_items base offset [] = Some ([], [])"
| "place_items base offset (item # items) = do {
     let pad = padding (unat (ni_length item));
     bs \<leftarrow> rd_bytes (ni_bytes item) 0 (unat (ni_length item) + pad);
     (ws, placed) \<leftarrow> place_items base (offset + ucast (ni_length item) + of_nat pad) items;
     Some ((base + unat offset, bs) # ws,
       \<lparr> item_ptr = Some (base + unat offset), item_length = ni_length item, item_flags = ni_flags item \<rparr> # placed)
   }"

definition any_flag :: "new_item list \<Rightarrow> u32 \<Rightarrow> bool" where
  "any_flag items flag \<longleftrightarrow> (\<exists>item \<in> set items. has_flag (ni_flags item) flag)"

text \<open>A parameter or cause that contains a list of parameters.\<close>

definition containing ::
    "(nat \<Rightarrow> u8) \<Rightarrow> u16 \<Rightarrow> item_list option \<Rightarrow> u32 \<Rightarrow> u32 \<Rightarrow> new_item option" where
  "containing junk type list length_flag value_flag = do {
     c_assert (case list of None \<Rightarrow> True | Some l \<Rightarrow> uint (il_length l) < MAX_SCTP_BYTES - 4);
     let total = ((case list of None \<Rightarrow> 4 | Some l \<Rightarrow> 4 + ucast (il_length l)) :: u16);
     let items = (case list of None \<Rightarrow> [] | Some l \<Rightarrow> il_items l);
     (ws, _) \<leftarrow> place_items 4 0 items;
     parameter_item junk (unat total + padding (unat total)) ((0, be16_to type @ be16_to total) # ws) (ucast total)
       [flag_if (list = None \<or> any_flag items FLAG_PARAMETER_LENGTH_NOCHECK) length_flag,
        flag_if (list = None \<or> any_flag items FLAG_PARAMETER_VALUE_NOCHECK) value_flag]
   }"

definition sctp_unrecognized_parameters_parameter_new ::
    "(nat \<Rightarrow> u8) \<Rightarrow> item_list option \<Rightarrow> new_item option" where
  "sctp_unrecognized_parameters_parameter_new junk list =
     containing junk 8 list FLAG_PARAMETER_LENGTH_NOCHECK FLAG_PARAMETER_VALUE_NOCHECK"

definition sctp_cookie_preservative_parameter_new :: "(nat \<Rightarrow> u8) \<Rightarrow> int \<Rightarrow> new_item option" where
  "sctp_cookie_preservative_parameter_new junk increment = do {
     c_assert (increment = - 1 \<or> is_valid_u32 increment);
     parameter_item junk 8 [(0, be16_to 9 @ be16_to 8 @ field32 increment)] 8
       [wild increment FLAG_PARAMETER_VALUE_NOCHECK]
   }"

definition sctp_hostname_address_parameter_new :: "(nat \<Rightarrow> u8) \<Rightarrow> string option \<Rightarrow> new_item option" where
  "sctp_hostname_address_parameter_new junk hostname = do {
     c_assert (case hostname of None \<Rightarrow> True | Some h \<Rightarrow> int (length h) + 1 \<le> MAX_SCTP_BYTES - 4);
     let name = (case hostname of None \<Rightarrow> [] | Some h \<Rightarrow> chars h) @ [0];
     let total = entries16 name + 4;
     let pad = padding (unat total);
     parameter_item junk (unat total + pad)
       [(0, be16_to 0xb @ be16_to total), (4, name), (4 + length name, zeros pad)] (ucast total)
       [flag_if (hostname = None) FLAG_PARAMETER_LENGTH_NOCHECK, flag_if (hostname = None) FLAG_PARAMETER_VALUE_NOCHECK]
   }"

definition sctp_supported_address_types_parameter_new ::
    "(nat \<Rightarrow> u8) \<Rightarrow> u16 list option \<Rightarrow> new_item option" where
  "sctp_supported_address_types_parameter_new junk list = do {
     let types = (case list of None \<Rightarrow> [] | Some l \<Rightarrow> l);
     let nr_entries = entries16 types;
     c_assert (list = None \<or> uint nr_entries \<le> (MAX_SCTP_BYTES - 4) div 2);
     let parameter_length = 4 + 2 * nr_entries;
     let pad = padding (unat parameter_length);
     c_assert (pad = 0 \<or> pad = 2);
     c_assert (length types = unat nr_entries);
     parameter_item junk (unat parameter_length + pad)
       [(0, be16_to 0xc @ be16_to parameter_length), (4, wire16 types),
        (4 + 2 * length types, if list \<noteq> None then zeros pad else [])] (ucast parameter_length)
       [flag_if (list = None) FLAG_PARAMETER_LENGTH_NOCHECK, flag_if (list = None) FLAG_PARAMETER_VALUE_NOCHECK]
   }"

definition sctp_supported_extensions_parameter_new ::
    "(nat \<Rightarrow> u8) \<Rightarrow> bytes option \<Rightarrow> new_item option" where
  "sctp_supported_extensions_parameter_new junk list = do {
     let types = (case list of None \<Rightarrow> [] | Some l \<Rightarrow> l);
     let nr_entries = entries16 types;
     c_assert (list = None \<or> uint nr_entries \<le> MAX_SCTP_BYTES - 4);
     let parameter_length = 4 + nr_entries;
     let pad = padding (unat parameter_length);
     c_assert (length types = unat nr_entries);
     parameter_item junk (unat parameter_length + pad)
       [(0, be16_to 0x8008 @ be16_to parameter_length), (4, types),
        (4 + length types, if list \<noteq> None then zeros pad else [])] (ucast parameter_length)
       [flag_if (list = None) FLAG_PARAMETER_LENGTH_NOCHECK, flag_if (list = None) FLAG_PARAMETER_VALUE_NOCHECK]
   }"

definition sctp_adaptation_indication_parameter_new :: "(nat \<Rightarrow> u8) \<Rightarrow> int \<Rightarrow> new_item option" where
  "sctp_adaptation_indication_parameter_new junk val = do {
     c_assert (val = - 1 \<or> is_valid_u32 val);
     parameter_item junk 8 [(0, zeros 8), (0, be16_to 0xc006 @ be16_to 8 @ field32 val)] 8
       [wild val FLAG_PARAMETER_VALUE_NOCHECK]
   }"

text \<open>The padding data has 16-bit elements, so the address at which its padding is cleared is twice as far away.\<close>

definition sctp_pad_parameter_new :: "(nat \<Rightarrow> u8) \<Rightarrow> int \<Rightarrow> bytes option \<Rightarrow> new_item option" where
  "sctp_pad_parameter_new junk len padding_data = do {
     assert_len len padding_data;
     let padding_length = ((if len = - 1 then 0 else word_of_int (len - 4)) :: u16);
     let parameter_length = padding_length + 4;
     let pad = padding (unat parameter_length);
     contents \<leftarrow> (case padding_data of
         Some p \<Rightarrow> rd_bytes p 0 (unat padding_length) | None \<Rightarrow> Some (replicate (unat padding_length) 0x50));
     parameter_item junk (unat parameter_length + pad)
       [(0, be16_to 0x8005 @ be16_to parameter_length), (4, contents),
        (4 + 2 * unat padding_length, zeros pad)] (ucast parameter_length)
       [wild len FLAG_PARAMETER_LENGTH_NOCHECK]
   }"

definition sctp_outgoing_ssn_reset_request_parameter_new ::
    "(nat \<Rightarrow> u8) \<Rightarrow> int \<Rightarrow> int \<Rightarrow> int \<Rightarrow> u16 list option \<Rightarrow> new_item option" where
  "sctp_outgoing_ssn_reset_request_parameter_new junk reqsn respsn last_tsn sids =
     (let ids = (case sids of None \<Rightarrow> [] | Some l \<Rightarrow> l);
          parameter_length = 16 + 2 * entries16 ids
      in parameter_item junk (unat parameter_length)
        [(0, be16_to SCTP_OUTGOING_SSN_RESET_REQUEST_PARAMETER_TYPE @ be16_to parameter_length @
            field32 reqsn @ field32 respsn @ field32 last_tsn),
         (16, wire16 ids)] (ucast parameter_length)
        [wild reqsn FLAG_RECONFIG_REQ_SN_NOCHECK, wild respsn FLAG_RECONFIG_RESP_SN_NOCHECK,
         wild last_tsn FLAG_RECONFIG_LAST_TSN_NOCHECK])"

definition sctp_incoming_ssn_reset_request_parameter_new ::
    "(nat \<Rightarrow> u8) \<Rightarrow> int \<Rightarrow> u16 list option \<Rightarrow> new_item option" where
  "sctp_incoming_ssn_reset_request_parameter_new junk reqsn sids =
     (let ids = (case sids of None \<Rightarrow> [] | Some l \<Rightarrow> l);
          parameter_length = 8 + 2 * entries16 ids
      in parameter_item junk (unat parameter_length)
        [(0, be16_to SCTP_INCOMING_SSN_RESET_REQUEST_PARAMETER_TYPE @ be16_to parameter_length @ field32 reqsn),
         (8, wire16 ids)] (ucast parameter_length)
        [wild reqsn FLAG_RECONFIG_REQ_SN_NOCHECK])"

definition sctp_reconfig_response_parameter_new ::
    "(nat \<Rightarrow> u8) \<Rightarrow> int \<Rightarrow> int \<Rightarrow> int \<Rightarrow> int \<Rightarrow> new_item option" where
  "sctp_reconfig_response_parameter_new junk respsn result sender_next_tsn receiver_next_tsn =
     (let parameter_length = ((if receiver_next_tsn = - 2 \<and> sender_next_tsn = - 2 then 12 else 20) :: u16)
      in parameter_item junk (unat parameter_length)
        [(0, be16_to SCTP_RECONFIG_RESPONSE_PARAMETER_TYPE @ be16_to parameter_length @ field32 respsn @ field32 result),
         (12, if sender_next_tsn = - 2 then [] else field32 sender_next_tsn),
         (16, if receiver_next_tsn = - 2 then [] else field32 receiver_next_tsn)] (ucast parameter_length)
        [wild respsn FLAG_RECONFIG_RESP_SN_NOCHECK, wild result FLAG_RECONFIG_RESULT_NOCHECK,
         wild sender_next_tsn FLAG_RECONFIG_SENDER_NEXT_TSN_NOCHECK,
         wild receiver_next_tsn FLAG_RECONFIG_RECEIVER_NEXT_TSN_NOCHECK])"

definition sctp_ssn_tsn_reset_request_parameter_new :: "(nat \<Rightarrow> u8) \<Rightarrow> int \<Rightarrow> new_item option" where
  "sctp_ssn_tsn_reset_request_parameter_new junk reqsn =
     parameter_item junk 8
       [(0, be16_to SCTP_SSN_TSN_RESET_REQUEST_PARAMETER_TYPE @ be16_to 8 @ field32 reqsn)] 8
       [wild reqsn FLAG_RECONFIG_REQ_SN_NOCHECK]"

definition sctp_add_outgoing_streams_request_parameter_new ::
    "(nat \<Rightarrow> u8) \<Rightarrow> int \<Rightarrow> int \<Rightarrow> new_item option" where
  "sctp_add_outgoing_streams_request_parameter_new junk reqsn number_of_new_streams =
     parameter_item junk 12
       [(0, be16_to SCTP_ADD_OUTGOING_STREAMS_REQUEST_PARAMETER_TYPE @ be16_to 12 @ field32 reqsn @
           field16 number_of_new_streams @ be16_to 0)] 12
       [wild reqsn FLAG_RECONFIG_REQ_SN_NOCHECK,
        wild number_of_new_streams FLAG_RECONFIG_NUMBER_OF_NEW_STREAMS_NOCHECK]"

definition sctp_add_incoming_streams_request_parameter_new ::
    "(nat \<Rightarrow> u8) \<Rightarrow> int \<Rightarrow> int \<Rightarrow> new_item option" where
  "sctp_add_incoming_streams_request_parameter_new junk reqsn number_of_new_streams =
     parameter_item junk 12
       [(0, be16_to SCTP_ADD_INCOMING_STREAMS_REQUEST_PARAMETER_TYPE @ be16_to 12 @ field32 reqsn @
           field16 number_of_new_streams @ be16_to 0)] 12
       [wild reqsn FLAG_RECONFIG_REQ_SN_NOCHECK,
        wild number_of_new_streams FLAG_RECONFIG_NUMBER_OF_NEW_STREAMS_NOCHECK]"

definition sctp_generic_reconfig_request_parameter_new ::
    "(nat \<Rightarrow> u8) \<Rightarrow> int \<Rightarrow> int \<Rightarrow> int \<Rightarrow> bytes option \<Rightarrow> new_item option" where
  "sctp_generic_reconfig_request_parameter_new junk type len reqsn payload =
     (let bs = (case payload of None \<Rightarrow> [] | Some l \<Rightarrow> l);
          parameter_length = 8 + entries16 bs
      in parameter_item junk (unat parameter_length)
        [(0, field16 type @ field16 len @ field32 reqsn), (8, bs)] (ucast parameter_length)
        [wild reqsn FLAG_RECONFIG_REQ_SN_NOCHECK])"

definition sctp_ecn_capable_parameter_new :: "(nat \<Rightarrow> u8) \<Rightarrow> new_item option" where
  "sctp_ecn_capable_parameter_new junk = parameter_item junk 4 [(0, be16_to 0x8000 @ be16_to 4)] 4 []"

definition sctp_forward_tsn_supported_parameter_new :: "(nat \<Rightarrow> u8) \<Rightarrow> new_item option" where
  "sctp_forward_tsn_supported_parameter_new junk = parameter_item junk 4 [(0, be16_to 0xc000 @ be16_to 4)] 4 []"

end
