(* ===== verification/Sctp_Chunks.thy ===== *)
theory Sctp_Chunks
  imports Sctp_Parameters
begin

text \<open>
  The constructors of SCTP chunks and error causes (\<^verbatim>\<open>sctp_packet.c\<close>). A chunk that was built keeps the
  parameters or causes it contains as items whose pointers are relative to the start of the chunk. The
  constructors are collected in \<open>chunk_new\<close>, with one constructor of \<open>chunk_spec\<close> for each kind of chunk that a
  script can describe; every chunk but a generic one is shown to be one record in the sense of the iterators.
\<close>

section \<open>Chunks\<close>

record new_chunk =
  nc_bytes :: bytes
  nc_length :: u32
  nc_flags :: u32
  nc_parameters :: "sctp_item list"
  nc_causes :: "sctp_item list"

record new_chunk_list =
  cl_chunks :: "new_chunk list"
  cl_length :: u32

definition sctp_chunk_list_item_new ::
    "bytes \<Rightarrow> u32 \<Rightarrow> u32 \<Rightarrow> sctp_item list \<Rightarrow> sctp_item list \<Rightarrow> new_chunk" where
  "sctp_chunk_list_item_new chunk len flags params causes =
     \<lparr> nc_bytes = chunk, nc_length = len, nc_flags = flags, nc_parameters = params, nc_causes = causes \<rparr>"

definition sctp_chunk_list_new :: new_chunk_list where
  "sctp_chunk_list_new = \<lparr> cl_chunks = [], cl_length = 0 \<rparr>"

definition sctp_chunk_list_append :: "new_chunk_list \<Rightarrow> new_chunk \<Rightarrow> new_chunk_list" where
  "sctp_chunk_list_append list item =
     \<lparr> cl_chunks = cl_chunks list @ [item], cl_length = cl_length list + nc_length item \<rparr>"

text \<open>A chunk in \<open>n\<close> bytes of memory, without parameters and causes, and its common header.\<close>

definition chunk_item :: "(nat \<Rightarrow> u8) \<Rightarrow> nat \<Rightarrow> (nat \<times> bytes) list \<Rightarrow> u32 list \<Rightarrow> new_chunk option" where
  "chunk_item junk n ws flags = do {
     chunk \<leftarrow> build junk n ws;
     Some (sctp_chunk_list_item_new chunk (of_nat n) (flags_or flags) [] [])
   }"

definition chunk_header :: "u8 \<Rightarrow> int \<Rightarrow> u16 \<Rightarrow> bytes" where
  "chunk_header type flgs len = [type] @ field8 flgs @ be16_to len"

definition sctp_generic_chunk_new ::
    "(nat \<Rightarrow> u8) \<Rightarrow> int \<Rightarrow> int \<Rightarrow> int \<Rightarrow> bytes option \<Rightarrow> new_chunk option" where
  "sctp_generic_chunk_new junk type flgs len bytes =
     (let length16 = ((if len = - 1 then 4 else word_of_int len) :: u16);
          value_length = (case bytes of Some bs \<Rightarrow> entries16 bs | None \<Rightarrow> length16 - 4);
          n = 4 + unat value_length;
          pad = padding (unat value_length)
      in chunk_item junk (n + pad)
        [(0, field8 type @ field8 flgs @ be16_to length16),
         (4, case bytes of Some bs \<Rightarrow> bs | None \<Rightarrow> zeros (unat value_length)),
         (n, zeros pad)]
        [wild len FLAG_CHUNK_LENGTH_NOCHECK,
         flag_if (bytes \<noteq> None \<and> uint value_length < uint length16 - 4) FLAG_CHUNK_PARTIAL,
         flag_if (bytes = None) FLAG_CHUNK_VALUE_NOCHECK,
         wild type FLAG_CHUNK_TYPE_NOCHECK,
         wild flgs FLAG_CHUNK_FLAGS_NOCHECK])"

definition sctp_data_chunk_new ::
    "(nat \<Rightarrow> u8) \<Rightarrow> int \<Rightarrow> int \<Rightarrow> int \<Rightarrow> int \<Rightarrow> int \<Rightarrow> int \<Rightarrow> new_chunk option" where
  "sctp_data_chunk_new junk flgs len tsn sid ssn ppid =
     (let length16 = ((if len = - 1 then 16 else word_of_int len) :: u16);
          n = unat length16 + padding (unat length16)
      in chunk_item junk n
        [(0, chunk_header SCTP_DATA_CHUNK_TYPE flgs length16 @ field32 tsn @ field16 sid @ field16 ssn @ field32 ppid),
         (16, zeros (n - 16))]
        [wild flgs FLAG_CHUNK_FLAGS_NOCHECK,
         wild len FLAG_CHUNK_LENGTH_NOCHECK, wild len FLAG_CHUNK_VALUE_NOCHECK,
         wild tsn FLAG_DATA_CHUNK_TSN_NOCHECK, wild sid FLAG_DATA_CHUNK_SID_NOCHECK,
         wild ssn FLAG_DATA_CHUNK_SSN_NOCHECK, wild ppid FLAG_DATA_CHUNK_PPID_NOCHECK])"

text \<open>The chunks with a list of parameters or causes copy them behind their fixed part.\<close>

definition list_total :: "u16 \<Rightarrow> item_list option \<Rightarrow> u16" where
  "list_total fixed list = (case list of None \<Rightarrow> fixed | Some l \<Rightarrow> fixed + ucast (il_length l))"

definition list_items :: "item_list option \<Rightarrow> new_item list" where
  "list_items list = (case list of None \<Rightarrow> [] | Some l \<Rightarrow> il_items l)"

definition sctp_init_chunk_new ::
    "(nat \<Rightarrow> u8) \<Rightarrow> int \<Rightarrow> int \<Rightarrow> int \<Rightarrow> int \<Rightarrow> int \<Rightarrow> int \<Rightarrow> item_list option \<Rightarrow> new_chunk option" where
  "sctp_init_chunk_new junk flgs tag a_rwnd os is tsn list = do {
     let total = list_total 20 list;
     let n = unat total + padding (unat total);
     let items = list_items list;
     (ws, params) \<leftarrow> place_items 20 0 items;
     chunk \<leftarrow> build junk n
       ((0, chunk_header SCTP_INIT_CHUNK_TYPE flgs total @ field32 tag @ field32 a_rwnd @ field16 os @ field16 is @ field32 tsn)
        # ws);
     Some (sctp_chunk_list_item_new chunk (of_nat n) (flags_or
       [flag_if (list = None) FLAG_CHUNK_LENGTH_NOCHECK, flag_if (list = None) FLAG_INIT_CHUNK_OPT_PARAM_NOCHECK,
        wild flgs FLAG_CHUNK_FLAGS_NOCHECK, wild tag FLAG_INIT_CHUNK_TAG_NOCHECK,
        wild a_rwnd FLAG_INIT_CHUNK_A_RWND_NOCHECK, wild os FLAG_INIT_CHUNK_OS_NOCHECK,
        wild is FLAG_INIT_CHUNK_IS_NOCHECK, wild tsn FLAG_INIT_CHUNK_TSN_NOCHECK,
        flag_if (any_flag items FLAG_PARAMETER_LENGTH_NOCHECK) FLAG_CHUNK_LENGTH_NOCHECK]) params [])
   }"

definition sctp_init_ack_chunk_new ::
    "(nat \<Rightarrow> u8) \<Rightarrow> int \<Rightarrow> int \<Rightarrow> int \<Rightarrow> int \<Rightarrow> int \<Rightarrow> int \<Rightarrow> item_list option \<Rightarrow> new_chunk option" where
  "sctp_init_ack_chunk_new junk flgs tag a_rwnd os is tsn list = do {
     let total = list_total 20 list;
     let n = unat total + padding (unat total);
     let items = list_items list;
     (ws, params) \<leftarrow> place_items 20 0 items;
     chunk \<leftarrow> build junk n
       ((0, chunk_header SCTP_INIT_ACK_CHUNK_TYPE flgs total @ field32 tag @ field32 a_rwnd @ field16 os @ field16 is @
            field32 tsn) # ws);
     Some (sctp_chunk_list_item_new chunk (of_nat n) (flags_or
       [flag_if (list = None) FLAG_CHUNK_LENGTH_NOCHECK, flag_if (list = None) FLAG_INIT_ACK_CHUNK_OPT_PARAM_NOCHECK,
        wild flgs FLAG_CHUNK_FLAGS_NOCHECK, wild tag FLAG_INIT_ACK_CHUNK_TAG_NOCHECK,
        wild a_rwnd FLAG_INIT_ACK_CHUNK_A_RWND_NOCHECK, wild os FLAG_INIT_ACK_CHUNK_OS_NOCHECK,
        wild is FLAG_INIT_ACK_CHUNK_IS_NOCHECK, wild tsn FLAG_INIT_ACK_CHUNK_TSN_NOCHECK,
        flag_if (any_flag items FLAG_PARAMETER_LENGTH_NOCHECK) FLAG_CHUNK_LENGTH_NOCHECK]) params [])
   }"

definition given :: "'a list option \<Rightarrow> 'a list" where
  "given list = (case list of None \<Rightarrow> [] | Some l \<Rightarrow> l)"

definition sctp_sack_chunk_new ::
    "(nat \<Rightarrow> u8) \<Rightarrow> int \<Rightarrow> int \<Rightarrow> int \<Rightarrow> (u16 \<times> u16) list option \<Rightarrow> u32 list option \<Rightarrow> new_chunk option" where
  "sctp_sack_chunk_new junk flgs cum_tsn a_rwnd gaps dups = do {
     let nr_gaps = entries16 (given gaps);
     let nr_dups = entries16 (given dups);
     let len = 16 + 4 * unat nr_gaps + 4 * unat nr_dups;
     c_assert (len < 65536);
     c_assert (len mod 4 = 0);
     c_assert (length (given gaps) = unat nr_gaps);
     c_assert (length (given dups) = unat nr_dups);
     chunk_item junk len
       [(0, chunk_header SCTP_SACK_CHUNK_TYPE flgs (of_nat len) @ field32 cum_tsn @ field32 a_rwnd @
           be16_to nr_gaps @ be16_to nr_dups),
        (16, wire_pairs (given gaps)),
        (16 + 4 * unat nr_gaps, wire32 (given dups))]
       [flag_if (gaps = None) FLAG_CHUNK_LENGTH_NOCHECK, flag_if (gaps = None) FLAG_SACK_CHUNK_GAP_BLOCKS_NOCHECK,
        flag_if (dups = None) FLAG_CHUNK_LENGTH_NOCHECK, flag_if (dups = None) FLAG_SACK_CHUNK_DUP_TSNS_NOCHECK,
        wild flgs FLAG_CHUNK_FLAGS_NOCHECK, wild cum_tsn FLAG_SACK_CHUNK_CUM_TSN_NOCHECK,
        wild a_rwnd FLAG_SACK_CHUNK_A_RWND_NOCHECK]
   }"

text \<open>The reserved field at offset 18 of a NR-SACK chunk is not written.\<close>

definition sctp_nr_sack_chunk_new ::
    "(nat \<Rightarrow> u8) \<Rightarrow> int \<Rightarrow> int \<Rightarrow> int \<Rightarrow> (u16 \<times> u16) list option \<Rightarrow> (u16 \<times> u16) list option \<Rightarrow> u32 list option \<Rightarrow>
       new_chunk option" where
  "sctp_nr_sack_chunk_new junk flgs cum_tsn a_rwnd gaps nr_gaps_list dups = do {
     let nr_gaps = entries16 (given gaps);
     let number_of_nr_gaps = entries16 (given nr_gaps_list);
     let nr_dups = entries16 (given dups);
     let len = 20 + 4 * unat nr_gaps + 4 * unat number_of_nr_gaps + 4 * unat nr_dups;
     c_assert (len < 65536);
     c_assert (len mod 4 = 0);
     c_assert (length (given gaps) = unat nr_gaps);
     c_assert (length (given nr_gaps_list) = unat number_of_nr_gaps);
     c_assert (length (given dups) = unat nr_dups);
     chunk_item junk len
       [(0, chunk_header SCTP_NR_SACK_CHUNK_TYPE flgs (of_nat len) @ field32 cum_tsn @ field32 a_rwnd @
           be16_to nr_gaps @ be16_to number_of_nr_gaps @ be16_to nr_dups),
        (20, wire_pairs (given gaps)),
        (20 + 4 * unat nr_gaps, wire_pairs (given nr_gaps_list)),
        (20 + 4 * (unat nr_gaps + unat number_of_nr_gaps), wire32 (given dups))]
       [flag_if (gaps = None) FLAG_CHUNK_LENGTH_NOCHECK, flag_if (gaps = None) FLAG_NR_SACK_CHUNK_GAP_BLOCKS_NOCHECK,
        flag_if (nr_gaps_list = None) FLAG_CHUNK_LENGTH_NOCHECK,
        flag_if (nr_gaps_list = None) FLAG_NR_SACK_CHUNK_NR_GAP_BLOCKS_NOCHECK,
        flag_if (dups = None) FLAG_CHUNK_LENGTH_NOCHECK, flag_if (dups = None) FLAG_NR_SACK_CHUNK_DUP_TSNS_NOCHECK,
        wild flgs FLAG_CHUNK_FLAGS_NOCHECK, wild cum_tsn FLAG_NR_SACK_CHUNK_CUM_TSN_NOCHECK,
        wild a_rwnd FLAG_NR_SACK_CHUNK_A_RWND_NOCHECK]
   }"

text \<open>A chunk or cause whose value is one record, of length \<open>ni_length\<close>, with its padding cleared.\<close>

definition wrapped :: "nat \<Rightarrow> new_item option \<Rightarrow> (nat \<times> bytes) list option" where
  "wrapped pad info = (case info of
      None \<Rightarrow> Some []
    | Some i \<Rightarrow> do {
        bs \<leftarrow> rd_bytes (ni_bytes i) 0 (unat (ni_length i));
        Some [(4, bs), (4 + unat (ni_length i), zeros pad)]
      })"

definition info_total :: "new_item option \<Rightarrow> u16" where
  "info_total info = (case info of None \<Rightarrow> 4 | Some i \<Rightarrow> 4 + ucast (ni_length i))"

definition info_flag :: "new_item option \<Rightarrow> u32 \<Rightarrow> bool" where
  "info_flag info flag \<longleftrightarrow> (case info of None \<Rightarrow> True | Some i \<Rightarrow> has_flag (ni_flags i) flag)"

definition heartbeat :: "(nat \<Rightarrow> u8) \<Rightarrow> u8 \<Rightarrow> int \<Rightarrow> new_item option \<Rightarrow> new_chunk option" where
  "heartbeat junk type flgs info = do {
     c_assert (case info of None \<Rightarrow> True | Some i \<Rightarrow> uint (ni_length i) + 4 \<le> MAX_SCTP_BYTES);
     let total = info_total info;
     let pad = padding (unat total);
     ws \<leftarrow> wrapped pad info;
     chunk_item junk (unat total + pad) ((0, chunk_header type flgs total) # ws)
       [flag_if (info_flag info FLAG_PARAMETER_LENGTH_NOCHECK) FLAG_CHUNK_LENGTH_NOCHECK,
        flag_if (info_flag info FLAG_PARAMETER_VALUE_NOCHECK) FLAG_CHUNK_VALUE_NOCHECK,
        wild flgs FLAG_CHUNK_FLAGS_NOCHECK]
   }"

definition sctp_heartbeat_chunk_new :: "(nat \<Rightarrow> u8) \<Rightarrow> int \<Rightarrow> new_item option \<Rightarrow> new_chunk option" where
  "sctp_heartbeat_chunk_new junk flgs info = heartbeat junk SCTP_HEARTBEAT_CHUNK_TYPE flgs info"

definition sctp_heartbeat_ack_chunk_new :: "(nat \<Rightarrow> u8) \<Rightarrow> int \<Rightarrow> new_item option \<Rightarrow> new_chunk option" where
  "sctp_heartbeat_ack_chunk_new junk flgs info = heartbeat junk SCTP_HEARTBEAT_ACK_CHUNK_TYPE flgs info"

definition cause_chunk :: "(nat \<Rightarrow> u8) \<Rightarrow> u8 \<Rightarrow> int \<Rightarrow> item_list option \<Rightarrow> new_chunk option" where
  "cause_chunk junk type flgs list = do {
     let total = list_total 4 list;
     let n = unat total + padding (unat total);
     let items = list_items list;
     (ws, causes) \<leftarrow> place_items 4 0 items;
     chunk \<leftarrow> build junk n ((0, chunk_header type flgs total) # ws);
     Some (sctp_chunk_list_item_new chunk (of_nat n) (flags_or
       [flag_if (list = None) FLAG_CHUNK_LENGTH_NOCHECK, flag_if (list = None) FLAG_ERROR_CHUNK_OPT_CAUSES_NOCHECK,
        wild flgs FLAG_CHUNK_FLAGS_NOCHECK,
        flag_if (any_flag items FLAG_CAUSE_CODE_NOCHECK \<or> any_flag items FLAG_CAUSE_INFORMATION_NOCHECK)
          FLAG_CHUNK_VALUE_NOCHECK,
        flag_if (any_flag items FLAG_CAUSE_LENGTH_NOCHECK) FLAG_CHUNK_LENGTH_NOCHECK]) [] causes)
   }"

definition sctp_abort_chunk_new :: "(nat \<Rightarrow> u8) \<Rightarrow> int \<Rightarrow> item_list option \<Rightarrow> new_chunk option" where
  "sctp_abort_chunk_new junk flgs list = cause_chunk junk SCTP_ABORT_CHUNK_TYPE flgs list"

definition sctp_error_chunk_new :: "(nat \<Rightarrow> u8) \<Rightarrow> int \<Rightarrow> item_list option \<Rightarrow> new_chunk option" where
  "sctp_error_chunk_new junk flgs list = cause_chunk junk SCTP_ERROR_CHUNK_TYPE flgs list"

definition sctp_shutdown_chunk_new :: "(nat \<Rightarrow> u8) \<Rightarrow> int \<Rightarrow> int \<Rightarrow> new_chunk option" where
  "sctp_shutdown_chunk_new junk flgs cum_tsn =
     chunk_item junk 8 [(0, chunk_header SCTP_SHUTDOWN_CHUNK_TYPE flgs 8 @ field32 cum_tsn)]
       [wild flgs FLAG_CHUNK_FLAGS_NOCHECK, wild cum_tsn FLAG_SHUTDOWN_CHUNK_CUM_TSN_NOCHECK]"

definition sctp_shutdown_ack_chunk_new :: "(nat \<Rightarrow> u8) \<Rightarrow> int \<Rightarrow> new_chunk option" where
  "sctp_shutdown_ack_chunk_new junk flgs =
     chunk_item junk 4 [(0, chunk_header SCTP_SHUTDOWN_ACK_CHUNK_TYPE flgs 4)] [wild flgs FLAG_CHUNK_FLAGS_NOCHECK]"

text \<open>The cookie is copied whatever its length.\<close>

definition sctp_cookie_echo_chunk_new :: "(nat \<Rightarrow> u8) \<Rightarrow> int \<Rightarrow> int \<Rightarrow> bytes option \<Rightarrow> new_chunk option" where
  "sctp_cookie_echo_chunk_new junk flgs len cookie = do {
     c_assert (len = - 1 \<or> is_valid_u16 len \<and> len \<ge> 4);
     c_assert (len \<noteq> - 1 \<or> cookie = None);
     c_assert (len = - 1 \<or> len \<le> MAX_SCTP_BYTES - 4);
     let cookie_length = ((if len = - 1 then 0 else word_of_int (len - 4)) :: u16);
     let total = cookie_length + 4;
     let pad = padding (unat total);
     chunk_item junk (unat total + pad)
       [(0, chunk_header SCTP_COOKIE_ECHO_CHUNK_TYPE flgs total),
        (4, case cookie of Some c \<Rightarrow> c | None \<Rightarrow> replicate (unat cookie_length) 0x41),
        (4 + unat cookie_length, zeros pad)]
       [wild len FLAG_CHUNK_LENGTH_NOCHECK, wild flgs FLAG_CHUNK_FLAGS_NOCHECK,
        flag_if (cookie = None) FLAG_CHUNK_VALUE_NOCHECK]
   }"

definition sctp_cookie_ack_chunk_new :: "(nat \<Rightarrow> u8) \<Rightarrow> int \<Rightarrow> new_chunk option" where
  "sctp_cookie_ack_chunk_new junk flgs =
     chunk_item junk 4 [(0, chunk_header SCTP_COOKIE_ACK_CHUNK_TYPE flgs 4)] [wild flgs FLAG_CHUNK_FLAGS_NOCHECK]"

definition sctp_ecne_chunk_new :: "(nat \<Rightarrow> u8) \<Rightarrow> int \<Rightarrow> int \<Rightarrow> new_chunk option" where
  "sctp_ecne_chunk_new junk flgs lowest_tsn =
     chunk_item junk 8 [(0, chunk_header SCTP_ECNE_CHUNK_TYPE flgs 8 @ field32 lowest_tsn)]
       [wild flgs FLAG_CHUNK_FLAGS_NOCHECK, wild lowest_tsn FLAG_ECNE_CHUNK_LOWEST_TSN_NOCHECK]"

definition sctp_cwr_chunk_new :: "(nat \<Rightarrow> u8) \<Rightarrow> int \<Rightarrow> int \<Rightarrow> new_chunk option" where
  "sctp_cwr_chunk_new junk flgs lowest_tsn =
     chunk_item junk 8 [(0, chunk_header SCTP_CWR_CHUNK_TYPE flgs 8 @ field32 lowest_tsn)]
       [wild flgs FLAG_CHUNK_FLAGS_NOCHECK, wild lowest_tsn FLAG_CWR_CHUNK_LOWEST_TSN_NOCHECK]"

definition sctp_shutdown_complete_chunk_new :: "(nat \<Rightarrow> u8) \<Rightarrow> int \<Rightarrow> new_chunk option" where
  "sctp_shutdown_complete_chunk_new junk flgs =
     chunk_item junk 4 [(0, chunk_header SCTP_SHUTDOWN_COMPLETE_CHUNK_TYPE flgs 4)]
       [wild flgs FLAG_CHUNK_FLAGS_NOCHECK]"

text \<open>The payload protocol identifier and the fragment sequence number share their place in an I-DATA chunk.\<close>

definition sctp_i_data_chunk_new ::
    "(nat \<Rightarrow> u8) \<Rightarrow> int \<Rightarrow> int \<Rightarrow> int \<Rightarrow> int \<Rightarrow> int \<Rightarrow> int \<Rightarrow> int \<Rightarrow> int \<Rightarrow> new_chunk option" where
  "sctp_i_data_chunk_new junk flgs len tsn sid res mid ppid fsn =
     (let length16 = ((if len = - 1 then 20 else word_of_int len) :: u16);
          n = unat length16 + padding (unat length16)
      in chunk_item junk n
        [(0, chunk_header SCTP_I_DATA_CHUNK_TYPE flgs length16 @ field32 tsn @ field16 sid @ field16 res @ field32 mid),
         (16, field32 (if fsn \<noteq> - 1 then fsn else ppid)),
         (20, zeros (n - 20))]
        [wild flgs FLAG_CHUNK_FLAGS_NOCHECK,
         wild len FLAG_CHUNK_LENGTH_NOCHECK, wild len FLAG_CHUNK_VALUE_NOCHECK,
         wild tsn FLAG_I_DATA_CHUNK_TSN_NOCHECK, wild sid FLAG_I_DATA_CHUNK_SID_NOCHECK,
         wild res FLAG_I_DATA_CHUNK_RES_NOCHECK, wild mid FLAG_I_DATA_CHUNK_MID_NOCHECK,
         wild ppid FLAG_I_DATA_CHUNK_PPID_NOCHECK, wild fsn FLAG_I_DATA_CHUNK_FSN_NOCHECK])"

definition sctp_pad_chunk_new :: "(nat \<Rightarrow> u8) \<Rightarrow> int \<Rightarrow> int \<Rightarrow> bytes option \<Rightarrow> new_chunk option" where
  "sctp_pad_chunk_new junk flgs len padding_data = do {
     assert_len len padding_data;
     let padding_length = ((if len = - 1 then 0 else word_of_int (len - 4)) :: u16);
     let total = padding_length + 4;
     let pad = padding (unat total);
     contents \<leftarrow> (case padding_data of
         Some p \<Rightarrow> rd_bytes p 0 (unat padding_length) | None \<Rightarrow> Some (replicate (unat padding_length) 0x50));
     chunk_item junk (unat total + pad)
       [(0, chunk_header SCTP_PAD_CHUNK_TYPE flgs total), (4, contents), (4 + unat padding_length, zeros pad)]
       [wild len FLAG_CHUNK_LENGTH_NOCHECK, wild flgs FLAG_CHUNK_FLAGS_NOCHECK,
        flag_if (padding_data = None) FLAG_CHUNK_VALUE_NOCHECK]
   }"

text \<open>The cumulative TSN is a 32-bit number here, so that the largest one means that it is not to be checked.\<close>

definition wild_tsn :: "u32 \<Rightarrow> int" where
  "wild_tsn cum_tsn = (if cum_tsn = 0xffffffff then - 1 else uint cum_tsn)"

definition sctp_forward_tsn_chunk_new :: "(nat \<Rightarrow> u8) \<Rightarrow> u32 \<Rightarrow> (u16 \<times> u16) list option \<Rightarrow> new_chunk option" where
  "sctp_forward_tsn_chunk_new junk cum_tsn ids_list = do {
     let nr_sids = entries16 (given ids_list);
     let len = 8 + 4 * unat nr_sids;
     c_assert (len < 65536);
     c_assert (len mod 4 = 0);
     c_assert (length (given ids_list) = unat nr_sids);
     chunk_item junk len
       [(0, chunk_header SCTP_FORWARD_TSN_CHUNK_TYPE 0 (of_nat len) @ field32 (wild_tsn cum_tsn)),
        (8, wire_pairs (given ids_list))]
       [flag_if (ids_list = None) FLAG_CHUNK_LENGTH_NOCHECK,
        wild (wild_tsn cum_tsn) FLAG_FORWARD_TSN_CHUNK_CUM_TSN_NOCHECK,
        flag_if (ids_list = None \<or> nr_sids = 0) FLAG_FORWARD_TSN_CHUNK_IDS_NOCHECK]
   }"

definition wire_ids :: "(u16 \<times> u16 \<times> u32) list \<Rightarrow> bytes" where
  "wire_ids xs = concat (map (\<lambda>(sid, reserved, mid). be16_to sid @ be16_to reserved @ put_unaligned_be32 mid) xs)"

definition sctp_i_forward_tsn_chunk_new ::
    "(nat \<Rightarrow> u8) \<Rightarrow> u32 \<Rightarrow> (u16 \<times> u16 \<times> u32) list option \<Rightarrow> new_chunk option" where
  "sctp_i_forward_tsn_chunk_new junk cum_tsn ids_list = do {
     let nr_ids = entries16 (given ids_list);
     let len = 8 + 8 * unat nr_ids;
     c_assert (len < 65536);
     c_assert (len mod 4 = 0);
     c_assert (length (given ids_list) = unat nr_ids);
     chunk_item junk len
       [(0, chunk_header SCTP_I_FORWARD_TSN_CHUNK_TYPE 0 (of_nat len) @ field32 (wild_tsn cum_tsn)),
        (8, wire_ids (given ids_list))]
       [flag_if (ids_list = None) FLAG_CHUNK_LENGTH_NOCHECK,
        wild (wild_tsn cum_tsn) FLAG_I_FORWARD_TSN_CHUNK_CUM_TSN_NOCHECK,
        flag_if (ids_list = None \<or> nr_ids = 0) FLAG_I_FORWARD_TSN_CHUNK_IDS_NOCHECK]
   }"

definition sctp_reconfig_chunk_new :: "(nat \<Rightarrow> u8) \<Rightarrow> int \<Rightarrow> item_list option \<Rightarrow> new_chunk option" where
  "sctp_reconfig_chunk_new junk flgs parameters = do {
     let total = list_total 4 parameters;
     let n = unat total + padding (unat total);
     let items = list_items parameters;
     (ws, params) \<leftarrow> place_items 4 0 items;
     chunk \<leftarrow> build junk n ((0, chunk_header SCTP_RECONFIG_CHUNK_TYPE flgs total) # ws);
     Some (sctp_chunk_list_item_new chunk (of_nat n) (flags_or
       [wild flgs FLAG_CHUNK_FLAGS_NOCHECK,
        flag_if (any_flag items FLAG_PARAMETER_LENGTH_NOCHECK) FLAG_CHUNK_LENGTH_NOCHECK]) params [])
   }"

section \<open>Causes\<close>

definition sctp_cause_list_item_new :: "bytes \<Rightarrow> u32 \<Rightarrow> u32 \<Rightarrow> new_item" where
  "sctp_cause_list_item_new cause len flags = \<lparr> ni_bytes = cause, ni_length = len, ni_flags = flags \<rparr>"

definition sctp_cause_list_new :: item_list where
  "sctp_cause_list_new = \<lparr> il_items = [], il_length = 0 \<rparr>"

definition sctp_cause_list_append :: "item_list \<Rightarrow> new_item \<Rightarrow> item_list" where
  "sctp_cause_list_append list item =
     \<lparr> il_items = il_items list @ [item],
       il_length = il_length list + of_nat (padding (unat (il_length list))) + ni_length item \<rparr>"

definition cause_item ::
    "(nat \<Rightarrow> u8) \<Rightarrow> nat \<Rightarrow> (nat \<times> bytes) list \<Rightarrow> u32 \<Rightarrow> u32 list \<Rightarrow> new_item option" where
  "cause_item junk n ws len flags = do {
     cause \<leftarrow> build junk n ws;
     Some (sctp_cause_list_item_new cause len (flags_or flags))
   }"

definition sctp_generic_cause_new ::
    "(nat \<Rightarrow> u8) \<Rightarrow> int \<Rightarrow> int \<Rightarrow> bytes option \<Rightarrow> new_item option" where
  "sctp_generic_cause_new junk code len bytes =
     (let length16 = ((if len = - 1 then 4 else word_of_int len) :: u16);
          information_length = (case bytes of Some bs \<Rightarrow> entries16 bs | None \<Rightarrow> length16 - 4);
          n = 4 + unat information_length;
          pad = padding (unat information_length)
      in cause_item junk (n + pad)
        [(0, field16 code @ be16_to length16),
         (4, case bytes of Some bs \<Rightarrow> bs | None \<Rightarrow> zeros (unat information_length)),
         (n, zeros pad)]
        (of_nat n)
        [wild len FLAG_CAUSE_LENGTH_NOCHECK,
         flag_if (bytes \<noteq> None \<and> uint information_length < uint length16 - 4) FLAG_CAUSE_PARTIAL,
         flag_if (bytes = None) FLAG_CAUSE_INFORMATION_NOCHECK,
         wild code FLAG_CAUSE_CODE_NOCHECK])"

definition sctp_invalid_stream_identifier_cause_new :: "(nat \<Rightarrow> u8) \<Rightarrow> int \<Rightarrow> new_item option" where
  "sctp_invalid_stream_identifier_cause_new junk sid = do {
     c_assert (sid = - 1 \<or> is_valid_u16 sid);
     cause_item junk 8 [(0, be16_to 1 @ be16_to 8 @ field16 sid @ be16_to 0)] 8
       [wild sid FLAG_CAUSE_INFORMATION_NOCHECK]
   }"

definition sctp_missing_mandatory_parameter_cause_new :: "(nat \<Rightarrow> u8) \<Rightarrow> u16 list option \<Rightarrow> new_item option" where
  "sctp_missing_mandatory_parameter_cause_new junk list = do {
     let nr_entries = entries16 (given list);
     c_assert (list = None \<or> uint nr_entries \<le> (MAX_SCTP_BYTES - 8) div 2);
     let cause_length = 8 + 2 * nr_entries;
     let pad = padding (unat cause_length);
     c_assert (pad = 0 \<or> pad = 2);
     c_assert (length (given list) = unat nr_entries);
     cause_item junk (unat cause_length + pad)
       [(0, be16_to 2 @ be16_to cause_length @ put_unaligned_be32 (ucast nr_entries)),
        (8, wire16 (given list)), (8 + 2 * length (given list), zeros pad)] (ucast cause_length)
       [flag_if (list = None) FLAG_CAUSE_LENGTH_NOCHECK, flag_if (list = None) FLAG_CAUSE_INFORMATION_NOCHECK]
   }"

definition sctp_stale_cookie_error_cause_new :: "(nat \<Rightarrow> u8) \<Rightarrow> int \<Rightarrow> new_item option" where
  "sctp_stale_cookie_error_cause_new junk staleness = do {
     c_assert (staleness = - 1 \<or> is_valid_u32 staleness);
     cause_item junk 8 [(0, be16_to 3 @ be16_to 8 @ field32 staleness)] 8
       [wild staleness FLAG_CAUSE_INFORMATION_NOCHECK]
   }"

definition sctp_out_of_resources_cause_new :: "(nat \<Rightarrow> u8) \<Rightarrow> new_item option" where
  "sctp_out_of_resources_cause_new junk = cause_item junk 4 [(0, be16_to 4 @ be16_to 4)] 4 []"

definition sctp_unresolvable_address_cause_new :: "(nat \<Rightarrow> u8) \<Rightarrow> new_item option \<Rightarrow> new_item option" where
  "sctp_unresolvable_address_cause_new junk item = do {
     c_assert (case item of None \<Rightarrow> True | Some i \<Rightarrow> uint (ni_length i) \<le> MAX_SCTP_BYTES - 4);
     let total = info_total item;
     let pad = padding (unat total);
     ws \<leftarrow> wrapped pad item;
     cause_item junk (unat total + pad) ((0, be16_to 5 @ be16_to total) # ws) (ucast total)
       [flag_if (info_flag item FLAG_PARAMETER_TYPE_NOCHECK \<or> info_flag item FLAG_PARAMETER_VALUE_NOCHECK)
          FLAG_CAUSE_INFORMATION_NOCHECK,
        flag_if (info_flag item FLAG_PARAMETER_LENGTH_NOCHECK) FLAG_CAUSE_LENGTH_NOCHECK]
   }"

text \<open>The chunk in an unrecognized chunk type cause, seen as an item.\<close>

definition chunk_as_item :: "new_chunk \<Rightarrow> new_item" where
  "chunk_as_item c = \<lparr> ni_bytes = nc_bytes c, ni_length = nc_length c, ni_flags = nc_flags c \<rparr>"

definition sctp_unrecognized_chunk_type_cause_new :: "(nat \<Rightarrow> u8) \<Rightarrow> new_chunk option \<Rightarrow> new_item option" where
  "sctp_unrecognized_chunk_type_cause_new junk chunk = do {
     let item = map_option chunk_as_item chunk;
     c_assert (case item of None \<Rightarrow> True | Some i \<Rightarrow> uint (ni_length i) \<le> MAX_SCTP_BYTES - 4);
     let total = info_total item;
     let pad = padding (unat total);
     ws \<leftarrow> wrapped pad item;
     cause_item junk (unat total + pad) ((0, be16_to 6 @ be16_to total) # ws) (ucast total)
       [flag_if (info_flag item FLAG_CHUNK_TYPE_NOCHECK \<or> info_flag item FLAG_CHUNK_FLAGS_NOCHECK \<or>
          info_flag item FLAG_CHUNK_VALUE_NOCHECK) FLAG_CAUSE_INFORMATION_NOCHECK,
        flag_if (info_flag item FLAG_CHUNK_LENGTH_NOCHECK) FLAG_CAUSE_LENGTH_NOCHECK]
   }"

definition sctp_invalid_mandatory_parameter_cause_new :: "(nat \<Rightarrow> u8) \<Rightarrow> new_item option" where
  "sctp_invalid_mandatory_parameter_cause_new junk = cause_item junk 4 [(0, be16_to 7 @ be16_to 4)] 4 []"

definition sctp_unrecognized_parameters_cause_new :: "(nat \<Rightarrow> u8) \<Rightarrow> item_list option \<Rightarrow> new_item option" where
  "sctp_unrecognized_parameters_cause_new junk list =
     containing junk 8 list FLAG_CAUSE_LENGTH_NOCHECK FLAG_CAUSE_INFORMATION_NOCHECK"

definition sctp_no_user_data_cause_new :: "(nat \<Rightarrow> u8) \<Rightarrow> int \<Rightarrow> new_item option" where
  "sctp_no_user_data_cause_new junk tsn = do {
     c_assert (tsn = - 1 \<or> is_valid_u32 tsn);
     cause_item junk 8 [(0, be16_to 9 @ be16_to 8 @ field32 tsn)] 8 [wild tsn FLAG_CAUSE_INFORMATION_NOCHECK]
   }"

definition sctp_cookie_received_while_shutdown_cause_new :: "(nat \<Rightarrow> u8) \<Rightarrow> new_item option" where
  "sctp_cookie_received_while_shutdown_cause_new junk = cause_item junk 4 [(0, be16_to 0xa @ be16_to 4)] 4 []"

definition sctp_restart_with_new_addresses_cause_new :: "(nat \<Rightarrow> u8) \<Rightarrow> item_list option \<Rightarrow> new_item option" where
  "sctp_restart_with_new_addresses_cause_new junk list =
     containing junk 0xb list FLAG_CAUSE_LENGTH_NOCHECK FLAG_CAUSE_INFORMATION_NOCHECK"

definition text_cause :: "(nat \<Rightarrow> u8) \<Rightarrow> u16 \<Rightarrow> string option \<Rightarrow> new_item option" where
  "text_cause junk code info = do {
     c_assert (case info of None \<Rightarrow> True | Some s \<Rightarrow> int (length s) \<le> MAX_SCTP_BYTES - 4);
     let information = chars (given info);
     let total = entries16 information + 4;
     let pad = padding (unat total);
     cause_item junk (unat total + pad)
       [(0, be16_to code @ be16_to total), (4, information), (4 + length information, zeros pad)] (ucast total)
       [flag_if (info = None) FLAG_CAUSE_LENGTH_NOCHECK, flag_if (info = None) FLAG_CAUSE_INFORMATION_NOCHECK]
   }"

definition sctp_user_initiated_abort_cause_new :: "(nat \<Rightarrow> u8) \<Rightarrow> string option \<Rightarrow> new_item option" where
  "sctp_user_initiated_abort_cause_new junk info = text_cause junk 0xc info"

definition sctp_protocol_violation_cause_new :: "(nat \<Rightarrow> u8) \<Rightarrow> string option \<Rightarrow> new_item option" where
  "sctp_protocol_violation_cause_new junk info = text_cause junk 0xd info"

section \<open>The chunks of a script\<close>

text \<open>The descriptions of chunks in a script, with the parameters and causes already built; -1 stands for dots.
  The script parser appends the items to a list one by one.\<close>

datatype chunk_spec =
    Generic_chunk int int int "bytes option"
  | Data_chunk int int int int int int
  | Init_chunk int int int int int int "new_item list option"
  | Init_ack_chunk int int int int int int "new_item list option"
  | Sack_chunk int int int "(u16 \<times> u16) list option" "u32 list option"
  | Nr_sack_chunk int int int "(u16 \<times> u16) list option" "(u16 \<times> u16) list option" "u32 list option"
  | Heartbeat_chunk int "new_item option"
  | Heartbeat_ack_chunk int "new_item option"
  | Abort_chunk int "new_item list option"
  | Shutdown_chunk int int
  | Shutdown_ack_chunk int
  | Error_chunk int "new_item list option"
  | Cookie_echo_chunk int int "bytes option"
  | Cookie_ack_chunk int
  | Ecne_chunk int int
  | Cwr_chunk int int
  | Shutdown_complete_chunk int
  | I_data_chunk int int int int int int int int
  | Pad_chunk int int "bytes option"
  | Forward_tsn_chunk u32 "(u16 \<times> u16) list option"
  | I_forward_tsn_chunk u32 "(u16 \<times> u16 \<times> u32) list option"
  | Reconfig_chunk int "new_item list option"

definition parameter_list_of :: "new_item list \<Rightarrow> item_list" where
  "parameter_list_of items = foldl sctp_parameter_list_append sctp_parameter_list_new items"

definition cause_list_of :: "new_item list \<Rightarrow> item_list" where
  "cause_list_of items = foldl sctp_cause_list_append sctp_cause_list_new items"

fun chunk_new :: "(nat \<Rightarrow> u8) \<Rightarrow> chunk_spec \<Rightarrow> new_chunk option" where
  "chunk_new junk (Generic_chunk type flgs len bs) = sctp_generic_chunk_new junk type flgs len bs"
| "chunk_new junk (Data_chunk flgs len tsn sid ssn ppid) = sctp_data_chunk_new junk flgs len tsn sid ssn ppid"
| "chunk_new junk (Init_chunk flgs tag a_rwnd os is tsn params) =
     sctp_init_chunk_new junk flgs tag a_rwnd os is tsn (map_option parameter_list_of params)"
| "chunk_new junk (Init_ack_chunk flgs tag a_rwnd os is tsn params) =
     sctp_init_ack_chunk_new junk flgs tag a_rwnd os is tsn (map_option parameter_list_of params)"
| "chunk_new junk (Sack_chunk flgs cum_tsn a_rwnd gaps dups) = sctp_sack_chunk_new junk flgs cum_tsn a_rwnd gaps dups"
| "chunk_new junk (Nr_sack_chunk flgs cum_tsn a_rwnd gaps nr_gaps dups) =
     sctp_nr_sack_chunk_new junk flgs cum_tsn a_rwnd gaps nr_gaps dups"
| "chunk_new junk (Heartbeat_chunk flgs info) = sctp_heartbeat_chunk_new junk flgs info"
| "chunk_new junk (Heartbeat_ack_chunk flgs info) = sctp_heartbeat_ack_chunk_new junk flgs info"
| "chunk_new junk (Abort_chunk flgs causes) = sctp_abort_chunk_new junk flgs (map_option cause_list_of causes)"
| "chunk_new junk (Shutdown_chunk flgs cum_tsn) = sctp_shutdown_chunk_new junk flgs cum_tsn"
| "chunk_new junk (Shutdown_ack_chunk flgs) = sctp_shutdown_ack_chunk_new junk flgs"
| "chunk_new junk (Error_chunk flgs causes) = sctp_error_chunk_new junk flgs (map_option cause_list_of causes)"
| "chunk_new junk (Cookie_echo_chunk flgs len cookie) = sctp_cookie_echo_chunk_new junk flgs len cookie"
| "chunk_new junk (Cookie_ack_chunk flgs) = sctp_cookie_ack_chunk_new junk flgs"
| "chunk_new junk (Ecne_chunk flgs lowest_tsn) = sctp_ecne_chunk_new junk flgs lowest_tsn"
| "chunk_new junk (Cwr_chunk flgs lowest_tsn) = sctp_cwr_chunk_new junk flgs lowest_tsn"
| "chunk_new junk (Shutdown_complete_chunk flgs) = sctp_shutdown_complete_chunk_new junk flgs"
| "chunk_new junk (I_data_chunk flgs len tsn sid res mid ppid fsn) =
     sctp_i_data_chunk_new junk flgs len tsn sid res mid ppid fsn"
| "chunk_new junk (Pad_chunk flgs len data) = sctp_pad_chunk_new junk flgs len data"
| "chunk_new junk (Forward_tsn_chunk cum_tsn ids) = sctp_forward_tsn_chunk_new junk cum_tsn ids"
| "chunk_new junk (I_forward_tsn_chunk cum_tsn ids) = sctp_i_forward_tsn_chunk_new junk cum_tsn ids"
| "chunk_new junk (Reconfig_chunk flgs params) = sctp_reconfig_chunk_new junk flgs (map_option parameter_list_of params)"

fun is_generic :: "chunk_spec \<Rightarrow> bool" where
  "is_generic (Generic_chunk _ _ _ _) \<longleftrightarrow> True"
| "is_generic _ \<longleftrightarrow> False"

section \<open>Chunks are records\<close>

text \<open>The length field of a record, and a chunk that is one record with its padding.\<close>

definition length_field :: "bytes \<Rightarrow> nat" where
  "length_field b = unat (be16_of (b ! 2) (b ! 3))"

definition chunk_wf :: "new_chunk \<Rightarrow> bool" where
  "chunk_wf c \<longleftrightarrow> 4 \<le> length_field (nc_bytes c) \<and> length (nc_bytes c) = padded (length_field (nc_bytes c)) \<and>
     unat (nc_length c) = length (nc_bytes c)"

lemma padding_padded: "n + padding n = padded n"
  by (auto simp: padding_def padded_def mod_simps)

lemma padding_small: "\<not> 4 \<le> n \<Longrightarrow> n + padding n \<le> 4"
proof -
  assume "\<not> 4 \<le> n"
  then consider "n = 0" | "n = 1" | "n = 2" | "n = 3"
    by linarith
  then show ?thesis
    by cases (simp_all add: padding_def)
qed

lemma writes_length: "writes ws b = Some b' \<Longrightarrow> length b' = length b"
  by (induction ws b rule: writes.induct) (auto dest: wr_bytes_length split: bind_splits if_splits)

lemma writes_keep: "writes ws b = Some b' \<Longrightarrow> \<forall>w \<in> set ws. k \<le> fst w \<Longrightarrow> take k b' = take k b"
proof (induction ws b rule: writes.induct)
  case (2 p bs ws b)
  then show ?case
    by (auto simp: wr_bytes_def split: bind_splits if_splits)
qed simp

text \<open>A nonempty write beyond the end fails.\<close>

lemma writes_inside: "writes ws b = Some b' \<Longrightarrow> (p, bs) \<in> set ws \<Longrightarrow> bs \<noteq> [] \<Longrightarrow> p + length bs \<le> length b"
  by (induction ws b rule: writes.induct) (auto simp: wr_bytes_def split: bind_splits if_splits)

lemma build_inside: "build junk n ws = Some b \<Longrightarrow> (p, bs) \<in> set ws \<Longrightarrow> bs \<noteq> [] \<Longrightarrow> p + length bs \<le> n"
  using writes_inside [of ws "map junk [0..<n]"] by (simp add: build_def)

lemma build_chunk_wf:
  assumes build: "build junk n ((0, chunk_header type flgs len @ flds) # ws) = Some b"
    and later: "\<forall>w \<in> set ws. 4 \<le> fst w" and n: "n = unat len + padding (unat len)"
    and len: "4 \<le> unat len \<or> flds \<noteq> []"
  shows "chunk_wf (sctp_chunk_list_item_new b (of_nat n) flags params causes)"
proof -
  let ?h = "chunk_header type flgs len"
  obtain b1 where b1: "wr_bytes (map junk [0..<n]) 0 (?h @ flds) = Some b1" "writes ws b1 = Some b"
    using build by (auto simp: build_def chunk_header_def split: bind_splits)
  have h: "length ?h = 4"
    by (simp add: chunk_header_def field8_def be16_to_def)
  have l: "length b = n" "4 + length flds \<le> n" "take 4 b1 = ?h"
    using b1(1) h writes_length [OF b1(2)] by (auto simp: wr_bytes_def split: if_splits)
  then have "take 4 b = ?h"
    using writes_keep [OF b1(2) later] by simp
  then have "b ! 2 = ?h ! 2" "b ! 3 = ?h ! 3"
    using nth_take [of 2 4 b] nth_take [of 3 4 b] by simp_all
  then have "length_field b = unat len"
    using be16_of_to [of len] by (simp add: length_field_def chunk_header_def field8_def)
  moreover have "4 \<le> unat len"
    using len l(2) n padding_small [of "unat len"] by (cases flds) auto
  moreover have "unat len < 65536"
    using unsigned_less [of len] by simp
  then have "n < 2 ^ 32"
    using n padded_bounds(2) [of "unat len"] by (simp add: padding_padded)
  ultimately show ?thesis
    using l n by (simp add: chunk_wf_def sctp_chunk_list_item_new_def padding_padded unsigned_of_nat take_bit_nat_eq_self)
qed

lemma chunk_item_wf:
  assumes "chunk_item junk n ((0, chunk_header type flgs len @ flds) # ws) flags = Some c"
    and "\<forall>w \<in> set ws. 4 \<le> fst w" and "n = unat len + padding (unat len)" and "4 \<le> unat len \<or> flds \<noteq> []"
  shows "chunk_wf c"
  using assms build_chunk_wf [of junk n type flgs len flds ws] by (auto simp: chunk_item_def split: bind_splits)

lemmas chunk_item_wf0 = chunk_item_wf [where flds = "[]", unfolded append_Nil2]

text \<open>The items of a list: where they are placed, and that a list of empty items is empty.\<close>

lemma place_items_later: "place_items base off items = Some (ws, placed) \<Longrightarrow> \<forall>w \<in> set ws. base \<le> fst w"
  by (induction items arbitrary: off ws placed) (fastforce simp: Let_def split: bind_splits)+

lemma place_items_writes:
  "place_items base off items = Some (ws, placed) \<Longrightarrow> item \<in> set items \<Longrightarrow> ni_length item \<noteq> 0 \<Longrightarrow>
     \<exists>p bs. (p, bs) \<in> set ws \<and> bs \<noteq> []"
proof (induction items arbitrary: off ws placed)
  case (Cons i items)
  let ?len = "unat (ni_length i) + padding (unat (ni_length i))"
  obtain bs ws' placed' where first: "rd_bytes (ni_bytes i) 0 ?len = Some bs"
    and rest: "place_items base (off + ucast (ni_length i) + of_nat (padding (unat (ni_length i)))) items = Some (ws', placed')"
    and ws: "ws = (base + unat off, bs) # ws'"
    using Cons.prems(1) by (auto simp: Let_def split: bind_splits)
  show ?case
  proof (cases "ni_length i = 0")
    case True
    then have "item \<in> set items"
      using Cons.prems(2,3) by auto
    then show ?thesis
      using Cons.IH [OF rest _ Cons.prems(3)] ws by auto
  next
    case False
    then have "bs \<noteq> []"
      using first by (auto simp: rd_bytes_def unat_eq_zero split: if_splits)
    then show ?thesis
      using ws by auto
  qed
qed simp

lemma list_of_items [simp]:
  "il_items (parameter_list_of items) = items" "il_items (cause_list_of items) = items"
  by (induction items rule: rev_induct)
    (simp_all add: parameter_list_of_def cause_list_of_def sctp_parameter_list_append_def sctp_cause_list_append_def
      sctp_parameter_list_new_def sctp_cause_list_new_def)

lemma list_of_empty:
  "\<forall>item \<in> set items. ni_length item = 0 \<Longrightarrow> il_length (parameter_list_of items) = 0"
  "\<forall>item \<in> set items. ni_length item = 0 \<Longrightarrow> il_length (cause_list_of items) = 0"
  by (induction items rule: rev_induct)
    (simp_all add: parameter_list_of_def cause_list_of_def sctp_parameter_list_append_def sctp_cause_list_append_def
      sctp_parameter_list_new_def sctp_cause_list_new_def padding_def)

text \<open>A list of items behind a bare chunk header is never so long that the 16-bit length wraps to less than
  the size of the header: the items would not fit.\<close>

lemma list_total_header:
  assumes list: "list = map_option parameter_list_of items \<or> list = map_option cause_list_of items"
    and "place_items 4 0 (list_items list) = Some (ws, placed)"
    and "build junk (unat (list_total 4 list) + padding (unat (list_total 4 list))) ((0, h) # ws) = Some b"
    and "length h = 4"
  shows "4 \<le> unat (list_total 4 list)"
proof (rule ccontr)
  assume small: "\<not> 4 \<le> unat (list_total 4 list)"
  define n where "n = unat (list_total 4 list) + padding (unat (list_total 4 list))"
  have n: "n \<le> 4"
    unfolding n_def by (rule padding_small [OF small])
  obtain b1 where b1: "wr_bytes (map junk [0..<n]) 0 h = Some b1" "writes ws b1 = Some b"
    using assms(3,4) by (auto simp: build_def n_def split: bind_splits if_splits)
  have "bs = []" if "(p, bs) \<in> set ws" for p bs
    using writes_inside [OF b1(2) that] bspec [OF place_items_later [OF assms(2)] that] n wr_bytes_length [OF b1(1)]
    by (cases bs) auto
  then have "\<forall>item \<in> set (list_items list). ni_length item = 0"
    using place_items_writes [OF assms(2)] by blast
  then have "list_total 4 list = 4"
    using list by (cases items) (auto simp: list_total_def list_items_def list_of_empty)
  then show False
    using small by simp
qed

lemma info_total_ge:
  assumes "case info of None \<Rightarrow> True | Some i \<Rightarrow> uint (ni_length i) + 4 \<le> MAX_SCTP_BYTES"
  shows "4 \<le> unat (info_total info)"
proof (cases info)
  case (Some i)
  then have l: "unat (ni_length i) + 4 < 65536"
    using assms uint_nat [of "ni_length i"] by (simp only: Some option.case(2))
  then have "unat (ucast (ni_length i) :: u16) = unat (ni_length i)"
    by (simp add: unsigned_ucast_eq take_bit_eq_mod)
  then show ?thesis
    using Some l unat_word_ariths(1) [of 4 "ucast (ni_length i) :: u16"] by (simp add: info_total_def)
qed (simp add: info_total_def)

lemma heartbeat_wf: "heartbeat junk type flgs info = Some c \<Longrightarrow> chunk_wf c"
proof -
  assume h: "heartbeat junk type flgs info = Some c"
  obtain ws flags where ws: "wrapped (padding (unat (info_total info))) info = Some ws"
    and item: "chunk_item junk (unat (info_total info) + padding (unat (info_total info)))
      ((0, chunk_header type flgs (info_total info)) # ws) flags = Some c"
    using h unfolding heartbeat_def Let_def bind_eq_Some_conv by blast
  have "4 \<le> unat (info_total info)"
    by (rule info_total_ge) (use h in \<open>auto simp: heartbeat_def split: option.splits if_splits\<close>)
  moreover have "\<forall>w \<in> set ws. 4 \<le> fst w"
    using ws by (auto simp: wrapped_def split: option.splits bind_splits)
  ultimately show ?thesis
    using chunk_item_wf0 [OF item] by blast
qed

lemma cause_chunk_wf: "cause_chunk junk type flgs (map_option cause_list_of causes) = Some c \<Longrightarrow> chunk_wf c"
proof -
  let ?list = "map_option cause_list_of causes"
  assume "cause_chunk junk type flgs ?list = Some c"
  then obtain ws placed b flags where place: "place_items 4 0 (list_items ?list) = Some (ws, placed)"
    and b: "build junk (unat (list_total 4 ?list) + padding (unat (list_total 4 ?list)))
      ((0, chunk_header type flgs (list_total 4 ?list)) # ws) = Some b"
    and c: "c = sctp_chunk_list_item_new b (of_nat (unat (list_total 4 ?list) + padding (unat (list_total 4 ?list))))
      flags [] placed"
    by (auto simp: cause_chunk_def Let_def split: bind_splits)
  have "4 \<le> unat (list_total 4 ?list)"
    by (rule list_total_header [OF disjI2 [OF refl] place b]) (simp add: chunk_header_def field8_def be16_to_def)
  then show ?thesis
    unfolding c using b place_items_later [OF place] by (intro build_chunk_wf [where flds = "[]"]) simp_all
qed

lemma reconfig_wf: "sctp_reconfig_chunk_new junk flgs (map_option parameter_list_of params) = Some c \<Longrightarrow> chunk_wf c"
proof -
  let ?list = "map_option parameter_list_of params"
  assume "sctp_reconfig_chunk_new junk flgs ?list = Some c"
  then obtain ws placed b flags where place: "place_items 4 0 (list_items ?list) = Some (ws, placed)"
    and b: "build junk (unat (list_total 4 ?list) + padding (unat (list_total 4 ?list)))
      ((0, chunk_header SCTP_RECONFIG_CHUNK_TYPE flgs (list_total 4 ?list)) # ws) = Some b"
    and c: "c = sctp_chunk_list_item_new b (of_nat (unat (list_total 4 ?list) + padding (unat (list_total 4 ?list))))
      flags placed []"
    by (auto simp: sctp_reconfig_chunk_new_def Let_def split: bind_splits)
  have "4 \<le> unat (list_total 4 ?list)"
    by (rule list_total_header [OF disjI1 [OF refl] place b]) (simp add: chunk_header_def field8_def be16_to_def)
  then show ?thesis
    unfolding c using b place_items_later [OF place] by (intro build_chunk_wf [where flds = "[]"]) simp_all
qed

lemma placed_chunk_wf:
  assumes "place_items base 0 items = Some (ws, placed)" and "4 \<le> base"
    and "build junk (unat len + padding (unat len)) ((0, chunk_header type flgs len @ flds) # ws) = Some b"
    and "4 \<le> unat len \<or> flds \<noteq> []"
  shows "chunk_wf (sctp_chunk_list_item_new b (of_nat (unat len + padding (unat len))) flags params causes)"
  using assms place_items_later [OF assms(1)] by (intro build_chunk_wf [OF assms(3)]) force+

lemma field32_append_neq [simp]: "field32 x @ xs \<noteq> []" "field32 x \<noteq> []"
  by (simp_all add: field32_def put_unaligned_be32_def)

lemma init_wf:
  "sctp_init_chunk_new junk flgs tag a_rwnd os is tsn list = Some c \<Longrightarrow> chunk_wf c"
  "sctp_init_ack_chunk_new junk flgs tag a_rwnd os is tsn list = Some c \<Longrightarrow> chunk_wf c"
  by (auto simp: sctp_init_chunk_new_def sctp_init_ack_chunk_new_def Let_def simp del: of_nat_add append_assoc
      intro!: placed_chunk_wf [where base = 20] split: bind_splits)

lemma data_wf:
  "sctp_data_chunk_new junk flgs len tsn sid ssn ppid = Some c \<Longrightarrow> chunk_wf c"
  "sctp_i_data_chunk_new junk flgs len tsn sid res mid ppid fsn = Some c \<Longrightarrow> chunk_wf c"
  by (auto simp: sctp_data_chunk_new_def sctp_i_data_chunk_new_def Let_def elim!: chunk_item_wf)

lemma sack_wf:
  "sctp_sack_chunk_new junk flgs cum_tsn a_rwnd gaps dups = Some c \<Longrightarrow> chunk_wf c"
  "sctp_nr_sack_chunk_new junk flgs cum_tsn a_rwnd gaps nr_gaps_list dups = Some c \<Longrightarrow> chunk_wf c"
  "sctp_forward_tsn_chunk_new junk cum ids = Some c \<Longrightarrow> chunk_wf c"
  "sctp_i_forward_tsn_chunk_new junk cum i_ids = Some c \<Longrightarrow> chunk_wf c"
  by (auto simp: sctp_sack_chunk_new_def sctp_nr_sack_chunk_new_def sctp_forward_tsn_chunk_new_def
      sctp_i_forward_tsn_chunk_new_def Let_def c_assert_def unsigned_of_nat take_bit_eq_mod padding_def simp del: of_nat_add of_nat_mult
      split: bind_splits if_splits elim!: chunk_item_wf)

lemma fixed_wf:
  "sctp_shutdown_chunk_new junk flgs tsn = Some c \<Longrightarrow> chunk_wf c"
  "sctp_shutdown_ack_chunk_new junk flgs = Some c \<Longrightarrow> chunk_wf c"
  "sctp_cookie_ack_chunk_new junk flgs = Some c \<Longrightarrow> chunk_wf c"
  "sctp_ecne_chunk_new junk flgs tsn = Some c \<Longrightarrow> chunk_wf c"
  "sctp_cwr_chunk_new junk flgs tsn = Some c \<Longrightarrow> chunk_wf c"
  "sctp_shutdown_complete_chunk_new junk flgs = Some c \<Longrightarrow> chunk_wf c"
  by (auto simp: sctp_shutdown_chunk_new_def sctp_shutdown_ack_chunk_new_def sctp_cookie_ack_chunk_new_def
      sctp_ecne_chunk_new_def sctp_cwr_chunk_new_def sctp_shutdown_complete_chunk_new_def padding_def
      elim!: chunk_item_wf chunk_item_wf0)

lemma cookie_echo_wf: "sctp_cookie_echo_chunk_new junk flgs len cookie = Some c \<Longrightarrow> chunk_wf c"
proof -
  define total where "total = (if len = - 1 then 0 else word_of_int (len - 4)) + (4 :: u16)"
  assume c: "sctp_cookie_echo_chunk_new junk flgs len cookie = Some c"
  note c' = c [unfolded sctp_cookie_echo_chunk_new_def Let_def, folded total_def]
  have "len = - 1 \<or> 4 \<le> len \<and> len < 65536"
    using c' by (auto simp: is_valid_u16_def split: if_splits)
  then have "4 \<le> unat total"
    by (auto simp: total_def unsigned_of_int take_bit_eq_mod)
  then show ?thesis
    using c' by (auto split: if_splits elim!: chunk_item_wf0)
qed

lemma pad_wf: "sctp_pad_chunk_new junk flgs len data = Some c \<Longrightarrow> chunk_wf c"
proof -
  define l where "l = ((if len = - 1 then 0 else word_of_int (len - 4)) :: u16)"
  assume c: "sctp_pad_chunk_new junk flgs len data = Some c"
  note c' = c [unfolded sctp_pad_chunk_new_def Let_def, folded l_def]
  obtain contents where contents: "(case data of Some p \<Rightarrow> rd_bytes p 0 (unat l) | None \<Rightarrow> Some (replicate (unat l) 0x50)) =
      Some contents"
    and "\<exists>ws flags. chunk_item junk (unat (l + 4) + padding (unat (l + 4)))
      ((0, chunk_header SCTP_PAD_CHUNK_TYPE flgs (l + 4)) # (4, contents) # ws) flags = Some c \<and>
      (\<forall>w \<in> set ws. 4 \<le> fst w)"
    using c' by (auto simp del: of_nat_add simp: bind_eq_Some_conv) (metis fst_conv le_add1 list.set(1) empty_iff set_ConsD)+
  then obtain ws flags where item: "chunk_item junk (unat (l + 4) + padding (unat (l + 4)))
      ((0, chunk_header SCTP_PAD_CHUNK_TYPE flgs (l + 4)) # (4, contents) # ws) flags = Some c"
    and later: "\<forall>w \<in> set ws. 4 \<le> fst w"
    by blast
  have len: "length contents = unat l"
    using contents by (auto simp: rd_bytes_def split: option.splits if_splits)
  have "4 \<le> unat (l + 4)"
  proof (rule ccontr)
    assume small: "\<not> 4 \<le> unat (l + 4)"
    then have "65532 \<le> unat l"
      using unsigned_less [of l] by (cases "unat l + 4 < 65536") (simp_all add: unat_word_ariths)
    moreover have "4 + length contents \<le> unat (l + 4) + padding (unat (l + 4))" if "contents \<noteq> []"
      using item that by (auto simp: chunk_item_def dest!: build_inside [where p = 4 and bs = contents] split: bind_splits)
    ultimately show False
      using padding_small [OF small] len by (cases contents) auto
  qed
  then show ?thesis
    using chunk_item_wf0 [OF item] later by simp
qed

lemma chunk_new_wf: "chunk_new junk spec = Some c \<Longrightarrow> \<not> is_generic spec \<Longrightarrow> chunk_wf c"
  by (cases spec) (auto simp: sctp_heartbeat_chunk_new_def sctp_heartbeat_ack_chunk_new_def sctp_abort_chunk_new_def
      sctp_error_chunk_new_def intro: data_wf init_wf sack_wf heartbeat_wf cause_chunk_wf fixed_wf cookie_echo_wf
      pad_wf reconfig_wf)

text \<open>The memory of an outgoing SSN reset request has no room for its padding, which the constructor of the chunk
  copies: with an odd number of streams the chunk constructor reads beyond the end of the parameter.\<close>

lemma reconfig_odd_streams_over_read:
  assumes "sctp_outgoing_ssn_reset_request_parameter_new junk reqsn respsn last_tsn (Some sids) = Some item"
    and "odd (length sids)" and "length sids < 32000"
  shows "chunk_new junk' (Reconfig_chunk flgs (Some (item # items))) = None"
proof -
  define len where "len = (16 + 2 * entries16 sids :: u16)"
  have n: "unat len = 16 + 2 * length sids"
    using assms(3) by (simp add: len_def entries16_def unat_word_ariths unsigned_of_nat take_bit_eq_mod)
  obtain b where b: "build junk (unat len) [(0, be16_to SCTP_OUTGOING_SSN_RESET_REQUEST_PARAMETER_TYPE @ be16_to len @
            field32 reqsn @ field32 respsn @ field32 last_tsn), (16, wire16 sids)] = Some b" and item: "ni_bytes item = b" "ni_length item = ucast len"
    using assms(1) by (auto simp: sctp_outgoing_ssn_reset_request_parameter_new_def parameter_item_def Let_def
        sctp_parameter_list_item_new_def len_def split: bind_splits)
  have "length b = unat len"
    using writes_length [OF b [unfolded build_def]] by simp
  moreover have "padding (unat len) = 2"
    using assms(2) n by (auto simp: padding_def elim!: oddE)
  moreover have "unat (ucast len :: u32) = unat len"
    using n assms(3) by (simp add: unsigned_ucast_eq take_bit_eq_mod)
  ultimately have "rd_bytes (ni_bytes item) 0 (unat (ni_length item) + padding (unat (ni_length item))) = None"
    by (simp add: item rd_bytes_def)
  then have "place_items 4 0 (item # items) = None"
    by (simp add: Let_def)
  then show ?thesis
    by (simp add: sctp_reconfig_chunk_new_def list_items_def Let_def)
qed

end
