(* ===== verification/Sctp_Packet.thy ===== *)
theory Sctp_Packet
  imports Sctp_Chunks Transport
begin

text \<open>
  The constructors of SCTP packets (\<^verbatim>\<open>new_sctp_packet\<close> and \<^verbatim>\<open>new_sctp_generic_packet\<close> of \<^verbatim>\<open>sctp_packet.c\<close>): the
  checks that an inbound packet leaves no field open and that an outbound packet is not defective, and the
  assembly of the chunks behind the IP header, the header of an encapsulating UDP datagram and the SCTP common
  header. The chunk list of the packet then points to the chunks, parameters and causes in the packet.
\<close>

section \<open>Checks\<close>

datatype sctp_packet_error =
    Sctp_packet_too_large
  | Must_be_specified string
  | Bad_crc32c_inbound_only
  | Partial_not_supported string
  | Generic_inbound_only

type_synonym sctp_check = "(sctp_packet_error, unit) status"

text \<open>The first of a list of fields that was left open makes a check fail.\<close>

fun unspecified :: "u32 \<Rightarrow> (u32 \<times> string) list \<Rightarrow> sctp_check" where
  "unspecified flags [] = Inr ()"
| "unspecified flags ((flag, what) # fs) =
     (if has_flag flags flag then Inl (Must_be_specified what) else unspecified flags fs)"

fun check_each :: "('a \<Rightarrow> sctp_check option) \<Rightarrow> 'a list \<Rightarrow> sctp_check option" where
  "check_each check [] = Some (Inr ())"
| "check_each check (x # xs) = do {
     r \<leftarrow> check x;
     (case r of Inl e \<Rightarrow> Some (Inl e) | Inr _ \<Rightarrow> check_each check xs)
   }"

definition parameter_fields :: "u16 \<Rightarrow> (u32 \<times> string) list" where
  "parameter_fields type =
     (if type = SCTP_OUTGOING_SSN_RESET_REQUEST_PARAMETER_TYPE then
        [(FLAG_RECONFIG_REQ_SN_NOCHECK, ''reqsn value''), (FLAG_RECONFIG_RESP_SN_NOCHECK, ''respsn value''),
         (FLAG_RECONFIG_LAST_TSN_NOCHECK, ''last_tsn value'')]
      else if type = SCTP_INCOMING_SSN_RESET_REQUEST_PARAMETER_TYPE \<or> type = SCTP_SSN_TSN_RESET_REQUEST_PARAMETER_TYPE then
        [(FLAG_RECONFIG_REQ_SN_NOCHECK, ''reqsn value'')]
      else if type = SCTP_RECONFIG_RESPONSE_PARAMETER_TYPE then
        [(FLAG_RECONFIG_RESULT_NOCHECK, ''result value''), (FLAG_RECONFIG_SENDER_NEXT_TSN_NOCHECK, ''sender_next_tsn value''),
         (FLAG_RECONFIG_RECEIVER_NEXT_TSN_NOCHECK, ''receiver_next_tsn value'')]
      else if type = SCTP_ADD_OUTGOING_STREAMS_REQUEST_PARAMETER_TYPE \<or>
        type = SCTP_ADD_INCOMING_STREAMS_REQUEST_PARAMETER_TYPE then
        [(FLAG_RECONFIG_REQ_SN_NOCHECK, ''reqsn value''),
         (FLAG_RECONFIG_NUMBER_OF_NEW_STREAMS_NOCHECK, ''number_of_new_streams value'')]
      else [])"

definition check_inbound_parameter :: "bytes \<Rightarrow> sctp_item \<Rightarrow> sctp_check option" where
  "check_inbound_parameter chunk item = do {
     p \<leftarrow> item_ptr item;
     type \<leftarrow> rd16 chunk p;
     Some (if type = SCTP_STATE_COOKIE_PARAMETER_TYPE then Inr ()
           else unspecified (item_flags item) (parameter_fields type @
             [(FLAG_PARAMETER_LENGTH_NOCHECK, ''parameter length''), (FLAG_PARAMETER_VALUE_NOCHECK, ''parameter value'')]))
   }"

definition check_inbound_cause :: "sctp_item \<Rightarrow> sctp_check option" where
  "check_inbound_cause item = Some (unspecified (item_flags item)
     [(FLAG_CAUSE_LENGTH_NOCHECK, ''cause length''), (FLAG_CAUSE_INFORMATION_NOCHECK, ''cause information'')])"

definition chunk_fields :: "u8 \<Rightarrow> (u32 \<times> string) list" where
  "chunk_fields type =
     (if type = SCTP_DATA_CHUNK_TYPE then
        [(FLAG_CHUNK_FLAGS_NOCHECK, ''chunk flags''), (FLAG_CHUNK_LENGTH_NOCHECK, ''chunk length''),
         (FLAG_DATA_CHUNK_TSN_NOCHECK, ''TSN''), (FLAG_DATA_CHUNK_SID_NOCHECK, ''SID''),
         (FLAG_DATA_CHUNK_SSN_NOCHECK, ''SSN''), (FLAG_DATA_CHUNK_PPID_NOCHECK, ''PPID'')]
      else if type = SCTP_INIT_CHUNK_TYPE then
        [(FLAG_INIT_CHUNK_TAG_NOCHECK, ''TAG''), (FLAG_INIT_CHUNK_A_RWND_NOCHECK, ''A_RWND''),
         (FLAG_INIT_CHUNK_OS_NOCHECK, ''OS''), (FLAG_INIT_CHUNK_IS_NOCHECK, ''IS''),
         (FLAG_INIT_CHUNK_OPT_PARAM_NOCHECK, ''list of optional parameters'')]
      else if type = SCTP_INIT_ACK_CHUNK_TYPE then
        [(FLAG_INIT_ACK_CHUNK_TAG_NOCHECK, ''TAG''), (FLAG_INIT_ACK_CHUNK_A_RWND_NOCHECK, ''A_RWND''),
         (FLAG_INIT_ACK_CHUNK_OS_NOCHECK, ''OS''), (FLAG_INIT_ACK_CHUNK_IS_NOCHECK, ''IS''),
         (FLAG_INIT_ACK_CHUNK_OPT_PARAM_NOCHECK, ''list of optional parameters'')]
      else if type = SCTP_SACK_CHUNK_TYPE then
        [(FLAG_SACK_CHUNK_CUM_TSN_NOCHECK, ''CUM_TSN''), (FLAG_SACK_CHUNK_A_RWND_NOCHECK, ''A_RWND''),
         (FLAG_SACK_CHUNK_GAP_BLOCKS_NOCHECK, ''GAP_BLOCKS''), (FLAG_SACK_CHUNK_DUP_TSNS_NOCHECK, ''DUP_TSNS'')]
      else if type = SCTP_NR_SACK_CHUNK_TYPE then
        [(FLAG_NR_SACK_CHUNK_CUM_TSN_NOCHECK, ''CUM_TSN''), (FLAG_NR_SACK_CHUNK_A_RWND_NOCHECK, ''A_RWND''),
         (FLAG_NR_SACK_CHUNK_GAP_BLOCKS_NOCHECK, ''GAP_BLOCKS''),
         (FLAG_NR_SACK_CHUNK_NR_GAP_BLOCKS_NOCHECK, ''NR_GAP_BLOCKS''),
         (FLAG_NR_SACK_CHUNK_DUP_TSNS_NOCHECK, ''DUP_TSNS'')]
      else if type = SCTP_ABORT_CHUNK_TYPE \<or> type = SCTP_ERROR_CHUNK_TYPE then
        [(FLAG_CHUNK_LENGTH_NOCHECK, ''error causes'')]
      else if type = SCTP_SHUTDOWN_CHUNK_TYPE then [(FLAG_SHUTDOWN_CHUNK_CUM_TSN_NOCHECK, ''TSN'')]
      else if type = SCTP_ECNE_CHUNK_TYPE then [(FLAG_ECNE_CHUNK_LOWEST_TSN_NOCHECK, ''LOWEST_TSN'')]
      else if type = SCTP_CWR_CHUNK_TYPE then [(FLAG_CWR_CHUNK_LOWEST_TSN_NOCHECK, ''LOWEST_TSN'')]
      else if type = SCTP_PAD_CHUNK_TYPE then [(FLAG_CHUNK_LENGTH_NOCHECK, ''chunk length'')]
      else if type = SCTP_FORWARD_TSN_CHUNK_TYPE then [(FLAG_FORWARD_TSN_CHUNK_CUM_TSN_NOCHECK, ''cum tsn'')]
      else if type \<in> {SCTP_HEARTBEAT_CHUNK_TYPE, SCTP_HEARTBEAT_ACK_CHUNK_TYPE, SCTP_SHUTDOWN_ACK_CHUNK_TYPE,
        SCTP_COOKIE_ECHO_CHUNK_TYPE, SCTP_COOKIE_ACK_CHUNK_TYPE, SCTP_SHUTDOWN_COMPLETE_CHUNK_TYPE,
        SCTP_RECONFIG_CHUNK_TYPE} then []
      else [(FLAG_CHUNK_TYPE_NOCHECK, ''chunk type''), (FLAG_CHUNK_FLAGS_NOCHECK, ''chunk flags''),
        (FLAG_CHUNK_LENGTH_NOCHECK, ''chunk length'')])"

definition check_inbound_chunk :: "new_chunk \<Rightarrow> sctp_check option" where
  "check_inbound_chunk c = do {
     r \<leftarrow> check_each (check_inbound_parameter (nc_bytes c)) (nc_parameters c);
     (case r of Inl e \<Rightarrow> Some (Inl e) | Inr _ \<Rightarrow> do {
       r \<leftarrow> check_each check_inbound_cause (nc_causes c);
       (case r of Inl e \<Rightarrow> Some (Inl e) | Inr _ \<Rightarrow> do {
         type \<leftarrow> rd8 (nc_bytes c) 0;
         Some (unspecified (nc_flags c) (chunk_fields type))
       })
     })
   }"

text \<open>Chunks that are filled in from the other end later make the packet as large as possible.\<close>

definition overbooks :: "new_chunk \<Rightarrow> bool" where
  "overbooks c \<longleftrightarrow> rd8 (nc_bytes c) 0 \<in> {Some SCTP_HEARTBEAT_ACK_CHUNK_TYPE, Some SCTP_COOKIE_ECHO_CHUNK_TYPE}"

definition check_outbound_chunk :: "new_chunk \<Rightarrow> sctp_check option" where
  "check_outbound_chunk c = Some (
     if has_flag (nc_flags c) FLAG_CHUNK_PARTIAL then Inl (Partial_not_supported ''chunks'')
     else if \<exists>item \<in> set (nc_parameters c). has_flag (item_flags item) FLAG_PARAMETER_PARTIAL
     then Inl (Partial_not_supported ''parameters'')
     else if \<exists>item \<in> set (nc_causes c). has_flag (item_flags item) FLAG_CAUSE_PARTIAL
     then Inl (Partial_not_supported ''causes'')
     else Inr ())"

definition check_sctp_chunks :: "direction_t \<Rightarrow> bool \<Rightarrow> new_chunk list \<Rightarrow> sctp_check option" where
  "check_sctp_chunks direction bad_crc32c chunks =
     (if direction = DIRECTION_INBOUND then check_each check_inbound_chunk chunks
      else if bad_crc32c then Some (Inl Bad_crc32c_inbound_only)
      else check_each check_outbound_chunk chunks)"

section \<open>Assembly\<close>

definition MAX_SCTP_DATAGRAM_BYTES :: nat where [simp]: "MAX_SCTP_DATAGRAM_BYTES = 64 * 1024"

definition relocate :: "nat \<Rightarrow> sctp_item \<Rightarrow> sctp_item" where
  "relocate start item = item\<lparr>item_ptr := map_option ((+) start) (item_ptr item)\<rparr>"

fun place_chunks :: "nat \<Rightarrow> new_chunk list \<Rightarrow> bytes \<Rightarrow> (bytes \<times> sctp_chunk_list_item list) option" where
  "place_chunks start [] b = Some (b, [])"
| "place_chunks start (c # cs) b = do {
     bs \<leftarrow> rd_bytes (nc_bytes c) 0 (unat (nc_length c));
     b \<leftarrow> (if bs = [] then Some b else wr_bytes b start bs);
     (b, items) \<leftarrow> place_chunks (start + unat (nc_length c)) cs b;
     Some (b, \<lparr> chunk_ptr = Some start, chunk_length = nc_length c, chunk_flags = nc_flags c,
       parameter_list = map (relocate start) (nc_parameters c), cause_list = map (relocate start) (nc_causes c) \<rparr> # items)
   }"

text \<open>The headers of both constructors: \<open>payload\<close> bytes follow the SCTP common header, which is at the
  resulting offset.\<close>

definition set_sctp_headers ::
    "address_family \<Rightarrow> ip_ecn_t \<Rightarrow> u16 \<Rightarrow> u16 \<Rightarrow> int \<Rightarrow> nat \<Rightarrow> nat \<Rightarrow> packet \<Rightarrow> (packet \<times> nat) option" where
  "set_sctp_headers af ecn udp_src_port udp_dst_port tag ip_bytes payload pkt = do {
     ip_header_bytes \<leftarrow> ip_header_min_len af;
     let encapsulate = (udp_src_port > 0 \<or> udp_dst_port > 0);
     pkt \<leftarrow> (if encapsulate
       then do {
         pkt \<leftarrow> set_packet_ip_header pkt af (of_nat ip_bytes) ecn IPPROTO_UDP;
         (pkt, p) \<leftarrow> append_total pkt HEADER_UDP sizeof_udp (sizeof_udp + sizeof_sctp_common_header + payload);
         upd_buffer (\<lambda>b. set_udp_encap_header b p udp_src_port udp_dst_port
           (sizeof_udp + sizeof_sctp_common_header + payload)) pkt
       }
       else set_packet_ip_header pkt af (of_nat ip_bytes) ecn IPPROTO_SCTP);
     (pkt, _) \<leftarrow> append_total pkt HEADER_SCTP sizeof_sctp_common_header (sizeof_sctp_common_header + payload);
     ip \<leftarrow> ip_start pkt;
     let sctp = ip + ip_header_bytes + (if encapsulate then sizeof_udp else 0);
     pkt \<leftarrow> upd_buffer (\<lambda>b. do {
       b \<leftarrow> wr16 b sctp 0;
       b \<leftarrow> wr16 b (sctp + 2) 0;
       b \<leftarrow> wr32 b (sctp + 4) (word_of_int tag);
       wr32 b (sctp + 8) 0 }) (pkt\<lparr>pkt_sctp := Some sctp\<rparr>);
     Some (pkt, sctp)
   }"

definition sctp_ip_bytes :: "address_family \<Rightarrow> u16 \<Rightarrow> u16 \<Rightarrow> nat \<Rightarrow> nat option" where
  "sctp_ip_bytes af udp_src_port udp_dst_port payload = do {
     ip_header_bytes \<leftarrow> ip_header_min_len af;
     c_assert (ip_header_bytes mod 4 = 0);
     Some (ip_header_bytes + sizeof_sctp_common_header + payload +
       (if udp_src_port > 0 \<or> udp_dst_port > 0 then sizeof_udp else 0))
   }"

text \<open>The total length of the chunks becomes a 32-bit integer, which is taken to be positive.\<close>

definition new_sctp_packet ::
    "(nat \<Rightarrow> u8) \<Rightarrow> address_family \<Rightarrow> direction_t \<Rightarrow> ip_ecn_t \<Rightarrow> int \<Rightarrow> bool \<Rightarrow> new_chunk_list \<Rightarrow> u16 \<Rightarrow> u16 \<Rightarrow>
       (sctp_packet_error, packet) status option" where
  "new_sctp_packet junk af direction ecn tag bad_crc32c list udp_src_port udp_dst_port = do {
     c_assert (unat (cl_length list) < 2 ^ 31);
     let sctp_chunk_bytes = unat (cl_length list);
     ip_bytes \<leftarrow> sctp_ip_bytes af udp_src_port udp_dst_port sctp_chunk_bytes;
     if ip_bytes > MAX_SCTP_DATAGRAM_BYTES then Some (Inl Sctp_packet_too_large)
     else do {
       r \<leftarrow> check_sctp_chunks direction bad_crc32c (cl_chunks list);
       (case r of Inl e \<Rightarrow> Some (Inl e) | Inr _ \<Rightarrow> do {
         let overbook = (direction = DIRECTION_INBOUND \<and> (\<exists>c \<in> set (cl_chunks list). overbooks c));
         let pkt = packet_new_zeroed junk (if overbook then MAX_SCTP_DATAGRAM_BYTES else ip_bytes);
         let pkt = pkt\<lparr> pkt_direction := direction, pkt_ecn := ecn,
           pkt_flags := (if udp_src_port > 0 \<or> udp_dst_port > 0 then FLAGS_UDP_ENCAPSULATED else 0)
             OR flag_if bad_crc32c FLAGS_SCTP_BAD_CRC32C OR flag_if (tag \<noteq> - 1) FLAGS_SCTP_EXPLICIT_TAG \<rparr>;
         (pkt, sctp) \<leftarrow> set_sctp_headers af ecn udp_src_port udp_dst_port tag ip_bytes sctp_chunk_bytes pkt;
         (b, items) \<leftarrow> place_chunks (sctp + sizeof_sctp_common_header) (cl_chunks list) (pkt_buffer pkt);
         Some (Inr (pkt\<lparr> pkt_buffer := b, pkt_chunk_list := Some items,
           pkt_ip_bytes := pkt_ip_bytes pkt + sctp_chunk_bytes \<rparr>))
       })
     }
   }"

definition new_sctp_generic_packet ::
    "(nat \<Rightarrow> u8) \<Rightarrow> address_family \<Rightarrow> direction_t \<Rightarrow> ip_ecn_t \<Rightarrow> int \<Rightarrow> bool \<Rightarrow> bytes \<Rightarrow> u16 \<Rightarrow> u16 \<Rightarrow>
       (sctp_packet_error, packet) status option" where
  "new_sctp_generic_packet junk af direction ecn tag bad_crc32c bytes udp_src_port udp_dst_port =
     (if direction = DIRECTION_OUTBOUND then Some (Inl Generic_inbound_only)
      else do {
        let sctp_chunk_bytes = unat (entries16 bytes);
        ip_bytes \<leftarrow> sctp_ip_bytes af udp_src_port udp_dst_port sctp_chunk_bytes;
        if ip_bytes > MAX_SCTP_DATAGRAM_BYTES then Some (Inl Sctp_packet_too_large)
        else do {
          let pkt = packet_new_zeroed junk ip_bytes;
          let pkt = pkt\<lparr> pkt_direction := direction, pkt_ecn := ecn,
            pkt_flags := FLAGS_SCTP_GENERIC_PACKET OR flag_if bad_crc32c FLAGS_SCTP_BAD_CRC32C
              OR flag_if (tag \<noteq> - 1) FLAGS_SCTP_EXPLICIT_TAG
              OR flag_if (udp_src_port > 0 \<or> udp_dst_port > 0) FLAGS_SCTP_BAD_CRC32C \<rparr>;
          (pkt, sctp) \<leftarrow> set_sctp_headers af ecn udp_src_port udp_dst_port tag ip_bytes sctp_chunk_bytes pkt;
          pkt \<leftarrow> (if bytes = [] then Some pkt
            else upd_buffer (\<lambda>b. wr_bytes b (sctp + sizeof_sctp_common_header) bytes) pkt);
          Some (Inr (pkt\<lparr> pkt_chunk_list := None, pkt_ip_bytes := ip_bytes \<rparr>))
        }
      })"

section \<open>The assembled packet\<close>

text \<open>The chunk list that the script parser makes, and the list of the packet when the first chunk is at \<open>start\<close>.\<close>

definition chunk_list_of :: "new_chunk list \<Rightarrow> new_chunk_list" where
  "chunk_list_of chunks = foldl sctp_chunk_list_append sctp_chunk_list_new chunks"

fun placed_chunks :: "nat \<Rightarrow> new_chunk list \<Rightarrow> sctp_chunk_list_item list" where
  "placed_chunks start [] = []"
| "placed_chunks start (c # cs) =
     \<lparr> chunk_ptr = Some start, chunk_length = nc_length c, chunk_flags = nc_flags c,
       parameter_list = map (relocate start) (nc_parameters c), cause_list = map (relocate start) (nc_causes c) \<rparr>
     # placed_chunks (start + length (nc_bytes c)) cs"

definition chunks_wire :: "new_chunk list \<Rightarrow> bytes" where
  "chunks_wire chunks = concat (map nc_bytes chunks)"

lemma place_chunks_wire:
  assumes "\<forall>c \<in> set cs. unat (nc_length c) = length (nc_bytes c)" and "length mid = length (chunks_wire cs)"
  shows "place_chunks (length pre) cs (pre @ mid @ post) =
     Some (pre @ chunks_wire cs @ post, placed_chunks (length pre) cs)"
  using assms
proof (induction cs arbitrary: pre mid)
  case (Cons c cs)
  let ?l = "length (nc_bytes c)"
  have mid: "mid = take ?l mid @ drop ?l mid" "length (take ?l mid) = ?l" "length (drop ?l mid) = length (chunks_wire cs)"
    using Cons.prems(2) by (simp_all add: chunks_wire_def)
  have c: "unat (nc_length c) = ?l" "rd_bytes (nc_bytes c) 0 ?l = Some (nc_bytes c)"
    using Cons.prems(1) by (simp_all add: rd_bytes_def)
  have "(if nc_bytes c = [] then Some (pre @ mid @ post) else wr_bytes (pre @ mid @ post) (length pre) (nc_bytes c)) =
      Some ((pre @ nc_bytes c) @ drop ?l mid @ post)"
    using mid(2) Cons.prems(2) by (auto simp: wr_bytes_def chunks_wire_def)
  moreover have "place_chunks (length (pre @ nc_bytes c)) cs ((pre @ nc_bytes c) @ drop ?l mid @ post) =
      Some ((pre @ nc_bytes c) @ chunks_wire cs @ post, placed_chunks (length (pre @ nc_bytes c)) cs)"
    using Cons.prems(1) mid(3) by (intro Cons.IH) simp_all
  ultimately show ?case
    by (simp add: c chunks_wire_def)
qed (simp add: chunks_wire_def)

lemma chunk_list_of_chunks [simp]: "cl_chunks (chunk_list_of chunks) = chunks"
  by (induction chunks rule: rev_induct)
    (simp_all add: chunk_list_of_def sctp_chunk_list_append_def sctp_chunk_list_new_def)

lemma chunk_list_of_length:
  assumes "\<forall>c \<in> set chunks. unat (nc_length c) = length (nc_bytes c)"
  shows "cl_length (chunk_list_of chunks) = of_nat (length (chunks_wire chunks))"
  using assms
proof (induction chunks rule: rev_induct)
  case (snoc c chunks)
  moreover have "of_nat (unat (nc_length c)) = nc_length c"
    by simp
  ultimately have "nc_length c = of_nat (length (nc_bytes c))"
    by simp
  with snoc show ?case
    by (simp add: chunk_list_of_def sctp_chunk_list_append_def chunks_wire_def)
qed (simp add: chunk_list_of_def sctp_chunk_list_new_def chunks_wire_def)

text \<open>Each chunk is a record and its padding.\<close>

definition chunk_record :: "new_chunk \<Rightarrow> bytes \<times> bytes" where
  "chunk_record c = (take (length_field (nc_bytes c)) (nc_bytes c), drop (length_field (nc_bytes c)) (nc_bytes c))"

lemma chunk_record_ok:
  assumes "chunk_wf c"
  shows "tlv_ok (fst (chunk_record c))"
    "length (fst (chunk_record c)) + length (snd (chunk_record c)) = padded (length (fst (chunk_record c)))"
    "padded (length (fst (chunk_record c))) = length (nc_bytes c)"
proof -
  have l: "4 \<le> length_field (nc_bytes c)" "length (nc_bytes c) = padded (length_field (nc_bytes c))"
      "length_field (nc_bytes c) \<le> length (nc_bytes c)"
    using assms padded_bounds(1) [of "length_field (nc_bytes c)"] by (auto simp: chunk_wf_def)
  then show "tlv_ok (fst (chunk_record c))"
    by (simp add: tlv_ok_def chunk_record_def length_field_def)
  show "length (fst (chunk_record c)) + length (snd (chunk_record c)) = padded (length (fst (chunk_record c)))"
      "padded (length (fst (chunk_record c))) = length (nc_bytes c)"
    using l by (simp_all add: chunk_record_def min_def)
qed

lemma chunk_records_padded: "\<forall>c \<in> set cs. chunk_wf c \<Longrightarrow> tlvs_padded (map chunk_record cs)"
proof (induction cs)
  case (Cons c cs)
  then have ok: "tlv_ok (fst (chunk_record c))"
      "length (fst (chunk_record c)) + length (snd (chunk_record c)) = padded (length (fst (chunk_record c)))"
    by (simp_all add: chunk_record_ok)
  obtain t pad where r: "chunk_record c = (t, pad)"
    by fastforce
  show ?case
    using Cons ok by (cases cs) (simp_all add: r)
qed simp

lemma chunk_records_wire: "tlv_wire (map chunk_record cs) = chunks_wire cs"
  by (induction cs) (simp_all add: chunks_wire_def chunk_record_def)

lemma chunk_record_offsets:
  "\<forall>c \<in> set cs. chunk_wf c \<Longrightarrow>
     map Some (tlv_offsets start (map fst (map chunk_record cs))) = map chunk_ptr (placed_chunks start cs)"
  by (induction cs arbitrary: start) (simp_all add: chunk_record_ok(3))

lemma placed_chunks_bytes:
  assumes "\<forall>c \<in> set cs. chunk_wf c"
  shows "map (\<lambda>(p, c). rd_bytes (pre @ chunks_wire cs @ post) p (length (nc_bytes c)))
     (zip (tlv_offsets (length pre) (map fst (map chunk_record cs))) cs) = map (Some \<circ> nc_bytes) cs"
  using assms
proof (induction cs arbitrary: pre)
  case (Cons c cs)
  have "map (\<lambda>(p, c). rd_bytes ((pre @ nc_bytes c') @ chunks_wire cs @ post) p (length (nc_bytes c)))
     (zip (tlv_offsets (length (pre @ nc_bytes c')) (map fst (map chunk_record cs))) cs) = map (Some \<circ> nc_bytes) cs" for c'
    using Cons.prems by (intro Cons.IH) simp
  from this [of c] show ?case
    using Cons.prems by (simp add: chunk_record_ok(3) chunks_wire_def rd_bytes_def)
qed simp

text \<open>The headers in front of the chunks.\<close>

definition sctp_encapsulated :: "u16 \<Rightarrow> u16 \<Rightarrow> bool" where
  "sctp_encapsulated src dst \<longleftrightarrow> src > 0 \<or> dst > 0"

definition sctp_offset :: "address_family \<Rightarrow> u16 \<Rightarrow> u16 \<Rightarrow> nat" where
  "sctp_offset af src dst = ip_header_size af + (if sctp_encapsulated src dst then 8 else 0)"

definition sctp_headers_wire :: "address_family \<Rightarrow> ip_ecn_t \<Rightarrow> u16 \<Rightarrow> u16 \<Rightarrow> int \<Rightarrow> nat \<Rightarrow> bytes" where
  "sctp_headers_wire af ecn src dst tag payload =
     ip_header_wire af (sctp_offset af src dst + 12 + payload) ecn
       (if sctp_encapsulated src dst then IPPROTO_UDP else IPPROTO_SCTP) @
     (if sctp_encapsulated src dst then udp_header_wire src dst (8 + 12 + payload) else []) @
     replicate 4 0 @ put_unaligned_be32 (word_of_int tag) @ replicate 4 0"

lemma length_sctp_headers_wire [simp]:
  "length (sctp_headers_wire af ecn src dst tag payload) = sctp_offset af src dst + 12"
  by (simp add: sctp_headers_wire_def sctp_offset_def udp_header_wire_def)

lemma length_4_cases: "length xs = 4 \<Longrightarrow> \<exists>a b c d. xs = [a, b, c, d]"
  by (auto simp: numeral_eq_Suc length_Suc_conv)

lemma set_common_header_wire:
  assumes "length mid = 12"
  shows "do {
       b \<leftarrow> wr16 (pre @ mid @ post) (length pre) 0;
       b \<leftarrow> wr16 b (length pre + 2) 0;
       b \<leftarrow> wr32 b (length pre + 4) tag;
       wr32 b (length pre + 8) 0 } =
     Some (pre @ (replicate 4 0 @ put_unaligned_be32 tag @ replicate 4 0) @ post)"
proof -
  have 12: "length (take 8 mid) = 8" "length (drop 8 mid) = 4"
    using assms by simp_all
  obtain x0 x1 x2 x3 x4 x5 x6 x7 where a: "take 8 mid = [x0, x1, x2, x3, x4, x5, x6, x7]"
    using 12(1) by (rule length_8_cases)
  have "mid = take 8 mid @ drop 8 mid"
    by simp
  moreover obtain y0 y1 y2 y3 where "drop 8 mid = [y0, y1, y2, y3]"
    using length_4_cases [OF 12(2)] by blast
  ultimately have mid: "mid = [x0, x1, x2, x3, x4, x5, x6, x7, y0, y1, y2, y3]"
    using a by simp
  show ?thesis
    unfolding mid by (simp add: wr16_def wr32_def wr_bytes_def be16_to_def put_unaligned_be32_def numeral_eq_Suc)
qed

text \<open>First the IP header, then the UDP header of an encapsulated packet.\<close>

definition sctp_network_headers ::
    "address_family \<Rightarrow> u16 \<Rightarrow> u16 \<Rightarrow> nat \<Rightarrow> header list" where
  "sctp_network_headers af src dst payload =
     [\<lparr> htype = ip_header_type af, header_bytes = ip_header_size af,
        total_bytes = sctp_offset af src dst + 12 + payload, hptr = Some 0 \<rparr>]
     @ (if sctp_encapsulated src dst then [\<lparr> htype = HEADER_UDP, header_bytes = 8, total_bytes = 20 + payload,
          hptr = Some (ip_header_size af) \<rparr>] else [])"

lemma sctp_ip_header:
  assumes af: "af \<noteq> AF_UNSPEC" and n: "ip_header_size af \<le> n" "n < 65536" "n \<le> m"
    and fresh: "pkt_headers pkt = replicate PACKET_MAX_HEADERS no_header" "pkt_ip_bytes pkt = 0"
      "pkt_ipv4 pkt = None" "pkt_ipv6 pkt = None" "pkt_buffer pkt = replicate m 0"
  obtains pkt' where "set_packet_ip_header pkt af (of_nat n) ecn proto = Some pkt'"
    and "pkt_buffer pkt' = ip_header_wire af n ecn proto @ replicate (m - ip_header_size af) 0"
    and "chain_at pkt' (ip_header_size af)" and "same_meta (set_ip_ptr af 0 pkt) pkt'"
    and "used_headers pkt' = [\<lparr> htype = ip_header_type af, header_bytes = ip_header_size af, total_bytes = n, hptr = Some 0 \<rparr>]"
proof -
  let ?pkt = "set_ip_ptr af 0 pkt" and ?hl = "ip_header_size af"
  have hs: "used_headers ?pkt = []" "headers_wf ?pkt"
    using fresh_headers [of ?pkt] fresh by simp_all
  then have c0: "chain_at ?pkt 0" and cnt: "packet_header_count ?pkt \<noteq> 6"
    using fresh by (simp_all add: chain_at_def packet_header_count_used)
  have buf: "pkt_buffer pkt = replicate ?hl 0 @ replicate (m - ?hl) 0"
    using n fresh(5) by (simp flip: replicate_add)
  show ?thesis
    by (rule that [OF set_packet_ip_header_eq [OF af fresh(1-4) buf _ n(1,2)]])
      (use chain_at_push [OF c0 cnt, of "ip_header_type af" ?hl n] hs in \<open>simp_all add: packet_header_count_used\<close>)
qed

lemma sctp_network_part:
  assumes af: "af \<noteq> AF_UNSPEC" and n: "n = sctp_offset af src dst + 12 + payload" "n < 65536" "n \<le> m"
    and fresh: "pkt_headers pkt = replicate PACKET_MAX_HEADERS no_header" "pkt_ip_bytes pkt = 0"
      "pkt_ipv4 pkt = None" "pkt_ipv6 pkt = None" "pkt_buffer pkt = replicate m 0"
  obtains pkt' where "(if sctp_encapsulated src dst then do {
         pkt \<leftarrow> set_packet_ip_header pkt af (of_nat n) ecn IPPROTO_UDP;
         (pkt, p) \<leftarrow> append_total pkt HEADER_UDP 8 (8 + 12 + payload);
         upd_buffer (\<lambda>b. set_udp_encap_header b p src dst (8 + 12 + payload)) pkt }
       else set_packet_ip_header pkt af (of_nat n) ecn IPPROTO_SCTP) = Some pkt'"
    and "pkt_buffer pkt' = (ip_header_wire af n ecn (if sctp_encapsulated src dst then IPPROTO_UDP else IPPROTO_SCTP) @
      (if sctp_encapsulated src dst then udp_header_wire src dst (8 + 12 + payload) else [])) @
      replicate (m - sctp_offset af src dst) 0"
    and "chain_at pkt' (sctp_offset af src dst)" and "same_meta (set_ip_ptr af 0 pkt) pkt'"
    and "used_headers pkt' = sctp_network_headers af src dst payload"
proof -
  let ?hl = "ip_header_size af" and ?off = "sctp_offset af src dst" and ?enc = "sctp_encapsulated src dst"
  define proto where "proto = (if ?enc then IPPROTO_UDP else IPPROTO_SCTP)"
  have hl: "?hl \<le> n"
    using n by (simp add: sctp_offset_def)
  obtain pkt1 where ip: "set_packet_ip_header pkt af (of_nat n) ecn proto = Some pkt1"
    and buf: "pkt_buffer pkt1 = ip_header_wire af n ecn proto @ replicate (m - ?hl) 0"
    and chain: "chain_at pkt1 ?hl" and meta: "same_meta (set_ip_ptr af 0 pkt) pkt1"
    and used: "used_headers pkt1 = [\<lparr> htype = ip_header_type af, header_bytes = ?hl, total_bytes = n, hptr = Some 0 \<rparr>]"
    by (rule sctp_ip_header [OF af hl n(2,3) fresh])
  show ?thesis
  proof (cases ?enc)
    case False
    then show ?thesis
      using ip buf chain meta used n(1) by (intro that [of pkt1])
        (simp_all add: proto_def sctp_offset_def sctp_network_headers_def)
  next
    case True
    let ?pkt2 = "push_header pkt1 HEADER_UDP 8 (20 + payload)"
    have m: "replicate (m - ?hl) (0 :: u8) = replicate 8 0 @ replicate (m - ?off) 0"
      using True n by (simp add: sctp_offset_def flip: replicate_add)
    have cnt: "packet_header_count pkt1 < 6"
      by (simp add: packet_header_count_used used)
    have "append_total pkt1 HEADER_UDP 8 (20 + payload) = Some (?pkt2, ?hl)"
      using cnt by (intro append_total_eq [OF chain]) (simp_all add: buf m)
    then show ?thesis
      using True ip set_udp_encap_header_wire [of "replicate 8 0" "ip_header_wire af n ecn proto" "replicate (m - ?off) 0" src dst]
        chain_at_push [OF chain, of HEADER_UDP 8 "20 + payload"] cnt used same_meta_trans [OF meta same_meta_push] n(1)
      by (intro that [of "?pkt2\<lparr>pkt_buffer := (ip_header_wire af n ecn proto @ udp_header_wire src dst (20 + payload)) @
            replicate (m - ?off) 0\<rparr>"])
        (simp_all add: proto_def upd_buffer_def buf m sctp_offset_def sctp_network_headers_def)
  qed
qed

lemma set_sctp_headers_wire:
  assumes af: "af \<noteq> AF_UNSPEC" and n: "n = sctp_offset af src dst + 12 + payload" "n < 65536" "n \<le> m"
    and fresh: "pkt_headers pkt = replicate PACKET_MAX_HEADERS no_header" "pkt_ip_bytes pkt = 0"
      "pkt_ipv4 pkt = None" "pkt_ipv6 pkt = None" "pkt_buffer pkt = replicate m 0"
  obtains pkt' where "set_sctp_headers af ecn src dst tag n payload pkt = Some (pkt', sctp_offset af src dst)"
    and "pkt_buffer pkt' = sctp_headers_wire af ecn src dst tag payload @ replicate (m - (sctp_offset af src dst + 12)) 0"
    and "pkt_sctp pkt' = Some (sctp_offset af src dst)" and "pkt_ip_bytes pkt' = sctp_offset af src dst + 12"
    and "used_headers pkt' = sctp_network_headers af src dst payload
      @ [\<lparr> htype = HEADER_SCTP, header_bytes = 12, total_bytes = 12 + payload, hptr = Some (sctp_offset af src dst) \<rparr>]"
proof -
  let ?off = "sctp_offset af src dst" and ?enc = "sctp_encapsulated src dst"
  define net_wire where "net_wire = ip_header_wire af n ecn (if ?enc then IPPROTO_UDP else IPPROTO_SCTP) @
      (if ?enc then udp_header_wire src dst (8 + 12 + payload) else [])"
  obtain pkt2 where net: "(if ?enc then do {
         pkt \<leftarrow> set_packet_ip_header pkt af (of_nat n) ecn IPPROTO_UDP;
         (pkt, p) \<leftarrow> append_total pkt HEADER_UDP 8 (8 + 12 + payload);
         upd_buffer (\<lambda>b. set_udp_encap_header b p src dst (8 + 12 + payload)) pkt }
       else set_packet_ip_header pkt af (of_nat n) ecn IPPROTO_SCTP) = Some pkt2"
    and buf: "pkt_buffer pkt2 = net_wire @ replicate (m - ?off) 0"
    and chain: "chain_at pkt2 ?off" and meta: "same_meta (set_ip_ptr af 0 pkt) pkt2"
    and used: "used_headers pkt2 = sctp_network_headers af src dst payload"
    unfolding net_wire_def by (rule sctp_network_part [OF af n fresh])
  have len: "length net_wire = ?off" and rep: "replicate (m - ?off) (0 :: u8) = replicate 12 0 @ replicate (m - (?off + 12)) 0"
    using n by (simp_all add: net_wire_def sctp_offset_def udp_header_wire_def flip: replicate_add)
  have cnt: "packet_header_count pkt2 < 6"
    by (simp add: packet_header_count_used used sctp_network_headers_def)
  let ?pkt3 = "push_header pkt2 HEADER_SCTP 12 (12 + payload)"
  let ?pkt4 = "?pkt3\<lparr>pkt_sctp := Some ?off,
      pkt_buffer := sctp_headers_wire af ecn src dst tag payload @ replicate (m - (?off + 12)) 0\<rparr>"
  have sctp: "append_total pkt2 HEADER_SCTP 12 (12 + payload) = Some (?pkt3, ?off)"
    using cnt len rep by (intro append_total_eq [OF chain]) (simp_all add: buf)
  have ip: "ip_start ?pkt3 = Some 0"
    by (simp add: ip_start_def push_header_def same_meta_fields [OF meta] set_ip_ptr_def fresh(3))
  have "upd_buffer (\<lambda>b. do {
       b \<leftarrow> wr16 b ?off 0;
       b \<leftarrow> wr16 b (?off + 2) 0;
       b \<leftarrow> wr32 b (?off + 4) (word_of_int tag);
       wr32 b (?off + 8) 0 }) (?pkt3\<lparr>pkt_sctp := Some ?off\<rparr>) = Some ?pkt4"
    using set_common_header_wire [of "replicate 12 0" net_wire "replicate (m - (?off + 12)) 0" "word_of_int tag"] len
    by (simp add: upd_buffer_def buf rep sctp_headers_wire_def net_wire_def n(1))
  moreover have "ip_header_min_len af = Some (ip_header_size af)"
    using af by (cases af) (simp_all add: ip_header_min_len_def ip_header_size_def)
  ultimately have "set_sctp_headers af ecn src dst tag n payload pkt = Some (?pkt4, ?off)"
    using net sctp ip unfolding set_sctp_headers_def Let_def
    by (simp add: sctp_encapsulated_def [symmetric] sctp_offset_def [symmetric])
  moreover have "used_headers ?pkt4 = used_headers ?pkt3"
    by (simp add: used_headers_def)
  moreover have "used_headers ?pkt3 = sctp_network_headers af src dst payload @
      [\<lparr> htype = HEADER_SCTP, header_bytes = 12, total_bytes = 12 + payload, hptr = Some ?off \<rparr>]"
    using chain_at_push(2) [OF chain, of HEADER_SCTP 12 "12 + payload"] cnt used by simp
  moreover have "pkt_ip_bytes ?pkt3 = ?off + 12"
    using chain by (simp add: chain_at_def push_header_def)
  ultimately show ?thesis
    by (intro that [of ?pkt4]) auto
qed

lemma new_sctp_packet_built:
  assumes af: "af \<noteq> AF_UNSPEC"
    and wf: "\<forall>c \<in> set chunks. unat (nc_length c) = length (nc_bytes c)"
    and n: "n = sctp_offset af src dst + 12 + length (chunks_wire chunks)" "n < 65536"
    and checked: "check_sctp_chunks direction bad chunks = Some (Inr ())"
  obtains pkt post where "new_sctp_packet junk af direction ecn tag bad (chunk_list_of chunks) src dst = Some (Inr pkt)"
    and "pkt_buffer pkt = sctp_headers_wire af ecn src dst tag (length (chunks_wire chunks)) @ chunks_wire chunks @ post"
    and "pkt_chunk_list pkt = Some (placed_chunks (sctp_offset af src dst + 12) chunks)"
    and "pkt_ip_bytes pkt = n" and "pkt_sctp pkt = Some (sctp_offset af src dst)"
    and "used_headers pkt = sctp_network_headers af src dst (length (chunks_wire chunks)) @
      [\<lparr> htype = HEADER_SCTP, header_bytes = 12, total_bytes = 12 + length (chunks_wire chunks),
         hptr = Some (sctp_offset af src dst) \<rparr>]"
proof -
  let ?off = "sctp_offset af src dst" and ?w = "chunks_wire chunks"
  have len: "unat (cl_length (chunk_list_of chunks)) = length ?w"
    using n by (simp add: chunk_list_of_length [OF wf] unsigned_of_nat take_bit_nat_eq_self)
  have ip: "sctp_ip_bytes af src dst (length ?w) = Some n"
    using af n(1) by (cases af) (simp_all add: sctp_ip_bytes_def ip_header_min_len_def ip_header_size_def sctp_offset_def
        sctp_encapsulated_def)
  define m where "m = (if direction = DIRECTION_INBOUND \<and> (\<exists>c \<in> set chunks. overbooks c) then MAX_SCTP_DATAGRAM_BYTES else n)"
  define pkt0 where "pkt0 = (packet_new_zeroed junk m)\<lparr> pkt_direction := direction, pkt_ecn := ecn,
      pkt_flags := (if src > 0 \<or> dst > 0 then FLAGS_UDP_ENCAPSULATED else 0)
        OR flag_if bad FLAGS_SCTP_BAD_CRC32C OR flag_if (tag \<noteq> - 1) FLAGS_SCTP_EXPLICIT_TAG \<rparr>"
  have m: "n \<le> m"
    using n by (simp add: m_def)
  obtain pkt where hdr: "set_sctp_headers af ecn src dst tag n (length ?w) pkt0 = Some (pkt, ?off)"
    and buf: "pkt_buffer pkt = sctp_headers_wire af ecn src dst tag (length ?w) @ replicate (m - (?off + 12)) 0"
    and rest: "pkt_sctp pkt = Some ?off" "pkt_ip_bytes pkt = ?off + 12"
      "used_headers pkt = sctp_network_headers af src dst (length ?w) @
        [\<lparr> htype = HEADER_SCTP, header_bytes = 12, total_bytes = 12 + length ?w, hptr = Some ?off \<rparr>]"
    by (rule set_sctp_headers_wire [OF af n m, of pkt0])
      (simp_all add: pkt0_def packet_new_zeroed_def packet_new_def)
  have "replicate (m - (?off + 12)) (0 :: u8) = replicate (length ?w) 0 @ replicate (m - n) 0"
    using n m by (simp flip: replicate_add)
  then have place: "place_chunks (?off + 12) chunks (pkt_buffer pkt) = Some (sctp_headers_wire af ecn src dst tag (length ?w) @
      ?w @ replicate (m - n) 0, placed_chunks (?off + 12) chunks)"
    using place_chunks_wire [OF wf, of "replicate (length ?w) 0" "sctp_headers_wire af ecn src dst tag (length ?w)"]
    by (simp add: buf)
  let ?pkt' = "pkt\<lparr> pkt_buffer := sctp_headers_wire af ecn src dst tag (length ?w) @ ?w @ replicate (m - n) 0,
      pkt_chunk_list := Some (placed_chunks (?off + 12) chunks), pkt_ip_bytes := ?off + 12 + length ?w \<rparr>"
  have "new_sctp_packet junk af direction ecn tag bad (chunk_list_of chunks) src dst = Some (Inr ?pkt')"
    unfolding new_sctp_packet_def Let_def len chunk_list_of_chunks ip checked bind.bind_lunit sum.case
      m_def [symmetric] pkt0_def [symmetric] hdr prod.case
    using n place rest(2) by simp
  then show ?thesis
    using rest n(1) by (intro that [of ?pkt' "replicate (m - n) 0"]) (simp_all add: used_headers_def)
qed

lemma packet_start_used: "used_headers pkt = h # hs \<Longrightarrow> packet_start pkt = hptr h"
  by (auto simp: used_headers_def packet_start_def split: list.splits if_splits)

text \<open>C17: A packet of SCTP chunks of any kinds but the generic one, as a script describes them, is put together by
  \<^verbatim>\<open>new_sctp_packet\<close> so that the chunks are found again: when the chunks could be built, left no mandatory field
  open and fit into an IP packet, the constructor returns a packet, and iterating over the chunks of the packet
  with the SCTP iterators visits exactly the pointers in its chunk list, each of which points to the bytes of its
  chunk. This holds for both address families, with and without UDP encapsulation.\<close>

theorem sctp_packet_chunks:
  assumes specs: "list_all2 (\<lambda>spec c. chunk_new junk spec = Some c \<and> \<not> is_generic spec) specs chunks"
    and af: "af \<noteq> AF_UNSPEC" and n: "sctp_offset af src dst + 12 + length (chunks_wire chunks) < 65536"
    and checked: "check_sctp_chunks direction bad chunks = Some (Inr ())"
  shows "\<exists>pkt items start e. new_sctp_packet junk af direction ecn tag bad (chunk_list_of chunks) src dst = Some (Inr pkt) \<and>
     pkt_chunk_list pkt = Some items \<and> packet_payload pkt = Some start \<and> packet_end pkt = Some e \<and>
     (\<exists>ptrs. map chunk_ptr items = map Some ptrs \<and>
        sctp_collect CHUNK (pkt_buffer pkt) start e = Some (Inr (pkt_buffer pkt, ptrs)) \<and>
        map (\<lambda>(p, c). rd_bytes (pkt_buffer pkt) p (length (nc_bytes c))) (zip ptrs chunks) = map (Some \<circ> nc_bytes) chunks)"
proof -
  have wf: "\<forall>c \<in> set chunks. chunk_wf c"
    using specs by (induction rule: list_all2_induct) (auto intro: chunk_new_wf)
  then have lens: "\<forall>c \<in> set chunks. unat (nc_length c) = length (nc_bytes c)"
    by (simp add: chunk_wf_def)
  let ?off = "sctp_offset af src dst" and ?w = "chunks_wire chunks"
  let ?hdr = "sctp_headers_wire af ecn src dst tag (length ?w)"
  obtain pkt post where pkt: "new_sctp_packet junk af direction ecn tag bad (chunk_list_of chunks) src dst = Some (Inr pkt)"
      "pkt_buffer pkt = ?hdr @ ?w @ post" "pkt_chunk_list pkt = Some (placed_chunks (?off + 12) chunks)"
      "pkt_ip_bytes pkt = ?off + 12 + length ?w" "pkt_sctp pkt = Some ?off"
      "used_headers pkt = sctp_network_headers af src dst (length ?w) @
        [\<lparr> htype = HEADER_SCTP, header_bytes = 12, total_bytes = 12 + length ?w, hptr = Some ?off \<rparr>]"
    by (rule new_sctp_packet_built [OF af lens refl n checked])
  let ?ptrs = "tlv_offsets (?off + 12) (map fst (map chunk_record chunks))"
  have "sctp_collect CHUNK (pkt_buffer pkt) (?off + 12) (?off + 12 + length ?w) = Some (Inr (pkt_buffer pkt, ?ptrs))"
    using sctp_records_roundtrip [OF chunk_records_padded [OF wf], of "pkt_buffer pkt" ?hdr post CHUNK]
    by (simp add: chunk_records_wire pkt(2))
  moreover have "map (\<lambda>(p, c). rd_bytes (pkt_buffer pkt) p (length (nc_bytes c))) (zip ?ptrs chunks) = map (Some \<circ> nc_bytes) chunks"
    using placed_chunks_bytes [OF wf, of ?hdr post] by (simp add: pkt(2))
  moreover have "packet_start pkt = Some 0"
    using packet_start_used [of pkt] pkt(6) by (simp add: sctp_network_headers_def)
  ultimately show ?thesis
    using pkt chunk_record_offsets [OF wf, of "?off + 12"]
    by (intro exI [of _ pkt] exI [of _ "placed_chunks (?off + 12) chunks"] exI [of _ "?off + 12"]
        exI [of _ "?off + 12 + length ?w"] conjI exI [of _ ?ptrs])
      (simp_all add: packet_payload_def packet_sctp_header_len_def packet_end_def)
qed

definition example_specs :: "chunk_spec list" where
  "example_specs = [Cookie_ack_chunk 0, Data_chunk 3 17 1 0 0 0, Reconfig_chunk 0 None]"

definition example_chunks :: "new_chunk list" where
  "example_chunks = map (the \<circ> chunk_new (\<lambda>_. 7)) example_specs"

lemma example_chunks_built:
  "list_all2 (\<lambda>spec c. chunk_new (\<lambda>_. 7) spec = Some c \<and> \<not> is_generic spec) example_specs example_chunks"
  "check_sctp_chunks DIRECTION_INBOUND True example_chunks = Some (Inr ())"
  "length (chunks_wire example_chunks) = 28"
  by code_simp+

theorem sctp_packet_chunks_witness:
  "\<exists>pkt items start e. new_sctp_packet (\<lambda>_. 7) AF_INET6 DIRECTION_INBOUND ECN_NONE 5 True
       (chunk_list_of example_chunks) 0 9899 = Some (Inr pkt) \<and>
     pkt_chunk_list pkt = Some items \<and> packet_payload pkt = Some start \<and> packet_end pkt = Some e \<and>
     (\<exists>ptrs. map chunk_ptr items = map Some ptrs \<and>
        sctp_collect CHUNK (pkt_buffer pkt) start e = Some (Inr (pkt_buffer pkt, ptrs)) \<and>
        map (\<lambda>(p, c). rd_bytes (pkt_buffer pkt) p (length (nc_bytes c))) (zip ptrs example_chunks) =
          map (Some \<circ> nc_bytes) example_chunks)"
  by (rule sctp_packet_chunks [OF example_chunks_built(1) _ _ example_chunks_built(2)])
    (simp_all add: example_chunks_built(3) sctp_offset_def ip_header_size_def)

end
