(* ===== verification/Cleanup.thy ===== *)
theory Cleanup
  imports Run_Packet Sctp_Packet
begin









section \<open>What is left behind\<close>













end
