(* ===== verification/Script.thy ===== *)
theory Script
  imports Pd_Prelude
begin

text \<open>
  Script expressions (\<^verbatim>\<open>script.h\<close>, \<^verbatim>\<open>script.c\<close>): the arguments and results of the system calls
  of a script, and their evaluation, which resolves symbols to integers, ors flags together,
  removes the escapes of strings and checks hexadecimal words.

  The tagged union \<^verbatim>\<open>struct expression\<close> is the datatype \<open>expression\<close>; the pointed-to structures of
  expressions (\<^verbatim>\<open>struct iovec_expr\<close>, \<dots>) are one constructor that carries the tag and the fields by
  name. The tags that only a FreeBSD or NetBSD build has are included. A field that is a null
  pointer is a missing name, and reading it is the error \<open>Null_field\<close> (the C code would fault
  there). The symbol table of the platform, whose values come from the headers of the system, is
  the argument \<open>platform_symbols\<close>.
\<close>

section \<open>Expressions\<close>

datatype expression_t =
    EXPR_NONE | EXPR_NULL | EXPR_ELLIPSIS | EXPR_INTEGER | EXPR_LINGER | EXPR_WORD |
    EXPR_HEX_WORD | EXPR_STRING | EXPR_SOCKET_ADDRESS_IPV4 | EXPR_SOCKET_ADDRESS_IPV6 |
    EXPR_BINARY | EXPR_LIST | EXPR_IOVEC | EXPR_MSGHDR | EXPR_CMSGHDR | EXPR_POLLFD |
    EXPR_ACCEPT_FILTER_ARG | EXPR_SF_HDTR | EXPR_TCP_FUNCTION_SET | EXPR_TCP_FASTOPEN |
    EXPR_SCTP_RTOINFO | EXPR_SCTP_INITMSG | EXPR_SCTP_ASSOC_VALUE | EXPR_SCTP_HMACALGO |
    EXPR_SCTP_AUTHKEYID | EXPR_SCTP_SACKINFO | EXPR_SCTP_STATUS | EXPR_SCTP_PADDRINFO |
    EXPR_SCTP_STREAM_VALUE | EXPR_SCTP_PEER_ADDR_PARAMS | EXPR_SCTP_ASSOCPARAMS |
    EXPR_SCTP_EVENT | EXPR_SCTP_EVENT_SUBSCRIBE | EXPR_SCTP_SNDINFO | EXPR_SCTP_SETPRIM |
    EXPR_SCTP_SETADAPTATION | EXPR_SCTP_SNDRCVINFO | EXPR_SCTP_PRINFO |
    EXPR_SCTP_DEFAULT_PRINFO | EXPR_SCTP_AUTHINFO | EXPR_SCTP_SENDV_SPA |
    EXPR_SCTP_RCVINFO | EXPR_SCTP_NXTINFO | EXPR_SCTP_RECVV_RN | EXPR_SCTP_ASSOC_CHANGE |
    EXPR_SCTP_PADDR_CHANGE | EXPR_SCTP_REMOTE_ERROR | EXPR_SCTP_SEND_FAILED |
    EXPR_SCTP_SHUTDOWN_EVENT | EXPR_SCTP_ADAPTATION_EVENT | EXPR_SCTP_PDAPI_EVENT |
    EXPR_SCTP_AUTHKEY_EVENT | EXPR_SCTP_SENDER_DRY_EVENT | EXPR_SCTP_SEND_FAILED_EVENT |
    EXPR_SCTP_TLV | EXPR_SCTP_EXTRCVINFO | EXPR_SCTP_ASSOC_IDS | EXPR_SCTP_AUTHCHUNKS |
    EXPR_SCTP_SETPEERPRIM | EXPR_SCTP_AUTHCHUNK | EXPR_SCTP_AUTHKEY |
    EXPR_SCTP_RESET_STREAMS | EXPR_SCTP_ADD_STREAMS | EXPR_SCTP_STREAM_RESET_EVENT |
    EXPR_SCTP_ASSOC_RESET_EVENT | EXPR_SCTP_STREAM_CHANGE_EVENT | EXPR_SCTP_UDPENCAPS |
    NUM_EXPR_TYPES

definition expression_type_table :: "(expression_t \<times> string) list" where
  "expression_type_table =
    [(EXPR_NONE, ''none''), (EXPR_NULL, ''null''), (EXPR_ELLIPSIS, ''ellipsis''),
     (EXPR_INTEGER, ''integer''), (EXPR_WORD, ''word''), (EXPR_HEX_WORD, ''hex word''),
     (EXPR_STRING, ''string''), (EXPR_SOCKET_ADDRESS_IPV4, ''sockaddr_in''),
     (EXPR_SOCKET_ADDRESS_IPV6, ''sockaddr_in6''), (EXPR_LINGER, ''linger''),
     (EXPR_BINARY, ''binary_expression''), (EXPR_LIST, ''list''), (EXPR_IOVEC, ''iovec''),
     (EXPR_MSGHDR, ''msghdr''), (EXPR_CMSGHDR, ''cmsghdr''), (EXPR_POLLFD, ''pollfd''),
     (EXPR_ACCEPT_FILTER_ARG, ''accept_filter_arg''), (EXPR_SF_HDTR, ''sf_hdtr''),
     (EXPR_TCP_FUNCTION_SET, ''tcp_function_set''), (EXPR_TCP_FASTOPEN, ''tcp_fastopen''),
     (EXPR_SCTP_RTOINFO, ''sctp_rtoinfo''), (EXPR_SCTP_INITMSG, ''sctp_initmsg''),
     (EXPR_SCTP_ASSOC_VALUE, ''sctp_assoc_value''),
     (EXPR_SCTP_HMACALGO, ''sctp_hmacalgo''), (EXPR_SCTP_AUTHKEYID, ''sctp_authkeyid''),
     (EXPR_SCTP_SACKINFO, ''sctp_sackinfo''), (EXPR_SCTP_STATUS, ''sctp_status''),
     (EXPR_SCTP_PADDRINFO, ''sctp_paddrinfo''),
     (EXPR_SCTP_PEER_ADDR_PARAMS, ''sctp_peer_addr_params''),
     (EXPR_SCTP_STREAM_VALUE, ''sctp_stream_value''),
     (EXPR_SCTP_ASSOCPARAMS, ''sctp_assocparams''), (EXPR_SCTP_EVENT, ''sctp_event''),
     (EXPR_SCTP_EVENT_SUBSCRIBE, ''sctp_event_subscribe''),
     (EXPR_SCTP_SNDINFO, ''sctp_sndinfo''), (EXPR_SCTP_SETPRIM, ''sctp_setprim''),
     (EXPR_SCTP_SETADAPTATION, ''sctp_setadaptation''),
     (EXPR_SCTP_SNDRCVINFO, ''sctp_sndrcvinfo''), (EXPR_SCTP_PRINFO, ''sctp_prinfo''),
     (EXPR_SCTP_DEFAULT_PRINFO, ''sctp_default_prinfo''),
     (EXPR_SCTP_AUTHINFO, ''sctp_authinfo''), (EXPR_SCTP_SENDV_SPA, ''sctp_sendv_spa''),
     (EXPR_SCTP_RCVINFO, ''sctp_rcvinfo''), (EXPR_SCTP_NXTINFO, ''sctp_nxtinfo''),
     (EXPR_SCTP_RECVV_RN, ''sctp_recvv_rn''),
     (EXPR_SCTP_ASSOC_CHANGE, ''sctp_assoc_change''),
     (EXPR_SCTP_PADDR_CHANGE, ''sctp_paddr_change''),
     (EXPR_SCTP_REMOTE_ERROR, ''sctp_remote_error''),
     (EXPR_SCTP_SEND_FAILED, ''sctp_send_failed''),
     (EXPR_SCTP_SHUTDOWN_EVENT, ''sctp_shutdown_event''),
     (EXPR_SCTP_ADAPTATION_EVENT, ''sctp_adaptation_event''),
     (EXPR_SCTP_PDAPI_EVENT, ''sctp_pdapi_event''),
     (EXPR_SCTP_AUTHKEY_EVENT, ''sctp_authkey_event''),
     (EXPR_SCTP_SENDER_DRY_EVENT, ''sctp_sender_dry_event''),
     (EXPR_SCTP_SEND_FAILED_EVENT, ''sctp_send_failed_event''),
     (EXPR_SCTP_TLV, ''sctp_tlv''), (EXPR_SCTP_EXTRCVINFO, ''sctp_extrcvinfo''),
     (EXPR_SCTP_ASSOC_IDS, ''sctp_assoc_ids''),
     (EXPR_SCTP_AUTHCHUNKS, ''sctp_authchunks''),
     (EXPR_SCTP_SETPEERPRIM, ''sctp_setpeerprim''),
     (EXPR_SCTP_AUTHCHUNK, ''sctp_authchunk''), (EXPR_SCTP_AUTHKEY, ''sctp_authkey''),
     (EXPR_SCTP_RESET_STREAMS, ''sctp_reset_streams''),
     (EXPR_SCTP_ADD_STREAMS, ''sctp_add_streams''),
     (EXPR_SCTP_STREAM_RESET_EVENT, ''sctp_stream_reset_event''),
     (EXPR_SCTP_ASSOC_RESET_EVENT, ''sctp_assoc_reset_event''),
     (EXPR_SCTP_STREAM_CHANGE_EVENT, ''sctp_stream_change_event''),
     (EXPR_SCTP_UDPENCAPS, ''sctp_udpencaps'')]"

definition expression_type_to_string :: "expression_t \<Rightarrow> string" where
  "expression_type_to_string ty = (case find (\<lambda>(t, name). t = ty) expression_type_table of
     Some (t, name) \<Rightarrow> name | None \<Rightarrow> ''UNKNOWN_TYPE'')"

type_synonym s64 = "64 word"

datatype expression =
    Expr_null
  | Expr_ellipsis
  | Expr_integer s64
  | Expr_word string
  | Expr_hex_word string
  | Expr_string string
  | Expr_sockaddr_ipv4 bytes
  | Expr_sockaddr_ipv6 bytes
  | Expr_binary string expression expression
  | Expr_list "expression list"
  | Expr_struct expression_t "(string \<times> expression) list"

type_synonym struct_expr = "(string \<times> expression) list"

fun expr_type :: "expression \<Rightarrow> expression_t" where
  "expr_type Expr_null = EXPR_NULL"
| "expr_type Expr_ellipsis = EXPR_ELLIPSIS"
| "expr_type (Expr_integer n) = EXPR_INTEGER"
| "expr_type (Expr_word w) = EXPR_WORD"
| "expr_type (Expr_hex_word w) = EXPR_HEX_WORD"
| "expr_type (Expr_string s) = EXPR_STRING"
| "expr_type (Expr_sockaddr_ipv4 a) = EXPR_SOCKET_ADDRESS_IPV4"
| "expr_type (Expr_sockaddr_ipv6 a) = EXPR_SOCKET_ADDRESS_IPV6"
| "expr_type (Expr_binary op lhs rhs) = EXPR_BINARY"
| "expr_type (Expr_list es) = EXPR_LIST"
| "expr_type (Expr_struct ty fs) = ty"

datatype script_error =
    Bad_expression_type expression_t
  | Unknown_symbol string
  | Unsupported_escape_code char
  | Odd_number_of_hex_digits nat
  | Unsupported_hex_digit char
  | Lhs_not_an_integer
  | Rhs_not_an_integer
  | Bad_binary_operator string
  | Null_field string

type_synonym evaluator = "expression \<Rightarrow> (script_error, expression) status"

text \<open>The fields of the structures, in the order of their declarations.\<close>

definition struct_fields :: "expression_t \<Rightarrow> string list" where
  "struct_fields ty = (case ty of
      EXPR_IOVEC \<Rightarrow>
        [''iov_base'', ''iov_len'']
    | EXPR_CMSGHDR \<Rightarrow>
        [''cmsg_len'', ''cmsg_level'', ''cmsg_type'', ''cmsg_data'']
    | EXPR_MSGHDR \<Rightarrow>
        [''msg_name'', ''msg_namelen'', ''msg_iov'', ''msg_iovlen'', ''msg_control'',
         ''msg_controllen'', ''msg_flags'']
    | EXPR_POLLFD \<Rightarrow>
        [''fd'', ''events'', ''revents'']
    | EXPR_LINGER \<Rightarrow>
        [''l_onoff'', ''l_linger'']
    | EXPR_ACCEPT_FILTER_ARG \<Rightarrow>
        [''af_name'', ''af_arg'']
    | EXPR_TCP_FUNCTION_SET \<Rightarrow>
        [''function_set_name'', ''pcbcnt'']
    | EXPR_TCP_FASTOPEN \<Rightarrow>
        [''enable'', ''psk'']
    | EXPR_SF_HDTR \<Rightarrow>
        [''headers'', ''hdr_cnt'', ''trailers'', ''trl_cnt'']
    | EXPR_SCTP_RTOINFO \<Rightarrow>
        [''srto_assoc_id'', ''srto_initial'', ''srto_max'', ''srto_min'']
    | EXPR_SCTP_INITMSG \<Rightarrow>
        [''sinit_num_ostreams'', ''sinit_max_instreams'', ''sinit_max_attempts'',
         ''sinit_max_init_timeo'']
    | EXPR_SCTP_HMACALGO \<Rightarrow>
        [''shmac_number_of_idents'', ''shmac_idents'']
    | EXPR_SCTP_ASSOC_VALUE \<Rightarrow>
        [''assoc_id'', ''assoc_value'']
    | EXPR_SCTP_AUTHKEYID \<Rightarrow>
        [''scact_assoc_id'', ''scact_keynumber'']
    | EXPR_SCTP_SACKINFO \<Rightarrow>
        [''sack_assoc_id'', ''sack_delay'', ''sack_freq'']
    | EXPR_SCTP_PADDRINFO \<Rightarrow>
        [''spinfo_assoc_id'', ''spinfo_address'', ''spinfo_state'', ''spinfo_cwnd'',
         ''spinfo_srtt'', ''spinfo_rto'', ''spinfo_mtu'']
    | EXPR_SCTP_STATUS \<Rightarrow>
        [''sstat_assoc_id'', ''sstat_state'', ''sstat_rwnd'', ''sstat_unackdata'',
         ''sstat_penddata'', ''sstat_instrms'', ''sstat_outstrms'',
         ''sstat_fragmentation_point'', ''sstat_primary'']
    | EXPR_SCTP_PEER_ADDR_PARAMS \<Rightarrow>
        [''spp_assoc_id'', ''spp_address'', ''spp_hbinterval'', ''spp_pathmaxrxt'',
         ''spp_pathmtu'', ''spp_flags'', ''spp_ipv6_flowlabel'', ''spp_dscp'']
    | EXPR_SCTP_STREAM_VALUE \<Rightarrow>
        [''stream_id'', ''stream_value'']
    | EXPR_SCTP_EVENT \<Rightarrow>
        [''se_assoc_id'', ''se_type'', ''se_on'']
    | EXPR_SCTP_EVENT_SUBSCRIBE \<Rightarrow>
        [''sctp_data_io_event'', ''sctp_association_event'', ''sctp_address_event'',
         ''sctp_send_failure_event'', ''sctp_peer_error_event'', ''sctp_shutdown_event'',
         ''sctp_partial_delivery_event'', ''sctp_adaptation_layer_event'',
         ''sctp_authentication_event'', ''sctp_sender_dry_event'']
    | EXPR_SCTP_ASSOCPARAMS \<Rightarrow>
        [''sasoc_assoc_id'', ''sasoc_asocmaxrxt'', ''sasoc_number_peer_destinations'',
         ''sasoc_peer_rwnd'', ''sasoc_local_rwnd'', ''sasoc_cookie_life'']
    | EXPR_SCTP_SNDINFO \<Rightarrow>
        [''snd_sid'', ''snd_flags'', ''snd_ppid'', ''snd_context'', ''snd_assoc_id'']
    | EXPR_SCTP_SETPRIM \<Rightarrow>
        [''ssp_assoc_id'', ''ssp_addr'']
    | EXPR_SCTP_SETADAPTATION \<Rightarrow>
        [''ssb_adaptation_ind'']
    | EXPR_SCTP_SNDRCVINFO \<Rightarrow>
        [''sinfo_stream'', ''sinfo_ssn'', ''sinfo_flags'', ''sinfo_ppid'',
         ''sinfo_context'', ''sinfo_timetolive'', ''sinfo_tsn'', ''sinfo_cumtsn'',
         ''sinfo_assoc_id'']
    | EXPR_SCTP_PRINFO \<Rightarrow>
        [''pr_policy'', ''pr_value'']
    | EXPR_SCTP_DEFAULT_PRINFO \<Rightarrow>
        [''pr_policy'', ''pr_value'', ''pr_assoc_id'']
    | EXPR_SCTP_AUTHINFO \<Rightarrow>
        [''auth_keynumber'']
    | EXPR_SCTP_SENDV_SPA \<Rightarrow>
        [''sendv_flags'', ''sendv_sndinfo'', ''sendv_prinfo'', ''sendv_authinfo'']
    | EXPR_SCTP_RCVINFO \<Rightarrow>
        [''rcv_sid'', ''rcv_ssn'', ''rcv_flags'', ''rcv_ppid'', ''rcv_tsn'',
         ''rcv_cumtsn'', ''rcv_context'', ''rcv_assoc_id'']
    | EXPR_SCTP_NXTINFO \<Rightarrow>
        [''nxt_sid'', ''nxt_flags'', ''nxt_ppid'', ''nxt_length'', ''nxt_assoc_id'']
    | EXPR_SCTP_RECVV_RN \<Rightarrow>
        [''recvv_rcvinfo'', ''recvv_nxtinfo'']
    | EXPR_SCTP_ASSOC_CHANGE \<Rightarrow>
        [''sac_type'', ''sac_flags'', ''sac_length'', ''sac_state'', ''sac_error'',
         ''sac_outbound_streams'', ''sac_inbound_streams'', ''sac_assoc_id'', ''sac_info'']
    | EXPR_SCTP_PADDR_CHANGE \<Rightarrow>
        [''spc_type'', ''spc_flags'', ''spc_length'', ''spc_aaddr'', ''spc_state'',
         ''spc_error'', ''spc_assoc_id'']
    | EXPR_SCTP_REMOTE_ERROR \<Rightarrow>
        [''sre_type'', ''sre_flags'', ''sre_length'', ''sre_error'', ''sre_assoc_id'',
         ''sre_data'']
    | EXPR_SCTP_SEND_FAILED \<Rightarrow>
        [''ssf_type'', ''ssf_flags'', ''ssf_length'', ''ssf_error'', ''ssf_info'',
         ''ssf_assoc_id'', ''ssf_data'']
    | EXPR_SCTP_SHUTDOWN_EVENT \<Rightarrow>
        [''sse_type'', ''sse_flags'', ''sse_length'', ''sse_assoc_id'']
    | EXPR_SCTP_ADAPTATION_EVENT \<Rightarrow>
        [''sai_type'', ''sai_flags'', ''sai_length'', ''sai_adaptation_ind'',
         ''sai_assoc_id'']
    | EXPR_SCTP_PDAPI_EVENT \<Rightarrow>
        [''pdapi_type'', ''pdapi_flags'', ''pdapi_length'', ''pdapi_indication'',
         ''pdapi_stream'', ''pdapi_seq'', ''pdapi_assoc_id'']
    | EXPR_SCTP_AUTHKEY_EVENT \<Rightarrow>
        [''auth_type'', ''auth_flags'', ''auth_length'', ''auth_keynumber'',
         ''auth_indication'', ''auth_assoc_id'']
    | EXPR_SCTP_SENDER_DRY_EVENT \<Rightarrow>
        [''sender_dry_type'', ''sender_dry_flags'', ''sender_dry_length'',
         ''sender_dry_assoc_id'']
    | EXPR_SCTP_SEND_FAILED_EVENT \<Rightarrow>
        [''ssfe_type'', ''ssfe_flags'', ''ssfe_length'', ''ssfe_error'', ''ssfe_info'',
         ''ssfe_assoc_id'', ''ssfe_data'']
    | EXPR_SCTP_TLV \<Rightarrow>
        [''sn_type'', ''sn_flags'', ''sn_length'']
    | EXPR_SCTP_EXTRCVINFO \<Rightarrow>
        [''sinfo_stream'', ''sinfo_ssn'', ''sinfo_flags'', ''sinfo_ppid'',
         ''sinfo_context'', ''sinfo_pr_value'', ''sinfo_tsn'', ''sinfo_cumtsn'',
         ''serinfo_next_flags'', ''serinfo_next_stream'', ''serinfo_next_aid'',
         ''serinfo_next_length'', ''serinfo_next_ppid'', ''sinfo_assoc_id'']
    | EXPR_SCTP_ASSOC_IDS \<Rightarrow>
        [''gaids_number_of_ids'', ''gaids_assoc_id'']
    | EXPR_SCTP_AUTHCHUNKS \<Rightarrow>
        [''gauth_assoc_id'', ''gauth_number_of_chunks'', ''gauth_chunks'']
    | EXPR_SCTP_SETPEERPRIM \<Rightarrow>
        [''sspp_assoc_id'', ''sspp_addr'']
    | EXPR_SCTP_AUTHCHUNK \<Rightarrow>
        [''sauth_chunk'']
    | EXPR_SCTP_AUTHKEY \<Rightarrow>
        [''sca_assoc_id'', ''sca_keynumber'', ''sca_keylength'', ''sca_key'']
    | EXPR_SCTP_RESET_STREAMS \<Rightarrow>
        [''srs_assoc_id'', ''srs_flags'', ''srs_number_streams'', ''srs_stream_list'']
    | EXPR_SCTP_ADD_STREAMS \<Rightarrow>
        [''sas_assoc_id'', ''sas_instrms'', ''sas_outstrms'']
    | EXPR_SCTP_STREAM_RESET_EVENT \<Rightarrow>
        [''strreset_type'', ''strreset_flags'', ''strreset_length'', ''strreset_assoc_id'',
         ''strreset_stream_list'']
    | EXPR_SCTP_ASSOC_RESET_EVENT \<Rightarrow>
        [''assocreset_type'', ''assocreset_flags'', ''assocreset_length'',
         ''assocreset_assoc_id'', ''assocreset_local_tsn'', ''assocreset_remote_tsn'']
    | EXPR_SCTP_STREAM_CHANGE_EVENT \<Rightarrow>
        [''strchange_type'', ''strchange_flags'', ''strchange_length'',
         ''strchange_assoc_id'', ''strchange_instrms'', ''strchange_outstrms'']
    | EXPR_SCTP_UDPENCAPS \<Rightarrow>
        [''sue_assoc_id'', ''sue_address'', ''sue_port'']
    | _ \<Rightarrow> [])"

section \<open>Symbols\<close>

text \<open>The values are those of the Linux headers.\<close>

definition cross_platform_symbols :: "(s64 \<times> string) list" where
  "cross_platform_symbols =
    [(2, ''AF_INET''), (10, ''AF_INET6''),
     (2, ''PF_INET''), (10, ''PF_INET6''),
     (1, ''SOCK_STREAM''), (2, ''SOCK_DGRAM''),
     (0, ''IPPROTO_IP''), (41, ''IPPROTO_IPV6''), (1, ''IPPROTO_ICMP''), (132, ''IPPROTO_SCTP''),
     (6, ''IPPROTO_TCP''), (17, ''IPPROTO_UDP''), (136, ''IPPROTO_UDPLITE''),
     (0, ''SHUT_RD''), (1, ''SHUT_WR''), (2, ''SHUT_RDWR''),
     (1, ''SOL_SOCKET'')]"

fun lookup_int_symbol :: "string \<Rightarrow> (s64 \<times> string) list \<Rightarrow> s64 option" where
  "lookup_int_symbol input_symbol [] = None"
| "lookup_int_symbol input_symbol ((v, n) # symbols) =
     (if input_symbol = n then Some v else lookup_int_symbol input_symbol symbols)"

definition symbol_to_int :: "(s64 \<times> string) list \<Rightarrow> string \<Rightarrow> (script_error, s64) status" where
  "symbol_to_int platform_symbols input_symbol =
     (case lookup_int_symbol input_symbol cross_platform_symbols of
        Some v \<Rightarrow> Inr v
      | None \<Rightarrow> (case lookup_int_symbol input_symbol platform_symbols of
          Some v \<Rightarrow> Inr v
        | None \<Rightarrow> Inl (Unknown_symbol input_symbol)))"

section \<open>Flags\<close>

text \<open>A table of flag names is an array whose entries carry a flag and a name, where
  \<^const>\<open>None\<close> is a null pointer. The scan of \<open>flag_name\<close> gives \<^const>\<open>None\<close> when it leaves the
  array (or when the name it returns is the null pointer).\<close>

definition poll_flags :: "(u64 \<times> string option) list" where
  "poll_flags =
    [(0x1, Some ''POLLIN''), (0x2, Some ''POLLPRI''), (0x4, Some ''POLLOUT''),
     (0x40, Some ''POLLRDNORM''), (0x80, Some ''POLLRDBAND''),
     (0x100, Some ''POLLWRNORM''), (0x200, Some ''POLLWRBAND''),
     (0x400, Some ''POLLMSG''), (0x1000, Some ''POLLREMOVE''), (0x2000, Some ''POLLRDHUP''),
     (0x8, Some ''POLLERR''), (0x10, Some ''POLLHUP''), (0x20, Some ''POLLNVAL''),
     (0, Some [])]"

fun flag_name :: "(u64 \<times> string option) list \<Rightarrow> u64 \<Rightarrow> string option" where
  "flag_name [] flag = None"
| "flag_name ((f, None) # flags_array) flag = (if f = flag then None else Some ''???'')"
| "flag_name ((f, Some name) # flags_array) flag =
     (if f \<noteq> flag then flag_name flags_array flag else Some name)"

fun flags_to_string_loop :: "(u64 \<times> string option) list \<Rightarrow> u64 \<Rightarrow> nat \<Rightarrow> u64 \<Rightarrow> string \<Rightarrow>
    string option" where
  "flags_to_string_loop flags_array flags 0 bit_mask out = Some out"
| "flags_to_string_loop flags_array flags (Suc n) bit_mask out =
     (if flags AND bit_mask \<noteq> 0
      then do {
        name \<leftarrow> flag_name flags_array bit_mask;
        flags_to_string_loop flags_array flags n (push_bit 1 bit_mask)
          (out @ (if out \<noteq> [] then ''|'' else []) @ name)
      }
      else flags_to_string_loop flags_array flags n (push_bit 1 bit_mask) out)"

definition flags_to_string :: "(u64 \<times> string option) list \<Rightarrow> u64 \<Rightarrow> string option" where
  "flags_to_string flags_array flags = flags_to_string_loop flags_array flags 64 1 []"

section \<open>Strings and hexadecimal words\<close>

definition escape_code :: "char \<Rightarrow> char option" where
  "escape_code c =
     (if c = CHR 0x5C then Some (CHR 0x5C)
      else if c = CHR 0x22 then Some (CHR 0x22)
      else if c = CHR ''f'' then Some (CHR 0x0C)
      else if c = CHR ''n'' then Some (CHR 0x0A)
      else if c = CHR ''r'' then Some (CHR 0x0D)
      else if c = CHR ''t'' then Some (CHR 0x09)
      else if c = CHR ''v'' then Some (CHR 0x0B)
      else None)"

fun unescape_cstring_expression :: "string \<Rightarrow> (script_error, string) status" where
  "unescape_cstring_expression [] = Inr []"
| "unescape_cstring_expression (c # cs) =
     (if c = CHR 0x5C
      then (case cs of
          [] \<Rightarrow> Inl (Unsupported_escape_code (CHR 0x00))
        | d # ds \<Rightarrow> (case escape_code d of
            None \<Rightarrow> Inl (Unsupported_escape_code d)
          | Some x \<Rightarrow> map_sum id ((#) x) (unescape_cstring_expression ds)))
      else map_sum id ((#) c) (unescape_cstring_expression cs))"

definition isxdigit :: "char \<Rightarrow> bool" where
  "isxdigit c \<longleftrightarrow> (let n = of_char c :: nat in
     48 \<le> n \<and> n \<le> 57 \<or> 65 \<le> n \<and> n \<le> 70 \<or> 97 \<le> n \<and> n \<le> 102)"

definition toupper :: "char \<Rightarrow> char" where
  "toupper c = (let n = of_char c :: nat in if 97 \<le> n \<and> n \<le> 122 then char_of (n - 32) else c)"

fun hex_word_loop :: "string \<Rightarrow> (script_error, string) status" where
  "hex_word_loop [] = Inr []"
| "hex_word_loop (c # cs) =
     (if isxdigit c then map_sum id ((#) (toupper c)) (hex_word_loop cs)
      else Inl (Unsupported_hex_digit c))"

definition hex_word_expression :: "string \<Rightarrow> (script_error, string) status" where
  "hex_word_expression s =
     (let bytes = length s + 1 in
      if (bytes - 1) mod 2 \<noteq> 0 then Inl (Odd_number_of_hex_digits bytes)
      else hex_word_loop s)"

section \<open>Evaluation\<close>

definition evaluate_binary_expression :: "evaluator \<Rightarrow> string \<Rightarrow> expression \<Rightarrow> expression \<Rightarrow>
    (script_error, expression) status" where
  "evaluate_binary_expression ev op lhs rhs =
     (case ev lhs of
        Inl err \<Rightarrow> Inl err
      | Inr l \<Rightarrow> (case ev rhs of
          Inl err \<Rightarrow> Inl err
        | Inr r \<Rightarrow>
            if op = ''|'' then
              (case l of
                 Expr_integer m \<Rightarrow> (case r of
                     Expr_integer n \<Rightarrow> Inr (Expr_integer (m OR n))
                   | _ \<Rightarrow> Inl Rhs_not_an_integer)
               | _ \<Rightarrow> Inl Lhs_not_an_integer)
            else Inl (Bad_binary_operator op)))"

fun evaluate_expression_list :: "evaluator \<Rightarrow> expression list \<Rightarrow>
    (script_error, expression list) status" where
  "evaluate_expression_list ev [] = Inr []"
| "evaluate_expression_list ev (e # es) =
     (case ev e of
        Inl err \<Rightarrow> Inl err
      | Inr v \<Rightarrow> map_sum id ((#) v) (evaluate_expression_list ev es))"

definition evaluate_list_expression :: "evaluator \<Rightarrow> expression list \<Rightarrow>
    (script_error, expression) status" where
  "evaluate_list_expression ev es = map_sum id Expr_list (evaluate_expression_list ev es)"

text \<open>The evaluation of a structure evaluates its members one after the other and stops at the
  first error. The functions below name the members, in the order of their calls.\<close>

fun evaluate_fields :: "evaluator \<Rightarrow> string list \<Rightarrow> struct_expr \<Rightarrow>
    (script_error, struct_expr) status" where
  "evaluate_fields ev [] fs = Inr []"
| "evaluate_fields ev (n # ns) fs =
     (case map_of fs n of
        None \<Rightarrow> Inl (Null_field n)
      | Some e \<Rightarrow> (case ev e of
          Inl err \<Rightarrow> Inl err
        | Inr v \<Rightarrow> map_sum id ((#) (n, v)) (evaluate_fields ev ns fs)))"

definition evaluate_iovec_expression
    :: "evaluator \<Rightarrow> struct_expr \<Rightarrow> (script_error, struct_expr) status" where
  "evaluate_iovec_expression ev fs = evaluate_fields ev [''iov_base'', ''iov_len''] fs"

definition evaluate_cmsghdr_expression
    :: "evaluator \<Rightarrow> struct_expr \<Rightarrow> (script_error, struct_expr) status" where
  "evaluate_cmsghdr_expression ev fs = evaluate_fields ev
    [''cmsg_len'', ''cmsg_level'', ''cmsg_type'', ''cmsg_data''] fs"

definition evaluate_msghdr_expression
    :: "evaluator \<Rightarrow> struct_expr \<Rightarrow> (script_error, struct_expr) status" where
  "evaluate_msghdr_expression ev fs = evaluate_fields ev
    [''msg_name'', ''msg_namelen'', ''msg_iov'', ''msg_iovlen'', ''msg_control'',
     ''msg_controllen'', ''msg_flags''] fs"

definition evaluate_pollfd_expression
    :: "evaluator \<Rightarrow> struct_expr \<Rightarrow> (script_error, struct_expr) status" where
  "evaluate_pollfd_expression ev fs = evaluate_fields ev [''fd'', ''events'', ''revents''] fs"

definition evaluate_linger_expression
    :: "evaluator \<Rightarrow> struct_expr \<Rightarrow> (script_error, struct_expr) status" where
  "evaluate_linger_expression ev fs = evaluate_fields ev [''l_onoff'', ''l_linger''] fs"

definition evaluate_accept_filter_arg_expression
    :: "evaluator \<Rightarrow> struct_expr \<Rightarrow> (script_error, struct_expr) status" where
  "evaluate_accept_filter_arg_expression ev fs = evaluate_fields ev [''af_name'', ''af_arg''] fs"

definition evaluate_tcp_function_set_expression
    :: "evaluator \<Rightarrow> struct_expr \<Rightarrow> (script_error, struct_expr) status" where
  "evaluate_tcp_function_set_expression ev fs = evaluate_fields ev
    [''function_set_name'', ''pcbcnt''] fs"

definition evaluate_tcp_fastopen_expression
    :: "evaluator \<Rightarrow> struct_expr \<Rightarrow> (script_error, struct_expr) status" where
  "evaluate_tcp_fastopen_expression ev fs = evaluate_fields ev [''enable'', ''psk''] fs"

definition evaluate_sf_hdtr_expression
    :: "evaluator \<Rightarrow> struct_expr \<Rightarrow> (script_error, struct_expr) status" where
  "evaluate_sf_hdtr_expression ev fs = evaluate_fields ev
    [''headers'', ''hdr_cnt'', ''trailers'', ''trl_cnt''] fs"

definition evaluate_sctp_rtoinfo_expression
    :: "evaluator \<Rightarrow> struct_expr \<Rightarrow> (script_error, struct_expr) status" where
  "evaluate_sctp_rtoinfo_expression ev fs = evaluate_fields ev
    [''srto_assoc_id'', ''srto_initial'', ''srto_max'', ''srto_min''] fs"

definition evaluate_sctp_initmsg_expression
    :: "evaluator \<Rightarrow> struct_expr \<Rightarrow> (script_error, struct_expr) status" where
  "evaluate_sctp_initmsg_expression ev fs = evaluate_fields ev
    [''sinit_num_ostreams'', ''sinit_max_instreams'', ''sinit_max_attempts'',
     ''sinit_max_init_timeo''] fs"

definition evaluate_sctp_hmacalgo_expression
    :: "evaluator \<Rightarrow> struct_expr \<Rightarrow> (script_error, struct_expr) status" where
  "evaluate_sctp_hmacalgo_expression ev fs = evaluate_fields ev
    [''shmac_number_of_idents'', ''shmac_idents''] fs"

definition evaluate_sctp_assoc_value_expression
    :: "evaluator \<Rightarrow> struct_expr \<Rightarrow> (script_error, struct_expr) status" where
  "evaluate_sctp_assoc_value_expression ev fs = evaluate_fields ev
    [''assoc_id'', ''assoc_value''] fs"

definition evaluate_sctp_authkeyid_expression
    :: "evaluator \<Rightarrow> struct_expr \<Rightarrow> (script_error, struct_expr) status" where
  "evaluate_sctp_authkeyid_expression ev fs = evaluate_fields ev
    [''scact_assoc_id'', ''scact_keynumber''] fs"

definition evaluate_sctp_sack_info_expression
    :: "evaluator \<Rightarrow> struct_expr \<Rightarrow> (script_error, struct_expr) status" where
  "evaluate_sctp_sack_info_expression ev fs = evaluate_fields ev
    [''sack_assoc_id'', ''sack_delay'', ''sack_freq''] fs"

definition evaluate_sctp_paddrinfo_expression
    :: "evaluator \<Rightarrow> struct_expr \<Rightarrow> (script_error, struct_expr) status" where
  "evaluate_sctp_paddrinfo_expression ev fs = evaluate_fields ev
    [''spinfo_assoc_id'', ''spinfo_address'', ''spinfo_state'', ''spinfo_cwnd'',
     ''spinfo_srtt'', ''spinfo_rto'', ''spinfo_mtu''] fs"

definition evaluate_sctp_status_expression
    :: "evaluator \<Rightarrow> struct_expr \<Rightarrow> (script_error, struct_expr) status" where
  "evaluate_sctp_status_expression ev fs = evaluate_fields ev
    [''sstat_assoc_id'', ''sstat_state'', ''sstat_rwnd'', ''sstat_unackdata'',
     ''sstat_penddata'', ''sstat_instrms'', ''sstat_outstrms'',
     ''sstat_fragmentation_point'', ''sstat_primary''] fs"

definition evaluate_sctp_peer_addr_param_expression
    :: "evaluator \<Rightarrow> struct_expr \<Rightarrow> (script_error, struct_expr) status" where
  "evaluate_sctp_peer_addr_param_expression ev fs = evaluate_fields ev
    [''spp_assoc_id'', ''spp_address'', ''spp_hbinterval'', ''spp_pathmaxrxt'',
     ''spp_pathmtu'', ''spp_flags'', ''spp_ipv6_flowlabel'', ''spp_dscp''] fs"

definition evaluate_sctp_stream_value_expression
    :: "evaluator \<Rightarrow> struct_expr \<Rightarrow> (script_error, struct_expr) status" where
  "evaluate_sctp_stream_value_expression ev fs = evaluate_fields ev
    [''stream_id'', ''stream_value''] fs"

definition evaluate_sctp_event_expression
    :: "evaluator \<Rightarrow> struct_expr \<Rightarrow> (script_error, struct_expr) status" where
  "evaluate_sctp_event_expression ev fs = evaluate_fields ev
    [''se_assoc_id'', ''se_type'', ''se_on''] fs"

definition evaluate_sctp_event_subscribe_expression
    :: "evaluator \<Rightarrow> struct_expr \<Rightarrow> (script_error, struct_expr) status" where
  "evaluate_sctp_event_subscribe_expression ev fs = evaluate_fields ev
    [''sctp_data_io_event'', ''sctp_association_event'', ''sctp_address_event'',
     ''sctp_send_failure_event'', ''sctp_peer_error_event'', ''sctp_shutdown_event'',
     ''sctp_partial_delivery_event'', ''sctp_adaptation_layer_event'',
     ''sctp_authentication_event'', ''sctp_sender_dry_event''] fs"

definition evaluate_sctp_accocparams_expression
    :: "evaluator \<Rightarrow> struct_expr \<Rightarrow> (script_error, struct_expr) status" where
  "evaluate_sctp_accocparams_expression ev fs = evaluate_fields ev
    [''sasoc_assoc_id'', ''sasoc_asocmaxrxt'', ''sasoc_number_peer_destinations'',
     ''sasoc_peer_rwnd'', ''sasoc_local_rwnd'', ''sasoc_cookie_life''] fs"

definition evaluate_sctp_sndinfo_expression
    :: "evaluator \<Rightarrow> struct_expr \<Rightarrow> (script_error, struct_expr) status" where
  "evaluate_sctp_sndinfo_expression ev fs = evaluate_fields ev
    [''snd_sid'', ''snd_flags'', ''snd_ppid'', ''snd_context'', ''snd_assoc_id''] fs"

definition evaluate_sctp_setprim_expression
    :: "evaluator \<Rightarrow> struct_expr \<Rightarrow> (script_error, struct_expr) status" where
  "evaluate_sctp_setprim_expression ev fs = evaluate_fields ev [''ssp_assoc_id'', ''ssp_addr''] fs"

definition evaluate_sctp_setadaptation_expression
    :: "evaluator \<Rightarrow> struct_expr \<Rightarrow> (script_error, struct_expr) status" where
  "evaluate_sctp_setadaptation_expression ev fs = evaluate_fields ev [''ssb_adaptation_ind''] fs"

definition evaluate_sctp_sndrcvinfo_expression
    :: "evaluator \<Rightarrow> struct_expr \<Rightarrow> (script_error, struct_expr) status" where
  "evaluate_sctp_sndrcvinfo_expression ev fs = evaluate_fields ev
    [''sinfo_stream'', ''sinfo_ssn'', ''sinfo_flags'', ''sinfo_ppid'', ''sinfo_context'',
     ''sinfo_timetolive'', ''sinfo_tsn'', ''sinfo_cumtsn'', ''sinfo_assoc_id''] fs"

definition evaluate_sctp_prinfo_expression
    :: "evaluator \<Rightarrow> struct_expr \<Rightarrow> (script_error, struct_expr) status" where
  "evaluate_sctp_prinfo_expression ev fs = evaluate_fields ev [''pr_policy'', ''pr_value''] fs"

definition evaluate_sctp_default_prinfo_expression
    :: "evaluator \<Rightarrow> struct_expr \<Rightarrow> (script_error, struct_expr) status" where
  "evaluate_sctp_default_prinfo_expression ev fs = evaluate_fields ev
    [''pr_policy'', ''pr_value'', ''pr_assoc_id''] fs"

definition evaluate_sctp_authinfo_expression
    :: "evaluator \<Rightarrow> struct_expr \<Rightarrow> (script_error, struct_expr) status" where
  "evaluate_sctp_authinfo_expression ev fs = evaluate_fields ev [''auth_keynumber''] fs"

definition evaluate_sctp_sendv_spa_expression
    :: "evaluator \<Rightarrow> struct_expr \<Rightarrow> (script_error, struct_expr) status" where
  "evaluate_sctp_sendv_spa_expression ev fs = evaluate_fields ev
    [''sendv_flags'', ''sendv_sndinfo'', ''sendv_prinfo'', ''sendv_authinfo''] fs"

definition evaluate_sctp_rcvinfo_expression
    :: "evaluator \<Rightarrow> struct_expr \<Rightarrow> (script_error, struct_expr) status" where
  "evaluate_sctp_rcvinfo_expression ev fs = evaluate_fields ev
    [''rcv_sid'', ''rcv_ssn'', ''rcv_flags'', ''rcv_ppid'', ''rcv_tsn'', ''rcv_cumtsn'',
     ''rcv_context'', ''rcv_assoc_id''] fs"

definition evaluate_sctp_nxtinfo_expression
    :: "evaluator \<Rightarrow> struct_expr \<Rightarrow> (script_error, struct_expr) status" where
  "evaluate_sctp_nxtinfo_expression ev fs = evaluate_fields ev
    [''nxt_sid'', ''nxt_flags'', ''nxt_ppid'', ''nxt_length'', ''nxt_assoc_id''] fs"

definition evaluate_sctp_recvv_rn_expression
    :: "evaluator \<Rightarrow> struct_expr \<Rightarrow> (script_error, struct_expr) status" where
  "evaluate_sctp_recvv_rn_expression ev fs = evaluate_fields ev
    [''recvv_rcvinfo'', ''recvv_nxtinfo''] fs"

definition evaluate_sctp_assoc_change_expression
    :: "evaluator \<Rightarrow> struct_expr \<Rightarrow> (script_error, struct_expr) status" where
  "evaluate_sctp_assoc_change_expression ev fs = evaluate_fields ev
    [''sac_type'', ''sac_flags'', ''sac_length'', ''sac_state'', ''sac_error'',
     ''sac_outbound_streams'', ''sac_inbound_streams'', ''sac_assoc_id'', ''sac_info''] fs"

definition evaluate_sctp_paddr_change_expression
    :: "evaluator \<Rightarrow> struct_expr \<Rightarrow> (script_error, struct_expr) status" where
  "evaluate_sctp_paddr_change_expression ev fs = evaluate_fields ev
    [''spc_type'', ''spc_flags'', ''spc_length'', ''spc_aaddr'', ''spc_state'',
     ''spc_error'', ''spc_assoc_id''] fs"

definition evaluate_sctp_remote_error_expression
    :: "evaluator \<Rightarrow> struct_expr \<Rightarrow> (script_error, struct_expr) status" where
  "evaluate_sctp_remote_error_expression ev fs = evaluate_fields ev
    [''sre_type'', ''sre_flags'', ''sre_length'', ''sre_error'', ''sre_assoc_id'',
     ''sre_data''] fs"

definition evaluate_sctp_send_failed_expression
    :: "evaluator \<Rightarrow> struct_expr \<Rightarrow> (script_error, struct_expr) status" where
  "evaluate_sctp_send_failed_expression ev fs = evaluate_fields ev
    [''ssf_type'', ''ssf_flags'', ''ssf_length'', ''ssf_error'', ''ssf_info'',
     ''ssf_assoc_id'', ''ssf_data''] fs"

definition evaluate_sctp_shutdown_event_expression
    :: "evaluator \<Rightarrow> struct_expr \<Rightarrow> (script_error, struct_expr) status" where
  "evaluate_sctp_shutdown_event_expression ev fs = evaluate_fields ev
    [''sse_type'', ''sse_flags'', ''sse_length'', ''sse_assoc_id''] fs"

definition evaluate_sctp_adaptation_event_expression
    :: "evaluator \<Rightarrow> struct_expr \<Rightarrow> (script_error, struct_expr) status" where
  "evaluate_sctp_adaptation_event_expression ev fs = evaluate_fields ev
    [''sai_type'', ''sai_flags'', ''sai_length'', ''sai_adaptation_ind'', ''sai_assoc_id''] fs"

definition evaluate_sctp_pdapi_event_expression
    :: "evaluator \<Rightarrow> struct_expr \<Rightarrow> (script_error, struct_expr) status" where
  "evaluate_sctp_pdapi_event_expression ev fs = evaluate_fields ev
    [''pdapi_type'', ''pdapi_flags'', ''pdapi_length'', ''pdapi_indication'',
     ''pdapi_stream'', ''pdapi_seq'', ''pdapi_assoc_id''] fs"

definition evaluate_sctp_authkey_event_expression
    :: "evaluator \<Rightarrow> struct_expr \<Rightarrow> (script_error, struct_expr) status" where
  "evaluate_sctp_authkey_event_expression ev fs = evaluate_fields ev
    [''auth_type'', ''auth_flags'', ''auth_length'', ''auth_keynumber'',
     ''auth_indication'', ''auth_assoc_id''] fs"

definition evaluate_sctp_sender_dry_event_expression
    :: "evaluator \<Rightarrow> struct_expr \<Rightarrow> (script_error, struct_expr) status" where
  "evaluate_sctp_sender_dry_event_expression ev fs = evaluate_fields ev
    [''sender_dry_type'', ''sender_dry_flags'', ''sender_dry_length'',
     ''sender_dry_assoc_id''] fs"

definition evaluate_sctp_send_failed_event_expression
    :: "evaluator \<Rightarrow> struct_expr \<Rightarrow> (script_error, struct_expr) status" where
  "evaluate_sctp_send_failed_event_expression ev fs = evaluate_fields ev
    [''ssfe_type'', ''ssfe_flags'', ''ssfe_length'', ''ssfe_error'', ''ssfe_info'',
     ''ssfe_assoc_id'', ''ssfe_data''] fs"

definition evaluate_sctp_tlv_expression
    :: "evaluator \<Rightarrow> struct_expr \<Rightarrow> (script_error, struct_expr) status" where
  "evaluate_sctp_tlv_expression ev fs = evaluate_fields ev
    [''sn_type'', ''sn_flags'', ''sn_length''] fs"

definition evaluate_sctp_extrcvinfo_expression
    :: "evaluator \<Rightarrow> struct_expr \<Rightarrow> (script_error, struct_expr) status" where
  "evaluate_sctp_extrcvinfo_expression ev fs = evaluate_fields ev
    [''sinfo_stream'', ''sinfo_ssn'', ''sinfo_flags'', ''sinfo_ppid'', ''sinfo_context'',
     ''sinfo_pr_value'', ''sinfo_tsn'', ''sinfo_cumtsn'', ''serinfo_next_flags'',
     ''serinfo_next_stream'', ''serinfo_next_aid'', ''serinfo_next_length'',
     ''serinfo_next_ppid'', ''sinfo_assoc_id''] fs"

definition evaluate_sctp_assoc_ids_expression
    :: "evaluator \<Rightarrow> struct_expr \<Rightarrow> (script_error, struct_expr) status" where
  "evaluate_sctp_assoc_ids_expression ev fs = evaluate_fields ev
    [''gaids_number_of_ids'', ''gaids_assoc_id''] fs"

definition evaluate_sctp_authchunks_expression
    :: "evaluator \<Rightarrow> struct_expr \<Rightarrow> (script_error, struct_expr) status" where
  "evaluate_sctp_authchunks_expression ev fs = evaluate_fields ev
    [''gauth_assoc_id'', ''gauth_number_of_chunks'', ''gauth_chunks''] fs"

definition evaluate_sctp_setpeerprim_expression
    :: "evaluator \<Rightarrow> struct_expr \<Rightarrow> (script_error, struct_expr) status" where
  "evaluate_sctp_setpeerprim_expression ev fs = evaluate_fields ev
    [''sspp_assoc_id'', ''sspp_addr''] fs"

definition evaluate_sctp_authchunk_expression
    :: "evaluator \<Rightarrow> struct_expr \<Rightarrow> (script_error, struct_expr) status" where
  "evaluate_sctp_authchunk_expression ev fs = evaluate_fields ev [''sauth_chunk''] fs"

definition evaluate_sctp_authkey_expression
    :: "evaluator \<Rightarrow> struct_expr \<Rightarrow> (script_error, struct_expr) status" where
  "evaluate_sctp_authkey_expression ev fs = evaluate_fields ev
    [''sca_assoc_id'', ''sca_keynumber'', ''sca_keylength'', ''sca_key''] fs"

definition evaluate_sctp_reset_streams_expression
    :: "evaluator \<Rightarrow> struct_expr \<Rightarrow> (script_error, struct_expr) status" where
  "evaluate_sctp_reset_streams_expression ev fs = evaluate_fields ev
    [''srs_assoc_id'', ''srs_flags'', ''srs_number_streams'', ''srs_stream_list''] fs"

definition evaluate_sctp_add_streams_expression
    :: "evaluator \<Rightarrow> struct_expr \<Rightarrow> (script_error, struct_expr) status" where
  "evaluate_sctp_add_streams_expression ev fs = evaluate_fields ev
    [''sas_assoc_id'', ''sas_instrms'', ''sas_outstrms''] fs"

definition evaluate_sctp_stream_reset_event_expression
    :: "evaluator \<Rightarrow> struct_expr \<Rightarrow> (script_error, struct_expr) status" where
  "evaluate_sctp_stream_reset_event_expression ev fs = evaluate_fields ev
    [''strreset_type'', ''strreset_flags'', ''strreset_length'', ''strreset_assoc_id'',
     ''strreset_stream_list''] fs"

definition evaluate_sctp_assoc_reset_event_expression
    :: "evaluator \<Rightarrow> struct_expr \<Rightarrow> (script_error, struct_expr) status" where
  "evaluate_sctp_assoc_reset_event_expression ev fs = evaluate_fields ev
    [''assocreset_type'', ''assocreset_flags'', ''assocreset_length'',
     ''assocreset_assoc_id'', ''assocreset_local_tsn'', ''assocreset_remote_tsn''] fs"

definition evaluate_sctp_stream_change_event_expression
    :: "evaluator \<Rightarrow> struct_expr \<Rightarrow> (script_error, struct_expr) status" where
  "evaluate_sctp_stream_change_event_expression ev fs = evaluate_fields ev
    [''strchange_type'', ''strchange_flags'', ''strchange_length'', ''strchange_assoc_id'',
     ''strchange_instrms'', ''strchange_outstrms''] fs"

definition evaluate_sctp_udpencaps_expression
    :: "evaluator \<Rightarrow> struct_expr \<Rightarrow> (script_error, struct_expr) status" where
  "evaluate_sctp_udpencaps_expression ev fs = evaluate_fields ev
    [''sue_assoc_id'', ''sue_address'', ''sue_port''] fs"

definition evaluate_struct_expression :: "expression_t \<Rightarrow> evaluator \<Rightarrow> struct_expr \<Rightarrow>
    (script_error, struct_expr) status" where
  "evaluate_struct_expression ty ev fs = (case ty of
      EXPR_LINGER \<Rightarrow> evaluate_linger_expression ev fs
    | EXPR_ACCEPT_FILTER_ARG \<Rightarrow> evaluate_accept_filter_arg_expression ev fs
    | EXPR_TCP_FUNCTION_SET \<Rightarrow> evaluate_tcp_function_set_expression ev fs
    | EXPR_TCP_FASTOPEN \<Rightarrow> evaluate_tcp_fastopen_expression ev fs
    | EXPR_SCTP_RTOINFO \<Rightarrow> evaluate_sctp_rtoinfo_expression ev fs
    | EXPR_SCTP_ASSOCPARAMS \<Rightarrow> evaluate_sctp_accocparams_expression ev fs
    | EXPR_SCTP_HMACALGO \<Rightarrow> evaluate_sctp_hmacalgo_expression ev fs
    | EXPR_SCTP_INITMSG \<Rightarrow> evaluate_sctp_initmsg_expression ev fs
    | EXPR_SCTP_ASSOC_VALUE \<Rightarrow> evaluate_sctp_assoc_value_expression ev fs
    | EXPR_SCTP_AUTHKEYID \<Rightarrow> evaluate_sctp_authkeyid_expression ev fs
    | EXPR_SCTP_SACKINFO \<Rightarrow> evaluate_sctp_sack_info_expression ev fs
    | EXPR_SCTP_PADDRINFO \<Rightarrow> evaluate_sctp_paddrinfo_expression ev fs
    | EXPR_SCTP_STATUS \<Rightarrow> evaluate_sctp_status_expression ev fs
    | EXPR_SCTP_PEER_ADDR_PARAMS \<Rightarrow> evaluate_sctp_peer_addr_param_expression ev fs
    | EXPR_SCTP_STREAM_VALUE \<Rightarrow> evaluate_sctp_stream_value_expression ev fs
    | EXPR_SCTP_EVENT \<Rightarrow> evaluate_sctp_event_expression ev fs
    | EXPR_SCTP_EVENT_SUBSCRIBE \<Rightarrow> evaluate_sctp_event_subscribe_expression ev fs
    | EXPR_SCTP_SNDINFO \<Rightarrow> evaluate_sctp_sndinfo_expression ev fs
    | EXPR_SCTP_SETPRIM \<Rightarrow> evaluate_sctp_setprim_expression ev fs
    | EXPR_SCTP_SETADAPTATION \<Rightarrow> evaluate_sctp_setadaptation_expression ev fs
    | EXPR_SCTP_SNDRCVINFO \<Rightarrow> evaluate_sctp_sndrcvinfo_expression ev fs
    | EXPR_SCTP_PRINFO \<Rightarrow> evaluate_sctp_prinfo_expression ev fs
    | EXPR_SCTP_DEFAULT_PRINFO \<Rightarrow> evaluate_sctp_default_prinfo_expression ev fs
    | EXPR_SCTP_AUTHINFO \<Rightarrow> evaluate_sctp_authinfo_expression ev fs
    | EXPR_SCTP_SENDV_SPA \<Rightarrow> evaluate_sctp_sendv_spa_expression ev fs
    | EXPR_SCTP_RCVINFO \<Rightarrow> evaluate_sctp_rcvinfo_expression ev fs
    | EXPR_SCTP_NXTINFO \<Rightarrow> evaluate_sctp_nxtinfo_expression ev fs
    | EXPR_SCTP_RECVV_RN \<Rightarrow> evaluate_sctp_recvv_rn_expression ev fs
    | EXPR_SCTP_ASSOC_CHANGE \<Rightarrow> evaluate_sctp_assoc_change_expression ev fs
    | EXPR_SCTP_PADDR_CHANGE \<Rightarrow> evaluate_sctp_paddr_change_expression ev fs
    | EXPR_SCTP_REMOTE_ERROR \<Rightarrow> evaluate_sctp_remote_error_expression ev fs
    | EXPR_SCTP_SEND_FAILED \<Rightarrow> evaluate_sctp_send_failed_expression ev fs
    | EXPR_SCTP_SHUTDOWN_EVENT \<Rightarrow> evaluate_sctp_shutdown_event_expression ev fs
    | EXPR_SCTP_ADAPTATION_EVENT \<Rightarrow> evaluate_sctp_adaptation_event_expression ev fs
    | EXPR_SCTP_PDAPI_EVENT \<Rightarrow> evaluate_sctp_pdapi_event_expression ev fs
    | EXPR_SCTP_AUTHKEY_EVENT \<Rightarrow> evaluate_sctp_authkey_event_expression ev fs
    | EXPR_SCTP_SENDER_DRY_EVENT \<Rightarrow> evaluate_sctp_sender_dry_event_expression ev fs
    | EXPR_SCTP_SEND_FAILED_EVENT \<Rightarrow> evaluate_sctp_send_failed_event_expression ev fs
    | EXPR_SCTP_TLV \<Rightarrow> evaluate_sctp_tlv_expression ev fs
    | EXPR_SCTP_EXTRCVINFO \<Rightarrow> evaluate_sctp_extrcvinfo_expression ev fs
    | EXPR_SCTP_ASSOC_IDS \<Rightarrow> evaluate_sctp_assoc_ids_expression ev fs
    | EXPR_SCTP_AUTHCHUNKS \<Rightarrow> evaluate_sctp_authchunks_expression ev fs
    | EXPR_SCTP_SETPEERPRIM \<Rightarrow> evaluate_sctp_setpeerprim_expression ev fs
    | EXPR_SCTP_AUTHCHUNK \<Rightarrow> evaluate_sctp_authchunk_expression ev fs
    | EXPR_SCTP_AUTHKEY \<Rightarrow> evaluate_sctp_authkey_expression ev fs
    | EXPR_SCTP_RESET_STREAMS \<Rightarrow> evaluate_sctp_reset_streams_expression ev fs
    | EXPR_SCTP_ADD_STREAMS \<Rightarrow> evaluate_sctp_add_streams_expression ev fs
    | EXPR_SCTP_STREAM_RESET_EVENT \<Rightarrow> evaluate_sctp_stream_reset_event_expression ev fs
    | EXPR_SCTP_ASSOC_RESET_EVENT \<Rightarrow> evaluate_sctp_assoc_reset_event_expression ev fs
    | EXPR_SCTP_STREAM_CHANGE_EVENT \<Rightarrow> evaluate_sctp_stream_change_event_expression ev fs
    | EXPR_SCTP_UDPENCAPS \<Rightarrow> evaluate_sctp_udpencaps_expression ev fs
    | EXPR_IOVEC \<Rightarrow> evaluate_iovec_expression ev fs
    | EXPR_MSGHDR \<Rightarrow> evaluate_msghdr_expression ev fs
    | EXPR_CMSGHDR \<Rightarrow> evaluate_cmsghdr_expression ev fs
    | EXPR_POLLFD \<Rightarrow> evaluate_pollfd_expression ev fs
    | EXPR_SF_HDTR \<Rightarrow> evaluate_sf_hdtr_expression ev fs
    | _ \<Rightarrow> Inl (Bad_expression_type ty))"

lemmas evaluate_struct_defs =
  evaluate_linger_expression_def evaluate_accept_filter_arg_expression_def
  evaluate_tcp_function_set_expression_def evaluate_tcp_fastopen_expression_def
  evaluate_sctp_rtoinfo_expression_def evaluate_sctp_accocparams_expression_def
  evaluate_sctp_hmacalgo_expression_def evaluate_sctp_initmsg_expression_def
  evaluate_sctp_assoc_value_expression_def evaluate_sctp_authkeyid_expression_def
  evaluate_sctp_sack_info_expression_def evaluate_sctp_paddrinfo_expression_def
  evaluate_sctp_status_expression_def evaluate_sctp_peer_addr_param_expression_def
  evaluate_sctp_stream_value_expression_def evaluate_sctp_event_expression_def
  evaluate_sctp_event_subscribe_expression_def evaluate_sctp_sndinfo_expression_def
  evaluate_sctp_setprim_expression_def evaluate_sctp_setadaptation_expression_def
  evaluate_sctp_sndrcvinfo_expression_def evaluate_sctp_prinfo_expression_def
  evaluate_sctp_default_prinfo_expression_def evaluate_sctp_authinfo_expression_def
  evaluate_sctp_sendv_spa_expression_def evaluate_sctp_rcvinfo_expression_def
  evaluate_sctp_nxtinfo_expression_def evaluate_sctp_recvv_rn_expression_def
  evaluate_sctp_assoc_change_expression_def evaluate_sctp_paddr_change_expression_def
  evaluate_sctp_remote_error_expression_def evaluate_sctp_send_failed_expression_def
  evaluate_sctp_shutdown_event_expression_def evaluate_sctp_adaptation_event_expression_def
  evaluate_sctp_pdapi_event_expression_def evaluate_sctp_authkey_event_expression_def
  evaluate_sctp_sender_dry_event_expression_def
  evaluate_sctp_send_failed_event_expression_def evaluate_sctp_tlv_expression_def
  evaluate_sctp_extrcvinfo_expression_def evaluate_sctp_assoc_ids_expression_def
  evaluate_sctp_authchunks_expression_def evaluate_sctp_setpeerprim_expression_def
  evaluate_sctp_authchunk_expression_def evaluate_sctp_authkey_expression_def
  evaluate_sctp_reset_streams_expression_def evaluate_sctp_add_streams_expression_def
  evaluate_sctp_stream_reset_event_expression_def
  evaluate_sctp_assoc_reset_event_expression_def
  evaluate_sctp_stream_change_event_expression_def evaluate_sctp_udpencaps_expression_def
  evaluate_iovec_expression_def evaluate_msghdr_expression_def
  evaluate_cmsghdr_expression_def evaluate_pollfd_expression_def
  evaluate_sf_hdtr_expression_def

lemma evaluate_binary_expression_cong [fundef_cong]:
  assumes "op = op'" and "lhs = lhs'" and "rhs = rhs'"
    and "ev lhs' = ev' lhs'" and "ev rhs' = ev' rhs'"
  shows "evaluate_binary_expression ev op lhs rhs = evaluate_binary_expression ev' op' lhs' rhs'"
  using assms by (simp add: evaluate_binary_expression_def split: sum.split)

lemma evaluate_expression_list_eq:
  assumes "\<And>e. e \<in> set es \<Longrightarrow> ev e = ev' e"
  shows "evaluate_expression_list ev es = evaluate_expression_list ev' es"
  using assms by (induction es) (auto split: sum.splits)

lemma evaluate_list_expression_cong [fundef_cong]:
  assumes "es = es'" and "\<And>e. e \<in> set es' \<Longrightarrow> ev e = ev' e"
  shows "evaluate_list_expression ev es = evaluate_list_expression ev' es'"
  using assms evaluate_expression_list_eq [of es' ev ev']
  by (simp add: evaluate_list_expression_def)

lemma evaluate_fields_eq:
  assumes "\<And>e. e \<in> snd ` set fs \<Longrightarrow> ev e = ev' e"
  shows "evaluate_fields ev ns fs = evaluate_fields ev' ns fs"
proof (induction ns)
  case (Cons n ns)
  have "ev e = ev' e" if "map_of fs n = Some e" for e
    using assms map_of_SomeD [OF that] by (metis image_eqI snd_conv)
  with Cons show ?case
    by (simp split: option.split sum.split)
qed simp

text \<open>The structures are evaluated in the order of their declarations, and no member is left
  out.\<close>

lemma evaluate_struct_expression_fields:
  "evaluate_struct_expression ty ev fs =
     (if struct_fields ty = [] then Inl (Bad_expression_type ty)
      else evaluate_fields ev (struct_fields ty) fs)"
  by (cases ty) (simp_all add: evaluate_struct_expression_def evaluate_struct_defs struct_fields_def
      del: evaluate_fields.simps)

lemma evaluate_struct_expression_cong [fundef_cong]:
  assumes "ty = ty'" and "fs = fs'" and "\<And>e. e \<in> snd ` set fs' \<Longrightarrow> ev e = ev' e"
  shows "evaluate_struct_expression ty ev fs = evaluate_struct_expression ty' ev' fs'"
  using assms evaluate_fields_eq [of fs' ev ev']
  by (simp add: evaluate_struct_expression_fields)

lemma size_struct_field:
  "(n, e) \<in> set fs \<Longrightarrow> size e < Suc (size_list (size_prod (\<lambda>_. 0) size) fs)"
  by (induction fs) auto

function evaluate :: "(s64 \<times> string) list \<Rightarrow> expression \<Rightarrow> (script_error, expression) status" where
  "evaluate platform_symbols Expr_null = Inr Expr_null"
| "evaluate platform_symbols Expr_ellipsis = Inr Expr_ellipsis"
| "evaluate platform_symbols (Expr_integer num) = Inr (Expr_integer num)"
| "evaluate platform_symbols (Expr_struct ty fs) =
     map_sum id (Expr_struct ty) (evaluate_struct_expression ty (evaluate platform_symbols) fs)"
| "evaluate platform_symbols (Expr_word s) =
     map_sum id Expr_integer (symbol_to_int platform_symbols s)"
| "evaluate platform_symbols (Expr_hex_word s) = map_sum id Expr_hex_word (hex_word_expression s)"
| "evaluate platform_symbols (Expr_string s) =
     map_sum id Expr_string (unescape_cstring_expression s)"
| "evaluate platform_symbols (Expr_sockaddr_ipv4 a) = Inr (Expr_sockaddr_ipv4 a)"
| "evaluate platform_symbols (Expr_sockaddr_ipv6 a) = Inr (Expr_sockaddr_ipv6 a)"
| "evaluate platform_symbols (Expr_binary op lhs rhs) =
     evaluate_binary_expression (evaluate platform_symbols) op lhs rhs"
| "evaluate platform_symbols (Expr_list es) =
     evaluate_list_expression (evaluate platform_symbols) es"
  by pat_completeness auto

termination evaluate
  by (relation "measure (\<lambda>(_, e). size e)")
    (auto simp: less_Suc_eq_le size_list_estimation' size_struct_field)

end
