(* ===== verification/Script_Evaluation.thy ===== *)
theory Script_Evaluation
  imports Script
begin

text \<open>
  What the evaluation of script expressions promises: the result is the expression with every leaf
  resolved, or the first error from left to right; the result of an evaluation holds no symbol
  and no operator any more; strings survive being escaped; the names of \<open>poll\<close> flags.
\<close>

section \<open>Reference definitions\<close>

text \<open>An expression as the grammar builds it: every structure has its fields.\<close>

fun expr_wf :: "expression \<Rightarrow> bool" where
  "expr_wf (Expr_binary op lhs rhs) \<longleftrightarrow> expr_wf lhs \<and> expr_wf rhs"
| "expr_wf (Expr_list es) \<longleftrightarrow> (\<forall>e \<in> set es. expr_wf e)"
| "expr_wf (Expr_struct ty fs) \<longleftrightarrow> fs \<noteq> [] \<and> map fst fs = struct_fields ty \<and>
     (\<forall>f \<in> set fs. expr_wf (snd f))"
| "expr_wf _ \<longleftrightarrow> True"

text \<open>The expressions that denote an integer.\<close>

fun integer_typed :: "expression \<Rightarrow> bool" where
  "integer_typed (Expr_integer num) \<longleftrightarrow> True"
| "integer_typed (Expr_word s) \<longleftrightarrow> True"
| "integer_typed (Expr_binary op lhs rhs) \<longleftrightarrow> True"
| "integer_typed _ \<longleftrightarrow> False"

definition error_list :: "('e, 'a) status \<Rightarrow> 'e list" where
  "error_list r = (case r of Inl err \<Rightarrow> [err] | Inr _ \<Rightarrow> [])"

definition operator_errors :: "string \<Rightarrow> expression \<Rightarrow> expression \<Rightarrow> script_error list" where
  "operator_errors op lhs rhs =
     (if op \<noteq> ''|'' then [Bad_binary_operator op]
      else (if integer_typed lhs then [] else [Lhs_not_an_integer]) @
        (if integer_typed rhs then [] else [Rhs_not_an_integer]))"

text \<open>All the errors of an expression, from left to right and from the leaves up.\<close>

fun script_errors :: "(s64 \<times> string) list \<Rightarrow> expression \<Rightarrow> script_error list" where
  "script_errors ps (Expr_word s) = error_list (symbol_to_int ps s)"
| "script_errors ps (Expr_hex_word s) = error_list (hex_word_expression s)"
| "script_errors ps (Expr_string s) = error_list (unescape_cstring_expression s)"
| "script_errors ps (Expr_binary op lhs rhs) =
     script_errors ps lhs @ script_errors ps rhs @ operator_errors op lhs rhs"
| "script_errors ps (Expr_list es) = concat (map (script_errors ps) es)"
| "script_errors ps (Expr_struct ty fs) = concat (map (\<lambda>f. script_errors ps (snd f)) fs)"
| "script_errors ps _ = []"

fun integer_value :: "expression \<Rightarrow> s64" where
  "integer_value (Expr_integer num) = num"
| "integer_value _ = 0"

text \<open>The expression with its leaves replaced.\<close>

fun resolve :: "(s64 \<times> string) list \<Rightarrow> expression \<Rightarrow> expression" where
  "resolve ps (Expr_word s) = Expr_integer (projr (symbol_to_int ps s))"
| "resolve ps (Expr_hex_word s) = Expr_hex_word (map toupper s)"
| "resolve ps (Expr_string s) = Expr_string (projr (unescape_cstring_expression s))"
| "resolve ps (Expr_binary op lhs rhs) =
     Expr_integer (integer_value (resolve ps lhs) OR integer_value (resolve ps rhs))"
| "resolve ps (Expr_list es) = Expr_list (map (resolve ps) es)"
| "resolve ps (Expr_struct ty fs) = Expr_struct ty (map (\<lambda>f. (fst f, resolve ps (snd f))) fs)"
| "resolve ps e = e"

definition first_error :: "'e list \<Rightarrow> 'a \<Rightarrow> ('e, 'a) status" where
  "first_error errs v = (case errs of [] \<Rightarrow> Inr v | err # _ \<Rightarrow> Inl err)"

text \<open>The values that the system calls are run on.\<close>

fun evaluated :: "expression \<Rightarrow> bool" where
  "evaluated (Expr_word s) \<longleftrightarrow> False"
| "evaluated (Expr_binary op lhs rhs) \<longleftrightarrow> False"
| "evaluated (Expr_hex_word s) \<longleftrightarrow> even (length s) \<and>
     (\<forall>c \<in> set s. isxdigit c \<and> toupper c = c)"
| "evaluated (Expr_list es) \<longleftrightarrow> (\<forall>e \<in> set es. evaluated e)"
| "evaluated (Expr_struct ty fs) \<longleftrightarrow> map fst fs = struct_fields ty \<and>
     (\<forall>f \<in> set fs. evaluated (snd f))"
| "evaluated _ \<longleftrightarrow> True"

definition escape_char :: "char \<Rightarrow> string" where
  "escape_char c =
     (if c = CHR 0x5C then [CHR 0x5C, CHR 0x5C]
      else if c = CHR 0x22 then [CHR 0x5C, CHR 0x22]
      else if c = CHR 0x0C then [CHR 0x5C, CHR ''f'']
      else if c = CHR 0x0A then [CHR 0x5C, CHR ''n'']
      else if c = CHR 0x0D then [CHR 0x5C, CHR ''r'']
      else if c = CHR 0x09 then [CHR 0x5C, CHR ''t'']
      else if c = CHR 0x0B then [CHR 0x5C, CHR ''v'']
      else [c])"

definition escape_cstring :: "string \<Rightarrow> string" where
  "escape_cstring s = concat (map escape_char s)"

section \<open>Lemmas\<close>

lemma first_error_simps [simp]:
  "first_error [] v = Inr v" "first_error (err # errs) v = Inl err"
  by (simp_all add: first_error_def)

lemma map_sum_eq_Inr: "map_sum f g r = Inr y \<longleftrightarrow> (\<exists>z. r = Inr z \<and> y = g z)"
  by (cases r) auto

lemma first_error_append:
  "first_error (es @ fs) v = (case first_error es v of Inl err \<Rightarrow> Inl err | Inr _ \<Rightarrow> first_error fs v)"
  by (cases es) simp_all

lemma map_first_error [simp]: "map_sum id g (first_error errs v) = first_error errs (g v)"
  by (cases errs) simp_all

lemma first_error_list: "first_error (error_list r) (g (projr r)) = map_sum id g r"
  by (cases r) (simp_all add: error_list_def)

lemma first_error_eq_Inr [simp]: "first_error errs v = Inr w \<longleftrightarrow> errs = [] \<and> v = w"
  by (cases errs) auto

lemma evaluate_expression_list_first_error:
  assumes "\<And>e. e \<in> set es \<Longrightarrow> ev e = first_error (errs e) (res e)"
  shows "evaluate_expression_list ev es = first_error (concat (map errs es)) (map res es)"
  using assms
proof (induction es)
  case (Cons e es)
  then show ?case
    by (cases "errs e") (simp_all add: first_error_append)
qed simp

lemma evaluate_fields_list:
  assumes "distinct (map fst fs)" and "set ns \<subseteq> fst ` set fs"
  shows "evaluate_fields ev ns fs =
    map_sum id (zip ns) (evaluate_expression_list ev (map (\<lambda>n. the (map_of fs n)) ns))"
  using assms(2)
proof (induction ns)
  case (Cons n ns)
  then obtain e where "map_of fs n = Some e"
    by (metis list.set_intros(1) map_of_eq_None_iff option.exhaust subsetD)
  with Cons show ?case
    by (cases "evaluate_expression_list ev (map (\<lambda>n. the (map_of fs n)) ns)")
      (auto split: sum.split)
qed simp

lemma map_the_map_of:
  "distinct (map fst fs) \<Longrightarrow> map (\<lambda>n. the (map_of fs n)) (map fst fs) = map snd fs"
  by (induction fs) (auto simp: rev_image_eqI)

lemma distinct_struct_fields: "distinct (struct_fields ty)"
  by (cases ty) (simp_all add: struct_fields_def)

lemma evaluate_struct_expression_wf:
  assumes "fs \<noteq> []" and "map fst fs = struct_fields ty"
    and "\<And>f. f \<in> set fs \<Longrightarrow> ev (snd f) = first_error (errs (snd f)) (res (snd f))"
  shows "evaluate_struct_expression ty ev fs =
    first_error (concat (map (\<lambda>f. errs (snd f)) fs)) (map (\<lambda>f. (fst f, res (snd f))) fs)"
proof -
  have dist: "distinct (map fst fs)"
    using distinct_struct_fields [of ty] assms(2) by simp
  have "evaluate_fields ev (map fst fs) fs =
      map_sum id (zip (map fst fs)) (evaluate_expression_list ev (map snd fs))"
    using evaluate_fields_list [OF dist, of "map fst fs" ev] unfolding map_the_map_of [OF dist]
    by simp
  moreover have "evaluate_expression_list ev (map snd fs) =
      first_error (concat (map errs (map snd fs))) (map res (map snd fs))"
    using assms(3) by (intro evaluate_expression_list_first_error) auto
  moreover have "zip (map fst fs) (map res (map snd fs)) = map (\<lambda>f. (fst f, res (snd f))) fs"
    by (induction fs) auto
  ultimately show ?thesis
    using assms(1,2) by (auto simp: evaluate_struct_expression_fields comp_def)
qed

lemma hex_word_loop_result:
  "hex_word_loop s = first_error (map Unsupported_hex_digit (filter (\<lambda>c. \<not> isxdigit c) s)) (map toupper s)"
  by (induction s) simp_all

lemma hex_word_expression_result:
  "first_error (error_list (hex_word_expression s)) (map toupper s) = hex_word_expression s"
  by (auto simp: hex_word_expression_def error_list_def Let_def hex_word_loop_result first_error_def
      split: list.split)

lemma resolve_integer:
  "integer_typed e \<Longrightarrow> resolve ps e = Expr_integer (integer_value (resolve ps e))"
  by (cases e) simp_all

lemma resolve_not_integer: "\<not> integer_typed e \<Longrightarrow> resolve ps e \<noteq> Expr_integer n"
  by (cases e) simp_all

lemma evaluate_binary_first_error:
  assumes "ev lhs = first_error (script_errors ps lhs) (resolve ps lhs)"
    and "ev rhs = first_error (script_errors ps rhs) (resolve ps rhs)"
  shows "evaluate_binary_expression ev op lhs rhs =
    first_error (script_errors ps (Expr_binary op lhs rhs)) (resolve ps (Expr_binary op lhs rhs))"
proof (cases "script_errors ps lhs = [] \<and> script_errors ps rhs = []")
  case True
  then show ?thesis
    using assms resolve_not_integer [of lhs ps] resolve_not_integer [of rhs ps]
      resolve_integer [of lhs ps] resolve_integer [of rhs ps]
    by (auto simp: evaluate_binary_expression_def operator_errors_def split: expression.split)
next
  case False
  then show ?thesis
    using assms
    by (cases "script_errors ps lhs"; cases "script_errors ps rhs")
      (simp_all add: evaluate_binary_expression_def)
qed

lemmas expr_wf_induct = expr_wf.induct [case_names binary list struct null ellipsis integer word hex str ipv4 ipv6]

lemma evaluate_result:
  assumes "expr_wf e"
  shows "evaluate platform_symbols e =
    first_error (script_errors platform_symbols e) (resolve platform_symbols e)"
  using assms
proof (induction e rule: expr_wf_induct)
  case (binary op lhs rhs)
  then show ?case
    by (simp add: evaluate_binary_first_error del: script_errors.simps(4) resolve.simps(4))
next
  case (list es)
  then show ?case
    by (simp add: evaluate_list_expression_def evaluate_expression_list_first_error)
next
  case (struct ty fs)
  then show ?case
    by (simp add: evaluate_struct_expression_wf
        [where errs = "script_errors platform_symbols" and res = "resolve platform_symbols"])
next
  case (hex s)
  then show ?case
    using hex_word_expression_result [of s]
    by (metis evaluate.simps(6) map_first_error resolve.simps(2) script_errors.simps(2))
qed (simp_all add: first_error_list)

lemma toupper_hex: "isxdigit c \<Longrightarrow> isxdigit (toupper c) \<and> toupper (toupper c) = toupper c"
  by (auto simp: isxdigit_def toupper_def Let_def)

lemma hex_word_expression_evaluated:
  assumes "error_list (hex_word_expression s) = []"
  shows "even (length s) \<and> (\<forall>c \<in> set s. isxdigit c)"
  using assms
  by (auto simp: hex_word_expression_def error_list_def Let_def hex_word_loop_result first_error_def
      filter_empty_conv split: if_splits list.splits)

lemma evaluated_resolve:
  assumes "expr_wf e" and "script_errors ps e = []"
  shows "evaluated (resolve ps e)"
  using assms
proof (induction e rule: expr_wf_induct)
  case (hex s)
  then show ?case
    using hex_word_expression_evaluated [of s] toupper_hex by auto
qed (auto simp: comp_def)

lemma unescape_escape: "unescape_cstring_expression (escape_cstring s) = Inr s"
  by (induction s) (simp_all add: escape_cstring_def escape_char_def escape_code_def)

lemma unescape_length: "unescape_cstring_expression s = Inr t \<Longrightarrow> length t \<le> length s"
proof (induction s arbitrary: t rule: unescape_cstring_expression.induct)
  case (2 c cs)
  then show ?case
    by (auto split: if_splits list.splits option.splits simp: map_sum_eq_Inr le_SucI)
qed simp

lemma ex_from_Suc:
  "(\<exists>j. i \<le> j \<and> j < i + Suc n \<and> P j) \<longleftrightarrow> P i \<or> (\<exists>j. Suc i \<le> j \<and> j < Suc i + n \<and> P j)"
  by (metis add_Suc_right add_Suc_shift le_add1 le_less not_less_eq_eq order_refl Suc_le_eq)

lemma flags_to_string_loop_None:
  "flags_to_string_loop fa flags n (2 ^ i) out = None \<longleftrightarrow>
     (\<exists>j. i \<le> j \<and> j < i + n \<and> bit flags j \<and> flag_name fa (2 ^ j) = None)"
proof (induction n arbitrary: i out)
  case (Suc n)
  have step: "push_bit 1 (2 ^ i) = (2 ^ Suc i :: u64)"
    by (simp add: push_bit_eq_mult)
  show ?case
    unfolding ex_from_Suc flags_to_string_loop.simps step
    by (cases "flag_name fa (2 ^ i)")
      (simp_all add: and_exp_eq_0_iff_not_bit Suc.IH del: power_Suc)
qed auto

lemma flag_name_None:
  "None \<notin> snd ` set fa \<Longrightarrow> flag_name fa flag = None \<longleftrightarrow> flag \<notin> fst ` set fa"
  by (induction fa flag rule: flag_name.induct) auto

lemma poll_flags_values:
  "fst ` set poll_flags = insert 0 ((\<lambda>k. 2 ^ k) ` ({..<11} \<union> {12..<14}))"
  by (simp add: poll_flags_def lessThan_nat_numeral lessThan_Suc atLeastLessThan_nat_numeral) blast

lemma bit_poll_flags: "bit (0x37FF :: u64) j \<longleftrightarrow> j < 11 \<or> 12 \<le> j \<and> j < 14"
proof -
  have eq: "(0x37FF :: u64) = mask 11 OR push_bit 12 (mask 2)"
    by (simp add: mask_eq_exp_minus_1 push_bit_eq_mult)
  show ?thesis
    unfolding eq by (auto simp: bit_simps)
qed

lemma flag_name_poll_flags:
  assumes "j < 64"
  shows "flag_name poll_flags (2 ^ j) = None \<longleftrightarrow> \<not> bit (0x37FF :: u64) j"
proof -
  have "bit (2 ^ j :: u64) j"
    using assms by (simp add: bit_exp_iff)
  then have inj: "(2 ^ j :: u64) = 2 ^ k \<longleftrightarrow> j = k" for k
    by (metis bit_exp_iff)
  have pos: "(2 ^ j :: u64) \<noteq> 0"
    using assms by (simp add: not_le)
  have "None \<notin> snd ` set poll_flags"
    by (simp add: poll_flags_def)
  then have "flag_name poll_flags (2 ^ j) = None \<longleftrightarrow>
      (2 ^ j :: u64) \<notin> insert 0 ((\<lambda>k. 2 ^ k) ` ({..<11} \<union> {12..<14}))"
    using flag_name_None [of poll_flags] unfolding poll_flags_values by blast
  also have "\<dots> \<longleftrightarrow> j \<notin> {..<11} \<union> {12..<14}"
    using pos inj by (simp add: image_iff del: Un_iff)
  finally show ?thesis
    unfolding bit_poll_flags by auto
qed

lemma poll_flags_to_string_None:
  "flags_to_string poll_flags flags = None \<longleftrightarrow> (\<exists>j < 64. bit flags j \<and> \<not> bit (0x37FF :: u64) j)"
  using flags_to_string_loop_None [of poll_flags flags 64 0 "[]"] flag_name_poll_flags
  by (simp add: flags_to_string_def) blast

lemma ex_bit_outside:
  fixes flags m :: u64
  shows "(\<exists>j < 64. bit flags j \<and> \<not> bit m j) \<longleftrightarrow> flags AND NOT m \<noteq> 0"
  by (auto simp: bit_eq_iff [of "flags AND NOT m"] bit_and_iff bit_not_iff dest: bit_imp_le_length)

section \<open>Properties\<close>

text \<open>C9: evaluating an expression gives the expression with its symbols, operators, strings and
  hexadecimal words replaced by their values if it has no error, and otherwise reports the first
  of its errors from left to right, whatever structures and lists it is nested in; no member of a
  structure is skipped and no null member is read.\<close>

theorem evaluate_first_error:
  assumes "expr_wf e"
  shows "evaluate platform_symbols e =
    first_error (script_errors platform_symbols e) (resolve platform_symbols e)"
  using assms by (rule evaluate_result)

theorem evaluate_first_error_witness:
  "expr_wf (Expr_list [Expr_word ''AF_INET'', Expr_struct EXPR_POLLFD
      [(''fd'', Expr_integer 3), (''events'', Expr_binary ''|'' (Expr_word ''POLLIN'') (Expr_integer 4)),
       (''revents'', Expr_string ''x'')]]) \<and>
    evaluate [(1, ''POLLIN'')] (Expr_list [Expr_word ''AF_INET'', Expr_struct EXPR_POLLFD
      [(''fd'', Expr_integer 3), (''events'', Expr_binary ''|'' (Expr_word ''POLLIN'') (Expr_integer 4)),
       (''revents'', Expr_string ''x'')]]) =
    Inr (Expr_list [Expr_integer 2, Expr_struct EXPR_POLLFD
      [(''fd'', Expr_integer 3), (''events'', Expr_integer 5), (''revents'', Expr_string ''x'')]])"
proof -
  let ?e = "Expr_list [Expr_word ''AF_INET'', Expr_struct EXPR_POLLFD
      [(''fd'', Expr_integer 3), (''events'', Expr_binary ''|'' (Expr_word ''POLLIN'') (Expr_integer 4)),
       (''revents'', Expr_string ''x'')]]"
  have wf: "expr_wf ?e"
    by (simp add: struct_fields_def)
  show ?thesis
    using wf evaluate_first_error [OF wf, of "[(1, ''POLLIN'')]"]
    by (simp add: symbol_to_int_def cross_platform_symbols_def error_list_def operator_errors_def)
qed

text \<open>C36: the result of an evaluation holds no symbol and no operator any more, its hexadecimal words
  are upper-case digits in pairs, its structures have all their members, and its type is the one
  the expression was written with, or the integer type for a symbol or an operator.\<close>

theorem evaluate_evaluated:
  assumes "expr_wf e" and "evaluate platform_symbols e = Inr v"
  shows "evaluated v \<and>
    expr_type v = (if integer_typed e then EXPR_INTEGER else expr_type e)"
proof -
  have v: "v = resolve platform_symbols e" and "script_errors platform_symbols e = []"
    using assms evaluate_result [OF assms(1)] by auto
  then have "evaluated v"
    using evaluated_resolve [OF assms(1)] by simp
  then show ?thesis
    using v by (cases e) auto
qed

theorem evaluate_evaluated_witness:
  "expr_wf (Expr_list [Expr_hex_word ''0aF1'', Expr_word ''SHUT_RDWR'']) \<and>
   evaluate [] (Expr_list [Expr_hex_word ''0aF1'', Expr_word ''SHUT_RDWR'']) =
     Inr (Expr_list [Expr_hex_word ''0AF1'', Expr_integer 2]) \<and>
   evaluated (Expr_list [Expr_hex_word ''0AF1'', Expr_integer 2])"
proof -
  let ?e = "Expr_list [Expr_hex_word ''0aF1'', Expr_word ''SHUT_RDWR'']"
  have wf: "expr_wf ?e"
    by simp
  moreover have "evaluate [] ?e = Inr (Expr_list [Expr_hex_word ''0AF1'', Expr_integer 2])"
    by (simp add: symbol_to_int_def cross_platform_symbols_def hex_word_expression_def Let_def
        isxdigit_def toupper_def evaluate_list_expression_def char_of_def bit_0)
  ultimately show ?thesis
    using evaluate_evaluated [OF wf] by blast
qed

text \<open>A string that is escaped for a script is evaluated to itself, and the unescaped string always
  fits in the buffer of the size of the input that is allocated for it.\<close>

theorem unescape_roundtrip:
  "unescape_cstring_expression (escape_cstring s) = Inr s \<and>
   (\<forall>t. unescape_cstring_expression s = Inr t \<longrightarrow> length t + 1 \<le> length s + 1)"
  using unescape_escape unescape_length by auto

theorem unescape_roundtrip_witness:
  "escape_cstring [CHR 0x22, CHR ''a'', CHR 0x0A] =
     [CHR 0x5C, CHR 0x22, CHR ''a'', CHR 0x5C, CHR ''n''] \<and>
   unescape_cstring_expression [CHR 0x5C, CHR 0x22, CHR ''a'', CHR 0x5C, CHR ''n''] =
     Inr [CHR 0x22, CHR ''a'', CHR 0x0A]"
proof -
  have e: "escape_cstring [CHR 0x22, CHR ''a'', CHR 0x0A] =
     [CHR 0x5C, CHR 0x22, CHR ''a'', CHR 0x5C, CHR ''n'']"
    by (simp add: escape_cstring_def escape_char_def)
  then show ?thesis
    using unescape_roundtrip [of "[CHR 0x22, CHR ''a'', CHR 0x0A]"] by simp
qed

text \<open>Printing the events of a \<open>poll\<close> call stays within the table of names exactly when no bit other
  than those of the table is set. The comment of \<open>flag_name\<close> promises the string \<open>???\<close> for an unknown
  flag, but the table ends with an empty name and not with a null pointer, so that the scan for an
  unknown flag runs past its end.\<close>

theorem poll_flags_over_read:
  "flags_to_string poll_flags flags = None \<longleftrightarrow> flags AND NOT 0x37FF \<noteq> 0"
  using poll_flags_to_string_None [of flags] unfolding ex_bit_outside .

end
