(* ===== verification/Syscall_Args.thy ===== *)
theory Syscall_Args
  imports Script Ip_Address
begin

text \<open>
  The arguments of system calls (\<^verbatim>\<open>run_system_call.c\<close>): access to the evaluated arguments by index
  and type, and the comparison of the members of a structure that a system call filled in with the
  expressions the script gives for them, where an ellipsis matches everything.

  Signed 32-bit values are integers, wrapped explicitly where the code narrows them; \<^verbatim>\<open>socklen_t\<close>
  and \<^verbatim>\<open>sctp_assoc_t\<close> are 32-bit words and \<^verbatim>\<open>size_t\<close> is a 64-bit word. A result of \<^const>\<open>None\<close> is a
  failed assertion or an access outside of an array, as elsewhere.
\<close>

datatype arg_error =
    Expected_args nat nat
  | Argument_list_too_short
  | Bad_type expression_t expression_t
  | Value_out_of_range int
  | Expected_one_element
  | Bad_type_for_sockaddr
  | Sockaddr_family_differs
  | Sockaddr_port_differs
  | Sockaddr_addr_differs
  | Value_differs string int int
  | Length_differs string nat int
  | Element_differs string nat int int
  | Null_expected
  | Bad_expression_type_for string
  | Not_supported string
  | Getpeername_failed

type_synonym 'a arg = "(arg_error, 'a) status"

definition status_bind :: "('e, 'a) status \<Rightarrow> ('a \<Rightarrow> ('e, 'b) status) \<Rightarrow> ('e, 'b) status" where
  "status_bind r f = (case r of Inl err \<Rightarrow> Inl err | Inr v \<Rightarrow> f v)"

section \<open>Access to arguments\<close>

text \<open>The members of the union.\<close>

fun expr_num :: "expression \<Rightarrow> int" where
  "expr_num (Expr_integer num) = sint num"
| "expr_num _ = 0"

fun expr_string :: "expression \<Rightarrow> string" where
  "expr_string (Expr_string s) = s"
| "expr_string _ = []"

fun expr_list :: "expression \<Rightarrow> expression list" where
  "expr_list (Expr_list es) = es"
| "expr_list _ = []"

fun expr_fields :: "expression \<Rightarrow> struct_expr" where
  "expr_fields (Expr_struct ty fs) = fs"
| "expr_fields _ = []"

definition get_arg_count :: "expression list \<Rightarrow> nat" where
  "get_arg_count args = length args"

definition check_arg_count :: "expression list \<Rightarrow> nat \<Rightarrow> unit arg" where
  "check_arg_count args expected =
     (let actual = get_arg_count args in
      if actual \<noteq> expected then Inl (Expected_args expected actual) else Inr ())"

fun get_arg :: "expression list \<Rightarrow> nat \<Rightarrow> expression arg" where
  "get_arg [] index = Inl Argument_list_too_short"
| "get_arg (e # args) 0 = Inr e"
| "get_arg (e # args) (Suc index) = get_arg args index"

definition check_type :: "expression \<Rightarrow> expression_t \<Rightarrow> unit arg" where
  "check_type e expected_type =
     (if expr_type e = expected_type then Inr () else Inl (Bad_type (expr_type e) expected_type))"

definition get_socklen_t :: "expression \<Rightarrow> u32 arg" where
  "get_socklen_t e = status_bind (check_type e EXPR_INTEGER) (\<lambda>_.
     if expr_num e < 0 then Inl (Value_out_of_range (expr_num e))
     else Inr (word_of_int (expr_num e)))"

definition get_size_t :: "expression \<Rightarrow> u64 arg" where
  "get_size_t e = status_bind (check_type e EXPR_INTEGER) (\<lambda>_.
     if expr_num e < 0 then Inl (Value_out_of_range (expr_num e))
     else Inr (word_of_int (expr_num e)))"

definition get_off_t :: "expression \<Rightarrow> int arg" where
  "get_off_t e = status_bind (check_type e EXPR_INTEGER) (\<lambda>_.
     if expr_num e < 0 then Inl (Value_out_of_range (expr_num e)) else Inr (expr_num e))"

definition get_sctp_assoc_t :: "expression \<Rightarrow> u32 arg" where
  "get_sctp_assoc_t e =
     (if expr_type e = EXPR_ELLIPSIS then Inr 0
      else status_bind (check_type e EXPR_INTEGER) (\<lambda>_.
        if expr_num e < 0 then Inl (Value_out_of_range (expr_num e))
        else Inr (word_of_int (expr_num e))))"

definition get_u32 :: "expression \<Rightarrow> u32 arg" where
  "get_u32 e = status_bind (check_type e EXPR_INTEGER) (\<lambda>_.
     if expr_num e > 0xFFFFFFFF \<or> expr_num e < 0 then Inl (Value_out_of_range (expr_num e))
     else Inr (word_of_int (expr_num e)))"

definition get_s32 :: "expression \<Rightarrow> int arg" where
  "get_s32 e = status_bind (check_type e EXPR_INTEGER) (\<lambda>_.
     if expr_num e > 0xFFFFFFFF \<or> expr_num e < - 0x80000000
     then Inl (Value_out_of_range (expr_num e))
     else Inr (signed_take_bit 31 (expr_num e)))"

definition get_u16 :: "expression \<Rightarrow> u16 arg" where
  "get_u16 e = status_bind (check_type e EXPR_INTEGER) (\<lambda>_.
     if expr_num e > 0xFFFF \<or> expr_num e < 0 then Inl (Value_out_of_range (expr_num e))
     else Inr (word_of_int (expr_num e)))"

definition get_u8 :: "expression \<Rightarrow> u8 arg" where
  "get_u8 e = status_bind (check_type e EXPR_INTEGER) (\<lambda>_.
     if expr_num e > 0xFF \<or> expr_num e < 0 then Inl (Value_out_of_range (expr_num e))
     else Inr (word_of_int (expr_num e)))"

definition s32_arg :: "expression list \<Rightarrow> nat \<Rightarrow> int arg" where
  "s32_arg args index = status_bind (get_arg args index) get_s32"

text \<open>An argument in brackets: a list with a single element. An empty list is not told apart from a
  list with many elements.\<close>

definition bracketed :: "(expression \<Rightarrow> 'a arg) \<Rightarrow> expression list \<Rightarrow> nat \<Rightarrow> 'a arg" where
  "bracketed get args index = status_bind (get_arg args index) (\<lambda>e.
     status_bind (check_type e EXPR_LIST) (\<lambda>_.
       if length (expr_list e) \<noteq> 1 then Inl Expected_one_element
       else get (hd (expr_list e))))"

definition s32_bracketed_arg :: "expression list \<Rightarrow> nat \<Rightarrow> int arg" where
  "s32_bracketed_arg = bracketed get_s32"

definition u32_bracketed_arg :: "expression list \<Rightarrow> nat \<Rightarrow> u32 arg" where
  "u32_bracketed_arg = bracketed get_u32"

definition off_t_bracketed_arg :: "expression list \<Rightarrow> nat \<Rightarrow> int arg" where
  "off_t_bracketed_arg = bracketed get_off_t"

definition socklen_t_bracketed_arg :: "expression list \<Rightarrow> nat \<Rightarrow> u32 arg" where
  "socklen_t_bracketed_arg = bracketed get_socklen_t"

definition ellipsis_arg :: "expression list \<Rightarrow> nat \<Rightarrow> unit arg" where
  "ellipsis_arg args index = status_bind (get_arg args index) (\<lambda>e. check_type e EXPR_ELLIPSIS)"

text \<open>The address of the peer is what \<^verbatim>\<open>getpeername\<close> gives, \<^const>\<open>None\<close> on failure.\<close>

definition get_sockstorage_arg :: "bytes option \<Rightarrow> expression \<Rightarrow> bytes arg" where
  "get_sockstorage_arg peername e = (case e of
      Expr_ellipsis \<Rightarrow> (case peername of None \<Rightarrow> Inl Getpeername_failed | Some sa \<Rightarrow> Inr sa)
    | Expr_sockaddr_ipv4 sa \<Rightarrow> Inr sa
    | Expr_sockaddr_ipv6 sa \<Rightarrow> Inr sa
    | _ \<Rightarrow> Inl Bad_type_for_sockaddr)"

section \<open>Comparison with live values\<close>

definition check_u8_expr :: "expression \<Rightarrow> u8 \<Rightarrow> string \<Rightarrow> unit arg" where
  "check_u8_expr e value val_name =
     (if expr_type e \<noteq> EXPR_ELLIPSIS
      then status_bind (get_u8 e) (\<lambda>script_val.
        if script_val \<noteq> value then Inl (Value_differs val_name (uint script_val) (uint value))
        else Inr ())
      else Inr ())"

definition check_u16_htons_expr :: "expression \<Rightarrow> u16 \<Rightarrow> string \<Rightarrow> unit arg" where
  "check_u16_htons_expr e value val_name =
     (if expr_type e \<noteq> EXPR_ELLIPSIS
      then status_bind (get_u16 e) (\<lambda>script_val.
        if ntohs script_val \<noteq> ntohs value
        then Inl (Value_differs val_name (uint (ntohs script_val)) (uint (ntohs value)))
        else Inr ())
      else Inr ())"

definition check_u16_expr :: "expression \<Rightarrow> u16 \<Rightarrow> string \<Rightarrow> unit arg" where
  "check_u16_expr e value val_name =
     (if expr_type e \<noteq> EXPR_ELLIPSIS
      then status_bind (get_u16 e) (\<lambda>script_val.
        if script_val \<noteq> value then Inl (Value_differs val_name (uint script_val) (uint value))
        else Inr ())
      else Inr ())"

text \<open>The parameter for the live value is declared as \<^verbatim>\<open>s16\<close>.\<close>

definition check_s32_expr :: "expression \<Rightarrow> 16 word \<Rightarrow> string \<Rightarrow> unit arg" where
  "check_s32_expr e value val_name =
     (if expr_type e \<noteq> EXPR_ELLIPSIS
      then status_bind (get_s32 e) (\<lambda>script_val.
        if script_val \<noteq> sint value then Inl (Value_differs val_name script_val (sint value))
        else Inr ())
      else Inr ())"

definition check_u32_hton_expr :: "expression \<Rightarrow> u32 \<Rightarrow> string \<Rightarrow> unit arg" where
  "check_u32_hton_expr e value val_name =
     (if expr_type e \<noteq> EXPR_ELLIPSIS
      then status_bind (get_u32 e) (\<lambda>script_val.
        if ntohl value \<noteq> ntohl script_val
        then Inl (Value_differs val_name (uint (ntohl script_val)) (uint (ntohl value)))
        else Inr ())
      else Inr ())"

definition check_u32_expr :: "expression \<Rightarrow> u32 \<Rightarrow> string \<Rightarrow> unit arg" where
  "check_u32_expr e value val_name =
     (if expr_type e \<noteq> EXPR_ELLIPSIS
      then status_bind (get_u32 e) (\<lambda>script_val.
        if script_val \<noteq> value then Inl (Value_differs val_name (uint script_val) (uint value))
        else Inr ())
      else Inr ())"

definition check_sctp_assoc_t_expr :: "expression \<Rightarrow> u32 \<Rightarrow> string \<Rightarrow> unit arg" where
  "check_sctp_assoc_t_expr e value val_name =
     (if expr_type e \<noteq> EXPR_ELLIPSIS
      then status_bind (get_sctp_assoc_t e) (\<lambda>script_val.
        if script_val \<noteq> value then Inl (Value_differs val_name (uint script_val) (uint value))
        else Inr ())
      else Inr ())"

definition check_socklen_t_expr :: "expression \<Rightarrow> u32 \<Rightarrow> string \<Rightarrow> unit arg" where
  "check_socklen_t_expr e value val_name =
     (if expr_type e \<noteq> EXPR_ELLIPSIS
      then status_bind (get_socklen_t e) (\<lambda>script_val.
        if script_val \<noteq> value then Inl (Value_differs val_name (uint script_val) (uint value))
        else Inr ())
      else Inr ())"

definition check_size_t_expr :: "expression \<Rightarrow> u64 \<Rightarrow> string \<Rightarrow> unit arg" where
  "check_size_t_expr e value val_name =
     (if expr_type e \<noteq> EXPR_ELLIPSIS
      then status_bind (get_size_t e) (\<lambda>script_val.
        if script_val \<noteq> value then Inl (Value_differs val_name (uint script_val) (uint value))
        else Inr ())
      else Inr ())"

text \<open>The loop over the elements of an array from index \<open>i\<close> on. \<open>data\<close> is the live array, \<^const>\<open>None\<close> if
  it is the null pointer.\<close>

fun check_elements :: "(expression \<Rightarrow> 'a::len word arg) \<Rightarrow> expression list \<Rightarrow> 'a word list \<Rightarrow> nat \<Rightarrow>
    string \<Rightarrow> unit arg option" where
  "check_elements get [] data i val_name = Some (Inr ())"
| "check_elements get (e # es) data i val_name =
     (if expr_type e = EXPR_ELLIPSIS then check_elements get es data (Suc i) val_name
      else (case get e of
        Inl err \<Rightarrow> Some (Inl err)
      | Inr script_val \<Rightarrow>
          if i < length data
          then if script_val \<noteq> data ! i
            then Some (Inl (Element_differs val_name i (uint script_val) (uint (data ! i))))
            else check_elements get es data (Suc i) val_name
          else None))"

definition check_array :: "(expression \<Rightarrow> 'a::len word arg) \<Rightarrow> expression \<Rightarrow> 'a word list option \<Rightarrow> int \<Rightarrow>
    string \<Rightarrow> unit arg option" where
  "check_array get e data data_len val_name = (case e of
      Expr_ellipsis \<Rightarrow> Some (Inr ())
    | Expr_list es \<Rightarrow>
        if data_len \<noteq> int (length es) then Some (Inl (Length_differs val_name (length es) data_len))
        else check_elements get es (case data of None \<Rightarrow> [] | Some xs \<Rightarrow> xs) 0 val_name
    | Expr_null \<Rightarrow> Some (if data \<noteq> None then Inl Null_expected else Inr ())
    | _ \<Rightarrow> Some (Inl (Bad_expression_type_for val_name)))"

definition check_u8array_expr :: "expression \<Rightarrow> u8 list option \<Rightarrow> int \<Rightarrow> string \<Rightarrow> unit arg option" where
  "check_u8array_expr = check_array get_u8"

definition check_u16array_expr :: "expression \<Rightarrow> u16 list option \<Rightarrow> int \<Rightarrow> string \<Rightarrow> unit arg option" where
  "check_u16array_expr = check_array get_u16"

text \<open>The IPv6 case compares \<^verbatim>\<open>live_sockaddr->sin6_addr.s6_addr\<close> with \<^verbatim>\<open>script_sockaddr->sin6_addr.s6_addr\<close>.
  Both are arrays and decay to pointers; the two addresses are different objects, so the pointers
  always differ.\<close>

definition check_sockaddr_values :: "bytes \<Rightarrow> bytes \<Rightarrow> unit arg option" where
  "check_sockaddr_values script_addr live_addr = do {
     script_family \<leftarrow> rd16 script_addr 0;
     live_family \<leftarrow> rd16 live_addr 0;
     if script_family \<noteq> live_family then Some (Inl Sockaddr_family_differs)
     else do {
       family \<leftarrow> sa_family script_addr;
       (case family of
          AF_INET \<Rightarrow> do {
            live_port \<leftarrow> rd16 live_addr 2;
            script_port \<leftarrow> rd16 script_addr 2;
            if live_port \<noteq> script_port then Some (Inl Sockaddr_port_differs)
            else do {
              live_ip \<leftarrow> rd32 live_addr 4;
              script_ip \<leftarrow> rd32 script_addr 4;
              Some (if live_ip \<noteq> script_ip then Inl Sockaddr_addr_differs else Inr ())
            }
          }
        | AF_INET6 \<Rightarrow> do {
            live_port \<leftarrow> rd16 live_addr 2;
            script_port \<leftarrow> rd16 script_addr 2;
            Some (Inl (if live_port \<noteq> script_port then Sockaddr_port_differs
              else Sockaddr_addr_differs))
          }
        | AF_UNSPEC \<Rightarrow> Some (Inr ()))
     }
   }"

definition check_sockaddr :: "expression \<Rightarrow> bytes \<Rightarrow> unit arg option" where
  "check_sockaddr sockaddr_expr live_addr = (case sockaddr_expr of
      Expr_ellipsis \<Rightarrow> Some (Inr ())
    | Expr_sockaddr_ipv4 script_addr \<Rightarrow> check_sockaddr_values script_addr live_addr
    | Expr_sockaddr_ipv6 script_addr \<Rightarrow> check_sockaddr_values script_addr live_addr
    | _ \<Rightarrow> Some (Inl Bad_type_for_sockaddr))"

section \<open>Buffers\<close>

text \<open>The types of \<^verbatim>\<open>iov_base\<close> that an iovec may have.\<close>

definition iov_base_types :: "expression_t list" where
  "iov_base_types =
    [EXPR_ELLIPSIS, EXPR_SCTP_ASSOC_CHANGE, EXPR_SCTP_PADDR_CHANGE, EXPR_SCTP_REMOTE_ERROR,
     EXPR_SCTP_SEND_FAILED, EXPR_SCTP_SHUTDOWN_EVENT, EXPR_SCTP_ADAPTATION_EVENT,
     EXPR_SCTP_PDAPI_EVENT, EXPR_SCTP_AUTHKEY_EVENT, EXPR_SCTP_SENDER_DRY_EVENT,
     EXPR_SCTP_SEND_FAILED_EVENT, EXPR_SCTP_TLV, EXPR_SCTP_STREAM_RESET_EVENT,
     EXPR_SCTP_ASSOC_RESET_EVENT, EXPR_SCTP_STREAM_CHANGE_EVENT]"

text \<open>The lengths of the buffers, which are zeroed.\<close>

fun iovec_elements :: "expression list \<Rightarrow> u64 list arg option" where
  "iovec_elements [] = Some (Inr [])"
| "iovec_elements (e # es) =
     (case check_type e EXPR_IOVEC of
        Inl err \<Rightarrow> Some (Inl err)
      | Inr _ \<Rightarrow> do {
          iov_base \<leftarrow> map_of (expr_fields e) ''iov_base'';
          iov_len \<leftarrow> map_of (expr_fields e) ''iov_len'';
          c_assert (expr_type iov_base \<in> set iov_base_types);
          c_assert (expr_type iov_len = EXPR_INTEGER);
          r \<leftarrow> iovec_elements es;
          Some (map_sum id ((#) (word_of_int (expr_num iov_len))) r)
        })"

definition iovec_new :: "expression \<Rightarrow> u64 list arg option" where
  "iovec_new e = (case check_type e EXPR_LIST of
      Inl err \<Rightarrow> Some (Inl err)
    | Inr _ \<Rightarrow> iovec_elements (expr_list e))"

end
