(* ===== verification/Sctp_Checks.thy ===== *)
theory Sctp_Checks
  imports Syscall_Args Sockets
begin

text \<open>
  The comparison of the structures that \<^verbatim>\<open>getsockopt\<close>, \<^verbatim>\<open>recvmsg\<close> and the SCTP calls fill in with the
  structures the script expects (the \<^verbatim>\<open>check_\<close> functions of \<^verbatim>\<open>run_system_call.c\<close>), up to whole SCTP
  notifications.

  A live structure is given by the values of its scalar members by name, those of a structure
  nested in it, an address and the array at its end; the layout in memory is that of the platform
  and not modelled. Passing a member to a check converts it to the type of the parameter, as C
  does. The functions are those of a Linux build where a system matters (\<open>check_sctp_paddrparams\<close>,
  \<open>check_sctp_pdapi_event\<close>, \<open>check_sctp_notification\<close>); the functions that only other systems have are
  modelled too.
\<close>

record live_struct =
  scalar :: "string \<Rightarrow> int"
  inner :: "string \<Rightarrow> int"
  live_sockaddr :: bytes
  tail :: "u8 list"
  tail16 :: "u16 list"

text \<open>A sequence of checks, each with an early return.\<close>

fun check_seq :: "unit arg option list \<Rightarrow> unit arg option" where
  "check_seq [] = Some (Inr ())"
| "check_seq (c # cs) = (case c of
      None \<Rightarrow> None
    | Some (Inl err) \<Rightarrow> Some (Inl err)
    | Some (Inr _) \<Rightarrow> check_seq cs)"

definition check_member :: "(expression \<Rightarrow> 'a::len word \<Rightarrow> string \<Rightarrow> unit arg) \<Rightarrow> struct_expr \<Rightarrow>
    (string \<Rightarrow> int) \<Rightarrow> string \<Rightarrow> string \<Rightarrow> unit arg option" where
  "check_member check expr live name val_name = do {
     e \<leftarrow> map_of expr name;
     Some (check e (word_of_int (live name)) val_name)
   }"

text \<open>A nested structure, unless an ellipsis stands for it.\<close>

definition check_nested :: "(struct_expr \<Rightarrow> unit arg option) \<Rightarrow> struct_expr \<Rightarrow> string \<Rightarrow> unit arg option" where
  "check_nested check expr name = do {
     e \<leftarrow> map_of expr name;
     if expr_type e \<noteq> EXPR_ELLIPSIS then check (expr_fields e) else Some (Inr ())
   }"

text \<open>A member that the platform does not have: only an ellipsis is allowed.\<close>

definition check_unsupported :: "struct_expr \<Rightarrow> string \<Rightarrow> string \<Rightarrow> unit arg option" where
  "check_unsupported expr name val_name = do {
     e \<leftarrow> map_of expr name;
     Some (if expr_type e \<noteq> EXPR_ELLIPSIS then Inl (Not_supported val_name) else Inr ())
   }"

text \<open>The number of bytes that follow a structure of \<open>size_of\<close> bytes, as a \<^verbatim>\<open>size_t\<close> difference.\<close>

definition tail_length :: "int \<Rightarrow> int \<Rightarrow> int" where
  "tail_length length_of size_of = uint (word_of_int (length_of - size_of) :: u64)"

section \<open>Socket options\<close>

definition check_linger :: "struct_expr \<Rightarrow> live_struct \<Rightarrow> unit arg option" where
  "check_linger expr live = check_seq
    [check_member check_s32_expr expr (scalar live) ''l_onoff'' ''linger.l_onoff'',
     check_member check_s32_expr expr (scalar live) ''l_linger'' ''linger.l_linger'']"

definition check_sctp_rtoinfo :: "struct_expr \<Rightarrow> live_struct \<Rightarrow> unit arg option" where
  "check_sctp_rtoinfo expr live = check_seq
    [check_member check_sctp_assoc_t_expr expr (scalar live) ''srto_assoc_id''
        ''sctp_rtoinfo.srto_assoc_id'',
     check_member check_u32_expr expr (scalar live) ''srto_initial'' ''sctp_rtoinfo.srto_initial'',
     check_member check_u32_expr expr (scalar live) ''srto_max'' ''sctp_rtoinfo.srto_max'',
     check_member check_u32_expr expr (scalar live) ''srto_min'' ''sctp_rtoinfo.srto_min'']"

definition check_sctp_initmsg :: "struct_expr \<Rightarrow> live_struct \<Rightarrow> unit arg option" where
  "check_sctp_initmsg expr live = check_seq
    [check_member check_u16_expr expr (scalar live) ''sinit_num_ostreams''
        ''sctp_initmsg.sinit_num_ostreams'',
     check_member check_u16_expr expr (scalar live) ''sinit_max_instreams''
        ''sctp_initmsg.sinit_max_instreams'',
     check_member check_u16_expr expr (scalar live) ''sinit_max_attempts''
        ''sctp_initmsg.sinit_max_attempts'',
     check_member check_u16_expr expr (scalar live) ''sinit_max_init_timeo''
        ''sctp_initmsg.sinit_max_init_timeo'']"

definition check_sctp_authkeyid :: "struct_expr \<Rightarrow> live_struct \<Rightarrow> unit arg option" where
  "check_sctp_authkeyid expr live = check_seq
    [check_member check_sctp_assoc_t_expr expr (scalar live) ''scact_assoc_id''
        ''sctp_authkeyid.scact_assoc_id'',
     check_member check_u16_expr expr (scalar live) ''scact_keynumber''
        ''sctp_authkeyid.scact_keynumber'']"

definition check_sctp_sack_info :: "struct_expr \<Rightarrow> live_struct \<Rightarrow> unit arg option" where
  "check_sctp_sack_info expr live = check_seq
    [check_member check_sctp_assoc_t_expr expr (scalar live) ''sack_assoc_id''
        ''sctp_sack_info.sack_assoc_id'',
     check_member check_u32_expr expr (scalar live) ''sack_delay'' ''sctp_sack_info.sack_delay'',
     check_member check_u32_expr expr (scalar live) ''sack_freq'' ''sctp_sack_info.sack_freq'']"

definition check_sctp_paddrinfo :: "struct_expr \<Rightarrow> live_struct \<Rightarrow> unit arg option" where
  "check_sctp_paddrinfo expr live = check_seq
    [check_member check_sctp_assoc_t_expr expr (scalar live) ''spinfo_assoc_id''
        ''sctp_paddrinfo.spinfo_assoc_id'',
     check_member check_s32_expr expr (scalar live) ''spinfo_state'' ''sctp_paddrinfo.spinfo_state'',
     check_member check_u32_expr expr (scalar live) ''spinfo_cwnd'' ''sctp_paddrinfo.spinfo_cwnd'',
     check_member check_u32_expr expr (scalar live) ''spinfo_srtt'' ''sctp_paddrinfo.spinfo_srtt'',
     check_member check_u32_expr expr (scalar live) ''spinfo_rto'' ''sctp_paddrinfo.spinfo_rto'',
     check_member check_u32_expr expr (scalar live) ''spinfo_mtu'' ''sctp_paddrinfo.spinfo_mtu'']"

definition check_sctp_status :: "struct_expr \<Rightarrow> live_struct \<Rightarrow> unit arg option" where
  "check_sctp_status expr live = check_seq
    [check_member check_sctp_assoc_t_expr expr (scalar live) ''sstat_assoc_id''
        ''sctp_status.sstat_assoc_id'',
     check_member check_s32_expr expr (scalar live) ''sstat_state'' ''sctp_status.sstat_state'',
     check_member check_u32_expr expr (scalar live) ''sstat_rwnd'' ''sctp_status.sstat_rwnd'',
     check_member check_u16_expr expr (scalar live) ''sstat_unackdata'' ''sctp_status.sstat_unackdata'',
     check_member check_u16_expr expr (scalar live) ''sstat_penddata'' ''sctp_status.sstat_penddata'',
     check_member check_u16_expr expr (scalar live) ''sstat_instrms'' ''sctp_status.sstat_instrms'',
     check_member check_u16_expr expr (scalar live) ''sstat_outstrms'' ''sctp_status.sstat_outstrms'',
     check_member check_u32_expr expr (scalar live) ''sstat_fragmentation_point''
        ''sctp_status.sstat_fragmentation_point'',
     check_nested (\<lambda>info. check_sctp_paddrinfo info (live\<lparr> scalar := inner live \<rparr>)) expr ''sstat_primary'']"

definition check_sctp_paddrparams :: "struct_expr \<Rightarrow> live_struct \<Rightarrow> unit arg option" where
  "check_sctp_paddrparams expr live = check_seq
    [check_member check_u32_expr expr (scalar live) ''spp_hbinterval''
        ''sctp_paddrparams.spp_hbinterval'',
     check_member check_u16_expr expr (scalar live) ''spp_pathmaxrxt''
        ''sctp_paddrparams.spp_pathmaxrxt'',
     check_member check_u32_expr expr (scalar live) ''spp_pathmtu'' ''sctp_paddrparams.spp_pathmtu'',
     check_member check_u32_expr expr (scalar live) ''spp_flags'' ''sctp_paddrparams.spp_flags'',
     check_unsupported expr ''spp_ipv6_flowlabel'' ''sctp_paddrparams.spp_ipv6_flowlabel'',
     check_unsupported expr ''spp_dscp'' ''sctp_paddrparams.spp_dscp'']"

definition check_sctp_assoc_value :: "struct_expr \<Rightarrow> live_struct \<Rightarrow> unit arg option" where
  "check_sctp_assoc_value expr live = check_seq
    [check_member check_sctp_assoc_t_expr expr (scalar live) ''assoc_id'' ''sctp_assoc_value.assoc_id'',
     check_member check_u16_expr expr (scalar live) ''assoc_value'' ''sctp_assoc_value.stream_id'']"

definition check_sctp_stream_value :: "struct_expr \<Rightarrow> live_struct \<Rightarrow> unit arg option" where
  "check_sctp_stream_value expr live = check_seq
    [check_member check_u16_expr expr (scalar live) ''stream_id'' ''sctp_stream_value.stream_id'',
     check_member check_u16_expr expr (scalar live) ''stream_value'' ''sctp_stream_value.stream_value'']"

definition check_sctp_assocparams :: "struct_expr \<Rightarrow> live_struct \<Rightarrow> unit arg option" where
  "check_sctp_assocparams expr live = check_seq
    [check_member check_sctp_assoc_t_expr expr (scalar live) ''sasoc_assoc_id''
        ''sctp_assocparams.sasoc_assoc_id'',
     check_member check_u16_expr expr (scalar live) ''sasoc_asocmaxrxt''
        ''sctp_assocparams.sasoc_asocmaxrxt'',
     check_member check_u16_expr expr (scalar live) ''sasoc_number_peer_destinations''
        ''sctp_assocparams.sasoc_number_peer_destinations'',
     check_member check_u32_expr expr (scalar live) ''sasoc_peer_rwnd''
        ''sctp_assocparams.sasoc_peer_rwnd'',
     check_member check_u32_expr expr (scalar live) ''sasoc_local_rwnd''
        ''sctp_assocparams.sasoc_local_rwnd'',
     check_member check_u32_expr expr (scalar live) ''sasoc_cookie_life''
        ''sctp_assocparams.sasoc_cookie_life'']"

definition check_sctp_event :: "struct_expr \<Rightarrow> live_struct \<Rightarrow> unit arg option" where
  "check_sctp_event expr live = check_seq
    [check_member check_sctp_assoc_t_expr expr (scalar live) ''se_assoc_id'' ''sctp_event.se_assoc_id'',
     check_member check_u16_expr expr (scalar live) ''se_type'' ''sctp_event.se_type'',
     check_member check_u8_expr expr (scalar live) ''se_on'' ''sctp_event.se_on'']"

definition check_sctp_event_subscribe :: "struct_expr \<Rightarrow> live_struct \<Rightarrow> unit arg option" where
  "check_sctp_event_subscribe expr live = check_seq
    [check_member check_u8_expr expr (scalar live) ''sctp_data_io_event''
        ''sctp_event_subscribe.sctp_data_io_event'',
     check_member check_u8_expr expr (scalar live) ''sctp_association_event''
        ''sctp_event_subscribe.sctp_association_event'',
     check_member check_u8_expr expr (scalar live) ''sctp_address_event''
        ''sctp_event_subscribe.sctp_address_event'',
     check_member check_u8_expr expr (scalar live) ''sctp_send_failure_event''
        ''sctp_event_subscribe.sctp_send_failure_event'',
     check_member check_u8_expr expr (scalar live) ''sctp_peer_error_event''
        ''sctp_event_subscribe.sctp_peer_error_event'',
     check_member check_u8_expr expr (scalar live) ''sctp_shutdown_event''
        ''sctp_event_subscribe.sctp_shutdown_event'',
     check_member check_u8_expr expr (scalar live) ''sctp_partial_delivery_event''
        ''sctp_event_subscribe.sctp_partial_delivery_event'',
     check_member check_u8_expr expr (scalar live) ''sctp_adaptation_layer_event''
        ''sctp_event_subscribe.sctp_adaptation_layer_event'',
     check_member check_u8_expr expr (scalar live) ''sctp_authentication_event''
        ''sctp_event_subscribe.sctp_authentication_event'',
     check_member check_u8_expr expr (scalar live) ''sctp_sender_dry_event''
        ''sctp_event_subscribe.sctp_sender_dry_event'']"

definition check_sctp_sndinfo :: "struct_expr \<Rightarrow> live_struct \<Rightarrow> unit arg option" where
  "check_sctp_sndinfo expr live = check_seq
    [check_member check_u16_expr expr (scalar live) ''snd_sid'' ''sctp_sndinfo.snd_sid'',
     check_member check_u16_expr expr (scalar live) ''snd_flags'' ''sctp_sndinfo.snd_flags'',
     check_member check_u32_hton_expr expr (scalar live) ''snd_ppid'' ''sctp_sndinfo.snd_ppid'',
     check_member check_u32_expr expr (scalar live) ''snd_context'' ''sctp_sndinfo.snd_context'',
     check_member check_sctp_assoc_t_expr expr (scalar live) ''snd_assoc_id''
        ''sctp_sndinfo.snd_assoc_id'']"

definition check_sctp_default_prinfo :: "expression \<Rightarrow> live_struct \<Rightarrow> unit arg option" where
  "check_sctp_default_prinfo e live =
     (let expr = expr_fields e in
      if expr_type e = EXPR_SCTP_DEFAULT_PRINFO then check_seq
        [check_member check_sctp_assoc_t_expr expr (scalar live) ''pr_assoc_id'' ''sctp_default_prinfo.pr_assoc_id'',
         check_member check_u16_expr expr (scalar live) ''pr_policy'' ''sctp_default_prinfo.pr_policy'',
         check_member check_u32_expr expr (scalar live) ''pr_value'' ''sctp_default_prinfo.pr_value'']
      else if expr_type e = EXPR_SCTP_PRINFO then check_seq
        [check_member check_u16_expr expr (scalar live) ''pr_policy'' ''sctp_default_prinfo.pr_policy'',
         check_member check_u32_expr expr (scalar live) ''pr_value'' ''sctp_default_prinfo.pr_value'']
      else Some (Inl (Bad_expression_type_for ''sctp_default_prinfo'')))"

definition check_sctp_setprim :: "struct_expr \<Rightarrow> live_struct \<Rightarrow> unit arg option" where
  "check_sctp_setprim expr live = check_seq
    [check_member check_sctp_assoc_t_expr expr (scalar live) ''ssp_assoc_id''
        ''sctp_setprim.ssp_assoc_id'',
     do { e \<leftarrow> map_of expr ''ssp_addr''; check_sockaddr e (live_sockaddr live) }]"

definition check_sctp_setadaptation :: "struct_expr \<Rightarrow> live_struct \<Rightarrow> unit arg option" where
  "check_sctp_setadaptation expr live = check_seq
    [check_member check_u32_expr expr (scalar live) ''ssb_adaptation_ind''
        ''sctp_setadptation.ssb_adaptation_ind'']"

definition check_sctp_hamcalgo :: "struct_expr \<Rightarrow> live_struct \<Rightarrow> unit arg option" where
  "check_sctp_hamcalgo expr live = check_seq
    [check_member check_u32_expr expr (scalar live) ''shmac_number_of_idents''
        ''sctp_hmacalgo.shmac_number_of_idents'',
     do { e \<leftarrow> map_of expr ''shmac_idents''; Some (check_type e EXPR_LIST) },
     do { e \<leftarrow> map_of expr ''shmac_idents'';
        check_u16array_expr e (Some (tail16 live)) (signed_take_bit 31 (scalar live ''shmac_number_of_idents''))
          ''sctp_hmacalgo.shmac_idents'' }]"

definition check_sctp_authchunks :: "struct_expr \<Rightarrow> live_struct \<Rightarrow> unit arg option" where
  "check_sctp_authchunks expr live = check_seq
    [check_member check_sctp_assoc_t_expr expr (scalar live) ''gauth_assoc_id''
        ''sctp_authchunks.gauth_assoc_id'',
     check_member check_u32_expr expr (scalar live) ''gauth_number_of_chunks''
        ''sctp_authchunks.gauth_number_of_chunks'',
     do { e \<leftarrow> map_of expr ''gauth_chunks'';
        check_u8array_expr e (Some (tail live)) (uint (word_of_int (scalar live ''gauth_number_of_chunks'') :: u32))
          ''sctp_authchunks.gauth_chunks'' }]"

definition check_sctp_udpencaps :: "struct_expr \<Rightarrow> live_struct \<Rightarrow> unit arg option" where
  "check_sctp_udpencaps expr live = check_seq
    [check_member check_u16_htons_expr expr (scalar live) ''sue_port'' ''sctp_udpencaps.sue_port'']"

section \<open>Received messages\<close>

definition check_sctp_sndrcvinfo :: "struct_expr \<Rightarrow> live_struct \<Rightarrow> unit arg option" where
  "check_sctp_sndrcvinfo expr live = check_seq
    [check_member check_u16_expr expr (scalar live) ''sinfo_stream'' ''sctp_sndrcvinfo.sinfo_stream'',
     check_member check_u16_expr expr (scalar live) ''sinfo_ssn'' ''sctp_sndrcvinfo.sinfo_ssn'',
     check_member check_u16_expr expr (scalar live) ''sinfo_flags'' ''sctp_sndrcvinfo.sinfo_flags'',
     check_member check_u32_hton_expr expr (scalar live) ''sinfo_ppid'' ''sctp_sndrcvinfo.sinfo_ppid'',
     check_member check_u32_expr expr (scalar live) ''sinfo_context'' ''sctp_sndrcvinfo.sinfo_context'',
     check_member check_u32_expr expr (scalar live) ''sinfo_timetolive''
        ''sctp_sndrcvinfo.sinfo_timetolive'',
     check_member check_u32_expr expr (scalar live) ''sinfo_tsn'' ''sctp_sndrcvinfo.sinfo_tsn'',
     check_member check_u32_expr expr (scalar live) ''sinfo_cumtsn'' ''sctp_sndrcvinfo.sinfo_cumtsn'',
     check_member check_sctp_assoc_t_expr expr (scalar live) ''sinfo_assoc_id''
        ''sctp_sndrcvinfo.sinfo_assoc_id'']"

definition check_sctp_extrcvinfo :: "struct_expr \<Rightarrow> live_struct \<Rightarrow> unit arg option" where
  "check_sctp_extrcvinfo expr live = check_seq
    [check_member check_u16_expr expr (scalar live) ''sinfo_stream'' ''sctp_extrcvinfo.sinfo_stream'',
     check_member check_u16_expr expr (scalar live) ''sinfo_ssn'' ''sctp_extrcvinfo.sinfo_ssn'',
     check_member check_u16_expr expr (scalar live) ''sinfo_flags'' ''sctp_extrcvinfo.sinfo_flags'',
     check_member check_u32_hton_expr expr (scalar live) ''sinfo_ppid'' ''sctp_extrcvinfo.sinfo_ppid'',
     check_member check_u32_expr expr (scalar live) ''sinfo_context'' ''sctp_extrcvinfo.sinfo_context'',
     check_member check_u32_expr expr (scalar live) ''sinfo_pr_value''
        ''sctp_extrcvinfo.sinfo_pr_value'',
     check_member check_u32_expr expr (scalar live) ''sinfo_tsn'' ''sctp_extrcvinfo.sinfo_tsn'',
     check_member check_u32_expr expr (scalar live) ''sinfo_cumtsn'' ''sctp_extrcvinfo.sinfo_cumtsn'',
     check_member check_u16_expr expr (scalar live) ''serinfo_next_flags''
        ''sctp_extrcvinfo.serinfo_next_flags'',
     check_member check_u16_expr expr (scalar live) ''serinfo_next_stream''
        ''sctp_extrcvinfo.serinfo_next_stream'',
     check_member check_u32_expr expr (scalar live) ''serinfo_next_aid''
        ''sctp_extrcvinfo.serinfo_next_aid'',
     check_member check_u32_expr expr (scalar live) ''serinfo_next_length''
        ''sctp_extrcvinfo.serinfo_next_length'',
     check_member check_u32_hton_expr expr (scalar live) ''serinfo_next_ppid''
        ''sctp_extrcvinfo.serinfo_next_ppid'',
     check_member check_sctp_assoc_t_expr expr (scalar live) ''sinfo_assoc_id''
        ''sctp_extrcvinfo.sinfo_assoc_id'']"

definition check_sctp_rcvinfo :: "struct_expr \<Rightarrow> live_struct \<Rightarrow> unit arg option" where
  "check_sctp_rcvinfo expr live = check_seq
    [check_member check_u16_expr expr (scalar live) ''rcv_sid'' ''sctp_rcvinfo.rcv_sid'',
     check_member check_u16_expr expr (scalar live) ''rcv_ssn'' ''sctp_rcvinfo.rcv_ssn'',
     check_member check_u16_expr expr (scalar live) ''rcv_flags'' ''sctp_rcvinfo.rcv_flags'',
     check_member check_u32_hton_expr expr (scalar live) ''rcv_ppid'' ''sctp_rcvinfo.rcv_ppid'',
     check_member check_u32_expr expr (scalar live) ''rcv_tsn'' ''sctp_rcvinfo.rcv_tsn'',
     check_member check_u32_expr expr (scalar live) ''rcv_cumtsn'' ''sctp_rcvinfo.rcv_cumtsn'',
     check_member check_u32_expr expr (scalar live) ''rcv_context'' ''sctp_rcvinfo.rcv_context'',
     check_member check_sctp_assoc_t_expr expr (scalar live) ''rcv_assoc_id''
        ''sctp_rcvinfo.rcv_assoc_id'']"

definition check_sctp_nxtinfo :: "struct_expr \<Rightarrow> live_struct \<Rightarrow> unit arg option" where
  "check_sctp_nxtinfo expr live = check_seq
    [check_member check_u16_expr expr (scalar live) ''nxt_sid'' ''sctp_nxtinfo.nxt_sid'',
     check_member check_u16_expr expr (scalar live) ''nxt_flags'' ''sctp_nxtinfo.nxt_flags'',
     check_member check_u32_hton_expr expr (scalar live) ''nxt_ppid'' ''sctp_nxtinfo.nxt_ppid'',
     check_member check_u32_expr expr (scalar live) ''nxt_length'' ''sctp_nxtinfo.nxt_length'',
     check_member check_sctp_assoc_t_expr expr (scalar live) ''nxt_assoc_id''
        ''sctp_nxtinfo.nxt_assoc_id'']"

section \<open>Notifications\<close>

definition check_sctp_assoc_change :: "struct_expr \<Rightarrow> live_struct \<Rightarrow> unit arg option" where
  "check_sctp_assoc_change expr live = check_seq
    [check_member check_u16_expr expr (scalar live) ''sac_type'' ''sctp_assoc_change.sac_type'',
     check_member check_u16_expr expr (scalar live) ''sac_flags'' ''sctp_assoc_change.sac_flags'',
     check_member check_u32_expr expr (scalar live) ''sac_length'' ''sctp_assoc_change.sac_length'',
     check_member check_u16_expr expr (scalar live) ''sac_state'' ''sctp_assoc_change.sac_state'',
     check_member check_u16_expr expr (scalar live) ''sac_error'' ''sctp_assoc_change.sac_error'',
     check_member check_u16_expr expr (scalar live) ''sac_outbound_streams''
        ''sctp_assoc_change.sac_outbound_streams'',
     check_member check_u16_expr expr (scalar live) ''sac_inbound_streams''
        ''sctp_assoc_change.sac_inbound_streams'',
     check_member check_sctp_assoc_t_expr expr (scalar live) ''sac_assoc_id''
        ''sctp_assoc_change.sac_assoc_id'',
     do { e \<leftarrow> map_of expr ''sac_info'';
        check_u8array_expr e (Some (tail live)) (tail_length (scalar live ''sac_length'') 20)
          ''sctp_assoc_change.sac_info'' }]"

definition check_sctp_paddr_change :: "struct_expr \<Rightarrow> live_struct \<Rightarrow> unit arg option" where
  "check_sctp_paddr_change expr live = check_seq
    [check_member check_u16_expr expr (scalar live) ''spc_type'' ''sctp_paddr_change.spc_type'',
     check_member check_u16_expr expr (scalar live) ''spc_flags'' ''sctp_paddr_change.spc_flags'',
     check_member check_u32_expr expr (scalar live) ''spc_length'' ''sctp_paddr_change.spc_length'',
     do { e \<leftarrow> map_of expr ''spc_aaddr''; check_sockaddr e (live_sockaddr live) },
     check_member check_u32_expr expr (scalar live) ''spc_state'' ''sctp_paddr_change.spc_state'',
     check_member check_u32_expr expr (scalar live) ''spc_error'' ''sctp_paddr_change.spc_error'',
     check_member check_sctp_assoc_t_expr expr (scalar live) ''spc_assoc_id''
        ''sctp_paddr_change.spc_assoc_id'']"

definition check_sctp_remote_error :: "struct_expr \<Rightarrow> live_struct \<Rightarrow> unit arg option" where
  "check_sctp_remote_error expr live = check_seq
    [check_member check_u16_expr expr (scalar live) ''sre_type'' ''sctp_remote_error.sre_type'',
     check_member check_u16_expr expr (scalar live) ''sre_flags'' ''sctp_remote_error.sre_flags'',
     check_member check_u32_expr expr (scalar live) ''sre_length'' ''sctp_remote_error.sre_length'',
     check_member check_u16_expr expr (scalar live) ''sre_error'' ''sctp_remote_error.sre_error'',
     check_member check_sctp_assoc_t_expr expr (scalar live) ''sre_assoc_id''
        ''sctp_remote_error.sre_assoc_id'',
     do { e \<leftarrow> map_of expr ''sre_data'';
        check_u8array_expr e (Some (tail live)) (tail_length (scalar live ''sre_length'') 16)
          ''sctp_remote_error.sre_data'' }]"

definition check_sctp_send_failed :: "struct_expr \<Rightarrow> live_struct \<Rightarrow> unit arg option" where
  "check_sctp_send_failed expr live = check_seq
    [check_member check_u16_expr expr (scalar live) ''ssf_type'' ''sctp_send_failed.ssf_type'',
     check_member check_u16_expr expr (scalar live) ''ssf_flags'' ''sctp_send_failed.ssf_flags'',
     check_member check_u32_expr expr (scalar live) ''ssf_length'' ''sctp_send_failed.ssf_length'',
     check_member check_u32_expr expr (scalar live) ''ssf_error'' ''sctp_send_failed.ssf_error'',
     check_nested (\<lambda>info. check_sctp_sndrcvinfo info (live\<lparr> scalar := inner live \<rparr>)) expr ''ssf_info'',
     check_member check_sctp_assoc_t_expr expr (scalar live) ''ssf_assoc_id''
        ''sctp_send_failed.ssf_assoc_id'',
     do { e \<leftarrow> map_of expr ''ssf_data'';
        check_u8array_expr e (Some (tail live)) (tail_length (scalar live ''ssf_length'') 48)
          ''sctp_send_failed.ssf_data'' }]"

definition check_sctp_shutdown_event :: "struct_expr \<Rightarrow> live_struct \<Rightarrow> unit arg option" where
  "check_sctp_shutdown_event expr live = check_seq
    [check_member check_u16_expr expr (scalar live) ''sse_type'' ''sctp_shutdown_event.sse_type'',
     check_member check_u16_expr expr (scalar live) ''sse_flags'' ''sctp_shutdown_event.sse_flags'',
     check_member check_u32_expr expr (scalar live) ''sse_length'' ''sctp_shutdown_event.sse_length'',
     check_member check_sctp_assoc_t_expr expr (scalar live) ''sse_assoc_id''
        ''sctp_shutdown_event.sse_assoc_id'']"

definition check_sctp_adaptation_event :: "struct_expr \<Rightarrow> live_struct \<Rightarrow> unit arg option" where
  "check_sctp_adaptation_event expr live = check_seq
    [check_member check_u16_expr expr (scalar live) ''sai_type'' ''sctp_adaptation_event.sai_type'',
     check_member check_u16_expr expr (scalar live) ''sai_flags'' ''sctp_adaptation_event.sai_flags'',
     check_member check_u32_expr expr (scalar live) ''sai_length'' ''sctp_adaptation_event.sai_length'',
     check_member check_u32_expr expr (scalar live) ''sai_adaptation_ind''
        ''sctp_adaptation_event.sai_adaptation_ind'',
     check_member check_sctp_assoc_t_expr expr (scalar live) ''sai_assoc_id''
        ''sctp_adaptation_event.sai_assoc_id'']"

definition check_sctp_pdapi_event :: "struct_expr \<Rightarrow> live_struct \<Rightarrow> unit arg option" where
  "check_sctp_pdapi_event expr live = check_seq
    [check_member check_u16_expr expr (scalar live) ''pdapi_type'' ''sctp_pdapi_event.pdapi_type'',
     check_member check_u16_expr expr (scalar live) ''pdapi_flags'' ''sctp_pdapi_event.pdapi_flags'',
     check_member check_u32_expr expr (scalar live) ''pdapi_length'' ''sctp_pdapi_event.pdapi_length'',
     check_member check_u32_expr expr (scalar live) ''pdapi_indication''
        ''sctp_pdapi_event.pdapi_indication'',
     check_unsupported expr ''pdapi_stream'' ''sctp_pdapi_event.pdapi_stream'',
     check_unsupported expr ''pdapi_seq'' ''sctp_pdapi_event.pdapi_seq'',
     check_member check_sctp_assoc_t_expr expr (scalar live) ''pdapi_assoc_id''
        ''sctp_pdapi_event.pdapi_assoc_id'']"

definition check_sctp_authkey_event :: "struct_expr \<Rightarrow> live_struct \<Rightarrow> unit arg option" where
  "check_sctp_authkey_event expr live = check_seq
    [check_member check_u16_expr expr (scalar live) ''auth_type'' ''sctp_authkey_event.auth_type'',
     check_member check_u16_expr expr (scalar live) ''auth_flags'' ''sctp_authkey_event.auth_flags'',
     check_member check_u32_expr expr (scalar live) ''auth_length'' ''sctp_authkey_event.auth_length'',
     check_member check_u16_expr expr (scalar live) ''auth_keynumber''
        ''sctp_authkey_event.auth_keynumber'',
     check_member check_u32_expr expr (scalar live) ''auth_indication''
        ''sctp_authkey_event.auth_indication'',
     check_member check_sctp_assoc_t_expr expr (scalar live) ''auth_assoc_id''
        ''sctp_authkey_event.auth_assoc_id'']"

definition check_sctp_sender_dry_event :: "struct_expr \<Rightarrow> live_struct \<Rightarrow> unit arg option" where
  "check_sctp_sender_dry_event expr live = check_seq
    [check_member check_u16_expr expr (scalar live) ''sender_dry_type''
        ''sctp_sender_dry.sender_dry_type'',
     check_member check_u16_expr expr (scalar live) ''sender_dry_flags''
        ''sctp_sender_dry.sender_dry_flags'',
     check_member check_u32_expr expr (scalar live) ''sender_dry_length''
        ''sctp_sender_dry.sender_dry_length'',
     check_member check_sctp_assoc_t_expr expr (scalar live) ''sender_dry_assoc_id''
        ''sctp_sender_dry.sender_dry_assoc_id'']"

definition check_sctp_send_failed_event :: "struct_expr \<Rightarrow> live_struct \<Rightarrow> unit arg option" where
  "check_sctp_send_failed_event expr live = check_seq
    [check_member check_u16_expr expr (scalar live) ''ssfe_type'' ''sctp_send_failed.ssfe_type'',
     check_member check_u16_expr expr (scalar live) ''ssfe_flags'' ''sctp_send_failed.ssfe_flags'',
     check_member check_u32_expr expr (scalar live) ''ssfe_length'' ''sctp_send_failed.ssfe_length'',
     check_member check_u32_expr expr (scalar live) ''ssfe_error'' ''sctp_send_failed.ssfe_error'',
     check_nested (\<lambda>info. check_sctp_sndinfo info (live\<lparr> scalar := inner live \<rparr>)) expr ''ssfe_info'',
     check_member check_sctp_assoc_t_expr expr (scalar live) ''ssfe_assoc_id''
        ''sctp_send_failed.ssfe_assoc_id'',
     do { e \<leftarrow> map_of expr ''ssfe_data'';
        check_u8array_expr e (Some (tail live)) (tail_length (scalar live ''ssfe_length'') 32)
          ''sctp_send_failed_event.ssfe_data'' }]"

definition check_sctp_tlv :: "struct_expr \<Rightarrow> live_struct \<Rightarrow> unit arg option" where
  "check_sctp_tlv expr live = check_seq
    [check_member check_u16_expr expr (scalar live) ''sn_type'' ''sctp_tlv.sn_type'',
     check_member check_u16_expr expr (scalar live) ''sn_flags'' ''sctp_tlv.sn_flags'',
     check_member check_u32_expr expr (scalar live) ''sn_length'' ''sctp_tlv.sn_length'']"

definition check_sctp_stream_reset_event :: "struct_expr \<Rightarrow> live_struct \<Rightarrow> unit arg option" where
  "check_sctp_stream_reset_event expr live = check_seq
    [check_member check_u16_expr expr (scalar live) ''strreset_type''
        ''sctp_stream_reset_event.strreset_type'',
     check_member check_u16_expr expr (scalar live) ''strreset_flags''
        ''sctp_stream_reset_event.strreset_flags'',
     check_member check_u32_expr expr (scalar live) ''strreset_length''
        ''sctp_stream_reset_event.strreset_length'',
     check_member check_sctp_assoc_t_expr expr (scalar live) ''strreset_assoc_id''
        ''sctp_stream_reset_event.strreset_assoc_id'',
     do { e \<leftarrow> map_of expr ''strreset_stream_list'';
        check_u16array_expr e (Some (tail16 live)) (signed_take_bit 31
          (tail_length (scalar live ''strreset_length'') 12 div 2))
          ''sctp_stream_reset_event.strreset_stream_list'' }]"

definition check_sctp_assoc_reset_event :: "socket \<Rightarrow> struct_expr \<Rightarrow> live_struct \<Rightarrow> unit arg option" where
  "check_sctp_assoc_reset_event socket expr live =
     (let local_diff = local_initial_tsn (so_live socket) - local_initial_tsn (so_script socket);
          remote_diff = remote_initial_tsn (so_live socket) - remote_initial_tsn (so_script socket) in
      check_seq
       [check_member check_u16_expr expr (scalar live) ''assocreset_type'' ''sctp_assoc_reset_event.assocreset_type'',
        check_member check_u16_expr expr (scalar live) ''assocreset_flags'' ''sctp_assoc_reset_event.assocreset_flags'',
        check_member check_u32_expr expr (scalar live) ''assocreset_length'' ''sctp_assoc_reset_event.assocreset_length'',
        check_member check_sctp_assoc_t_expr expr (scalar live) ''assocreset_assoc_id''
          ''sctp_assoc_reset_event.assocreset_assoc_id'',
        check_member (\<lambda>e value. check_u32_expr e (value - local_diff)) expr (scalar live)
          ''assocreset_local_tsn'' ''sctp_assoc_reset_event.assocreset_local_tsn'',
        check_member (\<lambda>e value. check_u32_expr e (value - remote_diff)) expr (scalar live)
          ''assocreset_remote_tsn'' ''sctp_assoc_reset_event.assocreset_remote_tsn''])"

definition check_sctp_stream_change_event :: "struct_expr \<Rightarrow> live_struct \<Rightarrow> unit arg option" where
  "check_sctp_stream_change_event expr live = check_seq
    [check_member check_u16_expr expr (scalar live) ''strchange_type''
        ''sctp_stream_change_event.strchange_type'',
     check_member check_u16_expr expr (scalar live) ''strchange_flags''
        ''sctp_stream_change_event.strchange_flags'',
     check_member check_u32_expr expr (scalar live) ''strchange_length''
        ''sctp_stream_change_event.strchange_length'',
     check_member check_sctp_assoc_t_expr expr (scalar live) ''strchange_assoc_id''
        ''sctp_stream_change_event.strchange_assoc_id'',
     check_member check_u16_expr expr (scalar live) ''strchange_instrms''
        ''sctp_stream_change_event.strchange_instrms'',
     check_member check_u16_expr expr (scalar live) ''strchange_outstrms''
        ''sctp_stream_change_event.strchange_outstrms'']"

section \<open>Whole notifications\<close>

definition check_iov_base :: "expression \<Rightarrow> live_struct \<Rightarrow> unit arg option" where
  "check_iov_base iov_base live =
     (let expr = expr_fields iov_base in
      case expr_type iov_base of
        EXPR_SCTP_ASSOC_CHANGE \<Rightarrow> check_sctp_assoc_change expr live
      | EXPR_SCTP_PADDR_CHANGE \<Rightarrow> check_sctp_paddr_change expr live
      | EXPR_SCTP_REMOTE_ERROR \<Rightarrow> check_sctp_remote_error expr live
      | EXPR_SCTP_SEND_FAILED \<Rightarrow> check_sctp_send_failed expr live
      | EXPR_SCTP_SHUTDOWN_EVENT \<Rightarrow> check_sctp_shutdown_event expr live
      | EXPR_SCTP_ADAPTATION_EVENT \<Rightarrow> check_sctp_adaptation_event expr live
      | EXPR_SCTP_PDAPI_EVENT \<Rightarrow> check_sctp_pdapi_event expr live
      | EXPR_SCTP_AUTHKEY_EVENT \<Rightarrow> check_sctp_authkey_event expr live
      | EXPR_SCTP_SENDER_DRY_EVENT \<Rightarrow> check_sctp_sender_dry_event expr live
      | EXPR_SCTP_TLV \<Rightarrow> check_sctp_tlv expr live
      | EXPR_ELLIPSIS \<Rightarrow> Some (Inr ())
      | ty \<Rightarrow> Some (Inl (Bad_expression_type_for (expression_type_to_string ty))))"

text \<open>The loop over the iovecs; \<open>iov\<close> are the structures in the live buffers from the current index on.\<close>

fun check_iovecs :: "expression list \<Rightarrow> live_struct list \<Rightarrow> unit arg option" where
  "check_iovecs [] iov = Some (Inr ())"
| "check_iovecs (script_iov # es) iov =
     (case check_type script_iov EXPR_IOVEC of
        Inl err \<Rightarrow> Some (Inl err)
      | Inr _ \<Rightarrow> do {
          iov_base \<leftarrow> map_of (expr_fields script_iov) ''iov_base'';
          (case iov of
             [] \<Rightarrow> if expr_type iov_base = EXPR_ELLIPSIS then check_iovecs es [] else None
           | live # iov \<Rightarrow> do {
               r \<leftarrow> check_iov_base iov_base live;
               (case r of Inl err \<Rightarrow> Some (Inl err) | Inr _ \<Rightarrow> check_iovecs es iov)
             })
        })"

definition check_sctp_notification :: "live_struct list \<Rightarrow> expression option \<Rightarrow> unit arg option" where
  "check_sctp_notification iov iovec_expr = (case iovec_expr of
      None \<Rightarrow> Some (Inl Null_expected)
    | Some e \<Rightarrow> (case check_type e EXPR_LIST of
        Inl err \<Rightarrow> Some (Inl err)
      | Inr _ \<Rightarrow> check_iovecs (expr_list e) iov))"

definition check_sctp_recvv_rn :: "struct_expr \<Rightarrow> live_struct \<Rightarrow> live_struct \<Rightarrow> unit arg option" where
  "check_sctp_recvv_rn expr recvv_rcvinfo recvv_nxtinfo = do {
     rcvinfo \<leftarrow> map_of expr ''recvv_rcvinfo'';
     r \<leftarrow> (if expr_type rcvinfo \<noteq> EXPR_ELLIPSIS
       then check_seq [Some (check_type rcvinfo EXPR_SCTP_RCVINFO),
         check_sctp_rcvinfo (expr_fields rcvinfo) recvv_rcvinfo]
       else Some (Inr ()));
     (case r of
        Inl err \<Rightarrow> Some (Inl err)
      | Inr _ \<Rightarrow> do {
          nxtinfo \<leftarrow> map_of expr ''recvv_nxtinfo'';
          if expr_type nxtinfo \<noteq> EXPR_ELLIPSIS
          then check_seq [Some (check_type nxtinfo EXPR_SCTP_NXTINFO),
            check_sctp_nxtinfo (expr_fields nxtinfo) recvv_nxtinfo]
          else Some (Inr ())
        })
   }"

text \<open>The list of association identifiers: a single ellipsis stands for any one identifier.\<close>

fun check_assoc_ids_loop :: "expression list \<Rightarrow> u32 list \<Rightarrow> nat \<Rightarrow> unit arg option" where
  "check_assoc_ids_loop [] ids i = Some (Inr ())"
| "check_assoc_ids_loop (e # es) ids i = (case get_sctp_assoc_t e of
      Inl err \<Rightarrow> Some (Inl err)
    | Inr script_id \<Rightarrow>
        if i < length ids
        then if script_id \<noteq> ids ! i
          then Some (Inl (Element_differs ''sctp_assoc_ids.gaids_assoc_id'' i (uint script_id) (uint (ids ! i))))
          else check_assoc_ids_loop es ids (Suc i)
        else None)"

definition check_sctp_assoc_ids :: "struct_expr \<Rightarrow> u32 \<Rightarrow> u32 list \<Rightarrow> unit arg option" where
  "check_sctp_assoc_ids expr gaids_number_of_ids gaids_assoc_id = do {
     n \<leftarrow> map_of expr ''gaids_number_of_ids'';
     e \<leftarrow> map_of expr ''gaids_assoc_id'';
     (case check_u32_expr n gaids_number_of_ids ''sctp_assoc_ids.gaids_number_of_ids'' of
        Inl err \<Rightarrow> Some (Inl err)
      | Inr _ \<Rightarrow>
          let ids = expr_list e in
          if (of_nat (length ids) :: u32) \<noteq> gaids_number_of_ids
          then Some (Inl (Length_differs ''gaids_assoc_id'' (length ids) (uint gaids_number_of_ids)))
          else if length ids = 1 \<and> expr_type (hd ids) = EXPR_ELLIPSIS then Some (Inr ())
          else check_assoc_ids_loop ids gaids_assoc_id 0)
   }"

section \<open>Integer arguments\<close>

lemma status_bind_eq_Inr: "status_bind r f = Inr y \<longleftrightarrow> (\<exists>x. r = Inr x \<and> f x = Inr y)"
  by (cases r) (simp_all add: status_bind_def)

lemma check_type_eq_Inr: "check_type e ty = Inr u \<longleftrightarrow> expr_type e = ty"
  by (simp add: check_type_def)

lemma word_of_int_eq: "(word_of_int n :: 'a::len word) = v \<longleftrightarrow> uint v = n mod 2 ^ LENGTH('a)"
  by (metis take_bit_eq_mod uint_word_of_int_eq word_of_int_uint)

lemmas get_simps = status_bind_eq_Inr check_type_eq_Inr word_of_int_eq

lemma get_u8_eq: "get_u8 e = Inr v \<longleftrightarrow> expr_type e = EXPR_INTEGER \<and> uint v = expr_num e"
  using uint_lt2p [of v] by (auto simp: get_u8_def get_simps) (use uint_ge_0 [of v] in linarith)

lemma get_u16_eq: "get_u16 e = Inr v \<longleftrightarrow> expr_type e = EXPR_INTEGER \<and> uint v = expr_num e"
  using uint_lt2p [of v] by (auto simp: get_u16_def get_simps) (use uint_ge_0 [of v] in linarith)

lemma get_u32_eq: "get_u32 e = Inr v \<longleftrightarrow> expr_type e = EXPR_INTEGER \<and> uint v = expr_num e"
  using uint_lt2p [of v] by (auto simp: get_u32_def get_simps) (use uint_ge_0 [of v] in linarith)





section \<open>Values and ellipses\<close>

text \<open>An expression agrees with a value if it is an ellipsis or that integer.\<close>

definition agrees :: "int \<Rightarrow> expression \<Rightarrow> bool" where
  "agrees v e \<longleftrightarrow> expr_type e = EXPR_ELLIPSIS \<or> expr_type e = EXPR_INTEGER \<and> expr_num e = v"

text \<open>Association identifiers are taken modulo the size of their type.\<close>

definition agrees_id :: "int \<Rightarrow> expression \<Rightarrow> bool" where
  "agrees_id v e \<longleftrightarrow> expr_type e = EXPR_ELLIPSIS \<or>
     expr_type e = EXPR_INTEGER \<and> 0 \<le> expr_num e \<and> expr_num e mod 2 ^ 32 = v"

definition field :: "struct_expr \<Rightarrow> string \<Rightarrow> (expression \<Rightarrow> bool) \<Rightarrow> bool" where
  "field expr name P \<longleftrightarrow> (\<exists>e. map_of expr name = Some e \<and> P e)"

lemma differs_ok: "(if a \<noteq> b then Inl err else Inr ()) = Inr () \<longleftrightarrow> a = b"
  by simp

lemma ntohs_inject: "ntohs a = ntohs b \<longleftrightarrow> a = b"
  by (metis ntohs_ntohs)

lemma ntohl_inject: "ntohl a = ntohl b \<longleftrightarrow> a = b"
  by (metis ntohl_ntohl)

lemma uint_of_int_less:
  "0 \<le> v \<Longrightarrow> v < 2 ^ LENGTH('a) \<Longrightarrow> uint (word_of_int v :: 'a::len word) = v"
  by (simp add: uint_word_of_int take_bit_int_eq_self)

lemmas check_ok_simps = agrees_def agrees_id_def status_bind_eq_Inr differs_ok uint_of_int_less

lemma check_u8_ok:
  "0 \<le> v \<Longrightarrow> v < 0x100 \<Longrightarrow> check_u8_expr e (word_of_int v) l = Inr () \<longleftrightarrow> agrees v e"
  by (auto simp: check_u8_expr_def get_u8_eq check_ok_simps)

lemma check_u16_expr_ok:
  "0 \<le> v \<Longrightarrow> v < 0x10000 \<Longrightarrow> check_u16_expr e (word_of_int v) l = Inr () \<longleftrightarrow> agrees v e"
  by (auto simp: check_u16_expr_def get_u16_eq check_ok_simps)

lemma check_u16_htons_ok:
  "0 \<le> v \<Longrightarrow> v < 0x10000 \<Longrightarrow> check_u16_htons_expr e (word_of_int v) l = Inr () \<longleftrightarrow> agrees v e"
  by (auto simp: check_u16_htons_expr_def get_u16_eq check_ok_simps ntohs_inject)

lemma check_u32_ok:
  "0 \<le> v \<Longrightarrow> v < 0x100000000 \<Longrightarrow> check_u32_expr e (word_of_int v) l = Inr () \<longleftrightarrow> agrees v e"
  by (auto simp: check_u32_expr_def get_u32_eq check_ok_simps)

lemma check_u32_hton_ok:
  "0 \<le> v \<Longrightarrow> v < 0x100000000 \<Longrightarrow> check_u32_hton_expr e (word_of_int v) l = Inr () \<longleftrightarrow> agrees v e"
  by (auto simp: check_u32_hton_expr_def get_u32_eq check_ok_simps ntohl_inject)

lemma check_sctp_assoc_t_ok:
  "0 \<le> v \<Longrightarrow> v < 0x100000000 \<Longrightarrow> check_sctp_assoc_t_expr e (word_of_int v) l = Inr () \<longleftrightarrow> agrees_id v e"
  by (auto simp: check_sctp_assoc_t_expr_def get_sctp_assoc_t_def check_ok_simps check_type_eq_Inr
      word_of_int_eq)

lemmas check_value_ok = check_u8_ok check_u16_expr_ok check_u16_htons_ok check_u32_ok check_u32_hton_ok
  check_sctp_assoc_t_ok

lemma check_seq_ok: "check_seq cs = Some (Inr ()) \<longleftrightarrow> (\<forall>c \<in> set cs. c = Some (Inr ()))"
  by (induction cs) (auto split: option.splits sum.splits)

lemma check_member_ok:
  "check_member check expr live name l = Some (Inr ()) \<longleftrightarrow>
     field expr name (\<lambda>e. check e (word_of_int (live name)) l = Inr ())"
  by (auto simp: check_member_def field_def bind_eq_Some_conv)

lemma check_nested_ok:
  "check_nested check expr name = Some (Inr ()) \<longleftrightarrow>
     field expr name (\<lambda>e. expr_type e = EXPR_ELLIPSIS \<or> check (expr_fields e) = Some (Inr ()))"
  by (auto simp: check_nested_def field_def bind_eq_Some_conv)

lemma check_elements_ok:
  assumes "\<And>e w. get e = Inr w \<longleftrightarrow> expr_type e = EXPR_INTEGER \<and> uint w = expr_num e"
    and "i + length es \<le> length data"
  shows "check_elements get es data i l = Some (Inr ()) \<longleftrightarrow>
    (\<forall>j < length es. agrees (uint (data ! (i + j))) (es ! j))"
  using assms(2)
proof (induction es arbitrary: i)
  case (Cons e es)
  have split: "(\<forall>j < length (e # es). P j) \<longleftrightarrow> P 0 \<and> (\<forall>j < length es. P (Suc j))" for P
    by (simp add: All_less_Suc2)
  have "(case get e of Inl err \<Rightarrow> Some (Inl err)
      | Inr w \<Rightarrow> if i < length data then if w \<noteq> data ! i then Some (Inl (E w)) else k else None) =
      Some (Inr ()) \<longleftrightarrow>
      expr_type e = EXPR_INTEGER \<and> expr_num e = uint (data ! i) \<and> k = Some (Inr ())" for E k
  proof (cases "get e")
    case (Inl err)
    then have "expr_type e = EXPR_INTEGER \<longrightarrow> expr_num e \<noteq> uint (data ! i)"
      using assms(1) [of e "data ! i"] by auto
    with Inl show ?thesis
      by auto
  next
    case (Inr w)
    have "i < length data"
      using Cons.prems by simp
    from Inr have "expr_type e = EXPR_INTEGER" "expr_num e = uint w"
      using assms(1) [of e w] by simp_all
    with Inr \<open>i < length data\<close> show ?thesis
      by (auto dest: word_uint_eqI)
  qed
  then show ?case
    using Cons unfolding split by (simp add: agrees_def)
qed simp

text \<open>The array at the end of a structure agrees with an ellipsis or with a list of as many
  expressions that agree one by one.\<close>

definition data_agrees :: "u8 list \<Rightarrow> expression \<Rightarrow> bool" where
  "data_agrees data e \<longleftrightarrow> e = Expr_ellipsis \<or>
     (\<exists>es. e = Expr_list es \<and> length es = length data \<and>
       (\<forall>j < length data. agrees (uint (data ! j)) (es ! j)))"

lemma check_u8array_ok:
  "check_u8array_expr e (Some data) (int (length data)) l = Some (Inr ()) \<longleftrightarrow> data_agrees data e"
  using check_elements_ok [where get = get_u8 and i = 0, OF get_u8_eq]
  by (cases e) (auto simp: check_u8array_expr_def check_array_def data_agrees_def)

lemma tail_length_add: "int n < 2 ^ 64 \<Longrightarrow> tail_length (m + int n) m = int n"
  using uint_of_int_less [of "int n", where 'a = 64] by (simp add: tail_length_def)

text \<open>The members of a \<^verbatim>\<open>struct sctp_sndrcvinfo\<close> that agree.\<close>

definition sndrcvinfo_agrees :: "struct_expr \<Rightarrow> (string \<Rightarrow> int) \<Rightarrow> bool" where
  "sndrcvinfo_agrees expr live \<longleftrightarrow>
     (\<forall>n \<in> {''sinfo_stream'', ''sinfo_ssn'', ''sinfo_flags'', ''sinfo_ppid'', ''sinfo_context'',
       ''sinfo_timetolive'', ''sinfo_tsn'', ''sinfo_cumtsn''}. field expr n (agrees (live n))) \<and>
     field expr ''sinfo_assoc_id'' (agrees_id (live ''sinfo_assoc_id''))"

text \<open>The values of a live structure fit into the types of its members, of which \<open>shorts\<close> have 16 bits.\<close>

definition live_fits :: "string list \<Rightarrow> (string \<Rightarrow> int) \<Rightarrow> bool" where
  "live_fits shorts live \<longleftrightarrow> (\<forall>n. 0 \<le> live n \<and> live n < (if n \<in> set shorts then 0x10000 else 0x100000000))"

lemma live_fitsD:
  assumes "live_fits shorts live"
  shows "0 \<le> live n" "live n < 0x100000000" "n \<in> set shorts \<Longrightarrow> live n < 0x10000"
  using assms [unfolded live_fits_def, rule_format, of n] by (auto split: if_splits)

lemma check_sctp_sndrcvinfo_ok:
  assumes "live_fits [''sinfo_stream'', ''sinfo_ssn'', ''sinfo_flags''] (scalar live)"
  shows "check_sctp_sndrcvinfo expr live = Some (Inr ()) \<longleftrightarrow> sndrcvinfo_agrees expr (scalar live)"
  unfolding check_sctp_sndrcvinfo_def check_seq_ok sndrcvinfo_agrees_def
  by (simp add: check_member_ok check_value_ok live_fitsD [OF assms])

definition live_linger :: "int \<Rightarrow> int \<Rightarrow> live_struct" where
  "live_linger l_onoff l_linger =
     \<lparr> scalar = (\<lambda>n. if n = ''l_onoff'' then l_onoff else if n = ''l_linger'' then l_linger else 0),
       inner = (\<lambda>_. 0), live_sockaddr = [], tail = [], tail16 = [] \<rparr>"




section \<open>Properties\<close>


text \<open>C39: the check of a notification about a failed message accepts exactly the notifications all of
  whose members, including the nested message information and the returned data, are what the
  script says or are left open by an ellipsis.\<close>

theorem check_sctp_send_failed_exact:
  assumes "live_fits [''ssf_type'', ''ssf_flags''] (scalar live)"
    and "live_fits [''sinfo_stream'', ''sinfo_ssn'', ''sinfo_flags''] (inner live)"
    and "scalar live ''ssf_length'' = 48 + int (length (tail live))"
  shows "check_sctp_send_failed expr live = Some (Inr ()) \<longleftrightarrow>
    (\<forall>n \<in> {''ssf_type'', ''ssf_flags'', ''ssf_length'', ''ssf_error''}.
       field expr n (agrees (scalar live n))) \<and>
    field expr ''ssf_info'' (\<lambda>e. expr_type e = EXPR_ELLIPSIS \<or>
       sndrcvinfo_agrees (expr_fields e) (inner live)) \<and>
    field expr ''ssf_assoc_id'' (agrees_id (scalar live ''ssf_assoc_id'')) \<and>
    field expr ''ssf_data'' (data_agrees (tail live))"
proof -
  have len: "tail_length (scalar live ''ssf_length'') 48 = int (length (tail live))"
    using live_fitsD(2) [OF assms(1), of "''ssf_length''"] tail_length_add [of "length (tail live)" 48]
    by (simp add: assms(3))
  have info: "check_sctp_sndrcvinfo e (live\<lparr>scalar := inner live\<rparr>) = Some (Inr ()) \<longleftrightarrow>
      sndrcvinfo_agrees e (inner live)" for e
    using check_sctp_sndrcvinfo_ok [of "live\<lparr>scalar := inner live\<rparr>" e] assms(2) by simp
  have data: "do { e \<leftarrow> map_of expr ''ssf_data'';
      check_u8array_expr e (Some (tail live)) (int (length (tail live))) l } = Some (Inr ()) \<longleftrightarrow>
      field expr ''ssf_data'' (data_agrees (tail live))" for l
    by (auto simp: field_def bind_eq_Some_conv check_u8array_ok)
  show ?thesis
    unfolding check_sctp_send_failed_def check_seq_ok len
    by (simp add: check_member_ok check_nested_ok check_value_ok live_fitsD [OF assms(1)] info data)
qed

theorem check_sctp_send_failed_exact_witness:
  "check_sctp_send_failed
     [(''ssf_type'', Expr_integer 4), (''ssf_flags'', Expr_ellipsis), (''ssf_length'', Expr_integer 49),
      (''ssf_error'', Expr_ellipsis), (''ssf_info'', Expr_ellipsis), (''ssf_assoc_id'', Expr_ellipsis),
      (''ssf_data'', Expr_list [Expr_integer 7])]
     \<lparr> scalar = (\<lambda>n. if n = ''ssf_type'' then 4 else if n = ''ssf_length'' then 49 else 0),
        inner = (\<lambda>_. 0), live_sockaddr = [], tail = [7], tail16 = [] \<rparr> = Some (Inr ())"
  by (subst check_sctp_send_failed_exact)
    (simp_all add: live_fits_def field_def agrees_def agrees_id_def data_agrees_def)



text \<open>The comparison of signed 32-bit members narrows the live value to 16 bits: a linger time of
  70000 seconds is rejected although it is the one the script expects, and one of 65541 seconds is
  accepted where the script expects 5.\<close>

theorem check_linger_truncates:
  "check_linger [(''l_onoff'', Expr_integer 1), (''l_linger'', Expr_integer 70000)] (live_linger 1 70000) =
     Some (Inl (Value_differs ''linger.l_linger'' 70000 4464)) \<and>
   check_linger [(''l_onoff'', Expr_integer 1), (''l_linger'', Expr_integer 5)] (live_linger 1 65541) =
     Some (Inr ())"
  by (simp add: check_linger_def check_member_def check_s32_expr_def get_s32_def status_bind_def
      check_type_def live_linger_def)

end
