(* ===== verification/Socket_Calls.thy ===== *)
theory Socket_Calls
  imports Syscall_Args Run_Packet
begin

text \<open>
  The system calls on sockets (\<^verbatim>\<open>run_system_call.c\<close>): the table that relates the descriptors of the script to
  live descriptors, what each call does to the sockets of the run, and the handlers that parse the arguments, make
  the live call and compare its result with the one the script expects.

  A computation works on a record \<open>sys\<close> of the state of the run, the state of the system call thread and the live
  calls made so far. Its result is \<^const>\<open>None\<close> if the process aborts, and otherwise a status and the new record.
  The kernel is the argument \<open>kernel\<close>, which answers the last call of a history of live calls. A blocking call
  gives up the global lock; what the main thread does to the state in the meantime is the argument \<open>meanwhile\<close>.
  The ports of sockets are in host byte order, as in \<open>Sockets\<close>. The list of sockets has the oldest one first; the
  linked list of the code has the newest one first, so loops over it run from the end.
\<close>

section \<open>The state of system calls\<close>

datatype syscall_state_t =
    SYSCALL_IDLE | SYSCALL_ENQUEUED | SYSCALL_RUNNING | SYSCALL_DONE | SYSCALL_EXITING

record system_call = syscall_spec +
  sc_result :: expression
  sc_errno_macro :: "string option"

datatype live_call =
    Live_socket address_family int int
  | Live_bind int bytes
  | Live_listen int int
  | Live_accept int
  | Live_connect int bytes
  | Live_read int int
  | Live_readv int "u64 list"
  | Live_recv int int int
  | Live_recvfrom int int int
  | Live_write int int
  | Live_writev int "u64 list"
  | Live_send int int int
  | Live_sendto int int int bytes
  | Live_sendfile int int int int
  | Live_fcntl int int "int option"
  | Live_ioctl int int bool
  | Live_close int
  | Live_shutdown int int
  | Live_poll "(int \<times> 16 word \<times> 16 word) list" int
  | Live_open string int
  | Live_v6only_off int
  | Live_sctp_bindx int bytes int int
  | Live_sctp_connectx int bytes int
  | Live_sctp_peeloff int u32

text \<open>What comes back from the kernel: the result, \<^verbatim>\<open>errno\<close>, the address that \<^verbatim>\<open>accept\<close> fills in, the integer that
  \<^verbatim>\<open>ioctl\<close> and \<^verbatim>\<open>sctp_connectx\<close> fill in and the returned events of \<^verbatim>\<open>poll\<close>.\<close>

record reply =
  rep_result :: int
  rep_errno :: int
  rep_addr :: bytes
  rep_value :: int
  rep_revents :: "16 word list"

record world =
  kernel :: "live_call list \<Rightarrow> reply"
  meanwhile :: "live_call list \<Rightarrow> state \<Rightarrow> state"
  platform_symbols :: "(s64 \<times> string) list"

record sys =
  run_state :: state
  thread_state :: syscall_state_t
  live_end_usecs :: int
  calls :: "live_call list"

datatype call_error =
    Arg_error arg_error
  | Script_error script_error
  | Unable_to_find_socket int
  | Invalid_script_fd int
  | Invalid_live_fd int
  | Duplicate_script_fd int
  | Duplicate_live_fd int
  | Unable_to_find_fds int int
  | Bad_listen int socket_state_t
  | No_socket_matching_accept
  | Socket_is_not_new
  | Expected_non_negative int int
  | Expected_result int int int
  | Expected_errno int int
  | Expected_2_or_3_args nat
  | Count_does_not_match int nat
  | Bad_ioctl_optval int int
  | Expected_revents int int nat
  | Cannot_copy_socket

type_synonym 'a call = "sys \<Rightarrow> ((call_error, 'a) status \<times> sys) option"

definition call_return :: "'a \<Rightarrow> 'a call" where
  "call_return v sys = Some (Inr v, sys)"

definition call_fail :: "call_error \<Rightarrow> 'a call" where
  "call_fail err sys = Some (Inl err, sys)"

definition call_bind :: "'a call \<Rightarrow> ('a \<Rightarrow> 'b call) \<Rightarrow> 'b call" where
  "call_bind m f sys = (case m sys of
      None \<Rightarrow> None
    | Some (Inl err, sys) \<Rightarrow> Some (Inl err, sys)
    | Some (Inr v, sys) \<Rightarrow> f v sys)"

text \<open>A computation whose error is handled.\<close>

definition call_catch :: "'a call \<Rightarrow> (call_error \<Rightarrow> 'b call) \<Rightarrow> ('a \<Rightarrow> 'b call) \<Rightarrow> 'b call" where
  "call_catch m handler f sys = (case m sys of
      None \<Rightarrow> None
    | Some (Inl err, sys) \<Rightarrow> handler err sys
    | Some (Inr v, sys) \<Rightarrow> f v sys)"

definition call_assert :: "bool \<Rightarrow> unit call" where
  "call_assert P sys = (if P then Some (Inr (), sys) else None)"

definition call_arg :: "'a arg \<Rightarrow> 'a call" where
  "call_arg r sys = Some (map_sum Arg_error id r, sys)"

definition call_option :: "'a option \<Rightarrow> 'a call" where
  "call_option r sys = (case r of None \<Rightarrow> None | Some v \<Rightarrow> Some (Inr v, sys))"

section \<open>Finding sockets\<close>

fun find_socket :: "(socket \<Rightarrow> bool) \<Rightarrow> socket list \<Rightarrow> nat \<Rightarrow> nat option" where
  "find_socket P ss 0 = None"
| "find_socket P ss (Suc i) = (if P (ss ! i) then Some i else find_socket P ss i)"

definition fds_valid :: "socket \<Rightarrow> bool" where
  "fds_valid s \<longleftrightarrow> ss_fd (so_live s) \<ge> 0 \<and> ss_fd (so_script s) \<ge> 0"

definition find_socket_by_script_fd :: "state \<Rightarrow> int \<Rightarrow> nat option option" where
  "find_socket_by_script_fd state script_fd =
     (case find_socket (\<lambda>s. \<not> so_is_closed s \<and> ss_fd (so_script s) = script_fd)
         (sockets state) (length (sockets state)) of
        None \<Rightarrow> Some None
      | Some i \<Rightarrow> do { c_assert (fds_valid (sockets state ! i)); Some (Some i) })"

definition find_socket_by_live_fd :: "state \<Rightarrow> int \<Rightarrow> nat option option" where
  "find_socket_by_live_fd state live_fd =
     (case find_socket (\<lambda>s. \<not> so_is_closed s \<and> ss_fd (so_live s) = live_fd)
         (sockets state) (length (sockets state)) of
        None \<Rightarrow> Some None
      | Some i \<Rightarrow> do { c_assert (fds_valid (sockets state ! i)); Some (Some i) })"

definition to_live_fd :: "state \<Rightarrow> int \<Rightarrow> (call_error, int) status option" where
  "to_live_fd state script_fd = do {
     found \<leftarrow> find_socket_by_script_fd state script_fd;
     Some (case found of
        Some i \<Rightarrow> Inr (ss_fd (so_live (sockets state ! i)))
      | None \<Rightarrow> Inl (Unable_to_find_socket script_fd))
   }"

section \<open>The effect of the calls on the sockets\<close>

text \<open>The new socket and the state with it. The descriptors are stored whatever \<^verbatim>\<open>state->socket_under_test\<close> is,
  which the callers set.\<close>

definition insert_new_socket :: "state \<Rightarrow> address_family \<Rightarrow> int \<Rightarrow> int \<Rightarrow> int \<Rightarrow>
    (call_error, nat \<times> state) status option" where
  "insert_new_socket state family protocol script_fd live_fd =
     (if script_fd < 0 then Some (Inl (Invalid_script_fd script_fd))
      else if live_fd < 0 then Some (Inl (Invalid_live_fd live_fd))
      else do {
        by_script \<leftarrow> find_socket_by_script_fd state script_fd;
        if by_script \<noteq> None then Some (Inl (Duplicate_script_fd script_fd))
        else do {
          by_live \<leftarrow> find_socket_by_live_fd state live_fd;
          if by_live \<noteq> None then Some (Inl (Duplicate_live_fd live_fd))
          else
            let af_endpoint = endpoint_zero\<lparr> ep_ip := ip_reset\<lparr> address_family := family \<rparr> \<rparr>;
                s = socket_new\<lparr> so_state := SOCKET_NEW, so_address_family := family,
                  so_protocol := word_of_int protocol,
                  so_script := socket_state_zero\<lparr> ss_fd := script_fd, ss_remote := af_endpoint,
                    ss_local := af_endpoint \<rparr>,
                  so_live := socket_state_zero\<lparr> ss_fd := live_fd \<rparr> \<rparr>
            in Some (Inr (length (sockets state), state\<lparr> sockets := sockets state @ [s] \<rparr>))
        }
      })"

definition run_syscall_socket :: "state \<Rightarrow> address_family \<Rightarrow> int \<Rightarrow> int \<Rightarrow> int \<Rightarrow>
    (call_error, state) status option" where
  "run_syscall_socket state family protocol script_fd live_fd = do {
     r \<leftarrow> insert_new_socket state family protocol script_fd live_fd;
     Some (map_sum id (\<lambda>(i, state). state\<lparr> socket_under_test := Some i \<rparr>) r)
   }"

definition run_syscall_close :: "state \<Rightarrow> int \<Rightarrow> int \<Rightarrow> (call_error, state) status option" where
  "run_syscall_close state script_fd live_fd = do {
     found \<leftarrow> find_socket_by_script_fd state script_fd;
     (case found of
        None \<Rightarrow> Some (Inl (Unable_to_find_fds script_fd live_fd))
      | Some i \<Rightarrow>
          let s = sockets state ! i in
          if ss_fd (so_live s) \<noteq> live_fd then Some (Inl (Unable_to_find_fds script_fd live_fd))
          else Some (Inr (set_sock i (s\<lparr> so_is_closed := True \<rparr>) state)))
   }"

definition run_syscall_bind :: "state \<Rightarrow> bytes option" where
  "run_syscall_bind state =
     ip_to_sockaddr (live_bind_ip (st_config state)) (live_bind_port (st_config state))"

definition run_syscall_listen :: "state \<Rightarrow> int \<Rightarrow> int \<Rightarrow> (call_error, state) status option" where
  "run_syscall_listen state script_fd live_fd = do {
     found \<leftarrow> find_socket_by_script_fd state script_fd;
     (case found of
        None \<Rightarrow> Some (Inl (Unable_to_find_socket script_fd))
      | Some i \<Rightarrow> do {
          let s = sockets state ! i;
          c_assert (ss_fd (so_script s) = script_fd);
          c_assert (ss_fd (so_live s) = live_fd);
          if so_state s \<noteq> SOCKET_NEW then Some (Inl (Bad_listen script_fd (so_state s)))
          else Some (Inr (set_sock i (s\<lparr> so_state := SOCKET_PASSIVE_LISTENING \<rparr>) state))
        })
   }"

definition accept_ready :: "socket \<Rightarrow> bool" where
  "accept_ready s \<longleftrightarrow> so_state s = SOCKET_PASSIVE_SYNACK_SENT \<or> so_state s = SOCKET_PASSIVE_SYNACK_ACKED \<or>
     so_state s = SOCKET_PASSIVE_COOKIE_ECHO_RECEIVED"

text \<open>In a wire client the port from the address, a number in host byte order, is stored in the field for a port in
  network byte order; seen as a port in host byte order it has its bytes swapped.\<close>

definition run_syscall_accept :: "state \<Rightarrow> int \<Rightarrow> int \<Rightarrow> bytes \<Rightarrow> (call_error, state) status option" where
  "run_syscall_accept state script_accepted_fd live_accepted_fd live_addr = do {
     (ip0, port) \<leftarrow> ip_from_sockaddr live_addr (length live_addr);
     let ip = (if address_family ip0 = AF_INET6
       then (case ipv6_map_to_ipv4 ip0 of Inr ipv4 \<Rightarrow> ipv4 | Inl _ \<Rightarrow> ip0) else ip0);
     (case find_socket accept_ready (sockets state) (length (sockets state)) of
        Some i \<Rightarrow> do {
          let s = sockets state ! i;
          same_ip \<leftarrow> is_equal_ip (ep_ip (ss_remote (so_live s))) ip;
          c_assert same_ip;
          c_assert (ep_port (ss_remote (so_live s)) = port);
          Some (Inr (set_sock i (s\<lparr> so_script := (so_script s)\<lparr> ss_fd := script_accepted_fd \<rparr>,
            so_live := (so_live s)\<lparr> ss_fd := live_accepted_fd \<rparr> \<rparr>) state))
        }
      | None \<Rightarrow>
          if \<not> is_wire_client (st_config state) then Some (Inl No_socket_matching_accept)
          else
            let s = socket_new\<lparr> so_address_family := address_family ip,
              so_live := socket_state_zero\<lparr> ss_fd := live_accepted_fd,
                ss_remote := \<lparr> ep_ip = ip, ep_port = ntohs port \<rparr>,
                ss_local := \<lparr> ep_ip = live_local_ip (st_config state),
                  ep_port = live_bind_port (st_config state) \<rparr> \<rparr>,
              so_script := socket_state_zero\<lparr> ss_fd := script_accepted_fd \<rparr> \<rparr>
            in Some (Inr (snd (add_socket s state))))
   }"

text \<open>The address to connect to and the new state.\<close>

definition connect_address :: "state \<Rightarrow> bytes option" where
  "connect_address state = (case socket_under_test state of
      Some i \<Rightarrow> do {
        s \<leftarrow> sock state i;
        if so_state s = SOCKET_PASSIVE_PACKET_RECEIVED
        then ip_to_sockaddr (ep_ip (ss_remote (so_live s))) (ep_port (ss_remote (so_live s)))
        else ip_to_sockaddr (live_connect_ip (st_config state)) (live_connect_port (st_config state))
      }
    | None \<Rightarrow> ip_to_sockaddr (live_connect_ip (st_config state)) (live_connect_port (st_config state)))"

definition run_syscall_connect :: "state \<Rightarrow> int \<Rightarrow> bool \<Rightarrow> (call_error, bytes \<times> state) status option" where
  "run_syscall_connect state script_fd must_be_new_socket = do {
     live_addr \<leftarrow> connect_address state;
     found \<leftarrow> find_socket_by_script_fd state script_fd;
     i \<leftarrow> found;
     let s = sockets state ! i;
     if so_state s \<noteq> SOCKET_NEW
     then Some (if must_be_new_socket then Inl Socket_is_not_new else Inr (live_addr, state))
     else Some (Inr (live_addr, set_sock i (s\<lparr> so_state := SOCKET_ACTIVE_CONNECTING,
       so_script := (so_script s)\<lparr> ss_remote := endpoint_zero, ss_local := endpoint_zero \<rparr>,
       so_live := (so_live s)\<lparr> ss_remote := \<lparr> ep_ip = live_remote_ip (st_config state),
         ep_port = live_connect_port (st_config state) \<rparr> \<rparr> \<rparr>) state))
   }"

definition run_syscall_sctp_peeloff :: "state \<Rightarrow> int \<Rightarrow> int \<Rightarrow> int \<Rightarrow> (call_error, state) status option" where
  "run_syscall_sctp_peeloff state script_copy_fd script_new_fd live_new_fd = do {
     found \<leftarrow> find_socket_by_script_fd state script_copy_fd;
     i \<leftarrow> found;
     let copy_socket = sockets state ! i;
     if so_state copy_socket = SOCKET_NEW then Some (Inl Socket_is_not_new)
     else do {
       other \<leftarrow> find_socket_by_script_fd state script_new_fd;
       c_assert (other = None);
       Some (Inr (state\<lparr> sockets := sockets state @ [copy_socket\<lparr>
         so_live := (so_live copy_socket)\<lparr> ss_fd := live_new_fd \<rparr>,
         so_script := (so_script copy_socket)\<lparr> ss_fd := script_new_fd \<rparr> \<rparr>] \<rparr>))
     }
   }"

end
