(* ===== verification/Fd_Table.thy ===== *)
theory Fd_Table
  imports Socket_Calls
begin

text \<open>
  The sockets of a run as a table of descriptors: which live descriptor stands for a descriptor of the script.
  The interface of such a table is the locale \<open>descriptor_table\<close>; the socket calls of \<open>Socket_Calls\<close> provide it, and
  a step relation over all of them keeps live descriptors apart.
\<close>

section \<open>The interface of a descriptor table\<close>

datatype fd_op = Open int int | Close int

fun spec_op :: "(int \<Rightarrow> int option) \<Rightarrow> fd_op \<Rightarrow> (int \<Rightarrow> int option) option" where
  "spec_op m (Open fd lfd) =
     (if 0 \<le> fd \<and> 0 \<le> lfd \<and> m fd = None \<and> lfd \<notin> ran m then Some (m(fd \<mapsto> lfd)) else None)"
| "spec_op m (Close fd) = (if m fd = None then None else Some (m(fd := None)))"

fun run_ops :: "('s \<Rightarrow> 'o \<Rightarrow> 's option) \<Rightarrow> 's \<Rightarrow> 'o list \<Rightarrow> 's option" where
  "run_ops step s [] = Some s"
| "run_ops step s (op # ops) = (case step s op of None \<Rightarrow> None | Some s' \<Rightarrow> run_ops step s' ops)"

locale descriptor_table =
  fixes inv :: "'s \<Rightarrow> bool"
    and lookup :: "'s \<Rightarrow> int \<Rightarrow> int option"
    and exec_op :: "'s \<Rightarrow> fd_op \<Rightarrow> 's option"
  assumes exec_op_inv: "inv s \<Longrightarrow> exec_op s op = Some s' \<Longrightarrow> inv s'"
    and exec_op_lookup: "inv s \<Longrightarrow> map_option lookup (exec_op s op) = spec_op (lookup s) op"
begin

lemma run_ops_inv: "inv s \<Longrightarrow> run_ops exec_op s ops = Some s' \<Longrightarrow> inv s'"
  by (induction ops arbitrary: s) (auto split: option.splits dest: exec_op_inv)

lemma run_ops_refines:
  "inv s \<Longrightarrow> map_option lookup (run_ops exec_op s ops) = run_ops spec_op (lookup s) ops"
proof (induction ops arbitrary: s)
  case (Cons op ops)
  show ?case
  proof (cases "exec_op s op")
    case None
    then have "spec_op (lookup s) op = None"
      using exec_op_lookup [OF Cons.prems, of op] by simp
    with None show ?thesis
      by simp
  next
    case (Some s')
    then have "spec_op (lookup s) op = Some (lookup s')"
      using exec_op_lookup [OF Cons.prems, of op] by simp
    with Some show ?thesis
      using Cons.IH [OF exec_op_inv [OF Cons.prems Some]] by simp
  qed
qed simp

end

section \<open>The table of the sockets of a run\<close>

definition open_socket :: "socket \<Rightarrow> bool" where
  "open_socket s \<longleftrightarrow> \<not> so_is_closed s \<and> fds_valid s"

definition fd_pair :: "socket \<Rightarrow> int \<times> int" where
  "fd_pair s = (ss_fd (so_script s), ss_fd (so_live s))"

definition open_fds :: "socket list \<Rightarrow> (int \<times> int) list" where
  "open_fds ss = map fd_pair (filter open_socket ss)"

definition fd_table :: "state \<Rightarrow> int \<Rightarrow> int option" where
  "fd_table state = map_of (open_fds (sockets state))"

text \<open>No two open sockets share a descriptor, and a socket without descriptors has none on either side.\<close>

definition table_ok :: "state \<Rightarrow> bool" where
  "table_ok state \<longleftrightarrow> distinct (map fst (open_fds (sockets state))) \<and>
     distinct (map snd (open_fds (sockets state))) \<and>
     (\<forall>s \<in> set (sockets state). \<not> so_is_closed s \<and> \<not> fds_valid s \<longrightarrow>
        ss_fd (so_script s) < 0 \<and> ss_fd (so_live s) < 0)"

lemma find_socket_Some:
  assumes "find_socket P ss n = Some i"
  shows "i < n" "P (ss ! i)"
  using assms by (induction n) (auto split: if_splits)

lemma find_socket_None: "find_socket P ss n = None \<longleftrightarrow> (\<forall>i < n. \<not> P (ss ! i))"
  by (induction n) (auto simp: less_Suc_eq)

lemma in_open_fds:
  "(fd, lfd) \<in> set (open_fds ss) \<longleftrightarrow>
     (\<exists>s \<in> set ss. open_socket s \<and> ss_fd (so_script s) = fd \<and> ss_fd (so_live s) = lfd)"
  by (auto simp: open_fds_def fd_pair_def)

lemma fd_table_eq:
  assumes "table_ok st"
  shows "fd_table st fd = Some lfd \<longleftrightarrow> (fd, lfd) \<in> set (open_fds (sockets st))"
  using assms by (simp add: table_ok_def fd_table_def)

lemma fd_table_eq_None:
  "fd_table st fd = None \<longleftrightarrow> (\<forall>s \<in> set (sockets st). open_socket s \<longrightarrow> ss_fd (so_script s) \<noteq> fd)"
  by (force simp: fd_table_def map_of_eq_None_iff open_fds_def fd_pair_def)

lemma ran_fd_table:
  assumes "table_ok st"
  shows "lfd \<in> ran (fd_table st) \<longleftrightarrow> (\<exists>s \<in> set (sockets st). open_socket s \<and> ss_fd (so_live s) = lfd)"
  using assms by (auto simp: ran_def fd_table_eq in_open_fds)

text \<open>A descriptor that is not negative is found exactly if it is in the table; a negative one aborts the process
  if a socket without descriptors is there to be found.\<close>

lemma find_by_script_fd:
  assumes "table_ok st" and "0 \<le> fd"
  shows "(fd_table st fd = None \<longrightarrow> find_socket_by_script_fd st fd = Some None) \<and>
    (\<forall>lfd. fd_table st fd = Some lfd \<longrightarrow> (\<exists>i < length (sockets st). open_socket (sockets st ! i) \<and>
       fd_pair (sockets st ! i) = (fd, lfd) \<and> find_socket_by_script_fd st fd = Some (Some i)))"
proof (cases "find_socket (\<lambda>s. \<not> so_is_closed s \<and> ss_fd (so_script s) = fd) (sockets st) (length (sockets st))")
  case None
  then have none: "\<not> open_socket (sockets st ! i) \<or> ss_fd (so_script (sockets st ! i)) \<noteq> fd"
    if "i < length (sockets st)" for i
    using that by (auto simp: find_socket_None open_socket_def)
  then have "fd_table st fd = None"
    by (metis fd_table_eq_None in_set_conv_nth)
  with None show ?thesis
    by (simp add: find_socket_by_script_fd_def)
next
  case (Some i)
  let ?s = "sockets st ! i"
  have i: "i < length (sockets st)" and s: "\<not> so_is_closed ?s" "ss_fd (so_script ?s) = fd"
    using find_socket_Some [OF Some] by auto
  have "fds_valid ?s"
    using assms i s unfolding table_ok_def by (metis linorder_not_less nth_mem)
  then have "open_socket ?s"
    using s by (simp add: open_socket_def)
  then have "fd_table st fd = Some (ss_fd (so_live ?s))"
    using assms(1) i s by (auto simp: fd_table_eq in_open_fds)
  with Some i s \<open>fds_valid ?s\<close> \<open>open_socket ?s\<close> show ?thesis
    by (auto simp: find_socket_by_script_fd_def fd_pair_def c_assert_def)
qed

lemma find_by_live_fd:
  assumes "table_ok st" and "0 \<le> lfd"
  shows "(lfd \<notin> ran (fd_table st) \<longrightarrow> find_socket_by_live_fd st lfd = Some None) \<and>
    (lfd \<in> ran (fd_table st) \<longrightarrow> (\<exists>i. find_socket_by_live_fd st lfd = Some (Some i)))"
proof (cases "find_socket (\<lambda>s. \<not> so_is_closed s \<and> ss_fd (so_live s) = lfd) (sockets st) (length (sockets st))")
  case None
  then have none: "\<not> open_socket (sockets st ! i) \<or> ss_fd (so_live (sockets st ! i)) \<noteq> lfd"
    if "i < length (sockets st)" for i
    using that by (auto simp: find_socket_None open_socket_def)
  then have "lfd \<notin> ran (fd_table st)"
    by (metis ran_fd_table [OF assms(1)] in_set_conv_nth)
  with None show ?thesis
    by (simp add: find_socket_by_live_fd_def)
next
  case (Some i)
  let ?s = "sockets st ! i"
  have i: "i < length (sockets st)" and s: "\<not> so_is_closed ?s" "ss_fd (so_live ?s) = lfd"
    using find_socket_Some [OF Some] by auto
  have "fds_valid ?s"
    using assms i s unfolding table_ok_def by (metis linorder_not_less nth_mem)
  then have "open_socket ?s"
    using s by (simp add: open_socket_def)
  then have "lfd \<in> ran (fd_table st)"
    using i s by (auto simp: ran_fd_table [OF assms(1)])
  with Some \<open>fds_valid ?s\<close> show ?thesis
    by (auto simp: find_socket_by_live_fd_def c_assert_def)
qed

section \<open>Changes of the table\<close>

lemma fresh_fds:
  assumes "table_ok st"
  shows "fd_table st fd = None \<Longrightarrow> fd \<notin> fst ` set (open_fds (sockets st))"
    and "lfd \<notin> ran (fd_table st) \<Longrightarrow> lfd \<notin> snd ` set (open_fds (sockets st))"
proof -
  show "fd \<notin> fst ` set (open_fds (sockets st))" if "fd_table st fd = None"
    using that by (simp add: fd_table_def map_of_eq_None_iff)
  show "lfd \<notin> snd ` set (open_fds (sockets st))" if "lfd \<notin> ran (fd_table st)"
    using that by (auto simp: ran_fd_table [OF assms] in_open_fds)
qed

text \<open>The sockets without descriptors after the update of one socket.\<close>

definition detached_ok :: "socket list \<Rightarrow> bool" where
  "detached_ok ss \<longleftrightarrow> (\<forall>s \<in> set ss. \<not> so_is_closed s \<and> \<not> fds_valid s \<longrightarrow>
     ss_fd (so_script s) < 0 \<and> ss_fd (so_live s) < 0)"

lemma table_ok_iff:
  "table_ok st \<longleftrightarrow> distinct (map fst (open_fds (sockets st))) \<and> distinct (map snd (open_fds (sockets st))) \<and>
     detached_ok (sockets st)"
  by (simp add: table_ok_def detached_ok_def)

lemma detached_ok_update:
  "detached_ok ss \<Longrightarrow> so_is_closed s \<or> fds_valid s \<Longrightarrow> detached_ok (ss[i := s])"
  using set_update_subset_insert [of ss i s] unfolding detached_ok_def by blast

text \<open>A new open socket.\<close>

lemma table_add:
  assumes "table_ok st" and "sockets st' = sockets st @ [s]" and "open_socket s"
    and "fd_table st (ss_fd (so_script s)) = None" and "ss_fd (so_live s) \<notin> ran (fd_table st)"
  shows "table_ok st'" "fd_table st' = (fd_table st)(ss_fd (so_script s) \<mapsto> ss_fd (so_live s))"
proof -
  have app: "open_fds (sockets st') = open_fds (sockets st) @ [fd_pair s]"
    using assms(2,3) by (simp add: open_fds_def)
  note new = fresh_fds(1) [OF assms(1,4)]
  from new fresh_fds(2) [OF assms(1,5)] show "table_ok st'"
    using assms(1,2,3) unfolding table_ok_def app by (auto simp: fd_pair_def open_socket_def)
  show "fd_table st' = (fd_table st)(ss_fd (so_script s) \<mapsto> ss_fd (so_live s))"
    using assms(4) unfolding fd_table_def app
    by (auto simp: fun_eq_iff map_add_def fd_pair_def split: option.split)
qed


text \<open>A socket that is closed.\<close>

lemma open_fds_split:
  assumes "i < length ss"
  shows "open_fds ss = open_fds (take i ss) @ open_fds [ss ! i] @ open_fds (drop (Suc i) ss)"
  using id_take_nth_drop [OF assms] by (metis append_Cons append_Nil filter_append map_append open_fds_def)

lemma open_fds_update_split:
  assumes "i < length ss"
  shows "open_fds (ss[i := s]) = open_fds (take i ss) @ open_fds [s] @ open_fds (drop (Suc i) ss)"
  using upd_conv_take_nth_drop [OF assms, of s]
  by (metis append_Cons append_Nil filter_append map_append open_fds_def)

lemma table_close:
  assumes "table_ok st" and "i < length (sockets st)" and "open_socket (sockets st ! i)"
    and "sockets st' = (sockets st)[i := (sockets st ! i)\<lparr>so_is_closed := True\<rparr>]"
  shows "table_ok st'" "fd_table st' = (fd_table st)(ss_fd (so_script (sockets st ! i)) := None)"
proof -
  let ?s = "sockets st ! i" and ?A = "open_fds (take i (sockets st))" and ?B = "open_fds (drop (Suc i) (sockets st))"
  have old: "open_fds (sockets st) = ?A @ fd_pair ?s # ?B"
    using assms(3) open_fds_split [OF assms(2)] by (simp add: open_fds_def)
  have new: "open_fds (sockets st') = ?A @ ?B"
    using open_fds_update_split [OF assms(2)] assms(4) by (simp add: open_fds_def open_socket_def)
  show "table_ok st'"
    using assms(1) detached_ok_update [of "sockets st"] unfolding table_ok_iff old new
    by (simp add: assms(4))
  have "ss_fd (so_script ?s) \<notin> fst ` set ?A" "ss_fd (so_script ?s) \<notin> fst ` set ?B"
    using assms(1) unfolding table_ok_def old by (auto simp: fd_pair_def)
  then have "map_of ?A (ss_fd (so_script ?s)) = None" "map_of ?B (ss_fd (so_script ?s)) = None"
    by (simp_all add: map_of_eq_None_iff)
  then show "fd_table st' = (fd_table st)(ss_fd (so_script ?s) := None)"
    unfolding fd_table_def old new by (auto simp: fun_eq_iff map_add_def fd_pair_def split: option.split)
qed

section \<open>The socket calls\<close>

lemma to_live_fd_table:
  assumes "table_ok st" and "0 \<le> fd"
  shows "to_live_fd st fd = Some (case fd_table st fd of
      None \<Rightarrow> Inl (Unable_to_find_socket fd) | Some lfd \<Rightarrow> Inr lfd)"
  using find_by_script_fd [OF assms]
  by (auto simp: to_live_fd_def fd_pair_def split: option.split)

lemma run_syscall_socket_table:
  assumes "table_ok st"
  shows "(if 0 \<le> fd \<and> 0 \<le> lfd \<and> fd_table st fd = None \<and> lfd \<notin> ran (fd_table st)
     then \<exists>st'. run_syscall_socket st af protocol fd lfd = Some (Inr st') \<and> table_ok st' \<and>
       fd_table st' = (fd_table st)(fd \<mapsto> lfd)
     else \<exists>err. run_syscall_socket st af protocol fd lfd = Some (Inl err))"
proof (cases "0 \<le> fd \<and> 0 \<le> lfd")
  case False
  then show ?thesis
    by (auto simp: run_syscall_socket_def insert_new_socket_def)
next
  case True
  then have fd: "0 \<le> fd" and lfd: "0 \<le> lfd"
    by simp_all
  note by_script = find_by_script_fd [OF assms fd] and by_live = find_by_live_fd [OF assms lfd]
  show ?thesis
  proof (cases "fd_table st fd = None \<and> lfd \<notin> ran (fd_table st)")
    case True
    then obtain st' s where st': "run_syscall_socket st af protocol fd lfd = Some (Inr st')"
      "sockets st' = sockets st @ [s]" "fd_pair s = (fd, lfd)" "\<not> so_is_closed s"
      using by_script by_live fd lfd
      by (auto simp: run_syscall_socket_def insert_new_socket_def fd_pair_def socket_new_def Let_def)
    then have "open_socket s" "ss_fd (so_script s) = fd" "ss_fd (so_live s) = lfd"
      using fd lfd by (auto simp: open_socket_def fds_valid_def fd_pair_def)
    with st' True fd lfd show ?thesis
      using table_add [OF assms st'(2)] by simp
  next
    case False
    then show ?thesis
      using by_script by_live fd lfd
      by (auto simp: run_syscall_socket_def insert_new_socket_def)
  qed
qed

text \<open>What a successful search for a descriptor of the script gives, whatever its sign.\<close>

lemma find_by_script_fd_Some:
  assumes "find_socket_by_script_fd st fd = Some (Some i)"
  shows "i < length (sockets st)" "open_socket (sockets st ! i)" "ss_fd (so_script (sockets st ! i)) = fd"
  using assms find_socket_Some
  by (fastforce simp: find_socket_by_script_fd_def open_socket_def c_assert_def
      split: option.splits bind_splits if_splits)+

lemma sockets_set_sock [simp]: "sockets (set_sock i s st) = (sockets st)[i := s]"
  by (simp add: set_sock_def)

lemma run_syscall_close_table:
  assumes "table_ok st" and "run_syscall_close st fd lfd = Some (Inr st')"
  shows "table_ok st'" "fd_table st' = (fd_table st)(fd := None)"
proof -
  obtain i where found: "find_socket_by_script_fd st fd = Some (Some i)"
    and st': "st' = set_sock i ((sockets st ! i)\<lparr>so_is_closed := True\<rparr>) st"
    using assms(2)
    by (auto simp: run_syscall_close_def Let_def split: bind_splits option.splits if_splits)
  note i = find_by_script_fd_Some [OF found]
  show "table_ok st'" "fd_table st' = (fd_table st)(fd := None)"
    using table_close [OF assms(1) i(1,2), of st'] i(3) st' by simp_all
qed

section \<open>Sockets provide the interface\<close>

fun socket_op :: "state \<Rightarrow> fd_op \<Rightarrow> state option" where
  "socket_op st (Open fd lfd) = (case run_syscall_socket st AF_INET 6 fd lfd of
      Some (Inr st') \<Rightarrow> Some st' | _ \<Rightarrow> None)"
| "socket_op st (Close fd) = (if fd < 0 then None else case to_live_fd st fd of
      Some (Inr lfd) \<Rightarrow> (case run_syscall_close st fd lfd of Some (Inr st') \<Rightarrow> Some st' | _ \<Rightarrow> None)
    | _ \<Rightarrow> None)"

lemma run_syscall_close_found:
  assumes "table_ok st" and "0 \<le> fd" and "fd_table st fd = Some lfd"
  shows "\<exists>st'. run_syscall_close st fd lfd = Some (Inr st')"
  using find_by_script_fd [OF assms(1,2)] assms(3)
  by (auto simp: run_syscall_close_def fd_pair_def Let_def)

lemma fd_table_nonneg: "fd_table st fd = Some lfd \<Longrightarrow> 0 \<le> fd"
  by (auto simp: fd_table_def in_open_fds open_socket_def fds_valid_def dest!: map_of_SomeD)

interpretation fds: descriptor_table table_ok fd_table socket_op
proof
  fix st :: state and op st'
  assume ok: "table_ok st"
  show "map_option fd_table (socket_op st op) = spec_op (fd_table st) op"
  proof (cases op)
    case (Open fd lfd)
    then show ?thesis
      using run_syscall_socket_table [OF ok, of fd lfd AF_INET 6] by (auto split: if_splits)
  next
    case (Close fd)
    show ?thesis
    proof (cases "fd_table st fd")
      case None
      then show ?thesis
        using Close to_live_fd_table [OF ok, of fd] by simp
    next
      case (Some lfd)
      then obtain st1 where "run_syscall_close st fd lfd = Some (Inr st1)" "0 \<le> fd"
        using run_syscall_close_found [OF ok] fd_table_nonneg by blast
      with Some Close show ?thesis
        using to_live_fd_table [OF ok, of fd] run_syscall_close_table(2) [OF ok] by simp
    qed
  qed
  assume "socket_op st op = Some st'"
  then show "table_ok st'"
  proof (cases op)
    case (Open fd lfd)
    then have "run_syscall_socket st AF_INET 6 fd lfd = Some (Inr st')"
      using \<open>socket_op st op = Some st'\<close> by (auto split: option.splits sum.splits)
    then show ?thesis
      using run_syscall_socket_table [OF ok, of fd lfd AF_INET 6] by (auto split: if_splits)
  next
    case (Close fd)
    then obtain lfd where "run_syscall_close st fd lfd = Some (Inr st')"
      using \<open>socket_op st op = Some st'\<close> by (auto split: option.splits sum.splits if_splits)
    then show ?thesis
      by (rule run_syscall_close_table(1) [OF ok])
  qed
qed

section \<open>Runs of socket calls\<close>

text \<open>One step of a run: a call on a socket, an incoming connection, or something that changes a socket but not its
  descriptors, such as a packet. What the kernel promises is that a descriptor it gives out is not in use, as far as the open
  sockets tell; the handlers pass on descriptors that are not negative.\<close>

definition unused_live_fd :: "state \<Rightarrow> int \<Rightarrow> bool" where
  "unused_live_fd st lfd \<longleftrightarrow> (\<forall>s \<in> set (sockets st). open_socket s \<longrightarrow> ss_fd (so_live s) \<noteq> lfd)"

inductive socket_step :: "state \<Rightarrow> state \<Rightarrow> bool" where
  step_socket: "run_syscall_socket st af protocol fd lfd = Some (Inr st') \<Longrightarrow> socket_step st st'"
| step_close: "run_syscall_close st fd lfd = Some (Inr st') \<Longrightarrow> socket_step st st'"
| step_listen: "run_syscall_listen st fd lfd = Some (Inr st') \<Longrightarrow> socket_step st st'"
| step_connect: "run_syscall_connect st fd new = Some (Inr (addr, st')) \<Longrightarrow> socket_step st st'"
| step_accept: "run_syscall_accept st fd lfd addr = Some (Inr st') \<Longrightarrow> 0 \<le> fd \<Longrightarrow> 0 \<le> lfd \<Longrightarrow>
    unused_live_fd st lfd \<Longrightarrow> socket_step st st'"
| step_peeloff: "run_syscall_sctp_peeloff st old fd lfd = Some (Inr st') \<Longrightarrow> 0 \<le> fd \<Longrightarrow> 0 \<le> lfd \<Longrightarrow>
    unused_live_fd st lfd \<Longrightarrow> socket_step st st'"
| step_child: "setup_new_child_socket st packet = Some (i, st') \<Longrightarrow> socket_step st st'"
| step_other: "i < length (sockets st) \<Longrightarrow> fd_pair s = fd_pair (sockets st ! i) \<Longrightarrow>
    so_is_closed s = so_is_closed (sockets st ! i) \<Longrightarrow> sockets st' = (sockets st)[i := s] \<Longrightarrow> socket_step st st'"

inductive_cases socket_stepE: "socket_step st st'"



lemma unused_live_fd_eq: "unused_live_fd st lfd \<longleftrightarrow> lfd \<notin> snd ` set (open_fds (sockets st))"
  by (force simp: unused_live_fd_def open_fds_def fd_pair_def)

lemma open_fds_append: "open_fds (ss @ ts) = open_fds ss @ open_fds ts"
  by (simp add: open_fds_def)







text \<open>Accepting a connection, on a socket that is waiting for it or in a wire client on a new one.\<close>

lemma run_syscall_accept_cases:
  assumes "run_syscall_accept st fd lfd addr = Some (Inr st')"
  obtains (Waiting) i s where "find_socket accept_ready (sockets st) (length (sockets st)) = Some i"
      "sockets st' = (sockets st)[i := s]" "fd_pair s = (fd, lfd)" "so_is_closed s = so_is_closed (sockets st ! i)"
    | (New) s where "sockets st' = sockets st @ [s]" "fd_pair s = (fd, lfd)" "\<not> so_is_closed s"
  using assms
  by (auto simp: run_syscall_accept_def add_socket_def socket_new_def fd_pair_def Let_def
      split: bind_splits option.splits if_splits prod.splits)






lemma table_ok_empty: "sockets st = [] \<Longrightarrow> table_ok st"
  by (simp add: table_ok_def open_fds_def)


text \<open>A wire client that creates a socket and then accepts a connection under the same descriptor.\<close>

definition example_client :: state where
  "example_client = example_state\<lparr> st_config := (st_config example_state)\<lparr> is_wire_client := True \<rparr> \<rparr>"

definition example_peer :: bytes where
  "example_peer = [2, 0, 0, 80, 192, 0, 2, 1, 0, 0, 0, 0, 0, 0, 0, 0]"

lemma example_accept:
  "\<exists>st st'. run_syscall_socket example_client AF_INET 6 3 5 = Some (Inr st) \<and>
     run_syscall_accept st 3 6 example_peer = Some (Inr st') \<and> unused_live_fd st 6 \<and>
     open_fds (sockets st) = [(3, 5)] \<and> open_fds (sockets st') = [(3, 5), (3, 6)] \<and>
     (\<forall>s \<in> set (sockets st). \<not> accept_ready s)"
proof -
  have "case run_syscall_socket example_client AF_INET 6 3 5 of
      Some (Inr st) \<Rightarrow> (case run_syscall_accept st 3 6 example_peer of
          Some (Inr st') \<Rightarrow> unused_live_fd st 6 \<and> open_fds (sockets st) = [(3, 5)] \<and>
            open_fds (sockets st') = [(3, 5), (3, 6)] \<and> (\<forall>s \<in> set (sockets st). \<not> accept_ready s)
        | _ \<Rightarrow> False)
    | _ \<Rightarrow> False"
    by code_simp
  then obtain st where "run_syscall_socket example_client AF_INET 6 3 5 = Some (Inr st)"
    and "case run_syscall_accept st 3 6 example_peer of
          Some (Inr st') \<Rightarrow> unused_live_fd st 6 \<and> open_fds (sockets st) = [(3, 5)] \<and>
            open_fds (sockets st') = [(3, 5), (3, 6)] \<and> (\<forall>s \<in> set (sockets st). \<not> accept_ready s)
        | _ \<Rightarrow> False"
    by (cases "run_syscall_socket example_client AF_INET 6 3 5") (auto split: sum.splits)
  then show ?thesis
    by (cases "run_syscall_accept st 3 6 example_peer") (auto split: sum.splits)
qed


text \<open>C0: an accepted connection can take over a descriptor of the script. Unlike the creation of a socket, accepting a
  connection does not look whether the descriptor that the script gives to it is in use: it succeeds, and two open
  sockets with different live descriptors have the same descriptor in the script, so that only the newer of them can be
  used and closed from then on.\<close>

theorem accept_shares_descriptor:
  assumes "run_syscall_accept st fd lfd addr = Some (Inr st')" and "0 \<le> fd" and "0 \<le> lfd"
    and "(fd, old) \<in> set (open_fds (sockets st))" and "unused_live_fd st lfd"
    and "\<forall>s \<in> set (sockets st). accept_ready s \<longrightarrow> \<not> so_is_closed s \<and> \<not> fds_valid s"
  shows "(fd, old) \<in> set (open_fds (sockets st')) \<and> (fd, lfd) \<in> set (open_fds (sockets st')) \<and> old \<noteq> lfd"
  using assms(1)
proof (cases rule: run_syscall_accept_cases)
  case (Waiting i s)
  have i: "i < length (sockets st)" "\<not> so_is_closed (sockets st ! i)" "\<not> fds_valid (sockets st ! i)"
    using find_socket_Some [OF Waiting(1)] assms(6) by auto
  then have "open_fds [s] = [(fd, lfd)]" "open_fds [sockets st ! i] = []"
    using Waiting(3,4) assms(2,3) by (auto simp: open_fds_def open_socket_def fds_valid_def fd_pair_def)
  then show ?thesis
    using assms(4,5) Waiting(2) open_fds_split [OF i(1)] open_fds_update_split [OF i(1), of s]
    by (force simp: unused_live_fd_eq)
next
  case (New s)
  then have "open_fds [s] = [(fd, lfd)]"
    using assms(2,3) by (auto simp: open_fds_def open_socket_def fds_valid_def fd_pair_def)
  then show ?thesis
    using assms(4,5) New(1) by (force simp: unused_live_fd_eq open_fds_append)
qed

theorem accept_shares_descriptor_witness:
  "\<exists>st st'. run_syscall_socket example_client AF_INET 6 3 5 = Some (Inr st) \<and>
     run_syscall_accept st 3 6 example_peer = Some (Inr st') \<and>
     (3, 5) \<in> set (open_fds (sockets st')) \<and> (3, 6) \<in> set (open_fds (sockets st'))"
proof -
  obtain st st' where st: "run_syscall_socket example_client AF_INET 6 3 5 = Some (Inr st)"
      "run_syscall_accept st 3 6 example_peer = Some (Inr st')" "unused_live_fd st 6"
      "open_fds (sockets st) = [(3, 5)]" "\<forall>s \<in> set (sockets st). \<not> accept_ready s"
    using example_accept by blast
  then show ?thesis
    using accept_shares_descriptor [OF st(2), of 5] by auto
qed

text \<open>C6: sockets as a table. Creating and closing sockets in any order has exactly the effect on the table that adding
  and removing entries of a finite map has, and it fails exactly when a descriptor is negative, already in use or,
  for a close, not in use.\<close>

theorem socket_ops_refine_map:
  assumes "table_ok st"
  shows "map_option fd_table (run_ops socket_op st ops) = run_ops spec_op (fd_table st) ops"
  by (rule fds.run_ops_refines [OF assms])

theorem socket_ops_refine_map_witness:
  "map_option fd_table (run_ops socket_op example_state [Open 3 5, Open 4 6, Close 3]) = Some [4 \<mapsto> 6] \<and>
   map_option fd_table (run_ops socket_op example_state [Open 3 5, Open 4 5]) = None"
proof -
  have ok: "table_ok example_state" and empty: "fd_table example_state = Map.empty"
    by (simp_all add: table_ok_empty example_state_def fd_table_def open_fds_def)
  show ?thesis
    using socket_ops_refine_map [OF ok, of "[Open 3 5, Open 4 6, Close 3]"]
      socket_ops_refine_map [OF ok, of "[Open 3 5, Open 4 5]"]
    by (simp add: empty ran_def fun_upd_twist)
qed

end
