(* ===== verification/Syscall_Handlers.thy ===== *)
theory Syscall_Handlers
  imports Fd_Table
begin

text \<open>
  The handlers of the system calls (\<^verbatim>\<open>run_system_call.c\<close>) and their dispatch. Allocating a buffer of a negative
  size fails and aborts the process; other allocations succeed. The handlers of \<^verbatim>\<open>recvmsg\<close>, \<^verbatim>\<open>sendmsg\<close>, the socket
  options and most SCTP calls are not modelled.
\<close>

section \<open>Around a live call\<close>

definition begin_syscall :: "system_call \<Rightarrow> unit call" where
  "begin_syscall syscall sys =
     (if is_blocking_syscall (syscall_spec.truncate syscall)
      then do {
        c_assert (thread_state sys = SYSCALL_ENQUEUED);
        Some (Inr (), sys\<lparr> thread_state := SYSCALL_RUNNING \<rparr>)
      }
      else Some (Inr (), sys))"

definition make_call :: "world \<Rightarrow> system_call \<Rightarrow> live_call \<Rightarrow> reply call" where
  "make_call world syscall c sys =
     (let history = calls sys @ [c];
          state = (if is_blocking_syscall (syscall_spec.truncate syscall)
            then meanwhile world history (run_state sys) else run_state sys)
      in Some (Inr (kernel world history), sys\<lparr> calls := history, run_state := state \<rparr>))"

text \<open>A call that \<^verbatim>\<open>run_system_call.c\<close> makes on its own, while it holds the lock.\<close>

definition live_locked :: "world \<Rightarrow> live_call \<Rightarrow> reply call" where
  "live_locked world c sys =
     (let history = calls sys @ [c] in Some (Inr (kernel world history), sys\<lparr> calls := history \<rparr>))"

datatype result_check_t = CHECK_EXACT | CHECK_FD

definition finish_blocking :: "system_call \<Rightarrow> unit call" where
  "finish_blocking syscall sys =
     (if is_blocking_syscall (syscall_spec.truncate syscall)
      then do {
        let (now, state) = now_usecs (run_state sys);
        c_assert (thread_state sys = SYSCALL_RUNNING);
        Some (Inr (), sys\<lparr> run_state := state, live_end_usecs := now, thread_state := SYSCALL_DONE \<rparr>)
      }
      else Some (Inr (), sys))"

definition check_result :: "result_check_t \<Rightarrow> int \<Rightarrow> int \<Rightarrow> int \<Rightarrow> unit call" where
  "check_result mode expected actual actual_errno =
     (if mode = CHECK_FD \<and> expected \<ge> 0
      then if actual < 0 then call_fail (Expected_non_negative actual actual_errno) else call_return ()
      else if actual \<noteq> expected then call_fail (Expected_result expected actual actual_errno)
      else call_return ())"

definition check_errno :: "world \<Rightarrow> system_call \<Rightarrow> int \<Rightarrow> unit call" where
  "check_errno world syscall actual_errno = (case sc_errno_macro syscall of
      None \<Rightarrow> call_return ()
    | Some errno_macro \<Rightarrow> (case symbol_to_int (platform_symbols world) errno_macro of
        Inl err \<Rightarrow> call_fail (Script_error err)
      | Inr expected_errno \<Rightarrow>
          if actual_errno \<noteq> sint expected_errno
          then call_fail (Expected_errno (sint expected_errno) actual_errno)
          else call_return ()))"

definition end_syscall :: "world \<Rightarrow> system_call \<Rightarrow> result_check_t \<Rightarrow> reply \<Rightarrow> unit call" where
  "end_syscall world syscall mode r =
     call_bind (finish_blocking syscall) (\<lambda>_.
     call_bind (call_arg (get_s32 (sc_result syscall))) (\<lambda>expected.
     call_bind (check_result mode expected (rep_result r) (rep_errno r)) (\<lambda>_.
     check_errno world syscall (rep_errno r))))"

text \<open>The common part of most handlers.\<close>

definition live_checked :: "world \<Rightarrow> system_call \<Rightarrow> live_call \<Rightarrow> reply call" where
  "live_checked world syscall c =
     call_bind (begin_syscall syscall) (\<lambda>_.
     call_bind (make_call world syscall c) (\<lambda>r.
     call_bind (end_syscall world syscall CHECK_EXACT r) (\<lambda>_.
     call_return r)))"

definition call_state :: "(state \<Rightarrow> (call_error, 'a) status option) \<Rightarrow> 'a call" where
  "call_state f sys = (case f (run_state sys) of None \<Rightarrow> None | Some r \<Rightarrow> Some (r, sys))"

definition call_update :: "(state \<Rightarrow> (call_error, state) status option) \<Rightarrow> unit call" where
  "call_update f sys = (case f (run_state sys) of
      None \<Rightarrow> None
    | Some (Inl err) \<Rightarrow> Some (Inl err, sys)
    | Some (Inr state) \<Rightarrow> Some (Inr (), sys\<lparr> run_state := state \<rparr>))"

text \<open>The first argument of most calls: a descriptor of the script.\<close>

definition fd_arg :: "expression list \<Rightarrow> nat \<Rightarrow> (int \<times> int) call" where
  "fd_arg args index =
     call_bind (call_arg (s32_arg args index)) (\<lambda>script_fd.
     call_bind (call_state (\<lambda>state. to_live_fd state script_fd)) (\<lambda>live_fd.
     call_return (script_fd, live_fd)))"

text \<open>Close a live descriptor and report the error: what the handlers that create descriptors do when something
  goes wrong afterwards.\<close>

definition close_and_fail :: "world \<Rightarrow> int \<Rightarrow> call_error \<Rightarrow> unit call" where
  "close_and_fail world fd err = call_bind (live_locked world (Live_close fd)) (\<lambda>_. call_fail err)"

section \<open>Creating and closing descriptors\<close>

text \<open>The end of \<^verbatim>\<open>syscall_socket\<close>, \<^verbatim>\<open>syscall_accept\<close> and \<^verbatim>\<open>syscall_open\<close>: the new descriptor, if there is one, is stored
  by \<open>store\<close> or closed.\<close>

definition new_descriptor :: "world \<Rightarrow> system_call \<Rightarrow> reply \<Rightarrow> unit call \<Rightarrow>
    (int \<Rightarrow> state \<Rightarrow> (call_error, state) status option) \<Rightarrow> unit call" where
  "new_descriptor world syscall r prepare store =
     call_catch (end_syscall world syscall CHECK_FD r)
       (\<lambda>err. if rep_result r \<ge> 0 then close_and_fail world (rep_result r) err else call_fail err)
       (\<lambda>_. if rep_result r \<ge> 0
          then call_bind prepare (\<lambda>_.
            call_catch (call_arg (get_s32 (sc_result syscall))) (close_and_fail world (rep_result r)) (\<lambda>script_fd.
            call_catch (call_update (store script_fd)) (close_and_fail world (rep_result r)) call_return))
          else call_return ())"

text \<open>Disabling \<^verbatim>\<open>IPV6_V6ONLY\<close> ends the program if it fails.\<close>

definition disable_v6only :: "world \<Rightarrow> int \<Rightarrow> unit call" where
  "disable_v6only world live_fd sys =
     (let config = st_config (run_state sys) in
      if socket_domain config = AF_INET6 \<and> wire_protocol config = AF_INET
      then call_bind (live_locked world (Live_v6only_off live_fd)) (\<lambda>r. call_assert (rep_result r \<ge> 0)) sys
      else Some (Inr (), sys))"

definition syscall_socket :: "world \<Rightarrow> system_call \<Rightarrow> expression list \<Rightarrow> unit call" where
  "syscall_socket world syscall args =
     call_bind (call_arg (check_arg_count args 3)) (\<lambda>_.
     call_bind (call_arg (ellipsis_arg args 0)) (\<lambda>_.
     call_bind (call_arg (s32_arg args 1)) (\<lambda>type.
     call_bind (call_arg (s32_arg args 2)) (\<lambda>protocol.
     call_bind (call_state (\<lambda>state. Some (Inr (socket_domain (st_config state))))) (\<lambda>domain.
     call_bind (begin_syscall syscall) (\<lambda>_.
     call_bind (make_call world syscall (Live_socket domain type protocol)) (\<lambda>r.
     new_descriptor world syscall r (disable_v6only world (rep_result r))
       (\<lambda>script_fd state. run_syscall_socket state domain protocol script_fd (rep_result r)))))))))"

definition syscall_accept :: "world \<Rightarrow> system_call \<Rightarrow> expression list \<Rightarrow> unit call" where
  "syscall_accept world syscall args =
     call_bind (call_arg (check_arg_count args 3)) (\<lambda>_.
     call_bind (fd_arg args 0) (\<lambda>(script_fd, live_fd).
     call_bind (call_arg (ellipsis_arg args 1)) (\<lambda>_.
     call_bind (call_arg (ellipsis_arg args 2)) (\<lambda>_.
     call_bind (begin_syscall syscall) (\<lambda>_.
     call_bind (make_call world syscall (Live_accept live_fd)) (\<lambda>r.
     new_descriptor world syscall r (call_return ())
       (\<lambda>script_accepted_fd state.
         run_syscall_accept state script_accepted_fd (rep_result r) (rep_addr r))))))))"

definition syscall_open :: "world \<Rightarrow> system_call \<Rightarrow> expression list \<Rightarrow> unit call" where
  "syscall_open world syscall args =
     call_bind (call_arg (check_arg_count args 2)) (\<lambda>_.
     call_bind (call_arg (get_arg args 0)) (\<lambda>name_expression.
     call_bind (call_arg (check_type name_expression EXPR_STRING)) (\<lambda>_.
     call_bind (call_arg (s32_arg args 1)) (\<lambda>flags.
     call_bind (begin_syscall syscall) (\<lambda>_.
     call_bind (make_call world syscall (Live_open (expr_string name_expression) flags)) (\<lambda>r.
     new_descriptor world syscall r (call_return ())
       (\<lambda>script_fd state. do {
          r \<leftarrow> insert_new_socket state AF_UNSPEC 0 script_fd (rep_result r);
          Some (map_sum id snd r)
        })))))))"

definition syscall_close :: "world \<Rightarrow> system_call \<Rightarrow> expression list \<Rightarrow> unit call" where
  "syscall_close world syscall args =
     call_bind (call_arg (check_arg_count args 1)) (\<lambda>_.
     call_bind (fd_arg args 0) (\<lambda>(script_fd, live_fd).
     call_bind (begin_syscall syscall) (\<lambda>_.
     call_bind (make_call world syscall (Live_close live_fd)) (\<lambda>r.
     let forget = (if rep_result r = 0
       then call_update (\<lambda>state. run_syscall_close state script_fd live_fd) else call_return ())
     in call_catch (end_syscall world syscall CHECK_EXACT r)
       (\<lambda>err. call_bind forget (\<lambda>_. call_fail err)) (\<lambda>_. forget)))))"

definition syscall_sctp_peeloff :: "world \<Rightarrow> system_call \<Rightarrow> expression list \<Rightarrow> unit call" where
  "syscall_sctp_peeloff world syscall args =
     call_bind (call_arg (check_arg_count args 2)) (\<lambda>_.
     call_bind (fd_arg args 0) (\<lambda>(script_fd, live_fd).
     call_bind (call_arg (status_bind (get_arg args 1) get_sctp_assoc_t)) (\<lambda>assoc_id.
     call_bind (begin_syscall syscall) (\<lambda>_.
     call_bind (make_call world syscall (Live_sctp_peeloff live_fd assoc_id)) (\<lambda>r.
     call_bind (end_syscall world syscall CHECK_FD r) (\<lambda>_.
     call_bind (call_arg (get_s32 (sc_result syscall))) (\<lambda>script_new_fd.
     call_catch (call_update (\<lambda>state. run_syscall_sctp_peeloff state script_fd script_new_fd (rep_result r)))
       (\<lambda>_. call_fail Cannot_copy_socket) call_return)))))))"

section \<open>Connections\<close>

definition syscall_bind :: "world \<Rightarrow> system_call \<Rightarrow> expression list \<Rightarrow> unit call" where
  "syscall_bind world syscall args =
     call_bind (call_arg (check_arg_count args 3)) (\<lambda>_.
     call_bind (fd_arg args 0) (\<lambda>(script_fd, live_fd).
     call_bind (call_arg (ellipsis_arg args 1)) (\<lambda>_.
     call_bind (call_arg (ellipsis_arg args 2)) (\<lambda>_.
     call_bind (call_state (\<lambda>state. map_option Inr (run_syscall_bind state))) (\<lambda>live_addr.
     call_bind (live_checked world syscall (Live_bind live_fd live_addr)) (\<lambda>_. call_return ()))))))"

definition syscall_sctp_bindx :: "world \<Rightarrow> system_call \<Rightarrow> expression list \<Rightarrow> unit call" where
  "syscall_sctp_bindx world syscall args =
     call_bind (call_arg (check_arg_count args 4)) (\<lambda>_.
     call_bind (fd_arg args 0) (\<lambda>(script_fd, live_fd).
     call_bind (call_arg (s32_arg args 2)) (\<lambda>addrcnt.
     call_bind (call_arg (s32_arg args 3)) (\<lambda>flags.
     call_bind (call_arg (get_arg args 1)) (\<lambda>addr_list.
     call_bind (call_arg (check_type addr_list EXPR_LIST)) (\<lambda>_.
     call_bind (call_arg (ellipsis_arg (expr_list addr_list) 0)) (\<lambda>_.
     call_bind (call_state (\<lambda>state. map_option Inr (run_syscall_bind state))) (\<lambda>addrs.
     call_bind (live_checked world syscall (Live_sctp_bindx live_fd addrs addrcnt flags))
       (\<lambda>_. call_return ())))))))))"

definition syscall_listen :: "world \<Rightarrow> system_call \<Rightarrow> expression list \<Rightarrow> unit call" where
  "syscall_listen world syscall args =
     call_bind (call_arg (check_arg_count args 2)) (\<lambda>_.
     call_bind (fd_arg args 0) (\<lambda>(script_fd, live_fd).
     call_bind (call_arg (s32_arg args 1)) (\<lambda>backlog.
     call_bind (live_checked world syscall (Live_listen live_fd backlog)) (\<lambda>_.
     call_update (\<lambda>state. run_syscall_listen state script_fd live_fd)))))"

text \<open>\<open>run_syscall_connect\<close> in a handler: the address, with the new state stored.\<close>

definition connecting :: "int \<Rightarrow> bool \<Rightarrow> bytes call" where
  "connecting script_fd must_be_new_socket sys =
     (case run_syscall_connect (run_state sys) script_fd must_be_new_socket of
        None \<Rightarrow> None
      | Some (Inl err) \<Rightarrow> Some (Inl err, sys)
      | Some (Inr (live_addr, state)) \<Rightarrow> Some (Inr live_addr, sys\<lparr> run_state := state \<rparr>))"

definition syscall_connect :: "world \<Rightarrow> system_call \<Rightarrow> expression list \<Rightarrow> unit call" where
  "syscall_connect world syscall args =
     call_bind (call_arg (check_arg_count args 3)) (\<lambda>_.
     call_bind (fd_arg args 0) (\<lambda>(script_fd, live_fd).
     call_bind (call_arg (ellipsis_arg args 1)) (\<lambda>_.
     call_bind (call_arg (ellipsis_arg args 2)) (\<lambda>_.
     call_bind (connecting script_fd True) (\<lambda>live_addr.
     call_bind (live_checked world syscall (Live_connect live_fd live_addr)) (\<lambda>_. call_return ()))))))"

text \<open>The identifier of the association is compared after the call.\<close>

definition syscall_sctp_connectx :: "world \<Rightarrow> system_call \<Rightarrow> expression list \<Rightarrow> unit call" where
  "syscall_sctp_connectx world syscall args =
     call_bind (call_arg (check_arg_count args 4)) (\<lambda>_.
     call_bind (fd_arg args 0) (\<lambda>(script_fd, live_fd).
     call_bind (call_arg (get_arg args 1)) (\<lambda>addrs_expr.
     call_bind (call_arg (check_type addrs_expr EXPR_LIST)) (\<lambda>_.
     call_bind (call_arg (ellipsis_arg (expr_list addrs_expr) 0)) (\<lambda>_.
     call_bind (call_arg (s32_arg args 2)) (\<lambda>addrcnt.
     call_bind (connecting script_fd True) (\<lambda>live_addr.
     call_bind (live_checked world syscall (Live_sctp_connectx live_fd live_addr addrcnt)) (\<lambda>r.
     call_bind (call_arg (get_arg args 3)) (\<lambda>assoc_list.
     call_bind (call_arg (check_type assoc_list EXPR_LIST)) (\<lambda>_.
     call_bind (call_arg (check_arg_count (expr_list assoc_list) 1)) (\<lambda>_.
     call_bind (call_arg (get_arg (expr_list assoc_list) 0)) (\<lambda>assoc_expr.
     call_arg (check_sctp_assoc_t_expr assoc_expr (word_of_int (rep_value r)) ''sctp_connectx assoc_id'')))))))))))))"

definition syscall_shutdown :: "world \<Rightarrow> system_call \<Rightarrow> expression list \<Rightarrow> unit call" where
  "syscall_shutdown world syscall args =
     call_bind (call_arg (check_arg_count args 2)) (\<lambda>_.
     call_bind (fd_arg args 0) (\<lambda>(script_fd, live_fd).
     call_bind (call_arg (s32_arg args 1)) (\<lambda>how.
     call_bind (live_checked world syscall (Live_shutdown live_fd how)) (\<lambda>_. call_return ()))))"

section \<open>Input and output\<close>

definition syscall_read :: "world \<Rightarrow> system_call \<Rightarrow> expression list \<Rightarrow> unit call" where
  "syscall_read world syscall args =
     call_bind (call_arg (check_arg_count args 3)) (\<lambda>_.
     call_bind (fd_arg args 0) (\<lambda>(script_fd, live_fd).
     call_bind (call_arg (ellipsis_arg args 1)) (\<lambda>_.
     call_bind (call_arg (s32_arg args 2)) (\<lambda>count.
     call_bind (call_assert (count \<ge> 0)) (\<lambda>_.
     call_bind (live_checked world syscall (Live_read live_fd count)) (\<lambda>_. call_return ()))))))"

definition syscall_write :: "world \<Rightarrow> system_call \<Rightarrow> expression list \<Rightarrow> unit call" where
  "syscall_write world syscall args =
     call_bind (call_arg (check_arg_count args 3)) (\<lambda>_.
     call_bind (fd_arg args 0) (\<lambda>(script_fd, live_fd).
     call_bind (call_arg (ellipsis_arg args 1)) (\<lambda>_.
     call_bind (call_arg (s32_arg args 2)) (\<lambda>count.
     call_bind (call_assert (count \<ge> 0)) (\<lambda>_.
     call_bind (live_checked world syscall (Live_write live_fd count)) (\<lambda>_. call_return ()))))))"

definition iovec_arg :: "expression list \<Rightarrow> u64 list call" where
  "iovec_arg args =
     call_bind (call_arg (get_arg args 1)) (\<lambda>iov_expression.
     call_bind (call_option (iovec_new iov_expression)) (\<lambda>r.
     call_bind (call_arg r) (\<lambda>iov.
     call_bind (call_arg (s32_arg args 2)) (\<lambda>iov_count.
     if iov_count \<noteq> int (length iov) then call_fail (Count_does_not_match iov_count (length iov))
     else call_return iov))))"

definition syscall_readv :: "world \<Rightarrow> system_call \<Rightarrow> expression list \<Rightarrow> unit call" where
  "syscall_readv world syscall args =
     call_bind (call_arg (check_arg_count args 3)) (\<lambda>_.
     call_bind (fd_arg args 0) (\<lambda>(script_fd, live_fd).
     call_bind (iovec_arg args) (\<lambda>iov.
     call_bind (live_checked world syscall (Live_readv live_fd iov)) (\<lambda>_. call_return ()))))"

definition syscall_writev :: "world \<Rightarrow> system_call \<Rightarrow> expression list \<Rightarrow> unit call" where
  "syscall_writev world syscall args =
     call_bind (call_arg (check_arg_count args 3)) (\<lambda>_.
     call_bind (fd_arg args 0) (\<lambda>(script_fd, live_fd).
     call_bind (iovec_arg args) (\<lambda>iov.
     call_bind (live_checked world syscall (Live_writev live_fd iov)) (\<lambda>_. call_return ()))))"

definition syscall_recv :: "world \<Rightarrow> system_call \<Rightarrow> expression list \<Rightarrow> unit call" where
  "syscall_recv world syscall args =
     call_bind (call_arg (check_arg_count args 4)) (\<lambda>_.
     call_bind (fd_arg args 0) (\<lambda>(script_fd, live_fd).
     call_bind (call_arg (ellipsis_arg args 1)) (\<lambda>_.
     call_bind (call_arg (s32_arg args 2)) (\<lambda>count.
     call_bind (call_arg (s32_arg args 3)) (\<lambda>flags.
     call_bind (call_assert (count \<ge> 0)) (\<lambda>_.
     call_bind (live_checked world syscall (Live_recv live_fd count flags)) (\<lambda>_. call_return ())))))))"

definition syscall_send :: "world \<Rightarrow> system_call \<Rightarrow> expression list \<Rightarrow> unit call" where
  "syscall_send world syscall args =
     call_bind (call_arg (check_arg_count args 4)) (\<lambda>_.
     call_bind (fd_arg args 0) (\<lambda>(script_fd, live_fd).
     call_bind (call_arg (ellipsis_arg args 1)) (\<lambda>_.
     call_bind (call_arg (s32_arg args 2)) (\<lambda>count.
     call_bind (call_arg (s32_arg args 3)) (\<lambda>flags.
     call_bind (call_assert (count \<ge> 0)) (\<lambda>_.
     call_bind (live_checked world syscall (Live_send live_fd count flags)) (\<lambda>_. call_return ())))))))"

definition syscall_recvfrom :: "world \<Rightarrow> system_call \<Rightarrow> expression list \<Rightarrow> unit call" where
  "syscall_recvfrom world syscall args =
     call_bind (call_arg (check_arg_count args 6)) (\<lambda>_.
     call_bind (fd_arg args 0) (\<lambda>(script_fd, live_fd).
     call_bind (call_arg (ellipsis_arg args 1)) (\<lambda>_.
     call_bind (call_arg (s32_arg args 2)) (\<lambda>count.
     call_bind (call_arg (s32_arg args 3)) (\<lambda>flags.
     call_bind (call_arg (ellipsis_arg args 4)) (\<lambda>_.
     call_bind (call_arg (ellipsis_arg args 5)) (\<lambda>_.
     call_bind (call_assert (count \<ge> 0)) (\<lambda>_.
     call_bind (live_checked world syscall (Live_recvfrom live_fd count flags)) (\<lambda>_. call_return ())))))))))"

definition syscall_sendto :: "world \<Rightarrow> system_call \<Rightarrow> expression list \<Rightarrow> unit call" where
  "syscall_sendto world syscall args =
     call_bind (call_arg (check_arg_count args 6)) (\<lambda>_.
     call_bind (fd_arg args 0) (\<lambda>(script_fd, live_fd).
     call_bind (call_arg (ellipsis_arg args 1)) (\<lambda>_.
     call_bind (call_arg (s32_arg args 2)) (\<lambda>count.
     call_bind (call_arg (s32_arg args 3)) (\<lambda>flags.
     call_bind (call_arg (ellipsis_arg args 4)) (\<lambda>_.
     call_bind (call_arg (ellipsis_arg args 5)) (\<lambda>_.
     call_bind (connecting script_fd False) (\<lambda>live_addr.
     call_bind (call_assert (count \<ge> 0)) (\<lambda>_.
     call_bind (live_checked world syscall (Live_sendto live_fd count flags live_addr))
       (\<lambda>_. call_return ()))))))))))"

definition syscall_sendfile :: "world \<Rightarrow> system_call \<Rightarrow> expression list \<Rightarrow> unit call" where
  "syscall_sendfile world syscall args =
     call_bind (call_arg (check_arg_count args 4)) (\<lambda>_.
     call_bind (fd_arg args 0) (\<lambda>(script_outfd, live_outfd).
     call_bind (fd_arg args 1) (\<lambda>(script_infd, live_infd).
     call_bind (call_arg (s32_bracketed_arg args 2)) (\<lambda>script_offset.
     call_bind (call_arg (s32_arg args 3)) (\<lambda>count.
     call_bind (live_checked world syscall (Live_sendfile live_outfd live_infd script_offset count))
       (\<lambda>_. call_return ()))))))"

definition check_2_or_3_args :: "expression list \<Rightarrow> unit call" where
  "check_2_or_3_args args =
     (if get_arg_count args \<noteq> 2 \<and> get_arg_count args \<noteq> 3
      then call_fail (Expected_2_or_3_args (get_arg_count args)) else call_return ())"

definition syscall_fcntl :: "world \<Rightarrow> system_call \<Rightarrow> expression list \<Rightarrow> unit call" where
  "syscall_fcntl world syscall args =
     call_bind (check_2_or_3_args args) (\<lambda>_.
     call_bind (fd_arg args 0) (\<lambda>(script_fd, live_fd).
     call_bind (call_arg (s32_arg args 1)) (\<lambda>command.
     if get_arg_count args = 2
     then call_bind (live_checked world syscall (Live_fcntl live_fd command None)) (\<lambda>_. call_return ())
     else call_bind (call_arg (s32_arg args 2)) (\<lambda>arg.
       call_bind (live_checked world syscall (Live_fcntl live_fd command (Some arg))) (\<lambda>_. call_return ())))))"

definition syscall_ioctl :: "world \<Rightarrow> system_call \<Rightarrow> expression list \<Rightarrow> unit call" where
  "syscall_ioctl world syscall args =
     call_bind (check_2_or_3_args args) (\<lambda>_.
     call_bind (fd_arg args 0) (\<lambda>(script_fd, live_fd).
     call_bind (call_arg (s32_arg args 1)) (\<lambda>command.
     if get_arg_count args = 2
     then call_bind (live_checked world syscall (Live_ioctl live_fd command False)) (\<lambda>_. call_return ())
     else call_bind (call_arg (s32_bracketed_arg args 2)) (\<lambda>script_optval.
       call_bind (live_checked world syscall (Live_ioctl live_fd command True)) (\<lambda>r.
       if rep_value r \<noteq> script_optval then call_fail (Bad_ioctl_optval script_optval (rep_value r))
       else call_return ())))))"

section \<open>Polling\<close>

definition pollfd_int :: "expression \<Rightarrow> string \<Rightarrow> int call" where
  "pollfd_int e name =
     call_bind (call_option (map_of (expr_fields e) name)) (\<lambda>v.
     call_bind (call_arg (check_type v EXPR_INTEGER)) (\<lambda>_.
     call_return (expr_num v)))"

fun pollfds_elements :: "expression list \<Rightarrow> (int \<times> 16 word \<times> 16 word) list call" where
  "pollfds_elements [] = call_return []"
| "pollfds_elements (e # es) =
     call_bind (call_arg (check_type e EXPR_POLLFD)) (\<lambda>_.
     call_bind (pollfd_int e ''fd'') (\<lambda>fd.
     call_bind (pollfd_int e ''events'') (\<lambda>events.
     call_bind (pollfd_int e ''revents'') (\<lambda>revents.
     call_bind (call_state (\<lambda>state. to_live_fd state (signed_take_bit 31 fd))) (\<lambda>live_fd.
     call_bind (pollfds_elements es) (\<lambda>fds.
     call_return ((live_fd, word_of_int events, word_of_int revents) # fds)))))))"

definition pollfds_new :: "expression \<Rightarrow> (int \<times> 16 word \<times> 16 word) list call" where
  "pollfds_new fds_expression =
     call_bind (call_arg (check_type fds_expression EXPR_LIST)) (\<lambda>_.
     pollfds_elements (expr_list fds_expression))"

text \<open>The returned events of the descriptors from index \<open>i\<close> on. When they differ, the names of the flags are
  printed.\<close>

fun pollfds_check :: "expression list \<Rightarrow> 16 word list \<Rightarrow> nat \<Rightarrow> unit call" where
  "pollfds_check [] revents i = call_return ()"
| "pollfds_check (e # es) revents i =
     call_bind (call_assert (expr_type e = EXPR_POLLFD)) (\<lambda>_.
     call_bind (call_assert (\<forall>name \<in> set [''fd'', ''events'', ''revents''].
       map_option expr_type (map_of (expr_fields e) name) = Some EXPR_INTEGER)) (\<lambda>_.
     call_bind (call_option (map_of (expr_fields e) ''revents'')) (\<lambda>v.
     call_bind (call_assert (i < length revents)) (\<lambda>_.
     let expected_revents = signed_take_bit 31 (expr_num v);
         actual_revents = sint (revents ! i)
     in if actual_revents \<noteq> expected_revents
       then call_bind (call_option (flags_to_string poll_flags (word_of_int expected_revents))) (\<lambda>_.
         call_bind (call_option (flags_to_string poll_flags (word_of_int actual_revents))) (\<lambda>_.
         call_fail (Expected_revents expected_revents actual_revents i)))
       else pollfds_check es revents (Suc i)))))"

definition syscall_poll :: "world \<Rightarrow> system_call \<Rightarrow> expression list \<Rightarrow> unit call" where
  "syscall_poll world syscall args =
     call_bind (call_arg (check_arg_count args 3)) (\<lambda>_.
     call_bind (call_arg (get_arg args 0)) (\<lambda>fds_expression.
     call_bind (pollfds_new fds_expression) (\<lambda>fds.
     call_bind (call_arg (s32_arg args 1)) (\<lambda>nfds.
     call_bind (call_arg (s32_arg args 2)) (\<lambda>timeout.
     if nfds \<noteq> int (length fds) then call_fail (Count_does_not_match nfds (length fds))
     else call_bind (live_checked world syscall (Live_poll fds timeout)) (\<lambda>r.
       pollfds_check (expr_list fds_expression) (rep_revents r) 0))))))"

section \<open>Dispatch\<close>

text \<open>The entries of the dispatch table whose handlers are modelled.\<close>

definition system_call_table :: "(string \<times> (world \<Rightarrow> system_call \<Rightarrow> expression list \<Rightarrow> unit call)) list" where
  "system_call_table =
    [(''socket'', syscall_socket),
     (''bind'', syscall_bind),
     (''listen'', syscall_listen),
     (''accept'', syscall_accept),
     (''connect'', syscall_connect),
     (''read'', syscall_read),
     (''readv'', syscall_readv),
     (''recv'', syscall_recv),
     (''recvfrom'', syscall_recvfrom),
     (''write'', syscall_write),
     (''writev'', syscall_writev),
     (''send'', syscall_send),
     (''sendto'', syscall_sendto),
     (''fcntl'', syscall_fcntl),
     (''ioctl'', syscall_ioctl),
     (''close'', syscall_close),
     (''shutdown'', syscall_shutdown),
     (''poll'', syscall_poll),
     (''open'', syscall_open),
     (''sendfile'', syscall_sendfile),
     (''sctp_bindx'', syscall_sctp_bindx),
     (''sctp_peeloff'', syscall_sctp_peeloff),
     (''sctp_connectx'', syscall_sctp_connectx)]"

text \<open>The program ends if the call is unknown, an argument cannot be evaluated or the handler fails.\<close>

definition invoke_system_call :: "world \<Rightarrow> system_call \<Rightarrow> expression list \<Rightarrow> sys \<Rightarrow> sys option" where
  "invoke_system_call world syscall arguments sys = do {
     state \<leftarrow> wait_for_event (run_state sys);
     handler \<leftarrow> map_of system_call_table (syscall_name syscall);
     (case evaluate_expression_list (evaluate (platform_symbols world)) arguments of
        Inl err \<Rightarrow> None
      | Inr args \<Rightarrow> do {
          (r, sys) \<leftarrow> handler world syscall args (sys\<lparr> run_state := state \<rparr>);
          (case r of Inl err \<Rightarrow> None | Inr _ \<Rightarrow> Some sys)
        })
   }"

section \<open>Results of calls\<close>

text \<open>What a result of a live call has to be.\<close>

definition result_matches :: "result_check_t \<Rightarrow> int \<Rightarrow> int \<Rightarrow> bool" where
  "result_matches mode expected actual \<longleftrightarrow>
     (if mode = CHECK_FD \<and> expected \<ge> 0 then actual \<ge> 0 else actual = expected)"

lemma call_bind_Some:
  "call_bind m f sys = Some (r, sys') \<longleftrightarrow>
     (\<exists>err. m sys = Some (Inl err, sys') \<and> r = Inl err) \<or>
     (\<exists>v sys1. m sys = Some (Inr v, sys1) \<and> f v sys1 = Some (r, sys'))"
  by (auto simp: call_bind_def split: option.splits prod.splits sum.splits)

lemma call_catch_Some:
  "call_catch m h f sys = Some (r, sys') \<longleftrightarrow>
     (\<exists>err sys1. m sys = Some (Inl err, sys1) \<and> h err sys1 = Some (r, sys')) \<or>
     (\<exists>v sys1. m sys = Some (Inr v, sys1) \<and> f v sys1 = Some (r, sys'))"
  by (auto simp: call_catch_def split: option.splits prod.splits sum.splits)

lemmas call_defs = call_return_def call_fail_def call_assert_def call_arg_def

lemma check_result_ok:
  "check_result mode expected actual err sys = Some (Inr (), sys') \<longleftrightarrow>
     sys' = sys \<and> result_matches mode expected actual"
  by (auto simp: check_result_def result_matches_def call_defs)

lemma check_errno_ok:
  "check_errno world syscall err sys = Some (Inr (), sys') \<longleftrightarrow> sys' = sys \<and>
     (\<forall>m. sc_errno_macro syscall = Some m \<longrightarrow>
        (\<exists>e. symbol_to_int (platform_symbols world) m = Inr e \<and> sint e = err))"
  by (auto simp: check_errno_def call_defs split: option.splits sum.splits)

lemma end_syscall_ok:
  "end_syscall world syscall mode r sys = Some (Inr (), sys') \<longleftrightarrow>
     finish_blocking syscall sys = Some (Inr (), sys') \<and>
     (\<exists>expected. get_s32 (sc_result syscall) = Inr expected \<and>
        result_matches mode expected (rep_result r)) \<and>
     (\<forall>m. sc_errno_macro syscall = Some m \<longrightarrow>
        (\<exists>e. symbol_to_int (platform_symbols world) m = Inr e \<and> sint e = rep_errno r))"
proof (cases "get_s32 (sc_result syscall)")
  case (Inl err)
  then show ?thesis
    by (auto simp: end_syscall_def call_bind_Some call_arg_def)
next
  case (Inr expected)
  then show ?thesis
    by (auto simp: end_syscall_def call_bind_Some call_arg_def check_result_ok check_errno_ok)
qed

text \<open>The calls made by the parts of the handlers.\<close>

lemma calls_end_syscall:
  "end_syscall world syscall mode r sys = Some (res, sys') \<Longrightarrow> calls sys' = calls sys"
  by (auto simp: end_syscall_def call_bind_Some call_defs finish_blocking_def check_result_def
      check_errno_def now_usecs_def Let_def split: if_splits option.splits sum.splits bind_splits)

lemma calls_begin_syscall: "begin_syscall syscall sys = Some (res, sys') \<Longrightarrow> calls sys' = calls sys"
  by (auto simp: begin_syscall_def split: if_splits bind_splits)

lemma begin_syscall_Inr: "begin_syscall syscall sys \<noteq> Some (Inl err, sys')"
  by (auto simp: begin_syscall_def split: if_splits bind_splits)

lemma calls_call_update: "call_update f sys = Some (res, sys') \<Longrightarrow> calls sys' = calls sys"
  by (auto simp: call_update_def split: option.splits sum.splits)

lemma calls_call_state: "call_state f sys = Some (res, sys') \<Longrightarrow> sys' = sys"
  by (auto simp: call_state_def split: option.splits)

lemma calls_call_arg: "call_arg r sys = Some (res, sys') \<Longrightarrow> sys' = sys"
  by (auto simp: call_arg_def)

lemma calls_fd_arg: "fd_arg args i sys = Some (res, sys') \<Longrightarrow> sys' = sys"
  by (auto simp: fd_arg_def call_bind_Some call_return_def dest!: calls_call_arg calls_call_state)

lemma calls_make_call:
  "make_call world syscall c sys = Some (res, sys') \<Longrightarrow>
     res = Inr (kernel world (calls sys @ [c])) \<and> calls sys' = calls sys @ [c]"
  by (auto simp: make_call_def Let_def)

lemma calls_close_and_fail:
  "close_and_fail world fd err sys = Some (res, sys') \<Longrightarrow>
     res = Inl err \<and> calls sys' = calls sys @ [Live_close fd]"
  by (auto simp: close_and_fail_def call_bind_Some call_fail_def live_locked_def Let_def)

text \<open>The descriptors that a sequence of calls, made after \<open>history\<close>, has obtained from the kernel and not closed.\<close>

fun held :: "world \<Rightarrow> live_call list \<Rightarrow> int list \<Rightarrow> live_call list \<Rightarrow> int list" where
  "held world history fds [] = fds"
| "held world history fds (c # cs) =
     (let history = history @ [c];
          fd = rep_result (kernel world history);
          opened = (if fd \<ge> 0 then fd # fds else fds)
      in held world history (case c of
           Live_socket _ _ _ \<Rightarrow> opened
         | Live_accept _ \<Rightarrow> opened
         | Live_open _ _ \<Rightarrow> opened
         | Live_sctp_peeloff _ _ \<Rightarrow> opened
         | Live_close x \<Rightarrow> remove1 x fds
         | _ \<Rightarrow> fds) cs)"

lemma held_v6only:
  "set cs \<subseteq> range Live_v6only_off \<Longrightarrow> held world history fds (cs @ ds) = held world (history @ cs) fds ds"
  by (induction cs arbitrary: history) (auto simp: Let_def)

text \<open>What may come before a new descriptor is stored: changes of its options, but no error.\<close>

definition prepares :: "unit call \<Rightarrow> bool" where
  "prepares m \<longleftrightarrow> (\<forall>sys res sys'. m sys = Some (res, sys') \<longrightarrow>
     res = Inr () \<and> (\<exists>cs. calls sys' = calls sys @ cs \<and> set cs \<subseteq> range Live_v6only_off))"

lemma prepares_disable_v6only: "prepares (disable_v6only world fd)"
  by (auto simp: prepares_def disable_v6only_def call_bind_Some call_assert_def live_locked_def Let_def
      split: if_splits)

lemma prepares_return: "prepares (call_return ())"
  by (auto simp: prepares_def call_return_def)

lemma new_descriptor_error:
  assumes error: "new_descriptor world syscall r prepare store sys = Some (Inl err, sys')"
    and prepare: "prepares prepare" and fd: "rep_result r \<ge> 0"
  shows "\<exists>pre. calls sys' = calls sys @ pre @ [Live_close (rep_result r)] \<and> set pre \<subseteq> range Live_v6only_off"
proof -
  note closing = calls_close_and_fail [of world "rep_result r" _ _ "Inl err" sys']
  have "(\<exists>e sys1. end_syscall world syscall CHECK_FD r sys = Some (Inl e, sys1) \<and>
        close_and_fail world (rep_result r) e sys1 = Some (Inl err, sys')) \<or>
      (\<exists>v sys1. end_syscall world syscall CHECK_FD r sys = Some (Inr v, sys1) \<and>
        call_bind prepare (\<lambda>_.
            call_catch (call_arg (get_s32 (sc_result syscall))) (close_and_fail world (rep_result r)) (\<lambda>script_fd.
            call_catch (call_update (store script_fd)) (close_and_fail world (rep_result r)) call_return)) sys1 =
          Some (Inl err, sys'))" (is "(\<exists>e sys1. ?end e sys1) \<or> (\<exists>v sys1. ?more v sys1)")
    using error fd unfolding new_descriptor_def call_catch_Some [of "end_syscall world syscall CHECK_FD r"]
    by simp
  then consider (result) e sys1 where "?end e sys1" | (stored) v sys1 where "?more v sys1"
    by blast
  then show ?thesis
  proof cases
    case result
    then have "calls sys' = calls sys @ [] @ [Live_close (rep_result r)]"
      using closing [of e sys1] by (auto dest: calls_end_syscall)
    then show ?thesis
      by (intro exI [of _ "[]"]) simp
  next
    case stored
    then have calls1: "calls sys1 = calls sys"
      by (auto dest: calls_end_syscall)
    from stored obtain u sys2 where sys2: "prepare sys1 = Some (Inr u, sys2)" and
      rest: "call_catch (call_arg (get_s32 (sc_result syscall))) (close_and_fail world (rep_result r)) (\<lambda>script_fd.
            call_catch (call_update (store script_fd)) (close_and_fail world (rep_result r)) call_return) sys2 =
          Some (Inl err, sys')"
      using prepare unfolding call_bind_Some [of prepare] prepares_def by blast
    obtain cs where cs: "calls sys2 = calls sys1 @ cs" "set cs \<subseteq> range Live_v6only_off"
      using sys2 prepare unfolding prepares_def by blast
    obtain e sys3 where "close_and_fail world (rep_result r) e sys3 = Some (Inl err, sys')" "calls sys3 = calls sys2"
      using rest unfolding call_catch_Some
      by (auto simp: call_return_def dest: calls_call_arg calls_call_update)
    then show ?thesis
      using closing [of e sys3] cs calls1 by auto
  qed
qed

lemma new_descriptor_failed:
  assumes error: "new_descriptor world syscall r prepare store sys = Some (Inl err, sys')"
    and fd: "rep_result r < 0"
  shows "calls sys' = calls sys"
  using assms by (auto simp: new_descriptor_def call_catch_Some call_defs dest: calls_end_syscall)

text \<open>So a handler that creates a descriptor and then calls \<open>new_descriptor\<close> leaves none behind.\<close>

lemma create_no_leak:
  assumes created: "begin_syscall syscall sys = Some (Inr (), sys1)"
      "make_call world syscall c sys1 = Some (Inr r, sys2)"
      "new_descriptor world syscall r prepare store sys2 = Some (Inl err, sys')"
    and creates: "\<And>history fds. held world history fds [c] =
        (if rep_result (kernel world (history @ [c])) \<ge> 0 then rep_result (kernel world (history @ [c])) # fds else fds)"
    and prepare: "prepares prepare"
  shows "\<exists>new. calls sys' = calls sys @ new \<and> held world (calls sys) [] new = []"
proof -
  have calls2: "calls sys2 = calls sys @ [c]" and r: "r = kernel world (calls sys @ [c])"
    using created by (auto dest!: calls_make_call calls_begin_syscall)
  have step: "held world (calls sys) [] (c # cs) = held world (calls sys @ [c]) (held world (calls sys) [] [c]) cs" for cs
    by (simp add: Let_def)
  show ?thesis
  proof (cases "rep_result r < 0")
    case True
    then have "calls sys' = calls sys @ [c]"
      using new_descriptor_failed [OF created(3)] calls2 by simp
    then show ?thesis
      using True creates [of "calls sys" "[]"] r by (intro exI [of _ "[c]"]) (auto simp del: held.simps)
  next
    case False
    then obtain pre where pre: "calls sys' = calls sys2 @ pre @ [Live_close (rep_result r)]"
        "set pre \<subseteq> range Live_v6only_off"
      using new_descriptor_error [OF created(3) prepare] by auto
    have "held world (calls sys) [] (c # pre @ [Live_close (rep_result r)]) = []"
      using False r creates [of "calls sys" "[]"]
        held_v6only [OF pre(2), of world "calls sys @ [c]" "[rep_result r]" "[Live_close (rep_result r)]"]
      by (subst step) (simp del: held.simps(2) add: held.simps(2) [of _ _ _ "Live_close x" for x] Let_def)
    then show ?thesis
      using pre(1) calls2 by (intro exI [of _ "c # pre @ [Live_close (rep_result r)]"]) simp
  qed
qed

text \<open>Before the descriptor is created, errors leave the calls as they are.\<close>

lemma leading_step:
  assumes "call_bind m f sys = Some (Inl err, sys')" and "\<And>res sys1. m sys = Some (res, sys1) \<Longrightarrow> sys1 = sys"
  shows "sys' = sys \<or> (\<exists>v. f v sys = Some (Inl err, sys'))"
  using assms unfolding call_bind_Some by blast

lemma creating_tail:
  assumes "call_bind (begin_syscall syscall) (\<lambda>_. call_bind (make_call world syscall c) (\<lambda>r.
      new_descriptor world syscall r (prepare r) (store r))) sys = Some (Inl err, sys')"
    and "\<And>history fds. held world history fds [c] =
        (if rep_result (kernel world (history @ [c])) \<ge> 0 then rep_result (kernel world (history @ [c])) # fds else fds)"
    and "\<And>r. prepares (prepare r)"
  shows "\<exists>new. calls sys' = calls sys @ new \<and> held world (calls sys) [] new = []"
proof -
  obtain u sys1 r sys2 where "begin_syscall syscall sys = Some (Inr u, sys1)"
      "make_call world syscall c sys1 = Some (Inr r, sys2)"
      "new_descriptor world syscall r (prepare r) (store r) sys2 = Some (Inl err, sys')"
    using assms(1) begin_syscall_Inr [of syscall sys] unfolding call_bind_Some
    by (auto dest: calls_make_call)
  then show ?thesis
    using create_no_leak [of syscall sys sys1 world c r sys2 "prepare r" "store r" err sys'] assms(2,3) by simp
qed

definition leaves_nothing :: "world \<Rightarrow> sys \<Rightarrow> sys \<Rightarrow> bool" where
  "leaves_nothing world sys sys' \<longleftrightarrow> (\<exists>new. calls sys' = calls sys @ new \<and> held world (calls sys) [] new = [])"

lemma leaves_nothing_refl: "leaves_nothing world sys sys"
  by (simp add: leaves_nothing_def)

lemma leading_leaves_nothing:
  assumes "call_bind m f sys = Some (Inl err, sys')"
    and "\<And>v. f v sys = Some (Inl err, sys') \<Longrightarrow> leaves_nothing world sys sys'"
    and "\<And>res sys1. m sys = Some (res, sys1) \<Longrightarrow> sys1 = sys"
  shows "leaves_nothing world sys sys'"
  using leading_step [OF assms(1)] assms(2,3) leaves_nothing_refl by metis

lemmas leading_leave_nothing =
  leading_leaves_nothing [where m = "call_arg r" for r, OF _ _ calls_call_arg]
  leading_leaves_nothing [where m = "call_state g" for g, OF _ _ calls_call_state]
  leading_leaves_nothing [where m = "fd_arg args i" for args i, OF _ _ calls_fd_arg]

lemma creating_calls_leave_nothing:
  assumes "handler = syscall_socket \<or> handler = syscall_accept \<or> handler = syscall_open"
    and "handler world syscall args sys = Some (Inl err, sys')"
  shows "leaves_nothing world sys sys'"
  using assms
proof (elim disjE)
  assume "handler = syscall_socket"
  with assms(2) show ?thesis
    unfolding syscall_socket_def
    by (simp only:) (elim leading_leave_nothing, unfold leaves_nothing_def, erule creating_tail,
      simp add: Let_def, rule prepares_disable_v6only)
next
  assume "handler = syscall_accept"
  with assms(2) show ?thesis
    unfolding syscall_accept_def case_prod_beta
    by (simp only:) (elim leading_leave_nothing, unfold leaves_nothing_def, erule creating_tail,
      simp add: Let_def, rule prepares_return)
next
  assume "handler = syscall_open"
  with assms(2) show ?thesis
    unfolding syscall_open_def
    by (simp only:) (elim leading_leave_nothing, unfold leaves_nothing_def, erule creating_tail,
      simp add: Let_def, rule prepares_return)
qed

text \<open>C14: no leak of descriptors. When \<^verbatim>\<open>socket\<close>, \<^verbatim>\<open>accept\<close> or \<^verbatim>\<open>open\<close> end in an error, because the arguments are wrong,
  the kernel's result is not the one the script expects or the new descriptor cannot be entered in the table, every
  descriptor that the kernel has handed out during the call has been closed again.\<close>

theorem creating_calls_no_leak:
  assumes "handler = syscall_socket \<or> handler = syscall_accept \<or> handler = syscall_open"
    and "handler world syscall args sys = Some (Inl err, sys')"
  shows "\<exists>new. calls sys' = calls sys @ new \<and> held world (calls sys) [] new = []"
  using creating_calls_leave_nothing [OF assms] by (simp add: leaves_nothing_def)

definition example_world :: world where
  "example_world = \<lparr> kernel = \<lambda>history. \<lparr> rep_result = 5, rep_errno = 0, rep_addr = [], rep_value = 0, rep_revents = [] \<rparr>,
     meanwhile = \<lambda>_ state. state, platform_symbols = [] \<rparr>"

definition example_sys :: sys where
  "example_sys = \<lparr> run_state = example_state, thread_state = SYSCALL_IDLE, live_end_usecs = - 1, calls = [] \<rparr>"

definition example_call :: "string \<Rightarrow> system_call" where
  "example_call name = \<lparr> syscall_name = name, end_usecs = - 1, sc_result = Expr_integer (- 1), sc_errno_macro = None \<rparr>"

lemmas example_call_steps = example_world_def example_call_def example_sys_def call_bind_def call_catch_def
  call_defs call_state_def check_arg_count_def get_arg_count_def Let_def status_bind_def get_s32_def check_type_def
  begin_syscall_def make_call_def is_blocking_syscall_def end_syscall_def finish_blocking_def syscall_spec.defs

theorem creating_calls_no_leak_witness:
  "\<exists>sys'. syscall_socket example_world (example_call ''socket'') [Expr_ellipsis, Expr_integer 1, Expr_integer 6] example_sys =
      Some (Inl (Expected_result (- 1) 5 0), sys') \<and>
    calls sys' = [Live_socket (socket_domain (st_config example_state)) 1 6, Live_close 5] \<and>
    (\<exists>new. calls sys' = calls example_sys @ new \<and> held example_world (calls example_sys) [] new = [])"
proof -
  define sys' where "sys' = example_sys\<lparr> calls := [Live_socket (socket_domain (st_config example_state)) 1 6, Live_close 5] \<rparr>"
  have eq: "syscall_socket example_world (example_call ''socket'') [Expr_ellipsis, Expr_integer 1, Expr_integer 6]
      example_sys = Some (Inl (Expected_result (- 1) 5 0), sys')"
    by (simp add: syscall_socket_def example_call_steps sys'_def s32_arg_def numeral_2_eq_2 ellipsis_arg_def
        new_descriptor_def close_and_fail_def
        live_locked_def check_result_def)
  from this have "\<exists>new. calls sys' = calls example_sys @ new \<and> held example_world (calls example_sys) [] new = []"
    by (rule creating_calls_no_leak [where handler = syscall_socket, rotated]) simp
  then show ?thesis
    using eq by (auto simp: sys'_def)
qed

text \<open>C37: \<^verbatim>\<open>sctp_peeloff\<close> does leak. When it ends in an error after the kernel has been called, the descriptor that the
  kernel has handed out is still open: no error path closes it.\<close>

theorem sctp_peeloff_leaks:
  assumes "syscall_sctp_peeloff world syscall args sys = Some (Inl err, sys')" and "calls sys' \<noteq> calls sys"
  shows "\<exists>c. calls sys' = calls sys @ [c] \<and> held world (calls sys) [] [c] =
      (let fd = rep_result (kernel world (calls sys @ [c])) in if fd \<ge> 0 then [fd] else [])"
  using assms unfolding syscall_sctp_peeloff_def
  by (auto simp: call_bind_Some call_catch_Some call_return_def call_fail_def Let_def begin_syscall_Inr
      dest!: calls_call_arg calls_fd_arg calls_make_call calls_end_syscall calls_begin_syscall calls_call_update)

definition example_socket_open :: sys where
  "example_socket_open = example_sys\<lparr> run_state := (case run_syscall_socket example_state AF_INET 132 3 4 of
     Some (Inr state) \<Rightarrow> state | _ \<Rightarrow> example_state) \<rparr>"

theorem sctp_peeloff_leaks_witness:
  "\<exists>sys'. syscall_sctp_peeloff example_world (example_call ''sctp_peeloff'') [Expr_integer 3, Expr_integer 1]
      example_socket_open = Some (Inl (Expected_result (- 1) 5 0), sys') \<and>
    (\<exists>c. calls sys' = calls example_socket_open @ [c] \<and> held example_world (calls example_socket_open) [] [c] = [5])"
proof -
  obtain st where st: "run_syscall_socket example_state AF_INET 132 3 4 = Some (Inr st)" "table_ok st"
      "fd_table st 3 = Some 4"
    using run_syscall_socket_table [of example_state 3 4 AF_INET 132]
    by (auto simp: table_ok_empty example_state_def fd_table_def open_fds_def)
  then have fd: "to_live_fd st 3 = Some (Inr 4)"
    using to_live_fd_table [of st 3] by simp
  define sys' where "sys' = example_sys\<lparr> run_state := st, calls := [Live_sctp_peeloff 4 1] \<rparr>"
  have eq: "syscall_sctp_peeloff example_world (example_call ''sctp_peeloff'') [Expr_integer 3, Expr_integer 1]
      example_socket_open = Some (Inl (Expected_result (- 1) 5 0), sys')"
    by (simp add: syscall_sctp_peeloff_def example_call_steps example_socket_open_def st(1) fd fd_arg_def s32_arg_def
        get_sctp_assoc_t_def check_result_def sys'_def)
  have "calls sys' \<noteq> calls example_socket_open"
    by (simp add: sys'_def example_socket_open_def example_sys_def)
  from sctp_peeloff_leaks [OF eq this] eq show ?thesis
    by (auto simp: example_world_def Let_def)
qed

end
