(* ===== verification/Syscall_Thread.thy ===== *)
theory Syscall_Thread
  imports Socket_Calls
begin

text \<open>
  The thread that runs blocking system calls (\<^verbatim>\<open>run_system_call.c\<close>) and how it hands over to the main thread. The two
  threads share the state of a run, which is protected by one lock, and wait for each other on three condition
  variables.

  A state records who holds the lock, where each thread is, and the shared variables of the protocol. An action
  takes one thread from one point where it acquires or releases the lock to the next; it is enabled only if the
  thread is at its start and the lock, if needed, is free. A wait on a condition variable may end without a signal,
  and a wait with a time limit may end at any time; \<open>main_woken\<close> and \<open>worker_woken\<close> tell whether the waiting thread
  has been signalled. The program may end by an error message, or by a failed assertion, which sets \<open>failed\<close>: then
  there are no more actions. What the events and the handlers do to the rest of the state, and how long they take, is left open.
\<close>

section \<open>The state of the two threads\<close>

datatype thread = Main_thread | Syscall_thread

text \<open>Why the main thread waits for the other one: to start a call or to stop the thread, in the latter case with the
  argument \<^verbatim>\<open>about_to_die\<close>.\<close>

datatype purpose = To_enqueue | To_free bool

datatype main_point =
    Main_loop | Main_run | Main_sleep
  | Main_await purpose | Main_timedwait purpose
  | Main_dequeue | Main_dequeue_wait | Main_yield
  | Main_join | Main_cleanup | Main_ended | Main_died

datatype worker_point =
    Worker_start | Worker_switch | Worker_wait
  | Worker_sleep | Worker_prepare | Worker_signal | Worker_call | Worker_finish
  | Worker_exited | Worker_cancelled | Worker_died

record threads =
  lock_owner :: "thread option"
  main_at :: main_point
  worker_at :: worker_point
  current_event :: event
  syscalls_state :: syscall_state_t
  syscalls_event :: "event option"
  syscalls_end_usecs :: int
  main_woken :: bool
  worker_woken :: bool
  cancelled :: bool
  failed :: bool

definition is_syscall_event :: "event \<Rightarrow> bool" where
  "is_syscall_event e = (case event_body e of SYSCALL_EVENT _ \<Rightarrow> True | _ \<Rightarrow> False)"

definition is_blocking_event :: "event \<Rightarrow> bool" where
  "is_blocking_event e = (case event_body e of SYSCALL_EVENT syscall \<Rightarrow> is_blocking_syscall syscall | _ \<Rightarrow> False)"

text \<open>The handlers of two calls return success without making a system call.\<close>

definition handler_makes_call :: "event \<Rightarrow> bool" where
  "handler_makes_call e = (case event_body e of
      SYSCALL_EVENT syscall \<Rightarrow> syscall_name syscall \<noteq> ''sctp_freepaddrs'' \<and> syscall_name syscall \<noteq> ''sctp_freeladdrs''
    | _ \<Rightarrow> True)"

definition run_lock :: "thread \<Rightarrow> threads \<Rightarrow> threads option" where
  "run_lock t st = (if lock_owner st = None then Some (st\<lparr> lock_owner := Some t \<rparr>) else None)"

definition run_unlock :: "threads \<Rightarrow> threads" where
  "run_unlock st = st\<lparr> lock_owner := None \<rparr>"

definition exit_process :: "threads \<Rightarrow> threads" where
  "exit_process st = st\<lparr> lock_owner := None, main_at := Main_died, worker_at := Worker_died \<rparr>"

text \<open>An assertion and what follows when it holds.\<close>

definition thread_assert :: "bool \<Rightarrow> (threads \<Rightarrow> threads) \<Rightarrow> threads \<Rightarrow> threads" where
  "thread_assert P f st = (if P then f st else exit_process (st\<lparr> failed := True \<rparr>))"

text \<open>Signals reach the thread that waits on the condition variable and are lost otherwise.\<close>

definition signal_enqueued :: "threads \<Rightarrow> threads" where
  "signal_enqueued st = (if worker_at st = Worker_wait then st\<lparr> worker_woken := True \<rparr> else st)"

definition signal_dequeued :: "threads \<Rightarrow> threads" where
  "signal_dequeued st = (if main_at st = Main_dequeue_wait then st\<lparr> main_woken := True \<rparr> else st)"

definition signal_idle :: "threads \<Rightarrow> threads" where
  "signal_idle st = (case main_at st of Main_timedwait _ \<Rightarrow> st\<lparr> main_woken := True \<rparr> | _ \<Rightarrow> st)"

section \<open>The main thread\<close>

definition enqueue_system_call :: "threads \<Rightarrow> threads" where
  "enqueue_system_call st =
     signal_enqueued (st\<lparr> syscalls_state := SYSCALL_ENQUEUED, main_at := Main_dequeue \<rparr>)"

definition syscalls_free :: "threads \<Rightarrow> threads" where
  "syscalls_free st =
     run_unlock (signal_enqueued (st\<lparr> syscalls_state := SYSCALL_EXITING, main_at := Main_join \<rparr>))"

definition cancel_thread :: "threads \<Rightarrow> threads" where
  "cancel_thread st = run_unlock (st\<lparr> cancelled := True, main_at := Main_join \<rparr>)"

text \<open>The head of the loop of \<^verbatim>\<open>await_idle_thread\<close>, and what follows when it is left.\<close>

definition await_idle_thread :: "purpose \<Rightarrow> threads \<Rightarrow> threads" where
  "await_idle_thread p st =
     (if syscalls_state st \<noteq> SYSCALL_IDLE
      then run_unlock (st\<lparr> main_at := Main_timedwait p, main_woken := False \<rparr>)
      else case p of To_enqueue \<Rightarrow> enqueue_system_call st | To_free _ \<Rightarrow> syscalls_free st)"

text \<open>A timeout is reported even if the thread has become idle in the meantime. It ends an attempt to start a call by
  an error, for which the state is freed; it ends the program if the state is freed without an error.\<close>

definition await_timed_out :: "purpose \<Rightarrow> threads \<Rightarrow> threads" where
  "await_timed_out p st = (case p of
      To_enqueue \<Rightarrow> st\<lparr> main_at := Main_await (To_free True) \<rparr>
    | To_free about_to_die \<Rightarrow> if about_to_die then cancel_thread st else exit_process st)"

definition await_dequeued :: "threads \<Rightarrow> threads" where
  "await_dequeued st =
     (if syscalls_state st = SYSCALL_ENQUEUED
      then run_unlock (st\<lparr> main_at := Main_dequeue_wait, main_woken := False \<rparr>)
      else run_unlock (st\<lparr> main_at := Main_yield \<rparr>))"

section \<open>The system call thread\<close>

definition thread_begin_syscall :: "threads \<Rightarrow> threads" where
  "thread_begin_syscall st =
     (if map_option is_blocking_event (syscalls_event st) = Some True
      then thread_assert (syscalls_state st = SYSCALL_ENQUEUED)
        (\<lambda>st. run_unlock (st\<lparr> syscalls_state := SYSCALL_RUNNING, worker_at := Worker_signal \<rparr>)) st
      else st\<lparr> worker_at := Worker_call \<rparr>)"

definition thread_end_syscall :: "nat \<Rightarrow> threads \<Rightarrow> threads option" where
  "thread_end_syscall now st =
     (if map_option is_blocking_event (syscalls_event st) = Some True
      then do {
        st \<leftarrow> run_lock Syscall_thread st;
        Some (thread_assert (syscalls_state st = SYSCALL_RUNNING) (\<lambda>st. st\<lparr> syscalls_end_usecs := int now,
          syscalls_state := SYSCALL_DONE, worker_at := Worker_finish \<rparr>) st)
      }
      else Some (st\<lparr> worker_at := Worker_finish \<rparr>))"

text \<open>One round of the loop of the thread, up to the wait for the time of the event.\<close>

definition system_call_thread :: "threads \<Rightarrow> threads" where
  "system_call_thread st = (case syscalls_state st of
      SYSCALL_IDLE \<Rightarrow> run_unlock (st\<lparr> worker_at := Worker_wait, worker_woken := False \<rparr>)
    | SYSCALL_RUNNING \<Rightarrow> thread_assert False (\<lambda>st. st) st
    | SYSCALL_DONE \<Rightarrow> thread_assert False (\<lambda>st. st) st
    | SYSCALL_ENQUEUED \<Rightarrow> thread_assert (is_syscall_event (current_event st)) (\<lambda>st. run_unlock (st\<lparr>
        syscalls_event := Some (current_event st), syscalls_end_usecs := - 1, worker_at := Worker_sleep \<rparr>)) st
    | SYSCALL_EXITING \<Rightarrow> run_unlock (st\<lparr> worker_at := Worker_exited \<rparr>))"

definition call_finished :: "threads \<Rightarrow> threads" where
  "call_finished st =
     thread_assert (syscalls_end_usecs st \<ge> 0 \<and> syscalls_state st = SYSCALL_DONE)
       (\<lambda>st. signal_idle (st\<lparr> syscalls_state := SYSCALL_IDLE, syscalls_event := None, syscalls_end_usecs := - 1,
         worker_at := Worker_switch \<rparr>)) st"

text \<open>A thread that is cancelled while it waits on a condition variable acquires the lock before it ends; at other points
  it leaves the lock as it is. Nothing releases the lock of a thread that was cancelled.\<close>

definition cancel_worker :: "threads \<Rightarrow> threads option" where
  "cancel_worker st = (case worker_at st of
      Worker_wait \<Rightarrow> map_option (\<lambda>st. st\<lparr> worker_at := Worker_cancelled \<rparr>) (run_lock Syscall_thread st)
    | Worker_sleep \<Rightarrow> Some (st\<lparr> worker_at := Worker_cancelled \<rparr>)
    | Worker_prepare \<Rightarrow> Some (st\<lparr> worker_at := Worker_cancelled \<rparr>)
    | Worker_call \<Rightarrow> Some (st\<lparr> worker_at := Worker_cancelled \<rparr>)
    | Worker_finish \<Rightarrow> Some (st\<lparr> worker_at := Worker_cancelled \<rparr>)
    | _ \<Rightarrow> None)"

section \<open>Actions\<close>

datatype action =
    Next_event event | Event_done | Event_sleeps | Event_wakes | Event_fails | Event_dies | Blocking_call | Script_done
  | Await | Await_wakes | Await_times_out | Dequeue | Dequeue_wakes | Yield_again | Yield_done
  | Join | Cleaned_up
  | Worker_locks | Worker_loops | Worker_wakes | Worker_time_comes | Worker_begins | Worker_skips | Worker_signals
  | Worker_ends nat | Worker_verified | Worker_fails | Worker_is_cancelled

fun act :: "action \<Rightarrow> threads \<Rightarrow> threads option" where
  "act (Next_event e) st =
     (if main_at st = Main_loop then Some (st\<lparr> current_event := e, main_at := Main_run \<rparr>) else None)"
| "act Event_done st =
     (if main_at st = Main_run \<and> \<not> is_blocking_event (current_event st)
      then Some (st\<lparr> main_at := Main_loop \<rparr>) else None)"
| "act Event_sleeps st =
     (if main_at st = Main_run \<and> \<not> is_blocking_event (current_event st)
      then Some (run_unlock (st\<lparr> main_at := Main_sleep \<rparr>)) else None)"
| "act Event_wakes st =
     (if main_at st = Main_sleep then run_lock Main_thread (st\<lparr> main_at := Main_run \<rparr>) else None)"
| "act Event_fails st =
     (if main_at st = Main_loop \<or> main_at st = Main_run \<and> \<not> is_blocking_event (current_event st)
      then Some (st\<lparr> main_at := Main_await (To_free True) \<rparr>) else None)"
| "act Event_dies st = (if main_at st = Main_run then Some (exit_process st) else None)"
| "act Blocking_call st =
     (if main_at st = Main_run \<and> is_blocking_event (current_event st)
      then Some (st\<lparr> main_at := Main_await To_enqueue \<rparr>) else None)"
| "act Script_done st =
     (if main_at st = Main_loop then Some (st\<lparr> main_at := Main_await (To_free False) \<rparr>) else None)"
| "act Await st = (case main_at st of Main_await p \<Rightarrow> Some (await_idle_thread p st) | _ \<Rightarrow> None)"
| "act Await_wakes st = (case main_at st of
      Main_timedwait p \<Rightarrow> run_lock Main_thread (st\<lparr> main_at := Main_await p \<rparr>) | _ \<Rightarrow> None)"
| "act Await_times_out st = (case main_at st of
      Main_timedwait p \<Rightarrow> map_option (await_timed_out p) (run_lock Main_thread st) | _ \<Rightarrow> None)"
| "act Dequeue st = (if main_at st = Main_dequeue then Some (await_dequeued st) else None)"
| "act Dequeue_wakes st =
     (if main_at st = Main_dequeue_wait then run_lock Main_thread (st\<lparr> main_at := Main_dequeue \<rparr>) else None)"
| "act Yield_again st =
     (if main_at st = Main_yield \<and> syscalls_state st \<noteq> SYSCALL_IDLE \<and> lock_owner st = None then Some st else None)"
| "act Yield_done st =
     (if main_at st = Main_yield then run_lock Main_thread (st\<lparr> main_at := Main_loop \<rparr>) else None)"
| "act Join st =
     (if main_at st = Main_join \<and> (worker_at st = Worker_exited \<or> worker_at st = Worker_cancelled)
      then run_lock Main_thread (st\<lparr> main_at := Main_cleanup \<rparr>) else None)"
| "act Cleaned_up st =
     (if main_at st = Main_cleanup then Some (run_unlock (st\<lparr> main_at := Main_ended \<rparr>)) else None)"
| "act Worker_locks st =
     (if worker_at st = Worker_start then run_lock Syscall_thread (st\<lparr> worker_at := Worker_switch \<rparr>) else None)"
| "act Worker_loops st = (if worker_at st = Worker_switch then Some (system_call_thread st) else None)"
| "act Worker_wakes st =
     (if worker_at st = Worker_wait then run_lock Syscall_thread (st\<lparr> worker_at := Worker_switch \<rparr>) else None)"
| "act Worker_time_comes st =
     (if worker_at st = Worker_sleep then run_lock Syscall_thread (st\<lparr> worker_at := Worker_prepare \<rparr>) else None)"
| "act Worker_begins st =
     (if worker_at st = Worker_prepare \<and> map_option handler_makes_call (syscalls_event st) \<noteq> Some False
      then Some (thread_begin_syscall st) else None)"
| "act Worker_skips st =
     (if worker_at st = Worker_prepare \<and> map_option handler_makes_call (syscalls_event st) = Some False
      then Some (st\<lparr> worker_at := Worker_finish \<rparr>) else None)"
| "act Worker_signals st =
     (if worker_at st = Worker_signal then Some (signal_dequeued (st\<lparr> worker_at := Worker_call \<rparr>)) else None)"
| "act (Worker_ends now) st = (if worker_at st = Worker_call then thread_end_syscall now st else None)"
| "act Worker_verified st = (if worker_at st = Worker_finish then Some (call_finished st) else None)"
| "act Worker_fails st =
     (if worker_at st = Worker_prepare \<or> worker_at st = Worker_finish then Some (exit_process st) else None)"
| "act Worker_is_cancelled st = (if cancelled st then cancel_worker st else None)"

text \<open>The main thread has the lock when it creates the other one.\<close>

definition syscalls_new :: "event \<Rightarrow> threads" where
  "syscalls_new e = \<lparr> lock_owner = Some Main_thread, main_at = Main_loop, worker_at = Worker_start, current_event = e,
     syscalls_state = SYSCALL_IDLE, syscalls_event = None, syscalls_end_usecs = 0, main_woken = False,
     worker_woken = False, cancelled = False, failed = False \<rparr>"

inductive interleaving :: "threads \<Rightarrow> bool" where
  interleaving_new: "interleaving (syscalls_new e)"
| interleaving_act: "interleaving st \<Longrightarrow> act a st = Some st' \<Longrightarrow> interleaving st'"

fun run_actions :: "action list \<Rightarrow> threads \<Rightarrow> threads option" where
  "run_actions [] st = Some st"
| "run_actions (a # acts) st = Option.bind (act a st) (run_actions acts)"

lemma interleaving_run:
  "interleaving st \<Longrightarrow> run_actions acts st = Some st' \<Longrightarrow> interleaving st'"
  by (induction acts arbitrary: st) (auto intro: interleaving_act split: bind_splits)

section \<open>The invariant of the protocol\<close>

fun main_has_lock :: "main_point \<Rightarrow> bool" where
  "main_has_lock Main_loop = True"
| "main_has_lock Main_run = True"
| "main_has_lock (Main_await p) = True"
| "main_has_lock Main_dequeue = True"
| "main_has_lock Main_cleanup = True"
| "main_has_lock _ = False"

fun worker_has_lock :: "worker_point \<Rightarrow> bool" where
  "worker_has_lock Worker_switch = True"
| "worker_has_lock Worker_prepare = True"
| "worker_has_lock Worker_finish = True"
| "worker_has_lock _ = False"

definition lock_ok :: "threads \<Rightarrow> bool" where
  "lock_ok st \<longleftrightarrow> (lock_owner st = Some Main_thread \<longleftrightarrow> main_has_lock (main_at st)) \<and>
     (worker_at st \<noteq> Worker_cancelled \<longrightarrow>
        (lock_owner st = Some Syscall_thread \<longleftrightarrow> worker_has_lock (worker_at st)))"

fun main_ok :: "main_point \<Rightarrow> threads \<Rightarrow> bool" where
  "main_ok Main_join st \<longleftrightarrow> cancelled st \<or> syscalls_state st = SYSCALL_EXITING"
| "main_ok Main_cleanup st \<longleftrightarrow> worker_at st = Worker_exited \<or> worker_at st = Worker_cancelled"
| "main_ok Main_ended st \<longleftrightarrow> worker_at st = Worker_exited \<or> worker_at st = Worker_cancelled"
| "main_ok Main_died st \<longleftrightarrow> worker_at st = Worker_died"
| "main_ok Main_dequeue st \<longleftrightarrow> \<not> cancelled st \<and> syscalls_state st \<noteq> SYSCALL_EXITING \<and> is_blocking_event (current_event st)"
| "main_ok Main_dequeue_wait st \<longleftrightarrow> \<not> cancelled st \<and> syscalls_state st \<noteq> SYSCALL_EXITING \<and>
     is_blocking_event (current_event st) \<and>
     (syscalls_state st \<noteq> SYSCALL_ENQUEUED \<and> worker_at st \<noteq> Worker_signal \<longrightarrow> main_woken st)"
| "main_ok (Main_await p) st \<longleftrightarrow> \<not> cancelled st \<and> syscalls_state st \<noteq> SYSCALL_EXITING \<and>
     (p = To_enqueue \<longrightarrow> is_blocking_event (current_event st))"
| "main_ok (Main_timedwait p) st \<longleftrightarrow> \<not> cancelled st \<and> syscalls_state st \<noteq> SYSCALL_EXITING \<and>
     (p = To_enqueue \<longrightarrow> is_blocking_event (current_event st))"
| "main_ok _ st \<longleftrightarrow> \<not> cancelled st \<and> syscalls_state st \<noteq> SYSCALL_EXITING"

fun worker_ok :: "worker_point \<Rightarrow> threads \<Rightarrow> bool" where
  "worker_ok Worker_sleep st \<longleftrightarrow>
     syscalls_state st = SYSCALL_ENQUEUED \<and> syscalls_event st = Some (current_event st)"
| "worker_ok Worker_prepare st \<longleftrightarrow>
     syscalls_state st = SYSCALL_ENQUEUED \<and> syscalls_event st = Some (current_event st)"
| "worker_ok Worker_signal st \<longleftrightarrow> syscalls_state st = SYSCALL_RUNNING \<and>
     map_option is_blocking_event (syscalls_event st) = Some True"
| "worker_ok Worker_call st \<longleftrightarrow> syscalls_state st = SYSCALL_RUNNING \<and>
     map_option is_blocking_event (syscalls_event st) = Some True"
| "worker_ok Worker_finish st \<longleftrightarrow> syscalls_state st = SYSCALL_DONE \<and> syscalls_end_usecs st \<ge> 0 \<or>
     syscalls_state st = SYSCALL_ENQUEUED \<and> syscalls_event st = Some (current_event st) \<and>
     \<not> handler_makes_call (current_event st)"
| "worker_ok Worker_exited st \<longleftrightarrow> syscalls_state st = SYSCALL_EXITING"
| "worker_ok Worker_cancelled st \<longleftrightarrow> cancelled st"
| "worker_ok Worker_died st \<longleftrightarrow> main_at st = Main_died"
| "worker_ok Worker_wait st \<longleftrightarrow>
     syscalls_state st \<in> {SYSCALL_IDLE, SYSCALL_ENQUEUED, SYSCALL_EXITING} \<and>
     (syscalls_state st \<noteq> SYSCALL_IDLE \<longrightarrow> worker_woken st)"
| "worker_ok _ st \<longleftrightarrow> syscalls_state st \<in> {SYSCALL_IDLE, SYSCALL_ENQUEUED, SYSCALL_EXITING}"

text \<open>A blocking call whose handler makes no system call: the only reason for a failed assertion.\<close>

definition call_skipped :: "threads \<Rightarrow> bool" where
  "call_skipped st \<longleftrightarrow> syscalls_event st = Some (current_event st) \<and> is_blocking_event (current_event st) \<and>
     \<not> handler_makes_call (current_event st)"

definition threads_ok :: "threads \<Rightarrow> bool" where
  "threads_ok st \<longleftrightarrow> (failed st \<longrightarrow> main_at st = Main_died \<and> call_skipped st) \<and> lock_ok st \<and> main_ok (main_at st) st \<and> worker_ok (worker_at st) st \<and>
     (syscalls_state st = SYSCALL_ENQUEUED \<and> main_at st \<noteq> Main_died \<longrightarrow>
        main_at st = Main_dequeue \<or> main_at st = Main_dequeue_wait)"

lemma blocking_is_syscall: "is_blocking_event e \<Longrightarrow> is_syscall_event e"
  by (simp add: is_blocking_event_def is_syscall_event_def split: event_body.splits)

lemma threads_ok_new: "threads_ok (syscalls_new e)"
  by (simp add: threads_ok_def syscalls_new_def lock_ok_def)

lemmas thread_actions = run_lock_def run_unlock_def thread_assert_def signal_enqueued_def
  signal_dequeued_def signal_idle_def enqueue_system_call_def syscalls_free_def cancel_thread_def
  await_idle_thread_def await_timed_out_def await_dequeued_def thread_begin_syscall_def thread_end_syscall_def
  system_call_thread_def call_finished_def cancel_worker_def

fun worker_action :: "action \<Rightarrow> bool" where
  "worker_action Worker_locks = True"
| "worker_action Worker_loops = True"
| "worker_action Worker_wakes = True"
| "worker_action Worker_time_comes = True"
| "worker_action Worker_begins = True"
| "worker_action Worker_skips = True"
| "worker_action Worker_signals = True"
| "worker_action (Worker_ends now) = True"
| "worker_action Worker_verified = True"
| "worker_action Worker_fails = True"
| "worker_action Worker_is_cancelled = True"
| "worker_action _ = False"

lemma threads_ok_exit: "(failed st \<Longrightarrow> call_skipped st) \<Longrightarrow> threads_ok (exit_process st)"
  by (simp add: threads_ok_def lock_ok_def exit_process_def call_skipped_def)

text \<open>An action by which the program ends.\<close>

lemma exiting_act:
  assumes "threads_ok st" and "act a st = Some st'" and "main_at st' = Main_died"
  shows "\<exists>st0. st' = exit_process st0 \<and> (failed st0 \<longrightarrow> call_skipped st0)"
proof -
  have alive: "main_at st \<noteq> Main_died"
    using assms(1,2) by (cases a) (auto simp: threads_ok_def cancel_worker_def split: if_splits)
  then have ok: "\<not> failed st" "worker_ok (worker_at st) st" "main_ok (main_at st) st"
      "syscalls_state st = SYSCALL_ENQUEUED \<Longrightarrow> main_at st = Main_dequeue \<or> main_at st = Main_dequeue_wait"
    using assms(1) by (simp_all add: threads_ok_def)
  then have blocking: "syscalls_state st = SYSCALL_ENQUEUED \<Longrightarrow> is_blocking_event (current_event st)"
    by auto
  show ?thesis
  proof (cases "worker_action a")
    case True
    then show ?thesis
      using assms(2,3) alive ok(1,2) blocking
      by (cases a) (auto simp: thread_actions blocking_is_syscall call_skipped_def
          split: if_splits main_point.splits worker_point.splits syscall_state_t.splits bind_splits)
  next
    case False
    then show ?thesis
      using assms(2,3) alive ok(1)
      by (cases a) (auto simp: thread_actions split: if_splits main_point.splits purpose.splits)
  qed
qed

lemma threads_ok_died:
  assumes "threads_ok st" and "act a st = Some st'" and "main_at st' = Main_died"
  shows "threads_ok st'"
  using exiting_act [OF assms] threads_ok_exit by blast

text \<open>What an action of the main thread keeps.\<close>

lemma main_act_frame:
  assumes "\<not> worker_action a" and "act a st = Some st'" and "main_at st' \<noteq> Main_died"
  shows "worker_at st' = worker_at st" "failed st' = failed st" "syscalls_event st' = syscalls_event st"
    "syscalls_end_usecs st' = syscalls_end_usecs st" "cancelled st \<Longrightarrow> cancelled st'"
    "current_event st' = current_event st \<or> main_at st = Main_loop"
    "syscalls_state st' = syscalls_state st \<and> worker_woken st' = worker_woken st \<or>
     syscalls_state st = SYSCALL_IDLE \<and> syscalls_state st' \<in> {SYSCALL_ENQUEUED, SYSCALL_EXITING} \<and>
     (worker_at st = Worker_wait \<longrightarrow> worker_woken st')"
  using assms by (cases a; auto simp: thread_actions exit_process_def split: if_splits main_point.splits purpose.splits)+

lemma main_act_lock_ok:
  assumes "\<not> worker_action a" and "act a st = Some st'" and "main_at st' \<noteq> Main_died" and "lock_ok st"
  shows "lock_ok st'"
  using assms
  by (cases a) (auto simp: thread_actions lock_ok_def exit_process_def split: if_splits main_point.splits purpose.splits)

lemma main_act_main_ok:
  assumes "\<not> worker_action a" and "act a st = Some st'" and "main_at st' \<noteq> Main_died" and "main_ok (main_at st) st"
  shows "main_ok (main_at st') st'"
  using assms
  by (cases a) (auto simp: thread_actions exit_process_def split: if_splits main_point.splits purpose.splits)

lemma main_act_enqueued:
  assumes "\<not> worker_action a" and "act a st = Some st'" and "main_at st' \<noteq> Main_died"
    and "syscalls_state st = SYSCALL_ENQUEUED \<Longrightarrow> main_at st = Main_dequeue \<or> main_at st = Main_dequeue_wait"
    and "syscalls_state st' = SYSCALL_ENQUEUED"
  shows "main_at st' = Main_dequeue \<or> main_at st' = Main_dequeue_wait"
  using assms
  by (cases a) (auto simp: thread_actions exit_process_def split: if_splits main_point.splits purpose.splits)

lemma threads_ok_main_act:
  assumes "\<not> worker_action a" and "threads_ok st" and "act a st = Some st'" and "main_at st' \<noteq> Main_died"
  shows "threads_ok st'"
proof -
  note frame = main_act_frame [OF assms(1,3,4)]
  have alive: "main_at st \<noteq> Main_died"
    using assms(1,3) by (cases a) auto
  then have enqueued: "syscalls_state st = SYSCALL_ENQUEUED \<Longrightarrow> main_at st = Main_dequeue \<or> main_at st = Main_dequeue_wait"
    using assms(2) by (simp add: threads_ok_def)
  have "worker_ok (worker_at st) st"
    using assms(2) by (simp add: threads_ok_def)
  then have "worker_ok (worker_at st') st'"
    using frame enqueued alive by (cases "worker_at st") auto
  then show ?thesis
    using assms(2) alive frame(2) main_act_lock_ok [OF assms(1,3,4)] main_act_main_ok [OF assms(1,3,4)]
      main_act_enqueued [OF assms(1,3,4) enqueued] by (simp add: threads_ok_def)
qed

text \<open>What an action of the system call thread keeps.\<close>

lemma worker_act_frame:
  assumes "worker_action a" and "act a st = Some st'" and "main_at st' \<noteq> Main_died"
  shows "main_at st' = main_at st" "current_event st' = current_event st" "cancelled st' = cancelled st"
  using assms
  by (cases a; auto simp: thread_actions exit_process_def
      split: if_splits worker_point.splits main_point.splits syscall_state_t.splits bind_splits)+

lemma worker_act_lock_ok:
  assumes "worker_action a" and "act a st = Some st'" and "main_at st' \<noteq> Main_died" and "lock_ok st"
    and "worker_ok (worker_at st) st"
    and "syscalls_state st = SYSCALL_ENQUEUED \<Longrightarrow> is_blocking_event (current_event st)"
  shows "lock_ok st'"
  using assms
  by (cases a) (auto simp: thread_actions lock_ok_def exit_process_def
      split: if_splits worker_point.splits main_point.splits syscall_state_t.splits bind_splits)

lemma worker_act_worker_ok:
  assumes "worker_action a" and "act a st = Some st'" and "main_at st' \<noteq> Main_died"
    and "worker_ok (worker_at st) st" and "\<not> failed st"
    and "syscalls_state st = SYSCALL_ENQUEUED \<Longrightarrow> is_blocking_event (current_event st)"
  shows "worker_ok (worker_at st') st' \<and> \<not> failed st'"
  using assms
  by (cases a) (auto simp: thread_actions exit_process_def blocking_is_syscall
      split: if_splits worker_point.splits main_point.splits syscall_state_t.splits bind_splits)

lemma worker_act_states:
  assumes "worker_action a" and "act a st = Some st'" and "main_at st' \<noteq> Main_died"
    and "worker_ok (worker_at st) st"
  shows "syscalls_state st' = SYSCALL_EXITING \<longleftrightarrow> syscalls_state st = SYSCALL_EXITING"
    "syscalls_state st' = SYSCALL_ENQUEUED \<Longrightarrow> syscalls_state st = SYSCALL_ENQUEUED"
    "main_woken st \<Longrightarrow> main_woken st'"
    "main_at st = Main_dequeue_wait \<Longrightarrow> worker_at st = Worker_signal \<Longrightarrow> main_woken st'"
    "syscalls_state st = SYSCALL_ENQUEUED \<Longrightarrow> syscalls_state st' \<noteq> SYSCALL_ENQUEUED \<Longrightarrow> worker_at st' = Worker_signal"
    "worker_at st = Worker_exited \<or> worker_at st = Worker_cancelled \<or> worker_at st = Worker_died \<Longrightarrow> False"
  using assms
  by (cases a; auto simp: thread_actions exit_process_def
      split: if_splits worker_point.splits main_point.splits syscall_state_t.splits bind_splits)+

lemma threads_ok_worker_act:
  assumes "worker_action a" and "threads_ok st" and "act a st = Some st'" and "main_at st' \<noteq> Main_died"
  shows "threads_ok st'"
proof -
  note frame = worker_act_frame [OF assms(1,3,4)]
  have enqueued: "syscalls_state st = SYSCALL_ENQUEUED \<Longrightarrow> main_at st = Main_dequeue \<or> main_at st = Main_dequeue_wait"
    using assms(2,4) frame(1) by (simp add: threads_ok_def)
  have main: "main_ok (main_at st) st" and worker: "worker_ok (worker_at st) st"
    using assms(2) by (simp_all add: threads_ok_def)
  then have blocking: "syscalls_state st = SYSCALL_ENQUEUED \<Longrightarrow> is_blocking_event (current_event st)"
    using enqueued by auto
  note states = worker_act_states [OF assms(1,3,4) worker]
  have "main_ok (main_at st') st'"
    using main frame states assms(4) by (cases "main_at st") auto
  then show ?thesis
    using assms(2,4) frame(1) states(2) enqueued worker_act_lock_ok [OF assms(1,3,4) _ worker blocking]
      worker_act_worker_ok [OF assms(1,3,4) worker _ blocking]
    by (simp add: threads_ok_def)
qed

lemma threads_ok_act: "threads_ok st \<Longrightarrow> act a st = Some st' \<Longrightarrow> threads_ok st'"
  using threads_ok_died threads_ok_main_act threads_ok_worker_act by blast

lemma interleaving_ok: "interleaving st \<Longrightarrow> threads_ok st"
  by (induction rule: interleaving.induct) (auto intro: threads_ok_new threads_ok_act)

section \<open>Progress\<close>

text \<open>Actions that do not depend on luck: a wait ends because of a signal or its time limit, and the main thread
  stops yielding because the other one is idle or in a system call that may block. That a system call returns
  is not taken for granted.\<close>

fun assured :: "action \<Rightarrow> threads \<Rightarrow> bool" where
  "assured Await_wakes st = main_woken st"
| "assured Dequeue_wakes st = main_woken st"
| "assured Worker_wakes st = worker_woken st"
| "assured Yield_again st = False"
| "assured Yield_done st \<longleftrightarrow> syscalls_state st = SYSCALL_IDLE \<or> worker_at st = Worker_call"
| "assured (Worker_ends now) st = False"
| "assured Event_fails st = False"
| "assured Event_dies st = False"
| "assured Worker_fails st = False"
| "assured _ st = True"

definition progresses :: "threads \<Rightarrow> bool" where
  "progresses st \<longleftrightarrow> (\<exists>a. assured a st \<and> act a st \<noteq> None)"

lemma progressesI: "act a st \<noteq> None \<Longrightarrow> assured a st \<Longrightarrow> progresses st"
  by (auto simp: progresses_def)

lemma main_progresses:
  assumes "main_has_lock (main_at st)"
  shows "progresses st"
  using assms
  by (cases "main_at st"; cases "is_blocking_event (current_event st)")
    (auto intro: progressesI [of Script_done] progressesI [of Event_done] progressesI [of Blocking_call]
      progressesI [of Await] progressesI [of Dequeue] progressesI [of Cleaned_up])

lemma worker_progresses:
  assumes "worker_has_lock (worker_at st)"
  shows "progresses st"
  using assms
  by (cases "worker_at st"; cases "map_option handler_makes_call (syscalls_event st) = Some False")
    (auto intro: progressesI [of Worker_loops] progressesI [of Worker_begins] progressesI [of Worker_skips]
      progressesI [of Worker_verified])

lemma free_worker_progresses:
  assumes "lock_owner st = None" and "worker_ok (worker_at st) st" and "\<not> cancelled st"
    and "syscalls_state st \<noteq> SYSCALL_IDLE"
  shows "progresses st \<or> worker_at st = Worker_call \<or> worker_at st = Worker_exited \<or> worker_at st = Worker_died \<or>
    worker_has_lock (worker_at st)"
  using assms
  by (cases "worker_at st")
    (auto simp: run_lock_def intro: progressesI [of Worker_locks] progressesI [of Worker_wakes]
      progressesI [of Worker_time_comes] progressesI [of Worker_signals])

lemma free_main_progresses:
  assumes "lock_owner st = None" and "threads_ok st" and "\<not> cancelled st"
    and "main_at st \<noteq> Main_ended" and "main_at st \<noteq> Main_died"
  shows "progresses st"
proof -
  have ok: "main_ok (main_at st) st" "worker_ok (worker_at st) st" "\<not> main_has_lock (main_at st)"
      "worker_at st \<noteq> Worker_died" "\<not> worker_has_lock (worker_at st)"
      "syscalls_state st = SYSCALL_ENQUEUED \<Longrightarrow> main_at st = Main_dequeue \<or> main_at st = Main_dequeue_wait"
    using assms by (auto simp: threads_ok_def lock_ok_def)
  note worker = free_worker_progresses [OF assms(1) ok(2) assms(3)]
  show ?thesis
  proof (cases "main_at st")
    case Main_dequeue_wait
    show ?thesis
    proof (cases "main_woken st")
      case True
      then show ?thesis
        using Main_dequeue_wait assms(1) by (auto simp: run_lock_def intro: progressesI [of Dequeue_wakes])
    next
      case False
      then have "syscalls_state st = SYSCALL_ENQUEUED \<or> worker_at st = Worker_signal"
        using ok(1) Main_dequeue_wait by auto
      then show ?thesis
        using worker ok(2,4,5) by auto
    qed
  next
    case Main_yield
    then show ?thesis
      using worker ok assms(1) by (cases "syscalls_state st = SYSCALL_IDLE \<or> worker_at st = Worker_call")
        (auto simp: run_lock_def intro: progressesI [of Yield_done])
  next
    case Main_join
    then have "syscalls_state st = SYSCALL_EXITING"
      using ok(1) assms(3) by simp
    then show ?thesis
      using worker ok(2,4,5) Main_join assms(1) by (auto simp: run_lock_def intro: progressesI [of Join])
  qed (use assms ok in \<open>auto simp: run_lock_def intro: progressesI [of Event_wakes] progressesI [of Await_times_out]\<close>)
qed

lemma threads_progress:
  assumes "threads_ok st" and "\<not> cancelled st" and "main_at st \<noteq> Main_ended" and "main_at st \<noteq> Main_died"
  shows "progresses st"
proof (cases "lock_owner st")
  case None
  then show ?thesis
    using free_main_progresses assms by blast
next
  case (Some t)
  have "worker_at st \<noteq> Worker_cancelled"
    using assms(1,2) by (auto simp: threads_ok_def)
  then show ?thesis
    using Some assms(1) main_progresses worker_progresses by (cases t) (auto simp: threads_ok_def lock_ok_def)
qed

section \<open>Properties\<close>


definition example_blocking_event :: event where
  "example_blocking_event = \<lparr> line_number = 1, time_usecs = 0, time_usecs_end = 0, offset_usecs = 0,
     time_type = ABSOLUTE_TIME, event_body = SYSCALL_EVENT \<lparr> syscall_name = ''read'', end_usecs = 7 \<rparr> \<rparr>"

lemma example_is_blocking: "is_blocking_event example_blocking_event" "is_syscall_event example_blocking_event"
    "handler_makes_call example_blocking_event"
  by (simp_all add: example_blocking_event_def is_blocking_event_def is_syscall_event_def is_blocking_syscall_def
      handler_makes_call_def)

text \<open>A script with one blocking call, up to the preparation of the call.\<close>

definition start_call :: "action list" where
  "start_call = [Next_event example_blocking_event, Blocking_call, Await, Dequeue, Worker_locks, Worker_loops,
     Worker_time_comes]"


text \<open>C0: a blocking call that makes no system call ends the program. Whenever the system call thread is about to run the
  handler of a blocking \<^verbatim>\<open>sctp_freepaddrs\<close> or \<^verbatim>\<open>sctp_freeladdrs\<close>, the handler returns without having started a call, and
  every step that the thread can take then ends the program: it reports an error, or it fails the assertion on the
  time at which the call ended.\<close>

theorem skipped_call_aborts:
  assumes "interleaving st" and "worker_at st = Worker_prepare" and "\<not> handler_makes_call (current_event st)"
  shows "\<exists>st1 st2. act Worker_skips st = Some st1 \<and> act Worker_verified st1 = Some st2 \<and>
    failed st2 \<and> main_at st2 = Main_died \<and> act Worker_begins st = None \<and>
    (\<forall>a st'. worker_action a \<longrightarrow> act a st1 = Some st' \<longrightarrow> main_at st' = Main_died)"
proof -
  have ok: "worker_ok (worker_at st) st" "main_ok (main_at st) st"
      "syscalls_state st = SYSCALL_ENQUEUED \<and> main_at st \<noteq> Main_died \<longrightarrow>
        main_at st = Main_dequeue \<or> main_at st = Main_dequeue_wait"
    using interleaving_ok [OF assms(1)] by (simp_all add: threads_ok_def)
  define st1 where "st1 = st\<lparr> worker_at := Worker_finish \<rparr>"
  have ev: "syscalls_state st = SYSCALL_ENQUEUED" "syscalls_event st = Some (current_event st)"
    using ok(1) assms(2) by simp_all
  have live: "\<not> cancelled st"
    using ok(2,3) ev(1) assms(2) by (cases "main_at st") auto
  have 1: "act Worker_skips st = Some st1" "act Worker_begins st = None"
    using assms(2,3) ev by (simp_all add: st1_def)
  have 2: "act Worker_verified st1 = Some (exit_process (st1\<lparr> failed := True \<rparr>))"
    using ev by (simp add: st1_def call_finished_def thread_assert_def)
  have "main_at st' = Main_died" if "worker_action a" "act a st1 = Some st'" for a st'
    using that live 2 by (cases a) (auto simp: st1_def exit_process_def)
  then show ?thesis
    using 1 2 by (auto simp: exit_process_def)
qed

definition example_skipping_event :: event where
  "example_skipping_event = example_blocking_event
     \<lparr> event_body := SYSCALL_EVENT \<lparr> syscall_name = ''sctp_freepaddrs'', end_usecs = 7 \<rparr> \<rparr>"

theorem skipped_call_aborts_witness:
  "\<exists>st st1 st2. run_actions [Next_event example_skipping_event, Blocking_call, Await, Dequeue, Worker_locks,
      Worker_loops, Worker_time_comes] (syscalls_new example_skipping_event) = Some st \<and>
    act Worker_skips st = Some st1 \<and> act Worker_verified st1 = Some st2 \<and> failed st2"
proof -
  have ev: "is_blocking_event example_skipping_event" "is_syscall_event example_skipping_event"
      "\<not> handler_makes_call example_skipping_event"
    by (simp_all add: example_skipping_event_def is_blocking_event_def is_syscall_event_def is_blocking_syscall_def
        handler_makes_call_def)
  obtain st where st: "run_actions [Next_event example_skipping_event, Blocking_call, Await, Dequeue, Worker_locks,
      Worker_loops, Worker_time_comes] (syscalls_new example_skipping_event) = Some st"
      "worker_at st = Worker_prepare" "current_event st = example_skipping_event"
    by (simp add: syscalls_new_def thread_actions ev)
  show ?thesis
    using skipped_call_aborts [OF interleaving_run [OF interleaving_new st(1)] st(2)] ev(3) st(1,3) by metis
qed

text \<open>C13: no lost signals. As long as the system call thread has not been cancelled and the program has not ended, some
  thread can go on by itself in every interleaving: whoever waits on a condition variable has been signalled or has
  a time limit, or the other thread is not waiting and not kept from the lock. The two threads never wait for each
  other.\<close>

theorem call_protocol_progress:
  assumes "interleaving st" and "\<not> cancelled st" and "main_at st \<noteq> Main_ended" and "main_at st \<noteq> Main_died"
  shows "\<exists>a. assured a st \<and> act a st \<noteq> None"
  using threads_progress [OF interleaving_ok [OF assms(1)] assms(2-4)] by (simp add: progresses_def)

theorem call_protocol_progress_witness:
  "\<exists>st. run_actions [Next_event example_blocking_event, Blocking_call, Await, Dequeue]
      (syscalls_new example_blocking_event) = Some st \<and> main_at st = Main_dequeue_wait \<and> \<not> main_woken st \<and>
    (\<exists>a. assured a st \<and> act a st \<noteq> None)"
proof -
  obtain st where st: "run_actions [Next_event example_blocking_event, Blocking_call, Await, Dequeue]
      (syscalls_new example_blocking_event) = Some st" "main_at st = Main_dequeue_wait" "\<not> main_woken st" "\<not> cancelled st"
    by (simp add: syscalls_new_def thread_actions example_is_blocking)
  then show ?thesis
    using call_protocol_progress [OF interleaving_run [OF interleaving_new st(1)]] by auto
qed

text \<open>C33: a cancelled thread can block the program. If the time limit for the end of a call is reached at the moment
  when the call has ended, the main thread cancels a thread that waits for the next call. That thread ends with the
  lock, which nothing releases: the main thread waits for it forever.\<close>

theorem cancelled_thread_blocks:
  "\<exists>st. run_actions (start_call @ [Worker_begins, Worker_signals, Dequeue_wakes, Dequeue, Yield_done, Event_fails, Await,
      Worker_ends 7, Worker_verified, Worker_loops, Await_times_out, Worker_is_cancelled])
      (syscalls_new example_blocking_event) = Some st \<and>
    main_at st = Main_join \<and> lock_owner st = Some Syscall_thread \<and> (\<forall>a. act a st = None)"
proof -
  obtain st where st: "run_actions (start_call @ [Worker_begins, Worker_signals, Dequeue_wakes, Dequeue, Yield_done,
      Event_fails, Await, Worker_ends 7, Worker_verified, Worker_loops, Await_times_out, Worker_is_cancelled])
      (syscalls_new example_blocking_event) = Some st"
      "main_at st = Main_join" "lock_owner st = Some Syscall_thread" "worker_at st = Worker_cancelled"
    by (simp add: start_call_def syscalls_new_def thread_actions example_is_blocking)
  have "act a st = None" for a
    using st by (cases a) (auto simp: run_lock_def cancel_worker_def)
  then show ?thesis
    using st by auto
qed

end
