(* ===== verification/Wire_Protocol.thy ===== *)
theory Wire_Protocol
  imports Run_State
begin

text \<open>
  Remote tests (\<^verbatim>\<open>wire_protocol.h\<close>, \<^verbatim>\<open>wire_conn.c\<close>, \<^verbatim>\<open>wire_client.c\<close>, \<^verbatim>\<open>wire_server.c\<close>): the client runs the system
  calls of a script on the machine under test, the server runs its packets on another machine, and both keep in step
  by messages over a TCP connection.

  A connection holds what the kernel will do: the data that it will deliver, in pieces of any size, and how many
  bytes it will take in the next writes; when that list is exhausted, a write takes everything. A piece that is longer
  than what was asked for is delivered in parts; an empty piece is the end of the connection. \<^const>\<open>None\<close> stands for a
  read of a connection that never delivers enough, and for a read beyond a buffer. Fresh memory holds \<open>junk\<close>. The
  messages on standard error are values of \<open>wire_error\<close>; the client ends the program with them.
\<close>

section \<open>Connections\<close>

datatype wire_op_t =
    WIRE_INVALID | WIRE_COMMAND_LINE_ARGS | WIRE_SCRIPT_PATH | WIRE_SCRIPT | WIRE_HARDWARE_ADDR
  | WIRE_SERVER_READY | WIRE_CLIENT_STARTING | WIRE_PACKETS_START | WIRE_PACKETS_WARN | WIRE_PACKETS_DONE
  | WIRE_NUM_OPS

definition wire_op_code :: "wire_op_t \<Rightarrow> u32" where
  "wire_op_code op = (case op of
      WIRE_INVALID \<Rightarrow> 0 | WIRE_COMMAND_LINE_ARGS \<Rightarrow> 1 | WIRE_SCRIPT_PATH \<Rightarrow> 2 | WIRE_SCRIPT \<Rightarrow> 3
    | WIRE_HARDWARE_ADDR \<Rightarrow> 4 | WIRE_SERVER_READY \<Rightarrow> 5 | WIRE_CLIENT_STARTING \<Rightarrow> 6 | WIRE_PACKETS_START \<Rightarrow> 7
    | WIRE_PACKETS_WARN \<Rightarrow> 8 | WIRE_PACKETS_DONE \<Rightarrow> 9 | WIRE_NUM_OPS \<Rightarrow> 10)"

datatype read_result = Read_data bytes | Read_retry | Read_error

datatype write_result = Wrote nat | Write_retry | Write_error

record wire_conn =
  to_read :: "read_result list"
  to_write :: "write_result list"
  written :: bytes
  in_buf :: bytes

datatype wire_error =
    Socket_read_failed | Remote_closed_connection | Socket_write_failed | Invalid_message_length int
  | Expected_op wire_op_t | Bad_op_length wire_op_t | Missing_terminator
  | Bad_message_count u32 u32 | Packet_error bytes

definition MAX_MESSAGE_BYTES :: nat where
  "MAX_MESSAGE_BYTES = 10 * 1000 * 1000"

fun write_bytes :: "bytes \<Rightarrow> write_result list \<Rightarrow> (wire_error, bytes \<times> write_result list) status" where
  "write_bytes [] ws = Inr ([], ws)"
| "write_bytes (b # bs) [] = Inr (b # bs, [])"
| "write_bytes (b # bs) (Write_retry # ws) = write_bytes (b # bs) ws"
| "write_bytes (b # bs) (Write_error # ws) = Inl Socket_write_failed"
| "write_bytes (b # bs) (Wrote n # ws) =
     map_sum id (apfst ((@) (take n (b # bs)))) (write_bytes (drop n (b # bs)) ws)"

definition wire_conn_write :: "wire_op_t \<Rightarrow> bytes \<Rightarrow> wire_conn \<Rightarrow> (wire_error, wire_conn) status" where
  "wire_conn_write op buf conn =
     (let header = put_unaligned_be32 (of_nat (8 + length buf)) @ put_unaligned_be32 (wire_op_code op) in
      case write_bytes header (to_write conn) of
        Inl err \<Rightarrow> Inl err
      | Inr (out, ws) \<Rightarrow> (case write_bytes buf ws of
          Inl err \<Rightarrow> Inl err
        | Inr (out', ws) \<Rightarrow> Inr (conn\<lparr> to_write := ws, written := written conn @ out @ out' \<rparr>)))"

fun read_bytes :: "nat \<Rightarrow> read_result list \<Rightarrow> (wire_error, bytes \<times> read_result list) status option" where
  "read_bytes 0 rs = Some (Inr ([], rs))"
| "read_bytes (Suc n) [] = None"
| "read_bytes (Suc n) (Read_retry # rs) = read_bytes (Suc n) rs"
| "read_bytes (Suc n) (Read_error # rs) = Some (Inl Socket_read_failed)"
| "read_bytes (Suc n) (Read_data bs # rs) =
     (if bs = [] then Some (Inl Remote_closed_connection)
      else if length bs > Suc n then Some (Inr (take (Suc n) bs, Read_data (drop (Suc n) bs) # rs))
      else map_option (map_sum id (apfst ((@) bs))) (read_bytes (Suc n - length bs) rs))"

text \<open>The length is an \<^verbatim>\<open>int\<close>. The buffer grows to twice the length of a message that does not fit.\<close>

definition wire_conn_read :: "(nat \<Rightarrow> u8) \<Rightarrow> wire_conn \<Rightarrow> (wire_error, u32 \<times> nat \<times> wire_conn) status option" where
  "wire_conn_read junk conn = do {
     r \<leftarrow> read_bytes 8 (to_read conn);
     (case r of
        Inl err \<Rightarrow> Some (Inl err)
      | Inr (header, rs) \<Rightarrow> do {
          len \<leftarrow> rd32 header 0;
          op \<leftarrow> rd32 header 4;
          let buf_len = sint (len - 8);
          if buf_len < 0 \<or> buf_len > int MAX_MESSAGE_BYTES then Some (Inl (Invalid_message_length buf_len))
          else do {
            let n = nat buf_len;
            let buf = (if length (in_buf conn) < n then map junk [0..<2 * n] else in_buf conn);
            r \<leftarrow> read_bytes n rs;
            (case r of
               Inl err \<Rightarrow> Some (Inl err)
             | Inr (data, rs) \<Rightarrow> Some (Inr (op, n, conn\<lparr> to_read := rs, in_buf := data @ drop n buf \<rparr>)))
          }
        })
   }"

section \<open>Arguments\<close>

text \<open>C strings in memory.\<close>

definition ascii :: "string \<Rightarrow> bytes" where
  "ascii s = map (\<lambda>c. of_nat (of_char c)) s"

definition cstring_at :: "bytes \<Rightarrow> nat \<Rightarrow> bytes option" where
  "cstring_at mem i = (if 0 \<in> set (drop i mem) then Some (takeWhile (\<lambda>b. b \<noteq> 0) (drop i mem)) else None)"

definition strndup :: "bytes \<Rightarrow> bytes" where
  "strndup data = takeWhile (\<lambda>b. b \<noteq> 0) data"

fun strstr :: "bytes \<Rightarrow> bytes \<Rightarrow> bool" where
  "strstr [] needle = (needle = [])"
| "strstr (c # s) needle = (take (length needle) (c # s) = needle \<or> strstr s needle)"

definition wire_client_serialize_argv :: "bytes list \<Rightarrow> bytes" where
  "wire_client_serialize_argv args =
     concat (map (\<lambda>arg. arg @ [0]) (filter (\<lambda>arg. \<not> strstr arg (ascii ''-wire_client'')) args))"

fun unserialize_loop :: "nat \<Rightarrow> bytes \<Rightarrow> nat \<Rightarrow> bytes list option" where
  "unserialize_loop 0 mem i = Some []"
| "unserialize_loop (Suc n) mem i = do {
     arg \<leftarrow> cstring_at mem i;
     args \<leftarrow> unserialize_loop n mem (i + length arg + 1);
     Some (arg # args)
   }"

text \<open>The last round of the loop copies a string behind the message, which is then replaced.\<close>

definition wire_server_unserialize_argv :: "bytes \<Rightarrow> nat \<Rightarrow> bytes list option" where
  "wire_server_unserialize_argv mem args_len = do {
     let argc = length (filter (\<lambda>b. b = 0) (take args_len mem)) + 1;
     args \<leftarrow> unserialize_loop argc mem 0;
     Some (args[argc - 1 := ascii ''--wire_server''])
   }"

section \<open>The client\<close>

definition is_packet_event :: "event_body \<Rightarrow> bool" where
  "is_packet_event e = (case e of PACKET_EVENT _ \<Rightarrow> True | _ \<Rightarrow> False)"

text \<open>The type of the last event is \<^const>\<open>None\<close> before the first one. Warnings go to standard error.\<close>

record wire_client =
  wc_conn :: wire_conn
  client_ether_addr :: bytes
  wc_last_event :: "event_body option"
  wc_num_events :: u32
  wc_warnings :: "bytes list"

definition client_write :: "wire_op_t \<Rightarrow> bytes \<Rightarrow> wire_client \<Rightarrow> (wire_error, wire_client) status" where
  "client_write op buf c = map_sum id (\<lambda>conn. c\<lparr> wc_conn := conn \<rparr>) (wire_conn_write op buf (wc_conn c))"

definition client_read :: "(nat \<Rightarrow> u8) \<Rightarrow> wire_client \<Rightarrow> (wire_error, u32 \<times> bytes \<times> wire_client) status option" where
  "client_read junk c = map_option (map_sum id (\<lambda>(op, n, conn).
     (op, take n (in_buf conn), c\<lparr> wc_conn := conn \<rparr>))) (wire_conn_read junk (wc_conn c))"

definition wire_client_send_args :: "bytes list \<Rightarrow> wire_client \<Rightarrow> (wire_error, wire_client) status" where
  "wire_client_send_args args = client_write WIRE_COMMAND_LINE_ARGS (wire_client_serialize_argv args)"

definition wire_client_send_script_path :: "bytes \<Rightarrow> wire_client \<Rightarrow> (wire_error, wire_client) status" where
  "wire_client_send_script_path path = client_write WIRE_SCRIPT_PATH path"

definition wire_client_send_script :: "bytes \<Rightarrow> wire_client \<Rightarrow> (wire_error, wire_client) status" where
  "wire_client_send_script buffer = client_write WIRE_SCRIPT buffer"

definition wire_client_send_hw_address :: "wire_client \<Rightarrow> (wire_error, wire_client) status" where
  "wire_client_send_hw_address c = client_write WIRE_HARDWARE_ADDR (client_ether_addr c) c"

definition wire_client_receive_server_ready ::
    "(nat \<Rightarrow> u8) \<Rightarrow> wire_client \<Rightarrow> (wire_error, wire_client) status option" where
  "wire_client_receive_server_ready junk c = do {
     r \<leftarrow> client_read junk c;
     Some (case r of
        Inl err \<Rightarrow> Inl err
      | Inr (op, data, c) \<Rightarrow>
          if op \<noteq> wire_op_code WIRE_SERVER_READY then Inl (Expected_op WIRE_SERVER_READY)
          else if data \<noteq> [] then Inl (Bad_op_length WIRE_SERVER_READY)
          else Inr c)
   }"

definition wire_client_send_client_starting :: "wire_client \<Rightarrow> (wire_error, wire_client) status" where
  "wire_client_send_client_starting = client_write WIRE_CLIENT_STARTING []"

definition wire_client_send_packets_start :: "wire_client \<Rightarrow> (wire_error, wire_client) status" where
  "wire_client_send_packets_start c = client_write WIRE_PACKETS_START (put_unaligned_be32 (wc_num_events c)) c"

text \<open>The messages up to and including the report of the server; each one takes bytes from the connection.\<close>

definition handle_packets_done :: "bytes \<Rightarrow> wire_client \<Rightarrow> (wire_error, wire_client) status option" where
  "handle_packets_done data c =
     (if length data < 9 then Some (Inl (Bad_op_length WIRE_PACKETS_DONE))
      else if last data \<noteq> 0 then Some (Inl Missing_terminator)
      else do {
        result \<leftarrow> rd32 data 0;
        num_events \<leftarrow> rd32 data 4;
        Some (if result = - 1 then Inl (Packet_error (strndup (drop 8 data)))
          else if num_events \<noteq> wc_num_events c then Inl (Bad_message_count num_events (wc_num_events c))
          else Inr c)
      })"

text \<open>The size of what is still to be read.\<close>

fun readable :: "read_result list \<Rightarrow> nat" where
  "readable [] = 0"
| "readable (Read_data bs # rs) = length bs + readable rs"
| "readable (_ # rs) = readable rs"

lemma map_sum_Inr [simp]: "map_sum f g r = Inr y \<longleftrightarrow> (\<exists>x. r = Inr x \<and> y = g x)"
  by (cases r) auto

lemma read_bytes_readable:
  assumes "read_bytes n rs = Some (Inr (bs, rs'))"
  shows "length bs = n \<and> readable rs = n + readable rs'"
  using assms
proof (induction n rs arbitrary: bs rule: read_bytes.induct)
  case (5 n ds rs)
  show ?case
  proof (cases "length ds > Suc n")
    case True
    then show ?thesis
      using "5.prems" by (auto split: if_splits)
  next
    case False
    then obtain bs1 where "read_bytes (Suc n - length ds) rs = Some (Inr (bs1, rs'))" "bs = ds @ bs1" "ds \<noteq> []"
      using "5.prems" by (auto split: if_splits)
    then show ?thesis
      using False "5.IH" [of bs1] by auto
  qed
qed auto

lemma wire_conn_read_readable:
  assumes "wire_conn_read junk conn = Some (Inr (op, n, conn'))"
  shows "readable (to_read conn') < readable (to_read conn)"
proof -
  obtain header rs where header: "read_bytes 8 (to_read conn) = Some (Inr (header, rs))"
    using assms by (cases "read_bytes 8 (to_read conn)") (auto simp: wire_conn_read_def split: sum.splits)
  have "\<exists>data. read_bytes n rs = Some (Inr (data, to_read conn'))"
    using assms header unfolding wire_conn_read_def Let_def
    by (auto split: bind_splits if_splits sum.splits prod.splits)
  then show ?thesis
    using read_bytes_readable [OF header] read_bytes_readable [of n rs] by auto
qed

lemma client_read_readable:
  assumes "client_read junk c = Some (Inr (op, data, c'))"
  shows "readable (to_read (wc_conn c')) < readable (to_read (wc_conn c))"
  using assms wire_conn_read_readable [of junk "wc_conn c"] by (auto simp: client_read_def)

function wire_client_receive_packets_done ::
    "(nat \<Rightarrow> u8) \<Rightarrow> wire_client \<Rightarrow> (wire_error, wire_client) status option" where
  "wire_client_receive_packets_done junk c = (case client_read junk c of
      None \<Rightarrow> None
    | Some (Inl err) \<Rightarrow> Some (Inl err)
    | Some (Inr (op, data, c')) \<Rightarrow>
        if op = wire_op_code WIRE_PACKETS_DONE then handle_packets_done data c'
        else if op = wire_op_code WIRE_PACKETS_WARN
        then wire_client_receive_packets_done junk (c'\<lparr> wc_warnings := wc_warnings c' @ [strndup data] \<rparr>)
        else Some (Inl (Expected_op WIRE_PACKETS_DONE)))"
  by pat_completeness auto

termination wire_client_receive_packets_done
  by (relation "measure (\<lambda>(_, c). readable (to_read (wc_conn c)))") (auto dest: client_read_readable)

declare wire_client_receive_packets_done.simps [simp del]

definition wire_client_next_event ::
    "(nat \<Rightarrow> u8) \<Rightarrow> event_body option \<Rightarrow> wire_client \<Rightarrow> (wire_error, wire_client) status option" where
  "wire_client_next_event junk event c =
     (let packet = (case event of None \<Rightarrow> False | Some e \<Rightarrow> is_packet_event e);
          was_packet = (case wc_last_event c of None \<Rightarrow> False | Some e \<Rightarrow> is_packet_event e);
          count = (\<lambda>c. case event of None \<Rightarrow> c
            | Some e \<Rightarrow> c\<lparr> wc_last_event := Some e, wc_num_events := wc_num_events c + 1 \<rparr>)
      in if packet \<and> \<not> was_packet
         then Some (map_sum id count (wire_client_send_packets_start c))
         else if \<not> packet \<and> was_packet
         then map_option (map_sum id count) (wire_client_receive_packets_done junk c)
         else Some (Inr (count c)))"

section \<open>The server\<close>

record wire_server =
  ws_conn :: wire_conn
  ws_argv :: "bytes list"
  ws_script_path :: bytes
  ws_script_buffer :: bytes
  ws_client_ether_addr :: bytes
  ws_last_event :: "event_body option"
  ws_num_events :: u32

definition server_write :: "wire_op_t \<Rightarrow> bytes \<Rightarrow> wire_server \<Rightarrow> (wire_error, wire_server) status" where
  "server_write op buf s = map_sum id (\<lambda>conn. s\<lparr> ws_conn := conn \<rparr>) (wire_conn_write op buf (ws_conn s))"

text \<open>Receive a message of a given type.\<close>

definition server_receive :: "(nat \<Rightarrow> u8) \<Rightarrow> wire_op_t \<Rightarrow> wire_server \<Rightarrow>
    (wire_error, nat \<times> wire_server) status option" where
  "server_receive junk expected s = do {
     r \<leftarrow> wire_conn_read junk (ws_conn s);
     Some (case r of
        Inl err \<Rightarrow> Inl err
      | Inr (op, n, conn) \<Rightarrow>
          if op \<noteq> wire_op_code expected then Inl (Expected_op expected) else Inr (n, s\<lparr> ws_conn := conn \<rparr>))
   }"

definition wire_server_receive_args :: "(nat \<Rightarrow> u8) \<Rightarrow> wire_server \<Rightarrow> (wire_error, wire_server) status option" where
  "wire_server_receive_args junk s = do {
     r \<leftarrow> server_receive junk WIRE_COMMAND_LINE_ARGS s;
     (case r of
        Inl err \<Rightarrow> Some (Inl err)
      | Inr (n, s) \<Rightarrow> do {
          args \<leftarrow> wire_server_unserialize_argv (in_buf (ws_conn s)) n;
          Some (Inr (s\<lparr> ws_argv := args \<rparr>))
        })
   }"

definition wire_server_receive_script_path ::
    "(nat \<Rightarrow> u8) \<Rightarrow> wire_server \<Rightarrow> (wire_error, wire_server) status option" where
  "wire_server_receive_script_path junk s = map_option (map_sum id (\<lambda>(n, s).
     s\<lparr> ws_script_path := strndup (take n (in_buf (ws_conn s))) \<rparr>)) (server_receive junk WIRE_SCRIPT_PATH s)"

definition wire_server_receive_script ::
    "(nat \<Rightarrow> u8) \<Rightarrow> wire_server \<Rightarrow> (wire_error, wire_server) status option" where
  "wire_server_receive_script junk s = map_option (map_sum id (\<lambda>(n, s).
     s\<lparr> ws_script_buffer := strndup (take n (in_buf (ws_conn s))) \<rparr>)) (server_receive junk WIRE_SCRIPT s)"

definition wire_server_receive_hw_address ::
    "(nat \<Rightarrow> u8) \<Rightarrow> wire_server \<Rightarrow> (wire_error, wire_server) status option" where
  "wire_server_receive_hw_address junk s = do {
     r \<leftarrow> server_receive junk WIRE_HARDWARE_ADDR s;
     Some (case r of
        Inl err \<Rightarrow> Inl err
      | Inr (n, s) \<Rightarrow> if n \<noteq> 6 then Inl (Bad_op_length WIRE_HARDWARE_ADDR)
          else Inr (s\<lparr> ws_client_ether_addr := take 6 (in_buf (ws_conn s)) \<rparr>))
   }"

definition wire_server_send_server_ready :: "wire_server \<Rightarrow> (wire_error, wire_server) status" where
  "wire_server_send_server_ready = server_write WIRE_SERVER_READY []"

definition wire_server_receive_client_starting ::
    "(nat \<Rightarrow> u8) \<Rightarrow> wire_server \<Rightarrow> (wire_error, wire_server) status option" where
  "wire_server_receive_client_starting junk s = do {
     r \<leftarrow> server_receive junk WIRE_CLIENT_STARTING s;
     Some (case r of
        Inl err \<Rightarrow> Inl err
      | Inr (n, s) \<Rightarrow> if n \<noteq> 0 then Inl (Bad_op_length WIRE_CLIENT_STARTING) else Inr s)
   }"

definition wire_server_receive_packets_start ::
    "(nat \<Rightarrow> u8) \<Rightarrow> wire_server \<Rightarrow> (wire_error, wire_server) status option" where
  "wire_server_receive_packets_start junk s = do {
     r \<leftarrow> server_receive junk WIRE_PACKETS_START s;
     (case r of
        Inl err \<Rightarrow> Some (Inl err)
      | Inr (n, s) \<Rightarrow>
          if n \<noteq> 4 then Some (Inl (Bad_op_length WIRE_PACKETS_START))
          else do {
            num_events \<leftarrow> rd32 (in_buf (ws_conn s)) 0;
            Some (if num_events \<noteq> ws_num_events s then Inl (Bad_message_count num_events (ws_num_events s)) else Inr s)
          })
   }"

definition wire_server_send_packet_warning :: "bytes \<Rightarrow> wire_server \<Rightarrow> (wire_error, wire_server) status" where
  "wire_server_send_packet_warning warning = server_write WIRE_PACKETS_WARN warning"

definition wire_server_send_packets_done :: "u32 \<Rightarrow> bytes \<Rightarrow> wire_server \<Rightarrow> (wire_error, wire_server) status" where
  "wire_server_send_packets_done result error s =
     server_write WIRE_PACKETS_DONE
       (put_unaligned_be32 result @ put_unaligned_be32 (ws_num_events s) @ error @ [0]) s"

definition wire_server_next_event ::
    "(nat \<Rightarrow> u8) \<Rightarrow> event_body option \<Rightarrow> wire_server \<Rightarrow> (wire_error, wire_server) status option" where
  "wire_server_next_event junk event s =
     (let packet = (case event of None \<Rightarrow> False | Some e \<Rightarrow> is_packet_event e);
          was_packet = (case ws_last_event s of None \<Rightarrow> False | Some e \<Rightarrow> is_packet_event e);
          count = (\<lambda>s. case event of None \<Rightarrow> s
            | Some e \<Rightarrow> s\<lparr> ws_last_event := Some e, ws_num_events := ws_num_events s + 1 \<rparr>)
      in if packet \<and> \<not> was_packet
         then map_option (map_sum id count) (wire_server_receive_packets_start junk s)
         else if \<not> packet \<and> was_packet
         then Some (map_sum id count (wire_server_send_packets_done 0 [] s))
         else Some (Inr (count s)))"

text \<open>What running a packet event has given.\<close>

datatype packet_outcome = Packet_ok | Packet_warns bytes | Packet_fails bytes

text \<open>The result is the new state and whether the server goes on with the script.\<close>

definition wire_server_run_packet_event ::
    "packet_outcome \<Rightarrow> wire_server \<Rightarrow> (wire_error, wire_server \<times> bool) status" where
  "wire_server_run_packet_event result s = (case result of
      Packet_ok \<Rightarrow> Inr (s, True)
    | Packet_warns warning \<Rightarrow> map_sum id (\<lambda>s. (s, True)) (wire_server_send_packet_warning warning s)
    | Packet_fails error \<Rightarrow> map_sum id (\<lambda>s. (s, False)) (wire_server_send_packets_done (- 1) error s))"

end
