(* ===== verification/Wire_Session.thy ===== *)
theory Wire_Session
  imports Wire_Protocol
begin

text \<open>
  Client and server together: messages survive any division of the byte stream, the arguments of the client reach
  the server, and a remote run reports the warnings and the first error of the packets on the server.
\<close>

section \<open>Messages over a byte stream\<close>

text \<open>What a connection without failures delivers.\<close>

fun delivered :: "read_result list \<Rightarrow> bytes" where
  "delivered [] = []"
| "delivered (Read_data bs # rs) = bs @ delivered rs"
| "delivered (_ # rs) = delivered rs"

definition reliable :: "read_result list \<Rightarrow> bool" where
  "reliable rs \<longleftrightarrow> Read_error \<notin> set rs \<and> Read_data [] \<notin> set rs"

definition frame :: "wire_op_t \<Rightarrow> bytes \<Rightarrow> bytes" where
  "frame op data = put_unaligned_be32 (of_nat (8 + length data)) @ put_unaligned_be32 (wire_op_code op) @ data"

lemma delivered_append [simp]: "delivered (rs @ rs') = delivered rs @ delivered rs'"
  by (induction rs rule: delivered.induct) auto

lemma reliable_simps [simp]:
  "reliable []" "reliable (Read_retry # rs) = reliable rs" "\<not> reliable (Read_error # rs)"
  "reliable (Read_data bs # rs) \<longleftrightarrow> bs \<noteq> [] \<and> reliable rs"
  "reliable (rs @ rs') \<longleftrightarrow> reliable rs \<and> reliable rs'"
  by (auto simp: reliable_def)

lemma read_bytes_delivered:
  assumes "reliable rs" and "n \<le> length (delivered rs)"
  shows "\<exists>rs'. read_bytes n rs = Some (Inr (take n (delivered rs), rs')) \<and> reliable rs' \<and>
    delivered rs' = drop n (delivered rs)"
  using assms
proof (induction n rs rule: read_bytes.induct)
  case (5 n bs rs)
  then show ?case
    by (cases "length bs > Suc n") auto
qed auto

lemma write_bytes_ok:
  "Write_error \<notin> set ws \<Longrightarrow> \<exists>ws'. write_bytes bs ws = Inr (bs, ws') \<and> Write_error \<notin> set ws'"
proof (induction bs ws rule: write_bytes.induct)
  case (5 b bs n ws)
  then obtain ws' where "write_bytes (drop n (b # bs)) ws = Inr (drop n (b # bs), ws')" "Write_error \<notin> set ws'"
    by auto
  then show ?case
    by (simp del: drop.simps take.simps add: append_take_drop_id)
qed auto

lemma wire_conn_write_ok:
  assumes "Write_error \<notin> set (to_write conn)"
  shows "\<exists>ws. wire_conn_write op data conn =
      Inr (conn\<lparr> to_write := ws, written := written conn @ frame op data \<rparr>) \<and> Write_error \<notin> set ws"
proof -
  let ?header = "put_unaligned_be32 (of_nat (8 + length data)) @ put_unaligned_be32 (wire_op_code op)"
  obtain ws where ws: "write_bytes ?header (to_write conn) = Inr (?header, ws)" "Write_error \<notin> set ws"
    using write_bytes_ok [OF assms] by blast
  obtain ws' where "write_bytes data ws = Inr (data, ws')" "Write_error \<notin> set ws'"
    using write_bytes_ok [OF ws(2)] by blast
  then show ?thesis
    using ws(1) by (auto simp: wire_conn_write_def Let_def frame_def)
qed

lemma rd32_put:
  "rd32 (put_unaligned_be32 v @ bs) 0 = Some v" "rd32 (put_unaligned_be32 w @ put_unaligned_be32 v @ bs) 4 = Some v"
  using be32_of_to [of v] by (auto simp: rd32_def nth_append numeral_2_eq_2 numeral_3_eq_3)

lemma message_length: "n \<le> MAX_MESSAGE_BYTES \<Longrightarrow> sint ((of_nat (8 + n) :: u32) - 8) = int n"
proof -
  assume "n \<le> MAX_MESSAGE_BYTES"
  then have "signed_take_bit 31 (int n) = int n"
    by (intro signed_take_bit_int_eq_self) (simp_all add: MAX_MESSAGE_BYTES_def)
  then show ?thesis
    by (simp add: signed_of_nat)
qed

lemma wire_conn_read_frame:
  assumes "reliable (to_read conn)" and "delivered (to_read conn) = frame op data @ rest"
    and "length data \<le> MAX_MESSAGE_BYTES"
  shows "\<exists>rs. wire_conn_read junk conn = Some (Inr (wire_op_code op, length data, conn\<lparr> to_read := rs, in_buf :=
      data @ drop (length data) (if length (in_buf conn) < length data then map junk [0..<2 * length data]
        else in_buf conn) \<rparr>)) \<and> reliable rs \<and> delivered rs = rest"
proof -
  let ?header = "put_unaligned_be32 (of_nat (8 + length data)) @ put_unaligned_be32 (wire_op_code op)"
  have split: "take 8 (frame op data @ rest) = ?header" "drop 8 (frame op data @ rest) = data @ rest"
    by (simp_all add: frame_def)
  obtain rs where rs: "read_bytes 8 (to_read conn) = Some (Inr (?header, rs))" "reliable rs" "delivered rs = data @ rest"
    using read_bytes_delivered [OF assms(1), of 8] assms(2) split by (auto simp: frame_def)
  obtain rs' where rs': "read_bytes (length data) rs = Some (Inr (data, rs'))" "reliable rs'" "delivered rs' = rest"
    using read_bytes_delivered [OF rs(2), of "length data"] rs(3) by auto
  note length = message_length [OF assms(3)]
  show ?thesis
    using rs rs' assms(3) rd32_put(1) [of "of_nat (8 + length data)" "put_unaligned_be32 (wire_op_code op)"]
      rd32_put(2) [of "of_nat (8 + length data)" "wire_op_code op" "[]"] length
    unfolding wire_conn_read_def by (intro exI [of _ rs']) (simp add: Let_def del: of_nat_add)
qed

fun write_messages :: "(wire_op_t \<times> bytes) list \<Rightarrow> wire_conn \<Rightarrow> (wire_error, wire_conn) status" where
  "write_messages [] conn = Inr conn"
| "write_messages ((op, data) # ms) conn = (case wire_conn_write op data conn of
      Inl err \<Rightarrow> Inl err | Inr conn \<Rightarrow> write_messages ms conn)"

fun read_messages :: "(nat \<Rightarrow> u8) \<Rightarrow> nat \<Rightarrow> wire_conn \<Rightarrow> (wire_error, (u32 \<times> bytes) list \<times> wire_conn) status option" where
  "read_messages junk 0 conn = Some (Inr ([], conn))"
| "read_messages junk (Suc n) conn = do {
     r \<leftarrow> wire_conn_read junk conn;
     (case r of
        Inl err \<Rightarrow> Some (Inl err)
      | Inr (op, len, conn) \<Rightarrow>
          map_option (map_sum id (apfst ((#) (op, take len (in_buf conn))))) (read_messages junk n conn))
   }"

lemma write_messages_ok:
  "Write_error \<notin> set (to_write conn) \<Longrightarrow> \<exists>ws. write_messages ms conn =
     Inr (conn\<lparr> to_write := ws, written := written conn @ concat (map (\<lambda>(op, data). frame op data) ms) \<rparr>)"
proof (induction ms arbitrary: conn)
  case (Cons m ms)
  obtain op data where m: "m = (op, data)"
    by (cases m)
  obtain ws where ws: "wire_conn_write op data conn =
      Inr (conn\<lparr> to_write := ws, written := written conn @ frame op data \<rparr>)" "Write_error \<notin> set ws"
    using wire_conn_write_ok [OF Cons.prems] by blast
  show ?case
    using Cons.IH [of "conn\<lparr> to_write := ws, written := written conn @ frame op data \<rparr>"] ws by (auto simp: m)
next
  case Nil
  then show ?case
    by (cases conn) auto
qed

lemma read_messages_ok:
  assumes "reliable (to_read conn)" and "delivered (to_read conn) = concat (map (\<lambda>(op, data). frame op data) ms)"
    and "list_all (\<lambda>(op, data). length data \<le> MAX_MESSAGE_BYTES) ms"
  shows "\<exists>conn'. read_messages junk (length ms) conn = Some (Inr (map (apfst wire_op_code) ms, conn'))"
  using assms
proof (induction ms arbitrary: conn)
  case (Cons m ms)
  obtain op data where m: "m = (op, data)"
    by (cases m)
  obtain conn1 where conn1: "wire_conn_read junk conn = Some (Inr (wire_op_code op, length data, conn1))"
      "take (length data) (in_buf conn1) = data" "reliable (to_read conn1)"
      "delivered (to_read conn1) = concat (map (\<lambda>(op, data). frame op data) ms)"
    using wire_conn_read_frame [OF Cons.prems(1), of op data _ junk] Cons.prems(2,3) by (auto simp: m)
  show ?case
    using Cons.IH [OF conn1(3,4)] Cons.prems(3) conn1(1,2) by (auto simp: m)
qed simp

section \<open>The arguments of the client\<close>

lemma filter_nul_concat:
  "list_all (\<lambda>arg. 0 \<notin> set arg) args \<Longrightarrow> length (filter (\<lambda>b. b = 0) (concat (map (\<lambda>arg. arg @ [0 :: u8]) args))) = length args"
  by (induction args) (auto simp: filter_empty_conv)

lemma takeWhile_nul: "0 \<notin> set arg \<Longrightarrow> takeWhile (\<lambda>b. b \<noteq> 0) (arg @ (0 :: u8) # rest) = arg"
  by (induction arg) auto

lemma cstring_at_append:
  assumes "0 \<notin> set arg"
  shows "cstring_at (pre @ arg @ 0 # rest) (length pre) = Some arg"
  using assms by (simp add: cstring_at_def takeWhile_nul)

lemma unserialize_loop_args:
  assumes "list_all (\<lambda>arg. 0 \<notin> set arg) args"
  shows "unserialize_loop (length args + 1) (pre @ concat (map (\<lambda>arg. arg @ [0]) args) @ rest) (length pre) =
    (if 0 \<in> set rest then Some (args @ [takeWhile (\<lambda>b. b \<noteq> 0) rest]) else None)"
  using assms
proof (induction args arbitrary: pre)
  case Nil
  then show ?case
    by (simp add: cstring_at_def)
next
  case (Cons arg args)
  let ?mem = "pre @ concat (map (\<lambda>arg. arg @ [0]) (arg # args)) @ rest"
  have head: "cstring_at ?mem (length pre) = Some arg"
    using Cons.prems cstring_at_append [of arg pre "concat (map (\<lambda>arg. arg @ [0]) args) @ rest"] by simp
  have tail: "unserialize_loop (length args + 1) ?mem (length pre + length arg + 1) =
      (if 0 \<in> set rest then Some (args @ [takeWhile (\<lambda>b. b \<noteq> 0) rest]) else None)"
    using Cons.IH [of "pre @ arg @ [0]"] Cons.prems by (simp del: unserialize_loop.simps)
  have "unserialize_loop (length (arg # args) + 1) ?mem (length pre) =
      Option.bind (cstring_at ?mem (length pre)) (\<lambda>s. Option.bind
        (unserialize_loop (length args + 1) ?mem (length pre + length s + 1)) (\<lambda>ss. Some (s # ss)))"
    by (simp del: concat.simps map_append)
  then show ?case
    unfolding head Option.bind.simps tail by auto
qed

lemma unserialize_args:
  assumes "list_all (\<lambda>arg. 0 \<notin> set arg) args" and "data = concat (map (\<lambda>arg. arg @ [0]) args)"
  shows "wire_server_unserialize_argv (data @ rest) (length data) =
    (if 0 \<in> set rest then Some (args @ [ascii ''--wire_server'']) else None)"
  using unserialize_loop_args [OF assms(1), of "[]" rest] filter_nul_concat [OF assms(1)] assms(2)
  by (simp add: wire_server_unserialize_argv_def Let_def list_update_append)

section \<open>Client and server on one script\<close>

text \<open>Each side acts only on what it has read, so one order of their steps stands for all: the client runs before the
  server at a packet and after it at other events. The function \<open>net\<close> divides what was written into the pieces
  that are delivered.\<close>

definition to_server :: "(bytes \<Rightarrow> read_result list) \<Rightarrow> wire_client \<Rightarrow> wire_server \<Rightarrow> wire_client \<times> wire_server" where
  "to_server net c s =
     (c\<lparr> wc_conn := (wc_conn c)\<lparr> written := [] \<rparr> \<rparr>,
      s\<lparr> ws_conn := (ws_conn s)\<lparr> to_read := to_read (ws_conn s) @ net (written (wc_conn c)) \<rparr> \<rparr>)"

definition to_client :: "(bytes \<Rightarrow> read_result list) \<Rightarrow> wire_client \<Rightarrow> wire_server \<Rightarrow> wire_client \<times> wire_server" where
  "to_client net c s =
     (c\<lparr> wc_conn := (wc_conn c)\<lparr> to_read := to_read (wc_conn c) @ net (written (ws_conn s)) \<rparr> \<rparr>,
      s\<lparr> ws_conn := (ws_conn s)\<lparr> written := [] \<rparr> \<rparr>)"

text \<open>The client goes on alone after the server has stopped.\<close>

fun client_rest :: "(nat \<Rightarrow> u8) \<Rightarrow> event_body list \<Rightarrow> wire_client \<Rightarrow> (wire_error, wire_client) status option" where
  "client_rest junk [] c = wire_client_next_event junk None c"
| "client_rest junk (e # es) c = do {
     r \<leftarrow> wire_client_next_event junk (Some e) c;
     (case r of Inl err \<Rightarrow> Some (Inl err) | Inr c \<Rightarrow> client_rest junk es c)
   }"

fun wire_run_script :: "(nat \<Rightarrow> u8) \<Rightarrow> (bytes \<Rightarrow> read_result list) \<Rightarrow> (event_body \<times> packet_outcome) list \<Rightarrow>
    wire_client \<Rightarrow> wire_server \<Rightarrow> (wire_error, wire_client \<times> wire_server) status option" where
  "wire_run_script junk net [] c s = do {
     r \<leftarrow> wire_server_next_event junk None s;
     (case r of
        Inl err \<Rightarrow> Some (Inl err)
      | Inr s \<Rightarrow> do {
          let (c, s) = to_client net c s;
          r \<leftarrow> wire_client_next_event junk None c;
          Some (map_sum id (\<lambda>c. (c, s)) r)
        })
   }"
| "wire_run_script junk net ((e, outcome) # es) c s =
     (if is_packet_event e
      then do {
        r \<leftarrow> wire_client_next_event junk (Some e) c;
        (case r of
           Inl err \<Rightarrow> Some (Inl err)
         | Inr c \<Rightarrow> do {
             let (c, s) = to_server net c s;
             r \<leftarrow> wire_server_next_event junk (Some e) s;
             (case r of
                Inl err \<Rightarrow> Some (Inl err)
              | Inr s \<Rightarrow> (case wire_server_run_packet_event outcome s of
                    Inl err \<Rightarrow> Some (Inl err)
                  | Inr (s, go_on) \<Rightarrow>
                      let (c, s) = to_client net c s in
                      if go_on then wire_run_script junk net es c s
                      else map_option (map_sum id (\<lambda>c. (c, s))) (client_rest junk (map fst es) c)))
           })
      }
      else do {
        r \<leftarrow> wire_server_next_event junk (Some e) s;
        (case r of
           Inl err \<Rightarrow> Some (Inl err)
         | Inr s \<Rightarrow> do {
             let (c, s) = to_client net c s;
             r \<leftarrow> wire_client_next_event junk (Some e) c;
             (case r of Inl err \<Rightarrow> Some (Inl err) | Inr c \<Rightarrow> wire_run_script junk net es c s)
           })
      })"

text \<open>What a run is to report: the warnings, and the first error if there is one.\<close>

fun script_warnings :: "(event_body \<times> packet_outcome) list \<Rightarrow> bytes list" where
  "script_warnings [] = []"
| "script_warnings ((e, outcome) # es) = (case outcome of
      Packet_warns warning \<Rightarrow> if is_packet_event e then warning # script_warnings es else script_warnings es
    | _ \<Rightarrow> script_warnings es)"

fun script_failure :: "(event_body \<times> packet_outcome) list \<Rightarrow> bytes option" where
  "script_failure [] = None"
| "script_failure ((e, outcome) # es) = (case outcome of
      Packet_fails error \<Rightarrow> if is_packet_event e then Some error else script_failure es
    | _ \<Rightarrow> script_failure es)"

fun outcome_text :: "packet_outcome \<Rightarrow> bytes" where
  "outcome_text Packet_ok = []"
| "outcome_text (Packet_warns warning) = warning"
| "outcome_text (Packet_fails error) = error"

text \<open>Texts that fit in a message.\<close>

definition text_ok :: "bytes \<Rightarrow> bool" where
  "text_ok m \<longleftrightarrow> 0 \<notin> set m \<and> length m + 9 \<le> MAX_MESSAGE_BYTES"

definition net_ok :: "(bytes \<Rightarrow> read_result list) \<Rightarrow> bool" where
  "net_ok net \<longleftrightarrow> (\<forall>bs. reliable (net bs) \<and> delivered (net bs) = bs)"

definition conn_ok :: "wire_conn \<Rightarrow> bytes \<Rightarrow> bytes \<Rightarrow> bool" where
  "conn_ok conn incoming outgoing \<longleftrightarrow> reliable (to_read conn) \<and> delivered (to_read conn) = incoming \<and>
     written conn = outgoing \<and> Write_error \<notin> set (to_write conn)"

lemma client_write_ok:
  assumes "conn_ok (wc_conn c) i out"
  shows "\<exists>conn. client_write op data c = Inr (c\<lparr> wc_conn := conn \<rparr>) \<and> conn_ok conn i (out @ frame op data)"
  using wire_conn_write_ok [of "wc_conn c" op data] assms by (auto simp: client_write_def conn_ok_def)

lemma server_write_ok:
  assumes "conn_ok (ws_conn s) i out"
  shows "\<exists>conn. server_write op data s = Inr (s\<lparr> ws_conn := conn \<rparr>) \<and> conn_ok conn i (out @ frame op data)"
  using wire_conn_write_ok [of "ws_conn s" op data] assms by (auto simp: server_write_def conn_ok_def)

lemma conn_read_ok:
  assumes "conn_ok conn (frame op data @ rest) out" and "length data \<le> MAX_MESSAGE_BYTES"
  shows "\<exists>conn'. wire_conn_read junk conn = Some (Inr (wire_op_code op, length data, conn')) \<and>
    take (length data) (in_buf conn') = data \<and> conn_ok conn' rest out"
proof -
  obtain rs where "wire_conn_read junk conn = Some (Inr (wire_op_code op, length data, conn\<lparr> to_read := rs, in_buf :=
      data @ drop (length data) (if length (in_buf conn) < length data then map junk [0..<2 * length data]
        else in_buf conn) \<rparr>))" "reliable rs" "delivered rs = rest"
    using wire_conn_read_frame [of conn op data rest junk] assms by (auto simp: conn_ok_def)
  then show ?thesis
    using assms(1) by (simp add: conn_ok_def)
qed

lemma client_read_ok:
  assumes "conn_ok (wc_conn c) (frame op data @ rest) out" and "length data \<le> MAX_MESSAGE_BYTES"
  shows "\<exists>conn. client_read junk c = Some (Inr (wire_op_code op, data, c\<lparr> wc_conn := conn \<rparr>)) \<and> conn_ok conn rest out"
  using conn_read_ok [OF assms, of junk] by (auto simp: client_read_def)

lemma server_receive_ok:
  assumes "conn_ok (ws_conn s) (frame op data @ rest) out" and "length data \<le> MAX_MESSAGE_BYTES"
  shows "\<exists>conn. server_receive junk op s = Some (Inr (length data, s\<lparr> ws_conn := conn \<rparr>)) \<and>
    take (length data) (in_buf conn) = data \<and> conn_ok conn rest out"
  using conn_read_ok [OF assms, of junk] by (auto simp: server_receive_def)

lemma text_ok_strndup: "text_ok m \<Longrightarrow> strndup m = m" "text_ok m \<Longrightarrow> length m \<le> MAX_MESSAGE_BYTES"
  by (auto simp: text_ok_def strndup_def takeWhile_eq_all_conv)

lemma wire_op_code_neq: "wire_op_code WIRE_PACKETS_WARN \<noteq> wire_op_code WIRE_PACKETS_DONE"
  by (simp add: wire_op_code_def)

lemma receive_packets_done_ok:
  assumes "conn_ok (wc_conn c) (concat (map (frame WIRE_PACKETS_WARN) ps) @ frame WIRE_PACKETS_DONE data @ rest) out"
    and "list_all text_ok ps" and "length data \<le> MAX_MESSAGE_BYTES"
  shows "\<exists>conn. wire_client_receive_packets_done junk c =
      handle_packets_done data (c\<lparr> wc_conn := conn, wc_warnings := wc_warnings c @ ps \<rparr>) \<and> conn_ok conn rest out"
  using assms
proof (induction ps arbitrary: c)
  case Nil
  then obtain conn where conn: "client_read junk c = Some (Inr (wire_op_code WIRE_PACKETS_DONE, data, c\<lparr> wc_conn := conn \<rparr>))"
      "conn_ok conn rest out"
    using client_read_ok [of c WIRE_PACKETS_DONE data rest out junk] by auto
  then show ?case
    by (subst wire_client_receive_packets_done.simps) (auto intro!: exI [of _ conn])
next
  case (Cons p ps)
  obtain conn where conn: "client_read junk c = Some (Inr (wire_op_code WIRE_PACKETS_WARN, p, c\<lparr> wc_conn := conn \<rparr>))"
      "conn_ok conn (concat (map (frame WIRE_PACKETS_WARN) ps) @ frame WIRE_PACKETS_DONE data @ rest) out"
    using client_read_ok [of c WIRE_PACKETS_WARN p _ out junk] Cons.prems text_ok_strndup(2) [of p] by auto
  let ?c = "c\<lparr> wc_conn := conn, wc_warnings := wc_warnings c @ [p] \<rparr>"
  have "wire_client_receive_packets_done junk c = wire_client_receive_packets_done junk ?c"
    using conn(1) wire_op_code_neq Cons.prems(2) text_ok_strndup(1) [of p]
    by (subst wire_client_receive_packets_done.simps) simp
  then show ?case
    using Cons.IH [of ?c] conn(2) Cons.prems(2,3) by auto
qed

definition done_data :: "u32 \<Rightarrow> u32 \<Rightarrow> bytes \<Rightarrow> bytes" where
  "done_data result n error = put_unaligned_be32 result @ put_unaligned_be32 n @ error @ [0]"

lemma length_done_data [simp]: "length (done_data result n error) = length error + 9"
  by (simp add: done_data_def)

lemma handle_done:
  assumes "0 \<notin> set error"
  shows "handle_packets_done (done_data result n error) c = Some (if result = - 1 then Inl (Packet_error error)
    else if n \<noteq> wc_num_events c then Inl (Bad_message_count n (wc_num_events c)) else Inr c)"
  using takeWhile_nul [OF assms, of "[]"] rd32_put(1) [of result] rd32_put(2) [of result n]
  by (simp add: handle_packets_done_def done_data_def strndup_def)

lemma send_packets_done_ok:
  assumes "conn_ok (ws_conn s) i out"
  shows "\<exists>conn. wire_server_send_packets_done result error s = Inr (s\<lparr> ws_conn := conn \<rparr>) \<and>
    conn_ok conn i (out @ frame WIRE_PACKETS_DONE (done_data result (ws_num_events s) error))"
  using server_write_ok [OF assms, of WIRE_PACKETS_DONE "done_data result (ws_num_events s) error"]
  by (simp add: wire_server_send_packets_done_def done_data_def)

text \<open>Both sides agree on the events so far; the client has not yet read the warnings \<open>ps\<close>.\<close>

definition was_packet :: "event_body option \<Rightarrow> bool" where
  "was_packet e = (case e of None \<Rightarrow> False | Some e \<Rightarrow> is_packet_event e)"

definition in_step :: "wire_client \<Rightarrow> wire_server \<Rightarrow> bytes list \<Rightarrow> bool" where
  "in_step c s ps \<longleftrightarrow> conn_ok (wc_conn c) (concat (map (frame WIRE_PACKETS_WARN) ps)) [] \<and> conn_ok (ws_conn s) [] [] \<and>
     wc_last_event c = ws_last_event s \<and> wc_num_events c = ws_num_events s \<and> list_all text_ok ps \<and>
     (ps \<noteq> [] \<longrightarrow> was_packet (wc_last_event c))"

lemma net_okD: "net_ok net \<Longrightarrow> reliable (net bs)" "net_ok net \<Longrightarrow> delivered (net bs) = bs"
  by (simp_all add: net_ok_def)

lemma packet_event_start:
  assumes "net_ok net" and "in_step c s ps" and "is_packet_event e"
  shows "\<exists>c1 c2 s1 s2. wire_client_next_event junk (Some e) c = Some (Inr c1) \<and> to_server net c1 s = (c2, s1) \<and>
    wire_server_next_event junk (Some e) s1 = Some (Inr s2) \<and> in_step c2 s2 ps \<and> wc_last_event c2 = Some e \<and>
    wc_warnings c2 = wc_warnings c \<and> wc_num_events c2 = wc_num_events c + 1"
proof (cases "was_packet (wc_last_event c)")
  case True
  then have last: "was_packet (ws_last_event s)"
    using assms(2) by (simp add: in_step_def)
  have "net [] = [] \<or> delivered (net []) = []" "reliable (net [])"
    using assms(1) by (simp_all add: net_okD)
  then show ?thesis
    using True last assms by (auto simp: wire_client_next_event_def wire_server_next_event_def in_step_def to_server_def
        was_packet_def conn_ok_def net_okD)
next
  case False
  have ok: "conn_ok (wc_conn c) [] []" "conn_ok (ws_conn s) [] []" "ps = []" "wc_last_event c = ws_last_event s"
      "wc_num_events c = ws_num_events s"
    using assms(2) False by (auto simp: in_step_def)
  let ?data = "put_unaligned_be32 (wc_num_events c)"
  obtain conn where conn: "wire_client_send_packets_start c = Inr (c\<lparr> wc_conn := conn \<rparr>)"
      "conn_ok conn [] (frame WIRE_PACKETS_START ?data)"
    using client_write_ok [OF ok(1), of WIRE_PACKETS_START ?data] by (auto simp: wire_client_send_packets_start_def)
  let ?c = "c\<lparr> wc_conn := conn, wc_last_event := Some e, wc_num_events := wc_num_events c + 1 \<rparr>"
  let ?s = "snd (to_server net ?c s)"
  have "conn_ok (ws_conn ?s) (frame WIRE_PACKETS_START ?data @ []) []"
    using ok(2) conn(2) assms(1) by (simp add: to_server_def conn_ok_def net_okD)
  then obtain conn2 where conn2: "server_receive junk WIRE_PACKETS_START ?s = Some (Inr (4, ?s\<lparr> ws_conn := conn2 \<rparr>))"
      "take 4 (in_buf conn2) = ?data" "conn_ok conn2 [] []"
    using server_receive_ok [of ?s WIRE_PACKETS_START ?data "[]" "[]" junk] by (auto simp: MAX_MESSAGE_BYTES_def)
  have "rd32 (in_buf conn2) 0 = Some (wc_num_events c)"
    using rd32_put(1) [of "wc_num_events c" "drop 4 (in_buf conn2)"] conn2(2) append_take_drop_id [of 4 "in_buf conn2"]
    by metis
  then have start: "wire_server_receive_packets_start junk ?s = Some (Inr (?s\<lparr> ws_conn := conn2 \<rparr>))"
    using conn2(1) ok(5) by (simp add: wire_server_receive_packets_start_def to_server_def)
  show ?thesis
    using False ok conn start conn2(3) assms(3)
    by (auto simp: wire_client_next_event_def wire_server_next_event_def in_step_def to_server_def
        was_packet_def conn_ok_def)
qed

lemma packet_outcome_ok:
  assumes "net_ok net" and "in_step c s ps" and e: "wc_last_event c = Some e" "is_packet_event e"
    and "text_ok (outcome_text outcome)"
  shows "case outcome of
      Packet_fails error \<Rightarrow> \<exists>s1 c2 s2 n. wire_server_run_packet_event outcome s = Inr (s1, False) \<and>
        to_client net c s1 = (c2, s2) \<and> list_all text_ok ps \<and> wc_last_event c2 = wc_last_event c \<and>
        conn_ok (wc_conn c2) (concat (map (frame WIRE_PACKETS_WARN) ps) @
          frame WIRE_PACKETS_DONE (done_data (- 1) n error)) []
    | _ \<Rightarrow> \<exists>s1 c2 s2. wire_server_run_packet_event outcome s = Inr (s1, True) \<and> to_client net c s1 = (c2, s2) \<and>
        in_step c2 s2 (ps @ script_warnings [(e, outcome)]) \<and>
        wc_warnings c2 = wc_warnings c \<and> wc_num_events c2 = wc_num_events c"
proof -
  have server: "conn_ok (ws_conn s) [] []" "ws_last_event s = Some e"
    using assms(2) e(1) by (simp_all add: in_step_def)
  show ?thesis
  proof (cases outcome)
    case Packet_ok
    then show ?thesis
      using assms(1,2) e by (auto simp: wire_server_run_packet_event_def to_client_def in_step_def conn_ok_def net_okD)
  next
    case (Packet_warns m)
    obtain conn where "wire_server_send_packet_warning m s = Inr (s\<lparr> ws_conn := conn \<rparr>)"
        "conn_ok conn [] (frame WIRE_PACKETS_WARN m)"
      using server_write_ok [OF server(1), of WIRE_PACKETS_WARN m] by (auto simp: wire_server_send_packet_warning_def)
    then show ?thesis
      using assms server(2) Packet_warns
      by (auto simp: wire_server_run_packet_event_def to_client_def in_step_def conn_ok_def net_okD was_packet_def
          split: option.splits)
  next
    case (Packet_fails m)
    obtain conn where "wire_server_send_packets_done (- 1) m s = Inr (s\<lparr> ws_conn := conn \<rparr>)"
        "conn_ok conn [] (frame WIRE_PACKETS_DONE (done_data (- 1) (ws_num_events s) m))"
      using send_packets_done_ok [OF server(1), of "- 1" m] by auto
    then show ?thesis
      using assms e Packet_fails
      by (auto simp: wire_server_run_packet_event_def to_client_def in_step_def conn_ok_def net_okD)
  qed
qed

text \<open>At another event, or at the end of the script, the client reads the warnings and the report of the server.\<close>

lemma other_event_ok:
  assumes "net_ok net" and "in_step c s ps" and "\<not> was_packet event"
  shows "\<exists>s1 c1 s2 c2. wire_server_next_event junk event s = Some (Inr s1) \<and> to_client net c s1 = (c1, s2) \<and>
    wire_client_next_event junk event c1 = Some (Inr c2) \<and> in_step c2 s2 [] \<and>
    wc_warnings c2 = wc_warnings c @ ps \<and>
    wc_num_events c2 = wc_num_events c + (if event = None then 0 else 1)"
proof (cases "was_packet (wc_last_event c)")
  case False
  then have "ps = []" "\<not> was_packet (ws_last_event s)"
    using assms(2) by (auto simp: in_step_def)
  then show ?thesis
    using False assms
    by (auto simp: wire_client_next_event_def wire_server_next_event_def in_step_def to_client_def was_packet_def
        conn_ok_def net_okD split: option.splits)
next
  case True
  have ok: "conn_ok (wc_conn c) (concat (map (frame WIRE_PACKETS_WARN) ps)) []" "conn_ok (ws_conn s) [] []"
      "wc_last_event c = ws_last_event s" "wc_num_events c = ws_num_events s" "list_all text_ok ps"
    using assms(2) by (auto simp: in_step_def)
  let ?data = "done_data 0 (ws_num_events s) []"
  obtain conn where conn: "wire_server_send_packets_done 0 [] s = Inr (s\<lparr> ws_conn := conn \<rparr>)"
      "conn_ok conn [] (frame WIRE_PACKETS_DONE ?data)"
    using send_packets_done_ok [OF ok(2), of 0 "[]"] by auto
  let ?c = "c\<lparr> wc_conn := (wc_conn c)\<lparr> to_read := to_read (wc_conn c) @ net (written conn) \<rparr> \<rparr>"
  have "conn_ok (wc_conn ?c) (concat (map (frame WIRE_PACKETS_WARN) ps) @ frame WIRE_PACKETS_DONE ?data @ []) []"
    using ok(1) conn(2) assms(1) by (simp add: conn_ok_def net_okD)
  then obtain conn2 where conn2: "wire_client_receive_packets_done junk ?c =
      handle_packets_done ?data (?c\<lparr> wc_conn := conn2, wc_warnings := wc_warnings c @ ps \<rparr>)" "conn_ok conn2 [] []"
    using receive_packets_done_ok [of ?c ps ?data "[]" "[]" junk] ok(5)
    by (auto simp: done_data_def MAX_MESSAGE_BYTES_def)
  have received: "wire_client_receive_packets_done junk ?c =
      Some (Inr (c\<lparr> wc_conn := conn2, wc_warnings := wc_warnings c @ ps \<rparr>))"
    using conn2(1) ok(4) by (simp add: handle_done)
  have "conn_ok (conn\<lparr> written := [] \<rparr>) [] []"
    using conn(2) by (simp add: conn_ok_def)
  then show ?thesis
    using True ok conn received conn2(2) assms(3)
    by (auto simp: wire_client_next_event_def wire_server_next_event_def in_step_def to_client_def was_packet_def
        split: option.splits)
qed

lemma receive_packet_error:
  assumes "list_all text_ok ps" and "text_ok error"
    and "conn_ok (wc_conn c) (concat (map (frame WIRE_PACKETS_WARN) ps) @
      frame WIRE_PACKETS_DONE (done_data (- 1) n error)) []"
  shows "wire_client_receive_packets_done junk c = Some (Inl (Packet_error error))"
proof -
  have "0 \<notin> set error" "length (done_data (- 1) n error) \<le> MAX_MESSAGE_BYTES"
    using assms(2) by (simp_all add: text_ok_def)
  then show ?thesis
    using receive_packets_done_ok [of c ps "done_data (- 1) n error" "[]" "[]" junk] assms(1,3)
    by (auto simp: handle_done)
qed

lemma client_rest_fails:
  assumes "was_packet (wc_last_event c)" and "list_all text_ok ps" and "text_ok error"
    and "conn_ok (wc_conn c) (concat (map (frame WIRE_PACKETS_WARN) ps) @
      frame WIRE_PACKETS_DONE (done_data (- 1) n error)) []"
  shows "client_rest junk es c = Some (Inl (Packet_error error))"
  using assms
proof (induction es arbitrary: c)
  case Nil
  then show ?case
    using receive_packet_error [of ps error c n junk]
    by (auto simp: wire_client_next_event_def was_packet_def split: option.splits)
next
  case (Cons e es)
  then show ?case
    using Cons.IH [of "c\<lparr> wc_last_event := Some e, wc_num_events := wc_num_events c + 1 \<rparr>"]
      receive_packet_error [of ps error c n junk]
    by (cases "is_packet_event e") (auto simp: wire_client_next_event_def was_packet_def split: option.splits)
qed

lemma wire_run_script_reports:
  assumes "net_ok net" and "in_step c s ps" and "list_all (\<lambda>(e, outcome). text_ok (outcome_text outcome)) script"
  shows "case script_failure script of
      Some error \<Rightarrow> wire_run_script junk net script c s = Some (Inl (Packet_error error))
    | None \<Rightarrow> \<exists>c' s'. wire_run_script junk net script c s = Some (Inr (c', s')) \<and>
        wc_warnings c' = wc_warnings c @ ps @ script_warnings script \<and>
        wc_num_events c' = wc_num_events c + of_nat (length script) \<and> ws_num_events s' = wc_num_events c'"
  using assms(2,3)
proof (induction script arbitrary: c s ps)
  case Nil
  obtain s1 c1 s2 c2 where "wire_server_next_event junk None s = Some (Inr s1)" "to_client net c s1 = (c1, s2)"
      "wire_client_next_event junk None c1 = Some (Inr c2)" "in_step c2 s2 []" "wc_warnings c2 = wc_warnings c @ ps"
      "wc_num_events c2 = wc_num_events c"
    using other_event_ok [OF assms(1) Nil.prems(1), of None junk] by (auto simp: was_packet_def)
  then show ?case
    by (simp add: in_step_def)
next
  case (Cons step script)
  obtain e outcome where step: "step = (e, outcome)"
    by (cases step)
  have texts: "text_ok (outcome_text outcome)" "list_all (\<lambda>(e, outcome). text_ok (outcome_text outcome)) script"
    using Cons.prems(2) by (simp_all add: step)
  show ?case
  proof (cases "is_packet_event e")
    case False
    obtain s1 c1 s2 c2 where run: "wire_server_next_event junk (Some e) s = Some (Inr s1)" "to_client net c s1 = (c1, s2)"
        "wire_client_next_event junk (Some e) c1 = Some (Inr c2)" "in_step c2 s2 []" "wc_warnings c2 = wc_warnings c @ ps"
        "wc_num_events c2 = wc_num_events c + 1"
      using other_event_ok [OF assms(1) Cons.prems(1), of "Some e" junk] False by (auto simp: was_packet_def)
    have "wire_run_script junk net (step # script) c s = wire_run_script junk net script c2 s2"
      using run(1-3) False by (simp add: step)
    moreover have "script_failure (step # script) = script_failure script"
        "script_warnings (step # script) = script_warnings script"
      using False by (simp_all add: step split: packet_outcome.splits)
    ultimately show ?thesis
      using Cons.IH [OF run(4) texts(2)] run(5,6) by (auto simp: algebra_simps split: option.splits)
  next
    case True
    obtain c1 c2 s1 s2 where run: "wire_client_next_event junk (Some e) c = Some (Inr c1)" "to_server net c1 s = (c2, s1)"
        "wire_server_next_event junk (Some e) s1 = Some (Inr s2)" "in_step c2 s2 ps" "wc_last_event c2 = Some e"
        "wc_warnings c2 = wc_warnings c" "wc_num_events c2 = wc_num_events c + 1"
      using packet_event_start [OF assms(1) Cons.prems(1) True] by blast
    note outcome = packet_outcome_ok [OF assms(1) run(4,5) True texts(1)]
    show ?thesis
    proof (cases "\<exists>error. outcome = Packet_fails error")
      case True
      then obtain error where error: "outcome = Packet_fails error"
        by blast
      obtain s3 c3 s4 n where stop: "wire_server_run_packet_event outcome s2 = Inr (s3, False)"
          "to_client net c2 s3 = (c3, s4)" "list_all text_ok ps" "wc_last_event c3 = Some e"
          "conn_ok (wc_conn c3) (concat (map (frame WIRE_PACKETS_WARN) ps) @
            frame WIRE_PACKETS_DONE (done_data (- 1) n error)) []"
        using outcome run(5) by (auto simp: error)
      have "client_rest junk (map fst script) c3 = Some (Inl (Packet_error error))"
        using client_rest_fails [of c3 ps error n junk] stop(3-5) texts(1) \<open>is_packet_event e\<close>
        by (simp add: error was_packet_def)
      then show ?thesis
        using run(1-3) stop(1,2) \<open>is_packet_event e\<close> by (simp add: step error)
    next
      case False
      then obtain s3 c3 s4 where go: "wire_server_run_packet_event outcome s2 = Inr (s3, True)"
          "to_client net c2 s3 = (c3, s4)" "in_step c3 s4 (ps @ script_warnings [(e, outcome)])"
          "wc_warnings c3 = wc_warnings c2" "wc_num_events c3 = wc_num_events c2"
        using outcome by (cases outcome) auto
      have "wire_run_script junk net (step # script) c s = wire_run_script junk net script c3 s4"
        using run(1-3) go(1,2) \<open>is_packet_event e\<close> by (simp add: step)
      moreover have "script_failure (step # script) = script_failure script"
          "script_warnings (step # script) = script_warnings [(e, outcome)] @ script_warnings script"
        using False by (auto simp: step split: packet_outcome.splits)
      ultimately show ?thesis
        using Cons.IH [OF go(3) texts(2)] run(6,7) go(4,5) by (auto simp: algebra_simps split: option.splits)
    qed
  qed
qed

section \<open>Properties\<close>

text \<open>C34: messages over the connection. Whatever number of bytes each write takes and however the stream of bytes is
  divided into reads, the messages that were written are read with their types and their contents.\<close>

theorem wire_messages_roundtrip:
  assumes "list_all (\<lambda>(op, data). length data \<le> MAX_MESSAGE_BYTES) ms"
    and "Write_error \<notin> set (to_write sender)" and "written sender = []"
  shows "\<exists>sender'. write_messages ms sender = Inr sender' \<and>
    (\<forall>receiver. reliable (to_read receiver) \<and> delivered (to_read receiver) = written sender' \<longrightarrow>
      (\<exists>receiver'. read_messages junk (length ms) receiver = Some (Inr (map (apfst wire_op_code) ms, receiver'))))"
proof -
  obtain ws where "write_messages ms sender =
      Inr (sender\<lparr> to_write := ws, written := concat (map (\<lambda>(op, data). frame op data) ms) \<rparr>)"
    using write_messages_ok [OF assms(2)] assms(3) by auto
  then show ?thesis
    using read_messages_ok [OF _ _ assms(1)] by auto
qed

definition example_conn :: "read_result list \<Rightarrow> wire_conn" where
  "example_conn rs = \<lparr> to_read = rs, to_write = [Wrote 3, Write_retry, Wrote 0], written = [], in_buf = [] \<rparr>"

theorem wire_messages_roundtrip_witness:
  "\<exists>sender'. write_messages [(WIRE_SCRIPT_PATH, [47, 97]), (WIRE_SERVER_READY, [])] (example_conn []) = Inr sender' \<and>
    (\<exists>receiver'. read_messages (\<lambda>_. 0) 2
        (example_conn [Read_data (take 5 (written sender')), Read_retry, Read_data (drop 5 (written sender'))]) =
      Some (Inr ([(2, [47, 97]), (5, [])], receiver')))"
proof -
  let ?ms = "[(WIRE_SCRIPT_PATH, [47, 97 :: u8]), (WIRE_SERVER_READY, [])]"
  obtain sender' where sender': "write_messages ?ms (example_conn []) = Inr sender'"
      "\<And>receiver. reliable (to_read receiver) \<and> delivered (to_read receiver) = written sender' \<Longrightarrow>
        \<exists>receiver'. read_messages (\<lambda>_. 0) (length ?ms) receiver = Some (Inr (map (apfst wire_op_code) ?ms, receiver'))"
    using wire_messages_roundtrip [of ?ms "example_conn []" "\<lambda>_. 0"] by (auto simp: MAX_MESSAGE_BYTES_def example_conn_def)
  have "length (written sender') = 18"
    using write_messages_ok [of "example_conn []" ?ms] sender'(1) by (auto simp: example_conn_def frame_def)
  then have "reliable [Read_data (take 5 (written sender')), Read_retry, Read_data (drop 5 (written sender'))]"
    by (auto simp: take_eq_Nil)
  then show ?thesis
    using sender'(1) sender'(2) [of "example_conn [Read_data (take 5 (written sender')), Read_retry,
        Read_data (drop 5 (written sender'))]"]
    by (auto simp: example_conn_def wire_op_code_def numeral_2_eq_2)
qed

text \<open>C35: the arguments of the client. On a new connection the server gets the arguments of the client without those
  that make it a client, followed by the one that makes it a server, but only if the fresh memory behind the message
  happens to hold a null byte: the loop over the arguments runs once too often and copies a string that starts
  behind the message.\<close>

theorem wire_arguments_transfer:
  assumes "net_ok net" and "list_all (\<lambda>arg. 0 \<notin> set arg) args"
    and "length (wire_client_serialize_argv args) \<le> MAX_MESSAGE_BYTES"
    and "conn_ok (wc_conn c) [] []" and "conn_ok (ws_conn s) [] []" and "in_buf (ws_conn s) = []"
  shows "\<exists>c'. wire_client_send_args args c = Inr c' \<and>
    (let n = length (wire_client_serialize_argv args);
         received = wire_server_receive_args junk (snd (to_server net c' s))
     in if 0 \<in> junk ` {n..<2 * n}
        then \<exists>s'. received = Some (Inr s') \<and>
          ws_argv s' = filter (\<lambda>arg. \<not> strstr arg (ascii ''-wire_client'')) args @ [ascii ''--wire_server'']
        else received = None)"
proof -
  let ?args = "filter (\<lambda>arg. \<not> strstr arg (ascii ''-wire_client'')) args"
  let ?data = "wire_client_serialize_argv args"
  obtain conn where conn: "wire_client_send_args args c = Inr (c\<lparr> wc_conn := conn \<rparr>)"
      "conn_ok conn [] (frame WIRE_COMMAND_LINE_ARGS ?data)"
    using client_write_ok [OF assms(4), of WIRE_COMMAND_LINE_ARGS ?data] by (auto simp: wire_client_send_args_def)
  let ?s = "snd (to_server net (c\<lparr> wc_conn := conn \<rparr>) s)"
  have "reliable (to_read (ws_conn ?s))" "delivered (to_read (ws_conn ?s)) = frame WIRE_COMMAND_LINE_ARGS ?data @ []"
      "in_buf (ws_conn ?s) = []"
    using conn(2) assms(1,5,6) by (simp_all add: to_server_def conn_ok_def net_okD)
  then obtain conn2 where conn2: "wire_conn_read junk (ws_conn ?s) =
      Some (Inr (wire_op_code WIRE_COMMAND_LINE_ARGS, length ?data, conn2))"
      "in_buf conn2 = ?data @ map junk [length ?data..<2 * length ?data]"
    using wire_conn_read_frame [of "ws_conn ?s" WIRE_COMMAND_LINE_ARGS ?data "[]" junk] assms(3)
    by (auto simp: drop_map)
  have "list_all (\<lambda>arg. 0 \<notin> set arg) ?args"
    using assms(2) by (auto simp: list_all_iff)
  then have "wire_server_unserialize_argv (in_buf conn2) (length ?data) =
      (if 0 \<in> junk ` {length ?data..<2 * length ?data} then Some (?args @ [ascii ''--wire_server'']) else None)"
    using unserialize_args [of ?args ?data "map junk [length ?data..<2 * length ?data]"] conn2(2)
    by (simp add: wire_client_serialize_argv_def)
  then show ?thesis
    using conn(1) conn2(1) by (auto simp: wire_server_receive_args_def server_receive_def Let_def)
qed

definition example_net :: "bytes \<Rightarrow> read_result list" where
  "example_net bs = map (\<lambda>b. Read_data [b]) bs"

lemma example_net_ok: "net_ok example_net"
proof -
  have "delivered (map (\<lambda>b. Read_data [b]) bs) = bs" for bs
    by (induction bs) auto
  then show ?thesis
    by (auto simp: net_ok_def example_net_def reliable_def)
qed

definition example_client :: wire_client where
  "example_client = \<lparr> wc_conn = example_conn [], client_ether_addr = [2, 0, 0, 0, 0, 1], wc_last_event = None,
     wc_num_events = 0, wc_warnings = [] \<rparr>"

definition example_server :: wire_server where
  "example_server = \<lparr> ws_conn = example_conn [], ws_argv = [], ws_script_path = [], ws_script_buffer = [],
     ws_client_ether_addr = [], ws_last_event = None, ws_num_events = 0 \<rparr>"

lemma example_conns_ok: "conn_ok (wc_conn example_client) [] []" "conn_ok (ws_conn example_server) [] []"
  by (simp_all add: example_client_def example_server_def example_conn_def conn_ok_def)

theorem wire_arguments_transfer_witness:
  "\<exists>c'. wire_client_send_args [[112], [45, 118]] example_client = Inr c' \<and>
    wire_server_receive_args (\<lambda>_. 1) (snd (to_server example_net c' example_server)) = None"
proof -
  let ?args = "[[112], [45, 118 :: u8]]"
  have args: "filter (\<lambda>arg. \<not> strstr arg (ascii ''-wire_client'')) ?args = ?args"
    by (simp add: ascii_def)
  have "list_all (\<lambda>arg. 0 \<notin> set arg) ?args" "length (wire_client_serialize_argv ?args) \<le> MAX_MESSAGE_BYTES"
    by (simp_all add: MAX_MESSAGE_BYTES_def wire_client_serialize_argv_def args del: filter.simps)
  then show ?thesis
    using wire_arguments_transfer [OF example_net_ok, of ?args example_client example_server "\<lambda>_. 1"] example_conns_ok
    by (simp add: example_server_def example_conn_def Let_def image_constant_conv split: if_splits)
qed

text \<open>C8: remote runs. Client and server, started in step, run a script to its end and count the same events if no packet
  fails, and the client has then shown every warning of the server in order. If a packet fails, the client ends with
  the message of the first failure. Neither side ever waits for a message that does not come or receives one that it
  does not expect.\<close>

theorem remote_run_reports:
  assumes "net_ok net" and "conn_ok (wc_conn c) [] []" and "conn_ok (ws_conn s) [] []"
    and "wc_last_event c = ws_last_event s" and "wc_num_events c = ws_num_events s"
    and "list_all (\<lambda>(e, outcome). text_ok (outcome_text outcome)) script"
  shows "case script_failure script of
      Some error \<Rightarrow> wire_run_script junk net script c s = Some (Inl (Packet_error error))
    | None \<Rightarrow> \<exists>c' s'. wire_run_script junk net script c s = Some (Inr (c', s')) \<and>
        wc_warnings c' = wc_warnings c @ script_warnings script \<and>
        wc_num_events c' = wc_num_events c + of_nat (length script) \<and> ws_num_events s' = wc_num_events c'"
  using wire_run_script_reports [OF assms(1) _ assms(6), of c s "[]" junk] assms(2-5)
  by (auto simp: in_step_def split: option.splits)

theorem remote_run_reports_witness:
  "\<exists>c' s'. wire_run_script (\<lambda>_. 0) example_net [(PACKET_EVENT (packet_new (\<lambda>_. 0) 0), Packet_warns [119]), (COMMAND_EVENT [], Packet_ok)]
      example_client example_server = Some (Inr (c', s')) \<and> wc_warnings c' = [[119]] \<and> wc_num_events c' = 2"
proof -
  let ?script = "[(PACKET_EVENT (packet_new (\<lambda>_. 0) 0), Packet_warns [119]), (COMMAND_EVENT [], Packet_ok)]"
  have "list_all (\<lambda>(e, outcome). text_ok (outcome_text outcome)) ?script"
    by (simp add: text_ok_def MAX_MESSAGE_BYTES_def)
  from remote_run_reports [OF example_net_ok example_conns_ok _ _ this, of "\<lambda>_. 0"] show ?thesis
    by (auto simp: example_client_def example_server_def is_packet_event_def simp del: wire_run_script.simps)
qed

end
