(* ===== verification/Spec2Isabelle.thy ===== *)
theory Spec2Isabelle
  imports Encapsulation Tcp_Roundtrip Icmp_Roundtrip Map_Roundtrip Passive_Open Cleanup Script_Evaluation
    Sctp_Checks Syscall_Handlers Syscall_Thread Wire_Session
begin

text \<open>
  A verification development for packetdrill, the tool that tests network stacks with scripts of packets and
  system calls. All sources are in \<^verbatim>\<open>src/gtests/net/packetdrill\<close>.

  \<^bold>\<open>The program.\<close> A script is parsed into a list of events. The run loop (\<^verbatim>\<open>run.c\<close>) waits for the time of
  each event and runs it: a system call, a shell command, or a packet event (\<^verbatim>\<open>run_packet.c\<close>). The packets of
  a script were built by the packet constructors. An inbound packet is mapped from the addresses, ports, sequence
  numbers, timestamps and tags of the script to those of the live connection, given its checksums and injected.
  For an outbound packet the program sniffs a packet of the kernel, parses it, maps it the other way round and
  compares it with the packet of the script. The sockets of the run remember the numbers of both sides. A blocking
  system call runs in a thread of its own. In a remote test the packets are handled by a second instance of the
  program, the server, which the client tells when to start and which reports the results.

  \<^bold>\<open>Representation.\<close> Machine integers are words of their width, so that they wrap around as in C; pointers into a
  packet are offsets into its buffer, a list of bytes. A read or write out of bounds, a failed assertion and the
  end of the program by \<^verbatim>\<open>die\<close> are the value \<^const>\<open>None\<close>; a function that returns an error message is of type
  \<^verbatim>\<open>status\<close>, a sum whose left part is the error. The content of fresh memory is an argument \<open>junk\<close>. The clock,
  the network device, the operating system's choice of ports and library functions on addresses are parameters of
  the definitions or part of the state: a clock is a function of the number of times it was read, a network device
  is a list of packets to be received and a list of packets that were sent.

  \<^bold>\<open>Theories and sources.\<close>

  \<^item> \<^verbatim>\<open>Pd_Prelude\<close>: words and bytes, checked reads and writes, byte order (\<^verbatim>\<open>types.h\<close>, \<^verbatim>\<open>unaligned.h\<close>), the
    collections of simplification rules. \<^verbatim>\<open>C_Numbers\<close>: \<^verbatim>\<open>strtol\<close> and the range checks.
  \<^item> \<^verbatim>\<open>Checksum\<close> (\<^verbatim>\<open>checksum.c\<close>), \<^verbatim>\<open>Packet_Checksum\<close> (\<^verbatim>\<open>packet_checksum.c\<close>): the Internet checksum agrees with
    RFC 1071, the table-driven CRC32C with the bit-serial one, and checksums filled in verify at a receiver.
  \<^item> \<^verbatim>\<open>Hash\<close> (\<^verbatim>\<open>hash.c\<close>), \<^verbatim>\<open>Hash_Map\<close> (\<^verbatim>\<open>hash_map.c\<close>): the table refines a partial function, stated in the
    locale \<open>u32_map\<close> that the table is an instance of, and keeps its invariant when it grows.
  \<^item> \<^verbatim>\<open>Packet\<close>, \<^verbatim>\<open>Encapsulation\<close> (\<^verbatim>\<open>packet.h\<close>, \<^verbatim>\<open>packet.c\<close>, the structures of the protocol headers):
    accessors, copies and encapsulation.
  \<^item> \<^verbatim>\<open>Ip_Packet\<close> (\<^verbatim>\<open>ip_packet.c\<close>, \<^verbatim>\<open>gre_packet.c\<close>, \<^verbatim>\<open>mpls_packet.c\<close>), \<^verbatim>\<open>Tcp_Options\<close> (\<^verbatim>\<open>tcp_options*.c\<close>),
    \<^verbatim>\<open>Transport\<close> (\<^verbatim>\<open>tcp_packet.c\<close>, \<^verbatim>\<open>udp_packet.c\<close>, \<^verbatim>\<open>udplite_packet.c\<close>), \<^verbatim>\<open>Icmp_Packet\<close> (\<^verbatim>\<open>icmp_packet.c\<close>),
    \<^verbatim>\<open>Sctp_Parameters\<close>, \<^verbatim>\<open>Sctp_Chunks\<close>, \<^verbatim>\<open>Sctp_Packet\<close> (\<^verbatim>\<open>sctp_packet.c\<close>): the packet constructors, on every branch.
  \<^item> \<^verbatim>\<open>Packet_Parser\<close> (\<^verbatim>\<open>packet_parser.c\<close>): the parser is memory safe, and what it accepts is well-formed.
    \<^verbatim>\<open>Ip_Roundtrip\<close>, \<^verbatim>\<open>Tcp_Roundtrip\<close>, \<^verbatim>\<open>Icmp_Roundtrip\<close>: constructed packets are parsed back.
  \<^item> \<^verbatim>\<open>Sctp_Iterator\<close> (\<^verbatim>\<open>sctp_iterator.c\<close>), \<^verbatim>\<open>Sctp_Wire\<close>, \<^verbatim>\<open>Sctp_Flags\<close> (\<^verbatim>\<open>sctp.h\<close>, \<^verbatim>\<open>sctp_packet.h\<close>): the iterators
    visit the records of a reference splitting of the bytes, and the chunks of a constructed packet.
  \<^item> \<^verbatim>\<open>Ip_Address\<close> (\<^verbatim>\<open>ip_address.c\<close>, \<^verbatim>\<open>ip_prefix.c\<close>), \<^verbatim>\<open>Config\<close> (\<^verbatim>\<open>config.c\<close>): round trips of addresses
    and prefixes, ranges and derived addresses of a configuration.
  \<^item> \<^verbatim>\<open>Sockets\<close> (\<^verbatim>\<open>socket.h\<close>), \<^verbatim>\<open>Map_Packets\<close>, \<^verbatim>\<open>Map_Roundtrip\<close> (the mapping functions of \<^verbatim>\<open>run_packet.c\<close>): the
    maps between script and live values are inverse to each other.
  \<^item> \<^verbatim>\<open>Verify_Sctp\<close>, \<^verbatim>\<open>Verify_Packets\<close> (the functions \<^verbatim>\<open>verify_*\<close> of \<^verbatim>\<open>run_packet.c\<close>): a packet that passes
    agrees with the script.
  \<^item> \<^verbatim>\<open>Run_State\<close> (\<^verbatim>\<open>run.c\<close>, the events of \<^verbatim>\<open>script.h\<close>): times, waiting and the loop over the events.
  \<^item> \<^verbatim>\<open>Run_Packet\<close> (the rest of \<^verbatim>\<open>run_packet.c\<close>): finding and creating sockets, sniffing, injecting.
    \<^verbatim>\<open>Connection_States\<close>: the socket states as a step relation with one rule for each assignment in the code, and
    the invariant of a run. \<^verbatim>\<open>Passive_Open\<close>: what the child of a listening socket does not learn.
    \<^verbatim>\<open>Cleanup\<close>: closing the sockets and resetting the connections at the end of a run.
  \<^item> \<^verbatim>\<open>Script\<close>, \<^verbatim>\<open>Script_Evaluation\<close> (\<^verbatim>\<open>script.c\<close>, the expressions of \<^verbatim>\<open>script.h\<close>): the expressions that are the
    arguments of system calls, with one function for each structure. A structure is the list of its members in the
    order of its declaration. Evaluation agrees with a specification that collects the errors of an expression
    from left to right; its results hold no symbols; escaped strings are read back.
  \<^item> \<^verbatim>\<open>Syscall_Args\<close>, \<^verbatim>\<open>Sctp_Checks\<close> (the conversions and the functions \<^verbatim>\<open>check_*\<close> of \<^verbatim>\<open>run_system_call.c\<close>): which
    integers, addresses, arrays and structures are accepted as arguments and as results.
  \<^item> \<^verbatim>\<open>Socket_Calls\<close>, \<^verbatim>\<open>Fd_Table\<close> (the functions \<^verbatim>\<open>run_syscall_*\<close>): the sockets as a table of descriptors, stated in the
    locale \<open>descriptor_table\<close> that the sockets of a run are an instance of, and its invariant over all sequences of
    socket calls.
  \<^item> \<^verbatim>\<open>Syscall_Handlers\<close> (the functions \<^verbatim>\<open>syscall_*\<close>, their results and their dispatch): handlers as computations that make
    live calls, which the kernel, an argument, answers. Which error paths close the descriptors they have opened.
    \<^verbatim>\<open>Syscall_Thread\<close>: the thread that runs blocking system calls and the main thread as interleaved actions on the
    lock and the condition variables; no assertion fails, no signal is lost, and a hang after a cancellation.
  \<^item> \<^verbatim>\<open>Wire_Protocol\<close>, \<^verbatim>\<open>Wire_Session\<close> (\<^verbatim>\<open>wire_conn.c\<close>, \<^verbatim>\<open>wire_client.c\<close>, \<^verbatim>\<open>wire_server.c\<close>): messages between the client and
    the server of a remote test over a stream of bytes; both together report what the packets of a script give.

  \<^bold>\<open>Loops.\<close> Loops over memory and lists are total functions with a measure (the distance to the end of the area).
  The loops that wait for the clock and sniff packets depend on the outside world: they are partial functions in
  the option type, and theorems about their return have the progress of the clock as a hypothesis. No fuel is used.

  \<^bold>\<open>Not modelled.\<close> The handlers of \<^verbatim>\<open>recvmsg\<close>, \<^verbatim>\<open>sendmsg\<close>, the socket options and the SCTP calls for messages and
  associations, the lexer and parser (generated from \<^verbatim>\<open>lexer.l\<close> and \<^verbatim>\<open>parser.y\<close>), the tables of symbols of the platforms
  (\<^verbatim>\<open>symbols_*.c\<close>), the printers for packets and chunks (\<^verbatim>\<open>packet_to_string.c\<close>, \<^verbatim>\<open>sctp_chunk_to_string.c\<close>), the
  generation of post-processing code (\<^verbatim>\<open>code.c\<close>), the set-up of connections and devices for remote tests, and
  the access to devices, processes and files (\<^verbatim>\<open>netdev.c\<close>, \<^verbatim>\<open>packet_socket_*.c\<close>, \<^verbatim>\<open>link_layer.c\<close>, \<^verbatim>\<open>net_utils.c\<close>,
  \<^verbatim>\<open>run_command.c\<close>, \<^verbatim>\<open>system.c\<close>), which is input and output. Functions that only release memory are left out:
  values are never freed in the model.
\<close>

end
